(* ===== verification/Adv_Prelude.thy ===== *)
theory Adv_Prelude
  imports Complex_Main "HOL-Library.Sublist" "HOL-Library.Monad_Syntax"
begin

text \<open>
  The prelude of the development: the named collections the component theories extend, the
  exceptions of the Python code as values, the result type of a call that may raise, the
  state-and-exception computations that model methods with side effects, and the generic lemmas
  about lists and association lists the components share.
\<close>

named_theorems py_simps \<open>unfolding the combinators that model Python control flow\<close>
named_theorems dict_simps \<open>reading and writing association-list dictionaries\<close>

section \<open>Exceptions and results\<close>

text \<open>
  The exceptions the modelled code raises or catches.  A \<open>KeyError\<close> carries the key, an
  \<open>AuthenticationFailed\<close> the message of the HTTP answer; \<open>Exn\<close> is a plain
  \<open>Exception\<close>.  \<open>DbError\<close> stands for \<open>OperationalError\<close> and
  \<open>InterfaceError\<close>, which the code always catches together.
\<close>

datatype pyexn =
    KeyError string
  | TypeError
  | ValueError
  | IndexError
  | AttributeError
  | AssertionError
  | NotImplementedError
  | AuthenticationFailed string
  | ValidationError
  | Http404
  | DbError
  | IntegrityError
  | DoesNotExist
  | KafkaError
  | RuntimeError
  | Exn string

type_synonym 'a py = "pyexn + 'a"

definition py_bind :: "'a py \<Rightarrow> ('a \<Rightarrow> 'b py) \<Rightarrow> 'b py" where
  "py_bind m f = (case m of Inl e \<Rightarrow> Inl e | Inr x \<Rightarrow> f x)"

lemma py_bind_Inr [simp]: "py_bind (Inr x) f = f x"
  by (simp add: py_bind_def)

lemma py_bind_Inl [simp]: "py_bind (Inl e) f = Inl e"
  by (simp add: py_bind_def)

lemma py_bind_eq_Inr:
  "py_bind m f = Inr y \<longleftrightarrow> (\<exists>x. m = Inr x \<and> f x = Inr y)"
  by (cases m) auto

lemma py_bind_eq_Inl:
  "py_bind m f = Inl e \<longleftrightarrow> m = Inl e \<or> (\<exists>x. m = Inr x \<and> f x = Inl e)"
  by (cases m) auto

lemma py_bind_assoc: "py_bind (py_bind m f) g = py_bind m (\<lambda>x. py_bind (f x) g)"
  by (cases m) auto

lemma py_bind_cong [fundef_cong]:
  "m = m' \<Longrightarrow> (\<And>x. m' = Inr x \<Longrightarrow> f x = f' x) \<Longrightarrow> py_bind m f = py_bind m' f'"
  by (cases m') auto

lemmas py_bind_eqs = py_bind_eq_Inr py_bind_eq_Inl

text \<open>A loop whose body may raise: the first exception stops it.\<close>

fun py_mapM :: "('a \<Rightarrow> 'b py) \<Rightarrow> 'a list \<Rightarrow> 'b list py" where
  "py_mapM f [] = Inr []"
| "py_mapM f (x # xs) = py_bind (f x) (\<lambda>y. py_bind (py_mapM f xs) (\<lambda>ys. Inr (y # ys)))"

lemma py_mapM_Inr_map: "(\<And>x. x \<in> set xs \<Longrightarrow> f x = Inr (g x)) \<Longrightarrow> py_mapM f xs = Inr (map g xs)"
  by (induction xs) auto

lemma py_mapM_length: "py_mapM f xs = Inr ys \<Longrightarrow> length ys = length xs"
  by (induction xs arbitrary: ys) (auto simp: py_bind_eqs)

section \<open>Computations with state\<close>

text \<open>
  A method that reads and writes a state and may raise: an exception keeps the writes made before
  it, as in Python.
\<close>

type_synonym ('s, 'a) act = "'s \<Rightarrow> 'a py \<times> 's"

definition a_ret :: "'a \<Rightarrow> ('s, 'a) act" where
  "a_ret x = (\<lambda>s. (Inr x, s))"

definition a_raise :: "pyexn \<Rightarrow> ('s, 'a) act" where
  "a_raise e = (\<lambda>s. (Inl e, s))"

definition a_lift :: "'a py \<Rightarrow> ('s, 'a) act" where
  "a_lift m = (\<lambda>s. (m, s))"

definition a_bind :: "('s, 'a) act \<Rightarrow> ('a \<Rightarrow> ('s, 'b) act) \<Rightarrow> ('s, 'b) act" where
  "a_bind m f = (\<lambda>s. case m s of (Inl e, t) \<Rightarrow> (Inl e, t) | (Inr x, t) \<Rightarrow> f x t)"

definition a_then :: "('s, 'a) act \<Rightarrow> ('s, 'b) act \<Rightarrow> ('s, 'b) act" where
  "a_then m k = a_bind m (\<lambda>_. k)"

definition a_get :: "('s \<Rightarrow> 'a) \<Rightarrow> ('s, 'a) act" where
  "a_get f = (\<lambda>s. (Inr (f s), s))"

definition a_upd :: "('s \<Rightarrow> 's) \<Rightarrow> ('s, unit) act" where
  "a_upd f = (\<lambda>s. (Inr (), f s))"

text \<open>\<open>try: m except Exception as e: h e\<close>\<close>

definition a_catch :: "('s, 'a) act \<Rightarrow> (pyexn \<Rightarrow> ('s, 'a) act) \<Rightarrow> ('s, 'a) act" where
  "a_catch m h = (\<lambda>s. case m s of (Inl e, t) \<Rightarrow> h e t | (Inr x, t) \<Rightarrow> (Inr x, t))"

lemmas act_defs = a_ret_def a_raise_def a_lift_def a_bind_def a_then_def a_get_def a_upd_def
  a_catch_def

lemma a_ret_app [simp, py_simps]: "a_ret x s = (Inr x, s)"
  by (simp add: a_ret_def)

lemma a_raise_app [simp, py_simps]: "a_raise e s = (Inl e, s)"
  by (simp add: a_raise_def)

lemma a_lift_app [simp, py_simps]: "a_lift m s = (m, s)"
  by (simp add: a_lift_def)

lemma a_get_app [simp, py_simps]: "a_get f s = (Inr (f s), s)"
  by (simp add: a_get_def)

lemma a_upd_app [simp, py_simps]: "a_upd f s = (Inr (), f s)"
  by (simp add: a_upd_def)

lemma a_bind_app [py_simps]:
  "a_bind m f s = (case m s of (Inl e, t) \<Rightarrow> (Inl e, t) | (Inr x, t) \<Rightarrow> f x t)"
  by (simp add: a_bind_def)

lemma a_then_app [py_simps]:
  "a_then m k s = (case m s of (Inl e, t) \<Rightarrow> (Inl e, t) | (Inr x, t) \<Rightarrow> k t)"
  by (simp add: a_then_def a_bind_def)

lemma a_catch_app [py_simps]:
  "a_catch m h s = (case m s of (Inl e, t) \<Rightarrow> h e t | (Inr x, t) \<Rightarrow> (Inr x, t))"
  by (simp add: a_catch_def)

text \<open>Inversion of a computation that returned or raised.\<close>

lemma a_bind_Inr:
  "a_bind m f s = (Inr y, t) \<longleftrightarrow> (\<exists>x u. m s = (Inr x, u) \<and> f x u = (Inr y, t))"
  by (auto simp: a_bind_def split: prod.splits sum.splits)

lemma a_then_Inr:
  "a_then m k s = (Inr y, t) \<longleftrightarrow> (\<exists>x u. m s = (Inr x, u) \<and> k u = (Inr y, t))"
  by (simp add: a_then_def a_bind_Inr)

lemma a_lift_Inr: "a_lift m s = (Inr x, t) \<longleftrightarrow> m = Inr x \<and> t = s"
  by auto

lemmas act_inv = a_bind_Inr a_then_Inr a_lift_Inr

lemma a_bind_lift_Inr [simp]: "a_bind (a_lift (Inr x)) f = f x"
  by (rule ext) (simp add: a_bind_app)

lemma a_bind_lift_Inl [simp]: "a_bind (a_lift (Inl e)) f = a_raise e"
  by (rule ext) (simp add: a_bind_app)

lemma a_bind_assoc: "a_bind (a_bind m f) g = a_bind m (\<lambda>x. a_bind (f x) g)"
  by (rule ext) (auto simp: a_bind_def split: prod.splits sum.splits)

text \<open>A loop over a list, body first to last.\<close>

fun a_for :: "('a \<Rightarrow> ('s, unit) act) \<Rightarrow> 'a list \<Rightarrow> ('s, unit) act" where
  "a_for f [] = a_ret ()"
| "a_for f (x # xs) = a_then (f x) (a_for f xs)"

text \<open>
  An invariant of a computation: it holds after the call, whether the call returned or raised.
\<close>

definition keeps :: "('s \<Rightarrow> bool) \<Rightarrow> ('s, 'a) act \<Rightarrow> bool" where
  "keeps P m \<longleftrightarrow> (\<forall>s. P s \<longrightarrow> P (snd (m s)))"

lemma keepsI: "(\<And>s. P s \<Longrightarrow> P (snd (m s))) \<Longrightarrow> keeps P m"
  by (simp add: keeps_def)

lemma keepsD: "keeps P m \<Longrightarrow> P s \<Longrightarrow> P (snd (m s))"
  by (simp add: keeps_def)

lemma keeps_ret [intro, simp]: "keeps P (a_ret x)"
  by (simp add: keeps_def)

lemma keeps_raise [intro, simp]: "keeps P (a_raise e)"
  by (simp add: keeps_def)

lemma keeps_lift [intro, simp]: "keeps P (a_lift m)"
  by (simp add: keeps_def)

lemma keeps_get [intro, simp]: "keeps P (a_get f)"
  by (simp add: keeps_def)

lemma keeps_upd [intro]: "(\<And>s. P s \<Longrightarrow> P (f s)) \<Longrightarrow> keeps P (a_upd f)"
  by (simp add: keeps_def)

lemma keeps_bind [intro]:
  "keeps P m \<Longrightarrow> (\<And>x. keeps P (f x)) \<Longrightarrow> keeps P (a_bind m f)"
  by (fastforce simp: keeps_def a_bind_def split: prod.splits sum.splits)

lemma keeps_then [intro]: "keeps P m \<Longrightarrow> keeps P k \<Longrightarrow> keeps P (a_then m k)"
  unfolding a_then_def by (rule keeps_bind)

lemma keeps_catch [intro]:
  "keeps P m \<Longrightarrow> (\<And>e. keeps P (h e)) \<Longrightarrow> keeps P (a_catch m h)"
  by (fastforce simp: keeps_def a_catch_def split: prod.splits sum.splits)

lemma keeps_for [intro]: "(\<And>x. x \<in> set xs \<Longrightarrow> keeps P (f x)) \<Longrightarrow> keeps P (a_for f xs)"
  by (induction xs) auto

lemma keeps_if [intro]:
  "(b \<Longrightarrow> keeps P m) \<Longrightarrow> (\<not> b \<Longrightarrow> keeps P k) \<Longrightarrow> keeps P (if b then m else k)"
  by simp

lemma keeps_option: "keeps P m \<Longrightarrow> (\<And>y. keeps P (k y)) \<Longrightarrow> keeps P (case x of None \<Rightarrow> m | Some y \<Rightarrow> k y)"
  by (cases x) auto

lemma keeps_sum: "(\<And>e. keeps P (h e)) \<Longrightarrow> (\<And>y. keeps P (k y)) \<Longrightarrow> keeps P (case x of Inl e \<Rightarrow> h e | Inr y \<Rightarrow> k y)"
  by (cases x) auto

lemma keeps_prod: "(\<And>a b. keeps P (k a b)) \<Longrightarrow> keeps P (case x of (a, b) \<Rightarrow> k a b)"
  by (cases x) auto

lemma bind_after:
  assumes "P (snd (m s))" "\<And>x t. m s = (Inr x, t) \<Longrightarrow> P (snd (f x t))"
  shows "P (snd (a_bind m f s))"
  using assms by (cases "m s"; cases "fst (m s)") (auto simp: a_bind_app)

lemma then_after:
  "P (snd (m s)) \<Longrightarrow> (\<And>x t. m s = (Inr x, t) \<Longrightarrow> P (snd (k t))) \<Longrightarrow> P (snd (a_then m k s))"
  unfolding a_then_def by (rule bind_after)

section \<open>Dictionaries as association lists\<close>

text \<open>
  A Python \<open>dict\<close> keeps its insertion order: writing an existing key keeps its place, a new
  key goes to the end.
\<close>

fun dict_set :: "'k \<Rightarrow> 'v \<Rightarrow> ('k \<times> 'v) list \<Rightarrow> ('k \<times> 'v) list" where
  "dict_set k v [] = [(k, v)]"
| "dict_set k v ((k', w) # d) = (if k = k' then (k, v) # d else (k', w) # dict_set k v d)"

definition dict_del :: "'k \<Rightarrow> ('k \<times> 'v) list \<Rightarrow> ('k \<times> 'v) list" where
  "dict_del k d = filter (\<lambda>(k', _). k' \<noteq> k) d"

definition dict_has :: "('k \<times> 'v) list \<Rightarrow> 'k \<Rightarrow> bool" where
  "dict_has d k \<longleftrightarrow> map_of d k \<noteq> None"

lemma map_of_dict_set [simp, dict_simps]: "map_of (dict_set k v d) = (map_of d)(k \<mapsto> v)"
  by (induction d) (auto simp: fun_eq_iff)

lemma map_of_dict_del [simp, dict_simps]: "map_of (dict_del k d) = (map_of d)(k := None)"
  by (induction d) (auto simp: dict_del_def fun_eq_iff)

lemma keys_dict_set:
  "map fst (dict_set k v d) = (if k \<in> set (map fst d) then map fst d else map fst d @ [k])"
  by (induction d) (auto simp: image_iff, fastforce)

lemma fst_dict_set [simp, dict_simps]: "fst ` set (dict_set k v d) = insert k (fst ` set d)"
proof -
  have "set (map fst (dict_set k v d)) = insert k (set (map fst d))"
    by (auto simp: keys_dict_set simp del: set_map)
  then show ?thesis by simp
qed

lemma distinct_dict_set [simp, intro]:
  "distinct (map fst d) \<Longrightarrow> distinct (map fst (dict_set k v d))"
  by (simp add: keys_dict_set)

lemma dict_has_iff: "dict_has d k \<longleftrightarrow> k \<in> fst ` set d"
  by (simp add: dict_has_def map_of_eq_None_iff)

lemma dict_has_set [simp, dict_simps]: "dict_has (dict_set k v d) j \<longleftrightarrow> j = k \<or> dict_has d j"
  by (auto simp: dict_has_def)

lemma dict_has_Nil [simp]: "\<not> dict_has [] k"
  by (simp add: dict_has_def)

lemma dict_has_Cons [simp]: "dict_has ((k', v) # d) k \<longleftrightarrow> k = k' \<or> dict_has d k"
  by (auto simp: dict_has_def)

section \<open>Lists\<close>

lemma length_3_list: "length xs = 3 \<Longrightarrow> \<exists>a b c. xs = [a, b, c]"
  by (auto simp: numeral_3_eq_3 length_Suc_conv)

section \<open>Strings\<close>

text \<open>
  \<open>str.split(c)\<close> and \<open>c.join\<close> for a separator of one character, \<open>str.strip\<close>
  of one character, \<open>str.replace\<close> of one character and the lower case of ASCII letters.
\<close>

fun split_on :: "'a \<Rightarrow> 'a list \<Rightarrow> 'a list list" where
  "split_on c [] = [[]]"
| "split_on c (x # xs) =
     (if x = c then [] # split_on c xs
      else (case split_on c xs of [] \<Rightarrow> [[x]] | y # ys \<Rightarrow> (x # y) # ys))"

fun join_on :: "'a list \<Rightarrow> 'a list list \<Rightarrow> 'a list" where
  "join_on s [] = []"
| "join_on s [x] = x"
| "join_on s (x # y # ys) = x @ s @ join_on s (y # ys)"

lemma split_on_not_Nil [simp]: "split_on c s \<noteq> []"
  by (cases s) (auto split: list.split)

lemma length_split_on: "length (split_on c s) = Suc (count_list s c)"
proof (induction s)
  case Nil
  then show ?case by simp
next
  case (Cons x s)
  then show ?case by (cases "split_on c s") auto
qed

lemma join_split_on: "join_on [c] (split_on c s) = s"
proof (induction s)
  case Nil
  then show ?case by simp
next
  case (Cons x s)
  obtain y ys where s: "split_on c s = y # ys"
    by (meson neq_Nil_conv split_on_not_Nil)
  with Cons show ?case by (cases ys) auto
qed

lemma split_on_no_sep: "p \<in> set (split_on c s) \<Longrightarrow> c \<notin> set p"
proof (induction s arbitrary: p)
  case Nil
  then show ?case by simp
next
  case (Cons x s)
  obtain y ys where s: "split_on c s = y # ys"
    by (meson neq_Nil_conv split_on_not_Nil)
  have "c \<notin> set y" and "\<And>q. q \<in> set ys \<Longrightarrow> c \<notin> set q"
    using Cons.IH s by auto
  with Cons.prems show ?case by (auto simp: s split: if_splits)
qed

lemma split_on_id: "c \<notin> set s \<Longrightarrow> split_on c s = [s]"
  by (induction s) auto

lemma split_on_append: "c \<notin> set a \<Longrightarrow> split_on c (a @ c # s) = a # split_on c s"
  by (induction a) auto

definition strip_char :: "'a \<Rightarrow> 'a list \<Rightarrow> 'a list" where
  "strip_char c s = rev (dropWhile (\<lambda>x. x = c) (rev (dropWhile (\<lambda>x. x = c) s)))"

lemma strip_char_id:
  assumes "s \<noteq> []" "hd s \<noteq> c" "last s \<noteq> c"
  shows "strip_char c s = s"
proof -
  have 1: "dropWhile (\<lambda>x. x = c) s = s"
    using assms(1,2) by (cases s) auto
  have 2: "dropWhile (\<lambda>x. x = c) (rev s) = rev s"
    using assms(1,3) by (cases "rev s") (auto simp: last_rev[symmetric])
  show ?thesis by (simp add: strip_char_def 1 2)
qed

lemma strip_char_quoted:
  assumes "s \<noteq> []" "hd s \<noteq> c" "last s \<noteq> c"
  shows "strip_char c (c # s @ [c]) = s"
proof -
  have "dropWhile (\<lambda>x. x = c) (c # s @ [c]) = s @ [c]"
    using assms(1,2) by (cases s) auto
  moreover have "dropWhile (\<lambda>x. x = c) (rev (s @ [c])) = rev s"
    using assms(1,3) by (cases "rev s") (auto simp: last_rev[symmetric])
  ultimately show ?thesis by (simp add: strip_char_def)
qed

definition replace_char :: "'a \<Rightarrow> 'a \<Rightarrow> 'a list \<Rightarrow> 'a list" where
  "replace_char a b s = map (\<lambda>x. if x = a then b else x) s"

definition lower_char :: "char \<Rightarrow> char" where
  "lower_char c =
     (let n = of_char c :: nat in if 65 \<le> n \<and> n \<le> 90 then char_of (n + 32) else c)"

definition str_lower :: "string \<Rightarrow> string" where
  "str_lower s = map lower_char s"

text \<open>\<open>str.isspace\<close> and \<open>str.isdigit\<close> of an ASCII character.\<close>

definition is_space :: "char \<Rightarrow> bool" where
  "is_space c = ((of_char c :: nat) \<in> {9, 10, 11, 12, 13, 28, 29, 30, 31, 32})"

definition is_digit :: "char \<Rightarrow> bool" where
  "is_digit c = (let n = of_char c :: nat in 48 \<le> n \<and> n \<le> 57)"

definition digit_char :: "nat \<Rightarrow> char" where
  "digit_char d = ''0123456789'' ! d"

fun nat_digits :: "nat \<Rightarrow> string" where
  "nat_digits n = (if n < 10 then [digit_char n] else nat_digits (n div 10) @ [digit_char (n mod 10)])"

declare nat_digits.simps [simp del]

lemma nat_digits_Suc_length: "0 < length (nat_digits n)"
  by (subst nat_digits.simps) simp

definition str_of_int :: "int \<Rightarrow> string" where
  "str_of_int i = (if i < 0 then CHR ''-'' # nat_digits (nat (- i)) else nat_digits (nat i))"

end
