(* ===== verification/Py_Values.thy ===== *)
theory Py_Values
  imports Adv_Prelude
begin

text \<open>
  The Python values the code receives at run time: what \<open>json.loads\<close> returns for a Kafka
  message, an HTTP answer or an identity header, with the operations the code applies to such
  values without knowing their type first (truth value, \<open>in\<close>, subscription,
  \<open>.get\<close>, iteration, \<open>str\<close>), each with the exception Python raises on a value of
  the wrong type.  A finite float is a rational number; strings are ASCII.
\<close>

datatype json =
    JNull
  | JBool bool
  | JInt int
  | JFloat rat
  | JStr string
  | JList "json list"
  | JObj "(string \<times> json) list"

section \<open>Type tests\<close>

fun is_str :: "json \<Rightarrow> bool" where
  "is_str (JStr _) = True"
| "is_str _ = False"

fun is_list :: "json \<Rightarrow> bool" where
  "is_list (JList _) = True"
| "is_list _ = False"

fun is_dict :: "json \<Rightarrow> bool" where
  "is_dict (JObj _) = True"
| "is_dict _ = False"

text \<open>In Python \<open>bool\<close> is a subclass of \<open>int\<close>.\<close>

fun is_int :: "json \<Rightarrow> bool" where
  "is_int (JInt _) = True"
| "is_int (JBool _) = True"
| "is_int _ = False"

lemma is_str_iff: "is_str v \<longleftrightarrow> (\<exists>s. v = JStr s)"
  by (cases v) auto

lemma is_list_iff: "is_list v \<longleftrightarrow> (\<exists>xs. v = JList xs)"
  by (cases v) auto

lemma is_dict_iff: "is_dict v \<longleftrightarrow> (\<exists>d. v = JObj d)"
  by (cases v) auto

fun as_list :: "json \<Rightarrow> json list" where
  "as_list (JList xs) = xs"
| "as_list _ = []"

section \<open>Operations on values of unknown type\<close>

fun truthy :: "json \<Rightarrow> bool" where
  "truthy JNull = False"
| "truthy (JBool b) = b"
| "truthy (JInt i) = (i \<noteq> 0)"
| "truthy (JFloat r) = (r \<noteq> 0)"
| "truthy (JStr s) = (s \<noteq> [])"
| "truthy (JList xs) = (xs \<noteq> [])"
| "truthy (JObj d) = (d \<noteq> [])"

text \<open>\<open>k in v\<close> for a string \<open>k\<close>: a key, an element or a substring.\<close>

fun py_in :: "string \<Rightarrow> json \<Rightarrow> bool py" where
  "py_in k (JObj d) = Inr (dict_has d k)"
| "py_in k (JList xs) = Inr (JStr k \<in> set xs)"
| "py_in k (JStr s) = Inr (sublist k s)"
| "py_in k _ = Inl TypeError"

text \<open>\<open>v[k]\<close> for a string \<open>k\<close>.\<close>

fun py_item :: "json \<Rightarrow> string \<Rightarrow> json py" where
  "py_item (JObj d) k = (case map_of d k of None \<Rightarrow> Inl (KeyError k) | Some v \<Rightarrow> Inr v)"
| "py_item _ k = Inl TypeError"

text \<open>\<open>v.get(k, default)\<close>: only a dictionary has the method.\<close>

fun py_get_default :: "json \<Rightarrow> string \<Rightarrow> json \<Rightarrow> json py" where
  "py_get_default (JObj d) k x = (case map_of d k of None \<Rightarrow> Inr x | Some v \<Rightarrow> Inr v)"
| "py_get_default _ k x = Inl AttributeError"

definition py_get :: "json \<Rightarrow> string \<Rightarrow> json py" where
  "py_get v k = py_get_default v k JNull"

text \<open>\<open>v[0]\<close>\<close>

fun py_first :: "json \<Rightarrow> json py" where
  "py_first (JList vs) = (case vs of [] \<Rightarrow> Inl IndexError | v # _ \<Rightarrow> Inr v)"
| "py_first (JStr s) = (case s of [] \<Rightarrow> Inl IndexError | c # _ \<Rightarrow> Inr (JStr [c]))"
| "py_first (JObj _) = Inl (KeyError ''0'')"
| "py_first _ = Inl TypeError"

text \<open>\<open>v[k] = x\<close>\<close>

fun py_put :: "json \<Rightarrow> string \<Rightarrow> json \<Rightarrow> json py" where
  "py_put (JObj d) k x = Inr (JObj (dict_set k x d))"
| "py_put _ _ _ = Inl TypeError"

text \<open>The values a \<open>for\<close> loop over \<open>v\<close> sees.\<close>

fun py_iter :: "json \<Rightarrow> json list py" where
  "py_iter (JList xs) = Inr xs"
| "py_iter (JObj d) = Inr (map (\<lambda>(k, _). JStr k) d)"
| "py_iter (JStr s) = Inr (map (\<lambda>c. JStr [c]) s)"
| "py_iter _ = Inl TypeError"

fun py_len :: "json \<Rightarrow> nat py" where
  "py_len (JList xs) = Inr (length xs)"
| "py_len (JObj d) = Inr (length d)"
| "py_len (JStr s) = Inr (length s)"
| "py_len _ = Inl TypeError"

text \<open>
  \<open>str(v)\<close>: strings, integers, truth values and \<open>None\<close> are written out; the text of a
  float, a list or a dictionary is left to the parameter \<open>render\<close>.
\<close>

fun py_str :: "(json \<Rightarrow> string) \<Rightarrow> json \<Rightarrow> string" where
  "py_str render (JStr s) = s"
| "py_str render (JInt i) = str_of_int i"
| "py_str render (JBool b) = (if b then ''True'' else ''False'')"
| "py_str render JNull = ''None''"
| "py_str render v = render v"

text \<open>\<open>v == i\<close> for an integer literal: \<open>True == 1\<close> and \<open>1.0 == 1\<close> hold.\<close>

fun py_eq_int :: "json \<Rightarrow> int \<Rightarrow> bool" where
  "py_eq_int (JInt j) i = (j = i)"
| "py_eq_int (JFloat r) i = (r = of_int i)"
| "py_eq_int (JBool b) i = ((if b then 1 else 0) = i)"
| "py_eq_int _ i = False"

text \<open>\<open>a or b\<close>\<close>

definition py_or :: "json \<Rightarrow> json \<Rightarrow> json" where
  "py_or a b = (if truthy a then a else b)"

lemma py_get_Obj [simp]:
  "py_get (JObj d) k = Inr (case map_of d k of None \<Rightarrow> JNull | Some v \<Rightarrow> v)"
  by (simp add: py_get_def split: option.split)

lemma py_item_eq_Inr: "py_item v k = Inr x \<longleftrightarrow> (\<exists>d. v = JObj d \<and> map_of d k = Some x)"
  by (cases v) (auto split: option.splits)

lemma py_in_Obj_item: "py_in k (JObj d) = Inr True \<Longrightarrow> \<exists>x. py_item (JObj d) k = Inr x"
  by (auto simp: dict_has_def)

lemma py_item_KeyError:
  "py_item v k = Inl (KeyError k') \<longleftrightarrow> k' = k \<and> (\<exists>d. v = JObj d \<and> \<not> dict_has d k)"
  by (cases v) (auto simp: dict_has_def split: option.splits)

section \<open>Equality and order\<close>

text \<open>Lists and dictionaries cannot be dictionary keys.\<close>

definition hashable :: "json \<Rightarrow> bool" where
  "hashable v = (\<not> is_list v \<and> \<not> is_dict v)"

text \<open>The number a value stands for.\<close>

fun py_num :: "json \<Rightarrow> rat option" where
  "py_num (JBool b) = Some (if b then 1 else 0)"
| "py_num (JInt i) = Some (of_int i)"
| "py_num (JFloat r) = Some r"
| "py_num _ = None"

text \<open>\<open>v == w\<close>: numbers by value, lists by their elements, dictionaries by their entries.\<close>

fun py_eq :: "json \<Rightarrow> json \<Rightarrow> bool"
  and py_eq_list :: "json list \<Rightarrow> json list \<Rightarrow> bool"
  and py_eq_items :: "(string \<times> json) list \<Rightarrow> (string \<times> json) list \<Rightarrow> bool" where
  "py_eq JNull w = (w = JNull)"
| "py_eq (JStr s) w = (w = JStr s)"
| "py_eq (JBool b) w = (py_num w = Some (if b then 1 else 0))"
| "py_eq (JInt i) w = (py_num w = Some (of_int i))"
| "py_eq (JFloat r) w = (py_num w = Some r)"
| "py_eq (JList xs) w = (case w of JList ys \<Rightarrow> py_eq_list xs ys | _ \<Rightarrow> False)"
| "py_eq (JObj d) w = (case w of JObj e \<Rightarrow> length d = length e \<and> py_eq_items d e | _ \<Rightarrow> False)"
| "py_eq_list [] ys = (ys = [])"
| "py_eq_list (x # xs) ys = (case ys of [] \<Rightarrow> False | y # ys' \<Rightarrow> py_eq x y \<and> py_eq_list xs ys')"
| "py_eq_items [] e = True"
| "py_eq_items ((k, v) # d) e =
     ((case map_of e k of None \<Rightarrow> False | Some w \<Rightarrow> py_eq v w) \<and> py_eq_items d e)"

text \<open>Strings compare character by character.\<close>

fun str_less :: "string \<Rightarrow> string \<Rightarrow> bool" where
  "str_less s [] = False"
| "str_less [] (d # t) = True"
| "str_less (c # s) (d # t) =
     (let m = of_char c :: nat; n = of_char d in m < n \<or> m = n \<and> str_less s t)"

text \<open>\<open>v > w\<close>; values that do not compare raise \<open>TypeError\<close>.\<close>

fun py_gt :: "json \<Rightarrow> json \<Rightarrow> bool py"
  and py_gt_list :: "json list \<Rightarrow> json list \<Rightarrow> bool py" where
  "py_gt (JStr s) w = (case w of JStr t \<Rightarrow> Inr (str_less t s) | _ \<Rightarrow> Inl TypeError)"
| "py_gt (JList xs) w = (case w of JList ys \<Rightarrow> py_gt_list xs ys | _ \<Rightarrow> Inl TypeError)"
| "py_gt v w = (case (py_num v, py_num w) of (Some a, Some b) \<Rightarrow> Inr (a > b) | _ \<Rightarrow> Inl TypeError)"
| "py_gt_list [] ys = Inr False"
| "py_gt_list (x # xs) ys =
     (case ys of [] \<Rightarrow> Inr True | y # ys' \<Rightarrow> if py_eq x y then py_gt_list xs ys' else py_gt x y)"

lemma str_less_irrefl [simp]: "\<not> str_less s s"
  by (induction s) (auto simp: Let_def)

lemma str_less_trans: "str_less r s \<Longrightarrow> str_less s t \<Longrightarrow> str_less r t"
proof (induction r t arbitrary: s rule: str_less.induct)
  case (3 c s' d t s)
  then show ?case by (cases s) (auto simp: Let_def)
qed (auto elim: str_less.elims)

lemma str_less_total: "s \<noteq> t \<Longrightarrow> str_less s t \<or> str_less t s"
proof (induction s t rule: str_less.induct)
  case (1 s)
  then show ?case by (cases s) auto
next
  case (3 c s d t)
  have "(of_char c :: nat) = of_char d \<longleftrightarrow> c = d"
    by (simp add: of_char_eq_iff)
  with 3 show ?case by (auto simp: Let_def)
qed auto

section \<open>Paths of keys\<close>

text \<open>
  \<open>utils.traverse_keys\<close> of the service: the value at a path of keys in nested dictionaries.
  It consumes the caller's list of keys with \<open>pop(0)\<close>, so its model returns the list it
  leaves behind beside the value; \<open>pop\<close> from an empty list raises \<open>IndexError\<close>.
\<close>

fun traverse_keys :: "json \<Rightarrow> string list \<Rightarrow> json \<Rightarrow> (json \<times> string list) py" where
  "traverse_keys d [] dflt = Inl IndexError"
| "traverse_keys d (key # keys) dflt =
     (case py_get_default d key dflt of
        Inl e \<Rightarrow> Inl e
      | Inr item \<Rightarrow>
          if keys = [] then Inr (item, [])
          else if \<not> truthy item then Inr (dflt, keys)
          else traverse_keys item keys dflt)"

text \<open>The value at a path when every step finds a dictionary that has the key.\<close>

fun path_value :: "json \<Rightarrow> string list \<Rightarrow> json option" where
  "path_value v [] = Some v"
| "path_value v (k # ks) =
     (case v of JObj d \<Rightarrow> (case map_of d k of None \<Rightarrow> None | Some x \<Rightarrow> path_value x ks) | _ \<Rightarrow> None)"

lemma traverse_keys_found:
  "ks \<noteq> [] \<Longrightarrow> path_value d ks = Some v \<Longrightarrow> v \<noteq> JNull \<Longrightarrow> traverse_keys d ks JNull = Inr (v, [])"
proof (induction d ks "JNull" rule: traverse_keys.induct)
  case (1 d)
  then show ?case by simp
next
  case (2 d key keys)
  then obtain m x where d: "d = JObj m" and x: "map_of m key = Some x" and p: "path_value x keys = Some v"
    by (auto split: json.splits option.splits)
  show ?case
  proof (cases "keys = []")
    case True
    with d x p show ?thesis by simp
  next
    case False
    then obtain k' ks' where k: "keys = k' # ks'" by (cases keys) auto
    with p obtain m' y where "x = JObj m'" "map_of m' k' = Some y"
      by (auto split: json.splits option.splits)
    then have "truthy x" by auto
    with 2 False d x p show ?thesis by simp
  qed
qed

lemma traverse_keys_value:
  "traverse_keys d ks JNull = Inr (v, r) \<Longrightarrow> v \<noteq> JNull \<Longrightarrow> path_value d ks = Some v \<and> r = []"
proof (induction d ks "JNull" arbitrary: r rule: traverse_keys.induct)
  case (1 d)
  then show ?case by simp
next
  case (2 d key keys)
  then obtain m where d: "d = JObj m"
    by (cases d) auto
  from 2 d obtain x where x: "map_of m key = Some x"
    by (cases "map_of m key") (auto split: if_splits)
  from 2 d x show ?case by (auto split: if_splits)
qed

text \<open>\<open>itertools.batched\<close>\<close>

function batched :: "nat \<Rightarrow> 'a list \<Rightarrow> 'a list list" where
  "batched n xs = (if n = 0 \<or> xs = [] then [] else take n xs # batched n (drop n xs))"
  by pat_completeness auto
termination by (relation "measure (\<lambda>(n, xs). length xs)") auto

declare batched.simps [simp del]

lemma concat_batched [simp]: "0 < n \<Longrightarrow> concat (batched n xs) = xs"
  by (induction n xs rule: batched.induct) (subst batched.simps, simp)

end
