(* ===== verification/Rbac_Permissions.thy ===== *)
theory Rbac_Permissions
  imports Py_Values
begin

text \<open>
  RBAC permissions (\<open>api/permissions.py\<close>): the class \<open>RBACPermission\<close> with its parser,
  its equality and its \<open>in\<close>, the translation to a Kessel relation, the search for host
  groups in the answer of the RBAC service and the search for a role that grants a permission.
  The order the \<open>in\<close> operator gives is stated as the locale \<open>grant_order\<close>, which
  any search over granted permissions can use.
\<close>

section \<open>The interface of a permission order\<close>

text \<open>
  A reflexive and transitive relation "holding \<open>p\<close> grants \<open>q\<close>" on the well-formed
  permissions, with what a client that searches a list of held permissions may conclude.
\<close>

locale grant_order =
  fixes wf :: "'p \<Rightarrow> bool"
    and grants :: "'p \<Rightarrow> 'p \<Rightarrow> bool"
  assumes grants_refl: "wf p \<Longrightarrow> grants p p"
    and grants_trans: "wf p \<Longrightarrow> wf q \<Longrightarrow> wf r \<Longrightarrow> grants p q \<Longrightarrow> grants q r \<Longrightarrow> grants p r"
begin

lemma held_mono:
  assumes "\<exists>h \<in> set held. grants h q" "grants q r" "wf q" "wf r" "\<forall>h \<in> set held. wf h"
  shows "\<exists>h \<in> set held. grants h r"
  using assms grants_trans by blast

lemma held_weaken:
  assumes "\<forall>h \<in> set held. wf h" "\<forall>h \<in> set held'. wf h" "wf r"
    and "\<forall>h \<in> set held. \<exists>h' \<in> set held'. grants h' h"
    and "\<exists>h \<in> set held. grants h r"
  shows "\<exists>h' \<in> set held'. grants h' r"
  using assms grants_trans by meson

end

section \<open>The class \<open>RBACPermission\<close>\<close>

record rbac_permission =
  perm_string :: string
  perm_app :: string
  perm_resource :: string
  perm_method :: string

definition rbac_permission_new :: "json \<Rightarrow> rbac_permission py" where
  "rbac_permission_new permission_str =
     (case permission_str of
        JStr s \<Rightarrow>
          if count_list s CHR '':'' \<noteq> 2 then Inl ValueError
          else (case split_on CHR '':'' s of
                  [a, r, m] \<Rightarrow> Inr \<lparr>perm_string = s, perm_app = a, perm_resource = r, perm_method = m\<rparr>
                | _ \<Rightarrow> Inl ValueError)
      | _ \<Rightarrow> Inl TypeError)"

definition perm_eq :: "rbac_permission \<Rightarrow> rbac_permission \<Rightarrow> bool" where
  "perm_eq p q \<longleftrightarrow> perm_string p = perm_string q"

text \<open>\<open>perm_contains self other\<close> is \<open>other in self\<close>.\<close>

definition perm_contains :: "rbac_permission \<Rightarrow> rbac_permission \<Rightarrow> bool" where
  "perm_contains self other =
     (if perm_string self = perm_string other then True
      else if \<not> (perm_app self = perm_app other \<or> perm_app self = ''*'') then False
      else if \<not> (perm_resource self = perm_resource other \<or> perm_resource self = ''*'') then False
      else if perm_method self = ''*'' then True
      else if perm_method self = perm_method other then True
      else perm_method other = ''read'' \<and> perm_method self = ''write'')"

definition as_kessel_permission :: "rbac_permission \<Rightarrow> string" where
  "as_kessel_permission p =
     (let method = (if perm_method p = ''write'' then ''edit'' else ''view'')
      in perm_app p @ ''_'' @ replace_char CHR ''-'' CHR ''_'' (perm_resource p) @ ''_'' @ method)"

definition use_assigned_permissions_for_resource :: "string list" where
  "use_assigned_permissions_for_resource = [''recommendation-results'']"

text \<open>The permissions the constructor can return.\<close>

definition wf_perm :: "rbac_permission \<Rightarrow> bool" where
  "wf_perm p \<longleftrightarrow>
     perm_string p = perm_app p @ '':'' @ perm_resource p @ '':'' @ perm_method p \<and>
     CHR '':'' \<notin> set (perm_app p) \<and> CHR '':'' \<notin> set (perm_resource p) \<and>
     CHR '':'' \<notin> set (perm_method p)"

lemma rbac_permission_new_Inr:
  assumes "rbac_permission_new v = Inr p"
  shows "v = JStr (perm_string p) \<and> wf_perm p"
proof -
  from assms obtain s where v: "v = JStr s"
    by (cases v) (simp_all add: rbac_permission_new_def)
  have cnt: "count_list s CHR '':'' = 2"
    using assms v by (cases "count_list s CHR '':'' = 2") (simp_all add: rbac_permission_new_def)
  then have "length (split_on CHR '':'' s) = 3"
    by (simp only: length_split_on)
  then obtain a r m where sp: "split_on CHR '':'' s = [a, r, m]"
    by (blast dest: length_3_list)
  have p: "p = \<lparr>perm_string = s, perm_app = a, perm_resource = r, perm_method = m\<rparr>"
    using assms v cnt sp by (simp add: rbac_permission_new_def)
  have "s = a @ '':'' @ r @ '':'' @ m"
    using join_split_on [of "CHR '':''" s] sp by simp
  moreover have "CHR '':'' \<notin> set x" if "x \<in> {a, r, m}" for x
    using split_on_no_sep [of x "CHR '':''" s] sp that by auto
  ultimately show ?thesis using v p by (simp add: wf_perm_def)
qed

lemma rbac_permission_new_join:
  assumes "CHR '':'' \<notin> set a" "CHR '':'' \<notin> set r" "CHR '':'' \<notin> set m"
  shows "rbac_permission_new (JStr (a @ '':'' @ r @ '':'' @ m)) =
    Inr \<lparr>perm_string = a @ '':'' @ r @ '':'' @ m, perm_app = a, perm_resource = r, perm_method = m\<rparr>"
proof -
  have sp: "split_on CHR '':'' (a @ '':'' @ r @ '':'' @ m) = [a, r, m]"
    using assms by (simp add: split_on_append split_on_id)
  have "count_list (a @ '':'' @ r @ '':'' @ m) CHR '':'' = 2"
    using length_split_on [of "CHR '':''" "a @ '':'' @ r @ '':'' @ m"] sp by simp
  with sp show ?thesis by (simp add: rbac_permission_new_def)
qed

lemma wf_perm_new: "wf_perm p \<Longrightarrow> rbac_permission_new (JStr (perm_string p)) = Inr p"
  using rbac_permission_new_join [of "perm_app p" "perm_resource p" "perm_method p"]
  by (simp add: wf_perm_def)

lemma wf_perm_eqI:
  "wf_perm p \<Longrightarrow> wf_perm q \<Longrightarrow> perm_string p = perm_string q \<Longrightarrow> p = q"
  by (metis sum.inject(2) wf_perm_new)

text \<open>
  On well-formed permissions the early exits of \<open>__contains__\<close> amount to three
  independent comparisons.
\<close>

lemma perm_contains_fields:
  assumes "wf_perm p" "wf_perm q"
  shows "perm_contains p q \<longleftrightarrow>
    (perm_app p = ''*'' \<or> perm_app p = perm_app q) \<and>
    (perm_resource p = ''*'' \<or> perm_resource p = perm_resource q) \<and>
    (perm_method p = ''*'' \<or> perm_method p = perm_method q \<or>
     perm_method p = ''write'' \<and> perm_method q = ''read'')"
  using assms wf_perm_eqI [of p q] by (auto simp: perm_contains_def)

interpretation rbac: grant_order wf_perm perm_contains
proof unfold_locales
  fix p q r :: rbac_permission
  show "perm_contains p p" by (simp add: perm_contains_def)
  assume "wf_perm p" "wf_perm q" "wf_perm r" "perm_contains p q" "perm_contains q r"
  then show "perm_contains p r" by (auto simp: perm_contains_fields)
qed

section \<open>The permission of a role\<close>

text \<open>
  Both loops over the answer's roles start alike: a role without \<open>permission\<close>, or with a
  malformed one, is skipped (\<open>None\<close>); a permission that is not a string raises
  \<open>TypeError\<close>, which is not caught.
\<close>

definition role_decode :: "json \<Rightarrow> rbac_permission option py" where
  "role_decode role =
     py_bind (py_in ''permission'' role) (\<lambda>has.
       if \<not> has then Inr None
       else py_bind (py_item role ''permission'') (\<lambda>perm.
         case rbac_permission_new perm of
           Inl e \<Rightarrow> if e = ValueError then Inr None else Inl e
         | Inr p \<Rightarrow> Inr (Some p)))"

text \<open>The permission a role object holds, when it has a well-formed one.\<close>

definition role_permission :: "json \<Rightarrow> rbac_permission option" where
  "role_permission role = (case role_decode role of Inr r \<Rightarrow> r | Inl _ \<Rightarrow> None)"

text \<open>The answers the RBAC service documents: role objects whose permission is a string.\<close>

definition role_ok :: "json \<Rightarrow> bool" where
  "role_ok role \<longleftrightarrow>
     (case role of
        JObj d \<Rightarrow> (case map_of d ''permission'' of None \<Rightarrow> True | Some v \<Rightarrow> is_str v)
      | _ \<Rightarrow> False)"

lemma rbac_permission_new_str:
  "is_str v \<Longrightarrow> rbac_permission_new v = Inl ValueError \<or> (\<exists>p. rbac_permission_new v = Inr p)"
  by (auto simp: is_str_iff rbac_permission_new_def split: list.splits)

lemma role_decode_total:
  assumes "role_ok role"
  shows "\<exists>r. role_decode role = Inr r"
proof -
  from assms obtain d where d: "role = JObj d"
    by (auto simp: role_ok_def split: json.splits)
  show ?thesis
  proof (cases "map_of d ''permission''")
    case None
    with d show ?thesis by (simp add: role_decode_def dict_has_def)
  next
    case (Some v)
    with assms d have "is_str v" by (simp add: role_ok_def)
    then show ?thesis using rbac_permission_new_str [of v] Some d
      by (auto simp: role_decode_def dict_has_def)
  qed
qed

lemma role_decode_Some:
  assumes "role_decode role = Inr (Some p)"
  shows "\<exists>v. py_item role ''permission'' = Inr v \<and> rbac_permission_new v = Inr p"
proof -
  from assms obtain v where v: "py_item role ''permission'' = Inr v"
    and n: "(case rbac_permission_new v of
           Inl e \<Rightarrow> if e = ValueError then Inr None else Inl e
         | Inr p \<Rightarrow> Inr (Some p)) = Inr (Some p)"
    by (auto simp: role_decode_def py_bind_eq_Inr split: if_splits)
  from n have "rbac_permission_new v = Inr p"
    by (cases "rbac_permission_new v") (simp_all split: if_splits)
  with v show ?thesis by blast
qed

lemma role_decode_wf: "role_decode role = Inr (Some p) \<Longrightarrow> wf_perm p"
  using role_decode_Some rbac_permission_new_Inr by blast

lemma role_permission_wf: "role_permission role = Some p \<Longrightarrow> wf_perm p"
  by (auto simp: role_permission_def intro: role_decode_wf split: sum.splits)

section \<open>Host groups in the answer of the RBAC service\<close>

text \<open>
  One entry of \<open>resourceDefinitions\<close>: the groups it adds.  \<open>loads\<close> is
  \<open>json.loads\<close>, \<open>None\<close> where it raises its \<open>ValueError\<close>.  The list is only
  extended by an attribute filter on \<open>group.id\<close> whose value is a list, or a string that
  holds one; note that the guard of the source is "neither key nor value", so a filter with one of
  the two raises \<open>KeyError\<close>.
\<close>

definition rscdef_value :: "(string \<Rightarrow> json option) \<Rightarrow> json \<Rightarrow> json py" where
  "rscdef_value loads v =
     (case v of
        JStr s \<Rightarrow>
          if s = [] then Inl IndexError
          else if hd s = CHR ''['' \<and> last s = CHR '']''
            then (case loads s of None \<Rightarrow> Inl ValueError | Some j \<Rightarrow> Inr j)
          else Inr v
      | _ \<Rightarrow> Inr v)"

definition rscdef_groups :: "(string \<Rightarrow> json option) \<Rightarrow> json \<Rightarrow> json list py" where
  "rscdef_groups loads rscdef =
     (case rscdef of
        JObj d \<Rightarrow>
          (case map_of d ''attributeFilter'' of
             None \<Rightarrow> Inr []
           | Some attrfilter \<Rightarrow>
               (case attrfilter of
                  JObj af \<Rightarrow>
                    if \<not> dict_has af ''key'' \<and> \<not> dict_has af ''value'' then Inr []
                    else py_bind (py_item attrfilter ''key'') (\<lambda>key.
                      if key \<noteq> JStr ''group.id'' then Inr []
                      else py_bind (py_item attrfilter ''value'') (\<lambda>value.
                        py_bind (rscdef_value loads value) (\<lambda>value'. Inr (as_list value'))))
                | _ \<Rightarrow> Inr []))
      | _ \<Rightarrow> Inr [])"

text \<open>
  What one role contributes: \<open>Skip\<close> for each \<open>continue\<close> of the loop, \<open>Full\<close> for
  the early return at an empty list of resource definitions, \<open>Groups\<close> otherwise.
\<close>

datatype role_groups = Skip | Full | Groups "json list"

definition sought_hosts_read :: rbac_permission where
  "sought_hosts_read = \<lparr>perm_string = ''inventory:hosts:read'', perm_app = ''inventory'',
     perm_resource = ''hosts'', perm_method = ''read''\<rparr>"

definition role_host_groups :: "(string \<Rightarrow> json option) \<Rightarrow> json \<Rightarrow> role_groups py" where
  "role_host_groups loads role =
     py_bind (role_decode role) (\<lambda>dec. case dec of
         None \<Rightarrow> Inr Skip
       | Some held \<Rightarrow>
           if \<not> perm_contains held sought_hosts_read then Inr Skip
           else py_bind (py_in ''resourceDefinitions'' role) (\<lambda>has_defs.
             if \<not> has_defs then Inr Skip
             else py_bind (py_item role ''resourceDefinitions'') (\<lambda>defs.
               case defs of
                 JList rds \<Rightarrow>
                   if rds = [] then Inr Full
                   else py_bind (py_mapM (rscdef_groups loads) rds) (\<lambda>gs. Inr (Groups (concat gs)))
               | _ \<Rightarrow> Inr Skip)))"

text \<open>The loop over the roles; \<open>None\<close> when it returned early (access to all hosts).\<close>

fun host_groups_loop :: "(string \<Rightarrow> json option) \<Rightarrow> json list \<Rightarrow> json list \<Rightarrow> json list option py" where
  "host_groups_loop loads [] acc = Inr (Some acc)"
| "host_groups_loop loads (role # roles) acc =
     py_bind (role_host_groups loads role) (\<lambda>c. case c of
         Skip \<Rightarrow> host_groups_loop loads roles acc
       | Full \<Rightarrow> Inr None
       | Groups gs \<Rightarrow> host_groups_loop loads roles (acc @ gs))"

text \<open>
  \<open>find_host_groups\<close>: the new value of the request's \<open>host_groups\<close> attribute, where
  \<open>None\<close> means that the attribute is absent and that queries are not restricted.
\<close>

definition find_host_groups ::
  "(string \<Rightarrow> json option) \<Rightarrow> json \<Rightarrow> json list option \<Rightarrow> json list option py" where
  "find_host_groups loads role_list attr =
     py_bind (py_iter role_list) (\<lambda>roles.
       py_bind (host_groups_loop loads roles []) (\<lambda>r. case r of
           None \<Rightarrow> Inr attr
         | Some groups \<Rightarrow> Inr (if groups = [] then attr else Some groups)))"

lemma wf_sought_hosts_read [simp]: "wf_perm sought_hosts_read"
  by (simp add: wf_perm_def sought_hosts_read_def)

section \<open>The search for a role that grants the permission\<close>

datatype match_type = Exact | Contains

text \<open>
  The loop of \<open>has_rbac_permission\<close> over the answer's \<open>data\<close>: the first role whose
  permission is the sought one or contains it.
\<close>

fun match_roles :: "rbac_permission \<Rightarrow> json list \<Rightarrow> (rbac_permission \<times> match_type) option py" where
  "match_roles sought [] = Inr None"
| "match_roles sought (role # roles) =
     py_bind (role_decode role) (\<lambda>dec. case dec of
         None \<Rightarrow> match_roles sought roles
       | Some p \<Rightarrow>
           if perm_eq p sought then Inr (Some (p, Exact))
           else if perm_contains p sought then Inr (Some (p, Contains))
           else match_roles sought roles)"

lemma match_roles_total:
  "\<forall>role \<in> set roles. role_ok role \<Longrightarrow> \<exists>r. match_roles sought roles = Inr r"
proof (induction roles)
  case Nil
  then show ?case by simp
next
  case (Cons role roles)
  then obtain r where "match_roles sought roles = Inr r" by auto
  moreover obtain c where "role_decode role = Inr c"
    using role_decode_total Cons.prems by fastforce
  ultimately show ?case by (cases c) auto
qed

lemma match_roles_Some:
  "match_roles sought roles = Inr (Some (p, t)) \<Longrightarrow>
   (\<exists>role \<in> set roles. role_permission role = Some p) \<and>
   (t = Exact \<longrightarrow> perm_eq p sought) \<and> perm_contains p sought"
proof (induction roles)
  case Nil
  then show ?case by simp
next
  case (Cons role roles)
  then obtain c where c: "role_decode role = Inr c" by (auto simp: py_bind_eqs)
  show ?case
  proof (cases c)
    case None
    with Cons c show ?thesis by auto
  next
    case (Some q)
    with Cons c show ?thesis
      by (auto simp: role_permission_def perm_eq_def perm_contains_def split: if_splits)
  qed
qed

lemma match_roles_None:
  "match_roles sought roles = Inr None \<Longrightarrow> role \<in> set roles \<Longrightarrow>
   role_permission role = Some p \<Longrightarrow> \<not> perm_contains p sought"
proof (induction roles)
  case Nil
  then show ?case by simp
next
  case (Cons r roles)
  then obtain c where c: "role_decode r = Inr c" by (auto simp: py_bind_eqs)
  have "match_roles sought roles = Inr None"
    using Cons.prems(1) c by (auto split: option.splits if_splits)
  moreover have "\<not> perm_contains p sought" if "role = r"
    using Cons.prems that c by (auto simp: role_permission_def split: if_splits)
  ultimately show ?case using Cons by auto
qed

text \<open>The decision of the search, on the answers the service documents.\<close>

lemma match_roles_iff:
  assumes "\<forall>role \<in> set roles. role_ok role"
  shows "(\<exists>p t. match_roles sought roles = Inr (Some (p, t))) \<longleftrightarrow>
    (\<exists>role \<in> set roles. \<exists>p. role_permission role = Some p \<and> perm_contains p sought)"
proof -
  obtain r where r: "match_roles sought roles = Inr r"
    using match_roles_total [OF assms] by blast
  show ?thesis
  proof (cases r)
    case None
    with r match_roles_None [of sought roles] show ?thesis by fastforce
  next
    case (Some pt)
    obtain p t where "pt = (p, t)" by force
    with r Some match_roles_Some [of sought roles p t] show ?thesis by fastforce
  qed
qed

section \<open>Properties\<close>

text \<open>
  \<open>RBACPermission(v)\<close> succeeds exactly on the strings of the form
  \<open>app:resource:method\<close>, and the object it returns is the one permission with that text; a
  value that is not a string raises \<open>TypeError\<close>, a string with another number of colons
  \<open>ValueError\<close>.
\<close>

theorem rbac_permission_parse:
  "(rbac_permission_new v = Inr p \<longleftrightarrow> v = JStr (perm_string p) \<and> wf_perm p) \<and>
   (rbac_permission_new v = Inl TypeError \<longleftrightarrow> \<not> is_str v) \<and>
   (rbac_permission_new v = Inl ValueError \<longleftrightarrow> (\<exists>s. v = JStr s \<and> count_list s CHR '':'' \<noteq> 2))"
proof -
  have "rbac_permission_new (JStr s) \<noteq> Inl TypeError" for s
    by (simp add: rbac_permission_new_def split: list.split)
  moreover have "rbac_permission_new (JStr s) = Inl ValueError \<longleftrightarrow> count_list s CHR '':'' \<noteq> 2" for s
  proof (cases "count_list s CHR '':'' = 2")
    case True
    then obtain a r m where "split_on CHR '':'' s = [a, r, m]"
      using length_3_list [of "split_on CHR '':'' s"] by (auto simp: length_split_on)
    with True show ?thesis by (simp add: rbac_permission_new_def)
  qed (simp add: rbac_permission_new_def)
  moreover have "rbac_permission_new v = Inl TypeError \<and> rbac_permission_new v \<noteq> Inl ValueError" if "\<not> is_str v"
    using that by (cases v) (simp_all add: rbac_permission_new_def)
  moreover have "rbac_permission_new v = Inr p \<longleftrightarrow> v = JStr (perm_string p) \<and> wf_perm p"
    using rbac_permission_new_Inr wf_perm_new by blast
  ultimately show ?thesis by (auto simp: is_str_iff)
qed

text \<open>
  The \<open>in\<close> operator of \<open>RBACPermission\<close> is a partial order on the permissions the
  constructor returns: every permission contains itself, containment is transitive, and two
  permissions that contain each other are the same.
\<close>

theorem permission_partial_order:
  assumes "wf_perm p" "wf_perm q" "wf_perm r"
  shows "perm_contains p p \<and>
    (perm_contains p q \<and> perm_contains q r \<longrightarrow> perm_contains p r) \<and>
    (perm_contains p q \<and> perm_contains q p \<longrightarrow> p = q)"
proof -
  have "p = q" if "perm_contains p q" "perm_contains q p"
  proof (rule wf_perm_eqI [OF assms(1,2)])
    have "perm_app p = perm_app q" "perm_resource p = perm_resource q" "perm_method p = perm_method q"
      using that by (auto simp: perm_contains_fields assms)
    with assms(1,2) show "perm_string p = perm_string q" by (simp add: wf_perm_def)
  qed
  then show ?thesis
    using rbac.grants_refl [OF assms(1)] rbac.grants_trans [OF assms] by blast
qed

definition perm_of :: "string \<Rightarrow> string \<Rightarrow> string \<Rightarrow> rbac_permission" where
  "perm_of a r m = \<lparr>perm_string = a @ '':'' @ r @ '':'' @ m, perm_app = a, perm_resource = r, perm_method = m\<rparr>"

theorem permission_partial_order_witness:
  "perm_contains (perm_of ''*'' ''*'' ''write'') (perm_of ''advisor'' ''*'' ''write'') \<and>
   perm_contains (perm_of ''advisor'' ''*'' ''write'') (perm_of ''advisor'' ''hosts'' ''read'') \<and>
   perm_contains (perm_of ''*'' ''*'' ''write'') (perm_of ''advisor'' ''hosts'' ''read'')"
proof -
  have "wf_perm (perm_of ''*'' ''*'' ''write'')" "wf_perm (perm_of ''advisor'' ''*'' ''write'')"
    "wf_perm (perm_of ''advisor'' ''hosts'' ''read'')"
    by (simp_all add: wf_perm_def perm_of_def)
  from permission_partial_order [OF this] show ?thesis
    by (simp add: perm_contains_def perm_of_def)
qed

text \<open>
  What the documentation of RBAC says, apart from the loop: the permissions that allow reading hosts,
  the resource definitions of a role that holds one of them, and the groups a definition names.
\<close>

definition host_read_permissions :: "string list" where
  "host_read_permissions =
     [''inventory:hosts:read'', ''inventory:hosts:write'', ''inventory:hosts:*'',
      ''inventory:*:read'', ''inventory:*:write'', ''inventory:*:*'',
      ''*:hosts:read'', ''*:hosts:write'', ''*:hosts:*'', ''*:*:read'', ''*:*:write'', ''*:*:*'']"

definition host_definitions :: "json \<Rightarrow> json list option" where
  "host_definitions role =
     (case role of
        JObj d \<Rightarrow>
          (case (map_of d ''permission'', map_of d ''resourceDefinitions'') of
             (Some (JStr p), Some (JList rds)) \<Rightarrow> if p \<in> set host_read_permissions then Some rds else None
           | _ \<Rightarrow> None)
      | _ \<Rightarrow> None)"

definition attribute_filter :: "json \<Rightarrow> (string \<times> json) list" where
  "attribute_filter rscdef =
     (case rscdef of
        JObj d \<Rightarrow> (case map_of d ''attributeFilter'' of Some (JObj af) \<Rightarrow> af | _ \<Rightarrow> [])
      | _ \<Rightarrow> [])"

definition named_groups :: "(string \<Rightarrow> json option) \<Rightarrow> json \<Rightarrow> json list" where
  "named_groups loads rscdef =
     (if map_of (attribute_filter rscdef) ''key'' \<noteq> Some (JStr ''group.id'') then []
      else case map_of (attribute_filter rscdef) ''value'' of
        Some (JList gs) \<Rightarrow> gs
      | Some (JStr s) \<Rightarrow>
          (case (prefix ''['' s \<and> suffix '']'' s, loads s) of (True, Some (JList gs)) \<Rightarrow> gs | _ \<Rightarrow> [])
      | _ \<Rightarrow> [])"

lemma literal_permission:
  assumes "wf_perm p" "perm_string p = a @ '':'' @ r @ '':'' @ m"
    and "CHR '':'' \<notin> set a" "CHR '':'' \<notin> set r" "CHR '':'' \<notin> set m"
  shows "perm_app p = a \<and> perm_resource p = r \<and> perm_method p = m"
proof -
  have "(Inr p :: rbac_permission py) = Inr \<lparr>perm_string = a @ '':'' @ r @ '':'' @ m, perm_app = a, perm_resource = r, perm_method = m\<rparr>"
    by (rule trans [OF wf_perm_new [OF assms(1), symmetric, unfolded assms(2)] rbac_permission_new_join [OF assms(3-5)]])
  then show ?thesis by simp
qed

lemma sought_fields [simp]:
  "perm_app sought_hosts_read = ''inventory''" "perm_resource sought_hosts_read = ''hosts''"
  "perm_method sought_hosts_read = ''read''"
  by (simp_all add: sought_hosts_read_def)

lemma reads_hosts_iff:
  assumes "wf_perm p"
  shows "perm_contains p sought_hosts_read \<longleftrightarrow> perm_string p \<in> set host_read_permissions"
proof
  assume "perm_contains p sought_hosts_read"
  then have "perm_app p \<in> {''inventory'', ''*''}" "perm_resource p \<in> {''hosts'', ''*''}"
    "perm_method p \<in> {''read'', ''write'', ''*''}"
    unfolding perm_contains_fields [OF assms wf_sought_hosts_read] by auto
  then show "perm_string p \<in> set host_read_permissions"
    using assms by (auto simp: wf_perm_def host_read_permissions_def)
next
  assume "perm_string p \<in> set host_read_permissions"
  then have "perm_string p \<in> (\<lambda>(a, r, m). a @ '':'' @ r @ '':'' @ m) `
      ({''inventory'', ''*''} \<times> {''hosts'', ''*''} \<times> {''read'', ''write'', ''*''})"
    by (auto simp: host_read_permissions_def)
  then obtain a r m where "perm_string p = a @ '':'' @ r @ '':'' @ m"
    and arm: "a \<in> {''inventory'', ''*''}" "r \<in> {''hosts'', ''*''}" "m \<in> {''read'', ''write'', ''*''}"
    by (elim imageE SigmaE) (simp only: prod.case)
  then have "perm_app p = a \<and> perm_resource p = r \<and> perm_method p = m"
    by (intro literal_permission [OF assms]) auto
  with arm show "perm_contains p sought_hosts_read"
    unfolding perm_contains_fields [OF assms wf_sought_hosts_read] by auto
qed

lemma first_char: "prefix [c] s \<longleftrightarrow> s \<noteq> [] \<and> hd s = c"
  by (cases s) auto

lemma last_char: "suffix [c] s \<longleftrightarrow> s \<noteq> [] \<and> last s = c"
  by (cases s rule: rev_cases) auto

lemma rscdef_value_named:
  assumes "rscdef_value loads v = Inr w"
  shows "as_list w = (case v of JList gs \<Rightarrow> gs
    | JStr s \<Rightarrow> (case (prefix ''['' s \<and> suffix '']'' s, loads s) of (True, Some (JList gs)) \<Rightarrow> gs | _ \<Rightarrow> [])
    | _ \<Rightarrow> [])"
proof (cases v)
  case (JStr s)
  have "s \<noteq> []" using assms JStr by (auto simp: rscdef_value_def)
  then have "prefix ''['' s \<and> suffix '']'' s \<longleftrightarrow> hd s = CHR ''['' \<and> last s = CHR '']''"
    using first_char [of "CHR ''[''" s] last_char [of "CHR '']''" s] by simp
  then show ?thesis using assms JStr \<open>s \<noteq> []\<close>
    by (auto simp: rscdef_value_def split: option.splits json.splits if_splits)
qed (use assms in \<open>auto simp: rscdef_value_def\<close>)

lemma rscdef_groups_named:
  assumes "rscdef_groups loads rscdef = Inr gs"
  shows "gs = named_groups loads rscdef"
proof -
  note gr = assms [unfolded rscdef_groups_def]
  show ?thesis
  proof (cases rscdef)
    case (JObj d)
    show ?thesis
    proof (cases "\<exists>af. map_of d ''attributeFilter'' = Some (JObj af)")
      case True
      then obtain af where af: "map_of d ''attributeFilter'' = Some (JObj af)" by blast
      then have filt: "attribute_filter (JObj d) = af" by (simp add: attribute_filter_def)
      show ?thesis
      proof (cases "map_of af ''key''")
        case None
        then show ?thesis using gr af by (simp add: named_groups_def filt JObj split: if_splits)
      next
        case (Some key)
        then show ?thesis using gr af rscdef_value_named
          by (cases "map_of af ''value''") (auto simp: named_groups_def filt JObj py_bind_eq_Inr dict_has_def split: if_splits)
      qed
    next
      case False
      then show ?thesis using gr
        by (auto simp: JObj named_groups_def attribute_filter_def split: option.splits json.splits)
    qed
  qed (use gr in \<open>simp_all add: named_groups_def attribute_filter_def\<close>)
qed

lemma py_mapM_rscdef_named: "py_mapM (rscdef_groups loads) rds = Inr gs \<Longrightarrow> gs = map (named_groups loads) rds"
  by (induction rds arbitrary: gs) (auto simp: py_bind_eq_Inr dest: rscdef_groups_named)

lemma role_host_groups_named:
  assumes "role_host_groups loads role = Inr c"
  shows "c = (case host_definitions role of None \<Rightarrow> Skip
    | Some rds \<Rightarrow> if rds = [] then Full else Groups (concat (map (named_groups loads) rds)))"
proof -
  obtain dec where dec: "role_decode role = Inr dec"
    using assms by (auto simp: role_host_groups_def py_bind_eq_Inr)
  show ?thesis
  proof (cases dec)
    case None
    have "host_definitions role = None"
    proof (rule ccontr)
      assume "host_definitions role \<noteq> None"
      then obtain d p where "role = JObj d" "map_of d ''permission'' = Some (JStr p)" "p \<in> set host_read_permissions"
        by (auto simp: host_definitions_def split: json.splits option.splits if_splits)
      then show False using dec None
        by (auto simp: role_decode_def dict_has_def host_read_permissions_def rbac_permission_new_def)
    qed
    then show ?thesis using assms dec None by (simp add: role_host_groups_def)
  next
    case (Some held)
    obtain v where v: "py_item role ''permission'' = Inr v" "rbac_permission_new v = Inr held"
      using role_decode_Some dec Some by blast
    note held = rbac_permission_new_Inr [OF v(2)]
    then obtain d where d: "role = JObj d" "map_of d ''permission'' = Some (JStr (perm_string held))"
      using v(1) by (cases role) (auto split: option.splits)
    note iff = reads_hosts_iff [OF conjunct2 [OF held]]
    show ?thesis using assms dec d Some
      by (auto simp: role_host_groups_def host_definitions_def iff dict_has_def py_bind_eq_Inr
          dest: py_mapM_rscdef_named split: option.splits json.splits if_splits)
  qed
qed

lemma host_groups_loop_named:
  "host_groups_loop loads roles acc = Inr r \<Longrightarrow>
     r = (if [] \<in> set (List.map_filter host_definitions roles) then None
       else Some (acc @ concat (map (named_groups loads) (concat (List.map_filter host_definitions roles)))))"
proof (induction roles arbitrary: acc)
  case (Cons role roles)
  then obtain c where c: "role_host_groups loads role = Inr c" by (auto simp: py_bind_eqs)
  show ?case
    using Cons c role_host_groups_named [OF c]
    by (auto simp: map_filter_simps split: option.splits if_splits dest!: Cons.IH)
qed (simp add: map_filter_simps)

text \<open>
  C3: what \<open>find_host_groups\<close> leaves on the request, when it returns.  Only the roles whose
  permission is one of those that allow reading hosts, and which hold a list of resource
  definitions, count.  The attribute is written when none of these lists is empty and they name a
  group; then it holds exactly the groups that the definitions filtering on \<open>group.id\<close> list,
  in order.  In particular roles that name no group at all leave the request unrestricted.
\<close>

theorem find_host_groups_result:
  assumes "find_host_groups loads (JList roles) attr = Inr attr'"
  defines "definitions \<equiv> List.map_filter host_definitions roles"
  defines "listed \<equiv> concat (map (named_groups loads) (concat definitions))"
  shows "attr' = (if [] \<in> set definitions \<or> listed = [] then attr else Some listed)"
proof -
  from assms(1) obtain r where r: "host_groups_loop loads roles [] = Inr r"
    and a: "attr' = (case r of None \<Rightarrow> attr | Some groups \<Rightarrow> if groups = [] then attr else Some groups)"
    by (auto simp: find_host_groups_def py_bind_eqs split: option.splits)
  show ?thesis
    using a host_groups_loop_named [OF r] by (simp add: definitions_def listed_def)
qed

definition sample_roles :: "json list" where
  "sample_roles =
     [JObj [(''permission'', JStr ''inventory:hosts:read''),
            (''resourceDefinitions'', JList [JObj [(''attributeFilter'',
                JObj [(''key'', JStr ''group.id''), (''value'', JList [JStr ''g1''])])]])],
      JObj [(''permission'', JStr ''inventory:groups:read''),
            (''resourceDefinitions'', JList [])],
      JObj [(''permission'', JStr ''advisor:*:*'')]]"

theorem find_host_groups_result_witness:
  "find_host_groups (\<lambda>_. None) (JList sample_roles) None = Inr (Some [JStr ''g1'']) \<and>
   concat (map (named_groups (\<lambda>_. None)) (concat (List.map_filter host_definitions sample_roles))) = [JStr ''g1'']"
proof -
  have h: "find_host_groups (\<lambda>_. None) (JList sample_roles) None = Inr (Some [JStr ''g1''])"
    by code_simp
  show ?thesis using h find_host_groups_result [OF h] by (auto split: if_splits)
qed

end
