(* ===== verification/Kessel.thy ===== *)
theory Kessel
  imports Py_Values
begin

text \<open>
  The Kessel access-control client (\<open>api/kessel.py\<close>): resource and subject references, the
  streaming loops that hide pagination, the \<open>Kessel\<close> wrapper the rest of the code calls and
  the \<open>TestClient\<close> with its \<open>add_kessel_response\<close> context manager.  The gRPC stub is
  the record \<open>stub\<close> of the calls the code makes; the protobuf objects are the references they
  are built from.
\<close>

section \<open>References\<close>

record resource_ref =
  resource_id :: string
  resource_type :: string
  reporter_type :: string

record subject_ref =
  subject_id :: string
  subject_type :: string

text \<open>\<open>SubjectRef.as_pb2\<close>: the subject's resource, reported by RBAC.\<close>

definition subject_as_resource :: "subject_ref \<Rightarrow> resource_ref" where
  "subject_as_resource s =
     \<lparr>resource_id = subject_id s, resource_type = subject_type s, reporter_type = ''rbac''\<rparr>"

definition workspace_to_ref :: "string \<Rightarrow> resource_ref" where
  "workspace_to_ref value =
     \<lparr>resource_id = value, resource_type = ''workspace'', reporter_type = ''rbac''\<rparr>"

definition host_to_ref :: "string \<Rightarrow> resource_ref" where
  "host_to_ref value =
     \<lparr>resource_id = value, resource_type = ''host'', reporter_type = ''hbi''\<rparr>"

lemma refs_inj:
  "workspace_to_ref v = workspace_to_ref w \<longleftrightarrow> v = w"
  "host_to_ref v = host_to_ref w \<longleftrightarrow> v = w"
  "workspace_to_ref v \<noteq> host_to_ref w"
  by (simp_all add: workspace_to_ref_def host_to_ref_def)

section \<open>Streaming with continuation tokens\<close>

text \<open>
  A page is the list of items of one response, each with the continuation token it carries
  (\<open>''''\<close> for a missing one); \<open>None\<close> is a missing response.  The loop of
  \<open>get_resources\<close> asks for the next page with the token of the last item; nothing in it
  bounds the number of pages, so the model is a partial function whose outer \<open>None\<close> is a
  stream that never ends.
\<close>

type_synonym 'o pages = "string option \<Rightarrow> ('o \<times> string) list option py"

partial_function (option) get_resources ::
  "'o pages \<Rightarrow> bool \<Rightarrow> string option \<Rightarrow> 'o list py option" where
  "get_resources page fetch_all token =
     (case page token of
        Inl e \<Rightarrow> Some (Inl e)
      | Inr resp \<Rightarrow>
          (case resp of
             None \<Rightarrow> Some (Inr [])
           | Some items \<Rightarrow>
               if \<not> fetch_all then Some (Inr (map fst items))
               else if items = [] then Some (Inr [])
               else if snd (last items) = [] then Some (Inr (map fst items))
               else Option.bind (get_resources page fetch_all (Some (snd (last items))))
                      (\<lambda>rest. Some (py_bind rest (\<lambda>os. Inr (map fst items @ os))))))"

text \<open>
  The finite chains of pages, as a relation between the first token and all the objects listed.
\<close>

inductive pages_to :: "'o pages \<Rightarrow> string option \<Rightarrow> 'o list \<Rightarrow> bool" for page where
  missing: "page token = Inr None \<Longrightarrow> pages_to page token []"
| last_page: "page token = Inr (Some items) \<Longrightarrow> items = [] \<or> snd (last items) = [] \<Longrightarrow>
     pages_to page token (map fst items)"
| next_page: "page token = Inr (Some items) \<Longrightarrow> items \<noteq> [] \<Longrightarrow> snd (last items) = t \<Longrightarrow> t \<noteq> [] \<Longrightarrow>
     pages_to page (Some t) rest \<Longrightarrow> pages_to page token (map fst items @ rest)"

inductive_cases pages_toE: "pages_to page token objs"

lemma get_resources_complete:
  "pages_to page token objs \<Longrightarrow> get_resources page True token = Some (Inr objs)"
proof (induction rule: pages_to.induct)
  case (missing token)
  then show ?case by (subst get_resources.simps) simp
next
  case (last_page token items)
  then show ?case by (subst get_resources.simps) auto
next
  case (next_page token items t rest)
  then show ?case by (subst get_resources.simps) simp
qed

lemma get_resources_sound:
  assumes "get_resources page True token = Some (Inr objs)"
  shows "pages_to page token objs"
proof -
  have "\<forall>objs. r = Inr objs \<longrightarrow> fa \<longrightarrow> pages_to pg tk objs"
    if "get_resources pg fa tk = Some r" for pg :: "'a pages" and fa tk r
  proof (rule get_resources.raw_induct
      [where P = "\<lambda>pg fa tk r. \<forall>objs. r = Inr objs \<longrightarrow> fa \<longrightarrow> pages_to pg tk objs", OF _ that])
    fix f :: "'a pages \<Rightarrow> bool \<Rightarrow> string option \<Rightarrow> 'a list py option"
    fix page fetch_all token r
    assume IH: "\<And>pg fa tk r. f pg fa tk = Some r \<Longrightarrow> \<forall>objs. r = Inr objs \<longrightarrow> fa \<longrightarrow> pages_to pg tk objs"
      and eq: "(case page token of
        Inl e \<Rightarrow> Some (Inl e)
      | Inr resp \<Rightarrow>
          (case resp of
             None \<Rightarrow> Some (Inr [])
           | Some items \<Rightarrow>
               if \<not> fetch_all then Some (Inr (map fst items))
               else if items = [] then Some (Inr [])
               else if snd (last items) = [] then Some (Inr (map fst items))
               else Option.bind (f page fetch_all (Some (snd (last items))))
                      (\<lambda>rest. Some (py_bind rest (\<lambda>os. Inr (map fst items @ os)))))) = Some r"
    show "\<forall>objs. r = Inr objs \<longrightarrow> fetch_all \<longrightarrow> pages_to page token objs"
    proof (intro allI impI)
      fix objs
      assume r: "r = Inr objs" and fa: "fetch_all"
      show "pages_to page token objs"
        using eq r fa IH
        by (fastforce simp: py_bind_eqs bind_eq_Some_conv
            intro: pages_to.intros pages_to.missing pages_to.last_page [of _ _ "[]", simplified]
            split: sum.splits option.splits if_splits)
    qed
  qed
  with assms show ?thesis by blast
qed

lemma get_resources_iff:
  "get_resources page True token = Some (Inr objs) \<longleftrightarrow> pages_to page token objs"
  using get_resources_complete get_resources_sound by blast

text \<open>Only the first page is read when \<open>fetch_all\<close> is false, so the loop always ends.\<close>

lemma get_resources_first_page:
  "get_resources page False token =
     Some (py_bind (page token) (\<lambda>r. Inr (case r of None \<Rightarrow> [] | Some items \<Rightarrow> map fst items)))"
  by (subst get_resources.simps) (auto split: sum.splits option.splits)

text \<open>A service that answers with the token it was asked for keeps the loop going for ever.\<close>

lemma get_resources_diverges:
  assumes "page (Some t) = Inr (Some items)" "items \<noteq> []" "snd (last items) = t" "t \<noteq> []"
  shows "get_resources page True (Some t) = None"
proof (rule ccontr)
  assume "get_resources page True (Some t) \<noteq> None"
  then obtain r where r: "get_resources page True (Some t) = Some r" by blast
  have len: "length objs \<le> n \<Longrightarrow> \<not> pages_to page (Some t) objs" for objs n
  proof (induction n arbitrary: objs)
    case 0
    then show ?case using assms by (auto elim!: pages_to.cases)
  next
    case (Suc n)
    show ?case
    proof
      assume "pages_to page (Some t) objs"
      then show False
      proof (cases rule: pages_to.cases)
        case (next_page items' t' rest)
        with assms Suc.prems have "length rest \<le> n" by (cases items) auto
        with Suc.IH next_page assms show ?thesis by auto
      qed (use assms in auto)
    qed
  qed
  have inl: "\<forall>e. r = Inl e \<longrightarrow> fa \<longrightarrow> pg = page \<longrightarrow> tk = Some t \<longrightarrow> False"
    if "get_resources pg fa tk = Some r" for pg :: "'a pages" and fa tk r
  proof (rule get_resources.raw_induct
      [where P = "\<lambda>pg fa tk r. \<forall>e. r = Inl e \<longrightarrow> fa \<longrightarrow> pg = page \<longrightarrow> tk = Some t \<longrightarrow> False", OF _ that],
      intro allI impI)
    fix f :: "'a pages \<Rightarrow> bool \<Rightarrow> string option \<Rightarrow> 'a list py option"
    fix pg fa tk r e
    assume IH: "\<And>pg fa tk r. f pg fa tk = Some r \<Longrightarrow>
        \<forall>e. r = Inl e \<longrightarrow> fa \<longrightarrow> pg = page \<longrightarrow> tk = Some t \<longrightarrow> False"
      and "r = Inl e" "fa" "pg = page" "tk = Some t"
      and "(case pg tk of
        Inl e \<Rightarrow> Some (Inl e)
      | Inr resp \<Rightarrow>
          (case resp of
             None \<Rightarrow> Some (Inr [])
           | Some items \<Rightarrow>
               if \<not> fa then Some (Inr (map fst items))
               else if items = [] then Some (Inr [])
               else if snd (last items) = [] then Some (Inr (map fst items))
               else Option.bind (f pg fa (Some (snd (last items))))
                      (\<lambda>rest. Some (py_bind rest (\<lambda>os. Inr (map fst items @ os)))))) = Some r"
    with assms show False
      by (auto simp: bind_eq_Some_conv py_bind_eqs dest: IH)
  qed
  show False
  proof (cases r)
    case (Inl e)
    with inl [OF r] show False by simp
  next
    case (Inr objs)
    with r have "pages_to page (Some t) objs" by (simp add: get_resources_iff)
    with len show False by blast
  qed
qed

text \<open>
  The interface a caller of the loop relies on: the pages of the service form a finite chain that
  lists \<open>objs\<close>.
\<close>

locale paged_listing =
  fixes page :: "'o pages" and objs :: "'o list"
  assumes chain: "pages_to page None objs"
begin

lemma lists_all: "get_resources page True None = Some (Inr objs)"
  using chain by (rule get_resources_complete)

lemma comprehension: "map_option (\<lambda>r. py_bind r (\<lambda>os. Inr (map f os))) (get_resources page True None)
    = Some (Inr (map f objs))"
  by (simp add: lists_all)

end

section \<open>The gRPC stub and the wrapper\<close>

datatype allowed = ALLOWED_UNSPECIFIED | ALLOWED_TRUE | ALLOWED_FALSE

record check_request =
  cr_subject :: resource_ref
  cr_relation :: string
  cr_object :: resource_ref

record stub =
  stub_Check :: "check_request \<Rightarrow> allowed py"
  \<comment> \<open>object type, relation, subject, limit\<close>
  stub_StreamedListObjects :: "string \<Rightarrow> string \<Rightarrow> resource_ref \<Rightarrow> nat \<Rightarrow> string pages"
  \<comment> \<open>subject type, relation, resource, limit\<close>
  stub_StreamedListSubjects :: "string \<Rightarrow> string \<Rightarrow> resource_ref \<Rightarrow> nat \<Rightarrow> string pages"

text \<open>\<open>Kessel.check\<close>: an unspecified answer counts as denied, a missing client denies.\<close>

definition kessel_check ::
  "stub option \<Rightarrow> resource_ref \<Rightarrow> string \<Rightarrow> subject_ref \<Rightarrow> bool py" where
  "kessel_check client resource relation subject =
     (case client of
        None \<Rightarrow> Inr False
      | Some c \<Rightarrow>
          py_bind (stub_Check c \<lparr>cr_subject = subject_as_resource subject, cr_relation = relation,
              cr_object = resource\<rparr>)
            (\<lambda>response. Inr (response = ALLOWED_TRUE)))"

text \<open>
  \<open>Kessel.host_groups_for\<close> returns the list of workspaces, or \<open>False\<close> without a client:
  the two shapes of a result that \<open>has_kessel_permission\<close> passes on.
\<close>

datatype kessel_result = KBool bool | KList "string list"

definition host_groups_for :: "stub option \<Rightarrow> subject_ref \<Rightarrow> kessel_result py option" where
  "host_groups_for client subject =
     (case client of
        None \<Rightarrow> Some (Inr (KBool False))
      | Some c \<Rightarrow>
          map_option (\<lambda>r. py_bind r (\<lambda>ids. Inr (KList ids)))
            (get_resources
               (stub_StreamedListObjects c ''workspace'' ''inventory_host_view''
                  (subject_as_resource subject) 1000)
               True None))"

definition redhat_prefix :: string where
  "redhat_prefix = ''redhat/''"

definition strip_redhat :: "string \<Rightarrow> string" where
  "strip_redhat s = (if prefix redhat_prefix s then drop (length redhat_prefix) s else s)"

definition subjects_with_permission ::
  "stub option \<Rightarrow> resource_ref \<Rightarrow> string \<Rightarrow> string list py option" where
  "subjects_with_permission client resource relation =
     (case client of
        None \<Rightarrow> Some (Inr [])
      | Some c \<Rightarrow>
          map_option (\<lambda>r. py_bind r (\<lambda>ids. Inr (map strip_redhat ids)))
            (get_resources (stub_StreamedListSubjects c ''principal'' relation resource 1000) True None))"

lemma strip_redhat_prefix [simp]: "strip_redhat (redhat_prefix @ s) = s"
  by (simp add: strip_redhat_def)

lemma kessel_check_True:
  "kessel_check client r rel s = Inr True \<Longrightarrow>
   \<exists>c. client = Some c \<and>
     stub_Check c \<lparr>cr_subject = subject_as_resource s, cr_relation = rel, cr_object = r\<rparr> = Inr ALLOWED_TRUE"
  by (auto simp: kessel_check_def py_bind_eqs split: option.splits)

section \<open>The test client\<close>

text \<open>
  \<open>TestClient\<close>: dictionaries from requests to responses.  The Python code keys them by the
  text of the protobuf object, which identifies it.
\<close>

record test_client =
  permission_check_responses :: "(check_request \<times> allowed) list"
  lookup_resources_responses :: "(resource_ref \<times> (string \<times> string) list) list"
  lookup_subjects_responses :: "(resource_ref \<times> (string \<times> string) list) list"

definition new_test_client :: test_client where
  "new_test_client = \<lparr>permission_check_responses = [], lookup_resources_responses = [],
     lookup_subjects_responses = []\<rparr>"

definition add_permission_check_response :: "check_request \<Rightarrow> allowed \<Rightarrow> test_client \<Rightarrow> test_client" where
  "add_permission_check_response check response tc =
     tc\<lparr>permission_check_responses := dict_set check response (permission_check_responses tc)\<rparr>"

definition add_lookup_resources_response :: "resource_ref \<Rightarrow> string list \<Rightarrow> test_client \<Rightarrow> test_client" where
  "add_lookup_resources_response subject response_ids tc =
     tc\<lparr>lookup_resources_responses :=
          dict_set subject (map (\<lambda>i. (i, [])) response_ids) (lookup_resources_responses tc)\<rparr>"

definition add_lookup_subjects_response :: "resource_ref \<Rightarrow> string list \<Rightarrow> test_client \<Rightarrow> test_client" where
  "add_lookup_subjects_response resource user_ids tc =
     tc\<lparr>lookup_subjects_responses :=
          dict_set resource (map (\<lambda>u. (redhat_prefix @ u, [])) user_ids) (lookup_subjects_responses tc)\<rparr>"

text \<open>\<open>del d[k]\<close> raises \<open>KeyError\<close> for a missing key.\<close>

definition del_permission_check_response :: "check_request \<Rightarrow> (test_client, unit) act" where
  "del_permission_check_response check = (\<lambda>tc.
     if dict_has (permission_check_responses tc) check
     then (Inr (), tc\<lparr>permission_check_responses := dict_del check (permission_check_responses tc)\<rparr>)
     else (Inl (KeyError ''check''), tc))"

definition del_lookup_resources_response :: "resource_ref \<Rightarrow> (test_client, unit) act" where
  "del_lookup_resources_response subject = (\<lambda>tc.
     if dict_has (lookup_resources_responses tc) subject
     then (Inr (), tc\<lparr>lookup_resources_responses := dict_del subject (lookup_resources_responses tc)\<rparr>)
     else (Inl (KeyError ''subject''), tc))"

definition del_lookup_subjects_response :: "resource_ref \<Rightarrow> (test_client, unit) act" where
  "del_lookup_subjects_response resource = (\<lambda>tc.
     if dict_has (lookup_subjects_responses tc) resource
     then (Inr (), tc\<lparr>lookup_subjects_responses := dict_del resource (lookup_subjects_responses tc)\<rparr>)
     else (Inl (KeyError ''resource''), tc))"

definition tc_Check :: "test_client \<Rightarrow> check_request \<Rightarrow> allowed py" where
  "tc_Check tc check =
     (case map_of (permission_check_responses tc) check of
        None \<Rightarrow> Inl NotImplementedError
      | Some r \<Rightarrow> Inr r)"

definition tc_StreamedListObjects :: "test_client \<Rightarrow> resource_ref \<Rightarrow> string pages" where
  "tc_StreamedListObjects tc subject token =
     (case map_of (lookup_resources_responses tc) subject of
        None \<Rightarrow> Inl NotImplementedError
      | Some items \<Rightarrow> Inr (Some items))"

definition tc_StreamedListSubjects :: "test_client \<Rightarrow> resource_ref \<Rightarrow> string pages" where
  "tc_StreamedListSubjects tc resource token =
     (case map_of (lookup_subjects_responses tc) resource of
        None \<Rightarrow> Inl NotImplementedError
      | Some items \<Rightarrow> Inr (Some items))"

definition test_stub :: "test_client \<Rightarrow> stub" where
  "test_stub tc =
     \<lparr>stub_Check = tc_Check tc,
      stub_StreamedListObjects = (\<lambda>_ _ subject _. tc_StreamedListObjects tc subject),
      stub_StreamedListSubjects = (\<lambda>_ _ resource _. tc_StreamedListSubjects tc resource)\<rparr>"

text \<open>Every listing of the test client is one page without a continuation token.\<close>

lemma snd_last_no_tokens: "xs = [] \<or> snd (last (map (\<lambda>i. (f i, [])) xs)) = []"
  by (cases "xs = []") (simp_all add: last_map)

interpretation tc_objects: paged_listing
  "tc_StreamedListObjects (add_lookup_resources_response s ids tc) s" ids for s ids tc
proof
  have "pages_to (tc_StreamedListObjects (add_lookup_resources_response s ids tc) s) None
      (map fst (map (\<lambda>i. (i, [] :: string)) ids))"
    by (rule pages_to.last_page)
      (simp_all add: tc_StreamedListObjects_def add_lookup_resources_response_def snd_last_no_tokens)
  then show "pages_to (tc_StreamedListObjects (add_lookup_resources_response s ids tc) s) None ids"
    by (simp add: comp_def)
qed

interpretation tc_subjects: paged_listing
  "tc_StreamedListSubjects (add_lookup_subjects_response r us tc) r"
  "map (\<lambda>u. redhat_prefix @ u) us" for r us tc
proof
  have "pages_to (tc_StreamedListSubjects (add_lookup_subjects_response r us tc) r) None
      (map fst (map (\<lambda>u. (redhat_prefix @ u, [] :: string)) us))"
    by (rule pages_to.last_page)
      (simp_all add: tc_StreamedListSubjects_def add_lookup_subjects_response_def snd_last_no_tokens)
  then show "pages_to (tc_StreamedListSubjects (add_lookup_subjects_response r us tc) r) None
      (map (\<lambda>u. redhat_prefix @ u) us)"
    by (simp add: comp_def)
qed

section \<open>The context manager \<open>add_kessel_response\<close>\<close>

type_synonym checks = "(check_request \<times> allowed) list"
type_synonym lookups = "(resource_ref \<times> string list) list"

definition akr_enter :: "checks \<Rightarrow> lookups \<Rightarrow> test_client \<Rightarrow> test_client" where
  "akr_enter checks lookups tc =
     fold (\<lambda>(s, ids). add_lookup_resources_response s ids) lookups
       (fold (\<lambda>(c, r). add_permission_check_response c r) checks tc)"

definition akr_exit :: "checks \<Rightarrow> lookups \<Rightarrow> (test_client, unit) act" where
  "akr_exit checks lookups =
     a_then (a_for (\<lambda>(c, _). del_permission_check_response c) checks)
            (a_for (\<lambda>(s, _). del_lookup_resources_response s) lookups)"

text \<open>
  \<open>with self: fn()\<close>: the exit runs whether the body returned or raised, and its own
  exception replaces the body's.
\<close>

definition akr_with :: "checks \<Rightarrow> lookups \<Rightarrow> (test_client, 'a) act \<Rightarrow> (test_client, 'a) act" where
  "akr_with checks lookups fn = (\<lambda>tc.
     case fn (akr_enter checks lookups tc) of
       (res, tc') \<Rightarrow> (case akr_exit checks lookups tc' of
                        (Inl e, tc'') \<Rightarrow> (Inl e, tc'')
                      | (Inr _, tc'') \<Rightarrow> (res, tc'')))"

lemma dict_set_fresh: "k \<notin> fst ` set d \<Longrightarrow> dict_set k v d = d @ [(k, v)]"
  by (induction d) auto

lemma dict_del_append_fresh:
  "k \<notin> fst ` set d \<Longrightarrow> k \<notin> fst ` set e \<Longrightarrow> dict_del k (d @ (k, v) # e) = d @ e"
proof -
  assume "k \<notin> fst ` set d" "k \<notin> fst ` set e"
  then have "filter (\<lambda>(k', _). k' \<noteq> k) d = d" "filter (\<lambda>(k', _). k' \<noteq> k) e = e"
    by (auto simp: filter_id_conv image_iff)
  then show ?thesis by (simp add: dict_del_def)
qed

lemma akr_enter_checks:
  "distinct (map fst checks) \<Longrightarrow> fst ` set checks \<inter> fst ` set (permission_check_responses tc) = {} \<Longrightarrow>
   fold (\<lambda>(c, r). add_permission_check_response c r) checks tc =
     tc\<lparr>permission_check_responses := permission_check_responses tc @ checks\<rparr>"
proof (induction checks arbitrary: tc)
  case Nil
  then show ?case by simp
next
  case (Cons x checks)
  obtain c r where x: "x = (c, r)" by force
  let ?tc = "add_permission_check_response c r tc"
  have tc: "?tc = tc\<lparr>permission_check_responses := permission_check_responses tc @ [(c, r)]\<rparr>"
    using Cons.prems x by (simp add: add_permission_check_response_def dict_set_fresh)
  have "fst ` set checks \<inter> fst ` set (permission_check_responses ?tc) = {}"
    using Cons.prems x tc by auto
  then have "fold (\<lambda>(c, r). add_permission_check_response c r) checks ?tc =
      ?tc\<lparr>permission_check_responses := permission_check_responses ?tc @ checks\<rparr>"
    using Cons by simp
  then show ?case using x tc by simp
qed

lemma akr_enter_lookups:
  "distinct (map fst lookups) \<Longrightarrow> fst ` set lookups \<inter> fst ` set (lookup_resources_responses tc) = {} \<Longrightarrow>
   fold (\<lambda>(s, ids). add_lookup_resources_response s ids) lookups tc =
     tc\<lparr>lookup_resources_responses := lookup_resources_responses tc @
          map (\<lambda>(s, ids). (s, map (\<lambda>i. (i, [])) ids)) lookups\<rparr>"
proof (induction lookups arbitrary: tc)
  case Nil
  then show ?case by simp
next
  case (Cons x lookups)
  obtain s ids where x: "x = (s, ids)" by force
  let ?tc = "add_lookup_resources_response s ids tc"
  have tc: "?tc = tc\<lparr>lookup_resources_responses :=
      lookup_resources_responses tc @ [(s, map (\<lambda>i. (i, [])) ids)]\<rparr>"
    using Cons.prems x by (simp add: add_lookup_resources_response_def dict_set_fresh)
  have "fst ` set lookups \<inter> fst ` set (lookup_resources_responses ?tc) = {}"
    using Cons.prems x tc by auto
  then have "fold (\<lambda>(s, ids). add_lookup_resources_response s ids) lookups ?tc =
      ?tc\<lparr>lookup_resources_responses := lookup_resources_responses ?tc @
          map (\<lambda>(s, ids). (s, map (\<lambda>i. (i, [])) ids)) lookups\<rparr>"
    using Cons by simp
  then show ?case using x tc by simp
qed

lemma akr_exit_checks:
  "distinct (map fst checks) \<Longrightarrow> fst ` set checks \<inter> fst ` set d = {} \<Longrightarrow>
   permission_check_responses tc = d @ checks \<Longrightarrow>
   a_for (\<lambda>(c, _). del_permission_check_response c) checks tc =
     (Inr (), tc\<lparr>permission_check_responses := d\<rparr>)"
proof (induction checks arbitrary: tc)
  case Nil
  then show ?case by simp
next
  case (Cons x checks)
  obtain c r where x: "x = (c, r)" by force
  have "dict_del c (d @ (c, r) # checks) = d @ checks"
    using Cons.prems x by (intro dict_del_append_fresh) auto
  then have "del_permission_check_response c tc =
      (Inr (), tc\<lparr>permission_check_responses := d @ checks\<rparr>)"
    using Cons.prems(3) x by (auto simp: del_permission_check_response_def dict_has_iff)
  then show ?case using Cons x by (simp add: a_then_app)
qed

lemma akr_exit_lookups:
  "distinct (map fst lookups) \<Longrightarrow> fst ` set lookups \<inter> fst ` set d = {} \<Longrightarrow>
   lookup_resources_responses tc = d @ map (\<lambda>(s, ids). (s, g ids)) lookups \<Longrightarrow>
   a_for (\<lambda>(s, _). del_lookup_resources_response s) lookups tc =
     (Inr (), tc\<lparr>lookup_resources_responses := d\<rparr>)"
proof (induction lookups arbitrary: tc)
  case Nil
  then show ?case by simp
next
  case (Cons x lookups)
  obtain s ids where x: "x = (s, ids)" by force
  let ?rest = "map (\<lambda>(s, ids). (s, g ids)) lookups"
  have "fst ` set ?rest = fst ` set lookups" by force
  then have "dict_del s (d @ (s, g ids) # ?rest) = d @ ?rest"
    using Cons.prems x by (intro dict_del_append_fresh) auto
  then have "del_lookup_resources_response s tc =
      (Inr (), tc\<lparr>lookup_resources_responses := d @ ?rest\<rparr>)"
    using Cons.prems(3) x by (auto simp: del_lookup_resources_response_def dict_has_iff)
  then show ?case using Cons x by (simp add: a_then_app)
qed

section \<open>Properties\<close>

text \<open>
  C21: \<open>get_resources\<close> with \<open>fetch_all\<close> returns a list of objects exactly when the
  pages of the service, followed from the first one by the continuation token of their last item,
  form a finite chain that ends in an empty, missing or token-less page, and then it returns every
  object of every page, in order and once.
\<close>

theorem get_resources_lists_chain:
  "get_resources page True None = Some (Inr objs) \<longleftrightarrow> pages_to page None objs"
  by (rule get_resources_iff)

text \<open>
  C22: the loop has no bound of its own: a service that keeps answering with a non-empty page whose
  last continuation token is the one it was asked with makes \<open>get_resources\<close> never return,
  while without \<open>fetch_all\<close> it returns after one page whatever the service does.
\<close>

theorem get_resources_no_progress:
  assumes "page None = Inr (Some items)" "page (Some t) = Inr (Some items)"
    "items \<noteq> []" "snd (last items) = t" "t \<noteq> []"
  shows "get_resources page True None = None \<and>
    get_resources page False None = Some (Inr (map fst items))"
proof
  have "get_resources page True (Some t) = None"
    using assms by (intro get_resources_diverges) auto
  then show "get_resources page True None = None"
    using assms by (subst get_resources.simps) simp
  show "get_resources page False None = Some (Inr (map fst items))"
    using assms by (simp add: get_resources_first_page)
qed

theorem get_resources_no_progress_witness:
  "get_resources (\<lambda>_. Inr (Some [(''ws'', ''token'')])) True None = None \<and>
   get_resources (\<lambda>_. Inr (Some [(''ws'', ''token'')])) False None = Some (Inr [''ws''])"
  using get_resources_no_progress [of "\<lambda>_. Inr (Some [(''ws'', ''token'')])" "[(''ws'', ''token'')]" "''token''"]
  by simp

text \<open>
  Inside \<open>with add_kessel_response(checks, lookups)\<close> the test client answers every
  permission check and workspace listing the context adds, and after a body that leaves the client
  alone the client is as it was before, provided the added keys are distinct and new.
\<close>

theorem add_kessel_response_restores:
  assumes "distinct (map fst checks)" "distinct (map fst lookups)"
    and "fst ` set checks \<inter> fst ` set (permission_check_responses tc) = {}"
    and "fst ` set lookups \<inter> fst ` set (lookup_resources_responses tc) = {}"
    and body: "fn (akr_enter checks lookups tc) = (res, akr_enter checks lookups tc)"
  shows "akr_with checks lookups fn tc = (res, tc) \<and>
    (\<forall>c r. (c, r) \<in> set checks \<longrightarrow> stub_Check (test_stub (akr_enter checks lookups tc)) c = Inr r) \<and>
    (\<forall>s ids. (s, ids) \<in> set lookups \<longrightarrow>
       get_resources (stub_StreamedListObjects (test_stub (akr_enter checks lookups tc))
         ''workspace'' ''inventory_host_view'' s 1000) True None = Some (Inr ids))"
proof -
  let ?g = "map (\<lambda>i. (i, [] :: string))"
  let ?tc = "tc\<lparr>permission_check_responses := permission_check_responses tc @ checks,
    lookup_resources_responses := lookup_resources_responses tc @ map (\<lambda>(s, ids). (s, ?g ids)) lookups\<rparr>"
  have enter: "akr_enter checks lookups tc = ?tc"
    unfolding akr_enter_def using assms(1-4) by (simp add: akr_enter_checks akr_enter_lookups)
  have x1: "a_for (\<lambda>(c, _). del_permission_check_response c) checks ?tc =
      (Inr (), ?tc\<lparr>permission_check_responses := permission_check_responses tc\<rparr>)"
    by (rule akr_exit_checks) (use assms(1,3) in auto)
  have eq: "?tc\<lparr>permission_check_responses := permission_check_responses tc,
      lookup_resources_responses := lookup_resources_responses tc\<rparr> = tc"
    by simp
  have "a_for (\<lambda>(s, _). del_lookup_resources_response s) lookups
      (?tc\<lparr>permission_check_responses := permission_check_responses tc\<rparr>) =
      (Inr (), ?tc\<lparr>permission_check_responses := permission_check_responses tc,
        lookup_resources_responses := lookup_resources_responses tc\<rparr>)"
    by (rule akr_exit_lookups [where g = ?g]) (use assms(2,4) in auto)
  then have x2: "a_for (\<lambda>(s, _). del_lookup_resources_response s) lookups
      (?tc\<lparr>permission_check_responses := permission_check_responses tc\<rparr>) = (Inr (), tc)"
    unfolding eq .
  have "akr_exit checks lookups ?tc = (Inr (), tc)"
    unfolding akr_exit_def a_then_app x1 by (simp only: prod.case sum.case x2)
  then have w: "akr_with checks lookups fn tc = (res, tc)"
    using body by (simp add: akr_with_def enter)
  have c: "stub_Check (test_stub ?tc) c = Inr r" if "(c, r) \<in> set checks" for c r
  proof -
    have "map_of (permission_check_responses tc) c = None"
      using that assms(3) by (force simp: map_of_eq_None_iff)
    moreover have "map_of checks c = Some r" using that assms(1) by simp
    ultimately show ?thesis by (simp add: test_stub_def tc_Check_def map_add_def)
  qed
  have l: "get_resources (stub_StreamedListObjects (test_stub ?tc)
      ''workspace'' ''inventory_host_view'' s 1000) True None = Some (Inr ids)"
    if "(s, ids) \<in> set lookups" for s ids
  proof -
    have "map_of (lookup_resources_responses tc) s = None"
      using that assms(4) by (force simp: map_of_eq_None_iff)
    moreover have "map_of (map (\<lambda>(s, ids). (s, ?g ids)) lookups) s = Some (?g ids)"
      using that assms(2) by (subst map_of_map) simp
    ultimately have p: "tc_StreamedListObjects ?tc s = (\<lambda>_. Inr (Some (?g ids)))"
      by (intro ext) (simp add: tc_StreamedListObjects_def map_add_def)
    have "pages_to (tc_StreamedListObjects ?tc s) None (map fst (?g ids))"
      by (rule pages_to.last_page) (simp_all add: p snd_last_no_tokens)
    then show ?thesis by (simp add: test_stub_def get_resources_complete comp_def)
  qed
  show ?thesis using w c l by (simp add: enter)
qed

definition sample_check :: check_request where
  "sample_check = \<lparr>cr_subject = workspace_to_ref ''u'', cr_relation = ''r'', cr_object = workspace_to_ref ''w''\<rparr>"

theorem add_kessel_response_restores_witness:
  "akr_with [(sample_check, ALLOWED_TRUE)] [(workspace_to_ref ''u'', [''g''])] (a_ret True) new_test_client =
     (Inr True, new_test_client) \<and>
   stub_Check (test_stub (akr_enter [(sample_check, ALLOWED_TRUE)] [(workspace_to_ref ''u'', [''g''])]
     new_test_client)) sample_check = Inr ALLOWED_TRUE"
  using add_kessel_response_restores [of "[(sample_check, ALLOWED_TRUE)]" "[(workspace_to_ref ''u'', [''g''])]"
      new_test_client "a_ret True" "Inr True"]
  by (simp add: new_test_client_def)

end
