(* ===== verification/Http_Retry.thy ===== *)
theory Http_Retry
  imports Py_Values
begin

text \<open>
  \<open>retry_request\<close> of \<open>api/utils.py\<close>: the loop every HTTP call of the API goes through
  (RBAC, middleware).  The outcome of the n-th attempt and the time it takes are parameters; the
  loop, its back-off and its early returns are modelled.
\<close>

record response =
  status_code :: int
  body :: "json option"   \<comment> \<open>what \<open>.json()\<close> returns; \<open>None\<close> where it raises\<close>

definition no_connection :: response where
  "no_connection = \<lparr>status_code = 599, body = None\<rparr>"

datatype attempt = Answer response | ConnFail | TimedOut | Raised pyexn

text \<open>\<open>time_exponent ** (retry - 2)\<close>, or 0.01 seconds in a development environment.\<close>

definition backoff :: "bool \<Rightarrow> rat \<Rightarrow> nat \<Rightarrow> rat" where
  "backoff dev base retry = (if dev then 1 / 100 else base powi (int retry - 2))"

record retry_result =
  rr_response :: response
  rr_tries :: nat
  rr_elapsed :: rat

text \<open>
  The loop, with \<open>n\<close> attempts left: the response so far, the attempts made, the time spent.
\<close>

fun retry_loop ::
  "(nat \<Rightarrow> attempt) \<Rightarrow> (nat \<Rightarrow> rat) \<Rightarrow> (nat \<Rightarrow> rat) \<Rightarrow> bool \<Rightarrow> nat \<Rightarrow> retry_result \<Rightarrow> retry_result py" where
  "retry_loop att dur sleep retry_timeouts 0 r = Inr r"
| "retry_loop att dur sleep retry_timeouts (Suc n) r =
     (let retry = rr_tries r + 1;
          asked = r\<lparr>rr_tries := retry, rr_elapsed := rr_elapsed r + dur retry\<rparr>;
          slept = (\<lambda>x. x\<lparr>rr_elapsed := rr_elapsed x + sleep retry\<rparr>)
      in case att retry of
           Answer resp \<Rightarrow>
             if status_code resp < 500 then Inr (asked\<lparr>rr_response := resp\<rparr>)
             else retry_loop att dur sleep retry_timeouts n (slept (asked\<lparr>rr_response := resp\<rparr>))
         | ConnFail \<Rightarrow> retry_loop att dur sleep retry_timeouts n (slept asked)
         | TimedOut \<Rightarrow>
             if \<not> retry_timeouts then Inr asked
             else retry_loop att dur sleep retry_timeouts n (slept asked)
         | Raised e \<Rightarrow> Inl e)"

definition retry_request ::
  "bool \<Rightarrow> (nat \<Rightarrow> attempt) \<Rightarrow> (nat \<Rightarrow> rat) \<Rightarrow> nat \<Rightarrow> rat \<Rightarrow> bool \<Rightarrow> retry_result py" where
  "retry_request dev att dur max_retries time_exponent retry_timeouts =
     retry_loop att dur (backoff dev time_exponent) retry_timeouts max_retries
       \<lparr>rr_response = no_connection, rr_tries = 0, rr_elapsed = 0\<rparr>"

text \<open>The defaults of the Python signature: 3 retries, exponent 5, time-outs not retried.\<close>

definition retry_request_default ::
  "bool \<Rightarrow> (nat \<Rightarrow> attempt) \<Rightarrow> (nat \<Rightarrow> rat) \<Rightarrow> retry_result py" where
  "retry_request_default dev att dur = retry_request dev att dur 3 5 False"

section \<open>What the loop does\<close>

text \<open>An attempt that makes the loop go on.\<close>

definition retryable :: "bool \<Rightarrow> attempt \<Rightarrow> bool" where
  "retryable retry_timeouts a =
     (case a of Answer resp \<Rightarrow> status_code resp \<ge> 500 | ConnFail \<Rightarrow> True
      | TimedOut \<Rightarrow> retry_timeouts | Raised _ \<Rightarrow> False)"

text \<open>The answer kept after a run of failed attempts.\<close>

fun last_answer :: "response \<Rightarrow> attempt list \<Rightarrow> response" where
  "last_answer r [] = r"
| "last_answer r (Answer r' # as) = last_answer r' as"
| "last_answer r (_ # as) = last_answer r as"

lemma last_answer_snoc [simp]:
  "last_answer r (as @ [a]) = (case a of Answer r' \<Rightarrow> r' | _ \<Rightarrow> last_answer r as)"
  by (induction r as rule: last_answer.induct) (auto split: attempt.splits)

definition after_tries ::
  "(nat \<Rightarrow> attempt) \<Rightarrow> (nat \<Rightarrow> rat) \<Rightarrow> (nat \<Rightarrow> rat) \<Rightarrow> retry_result \<Rightarrow> nat \<Rightarrow> retry_result" where
  "after_tries att dur sleep r k =
     \<lparr>rr_response = last_answer (rr_response r) (map (\<lambda>i. att (rr_tries r + i)) [1..<Suc k]),
      rr_tries = rr_tries r + k,
      rr_elapsed = rr_elapsed r + (\<Sum>i = 1..k. dur (rr_tries r + i) + sleep (rr_tries r + i))\<rparr>"

lemma after_tries_0 [simp]: "after_tries att dur sleep r 0 = r"
  by (simp add: after_tries_def)

lemma rr_tries_after [simp]: "rr_tries (after_tries att dur sleep r k) = rr_tries r + k"
  by (simp add: after_tries_def)

lemma retry_loop_skip:
  assumes "\<And>i. 1 \<le> i \<Longrightarrow> i \<le> k \<Longrightarrow> retryable rt (att (rr_tries r + i))" "k \<le> n"
  shows "retry_loop att dur sleep rt n r =
    retry_loop att dur sleep rt (n - k) (after_tries att dur sleep r k)"
  using assms
proof (induction k)
  case 0
  then show ?case by simp
next
  case (Suc k)
  let ?a = "after_tries att dur sleep r k"
  obtain m where m: "n - k = Suc m" "n - Suc k = m"
    using Suc.prems(2) by (metis Suc_diff_Suc Suc_le_lessD diff_Suc_Suc)
  have rt: "retryable rt (att (rr_tries ?a + 1))"
    using Suc.prems(1) [of "Suc k"] by simp
  have s: "after_tries att dur sleep r (Suc k) =
    (case att (rr_tries ?a + 1) of Answer x \<Rightarrow> ?a\<lparr>rr_tries := rr_tries ?a + 1, rr_response := x,
         rr_elapsed := rr_elapsed ?a + dur (rr_tries ?a + 1) + sleep (rr_tries ?a + 1)\<rparr>
     | _ \<Rightarrow> ?a\<lparr>rr_tries := rr_tries ?a + 1,
         rr_elapsed := rr_elapsed ?a + dur (rr_tries ?a + 1) + sleep (rr_tries ?a + 1)\<rparr>)"
    by (auto simp: after_tries_def split: attempt.splits)
  have "retry_loop att dur sleep rt (Suc m) ?a =
      retry_loop att dur sleep rt m (after_tries att dur sleep r (Suc k))"
    using rt s by (auto simp: retryable_def Let_def split: attempt.splits)
  with Suc.IH Suc.prems m show ?case by simp
qed

lemma retry_loop_tries:
  "retry_loop att dur sleep rt n r = Inr r' \<Longrightarrow> rr_tries r' \<le> rr_tries r + n"
proof (induction n arbitrary: r rt)
  case 0
  then show ?case by simp
next
  case (Suc n)
  from Suc.prems show ?case
    by (auto simp: Let_def dest!: Suc.IH split: attempt.splits if_splits)
qed

lemma retry_loop_success:
  assumes "att (rr_tries r + Suc k) = Answer resp" "status_code resp < 500" "k < n"
    and "\<And>i. 1 \<le> i \<Longrightarrow> i \<le> k \<Longrightarrow> retryable rt (att (rr_tries r + i))"
  shows "\<exists>r'. retry_loop att dur sleep rt n r = Inr r' \<and>
    rr_response r' = resp \<and> rr_tries r' = rr_tries r + Suc k"
proof -
  obtain m where "n - k = Suc m"
    using assms(3) by (metis Suc_diff_Suc)
  then show ?thesis
    using retry_loop_skip [of k rt att r n dur sleep] assms by (simp add: Let_def)
qed

lemma retry_loop_exhausted:
  assumes "\<And>i. 1 \<le> i \<Longrightarrow> i \<le> n \<Longrightarrow> retryable rt (att (rr_tries r + i))"
  shows "retry_loop att dur sleep rt n r = Inr (after_tries att dur sleep r n)"
  using retry_loop_skip [of n rt att r n dur sleep] assms by simp

section \<open>Properties\<close>

text \<open>
  \<open>retry_request\<close> makes at most \<open>max_retries\<close> attempts.  It stops at the first
  answer with a status below 500, provided the attempts before it were server errors or connection
  failures (or time-outs, when those are retried), and returns that answer; when every attempt is
  of that kind it returns after exactly \<open>max_retries\<close> attempts with the last answer received,
  or with the made-up status 599 when there was none.
\<close>

theorem retry_request_result:
  assumes "\<And>i. 1 \<le> i \<Longrightarrow> i < k \<Longrightarrow> retryable rt (att i)" "1 \<le> k" "k \<le> Suc max_retries"
    and "k \<le> max_retries \<Longrightarrow> \<exists>resp. att k = Answer resp \<and> status_code resp < 500"
  shows "\<exists>r. retry_request dev att dur max_retries e rt = Inr r \<and> rr_tries r \<le> max_retries \<and>
    (k \<le> max_retries \<longrightarrow> att k = Answer (rr_response r) \<and> rr_tries r = k) \<and>
    (k = Suc max_retries \<longrightarrow> rr_tries r = max_retries \<and>
       rr_response r = last_answer no_connection (map att [1..<k]))"
proof (cases "k \<le> max_retries")
  case True
  then obtain resp where resp: "att k = Answer resp" "status_code resp < 500"
    using assms(4) by blast
  obtain j where j: "k = Suc j" using assms(2) by (cases k) auto
  let ?r = "\<lparr>rr_response = no_connection, rr_tries = 0, rr_elapsed = 0\<rparr>"
  have "\<exists>r'. retry_loop att dur (backoff dev e) rt max_retries ?r = Inr r' \<and>
      rr_response r' = resp \<and> rr_tries r' = rr_tries ?r + Suc j"
    using True resp j assms(1) by (intro retry_loop_success) auto
  with resp j True show ?thesis by (auto simp: retry_request_def)
next
  case False
  with assms(3) have k: "k = Suc max_retries" by simp
  let ?r = "\<lparr>rr_response = no_connection, rr_tries = 0, rr_elapsed = 0\<rparr>"
  have "retry_request dev att dur max_retries e rt =
      Inr (after_tries att dur (backoff dev e) ?r max_retries)"
    unfolding retry_request_def by (rule retry_loop_exhausted) (use assms(1) k in auto)
  with k show ?thesis by (simp add: after_tries_def)
qed

theorem retry_request_result_witness:
  "\<exists>r. retry_request False (\<lambda>i. if i < 3 then ConnFail else Answer \<lparr>status_code = 200, body = None\<rparr>)
         (\<lambda>_. 0) 3 5 False = Inr r \<and> rr_tries r = 3 \<and> status_code (rr_response r) = 200"
proof -
  let ?att = "\<lambda>i::nat. if i < 3 then ConnFail else Answer \<lparr>status_code = 200, body = None\<rparr>"
  have "\<exists>r. retry_request False ?att (\<lambda>_. 0) 3 5 False = Inr r \<and> rr_tries r \<le> 3 \<and>
    (3 \<le> (3::nat) \<longrightarrow> ?att 3 = Answer (rr_response r) \<and> rr_tries r = 3) \<and>
    (3 = Suc 3 \<longrightarrow> rr_tries r = 3 \<and>
       rr_response r = last_answer no_connection (map ?att [1..<3]))"
    by (rule retry_request_result) (auto simp: retryable_def)
  then obtain r where "retry_request False ?att (\<lambda>_. 0) 3 5 False = Inr r" "rr_tries r = 3"
    "rr_response r = \<lparr>status_code = 200, body = None\<rparr>"
    by auto
  then show ?thesis by (intro exI [of _ r]) simp
qed

text \<open>
  With the defaults (three attempts, exponent 5) outside development, the time
  \<open>retry_request\<close> sleeps is at most 6.2 seconds, below the ten seconds its comment asks for:
  the elapsed time is at most that plus the time of the attempts themselves.
\<close>

theorem retry_sleep_bound:
  assumes "retry_request_default False att dur = Inr r" "\<And>i. 0 \<le> dur i"
  shows "rr_elapsed r \<le> 31 / 5 + (dur 1 + dur 2 + dur 3)"
proof -
  have b: "backoff False 5 1 = 1 / 5" "backoff False 5 2 = 1" "backoff False 5 3 = 5"
    by (simp_all add: backoff_def power_int_minus_divide)
  have d: "0 \<le> dur (Suc 0)" "0 \<le> dur (Suc (Suc 0))" "0 \<le> dur (Suc (Suc (Suc 0)))"
    using assms(2) by auto
  show ?thesis
    using assms(1) b d
    by (auto simp: retry_request_default_def retry_request_def Let_def numeral_3_eq_3 numeral_2_eq_2
        split: attempt.splits if_splits)
qed

theorem retry_sleep_bound_witness:
  "\<exists>r. retry_request_default False (\<lambda>_. ConnFail) (\<lambda>_. 1) = Inr r \<and> rr_elapsed r \<le> 31 / 5 + (1 + 1 + 1)"
proof -
  obtain r where r: "retry_request_default False (\<lambda>_. ConnFail) (\<lambda>_. 1) = Inr r"
    by (simp add: retry_request_default_def retry_request_def numeral_3_eq_3 Let_def)
  from retry_sleep_bound [OF this] have "rr_elapsed r \<le> 31 / 5 + (1 + 1 + 1)" by simp
  with r show ?thesis by blast
qed

end
