(* ===== verification/Identity_Auth.thy ===== *)
theory Identity_Auth
  imports Py_Values
begin

text \<open>
  Authentication (\<open>api/permissions.py\<close>): the request object with the attributes the
  authentication and permission classes read and set, the decoding of the \<open>x-rh-identity\<close>
  header, the three authentication classes, the helpers that read an authenticated request and the
  construction of headers for tests.  Base64 and JSON decoding of a header value is the parameter
  \<open>decode\<close> (\<open>None\<close> where Python raises), its inverse \<open>encode\<close>.
\<close>

section \<open>The request\<close>

text \<open>
  An attribute that may be absent is an option.  \<open>rq_auth\<close> is \<open>request.auth\<close>, where
  \<open>Some JNull\<close> is \<open>None\<close>.  The last four fields are attributes of the wrapped
  \<open>request._request\<close>.
\<close>

record request =
  rq_method :: string
  rq_meta :: "(string \<times> string) list"
  rq_user :: "json option"
  rq_service_account :: bool
  rq_auth :: "json option"
  rq_rh_identity :: "json option"
  rq_org_id :: "json option"
  rq_account :: "json option"
  rq_username :: "json option"
  rq_tp_associate :: "json option"
  rq_host_groups :: "json list option"
  rq_auth_system :: "string option"
  rq_auth_system_type :: "json option"
  rq_rbac_message :: "string option"
  rq_matched :: "(string \<times> bool) option"   \<comment> \<open>matched permission, exact match\<close>
  rq_sought :: "string option"
  rq_elapsed_ms :: "int option"

definition http_auth_header_key :: string where
  "http_auth_header_key = ''x-rh-identity''"

definition auth_header_key :: string where
  "auth_header_key = ''HTTP_X_RH_IDENTITY''"

text \<open>\<open>user_details_key\<close>\<close>

definition user_details_key :: "(string \<times> string) list" where
  "user_details_key = [(''User'', ''user''), (''ServiceAccount'', ''service_account'')]"

definition error_and_deny :: "string \<Rightarrow> ('s, 'a) act" where
  "error_and_deny msg = a_raise (AuthenticationFailed msg)"

text \<open>\<open>set_rbac_failure\<close> and \<open>set_rbac_success\<close> record a message; the first returns
  \<open>False\<close> so that a check can return it.\<close>

definition set_rbac_failure :: "string \<Rightarrow> (request, bool) act" where
  "set_rbac_failure message = a_then (a_upd (\<lambda>r. r\<lparr>rq_rbac_message := Some message\<rparr>)) (a_ret False)"

definition set_rbac_success :: "string \<Rightarrow> (request, unit) act" where
  "set_rbac_success message = a_upd (\<lambda>r. r\<lparr>rq_rbac_message := Some message\<rparr>)"

lemma set_rbac_failure_app [py_simps]:
  "set_rbac_failure m r = (Inr False, r\<lparr>rq_rbac_message := Some m\<rparr>)"
  by (simp add: set_rbac_failure_def py_simps)

lemma set_rbac_success_app [py_simps]:
  "set_rbac_success m r = (Inr (), r\<lparr>rq_rbac_message := Some m\<rparr>)"
  by (simp add: set_rbac_success_def)

section \<open>The identity header\<close>

definition get_identity_header :: "(string \<Rightarrow> json option) \<Rightarrow> (request, json option) act" where
  "get_identity_header decode = (\<lambda>rq.
     case map_of (rq_meta rq) auth_header_key of
       None \<Rightarrow> (Inr None, rq)
     | Some raw \<Rightarrow>
         (case decode raw of
            None \<Rightarrow> error_and_deny ''Unparseable HTTP_X_RH_IDENTITY data'' rq
          | Some auth_header \<Rightarrow>
              (case auth_header of
                 JObj d \<Rightarrow>
                   (case map_of d ''identity'' of
                      None \<Rightarrow> error_and_deny ''identity section not found'' rq
                    | Some identity \<Rightarrow>
                        if \<not> is_dict identity then error_and_deny ''identity field is not a structure'' rq
                        else (Inr (Some identity), rq\<lparr>rq_rh_identity := Some identity\<rparr>))
               | _ \<Rightarrow> error_and_deny ''header is not a structure'' rq)))"

lemma get_identity_header_Some:
  assumes "get_identity_header decode rq = (Inr (Some identity), rq')"
  shows "\<exists>raw d d'. map_of (rq_meta rq) auth_header_key = Some raw \<and> decode raw = Some (JObj d) \<and>
    map_of d ''identity'' = Some identity \<and> identity = JObj d' \<and> rq' = rq\<lparr>rq_rh_identity := Some identity\<rparr>"
  using assms
  by (auto simp: get_identity_header_def error_and_deny_def is_dict_iff
      split: option.splits json.splits if_splits)

section \<open>\<open>RHIdentityAuthentication\<close>\<close>

definition org_id_text :: "json \<Rightarrow> json" where
  "org_id_text org_id = (if is_int org_id then JStr (py_str (\<lambda>_. []) org_id) else org_id)"

definition rh_check_identity :: "json \<Rightarrow> (request, json \<times> json) act" where
  "rh_check_identity identity =
     a_bind (a_lift (py_in ''org_id'' identity)) (\<lambda>has_org.
       if \<not> has_org then a_raise (AuthenticationFailed ''org_id property not found'')
       else a_bind (a_lift (py_item identity ''org_id'')) (\<lambda>raw_org.
         a_bind (a_lift (py_len (org_id_text raw_org))) (\<lambda>n.
           if n > 50 then a_raise (AuthenticationFailed ''Org ID greater than 50 characters'')
           else a_bind (a_lift (py_in ''type'' identity)) (\<lambda>has_type.
             if \<not> has_type then a_raise (AuthenticationFailed ''type property not found'')
             else a_then (a_upd (\<lambda>r. r\<lparr>rq_org_id := Some (org_id_text raw_org)\<rparr>))
               (a_bind (a_lift (py_get identity ''account_number'')) (\<lambda>account.
                 a_then (a_upd (\<lambda>r. r\<lparr>rq_account := Some account\<rparr>))
                   (a_ret (org_id_text raw_org, identity))))))))"

definition rh_authenticate :: "(string \<Rightarrow> json option) \<Rightarrow> (request, json \<times> json) act" where
  "rh_authenticate decode = (\<lambda>rq.
     case (rq_rh_identity rq, rq_org_id rq) of
       (Some identity, Some org_id) \<Rightarrow> (Inr (org_id, identity), rq)
     | _ \<Rightarrow>
       a_bind (get_identity_header decode) (\<lambda>ident.
         case ident of
           None \<Rightarrow> a_raise (AuthenticationFailed ''No identity information'')
         | Some identity \<Rightarrow> rh_check_identity identity) rq)"

section \<open>\<open>TurnpikeIdentityAuthentication\<close>\<close>

text \<open>A required string property of the identity that must have one value.\<close>

definition require_const :: "json \<Rightarrow> string \<Rightarrow> string \<Rightarrow> (request, unit) act" where
  "require_const identity key val =
     a_bind (a_lift (py_in key identity)) (\<lambda>has.
       if \<not> has then a_raise (AuthenticationFailed (key @ '' not found in identity header''))
       else a_bind (a_lift (py_item identity key)) (\<lambda>v.
         if \<not> is_str v then a_raise (AuthenticationFailed (''identity.'' @ key @ '' is not a string''))
         else if v \<noteq> JStr val then a_raise (AuthenticationFailed (''identity.'' @ key @ '' is not '' @ val))
         else a_ret ()))"

definition turnpike_authenticate :: "(string \<Rightarrow> json option) \<Rightarrow> (request, json \<times> json) act" where
  "turnpike_authenticate decode =
     a_bind (get_identity_header decode) (\<lambda>ident.
       case ident of
         None \<Rightarrow> a_raise (AuthenticationFailed ''could not decode identity header'')
       | Some identity \<Rightarrow>
           a_then (require_const identity ''auth_type'' ''saml-auth'')
           (a_then (require_const identity ''type'' ''Associate'')
           (a_bind (a_lift (py_in ''associate'' identity)) (\<lambda>has.
             if \<not> has then a_raise (AuthenticationFailed ''associate not found in identity header'')
             else a_bind (a_lift (py_item identity ''associate'')) (\<lambda>assoc.
               if \<not> is_dict assoc then a_raise (AuthenticationFailed ''identity.associate is not an object'')
               else a_then (a_upd (\<lambda>r. r\<lparr>rq_tp_associate := Some assoc\<rparr>))
                 (a_ret (assoc, identity)))))))"

section \<open>\<open>ImportContentPSKAuthentication\<close>\<close>

text \<open>
  \<open>None\<close> is "not authenticated by this class".  \<open>hmac.compare_digest\<close> on two strings
  is their equality.
\<close>

definition psk_authenticate :: "string \<Rightarrow> (request, (json \<times> json) option) act" where
  "psk_authenticate psk = (\<lambda>rq.
     let auth_header = (case map_of (rq_meta rq) ''HTTP_AUTHORIZATION'' of None \<Rightarrow> '''' | Some h \<Rightarrow> h)
     in if psk = '''' then (Inr None, rq)
        else if auth_header = '''' then error_and_deny ''Authorization header is required'' rq
        else if \<not> prefix ''PSK '' auth_header
          then error_and_deny ''Authorization header must start with PSK'' rq
        else if drop 4 auth_header \<noteq> psk then error_and_deny ''Invalid pre-shared key'' rq
        else (Inr (Some (JNull, JStr ''import-content-psk-authenticated'')), rq))"

section \<open>Reading an authenticated request\<close>

text \<open>
  \<open>request_to_user_data\<close>: the \<open>user\<close> or \<open>service_account\<close> section named by the
  identity's type, \<open>{}\<close> when there is none.  An identity type that cannot be hashed raises
  \<open>TypeError\<close>.
\<close>

definition request_to_user_data :: "request \<Rightarrow> json py" where
  "request_to_user_data rq =
     (case rq_auth rq of
        None \<Rightarrow> Inr (JObj [])
      | Some identity \<Rightarrow>
          py_bind (py_in ''type'' identity) (\<lambda>has_type.
            if \<not> has_type then Inr (JObj [])
            else py_bind (py_item identity ''type'') (\<lambda>t.
              case t of
                JStr s \<Rightarrow>
                  (case map_of user_details_key s of
                     None \<Rightarrow> Inr (JObj [])
                   | Some type_key \<Rightarrow>
                       py_bind (py_in type_key identity) (\<lambda>has_key.
                         if \<not> has_key then Inr (JObj []) else py_item identity type_key))
              | JList _ \<Rightarrow> Inl TypeError
              | JObj _ \<Rightarrow> Inl TypeError
              | _ \<Rightarrow> Inr (JObj []))))"

definition username_from_identity :: "(request, json) act" where
  "username_from_identity = (\<lambda>rq.
     a_bind (a_lift (request_to_user_data rq)) (\<lambda>user_data.
       a_bind (a_lift (py_in ''username'' user_data)) (\<lambda>has.
         if \<not> has then error_and_deny ''username property not found''
         else a_bind (a_lift (py_item user_data ''username'')) (\<lambda>n.
           a_then (a_upd (\<lambda>r. r\<lparr>rq_username := Some n\<rparr>)) (a_ret n)))) rq)"

definition request_to_username :: "(request, json) act" where
  "request_to_username = (\<lambda>rq.
     case rq_username rq of
       Some u \<Rightarrow> if u \<noteq> JNull then (Inr u, rq) else username_from_identity rq
     | None \<Rightarrow> username_from_identity rq)"

definition request_to_org :: "request \<Rightarrow> json py" where
  "request_to_org rq =
     (case rq_auth rq of
        None \<Rightarrow> Inr (JStr '''')
      | Some auth \<Rightarrow>
          py_bind (py_in ''org_id'' auth) (\<lambda>has.
            if has then py_item auth ''org_id'' else Inr (JStr '''')))"

section \<open>Headers for tests\<close>

text \<open>
  The arguments of \<open>auth_header_for_testing\<close>: \<open>JNull\<close> is Python's \<open>None\<close>; an empty
  list stands for a missing or empty dictionary and \<open>''''\<close> for a missing \<open>raw\<close>.
\<close>

record auth_args =
  aa_org_id :: json
  aa_account :: json
  aa_supply_http_header :: bool
  aa_username :: json
  aa_user_id :: json
  aa_user_opts :: "(string \<times> json) list"
  aa_system_opts :: "(string \<times> json) list"
  aa_unencoded :: bool
  aa_raw :: string
  aa_service_account :: "(string \<times> json) list"

definition default_auth_args :: auth_args where
  "default_auth_args = \<lparr>aa_org_id = JNull, aa_account = JNull, aa_supply_http_header = False,
     aa_username = JStr ''testing'', aa_user_id = JStr ''16777216'', aa_user_opts = [],
     aa_system_opts = [], aa_unencoded = False, aa_raw = '''', aa_service_account = []\<rparr>"

definition set_if_given ::
  "string \<Rightarrow> json \<Rightarrow> string \<Rightarrow> (string \<times> json) list \<Rightarrow> (string \<times> json) list" where
  "set_if_given key arg dflt d =
     (if truthy arg then dict_set key arg d
      else if arg = JNull then dict_set key (JStr dflt) d
      else d)"

definition user_section :: "auth_args \<Rightarrow> (string \<times> json) list" where
  "user_section a =
     (let s1 = (if aa_username a = JNull then aa_user_opts a
                else dict_set ''username'' (aa_username a) (aa_user_opts a))
      in if aa_user_id a = JNull then s1 else dict_set ''user_id'' (aa_user_id a) s1)"

definition testing_account_section :: "auth_args \<Rightarrow> (string \<times> json) list" where
  "testing_account_section a =
     (let i = set_if_given ''account_number'' (aa_account a) ''1234567''
                (set_if_given ''org_id'' (aa_org_id a) ''9876543'' [(''auth_type'', JStr ''jwt-auth'')])
      in case map_of i ''org_id'' of None \<Rightarrow> i
         | Some o' \<Rightarrow> dict_set ''internal'' (JObj [(''org_id'', o')]) i)"

definition testing_identity :: "auth_args \<Rightarrow> (string \<times> json) list py" where
  "testing_identity a =
     (let i3 = testing_account_section a
      in if \<not> (dict_has i3 ''org_id'' \<or> dict_has i3 ''account_number'')
           then Inl (AuthenticationFailed ''both account and org_id cannot be empty'')
         else if aa_system_opts a \<noteq> [] \<and> aa_user_opts a \<noteq> []
           then Inl (AuthenticationFailed ''system-opts cannot be used with user_opts'')
         else if aa_system_opts a \<noteq> [] then
           Inr (dict_set ''auth_type'' (JStr ''cert-auth'')
                 (dict_set ''type'' (JStr ''System'')
                   (dict_set ''system'' (JObj (aa_system_opts a)) i3)))
         else if aa_service_account a \<noteq> [] then
           Inr (dict_set ''type'' (JStr ''ServiceAccount'')
                 (dict_set ''service_account'' (JObj (aa_service_account a)) i3))
         else
           Inr (dict_set ''type'' (JStr ''User'') (dict_set ''user'' (JObj (user_section a)) i3)))"

datatype header_result = Header "(string \<times> string) list" | Unencoded json

definition auth_header_for_testing :: "(json \<Rightarrow> string) \<Rightarrow> auth_args \<Rightarrow> header_result py" where
  "auth_header_for_testing encode a =
     (let key = (if aa_supply_http_header a then http_auth_header_key else auth_header_key)
      in if aa_raw a \<noteq> '''' then Inr (Header [(key, aa_raw a)])
         else py_bind (testing_identity a) (\<lambda>identity.
           let auth_value = JObj [(''identity'', JObj identity)]
           in if aa_unencoded a then Inr (Unencoded auth_value)
              else Inr (Header [(key, encode auth_value)])))"

definition turnpike_auth_header_for_testing ::
  "(json \<Rightarrow> string) \<Rightarrow> (string \<times> json) list \<Rightarrow> (string \<times> string) list" where
  "turnpike_auth_header_for_testing encode kwargs =
     (let assoc = fold (\<lambda>(k, v). dict_set k v) kwargs
            [(''Role'', JList []), (''email'', JStr ''testuser@redhat.com''),
             (''givenName'', JStr ''Test''), (''surname'', JStr ''User''),
             (''rhatUUID'', JStr ''01234567-89ab-cdef-0123-456789abcdef'')]
      in [(auth_header_key, encode (JObj [(''identity'', JObj
            [(''associate'', JObj assoc), (''auth_type'', JStr ''saml-auth''),
             (''type'', JStr ''Associate'')])]))])"

text \<open>\<open>auth_to_request\<close>: a bare GET request with the header as its \<open>META\<close>.\<close>

definition auth_to_request :: "(string \<times> string) list \<Rightarrow> request" where
  "auth_to_request auth_dict =
     \<lparr>rq_method = ''GET'', rq_meta = dict_set ''REMOTE_ADDR'' ''test'' auth_dict, rq_user = None,
      rq_service_account = False, rq_auth = None, rq_rh_identity = None, rq_org_id = None,
      rq_account = None, rq_username = None, rq_tp_associate = None, rq_host_groups = None,
      rq_auth_system = None, rq_auth_system_type = None, rq_rbac_message = None,
      rq_matched = None, rq_sought = None, rq_elapsed_ms = None\<rparr>"

text \<open>What DRF does with the pair an authentication class returns.\<close>

definition set_user_auth :: "json \<times> json \<Rightarrow> request \<Rightarrow> request" where
  "set_user_auth t rq = rq\<lparr>rq_user := Some (fst t), rq_auth := Some (snd t)\<rparr>"

definition request_object_for_testing ::
  "(json \<Rightarrow> string) \<Rightarrow> (string \<Rightarrow> json option) \<Rightarrow> auth_args \<Rightarrow> request py" where
  "request_object_for_testing encode decode a =
     py_bind (auth_header_for_testing encode a) (\<lambda>h.
       case h of
         Unencoded _ \<Rightarrow> Inl AttributeError
       | Header hdr \<Rightarrow>
           (case rh_authenticate decode (auth_to_request hdr) of
              (Inl e, _) \<Rightarrow> Inl e
            | (Inr t, rq) \<Rightarrow> Inr (set_user_auth t rq)))"

section \<open>What the authentication classes accept\<close>

text \<open>
  An identity object that \<open>RHIdentityAuthentication\<close> accepts, and the text of its org id.
\<close>

definition rh_acceptable :: "json \<Rightarrow> json \<Rightarrow> bool" where
  "rh_acceptable identity org_id \<longleftrightarrow>
     (\<exists>d raw n. identity = JObj d \<and> map_of d ''org_id'' = Some raw \<and> org_id = org_id_text raw \<and>
        py_len org_id = Inr n \<and> n \<le> 50 \<and> dict_has d ''type'')"

lemma rh_check_identity_iff:
  "rh_check_identity (JObj m) rq = (Inr (org_id, i), rq') \<longleftrightarrow>
     rh_acceptable (JObj m) org_id \<and> i = JObj m \<and>
     rq' = rq\<lparr>rq_org_id := Some org_id,
       rq_account := Some (case map_of m ''account_number'' of None \<Rightarrow> JNull | Some v \<Rightarrow> v)\<rparr>"
proof (cases "map_of m ''org_id''")
  case None
  then show ?thesis by (simp add: rh_check_identity_def rh_acceptable_def a_bind_app dict_has_def)
next
  case (Some raw)
  show ?thesis
  proof (cases "py_len (org_id_text raw)")
    case (Inl e)
    with Some show ?thesis
      by (auto simp: rh_check_identity_def rh_acceptable_def a_bind_app dict_has_def)
  next
    case (Inr n)
    with Some show ?thesis
      by (auto simp: rh_check_identity_def rh_acceptable_def a_bind_app a_then_app dict_has_def)
  qed
qed

lemma rh_authenticate_fresh:
  assumes "rq_rh_identity rq = None" "rh_authenticate decode rq = (Inr (org_id, identity), rq')"
  shows "rh_acceptable identity org_id \<and> rq_org_id rq' = Some org_id \<and> rq_rh_identity rq' = Some identity \<and>
    (\<exists>raw d. map_of (rq_meta rq) auth_header_key = Some raw \<and> decode raw = Some (JObj d) \<and>
      map_of d ''identity'' = Some identity)"
proof -
  from assms obtain i rq1 where g: "get_identity_header decode rq = (Inr (Some i), rq1)"
    and c: "rh_check_identity i rq1 = (Inr (org_id, identity), rq')"
    by (auto simp: rh_authenticate_def a_bind_app
        split: prod.splits sum.splits option.splits)
  from get_identity_header_Some [OF g] obtain raw d m where
    h: "map_of (rq_meta rq) auth_header_key = Some raw" "decode raw = Some (JObj d)"
       "map_of d ''identity'' = Some i" "i = JObj m" "rq1 = rq\<lparr>rq_rh_identity := Some i\<rparr>"
    by blast
  from c h(4) have "rh_check_identity (JObj m) rq1 = (Inr (org_id, identity), rq')" by simp
  then have "rh_acceptable (JObj m) org_id \<and> identity = JObj m \<and> rq_org_id rq' = Some org_id \<and>
      rq_rh_identity rq' = rq_rh_identity rq1"
    by (auto simp: rh_check_identity_iff)
  with h show ?thesis by simp
qed

lemma rh_authenticate_accepts:
  assumes "rq_rh_identity rq = None"
    and "map_of (rq_meta rq) auth_header_key = Some raw" "decode raw = Some (JObj d)"
    and "map_of d ''identity'' = Some (JObj m)" "rh_acceptable (JObj m) org_id"
  shows "\<exists>account. rh_authenticate decode rq = (Inr (org_id, JObj m),
    rq\<lparr>rq_rh_identity := Some (JObj m), rq_org_id := Some org_id, rq_account := Some account\<rparr>)"
proof -
  let ?rq = "rq\<lparr>rq_rh_identity := Some (JObj m)\<rparr>"
  have "get_identity_header decode rq = (Inr (Some (JObj m)), ?rq)"
    using assms(2-4) by (simp add: get_identity_header_def)
  moreover obtain rq' account where
    "rh_check_identity (JObj m) ?rq = (Inr (org_id, JObj m), rq')"
    "rq' = ?rq\<lparr>rq_org_id := Some org_id, rq_account := Some account\<rparr>"
    using assms(5) rh_check_identity_iff [of m ?rq org_id "JObj m"] by blast
  ultimately show ?thesis
    using assms(1) by (auto simp: rh_authenticate_def a_bind_app)
qed

lemma set_if_given_other [simp]:
  "k \<noteq> key \<Longrightarrow> map_of (set_if_given key arg dflt d) k = map_of d k"
  by (simp add: set_if_given_def)

lemma set_if_given_same:
  "arg = JNull \<or> truthy arg \<Longrightarrow> map_of (set_if_given key arg dflt d) key =
     Some (if arg = JNull then JStr dflt else arg)"
  by (auto simp: set_if_given_def)

definition testing_org_id :: "auth_args \<Rightarrow> json" where
  "testing_org_id a = (if aa_org_id a = JNull then JStr ''9876543'' else aa_org_id a)"

lemma testing_identity_keys:
  assumes "testing_identity a = Inr d" "aa_org_id a = JNull \<or> truthy (aa_org_id a)"
  shows "map_of d ''org_id'' = Some (testing_org_id a) \<and> dict_has d ''type''"
proof -
  define i3 where "i3 = testing_account_section a"
  have i3: "map_of i3 ''org_id'' = Some (testing_org_id a)"
    using assms(2) by (auto simp: i3_def testing_account_section_def testing_org_id_def set_if_given_same)
  from assms(1) consider
      "d = dict_set ''auth_type'' (JStr ''cert-auth'') (dict_set ''type'' (JStr ''System'')
             (dict_set ''system'' (JObj (aa_system_opts a)) i3))"
    | "d = dict_set ''type'' (JStr ''ServiceAccount'')
             (dict_set ''service_account'' (JObj (aa_service_account a)) i3)"
    | "d = dict_set ''type'' (JStr ''User'') (dict_set ''user'' (JObj (user_section a)) i3)"
    unfolding testing_identity_def Let_def i3_def [symmetric]
    by (metis Inl_Inr_False sum.inject(2))
  then show ?thesis
    using i3 by cases simp_all
qed

section \<open>Properties\<close>

text \<open>
  C4: on a request not authenticated before, \<open>RHIdentityAuthentication\<close> returns the pair of
  org id and identity exactly when the header decodes to an object with an \<open>identity\<close> object
  that has an \<open>org_id\<close> of at most 50 characters (an integer counts as its digits) and a
  \<open>type\<close>, and then the request remembers both.
\<close>

theorem rh_authenticate_iff:
  assumes "rq_rh_identity rq = None"
  shows "(\<exists>rq'. rh_authenticate decode rq = (Inr (org_id, identity), rq') \<and>
            rq_org_id rq' = Some org_id \<and> rq_rh_identity rq' = Some identity) \<longleftrightarrow>
    rh_acceptable identity org_id \<and>
    (\<exists>raw d. map_of (rq_meta rq) auth_header_key = Some raw \<and> decode raw = Some (JObj d) \<and>
       map_of d ''identity'' = Some identity)"
proof
  assume "\<exists>rq'. rh_authenticate decode rq = (Inr (org_id, identity), rq') \<and>
            rq_org_id rq' = Some org_id \<and> rq_rh_identity rq' = Some identity"
  with rh_authenticate_fresh [OF assms] show "rh_acceptable identity org_id \<and>
    (\<exists>raw d. map_of (rq_meta rq) auth_header_key = Some raw \<and> decode raw = Some (JObj d) \<and>
       map_of d ''identity'' = Some identity)" by blast
next
  assume h: "rh_acceptable identity org_id \<and>
    (\<exists>raw d. map_of (rq_meta rq) auth_header_key = Some raw \<and> decode raw = Some (JObj d) \<and>
       map_of d ''identity'' = Some identity)"
  then obtain raw d where m: "map_of (rq_meta rq) auth_header_key = Some raw" "decode raw = Some (JObj d)"
    "map_of d ''identity'' = Some identity" by blast
  from h obtain x where x: "identity = JObj x" by (auto simp: rh_acceptable_def)
  from m(3) x have m3: "map_of d ''identity'' = Some (JObj x)" by simp
  have "rh_acceptable (JObj x) org_id" using h x by simp
  from rh_authenticate_accepts [of rq raw decode d x org_id, OF assms m(1,2) m3 this]
  show "\<exists>rq'. rh_authenticate decode rq = (Inr (org_id, identity), rq') \<and>
            rq_org_id rq' = Some org_id \<and> rq_rh_identity rq' = Some identity"
    by (auto simp: x)
qed

definition sample_header :: json where
  "sample_header = JObj [(''identity'', JObj [(''org_id'', JInt 1979710), (''type'', JStr ''User'')])]"

theorem rh_authenticate_iff_witness:
  "\<exists>rq'. rh_authenticate (\<lambda>_. Some sample_header) (auth_to_request [(auth_header_key, ''x'')]) =
     (Inr (JStr (str_of_int 1979710), JObj [(''org_id'', JInt 1979710), (''type'', JStr ''User'')]), rq')"
proof -
  let ?i = "JObj [(''org_id'', JInt 1979710), (''type'', JStr ''User'')]"
  have l: "length (str_of_int 1979710) \<le> 50"
    by (simp add: str_of_int_def nat_digits.simps)
  then have "rh_acceptable ?i (JStr (str_of_int 1979710))"
    by (simp add: rh_acceptable_def org_id_text_def)
  moreover have "rq_rh_identity (auth_to_request [(auth_header_key, ''x'')]) = None"
    by (simp add: auth_to_request_def)
  ultimately show ?thesis
    using rh_authenticate_iff [of "auth_to_request [(auth_header_key, ''x'')]" "\<lambda>_. Some sample_header"
        "JStr (str_of_int 1979710)" ?i]
    by (auto simp: auth_to_request_def auth_header_key_def sample_header_def)
qed

text \<open>
  The headers \<open>auth_header_for_testing\<close> builds authenticate: for every choice of
  arguments that yields an identity with an org id of at most 50 characters, and a codec of header
  values that round-trips on it, \<open>request_object_for_testing\<close> returns a request with that
  identity whose org id is the text of the given one (the default \<open>9876543\<close> for none).  The
  identity keeps the org id as given, so \<open>request_to_org\<close> returns an integer where one was given.
\<close>

theorem testing_header_authenticates:
  assumes codec: "decode (encode (JObj [(''identity'', JObj d)])) = Some (JObj [(''identity'', JObj d)])"
    and a: "testing_identity a = Inr d" "aa_org_id a = JNull \<or> truthy (aa_org_id a)"
      "aa_raw a = ''''" "\<not> aa_unencoded a" "\<not> aa_supply_http_header a"
    and len: "py_len (org_id_text (testing_org_id a)) = Inr n" "n \<le> 50"
  shows "\<exists>rq. request_object_for_testing encode decode a = Inr rq \<and> rq_auth rq = Some (JObj d) \<and>
    rq_user rq = Some (org_id_text (testing_org_id a)) \<and>
    rq_org_id rq = Some (org_id_text (testing_org_id a)) \<and>
    request_to_org rq = Inr (testing_org_id a)"
proof -
  let ?org = "org_id_text (testing_org_id a)"
  let ?raw = "encode (JObj [(''identity'', JObj d)])"
  let ?rq = "auth_to_request [(auth_header_key, ?raw)]"
  have keys: "map_of d ''org_id'' = Some (testing_org_id a)" "dict_has d ''type''"
    using testing_identity_keys [OF a(1,2)] by auto
  have h: "auth_header_for_testing encode a = Inr (Header [(auth_header_key, ?raw)])"
    using a by (simp add: auth_header_for_testing_def)
  have "rh_acceptable (JObj d) ?org"
    using keys len by (auto simp: rh_acceptable_def)
  moreover have "rq_rh_identity ?rq = None" by (simp add: auth_to_request_def)
  moreover have "map_of (rq_meta ?rq) auth_header_key = Some ?raw"
    by (simp add: auth_to_request_def auth_header_key_def)
  ultimately obtain account where "rh_authenticate decode ?rq = (Inr (?org, JObj d),
      ?rq\<lparr>rq_rh_identity := Some (JObj d), rq_org_id := Some ?org, rq_account := Some account\<rparr>)"
    using rh_authenticate_accepts [of ?rq ?raw decode "[(''identity'', JObj d)]" d ?org] codec by auto
  then show ?thesis
    using h keys by (simp add: request_object_for_testing_def set_user_auth_def request_to_org_def dict_has_def)
qed

theorem testing_header_authenticates_witness:
  "\<exists>encode decode rq. request_object_for_testing encode decode (default_auth_args\<lparr>aa_org_id := JInt 456\<rparr>) =
     Inr rq \<and> rq_org_id rq = Some (JStr ''456'') \<and> request_to_org rq = Inr (JInt 456)"
proof -
  let ?a = "default_auth_args\<lparr>aa_org_id := JInt 456\<rparr>"
  obtain d where d: "testing_identity ?a = Inr d"
    by (simp add: testing_identity_def testing_account_section_def default_auth_args_def
        set_if_given_def dict_has_def)
  have t: "str_of_int 456 = ''456''"
    by (simp add: str_of_int_def nat_digits.simps digit_char_def)
  have "\<exists>rq. request_object_for_testing (\<lambda>_. ''h'') (\<lambda>_. Some (JObj [(''identity'', JObj d)])) ?a = Inr rq \<and>
    rq_auth rq = Some (JObj d) \<and> rq_user rq = Some (org_id_text (testing_org_id ?a)) \<and>
    rq_org_id rq = Some (org_id_text (testing_org_id ?a)) \<and> request_to_org rq = Inr (testing_org_id ?a)"
    by (rule testing_header_authenticates [OF _ d, where n = 3])
      (simp_all add: default_auth_args_def testing_org_id_def org_id_text_def t)
  then show ?thesis
    by (auto simp: testing_org_id_def org_id_text_def t)
qed

text \<open>
  \<open>ImportContentPSKAuthentication\<close> with a configured key accepts exactly the header
  \<open>PSK <key>\<close>, and denies every other request; without a key it authenticates nobody and denies
  nobody, which leaves the endpoint open.
\<close>

theorem psk_authenticate_decision:
  "psk_authenticate psk rq =
     (if psk = '''' then (Inr None, rq)
      else if map_of (rq_meta rq) ''HTTP_AUTHORIZATION'' = Some (''PSK '' @ psk)
        then (Inr (Some (JNull, JStr ''import-content-psk-authenticated'')), rq)
      else (Inl (AuthenticationFailed
             (case map_of (rq_meta rq) ''HTTP_AUTHORIZATION'' of
                None \<Rightarrow> ''Authorization header is required''
              | Some h \<Rightarrow> if h = '''' then ''Authorization header is required''
                          else if \<not> prefix ''PSK '' h then ''Authorization header must start with PSK''
                          else ''Invalid pre-shared key'')), rq))"
proof (cases "map_of (rq_meta rq) ''HTTP_AUTHORIZATION''")
  case None
  then show ?thesis by (simp add: psk_authenticate_def error_and_deny_def)
next
  case (Some h)
  have "drop 4 h = psk \<longleftrightarrow> h = ''PSK '' @ psk" if "prefix ''PSK '' h"
    using that by (auto simp: prefix_def)
  moreover have "prefix ''PSK '' h" if "h = ''PSK '' @ psk"
    using that by simp
  ultimately show ?thesis
    using Some by (auto simp: psk_authenticate_def error_and_deny_def)
qed

end
