(* ===== verification/Access_Control.thy ===== *)
theory Access_Control
  imports Rbac_Permissions Kessel Http_Retry Identity_Auth
begin

text \<open>
  Access control (\<open>api/permissions.py\<close>): the RBAC and Kessel checks and the permission
  classes of the views.  The state is the request with the two caches of the module; the settings
  and the external services (HTTP attempts, Kessel stub, workspace lookup) are records of
  parameters.
\<close>

section \<open>State, settings and services\<close>

record acc_state =
  ac_request :: request
  ac_rbac_cache :: "((json \<times> json) \<times> response) list option"   \<comment> \<open>\<open>rbac_perm_cache\<close>\<close>
  ac_workspaces :: "((json \<times> string) \<times> string) list"              \<comment> \<open>\<open>kessel.workspace_cache\<close>\<close>

record settings =
  st_rbac_enabled :: bool
  st_rbac_url :: string
  st_kessel_enabled :: bool
  st_kessel_flag :: bool   \<comment> \<open>the Unleash flag \<open>FLAG_ADVISOR_KESSEL_ENABLED\<close>\<close>
  st_dev :: bool

text \<open>The two shapes of an RBAC request: service account, or the caller's identity header.\<close>

datatype rbac_call =
    Service_account_call string json json   \<comment> \<open>URL, org id header, \<open>username\<close> parameter\<close>
  | Identity_call string string             \<comment> \<open>URL, identity header\<close>

record services =
  sv_loads :: "string \<Rightarrow> json option"
  sv_encode :: "json \<Rightarrow> string"
  sv_render :: "json \<Rightarrow> string"
  sv_credentials :: bool
  sv_urljoin :: "string \<Rightarrow> string \<Rightarrow> string"
  sv_attempt :: "rbac_call \<Rightarrow> nat \<Rightarrow> attempt"
  sv_duration :: "nat \<Rightarrow> rat"
  sv_stub :: "stub option"
  sv_host_groups :: "subject_ref \<Rightarrow> kessel_result py"
  sv_workspace :: "json \<Rightarrow> string py"
  sv_grpc_time :: rat

text \<open>
  \<open>sv_host_groups\<close> is what \<open>kessel.client.host_groups_for\<close> returns; that it returns is
  a property of the pages the service sends (see \<open>pages_to\<close>).
\<close>

definition listing_ends :: "services \<Rightarrow> bool" where
  "listing_ends sv \<longleftrightarrow> (\<forall>s. host_groups_for (sv_stub sv) s = Some (sv_host_groups sv s))"

definition on_request :: "(request, 'a) act \<Rightarrow> (acc_state, 'a) act" where
  "on_request m = (\<lambda>s. case m (ac_request s) of (r, rq) \<Rightarrow> (r, s\<lparr>ac_request := rq\<rparr>))"

definition rbac_failure :: "string \<Rightarrow> (acc_state, bool) act" where
  "rbac_failure msg = on_request (set_rbac_failure msg)"

definition rbac_success :: "string \<Rightarrow> (acc_state, unit) act" where
  "rbac_success msg = on_request (set_rbac_success msg)"

lemma rbac_failure_app [simp, py_simps]:
  "rbac_failure m s = (Inr False, s\<lparr>ac_request := (ac_request s)\<lparr>rq_rbac_message := Some m\<rparr>\<rparr>)"
  by (simp add: rbac_failure_def on_request_def py_simps)

lemma rbac_success_app [simp, py_simps]:
  "rbac_success m s = (Inr (), s\<lparr>ac_request := (ac_request s)\<lparr>rq_rbac_message := Some m\<rparr>\<rparr>)"
  by (simp add: rbac_success_def on_request_def py_simps)

section \<open>The RBAC service\<close>

definition request_auth :: "request \<Rightarrow> json py" where
  "request_auth rq = (case rq_auth rq of None \<Rightarrow> Inl AttributeError | Some a \<Rightarrow> Inr a)"

definition make_rbac_url :: "services \<Rightarrow> settings \<Rightarrow> string \<Rightarrow> nat \<Rightarrow> string option \<Rightarrow> string" where
  "make_rbac_url sv st path version rbac_base =
     sv_urljoin sv (case rbac_base of None \<Rightarrow> st_rbac_url st | Some b \<Rightarrow> b)
       (''/api/rbac/v'' @ nat_digits version @ ''/'' @ path)"

definition rbac_call_of :: "services \<Rightarrow> string \<Rightarrow> request \<Rightarrow> rbac_call py" where
  "rbac_call_of sv url rq =
     py_bind (request_auth rq) (\<lambda>identity.
       if sv_credentials sv then
         py_bind (py_item identity ''org_id'') (\<lambda>org.
         py_bind (request_to_user_data rq) (\<lambda>user_data.
         py_bind (py_get_default user_data ''username'' (JStr '''')) (\<lambda>username.
           Inr (Service_account_call url org username))))
       else case map_of (rq_meta rq) auth_header_key of
         Some raw \<Rightarrow> Inr (Identity_call url raw)
       | None \<Rightarrow>
           py_bind (py_item identity ''username'') (\<lambda>username.
           py_bind (py_item identity ''org_id'') (\<lambda>org.
           py_bind (py_item identity ''user'') (\<lambda>user.
           py_bind (py_item user ''is_org_admin'') (\<lambda>admin.
           py_bind (auth_header_for_testing (sv_encode sv)
               (default_auth_args\<lparr>aa_username := username, aa_org_id := org,
                  aa_supply_http_header := True, aa_user_opts := [(''is_org_admin'', admin)]\<rparr>))
             (\<lambda>h. case h of
                Header ((_, v) # _) \<Rightarrow> Inr (Identity_call url v)
              | _ \<Rightarrow> Inl AttributeError))))))"

definition make_rbac_request :: "services \<Rightarrow> settings \<Rightarrow> string \<Rightarrow> request \<Rightarrow> retry_result py" where
  "make_rbac_request sv st url rq =
     py_bind (rbac_call_of sv url rq) (\<lambda>call.
       retry_request_default (st_dev st) (sv_attempt sv call) (sv_duration sv))"

text \<open>
  The response for the user, from the cache when schema generation has turned it on; \<open>None\<close>
  where the service cannot be reached (status 500), which is not cached.
\<close>

definition rbac_response ::
  "services \<Rightarrow> settings \<Rightarrow> json \<Rightarrow> json \<Rightarrow> (acc_state, response option \<times> rat) act" where
  "rbac_response sv st username org_id = (\<lambda>s.
     if ac_rbac_cache s \<noteq> None \<and> \<not> (hashable username \<and> hashable org_id) then (Inl TypeError, s)
     else case Option.bind (ac_rbac_cache s) (\<lambda>c. map_of c (username, org_id)) of
       Some response \<Rightarrow> (Inr (Some response, 0), s)
     | None \<Rightarrow>
         (case make_rbac_request sv st
             (make_rbac_url sv st ''access/?application=advisor,tasks,inventory&limit=1000'' 1 None)
             (ac_request s) of
            Inl e \<Rightarrow> (Inl e, s)
          | Inr r \<Rightarrow>
              if status_code (rr_response r) = 500 then (Inr (None, rr_elapsed r), s)
              else (Inr (Some (rr_response r), rr_elapsed r),
                    s\<lparr>ac_rbac_cache := map_option (dict_set (username, org_id) (rr_response r))
                        (ac_rbac_cache s)\<rparr>)))"

text \<open>The decision on an answer with status 200.\<close>

definition rbac_decide :: "services \<Rightarrow> rbac_permission \<Rightarrow> response \<Rightarrow> (acc_state, bool) act" where
  "rbac_decide sv sought resp =
     a_bind (a_lift (case body resp of None \<Rightarrow> Inl ValueError | Some j \<Rightarrow> Inr j)) (\<lambda>data.
     a_bind (a_lift (py_in ''data'' data)) (\<lambda>has_data.
       if \<not> has_data then rbac_failure ''Response from RBAC did not contain a \"data\" list''
       else a_bind (a_lift (py_item data ''data'')) (\<lambda>roles.
       a_bind (a_get (\<lambda>s. rq_host_groups (ac_request s))) (\<lambda>attr.
       a_bind (a_lift (find_host_groups (sv_loads sv) roles attr)) (\<lambda>groups.
       a_then (on_request (a_upd (\<lambda>r. r\<lparr>rq_host_groups := groups\<rparr>)))
       (a_bind (a_lift (py_iter roles)) (\<lambda>role_list.
       a_bind (a_lift (match_roles sought role_list)) (\<lambda>m.
         case m of
           None \<Rightarrow> a_ret False
         | Some (p, t) \<Rightarrow>
             a_then (on_request (a_upd (\<lambda>r. r\<lparr>rq_matched := Some (perm_string p, t = Exact)\<rparr>)))
               (a_ret True)))))))))"

text \<open>The steps of \<open>has_rbac_permission\<close>: find the response for the user, then judge it.\<close>

definition rbac_lookup :: "services \<Rightarrow> settings \<Rightarrow> (acc_state, response option \<times> rat) act" where
  "rbac_lookup sv st =
     a_bind (on_request request_to_username) (\<lambda>username.
     a_bind (a_get (\<lambda>s. request_to_org (ac_request s))) (\<lambda>org.
     a_bind (a_lift org) (\<lambda>org_id.
       rbac_response sv st username org_id)))"

definition rbac_outcome ::
  "services \<Rightarrow> rbac_permission \<Rightarrow> response option \<times> rat \<Rightarrow> (acc_state, bool \<times> rat) act" where
  "rbac_outcome sv sought = (\<lambda>(resp, elapsed).
     case resp of
       None \<Rightarrow> a_bind (rbac_failure ''Cannot reach RBAC'') (\<lambda>b. a_ret (b, elapsed))
     | Some response \<Rightarrow>
         if status_code response = 200
         then a_bind (rbac_decide sv sought response) (\<lambda>b. a_ret (b, elapsed))
         else a_ret (False, elapsed))"

definition has_rbac_permission ::
  "services \<Rightarrow> settings \<Rightarrow> string \<Rightarrow> (acc_state, bool \<times> rat) act" where
  "has_rbac_permission sv st permission =
     (if \<not> st_rbac_enabled st then a_ret (True, 0)
      else if st_rbac_url st = '''' then a_raise (Exn ''RBAC enabled but no URL specified.'')
      else case rbac_permission_new (JStr permission) of
        Inl _ \<Rightarrow> a_raise ValueError
      | Inr request_permission \<Rightarrow> a_bind (rbac_lookup sv st) (rbac_outcome sv request_permission))"

section \<open>Kessel\<close>

datatype scope = ORG | WORKSPACE | HOST

text \<open>\<open>identity_to_subject\<close>: the user id in the section the identity's type names.\<close>

definition identity_to_subject :: "services \<Rightarrow> json \<Rightarrow> subject_ref py" where
  "identity_to_subject sv identity =
     py_bind (py_item identity ''type'') (\<lambda>t.
       if \<not> hashable t then Inl TypeError
       else case (case t of JStr s \<Rightarrow> map_of user_details_key s | _ \<Rightarrow> None) of
         None \<Rightarrow> Inl ValueError
       | Some field \<Rightarrow>
           py_bind (py_item identity field) (\<lambda>section_data.
           py_bind (py_item section_data ''user_id'') (\<lambda>user_id.
             Inr \<lparr>subject_id = redhat_prefix @ py_str (sv_render sv) user_id,
                  subject_type = ''principal''\<rparr>)))"

definition get_workspace_id :: "services \<Rightarrow> (acc_state, string \<times> rat) act" where
  "get_workspace_id sv = (\<lambda>s.
     case py_bind (request_auth (ac_request s)) (\<lambda>auth. py_item auth ''org_id'') of
       Inl e \<Rightarrow> (Inl e, s)
     | Inr org_id \<Rightarrow>
         if \<not> hashable org_id then (Inl TypeError, s)
         else case map_of (ac_workspaces s) (org_id, ''default'') of
           Some ws \<Rightarrow> (Inr (ws, 0), s)
         | None \<Rightarrow>
             (case sv_workspace sv org_id of
                Inl _ \<Rightarrow> (Inr ('''', sv_grpc_time sv), s)
              | Inr ws \<Rightarrow> (Inr (ws, sv_grpc_time sv),
                  s\<lparr>ac_workspaces := dict_set (org_id, ''default'') ws (ac_workspaces s)\<rparr>)))"

definition org_relation :: "rbac_permission \<Rightarrow> string" where
  "org_relation p = as_kessel_permission p @
     (if perm_resource p \<in> set use_assigned_permissions_for_resource then ''_assigned'' else '''')"

text \<open>The time a call reports: none without a client.\<close>

definition call_time :: "services \<Rightarrow> rat" where
  "call_time sv = (if sv_stub sv = None then 0 else sv_grpc_time sv)"

text \<open>
  The body of the \<open>try\<close> of \<open>has_kessel_permission\<close>, with the value the variable
  \<open>elapsed\<close> has when it ends, so that the handler can report it.
\<close>

definition kessel_body ::
  "services \<Rightarrow> scope \<Rightarrow> rbac_permission \<Rightarrow> json option \<Rightarrow> json \<Rightarrow> acc_state \<Rightarrow>
   (kessel_result py \<times> rat) \<times> acc_state" where
  "kessel_body sv sc permission host_id identity s =
     (case sc of
        ORG \<Rightarrow>
          (case get_workspace_id sv s of
             (Inl e, t) \<Rightarrow> ((Inl e, 0), t)
           | (Inr (ws, elapsed), t) \<Rightarrow>
               if ws = '''' then ((Inl ValueError, elapsed), t)
               else (case py_bind (identity_to_subject sv identity)
                         (\<lambda>subject. kessel_check (sv_stub sv) (workspace_to_ref ws)
                            (org_relation permission) subject) of
                       Inl e \<Rightarrow> ((Inl e, elapsed), t)
                     | Inr b \<Rightarrow> ((Inr (KBool b), call_time sv), t)))
      | WORKSPACE \<Rightarrow>
          (case py_bind (identity_to_subject sv identity) (sv_host_groups sv) of
             Inl e \<Rightarrow> ((Inl e, 0), s)
           | Inr r \<Rightarrow> ((Inr r, call_time sv), s))
      | HOST \<Rightarrow>
          (case host_id of
             None \<Rightarrow> ((Inl ValueError, 0), s)
           | Some h \<Rightarrow>
               (case py_bind (identity_to_subject sv identity)
                         (\<lambda>subject. kessel_check (sv_stub sv) (host_to_ref (py_str (sv_render sv) h))
                            (as_kessel_permission permission) subject) of
                  Inl e \<Rightarrow> ((Inl e, 0), s)
                | Inr b \<Rightarrow> ((Inr (KBool b), call_time sv), s))))"

definition has_kessel_permission ::
  "services \<Rightarrow> settings \<Rightarrow> scope \<Rightarrow> rbac_permission \<Rightarrow> json option \<Rightarrow> (acc_state, kessel_result \<times> rat) act" where
  "has_kessel_permission sv st sc permission host_id =
     (if \<not> st_rbac_enabled st then a_ret (KBool True, 0)
      else if st_rbac_url st = '''' then a_raise ValueError
      else a_bind (a_get (\<lambda>s. request_auth (ac_request s))) (\<lambda>auth.
        a_bind (a_lift auth) (\<lambda>identity. (\<lambda>s.
          case kessel_body sv sc permission host_id identity s of
            ((Inl _, elapsed), t) \<Rightarrow> (Inr (KBool False, elapsed), t)
          | ((Inr r, elapsed), t) \<Rightarrow> (Inr (r, elapsed), t)))))"

text \<open>\<open>bool(result)\<close>\<close>

fun granted :: "kessel_result \<Rightarrow> bool" where
  "granted (KBool b) = b"
| "granted (KList ids) = (ids \<noteq> [])"

definition kessel_on :: "settings \<Rightarrow> bool" where
  "kessel_on st = (st_kessel_enabled st \<and> st_kessel_flag st)"

definition check_permission ::
  "services \<Rightarrow> settings \<Rightarrow> string \<Rightarrow> scope \<Rightarrow> (acc_state, kessel_result \<times> rat) act" where
  "check_permission sv st permission sc =
     (if kessel_on st then
        if sc = WORKSPACE then a_raise ValueError
        else a_bind (a_get (\<lambda>s. request_to_user_data (ac_request s))) (\<lambda>ud.
          a_bind (a_lift ud) (\<lambda>user_data.
          a_bind (a_lift (if truthy user_data then py_in ''user_id'' user_data else Inr False)) (\<lambda>ok.
            if \<not> ok then a_ret (KBool False, 0)
            else a_bind (a_lift (rbac_permission_new (JStr permission))) (\<lambda>p.
              has_kessel_permission sv st sc p None))))
      else if \<not> st_rbac_enabled st then a_ret (KBool True, 0)
      else a_bind (has_rbac_permission sv st permission) (\<lambda>(b, t). a_ret (KBool b, t)))"

section \<open>Views and \<open>InsightsRBACPermission\<close>\<close>

record view =
  vw_name :: string
  vw_action :: "string option"
  vw_resource_name :: "string option"
  vw_basename :: "string option"
  vw_scope :: "scope option"
  vw_methods :: "(string \<times> string option \<times> scope option) list"

text \<open>\<open>set_resource\<close>: the attributes the decorator puts on a view method.\<close>

definition set_resource ::
  "string option \<Rightarrow> scope option \<Rightarrow> string option \<times> scope option \<Rightarrow> string option \<times> scope option" where
  "set_resource resource sc m =
     (case resource of None \<Rightarrow> fst m | Some r \<Rightarrow> Some r, case sc of None \<Rightarrow> snd m | Some x \<Rightarrow> Some x)"

definition get_resource :: "view \<Rightarrow> (string \<times> scope) py" where
  "get_resource view =
     (let view_name = (case vw_action view of Some a \<Rightarrow> if a = '''' then ''list'' else a | None \<Rightarrow> ''list'');
          view_method = map_of (vw_methods view) view_name
      in py_bind
           (case vw_resource_name view of
              Some r \<Rightarrow> Inr (Some r)
            | None \<Rightarrow>
                (case vw_basename view of
                   None \<Rightarrow> Inr None
                 | Some b \<Rightarrow>
                     if b = '''' then Inl IndexError
                     else Inr (Some (if last b = CHR ''s'' then b else b @ ''s''))))
           (\<lambda>resource.
              case resource of
                None \<Rightarrow> Inl AssertionError
              | Some r \<Rightarrow>
                  Inr (case view_method of Some (Some r', _) \<Rightarrow> r' | _ \<Rightarrow> r,
                       case view_method of
                         Some (_, Some sc) \<Rightarrow> sc
                       | _ \<Rightarrow> (case vw_scope view of None \<Rightarrow> WORKSPACE | Some sc \<Rightarrow> sc))))"

definition safe_methods :: "string list" where
  "safe_methods = [''GET'', ''HEAD'', ''OPTIONS'']"

definition action_of :: "request \<Rightarrow> string" where
  "action_of rq = (if rq_method rq \<in> set safe_methods then ''read'' else ''write'')"

definition view_permission :: "string \<Rightarrow> string \<Rightarrow> request \<Rightarrow> string" where
  "view_permission app resource rq = app @ '':'' @ resource @ '':'' @ action_of rq"

text \<open>The identity checks before the permission is sought; \<open>None\<close> when they pass.\<close>

definition identity_problem :: "request \<Rightarrow> string option py" where
  "identity_problem rq =
     (if \<not> ((rq_user rq \<noteq> None \<or> rq_service_account rq) \<and> rq_auth rq \<noteq> None)
        then Inr (Some ''authentication not yet complete'')
      else py_bind (request_auth rq) (\<lambda>identity.
        if identity = JNull then Inr (Some ''no identity'')
        else if \<not> is_dict identity then Inr (Some ''identity not a dict'')
        else py_bind (py_in ''org_id'' identity) (\<lambda>has_org.
          if \<not> has_org then Inr (Some ''org_id not in identity'')
          else py_bind (request_to_user_data rq) (\<lambda>user_data.
            if \<not> truthy user_data then Inr (Some ''missing user data in request'')
            else py_bind (py_in ''username'' user_data) (\<lambda>has_name.
              if \<not> has_name then Inr (Some ''no \"username\" field in identity type data'')
              else py_bind (py_item user_data ''username'') (\<lambda>n.
                if \<not> is_str n then Inr (Some ''identity type data username not a string'')
                else Inr None))))))"

text \<open>The end of \<open>has_permission\<close>: the record of the check and its result.\<close>

definition record_check :: "string \<Rightarrow> kessel_result \<times> rat \<Rightarrow> (acc_state, bool) act" where
  "record_check permission re =
     a_then (if snd re > 0
             then on_request (a_upd (\<lambda>r. r\<lparr>rq_elapsed_ms := Some \<lfloor>snd re * 1000\<rfloor>\<rparr>))
             else a_ret ())
     (a_then (on_request (a_upd (\<lambda>r. r\<lparr>rq_sought := Some permission\<rparr>)))
     (a_then (rbac_success (''InsightsRBACPermission has_permission returns '' @
                (if granted (fst re) then ''True'' else ''False'')))
       (a_ret (granted (fst re)))))"

definition kessel_view_check ::
  "services \<Rightarrow> settings \<Rightarrow> scope \<Rightarrow> string \<Rightarrow> (acc_state, bool) act" where
  "kessel_view_check sv st sc permission =
     a_bind (a_get (\<lambda>s. request_to_user_data (ac_request s))) (\<lambda>ud.
     a_bind (a_lift ud) (\<lambda>user_data.
     a_bind (a_lift (py_in ''user_id'' user_data)) (\<lambda>has_id.
       if \<not> has_id then rbac_failure ''KESSEL: user_data missing user_id''
       else if sc = HOST then
         a_then (rbac_success ''KESSEL: ResourceScope is HOST - defer to has_object_permission'')
           (a_ret True)
       else a_bind (a_lift (rbac_permission_new (JStr permission))) (\<lambda>p.
         a_bind (has_kessel_permission sv st sc p None) (\<lambda>re.
           a_then (case fst re of
                     KList ids \<Rightarrow> on_request (a_upd (\<lambda>r. r\<lparr>rq_host_groups := Some (map JStr ids)\<rparr>))
                   | KBool _ \<Rightarrow> a_ret ())
             (record_check permission re))))))"

definition rbac_view_check :: "services \<Rightarrow> settings \<Rightarrow> string \<Rightarrow> (acc_state, bool) act" where
  "rbac_view_check sv st permission =
     a_bind (has_rbac_permission sv st permission) (\<lambda>(b, elapsed).
       record_check permission (KBool b, elapsed))"

definition insights_has_permission ::
  "services \<Rightarrow> settings \<Rightarrow> string \<Rightarrow> view \<Rightarrow> (acc_state, bool) act" where
  "insights_has_permission sv st app view =
     a_then (rbac_success ''InsightsRBACPermission has_permission() check starting'')
     (a_bind (a_lift (get_resource view)) (\<lambda>(resource, sc).
       if resource = ''denied'' then rbac_failure ''view resource denies access''
       else a_bind (a_get (\<lambda>s. identity_problem (ac_request s))) (\<lambda>ip.
         a_bind (a_lift ip) (\<lambda>problem.
           case problem of
             Some msg \<Rightarrow> rbac_failure msg
           | None \<Rightarrow>
               if \<not> st_rbac_enabled st then a_then (rbac_success ''RBAC not enabled'') (a_ret True)
               else a_bind (a_get (\<lambda>s. view_permission app resource (ac_request s))) (\<lambda>permission.
                 if kessel_on st then kessel_view_check sv st sc permission
                 else rbac_view_check sv st permission)))))"

text \<open>The object passed to \<open>has_object_permission\<close>, by its \<open>id\<close> attribute.\<close>

definition insights_has_object_permission ::
  "services \<Rightarrow> settings \<Rightarrow> string \<Rightarrow> view \<Rightarrow> json option \<Rightarrow> (acc_state, bool) act" where
  "insights_has_object_permission sv st app view obj_id =
     (if \<not> st_kessel_flag st then
        a_then (rbac_success ''KESSEL not enabled, has_object_permission OK'') (a_ret True)
      else a_bind (a_lift (get_resource view)) (\<lambda>(resource, sc).
        if sc \<noteq> HOST then
          a_then (rbac_success ''ResourceScope not HOST, has_object_permission OK'') (a_ret True)
        else a_bind (a_get (\<lambda>s. view_permission app resource (ac_request s))) (\<lambda>permission.
          if obj_id = None
            then rbac_failure ''Permission scope is Host but object has no id attribute''
          else a_bind (a_lift (rbac_permission_new (JStr permission))) (\<lambda>p.
            a_bind (has_kessel_permission sv st sc p obj_id) (\<lambda>re.
              a_then (if snd re > 0
                      then on_request (a_upd (\<lambda>r. r\<lparr>rq_elapsed_ms := Some \<lfloor>snd re * 1000\<rfloor>\<rparr>))
                      else a_ret ())
                (a_then (rbac_success (''InsightsRBACPermission successfully evaluated to '' @
                           (if granted (fst re) then ''True'' else ''False'')))
                  (a_ret (granted (fst re)))))))))"

end
