(* ===== verification/Access_Safety.thy ===== *)
theory Access_Safety
  imports Access_Control
begin

text \<open>
  What the access checks guarantee: a view is granted only through a role or a Kessel answer that
  holds the sought permission, a role that may write may read, and which host groups restrict the
  request afterwards.
\<close>

section \<open>Inversion lemmas for the checks\<close>

text \<open>The roles of an answer of the RBAC service.\<close>

definition rbac_roles :: "response \<Rightarrow> json list option" where
  "rbac_roles resp =
     (case body resp of
        Some data \<Rightarrow> (case py_bind (py_item data ''data'') py_iter of Inr rs \<Rightarrow> Some rs | Inl _ \<Rightarrow> None)
      | None \<Rightarrow> None)"

definition roles_grant :: "json list \<Rightarrow> rbac_permission \<Rightarrow> bool" where
  "roles_grant roles sought \<longleftrightarrow>
     (\<exists>role \<in> set roles. \<exists>p. role_permission role = Some p \<and> perm_contains p sought)"

lemma rbac_decide_True:
  assumes "rbac_decide sv sought resp s = (Inr True, t)"
  shows "\<exists>roles. rbac_roles resp = Some roles \<and> roles_grant roles sought"
proof -
  from assms obtain data where data: "body resp = Some data"
    by (auto simp: rbac_decide_def act_inv split: option.splits)
  from assms data obtain v where v: "py_item data ''data'' = Inr v"
    by (auto simp: rbac_decide_def act_inv split: if_splits)
  from assms data v obtain rs where rs: "py_iter v = Inr rs"
    by (auto simp: rbac_decide_def act_inv split: if_splits)
  from assms data v rs obtain p tt where "match_roles sought rs = Inr (Some (p, tt))"
    by (auto simp: rbac_decide_def act_inv split: if_splits option.splits)
  then have "roles_grant rs sought"
    using match_roles_Some [of sought rs p tt] by (auto simp: roles_grant_def)
  with data v rs show ?thesis by (simp add: rbac_roles_def)
qed

lemma roles_grant_mono:
  assumes "roles_grant roles p" "wf_perm p" "wf_perm q" "perm_contains p q"
  shows "roles_grant roles q"
  using assms rbac.grants_trans [of _ p q] role_permission_wf
  unfolding roles_grant_def by metis

lemma record_check_result:
  "\<exists>t. record_check permission re s = (Inr (granted (fst re)), t)"
  by (auto simp: record_check_def a_then_app on_request_def)

lemma record_check_Inr:
  "record_check permission re s = (Inr b, t) \<Longrightarrow> b = granted (fst re)"
  using record_check_result [of permission re s] by auto

text \<open>Reading the user name changes neither the header nor the identity.\<close>

lemma request_to_username_frame:
  "request_to_username rq = (r, rq') \<Longrightarrow> rq_auth rq' = rq_auth rq \<and> rq_meta rq' = rq_meta rq \<and>
     rq_method rq' = rq_method rq \<and> rq_host_groups rq' = rq_host_groups rq"
  by (auto simp: request_to_username_def username_from_identity_def error_and_deny_def
      a_bind_app a_then_app split: option.splits if_splits sum.splits prod.splits)

lemma request_to_user_data_frame:
  "rq_auth rq' = rq_auth rq \<Longrightarrow> request_to_user_data rq' = request_to_user_data rq"
  by (simp add: request_to_user_data_def)

lemma rbac_call_of_frame:
  assumes "rq_auth rq' = rq_auth rq" "rq_meta rq' = rq_meta rq"
  shows "rbac_call_of sv url rq' = rbac_call_of sv url rq"
  unfolding rbac_call_of_def request_auth_def assms request_to_user_data_frame [OF assms(1)] ..

lemma identity_problem_frame:
  assumes "rq_auth rq' = rq_auth rq" "rq_user rq' = rq_user rq"
    "rq_service_account rq' = rq_service_account rq"
  shows "identity_problem rq' = identity_problem rq"
  unfolding identity_problem_def request_auth_def assms request_to_user_data_frame [OF assms(1)] ..

definition access_url :: "services \<Rightarrow> settings \<Rightarrow> string" where
  "access_url sv st =
     make_rbac_url sv st ''access/?application=advisor,tasks,inventory&limit=1000'' 1 None"

text \<open>A positive answer of the RBAC check, without a cached response.\<close>

lemma rbac_outcome_True:
  assumes "rbac_outcome sv sought (resp, el) s = (Inr (True, e), t)"
  shows "\<exists>response t'. resp = Some response \<and> status_code response = 200 \<and> e = el \<and>
    rbac_decide sv sought response s = (Inr True, t')"
  using assms by (auto simp: rbac_outcome_def act_inv split: option.splits if_splits)

lemma has_rbac_permission_True:
  assumes en: "st_rbac_enabled st" and nc: "ac_rbac_cache s = None"
    and r: "has_rbac_permission sv st permission s = (Inr (True, elapsed), t)"
  shows "\<exists>sought res roles. rbac_permission_new (JStr permission) = Inr sought \<and>
    make_rbac_request sv st (access_url sv st) (ac_request s) = Inr res \<and>
    status_code (rr_response res) = 200 \<and>
    rbac_roles (rr_response res) = Some roles \<and> roles_grant roles sought"
proof -
  from en r obtain sought resp el s2 where
    p: "rbac_permission_new (JStr permission) = Inr sought" and
    l: "rbac_lookup sv st s = (Inr (resp, el), s2)" and
    o: "rbac_outcome sv sought (resp, el) s2 = (Inr (True, elapsed), t)"
    by (auto simp: has_rbac_permission_def a_bind_Inr split: if_splits sum.splits)
  from rbac_outcome_True [OF o] obtain response t' where
    resp: "resp = Some response" "status_code response = 200"
    and d: "rbac_decide sv sought response s2 = (Inr True, t')" by blast
  from rbac_decide_True [OF d] obtain roles where
    g: "rbac_roles response = Some roles" "roles_grant roles sought" by blast
  from l obtain u org s1 where
    u: "on_request request_to_username s = (Inr u, s1)" and
    rr: "rbac_response sv st u org s1 = (Inr (resp, el), s2)"
    by (auto simp: rbac_lookup_def act_inv)
  from u obtain rq' where rq': "request_to_username (ac_request s) = (Inr u, rq')"
    and s1: "s1 = s\<lparr>ac_request := rq'\<rparr>"
    by (auto simp: on_request_def split: prod.splits)
  have call: "rbac_call_of sv url rq' = rbac_call_of sv url (ac_request s)" for url
    using request_to_username_frame [OF rq'] by (intro rbac_call_of_frame) auto
  from rr resp s1 nc obtain res where
    "make_rbac_request sv st (access_url sv st) rq' = Inr res" "response = rr_response res"
    by (auto simp: rbac_response_def access_url_def split: sum.splits if_splits)
  then have "make_rbac_request sv st (access_url sv st) (ac_request s) = Inr res"
    by (simp add: make_rbac_request_def call)
  with p g resp \<open>response = rr_response res\<close> show ?thesis by blast
qed

text \<open>A positive answer of the Kessel check, by scope.\<close>

lemma has_kessel_permission_ORG:
  assumes "st_rbac_enabled st"
    and "has_kessel_permission sv st ORG p hid s = (Inr (r, elapsed), t)" "granted r"
  shows "\<exists>c identity subject ws. rq_auth (ac_request s) = Some identity \<and>
    identity_to_subject sv identity = Inr subject \<and> ws \<noteq> '''' \<and> sv_stub sv = Some c \<and>
    fst (get_workspace_id sv s) \<in> {Inr (ws, 0), Inr (ws, sv_grpc_time sv)} \<and>
    stub_Check c \<lparr>cr_subject = subject_as_resource subject, cr_relation = org_relation p,
      cr_object = workspace_to_ref ws\<rparr> = Inr ALLOWED_TRUE"
proof -
  from assms obtain identity where id: "rq_auth (ac_request s) = Some identity"
    by (auto simp: has_kessel_permission_def request_auth_def act_inv split: if_splits option.splits)
  from assms id obtain el t' where kb: "kessel_body sv ORG p hid identity s = ((Inr r, el), t')"
    by (auto simp: has_kessel_permission_def request_auth_def act_inv
        split: if_splits prod.splits sum.splits)
  from kb obtain ws el' t'' where ws: "get_workspace_id sv s = (Inr (ws, el'), t'')" "ws \<noteq> ''''"
    by (auto simp: kessel_body_def split: prod.splits sum.splits if_splits)
  have el': "el' = 0 \<or> el' = sv_grpc_time sv"
    using ws by (auto simp: get_workspace_id_def split: sum.splits option.splits if_splits)
  from kb ws obtain subject b where sub: "identity_to_subject sv identity = Inr subject"
    and chk: "kessel_check (sv_stub sv) (workspace_to_ref ws) (org_relation p) subject = Inr b"
    and b: "r = KBool b"
    by (auto simp: kessel_body_def py_bind_eqs split: sum.splits)
  with assms(3) have "b" by simp
  with chk kessel_check_True obtain c where "sv_stub sv = Some c"
    "stub_Check c \<lparr>cr_subject = subject_as_resource subject, cr_relation = org_relation p,
      cr_object = workspace_to_ref ws\<rparr> = Inr ALLOWED_TRUE"
    by (metis (full_types))
  with id sub ws el' show ?thesis by auto
qed

lemma has_kessel_permission_WORKSPACE:
  assumes "st_rbac_enabled st"
    and "has_kessel_permission sv st WORKSPACE p hid s = (Inr (r, elapsed), t)" "granted r"
  shows "\<exists>identity subject. rq_auth (ac_request s) = Some identity \<and>
    identity_to_subject sv identity = Inr subject \<and> sv_host_groups sv subject = Inr r \<and> t = s"
  using assms
  by (auto simp: has_kessel_permission_def kessel_body_def request_auth_def act_inv py_bind_eqs
      split: if_splits option.splits prod.splits sum.splits)

section \<open>Granting a view\<close>

text \<open>What every positive answer of \<open>InsightsRBACPermission.has_permission\<close> has passed.\<close>

lemma insights_True:
  assumes "insights_has_permission sv st app view s = (Inr True, t)"
  obtains resource sc where "get_resource view = Inr (resource, sc)" "resource \<noteq> ''denied''"
    "identity_problem (ac_request s) = Inr None"
    "\<not> st_rbac_enabled st \<or>
     (\<exists>s1. rq_auth (ac_request s1) = rq_auth (ac_request s) \<and>
        rq_meta (ac_request s1) = rq_meta (ac_request s) \<and>
        ac_rbac_cache s1 = ac_rbac_cache s \<and> ac_workspaces s1 = ac_workspaces s \<and>
        rq_username (ac_request s1) = rq_username (ac_request s) \<and>
        (if kessel_on st
         then kessel_view_check sv st sc (view_permission app resource (ac_request s)) s1 = (Inr True, t)
         else rbac_view_check sv st (view_permission app resource (ac_request s)) s1 = (Inr True, t)))"
proof -
  define s1 where "s1 = s\<lparr>ac_request := (ac_request s)\<lparr>rq_rbac_message :=
    Some ''InsightsRBACPermission has_permission() check starting''\<rparr>\<rparr>"
  have ip: "identity_problem (ac_request s1) = identity_problem (ac_request s)"
    by (rule identity_problem_frame) (simp_all add: s1_def)
  have vp: "view_permission app resource (ac_request s1) = view_permission app resource (ac_request s)"
    for resource by (simp add: s1_def view_permission_def action_of_def)
  from assms obtain resource sc where g: "get_resource view = Inr (resource, sc)"
    and d: "resource \<noteq> ''denied''" and n: "identity_problem (ac_request s) = Inr None"
    and c: "(if \<not> st_rbac_enabled st then a_then (rbac_success ''RBAC not enabled'') (a_ret True)
         else a_bind (a_get (\<lambda>s. view_permission app resource (ac_request s))) (\<lambda>permission.
                 if kessel_on st then kessel_view_check sv st sc permission
                 else rbac_view_check sv st permission)) s1 = (Inr True, t)"
    by (auto simp: insights_has_permission_def act_inv s1_def [symmetric] ip
        split: if_splits option.splits)
  have c': "\<not> st_rbac_enabled st \<or>
     (if kessel_on st
      then kessel_view_check sv st sc (view_permission app resource (ac_request s)) s1 = (Inr True, t)
      else rbac_view_check sv st (view_permission app resource (ac_request s)) s1 = (Inr True, t))"
    using c by (simp add: act_inv vp split: if_splits)
  have fr: "rq_auth (ac_request s1) = rq_auth (ac_request s)"
    "rq_meta (ac_request s1) = rq_meta (ac_request s)"
    "ac_rbac_cache s1 = ac_rbac_cache s" "ac_workspaces s1 = ac_workspaces s"
    "rq_username (ac_request s1) = rq_username (ac_request s)"
    by (simp_all add: s1_def)
  show thesis
    by (rule that [OF g d n]) (use c' fr in blast)
qed

section \<open>Write access includes read access\<close>

lemma match_roles_mono:
  assumes "\<And>p. wf_perm p \<Longrightarrow> perm_contains p w \<Longrightarrow> perm_contains p r"
  shows "match_roles w roles = Inr (Some x) \<Longrightarrow> \<exists>y. match_roles r roles = Inr (Some y)"
proof (induction roles)
  case Nil
  then show ?case by simp
next
  case (Cons role roles)
  then obtain c where c: "role_decode role = Inr c" by (auto simp: py_bind_eqs)
  show ?case
  proof (cases c)
    case None
    with Cons c show ?thesis by simp
  next
    case (Some q)
    have "wf_perm q" using c Some role_decode_wf by blast
    moreover have "perm_contains q w" if "perm_eq q w"
      using that by (simp add: perm_eq_def perm_contains_def)
    ultimately show ?thesis
      using Cons c Some assms by (auto split: if_splits)
  qed
qed

lemma rbac_decide_mono:
  assumes "\<And>p. wf_perm p \<Longrightarrow> perm_contains p w \<Longrightarrow> perm_contains p r"
    and "rbac_decide sv w resp s = (Inr True, t)"
  shows "\<exists>t'. rbac_decide sv r resp s = (Inr True, t')"
proof -
  from assms(2) obtain data v rs groups x where
    "body resp = Some data" "py_in ''data'' data = Inr True" "py_item data ''data'' = Inr v"
    "find_host_groups (sv_loads sv) v (rq_host_groups (ac_request s)) = Inr groups"
    "py_iter v = Inr rs" "match_roles w rs = Inr (Some x)"
    by (auto simp: rbac_decide_def act_inv split: option.splits if_splits)
  moreover from match_roles_mono [of w r, OF assms(1) this(6)]
  obtain y where "match_roles r rs = Inr (Some y)" by blast
  ultimately show ?thesis
    by (cases y) (simp add: rbac_decide_def a_bind_app a_then_app on_request_def)
qed

lemma write_contains_read:
  assumes "CHR '':'' \<notin> set app" "CHR '':'' \<notin> set res" "wf_perm p"
    and "perm_contains p (perm_of app res ''write'')"
  shows "perm_contains p (perm_of app res ''read'')"
proof -
  have "wf_perm (perm_of app res ''write'')" "wf_perm (perm_of app res ''read'')"
    using assms(1,2) by (simp_all add: wf_perm_def perm_of_def)
  then show ?thesis
    using assms(3,4) by (auto simp: perm_contains_fields) (auto simp: perm_of_def)
qed

lemma rbac_permission_new_of:
  "CHR '':'' \<notin> set app \<Longrightarrow> CHR '':'' \<notin> set res \<Longrightarrow> CHR '':'' \<notin> set m \<Longrightarrow>
   rbac_permission_new (JStr (app @ '':'' @ res @ '':'' @ m)) = Inr (perm_of app res m)"
  using rbac_permission_new_join [of app res m] by (simp add: perm_of_def)

section \<open>Properties\<close>

text \<open>
  C1: with RBAC enabled and Kessel off, \<open>InsightsRBACPermission\<close> lets a request see a view
  only if the view's resource is not \<open>denied\<close>, the identity passed every check, and the RBAC
  service answered 200 with a role whose permission contains the one the view and the HTTP method
  call for.
\<close>

theorem insights_grants_by_role:
  assumes "st_rbac_enabled st" "\<not> kessel_on st" "ac_rbac_cache s = None"
    and "insights_has_permission sv st app view s = (Inr True, t)"
  shows "\<exists>resource sc sought call res roles.
    get_resource view = Inr (resource, sc) \<and> resource \<noteq> ''denied'' \<and>
    identity_problem (ac_request s) = Inr None \<and>
    rbac_permission_new (JStr (view_permission app resource (ac_request s))) = Inr sought \<and>
    rbac_call_of sv (access_url sv st) (ac_request s) = Inr call \<and>
    retry_request_default (st_dev st) (sv_attempt sv call) (sv_duration sv) = Inr res \<and>
    status_code (rr_response res) = 200 \<and> rbac_roles (rr_response res) = Some roles \<and>
    roles_grant roles sought"
proof -
  obtain resource sc s1 where g: "get_resource view = Inr (resource, sc)" "resource \<noteq> ''denied''"
    "identity_problem (ac_request s) = Inr None"
    and fr: "rq_auth (ac_request s1) = rq_auth (ac_request s)"
      "rq_meta (ac_request s1) = rq_meta (ac_request s)" "ac_rbac_cache s1 = ac_rbac_cache s"
    and c: "rbac_view_check sv st (view_permission app resource (ac_request s)) s1 = (Inr True, t)"
    using assms(1,2) by (rule_tac insights_True [OF assms(4)]) (auto split: if_splits)
  from c obtain el t' where "has_rbac_permission sv st (view_permission app resource (ac_request s)) s1 =
      (Inr (True, el), t')"
    by (auto simp: rbac_view_check_def act_inv dest!: record_check_Inr)
  from has_rbac_permission_True [OF assms(1) _ this] assms(3) fr(3) obtain sought res roles where
    r: "rbac_permission_new (JStr (view_permission app resource (ac_request s))) = Inr sought"
       "make_rbac_request sv st (access_url sv st) (ac_request s1) = Inr res"
       "status_code (rr_response res) = 200" "rbac_roles (rr_response res) = Some roles"
       "roles_grant roles sought"
    by auto
  have "make_rbac_request sv st (access_url sv st) (ac_request s) = Inr res"
    using r(2) rbac_call_of_frame [OF fr(1,2)] by (simp add: make_rbac_request_def)
  with g r show ?thesis by (auto simp: make_rbac_request_def py_bind_eqs)
qed

text \<open>
  A caller that \<open>has_rbac_permission\<close> lets write a resource is also let read it: on the
  same request and the same answers of the service, the check for \<open>app:resource:read\<close> succeeds
  whenever the check for \<open>app:resource:write\<close> does.
\<close>

theorem write_access_includes_read:
  assumes "CHR '':'' \<notin> set app" "CHR '':'' \<notin> set res"
    and "has_rbac_permission sv st (app @ '':'' @ res @ '':'' @ ''write'') s = (Inr (True, e), t)"
  shows "\<exists>t'. has_rbac_permission sv st (app @ '':'' @ res @ '':'' @ ''read'') s = (Inr (True, e), t')"
proof (cases "st_rbac_enabled st")
  case False
  with assms(3) show ?thesis by (simp add: has_rbac_permission_def)
next
  case True
  have pw: "rbac_permission_new (JStr (app @ '':'' @ res @ '':'' @ ''write'')) = Inr (perm_of app res ''write'')"
    and pr: "rbac_permission_new (JStr (app @ '':'' @ res @ '':'' @ ''read'')) = Inr (perm_of app res ''read'')"
    using assms(1,2) by (intro rbac_permission_new_of; simp)+
  obtain x u where l: "rbac_lookup sv st s = (Inr x, u)"
    and o: "rbac_outcome sv (perm_of app res ''write'') x u = (Inr (True, e), t)"
    using assms(3) True pw by (auto simp: has_rbac_permission_def a_bind_Inr split: if_splits)
  obtain resp el where x: "x = (resp, el)" by force
  from rbac_outcome_True [OF o [unfolded x]] obtain response t1 where
    resp: "resp = Some response" "status_code response = 200" "e = el"
    and d: "rbac_decide sv (perm_of app res ''write'') response u = (Inr True, t1)" by blast
  from rbac_decide_mono [OF write_contains_read [OF assms(1,2)] d]
  obtain t' where "rbac_decide sv (perm_of app res ''read'') response u = (Inr True, t')" by blast
  then have "rbac_outcome sv (perm_of app res ''read'') x u = (Inr (True, e), t')"
    using resp x by (simp add: rbac_outcome_def a_bind_app)
  moreover have "st_rbac_url st \<noteq> ''''"
    using assms(3) True by (auto simp: has_rbac_permission_def)
  ultimately show ?thesis
    using True pr l by (auto simp: has_rbac_permission_def a_bind_app)
qed

lemma record_check_host_groups:
  "record_check permission re s = (r, t) \<Longrightarrow>
   rq_host_groups (ac_request t) = rq_host_groups (ac_request s)"
  by (auto simp: record_check_def a_then_app on_request_def split: if_splits)

lemma host_groups_for_granted:
  assumes "host_groups_for client subject = Some (Inr r)" "granted r"
  shows "\<exists>ids. ids \<noteq> [] \<and> r = KList ids"
  using assms by (auto simp: host_groups_for_def py_bind_eqs split: option.splits)

lemma get_workspace_id_state:
  assumes "fst (get_workspace_id sv s) \<in> {Inr (ws, 0), Inr (ws, sv_grpc_time sv)}"
  shows "\<exists>org. py_bind (request_auth (ac_request s)) (\<lambda>a. py_item a ''org_id'') = Inr org \<and>
    (map_of (ac_workspaces s) (org, ''default'') = Some ws \<or> sv_workspace sv org = Inr ws \<or> ws = '''')"
  using assms by (auto simp: get_workspace_id_def split: sum.splits option.splits if_splits)

text \<open>
  C2: with RBAC and Kessel enabled, \<open>InsightsRBACPermission\<close> lets a request see a view only if
  the resource is not \<open>denied\<close> and the identity passed every check, and then, by the scope of the
  view: for an organisation, Kessel answered \<open>ALLOWED_TRUE\<close> for the relation of the sought
  permission on the default workspace of the caller's organisation; for workspaces, Kessel listed
  at least one workspace of the caller, and the request is restricted to exactly those; for hosts,
  the decision is left to \<open>has_object_permission\<close>.
\<close>

theorem insights_grants_by_kessel:
  assumes "st_rbac_enabled st" "kessel_on st" "listing_ends sv"
    and "insights_has_permission sv st app view s = (Inr True, t)"
  shows "\<exists>resource sc. get_resource view = Inr (resource, sc) \<and> resource \<noteq> ''denied'' \<and>
    identity_problem (ac_request s) = Inr None \<and>
    (sc = HOST \<or>
     (\<exists>identity subject sought. rq_auth (ac_request s) = Some identity \<and>
        identity_to_subject sv identity = Inr subject \<and>
        rbac_permission_new (JStr (view_permission app resource (ac_request s))) = Inr sought \<and>
        (sc = ORG \<longrightarrow> (\<exists>c org ws. sv_stub sv = Some c \<and> py_item identity ''org_id'' = Inr org \<and>
           (map_of (ac_workspaces s) (org, ''default'') = Some ws \<or> sv_workspace sv org = Inr ws) \<and>
           stub_Check c \<lparr>cr_subject = subject_as_resource subject, cr_relation = org_relation sought,
             cr_object = workspace_to_ref ws\<rparr> = Inr ALLOWED_TRUE)) \<and>
        (sc = WORKSPACE \<longrightarrow> (\<exists>ids. ids \<noteq> [] \<and>
           host_groups_for (sv_stub sv) subject = Some (Inr (KList ids)) \<and>
           rq_host_groups (ac_request t) = Some (map JStr ids)))))"
proof -
  obtain resource sc s1 where g: "get_resource view = Inr (resource, sc)" "resource \<noteq> ''denied''"
    "identity_problem (ac_request s) = Inr None"
    and fr: "rq_auth (ac_request s1) = rq_auth (ac_request s)" "ac_workspaces s1 = ac_workspaces s"
    and c: "kessel_view_check sv st sc (view_permission app resource (ac_request s)) s1 = (Inr True, t)"
    using assms(1,2) by (rule_tac insights_True [OF assms(4)]) (auto split: if_splits)
  show ?thesis
  proof (cases "sc = HOST")
    case True
    with g show ?thesis by blast
  next
    case False
    with c obtain sought r el s2 s3 where
      p: "rbac_permission_new (JStr (view_permission app resource (ac_request s))) = Inr sought"
      and k: "has_kessel_permission sv st sc sought None s1 = (Inr (r, el), s2)"
      and h: "(case r of
                 KList ids \<Rightarrow> on_request (a_upd (\<lambda>r. r\<lparr>rq_host_groups := Some (map JStr ids)\<rparr>))
               | KBool _ \<Rightarrow> a_ret ()) s2 = (Inr (), s3)"
      and rc: "record_check (view_permission app resource (ac_request s)) (r, el) s3 = (Inr True, t)"
      by (auto simp: kessel_view_check_def act_inv split: if_splits)
    from record_check_Inr [OF rc] have gr: "granted r" by simp
    have frame: "rq_host_groups (ac_request t) = rq_host_groups (ac_request s3)"
      using rc by (rule record_check_host_groups)
    show ?thesis
    proof (cases sc)
      case ORG
      from has_kessel_permission_ORG [OF assms(1) k [unfolded ORG] gr] obtain cl identity subject ws where
        o: "rq_auth (ac_request s1) = Some identity" "identity_to_subject sv identity = Inr subject"
           "ws \<noteq> ''''" "sv_stub sv = Some cl"
           "fst (get_workspace_id sv s1) \<in> {Inr (ws, 0), Inr (ws, sv_grpc_time sv)}"
           "stub_Check cl \<lparr>cr_subject = subject_as_resource subject, cr_relation = org_relation sought,
             cr_object = workspace_to_ref ws\<rparr> = Inr ALLOWED_TRUE"
        by blast
      from get_workspace_id_state [OF o(5)] o(1,3) fr obtain org where
        "py_item identity ''org_id'' = Inr org"
        "map_of (ac_workspaces s) (org, ''default'') = Some ws \<or> sv_workspace sv org = Inr ws"
        by (auto simp: request_auth_def)
      with g p o fr ORG show ?thesis by auto
    next
      case WORKSPACE
      from has_kessel_permission_WORKSPACE [OF assms(1) k [unfolded WORKSPACE] gr] obtain identity subject where
        w: "rq_auth (ac_request s1) = Some identity" "identity_to_subject sv identity = Inr subject"
           "sv_host_groups sv subject = Inr r" by blast
      then have hg: "host_groups_for (sv_stub sv) subject = Some (Inr r)"
        using assms(3) by (simp add: listing_ends_def)
      from host_groups_for_granted [OF this gr] obtain ids where ids: "ids \<noteq> []" "r = KList ids" by blast
      with h have "rq_host_groups (ac_request s3) = Some (map JStr ids)"
        by (auto simp: on_request_def)
      with g p w hg ids fr WORKSPACE frame show ?thesis by auto
    next
      case HOST
      with False show ?thesis by simp
    qed
  qed
qed

section \<open>A concrete environment for the witnesses\<close>

definition sample_identity :: json where
  "sample_identity = JObj [(''org_id'', JStr ''9876543''), (''type'', JStr ''User''),
     (''user'', JObj [(''username'', JStr ''testing''), (''user_id'', JStr ''1'')])]"

definition sample_state :: acc_state where
  "sample_state = \<lparr>ac_request = set_user_auth (JStr ''9876543'', sample_identity)
       (auth_to_request [(auth_header_key, ''header'')]),
     ac_rbac_cache = None, ac_workspaces = []\<rparr>"

definition sample_subject :: subject_ref where
  "sample_subject = \<lparr>subject_id = ''redhat/1'', subject_type = ''principal''\<rparr>"

definition sample_client :: test_client where
  "sample_client = add_lookup_resources_response (subject_as_resource sample_subject) [''g1'']
     (add_permission_check_response
        \<lparr>cr_subject = subject_as_resource sample_subject, cr_relation = ''advisor_hosts_view'',
         cr_object = workspace_to_ref ''w1''\<rparr> ALLOWED_TRUE new_test_client)"

definition sample_services :: services where
  "sample_services = \<lparr>sv_loads = (\<lambda>_. None), sv_encode = (\<lambda>_. ''''), sv_render = (\<lambda>_. ''''),
     sv_credentials = False, sv_urljoin = (\<lambda>b p. b @ p),
     sv_attempt = (\<lambda>_ _. Answer \<lparr>status_code = 200, body = Some (JObj [(''data'',
        JList [JObj [(''permission'', JStr ''advisor:*:write'')]])])\<rparr>),
     sv_duration = (\<lambda>_. 0), sv_stub = Some (test_stub sample_client),
     sv_host_groups = (\<lambda>s. if s = sample_subject then Inr (KList [''g1'']) else Inl NotImplementedError),
     sv_workspace = (\<lambda>_. Inr ''w1''), sv_grpc_time = 0\<rparr>"

definition sample_settings :: "bool \<Rightarrow> settings" where
  "sample_settings kessel = \<lparr>st_rbac_enabled = True, st_rbac_url = ''http://rbac'',
     st_kessel_enabled = kessel, st_kessel_flag = kessel, st_dev = False\<rparr>"

definition sample_view :: "scope \<Rightarrow> view" where
  "sample_view sc = \<lparr>vw_name = ''Hosts'', vw_action = None, vw_resource_name = None,
     vw_basename = Some ''host'', vw_scope = Some sc, vw_methods = []\<rparr>"

lemma sample_listing_ends: "listing_ends sample_services"
proof -
  have "get_resources (tc_StreamedListObjects sample_client (subject_as_resource s)) True None =
      Some (if s = sample_subject then Inr [''g1''] else Inl NotImplementedError)" for s
  proof (cases "s = sample_subject")
    case True
    then show ?thesis by (simp add: sample_client_def tc_objects.lists_all)
  next
    case False
    then have "subject_as_resource s \<noteq> subject_as_resource sample_subject"
      by (auto simp: subject_as_resource_def)
    then have "tc_StreamedListObjects sample_client (subject_as_resource s) None = Inl NotImplementedError"
      by (simp add: tc_StreamedListObjects_def sample_client_def add_lookup_resources_response_def
          add_permission_check_response_def new_test_client_def)
    with False show ?thesis by (subst get_resources.simps) simp
  qed
  then show ?thesis
    by (auto simp: listing_ends_def sample_services_def host_groups_for_def test_stub_def)
qed

theorem insights_grants_by_role_witness:
  "\<exists>resource sc roles sought. get_resource (sample_view WORKSPACE) = Inr (resource, sc) \<and>
     rbac_permission_new (JStr (view_permission ''advisor'' resource (ac_request sample_state))) = Inr sought \<and>
     roles_grant roles sought"
proof -
  have "fst (insights_has_permission sample_services (sample_settings False) ''advisor''
      (sample_view WORKSPACE) sample_state) = Inr True"
    by code_simp
  then obtain t where "insights_has_permission sample_services (sample_settings False) ''advisor''
      (sample_view WORKSPACE) sample_state = (Inr True, t)"
    by (metis prod.collapse)
  from insights_grants_by_role [OF _ _ _ this] show ?thesis
    by (auto simp: sample_settings_def kessel_on_def sample_state_def)
qed

theorem insights_grants_by_kessel_witness:
  "\<exists>t. insights_has_permission sample_services (sample_settings True) ''advisor''
     (sample_view WORKSPACE) sample_state = (Inr True, t) \<and>
     rq_host_groups (ac_request t) = Some [JStr ''g1'']"
proof -
  have "fst (insights_has_permission sample_services (sample_settings True) ''advisor''
      (sample_view WORKSPACE) sample_state) = Inr True"
    by code_simp
  then obtain t where t: "insights_has_permission sample_services (sample_settings True) ''advisor''
      (sample_view WORKSPACE) sample_state = (Inr True, t)"
    by (metis prod.collapse)
  have g: "get_resource (sample_view WORKSPACE) = Inr (''hosts'', WORKSPACE)" by code_simp
  have su: "identity_to_subject sample_services sample_identity = Inr sample_subject" by code_simp
  from insights_grants_by_kessel [OF _ _ sample_listing_ends t] g su obtain ids where
    "host_groups_for (sv_stub sample_services) sample_subject = Some (Inr (KList ids))"
    "rq_host_groups (ac_request t) = Some (map JStr ids)"
    by (auto simp: sample_settings_def kessel_on_def sample_state_def set_user_auth_def)
  moreover have "host_groups_for (sv_stub sample_services) sample_subject = Some (Inr (KList [''g1'']))"
    using sample_listing_ends by (simp add: listing_ends_def) (simp add: sample_services_def)
  ultimately show ?thesis using t by auto
qed

theorem write_access_includes_read_witness:
  "\<exists>t'. has_rbac_permission sample_services (sample_settings False) ''advisor:hosts:read'' sample_state =
     (Inr (True, 0), t')"
proof -
  have "fst (has_rbac_permission sample_services (sample_settings False)
      (''advisor'' @ '':'' @ ''hosts'' @ '':'' @ ''write'') sample_state) = Inr (True, 0)"
    by code_simp
  then obtain t where "has_rbac_permission sample_services (sample_settings False)
      (''advisor'' @ '':'' @ ''hosts'' @ '':'' @ ''write'') sample_state = (Inr (True, 0), t)"
    by (metis prod.collapse)
  from write_access_includes_read [OF _ _ this] show ?thesis by simp
qed

end
