(* ===== verification/Permission_Classes.thy ===== *)
theory Permission_Classes
  imports Access_Safety
begin

text \<open>
  The other permission classes of \<open>api/permissions.py\<close>: \<open>ReadOnlyUser\<close>,
  \<open>CertAuthPermission\<close>, \<open>OrgPermission\<close> and the two base classes that restrict a
  permission to named views, with their subclasses.  The restriction both base classes promise is
  the locale \<open>view_restricted\<close>.
\<close>

section \<open>Read-only users and organisations\<close>

definition read_only_has_permission :: "request \<Rightarrow> bool" where
  "read_only_has_permission rq \<longleftrightarrow> rq_method rq \<in> set safe_methods"

definition org_has_permission :: "request \<Rightarrow> bool py" where
  "org_has_permission rq =
     py_bind (request_auth rq) (\<lambda>identity.
       if identity = JNull then Inr False else py_in ''org_id'' identity)"

section \<open>Certificate authentication\<close>

text \<open>\<open>uuid_ok\<close> says whether the constructor \<open>uuid.UUID\<close> accepts a string.\<close>

definition cert_has_permission :: "(string \<Rightarrow> bool) \<Rightarrow> (request, bool) act" where
  "cert_has_permission uuid_ok =
     a_then (set_rbac_success ''CertAuthPermission has_permission() check starting'')
     (a_bind (a_get request_auth) (\<lambda>auth. a_bind (a_lift auth) (\<lambda>identity.
       if identity = JNull then set_rbac_failure ''not authenticated''
       else a_bind (a_lift (py_in ''system'' identity)) (\<lambda>has_system.
         if \<not> has_system then set_rbac_failure ''system property absent from identity object''
         else a_bind (a_lift (py_item identity ''system'')) (\<lambda>system.
           case system of
             JObj sys \<Rightarrow>
               (case map_of sys ''cn'' of
                  None \<Rightarrow> set_rbac_failure ''identity.system has no cn property in Cert authentication check''
                | Some v \<Rightarrow>
                    (case v of
                       JStr cn \<Rightarrow>
                         if \<not> uuid_ok cn
                           then set_rbac_failure ''identity.system.cn is not a UUID in Cert authentication check''
                         else
                           a_then (a_upd (\<lambda>r. r\<lparr>rq_auth_system_type :=
                               Some (case map_of sys ''cert_type'' of None \<Rightarrow> JStr ''system'' | Some t \<Rightarrow> t)\<rparr>))
                           (a_then (a_upd (\<lambda>r. r\<lparr>rq_auth_system := Some cn\<rparr>))
                           (a_then (a_upd (\<lambda>r. r\<lparr>rq_username := Some (JStr ''Certified System'')\<rparr>))
                           (a_then (set_rbac_success ''CertAuthPermission OK'')
                             (a_ret True))))
                     | _ \<Rightarrow> set_rbac_failure ''identity.system.cn is not a string in Cert authentication check''))
           | _ \<Rightarrow> set_rbac_failure ''identity.system is not an object in Cert authentication check'')))))"

text \<open>
  \<open>DefaultAdvisorPermission = InsightsRBACPermission | CertAuthPermission\<close>: the second is
  asked only when the first denies.
\<close>

definition default_advisor_permission ::
  "services \<Rightarrow> settings \<Rightarrow> (string \<Rightarrow> bool) \<Rightarrow> view \<Rightarrow> (acc_state, bool) act" where
  "default_advisor_permission sv st uuid_ok view =
     a_bind (insights_has_permission sv st ''advisor'' view) (\<lambda>b.
       if b then a_ret True else on_request (cert_has_permission uuid_ok))"

section \<open>Permissions restricted to named views\<close>

text \<open>An entry of \<open>allowed_views\<close>: a view name stands for its GET method.\<close>

datatype allowed_view = View_name string | View_method string string

fun entry_of :: "allowed_view \<Rightarrow> string \<times> string" where
  "entry_of (View_name v) = (v, ''GET'')"
| "entry_of (View_method v m) = (v, m)"

fun view_methods_dict_from ::
  "(string \<times> string list) list \<Rightarrow> allowed_view list \<Rightarrow> (string \<times> string list) list" where
  "view_methods_dict_from d [] = d"
| "view_methods_dict_from d (rv # rvs) =
     (case entry_of rv of (view, method) \<Rightarrow>
        let d' = (if dict_has d view then d else dict_set view [] d)
        in view_methods_dict_from
             (dict_set view ((case map_of d' view of Some ms \<Rightarrow> ms | None \<Rightarrow> []) @ [method]) d') rvs)"

definition view_methods_dict :: "allowed_view list \<Rightarrow> (string \<times> string list) list" where
  "view_methods_dict allowed_views = view_methods_dict_from [] allowed_views"

text \<open>The gate of both base classes: the failure message, if any.\<close>

definition view_gate :: "allowed_view list \<Rightarrow> string \<Rightarrow> string \<Rightarrow> string option" where
  "view_gate allowed_views view_name method =
     (if allowed_views = [] then None
      else case map_of (view_methods_dict allowed_views) view_name of
        None \<Rightarrow> Some (''view '' @ view_name @ '' not in allowed_views'')
      | Some methods \<Rightarrow>
          if method \<notin> set methods then Some (method @ '' of '' @ view_name @ '' not allowed'') else None)"

definition red_hat_has_permission ::
  "(json \<Rightarrow> bool py) \<Rightarrow> allowed_view list \<Rightarrow> string \<Rightarrow> (request, bool) act" where
  "red_hat_has_permission has_red_hat_permission allowed_views view_name =
     a_then (set_rbac_success ''Red Hat user has_permission() check starting'') (\<lambda>rq.
       (if \<not> (rq_user rq \<noteq> None \<and> rq_auth rq \<noteq> None) then set_rbac_failure ''Red Hat user not authenticated''
        else a_bind (a_lift (request_auth rq)) (\<lambda>identity.
          if identity = JNull then set_rbac_failure ''Red Hat user has no identity data''
          else a_bind (a_lift (py_in ''user'' identity)) (\<lambda>has_user.
            if \<not> has_user then set_rbac_failure ''Red Hat user - user field not in identity data''
            else case view_gate allowed_views view_name (rq_method rq) of
              Some msg \<Rightarrow> set_rbac_failure msg
            | None \<Rightarrow>
                a_bind (a_lift (py_item identity ''user'')) (\<lambda>user.
                a_bind (a_lift (has_red_hat_permission user)) (\<lambda>result.
                  a_then (set_rbac_success (''Red Hat permission successfully returned '' @
                      (if result then ''True'' else ''False''))) (a_ret result)))))) rq)"

definition is_internal_user :: "json \<Rightarrow> bool py" where
  "is_internal_user user_data =
     py_bind (py_in ''is_internal'' user_data) (\<lambda>has.
       if \<not> has then Inr False
       else py_bind (py_item user_data ''is_internal'') (\<lambda>v. Inr (truthy v)))"

definition associate_has_permission ::
  "(json \<Rightarrow> bool py) \<Rightarrow> allowed_view list \<Rightarrow> string \<Rightarrow> (request, bool) act" where
  "associate_has_permission has_associate_permission allowed_views view_name =
     a_then (set_rbac_success ''BaseAssociatePermission has_permission() check started'') (\<lambda>rq.
       (if \<not> (rq_user rq \<noteq> None \<and> rq_auth rq \<noteq> None)
          then set_rbac_failure ''Not yet authenticated in associate permission''
        else a_bind (a_lift (request_auth rq)) (\<lambda>identity.
          if identity = JNull then set_rbac_failure ''No identity data in associate permission''
          else case view_gate allowed_views view_name (rq_method rq) of
            Some msg \<Rightarrow> set_rbac_failure msg
          | None \<Rightarrow>
              a_bind (a_lift (has_associate_permission identity)) (\<lambda>result.
                a_then (set_rbac_success (''Associate permission successfully returned '' @
                    (if result then ''True'' else ''False''))) (a_ret result)))) rq)"

definition is_associate :: "json \<Rightarrow> bool py" where
  "is_associate identity = py_in ''associate'' identity"

section \<open>Lemmas\<close>

lemma view_methods_dict_from_lookup:
  "(\<exists>ms. map_of (view_methods_dict_from d rvs) v = Some ms \<and> m \<in> set ms) \<longleftrightarrow>
   (\<exists>ms. map_of d v = Some ms \<and> m \<in> set ms) \<or> (v, m) \<in> entry_of ` set rvs"
proof (induction rvs arbitrary: d)
  case Nil
  then show ?case by simp
next
  case (Cons rv rvs)
  obtain w k where e: "entry_of rv = (w, k)" by force
  show ?case
    by (simp add: e Cons.IH Let_def dict_has_def split: option.split) auto
qed

lemma view_gate_None:
  "view_gate av v m = None \<longleftrightarrow> av = [] \<or> (v, m) \<in> entry_of ` set av"
proof -
  have "(\<exists>ms. map_of (view_methods_dict av) v = Some ms \<and> m \<in> set ms) \<longleftrightarrow> (v, m) \<in> entry_of ` set av"
    unfolding view_methods_dict_def by (simp add: view_methods_dict_from_lookup)
  then show ?thesis
    by (auto simp: view_gate_def split: option.splits)
qed

text \<open>
  What a permission restricted to views promises: with a non-empty list, every combination of view
  and method it does not name is denied, whatever the identity.
\<close>

locale view_restricted =
  fixes perm :: "allowed_view list \<Rightarrow> string \<Rightarrow> (request, bool) act"
  assumes granted_listed:
    "perm av v rq = (Inr True, rq') \<Longrightarrow> av = [] \<or> (v, rq_method rq) \<in> entry_of ` set av"
begin

lemma unlisted_denied:
  assumes "av \<noteq> []" "(v, rq_method rq) \<notin> entry_of ` set av"
  shows "fst (perm av v rq) \<noteq> Inr True"
  using assms granted_listed by (metis prod.collapse)

text \<open>A list of GET views never lets another method through.\<close>

lemma get_views_only:
  assumes "\<forall>a \<in> set av. \<exists>n. a = View_name n" "av \<noteq> []" "fst (perm av v rq) = Inr True"
  shows "rq_method rq = ''GET''"
proof -
  have "(v, rq_method rq) \<in> entry_of ` set av"
    using assms(2,3) unlisted_denied by blast
  with assms(1) show ?thesis by force
qed

end

interpretation red_hat: view_restricted "red_hat_has_permission check" for check
  by unfold_locales
    (auto simp: red_hat_has_permission_def act_inv set_rbac_failure_app set_rbac_success_app
        view_gate_None [symmetric] split: if_splits option.splits)

interpretation associate: view_restricted "associate_has_permission check" for check
  by unfold_locales
    (auto simp: associate_has_permission_def act_inv set_rbac_failure_app set_rbac_success_app
        view_gate_None [symmetric] split: if_splits option.splits)

section \<open>Properties\<close>

text \<open>
  \<open>CertAuthPermission\<close> grants exactly the identities with a \<open>system\<close> object whose
  \<open>cn\<close> is a string that \<open>uuid.UUID\<close> accepts, and then records that string as the
  request's \<open>auth_system\<close>, the owner the queries filter on.  Neither the \<open>type\<close> nor the
  \<open>auth_type\<close> of the identity is consulted.
\<close>

theorem cert_auth_grants_iff:
  assumes "rq_auth rq = Some (JObj d)"
  shows "(\<exists>rq'. cert_has_permission uuid_ok rq = (Inr True, rq') \<and> rq_auth_system rq' = Some cn) \<longleftrightarrow>
    (\<exists>sys. map_of d ''system'' = Some (JObj sys) \<and> map_of sys ''cn'' = Some (JStr cn) \<and> uuid_ok cn)"
proof (cases "map_of d ''system''")
  case None
  then show ?thesis
    using assms by (auto simp: cert_has_permission_def act_inv request_auth_def dict_has_def
        set_rbac_failure_app set_rbac_success_app)
next
  case (Some v)
  show ?thesis
  proof (cases "\<exists>sys cn'. v = JObj sys \<and> map_of sys ''cn'' = Some (JStr cn')")
    case True
    then show ?thesis
      using assms Some by (auto simp: cert_has_permission_def act_inv request_auth_def dict_has_def
          set_rbac_failure_app set_rbac_success_app split: if_splits)
  next
    case False
    then show ?thesis
      using assms Some by (auto simp: cert_has_permission_def act_inv request_auth_def dict_has_def
          set_rbac_failure_app set_rbac_success_app split: json.splits option.splits)
  qed
qed

definition cert_identity :: "(string \<times> json) list" where
  "cert_identity = [(''type'', JStr ''User''), (''auth_type'', JStr ''jwt-auth''),
     (''system'', JObj [(''cn'', JStr ''0dd79821-a002-419a-90a6-29f8f1e7b0b1'')])]"

theorem cert_auth_grants_iff_witness:
  "\<exists>rq'. cert_has_permission (\<lambda>_. True) (set_user_auth (JNull, JObj cert_identity) (auth_to_request [])) =
     (Inr True, rq') \<and> rq_auth_system rq' = Some ''0dd79821-a002-419a-90a6-29f8f1e7b0b1''"
proof -
  have "rq_auth (set_user_auth (JNull, JObj cert_identity) (auth_to_request [])) = Some (JObj cert_identity)"
    by (simp add: set_user_auth_def)
  from cert_auth_grants_iff [OF this, of "\<lambda>_. True" "''0dd79821-a002-419a-90a6-29f8f1e7b0b1''"]
  show ?thesis by (simp add: cert_identity_def)
qed

text \<open>
  A permission class built on \<open>BaseRedHatUserPermission\<close> or
  \<open>BaseAssociatePermission\<close> with a non-empty \<open>allowed_views\<close> denies every view and method
  the list does not name, whatever the subclass's own check says; and a list that only names views
  never grants a method other than GET.
\<close>

theorem restricted_views_denied:
  assumes "av \<noteq> []"
  shows "((v, rq_method rq) \<notin> entry_of ` set av \<longrightarrow>
      fst (red_hat_has_permission check av v rq) \<noteq> Inr True \<and>
      fst (associate_has_permission check av v rq) \<noteq> Inr True) \<and>
    ((\<forall>a \<in> set av. \<exists>n. a = View_name n) \<and> rq_method rq \<noteq> ''GET'' \<longrightarrow>
      fst (red_hat_has_permission check av v rq) \<noteq> Inr True \<and>
      fst (associate_has_permission check av v rq) \<noteq> Inr True)"
proof (intro conjI impI)
  assume "(v, rq_method rq) \<notin> entry_of ` set av"
  with assms show "fst (red_hat_has_permission check av v rq) \<noteq> Inr True"
    by (rule red_hat.unlisted_denied)
next
  assume "(v, rq_method rq) \<notin> entry_of ` set av"
  with assms show "fst (associate_has_permission check av v rq) \<noteq> Inr True"
    by (rule associate.unlisted_denied)
next
  assume "(\<forall>a \<in> set av. \<exists>n. a = View_name n) \<and> rq_method rq \<noteq> ''GET''"
  with assms show "fst (red_hat_has_permission check av v rq) \<noteq> Inr True"
    using red_hat.get_views_only [of av check v rq] by auto
next
  assume "(\<forall>a \<in> set av. \<exists>n. a = View_name n) \<and> rq_method rq \<noteq> ''GET''"
  with assms show "fst (associate_has_permission check av v rq) \<noteq> Inr True"
    using associate.get_views_only [of av check v rq] by auto
qed

theorem restricted_views_denied_witness:
  "fst (red_hat_has_permission (\<lambda>_. Inr True) [View_name ''Stats''] ''Stats''
     ((ac_request sample_state)\<lparr>rq_method := ''POST''\<rparr>)) \<noteq> Inr True \<and>
   fst (red_hat_has_permission (\<lambda>_. Inr True) [View_name ''Stats''] ''Stats'' (ac_request sample_state)) = Inr True"
proof
  show "fst (red_hat_has_permission (\<lambda>_. Inr True) [View_name ''Stats''] ''Stats''
     ((ac_request sample_state)\<lparr>rq_method := ''POST''\<rparr>)) \<noteq> Inr True"
    using restricted_views_denied [of "[View_name ''Stats'']" "''Stats''"
        "(ac_request sample_state)\<lparr>rq_method := ''POST''\<rparr>" "\<lambda>_. Inr True"] by simp
  show "fst (red_hat_has_permission (\<lambda>_. Inr True) [View_name ''Stats''] ''Stats'' (ac_request sample_state)) =
     Inr True"
    by code_simp
qed

end
