(* ===== verification/Kafka_Dispatch.thy ===== *)
theory Kafka_Dispatch
  imports Py_Values
begin

text \<open>
  \<open>api/advisor/kafka_utils.py\<close>: the dummy message, producer and consumer, the sending
  helpers, and \<open>KafkaDispatcher\<close>, which receives messages one by one or in batches, keeps
  those it has a handler for and calls the handlers.  The Kafka client is an interface: the record
  \<open>consumer_ops\<close> of the calls the dispatcher makes, whose laws are the locale
  \<open>queue_consumer\<close>, interpreted on \<open>DummyConsumer\<close>.
\<close>

section \<open>Messages\<close>

text \<open>
  \<open>DummyMessage\<close>.  Bytes are character lists; the value of a message or of a header is
  \<open>None\<close> for a null, and the error is empty when there is none.
\<close>

record kmessage =
  km_topic :: string
  km_value :: "string option"
  km_headers :: "(string \<times> string option) list option"
  km_partition :: nat
  km_error :: string

definition dummy_message ::
  "string \<Rightarrow> string \<Rightarrow> (string \<times> string option) list option \<Rightarrow> kmessage" where
  "dummy_message topic value headers =
     \<lparr>km_topic = topic, km_value = Some value, km_headers = headers, km_partition = 0, km_error = ''''\<rparr>"

definition set_partition :: "nat \<Rightarrow> kmessage \<Rightarrow> kmessage" where
  "set_partition n m = m\<lparr>km_partition := n\<rparr>"

definition set_error :: "string \<Rightarrow> kmessage \<Rightarrow> kmessage" where
  "set_error e m = m\<lparr>km_error := e\<rparr>"

text \<open>The standard codecs: UTF-8 and \<open>json\<close>.\<close>

record codec =
  utf8_decode :: "string \<Rightarrow> string option"
  utf8_encode :: "string \<Rightarrow> string"
  loads :: "string \<Rightarrow> json option"
  dumps :: "json \<Rightarrow> string"

section \<open>Sending\<close>

text \<open>\<open>DummyProducer\<close>: what was called, the newest call last.\<close>

record produce_call =
  pc_topic :: string
  pc_message :: string
  pc_callback :: "string option"

record dummy_producer =
  poll_calls :: nat
  produce_calls :: "produce_call list"
  flush_calls :: nat

definition new_dummy_producer :: dummy_producer where
  "new_dummy_producer = \<lparr>poll_calls = 0, produce_calls = [], flush_calls = 0\<rparr>"

definition producer_poll :: "dummy_producer \<Rightarrow> dummy_producer" where
  "producer_poll p = p\<lparr>poll_calls := poll_calls p + 1\<rparr>"

text \<open>\<open>produce\<close>, with the message it hands to the delivery callback when there is one.\<close>

definition producer_produce ::
  "string \<Rightarrow> string \<Rightarrow> string option \<Rightarrow> dummy_producer \<Rightarrow> kmessage option \<times> dummy_producer" where
  "producer_produce topic message callback p =
     (map_option (\<lambda>_. dummy_message topic message None) callback,
      p\<lparr>produce_calls := produce_calls p @
          [\<lparr>pc_topic = topic, pc_message = message, pc_callback = callback\<rparr>]\<rparr>)"

definition producer_flush :: "dummy_producer \<Rightarrow> dummy_producer" where
  "producer_flush p = p\<lparr>flush_calls := flush_calls p + 1\<rparr>"

definition reset_calls :: "dummy_producer \<Rightarrow> dummy_producer" where
  "reset_calls p = p\<lparr>poll_calls := 0, produce_calls := [], flush_calls := 0\<rparr>"

text \<open>\<open>send_kafka_message\<close>; without a producer it only logs.\<close>

definition send_kafka_message ::
  "codec \<Rightarrow> string \<Rightarrow> json \<Rightarrow> dummy_producer option \<Rightarrow> dummy_producer option" where
  "send_kafka_message cd topic message producer =
     map_option (\<lambda>p. producer_flush (snd (producer_produce topic (utf8_encode cd (dumps cd message))
       (Some ''report_delivery_callback'') (producer_poll p)))) producer"

definition send_webhook_event ::
  "codec \<Rightarrow> string \<Rightarrow> json \<Rightarrow> dummy_producer option \<Rightarrow> dummy_producer option" where
  "send_webhook_event cd webhooks_topic event_msg = send_kafka_message cd webhooks_topic event_msg"

section \<open>Handlers\<close>

text \<open>
  A handler receives the topic and one body, or in batch mode the list of bodies.  It works on the
  state of the program around the dispatcher and may set the dispatcher's \<open>quit\<close> flag.
\<close>

datatype payload = One json | Many "json list"

type_synonym 'w handler = "string \<Rightarrow> payload \<Rightarrow> ('w \<times> bool, unit) act"

record 'w handler_entry =
  he_handler :: "'w handler"
  he_filters :: "(string \<times> string) list"
  he_batch :: bool

text \<open>
  What the dispatcher shows of a handler call: Django's request signals around it, the call, and
  the logged exception when it failed.
\<close>

datatype kevent =
    Request_started
  | Handler_called string payload
  | Handler_failed string
  | Request_finished

record ('w, 'c) dispatcher =
  dp_handlers :: "(string \<times> 'w handler_entry) list"
  dp_quit :: bool
  dp_consumer :: 'c
  dp_world :: 'w
  dp_events :: "kevent list"

definition new_dispatcher :: "'c \<Rightarrow> 'w \<Rightarrow> ('w, 'c) dispatcher" where
  "new_dispatcher c w =
     \<lparr>dp_handlers = [], dp_quit = False, dp_consumer = c, dp_world = w, dp_events = []\<rparr>"

definition register_handler ::
  "string \<Rightarrow> 'w handler \<Rightarrow> bool \<Rightarrow> (string \<times> string) list \<Rightarrow>
   ('w, 'c) dispatcher \<Rightarrow> ('w, 'c) dispatcher" where
  "register_handler topic fn batch filters d =
     (if dict_has (dp_handlers d) topic then d
      else d\<lparr>dp_handlers := dict_set topic
               \<lparr>he_handler = fn, he_filters = filters, he_batch = batch\<rparr> (dp_handlers d)\<rparr>)"

section \<open>Preparing a message\<close>

text \<open>
  The header dictionary: the headers with a non-empty value, decoded; the last of several with the
  same key counts.  A value that is not UTF-8 raises \<open>UnicodeDecodeError\<close>, a
  \<open>ValueError\<close>.
\<close>

fun header_dict :: "codec \<Rightarrow> (string \<times> string option) list \<Rightarrow> (string \<times> string) list py" where
  "header_dict cd [] = Inr []"
| "header_dict cd ((key, value) # headers) =
     (case value of
        None \<Rightarrow> header_dict cd headers
      | Some v \<Rightarrow>
          if v = '''' then header_dict cd headers
          else (case utf8_decode cd v of
                  None \<Rightarrow> Inl ValueError
                | Some s \<Rightarrow> py_bind (header_dict cd headers) (\<lambda>d.
                    Inr (if dict_has d key then d else (key, s) # d))))"

definition filters_matched :: "(string \<times> string) list \<Rightarrow> (string \<times> string) list \<Rightarrow> bool" where
  "filters_matched filters hdict = (\<forall>(key, value) \<in> set filters. map_of hdict key = Some value)"

definition decode_body :: "codec \<Rightarrow> kmessage \<Rightarrow> json option" where
  "decode_body cd m =
     Option.bind (km_value m) (\<lambda>b. Option.bind (utf8_decode cd b) (\<lambda>s. loads cd (strip_char CHR 0x22 s)))"

text \<open>\<open>_prepare_message\<close>: \<open>None\<close> when the message is skipped.\<close>

definition prepare_message ::
  "codec \<Rightarrow> (string \<times> 'w handler_entry) list \<Rightarrow> kmessage option \<Rightarrow> (string \<times> json) option py" where
  "prepare_message cd handlers message =
     (case message of
        None \<Rightarrow> Inr None
      | Some m \<Rightarrow>
          if km_error m \<noteq> '''' then Inr None
          else (case map_of handlers (km_topic m) of
                  None \<Rightarrow> Inr None
                | Some he \<Rightarrow>
                    py_bind (header_dict cd (case km_headers m of None \<Rightarrow> [] | Some h \<Rightarrow> h)) (\<lambda>hdict.
                      if \<not> filters_matched (he_filters he) hdict then Inr None
                      else Inr (map_option (Pair (km_topic m)) (decode_body cd m)))))"

section \<open>The dispatcher\<close>

definition log_event :: "kevent \<Rightarrow> (('w, 'c) dispatcher, unit) act" where
  "log_event e = a_upd (\<lambda>d. d\<lparr>dp_events := dp_events d @ [e]\<rparr>)"

text \<open>A call on the world and the \<open>quit\<close> flag, and one on the consumer.\<close>

definition on_world :: "('w \<times> bool, 'a) act \<Rightarrow> (('w, 'c) dispatcher, 'a) act" where
  "on_world m d =
     (case m (dp_world d, dp_quit d) of (r, (w, q)) \<Rightarrow> (r, d\<lparr>dp_world := w, dp_quit := q\<rparr>))"

definition on_consumer :: "('c \<times> bool, 'a) act \<Rightarrow> (('w, 'c) dispatcher, 'a) act" where
  "on_consumer m d =
     (case m (dp_consumer d, dp_quit d) of (r, (c, q)) \<Rightarrow> (r, d\<lparr>dp_consumer := c, dp_quit := q\<rparr>))"

text \<open>
  One call of a handler between the two signals: any exception is logged.  The result says whether
  the handler returned.
\<close>

definition call_handler ::
  "'w handler_entry \<Rightarrow> string \<Rightarrow> payload \<Rightarrow> (('w, 'c) dispatcher, bool) act" where
  "call_handler he topic p =
     a_then (log_event Request_started)
     (a_then (log_event (Handler_called topic p))
     (a_bind (a_catch (a_then (on_world (he_handler he topic p)) (a_ret True))
                (\<lambda>e. a_then (log_event (Handler_failed topic)) (a_ret False)))
        (\<lambda>ok. a_then (log_event Request_finished) (a_ret ok))))"

definition handle_message ::
  "codec \<Rightarrow> kmessage option \<Rightarrow> (('w, 'c) dispatcher, unit) act" where
  "handle_message cd message =
     a_bind (a_get dp_handlers) (\<lambda>handlers.
     a_bind (a_lift (prepare_message cd handlers message)) (\<lambda>prepared.
       case prepared of
         None \<Rightarrow> a_ret ()
       | Some (topic, body) \<Rightarrow>
           (case map_of handlers topic of
              None \<Rightarrow> a_raise (KeyError topic)
            | Some he \<Rightarrow>
                if he_batch he then a_ret ()
                else a_bind (call_handler he topic (One body)) (\<lambda>_. a_ret ()))))"

text \<open>Grouping the bodies of a batch by topic, topics in the order of their first message.\<close>

fun group_messages ::
  "codec \<Rightarrow> (string \<times> 'w handler_entry) list \<Rightarrow> kmessage list \<Rightarrow> (string \<times> json list) list \<Rightarrow>
   (string \<times> json list) list py" where
  "group_messages cd handlers [] grouped = Inr grouped"
| "group_messages cd handlers (m # ms) grouped =
     py_bind (prepare_message cd handlers (Some m)) (\<lambda>prepared.
       case prepared of
         None \<Rightarrow> group_messages cd handlers ms grouped
       | Some (topic, body) \<Rightarrow>
           group_messages cd handlers ms
             (dict_set topic ((case map_of grouped topic of None \<Rightarrow> [] | Some bs \<Rightarrow> bs) @ [body]) grouped))"

definition invocations :: "'w handler_entry \<Rightarrow> json list \<Rightarrow> payload list" where
  "invocations he bodies = (if he_batch he then [Many bodies] else map One bodies)"

fun run_invocations ::
  "'w handler_entry \<Rightarrow> string \<Rightarrow> payload list \<Rightarrow> bool \<Rightarrow> (('w, 'c) dispatcher, bool) act" where
  "run_invocations he topic [] ok = a_ret ok"
| "run_invocations he topic (p # ps) ok =
     a_bind (call_handler he topic p) (\<lambda>b. run_invocations he topic ps (ok \<and> b))"

fun run_groups :: "(string \<times> json list) list \<Rightarrow> bool \<Rightarrow> (('w, 'c) dispatcher, bool) act" where
  "run_groups [] ok = a_ret ok"
| "run_groups ((topic, bodies) # gs) ok =
     a_bind (a_get (\<lambda>d. map_of (dp_handlers d) topic)) (\<lambda>entry.
       case entry of
         None \<Rightarrow> a_raise (KeyError topic)
       | Some he \<Rightarrow>
           a_bind (run_invocations he topic (invocations he bodies) ok) (\<lambda>b. run_groups gs b))"

definition handle_batch_messages ::
  "codec \<Rightarrow> kmessage list \<Rightarrow> (('w, 'c) dispatcher, bool) act" where
  "handle_batch_messages cd messages =
     a_bind (a_get dp_handlers) (\<lambda>handlers.
     a_bind (a_lift (group_messages cd handlers messages [])) (\<lambda>grouped. run_groups grouped True))"

section \<open>The consumer and the receive loops\<close>

text \<open>The calls the dispatcher makes on a Kafka consumer.\<close>

record 'c consumer_ops =
  co_subscribe :: "string list \<Rightarrow> ('c \<times> bool, unit) act"
  co_poll :: "('c \<times> bool, kmessage option) act"
  co_consume :: "nat \<Rightarrow> ('c \<times> bool, kmessage list) act"
  co_store_offsets :: "kmessage \<Rightarrow> ('c \<times> bool, unit) act"
  co_commit :: "('c \<times> bool, unit) act"
  co_close :: "('c \<times> bool, unit) act"

definition store_offsets ::
  "'c consumer_ops \<Rightarrow> kmessage list \<Rightarrow> (('w, 'c) dispatcher, unit) act" where
  "store_offsets ops =
     a_for (\<lambda>m. if km_error m \<noteq> '''' then a_ret () else on_consumer (co_store_offsets ops m))"

text \<open>What follows a batch: store and commit, or stop.\<close>

definition finish_batch ::
  "'c consumer_ops \<Rightarrow> kmessage list \<Rightarrow> bool \<Rightarrow> (('w, 'c) dispatcher, unit) act" where
  "finish_batch ops messages success =
     (if success
      then a_catch (a_then (store_offsets ops messages) (on_consumer (co_commit ops))) (\<lambda>e. a_ret ())
      else a_upd (\<lambda>d. d\<lparr>dp_quit := True\<rparr>))"

text \<open>One turn of \<open>_receive_batch\<close>; an exception of \<open>consume\<close> is logged.\<close>

definition batch_turn ::
  "codec \<Rightarrow> 'c consumer_ops \<Rightarrow> nat \<Rightarrow> (('w, 'c) dispatcher, unit) act" where
  "batch_turn cd ops batch_size =
     a_bind (a_catch (on_consumer (co_consume ops batch_size)) (\<lambda>e. a_ret [])) (\<lambda>messages.
       if messages = [] then a_ret ()
       else a_bind (handle_batch_messages cd messages) (finish_batch ops messages))"

definition single_turn :: "codec \<Rightarrow> 'c consumer_ops \<Rightarrow> (('w, 'c) dispatcher, unit) act" where
  "single_turn cd ops = a_bind (on_consumer (co_poll ops)) (handle_message cd)"

text \<open>
  \<open>while not self.quit\<close>: \<open>None\<close> when the loop never ends; an exception of the turn
  leaves it.
\<close>

partial_function (option) until_quit ::
  "(('w, 'c) dispatcher, unit) act \<Rightarrow> ('w, 'c) dispatcher \<Rightarrow> (unit py \<times> ('w, 'c) dispatcher) option" where
  "until_quit turn d =
     (if dp_quit d then Some (Inr (), d)
      else (case turn d of
              (Inl e, d') \<Rightarrow> Some (Inl e, d')
            | (Inr _, d') \<Rightarrow> until_quit turn d'))"

definition receive_batch ::
  "codec \<Rightarrow> 'c consumer_ops \<Rightarrow> nat \<Rightarrow> ('w, 'c) dispatcher \<Rightarrow>
   (unit py \<times> ('w, 'c) dispatcher) option" where
  "receive_batch cd ops batch_size = until_quit (batch_turn cd ops batch_size)"

definition receive_single ::
  "codec \<Rightarrow> 'c consumer_ops \<Rightarrow> ('w, 'c) dispatcher \<Rightarrow> (unit py \<times> ('w, 'c) dispatcher) option" where
  "receive_single cd ops = until_quit (single_turn cd ops)"

definition receive ::
  "codec \<Rightarrow> 'c consumer_ops \<Rightarrow> nat option \<Rightarrow> ('w, 'c) dispatcher \<Rightarrow>
   (unit py \<times> ('w, 'c) dispatcher) option" where
  "receive cd ops batch_size d =
     (case on_consumer (co_subscribe ops (map fst (dp_handlers d))) d of
        (Inl e, d1) \<Rightarrow> Some (Inl e, d1)
      | (Inr _, d1) \<Rightarrow>
          (case (case batch_size of Some n \<Rightarrow> receive_batch cd ops n d1
                                  | None \<Rightarrow> receive_single cd ops d1) of
             None \<Rightarrow> None
           | Some (Inl e, d2) \<Rightarrow> Some (Inl e, d2)
           | Some (Inr _, d2) \<Rightarrow> Some (on_consumer (co_close ops) d2)))"

section \<open>The dummy consumer\<close>

record dummy_consumer =
  dc_messages :: "kmessage option list"
  dc_index :: nat
  dc_subscribed :: "string list"
  dc_closed :: bool
  dc_commits :: nat
  dc_stored :: nat
  dc_quits :: bool

definition new_dummy_consumer :: dummy_consumer where
  "new_dummy_consumer =
     \<lparr>dc_messages = [], dc_index = 0, dc_subscribed = [], dc_closed = False, dc_commits = 0,
      dc_stored = 0, dc_quits = False\<rparr>"

definition add_message ::
  "codec \<Rightarrow> string \<Rightarrow> json \<Rightarrow> (string \<times> string option) list option \<Rightarrow> dummy_consumer \<Rightarrow> dummy_consumer" where
  "add_message cd topic value headers c =
     c\<lparr>dc_messages := dc_messages c @ [Some (dummy_message topic (utf8_encode cd (dumps cd value)) headers)]\<rparr>"

definition add_message_obj :: "kmessage \<Rightarrow> dummy_consumer \<Rightarrow> dummy_consumer" where
  "add_message_obj m c = c\<lparr>dc_messages := dc_messages c @ [Some m]\<rparr>"

text \<open>The dispatcher to stop is the one that receives.\<close>

definition set_dispatcher_quit :: "dummy_consumer \<Rightarrow> dummy_consumer" where
  "set_dispatcher_quit c = c\<lparr>dc_quits := True\<rparr>"

definition dummy_subscribe :: "string list \<Rightarrow> (dummy_consumer \<times> bool, unit) act" where
  "dummy_subscribe topics = a_upd (\<lambda>(c, q). (c\<lparr>dc_subscribed := topics\<rparr>, q))"

definition dummy_poll :: "(dummy_consumer \<times> bool, kmessage option) act" where
  "dummy_poll = (\<lambda>(c, q).
     if dc_closed c then
       (if dc_quits c then (Inr None, (c, True)) else (Inl KafkaError, (c, q)))
     else if dc_index c < length (dc_messages c) then
       (Inr (dc_messages c ! dc_index c), (c\<lparr>dc_index := dc_index c + 1\<rparr>, q))
     else (Inr None, (c\<lparr>dc_closed := True\<rparr>, q)))"

text \<open>\<open>consume\<close>: polls until the batch is full, a poll returns nothing or raises.\<close>

fun dummy_consume_loop :: "nat \<Rightarrow> kmessage list \<Rightarrow> (dummy_consumer \<times> bool, kmessage list) act" where
  "dummy_consume_loop 0 batch = a_ret batch"
| "dummy_consume_loop (Suc n) batch = (\<lambda>s.
     case dummy_poll s of
       (Inl e, t) \<Rightarrow> (Inr batch, t)
     | (Inr None, t) \<Rightarrow> (Inr batch, t)
     | (Inr (Some m), t) \<Rightarrow> dummy_consume_loop n (batch @ [m]) t)"

definition dummy_consume :: "nat \<Rightarrow> (dummy_consumer \<times> bool, kmessage list) act" where
  "dummy_consume n = dummy_consume_loop n []"

definition dummy_store_offsets :: "kmessage \<Rightarrow> (dummy_consumer \<times> bool, unit) act" where
  "dummy_store_offsets m = a_upd (\<lambda>(c, q). (c\<lparr>dc_stored := dc_stored c + 1\<rparr>, q))"

definition dummy_commit :: "(dummy_consumer \<times> bool, unit) act" where
  "dummy_commit = a_upd (\<lambda>(c, q). (c\<lparr>dc_commits := dc_commits c + 1\<rparr>, q))"

definition dummy_close :: "(dummy_consumer \<times> bool, unit) act" where
  "dummy_close = a_upd (\<lambda>(c, q). (c\<lparr>dc_closed := True\<rparr>, q))"

definition dummy_ops :: "dummy_consumer consumer_ops" where
  "dummy_ops =
     \<lparr>co_subscribe = dummy_subscribe, co_poll = dummy_poll, co_consume = dummy_consume,
      co_store_offsets = dummy_store_offsets, co_commit = dummy_commit, co_close = dummy_close\<rparr>"

end
