(* ===== verification/Kafka_Delivery.thy ===== *)
theory Kafka_Delivery
  imports Kafka_Dispatch
begin

text \<open>
  What \<open>KafkaDispatcher\<close> delivers: the effect of a handler call, of a batch and of a single
  message, the contract of a consumer as a locale with the receive loops proved over it, and the
  dummy consumer as its provider.
\<close>

section \<open>What a call of a handler leaves\<close>

fun calls_of :: "kevent list \<Rightarrow> (string \<times> payload) list" where
  "calls_of [] = []"
| "calls_of (Handler_called t p # es) = (t, p) # calls_of es"
| "calls_of (_ # es) = calls_of es"

fun failures_of :: "kevent list \<Rightarrow> string list" where
  "failures_of [] = []"
| "failures_of (Handler_failed t # es) = t # failures_of es"
| "failures_of (_ # es) = failures_of es"

lemma calls_of_append [simp]: "calls_of (xs @ ys) = calls_of xs @ calls_of ys"
  by (induction xs rule: calls_of.induct) auto

lemma failures_of_append [simp]: "failures_of (xs @ ys) = failures_of xs @ failures_of ys"
  by (induction xs rule: failures_of.induct) auto

definition handler_outcome ::
  "'w handler_entry \<Rightarrow> string \<Rightarrow> payload \<Rightarrow> ('w, 'c) dispatcher \<Rightarrow> bool" where
  "handler_outcome he t p d = (case fst (he_handler he t p (dp_world d, dp_quit d)) of Inl _ \<Rightarrow> False | Inr _ \<Rightarrow> True)"

definition after_call ::
  "'w handler_entry \<Rightarrow> string \<Rightarrow> payload \<Rightarrow> ('w, 'c) dispatcher \<Rightarrow> ('w, 'c) dispatcher" where
  "after_call he t p d =
     d\<lparr>dp_world := fst (snd (he_handler he t p (dp_world d, dp_quit d))),
       dp_quit := snd (snd (he_handler he t p (dp_world d, dp_quit d))),
       dp_events := dp_events d @ [Request_started, Handler_called t p] @
         (if handler_outcome he t p d then [] else [Handler_failed t]) @ [Request_finished]\<rparr>"

lemma call_handler_eq: "call_handler he t p d = (Inr (handler_outcome he t p d), after_call he t p d)"
proof -
  obtain r w q where h: "he_handler he t p (dp_world d, dp_quit d) = (r, (w, q))"
    by (metis prod.exhaust)
  then show ?thesis
    by (cases r)
      (simp_all add: call_handler_def log_event_def on_world_def handler_outcome_def after_call_def py_simps)
qed

lemma after_call_simps [simp]:
  "dp_handlers (after_call he t p d) = dp_handlers d"
  "dp_consumer (after_call he t p d) = dp_consumer d"
  "calls_of (dp_events (after_call he t p d)) = calls_of (dp_events d) @ [(t, p)]"
  "failures_of (dp_events (after_call he t p d)) =
     failures_of (dp_events d) @ (if handler_outcome he t p d then [] else [t])"
  by (simp_all add: after_call_def)

section \<open>Grouping by topic\<close>

text \<open>The reference: the bodies of each topic in order, topics by first appearance.\<close>

definition group_step :: "(string \<times> json list) list \<Rightarrow> string \<times> json \<Rightarrow> (string \<times> json list) list" where
  "group_step g tb = dict_set (fst tb) ((case map_of g (fst tb) of None \<Rightarrow> [] | Some bs \<Rightarrow> bs) @ [snd tb]) g"

fun first_seen :: "'a list \<Rightarrow> 'a list" where
  "first_seen [] = []"
| "first_seen (x # xs) = x # filter (\<lambda>y. y \<noteq> x) (first_seen xs)"

definition bodies_of :: "string \<Rightarrow> (string \<times> json) list \<Rightarrow> json list" where
  "bodies_of t ps = map snd (filter (\<lambda>p. fst p = t) ps)"

definition grouped_by_topic :: "(string \<times> json) list \<Rightarrow> (string \<times> json list) list" where
  "grouped_by_topic ps = map (\<lambda>t. (t, bodies_of t ps)) (first_seen (map fst ps))"

lemma set_first_seen [simp]: "set (first_seen xs) = set xs"
  by (induction xs) auto

lemma distinct_first_seen [simp]: "distinct (first_seen xs)"
  by (induction xs) auto

lemma first_seen_snoc:
  "first_seen (xs @ [x]) = (if x \<in> set xs then first_seen xs else first_seen xs @ [x])"
  by (induction xs) auto

lemma dict_set_map:
  "dict_set k v (map (\<lambda>t. (t, f t)) ts) =
     (if k \<in> set ts then map (\<lambda>t. (t, (f(k := v)) t)) (takeWhile (\<lambda>t. t \<noteq> k) ts) @ (k, v) #
         map (\<lambda>t. (t, f t)) (tl (dropWhile (\<lambda>t. t \<noteq> k) ts))
      else map (\<lambda>t. (t, f t)) ts @ [(k, v)])"
  by (induction ts) auto

lemma dict_set_map_distinct:
  assumes "distinct ts" "k \<in> set ts"
  shows "dict_set k v (map (\<lambda>t. (t, f t)) ts) = map (\<lambda>t. (t, (f(k := v)) t)) ts"
  using assms by (induction ts) auto

lemma map_of_map_pairs: "map_of (map (\<lambda>t. (t, f t)) ts) k = (if k \<in> set ts then Some (f k) else None)"
  by (induction ts) auto

lemma bodies_of_snoc [simp]:
  "bodies_of t (ps @ [p]) = bodies_of t ps @ (if fst p = t then [snd p] else [])"
  by (simp add: bodies_of_def)

lemma bodies_of_absent: "t \<notin> fst ` set ps \<Longrightarrow> bodies_of t ps = []"
  by (force simp: bodies_of_def filter_empty_conv)

lemma group_steps: "foldl group_step [] ps = grouped_by_topic ps"
proof (induction ps rule: rev_induct)
  case Nil
  then show ?case by (simp add: grouped_by_topic_def)
next
  case (snoc p ps)
  let ?ts = "first_seen (map fst ps)"
  have lk: "(case map_of (grouped_by_topic ps) (fst p) of None \<Rightarrow> [] | Some bs \<Rightarrow> bs) = bodies_of (fst p) ps"
    by (simp add: grouped_by_topic_def map_of_map_pairs bodies_of_absent)
  have step: "foldl group_step [] (ps @ [p]) =
      dict_set (fst p) (bodies_of (fst p) ps @ [snd p]) (map (\<lambda>t. (t, bodies_of t ps)) ?ts)"
    using lk by (simp add: snoc.IH group_step_def) (simp add: grouped_by_topic_def)
  show ?case
  proof (cases "fst p \<in> fst ` set ps")
    case True
    then have "dict_set (fst p) (bodies_of (fst p) ps @ [snd p]) (map (\<lambda>t. (t, bodies_of t ps)) ?ts) =
        map (\<lambda>t. (t, bodies_of t (ps @ [p]))) ?ts"
      by (subst dict_set_map_distinct) (auto simp: fun_upd_def)
    with True show ?thesis
      unfolding step by (simp add: grouped_by_topic_def first_seen_snoc)
  next
    case False
    then show ?thesis
      unfolding step
      by (simp add: grouped_by_topic_def first_seen_snoc dict_set_map bodies_of_absent)
         (auto simp: image_iff)
  qed
qed

text \<open>The messages of a batch the dispatcher keeps, when no header is undecodable.\<close>

definition preparable :: "codec \<Rightarrow> (string \<times> 'w handler_entry) list \<Rightarrow> kmessage \<Rightarrow> bool" where
  "preparable cd hs m = (case prepare_message cd hs (Some m) of Inl _ \<Rightarrow> False | Inr _ \<Rightarrow> True)"

definition kept :: "codec \<Rightarrow> (string \<times> 'w handler_entry) list \<Rightarrow> kmessage \<Rightarrow> (string \<times> json) list" where
  "kept cd hs m = (case prepare_message cd hs (Some m) of Inr (Some tb) \<Rightarrow> [tb] | _ \<Rightarrow> [])"

lemma group_messages_eq:
  assumes "\<forall>m \<in> set ms. preparable cd hs m"
  shows "group_messages cd hs ms g = Inr (foldl group_step g (concat (map (kept cd hs) ms)))"
  using assms
  by (induction ms arbitrary: g)
     (auto simp: preparable_def kept_def group_step_def split: sum.splits option.splits)

lemma group_messages_grouped:
  assumes "\<forall>m \<in> set ms. preparable cd hs m"
  shows "group_messages cd hs ms [] = Inr (grouped_by_topic (concat (map (kept cd hs) ms)))"
  by (simp add: group_messages_eq [OF assms] group_steps)

lemma kept_registered:
  assumes "(t, b) \<in> set (kept cd hs m)"
  shows "\<exists>he. map_of hs t = Some he \<and> t = km_topic m \<and> km_error m = ''''"
proof -
  have "prepare_message cd hs (Some m) = Inr (Some (t, b))"
    using assms by (auto simp: kept_def split: sum.splits option.splits)
  then show ?thesis
    by (auto simp: prepare_message_def py_bind_eq_Inr split: option.splits if_splits)
qed

section \<open>What a batch leaves\<close>

text \<open>The calls a batch makes, over the reference grouping.\<close>

definition batch_calls ::
  "(string \<times> 'w handler_entry) list \<Rightarrow> (string \<times> json list) list \<Rightarrow> (string \<times> payload) list" where
  "batch_calls hs gs = concat (map (\<lambda>(t, bs).
     case map_of hs t of None \<Rightarrow> [] | Some he \<Rightarrow> map (Pair t) (invocations he bs)) gs)"

text \<open>The world and the flag after a list of calls.\<close>

fun world_after :: "(string \<times> 'w handler_entry) list \<Rightarrow> (string \<times> payload) list \<Rightarrow> 'w \<times> bool \<Rightarrow> 'w \<times> bool" where
  "world_after hs [] wq = wq"
| "world_after hs ((t, p) # cs) wq =
     world_after hs cs (case map_of hs t of None \<Rightarrow> wq | Some he \<Rightarrow> snd (he_handler he t p wq))"

lemma world_after_append: "world_after hs (xs @ ys) wq = world_after hs ys (world_after hs xs wq)"
proof (induction xs arbitrary: wq)
  case (Cons c xs)
  then show ?case by (cases c) simp
qed simp

text \<open>
  \<open>d'\<close> is what \<open>d\<close> becomes by the calls \<open>cs\<close>, of which those to \<open>fs\<close>
  failed.
\<close>

definition after_calls ::
  "(string \<times> payload) list \<Rightarrow> string list \<Rightarrow> ('w, 'c) dispatcher \<Rightarrow> ('w, 'c) dispatcher \<Rightarrow> bool" where
  "after_calls cs fs d d' \<longleftrightarrow>
     dp_handlers d' = dp_handlers d \<and> dp_consumer d' = dp_consumer d \<and>
     calls_of (dp_events d') = calls_of (dp_events d) @ cs \<and>
     failures_of (dp_events d') = failures_of (dp_events d) @ fs \<and>
     (dp_world d', dp_quit d') = world_after (dp_handlers d) cs (dp_world d, dp_quit d)"

lemma after_calls_refl [simp]: "after_calls [] [] d d"
  by (simp add: after_calls_def)

lemma after_calls_trans:
  "after_calls cs fs d d' \<Longrightarrow> after_calls cs' fs' d' d'' \<Longrightarrow> after_calls (cs @ cs') (fs @ fs') d d''"
  by (simp add: after_calls_def world_after_append)

lemma after_call_after_calls:
  assumes "map_of (dp_handlers d) t = Some he"
  shows "after_calls [(t, p)] (if handler_outcome he t p d then [] else [t]) d (after_call he t p d)"
  using assms by (simp add: after_calls_def) (simp add: after_call_def)

lemma run_invocations_result:
  assumes "map_of (dp_handlers d) t = Some he"
  shows "\<exists>fs d'. run_invocations he t ps ok d = (Inr (ok \<and> fs = []), d') \<and>
    after_calls (map (Pair t) ps) fs d d'"
  using assms
proof (induction ps arbitrary: d ok)
  case Nil
  then show ?case by (intro exI [of _ "[]"] exI [of _ d]) simp
next
  case (Cons p ps)
  let ?o = "handler_outcome he t p d" and ?d1 = "after_call he t p d"
  obtain fs d' where r: "run_invocations he t ps (ok \<and> ?o) ?d1 = (Inr ((ok \<and> ?o) \<and> fs = []), d')"
    and a: "after_calls (map (Pair t) ps) fs ?d1 d'"
    using Cons.IH [of ?d1 "ok \<and> ?o"] Cons.prems by auto
  have "after_calls (map (Pair t) (p # ps)) ((if ?o then [] else [t]) @ fs) d d'"
    using after_calls_trans [OF after_call_after_calls [OF Cons.prems] a] by simp
  moreover have "run_invocations he t (p # ps) ok d = (Inr (ok \<and> (if ?o then [] else [t]) @ fs = []), d')"
    using r by (auto simp: a_bind_app call_handler_eq)
  ultimately show ?case by blast
qed

lemma run_groups_result:
  assumes "\<forall>g \<in> set gs. map_of (dp_handlers d) (fst g) \<noteq> None"
  shows "\<exists>fs d'. run_groups gs ok d = (Inr (ok \<and> fs = []), d') \<and>
    after_calls (batch_calls (dp_handlers d) gs) fs d d'"
  using assms
proof (induction gs arbitrary: d ok)
  case Nil
  then show ?case by (intro exI [of _ "[]"] exI [of _ d]) (simp add: batch_calls_def)
next
  case (Cons g gs)
  obtain t bs where g: "g = (t, bs)" by (cases g)
  obtain he where he: "map_of (dp_handlers d) t = Some he"
    using Cons.prems by (auto simp: g)
  obtain fs1 d1 where r1: "run_invocations he t (invocations he bs) ok d = (Inr (ok \<and> fs1 = []), d1)"
    and a1: "after_calls (map (Pair t) (invocations he bs)) fs1 d d1"
    using run_invocations_result [OF he] by blast
  have h1: "dp_handlers d1 = dp_handlers d"
    using a1 by (simp add: after_calls_def)
  obtain fs2 d2 where r2: "run_groups gs (ok \<and> fs1 = []) d1 = (Inr ((ok \<and> fs1 = []) \<and> fs2 = []), d2)"
    and a2: "after_calls (batch_calls (dp_handlers d1) gs) fs2 d1 d2"
    using Cons.IH [of d1 "ok \<and> fs1 = []"] Cons.prems by (auto simp: h1)
  have "run_groups (g # gs) ok d = (Inr (ok \<and> fs1 @ fs2 = []), d2)"
    using r1 r2 by (auto simp: g he a_bind_app)
  moreover have "after_calls (batch_calls (dp_handlers d) (g # gs)) (fs1 @ fs2) d d2"
    using after_calls_trans [OF a1 a2] by (simp add: batch_calls_def g he h1)
  ultimately show ?case by blast
qed

definition calls_for_batch ::
  "codec \<Rightarrow> (string \<times> 'w handler_entry) list \<Rightarrow> kmessage list \<Rightarrow> (string \<times> payload) list" where
  "calls_for_batch cd hs ms = batch_calls hs (grouped_by_topic (concat (map (kept cd hs) ms)))"

lemma handle_batch_result:
  assumes "\<forall>m \<in> set ms. preparable cd (dp_handlers d) m"
  shows "\<exists>fs d'. handle_batch_messages cd ms d = (Inr (fs = []), d') \<and>
    after_calls (calls_for_batch cd (dp_handlers d) ms) fs d d'"
proof -
  let ?gs = "grouped_by_topic (concat (map (kept cd (dp_handlers d)) ms))"
  have "map_of (dp_handlers d) t \<noteq> None" if "(t, b) \<in> set (kept cd (dp_handlers d) m)" for t b m
    using kept_registered [OF that] by auto
  then have "\<forall>g \<in> set ?gs. map_of (dp_handlers d) (fst g) \<noteq> None"
    by (fastforce simp: grouped_by_topic_def)
  from run_groups_result [OF this, of True] show ?thesis
    by (simp add: handle_batch_messages_def calls_for_batch_def a_bind_app group_messages_grouped [OF assms])
qed

text \<open>A message with an undecodable header makes the whole batch raise before any handler runs.\<close>

lemma group_messages_raises:
  assumes "\<not> preparable cd hs m"
  shows "\<exists>e. group_messages cd hs (ms @ m # ms') g = Inl e"
  using assms
  by (induction ms arbitrary: g) (auto simp: preparable_def py_bind_def split: sum.splits option.splits)

lemma handle_batch_raises:
  assumes "m \<in> set ms" "\<not> preparable cd (dp_handlers d) m"
  shows "\<exists>e. handle_batch_messages cd ms d = (Inl e, d)"
proof -
  obtain xs ys where "ms = xs @ m # ys" using assms(1) by (meson split_list)
  then show ?thesis
    using group_messages_raises [OF assms(2), of xs ys "[]"]
    by (auto simp: handle_batch_messages_def a_bind_app)
qed

text \<open>A single message.\<close>

definition calls_for_one ::
  "codec \<Rightarrow> (string \<times> 'w handler_entry) list \<Rightarrow> kmessage \<Rightarrow> (string \<times> payload) list" where
  "calls_for_one cd hs m = concat (map (\<lambda>(t, b). case map_of hs t of
     Some he \<Rightarrow> if he_batch he then [] else [(t, One b)] | None \<Rightarrow> []) (kept cd hs m))"

lemma handle_message_result:
  assumes "preparable cd (dp_handlers d) m"
  shows "\<exists>fs d'. handle_message cd (Some m) d = (Inr (), d') \<and>
    after_calls (calls_for_one cd (dp_handlers d) m) fs d d'"
proof (cases "prepare_message cd (dp_handlers d) (Some m)")
  case (Inl e)
  with assms show ?thesis by (simp add: preparable_def)
next
  case (Inr p)
  show ?thesis
  proof (cases p)
    case None
    with Inr show ?thesis
      by (intro exI [of _ "[]"] exI [of _ d]) (simp add: handle_message_def calls_for_one_def kept_def a_bind_app)
  next
    case (Some tb)
    obtain t b where tb: "tb = (t, b)" by (cases tb)
    obtain he where he: "map_of (dp_handlers d) t = Some he"
      using kept_registered [of t b cd "dp_handlers d" m] Inr by (auto simp: kept_def Some tb)
    show ?thesis
    proof (cases "he_batch he")
      case True
      with Inr he show ?thesis
        by (intro exI [of _ "[]"] exI [of _ d])
           (simp add: handle_message_def calls_for_one_def kept_def a_bind_app Some tb)
    next
      case False
      with Inr he after_call_after_calls [OF he, of "One b"] show ?thesis
        by (auto simp: handle_message_def calls_for_one_def kept_def a_bind_app Some tb call_handler_eq)
    qed
  qed
qed

lemma handle_message_None [simp]: "handle_message cd None d = (Inr (), d)"
  by (simp add: handle_message_def prepare_message_def a_bind_app)

section \<open>Batches of a stream\<close>

function chunks :: "nat \<Rightarrow> 'a list \<Rightarrow> 'a list list" where
  "chunks n xs = (if n = 0 \<or> xs = [] then [] else take n xs # chunks n (drop n xs))"
  by auto
termination by (relation "measure (\<lambda>(n, xs). length xs)") auto

declare chunks.simps [simp del]

lemma concat_chunks: "0 < n \<Longrightarrow> concat (chunks n xs) = xs"
proof (induction n xs rule: chunks.induct)
  case (1 n xs)
  then show ?case by (subst chunks.simps) auto
qed

definition error_free :: "kmessage list \<Rightarrow> nat" where
  "error_free ms = length (filter (\<lambda>m. km_error m = '''') ms)"

lemma error_free_simps [simp]:
  "error_free [] = 0"
  "error_free (m # ms) = (if km_error m = '''' then 1 else 0) + error_free ms"
  "error_free (xs @ ys) = error_free xs + error_free ys"
  by (simp_all add: error_free_def)

section \<open>The consumer's contract and the receive loops over it\<close>

text \<open>Handlers that leave the \<open>quit\<close> flag alone, and handlers that also return.\<close>

definition quiet :: "(string \<times> 'w handler_entry) list \<Rightarrow> bool" where
  "quiet hs \<longleftrightarrow> (\<forall>t he p w. map_of hs t = Some he \<longrightarrow> \<not> snd (snd (he_handler he t p (w, False))))"

lemma quiet_world_after: "quiet hs \<Longrightarrow> \<not> snd (world_after hs cs (w, False))"
proof (induction cs arbitrary: w)
  case (Cons c cs)
  obtain t p where c: "c = (t, p)" by (cases c)
  show ?case
  proof (cases "map_of hs t")
    case None
    with Cons show ?thesis by (simp add: c)
  next
    case (Some he)
    moreover have "\<not> snd (snd (he_handler he t p (w, False)))"
      using Cons.prems Some by (simp add: quiet_def)
    ultimately show ?thesis
      using Cons by (cases "snd (he_handler he t p (w, False))") (simp add: c)
  qed
qed simp

text \<open>
  A consumer as a queue: \<open>pending\<close> is what it has left to deliver, \<open>ready\<close> its own
  invariant, \<open>stored\<close> and \<open>commits\<close> count the offsets stored and the commits made, and
  once the queue is empty finitely many further calls (\<open>rank\<close>) set the dispatcher's flag.
\<close>

locale queue_consumer =
  fixes ops :: "'c consumer_ops"
    and pending :: "'c \<Rightarrow> kmessage list"
    and rank :: "'c \<Rightarrow> nat"
    and ready :: "'c \<Rightarrow> bool"
    and stored :: "'c \<Rightarrow> nat"
    and commits :: "'c \<Rightarrow> nat"
  assumes poll_next: "\<And>c m ms. ready c \<Longrightarrow> pending c = m # ms \<Longrightarrow>
      \<exists>c'. co_poll ops (c, False) = (Inr (Some m), (c', False)) \<and> pending c' = ms \<and> ready c'"
    and poll_empty: "\<And>c. ready c \<Longrightarrow> pending c = [] \<Longrightarrow>
      \<exists>c' q. co_poll ops (c, False) = (Inr None, (c', q)) \<and> pending c' = [] \<and> ready c' \<and>
        (q \<or> rank c' < rank c)"
    and consume_some: "\<And>c n. ready c \<Longrightarrow> pending c \<noteq> [] \<Longrightarrow>
      \<exists>c'. co_consume ops n (c, False) = (Inr (take n (pending c)), (c', False)) \<and>
        pending c' = drop n (pending c) \<and> ready c' \<and> stored c' = stored c \<and> commits c' = commits c"
    and consume_empty: "\<And>c n. ready c \<Longrightarrow> pending c = [] \<Longrightarrow> 0 < n \<Longrightarrow>
      \<exists>c' q. co_consume ops n (c, False) = (Inr [], (c', q)) \<and> pending c' = [] \<and> ready c' \<and>
        stored c' = stored c \<and> commits c' = commits c \<and> (q \<or> rank c' < rank c)"
    and store_ok: "\<And>c q m. ready c \<Longrightarrow>
      \<exists>c'. co_store_offsets ops m (c, q) = (Inr (), (c', q)) \<and> pending c' = pending c \<and> ready c' \<and>
        stored c' = Suc (stored c) \<and> commits c' = commits c"
    and commit_ok: "\<And>c q. ready c \<Longrightarrow>
      \<exists>c'. co_commit ops (c, q) = (Inr (), (c', q)) \<and> pending c' = pending c \<and> ready c' \<and>
        stored c' = stored c \<and> commits c' = Suc (commits c)"
    and subscribe_ok: "\<And>c q ts. ready c \<Longrightarrow>
      \<exists>c'. co_subscribe ops ts (c, q) = (Inr (), (c', q)) \<and> pending c' = pending c \<and> ready c' \<and>
        stored c' = stored c \<and> commits c' = commits c"
    and close_ok: "\<And>c q. \<exists>c'. co_close ops (c, q) = (Inr (), (c', q)) \<and>
        stored c' = stored c \<and> commits c' = commits c"
begin

lemma single_turn_next:
  assumes "ready (dp_consumer d)" "pending (dp_consumer d) = m # ms" "\<not> dp_quit d"
    and "preparable cd (dp_handlers d) m" "quiet (dp_handlers d)"
  shows "\<exists>d'. single_turn cd ops d = (Inr (), d') \<and> ready (dp_consumer d') \<and>
    pending (dp_consumer d') = ms \<and> dp_handlers d' = dp_handlers d \<and> \<not> dp_quit d' \<and>
    calls_of (dp_events d') = calls_of (dp_events d) @ calls_for_one cd (dp_handlers d) m \<and>
    (dp_world d', False) = world_after (dp_handlers d) (calls_for_one cd (dp_handlers d) m) (dp_world d, False)"
proof -
  obtain c' where p: "co_poll ops (dp_consumer d, False) = (Inr (Some m), (c', False))"
    "pending c' = ms" "ready c'"
    using poll_next [OF assms(1,2)] by blast
  let ?d = "d\<lparr>dp_consumer := c', dp_quit := False\<rparr>"
  obtain fs d' where h: "handle_message cd (Some m) ?d = (Inr (), d')"
    "after_calls (calls_for_one cd (dp_handlers d) m) fs ?d d'"
    using handle_message_result [of cd ?d m] assms(4) by auto
  have s: "single_turn cd ops d = (Inr (), d')"
    using assms(3) p h(1) by (simp add: single_turn_def a_bind_app on_consumer_def)
  have w: "(dp_world d', dp_quit d') =
      world_after (dp_handlers d) (calls_for_one cd (dp_handlers d) m) (dp_world d, False)"
    using h(2) by (simp add: after_calls_def)
  then have "\<not> dp_quit d'"
    using quiet_world_after [OF assms(5)] by (metis snd_conv)
  with s p h(2) w show ?thesis
    by (intro exI [of _ d']) (auto simp: after_calls_def)
qed

lemma single_turn_empty:
  assumes "ready (dp_consumer d)" "pending (dp_consumer d) = []" "\<not> dp_quit d"
  shows "\<exists>c' q. single_turn cd ops d = (Inr (), d\<lparr>dp_consumer := c', dp_quit := q\<rparr>) \<and>
    ready c' \<and> pending c' = [] \<and> (q \<or> rank c' < rank (dp_consumer d))"
proof -
  obtain c' q where p: "co_poll ops (dp_consumer d, False) = (Inr None, (c', q))"
    "pending c' = []" "ready c'" "q \<or> rank c' < rank (dp_consumer d)"
    using poll_empty [OF assms(1,2)] by blast
  then show ?thesis
    using assms(3) by (intro exI [of _ c'] exI [of _ q]) (simp add: single_turn_def a_bind_app on_consumer_def)
qed

lemma single_drained:
  assumes "ready (dp_consumer d)" "pending (dp_consumer d) = []" "\<not> dp_quit d"
  shows "\<exists>c'. receive_single cd ops d = Some (Inr (), d\<lparr>dp_consumer := c', dp_quit := True\<rparr>) \<and>
    pending c' = []"
  using assms
proof (induction "rank (dp_consumer d)" arbitrary: d rule: less_induct)
  case less
  obtain c' q where t: "single_turn cd ops d = (Inr (), d\<lparr>dp_consumer := c', dp_quit := q\<rparr>)"
    "ready c'" "pending c' = []" "q \<or> rank c' < rank (dp_consumer d)"
    using single_turn_empty [OF less.prems] by blast
  show ?case
  proof (cases q)
    case True
    with t less.prems(3) show ?thesis
      by (subst receive_single_def, subst until_quit.simps, simp)
         (subst until_quit.simps, auto)
  next
    case False
    then have "\<exists>c''. receive_single cd ops (d\<lparr>dp_consumer := c', dp_quit := False\<rparr>) =
        Some (Inr (), d\<lparr>dp_consumer := c', dp_quit := False\<rparr>\<lparr>dp_consumer := c'', dp_quit := True\<rparr>) \<and> pending c'' = []"
      using t by (intro less.hyps) auto
    with t(1) False less.prems(3) show ?thesis
      by (subst receive_single_def, subst until_quit.simps) (simp add: receive_single_def)
  qed
qed

lemma single_all:
  assumes "ready (dp_consumer d)" "\<not> dp_quit d" "quiet (dp_handlers d)"
    and "\<forall>m \<in> set (pending (dp_consumer d)). preparable cd (dp_handlers d) m"
  shows "\<exists>d'. receive_single cd ops d = Some (Inr (), d') \<and> pending (dp_consumer d') = [] \<and>
    calls_of (dp_events d') = calls_of (dp_events d) @
      concat (map (calls_for_one cd (dp_handlers d)) (pending (dp_consumer d))) \<and>
    (dp_world d', False) = world_after (dp_handlers d)
      (concat (map (calls_for_one cd (dp_handlers d)) (pending (dp_consumer d)))) (dp_world d, False)"
  using assms
proof (induction "pending (dp_consumer d)" arbitrary: d)
  case Nil
  then show ?case using single_drained [of d cd] by auto
next
  case (Cons m ms)
  obtain d1 where t: "single_turn cd ops d = (Inr (), d1)" "ready (dp_consumer d1)"
    "pending (dp_consumer d1) = ms" "dp_handlers d1 = dp_handlers d" "\<not> dp_quit d1"
    "calls_of (dp_events d1) = calls_of (dp_events d) @ calls_for_one cd (dp_handlers d) m"
    "(dp_world d1, False) = world_after (dp_handlers d) (calls_for_one cd (dp_handlers d) m) (dp_world d, False)"
    using single_turn_next [of d m ms cd] Cons by (metis list.set_intros(1))
  obtain d' where r: "receive_single cd ops d1 = Some (Inr (), d')" "pending (dp_consumer d') = []"
    "calls_of (dp_events d') = calls_of (dp_events d1) @
      concat (map (calls_for_one cd (dp_handlers d)) ms)"
    "(dp_world d', False) = world_after (dp_handlers d)
      (concat (map (calls_for_one cd (dp_handlers d)) ms)) (dp_world d1, False)"
    using Cons.hyps(1) [of d1] Cons.hyps(2) Cons.prems t by (metis list.set_intros(2))
  have "receive_single cd ops d = Some (Inr (), d')"
    using t(1) r(1) Cons.prems(2)
    by (subst receive_single_def, subst until_quit.simps) (simp add: receive_single_def)
  with r t(6,7) show ?case
    unfolding Cons.hyps(2) [symmetric] by (simp add: world_after_append)
qed

lemma store_offsets_ok:
  assumes "ready (dp_consumer d)"
  shows "\<exists>c'. store_offsets ops ms d = (Inr (), d\<lparr>dp_consumer := c'\<rparr>) \<and> ready c' \<and>
    pending c' = pending (dp_consumer d) \<and> stored c' = stored (dp_consumer d) + error_free ms \<and>
    commits c' = commits (dp_consumer d)"
  using assms
proof (induction ms arbitrary: d)
  case Nil
  then show ?case by (intro exI [of _ "dp_consumer d"]) (simp add: store_offsets_def)
next
  case (Cons m ms)
  show ?case
  proof (cases "km_error m = ''''")
    case True
    obtain c1 where c1: "co_store_offsets ops m (dp_consumer d, dp_quit d) = (Inr (), (c1, dp_quit d))"
      "pending c1 = pending (dp_consumer d)" "ready c1" "stored c1 = Suc (stored (dp_consumer d))"
      "commits c1 = commits (dp_consumer d)"
      using store_ok [OF Cons.prems] by blast
    obtain c' where "store_offsets ops ms (d\<lparr>dp_consumer := c1\<rparr>) = (Inr (), d\<lparr>dp_consumer := c'\<rparr>)"
      "ready c'" "pending c' = pending c1" "stored c' = stored c1 + error_free ms" "commits c' = commits c1"
      using Cons.IH [of "d\<lparr>dp_consumer := c1\<rparr>"] c1(3) by auto
    with c1 True show ?thesis
      by (intro exI [of _ c']) (simp add: store_offsets_def on_consumer_def a_then_app)
  next
    case False
    with Cons show ?thesis by (simp add: store_offsets_def a_then_app)
  qed
qed

lemma finish_batch_ok:
  assumes "ready (dp_consumer d)"
  shows "\<exists>c'. finish_batch ops ms True d = (Inr (), d\<lparr>dp_consumer := c'\<rparr>) \<and> ready c' \<and>
    pending c' = pending (dp_consumer d) \<and> stored c' = stored (dp_consumer d) + error_free ms \<and>
    commits c' = Suc (commits (dp_consumer d))"
proof -
  obtain c1 where c1: "store_offsets ops ms d = (Inr (), d\<lparr>dp_consumer := c1\<rparr>)" "ready c1"
    "pending c1 = pending (dp_consumer d)" "stored c1 = stored (dp_consumer d) + error_free ms"
    "commits c1 = commits (dp_consumer d)"
    using store_offsets_ok [OF assms] by blast
  obtain c' where c': "co_commit ops (c1, dp_quit d) = (Inr (), (c', dp_quit d))" "pending c' = pending c1"
    "ready c'" "stored c' = stored c1" "commits c' = Suc (commits c1)"
    using commit_ok [OF c1(2)] by blast
  show ?thesis
    using c1 c' by (intro exI [of _ c']) (simp add: finish_batch_def on_consumer_def a_then_app a_catch_app)
qed

lemma batch_turn_some:
  assumes "ready (dp_consumer d)" "pending (dp_consumer d) \<noteq> []" "0 < n" "\<not> dp_quit d"
    and "\<forall>m \<in> set (pending (dp_consumer d)). preparable cd (dp_handlers d) m" "quiet (dp_handlers d)"
  defines "ms \<equiv> take n (pending (dp_consumer d))"
  shows "\<exists>d' fs. batch_turn cd ops n d = (Inr (), d') \<and> ready (dp_consumer d') \<and>
    pending (dp_consumer d') = drop n (pending (dp_consumer d)) \<and> dp_handlers d' = dp_handlers d \<and>
    calls_of (dp_events d') = calls_of (dp_events d) @ calls_for_batch cd (dp_handlers d) ms \<and>
    failures_of (dp_events d') = failures_of (dp_events d) @ fs \<and>
    (dp_world d', False) = world_after (dp_handlers d) (calls_for_batch cd (dp_handlers d) ms) (dp_world d, False) \<and>
    dp_quit d' = (fs \<noteq> []) \<and>
    commits (dp_consumer d') = commits (dp_consumer d) + (if fs = [] then 1 else 0) \<and>
    stored (dp_consumer d') = stored (dp_consumer d) + (if fs = [] then error_free ms else 0)"
proof -
  obtain c1 where c1: "co_consume ops n (dp_consumer d, False) = (Inr ms, (c1, False))"
    "pending c1 = drop n (pending (dp_consumer d))" "ready c1" "stored c1 = stored (dp_consumer d)"
    "commits c1 = commits (dp_consumer d)"
    using consume_some [OF assms(1,2)] unfolding ms_def by blast
  let ?d = "d\<lparr>dp_consumer := c1, dp_quit := False\<rparr>"
  have "\<forall>m \<in> set ms. preparable cd (dp_handlers ?d) m"
    using assms(5) by (auto simp: ms_def dest: in_set_takeD)
  then obtain fs d1 where h: "handle_batch_messages cd ms ?d = (Inr (fs = []), d1)"
    and a: "after_calls (calls_for_batch cd (dp_handlers d) ms) fs ?d d1"
    using handle_batch_result [of ms cd ?d] by auto
  have ne: "ms \<noteq> []" using assms(2,3) by (simp add: ms_def)
  have turn: "batch_turn cd ops n d = finish_batch ops ms (fs = []) d1"
    using c1(1) assms(4) h ne
    by (simp add: batch_turn_def a_bind_app a_catch_app on_consumer_def)
  have w: "(dp_world d1, dp_quit d1) =
      world_after (dp_handlers d) (calls_for_batch cd (dp_handlers d) ms) (dp_world d, False)"
    using a by (simp add: after_calls_def)
  have nq: "\<not> dp_quit d1" using quiet_world_after [OF assms(6)] w by (metis snd_conv)
  have cd1: "dp_consumer d1 = c1" "dp_handlers d1 = dp_handlers d"
    "calls_of (dp_events d1) = calls_of (dp_events d) @ calls_for_batch cd (dp_handlers d) ms"
    "failures_of (dp_events d1) = failures_of (dp_events d) @ fs"
    using a by (simp_all add: after_calls_def)
  show ?thesis
  proof (cases "fs = []")
    case True
    obtain c' where "finish_batch ops ms True d1 = (Inr (), d1\<lparr>dp_consumer := c'\<rparr>)" "ready c'"
      "pending c' = pending c1" "stored c' = stored c1 + error_free ms" "commits c' = Suc (commits c1)"
      using finish_batch_ok [of d1 ms] c1(3) cd1(1) by auto
    with turn True c1 cd1 w nq show ?thesis
      by (intro exI [of _ "d1\<lparr>dp_consumer := c'\<rparr>"] exI [of _ "[]"]) simp
  next
    case False
    with turn c1 cd1 w nq show ?thesis
      by (intro exI [of _ "d1\<lparr>dp_quit := True\<rparr>"] exI [of _ fs]) (simp add: finish_batch_def)
  qed
qed

lemma batch_turn_empty:
  assumes "ready (dp_consumer d)" "pending (dp_consumer d) = []" "0 < n" "\<not> dp_quit d"
  shows "\<exists>c' q. batch_turn cd ops n d = (Inr (), d\<lparr>dp_consumer := c', dp_quit := q\<rparr>) \<and>
    ready c' \<and> pending c' = [] \<and> stored c' = stored (dp_consumer d) \<and> commits c' = commits (dp_consumer d) \<and>
    (q \<or> rank c' < rank (dp_consumer d))"
proof -
  obtain c' q where "co_consume ops n (dp_consumer d, False) = (Inr [], (c', q))"
    "pending c' = []" "ready c'" "stored c' = stored (dp_consumer d)" "commits c' = commits (dp_consumer d)"
    "q \<or> rank c' < rank (dp_consumer d)"
    using consume_empty [OF assms(1,2,3)] by blast
  then show ?thesis
    using assms(4) by (intro exI [of _ c'] exI [of _ q])
      (simp add: batch_turn_def a_bind_app a_catch_app on_consumer_def)
qed

lemma batch_drained:
  assumes "ready (dp_consumer d)" "pending (dp_consumer d) = []" "0 < n" "\<not> dp_quit d"
  shows "\<exists>c'. receive_batch cd ops n d = Some (Inr (), d\<lparr>dp_consumer := c', dp_quit := True\<rparr>) \<and>
    pending c' = [] \<and> stored c' = stored (dp_consumer d) \<and> commits c' = commits (dp_consumer d)"
  using assms
proof (induction "rank (dp_consumer d)" arbitrary: d rule: less_induct)
  case less
  obtain c' q where t: "batch_turn cd ops n d = (Inr (), d\<lparr>dp_consumer := c', dp_quit := q\<rparr>)"
    "ready c'" "pending c' = []" "stored c' = stored (dp_consumer d)" "commits c' = commits (dp_consumer d)"
    "q \<or> rank c' < rank (dp_consumer d)"
    using batch_turn_empty [OF less.prems] by blast
  show ?case
  proof (cases q)
    case True
    with t less.prems(4) show ?thesis
      by (subst receive_batch_def, subst until_quit.simps, simp)
         (subst until_quit.simps, auto)
  next
    case False
    then have "\<exists>c''. receive_batch cd ops n (d\<lparr>dp_consumer := c', dp_quit := False\<rparr>) =
        Some (Inr (), d\<lparr>dp_consumer := c', dp_quit := False\<rparr>\<lparr>dp_consumer := c'', dp_quit := True\<rparr>) \<and>
        pending c'' = [] \<and> stored c'' = stored c' \<and> commits c'' = commits c'"
      using t less.hyps [of "d\<lparr>dp_consumer := c', dp_quit := False\<rparr>"] less.prems(3) by auto
    with t False less.prems(4) show ?thesis
      by (subst receive_batch_def, subst until_quit.simps) (simp add: receive_batch_def)
  qed
qed

lemma batch_all:
  assumes "ready (dp_consumer d)" "\<not> dp_quit d" "quiet (dp_handlers d)" "0 < n"
    and "\<forall>m \<in> set (pending (dp_consumer d)). preparable cd (dp_handlers d) m"
  defines "bs \<equiv> chunks n (pending (dp_consumer d))"
  shows "\<exists>d' k fs. receive_batch cd ops n d = Some (Inr (), d') \<and> k \<le> length bs \<and>
    pending (dp_consumer d') = concat (drop k bs) \<and>
    calls_of (dp_events d') = calls_of (dp_events d) @ concat (map (calls_for_batch cd (dp_handlers d)) (take k bs)) \<and>
    (dp_world d', False) = world_after (dp_handlers d)
      (concat (map (calls_for_batch cd (dp_handlers d)) (take k bs))) (dp_world d, False) \<and>
    failures_of (dp_events d') = failures_of (dp_events d) @ fs \<and>
    (if fs = [] then k = length bs \<and> commits (dp_consumer d') = commits (dp_consumer d) + k \<and>
        stored (dp_consumer d') = stored (dp_consumer d) + error_free (concat bs)
     else 0 < k \<and> commits (dp_consumer d') = commits (dp_consumer d) + (k - 1) \<and>
        stored (dp_consumer d') = stored (dp_consumer d) + error_free (concat (take (k - 1) bs)))"
  using assms(1-5) unfolding bs_def
proof (induction "length (pending (dp_consumer d))" arbitrary: d rule: less_induct)
  case less
  let ?P = "pending (dp_consumer d)" and ?hs = "dp_handlers d"
  show ?case
  proof (cases "?P = []")
    case True
    then obtain c' where "receive_batch cd ops n d = Some (Inr (), d\<lparr>dp_consumer := c', dp_quit := True\<rparr>)"
      "pending c' = []" "stored c' = stored (dp_consumer d)" "commits c' = commits (dp_consumer d)"
      using batch_drained [OF less.prems(1) True less.prems(4) less.prems(2), of cd] by blast
    with True show ?thesis
      by (intro exI [of _ "d\<lparr>dp_consumer := c', dp_quit := True\<rparr>"] exI [of _ 0] exI [of _ "[]"])
         (simp add: chunks.simps)
  next
    case False
    have ch: "chunks n ?P = take n ?P # chunks n (drop n ?P)"
      using False less.prems(4) by (subst chunks.simps) simp
    obtain d1 fs1 where t: "batch_turn cd ops n d = (Inr (), d1)" "ready (dp_consumer d1)"
      "pending (dp_consumer d1) = drop n ?P" "dp_handlers d1 = ?hs"
      "calls_of (dp_events d1) = calls_of (dp_events d) @ calls_for_batch cd ?hs (take n ?P)"
      "failures_of (dp_events d1) = failures_of (dp_events d) @ fs1"
      "(dp_world d1, False) = world_after ?hs (calls_for_batch cd ?hs (take n ?P)) (dp_world d, False)"
      "dp_quit d1 = (fs1 \<noteq> [])"
      "commits (dp_consumer d1) = commits (dp_consumer d) + (if fs1 = [] then 1 else 0)"
      "stored (dp_consumer d1) = stored (dp_consumer d) + (if fs1 = [] then error_free (take n ?P) else 0)"
      using batch_turn_some [OF less.prems(1) False less.prems(4,2,5,3)] by blast
    have step: "receive_batch cd ops n d = receive_batch cd ops n d1"
      using t(1) less.prems(2) by (subst receive_batch_def, subst until_quit.simps) (simp add: receive_batch_def)
    show ?thesis
    proof (cases "fs1 = []")
      case False
      then have "receive_batch cd ops n d1 = Some (Inr (), d1)"
        using t(8) by (simp add: receive_batch_def until_quit.simps)
      with False t show ?thesis
        unfolding step ch using less.prems(4)
        by (intro exI [of _ d1] exI [of _ 1] exI [of _ fs1]) (simp add: concat_chunks)
    next
      case True
      have lt: "length (pending (dp_consumer d1)) < length ?P"
        using False less.prems(4) t(3) by simp
      have pr: "\<forall>m \<in> set (pending (dp_consumer d1)). preparable cd (dp_handlers d1) m"
        using less.prems(5) t(3,4) by (auto dest: in_set_dropD)
      obtain d' k fs where r: "receive_batch cd ops n d1 = Some (Inr (), d')" "k \<le> length (chunks n (drop n ?P))"
        "pending (dp_consumer d') = concat (drop k (chunks n (drop n ?P)))"
        "calls_of (dp_events d') = calls_of (dp_events d1) @ concat (map (calls_for_batch cd ?hs) (take k (chunks n (drop n ?P))))"
        "(dp_world d', False) = world_after ?hs
          (concat (map (calls_for_batch cd ?hs) (take k (chunks n (drop n ?P))))) (dp_world d1, False)"
        "failures_of (dp_events d') = failures_of (dp_events d1) @ fs"
        "if fs = [] then k = length (chunks n (drop n ?P)) \<and> commits (dp_consumer d') = commits (dp_consumer d1) + k \<and>
            stored (dp_consumer d') = stored (dp_consumer d1) + error_free (concat (chunks n (drop n ?P)))
         else 0 < k \<and> commits (dp_consumer d') = commits (dp_consumer d1) + (k - 1) \<and>
            stored (dp_consumer d') = stored (dp_consumer d1) + error_free (concat (take (k - 1) (chunks n (drop n ?P))))"
        using less.hyps [OF lt t(2) _ _ less.prems(4) pr] t(3,4,8) True less.prems(3) by metis
      show ?thesis
        unfolding step ch
        using r t(5,6,7,9,10) True
        by (intro exI [of _ d'] exI [of _ "Suc k"] exI [of _ fs])
           (simp add: world_after_append take_Cons' split: if_splits)
    qed
  qed
qed

end

section \<open>The dummy consumer keeps the contract\<close>

definition dc_pending :: "dummy_consumer \<Rightarrow> kmessage list" where
  "dc_pending c = (if dc_closed c then [] else map the (drop (dc_index c) (dc_messages c)))"

definition dc_ready :: "dummy_consumer \<Rightarrow> bool" where
  "dc_ready c \<longleftrightarrow> dc_quits c \<and> None \<notin> set (dc_messages c)"

definition dc_rank :: "dummy_consumer \<Rightarrow> nat" where
  "dc_rank c = (if dc_closed c then 0 else 1)"

definition dc_advance :: "dummy_consumer \<Rightarrow> dummy_consumer" where
  "dc_advance c = c\<lparr>dc_index := dc_index c + 1\<rparr>"

lemma dc_advance_simps [simp]:
  "dc_ready (dc_advance c) = dc_ready c" "dc_stored (dc_advance c) = dc_stored c"
  "dc_commits (dc_advance c) = dc_commits c" "dc_closed (dc_advance c) = dc_closed c"
  by (simp_all add: dc_advance_def dc_ready_def)

lemma dc_poll_next:
  assumes "dc_ready c" "dc_pending c = m # ms"
  shows "dummy_poll (c, q) = (Inr (Some m), (dc_advance c, q)) \<and> dc_pending (dc_advance c) = ms"
proof -
  have op: "\<not> dc_closed c" and dr: "map the (drop (dc_index c) (dc_messages c)) = m # ms"
    using assms(2) by (auto simp: dc_pending_def split: if_splits)
  have lt: "dc_index c < length (dc_messages c)"
    using dr by (metis drop_all linorder_not_le list.simps(3) list.simps(8))
  then have "dc_messages c ! dc_index c \<noteq> None"
    using assms(1) by (metis dc_ready_def nth_mem)
  moreover have "drop (dc_index c) (dc_messages c) =
      (dc_messages c ! dc_index c) # drop (Suc (dc_index c)) (dc_messages c)"
    using lt by (simp add: Cons_nth_drop_Suc)
  ultimately show ?thesis
    using op dr lt by (auto simp: dummy_poll_def dc_pending_def dc_advance_def)
qed

lemma dc_poll_empty:
  assumes "dc_ready c" "dc_pending c = []"
  shows "\<exists>c' q'. dummy_poll (c, q) = (Inr None, (c', q')) \<and> dc_ready c' \<and> dc_pending c' = [] \<and>
    dc_stored c' = dc_stored c \<and> dc_commits c' = dc_commits c \<and>
    (if dc_closed c then q' \<and> c' = c else q' = q \<and> dc_rank c' < dc_rank c)"
  using assms
  by (auto simp: dummy_poll_def dc_pending_def dc_ready_def dc_rank_def split: if_splits)

lemma dc_consume_loop:
  assumes "dc_ready c" "\<not> dc_closed c"
  shows "\<exists>c'. dummy_consume_loop n b (c, q) = (Inr (b @ take n (dc_pending c)), (c', q)) \<and>
    dc_ready c' \<and> dc_pending c' = drop n (dc_pending c) \<and> dc_stored c' = dc_stored c \<and>
    dc_commits c' = dc_commits c"
  using assms
proof (induction n arbitrary: b c)
  case 0
  then show ?case by simp
next
  case (Suc n)
  show ?case
  proof (cases "dc_pending c")
    case Nil
    then show ?thesis
      using dc_poll_empty [OF Suc.prems(1) Nil, of q] Suc.prems(2) by auto
  next
    case (Cons m ms)
    then show ?thesis
      using dc_poll_next [OF Suc.prems(1) Cons, of q] Suc.IH [of "dc_advance c" "b @ [m]"] Suc.prems
      by auto
  qed
qed

lemma dc_pending_open: "dc_pending c \<noteq> [] \<Longrightarrow> \<not> dc_closed c"
  by (auto simp: dc_pending_def)

interpretation dummy: queue_consumer dummy_ops dc_pending dc_rank dc_ready dc_stored dc_commits
proof unfold_locales
  show "\<exists>c'. co_poll dummy_ops (c, False) = (Inr (Some m), (c', False)) \<and> dc_pending c' = ms \<and> dc_ready c'"
    if "dc_ready c" "dc_pending c = m # ms" for c m ms
    using dc_poll_next [OF that, of False] that(1) by (simp add: dummy_ops_def)
  show "\<exists>c' q. co_poll dummy_ops (c, False) = (Inr None, (c', q)) \<and> dc_pending c' = [] \<and> dc_ready c' \<and>
      (q \<or> dc_rank c' < dc_rank c)" if "dc_ready c" "dc_pending c = []" for c
    using dc_poll_empty [OF that, of False] by (auto simp: dummy_ops_def split: if_splits)
  show "\<exists>c'. co_consume dummy_ops n (c, False) = (Inr (take n (dc_pending c)), (c', False)) \<and>
      dc_pending c' = drop n (dc_pending c) \<and> dc_ready c' \<and> dc_stored c' = dc_stored c \<and>
      dc_commits c' = dc_commits c" if "dc_ready c" "dc_pending c \<noteq> []" for c n
    using dc_consume_loop [OF that(1) dc_pending_open [OF that(2)], of n "[]" False]
    by (auto simp: dummy_ops_def dummy_consume_def)
  show "\<exists>c' q. co_consume dummy_ops n (c, False) = (Inr [], (c', q)) \<and> dc_pending c' = [] \<and> dc_ready c' \<and>
      dc_stored c' = dc_stored c \<and> dc_commits c' = dc_commits c \<and> (q \<or> dc_rank c' < dc_rank c)"
    if "dc_ready c" "dc_pending c = []" "0 < n" for c n
    using dc_poll_empty [OF that(1,2), of False] that(3)
    by (cases n) (auto simp: dummy_ops_def dummy_consume_def split: if_splits)
qed (auto simp: dummy_ops_def dummy_store_offsets_def dummy_commit_def dummy_subscribe_def dummy_close_def
      dc_pending_def dc_ready_def)

context queue_consumer
begin

text \<open>\<open>receive\<close>: subscribing before and closing after the loop.\<close>

lemma receive_of_loop:
  assumes "ready (dp_consumer d)"
  shows "\<exists>c'. ready c' \<and> pending c' = pending (dp_consumer d) \<and> stored c' = stored (dp_consumer d) \<and>
    commits c' = commits (dp_consumer d) \<and>
    receive cd ops b d =
      (case (case b of Some n \<Rightarrow> receive_batch cd ops n (d\<lparr>dp_consumer := c'\<rparr>)
                     | None \<Rightarrow> receive_single cd ops (d\<lparr>dp_consumer := c'\<rparr>)) of
         None \<Rightarrow> None
       | Some (Inl e, d2) \<Rightarrow> Some (Inl e, d2)
       | Some (Inr _, d2) \<Rightarrow> Some (on_consumer (co_close ops) d2))"
proof -
  obtain c' where "co_subscribe ops (map fst (dp_handlers d)) (dp_consumer d, dp_quit d) = (Inr (), (c', dp_quit d))"
    "pending c' = pending (dp_consumer d)" "ready c'" "stored c' = stored (dp_consumer d)"
    "commits c' = commits (dp_consumer d)"
    using subscribe_ok [OF assms] by blast
  then show ?thesis
    by (intro exI [of _ c']) (simp add: receive_def on_consumer_def)
qed

lemma close_after:
  "\<exists>c'. on_consumer (co_close ops) d = (Inr (), d\<lparr>dp_consumer := c'\<rparr>) \<and>
    stored c' = stored (dp_consumer d) \<and> commits c' = commits (dp_consumer d)"
proof -
  obtain c' where "co_close ops (dp_consumer d, dp_quit d) = (Inr (), (c', dp_quit d))"
    "stored c' = stored (dp_consumer d)" "commits c' = commits (dp_consumer d)"
    using close_ok by blast
  then show ?thesis by (intro exI [of _ c']) (simp add: on_consumer_def)
qed

lemma receive_single_all:
  assumes "ready (dp_consumer d)" "\<not> dp_quit d" "quiet (dp_handlers d)"
    and "\<forall>m \<in> set (pending (dp_consumer d)). preparable cd (dp_handlers d) m"
  shows "\<exists>d'. receive cd ops None d = Some (Inr (), d') \<and>
    calls_of (dp_events d') = calls_of (dp_events d) @
      concat (map (calls_for_one cd (dp_handlers d)) (pending (dp_consumer d))) \<and>
    (dp_world d', False) = world_after (dp_handlers d)
      (concat (map (calls_for_one cd (dp_handlers d)) (pending (dp_consumer d)))) (dp_world d, False)"
proof -
  obtain c where c: "ready c" "pending c = pending (dp_consumer d)"
    "receive cd ops None d =
      (case receive_single cd ops (d\<lparr>dp_consumer := c\<rparr>) of
         None \<Rightarrow> None
       | Some (Inl e, d2) \<Rightarrow> Some (Inl e, d2)
       | Some (Inr _, d2) \<Rightarrow> Some (on_consumer (co_close ops) d2))"
    using receive_of_loop [OF assms(1), of cd None] by auto
  obtain d1 where d1: "receive_single cd ops (d\<lparr>dp_consumer := c\<rparr>) = Some (Inr (), d1)"
    "calls_of (dp_events d1) = calls_of (dp_events d) @
      concat (map (calls_for_one cd (dp_handlers d)) (pending (dp_consumer d)))"
    "(dp_world d1, False) = world_after (dp_handlers d)
      (concat (map (calls_for_one cd (dp_handlers d)) (pending (dp_consumer d)))) (dp_world d, False)"
    using single_all [of "d\<lparr>dp_consumer := c\<rparr>" cd] assms(2,3,4) c(1,2) by auto
  obtain c' where "on_consumer (co_close ops) d1 = (Inr (), d1\<lparr>dp_consumer := c'\<rparr>)"
    using close_after [of d1] by blast
  with c(3) d1 show ?thesis by (intro exI [of _ "d1\<lparr>dp_consumer := c'\<rparr>"]) simp
qed

lemma receive_batch_all:
  assumes "ready (dp_consumer d)" "\<not> dp_quit d" "quiet (dp_handlers d)" "0 < n"
    and "\<forall>m \<in> set (pending (dp_consumer d)). preparable cd (dp_handlers d) m"
  defines "bs \<equiv> chunks n (pending (dp_consumer d))"
  shows "\<exists>d' k fs. receive cd ops (Some n) d = Some (Inr (), d') \<and> k \<le> length bs \<and>
    calls_of (dp_events d') = calls_of (dp_events d) @ concat (map (calls_for_batch cd (dp_handlers d)) (take k bs)) \<and>
    failures_of (dp_events d') = failures_of (dp_events d) @ fs \<and>
    (if fs = [] then k = length bs \<and> commits (dp_consumer d') = commits (dp_consumer d) + k \<and>
        stored (dp_consumer d') = stored (dp_consumer d) + error_free (concat bs)
     else 0 < k \<and> commits (dp_consumer d') = commits (dp_consumer d) + (k - 1) \<and>
        stored (dp_consumer d') = stored (dp_consumer d) + error_free (concat (take (k - 1) bs)))"
proof -
  obtain c where c: "ready c" "pending c = pending (dp_consumer d)" "stored c = stored (dp_consumer d)"
    "commits c = commits (dp_consumer d)"
    "receive cd ops (Some n) d =
      (case receive_batch cd ops n (d\<lparr>dp_consumer := c\<rparr>) of
         None \<Rightarrow> None
       | Some (Inl e, d2) \<Rightarrow> Some (Inl e, d2)
       | Some (Inr _, d2) \<Rightarrow> Some (on_consumer (co_close ops) d2))"
    using receive_of_loop [OF assms(1), of cd "Some n"] by auto
  let ?d = "d\<lparr>dp_consumer := c\<rparr>"
  have cb: "chunks n (pending (dp_consumer ?d)) = bs" by (simp add: bs_def c(2))
  obtain d1 k fs where d1: "receive_batch cd ops n ?d = Some (Inr (), d1)" "k \<le> length bs"
    "calls_of (dp_events d1) = calls_of (dp_events d) @ concat (map (calls_for_batch cd (dp_handlers d)) (take k bs))"
    "failures_of (dp_events d1) = failures_of (dp_events d) @ fs"
    "if fs = [] then k = length bs \<and> commits (dp_consumer d1) = commits c + k \<and>
        stored (dp_consumer d1) = stored c + error_free (concat bs)
     else 0 < k \<and> commits (dp_consumer d1) = commits c + (k - 1) \<and>
        stored (dp_consumer d1) = stored c + error_free (concat (take (k - 1) bs))"
    using batch_all [of ?d n cd] assms(2,3,4,5) c(1,2) unfolding cb by auto
  obtain c' where c': "on_consumer (co_close ops) d1 = (Inr (), d1\<lparr>dp_consumer := c'\<rparr>)"
    "stored c' = stored (dp_consumer d1)" "commits c' = commits (dp_consumer d1)"
    using close_after [of d1] by blast
  have "receive cd ops (Some n) d = Some (Inr (), d1\<lparr>dp_consumer := c'\<rparr>)"
    using c(5) d1(1) c'(1) by simp
  with d1(2-5) c(3,4) c'(2,3) show ?thesis
    by (intro exI [of _ "d1\<lparr>dp_consumer := c'\<rparr>"] exI [of _ k] exI [of _ fs]) (auto split: if_splits)
qed

end

section \<open>Properties\<close>

text \<open>
  C23: batch delivery is at least once.  On a \<open>DummyConsumer\<close> that stops its dispatcher,
  \<open>receive(batch_size=n)\<close> returns.  It has handed the messages to the handlers in batches of
  \<open>n\<close>, in order, each batch as the calls of the reference grouping (topics by first
  appearance, bodies in order, one call per topic for a batch handler).  When no handler raised,
  every batch was handled and committed and every error-free offset stored; otherwise it stopped
  after the first batch in which a handler raised, and only the batches before it were stored and
  committed.
\<close>

theorem receive_batches_commit:
  assumes "dc_ready (dp_consumer d)" "\<not> dp_quit d" "quiet (dp_handlers d)" "0 < n"
    and "\<forall>m \<in> set (dc_pending (dp_consumer d)). preparable cd (dp_handlers d) m"
  defines "bs \<equiv> chunks n (dc_pending (dp_consumer d))"
  shows "\<exists>d' k fs. receive cd dummy_ops (Some n) d = Some (Inr (), d') \<and> k \<le> length bs \<and>
    calls_of (dp_events d') = calls_of (dp_events d) @ concat (map (calls_for_batch cd (dp_handlers d)) (take k bs)) \<and>
    failures_of (dp_events d') = failures_of (dp_events d) @ fs \<and>
    (if fs = [] then k = length bs \<and> dc_commits (dp_consumer d') = dc_commits (dp_consumer d) + k \<and>
        dc_stored (dp_consumer d') = dc_stored (dp_consumer d) + error_free (concat bs)
     else 0 < k \<and> dc_commits (dp_consumer d') = dc_commits (dp_consumer d) + (k - 1) \<and>
        dc_stored (dp_consumer d') = dc_stored (dp_consumer d) + error_free (concat (take (k - 1) bs)))"
  unfolding bs_def by (rule dummy.receive_batch_all [OF assms(1-5)])

text \<open>
  C24: without a batch size, \<open>receive\<close> on such a consumer returns after handing every message
  it keeps to the handler of its topic, once and in order, whether or not handlers raise; messages
  for a batch handler are skipped.  The world it leaves is the one those calls make.
\<close>

theorem receive_singles_in_order:
  assumes "dc_ready (dp_consumer d)" "\<not> dp_quit d" "quiet (dp_handlers d)"
    and "\<forall>m \<in> set (dc_pending (dp_consumer d)). preparable cd (dp_handlers d) m"
  shows "\<exists>d'. receive cd dummy_ops None d = Some (Inr (), d') \<and>
    calls_of (dp_events d') = calls_of (dp_events d) @
      concat (map (calls_for_one cd (dp_handlers d)) (dc_pending (dp_consumer d))) \<and>
    (dp_world d', False) = world_after (dp_handlers d)
      (concat (map (calls_for_one cd (dp_handlers d)) (dc_pending (dp_consumer d)))) (dp_world d, False)"
  by (rule dummy.receive_single_all [OF assms])

text \<open>The headers that cannot be decoded.\<close>

definition bad_header :: "codec \<Rightarrow> kmessage \<Rightarrow> bool" where
  "bad_header cd m \<longleftrightarrow> (case km_headers m of None \<Rightarrow> False
     | Some h \<Rightarrow> list_ex (\<lambda>(k, v). case v of None \<Rightarrow> False | Some s \<Rightarrow> s \<noteq> '''' \<and> utf8_decode cd s = None) h)"

lemma header_dict_Inl:
  "list_ex (\<lambda>(k, v). case v of None \<Rightarrow> False | Some s \<Rightarrow> s \<noteq> '''' \<and> utf8_decode cd s = None) h \<Longrightarrow>
   header_dict cd h = Inl ValueError"
  by (induction cd h rule: header_dict.induct) (auto split: option.splits)

lemma bad_header_not_preparable:
  assumes "bad_header cd m" "km_error m = ''''" "dict_has hs (km_topic m)"
  shows "prepare_message cd hs (Some m) = Inl ValueError" "\<not> preparable cd hs m"
proof -
  obtain h where h: "km_headers m = Some h" "header_dict cd h = Inl ValueError"
    using assms(1) header_dict_Inl [of cd] by (auto simp: bad_header_def split: option.splits)
  then show p: "prepare_message cd hs (Some m) = Inl ValueError"
    using assms(2,3) by (auto simp: prepare_message_def dict_has_def)
  then show "\<not> preparable cd hs m" by (simp add: preparable_def)
qed

text \<open>
  A header value that is not UTF-8 stops the consumer, although a body that cannot be decoded is
  only skipped: the exception leaves \<open>receive\<close>.  One by one it is raised when its message comes
  first; in batch mode by any batch that contains such a message, before any handler of the batch
  runs and before its offsets are committed, so that a restarted consumer receives it again.
\<close>

theorem bad_header_leaves_receive:
  assumes "dc_ready (dp_consumer d)" "\<not> dp_quit d"
    and "bad_header cd m" "km_error m = ''''" "dict_has (dp_handlers d) (km_topic m)"
  shows "(\<forall>ms. dc_pending (dp_consumer d) = m # ms \<longrightarrow>
      (\<exists>d'. receive cd dummy_ops None d = Some (Inl ValueError, d') \<and> dp_events d' = dp_events d)) \<and>
    (m \<in> set (take n (dc_pending (dp_consumer d))) \<longrightarrow>
      (\<exists>e d'. receive cd dummy_ops (Some n) d = Some (Inl e, d') \<and> dp_events d' = dp_events d \<and>
        dc_commits (dp_consumer d') = dc_commits (dp_consumer d)))"
proof (intro conjI allI impI)
  fix ms assume p: "dc_pending (dp_consumer d) = m # ms"
  obtain c where c: "dc_ready c" "dc_pending c = m # ms"
    "receive cd dummy_ops None d =
      (case receive_single cd dummy_ops (d\<lparr>dp_consumer := c\<rparr>) of
         None \<Rightarrow> None
       | Some (Inl e, d2) \<Rightarrow> Some (Inl e, d2)
       | Some (Inr _, d2) \<Rightarrow> Some (on_consumer (co_close dummy_ops) d2))"
    using dummy.receive_of_loop [OF assms(1), of cd None] p by auto
  obtain c' where "co_poll dummy_ops (c, False) = (Inr (Some m), (c', False))"
    using dummy.poll_next [OF c(1,2)] by blast
  then have "single_turn cd dummy_ops (d\<lparr>dp_consumer := c\<rparr>) =
      (Inl ValueError, d\<lparr>dp_consumer := c', dp_quit := False\<rparr>)"
    using assms(2) bad_header_not_preparable(1) [OF assms(3-5)]
    by (simp add: single_turn_def a_bind_app on_consumer_def handle_message_def)
  then have "receive cd dummy_ops None d = Some (Inl ValueError, d\<lparr>dp_consumer := c', dp_quit := False\<rparr>)"
    unfolding c(3) receive_single_def using assms(2) by (subst until_quit.simps) simp
  then show "\<exists>d'. receive cd dummy_ops None d = Some (Inl ValueError, d') \<and> dp_events d' = dp_events d"
    by auto
next
  assume m: "m \<in> set (take n (dc_pending (dp_consumer d)))"
  obtain c where c: "dc_ready c" "dc_pending c = dc_pending (dp_consumer d)"
    "dc_commits c = dc_commits (dp_consumer d)"
    "receive cd dummy_ops (Some n) d =
      (case receive_batch cd dummy_ops n (d\<lparr>dp_consumer := c\<rparr>) of
         None \<Rightarrow> None
       | Some (Inl e, d2) \<Rightarrow> Some (Inl e, d2)
       | Some (Inr _, d2) \<Rightarrow> Some (on_consumer (co_close dummy_ops) d2))"
    using dummy.receive_of_loop [OF assms(1), of cd "Some n"] by auto
  have ne: "dc_pending c \<noteq> []" using m c(2) by auto
  obtain c' where c': "co_consume dummy_ops n (c, False) = (Inr (take n (dc_pending c)), (c', False))"
    "dc_commits c' = dc_commits c"
    using dummy.consume_some [OF c(1) ne, of n] by blast
  let ?d = "d\<lparr>dp_consumer := c', dp_quit := False\<rparr>"
  obtain e where "handle_batch_messages cd (take n (dc_pending c)) ?d = (Inl e, ?d)"
    using handle_batch_raises [of m "take n (dc_pending c)" cd ?d] m c(2)
      bad_header_not_preparable(2) [OF assms(3-5)] by auto
  moreover have "take n (dc_pending c) \<noteq> []" using m c(2) by (cases "n = 0") auto
  ultimately have "batch_turn cd dummy_ops n (d\<lparr>dp_consumer := c\<rparr>) = (Inl e, ?d)"
    using assms(2) c'(1) by (simp add: batch_turn_def a_bind_app a_catch_app on_consumer_def del: take_eq_Nil)
  then have "receive cd dummy_ops (Some n) d = Some (Inl e, ?d)"
    unfolding c(4) receive_batch_def using assms(2) by (subst until_quit.simps) simp
  with c(3) c'(2) show "\<exists>e d'. receive cd dummy_ops (Some n) d = Some (Inl e, d') \<and> dp_events d' = dp_events d \<and>
        dc_commits (dp_consumer d') = dc_commits (dp_consumer d)"
    by auto
qed

text \<open>
  A message sent by \<open>send_kafka_message\<close> is polled, sent and flushed once, and decodes on
  the receiving side to the value sent when its JSON text is an object or an array.  A JSON string is
  not recovered: the receiver strips its quotes and parses what is left as JSON.
\<close>

theorem sent_message_received:
  assumes "\<And>s. utf8_decode cd (utf8_encode cd s) = Some s" "loads cd (dumps cd j) = Some j"
    and "dumps cd (JStr s) = CHR 0x22 # s @ [CHR 0x22]" "s \<noteq> ''''" "hd s \<noteq> CHR 0x22" "last s \<noteq> CHR 0x22"
  shows "(\<exists>p'. send_kafka_message cd topic j (Some p) = Some p' \<and>
      poll_calls p' = poll_calls p + 1 \<and> flush_calls p' = flush_calls p + 1 \<and>
      (\<exists>call. produce_calls p' = produce_calls p @ [call] \<and> pc_topic call = topic \<and>
        (dumps cd j \<noteq> '''' \<and> hd (dumps cd j) \<noteq> CHR 0x22 \<and> last (dumps cd j) \<noteq> CHR 0x22 \<longrightarrow>
          decode_body cd (dummy_message topic (pc_message call) None) = Some j))) \<and>
    decode_body cd (dummy_message topic (utf8_encode cd (dumps cd (JStr s))) None) = loads cd s"
proof
  show "decode_body cd (dummy_message topic (utf8_encode cd (dumps cd (JStr s))) None) = loads cd s"
    using assms(1,3) strip_char_quoted [OF assms(4,5,6)] by (simp add: decode_body_def dummy_message_def)
  show "\<exists>p'. send_kafka_message cd topic j (Some p) = Some p' \<and>
      poll_calls p' = poll_calls p + 1 \<and> flush_calls p' = flush_calls p + 1 \<and>
      (\<exists>call. produce_calls p' = produce_calls p @ [call] \<and> pc_topic call = topic \<and>
        (dumps cd j \<noteq> '''' \<and> hd (dumps cd j) \<noteq> CHR 0x22 \<and> last (dumps cd j) \<noteq> CHR 0x22 \<longrightarrow>
          decode_body cd (dummy_message topic (pc_message call) None) = Some j))"
    using assms(1,2) strip_char_id [of "dumps cd j" "CHR 0x22"]
    by (simp add: send_kafka_message_def producer_flush_def producer_produce_def producer_poll_def
        decode_body_def dummy_message_def)
qed

section \<open>Witnesses\<close>

text \<open>
  A codec on texts of seven-bit characters and three JSON texts, a handler that collects what it is
  given, and a dispatcher with two messages to receive.
\<close>

definition sample_loads :: "string \<Rightarrow> json option" where
  "sample_loads s = (if s = ''{}'' then Some (JObj []) else if s = ''5'' then Some (JInt 5) else None)"

definition sample_dumps :: "json \<Rightarrow> string" where
  "sample_dumps j = (case j of JStr s \<Rightarrow> CHR 0x22 # s @ [CHR 0x22] | _ \<Rightarrow> ''{}'')"

definition sample_codec :: codec where
  "sample_codec = \<lparr>utf8_decode = (\<lambda>s. if CHR 0xFF \<in> set s then None else Some s), utf8_encode = (\<lambda>s. s),
     loads = sample_loads, dumps = sample_dumps\<rparr>"

definition total_codec :: codec where
  "total_codec = sample_codec\<lparr>utf8_decode := Some\<rparr>"

definition collect :: "payload list handler" where
  "collect t p = (\<lambda>(w, q). if p = Many [] then (Inl ValueError, (w, q)) else (Inr (), (w @ [p], q)))"

definition sample_message :: "(string \<times> string option) list option \<Rightarrow> kmessage" where
  "sample_message h = dummy_message ''events'' ''{}'' h"

definition sample_dispatcher :: "bool \<Rightarrow> kmessage list \<Rightarrow> (payload list, dummy_consumer) dispatcher" where
  "sample_dispatcher batch ms =
     register_handler ''events'' collect batch [(''service'', ''advisor'')]
       (new_dispatcher (set_dispatcher_quit (foldr add_message_obj ms new_dummy_consumer)) [])"

definition good_headers :: "(string \<times> string option) list option" where
  "good_headers = Some [(''service'', Some ''advisor'')]"

lemma quiet_sample: "quiet (dp_handlers (sample_dispatcher b ms))"
  by (simp add: quiet_def sample_dispatcher_def register_handler_def new_dispatcher_def collect_def)

lemmas sample_defs = sample_dispatcher_def register_handler_def new_dispatcher_def sample_message_def
  set_dispatcher_quit_def add_message_obj_def new_dummy_consumer_def dummy_message_def
  dc_ready_def dc_pending_def good_headers_def

lemma sample_start:
  "dc_ready (dp_consumer (sample_dispatcher b [m]))" "\<not> dp_quit (sample_dispatcher b [m])"
  "dc_pending (dp_consumer (sample_dispatcher b [m])) = [m]"
  "dp_events (sample_dispatcher b [m]) = []"
  "dc_commits (dp_consumer (sample_dispatcher b [m])) = 0"
  by (simp_all add: sample_defs)

lemma sample_preparable:
  "preparable sample_codec (dp_handlers (sample_dispatcher b ms)) (sample_message good_headers)"
  "calls_for_one sample_codec (dp_handlers (sample_dispatcher False ms)) (sample_message good_headers) =
     [(''events'', One (JObj []))]"
  "calls_for_batch sample_codec (dp_handlers (sample_dispatcher True ms)) [sample_message good_headers] =
     [(''events'', Many [JObj []])]"
proof -
  show "preparable sample_codec (dp_handlers (sample_dispatcher b ms)) (sample_message good_headers)"
    by (cases b) (code_simp, code_simp)
qed code_simp+

theorem receive_singles_in_order_witness:
  "\<exists>d'. receive sample_codec dummy_ops None (sample_dispatcher False [sample_message good_headers]) = Some (Inr (), d') \<and>
     calls_of (dp_events d') = [(''events'', One (JObj []))]"
proof -
  have "\<forall>m \<in> set (dc_pending (dp_consumer (sample_dispatcher False [sample_message good_headers]))).
      preparable sample_codec (dp_handlers (sample_dispatcher False [sample_message good_headers])) m"
    by (simp add: sample_start sample_preparable)
  from receive_singles_in_order [OF sample_start(1,2) quiet_sample this] show ?thesis
    by (auto simp: sample_start sample_preparable)
qed

theorem receive_batches_commit_witness:
  "\<exists>d'. receive sample_codec dummy_ops (Some 1) (sample_dispatcher True [sample_message good_headers]) = Some (Inr (), d') \<and>
     calls_of (dp_events d') = [(''events'', Many [JObj []])]"
proof -
  let ?d = "sample_dispatcher True [sample_message good_headers]"
  have p: "\<forall>m \<in> set (dc_pending (dp_consumer ?d)). preparable sample_codec (dp_handlers ?d) m"
    by (simp add: sample_start sample_preparable)
  have c: "chunks 1 (dc_pending (dp_consumer ?d)) = [[sample_message good_headers]]"
    by (simp add: sample_start chunks.simps)
  obtain d' k where d': "receive sample_codec dummy_ops (Some 1) ?d = Some (Inr (), d')"
    "calls_of (dp_events d') = concat (map (calls_for_batch sample_codec (dp_handlers ?d)) (take k [[sample_message good_headers]]))"
    and k: "k = 1"
    using receive_batches_commit [OF sample_start(1,2) quiet_sample zero_less_one p]
    unfolding c by (fastforce simp: sample_start split: if_splits)
  then show ?thesis by (auto simp: sample_preparable)
qed

theorem bad_header_leaves_receive_witness:
  "\<exists>d'. receive sample_codec dummy_ops None
      (sample_dispatcher False [sample_message (Some [(''trace'', Some [CHR 0xFF])])]) = Some (Inl ValueError, d') \<and>
    dp_events d' = []"
proof -
  let ?m = "sample_message (Some [(''trace'', Some [CHR 0xFF])])"
  have "bad_header sample_codec ?m" "km_error ?m = ''''"
    "dict_has (dp_handlers (sample_dispatcher False [?m])) (km_topic ?m)"
    by (code_simp, simp add: sample_defs, simp add: sample_defs)
  from bad_header_leaves_receive [OF sample_start(1,2) this, of 1] show ?thesis
    by (simp add: sample_start)
qed

theorem sent_message_received_witness:
  "decode_body total_codec (dummy_message ''t'' (utf8_encode total_codec (dumps total_codec (JStr ''5''))) None)
     = Some (JInt 5)"
proof -
  have c: "\<And>s. utf8_decode total_codec (utf8_encode total_codec s) = Some s"
    by (simp add: total_codec_def sample_codec_def)
  have l: "loads total_codec (dumps total_codec (JObj [])) = Some (JObj [])"
    "dumps total_codec (JStr ''5'') = CHR 0x22 # ''5'' @ [CHR 0x22]" "loads total_codec ''5'' = Some (JInt 5)"
    by (simp_all add: total_codec_def sample_codec_def sample_loads_def sample_dumps_def)
  from sent_message_received [of total_codec "JObj []" "''5''", OF c l(1,2)] show ?thesis
    by (simp add: l(3))
qed

end
