(* ===== verification/Inventory_Consumer.thy ===== *)
theory Inventory_Consumer
  imports Py_Values
begin

text \<open>
  \<open>api/advisor/api/management/commands/advisor_inventory_service.py\<close>: the consumer that keeps
  Advisor's copy of the host inventory.  The events of a batch are parsed, hosts to delete are
  deleted with what depends on them, and the rest are written unless what is stored is newer.
  Tables are lists of rows; a transaction that raises leaves them as they were.
\<close>

section \<open>Parsed events\<close>

text \<open>The values are taken from the message as they are.\<close>

record parsed_host =
  ph_host_id :: json
  ph_display_name :: json
  ph_account :: json
  ph_org_id :: json
  ph_tags :: json
  ph_workspace_id :: json
  ph_workspace_name :: json
  ph_workspace_ungrouped :: json
  ph_created :: json
  ph_updated :: json
  ph_last_check_in :: json
  ph_insights_id :: json
  ph_satellite_id :: json
  ph_stale_timestamp :: json
  ph_reporter :: json
  ph_per_reporter_staleness :: json
  ph_os_name :: json
  ph_os_major :: json
  ph_os_minor :: json
  ph_host_type :: json
  ph_bootc_booted_image :: json
  ph_bootc_booted_image_digest :: json
  ph_owner_id :: json
  ph_rhc_client_id :: json
  ph_workloads :: json
  ph_system_update_method :: json
  ph_infrastructure_type :: json
  ph_bios_release_date :: json
  ph_bios_vendor :: json
  ph_bios_version :: json
  ph_release :: json

record parsed_delete =
  pd_inventory_id :: json
  pd_org_id :: json

section \<open>The database and the metrics\<close>

text \<open>
  A row of \<open>AdvisorInventoryHost\<close>: its key, the instants of its three dates that the code
  reads, and the parsed host whose other fields are its columns.
\<close>

record inv_row =
  ir_org :: string
  ir_id :: string
  ir_updated :: int
  ir_last_check_in :: int
  ir_stale_timestamp :: int
  ir_host :: parsed_host

record host_row =
  hr_id :: string
  hr_org :: string
  hr_account :: json
  hr_satellite_id :: json
  hr_branch_id :: "string option"

record upload_row =
  up_pk :: nat
  up_host :: string

record report_row =
  cr_pk :: nat
  cr_host :: string
  cr_upload :: nat

text \<open>
  The tables the consumer touches: its own, and those that refer to a host (\<open>SatMaintenanceAction\<close>
  only by the cascade of its foreign key).
\<close>

record inv_db =
  advisor_hosts :: "inv_row list"
  hosts :: "host_row list"
  uploads :: "upload_row list"
  current_reports :: "report_row list"
  host_acks :: "(nat \<times> string) list"
  sat_actions :: "(nat \<times> string) list"

record inv_metrics =
  m_missing_keys :: nat
  m_malformed :: nat
  m_insights_only :: nat
  m_upserted :: nat
  m_deleted :: nat
  m_delete_missing :: nat

record inv_state =
  iv_db :: inv_db
  iv_metrics :: inv_metrics

text \<open>
  What Django and the database decide: \<open>parse_datetime\<close> (the instant of a time with a zone;
  \<open>None\<close> for a text that is no date or has no zone, which does not compare with a stored
  time), the column conversions of a date, a UUID (to its canonical text) and an org id, whether the
  other columns take their values, and whether a statement fails.
\<close>

record inv_services =
  is_parse :: "json \<Rightarrow> int option py"
  is_date :: "json \<Rightarrow> int option"
  is_uuid :: "json \<Rightarrow> string option"
  is_org :: "json \<Rightarrow> string option"
  is_row_ok :: "parsed_host \<Rightarrow> bool"
  is_broken :: "string \<Rightarrow> inv_db \<Rightarrow> bool"

definition count_metric :: "(inv_metrics \<Rightarrow> inv_metrics) \<Rightarrow> (inv_state, unit) act" where
  "count_metric f = a_upd (\<lambda>s. s\<lparr>iv_metrics := f (iv_metrics s)\<rparr>)"

abbreviation "inc_missing_keys \<equiv> count_metric (\<lambda>m. m\<lparr>m_missing_keys := m_missing_keys m + 1\<rparr>)"
abbreviation "inc_malformed \<equiv> count_metric (\<lambda>m. m\<lparr>m_malformed := m_malformed m + 1\<rparr>)"
abbreviation "inc_insights_only \<equiv> count_metric (\<lambda>m. m\<lparr>m_insights_only := m_insights_only m + 1\<rparr>)"

text \<open>A statement that changes the tables, and a transaction.\<close>

definition statement ::
  "inv_services \<Rightarrow> string \<Rightarrow> (inv_db \<Rightarrow> inv_db) \<Rightarrow> (inv_state, unit) act" where
  "statement sv name f = (\<lambda>s.
     if is_broken sv name (iv_db s) then (Inl DbError, s) else (Inr (), s\<lparr>iv_db := f (iv_db s)\<rparr>))"

definition atomic :: "(inv_state, 'a) act \<Rightarrow> (inv_state, 'a) act" where
  "atomic m = (\<lambda>s. case m s of
     (Inl e, t) \<Rightarrow> (Inl e, t\<lparr>iv_db := iv_db s\<rparr>)
   | (Inr x, t) \<Rightarrow> (Inr x, t))"

section \<open>Parsing\<close>

datatype parsed = Parsed_host parsed_host | Insights_only_filtered

definition nil_uuid :: string where
  "nil_uuid = ''00000000-0000-0000-0000-000000000000''"

definition event_host_data :: "json \<Rightarrow> json py" where
  "event_host_data message =
     py_bind (py_get_default message ''host'' (JObj [])) (\<lambda>h. Inr (py_or h (JObj [])))"

text \<open>\<open>xs[0].get(k) if xs else None\<close>\<close>

definition first_group :: "json \<Rightarrow> string \<Rightarrow> json py" where
  "first_group groups k =
     (if \<not> truthy groups then Inr JNull
      else case groups of
        JList (g # gs) \<Rightarrow> py_get g k
      | JStr s \<Rightarrow> Inl AttributeError
      | JObj d \<Rightarrow> Inl (KeyError ''0'')
      | _ \<Rightarrow> Inl TypeError)"

definition get_if_dict :: "json \<Rightarrow> string \<Rightarrow> json" where
  "get_if_dict v k = (case v of JObj d \<Rightarrow> (case map_of d k of None \<Rightarrow> JNull | Some x \<Rightarrow> x) | _ \<Rightarrow> JNull)"

text \<open>
  The \<open>try\<close> block: the required fields in the order they are read.  Its handler only catches
  \<open>KeyError\<close>.
\<close>

definition required_fields :: "json \<Rightarrow> (string \<Rightarrow> json) py" where
  "required_fields message =
     py_bind (py_item message ''metadata'') (\<lambda>metadata.
     py_bind (py_item metadata ''request_id'') (\<lambda>request_id.
     py_bind (py_item message ''host'') (\<lambda>host.
     py_bind (py_item host ''id'') (\<lambda>host_id.
     py_bind (py_item host ''display_name'') (\<lambda>display_name.
     py_bind (py_get host ''account'') (\<lambda>account.
     py_bind (py_item host ''org_id'') (\<lambda>org_id.
     py_bind (py_item host ''tags'') (\<lambda>tags.
     py_bind (py_item host ''groups'') (\<lambda>groups.
     py_bind (py_item host ''created'') (\<lambda>created.
     py_bind (py_item host ''updated'') (\<lambda>updated.
     py_bind (py_item host ''last_check_in'') (\<lambda>last_check_in.
     py_bind (py_item host ''insights_id'') (\<lambda>insights_id.
     py_bind (py_get host ''satellite_id'') (\<lambda>satellite_id.
     py_bind (py_item host ''stale_timestamp'') (\<lambda>stale_timestamp.
     py_bind (py_item host ''system_profile'') (\<lambda>system_profile.
     py_bind (py_item host ''reporter'') (\<lambda>reporter.
     py_bind (py_item host ''per_reporter_staleness'') (\<lambda>staleness.
       Inr (get_if_dict host)))))))))))))))))))"

text \<open>The rest of the parse, on a host with the required fields.\<close>

definition parsed_host_of :: "(string \<Rightarrow> json) \<Rightarrow> parsed_host py" where
  "parsed_host_of host =
     (let profile = host ''system_profile''; groups = host ''groups'' in
      py_bind (py_get_default profile ''operating_system'' (JObj [])) (\<lambda>os_info.
      py_bind (py_get_default profile ''bootc_status'' (JObj [])) (\<lambda>bootc.
      let bootc_booted = (case bootc of JObj d \<Rightarrow> (case map_of d ''booted'' of None \<Rightarrow> JObj [] | Some b \<Rightarrow> b)
                            | _ \<Rightarrow> JObj []) in
      py_bind (py_get_default profile ''workloads'' (JObj [])) (\<lambda>wl.
      py_bind (first_group groups ''id'') (\<lambda>workspace_id.
      py_bind (first_group groups ''name'') (\<lambda>workspace_name.
      py_bind (first_group groups ''ungrouped'') (\<lambda>ungrouped.
      let p = get_if_dict profile in
      Inr \<lparr>ph_host_id = host ''id'', ph_display_name = host ''display_name'',
           ph_account = host ''account'', ph_org_id = host ''org_id'', ph_tags = host ''tags'',
           ph_workspace_id = workspace_id, ph_workspace_name = workspace_name,
           ph_workspace_ungrouped = ungrouped, ph_created = host ''created'',
           ph_updated = host ''updated'', ph_last_check_in = host ''last_check_in'',
           ph_insights_id = host ''insights_id'', ph_satellite_id = host ''satellite_id'',
           ph_stale_timestamp = host ''stale_timestamp'', ph_reporter = host ''reporter'',
           ph_per_reporter_staleness = host ''per_reporter_staleness'',
           ph_os_name = get_if_dict os_info ''name'', ph_os_major = get_if_dict os_info ''major'',
           ph_os_minor = get_if_dict os_info ''minor'', ph_host_type = p ''host_type'',
           ph_bootc_booted_image = get_if_dict bootc_booted ''image'',
           ph_bootc_booted_image_digest = get_if_dict bootc_booted ''image_digest'',
           ph_owner_id = py_or (p ''owner_id'') JNull, ph_rhc_client_id = py_or (p ''rhc_client_id'') JNull,
           ph_workloads = (if is_dict wl then wl else JObj []),
           ph_system_update_method = p ''system_update_method'',
           ph_infrastructure_type = p ''infrastructure_type'',
           ph_bios_release_date = p ''bios_release_date'', ph_bios_vendor = p ''bios_vendor'',
           ph_bios_version = p ''bios_version'', ph_release = p ''release''\<rparr>)))))))"

definition parse_created_event :: "json \<Rightarrow> (inv_state, parsed option) act" where
  "parse_created_event message =
     a_bind (a_lift (py_item message ''type'')) (\<lambda>event_type.
     a_bind (a_lift (event_host_data message)) (\<lambda>host_data.
     a_bind (a_lift (py_get host_data ''org_id'')) (\<lambda>_.
     a_bind (a_lift (py_get host_data ''id'')) (\<lambda>_.
       case required_fields message of
         Inl (KeyError k) \<Rightarrow> a_then inc_missing_keys (a_ret None)
       | Inl e \<Rightarrow> a_raise e
       | Inr host \<Rightarrow>
           if \<not> truthy (host ''insights_id'') then a_then inc_missing_keys (a_ret None)
           else if host ''insights_id'' = JStr nil_uuid then
             a_then inc_insights_only (a_ret (Some Insights_only_filtered))
           else a_bind (a_lift (parsed_host_of host)) (\<lambda>h. a_ret (Some (Parsed_host h)))))))"

definition parse_deleted_event :: "json \<Rightarrow> (inv_state, parsed_delete option) act" where
  "parse_deleted_event message =
     (case py_bind (py_item message ''request_id'') (\<lambda>request_id.
           py_bind (py_item message ''id'') (\<lambda>inventory_id.
           py_bind (py_get message ''account'') (\<lambda>account.
           py_bind (py_item message ''org_id'') (\<lambda>org_id.
             Inr \<lparr>pd_inventory_id = inventory_id, pd_org_id = org_id\<rparr>)))) of
        Inl (KeyError k) \<Rightarrow> a_then inc_missing_keys (a_ret None)
      | Inl e \<Rightarrow> a_raise e
      | Inr d \<Rightarrow> a_ret (Some d))"

section \<open>The loop over a batch\<close>

record batch_acc =
  ba_upserts :: "parsed_host list"
  ba_deletes :: "parsed_delete list"

text \<open>
  One message of the batch; the \<open>except\<close> clause counts it as malformed and goes on.
\<close>

definition parse_message :: "json \<Rightarrow> batch_acc \<Rightarrow> (inv_state, batch_acc) act" where
  "parse_message message acc =
     a_bind (a_lift (py_in ''type'' message)) (\<lambda>has_type.
       if \<not> has_type then a_then inc_missing_keys (a_then inc_malformed (a_ret acc))
       else a_bind (a_lift (py_item message ''type'')) (\<lambda>t.
         if t = JStr ''created'' \<or> t = JStr ''updated'' then
           a_bind (parse_created_event message) (\<lambda>parsed.
             case parsed of
               Some (Parsed_host h) \<Rightarrow> a_ret (acc\<lparr>ba_upserts := ba_upserts acc @ [h]\<rparr>)
             | Some Insights_only_filtered \<Rightarrow> a_ret acc
             | None \<Rightarrow> a_then inc_malformed (a_ret acc))
         else if t = JStr ''delete'' then
           a_bind (parse_deleted_event message) (\<lambda>parsed.
             case parsed of
               Some d \<Rightarrow> a_ret (acc\<lparr>ba_deletes := ba_deletes acc @ [d]\<rparr>)
             | None \<Rightarrow> a_then inc_malformed (a_ret acc))
         else a_then inc_malformed (a_ret acc)))"

definition parse_or_skip :: "json \<Rightarrow> batch_acc \<Rightarrow> (inv_state, batch_acc) act" where
  "parse_or_skip message acc =
     a_catch (parse_message message acc) (\<lambda>e. a_then inc_malformed (a_ret acc))"

fun parse_batch :: "json list \<Rightarrow> batch_acc \<Rightarrow> (inv_state, batch_acc) act" where
  "parse_batch [] acc = a_ret acc"
| "parse_batch (m # ms) acc = a_bind (parse_or_skip m acc) (parse_batch ms)"

section \<open>Dropping stale events\<close>

definition same_key :: "parsed_host \<Rightarrow> parsed_host \<Rightarrow> bool" where
  "same_key x y \<longleftrightarrow> py_eq (ph_org_id x) (ph_org_id y) \<and> py_eq (ph_host_id x) (ph_host_id y)"

text \<open>
  The dictionary \<open>deduped\<close>, as its values in insertion order: the key of a value is its own
  org id and host id.
\<close>

fun dedupe_put :: "parsed_host \<Rightarrow> parsed_host list \<Rightarrow> parsed_host list py" where
  "dedupe_put x [] = Inr [x]"
| "dedupe_put x (y # ys) =
     (if same_key x y
      then py_bind (py_gt (ph_updated x) (ph_updated y)) (\<lambda>newer. Inr ((if newer then x else y) # ys))
      else py_bind (dedupe_put x ys) (\<lambda>zs. Inr (y # zs)))"

fun dedupe :: "parsed_host list \<Rightarrow> parsed_host list \<Rightarrow> parsed_host list py" where
  "dedupe [] acc = Inr acc"
| "dedupe (x # xs) acc =
     (if \<not> (hashable (ph_org_id x) \<and> hashable (ph_host_id x)) then Inl TypeError
      else py_bind (dedupe_put x acc) (dedupe xs))"

text \<open>
  The key a query for an org id and a host id looks for: \<open>None\<close> when a null makes it match
  nothing; a text that is no UUID raises.
\<close>

definition query_key :: "inv_services \<Rightarrow> json \<Rightarrow> json \<Rightarrow> (string \<times> string) option py" where
  "query_key sv org_id host_id =
     (if org_id = JNull \<or> host_id = JNull then Inr None
      else case is_uuid sv host_id of
        None \<Rightarrow> Inl ValidationError
      | Some u \<Rightarrow> Inr (map_option (\<lambda>org. (org, u)) (is_org sv org_id)))"

definition row_key :: "inv_row \<Rightarrow> string \<times> string" where
  "row_key r = (ir_org r, ir_id r)"

definition existing_ts ::
  "inv_services \<Rightarrow> inv_row list \<Rightarrow> parsed_host list \<Rightarrow> ((string \<times> string) \<times> int) list py" where
  "existing_ts sv rows unique =
     py_bind (py_mapM (\<lambda>x. query_key sv (ph_org_id x) (ph_host_id x)) unique) (\<lambda>keys.
       Inr (map (\<lambda>r. (row_key r, ir_updated r)) (filter (\<lambda>r. Some (row_key r) \<in> set keys) rows)))"

text \<open>Only string keys are in \<open>existing_ts\<close>.\<close>

definition stored_time :: "((string \<times> string) \<times> int) list \<Rightarrow> parsed_host \<Rightarrow> int option" where
  "stored_time ts x =
     (case (ph_org_id x, ph_host_id x) of (JStr o', JStr i) \<Rightarrow> map_of (rev ts) (o', i) | _ \<Rightarrow> None)"

definition is_fresh ::
  "inv_services \<Rightarrow> ((string \<times> string) \<times> int) list \<Rightarrow> parsed_host \<Rightarrow> bool py" where
  "is_fresh sv ts x =
     (case stored_time ts x of
        None \<Rightarrow> Inr True
      | Some old \<Rightarrow>
          py_bind (is_parse sv (ph_updated x)) (\<lambda>t.
            case t of None \<Rightarrow> Inl TypeError | Some new \<Rightarrow> Inr (old < new)))"

fun keep_fresh ::
  "inv_services \<Rightarrow> ((string \<times> string) \<times> int) list \<Rightarrow> parsed_host list \<Rightarrow> parsed_host list py" where
  "keep_fresh sv ts [] = Inr []"
| "keep_fresh sv ts (x # xs) =
     py_bind (is_fresh sv ts x) (\<lambda>b.
     py_bind (keep_fresh sv ts xs) (\<lambda>ys. Inr (if b then x # ys else ys)))"

definition filter_stale_events ::
  "inv_services \<Rightarrow> inv_row list \<Rightarrow> parsed_host list \<Rightarrow> parsed_host list py" where
  "filter_stale_events sv rows upserts =
     py_bind (dedupe upserts []) (\<lambda>unique.
       if unique = [] then Inl TypeError
       else py_bind (existing_ts sv rows unique) (\<lambda>ts. keep_fresh sv ts unique))"

section \<open>Writing\<close>

text \<open>
  \<open>to_advisor_model\<close> parses two of the dates; the others are converted when the row is
  written, which raises for a null key or date, a text that is no UUID or no date, and a value
  another column refuses.
\<close>

definition to_advisor_model ::
  "inv_services \<Rightarrow> parsed_host \<Rightarrow> (parsed_host \<times> int option \<times> int option) py" where
  "to_advisor_model sv h =
     py_bind (is_parse sv (ph_last_check_in h)) (\<lambda>last_check_in.
     py_bind (is_parse sv (ph_stale_timestamp h)) (\<lambda>stale.
       Inr (h, last_check_in, stale)))"

definition advisor_row :: "inv_services \<Rightarrow> parsed_host \<times> int option \<times> int option \<Rightarrow> inv_row py" where
  "advisor_row sv = (\<lambda>(h, last_check_in, stale).
     case (query_key sv (ph_org_id h) (ph_host_id h)) of
       Inl e \<Rightarrow> Inl e
     | Inr None \<Rightarrow> Inl IntegrityError
     | Inr (Some (org, i)) \<Rightarrow>
         (case is_date sv (ph_updated h) of
            None \<Rightarrow> Inl ValidationError
          | Some updated \<Rightarrow>
              (case (last_check_in, stale) of
                 (Some lc, Some st) \<Rightarrow>
                   if is_row_ok sv h then
                     Inr \<lparr>ir_org = org, ir_id = i, ir_updated = updated, ir_last_check_in = lc,
                          ir_stale_timestamp = st, ir_host = h\<rparr>
                   else Inl ValidationError
               | _ \<Rightarrow> Inl IntegrityError)))"

definition to_host_model :: "inv_services \<Rightarrow> parsed_host \<Rightarrow> host_row py" where
  "to_host_model sv h =
     (case query_key sv (ph_org_id h) (ph_host_id h) of
        Inl e \<Rightarrow> Inl e
      | Inr None \<Rightarrow> Inl IntegrityError
      | Inr (Some (org, i)) \<Rightarrow>
          Inr \<lparr>hr_id = i, hr_org = org, hr_account = ph_account h,
               hr_satellite_id = py_or (ph_satellite_id h) JNull, hr_branch_id = None\<rparr>)"

text \<open>
  \<open>bulk_create(update_conflicts=True)\<close>: a row whose key is there has its columns updated (a
  host keeps its branch), another is added; a key twice in one statement is refused.
\<close>

fun upsert_row :: "inv_row \<Rightarrow> inv_row list \<Rightarrow> inv_row list" where
  "upsert_row r [] = [r]"
| "upsert_row r (x # xs) = (if row_key x = row_key r then r # xs else x # upsert_row r xs)"

fun upsert_host :: "host_row \<Rightarrow> host_row list \<Rightarrow> host_row list" where
  "upsert_host r [] = [r]"
| "upsert_host r (x # xs) =
     (if hr_id x = hr_id r then r\<lparr>hr_branch_id := hr_branch_id x\<rparr> # xs else x # upsert_host r xs)"

definition once_each :: "'k list \<Rightarrow> (inv_state, unit) act" where
  "once_each keys =
     (if distinct keys then a_ret ()
      else a_raise (Exn ''ON CONFLICT DO UPDATE command cannot affect row a second time''))"

definition create_advisor_hosts ::
  "inv_services \<Rightarrow> (parsed_host \<times> int option \<times> int option) list \<Rightarrow> (inv_state, nat) act" where
  "create_advisor_hosts sv models =
     a_bind (a_lift (py_mapM (advisor_row sv) models)) (\<lambda>rows.
     a_then (once_each (map row_key rows))
    (a_then (statement sv ''upsert advisor_inventory_host''
               (\<lambda>db. db\<lparr>advisor_hosts := fold upsert_row rows (advisor_hosts db)\<rparr>))
     (a_ret (length rows))))"

definition create_hosts :: "inv_services \<Rightarrow> parsed_host list \<Rightarrow> (inv_state, unit) act" where
  "create_hosts sv upserts =
     a_bind (a_lift (py_mapM (to_host_model sv) upserts)) (\<lambda>rows.
     a_then (once_each (map hr_id rows))
     (statement sv ''upsert host'' (\<lambda>db. db\<lparr>hosts := fold upsert_host rows (hosts db)\<rparr>)))"

definition bulk_upsert_hosts :: "inv_services \<Rightarrow> parsed_host list \<Rightarrow> (inv_state, unit) act" where
  "bulk_upsert_hosts sv upserts =
     a_bind (a_lift (py_mapM (to_advisor_model sv) upserts)) (\<lambda>models.
     atomic
       (a_bind (create_advisor_hosts sv models) (\<lambda>n.
        a_then (create_hosts sv upserts)
        (count_metric (\<lambda>m. m\<lparr>m_upserted := m_upserted m + n\<rparr>)))))"

section \<open>Deleting\<close>

text \<open>The foreign keys cascade: uploads take their reports with them, hosts all that refers to them.\<close>

definition delete_uploads :: "string list \<Rightarrow> inv_db \<Rightarrow> inv_db" where
  "delete_uploads ids db =
     (let pks = map up_pk (filter (\<lambda>u. up_host u \<in> set ids) (uploads db)) in
      db\<lparr>uploads := filter (\<lambda>u. up_host u \<notin> set ids) (uploads db),
         current_reports := filter (\<lambda>r. cr_upload r \<notin> set pks) (current_reports db)\<rparr>)"

definition delete_reports :: "string list \<Rightarrow> inv_db \<Rightarrow> inv_db" where
  "delete_reports ids db =
     db\<lparr>current_reports := filter (\<lambda>r. cr_host r \<notin> set ids) (current_reports db)\<rparr>"

definition delete_host_acks :: "string list \<Rightarrow> inv_db \<Rightarrow> inv_db" where
  "delete_host_acks ids db = db\<lparr>host_acks := filter (\<lambda>(_, h). h \<notin> set ids) (host_acks db)\<rparr>"

definition delete_hosts :: "string list \<Rightarrow> inv_db \<Rightarrow> inv_db" where
  "delete_hosts ids db =
     (let db' = delete_host_acks ids (delete_reports ids (delete_uploads ids db)) in
      db'\<lparr>hosts := filter (\<lambda>h. hr_id h \<notin> set ids) (hosts db'),
          sat_actions := filter (\<lambda>(_, h). h \<notin> set ids) (sat_actions db')\<rparr>)"

definition bulk_delete_hosts :: "inv_services \<Rightarrow> parsed_delete list \<Rightarrow> (inv_state, unit) act" where
  "bulk_delete_hosts sv deletes =
     a_bind (atomic
       (a_bind (a_lift (py_mapM (\<lambda>d. query_key sv (pd_org_id d) (pd_inventory_id d)) deletes)) (\<lambda>keys.
        a_bind (a_get (\<lambda>s. length (filter (\<lambda>r. Some (row_key r) \<in> set keys) (advisor_hosts (iv_db s))))) (\<lambda>deleted.
        a_then (statement sv ''delete advisor_inventory_host''
          (\<lambda>db. db\<lparr>advisor_hosts := filter (\<lambda>r. Some (row_key r) \<notin> set keys) (advisor_hosts db)\<rparr>))
       (a_then (count_metric (\<lambda>m. m\<lparr>m_deleted := m_deleted m + deleted\<rparr>))
       (a_bind (a_get (\<lambda>s. map hr_id (filter (\<lambda>h. Some (hr_org h, hr_id h) \<in> set keys) (hosts (iv_db s))))) (\<lambda>ids.
          if ids = [] then a_ret deleted
          else a_then (statement sv ''delete upload'' (delete_uploads ids))
              (a_then (statement sv ''delete current_report'' (delete_reports ids))
              (a_then (statement sv ''delete hostack'' (delete_host_acks ids))
              (a_then (statement sv ''delete host'' (delete_hosts ids)) (a_ret deleted)))))))))))
     (\<lambda>deleted.
        if length deletes > deleted
        then count_metric (\<lambda>m. m\<lparr>m_delete_missing := m_delete_missing m + (length deletes - deleted)\<rparr>)
        else a_ret ())"

section \<open>The handler\<close>

definition upsert_fresh :: "inv_services \<Rightarrow> parsed_host list \<Rightarrow> (inv_state, unit) act" where
  "upsert_fresh sv upserts =
     (if upserts = [] then a_ret ()
      else a_bind (a_get (\<lambda>s. filter_stale_events sv (advisor_hosts (iv_db s)) upserts)) (\<lambda>r.
           a_bind (a_lift r) (\<lambda>fresh.
             if fresh = [] then a_ret () else bulk_upsert_hosts sv fresh)))"

definition handle_inventory_event :: "inv_services \<Rightarrow> json list \<Rightarrow> (inv_state, unit) act" where
  "handle_inventory_event sv messages =
     a_bind (parse_batch messages \<lparr>ba_upserts = [], ba_deletes = []\<rparr>) (\<lambda>acc.
     a_then (if ba_deletes acc = [] then a_ret () else bulk_delete_hosts sv (ba_deletes acc))
       (upsert_fresh sv (ba_upserts acc)))"

end
