(* ===== verification/Inventory_Safety.thy ===== *)
theory Inventory_Safety
  imports Inventory_Consumer
begin

text \<open>
  What the inventory consumer guarantees: parsing never raises out of a batch, the tables keep their
  unique keys, stale events never overwrite newer rows, deleting takes everything that refers to a
  host, and the order of a deletion and a creation within a batch does not count.
\<close>

section \<open>Parsing leaves the tables alone\<close>

definition db_fixed :: "(inv_state, 'a) act \<Rightarrow> bool" where
  "db_fixed m \<longleftrightarrow> (\<forall>s. iv_db (snd (m s)) = iv_db s)"

lemma db_fixed_keeps: "db_fixed m \<longleftrightarrow> (\<forall>db. keeps (\<lambda>s. iv_db s = db) m)"
  by (auto simp: db_fixed_def keeps_def)

lemma db_fixed_ret [intro, simp]: "db_fixed (a_ret x)"
  and db_fixed_raise [intro, simp]: "db_fixed (a_raise e)"
  and db_fixed_lift [intro, simp]: "db_fixed (a_lift r)"
  and db_fixed_count [intro, simp]: "db_fixed (count_metric f)"
  by (simp_all add: db_fixed_def count_metric_def)

lemma db_fixed_bind [intro]: "db_fixed m \<Longrightarrow> (\<And>x. db_fixed (f x)) \<Longrightarrow> db_fixed (a_bind m f)"
  unfolding db_fixed_keeps by (intro allI keeps_bind) auto

lemma db_fixed_then [intro]: "db_fixed m \<Longrightarrow> db_fixed k \<Longrightarrow> db_fixed (a_then m k)"
  unfolding db_fixed_keeps by (intro allI keeps_then) auto

lemma db_fixed_catch [intro]: "db_fixed m \<Longrightarrow> (\<And>e. db_fixed (h e)) \<Longrightarrow> db_fixed (a_catch m h)"
  unfolding db_fixed_keeps by (intro allI keeps_catch) auto

lemma db_fixed_if: "db_fixed m \<Longrightarrow> db_fixed k \<Longrightarrow> db_fixed (if b then m else k)"
  by simp

lemma db_fixed_option: "db_fixed m \<Longrightarrow> (\<And>y. db_fixed (f y)) \<Longrightarrow> db_fixed (case x of None \<Rightarrow> m | Some y \<Rightarrow> f y)"
  by (cases x) auto

lemma db_fixed_parsed:
  "(\<And>h. db_fixed (f h)) \<Longrightarrow> db_fixed m \<Longrightarrow>
    db_fixed (case p of Parsed_host h \<Rightarrow> f h | Insights_only_filtered \<Rightarrow> m)"
  by (cases p) auto

lemma db_fixed_created [intro, simp]: "db_fixed (parse_created_event m)"
  unfolding parse_created_event_def
  by (intro db_fixed_bind) (auto split: sum.split pyexn.split)

lemma db_fixed_deleted [intro, simp]: "db_fixed (parse_deleted_event m)"
  unfolding parse_deleted_event_def by (auto split: sum.split pyexn.split)

lemma db_fixed_parse_message [intro, simp]: "db_fixed (parse_message m acc)"
  unfolding parse_message_def
  by (intro db_fixed_bind db_fixed_lift db_fixed_if db_fixed_then db_fixed_ret db_fixed_count
        db_fixed_created db_fixed_deleted db_fixed_option db_fixed_parsed)

lemma db_fixed_parse_or_skip [intro, simp]: "db_fixed (parse_or_skip m acc)"
  unfolding parse_or_skip_def by auto

lemma db_fixed_parse_batch [intro, simp]: "db_fixed (parse_batch ms acc)"
  by (induction ms arbitrary: acc) auto

lemma parse_or_skip_returns: "\<exists>acc' t. parse_or_skip m acc s = (Inr acc', t)"
  by (cases "parse_message m acc s"; cases "fst (parse_message m acc s)")
     (auto simp: parse_or_skip_def a_catch_app a_then_app count_metric_def)

lemma parse_batch_returns: "\<exists>acc' t. parse_batch ms acc s = (Inr acc', t) \<and> iv_db t = iv_db s"
proof (induction ms arbitrary: acc s)
  case (Cons m ms)
  obtain acc1 s1 where 1: "parse_or_skip m acc s = (Inr acc1, s1)"
    using parse_or_skip_returns by blast
  have "iv_db s1 = iv_db s"
    using db_fixed_parse_or_skip [of m acc] 1 by (metis db_fixed_def snd_conv)
  with Cons [of acc1 s1] 1 show ?case by (auto simp: a_bind_app)
qed simp

lemma handle_after_parse:
  assumes "parse_batch ms \<lparr>ba_upserts = [], ba_deletes = []\<rparr> s = (Inr acc, s1)"
  shows "handle_inventory_event sv ms s =
    a_then (if ba_deletes acc = [] then a_ret () else bulk_delete_hosts sv (ba_deletes acc))
       (upsert_fresh sv (ba_upserts acc)) s1"
  by (simp add: handle_inventory_event_def a_bind_app assms)

section \<open>Unique keys\<close>

definition keys_unique :: "inv_db \<Rightarrow> bool" where
  "keys_unique db \<longleftrightarrow> distinct (map row_key (advisor_hosts db)) \<and> distinct (map hr_id (hosts db))"

abbreviation "db_inv Q \<equiv> (\<lambda>s. Q (iv_db s))"

lemma keeps_count [intro, simp]: "keeps (db_inv Q) (count_metric f)"
  by (simp add: keeps_def count_metric_def)

lemma keeps_statement [intro]:
  "(\<And>db. Q db \<Longrightarrow> Q (f db)) \<Longrightarrow> keeps (db_inv Q) (statement sv n f)"
  by (simp add: keeps_def statement_def)

lemma keeps_atomic [intro]: "keeps (db_inv Q) m \<Longrightarrow> keeps (db_inv Q) (atomic m)"
  by (fastforce simp: keeps_def atomic_def split: prod.split sum.split)

lemma keeps_db_fixed: "db_fixed m \<Longrightarrow> keeps (db_inv Q) m"
  by (simp add: keeps_def db_fixed_def)

lemma keys_upsert_row:
  "map row_key (upsert_row r rows) =
     (if row_key r \<in> set (map row_key rows) then map row_key rows else map row_key rows @ [row_key r])"
  by (induction rows) auto

lemma distinct_upsert_rows:
  "distinct (map row_key rows) \<Longrightarrow> distinct (map row_key (fold upsert_row rs rows))"
  by (induction rs arbitrary: rows) (auto simp: keys_upsert_row simp del: set_map)

lemma ids_upsert_host:
  "map hr_id (upsert_host r rows) =
     (if hr_id r \<in> set (map hr_id rows) then map hr_id rows else map hr_id rows @ [hr_id r])"
  by (induction rows) auto

lemma distinct_upsert_hosts:
  "distinct (map hr_id rows) \<Longrightarrow> distinct (map hr_id (fold upsert_host rs rows))"
  by (induction rs arbitrary: rows) (auto simp: ids_upsert_host simp del: set_map)

lemma tables_after_delete [simp]:
  "advisor_hosts (delete_uploads ids db) = advisor_hosts db" "hosts (delete_uploads ids db) = hosts db"
  "advisor_hosts (delete_reports ids db) = advisor_hosts db" "hosts (delete_reports ids db) = hosts db"
  "advisor_hosts (delete_host_acks ids db) = advisor_hosts db" "hosts (delete_host_acks ids db) = hosts db"
  "advisor_hosts (delete_hosts ids db) = advisor_hosts db"
  "hosts (delete_hosts ids db) = filter (\<lambda>h. hr_id h \<notin> set ids) (hosts db)"
  by (simp_all add: delete_uploads_def delete_reports_def delete_host_acks_def delete_hosts_def Let_def)

lemma distinct_map_filter': "distinct (map f xs) \<Longrightarrow> distinct (map f (filter P xs))"
  by (induction xs) auto

lemma keeps_bulk_upsert: "keeps (db_inv keys_unique) (bulk_upsert_hosts sv upserts)"
  unfolding bulk_upsert_hosts_def create_advisor_hosts_def create_hosts_def once_each_def
  by (intro keeps_bind keeps_lift keeps_atomic keeps_then keeps_statement keeps_count keeps_if keeps_ret keeps_raise)
     (auto simp: keys_unique_def intro: distinct_upsert_rows distinct_upsert_hosts)

lemma keeps_bulk_delete: "keeps (db_inv keys_unique) (bulk_delete_hosts sv deletes)"
  unfolding bulk_delete_hosts_def
  by (intro keeps_bind keeps_lift keeps_get keeps_atomic keeps_then keeps_statement keeps_count keeps_if
        keeps_ret keeps_raise)
     (auto simp: keys_unique_def intro: distinct_map_filter')

lemma keeps_upsert_fresh: "keeps (db_inv keys_unique) (upsert_fresh sv upserts)"
  unfolding upsert_fresh_def
  by (intro keeps_bind keeps_lift keeps_get keeps_if keeps_ret keeps_bulk_upsert)

lemma keeps_handle: "keeps (db_inv keys_unique) (handle_inventory_event sv ms)"
  unfolding handle_inventory_event_def
  by (intro keeps_bind keeps_then keeps_if keeps_ret keeps_bulk_delete keeps_upsert_fresh
        keeps_db_fixed db_fixed_parse_batch)

section \<open>What a deletion leaves\<close>

definition db_deleted :: "(string \<times> string) option set \<Rightarrow> inv_db \<Rightarrow> inv_db" where
  "db_deleted keys db =
     (let db1 = db\<lparr>advisor_hosts := filter (\<lambda>r. Some (row_key r) \<notin> keys) (advisor_hosts db)\<rparr>;
          ids = map hr_id (filter (\<lambda>h. Some (hr_org h, hr_id h) \<in> keys) (hosts db))
      in if ids = [] then db1 else delete_hosts ids db1)"

lemma delete_hosts_after:
  "delete_hosts ids (delete_host_acks ids (delete_reports ids (delete_uploads ids db))) = delete_hosts ids db"
  by (simp add: delete_hosts_def delete_host_acks_def delete_reports_def delete_uploads_def Let_def
      conj_commute conj_left_commute)

lemma statement_Inr: "statement sv n f s = (Inr x, t) \<longleftrightarrow> \<not> is_broken sv n (iv_db s) \<and> t = s\<lparr>iv_db := f (iv_db s)\<rparr>"
  by (auto simp: statement_def)

lemma count_metric_Inr: "count_metric f s = (Inr x, t) \<longleftrightarrow> t = s\<lparr>iv_metrics := f (iv_metrics s)\<rparr>"
  by (auto simp: count_metric_def)

lemma atomic_Inr: "atomic m s = (Inr x, t) \<longleftrightarrow> m s = (Inr x, t)"
  by (auto simp: atomic_def split: prod.splits sum.splits)

lemma once_each_Inr: "once_each ks s = (Inr x, t) \<longleftrightarrow> distinct ks \<and> t = s"
  by (auto simp: once_each_def)

lemmas inv_inv = act_inv statement_Inr count_metric_Inr atomic_Inr once_each_Inr

definition keys_of_deletes :: "inv_services \<Rightarrow> parsed_delete list \<Rightarrow> (string \<times> string) option list py" where
  "keys_of_deletes sv deletes = py_mapM (\<lambda>d. query_key sv (pd_org_id d) (pd_inventory_id d)) deletes"

lemma bulk_delete_result:
  assumes "bulk_delete_hosts sv deletes s = (Inr (), t)"
  shows "\<exists>keys. keys_of_deletes sv deletes = Inr keys \<and> iv_db t = db_deleted (set keys) (iv_db s)"
proof -
  obtain keys where k: "keys_of_deletes sv deletes = Inr keys"
    using assms by (auto simp: bulk_delete_hosts_def inv_inv keys_of_deletes_def)
  moreover have "iv_db t = db_deleted (set keys) (iv_db s)"
    using assms k
    by (auto simp: bulk_delete_hosts_def inv_inv keys_of_deletes_def db_deleted_def Let_def delete_hosts_after
        split: if_splits)
  ultimately show ?thesis by blast
qed

lemma advisor_hosts_deleted [simp]:
  "advisor_hosts (db_deleted keys db) = filter (\<lambda>r. Some (row_key r) \<notin> keys) (advisor_hosts db)"
  by (simp add: db_deleted_def Let_def)

section \<open>What the filter keeps\<close>

lemma dedupe_put_subset: "dedupe_put x acc = Inr zs \<Longrightarrow> set zs \<subseteq> insert x (set acc)"
proof (induction x acc arbitrary: zs rule: dedupe_put.induct)
  case (2 x y ys)
  then show ?case by (fastforce simp: py_bind_eq_Inr split: if_splits)
qed simp

lemma dedupe_subset: "dedupe xs acc = Inr zs \<Longrightarrow> set zs \<subseteq> set xs \<union> set acc"
proof (induction xs arbitrary: acc)
  case (Cons x xs)
  then obtain acc' where "dedupe_put x acc = Inr acc'" "dedupe xs acc' = Inr zs"
    by (auto simp: py_bind_eq_Inr split: if_splits)
  with Cons.IH dedupe_put_subset [of x acc acc'] show ?case by fastforce
qed simp

lemma keep_fresh_iff:
  "keep_fresh sv ts xs = Inr ys \<Longrightarrow> x \<in> set ys \<longleftrightarrow> x \<in> set xs \<and> is_fresh sv ts x = Inr True"
  by (induction xs arbitrary: ys) (auto simp: py_bind_eq_Inr split: if_splits)

text \<open>Events whose org id and host id are strings in the form the database stores them.\<close>

definition canonical :: "inv_services \<Rightarrow> parsed_host \<Rightarrow> bool" where
  "canonical sv x = (case (ph_org_id x, ph_host_id x) of
     (JStr org, JStr i) \<Rightarrow> is_uuid sv (JStr i) = Some i \<and> is_org sv (JStr org) = Some org | _ \<Rightarrow> False)"

definition host_key :: "parsed_host \<Rightarrow> string \<times> string" where
  "host_key x = (case (ph_org_id x, ph_host_id x) of (JStr org, JStr i) \<Rightarrow> (org, i) | _ \<Rightarrow> ('''', ''''))"

lemma canonicalE:
  assumes "canonical sv x"
  obtains org i where "ph_org_id x = JStr org" "ph_host_id x = JStr i" "host_key x = (org, i)"
    "query_key sv (ph_org_id x) (ph_host_id x) = Inr (Some (org, i))"
  using assms by (auto simp: canonical_def host_key_def query_key_def split: json.splits)

lemma canonical_query [simp]:
  "canonical sv x \<Longrightarrow> query_key sv (ph_org_id x) (ph_host_id x) = Inr (Some (host_key x))"
  by (erule canonicalE) simp

lemma canonical_keys:
  assumes "\<forall>x \<in> set xs. canonical sv x"
  shows "existing_ts sv rows xs =
    Inr (map (\<lambda>r. (row_key r, ir_updated r)) (filter (\<lambda>r. row_key r \<in> host_key ` set xs) rows))"
proof -
  have "py_mapM (\<lambda>x. query_key sv (ph_org_id x) (ph_host_id x)) xs = Inr (map (\<lambda>x. Some (host_key x)) xs)"
    using assms by (intro py_mapM_Inr_map) simp
  then show ?thesis
    by (simp add: existing_ts_def image_image) (rule arg_cong [of _ _ "map _"], rule filter_cong, auto)
qed

lemma stored_time_row:
  assumes "distinct (map row_key rows)" "r \<in> set rows" "canonical sv x" "row_key r = host_key x"
    and "x \<in> set xs"
  shows "stored_time (map (\<lambda>r. (row_key r, ir_updated r)) (filter (\<lambda>r. row_key r \<in> host_key ` set xs) rows)) x
    = Some (ir_updated r)"
proof -
  let ?ts = "map (\<lambda>r. (row_key r, ir_updated r)) (filter (\<lambda>r. row_key r \<in> host_key ` set xs) rows)"
  have "distinct (map fst ?ts)"
    using distinct_map_filter' [OF assms(1)] by (simp add: comp_def)
  then have "distinct (rev (map fst ?ts))" by (simp only: distinct_rev)
  then have "distinct (map fst (rev ?ts))" by (simp only: rev_map)
  moreover have "r \<in> set (filter (\<lambda>r. row_key r \<in> host_key ` set xs) rows)"
    using assms(2,4,5) by simp
  then have "(host_key x, ir_updated r) \<in> set ?ts"
    unfolding set_map assms(4) [symmetric] by (rule image_eqI [OF refl])
  ultimately have "map_of (rev ?ts) (host_key x) = Some (ir_updated r)"
    by (intro map_of_is_SomeI) (simp_all only: set_rev)
  then show ?thesis
    using assms(3) by (auto simp: stored_time_def elim!: canonicalE)
qed

lemma stored_time_absent:
  assumes "canonical sv x" "host_key x \<notin> row_key ` set rows"
  shows "stored_time (map (\<lambda>r. (row_key r, ir_updated r)) (filter P rows)) x = None"
proof -
  have "map_of (rev (map (\<lambda>r. (row_key r, ir_updated r)) (filter P rows))) (host_key x) = None"
    using assms(2) by (auto simp: map_of_eq_None_iff)
  then show ?thesis
    using assms(1) by (auto simp: stored_time_def elim!: canonicalE)
qed

lemma filter_stale_fresh:
  assumes "filter_stale_events sv rows upserts = Inr fresh" "\<forall>x \<in> set upserts. canonical sv x"
    and "distinct (map row_key rows)" "x \<in> set fresh"
  shows "x \<in> set upserts \<and> (\<forall>r \<in> set rows. row_key r = host_key x \<longrightarrow>
    (\<exists>t. is_parse sv (ph_updated x) = Inr (Some t) \<and> ir_updated r < t))"
proof -
  obtain unique where u: "dedupe upserts [] = Inr unique" "unique \<noteq> []"
    "py_bind (existing_ts sv rows unique) (\<lambda>ts. keep_fresh sv ts unique) = Inr fresh"
    using assms(1) by (auto simp: filter_stale_events_def py_bind_eq_Inr split: if_splits)
  have sub: "set unique \<subseteq> set upserts" using dedupe_subset [OF u(1)] by simp
  then have can: "\<forall>x \<in> set unique. canonical sv x" using assms(2) by blast
  let ?ts = "map (\<lambda>r. (row_key r, ir_updated r)) (filter (\<lambda>r. row_key r \<in> host_key ` set unique) rows)"
  have "keep_fresh sv ?ts unique = Inr fresh"
    using u(3) by (simp add: canonical_keys [OF can])
  with assms(4) have x: "x \<in> set unique" "is_fresh sv ?ts x = Inr True"
    by (simp_all add: keep_fresh_iff)
  have "\<exists>t. is_parse sv (ph_updated x) = Inr (Some t) \<and> ir_updated r < t"
    if "r \<in> set rows" "row_key r = host_key x" for r
    using x(2) stored_time_row [OF assms(3) that(1) _ that(2) x(1)] can x(1)
    by (auto simp: is_fresh_def py_bind_eq_Inr split: option.splits)
  with sub x(1) show ?thesis by blast
qed

section \<open>What an upsert leaves\<close>

lemma upsert_rows_sets:
  assumes "r \<in> set rows"
  shows "\<exists>r' \<in> set (fold upsert_row rs rows). row_key r' = row_key r \<and> (r' = r \<or> r' \<in> set rs)"
  using assms
proof (induction rs arbitrary: rows r)
  case Nil
  then show ?case by auto
next
  case (Cons u us)
  have "\<exists>r1 \<in> set (upsert_row u rows). row_key r1 = row_key r \<and> (r1 = r \<or> r1 = u)"
    using Cons.prems by (induction rows) auto
  then obtain r1 where "r1 \<in> set (upsert_row u rows)" "row_key r1 = row_key r" "r1 = r \<or> r1 = u"
    by blast
  with Cons.IH [of r1 "upsert_row u rows"] show ?case by auto
qed

lemma upsert_row_in: "u \<in> set (upsert_row u rows)"
  by (induction rows) auto

lemma upsert_rows_in:
  assumes "u \<in> set rs"
  shows "\<exists>r' \<in> set (fold upsert_row rs rows). row_key r' = row_key u \<and> r' \<in> set rs"
  using assms
proof (induction rs arbitrary: rows)
  case (Cons a rs)
  show ?case
  proof (cases "u = a")
    case True
    with upsert_rows_sets [OF upsert_row_in [of a rows], of rs] show ?thesis by auto
  next
    case False
    with Cons show ?thesis by fastforce
  qed
qed simp

section \<open>The outcome of a batch\<close>

lemma advisor_row_Inr:
  assumes "advisor_row sv (h, lc, st) = Inr row"
  shows "query_key sv (ph_org_id h) (ph_host_id h) = Inr (Some (row_key row)) \<and>
    is_date sv (ph_updated h) = Some (ir_updated row)"
  using assms by (auto simp: advisor_row_def row_key_def split: sum.splits option.splits if_splits)

text \<open>The rows a successful upsert writes, one for each event.\<close>

definition written_rows :: "inv_services \<Rightarrow> parsed_host list \<Rightarrow> inv_row list py" where
  "written_rows sv xs = py_bind (py_mapM (to_advisor_model sv) xs) (py_mapM (advisor_row sv))"

lemma py_mapM_member:
  assumes "py_mapM f xs = Inr ys"
  shows "y \<in> set ys \<longleftrightarrow> (\<exists>x \<in> set xs. f x = Inr y)"
  using assms by (induction xs arbitrary: ys) (auto simp: py_bind_eq_Inr)

lemma written_row:
  assumes "written_rows sv xs = Inr rows"
  shows "row \<in> set rows \<Longrightarrow> \<exists>x \<in> set xs. query_key sv (ph_org_id x) (ph_host_id x) = Inr (Some (row_key row)) \<and>
      is_date sv (ph_updated x) = Some (ir_updated row)"
    and "x \<in> set xs \<Longrightarrow> \<exists>row \<in> set rows. query_key sv (ph_org_id x) (ph_host_id x) = Inr (Some (row_key row))"
proof -
  obtain ms where ms: "py_mapM (to_advisor_model sv) xs = Inr ms" "py_mapM (advisor_row sv) ms = Inr rows"
    using assms by (auto simp: written_rows_def py_bind_eq_Inr)
  have model: "fst m = x" if "to_advisor_model sv x = Inr m" for x m
    using that by (auto simp: to_advisor_model_def py_bind_eq_Inr)
  show "\<exists>x \<in> set xs. query_key sv (ph_org_id x) (ph_host_id x) = Inr (Some (row_key row)) \<and>
      is_date sv (ph_updated x) = Some (ir_updated row)" if row: "row \<in> set rows"
  proof -
    obtain m where m: "m \<in> set ms" "advisor_row sv m = Inr row"
      using row unfolding py_mapM_member [OF ms(2)] by blast
    obtain x where x: "x \<in> set xs" "to_advisor_model sv x = Inr m"
      using m(1) unfolding py_mapM_member [OF ms(1)] by blast
    have "m = (x, fst (snd m), snd (snd m))" using model [OF x(2)] by (cases m) auto
    with m(2) have "advisor_row sv (x, fst (snd m), snd (snd m)) = Inr row" by simp
    from advisor_row_Inr [OF this] x(1) show ?thesis by blast
  qed
  show "\<exists>row \<in> set rows. query_key sv (ph_org_id x) (ph_host_id x) = Inr (Some (row_key row))"
    if "x \<in> set xs"
  proof -
    have "\<exists>m \<in> set ms. to_advisor_model sv x = Inr m"
      using ms(1) that by (induction xs arbitrary: ms) (auto simp: py_bind_eq_Inr)
    then obtain m where m: "m \<in> set ms" "to_advisor_model sv x = Inr m" by blast
    have "\<exists>row \<in> set rows. advisor_row sv m = Inr row"
      using ms(2) m(1) by (induction ms arbitrary: rows) (auto simp: py_bind_eq_Inr)
    then obtain row where row: "row \<in> set rows" "advisor_row sv m = Inr row" by blast
    have "m = (x, fst (snd m), snd (snd m))" using model [OF m(2)] by (cases m) auto
    with row(2) have "advisor_row sv (x, fst (snd m), snd (snd m)) = Inr row" by simp
    from advisor_row_Inr [OF this] row(1) show ?thesis by blast
  qed
qed

lemma create_advisor_hosts_result:
  assumes "create_advisor_hosts sv models s = (Inr n, u)"
  shows "\<exists>rows. py_mapM (advisor_row sv) models = Inr rows \<and>
    advisor_hosts (iv_db u) = fold upsert_row rows (advisor_hosts (iv_db s))"
  using assms
  by (cases "py_mapM (advisor_row sv) models")
     (auto simp: create_advisor_hosts_def a_then_Inr once_each_Inr statement_Inr)

lemma create_hosts_result:
  assumes "create_hosts sv xs u = (Inr x, v)"
  shows "advisor_hosts (iv_db v) = advisor_hosts (iv_db u)"
  using assms
  by (cases "py_mapM (to_host_model sv) xs")
     (auto simp: create_hosts_def a_then_Inr once_each_Inr statement_Inr)

lemma bulk_upsert_result:
  assumes "bulk_upsert_hosts sv xs s = (Inr (), t)"
  shows "\<exists>rows. written_rows sv xs = Inr rows \<and>
    advisor_hosts (iv_db t) = fold upsert_row rows (advisor_hosts (iv_db s))"
proof -
  obtain models where m: "py_mapM (to_advisor_model sv) xs = Inr models"
    using assms by (cases "py_mapM (to_advisor_model sv) xs") (simp_all add: bulk_upsert_hosts_def)
  obtain n u where u: "create_advisor_hosts sv models s = (Inr n, u)"
    and t: "a_then (create_hosts sv xs) (count_metric (\<lambda>m. m\<lparr>m_upserted := m_upserted m + n\<rparr>)) u = (Inr (), t)"
    using assms by (auto simp: bulk_upsert_hosts_def m atomic_Inr a_bind_Inr)
  obtain v where v: "create_hosts sv xs u = (Inr (), v)"
    "count_metric (\<lambda>m. m\<lparr>m_upserted := m_upserted m + n\<rparr>) v = (Inr (), t)"
    using t by (auto simp: a_then_Inr)
  have tv: "iv_db t = iv_db v" using v(2) by (simp add: count_metric_Inr)
  obtain rows where "py_mapM (advisor_row sv) models = Inr rows"
    "advisor_hosts (iv_db u) = fold upsert_row rows (advisor_hosts (iv_db s))"
    using create_advisor_hosts_result [OF u] by blast
  with m tv create_hosts_result [OF v(1)] show ?thesis by (simp add: written_rows_def)
qed

lemma upsert_fresh_result:
  assumes "upsert_fresh sv xs s = (Inr (), t)"
  shows "\<exists>fresh rows. (xs = [] \<and> fresh = [] \<or> filter_stale_events sv (advisor_hosts (iv_db s)) xs = Inr fresh) \<and>
    written_rows sv fresh = Inr rows \<and>
    advisor_hosts (iv_db t) = fold upsert_row rows (advisor_hosts (iv_db s))"
proof (cases "xs = []")
  case True
  with assms show ?thesis
    by (intro exI [of _ "[]"]) (simp add: upsert_fresh_def written_rows_def)
next
  case False
  then obtain fresh where f: "filter_stale_events sv (advisor_hosts (iv_db s)) xs = Inr fresh"
    using assms by (auto simp: upsert_fresh_def inv_inv)
  show ?thesis
  proof (cases "fresh = []")
    case True
    with assms f False show ?thesis
      by (intro exI [of _ "[]"]) (simp add: upsert_fresh_def written_rows_def a_bind_app)
  next
    case ne: False
    then have "bulk_upsert_hosts sv fresh s = (Inr (), t)"
      using assms f False by (simp add: upsert_fresh_def a_bind_app)
    with bulk_upsert_result f show ?thesis by blast
  qed
qed

definition dates_agree :: "inv_services \<Rightarrow> bool" where
  "dates_agree sv \<longleftrightarrow> (\<forall>j t. is_parse sv j = Inr (Some t) \<longrightarrow> is_date sv j = Some t)"

lemma upsert_fresh_monotone:
  assumes "upsert_fresh sv xs s = (Inr (), t)" "keys_unique (iv_db s)" "\<forall>x \<in> set xs. canonical sv x"
    and "dates_agree sv" "r \<in> set (advisor_hosts (iv_db s))"
  shows "\<exists>r' \<in> set (advisor_hosts (iv_db t)). row_key r' = row_key r \<and> (r' = r \<or> ir_updated r < ir_updated r')"
proof -
  obtain fresh rows where f: "xs = [] \<and> fresh = [] \<or> filter_stale_events sv (advisor_hosts (iv_db s)) xs = Inr fresh"
    "written_rows sv fresh = Inr rows" "advisor_hosts (iv_db t) = fold upsert_row rows (advisor_hosts (iv_db s))"
    using upsert_fresh_result [OF assms(1)] by blast
  obtain r' where r': "r' \<in> set (advisor_hosts (iv_db t))" "row_key r' = row_key r" "r' = r \<or> r' \<in> set rows"
    using upsert_rows_sets [OF assms(5), of rows] f(3) by auto
  have "ir_updated r < ir_updated r'" if new: "r' \<in> set rows"
  proof -
    obtain x where x: "x \<in> set fresh" "query_key sv (ph_org_id x) (ph_host_id x) = Inr (Some (row_key r'))"
      "is_date sv (ph_updated x) = Some (ir_updated r')"
      using written_row(1) [OF f(2) new] by blast
    have fl: "filter_stale_events sv (advisor_hosts (iv_db s)) xs = Inr fresh" using f(1) x(1) by auto
    have d: "distinct (map row_key (advisor_hosts (iv_db s)))" using assms(2) by (simp add: keys_unique_def)
    have x': "x \<in> set xs" "\<forall>r \<in> set (advisor_hosts (iv_db s)). row_key r = host_key x \<longrightarrow>
        (\<exists>t. is_parse sv (ph_updated x) = Inr (Some t) \<and> ir_updated r < t)"
      using filter_stale_fresh [OF fl assms(3) d x(1)] by auto
    have "row_key r = host_key x" using x(2) x'(1) assms(3) r'(2) by simp
    then obtain t' where "is_parse sv (ph_updated x) = Inr (Some t')" "ir_updated r < t'"
      using x'(2) assms(5) by blast
    with assms(4) x(3) show ?thesis by (auto simp: dates_agree_def)
  qed
  with r' show ?thesis by blast
qed

lemma keys_unique_deleted: "keys_unique db \<Longrightarrow> keys_unique (db_deleted keys db)"
  by (auto simp: keys_unique_def db_deleted_def Let_def intro: distinct_map_filter')

section \<open>Properties\<close>

text \<open>
  C25: a stale event never overwrites a newer row, for events that spell their ids as the database
  does.  Suppose that the org id and the host id of every event of the batch that writes are texts in
  the form the database gives back, a UUID in lower case with its hyphens (\<open>canonical\<close>), and that a
  date is read alike by the filter and by the column (\<open>dates_agree\<close>).  When the batch is handled,
  every row of \<open>AdvisorInventoryHost\<close> that no deletion of the batch names is still there as it was,
  or has been replaced by one with a strictly later \<open>updated\<close>; and the keys of both tables stay
  unique whatever the batch, also when handling it raises.  For an id in another spelling the
  stored row is not found by the filter, and the event overwrites it whatever its date: see
  \<open>upper_case_id_overwrites_newer_row\<close> below.
\<close>

theorem stale_events_never_overwrite:
  assumes "parse_batch ms \<lparr>ba_upserts = [], ba_deletes = []\<rparr> s = (Inr acc, s1)"
    and "handle_inventory_event sv ms s = (Inr (), t)"
    and "keys_unique (iv_db s)" "\<forall>x \<in> set (ba_upserts acc). canonical sv x" "dates_agree sv"
  shows "keys_unique (iv_db (snd (handle_inventory_event sv ms' s))) \<and>
    (\<forall>r \<in> set (advisor_hosts (iv_db s)).
      (\<exists>d \<in> set (ba_deletes acc). query_key sv (pd_org_id d) (pd_inventory_id d) = Inr (Some (row_key r))) \<or>
      (\<exists>r' \<in> set (advisor_hosts (iv_db t)). row_key r' = row_key r \<and> (r' = r \<or> ir_updated r < ir_updated r')))"
proof (intro conjI ballI)
  show "keys_unique (iv_db (snd (handle_inventory_event sv ms' s)))"
    using keepsD [OF keeps_handle assms(3)] .
  fix r assume r: "r \<in> set (advisor_hosts (iv_db s))"
  have s1: "iv_db s1 = iv_db s"
    using db_fixed_parse_batch [of ms "\<lparr>ba_upserts = [], ba_deletes = []\<rparr>"] assms(1)
    by (metis db_fixed_def snd_conv)
  obtain s2 where s2: "(if ba_deletes acc = [] then a_ret () else bulk_delete_hosts sv (ba_deletes acc)) s1 = (Inr (), s2)"
    "upsert_fresh sv (ba_upserts acc) s2 = (Inr (), t)"
    using assms(2) unfolding handle_after_parse [OF assms(1)] by (auto simp: a_then_Inr)
  obtain keys where keys: "keys_of_deletes sv (ba_deletes acc) = Inr keys"
    "advisor_hosts (iv_db s2) = filter (\<lambda>r. Some (row_key r) \<notin> set keys) (advisor_hosts (iv_db s))"
    "keys_unique (iv_db s2)"
  proof (cases "ba_deletes acc = []")
    case True
    with s2(1) s1 assms(3) that [of "[]"] show ?thesis by (simp add: keys_of_deletes_def)
  next
    case False
    then obtain ks where "keys_of_deletes sv (ba_deletes acc) = Inr ks" "iv_db s2 = db_deleted (set ks) (iv_db s1)"
      using s2(1) bulk_delete_result by fastforce
    with s1 assms(3) keys_unique_deleted that [of ks] show ?thesis by simp
  qed
  show "(\<exists>d \<in> set (ba_deletes acc). query_key sv (pd_org_id d) (pd_inventory_id d) = Inr (Some (row_key r))) \<or>
      (\<exists>r' \<in> set (advisor_hosts (iv_db t)). row_key r' = row_key r \<and> (r' = r \<or> ir_updated r < ir_updated r'))"
  proof (cases "Some (row_key r) \<in> set keys")
    case True
    then show ?thesis
      using py_mapM_member [OF keys(1) [unfolded keys_of_deletes_def]] by blast
  next
    case False
    then have "r \<in> set (advisor_hosts (iv_db s2))" using r keys(2) by simp
    from upsert_fresh_monotone [OF s2(2) keys(3) assms(4,5) this] show ?thesis by blast
  qed
qed

lemma delete_hosts_tables:
  "uploads (delete_hosts ids db) = filter (\<lambda>u. up_host u \<notin> set ids) (uploads db)"
  "current_reports (delete_hosts ids db) = filter (\<lambda>r. cr_host r \<notin> set ids)
     (filter (\<lambda>r. cr_upload r \<notin> set (map up_pk (filter (\<lambda>u. up_host u \<in> set ids) (uploads db)))) (current_reports db))"
  "host_acks (delete_hosts ids db) = filter (\<lambda>(_, h). h \<notin> set ids) (host_acks db)"
  "sat_actions (delete_hosts ids db) = filter (\<lambda>(_, h). h \<notin> set ids) (sat_actions db)"
  by (simp_all add: delete_hosts_def delete_host_acks_def delete_reports_def delete_uploads_def Let_def)

text \<open>
  Deleting a host deletes what depends on it and nothing else.  When \<open>bulk_delete_hosts\<close>
  returns, no host or inventory row with a deleted key is left, no upload, report, acknowledgement
  or maintenance action refers to a deleted host, and every row about another host is kept.
\<close>

theorem bulk_delete_removes_exactly:
  assumes "bulk_delete_hosts sv ds s = (Inr (), t)"
    and "\<forall>r \<in> set (current_reports (iv_db s)). \<forall>u \<in> set (uploads (iv_db s)).
      cr_upload r = up_pk u \<longrightarrow> cr_host r = up_host u"
  shows "\<exists>keys. keys_of_deletes sv ds = Inr keys \<and>
    (let gone = {hr_id h | h. h \<in> set (hosts (iv_db s)) \<and> Some (hr_org h, hr_id h) \<in> set keys} in
      advisor_hosts (iv_db t) = filter (\<lambda>r. Some (row_key r) \<notin> set keys) (advisor_hosts (iv_db s)) \<and>
      hosts (iv_db t) = filter (\<lambda>h. hr_id h \<notin> gone) (hosts (iv_db s)) \<and>
      uploads (iv_db t) = filter (\<lambda>u. up_host u \<notin> gone) (uploads (iv_db s)) \<and>
      current_reports (iv_db t) = filter (\<lambda>r. cr_host r \<notin> gone) (current_reports (iv_db s)) \<and>
      host_acks (iv_db t) = filter (\<lambda>(_, h). h \<notin> gone) (host_acks (iv_db s)) \<and>
      sat_actions (iv_db t) = filter (\<lambda>(_, h). h \<notin> gone) (sat_actions (iv_db s)))"
proof -
  obtain keys where k: "keys_of_deletes sv ds = Inr keys" "iv_db t = db_deleted (set keys) (iv_db s)"
    using bulk_delete_result [OF assms(1)] by blast
  let ?db = "iv_db s"
  let ?ids = "map hr_id (filter (\<lambda>h. Some (hr_org h, hr_id h) \<in> set keys) (hosts ?db))"
  have gone: "{hr_id h | h. h \<in> set (hosts ?db) \<and> Some (hr_org h, hr_id h) \<in> set keys} = set ?ids"
    by auto
  have reports: "filter (\<lambda>r. cr_host r \<notin> set ids)
      (filter (\<lambda>r. cr_upload r \<notin> set (map up_pk (filter (\<lambda>u. up_host u \<in> set ids) (uploads ?db)))) (current_reports ?db))
      = filter (\<lambda>r. cr_host r \<notin> set ids) (current_reports ?db)" for ids
  proof (unfold filter_filter, rule filter_cong [OF refl], rule iffI)
    fix r assume r: "r \<in> set (current_reports ?db)" and h: "cr_host r \<notin> set ids"
    then have "up_host u \<notin> set ids" if "u \<in> set (uploads ?db)" "up_pk u = cr_upload r" for u
      using assms(2) that by metis
    with h show "cr_upload r \<notin> set (map up_pk (filter (\<lambda>u. up_host u \<in> set ids) (uploads ?db))) \<and> cr_host r \<notin> set ids"
      by (auto simp: image_iff)
  qed simp
  show ?thesis
  proof (intro exI [of _ keys] conjI k(1), unfold Let_def gone, cases "?ids = []")
    case True
    then show "advisor_hosts (iv_db t) = filter (\<lambda>r. Some (row_key r) \<notin> set keys) (advisor_hosts ?db) \<and>
      hosts (iv_db t) = filter (\<lambda>h. hr_id h \<notin> set ?ids) (hosts ?db) \<and>
      uploads (iv_db t) = filter (\<lambda>u. up_host u \<notin> set ?ids) (uploads ?db) \<and>
      current_reports (iv_db t) = filter (\<lambda>r. cr_host r \<notin> set ?ids) (current_reports ?db) \<and>
      host_acks (iv_db t) = filter (\<lambda>(_, h). h \<notin> set ?ids) (host_acks ?db) \<and>
      sat_actions (iv_db t) = filter (\<lambda>(_, h). h \<notin> set ?ids) (sat_actions ?db)"
      unfolding k(2) db_deleted_def Let_def True by simp
  next
    case False
    then show "advisor_hosts (iv_db t) = filter (\<lambda>r. Some (row_key r) \<notin> set keys) (advisor_hosts ?db) \<and>
      hosts (iv_db t) = filter (\<lambda>h. hr_id h \<notin> set ?ids) (hosts ?db) \<and>
      uploads (iv_db t) = filter (\<lambda>u. up_host u \<notin> set ?ids) (uploads ?db) \<and>
      current_reports (iv_db t) = filter (\<lambda>r. cr_host r \<notin> set ?ids) (current_reports ?db) \<and>
      host_acks (iv_db t) = filter (\<lambda>(_, h). h \<notin> set ?ids) (host_acks ?db) \<and>
      sat_actions (iv_db t) = filter (\<lambda>(_, h). h \<notin> set ?ids) (sat_actions ?db)"
      unfolding k(2) db_deleted_def Let_def if_not_P [OF False]
      using reports [of ?ids]
      by (simp add: delete_hosts_tables)
  qed
qed

lemma keep_fresh_raises:
  "x \<in> set xs \<Longrightarrow> is_fresh sv ts x = Inl e \<Longrightarrow> \<exists>e'. keep_fresh sv ts xs = Inl e'"
proof (induction xs)
  case (Cons y ys)
  then show ?case
    by (cases "is_fresh sv ts y"; cases "keep_fresh sv ts ys") auto
qed simp

text \<open>
  One event can block its batch.  When a batch without deletions holds an event for a known host
  whose \<open>updated\<close> is not a date with a zone, handling the batch raises, after every message was
  parsed and before anything is written; the dispatcher then stops without committing, and meets the
  same batch again when it restarts.  A message that lacks a field, in contrast, is skipped.
\<close>

theorem bad_date_blocks_batch:
  assumes "parse_batch ms \<lparr>ba_upserts = [], ba_deletes = []\<rparr> s = (Inr acc, s1)" "ba_deletes acc = []"
    and "dedupe (ba_upserts acc) [] = Inr unique" "x \<in> set unique"
    and "\<forall>y \<in> set unique. canonical sv y" "keys_unique (iv_db s)"
    and "r \<in> set (advisor_hosts (iv_db s))" "row_key r = host_key x" "is_parse sv (ph_updated x) = Inr None"
  shows "\<exists>e. handle_inventory_event sv ms s = (Inl e, s1) \<and> iv_db s1 = iv_db s"
proof -
  have s1: "iv_db s1 = iv_db s"
    using db_fixed_parse_batch [of ms "\<lparr>ba_upserts = [], ba_deletes = []\<rparr>"] assms(1)
    by (metis db_fixed_def snd_conv)
  let ?rows = "advisor_hosts (iv_db s)"
  let ?ts = "map (\<lambda>r. (row_key r, ir_updated r)) (filter (\<lambda>r. row_key r \<in> host_key ` set unique) ?rows)"
  have "distinct (map row_key ?rows)" using assms(6) by (simp add: keys_unique_def)
  then have "stored_time ?ts x = Some (ir_updated r)"
    using assms(4,5,7,8) by (intro stored_time_row) auto
  then have "is_fresh sv ?ts x = Inl TypeError" by (simp add: is_fresh_def assms(9))
  then obtain e where "keep_fresh sv ?ts unique = Inl e"
    using keep_fresh_raises [OF assms(4)] by blast
  then have f: "\<exists>e. filter_stale_events sv ?rows (ba_upserts acc) = Inl e"
    using assms(4) by (auto simp: filter_stale_events_def assms(3) canonical_keys [OF assms(5)])
  have "ba_upserts acc \<noteq> []" using assms(3,4) by auto
  with f show ?thesis
    unfolding handle_after_parse [OF assms(1)] using assms(2) s1
    by (auto simp: a_then_app upsert_fresh_def a_bind_app)
qed

lemma parse_created_step:
  assumes "c = JObj cd" "map_of cd ''type'' = Some (JStr ''created'')"
    and "parse_created_event c = a_ret (Some (Parsed_host h))"
  shows "parse_or_skip c acc = a_ret (acc\<lparr>ba_upserts := ba_upserts acc @ [h]\<rparr>)"
  using assms by (intro ext)
    (simp add: parse_or_skip_def parse_message_def dict_has_def a_catch_app a_bind_app)

lemma parse_delete_step:
  assumes "c = JObj cd" "map_of cd ''type'' = Some (JStr ''delete'')"
    and "parse_deleted_event c = a_ret (Some d)"
  shows "parse_or_skip c acc = a_ret (acc\<lparr>ba_deletes := ba_deletes acc @ [d]\<rparr>)"
  using assms by (intro ext)
    (simp add: parse_or_skip_def parse_message_def dict_has_def a_catch_app a_bind_app)

lemma absent_host_is_fresh:
  assumes "canonical sv h" "host_key h \<notin> row_key ` set rows"
  shows "filter_stale_events sv rows [h] = Inr [h]"
proof -
  obtain org i where k: "ph_org_id h = JStr org" "ph_host_id h = JStr i"
    using assms(1) by (rule canonicalE)
  have "\<forall>x \<in> set [h]. canonical sv x" using assms(1) by simp
  from canonical_keys [OF this, of rows] stored_time_absent [OF assms] show ?thesis
    by (simp add: filter_stale_events_def k hashable_def is_fresh_def)
qed

text \<open>
  Within a batch deletions come first.  A batch that creates a host and then deletes it leaves
  the same tables as the batch in the other order: the host is there, although the last event was its
  deletion.
\<close>

theorem delete_after_create_is_lost:
  assumes c: "c = JObj cd" "map_of cd ''type'' = Some (JStr ''created'')"
      "parse_created_event c = a_ret (Some (Parsed_host h))"
    and d: "d = JObj dd" "map_of dd ''type'' = Some (JStr ''delete'')"
      "parse_deleted_event d = a_ret (Some del)"
    and k: "canonical sv h" "query_key sv (pd_org_id del) (pd_inventory_id del) = Inr (Some (host_key h))"
    and r: "handle_inventory_event sv [c, d] s = (Inr (), t)"
  shows "handle_inventory_event sv [d, c] s = (Inr (), t) \<and>
    host_key h \<in> row_key ` set (advisor_hosts (iv_db t))"
proof
  have cd: "parse_batch [c, d] \<lparr>ba_upserts = [], ba_deletes = []\<rparr> s = (Inr \<lparr>ba_upserts = [h], ba_deletes = [del]\<rparr>, s)"
    and dc: "parse_batch [d, c] \<lparr>ba_upserts = [], ba_deletes = []\<rparr> s = (Inr \<lparr>ba_upserts = [h], ba_deletes = [del]\<rparr>, s)"
    by (simp_all add: a_bind_app parse_created_step [OF c] parse_delete_step [OF d])
  show "handle_inventory_event sv [d, c] s = (Inr (), t)"
    using r unfolding handle_after_parse [OF cd] handle_after_parse [OF dc] .
  obtain u where u: "bulk_delete_hosts sv [del] s = (Inr (), u)" "upsert_fresh sv [h] u = (Inr (), t)"
    using r unfolding handle_after_parse [OF cd] by (auto simp: a_then_Inr)
  have "keys_of_deletes sv [del] = Inr [Some (host_key h)]" by (simp add: keys_of_deletes_def k(2))
  then have "advisor_hosts (iv_db u) = filter (\<lambda>r. row_key r \<noteq> host_key h) (advisor_hosts (iv_db s))"
    using bulk_delete_result [OF u(1)] by auto
  then have "filter_stale_events sv (advisor_hosts (iv_db u)) [h] = Inr [h]"
    by (intro absent_host_is_fresh k) auto
  then obtain rows where rows: "written_rows sv [h] = Inr rows"
    "advisor_hosts (iv_db t) = fold upsert_row rows (advisor_hosts (iv_db u))"
    using upsert_fresh_result [OF u(2)] by auto
  obtain row where "row \<in> set rows" "row_key row = host_key h"
    using written_row(2) [OF rows(1), of h] k(1) by auto
  with upsert_rows_in [of row rows "advisor_hosts (iv_db u)"] rows(2)
  show "host_key h \<in> row_key ` set (advisor_hosts (iv_db t))" by (metis imageI)
qed

section \<open>Witnesses\<close>

text \<open>
  Services that know two dates, a host of one organisation, its stored row and the events about it.
\<close>

definition sample_date :: "json \<Rightarrow> int option" where
  "sample_date j = (if j = JStr ''t1'' then Some 1 else if j = JStr ''t2'' then Some 2 else None)"

definition sample_inv_services :: inv_services where
  "sample_inv_services =
     \<lparr>is_parse = (\<lambda>j. Inr (sample_date j)), is_date = sample_date,
      is_uuid = (\<lambda>j. case j of JStr s \<Rightarrow> Some s | _ \<Rightarrow> None),
      is_org = (\<lambda>j. case j of JStr s \<Rightarrow> Some s | _ \<Rightarrow> None),
      is_row_ok = (\<lambda>h. True), is_broken = (\<lambda>n db. False)\<rparr>"

definition sample_host :: "string \<Rightarrow> (string \<times> json) list" where
  "sample_host updated =
     [(''id'', JStr ''h''), (''display_name'', JStr ''web''), (''org_id'', JStr ''o''), (''tags'', JList []),
      (''groups'', JList []), (''created'', JStr ''t1''), (''updated'', JStr updated),
      (''last_check_in'', JStr ''t1''), (''insights_id'', JStr ''i''), (''stale_timestamp'', JStr ''t2''),
      (''system_profile'', JObj []), (''reporter'', JStr ''puptoo''), (''per_reporter_staleness'', JObj [])]"

definition sample_created :: "string \<Rightarrow> json" where
  "sample_created updated = JObj [(''type'', JStr ''created''),
     (''metadata'', JObj [(''request_id'', JStr ''r'')]), (''host'', JObj (sample_host updated))]"

definition sample_delete :: json where
  "sample_delete = JObj [(''type'', JStr ''delete''), (''request_id'', JStr ''r''), (''id'', JStr ''h''), (''org_id'', JStr ''o'')]"

definition sample_parsed :: "string \<Rightarrow> parsed_host" where
  "sample_parsed updated = projr (parsed_host_of (get_if_dict (JObj (sample_host updated))))"

definition sample_inv_state :: inv_state where
  "sample_inv_state =
     \<lparr>iv_db = \<lparr>advisor_hosts = [\<lparr>ir_org = ''o'', ir_id = ''h'', ir_updated = 1, ir_last_check_in = 1,
          ir_stale_timestamp = 2, ir_host = sample_parsed ''t1''\<rparr>],
        hosts = [\<lparr>hr_id = ''h'', hr_org = ''o'', hr_account = JNull, hr_satellite_id = JNull, hr_branch_id = None\<rparr>],
        uploads = [\<lparr>up_pk = 1, up_host = ''h''\<rparr>], current_reports = [\<lparr>cr_pk = 1, cr_host = ''h'', cr_upload = 1\<rparr>],
        host_acks = [(1, ''h''), (2, ''k'')], sat_actions = []\<rparr>,
      iv_metrics = \<lparr>m_missing_keys = 0, m_malformed = 0, m_insights_only = 0, m_upserted = 0, m_deleted = 0,
        m_delete_missing = 0\<rparr>\<rparr>"

text \<open>
  Why the ids have to be in the database's spelling: the column reads the UUID in upper case as the
  stored one, while the filter looks for the text of the event.  The event, of an earlier date than
  the row, replaces it.
\<close>

definition upper_case_services :: inv_services where
  "upper_case_services = sample_inv_services
     \<lparr>is_uuid := (\<lambda>j. case j of JStr s \<Rightarrow> Some (if s = ''H'' then ''h'' else s) | _ \<Rightarrow> None)\<rparr>"

definition upper_case_event :: json where
  "upper_case_event = JObj [(''type'', JStr ''updated''), (''metadata'', JObj [(''request_id'', JStr ''r'')]),
     (''host'', JObj ((''id'', JStr ''H'') # filter (\<lambda>(k, v). k \<noteq> ''id'') (sample_host ''t1'')))]"

definition newer_row_state :: inv_state where
  "newer_row_state = sample_inv_state\<lparr>iv_db := (iv_db sample_inv_state)
     \<lparr>advisor_hosts := map (\<lambda>r. r\<lparr>ir_updated := 2\<rparr>) (advisor_hosts (iv_db sample_inv_state))\<rparr>\<rparr>"

lemma upper_case_id_overwrites_newer_row:
  "map (\<lambda>r. (row_key r, ir_updated r)) (advisor_hosts (iv_db newer_row_state)) = [((''o'', ''h''), 2)]"
  "case handle_inventory_event upper_case_services [upper_case_event] newer_row_state of (r, t) \<Rightarrow>
     r = Inr () \<and> map (\<lambda>r. (row_key r, ir_updated r)) (advisor_hosts (iv_db t)) = [((''o'', ''h''), 1)]"
  by code_simp+

definition no_events :: batch_acc where
  "no_events = \<lparr>ba_upserts = [], ba_deletes = []\<rparr>"

lemma sample_parse:
  "parse_batch [sample_created ''t2''] \<lparr>ba_upserts = [], ba_deletes = []\<rparr> sample_inv_state =
     (Inr \<lparr>ba_upserts = [sample_parsed ''t2''], ba_deletes = []\<rparr>, sample_inv_state)"
  "parse_batch [sample_created ''x''] \<lparr>ba_upserts = [], ba_deletes = []\<rparr> sample_inv_state =
     (Inr \<lparr>ba_upserts = [sample_parsed ''x''], ba_deletes = []\<rparr>, sample_inv_state)"
  by code_simp+

lemma sample_canonical:
  "canonical sample_inv_services (sample_parsed ''t2'')" "canonical sample_inv_services (sample_parsed ''x'')"
  "host_key (sample_parsed ''x'') = (''o'', ''h'')" "host_key (sample_parsed ''t2'') = (''o'', ''h'')"
  "dedupe [sample_parsed ''x''] [] = Inr [sample_parsed ''x'']"
  by code_simp+

lemma sample_unique: "keys_unique (iv_db sample_inv_state)" "dates_agree sample_inv_services"
  by (simp add: sample_inv_state_def keys_unique_def) (simp add: dates_agree_def sample_inv_services_def)

theorem stale_events_never_overwrite_witness:
  "\<exists>t. handle_inventory_event sample_inv_services [sample_created ''t2''] sample_inv_state = (Inr (), t) \<and>
     (\<exists>r' \<in> set (advisor_hosts (iv_db t)). row_key r' = (''o'', ''h'') \<and> 1 \<le> ir_updated r')"
proof -
  let ?h = "handle_inventory_event sample_inv_services [sample_created ''t2''] sample_inv_state"
  have "fst ?h = Inr ()" by code_simp
  then have h: "?h = (Inr (), snd ?h)" by (metis prod.collapse)
  define row where "row = hd (advisor_hosts (iv_db sample_inv_state))"
  have row: "row \<in> set (advisor_hosts (iv_db sample_inv_state))" "row_key row = (''o'', ''h'')" "ir_updated row = 1"
    by (simp_all add: row_def sample_inv_state_def row_key_def)
  have "\<forall>x \<in> set (ba_upserts \<lparr>ba_upserts = [sample_parsed ''t2''], ba_deletes = []\<rparr>). canonical sample_inv_services x"
    using sample_canonical(1) by simp
  from stale_events_never_overwrite [OF sample_parse(1) h sample_unique(1) this sample_unique(2), of "[]"] row(1)
  have "\<exists>r' \<in> set (advisor_hosts (iv_db (snd ?h))). row_key r' = row_key row \<and> (r' = row \<or> ir_updated row < ir_updated r')"
    by simp
  then obtain r' where "r' \<in> set (advisor_hosts (iv_db (snd ?h)))" "row_key r' = (''o'', ''h'')" "1 \<le> ir_updated r'"
    using row(2,3) by force
  with h show ?thesis by blast
qed

theorem bulk_delete_removes_exactly_witness:
  "\<exists>t. bulk_delete_hosts sample_inv_services [\<lparr>pd_inventory_id = JStr ''h'', pd_org_id = JStr ''o''\<rparr>] sample_inv_state = (Inr (), t) \<and>
     current_reports (iv_db t) = [] \<and> host_acks (iv_db t) = [(2, ''k'')]"
proof -
  let ?ds = "[\<lparr>pd_inventory_id = JStr ''h'', pd_org_id = JStr ''o''\<rparr>]"
  let ?h = "bulk_delete_hosts sample_inv_services ?ds sample_inv_state"
  have "fst ?h = Inr ()" by code_simp
  then have h: "?h = (Inr (), snd ?h)" by (metis prod.collapse)
  have k: "keys_of_deletes sample_inv_services ?ds = Inr [Some (''o'', ''h'')]" by code_simp
  have "\<forall>r \<in> set (current_reports (iv_db sample_inv_state)). \<forall>u \<in> set (uploads (iv_db sample_inv_state)).
      cr_upload r = up_pk u \<longrightarrow> cr_host r = up_host u"
    by (simp add: sample_inv_state_def)
  from bulk_delete_removes_exactly [OF h this] k
  have "current_reports (iv_db (snd ?h)) = [] \<and> host_acks (iv_db (snd ?h)) = [(2, ''k'')]"
    by (simp add: sample_inv_state_def Let_def)
  with h show ?thesis by blast
qed

theorem bad_date_blocks_batch_witness:
  "\<exists>e. handle_inventory_event sample_inv_services [sample_created ''x''] sample_inv_state = (Inl e, sample_inv_state)"
proof -
  have p: "is_parse sample_inv_services (ph_updated (sample_parsed ''x'')) = Inr None" by code_simp
  have r: "hd (advisor_hosts (iv_db sample_inv_state)) \<in> set (advisor_hosts (iv_db sample_inv_state))"
    "row_key (hd (advisor_hosts (iv_db sample_inv_state))) = host_key (sample_parsed ''x'')"
    by (simp_all add: sample_inv_state_def row_key_def sample_canonical(3))
  have d: "dedupe (ba_upserts \<lparr>ba_upserts = [sample_parsed ''x''], ba_deletes = []\<rparr>) [] = Inr [sample_parsed ''x'']"
    "ba_deletes \<lparr>ba_upserts = [sample_parsed ''x''], ba_deletes = []\<rparr> = []"
    by (simp_all add: sample_canonical(5) del: dedupe.simps)
  from bad_date_blocks_batch [OF sample_parse(2) d(2,1) _ _ sample_unique(1) r p] sample_canonical(2)
  show ?thesis by auto
qed

theorem delete_after_create_is_lost_witness:
  "\<exists>t. handle_inventory_event sample_inv_services [sample_delete, sample_created ''t2''] sample_inv_state = (Inr (), t) \<and>
     (''o'', ''h'') \<in> row_key ` set (advisor_hosts (iv_db t))"
proof -
  let ?h = "handle_inventory_event sample_inv_services [sample_created ''t2'', sample_delete] sample_inv_state"
  have "fst ?h = Inr ()" by code_simp
  then have h: "?h = (Inr (), snd ?h)" by (metis prod.collapse)
  have c: "parse_created_event (sample_created ''t2'') = a_ret (Some (Parsed_host (sample_parsed ''t2'')))"
  proof -
    have "required_fields (sample_created ''t2'') = Inr (get_if_dict (JObj (sample_host ''t2'')))"
      by (simp add: required_fields_def sample_created_def sample_host_def)
    moreover have "parsed_host_of (get_if_dict (JObj (sample_host ''t2''))) = Inr (sample_parsed ''t2'')"
      by code_simp
    ultimately show ?thesis
      by (simp add: parse_created_event_def sample_created_def event_host_data_def py_or_def)
         (simp add: get_if_dict_def sample_host_def nil_uuid_def a_ret_def)
  qed
  have d: "parse_deleted_event sample_delete = a_ret (Some \<lparr>pd_inventory_id = JStr ''h'', pd_org_id = JStr ''o''\<rparr>)"
    by (simp add: parse_deleted_event_def sample_delete_def)
  have q: "query_key sample_inv_services (pd_org_id \<lparr>pd_inventory_id = JStr ''h'', pd_org_id = JStr ''o''\<rparr>)
      (pd_inventory_id \<lparr>pd_inventory_id = JStr ''h'', pd_org_id = JStr ''o''\<rparr>) = Inr (Some (host_key (sample_parsed ''t2'')))"
    unfolding sample_canonical(4) by code_simp
  from delete_after_create_is_lost [OF sample_created_def _ c sample_delete_def _ d sample_canonical(1) q h]
  show ?thesis by (simp add: sample_canonical(4))
qed

end
