(* ===== verification/Engine_Reports.thy ===== *)
theory Engine_Reports
  imports Py_Values
begin

text \<open>
  The report store of the engine-results service: \<open>create_db_reports\<close> of
  \<open>service/service.py\<close> with the hooks of \<open>service/reports.py\<close>, the status messages of
  \<open>service/payload_tracker.py\<close>, the counts and events of \<open>service/inventory_view.py\<close> and
  the per-thread values of \<open>service/thread_storage.py\<close>.  Tables are lists of rows; the values
  in thread storage that only hold times are left out.
\<close>

section \<open>Tables\<close>

record eng_rule =
  ru_pk :: nat
  ru_rule_id :: string
  ru_active :: bool
  ru_total_risk :: int
  ru_description :: string
  ru_publish_date :: "string option"
  ru_reboot_required :: bool
  ru_tags :: "string list"

definition has_incident :: "eng_rule \<Rightarrow> bool" where
  "has_incident r = (''incident'' \<in> set (ru_tags r))"

record eng_host =
  eh_id :: string
  eh_org :: string
  eh_account :: json
  eh_satellite_id :: "string option"
  eh_branch_id :: "string option"

record eng_upload =
  eu_pk :: nat
  eu_host :: string
  eu_org :: string
  eu_source :: string
  eu_account :: json
  eu_checked_on :: int
  eu_is_satellite :: bool
  eu_system_type :: nat
  eu_current :: bool

record eng_report =
  er_rule :: nat
  er_host :: string
  er_org :: string
  er_account :: json
  er_upload :: nat
  er_details :: json
  er_impacted :: "int option"

record eng_ack =
  ak_rule :: nat
  ak_org :: string
  ak_account :: json

record eng_hostack =
  hk_rule :: nat
  hk_org :: string
  hk_host :: string
  hk_account :: json

record eng_inv_host =
  ei_id :: string
  ei_org :: string
  ei_account :: json
  ei_display_name :: string
  ei_rhel_version :: string
  ei_tags :: json

record eng_db =
  e_rules :: "eng_rule list"
  e_system_types :: "(nat \<times> string \<times> string) list"
  e_sources :: "string list"
  e_hosts :: "eng_host list"
  e_uploads :: "eng_upload list"
  e_reports :: "eng_report list"
  e_acks :: "eng_ack list"
  e_hostacks :: "eng_hostack list"
  e_inventory :: "eng_inv_host list"

section \<open>What the service sends\<close>

record report_event =
  ev_rule_id :: string
  ev_description :: string
  ev_total_risk :: string
  ev_publish_date :: string
  ev_rule_url :: string
  ev_reboot_required :: bool
  ev_has_incident :: bool

record view_counts =
  vc_incidents :: nat
  vc_critical :: nat
  vc_important :: nat
  vc_moderate :: nat
  vc_low :: nat

datatype sent =
    Tracker json
  | Webhook string eng_inv_host "report_event list"
  | Remediation string "string list"
  | View_event json json string nat view_counts

record eng_state =
  en_db :: eng_db
  en_storage :: "(string \<times> json) list"
  en_sent :: "sent list"
  en_db_errors :: nat

record eng_settings =
  es_filter_non_rhel :: bool
  es_non_rhel_ids :: "string list"
  es_filter_rhel6 :: bool
  es_rhel6_ids :: "string list"
  es_autoack_tag :: string
  es_app_name :: string
  es_url_prefix :: string
  es_webhooks :: bool
  es_remediations :: bool
  es_view :: bool
  es_tracker :: bool
  es_db_retries :: nat
  es_engine_topic :: string
  es_hits_topic :: string
  es_inventory_topic :: string

text \<open>
  The environment: the column conversions of a UUID and an org id, the clock, the statements that
  fail (by name, attempt and database), the topics that take a message, the text of a value that is
  no scalar, the decoding of bytes as UTF-8 and as escapes, and \<open>json.loads\<close>.
\<close>

record eng_services =
  eg_uuid :: "json \<Rightarrow> string option"
  eg_org :: "json \<Rightarrow> string option"
  eg_now :: int
  eg_date :: string
  eg_broken :: "string \<Rightarrow> nat \<Rightarrow> eng_db \<Rightarrow> bool"
  eg_sends :: "string \<Rightarrow> bool"
  eg_str :: "json \<Rightarrow> string"
  eg_decode :: "string \<Rightarrow> string option"
  eg_unescape :: "string \<Rightarrow> string option"
  eg_loads :: "string \<Rightarrow> json option"

section \<open>Thread storage and status messages\<close>

definition set_value :: "string \<Rightarrow> json \<Rightarrow> (eng_state, unit) act" where
  "set_value name v = a_upd (\<lambda>s. s\<lparr>en_storage := dict_set name v (en_storage s)\<rparr>)"

definition get_value :: "string \<Rightarrow> eng_state \<Rightarrow> json" where
  "get_value name s = (case map_of (en_storage s) name of None \<Rightarrow> JNull | Some v \<Rightarrow> v)"

definition clean_threading_cruft :: "(eng_state, unit) act" where
  "clean_threading_cruft = a_upd (\<lambda>s. s\<lparr>en_storage := []\<rparr>)"

definition send :: "sent \<Rightarrow> (eng_state, unit) act" where
  "send m = a_upd (\<lambda>s. s\<lparr>en_sent := en_sent s @ [m]\<rparr>)"

definition thread_keys :: "string list" where
  "thread_keys = [''request_id'', ''inventory_id'', ''system_id'', ''source'', ''account'', ''org_id'']"

definition status_message ::
  "eng_services \<Rightarrow> eng_settings \<Rightarrow> string \<Rightarrow> string \<Rightarrow> (string \<times> json) list \<Rightarrow> eng_state \<Rightarrow> json" where
  "status_message sv st status msg info s =
     (let base = [(''service'', JStr (es_app_name st)), (''status'', JStr status), (''status_msg'', JStr msg)];
          items = (if info \<noteq> [] then info
                   else map (\<lambda>k. (k, get_value k s)) (filter (\<lambda>k. truthy (get_value k s)) thread_keys))
      in JObj (dict_set ''date'' (JStr (eg_date sv)) (fold (\<lambda>(k, v). dict_set k v) items base)))"

definition payload_status ::
  "eng_services \<Rightarrow> eng_settings \<Rightarrow> string \<Rightarrow> string \<Rightarrow> (string \<times> json) list \<Rightarrow> (eng_state, unit) act" where
  "payload_status sv st status msg info =
     a_bind (a_get (status_message sv st status msg info)) (\<lambda>m.
       if es_tracker st \<and> eg_sends sv ''payload-tracker'' then send (Tracker m) else a_ret ())"

definition get_if :: "(string \<times> json) list \<Rightarrow> string \<Rightarrow> json" where
  "get_if d k = (case map_of d k of None \<Rightarrow> JNull | Some v \<Rightarrow> v)"

text \<open>
  \<open>bad_payload\<close>: a value without \<open>decode\<close> (a dictionary) raises, and every exception
  is only logged; bytes are parsed by the parameter and reported when they hold a request id.
\<close>

definition bad_payload ::
  "eng_services \<Rightarrow> eng_settings \<Rightarrow> string \<Rightarrow> json option \<Rightarrow> string \<Rightarrow> (eng_state, unit) act" where
  "bad_payload sv st source parsed status_msg =
     (case parsed of
        Some (JObj d) \<Rightarrow>
          if es_tracker st \<and> truthy (get_if d ''request_id'') \<and> eg_sends sv ''payload-tracker'' then
            send (Tracker (JObj
              [(''status'', JStr ''error''), (''service'', JStr (es_app_name st)), (''source'', JStr source),
               (''account'', get_if d ''account''), (''org_id'', get_if d ''org_id''),
               (''inventory_id'', get_if d ''id''), (''request_id'', get_if d ''request_id''),
               (''status_msg'', JStr status_msg), (''date'', JStr (eg_date sv))]))
          else a_ret ()
      | _ \<Rightarrow> a_ret ())"

section \<open>Inventory view\<close>

text \<open>\<open>_rule_risks[i]\<close>, a Python list of five: a negative index counts from the end.\<close>

definition rule_risk :: "int \<Rightarrow> string option py" where
  "rule_risk i =
     (let risks = [None, Some ''low'', Some ''moderate'', Some ''important'', Some ''critical''] in
      if 0 \<le> i \<and> i < 5 then Inr (risks ! nat i)
      else if -5 \<le> i \<and> i < 0 then Inr (risks ! nat (i + 5))
      else Inl IndexError)"

definition no_counts :: view_counts where
  "no_counts = \<lparr>vc_incidents = 0, vc_critical = 0, vc_important = 0, vc_moderate = 0, vc_low = 0\<rparr>"

definition count_severity :: "string \<Rightarrow> view_counts \<Rightarrow> view_counts" where
  "count_severity k c =
     (if k = ''critical'' then c\<lparr>vc_critical := vc_critical c + 1\<rparr>
      else if k = ''important'' then c\<lparr>vc_important := vc_important c + 1\<rparr>
      else if k = ''moderate'' then c\<lparr>vc_moderate := vc_moderate c + 1\<rparr>
      else c\<lparr>vc_low := vc_low c + 1\<rparr>)"

definition update_inventory_view_counts :: "view_counts \<Rightarrow> eng_rule \<Rightarrow> view_counts py" where
  "update_inventory_view_counts c rule =
     (let c1 = (if has_incident rule then c\<lparr>vc_incidents := vc_incidents c + 1\<rparr> else c) in
      py_bind (rule_risk (ru_total_risk rule)) (\<lambda>sev.
        Inr (case sev of None \<Rightarrow> c1 | Some k \<Rightarrow> count_severity k c1)))"

text \<open>\<open>bytes(request_id, "utf-8")\<close> raises for a value that is no string; the exception is logged.\<close>

definition send_inventory_view_event ::
  "eng_services \<Rightarrow> eng_settings \<Rightarrow> json \<Rightarrow> json \<Rightarrow> string \<Rightarrow> nat \<Rightarrow> view_counts \<Rightarrow> (eng_state, unit) act" where
  "send_inventory_view_event sv st request_id org_id host_id recommendations counts =
     (if es_view st \<and> is_str request_id \<and> eg_sends sv ''inventory-view''
      then send (View_event request_id org_id host_id recommendations counts) else a_ret ())"

section \<open>Report hooks\<close>

text \<open>\<open>make_event_struct\<close>: a rule without a publish date has no \<open>isoformat\<close>.\<close>

definition make_event_struct :: "eng_settings \<Rightarrow> eng_rule \<Rightarrow> report_event py" where
  "make_event_struct st r =
     (case ru_publish_date r of
        None \<Rightarrow> Inl AttributeError
      | Some d \<Rightarrow> Inr
          \<lparr>ev_rule_id = ru_rule_id r, ev_description = ru_description r,
           ev_total_risk = str_of_int (ru_total_risk r), ev_publish_date = d,
           ev_rule_url = es_url_prefix st @ ''/'' @ ru_rule_id r @ ''/'',
           ev_reboot_required = ru_reboot_required r, ev_has_incident = has_incident r\<rparr>)"

text \<open>A current report of the host as the code reads it, joined with its rule.\<close>

record db_report =
  dv_rule :: eng_rule
  dv_impacted :: "int option"

definition hook_acks :: "eng_db \<Rightarrow> eng_inv_host \<Rightarrow> nat list" where
  "hook_acks db h =
     map ak_rule (filter (\<lambda>a. ak_account a = ei_account h) (e_acks db)) @
     map hk_rule (filter (\<lambda>a. hk_account a = ei_account h \<and> hk_host a = ei_id h) (e_hostacks db))"

definition new_report_list :: "nat list \<Rightarrow> db_report list \<Rightarrow> eng_rule list \<Rightarrow> eng_rule list" where
  "new_report_list acked db_reports reports =
     filter (\<lambda>r. ru_pk r \<notin> set (map (\<lambda>x. ru_pk (dv_rule x)) db_reports) \<and> ru_active r \<and>
                 ru_pk r \<notin> set acked) reports"

definition resolved_report_list :: "nat list \<Rightarrow> db_report list \<Rightarrow> eng_rule list \<Rightarrow> eng_rule list" where
  "resolved_report_list acked db_reports reports =
     filter (\<lambda>r. ru_pk r \<notin> set (map ru_pk reports) \<and> ru_active r \<and> ru_pk r \<notin> set acked)
       (map dv_rule db_reports)"

text \<open>A webhook that cannot be sent is only reported to the payload tracker.\<close>

definition host_info :: "eng_inv_host \<Rightarrow> (string \<times> json) list" where
  "host_info h = [(''inventory_id'', JStr (ei_id h)), (''account'', ei_account h), (''org_id'', JStr (ei_org h))]"

definition send_or_report ::
  "eng_services \<Rightarrow> eng_settings \<Rightarrow> bool \<Rightarrow> string \<Rightarrow> eng_inv_host \<Rightarrow> sent \<Rightarrow> (eng_state, unit) act" where
  "send_or_report sv st on topic h m =
     (if \<not> on then a_ret ()
      else if eg_sends sv topic then send m
      else payload_status sv st ''error'' ''traceback'' (host_info h))"

definition send_webhook ::
  "eng_services \<Rightarrow> eng_settings \<Rightarrow> eng_inv_host \<Rightarrow> string \<Rightarrow> eng_rule list \<Rightarrow> (eng_state, unit) act" where
  "send_webhook sv st h event_type rules =
     (if rules = [] then a_ret ()
      else a_bind (a_lift (py_mapM (make_event_struct st) rules)) (\<lambda>events.
             send_or_report sv st (es_webhooks st) ''webhooks'' h (Webhook event_type h events)))"

definition trigger_report_hooks ::
  "eng_services \<Rightarrow> eng_settings \<Rightarrow> eng_inv_host \<Rightarrow> eng_rule list \<Rightarrow> db_report list \<Rightarrow> (eng_state, unit) act" where
  "trigger_report_hooks sv st h reports db_reports =
     a_bind (a_get (\<lambda>s. hook_acks (en_db s) h)) (\<lambda>acked.
     a_then (send_webhook sv st h ''new-recommendation'' (new_report_list acked db_reports reports))
    (a_then (send_webhook sv st h ''resolved-recommendation'' (resolved_report_list acked db_reports reports))
     (if reports = [] then a_ret ()
      else send_or_report sv st (es_remediations st) ''remediations'' h
             (Remediation (ei_id h) (map (\<lambda>r. ''advisor:'' @ ru_rule_id r) reports)))))"

section \<open>The host of an upload\<close>

text \<open>A statement of the database, at its first or at a later attempt.\<close>

definition eng_attempt :: "eng_services \<Rightarrow> string \<Rightarrow> nat \<Rightarrow> (eng_db \<Rightarrow> eng_db) \<Rightarrow> (eng_state, unit) act" where
  "eng_attempt sv name i f = (\<lambda>s.
     if eg_broken sv name i (en_db s) then (Inl DbError, s) else (Inr (), s\<lparr>en_db := f (en_db s)\<rparr>))"

definition eng_statement :: "eng_services \<Rightarrow> string \<Rightarrow> (eng_db \<Rightarrow> eng_db) \<Rightarrow> (eng_state, unit) act" where
  "eng_statement sv name f = eng_attempt sv name 0 f"

definition query :: "eng_services \<Rightarrow> string \<Rightarrow> (eng_db \<Rightarrow> 'a) \<Rightarrow> (eng_state, 'a) act" where
  "query sv name f = a_then (eng_statement sv name (\<lambda>db. db)) (a_get (\<lambda>s. f (en_db s)))"

text \<open>A null key matches no row; a text that is no UUID raises.\<close>

definition uuid_key :: "eng_services \<Rightarrow> json \<Rightarrow> string option py" where
  "uuid_key sv v =
     (if v = JNull then Inr None
      else case eg_uuid sv v of None \<Rightarrow> Inl ValidationError | Some u \<Rightarrow> Inr (Some u))"

definition required :: "string option \<Rightarrow> (eng_state, string) act" where
  "required k = (case k of None \<Rightarrow> a_raise IntegrityError | Some x \<Rightarrow> a_ret x)"

text \<open>
  \<open>update_host\<close> for one UUID field: a falsy value leaves it, another is set, and converted when
  the host is saved.
\<close>

definition update_field :: "eng_services \<Rightarrow> json \<Rightarrow> string option \<Rightarrow> string option py" where
  "update_field sv v old =
     (if \<not> truthy v then Inr old
      else case eg_uuid sv v of None \<Rightarrow> Inl ValidationError | Some u \<Rightarrow> Inr (Some u))"

definition update_host :: "eng_services \<Rightarrow> json \<Rightarrow> json \<Rightarrow> eng_host \<Rightarrow> eng_host py" where
  "update_host sv satellite_id branch_id h =
     py_bind (update_field sv satellite_id (eh_satellite_id h)) (\<lambda>sat.
     py_bind (update_field sv branch_id (eh_branch_id h)) (\<lambda>br.
       Inr (h\<lparr>eh_satellite_id := sat, eh_branch_id := br\<rparr>)))"

text \<open>
  The rules acknowledged for a new organisation: \<open>ack__isnull=True\<close> is the join with
  acknowledgements of any organisation.
\<close>

definition autoack_rules :: "eng_settings \<Rightarrow> eng_db \<Rightarrow> eng_rule list" where
  "autoack_rules st db =
     filter (\<lambda>r. es_autoack_tag st \<in> set (ru_tags r) \<and> ru_pk r \<notin> set (map ak_rule (e_acks db))) (e_rules db)"

definition has_current_upload :: "string option \<Rightarrow> eng_db \<Rightarrow> bool" where
  "has_current_upload org db \<longleftrightarrow> list_ex (\<lambda>u. Some (eu_org u) = org \<and> eu_current u) (e_uploads db)"

definition create_autoacks ::
  "eng_services \<Rightarrow> eng_settings \<Rightarrow> string option \<Rightarrow> json \<Rightarrow> (eng_state, unit) act" where
  "create_autoacks sv st org account =
     a_bind (query sv ''select autoack rules'' (autoack_rules st)) (\<lambda>rules.
       if rules = [] then a_ret ()
       else a_bind (required org) (\<lambda>o'.
         eng_statement sv ''insert acks'' (\<lambda>db. db\<lparr>e_acks := e_acks db @
           map (\<lambda>r. \<lparr>ak_rule = ru_pk r, ak_org = o', ak_account = account\<rparr>) rules\<rparr>)))"

definition create_host ::
  "eng_services \<Rightarrow> eng_settings \<Rightarrow> string option \<Rightarrow> json \<Rightarrow> string option \<Rightarrow> json \<Rightarrow> json \<Rightarrow> (eng_state, unit) act" where
  "create_host sv st key account org satellite_id branch_id =
     a_bind (query sv ''select upload'' (has_current_upload org)) (\<lambda>known.
     a_then (if known then a_ret () else create_autoacks sv st org account)
    (a_bind (required key) (\<lambda>k.
     a_bind (required org) (\<lambda>o'.
     a_bind (a_lift (update_host sv satellite_id branch_id
        \<lparr>eh_id = k, eh_org = o', eh_account = account, eh_satellite_id = None, eh_branch_id = None\<rparr>)) (\<lambda>h.
       eng_statement sv ''insert host'' (\<lambda>db. db\<lparr>e_hosts := e_hosts db @ [h]\<rparr>))))))"

definition save_host :: "eng_host \<Rightarrow> eng_db \<Rightarrow> eng_db" where
  "save_host h db = db\<lparr>e_hosts := map (\<lambda>x. if eh_id x = eh_id h then h else x) (e_hosts db)\<rparr>"

definition ensure_host ::
  "eng_services \<Rightarrow> eng_settings \<Rightarrow> json \<Rightarrow> json \<Rightarrow> json \<Rightarrow> json \<Rightarrow> json \<Rightarrow> (eng_state, unit) act" where
  "ensure_host sv st uuid account org_id satellite_id branch_id =
     a_bind (a_lift (uuid_key sv uuid)) (\<lambda>key.
     a_bind (query sv ''select host'' (\<lambda>db. find (\<lambda>h. Some (eh_id h) = key) (e_hosts db))) (\<lambda>found.
       case found of
         None \<Rightarrow> create_host sv st key account (eg_org sv org_id) satellite_id branch_id
       | Some h \<Rightarrow>
           a_bind (a_lift (update_host sv satellite_id branch_id h)) (\<lambda>h'.
             if truthy satellite_id \<or> truthy branch_id then eng_statement sv ''update host'' (save_host h')
             else a_ret ())))"

section \<open>The reports of an upload\<close>

text \<open>The database orders rows by the text of their rule id.\<close>

fun insert_by :: "('a \<Rightarrow> string) \<Rightarrow> 'a \<Rightarrow> 'a list \<Rightarrow> 'a list" where
  "insert_by f x [] = [x]"
| "insert_by f x (y # ys) = (if str_less (f y) (f x) then y # insert_by f x ys else x # y # ys)"

definition order_by :: "('a \<Rightarrow> string) \<Rightarrow> 'a list \<Rightarrow> 'a list" where
  "order_by f xs = foldr (insert_by f) xs []"

definition rule_of_pk :: "eng_db \<Rightarrow> nat \<Rightarrow> eng_rule option" where
  "rule_of_pk db pk = find (\<lambda>r. ru_pk r = pk) (e_rules db)"

text \<open>\<open>db_report_values\<close>: the current reports of the host, with their rules.\<close>

definition db_report_values :: "string option \<Rightarrow> string option \<Rightarrow> eng_db \<Rightarrow> db_report list" where
  "db_report_values key org db =
     order_by (\<lambda>d. ru_rule_id (dv_rule d))
       (List.map_filter (\<lambda>r. map_option (\<lambda>rule. \<lparr>dv_rule = rule, dv_impacted = er_impacted r\<rparr>) (rule_of_pk db (er_rule r)))
         (filter (\<lambda>r. Some (er_host r) = key \<and> Some (er_org r) = org) (e_reports db)))"

definition refresh_upload :: "eng_services \<Rightarrow> nat \<Rightarrow> json \<Rightarrow> bool \<Rightarrow> nat \<Rightarrow> eng_db \<Rightarrow> eng_db" where
  "refresh_upload sv pk account is_satellite system_type db =
     db\<lparr>e_uploads := map (\<lambda>x. if eu_pk x = pk
          then x\<lparr>eu_account := account, eu_checked_on := eg_now sv, eu_is_satellite := is_satellite,
                 eu_system_type := system_type\<rparr> else x) (e_uploads db)\<rparr>"

definition next_upload_pk :: "eng_db \<Rightarrow> nat" where
  "next_upload_pk db = Suc (fold max (map eu_pk (e_uploads db)) 0)"

definition has_current :: "string \<Rightarrow> string \<Rightarrow> eng_db \<Rightarrow> bool" where
  "has_current key source db \<longleftrightarrow>
     list_ex (\<lambda>x. eu_host x = key \<and> eu_source x = source \<and> eu_current x) (e_uploads db)"

definition add_upload :: "eng_upload \<Rightarrow> eng_db \<Rightarrow> eng_db" where
  "add_upload u db = db\<lparr>e_uploads := e_uploads db @ [u]\<rparr>"

definition save_upload ::
  "eng_services \<Rightarrow> string \<Rightarrow> string \<Rightarrow> string \<Rightarrow> json \<Rightarrow> bool \<Rightarrow> nat \<Rightarrow> (eng_state, nat) act" where
  "save_upload sv key org source account is_satellite system_type =
     a_bind (query sv ''select upload for update'' (\<lambda>db. filter (\<lambda>u. eu_host u = key \<and> eu_org u = org \<and> eu_source u = source) (e_uploads db))) (\<lambda>found.
       case found of
         [u] \<Rightarrow>
           a_then (eng_statement sv ''update upload'' (refresh_upload sv (eu_pk u) account is_satellite system_type))
             (a_ret (eu_pk u))
       | [] \<Rightarrow>
           a_bind (a_get (\<lambda>s. next_upload_pk (en_db s))) (\<lambda>pk.
           a_bind (a_get (\<lambda>s. has_current key source (en_db s))) (\<lambda>clash.
             if clash then a_raise IntegrityError
             else a_then (eng_statement sv ''insert upload'' (add_upload
                    \<lparr>eu_pk = pk, eu_host = key, eu_org = org, eu_source = source, eu_account = account,
                      eu_checked_on = eg_now sv, eu_is_satellite = is_satellite,
                      eu_system_type = system_type, eu_current = True\<rparr>))
                  (a_ret pk)))
       | _ \<Rightarrow> a_raise (Exn ''MultipleObjectsReturned''))"

text \<open>The rule ids an upload reports, narrowed for systems that only get upgrade advice.\<close>

definition final_rule_ids :: "eng_settings \<Rightarrow> json list \<Rightarrow> json list py" where
  "final_rule_ids st ids =
     (let non_rhel = map JStr (es_non_rhel_ids st); rhel6 = map JStr (es_rhel6_ids st);
          ids1 = (if es_filter_non_rhel st \<and> list_ex (\<lambda>i. i \<in> set non_rhel) ids then non_rhel else ids)
      in if \<not> es_filter_rhel6 st then Inr ids1
         else if \<not> list_all hashable ids1 then Inl TypeError
         else let common = filter (\<lambda>i. i \<in> set rhel6) (remdups ids1)
              in Inr (if common \<noteq> [] then common else ids1))"

definition rule_for :: "eng_db \<Rightarrow> json list \<Rightarrow> json \<Rightarrow> eng_rule option" where
  "rule_for db ids rid = find (\<lambda>r. JStr (ru_rule_id r) = rid \<and> rid \<in> set ids) (e_rules db)"

definition disabled_rules :: "eng_db \<Rightarrow> string \<Rightarrow> string \<Rightarrow> nat list" where
  "disabled_rules db key org =
     map ak_rule (filter (\<lambda>a. ak_org a = org) (e_acks db)) @
     map hk_rule (filter (\<lambda>a. hk_org a = org \<and> hk_host a = key) (e_hostacks db))"

record report_acc =
  ra_new :: "eng_report list"
  ra_existing :: "eng_report list"
  ra_counts :: view_counts
  ra_rules :: "eng_rule list"

definition no_reports :: report_acc where
  "no_reports = \<lparr>ra_new = [], ra_existing = [], ra_counts = no_counts, ra_rules = []\<rparr>"

record upload_context =
  uc_key :: string
  uc_org :: string
  uc_account :: json
  uc_upload :: nat
  uc_now :: int
  uc_ids :: "json list"
  uc_reports :: "db_report list"
  uc_disabled :: "nat list"

text \<open>The impacted date of an existing report is kept.\<close>

definition impacted_date :: "upload_context \<Rightarrow> eng_rule \<Rightarrow> int" where
  "impacted_date uc rule =
     (case filter (\<lambda>d. ru_pk (dv_rule d) = ru_pk rule) (uc_reports uc) of
        d # _ \<Rightarrow> (case dv_impacted d of Some t \<Rightarrow> t | None \<Rightarrow> uc_now uc)
      | [] \<Rightarrow> uc_now uc)"

definition add_report :: "upload_context \<Rightarrow> eng_rule \<Rightarrow> json \<Rightarrow> report_acc \<Rightarrow> report_acc py" where
  "add_report uc rule details acc =
     (let obj = \<lparr>er_rule = ru_pk rule, er_host = uc_key uc, er_org = uc_org uc, er_account = uc_account uc,
                 er_upload = uc_upload uc, er_details = details, er_impacted = Some (impacted_date uc rule)\<rparr>;
          acc1 = (if ru_pk rule \<in> set (map (\<lambda>d. ru_pk (dv_rule d)) (uc_reports uc))
                  then acc\<lparr>ra_existing := ra_existing acc @ [obj]\<rparr>
                  else acc\<lparr>ra_new := ra_new acc @ [obj]\<rparr>)
      in py_bind (if ru_pk rule \<in> set (uc_disabled uc) then Inr (ra_counts acc)
                  else update_inventory_view_counts (ra_counts acc) rule) (\<lambda>counts.
           Inr (acc1\<lparr>ra_counts := counts, ra_rules := ra_rules acc @ [rule]\<rparr>)))"

definition process_report :: "eng_db \<Rightarrow> upload_context \<Rightarrow> json \<Rightarrow> report_acc \<Rightarrow> report_acc py" where
  "process_report db uc report acc =
     py_bind (py_item report ''rule_id'') (\<lambda>rid.
       if \<not> hashable rid then Inl TypeError
       else case rule_for db (uc_ids uc) rid of
         None \<Rightarrow> Inr acc
       | Some rule \<Rightarrow> py_bind (py_item report ''details'') (\<lambda>details. add_report uc rule details acc))"

fun process_reports :: "eng_db \<Rightarrow> upload_context \<Rightarrow> json list \<Rightarrow> report_acc \<Rightarrow> report_acc py" where
  "process_reports db uc [] acc = Inr acc"
| "process_reports db uc (r # rs) acc = py_bind (process_report db uc r acc) (process_reports db uc rs)"

definition report_key :: "eng_report \<Rightarrow> string \<times> nat \<times> string" where
  "report_key r = (er_org r, er_rule r, er_host r)"

definition insert_reports :: "eng_services \<Rightarrow> eng_report list \<Rightarrow> (eng_state, unit) act" where
  "insert_reports sv new =
     a_bind (a_get (\<lambda>s. distinct (map report_key (e_reports (en_db s) @ new)))) (\<lambda>ok.
       if ok then eng_statement sv ''insert reports'' (\<lambda>db. db\<lparr>e_reports := e_reports db @ new\<rparr>)
       else a_raise IntegrityError)"

text \<open>The update of an existing report only matches a row with the same account.\<close>

definition update_report :: "eng_report \<Rightarrow> eng_db \<Rightarrow> eng_db" where
  "update_report e db = db\<lparr>e_reports := map (\<lambda>r.
     if er_rule r = er_rule e \<and> er_host r = er_host e \<and> er_account r = er_account e \<and> er_org r = er_org e
     then r\<lparr>er_upload := er_upload e, er_details := er_details e, er_impacted := er_impacted e\<rparr> else r)
     (e_reports db)\<rparr>"

definition drop_missing_reports :: "upload_context \<Rightarrow> eng_db \<Rightarrow> eng_db" where
  "drop_missing_reports uc db =
     (let gone = filter (\<lambda>i. JStr i \<notin> set (uc_ids uc)) (map (\<lambda>d. ru_rule_id (dv_rule d)) (uc_reports uc))
      in db\<lparr>e_reports := filter (\<lambda>r. \<not> (er_host r = uc_key uc \<and> er_org r = uc_org uc \<and>
           (case rule_of_pk db (er_rule r) of None \<Rightarrow> False | Some rule \<Rightarrow> ru_rule_id rule \<in> set gone)))
           (e_reports db)\<rparr>)"

definition write_reports :: "eng_services \<Rightarrow> upload_context \<Rightarrow> report_acc \<Rightarrow> (eng_state, unit) act" where
  "write_reports sv uc acc =
     a_then (insert_reports sv (ra_new acc))
    (a_then (a_for (\<lambda>e. eng_statement sv ''update report'' (update_report e)) (ra_existing acc))
     (eng_statement sv ''delete reports'' (drop_missing_reports uc)))"

text \<open>The hooks: a missing inventory host is logged, any other exception reported as an error.\<close>

definition run_hooks ::
  "eng_services \<Rightarrow> eng_settings \<Rightarrow> upload_context \<Rightarrow> report_acc \<Rightarrow> (eng_state, unit) act" where
  "run_hooks sv st uc acc =
     (if \<not> (es_webhooks st \<or> es_remediations st) then a_ret ()
      else a_catch
        (a_bind (query sv ''select inventory host'' (\<lambda>db. find (\<lambda>h. ei_id h = uc_key uc \<and> ei_org h = uc_org uc) (e_inventory db))) (\<lambda>h.
          case h of
            None \<Rightarrow> a_ret ()
          | Some h \<Rightarrow> trigger_report_hooks sv st h (ra_rules acc) (uc_reports uc)))
        (\<lambda>e. payload_status sv st ''error'' ''traceback'' []))"

definition announce ::
  "eng_services \<Rightarrow> eng_settings \<Rightarrow> json \<Rightarrow> json \<Rightarrow> report_acc \<Rightarrow> (eng_state, unit) act" where
  "announce sv st uuid org_id acc =
     (let n = length (ra_new acc) + length (ra_existing acc) in
      a_then (payload_status sv st ''success'' (''Successfully logged '' @ nat_digits n @ '' reports.'') [])
     (a_bind (a_get (\<lambda>s. py_or (get_value ''request_id'' s) (JStr ''''))) (\<lambda>rid.
        send_inventory_view_event sv st rid org_id (py_str (eg_str sv) uuid) n (ra_counts acc))))"

text \<open>
  Up to the writing of the reports: the lock, the current reports, the upload and the rows to write.
\<close>

definition read_reports ::
  "eng_services \<Rightarrow> eng_settings \<Rightarrow> json \<Rightarrow> string \<Rightarrow> string \<Rightarrow> json \<Rightarrow> nat \<Rightarrow> db_report list \<Rightarrow>
   (eng_state, upload_context \<times> report_acc) act" where
  "read_reports sv st reports key org account upload db_reports =
     a_bind (a_lift (py_iter reports)) (\<lambda>rs.
     a_bind (a_lift (py_mapM (\<lambda>r. py_item r ''rule_id'') rs)) (\<lambda>rids.
     a_bind (a_lift (final_rule_ids st rids)) (\<lambda>ids.
     a_bind (query sv ''select rules and acks'' (\<lambda>db. db)) (\<lambda>db.
     let uc = \<lparr>uc_key = key, uc_org = org, uc_account = account, uc_upload = upload, uc_now = eg_now sv,
               uc_ids = ids, uc_reports = db_reports, uc_disabled = disabled_rules db key org\<rparr> in
     a_bind (a_lift (process_reports db uc rs no_reports)) (\<lambda>acc. a_ret (uc, acc))))))"

text \<open>The lock on the host's row, which must exist.\<close>

definition lock_host :: "eng_services \<Rightarrow> string option \<Rightarrow> (eng_state, unit) act" where
  "lock_host sv key =
     a_bind (query sv ''lock host'' (\<lambda>db. list_ex (\<lambda>h. Some (eh_id h) = key) (e_hosts db))) (\<lambda>found.
       if found then a_ret () else a_raise DoesNotExist)"

text \<open>\<open>UploadSource.objects.get_or_create\<close>: the name is text and not null.\<close>

definition text_value :: "eng_services \<Rightarrow> json \<Rightarrow> string option" where
  "text_value sv v = (if v = JNull then None else Some (py_str (eg_str sv) v))"

definition upload_source :: "eng_services \<Rightarrow> json \<Rightarrow> (eng_state, string) act" where
  "upload_source sv source =
     a_bind (required (text_value sv source)) (\<lambda>name.
     a_then (eng_statement sv ''upload source'' (\<lambda>db. if name \<in> set (e_sources db) then db
                                                    else db\<lparr>e_sources := e_sources db @ [name]\<rparr>))
       (a_ret name))"

definition prepare_upload ::
  "eng_services \<Rightarrow> eng_settings \<Rightarrow> json \<Rightarrow> json \<Rightarrow> json \<Rightarrow> json \<Rightarrow> nat \<Rightarrow> json \<Rightarrow> bool \<Rightarrow>
   (eng_state, upload_context \<times> report_acc) act" where
  "prepare_upload sv st reports uuid account org_id system_type source is_satellite =
     a_bind (a_lift (uuid_key sv uuid)) (\<lambda>key'.
     a_then (lock_host sv key')
    (a_bind (query sv ''select reports'' (db_report_values key' (eg_org sv org_id))) (\<lambda>db_reports.
     a_bind (upload_source sv source) (\<lambda>src.
     a_bind (required key') (\<lambda>key.
     a_bind (required (eg_org sv org_id)) (\<lambda>org.
     a_bind (save_upload sv key org src account is_satellite system_type) (\<lambda>upload.
       read_reports sv st reports key org account upload db_reports)))))))"

definition store_reports ::
  "eng_services \<Rightarrow> eng_settings \<Rightarrow> json \<Rightarrow> json \<Rightarrow> json \<Rightarrow> json \<Rightarrow> nat \<Rightarrow> json \<Rightarrow> bool \<Rightarrow> (eng_state, unit) act" where
  "store_reports sv st reports uuid account org_id system_type source is_satellite =
     a_bind (prepare_upload sv st reports uuid account org_id system_type source is_satellite) (\<lambda>(uc, acc).
     a_then (write_reports sv uc acc)
    (a_then (run_hooks sv st uc acc)
     (announce sv st uuid org_id acc)))"

definition eng_atomic :: "(eng_state, 'a) act \<Rightarrow> (eng_state, 'a) act" where
  "eng_atomic m = (\<lambda>s. case m s of
     (Inl e, t) \<Rightarrow> (Inl e, t\<lparr>en_db := en_db s\<rparr>)
   | (Inr x, t) \<Rightarrow> (Inr x, t))"

definition log_db_failure :: "eng_services \<Rightarrow> eng_settings \<Rightarrow> string \<Rightarrow> (eng_state, unit) act" where
  "log_db_failure sv st message =
     a_then (set_value ''db_error'' (JInt 1))
    (a_then (set_value ''db_error_msg'' (JStr message))
    (a_then (a_upd (\<lambda>s. s\<lparr>en_db_errors := en_db_errors s + 1\<rparr>))
     (payload_status sv st ''error'' message [])))"

text \<open>\<open>try: m; except Exception: log_db_failure(...); return False\<close>\<close>

definition or_fail ::
  "eng_services \<Rightarrow> eng_settings \<Rightarrow> string \<Rightarrow> (eng_state, unit) act \<Rightarrow> (eng_state, bool) act \<Rightarrow> (eng_state, bool) act" where
  "or_fail sv st message m k =
     a_bind (a_catch (a_then m (a_ret True)) (\<lambda>e. a_then (log_db_failure sv st message) (a_ret False)))
       (\<lambda>ok. if ok then k else a_ret False)"

definition create_db_reports ::
  "eng_services \<Rightarrow> eng_settings \<Rightarrow> json \<Rightarrow> json \<Rightarrow> json \<Rightarrow> json \<Rightarrow> nat \<Rightarrow> json \<Rightarrow> json \<Rightarrow> json \<Rightarrow> json \<Rightarrow>
   (eng_state, bool) act" where
  "create_db_reports sv st reports uuid account org_id system_type source satellite_managed satellite_id branch_id =
     a_then (set_value ''db_error'' (JInt 0))
     (or_fail sv st ''Could not create host'' (ensure_host sv st uuid account org_id satellite_id branch_id)
       (or_fail sv st ''Failed to process upload''
         (eng_atomic (store_reports sv st reports uuid account org_id system_type source (truthy satellite_managed)))
         (a_ret True)))"

end
