(* ===== verification/Engine_Events.thy ===== *)
theory Engine_Events
  imports Engine_Reports
begin

text \<open>
  The message handlers of the engine-results service (\<open>service/service.py\<close>): engine results,
  third-party rule hits and inventory events, the poll loop that decodes a message and hands it to
  the thread pool, and the callback that swallows what a handler raises.  Values in thread storage
  that only hold times, log lines and metrics are left out.
\<close>

section \<open>System types\<close>

text \<open>The first \<open>SystemType\<close> of a role and product; a null value matches no row.\<close>

definition find_system_type :: "eng_services \<Rightarrow> json \<Rightarrow> json \<Rightarrow> eng_db \<Rightarrow> nat option" where
  "find_system_type sv role product db =
     map_option fst (find (\<lambda>(_, r, p). Some r = text_value sv role \<and> Some p = text_value sv product)
       (e_system_types db))"

text \<open>The query is tried a second time after a database error; a second error is raised.\<close>

definition query_system_type :: "eng_services \<Rightarrow> json \<Rightarrow> json \<Rightarrow> nat \<Rightarrow> (eng_state, nat option) act" where
  "query_system_type sv role product i =
     a_then (eng_attempt sv ''select system type'' i (\<lambda>db. db))
       (a_get (\<lambda>s. find_system_type sv role product (en_db s)))"

definition on_db_error :: "(eng_state, 'a) act \<Rightarrow> (eng_state, 'a) act \<Rightarrow> (eng_state, 'a) act" where
  "on_db_error m k = a_catch m (\<lambda>e. if e = DbError then k else a_raise e)"

definition get_system_type :: "eng_services \<Rightarrow> json \<Rightarrow> json \<Rightarrow> (eng_state, nat option) act" where
  "get_system_type sv role product =
     on_db_error (query_system_type sv role product 0) (query_system_type sv role product 1)"

section \<open>Engine results\<close>

definition key_paths :: "(string \<times> string list) list" where
  "key_paths =
     [(''engine_reports'', [''results'', ''reports'']),
      (''system_data'', [''results'', ''system'']),
      (''platform_data'', [''input'', ''platform_metadata'']),
      (''request_id'', [''input'', ''platform_metadata'', ''request_id'']),
      (''inventory_uuid'', [''input'', ''host'', ''id'']),
      (''org_id'', [''input'', ''platform_metadata'', ''org_id''])]"

definition at_path :: "json \<Rightarrow> string list \<Rightarrow> json py" where
  "at_path v ks = py_bind (traverse_keys v ks JNull) (\<lambda>(x, _). Inr x)"

definition account_path :: "string list" where
  "account_path = [''input'', ''host'', ''account'']"

definition engine_data :: "json \<Rightarrow> (string \<times> json) list py" where
  "engine_data v = py_mapM (\<lambda>(k, ks). py_bind (at_path v ks) (\<lambda>x. Inr (k, x))) key_paths"

text \<open>
  The local \<open>bad_payload\<close>: the tracker's function of the same name gets a dictionary, which has
  no \<open>decode\<close>; the account is looked up once more and may raise.
\<close>

definition bad_engine_payload :: "eng_services \<Rightarrow> eng_settings \<Rightarrow> json \<Rightarrow> (eng_state, bool) act" where
  "bad_engine_payload sv st v =
     a_then (a_lift (at_path v account_path))
    (a_then (bad_payload sv st ''insights-client'' None ''Malformed JSON error'')
     (a_ret False))"

text \<open>\<open>-1\<close> stands for no Satellite.\<close>

definition unless_minus_one :: "json \<Rightarrow> json" where
  "unless_minus_one v = (if py_eq_int v (-1) then JNull else v)"

definition note_error :: "string \<Rightarrow> string \<Rightarrow> (eng_state, unit) act" where
  "note_error name msg =
     a_then (set_value (name @ ''_error'') (JInt 1)) (set_value (name @ ''_error_msg'') (JStr msg))"

definition start_processing ::
  "eng_services \<Rightarrow> eng_settings \<Rightarrow> json \<Rightarrow> json \<Rightarrow> json \<Rightarrow> json \<Rightarrow> json \<Rightarrow> (eng_state, unit) act" where
  "start_processing sv st system_data request_id uuid account org_id =
     a_bind (a_lift (py_get system_data ''system_id'')) (\<lambda>system_id.
     a_then (if truthy system_id then set_value ''system_id'' system_id else a_ret ())
    (a_then (set_value ''request_id'' request_id)
    (a_then (set_value ''inventory_id'' uuid)
    (a_then (set_value ''source'' (JStr ''insights-client''))
    (a_then (set_value ''account'' account)
    (a_then (set_value ''org_id'' org_id)
     (payload_status sv st ''received'' ''Processing engine results'' [])))))))"

definition finish_results :: "eng_services \<Rightarrow> eng_settings \<Rightarrow> bool \<Rightarrow> (eng_state, bool) act" where
  "finish_results sv st ok =
     (if ok then a_ret True
      else a_then (note_error ''engine_results'' ''Failure processing engine results.'')
          (a_then (payload_status sv st ''error'' ''Failure processing engine results.'' [])
           (a_ret False)))"

definition invalid_system_type :: "eng_services \<Rightarrow> eng_settings \<Rightarrow> string \<Rightarrow> (eng_state, bool) act" where
  "invalid_system_type sv st name =
     a_then (note_error name ''missing system_type'')
    (a_then (payload_status sv st ''invalid'' ''Invalid system type.'' [])
     (a_ret False))"

definition process_results ::
  "eng_services \<Rightarrow> eng_settings \<Rightarrow> (string \<times> json) list \<Rightarrow> json \<Rightarrow> (eng_state, bool) act" where
  "process_results sv st data account =
     (let system_data = get_if data ''system_data''; platform_data = get_if data ''platform_data'';
          uuid = get_if data ''inventory_uuid''; org_id = get_if data ''org_id'' in
      a_then (start_processing sv st system_data (get_if data ''request_id'') uuid account org_id)
     (a_bind (a_lift (py_get system_data ''type'')) (\<lambda>role.
      a_bind (a_lift (py_get system_data ''product'')) (\<lambda>product.
      a_bind (get_system_type sv role product) (\<lambda>found. case found of
        None \<Rightarrow> invalid_system_type sv st ''engine_results''
      | Some system_type \<Rightarrow>
          a_bind (a_lift (py_get_default platform_data ''satellite_managed'' (JBool False))) (\<lambda>managed.
          a_bind (a_lift (py_get system_data ''remote_leaf'')) (\<lambda>leaf.
          a_bind (a_lift (py_get system_data ''remote_branch'')) (\<lambda>branch.
          a_bind (create_db_reports sv st (get_if data ''engine_reports'') uuid account org_id system_type
                   (JStr ''insights-client'') managed (unless_minus_one leaf) (unless_minus_one branch))
            (finish_results sv st)))))))))"

definition handle_engine_results :: "eng_services \<Rightarrow> eng_settings \<Rightarrow> json \<Rightarrow> (eng_state, bool) act" where
  "handle_engine_results sv st v =
     a_then clean_threading_cruft
    (a_then (set_value ''engine_results_error'' (JInt 0))
    (a_bind (a_lift (engine_data v)) (\<lambda>data.
       if list_ex (\<lambda>(_, x). x = JNull) data then bad_engine_payload sv st v
       else case at_path v account_path of
         Inl _ \<Rightarrow> bad_engine_payload sv st v
       | Inr account \<Rightarrow> process_results sv st data account)))"

section \<open>Rule hits\<close>

definition hit_keys :: "string list" where
  "hit_keys = [''org_id'', ''source'', ''host_product'', ''host_role'', ''inventory_id'', ''hits'']"

definition missing_keys :: "string list \<Rightarrow> json \<Rightarrow> string list py" where
  "missing_keys keys v =
     py_bind (py_mapM (\<lambda>k. py_in k v) keys) (\<lambda>bs. Inr (map fst (filter (\<lambda>(_, b). \<not> b) (zip keys bs))))"

text \<open>\<open>for key in keys: if key in v: info[key] = v[key]\<close>\<close>

fun copy_keys :: "string list \<Rightarrow> json \<Rightarrow> (string \<times> json) list \<Rightarrow> (string \<times> json) list py" where
  "copy_keys [] v info = Inr info"
| "copy_keys (k # ks) v info =
     py_bind (py_in k v) (\<lambda>b.
       if b then py_bind (py_item v k) (\<lambda>x. copy_keys ks v (dict_set k x info)) else copy_keys ks v info)"

fun py_lower :: "json \<Rightarrow> json py" where
  "py_lower (JStr s) = Inr (JStr (str_lower s))"
| "py_lower _ = Inl AttributeError"

definition reject_hits :: "eng_services \<Rightarrow> eng_settings \<Rightarrow> json \<Rightarrow> (eng_state, bool) act" where
  "reject_hits sv st v =
     a_then (note_error ''rule_hits'' ''missing_keys'')
    (a_bind (a_lift (copy_keys hit_keys v [(''request_id'', JStr ''third-party'')])) (\<lambda>info.
     a_then (payload_status sv st ''invalid'' ''Third party rule hits did not contain valid keys'' info)
      (a_ret False)))"

definition start_hits :: "eng_services \<Rightarrow> eng_settings \<Rightarrow> json \<Rightarrow> (eng_state, unit) act" where
  "start_hits sv st v =
     a_then (set_value ''request_id'' (JStr ''third-party''))
    (a_bind (a_lift (py_item v ''inventory_id'')) (\<lambda>uuid. a_then (set_value ''inventory_id'' uuid)
    (a_bind (a_lift (py_item v ''source'')) (\<lambda>source. a_then (set_value ''source'' source)
    (a_bind (a_lift (py_get v ''account'')) (\<lambda>account. a_then (set_value ''account'' account)
    (a_bind (a_lift (py_item v ''org_id'')) (\<lambda>org_id. a_then (set_value ''org_id'' org_id)
     (payload_status sv st ''processing'' ''Beginning rule hit analysis.'' [])))))))))"

text \<open>
  A failure to store the reports is noted in thread storage and in the log, whose extra values are
  copied from the message; the handler still returns true.
\<close>

definition store_hits :: "eng_services \<Rightarrow> eng_settings \<Rightarrow> json \<Rightarrow> nat \<Rightarrow> (eng_state, bool) act" where
  "store_hits sv st v system_type =
     a_then (payload_status sv st ''processing'' ''Creating reports.'' [])
    (a_bind (a_lift (py_item v ''hits'')) (\<lambda>hits.
     a_bind (a_lift (py_item v ''inventory_id'')) (\<lambda>uuid.
     a_bind (a_lift (py_get v ''account'')) (\<lambda>account.
     a_bind (a_lift (py_item v ''org_id'')) (\<lambda>org_id.
     a_bind (a_lift (py_item v ''source'')) (\<lambda>source.
     a_bind (create_db_reports sv st hits uuid account org_id system_type source JNull JNull JNull) (\<lambda>ok.
     a_then (if ok then a_ret ()
             else a_then (note_error ''rule_hits'' ''Error processing third party rule hits.'')
                    (a_then (a_lift (copy_keys hit_keys v [])) (a_ret ())))
       (a_ret True))))))))"

definition handle_rule_hits :: "eng_services \<Rightarrow> eng_settings \<Rightarrow> json \<Rightarrow> (eng_state, bool) act" where
  "handle_rule_hits sv st v =
     a_then clean_threading_cruft
    (a_then (set_value ''rule_hits_error'' (JInt 0))
    (a_bind (a_lift (missing_keys hit_keys v)) (\<lambda>missing.
       if missing \<noteq> [] then reject_hits sv st v
       else
         a_then (start_hits sv st v)
        (a_bind (a_lift (py_bind (py_item v ''host_role'') py_lower)) (\<lambda>role.
         a_bind (a_lift (py_bind (py_item v ''host_product'') py_lower)) (\<lambda>product.
         a_bind (get_system_type sv role product) (\<lambda>found. case found of
           None \<Rightarrow> invalid_system_type sv st ''rule_hits''
         | Some system_type \<Rightarrow> store_hits sv st v system_type)))))))"

section \<open>Inventory events\<close>

definition delete_keys :: "string list" where
  "delete_keys = [''id'', ''org_id'', ''request_id'', ''type'', ''timestamp'']"

definition check_for_keys :: "eng_services \<Rightarrow> eng_settings \<Rightarrow> json \<Rightarrow> (eng_state, unit) act" where
  "check_for_keys sv st v =
     a_bind (a_lift (missing_keys delete_keys v)) (\<lambda>missing.
       if missing = [] then a_ret ()
       else a_then (note_error ''inventory_event'' ''missing_keys'')
           (a_then (bad_payload sv st ''inventory'' None ''Inventory event missing keys.'')
            (a_raise ValueError)))"

text \<open>
  The retry loop: up to \<open>DB_RETRY_CONSTANT\<close> attempts, a database error goes on to the next,
  any other exception leaves the loop.  It returns whether an attempt succeeded and the last error.
\<close>

fun db_retry_loop :: "(nat \<Rightarrow> (eng_state, unit) act) \<Rightarrow> nat list \<Rightarrow> pyexn option \<Rightarrow> (eng_state, bool \<times> pyexn option) act" where
  "db_retry_loop m [] err = a_ret (False, err)"
| "db_retry_loop m (i # is) err = (\<lambda>s. case m i s of
     (Inr _, t) \<Rightarrow> (Inr (True, None), t)
   | (Inl e, t) \<Rightarrow> if e = DbError then db_retry_loop m is (Some e) t else (Inl e, t))"

definition delete_step ::
  "eng_services \<Rightarrow> eng_settings \<Rightarrow> (string \<times> json) list \<Rightarrow> json \<Rightarrow> json \<Rightarrow> string \<Rightarrow>
   (string option \<Rightarrow> string option \<Rightarrow> eng_db \<Rightarrow> eng_db) \<Rightarrow> (eng_state, unit) act" where
  "delete_step sv st info uuid org_id name f =
     a_bind (db_retry_loop (\<lambda>i. a_bind (a_lift (uuid_key sv uuid)) (\<lambda>key.
              eng_attempt sv name i (f key (eg_org sv org_id)))) [0..<es_db_retries st] None) (\<lambda>(ok, err).
       if ok then a_ret ()
       else a_then (note_error ''inventory_event'' ''traceback'')
           (a_then (payload_status sv st ''error'' (''Error: '' @ name) info)
            (a_raise (case err of None \<Rightarrow> TypeError | Some e \<Rightarrow> e))))"

text \<open>Deleting an upload deletes the reports that refer to it.\<close>

definition delete_current_uploads :: "string option \<Rightarrow> string option \<Rightarrow> eng_db \<Rightarrow> eng_db" where
  "delete_current_uploads key org db =
     (let gone = filter (\<lambda>u. Some (eu_host u) = key \<and> Some (eu_org u) = org \<and> eu_current u) (e_uploads db)
      in db\<lparr>e_uploads := filter (\<lambda>u. u \<notin> set gone) (e_uploads db),
            e_reports := filter (\<lambda>r. er_upload r \<notin> set (map eu_pk gone)) (e_reports db)\<rparr>)"

definition delete_current_reports :: "string option \<Rightarrow> string option \<Rightarrow> eng_db \<Rightarrow> eng_db" where
  "delete_current_reports key org db =
     db\<lparr>e_reports := filter (\<lambda>r. \<not> (Some (er_host r) = key \<and> Some (er_org r) = org)) (e_reports db)\<rparr>"

definition delete_event_hostacks :: "string option \<Rightarrow> string option \<Rightarrow> eng_db \<Rightarrow> eng_db" where
  "delete_event_hostacks key org db =
     db\<lparr>e_hostacks := filter (\<lambda>a. \<not> (Some (hk_host a) = key \<and> Some (hk_org a) = org)) (e_hostacks db)\<rparr>"

definition event_info :: "json \<Rightarrow> (string \<times> json) list py" where
  "event_info v =
     py_bind (py_item v ''id'') (\<lambda>uuid. py_bind (py_get v ''account'') (\<lambda>account.
     py_bind (py_item v ''org_id'') (\<lambda>org_id. py_bind (py_item v ''request_id'') (\<lambda>request_id.
       Inr [(''request_id'', request_id), (''inventory_id'', uuid), (''account'', account),
            (''org_id'', org_id), (''source'', JStr ''inventory'')]))))"

definition handle_delete :: "eng_services \<Rightarrow> eng_settings \<Rightarrow> json \<Rightarrow> (eng_state, unit) act" where
  "handle_delete sv st v =
     a_then (check_for_keys sv st v)
    (a_bind (a_lift (event_info v)) (\<lambda>info.
     let uuid = get_if info ''inventory_id''; org_id = get_if info ''org_id'' in
     a_then (payload_status sv st ''received'' ''Received DELETE event from Inventory.'' info)
    (a_then (delete_step sv st info uuid org_id ''delete uploads'' delete_current_uploads)
    (a_then (delete_step sv st info uuid org_id ''delete current reports'' delete_current_reports)
    (a_then (delete_step sv st info uuid org_id ''delete host acks'' delete_event_hostacks)
     (payload_status sv st ''success'' ''Succesfully DELETED records'' info))))))"

definition handle_event :: "eng_services \<Rightarrow> eng_settings \<Rightarrow> json \<Rightarrow> (eng_state, unit) act" where
  "handle_event sv st v =
     a_then clean_threading_cruft
    (a_then (set_value ''inventory_event_error'' (JInt 0))
    (a_bind (a_lift (py_get v ''type'')) (\<lambda>event_type.
       if \<not> truthy event_type then a_raise ValueError
       else if event_type = JStr ''delete'' then handle_delete sv st v
       else a_ret ())))"

section \<open>The poll loop and the worker\<close>

datatype job =
    Engine_results json
  | Rule_hits json
  | Event json

text \<open>What \<open>poll\<close> returned; a message has a topic and a value, which may be absent.\<close>

datatype polled =
    Nothing
  | Poll_error
  | Polled string "string option"

definition decode_message :: "eng_services \<Rightarrow> string option \<Rightarrow> json option" where
  "decode_message sv body = Option.bind (Option.bind body (eg_decode sv)) (\<lambda>t. eg_loads sv (strip_char (CHR 0x22) t))"

definition report_malformed :: "eng_services \<Rightarrow> eng_settings \<Rightarrow> string \<Rightarrow> string option \<Rightarrow> (eng_state, unit) act" where
  "report_malformed sv st source body =
     bad_payload sv st source
       (Option.bind (Option.bind body (eg_unescape sv)) (\<lambda>t. eg_loads sv (strip_char (CHR 0x22) t))) ''Malformed JSON error''"

definition submit_if :: "(json \<Rightarrow> job) \<Rightarrow> json \<Rightarrow> job list" where
  "submit_if mk v = (if truthy v then [mk v] else [])"

definition on_engine_topic :: "eng_services \<Rightarrow> eng_settings \<Rightarrow> string option \<Rightarrow> (eng_state, bool \<times> job list) act" where
  "on_engine_topic sv st body =
     (case decode_message sv body of
        None \<Rightarrow> a_then (report_malformed sv st ''insights-client'' body) (a_ret (False, []))
      | Some v \<Rightarrow> a_ret (True, submit_if Engine_results v))"

definition on_hits_topic ::
  "eng_services \<Rightarrow> eng_settings \<Rightarrow> string \<Rightarrow> string option \<Rightarrow> (eng_state, job list) act" where
  "on_hits_topic sv st topic body =
     (case decode_message sv body of
        None \<Rightarrow> a_then (report_malformed sv st topic body) (a_ret [])
      | Some v \<Rightarrow>
          if \<not> truthy v then a_ret []
          else a_bind (a_lift (copy_keys [''inventory_id'', ''source'', ''account'', ''org_id''] v
                        [(''request_id'', JStr ''third-party'')])) (\<lambda>info.
               a_then (payload_status sv st ''processing'' ''Submitting to pool for rule hit analysis.'' info)
                 (a_ret [Rule_hits v])))"

definition on_inventory_topic ::
  "eng_services \<Rightarrow> eng_settings \<Rightarrow> string \<Rightarrow> string option \<Rightarrow> (eng_state, job list) act" where
  "on_inventory_topic sv st topic body =
     (case decode_message sv body of
        None \<Rightarrow> a_then (report_malformed sv st topic body) (a_ret [])
      | Some v \<Rightarrow> a_ret (submit_if Event v))"

definition when_topic :: "bool \<Rightarrow> (eng_state, 'a list) act \<Rightarrow> (eng_state, 'a list) act" where
  "when_topic b m = (if b then m else a_ret [])"

definition handle_polled :: "eng_services \<Rightarrow> eng_settings \<Rightarrow> polled \<Rightarrow> (eng_state, job list) act" where
  "handle_polled sv st p =
     (case p of
        Nothing \<Rightarrow> a_ret []
      | Poll_error \<Rightarrow> a_ret []
      | Polled topic body \<Rightarrow>
          a_bind (if topic = es_engine_topic st then on_engine_topic sv st body else a_ret (True, [])) (\<lambda>(go, js1).
            if \<not> go then a_ret []
            else
              a_bind (when_topic (topic = es_hits_topic st) (on_hits_topic sv st topic body)) (\<lambda>js2.
              a_bind (when_topic (topic = es_inventory_topic st) (on_inventory_topic sv st topic body)) (\<lambda>js3.
                a_ret (js1 @ js2 @ js3)))))"

text \<open>
  The loop over what \<open>poll\<close> returns until the termination signal: the jobs submitted, in order;
  an exception that leaves the body ends the service.
\<close>

fun poll_loop :: "eng_services \<Rightarrow> eng_settings \<Rightarrow> polled list \<Rightarrow> (eng_state, job list) act" where
  "poll_loop sv st [] = a_ret []"
| "poll_loop sv st (p # ps) =
     a_bind (handle_polled sv st p) (\<lambda>js. a_bind (poll_loop sv st ps) (\<lambda>js'. a_ret (js @ js')))"

text \<open>A worker runs a job; \<open>on_thread_done\<close> logs whatever it raised.\<close>

definition run_job :: "eng_services \<Rightarrow> eng_settings \<Rightarrow> job \<Rightarrow> (eng_state, unit) act" where
  "run_job sv st j =
     (case j of
        Engine_results v \<Rightarrow> a_then (handle_engine_results sv st v) (a_ret ())
      | Rule_hits v \<Rightarrow> a_then (handle_rule_hits sv st v) (a_ret ())
      | Event v \<Rightarrow> handle_event sv st v)"

definition on_thread_done :: "(eng_state, unit) act \<Rightarrow> (eng_state, unit) act" where
  "on_thread_done m = a_catch m (\<lambda>e. a_ret ())"

definition work :: "eng_services \<Rightarrow> eng_settings \<Rightarrow> job list \<Rightarrow> (eng_state, unit) act" where
  "work sv st js = a_for (\<lambda>j. on_thread_done (run_job sv st j)) js"

end
