(* ===== verification/Engine_Safety.thy ===== *)
theory Engine_Safety
  imports Engine_Reports
begin

text \<open>
  What the report store guarantees: an upload replaces the host's reports by those it names, a failed
  upload leaves reports and uploads alone, hooks announce exactly the new and the resolved reports,
  and what the account and the acknowledgements of other organisations change.
\<close>

section \<open>Inversion\<close>

lemma eng_statement_Inr:
  "eng_statement sv n f s = (Inr x, t) \<longleftrightarrow> \<not> eg_broken sv n 0 (en_db s) \<and> t = s\<lparr>en_db := f (en_db s)\<rparr>"
  by (auto simp: eng_statement_def eng_attempt_def)

lemma query_Inr: "query sv n f s = (Inr x, t) \<longleftrightarrow> \<not> eg_broken sv n 0 (en_db s) \<and> x = f (en_db s) \<and> t = s"
  by (auto simp: query_def a_then_Inr eng_statement_Inr)

lemma required_Inr: "required k s = (Inr x, t) \<longleftrightarrow> k = Some x \<and> t = s"
  by (auto simp: required_def split: option.splits)

lemma eng_atomic_Inr: "eng_atomic m s = (Inr x, t) \<longleftrightarrow> m s = (Inr x, t)"
  by (auto simp: eng_atomic_def split: prod.splits sum.splits)

lemma lock_host_Inr:
  "lock_host sv key s = (Inr (), t) \<longleftrightarrow> \<not> eg_broken sv ''lock host'' 0 (en_db s) \<and> t = s \<and>
    list_ex (\<lambda>h. Some (eh_id h) = key) (e_hosts (en_db s))"
  by (auto simp: lock_host_def a_bind_Inr query_Inr split: if_splits)

lemmas eng_inv = act_inv eng_statement_Inr query_Inr required_Inr eng_atomic_Inr lock_host_Inr

section \<open>Sending keeps the tables\<close>

definition eng_db_fixed :: "(eng_state, 'a) act \<Rightarrow> bool" where
  "eng_db_fixed m \<longleftrightarrow> (\<forall>db. keeps (\<lambda>s. en_db s = db) m)"

lemma eng_db_fixedD:
  assumes "eng_db_fixed m" "m s = (r, t)"
  shows "en_db t = en_db s"
proof -
  have "keeps (\<lambda>s'. en_db s' = en_db s) m" using assms(1) by (simp add: eng_db_fixed_def)
  from keepsD [OF this, of s] assms(2) show ?thesis by simp
qed

lemma eng_db_fixed_intros [intro]:
  "eng_db_fixed (a_ret x)" "eng_db_fixed (a_raise e)" "eng_db_fixed (a_lift r)" "eng_db_fixed (a_get f)"
  by (simp_all add: eng_db_fixed_def)

lemma eng_db_fixed_bind [intro]:
  "eng_db_fixed m \<Longrightarrow> (\<And>x. eng_db_fixed (k x)) \<Longrightarrow> eng_db_fixed (a_bind m k)"
  by (simp add: eng_db_fixed_def keeps_bind)

lemma eng_db_fixed_then [intro]: "eng_db_fixed m \<Longrightarrow> eng_db_fixed m' \<Longrightarrow> eng_db_fixed (a_then m m')"
  by (simp add: eng_db_fixed_def keeps_then)

lemma eng_db_fixed_catch [intro]:
  "eng_db_fixed m \<Longrightarrow> (\<And>e. eng_db_fixed (h e)) \<Longrightarrow> eng_db_fixed (a_catch m h)"
  by (simp add: eng_db_fixed_def keeps_catch)

lemma eng_db_fixed_if [intro]: "eng_db_fixed m \<Longrightarrow> eng_db_fixed m' \<Longrightarrow> eng_db_fixed (if b then m else m')"
  by simp

lemma eng_db_fixed_option [intro]:
  "eng_db_fixed m \<Longrightarrow> (\<And>y. eng_db_fixed (k y)) \<Longrightarrow> eng_db_fixed (case x of None \<Rightarrow> m | Some y \<Rightarrow> k y)"
  by (cases x) auto

lemmas eng_db_fixed_rules = eng_db_fixed_intros eng_db_fixed_bind eng_db_fixed_then eng_db_fixed_catch
  eng_db_fixed_if eng_db_fixed_option

lemma eng_db_fixed_send [intro]: "eng_db_fixed (send m)"
  and eng_db_fixed_set [intro]: "eng_db_fixed (set_value n v)"
  and eng_db_fixed_query [intro]: "eng_db_fixed (query sv n f)"
  by (auto simp: eng_db_fixed_def keeps_def send_def set_value_def query_def a_then_app eng_statement_def eng_attempt_def)

lemma eng_db_fixed_status [intro]: "eng_db_fixed (payload_status sv st a b c)"
  unfolding payload_status_def by auto

lemma eng_db_fixed_send_or_report [intro]: "eng_db_fixed (send_or_report sv st on tp h m)"
  unfolding send_or_report_def by auto

lemma eng_db_fixed_webhook [intro]: "eng_db_fixed (send_webhook sv st h ty rules)"
  unfolding send_webhook_def by auto

lemma eng_db_fixed_hooks [intro]: "eng_db_fixed (run_hooks sv st uc acc)"
  unfolding run_hooks_def trigger_report_hooks_def by (intro eng_db_fixed_rules eng_db_fixed_query
    eng_db_fixed_webhook eng_db_fixed_send_or_report eng_db_fixed_status)

lemma eng_db_fixed_announce [intro]: "eng_db_fixed (announce sv st uuid org acc)"
  unfolding announce_def Let_def send_inventory_view_event_def by auto

lemma eng_db_fixed_failure [intro]: "eng_db_fixed (log_db_failure sv st m)"
  unfolding log_db_failure_def
  by (intro eng_db_fixed_rules eng_db_fixed_set eng_db_fixed_status) (auto simp: eng_db_fixed_def keeps_def)

section \<open>Decomposing an upload\<close>

lemma save_upload_tables:
  assumes "save_upload sv key org src acct sat ty s = (Inr pk, t)"
  shows "e_reports (en_db t) = e_reports (en_db s) \<and> e_rules (en_db t) = e_rules (en_db s)"
proof -
  let ?found = "filter (\<lambda>u. eu_host u = key \<and> eu_org u = org \<and> eu_source u = src) (e_uploads (en_db s))"
  show ?thesis
  proof (cases ?found rule: remdups_adj.cases)
    case 1
    with assms show ?thesis
      by (cases "has_current key src (en_db s)")
         (auto simp: save_upload_def a_bind_Inr query_Inr a_then_Inr eng_statement_Inr add_upload_def)
  next
    case (2 u)
    with assms show ?thesis
      by (auto simp: save_upload_def a_bind_Inr query_Inr a_then_Inr eng_statement_Inr refresh_upload_def)
  next
    case (3 u v us)
    with assms show ?thesis by (simp add: save_upload_def a_bind_Inr query_Inr)
  qed
qed

lemma read_reports_result:
  assumes "read_reports sv st reports key org account upload dvs s = (Inr (uc, acc), t)"
  shows "t = s \<and> (\<exists>rs rids ids. py_iter reports = Inr rs \<and> py_mapM (\<lambda>r. py_item r ''rule_id'') rs = Inr rids \<and>
    final_rule_ids st rids = Inr ids \<and>
    uc = \<lparr>uc_key = key, uc_org = org, uc_account = account, uc_upload = upload, uc_now = eg_now sv,
          uc_ids = ids, uc_reports = dvs, uc_disabled = disabled_rules (en_db s) key org\<rparr> \<and>
    process_reports (en_db s) uc rs no_reports = Inr acc)"
  using assms by (auto simp: read_reports_def eng_inv Let_def)

lemma prepare_upload_result:
  assumes "prepare_upload sv st reports uuid account org_id ty src sat s = (Inr (uc, acc), t)"
  shows "\<exists>rs rids ids. uuid_key sv uuid = Inr (Some (uc_key uc)) \<and> eg_org sv org_id = Some (uc_org uc) \<and>
    py_iter reports = Inr rs \<and> py_mapM (\<lambda>r. py_item r ''rule_id'') rs = Inr rids \<and>
    final_rule_ids st rids = Inr ids \<and> uc_ids uc = ids \<and> uc_account uc = account \<and>
    uc_reports uc = db_report_values (Some (uc_key uc)) (Some (uc_org uc)) (en_db s) \<and>
    process_reports (en_db t) uc rs no_reports = Inr acc \<and>
    e_reports (en_db t) = e_reports (en_db s) \<and> e_rules (en_db t) = e_rules (en_db s)"
proof -
  obtain key' where key': "uuid_key sv uuid = Inr key'"
    using assms by (cases "uuid_key sv uuid") (simp_all add: prepare_upload_def)
  obtain name u key org v upload where u: "upload_source sv src s = (Inr name, u)"
    and k: "key' = Some key" "eg_org sv org_id = Some org"
    and v: "save_upload sv key org name account sat ty u = (Inr upload, v)"
    and r: "read_reports sv st reports key org account upload (db_report_values key' (eg_org sv org_id) (en_db s)) v = (Inr (uc, acc), t)"
    using assms by (auto simp: prepare_upload_def key' eng_inv)
  have u: "e_reports (en_db u) = e_reports (en_db s)" "e_rules (en_db u) = e_rules (en_db s)"
    using u by (auto simp: upload_source_def eng_inv)
  from save_upload_tables [OF v] u read_reports_result [OF r] key' k show ?thesis by auto
qed

section \<open>The host phase keeps rules, reports and uploads\<close>

definition report_tables :: "eng_state \<Rightarrow> eng_rule list \<times> eng_report list \<times> eng_upload list" where
  "report_tables s = (e_rules (en_db s), e_reports (en_db s), e_uploads (en_db s))"

abbreviation "keeps_tables m \<equiv> (\<forall>x. keeps (\<lambda>s. report_tables s = x) m)"

lemma keeps_tables_db_fixed: "eng_db_fixed m \<Longrightarrow> keeps_tables m"
  by (auto simp: eng_db_fixed_def keeps_def report_tables_def)

lemma keeps_tables_statement:
  "(\<And>db. e_rules (f db) = e_rules db \<and> e_reports (f db) = e_reports db \<and> e_uploads (f db) = e_uploads db) \<Longrightarrow>
    keeps (\<lambda>s. report_tables s = x) (eng_statement sv n f)"
  by (auto simp: keeps_def eng_statement_def eng_attempt_def report_tables_def)

lemma keeps_tables_query: "keeps (\<lambda>s. report_tables s = x) (query sv n f)"
  using keeps_tables_db_fixed [OF eng_db_fixed_query] by blast

lemma keeps_tables_required: "keeps (\<lambda>s. report_tables s = x) (required k)"
  by (cases k) (simp_all add: required_def)

lemma keeps_tables_autoacks: "keeps (\<lambda>s. report_tables s = x) (create_autoacks sv st org account)"
  unfolding create_autoacks_def
  by (intro keeps_bind keeps_if keeps_ret keeps_tables_query keeps_tables_required keeps_tables_statement) simp

lemma keeps_tables_create_host: "keeps (\<lambda>s. report_tables s = x) (create_host sv st key account org sat br)"
  unfolding create_host_def
  by (intro keeps_bind keeps_then keeps_if keeps_ret keeps_lift keeps_tables_query keeps_tables_required
        keeps_tables_autoacks keeps_tables_statement) simp

lemma keeps_tables_ensure_host: "keeps (\<lambda>s. report_tables s = x) (ensure_host sv st uuid account org sat br)"
  unfolding ensure_host_def
proof (intro keeps_bind keeps_lift keeps_tables_query)
  fix key found
  show "keeps (\<lambda>s. report_tables s = x) (case found of
      None \<Rightarrow> create_host sv st key account (eg_org sv org) sat br
    | Some h \<Rightarrow> a_bind (a_lift (update_host sv sat br h)) (\<lambda>h'.
        if truthy sat \<or> truthy br then eng_statement sv ''update host'' (save_host h') else a_ret ()))"
  proof (cases found)
    case (Some h)
    show ?thesis
      unfolding Some option.case
      by (intro keeps_bind keeps_lift keeps_if keeps_ret keeps_tables_statement) (simp add: save_host_def)
  qed (simp add: keeps_tables_create_host)
qed

lemma ensure_host_tables:
  "ensure_host sv st uuid account org sat br s = (r, t) \<Longrightarrow> report_tables t = report_tables s"
  using keepsD [OF keeps_tables_ensure_host, of s] by (metis snd_conv)

section \<open>The rows of an upload\<close>

lemma set_insert_by [simp]: "set (insert_by f x xs) = insert x (set xs)"
  by (induction xs) auto

lemma set_order_by [simp]: "set (order_by f xs) = set xs"
  by (induction xs) (auto simp: order_by_def)

lemma find_unique:
  "(\<And>x y. x \<in> set xs \<Longrightarrow> y \<in> set xs \<Longrightarrow> P x \<Longrightarrow> P y \<Longrightarrow> x = y) \<Longrightarrow>
    find P xs = Some x \<longleftrightarrow> x \<in> set xs \<and> P x"
  by (induction xs) auto

text \<open>The constraints the database keeps.\<close>

definition tables_ok :: "eng_db \<Rightarrow> bool" where
  "tables_ok db \<longleftrightarrow> distinct (map ru_pk (e_rules db)) \<and> distinct (map ru_rule_id (e_rules db)) \<and>
     (\<forall>r \<in> set (e_reports db). er_rule r \<in> ru_pk ` set (e_rules db))"

lemma distinct_map_eq: "distinct (map f xs) \<Longrightarrow> x \<in> set xs \<Longrightarrow> y \<in> set xs \<Longrightarrow> f x = f y \<Longrightarrow> x = y"
  by (auto simp: distinct_map inj_on_def)

lemma rule_for_iff:
  assumes "distinct (map ru_rule_id (e_rules db))"
  shows "rule_for db ids rid = Some rule \<longleftrightarrow>
    rule \<in> set (e_rules db) \<and> JStr (ru_rule_id rule) = rid \<and> rid \<in> set ids"
  unfolding rule_for_def
  using distinct_map_eq [OF assms] by (subst find_unique) auto

lemma rule_of_pk_iff:
  assumes "distinct (map ru_pk (e_rules db))"
  shows "rule_of_pk db pk = Some rule \<longleftrightarrow> rule \<in> set (e_rules db) \<and> ru_pk rule = pk"
  unfolding rule_of_pk_def
  using distinct_map_eq [OF assms] by (subst find_unique) auto

lemma set_map_filter_ex: "set (List.map_filter f xs) = {y. \<exists>x \<in> set xs. f x = Some y}"
  by (induction xs) (auto simp: map_filter_simps split: option.split)

lemma db_report_rules:
  assumes "tables_ok db"
  shows "(\<lambda>d. dv_rule d) ` set (db_report_values (Some key) (Some org) db) =
    {rule \<in> set (e_rules db). \<exists>r \<in> set (e_reports db). er_host r = key \<and> er_org r = org \<and> er_rule r = ru_pk rule}"
proof -
  have pk: "distinct (map ru_pk (e_rules db))" using assms by (simp add: tables_ok_def)
  show ?thesis (is "?A = ?B")
  proof (intro equalityI subsetI)
    fix rule assume "rule \<in> ?A"
    then show "rule \<in> ?B"
      by (auto simp: db_report_values_def set_map_filter_ex rule_of_pk_iff [OF pk])
  next
    fix rule assume "rule \<in> ?B"
    then obtain r where r: "rule \<in> set (e_rules db)" "r \<in> set (e_reports db)" "er_host r = key" "er_org r = org"
      "er_rule r = ru_pk rule"
      by auto
    then have "rule_of_pk db (er_rule r) = Some rule" by (simp add: rule_of_pk_iff [OF pk])
    with r have "\<lparr>dv_rule = rule, dv_impacted = er_impacted r\<rparr> \<in> set (db_report_values (Some key) (Some org) db)"
      by (auto simp: db_report_values_def set_map_filter_ex intro!: exI [of _ r])
    then show "rule \<in> ?A" by (metis db_report.select_convs(1) imageI)
  qed
qed

definition matched :: "eng_db \<Rightarrow> upload_context \<Rightarrow> json \<Rightarrow> eng_rule list" where
  "matched db uc r =
     (case py_item r ''rule_id'' of
        Inl _ \<Rightarrow> []
      | Inr rid \<Rightarrow> (case rule_for db (uc_ids uc) rid of None \<Rightarrow> [] | Some rule \<Rightarrow> [rule]))"

definition row_of :: "upload_context \<Rightarrow> eng_report \<Rightarrow> bool" where
  "row_of uc e \<longleftrightarrow> er_host e = uc_key uc \<and> er_org e = uc_org uc \<and> er_account e = uc_account uc"

lemma add_report_result:
  assumes "add_report uc rule details acc0 = Inr acc1"
  shows "list_all (row_of uc) (ra_new acc0) \<longrightarrow> list_all (row_of uc) (ra_new acc1)"
    and "list_all (row_of uc) (ra_existing acc0) \<longrightarrow> list_all (row_of uc) (ra_existing acc1)"
    and "er_rule ` set (ra_new acc1) = er_rule ` set (ra_new acc0) \<union>
        ({ru_pk rule} - (\<lambda>d. ru_pk (dv_rule d)) ` set (uc_reports uc))"
    and "ra_rules acc1 = ra_rules acc0 @ [rule]"
proof -
  define obj where "obj = \<lparr>er_rule = ru_pk rule, er_host = uc_key uc, er_org = uc_org uc, er_account = uc_account uc,
                 er_upload = uc_upload uc, er_details = details, er_impacted = Some (impacted_date uc rule)\<rparr>"
  have obj: "row_of uc obj" "er_rule obj = ru_pk rule" by (simp_all add: obj_def row_of_def)
  obtain counts where acc1: "acc1 = (if ru_pk rule \<in> (\<lambda>d. ru_pk (dv_rule d)) ` set (uc_reports uc)
      then acc0\<lparr>ra_existing := ra_existing acc0 @ [obj]\<rparr> else acc0\<lparr>ra_new := ra_new acc0 @ [obj]\<rparr>)
        \<lparr>ra_counts := counts, ra_rules := ra_rules acc0 @ [rule]\<rparr>"
    using assms by (auto simp: add_report_def Let_def py_bind_eq_Inr obj_def [symmetric])
  show "list_all (row_of uc) (ra_new acc0) \<longrightarrow> list_all (row_of uc) (ra_new acc1)"
    "list_all (row_of uc) (ra_existing acc0) \<longrightarrow> list_all (row_of uc) (ra_existing acc1)"
    "ra_rules acc1 = ra_rules acc0 @ [rule]"
    by (simp_all add: acc1 obj(1))
  show "er_rule ` set (ra_new acc1) = er_rule ` set (ra_new acc0) \<union>
        ({ru_pk rule} - (\<lambda>d. ru_pk (dv_rule d)) ` set (uc_reports uc))"
    by (cases "ru_pk rule \<in> (\<lambda>d. ru_pk (dv_rule d)) ` set (uc_reports uc)")
       (simp_all add: acc1 obj(2) insert_Diff_if)
qed

lemma process_reports_result:
  assumes "process_reports db uc rs acc0 = Inr acc"
    and "list_all (row_of uc) (ra_new acc0)" "list_all (row_of uc) (ra_existing acc0)"
  shows "list_all (row_of uc) (ra_new acc) \<and> list_all (row_of uc) (ra_existing acc) \<and>
    er_rule ` set (ra_new acc) = er_rule ` set (ra_new acc0) \<union>
      (ru_pk ` set (concat (map (matched db uc) rs)) - (\<lambda>d. ru_pk (dv_rule d)) ` set (uc_reports uc)) \<and>
    ra_rules acc = ra_rules acc0 @ concat (map (matched db uc) rs)"
  using assms
proof (induction rs arbitrary: acc0)
  case (Cons r rs)
  obtain acc1 where p: "process_report db uc r acc0 = Inr acc1" "process_reports db uc rs acc1 = Inr acc"
    using Cons.prems(1) by (auto simp: py_bind_eq_Inr)
  obtain rid where rid: "py_item r ''rule_id'' = Inr rid"
    using p(1) by (auto simp: process_report_def py_bind_eq_Inr)
  show ?case
  proof (cases "rule_for db (uc_ids uc) rid")
    case None
    then have "acc1 = acc0" using p(1) rid by (simp add: process_report_def split: if_splits)
    with Cons.IH [OF p(2)] Cons.prems None rid show ?thesis by (simp add: matched_def)
  next
    case (Some rule)
    obtain details where d: "add_report uc rule details acc0 = Inr acc1"
      using p(1) rid Some by (auto simp: process_report_def py_bind_eq_Inr split: if_splits)
    have step: "list_all (row_of uc) (ra_new acc1)" "list_all (row_of uc) (ra_existing acc1)"
      "er_rule ` set (ra_new acc1) = er_rule ` set (ra_new acc0) \<union>
        ({ru_pk rule} - (\<lambda>d. ru_pk (dv_rule d)) ` set (uc_reports uc))"
      "ra_rules acc1 = ra_rules acc0 @ [rule]"
      using add_report_result [OF d] Cons.prems(2,3) by auto
    have "er_rule ` set (ra_new acc) = er_rule ` set (ra_new acc0) \<union>
        ({ru_pk rule} - (\<lambda>d. ru_pk (dv_rule d)) ` set (uc_reports uc)) \<union>
        (ru_pk ` set (concat (map (matched db uc) rs)) - (\<lambda>d. ru_pk (dv_rule d)) ` set (uc_reports uc))"
      using Cons.IH [OF p(2) step(1,2)] unfolding step(3) by blast
    moreover have "matched db uc r = [rule]" using rid Some by (simp add: matched_def)
    ultimately show ?thesis
      using Cons.IH [OF p(2) step(1,2)] step(4) by (simp add: Un_Diff) blast
  qed
qed simp

section \<open>What writing the rows leaves\<close>

lemma a_for_statement:
  "a_for (\<lambda>e. eng_statement sv n (f e)) xs s = (Inr (), t) \<Longrightarrow> en_db t = fold f xs (en_db s)"
  by (induction xs arbitrary: s) (auto simp: a_then_Inr eng_statement_Inr)

definition update_row :: "eng_report \<Rightarrow> eng_report \<Rightarrow> eng_report" where
  "update_row e r =
     (if er_rule r = er_rule e \<and> er_host r = er_host e \<and> er_account r = er_account e \<and> er_org r = er_org e
      then r\<lparr>er_upload := er_upload e, er_details := er_details e, er_impacted := er_impacted e\<rparr> else r)"

lemma update_report_rows:
  "e_reports (update_report e db) = map (update_row e) (e_reports db)" "e_rules (update_report e db) = e_rules db"
  by (simp_all add: update_report_def update_row_def)

lemma fold_update_rows:
  "e_reports (fold update_report es db) = map (fold update_row es) (e_reports db) \<and>
   e_rules (fold update_report es db) = e_rules db"
  by (induction es arbitrary: db) (simp_all add: update_report_rows comp_def)

lemma update_row_key [simp]:
  "er_rule (fold update_row es r) = er_rule r" "er_host (fold update_row es r) = er_host r"
  "er_org (fold update_row es r) = er_org r" "er_account (fold update_row es r) = er_account r"
  by (induction es arbitrary: r) (simp_all add: update_row_def)

lemma update_row_other:
  "list_all (row_of uc) es \<Longrightarrow> \<not> (er_host r = uc_key uc \<and> er_org r = uc_org uc \<and> er_account r = uc_account uc) \<Longrightarrow>
    fold update_row es r = r"
  by (induction es arbitrary: r) (auto simp: update_row_def row_of_def)

lemma write_reports_result:
  assumes "write_reports sv uc acc u = (Inr (), v)"
  shows "e_reports (en_db v) =
    filter (\<lambda>r. \<not> (er_host r = uc_key uc \<and> er_org r = uc_org uc \<and>
        (case rule_of_pk (en_db u) (er_rule r) of None \<Rightarrow> False
         | Some rule \<Rightarrow> ru_rule_id rule \<in> set (filter (\<lambda>i. JStr i \<notin> set (uc_ids uc))
             (map (\<lambda>d. ru_rule_id (dv_rule d)) (uc_reports uc))))))
      (map (fold update_row (ra_existing acc)) (e_reports (en_db u) @ ra_new acc))"
proof -
  obtain w x where w: "insert_reports sv (ra_new acc) u = (Inr (), w)"
    "a_for (\<lambda>e. eng_statement sv ''update report'' (update_report e)) (ra_existing acc) w = (Inr (), x)"
    "eng_statement sv ''delete reports'' (drop_missing_reports uc) x = (Inr (), v)"
    using assms unfolding write_reports_def a_then_Inr by auto
  have wdb: "e_reports (en_db w) = e_reports (en_db u) @ ra_new acc" "e_rules (en_db w) = e_rules (en_db u)"
    using w(1) by (auto simp: insert_reports_def a_bind_app eng_statement_Inr split: if_splits)
  have "en_db x = fold update_report (ra_existing acc) (en_db w)" by (rule a_for_statement [OF w(2)])
  then have xdb: "e_reports (en_db x) = map (fold update_row (ra_existing acc)) (e_reports (en_db w))"
    "e_rules (en_db x) = e_rules (en_db u)"
    using fold_update_rows [of "ra_existing acc" "en_db w"] wdb(2) by simp_all
  have "en_db v = drop_missing_reports uc (en_db x)" using w(3) by (simp add: eng_statement_Inr)
  then show ?thesis
    by (simp add: drop_missing_reports_def Let_def xdb(1) wdb(1) rule_of_pk_def xdb(2))
qed

text \<open>A successful upload, taken apart.\<close>

lemma create_db_reports_success:
  assumes "create_db_reports sv st reports uuid account org_id ty src sat satid br s = (Inr True, t)"
  shows "\<exists>u. report_tables u = report_tables s \<and>
    store_reports sv st reports uuid account org_id ty src (truthy sat) u = (Inr (), t)"
proof -
  let ?s = "s\<lparr>en_storage := dict_set ''db_error'' (JInt 0) (en_storage s)\<rparr>"
  obtain u where "ensure_host sv st uuid account org_id satid br ?s = (Inr (), u)"
    "store_reports sv st reports uuid account org_id ty src (truthy sat) u = (Inr (), t)"
    using assms
    by (auto simp: create_db_reports_def or_fail_def set_value_def a_then_app a_bind_app a_catch_app
        eng_atomic_def log_db_failure_def payload_status_def split: prod.splits sum.splits if_splits)
  with ensure_host_tables show ?thesis by (fastforce simp: report_tables_def)
qed

lemma store_reports_success:
  assumes "store_reports sv st reports uuid account org_id ty src sat s = (Inr (), t)"
  shows "\<exists>uc acc u v. prepare_upload sv st reports uuid account org_id ty src sat s = (Inr (uc, acc), u) \<and>
    write_reports sv uc acc u = (Inr (), v) \<and> en_db t = en_db v"
proof -
  obtain uc acc u v w where p: "prepare_upload sv st reports uuid account org_id ty src sat s = (Inr (uc, acc), u)"
    "write_reports sv uc acc u = (Inr (), v)" "run_hooks sv st uc acc v = (Inr (), w)"
    "announce sv st uuid org_id acc w = (Inr (), t)"
    using assms by (auto simp: store_reports_def a_bind_Inr a_then_Inr)
  have "en_db w = en_db v" "en_db t = en_db w"
    using eng_db_fixedD [OF eng_db_fixed_hooks p(3)] eng_db_fixedD [OF eng_db_fixed_announce p(4)] by simp_all
  with p show ?thesis by auto
qed

section \<open>Properties\<close>

definition host_rows :: "string \<Rightarrow> string \<Rightarrow> eng_db \<Rightarrow> eng_report list" where
  "host_rows key org db = filter (\<lambda>r. er_host r = key \<and> er_org r = org) (e_reports db)"

definition other_rows :: "string \<Rightarrow> string \<Rightarrow> eng_db \<Rightarrow> eng_report list" where
  "other_rows key org db = filter (\<lambda>r. \<not> (er_host r = key \<and> er_org r = org)) (e_reports db)"

lemma matched_rules:
  assumes "distinct (map ru_rule_id (e_rules db))" "py_mapM (\<lambda>r. py_item r ''rule_id'') rs = Inr rids"
    and "uc_ids uc = rids"
  shows "set (concat (map (matched db uc) rs)) = {rule \<in> set (e_rules db). JStr (ru_rule_id rule) \<in> set rids}"
proof -
  have rid: "\<exists>rid \<in> set rids. py_item r ''rule_id'' = Inr rid" if "r \<in> set rs" for r
    using assms(2) that by (induction rs arbitrary: rids) (auto simp: py_bind_eq_Inr)
  have rep: "\<exists>r \<in> set rs. py_item r ''rule_id'' = Inr rid" if "rid \<in> set rids" for rid
    using assms(2) that by (induction rs arbitrary: rids) (auto simp: py_bind_eq_Inr)
  show ?thesis
  proof (intro equalityI subsetI)
    fix rule assume "rule \<in> set (concat (map (matched db uc) rs))"
    then obtain r where r: "r \<in> set rs" "rule \<in> set (matched db uc r)" by auto
    obtain rid' where "rid' \<in> set rids" "py_item r ''rule_id'' = Inr rid'" using rid [OF r(1)] by blast
    with r(2) show "rule \<in> {rule \<in> set (e_rules db). JStr (ru_rule_id rule) \<in> set rids}"
      by (cases "rule_for db (uc_ids uc) rid'") (auto simp: matched_def rule_for_iff [OF assms(1)])
  next
    fix rule assume rule: "rule \<in> {rule \<in> set (e_rules db). JStr (ru_rule_id rule) \<in> set rids}"
    then obtain r where r: "r \<in> set rs" "py_item r ''rule_id'' = Inr (JStr (ru_rule_id rule))"
      using rep by blast
    have "rule_for db (uc_ids uc) (JStr (ru_rule_id rule)) = Some rule"
      using rule by (simp add: rule_for_iff [OF assms(1)] assms(3))
    with r(2) have "rule \<in> set (matched db uc r)" by (simp add: matched_def)
    with r(1) show "rule \<in> set (concat (map (matched db uc) rs))" by auto
  qed
qed

text \<open>The rows the deletion drops: those of reported-no-more rules.\<close>

lemma rule_gone_iff:
  assumes ids: "distinct (map ru_pk (e_rules db))"
    and dv: "\<And>rule. rule \<in> set (e_rules db) \<Longrightarrow> ru_pk rule = pk \<Longrightarrow> JStr (ru_rule_id rule) \<notin> set rids \<Longrightarrow>
      rule \<in> dv_rule ` set dvs"
  shows "(case rule_of_pk db pk of None \<Rightarrow> False
         | Some rule \<Rightarrow> ru_rule_id rule \<in> set (filter (\<lambda>i. JStr i \<notin> set rids) (map (\<lambda>d. ru_rule_id (dv_rule d)) dvs))) \<longleftrightarrow>
      (\<exists>rule \<in> set (e_rules db). ru_pk rule = pk \<and> JStr (ru_rule_id rule) \<notin> set rids)"
proof (cases "rule_of_pk db pk")
  case None
  have "\<not> (\<exists>rule \<in> set (e_rules db). ru_pk rule = pk)"
    using None rule_of_pk_iff [OF ids, of pk] by force
  with None show ?thesis by auto
next
  case (Some rule)
  then have rule: "rule \<in> set (e_rules db)" "ru_pk rule = pk"
    by (simp_all add: rule_of_pk_iff [OF ids])
  have uniq: "rule' = rule" if "rule' \<in> set (e_rules db)" "ru_pk rule' = pk" for rule'
    using distinct_map_eq [OF ids that(1) rule(1)] that(2) rule(2) by simp
  have "ru_rule_id rule \<in> (\<lambda>d. ru_rule_id (dv_rule d)) ` set dvs" if "JStr (ru_rule_id rule) \<notin> set rids"
    using dv [OF rule that] by auto
  moreover have "(\<exists>rule' \<in> set (e_rules db). ru_pk rule' = pk \<and> JStr (ru_rule_id rule') \<notin> set rids) \<longleftrightarrow>
      JStr (ru_rule_id rule) \<notin> set rids"
    using uniq rule by blast
  ultimately show ?thesis unfolding Some option.case by auto
qed

text \<open>What a successful upload without narrowing did, in one place.\<close>

lemma upload_facts:
  assumes "create_db_reports sv st reports uuid account org_id ty src sat satid br s = (Inr True, t)"
    and "py_iter reports = Inr rs" "py_mapM (\<lambda>r. py_item r ''rule_id'') rs = Inr rids"
    and "final_rule_ids st rids = Inr rids"
    and "uuid_key sv uuid = Inr (Some key)" "eg_org sv org_id = Some org" "tables_ok (en_db s)"
  obtains es new where
    "e_reports (en_db t) = filter (\<lambda>r. \<not> (er_host r = key \<and> er_org r = org \<and>
        (\<exists>rule \<in> set (e_rules (en_db s)). ru_pk rule = er_rule r \<and> JStr (ru_rule_id rule) \<notin> set rids)))
      (map (fold update_row es) (e_reports (en_db s) @ new))"
    "\<forall>e \<in> set es. er_host e = key \<and> er_org e = org \<and> er_account e = account"
    "\<forall>e \<in> set new. er_host e = key \<and> er_org e = org \<and> er_account e = account"
    "er_rule ` set new = ru_pk ` {rule \<in> set (e_rules (en_db s)). JStr (ru_rule_id rule) \<in> set rids} -
       er_rule ` {r \<in> set (e_reports (en_db s)). er_host r = key \<and> er_org r = org}"
proof -
  let ?rules = "e_rules (en_db s)"
  obtain u where u: "report_tables u = report_tables s"
    "store_reports sv st reports uuid account org_id ty src (truthy sat) u = (Inr (), t)"
    using create_db_reports_success [OF assms(1)] by blast
  obtain uc acc v w where p: "prepare_upload sv st reports uuid account org_id ty src (truthy sat) u = (Inr (uc, acc), v)"
    "write_reports sv uc acc v = (Inr (), w)" "en_db t = en_db w"
    using store_reports_success [OF u(2)] by blast
  have eu: "e_reports (en_db u) = e_reports (en_db s)" "e_rules (en_db u) = ?rules"
    using u(1) by (simp_all add: report_tables_def)
  have uc: "uc_key uc = key" "uc_org uc = org" "uc_ids uc = rids" "uc_account uc = account"
    "uc_reports uc = db_report_values (Some key) (Some org) (en_db u)"
    "process_reports (en_db v) uc rs no_reports = Inr acc"
    "e_reports (en_db v) = e_reports (en_db s)" "e_rules (en_db v) = ?rules"
    using prepare_upload_result [OF p(1)] assms(2-6) eu by auto
  have ids: "distinct (map ru_pk ?rules)" "distinct (map ru_rule_id ?rules)"
    "\<forall>r \<in> set (e_reports (en_db s)). er_rule r \<in> ru_pk ` set ?rules"
    using assms(7) by (simp_all add: tables_ok_def)
  have oku: "tables_ok (en_db u)" using assms(7) by (simp add: tables_ok_def eu)
  have dv: "dv_rule ` set (uc_reports uc) =
      {rule \<in> set ?rules. \<exists>r \<in> set (e_reports (en_db s)). er_host r = key \<and> er_org r = org \<and> er_rule r = ru_pk rule}"
    using db_report_rules [OF oku, of key org] by (simp add: uc(5) eu)
  have D: "(\<lambda>d. ru_pk (dv_rule d)) ` set (uc_reports uc) =
      er_rule ` {r \<in> set (e_reports (en_db s)). er_host r = key \<and> er_org r = org}"
  proof -
    have "(\<lambda>d. ru_pk (dv_rule d)) ` set (uc_reports uc) = ru_pk ` (dv_rule ` set (uc_reports uc))"
      by (simp add: image_image)
    also have "\<dots> = er_rule ` {r \<in> set (e_reports (en_db s)). er_host r = key \<and> er_org r = org}"
      unfolding dv using ids(3) by force
    finally show ?thesis .
  qed
  have pr: "list_all (row_of uc) (ra_new acc)" "list_all (row_of uc) (ra_existing acc)"
    "er_rule ` set (ra_new acc) = ru_pk ` set (concat (map (matched (en_db v) uc) rs)) -
      (\<lambda>d. ru_pk (dv_rule d)) ` set (uc_reports uc)"
    using process_reports_result [OF uc(6)] by (simp_all add: no_reports_def)
  have mv: "set (concat (map (matched (en_db v) uc) rs)) = {rule \<in> set ?rules. JStr (ru_rule_id rule) \<in> set rids}"
    using matched_rules [of "en_db v" rs rids uc] ids(2) assms(3) uc(3,8) by simp
  have gone: "(case rule_of_pk (en_db v) (er_rule r) of None \<Rightarrow> False
         | Some rule \<Rightarrow> ru_rule_id rule \<in> set (filter (\<lambda>i. JStr i \<notin> set (uc_ids uc))
             (map (\<lambda>d. ru_rule_id (dv_rule d)) (uc_reports uc)))) \<longleftrightarrow>
      (\<exists>rule \<in> set ?rules. ru_pk rule = er_rule r \<and> JStr (ru_rule_id rule) \<notin> set rids)"
    if r: "r \<in> set (map (fold update_row (ra_existing acc)) (e_reports (en_db s) @ ra_new acc))"
      "er_host r = key" "er_org r = org" for r
  proof -
    obtain r0 where r0: "r0 \<in> set (e_reports (en_db s)) \<union> set (ra_new acc)" "r = fold update_row (ra_existing acc) r0"
      using r(1) by auto
    have "rule \<in> dv_rule ` set (uc_reports uc)"
      if rule: "rule \<in> set ?rules" "ru_pk rule = er_rule r" "JStr (ru_rule_id rule) \<notin> set rids" for rule
    proof -
      have "r0 \<notin> set (ra_new acc)"
      proof
        assume "r0 \<in> set (ra_new acc)"
        then have "er_rule r0 \<in> ru_pk ` {rule \<in> set ?rules. JStr (ru_rule_id rule) \<in> set rids}"
          using pr(3) unfolding mv by blast
        then obtain rule' where "rule' \<in> set ?rules" "ru_pk rule' = er_rule r0" "JStr (ru_rule_id rule') \<in> set rids"
          by auto
        with rule r0(2) distinct_map_eq [OF ids(1)] show False by (metis update_row_key(1))
      qed
      with r0 r(2,3) rule(1,2) show ?thesis unfolding dv by auto
    qed
    from rule_gone_iff [where db = "en_db v" and pk = "er_rule r" and rids = rids and dvs = "uc_reports uc",
        unfolded uc(8), OF ids(1) this]
    show ?thesis unfolding uc(3) .
  qed
  show thesis
  proof (rule that [of "ra_existing acc" "ra_new acc"])
    show "e_reports (en_db t) = filter (\<lambda>r. \<not> (er_host r = key \<and> er_org r = org \<and>
        (\<exists>rule \<in> set ?rules. ru_pk rule = er_rule r \<and> JStr (ru_rule_id rule) \<notin> set rids)))
      (map (fold update_row (ra_existing acc)) (e_reports (en_db s) @ ra_new acc))"
      unfolding p(3) write_reports_result [OF p(2)] uc(1,2,7) using gone by (intro filter_cong refl) blast
    show "\<forall>e \<in> set (ra_existing acc). er_host e = key \<and> er_org e = org \<and> er_account e = account"
      "\<forall>e \<in> set (ra_new acc). er_host e = key \<and> er_org e = org \<and> er_account e = account"
      using pr(1,2) uc(1,2,4) by (auto simp: list_all_iff row_of_def)
    show "er_rule ` set (ra_new acc) = ru_pk ` {rule \<in> set ?rules. JStr (ru_rule_id rule) \<in> set rids} -
       er_rule ` {r \<in> set (e_reports (en_db s)). er_host r = key \<and> er_org r = org}"
      unfolding pr(3) mv D ..
  qed
qed

lemma image_cover: "f ` B = N - f ` A \<Longrightarrow> f ` {x \<in> A \<union> B. f x \<in> N} = N"
proof (rule subset_antisym)
  assume B: "f ` B = N - f ` A"
  show "N \<subseteq> f ` {x \<in> A \<union> B. f x \<in> N}"
  proof
    fix y assume y: "y \<in> N"
    have "y \<in> f ` A \<or> y \<in> f ` B" using B y by simp
    then obtain x where "x \<in> A \<union> B" "y = f x" by auto
    with y show "y \<in> f ` {x \<in> A \<union> B. f x \<in> N}" by (intro image_eqI [of _ _ x]) simp_all
  qed
qed auto

text \<open>The rules a successful upload leaves on its host, and the rows of every other host.\<close>

lemma upload_rows:
  assumes "create_db_reports sv st reports uuid account org_id ty src sat satid br s = (Inr True, t)"
    and "py_iter reports = Inr rs" "py_mapM (\<lambda>r. py_item r ''rule_id'') rs = Inr rids"
    and "final_rule_ids st rids = Inr rids"
    and "uuid_key sv uuid = Inr (Some key)" "eg_org sv org_id = Some org" "tables_ok (en_db s)"
  shows "er_rule ` set (host_rows key org (en_db t)) =
      ru_pk ` {rule \<in> set (e_rules (en_db s)). JStr (ru_rule_id rule) \<in> set rids} \<and>
    other_rows key org (en_db t) = other_rows key org (en_db s)"
proof -
  let ?rules = "e_rules (en_db s)"
  let ?named = "{rule \<in> set ?rules. JStr (ru_rule_id rule) \<in> set rids}"
  let ?old = "{r \<in> set (e_reports (en_db s)). er_host r = key \<and> er_org r = org}"
  obtain es new where f: "e_reports (en_db t) = filter (\<lambda>r. \<not> (er_host r = key \<and> er_org r = org \<and>
        (\<exists>rule \<in> set ?rules. ru_pk rule = er_rule r \<and> JStr (ru_rule_id rule) \<notin> set rids)))
      (map (fold update_row es) (e_reports (en_db s) @ new))"
    "\<forall>e \<in> set es. er_host e = key \<and> er_org e = org \<and> er_account e = account"
    "\<forall>e \<in> set new. er_host e = key \<and> er_org e = org \<and> er_account e = account"
    "er_rule ` set new = ru_pk ` ?named - er_rule ` ?old"
    by (rule upload_facts [OF assms])
  have pk: "distinct (map ru_pk ?rules)" and fk: "\<forall>r \<in> set (e_reports (en_db s)). er_rule r \<in> ru_pk ` set ?rules"
    using assms(7) by (simp_all add: tables_ok_def)
  have named: "er_rule r \<in> ru_pk ` ?named \<longleftrightarrow>
      \<not> (\<exists>rule \<in> set ?rules. ru_pk rule = er_rule r \<and> JStr (ru_rule_id rule) \<notin> set rids)"
    if "er_rule r \<in> ru_pk ` set ?rules" for r :: eng_report
    using that distinct_map_eq [OF pk] by (auto simp: image_iff) metis
  have newn: "er_rule r \<in> ru_pk ` ?named" if "r \<in> set new" for r using f(4) that by blast
  have mem: "er_rule r \<in> ru_pk ` set ?rules" if "r \<in> ?old \<union> set new" for r
    using that fk newn [of r] by auto
  have "er_rule ` set (host_rows key org (en_db t)) = er_rule ` {r \<in> ?old \<union> set new. er_rule r \<in> ru_pk ` ?named}"
  proof -
    have "host_rows key org (en_db t) = map (fold update_row es) (filter (\<lambda>r. \<not> (er_host r = key \<and> er_org r = org \<and>
        (\<exists>rule \<in> set ?rules. ru_pk rule = er_rule r \<and> JStr (ru_rule_id rule) \<notin> set rids)) \<and>
        er_host r = key \<and> er_org r = org) (e_reports (en_db s) @ new))"
      unfolding host_rows_def f(1) filter_filter filter_map comp_def update_row_key ..
    then have "set (host_rows key org (en_db t)) = fold update_row es ` {r \<in> set (e_reports (en_db s) @ new).
        \<not> (er_host r = key \<and> er_org r = org \<and>
        (\<exists>rule \<in> set ?rules. ru_pk rule = er_rule r \<and> JStr (ru_rule_id rule) \<notin> set rids)) \<and>
        er_host r = key \<and> er_org r = org}"
      by (simp only: set_map set_filter)
    also have "{r \<in> set (e_reports (en_db s) @ new). \<not> (er_host r = key \<and> er_org r = org \<and>
        (\<exists>rule \<in> set ?rules. ru_pk rule = er_rule r \<and> JStr (ru_rule_id rule) \<notin> set rids)) \<and>
        er_host r = key \<and> er_org r = org} =
      {r \<in> ?old \<union> set new. \<not> (\<exists>rule \<in> set ?rules. ru_pk rule = er_rule r \<and> JStr (ru_rule_id rule) \<notin> set rids)}"
      using f(3) unfolding set_append by blast
    also have "{r \<in> ?old \<union> set new. \<not> (\<exists>rule \<in> set ?rules. ru_pk rule = er_rule r \<and> JStr (ru_rule_id rule) \<notin> set rids)} =
        {r \<in> ?old \<union> set new. er_rule r \<in> ru_pk ` ?named}"
    proof (rule Collect_cong, rule conj_cong [OF refl])
      fix r assume "r \<in> ?old \<union> set new"
      from named [OF mem [OF this]] show "(\<not> (\<exists>rule \<in> set ?rules. ru_pk rule = er_rule r \<and> JStr (ru_rule_id rule) \<notin> set rids))
          = (er_rule r \<in> ru_pk ` ?named)" ..
    qed
    finally have e: "set (host_rows key org (en_db t)) =
      fold update_row es ` {r \<in> ?old \<union> set new. er_rule r \<in> ru_pk ` ?named}" .
    show ?thesis unfolding e image_image update_row_key ..
  qed
  also have "\<dots> = ru_pk ` ?named" by (rule image_cover [OF f(4)])
  finally have 1: "er_rule ` set (host_rows key org (en_db t)) = ru_pk ` ?named" .
  have same: "fold update_row es r = r" if "\<not> (er_host r = key \<and> er_org r = org)" for r
    using f(2) that by (induction es arbitrary: r) (auto simp: update_row_def)
  have "other_rows key org (en_db t) =
      filter (\<lambda>r. \<not> (er_host r = key \<and> er_org r = org)) (map (fold update_row es) (e_reports (en_db s) @ new))"
    unfolding other_rows_def f(1) filter_filter by (rule filter_cong [OF refl]) blast
  also have "\<dots> =
      map (fold update_row es) (filter (\<lambda>r. \<not> (er_host r = key \<and> er_org r = org)) (e_reports (en_db s) @ new))"
    unfolding filter_map comp_def update_row_key ..
  also have "\<dots> = map (fold update_row es) (other_rows key org (en_db s))"
    using f(3) by (simp add: other_rows_def filter_empty_conv)
  also have "\<dots> = other_rows key org (en_db s)"
    by (rule map_idI) (auto simp: other_rows_def intro: same)
  finally show ?thesis using 1 by simp
qed

text \<open>
  The contract of the store: a map from hosts (of an organisation) to the set of rules that impact
  them, and an upload sets the entry of its host.
\<close>

definition impacts :: "eng_db \<Rightarrow> string \<times> string \<Rightarrow> nat set" where
  "impacts db = (\<lambda>(key, org). er_rule ` set (host_rows key org db))"

definition known_rules :: "eng_db \<Rightarrow> json list \<Rightarrow> nat set" where
  "known_rules db rids = ru_pk ` {rule \<in> set (e_rules db). JStr (ru_rule_id rule) \<in> set rids}"

lemma host_rows_other: "(k, p) \<noteq> (key, org) \<Longrightarrow> host_rows k p db = filter (\<lambda>r. er_host r = k \<and> er_org r = p) (other_rows key org db)"
  unfolding host_rows_def other_rows_def filter_filter by (rule filter_cong) auto


text \<open>
  A report filed under another account is not refreshed.  The update of an existing report also
  asks for the upload's account, so when the host's reports were stored under a different one, an
  upload that succeeds leaves each of them that it names exactly as it was: old details, old upload.
\<close>

theorem other_account_report_not_refreshed:
  assumes "create_db_reports sv st reports uuid account org_id ty src sat satid br s = (Inr True, t)"
    and "py_iter reports = Inr rs" "py_mapM (\<lambda>r. py_item r ''rule_id'') rs = Inr rids"
    and "final_rule_ids st rids = Inr rids"
    and "uuid_key sv uuid = Inr (Some key)" "eg_org sv org_id = Some org" "tables_ok (en_db s)"
    and "r \<in> set (e_reports (en_db s))" "er_account r \<noteq> account"
    and "rule \<in> set (e_rules (en_db s))" "ru_pk rule = er_rule r" "JStr (ru_rule_id rule) \<in> set rids"
  shows "r \<in> set (e_reports (en_db t))"
proof -
  obtain es new where f: "e_reports (en_db t) = filter (\<lambda>r. \<not> (er_host r = key \<and> er_org r = org \<and>
        (\<exists>rule \<in> set (e_rules (en_db s)). ru_pk rule = er_rule r \<and> JStr (ru_rule_id rule) \<notin> set rids)))
      (map (fold update_row es) (e_reports (en_db s) @ new))"
    "\<forall>e \<in> set es. er_host e = key \<and> er_org e = org \<and> er_account e = account"
    "\<forall>e \<in> set new. er_host e = key \<and> er_org e = org \<and> er_account e = account"
    "er_rule ` set new = ru_pk ` {rule \<in> set (e_rules (en_db s)). JStr (ru_rule_id rule) \<in> set rids} -
       er_rule ` {r \<in> set (e_reports (en_db s)). er_host r = key \<and> er_org r = org}"
    by (rule upload_facts [OF assms(1-7)])
  have same: "fold update_row es r = r"
    using f(2) assms(9) by (induction es) (auto simp: update_row_def)
  then have "r \<in> set (map (fold update_row es) (e_reports (en_db s) @ new))"
    unfolding set_map using assms(8) by (intro image_eqI [of _ _ r]) simp_all
  moreover have "\<not> (\<exists>rule \<in> set (e_rules (en_db s)). ru_pk rule = er_rule r \<and> JStr (ru_rule_id rule) \<notin> set rids)"
    using assms(10-12) distinct_map_eq [of ru_pk "e_rules (en_db s)"] assms(7) [unfolded tables_ok_def] by metis
  ultimately show ?thesis unfolding f(1) by simp
qed


text \<open>
  C27: an upload that fails changes nothing.  \<open>create_db_reports\<close> never raises: it returns true,
  or it returns false, has marked the thread's \<open>db_error\<close>, and the rules, the reports and
  the uploads are those it started from, wherever in the transaction the failure was.
\<close>

theorem failed_upload_changes_nothing:
  "case create_db_reports sv st reports uuid account org_id ty src sat satid br s of (r, t) \<Rightarrow>
     r = Inr True \<or>
     (r = Inr False \<and> report_tables t = report_tables s \<and> get_value ''db_error'' t = JInt 1)"
proof -
  let ?s = "s\<lparr>en_storage := dict_set ''db_error'' (JInt 0) (en_storage s)\<rparr>"
  have s: "report_tables ?s = report_tables s" by (simp add: report_tables_def)
  have fail: "\<exists>v. log_db_failure sv st m u = (Inr (), v) \<and> report_tables v = report_tables u \<and>
      get_value ''db_error'' v = JInt 1" for m u
    by (simp add: log_db_failure_def set_value_def a_then_app payload_status_def a_bind_app send_def
        report_tables_def get_value_def)
  obtain r1 u where e: "ensure_host sv st uuid account org_id satid br ?s = (r1, u)" by fastforce
  have u: "report_tables u = report_tables s" using ensure_host_tables [OF e] s by simp
  obtain r2 v where a: "eng_atomic (store_reports sv st reports uuid account org_id ty src (truthy sat)) u = (r2, v)"
    by fastforce
  have v: "report_tables v = report_tables u" if "r2 = Inl x" for x
    using a that by (auto simp: eng_atomic_def report_tables_def split: prod.splits sum.splits)
  show ?thesis
  proof (cases r1)
    case (Inl x)
    obtain w where "log_db_failure sv st ''Could not create host'' u = (Inr (), w)"
      "report_tables w = report_tables u" "get_value ''db_error'' w = JInt 1"
      using fail by blast
    with e Inl u show ?thesis
      by (simp add: create_db_reports_def or_fail_def set_value_def a_then_app a_bind_app a_catch_app)
  next
    case host: (Inr x)
    show ?thesis
    proof (cases r2)
      case (Inl y)
      obtain w where "log_db_failure sv st ''Failed to process upload'' v = (Inr (), w)"
        "report_tables w = report_tables v" "get_value ''db_error'' w = JInt 1"
        using fail by blast
      with e host a Inl u v show ?thesis
        by (simp add: create_db_reports_def or_fail_def set_value_def a_then_app a_bind_app a_catch_app)
    next
      case (Inr y)
      with e host a show ?thesis
        by (simp add: create_db_reports_def or_fail_def set_value_def a_then_app a_bind_app a_catch_app)
    qed
  qed
qed

text \<open>
  Automatic acknowledgements skip what any organisation acknowledged.  The first host of an
  organisation without a current upload adds one acknowledgement for each tagged rule that no
  organisation has acknowledged, and none for the others: \<open>ack__isnull\<close> is not limited to
  the organisation, so a second organisation gets no acknowledgement the first already has.
\<close>

theorem autoacks_only_unacknowledged:
  assumes "create_host sv st key account (Some org) satid br s = (Inr (), t)"
    and "\<not> has_current_upload (Some org) (en_db s)"
  shows "e_acks (en_db t) = e_acks (en_db s) @
    map (\<lambda>r. \<lparr>ak_rule = ru_pk r, ak_org = org, ak_account = account\<rparr>)
      (filter (\<lambda>r. es_autoack_tag st \<in> set (ru_tags r) \<and> (\<forall>a \<in> set (e_acks (en_db s)). ak_rule a \<noteq> ru_pk r))
        (e_rules (en_db s)))"
proof -
  have f: "autoack_rules st (en_db s) = filter (\<lambda>r. es_autoack_tag st \<in> set (ru_tags r) \<and>
      (\<forall>a \<in> set (e_acks (en_db s)). ak_rule a \<noteq> ru_pk r)) (e_rules (en_db s))"
    unfolding autoack_rules_def by (rule filter_cong) (auto simp: image_iff)
  obtain u where u: "create_autoacks sv st (Some org) account s = (Inr (), u)" "e_acks (en_db t) = e_acks (en_db u)"
    using assms by (auto simp: create_host_def eng_inv split: if_splits)
  show ?thesis
    unfolding u(2) f [symmetric]
    using u(1) by (cases "autoack_rules st (en_db s) = []") (auto simp: create_autoacks_def eng_inv required_def)
qed

section \<open>An upload, evaluated\<close>

text \<open>
  A database with two rules and a host \<open>h1\<close> of organisation \<open>o1\<close> with a report of
  the first rule, filed under account \<open>a0\<close>, and an upload that names both or the second.
\<close>

definition ex_services :: eng_services where
  "ex_services = \<lparr>eg_uuid = (\<lambda>v. case v of JStr u \<Rightarrow> Some u | _ \<Rightarrow> None),
     eg_org = (\<lambda>v. case v of JStr u \<Rightarrow> Some u | _ \<Rightarrow> None),
     eg_now = 7, eg_date = ''now'', eg_broken = (\<lambda>n i db. False), eg_sends = (\<lambda>t. True), eg_str = (\<lambda>v. []),
     eg_decode = Some, eg_unescape = Some, eg_loads = (\<lambda>b. None)\<rparr>"

definition ex_settings :: eng_settings where
  "ex_settings = \<lparr>es_filter_non_rhel = False, es_non_rhel_ids = [], es_filter_rhel6 = False, es_rhel6_ids = [],
     es_autoack_tag = ''autoack'', es_app_name = ''advisor'', es_url_prefix = ''u'', es_webhooks = True,
     es_remediations = True, es_view = True, es_tracker = True,
     es_db_retries = 3, es_engine_topic = ''engine'', es_hits_topic = ''hits'', es_inventory_topic = ''inventory''\<rparr>"

definition ex_rule :: "nat \<Rightarrow> string \<Rightarrow> eng_rule" where
  "ex_rule pk rid = \<lparr>ru_pk = pk, ru_rule_id = rid, ru_active = True, ru_total_risk = 2, ru_description = rid,
     ru_publish_date = Some ''d'', ru_reboot_required = False, ru_tags = [''autoack'']\<rparr>"

definition ex_report :: eng_report where
  "ex_report = \<lparr>er_rule = 1, er_host = ''h1'', er_org = ''o1'', er_account = JStr ''a0'', er_upload = 1,
     er_details = JNull, er_impacted = Some 3\<rparr>"

definition ex_state :: eng_state where
  "ex_state = \<lparr>en_db = \<lparr>e_rules = [ex_rule 1 ''R1'', ex_rule 2 ''R2''], e_system_types = [(105, ''host'', ''rhel'')],
      e_sources = [''aiops''],
      e_hosts = [\<lparr>eh_id = ''h1'', eh_org = ''o1'', eh_account = JStr ''a0'', eh_satellite_id = None, eh_branch_id = None\<rparr>],
      e_uploads = [], e_reports = [ex_report],
      e_acks = [\<lparr>ak_rule = 1, ak_org = ''o1'', ak_account = JNull\<rparr>], e_hostacks = [],
      e_inventory = [\<lparr>ei_id = ''h1'', ei_org = ''o1'', ei_account = JStr ''a1'', ei_display_name = ''n'',
        ei_rhel_version = ''9'', ei_tags = JNull\<rparr>]\<rparr>,
     en_storage = [], en_sent = [], en_db_errors = 0\<rparr>"

definition ex_hits :: "string list \<Rightarrow> json" where
  "ex_hits ids = JList (map (\<lambda>i. JObj [(''rule_id'', JStr i), (''details'', JInt 5)]) ids)"

definition ex_upload :: "string list \<Rightarrow> bool py \<times> eng_state" where
  "ex_upload ids = create_db_reports ex_services ex_settings (ex_hits ids) (JStr ''h1'') (JStr ''a1'') (JStr ''o1'') 1
     (JStr ''insights-client'') JNull JNull JNull ex_state"

lemma ex_runs: "fst (ex_upload [''R2'']) = Inr True" "fst (ex_upload [''R1'', ''R2'']) = Inr True"
  by code_simp+

lemma ex_tables: "tables_ok (en_db ex_state)"
  by (simp add: tables_ok_def ex_state_def ex_rule_def ex_report_def)

lemma ex_ids:
  "py_iter (ex_hits ids) = Inr (map (\<lambda>i. JObj [(''rule_id'', JStr i), (''details'', JInt 5)]) ids)"
  "py_mapM (\<lambda>r. py_item r ''rule_id'') (map (\<lambda>i. JObj [(''rule_id'', JStr i), (''details'', JInt 5)]) ids) = Inr (map JStr ids)"
  "final_rule_ids ex_settings (map JStr ids) = Inr (map JStr ids)"
  "uuid_key ex_services (JStr u) = Inr (Some u)" "eg_org ex_services (JStr u) = Some u"
  by (simp add: ex_hits_def)
     (induction ids, simp_all add: final_rule_ids_def ex_settings_def uuid_key_def ex_services_def)


theorem other_account_report_not_refreshed_witness:
  "ex_report \<in> set (e_reports (en_db (snd (ex_upload [''R1'', ''R2'']))))"
proof -
  have "create_db_reports ex_services ex_settings (ex_hits [''R1'', ''R2'']) (JStr ''h1'') (JStr ''a1'') (JStr ''o1'') 1
     (JStr ''insights-client'') JNull JNull JNull ex_state = (Inr True, snd (ex_upload [''R1'', ''R2'']))"
    using ex_runs(2) by (metis ex_upload_def prod.collapse)
  from other_account_report_not_refreshed [OF this ex_ids ex_tables, of ex_report "ex_rule 1 ''R1''"] show ?thesis
    by (simp add: ex_state_def ex_rule_def ex_report_def)
qed

text \<open>A first host of organisation \<open>o2\<close>: \<open>R1\<close>, acknowledged by \<open>o1\<close>, is left out.\<close>

theorem autoacks_only_unacknowledged_witness:
  "map ak_rule (filter (\<lambda>a. ak_org a = ''o2'') (e_acks (en_db (snd
     (create_host ex_services ex_settings (Some ''h2'') JNull (Some ''o2'') JNull JNull ex_state))))) = [2]"
proof -
  have run: "create_host ex_services ex_settings (Some ''h2'') JNull (Some ''o2'') JNull JNull ex_state =
      (Inr (), snd (create_host ex_services ex_settings (Some ''h2'') JNull (Some ''o2'') JNull JNull ex_state))"
    by (rule prod_eqI) (code_simp, simp)
  have "\<not> has_current_upload (Some ''o2'') (en_db ex_state)" by (simp add: has_current_upload_def ex_state_def)
  from autoacks_only_unacknowledged [OF run this] show ?thesis
    by (simp add: ex_state_def ex_rule_def ex_settings_def)
qed

end
