(* ===== verification/Engine_Events_Safety.thy ===== *)
theory Engine_Events_Safety
  imports Engine_Events Engine_Safety
begin

text \<open>
  What the handlers of the engine-results service guarantee: every sequence of jobs files each
  report at an upload of its own host and organisation, a delete event removes exactly the host's
  rows when each statement succeeds within its attempts, and one malformed message stops the poll loop.
\<close>

section \<open>Reports and uploads fit together\<close>

text \<open>
  Each report is of an existing rule and refers to an existing upload, which is of the report's host
  and organisation; each upload is of an existing host and source.  No statement checks that the
  host and the organisation of a report are those of its upload.
\<close>

definition upload_at :: "eng_db \<Rightarrow> string \<Rightarrow> string \<Rightarrow> nat \<Rightarrow> bool" where
  "upload_at db key org pk \<longleftrightarrow> (\<exists>u \<in> set (e_uploads db). eu_pk u = pk \<and> eu_host u = key \<and> eu_org u = org)"

definition filed_at :: "eng_db \<Rightarrow> eng_report \<Rightarrow> bool" where
  "filed_at db r \<longleftrightarrow> er_rule r \<in> ru_pk ` set (e_rules db) \<and> upload_at db (er_host r) (er_org r) (er_upload r)"

definition uploads_known :: "eng_db \<Rightarrow> bool" where
  "uploads_known db \<longleftrightarrow> (\<forall>u \<in> set (e_uploads db). eu_host u \<in> eh_id ` set (e_hosts db) \<and> eu_source u \<in> set (e_sources db))"

definition reports_filed :: "eng_db \<Rightarrow> bool" where
  "reports_filed db \<longleftrightarrow> list_all (filed_at db) (e_reports db) \<and> uploads_known db"

abbreviation keeps_filed :: "(eng_state, 'a) act \<Rightarrow> bool" where
  "keeps_filed m \<equiv> keeps (\<lambda>s. reports_filed (en_db s)) m"

lemma keeps_filed_fixed: "eng_db_fixed m \<Longrightarrow> keeps_filed m"
  by (auto simp: eng_db_fixed_def keeps_def)

lemma keeps_filed_attempt: "(\<And>db. reports_filed db \<Longrightarrow> reports_filed (f db)) \<Longrightarrow> keeps_filed (eng_attempt sv n i f)"
  by (auto simp: keeps_def eng_attempt_def)

lemma keeps_filed_statement: "(\<And>db. reports_filed db \<Longrightarrow> reports_filed (f db)) \<Longrightarrow> keeps_filed (eng_statement sv n f)"
  unfolding eng_statement_def by (rule keeps_filed_attempt)

text \<open>A transaction has to end well only when it commits.\<close>

lemma keeps_filed_atomic:
  assumes "\<And>s x t. m s = (Inr x, t) \<Longrightarrow> reports_filed (en_db s) \<Longrightarrow> reports_filed (en_db t)"
  shows "keeps_filed (eng_atomic m)"
  using assms by (auto simp: keeps_def eng_atomic_def split: prod.splits sum.splits)

lemmas keeps_filed_rules = keeps_bind keeps_then keeps_if keeps_ret keeps_raise keeps_lift keeps_get keeps_catch
  keeps_option keeps_sum keeps_prod keeps_for

lemmas keeps_filed_fixeds = keeps_filed_fixed [OF eng_db_fixed_query] keeps_filed_fixed [OF eng_db_fixed_set]
  keeps_filed_fixed [OF eng_db_fixed_status] keeps_filed_fixed [OF eng_db_fixed_failure]
  keeps_filed_fixed [OF eng_db_fixed_hooks] keeps_filed_fixed [OF eng_db_fixed_announce]

lemma upload_at_mono: "set (e_uploads db) \<subseteq> set (e_uploads db') \<Longrightarrow> upload_at db k p n \<Longrightarrow> upload_at db' k p n"
  by (auto simp: upload_at_def)

section \<open>The host of an upload\<close>

lemma keeps_required: "keeps P (required k)"
  by (cases k) (simp_all add: required_def)

lemma reports_filed_hosts:
  "reports_filed db \<Longrightarrow> eh_id ` set (e_hosts db) \<subseteq> eh_id ` set hs \<Longrightarrow> reports_filed (db\<lparr>e_hosts := hs\<rparr>)"
  by (auto simp: reports_filed_def uploads_known_def filed_at_def upload_at_def list_all_iff)

lemma reports_filed_save: "reports_filed db \<Longrightarrow> reports_filed (save_host h db)"
  unfolding save_host_def by (rule reports_filed_hosts) (auto simp: image_iff)

lemma keeps_filed_create_host: "keeps_filed (create_host sv st key account org sat br)"
proof -
  have "reports_filed db \<Longrightarrow> reports_filed (db\<lparr>e_hosts := e_hosts db @ [h]\<rparr>)" for db h
    by (rule reports_filed_hosts) auto
  moreover have "reports_filed db \<Longrightarrow> reports_filed (db\<lparr>e_acks := e_acks db @ acks\<rparr>)" for db acks
    by (simp add: reports_filed_def uploads_known_def filed_at_def [abs_def] upload_at_def)
  ultimately show ?thesis
    unfolding create_host_def create_autoacks_def
    by (intro keeps_filed_rules keeps_filed_fixeds keeps_required keeps_filed_statement)
qed

lemma keeps_filed_ensure_host: "keeps_filed (ensure_host sv st uuid account org sat br)"
  unfolding ensure_host_def
  by (intro keeps_filed_rules keeps_filed_fixeds keeps_filed_create_host keeps_filed_statement reports_filed_save)

section \<open>The upload of the reports\<close>

lemma upload_at_refresh [simp]: "upload_at (refresh_upload sv pk a b ty db) k p n = upload_at db k p n"
proof -
  let ?g = "\<lambda>x. if eu_pk x = pk
    then x\<lparr>eu_account := a, eu_checked_on := eg_now sv, eu_is_satellite := b, eu_system_type := ty\<rparr> else x"
  have "e_uploads (refresh_upload sv pk a b ty db) = map ?g (e_uploads db)" by (simp add: refresh_upload_def)
  then have "upload_at (refresh_upload sv pk a b ty db) k p n \<longleftrightarrow>
      (\<exists>u \<in> set (e_uploads db). eu_pk (?g u) = n \<and> eu_host (?g u) = k \<and> eu_org (?g u) = p)"
    unfolding upload_at_def by (simp only: set_map) blast
  also have "\<dots> \<longleftrightarrow> upload_at db k p n"
    unfolding upload_at_def by (rule bex_cong) simp_all
  finally show ?thesis .
qed

lemma reports_filed_refresh:
  assumes "reports_filed db"
  shows "reports_filed (refresh_upload sv pk a b ty db)"
proof -

  have "uploads_known (refresh_upload sv pk a b ty db)"
    using assms unfolding reports_filed_def uploads_known_def refresh_upload_def by auto
  moreover have "list_all (filed_at (refresh_upload sv pk a b ty db)) (e_reports db)"
    using assms by (simp add: reports_filed_def list_all_iff filed_at_def) (simp add: refresh_upload_def)
  ultimately show ?thesis by (simp add: reports_filed_def) (simp add: refresh_upload_def)
qed

lemma reports_filed_add:
  assumes "reports_filed db" "eu_host u \<in> eh_id ` set (e_hosts db)" "eu_source u \<in> set (e_sources db)"
  shows "reports_filed (add_upload u db)"
  using assms
  by (auto simp: reports_filed_def uploads_known_def filed_at_def upload_at_def add_upload_def list_all_iff)

text \<open>The rows of hosts and sources an upload needs, and what saving it returns.\<close>

lemma save_upload_filed:
  assumes "save_upload sv key org src a sat ty s = (Inr pk, t)"
    and "reports_filed (en_db s)" "key \<in> eh_id ` set (e_hosts (en_db s))" "src \<in> set (e_sources (en_db s))"
  shows "reports_filed (en_db t) \<and> upload_at (en_db t) key org pk"
proof -
  let ?found = "filter (\<lambda>u. eu_host u = key \<and> eu_org u = org \<and> eu_source u = src) (e_uploads (en_db s))"
  show ?thesis
  proof (cases ?found rule: remdups_adj.cases)
    case 1
    let ?u = "\<lparr>eu_pk = pk, eu_host = key, eu_org = org, eu_source = src, eu_account = a, eu_checked_on = eg_now sv,
      eu_is_satellite = sat, eu_system_type = ty, eu_current = True\<rparr>"
    have "en_db t = add_upload ?u (en_db s)"
      using assms(1) 1
      by (auto simp: save_upload_def a_bind_Inr query_Inr a_then_Inr eng_statement_Inr split: if_splits)
    then show ?thesis
      using reports_filed_add [OF assms(2), of ?u] assms(3,4) by (simp add: upload_at_def add_upload_def)
  next
    case (2 u)
    then have "u \<in> set ?found" by simp
    then have u: "u \<in> set (e_uploads (en_db s))" "eu_host u = key" "eu_org u = org" by auto
    have t: "pk = eu_pk u" "en_db t = refresh_upload sv pk a sat ty (en_db s)"
      using assms(1) 2 by (auto simp: save_upload_def a_bind_Inr query_Inr a_then_Inr eng_statement_Inr)
    have "upload_at (en_db t) key org pk"
      unfolding t(2) upload_at_refresh using u t(1) unfolding upload_at_def by blast
    then show ?thesis using reports_filed_refresh [OF assms(2)] t(2) by simp
  next
    case (3 u v us)
    with assms(1) show ?thesis by (simp add: save_upload_def a_bind_Inr query_Inr)
  qed
qed

section \<open>The reports of an upload\<close>

definition files_at :: "upload_context \<Rightarrow> eng_db \<Rightarrow> eng_report \<Rightarrow> bool" where
  "files_at uc db e \<longleftrightarrow> er_host e = uc_key uc \<and> er_org e = uc_org uc \<and> er_upload e = uc_upload uc \<and>
     er_rule e \<in> ru_pk ` set (e_rules db)"

lemma add_report_files:
  assumes "add_report uc rule details acc0 = Inr acc1" "rule \<in> set (e_rules db)"
    and "list_all (files_at uc db) (ra_new acc0)" "list_all (files_at uc db) (ra_existing acc0)"
  shows "list_all (files_at uc db) (ra_new acc1) \<and> list_all (files_at uc db) (ra_existing acc1)"
  using assms by (auto simp: add_report_def Let_def py_bind_eq_Inr files_at_def)

lemma process_reports_files:
  "process_reports db uc rs acc0 = Inr acc \<Longrightarrow> list_all (files_at uc db) (ra_new acc0) \<Longrightarrow>
    list_all (files_at uc db) (ra_existing acc0) \<Longrightarrow>
    list_all (files_at uc db) (ra_new acc) \<and> list_all (files_at uc db) (ra_existing acc)"
proof (induction rs arbitrary: acc0)
  case (Cons r rs)
  obtain acc1 where p: "process_report db uc r acc0 = Inr acc1" "process_reports db uc rs acc1 = Inr acc"
    using Cons.prems(1) by (auto simp: py_bind_eq_Inr)
  obtain rid where rid: "py_item r ''rule_id'' = Inr rid" "hashable rid"
    using p(1) by (auto simp: process_report_def py_bind_eq_Inr split: if_splits)
  show ?case
  proof (cases "rule_for db (uc_ids uc) rid")
    case None
    then have "acc1 = acc0" using p(1) rid by (simp add: process_report_def)
    with Cons.IH [OF p(2)] Cons.prems show ?thesis by simp
  next
    case (Some rule)
    then have rule: "rule \<in> set (e_rules db)" by (auto simp: rule_for_def find_Some_iff)
    obtain details where "add_report uc rule details acc0 = Inr acc1"
      using p(1) rid Some by (auto simp: process_report_def py_bind_eq_Inr)
    from add_report_files [OF this rule Cons.prems(2,3)] Cons.IH [OF p(2)] show ?thesis by blast
  qed
qed simp

lemma update_rows_upload:
  "er_upload (fold update_row es r) = er_upload r \<or>
    (\<exists>e \<in> set es. er_upload (fold update_row es r) = er_upload e \<and> er_host e = er_host r \<and> er_org e = er_org r)"
proof (induction es arbitrary: r)
  case (Cons e es)
  show ?case using Cons.IH [of "update_row e r"] by (auto simp: update_row_def)
qed simp

definition parts :: "eng_db \<Rightarrow> eng_rule list \<times> eng_upload list \<times> eng_host list \<times> string list" where
  "parts db = (e_rules db, e_uploads db, e_hosts db, e_sources db)"

lemma keeps_parts_write: "keeps (\<lambda>s. parts (en_db s) = p) (write_reports sv uc acc)"
proof -
  have "keeps (\<lambda>s. parts (en_db s) = p) (eng_statement sv n f)" if "\<And>db. parts (f db) = parts db" for n f
    using that by (simp add: keeps_def eng_statement_def eng_attempt_def)
  then show ?thesis
    unfolding write_reports_def insert_reports_def
    by (intro keeps_filed_rules) (simp_all add: parts_def update_report_def drop_missing_reports_def Let_def)
qed

lemma write_reports_filed:
  assumes "write_reports sv uc acc s = (Inr (), t)" "reports_filed (en_db s)"
    and "upload_at (en_db s) (uc_key uc) (uc_org uc) (uc_upload uc)"
    and "list_all (files_at uc (en_db s)) (ra_new acc)" "list_all (files_at uc (en_db s)) (ra_existing acc)"
  shows "reports_filed (en_db t)"
proof -
  have "parts (en_db t) = parts (en_db s)"
    using keepsD [OF keeps_parts_write, of s "parts (en_db s)" sv uc acc] assms(1) by simp
  then have same: "e_rules (en_db t) = e_rules (en_db s)" "e_uploads (en_db t) = e_uploads (en_db s)"
    "e_hosts (en_db t) = e_hosts (en_db s)" "e_sources (en_db t) = e_sources (en_db s)"
    by (simp_all add: parts_def)
  have here: "upload_at (en_db t) k p n = upload_at (en_db s) k p n" for k p n
    by (simp add: upload_at_def same)
  have "filed_at (en_db t) r" if r: "r \<in> set (e_reports (en_db t))" for r
  proof -
    obtain r0 where r0: "r0 \<in> set (e_reports (en_db s)) \<union> set (ra_new acc)" "r = fold update_row (ra_existing acc) r0"
      using r unfolding write_reports_result [OF assms(1)] by auto
    have old: "er_rule r0 \<in> ru_pk ` set (e_rules (en_db s)) \<and> upload_at (en_db s) (er_host r0) (er_org r0) (er_upload r0)"
      using r0(1) assms(2-4) by (auto simp: reports_filed_def list_all_iff filed_at_def files_at_def)
    have "upload_at (en_db s) (er_host r0) (er_org r0) (er_upload r)"
      using update_rows_upload [of "ra_existing acc" r0] old assms(3,5) unfolding r0(2)
      by (auto simp: list_all_iff files_at_def)
    then show ?thesis using old unfolding filed_at_def here same(1) r0(2) update_row_key by simp
  qed
  moreover have "uploads_known (en_db t)"
    using assms(2) by (simp add: reports_filed_def uploads_known_def same)
  ultimately show ?thesis by (simp add: reports_filed_def list_all_iff)
qed

lemma prepare_upload_filed:
  assumes "prepare_upload sv st reports uuid account org_id ty src sat s = (Inr (uc, acc), t)"
    and "reports_filed (en_db s)"
  shows "reports_filed (en_db t) \<and> upload_at (en_db t) (uc_key uc) (uc_org uc) (uc_upload uc) \<and>
    list_all (files_at uc (en_db t)) (ra_new acc) \<and> list_all (files_at uc (en_db t)) (ra_existing acc)"
proof -
  obtain key' where key': "uuid_key sv uuid = Inr key'"
    using assms by (cases "uuid_key sv uuid") (simp_all add: prepare_upload_def)
  obtain name u key org v upload where u: "upload_source sv src s = (Inr name, u)"
    and k: "key' = Some key" "eg_org sv org_id = Some org"
    and lock: "list_ex (\<lambda>h. Some (eh_id h) = key') (e_hosts (en_db s))"
    and v: "save_upload sv key org name account sat ty u = (Inr upload, v)"
    and r: "read_reports sv st reports key org account upload (db_report_values key' (eg_org sv org_id) (en_db s)) v = (Inr (uc, acc), t)"
    using assms(1) by (auto simp: prepare_upload_def key' eng_inv)
  have u_db: "en_db u = (if name \<in> set (e_sources (en_db s)) then en_db s
      else (en_db s)\<lparr>e_sources := e_sources (en_db s) @ [name]\<rparr>)"
    using u by (auto simp: upload_source_def eng_inv)
  have "reports_filed (en_db u)" "name \<in> set (e_sources (en_db u))" "e_hosts (en_db u) = e_hosts (en_db s)"
    using assms(2) unfolding u_db
    by (auto simp: reports_filed_def uploads_known_def filed_at_def upload_at_def list_all_iff)
  moreover have "key \<in> eh_id ` set (e_hosts (en_db s))" using lock k(1) by (auto simp: list_ex_iff)
  ultimately have v_ok: "reports_filed (en_db v)" "upload_at (en_db v) key org upload"
    using save_upload_filed [OF v] by simp_all
  from read_reports_result [OF r] obtain rs where "t = v" "uc_key uc = key" "uc_org uc = org" "uc_upload uc = upload"
    "process_reports (en_db v) uc rs no_reports = Inr acc" by auto
  with v_ok process_reports_files [of "en_db v" uc rs no_reports acc] show ?thesis
    by (simp add: no_reports_def)
qed

lemma store_reports_filed:
  assumes "store_reports sv st reports uuid account org_id ty src sat s = (Inr x, t)" "reports_filed (en_db s)"
  shows "reports_filed (en_db t)"
proof -
  obtain uc acc u v where "prepare_upload sv st reports uuid account org_id ty src sat s = (Inr (uc, acc), u)"
    "write_reports sv uc acc u = (Inr (), v)" "en_db t = en_db v"
    using store_reports_success assms(1) by (metis (full_types) old.unit.exhaust)
  with prepare_upload_filed [OF _ assms(2)] write_reports_filed show ?thesis by metis
qed

lemma keeps_filed_create: "keeps_filed (create_db_reports sv st reports uuid account org_id ty src sat satid br)"
  unfolding create_db_reports_def or_fail_def
  by (intro keeps_filed_rules keeps_filed_fixeds keeps_filed_ensure_host keeps_filed_atomic, rule store_reports_filed)

section \<open>Every job files reports at their upload\<close>

lemma eng_db_fixed_clean: "eng_db_fixed clean_threading_cruft"
  by (simp add: eng_db_fixed_def keeps_def clean_threading_cruft_def)

lemma eng_db_fixed_bad_payload: "eng_db_fixed (bad_payload sv st src v msg)"
  unfolding bad_payload_def
  by (auto split: option.split json.split intro!: eng_db_fixed_rules)

lemma eng_db_fixed_note: "eng_db_fixed (note_error n m)"
  unfolding note_error_def by auto

lemmas keeps_filed_notes = keeps_filed_fixed [OF eng_db_fixed_clean] keeps_filed_fixed [OF eng_db_fixed_bad_payload]
  keeps_filed_fixed [OF eng_db_fixed_note] keeps_filed_fixeds

lemma keeps_filed_system_type: "keeps_filed (get_system_type sv role product)"
  unfolding get_system_type_def query_system_type_def on_db_error_def
  by (intro keeps_filed_rules keeps_filed_attempt)

lemma keeps_filed_engine_results: "keeps_filed (handle_engine_results sv st v)"
  unfolding handle_engine_results_def process_results_def Let_def start_processing_def invalid_system_type_def
    finish_results_def bad_engine_payload_def
  by (intro keeps_filed_rules keeps_filed_notes keeps_filed_system_type keeps_filed_create)

lemma keeps_filed_rule_hits: "keeps_filed (handle_rule_hits sv st v)"
  unfolding handle_rule_hits_def store_hits_def start_hits_def reject_hits_def invalid_system_type_def
  by (intro keeps_filed_rules keeps_filed_notes keeps_filed_system_type keeps_filed_create)

lemma keeps_filed_retry: "(\<And>i. keeps_filed (m i)) \<Longrightarrow> keeps_filed (db_retry_loop m is err)"
proof (induction "is" arbitrary: err)
  case (Cons i "is")
  show ?case
  proof (rule keepsI)
    fix s :: eng_state assume "reports_filed (en_db s)"
    then have "reports_filed (en_db (snd (m i s)))" by (rule keepsD [OF Cons.prems])
    moreover have "reports_filed (en_db t) \<Longrightarrow> reports_filed (en_db (snd (db_retry_loop m is (Some DbError) t)))" for t
      using keepsD [OF Cons.IH [OF Cons.prems]] by blast
    ultimately show "reports_filed (en_db (snd (db_retry_loop m (i # is) err s)))"
      by (auto split: prod.splits sum.splits)
  qed
qed simp

text \<open>Deleting a host's current uploads takes the reports filed there with them.\<close>

lemma reports_filed_delete_uploads: "reports_filed db \<Longrightarrow> reports_filed (delete_current_uploads key org db)"
proof -
  let ?gone = "\<lambda>u. Some (eu_host u) = key \<and> Some (eu_org u) = org \<and> eu_current u"
  assume db: "reports_filed db"
  have "filed_at (delete_current_uploads key org db) r"
    if r: "r \<in> set (e_reports (delete_current_uploads key org db))" for r
  proof -
    have r_old: "filed_at db r" "er_upload r \<notin> eu_pk ` {u \<in> set (e_uploads db). ?gone u}"
      using r db by (auto simp: reports_filed_def list_all_iff delete_current_uploads_def)
    then obtain u where u: "u \<in> set (e_uploads db)" "eu_pk u = er_upload r" "eu_host u = er_host r" "eu_org u = er_org r"
      "er_rule r \<in> ru_pk ` set (e_rules db)"
      by (auto simp: filed_at_def upload_at_def)
    have "\<not> ?gone u" using r_old(2) u(1,2) by (metis (mono_tags, lifting) image_eqI mem_Collect_eq)
    then have "u \<in> set (e_uploads (delete_current_uploads key org db))"
      using u(1) by (simp add: delete_current_uploads_def)
    then show ?thesis using u unfolding filed_at_def upload_at_def by (auto simp: delete_current_uploads_def)
  qed
  moreover have "uploads_known (delete_current_uploads key org db)"
    using db by (auto simp: reports_filed_def uploads_known_def delete_current_uploads_def)
  ultimately show ?thesis by (simp add: reports_filed_def list_all_iff)
qed

lemma reports_filed_fewer: "reports_filed db \<Longrightarrow> reports_filed (db\<lparr>e_reports := filter P (e_reports db)\<rparr>)"
  by (auto simp: reports_filed_def uploads_known_def filed_at_def upload_at_def list_all_iff)

lemma reports_filed_hostacks: "reports_filed (db\<lparr>e_hostacks := hs\<rparr>) = reports_filed db"
  by (simp add: reports_filed_def uploads_known_def filed_at_def [abs_def] upload_at_def)

lemma keeps_filed_delete: "(\<And>key org db. reports_filed db \<Longrightarrow> reports_filed (f key org db)) \<Longrightarrow>
    keeps_filed (delete_step sv st info uuid org_id n f)"
  unfolding delete_step_def by (intro keeps_filed_rules keeps_filed_notes keeps_filed_retry keeps_filed_attempt)

lemma keeps_filed_event: "keeps_filed (handle_event sv st v)"
  unfolding handle_event_def handle_delete_def Let_def check_for_keys_def
  by (intro keeps_filed_rules keeps_filed_notes keeps_filed_delete reports_filed_delete_uploads)
     (simp_all add: delete_current_reports_def delete_event_hostacks_def reports_filed_fewer reports_filed_hostacks)

lemma keeps_filed_job: "keeps_filed (run_job sv st j)"
  unfolding run_job_def
  by (cases j) (simp_all add: keeps_then keeps_filed_engine_results keeps_filed_rule_hits keeps_filed_event)

text \<open>
  C28: every sequence of jobs keeps the reports filed at their uploads.  Whatever messages the
  workers handle, in whatever order, and wherever a statement fails or a handler raises: each report is of
  an existing rule and refers to an existing upload of its own host and organisation, and each
  upload is of an existing host and source, if it was so before.  So an upload never refreshes or
  files a report of another host or organisation, one that fails half-way leaves no report at an
  upload that is not there, and a delete event leaves none behind.
\<close>

theorem jobs_file_reports_at_their_upload:
  assumes "reports_filed (en_db s)"
  shows "reports_filed (en_db (snd (work sv st js s)))"
proof -
  have "keeps_filed (work sv st js)"
    unfolding work_def on_thread_done_def by (intro keeps_filed_rules keeps_filed_job)
  from keepsD [OF this assms] show ?thesis .
qed


section \<open>Delete events\<close>

lemma payload_status_ok: "\<exists>u. payload_status sv st a b c s = (Inr (), u) \<and> en_db u = en_db s"
  by (simp add: payload_status_def a_bind_app send_def)

lemma db_retry_loop_attempt:
  assumes "i \<in> set is" "\<not> eg_broken sv n i (en_db s)"
  shows "db_retry_loop (\<lambda>i. a_bind (a_lift (Inr key)) (\<lambda>key. eng_attempt sv n i (f key org))) is err s =
    (Inr (True, None), s\<lparr>en_db := f key org (en_db s)\<rparr>)"
  using assms by (induction "is" arbitrary: err) (auto simp: eng_attempt_def)

lemma delete_step_ok:
  assumes "\<exists>i < es_db_retries st. \<not> eg_broken sv n i (en_db s)"
    and "uuid_key sv uuid = Inr key"
  shows "delete_step sv st info uuid org_id n f s = (Inr (), s\<lparr>en_db := f key (eg_org sv org_id) (en_db s)\<rparr>)"
proof -
  obtain i where "i \<in> set [0..<es_db_retries st]" "\<not> eg_broken sv n i (en_db s)" using assms(1) by auto
  from db_retry_loop_attempt [OF this, where key = key and f = f and org = "eg_org sv org_id" and err = None]
  show ?thesis by (simp add: delete_step_def assms(2) a_bind_app)
qed

lemma delete_keys_present:
  "dict_has d ''id'' \<Longrightarrow> dict_has d ''org_id'' \<Longrightarrow> dict_has d ''request_id'' \<Longrightarrow> dict_has d ''type'' \<Longrightarrow>
    dict_has d ''timestamp'' \<Longrightarrow> check_for_keys sv st (JObj d) s = (Inr (), s)"
  by (simp add: check_for_keys_def missing_keys_def delete_keys_def a_bind_app)

text \<open>
  C29: a delete event removes its host.  When the event names a host and an organisation and each of
  the three statements succeeds within its \<open>DB_RETRY_CONSTANT\<close> attempts, the handler returns; the
  host has no current upload, no report and no acknowledgement left, its earlier uploads stay, and
  the reports of other hosts are the same but for those that referred to a removed upload.
\<close>

theorem delete_event_removes_host:
  assumes "map_of d ''id'' = Some uuid" "map_of d ''org_id'' = Some org_id" "map_of d ''request_id'' = Some rid"
    and "map_of d ''type'' = Some (JStr ''delete'')" "dict_has d ''timestamp''"
    and "uuid_key sv uuid = Inr (Some key)" "eg_org sv org_id = Some org"
    and "\<And>n db. \<exists>i < es_db_retries st. \<not> eg_broken sv n i db"
  shows "\<exists>t. handle_event sv st (JObj d) s = (Inr (), t) \<and>
    e_uploads (en_db t) = filter (\<lambda>u. \<not> (eu_host u = key \<and> eu_org u = org \<and> eu_current u)) (e_uploads (en_db s)) \<and>
    host_rows key org (en_db t) = [] \<and>
    other_rows key org (en_db t) = filter (\<lambda>r. \<not> (\<exists>u \<in> set (e_uploads (en_db s)).
      eu_pk u = er_upload r \<and> eu_host u = key \<and> eu_org u = org \<and> eu_current u)) (other_rows key org (en_db s)) \<and>
    e_hostacks (en_db t) = filter (\<lambda>a. \<not> (hk_host a = key \<and> hk_org a = org)) (e_hostacks (en_db s))"
proof -
  let ?s = "s\<lparr>en_storage := dict_set ''inventory_event_error'' (JInt 0) []\<rparr>"
  let ?info = "[(''request_id'', rid), (''inventory_id'', uuid), (''account'', case map_of d ''account'' of None \<Rightarrow> JNull | Some v \<Rightarrow> v),
    (''org_id'', org_id), (''source'', JStr ''inventory'')]"
  let ?del = "delete_event_hostacks (Some key) (Some org) (delete_current_reports (Some key) (Some org)
    (delete_current_uploads (Some key) (Some org) (en_db s)))"
  obtain u where u: "payload_status sv st ''received'' ''Received DELETE event from Inventory.'' ?info ?s = (Inr (), u)"
    "en_db u = en_db s"
    using payload_status_ok [of sv st _ _ ?info ?s] by auto
  obtain t where t: "payload_status sv st ''success'' ''Succesfully DELETED records'' ?info (u\<lparr>en_db := ?del\<rparr>) = (Inr (), t)"
    "en_db t = ?del"
    using payload_status_ok [of sv st _ _ ?info "u\<lparr>en_db := ?del\<rparr>"] by auto
  have info: "event_info (JObj d) = Inr ?info" using assms(1-3) by (simp add: event_info_def)
  have keys: "dict_has d ''id''" "dict_has d ''org_id''" "dict_has d ''request_id''" "dict_has d ''type''"
    using assms(1-4) by (simp_all add: dict_has_def)
  have "handle_delete sv st (JObj d) ?s = (Inr (), t)"
    using u t(1) by (simp add: handle_delete_def a_then_app a_bind_app delete_keys_present keys assms(5) info get_if_def
        delete_step_ok [OF assms(8) assms(6)] assms(7))
  then have run: "handle_event sv st (JObj d) s = (Inr (), t)"
    using assms(4) by (simp add: handle_event_def a_then_app a_bind_app clean_threading_cruft_def set_value_def)
  have "e_uploads (en_db t) = filter (\<lambda>u. \<not> (eu_host u = key \<and> eu_org u = org \<and> eu_current u)) (e_uploads (en_db s))"
    unfolding t(2) by (auto simp: delete_event_hostacks_def delete_current_reports_def delete_current_uploads_def intro: filter_cong)
  moreover have "host_rows key org (en_db t) = []"
    unfolding t(2) by (simp add: host_rows_def delete_event_hostacks_def delete_current_reports_def filter_empty_conv)
  moreover have "other_rows key org (en_db t) = filter (\<lambda>r. \<not> (\<exists>u \<in> set (e_uploads (en_db s)).
      eu_pk u = er_upload r \<and> eu_host u = key \<and> eu_org u = org \<and> eu_current u)) (other_rows key org (en_db s))"
    unfolding t(2) other_rows_def delete_event_hostacks_def delete_current_reports_def delete_current_uploads_def Let_def
    by (auto intro!: filter_cong simp: image_iff)
  moreover have "e_hostacks (en_db t) = filter (\<lambda>a. \<not> (hk_host a = key \<and> hk_org a = org)) (e_hostacks (en_db s))"
    unfolding t(2) by (simp add: delete_event_hostacks_def delete_current_reports_def delete_current_uploads_def)
  ultimately show ?thesis using run by blast
qed

section \<open>The poll loop\<close>

text \<open>
  One rule-hits message stops the service.  A message on the rule-hits topic whose JSON is a
  number other than zero passes the decoder, and looking for its keys raises \<open>TypeError\<close> outside
  every handler: the loop ends there, so no job is submitted for any message behind it.
\<close>

theorem number_stops_poll_loop:
  assumes "decode_message sv (Some body) = Some v" "py_num v = Some n" "truthy v"
    and "es_hits_topic st \<noteq> es_engine_topic st"
    and "poll_loop sv st ps s = (Inr js, t)"
  shows "poll_loop sv st (ps @ Polled (es_hits_topic st) (Some body) # qs) s = (Inl TypeError, t)"
  using assms(5)
proof (induction ps arbitrary: s js)
  case Nil
  have "copy_keys [''inventory_id'', ''source'', ''account'', ''org_id''] v info = Inl TypeError" for info
    using assms(2) by (cases v) simp_all
  with Nil assms(1,3,4) show ?case
    by (simp add: handle_polled_def when_topic_def on_hits_topic_def a_bind_app)
next
  case (Cons p ps)
  then obtain js1 js2 u where "handle_polled sv st p s = (Inr js1, u)" "poll_loop sv st ps u = (Inr js2, t)"
    by (auto simp: a_bind_Inr)
  with Cons.IH [of u js2] show ?case by (simp add: a_bind_app)
qed


section \<open>Jobs, evaluated\<close>

definition ex_event :: "(string \<times> json) list" where
  "ex_event = [(''id'', JStr ''h1''), (''org_id'', JStr ''o1''), (''request_id'', JStr ''r''),
     (''type'', JStr ''delete''), (''timestamp'', JStr ''now'')]"

text \<open>Every first attempt fails.\<close>

definition ex_flaky :: eng_services where
  "ex_flaky = ex_services\<lparr>eg_broken := \<lambda>n i db. i = 0, eg_loads := \<lambda>b. if b = ''5'' then Some (JInt 5) else None\<rparr>"

text \<open>
  The report of \<open>R1\<close> is filed at the upload of source \<open>aiops\<close>; an upload of another source names
  both rules, and one message is malformed.
\<close>

definition ex_filed :: eng_state where
  "ex_filed = ex_state\<lparr>en_db := (en_db ex_state)\<lparr>e_uploads :=
     [\<lparr>eu_pk = 1, eu_host = ''h1'', eu_org = ''o1'', eu_source = ''aiops'', eu_account = JStr ''a0'', eu_checked_on = 1,
       eu_is_satellite = False, eu_system_type = 105, eu_current = True\<rparr>]\<rparr>\<rparr>"

definition ex_message :: json where
  "ex_message = JObj [(''org_id'', JStr ''o1''), (''source'', JStr ''insights-client''), (''host_product'', JStr ''rhel''),
     (''host_role'', JStr ''host''), (''inventory_id'', JStr ''h1''), (''account'', JStr ''a0''),
     (''hits'', ex_hits [''R1'', ''R2''])]"

lemma ex_filed_run:
  "map (\<lambda>r. (er_rule r, er_upload r, er_host r, er_org r)) (e_reports (en_db (snd (work ex_services ex_settings
     [Rule_hits (JInt 5), Rule_hits ex_message] ex_filed)))) = [(1, 2, ''h1'', ''o1''), (2, 2, ''h1'', ''o1'')]"
  by code_simp

theorem jobs_file_reports_at_their_upload_witness:
  "\<exists>u \<in> set (e_uploads (en_db (snd (work ex_services ex_settings [Rule_hits (JInt 5), Rule_hits ex_message] ex_filed)))).
     eu_pk u = 2 \<and> eu_host u = ''h1'' \<and> eu_org u = ''o1''"
proof -
  let ?t = "snd (work ex_services ex_settings [Rule_hits (JInt 5), Rule_hits ex_message] ex_filed)"
  have "reports_filed (en_db ex_filed)"
    by (simp add: reports_filed_def uploads_known_def filed_at_def upload_at_def ex_filed_def ex_state_def ex_report_def ex_rule_def)
  from jobs_file_reports_at_their_upload [OF this]
  have filed: "reports_filed (en_db ?t)" .
  obtain r rs where rows: "e_reports (en_db ?t) = r # rs" "er_upload r = 2" "er_host r = ''h1''" "er_org r = ''o1''"
    using ex_filed_run unfolding map_eq_Cons_conv by auto
  have "filed_at (en_db ?t) r" using filed unfolding reports_filed_def rows(1) by simp
  then show ?thesis unfolding filed_at_def upload_at_def rows(2-4) by blast
qed

theorem delete_event_removes_host_witness:
  "\<exists>t. handle_event ex_flaky ex_settings (JObj ex_event) ex_state = (Inr (), t) \<and> host_rows ''h1'' ''o1'' (en_db t) = []"
proof -
  have "\<exists>i < es_db_retries ex_settings. \<not> eg_broken ex_flaky n i db" for n db
    by (rule exI [of _ 1]) (simp add: ex_flaky_def ex_settings_def)
  then show ?thesis
    using delete_event_removes_host [of ex_event "JStr ''h1''" "JStr ''o1''" "JStr ''r''" ex_flaky "''h1''" "''o1''" ex_settings ex_state]
    by (auto simp: ex_event_def ex_flaky_def ex_services_def uuid_key_def)
qed

theorem number_stops_poll_loop_witness:
  "fst (poll_loop ex_flaky ex_settings [Nothing, Polled ''hits'' (Some ''5''), Polled ''engine'' (Some ''{}'')] ex_state) = Inl TypeError"
  using number_stops_poll_loop [of ex_flaky "''5''" "JInt 5" 5 ex_settings "[Nothing]" ex_state "[]" ex_state
      "[Polled ''engine'' (Some ''{}'')]"]
  by (simp add: ex_flaky_def ex_services_def ex_settings_def handle_polled_def a_bind_app decode_message_def strip_char_def)

end
