(* ===== verification/Worker_Pool.thy ===== *)
theory Worker_Pool
  imports Adv_Prelude
begin

text \<open>
  The bounded thread pool of the engine-results service (\<open>service/bounded_executor.py\<close>) as a
  step relation: the submitting thread, the worker threads of the \<open>ThreadPoolExecutor\<close> with its
  first-in first-out queue, and the semaphore the two share.  Jobs are numbered as they are submitted.
\<close>

section \<open>Model\<close>

text \<open>
  Where the submitting thread is: before \<open>acquire\<close>, after it, after the executor took the job
  and before the done callback is registered, or there with a job that has already finished.
\<close>

datatype submission =
    Ready
  | Acquired nat
  | Handed nat
  | Finished_early nat

record pool =
  po_permits :: nat
  po_submitting :: submission
  po_next :: nat
  po_queue :: "nat list"
  po_running :: "nat list"

definition new_pool :: "nat \<Rightarrow> nat \<Rightarrow> pool" where
  "new_pool bound workers =
     \<lparr>po_permits = bound + workers, po_submitting = Ready, po_next = 0, po_queue = [], po_running = []\<rparr>"

text \<open>The worker threads: take the oldest job, or finish one and run its done callback.\<close>

inductive worker_step :: "nat \<Rightarrow> pool \<Rightarrow> pool \<Rightarrow> bool" for workers :: nat where
  start: "po_queue p = j # q \<Longrightarrow> length (po_running p) < workers \<Longrightarrow>
     worker_step workers p (p\<lparr>po_queue := q, po_running := po_running p @ [j]\<rparr>)"
| finish: "j \<in> set (po_running p) \<Longrightarrow> po_submitting p \<noteq> Handed j \<Longrightarrow>
     worker_step workers p (p\<lparr>po_running := remove1 j (po_running p), po_permits := po_permits p + 1\<rparr>)"
| finish_early: "j \<in> set (po_running p) \<Longrightarrow> po_submitting p = Handed j \<Longrightarrow>
     worker_step workers p (p\<lparr>po_running := remove1 j (po_running p), po_submitting := Finished_early j\<rparr>)"

text \<open>
  \<open>submit\<close>: acquire, hand the job over (or release and re-raise when the executor refuses it), and
  register the callback, which runs at once when the job is done.
\<close>

inductive submit_step :: "pool \<Rightarrow> pool \<Rightarrow> bool" where
  acquire: "po_submitting p = Ready \<Longrightarrow> 0 < po_permits p \<Longrightarrow>
     submit_step p (p\<lparr>po_permits := po_permits p - 1, po_submitting := Acquired (po_next p),
                      po_next := Suc (po_next p)\<rparr>)"
| refuse: "po_submitting p = Acquired j \<Longrightarrow>
     submit_step p (p\<lparr>po_submitting := Ready, po_permits := po_permits p + 1\<rparr>)"
| enqueue: "po_submitting p = Acquired j \<Longrightarrow>
     submit_step p (p\<lparr>po_submitting := Handed j, po_queue := po_queue p @ [j]\<rparr>)"
| register: "po_submitting p = Handed j \<Longrightarrow> submit_step p (p\<lparr>po_submitting := Ready\<rparr>)"
| register_done: "po_submitting p = Finished_early j \<Longrightarrow>
     submit_step p (p\<lparr>po_submitting := Ready, po_permits := po_permits p + 1\<rparr>)"

inductive pool_reachable :: "nat \<Rightarrow> nat \<Rightarrow> pool \<Rightarrow> bool" for bound :: nat and workers :: nat where
  new: "pool_reachable bound workers (new_pool bound workers)"
| submits: "pool_reachable bound workers p \<Longrightarrow> submit_step p p' \<Longrightarrow> pool_reachable bound workers p'"
| works: "pool_reachable bound workers p \<Longrightarrow> worker_step workers p p' \<Longrightarrow> pool_reachable bound workers p'"

inductive_cases worker_stepE: "worker_step w p p'"
inductive_cases submit_stepE: "submit_step p p'"

section \<open>The invariant\<close>

definition in_hand :: "submission \<Rightarrow> nat" where
  "in_hand s = (case s of Acquired j \<Rightarrow> 1 | Finished_early j \<Rightarrow> 1 | _ \<Rightarrow> 0)"

definition pool_inv :: "nat \<Rightarrow> nat \<Rightarrow> pool \<Rightarrow> bool" where
  "pool_inv bound workers p \<longleftrightarrow>
     po_permits p + length (po_queue p) + length (po_running p) + in_hand (po_submitting p) = bound + workers \<and>
     length (po_running p) \<le> workers"

lemma pool_inv_new: "pool_inv b w (new_pool b w)"
  by (simp add: pool_inv_def new_pool_def in_hand_def)

lemma pool_inv_submit: "submit_step p p' \<Longrightarrow> pool_inv b w p \<Longrightarrow> pool_inv b w p'"
  by (erule submit_stepE) (auto simp: pool_inv_def in_hand_def)

lemma length_remove1_Suc: "j \<in> set xs \<Longrightarrow> \<exists>k. length xs = Suc k \<and> length (remove1 j xs) = k"
  by (cases "length xs") (auto simp: length_remove1)

lemma pool_inv_worker: "worker_step w p p' \<Longrightarrow> pool_inv b w p \<Longrightarrow> pool_inv b w p'"
proof (induction rule: worker_step.induct)
  case (start p j q)
  then show ?case by (auto simp: pool_inv_def split: submission.splits)
next
  case (finish j p)
  obtain k where "length (po_running p) = Suc k" "length (remove1 j (po_running p)) = k"
    using length_remove1_Suc [OF finish(1)] by blast
  with finish show ?case by (auto simp: pool_inv_def split: submission.splits)
next
  case (finish_early j p)
  obtain k where "length (po_running p) = Suc k" "length (remove1 j (po_running p)) = k"
    using length_remove1_Suc [OF finish_early(1)] by blast
  with finish_early show ?case by (auto simp: pool_inv_def in_hand_def)
qed

lemma reachable_pool_inv: "pool_reachable b w p \<Longrightarrow> pool_inv b w p"
  by (induction rule: pool_reachable.induct) (auto intro: pool_inv_new pool_inv_submit pool_inv_worker)

section \<open>Properties\<close>

text \<open>
  C30: the pool never holds more jobs than its bound.  In every reachable state at most
  \<open>bound + max_workers\<close> jobs are queued or running, at most \<open>max_workers\<close> run, and the
  semaphore never exceeds its initial value, so no release raises.
\<close>

theorem pool_bounded:
  assumes "pool_reachable bound workers p"
  shows "length (po_queue p) + length (po_running p) \<le> bound + workers \<and>
    length (po_running p) \<le> workers \<and> po_permits p \<le> bound + workers"
  using reachable_pool_inv [OF assms] by (auto simp: pool_inv_def)

text \<open>
  C31: a submission waits exactly when the pool is full.  In every reachable state in which no
  submission is under way, whatever jobs finished, raised or were refused before, \<open>submit\<close> can go on
  if and only if fewer than \<open>bound + max_workers\<close> jobs are queued or running; and a submission the
  executor refuses leaves the pool as it was.
\<close>

theorem submission_waits_only_when_full:
  assumes "pool_reachable bound workers p" "po_submitting p = Ready"
  shows "((\<exists>p'. submit_step p p') \<longleftrightarrow> length (po_queue p) + length (po_running p) < bound + workers) \<and>
    (\<forall>p1 p2. submit_step p p1 \<longrightarrow> submit_step p1 p2 \<longrightarrow> po_submitting p2 = Ready \<longrightarrow>
      p2 = p\<lparr>po_next := Suc (po_next p)\<rparr>)"
proof
  have "po_permits p + length (po_queue p) + length (po_running p) = bound + workers"
    using reachable_pool_inv [OF assms(1)] assms(2) by (simp add: pool_inv_def in_hand_def)
  then have "0 < po_permits p \<longleftrightarrow> length (po_queue p) + length (po_running p) < bound + workers" by auto
  moreover have "(\<exists>p'. submit_step p p') \<longleftrightarrow> 0 < po_permits p"
    using assms(2) by (auto elim!: submit_stepE intro!: exI submit_step.acquire)
  ultimately show "(\<exists>p'. submit_step p p') \<longleftrightarrow> length (po_queue p) + length (po_running p) < bound + workers"
    by simp
  show "\<forall>p1 p2. submit_step p p1 \<longrightarrow> submit_step p1 p2 \<longrightarrow> po_submitting p2 = Ready \<longrightarrow>
      p2 = p\<lparr>po_next := Suc (po_next p)\<rparr>"
    using assms(2) by (auto elim!: submit_stepE)
qed

text \<open>A run of worker steps, with its length.\<close>

inductive worker_run :: "nat \<Rightarrow> pool \<Rightarrow> nat \<Rightarrow> pool \<Rightarrow> bool" for workers :: nat where
  halt: "worker_run workers p 0 p"
| more: "worker_step workers p p' \<Longrightarrow> worker_run workers p' n q \<Longrightarrow> worker_run workers p (Suc n) q"

definition todo :: "pool \<Rightarrow> nat" where
  "todo p = 2 * length (po_queue p) + length (po_running p)"

lemma worker_step_todo: "worker_step w p p' \<Longrightarrow> todo p = Suc (todo p')"
  by (induction rule: worker_step.induct) (auto simp: todo_def dest: length_remove1_Suc)

lemma worker_run_todo: "worker_run w p n q \<Longrightarrow> todo p = n + todo q"
  by (induction rule: worker_run.induct) (auto dest: worker_step_todo)

lemma worker_progress: "0 < w \<Longrightarrow> 0 < todo p \<Longrightarrow> \<exists>p'. worker_step w p p'"
proof (cases "po_running p")
  case Nil
  assume "0 < w" "0 < todo p"
  with Nil obtain j q where "po_queue p = j # q" by (cases "po_queue p") (auto simp: todo_def)
  with Nil \<open>0 < w\<close> show ?thesis using worker_step.start [of p j q w] by auto
next
  case (Cons j r)
  then show ?thesis
    by (cases "po_submitting p = Handed j") (auto intro!: exI worker_step.finish worker_step.finish_early)
qed

lemma worker_run_exists: "0 < w \<Longrightarrow> \<exists>q. worker_run w p (todo p) q"
proof (induction "todo p" arbitrary: p)
  case 0
  then show ?case by (auto intro: worker_run.halt)
next
  case (Suc n)
  then obtain p' where p': "worker_step w p p'" using worker_progress [of w p] by auto
  with worker_step_todo [OF p'] Suc obtain q where "worker_run w p' (todo p') q" by auto
  with p' worker_step_todo [OF p'] show ?case by (auto intro: worker_run.more)
qed

lemma worker_run_reachable: "worker_run w p n q \<Longrightarrow> pool_reachable b w p \<Longrightarrow> pool_reachable b w q"
  by (induction rule: worker_run.induct) (auto intro: pool_reachable.works)

text \<open>
  C32: a blocked submission is released.  With at least one worker, from every reachable state in
  which \<open>submit\<close> waits on the semaphore the workers can always move while a job is left, every
  run of them is at most two steps per queued job and one per running job long, and one that goes on
  until nothing is left returns every permit.
\<close>

theorem pool_drains:
  assumes "pool_reachable bound workers p" "po_submitting p = Ready" "0 < workers"
  shows "(\<exists>q. worker_run workers p (todo p) q) \<and>
    (\<forall>n q. worker_run workers p n q \<longrightarrow> n \<le> todo p \<and>
      (n < todo p \<longrightarrow> (\<exists>q'. worker_step workers q q')) \<and>
      (n = todo p \<longrightarrow> po_queue q = [] \<and> po_running q = [] \<and> po_permits q = bound + workers))"
proof (intro conjI allI impI worker_run_exists [OF assms(3)])
  fix n q assume run: "worker_run workers p n q"
  have ready: "po_submitting q = Ready"
    using run assms(2) by (induction rule: worker_run.induct) (auto elim!: worker_stepE)
  have todo: "todo p = n + todo q" by (rule worker_run_todo [OF run])
  have inv: "pool_inv bound workers q"
    by (rule reachable_pool_inv [OF worker_run_reachable [OF run assms(1)]])
  show "n \<le> todo p" using todo by simp
  show "\<exists>q'. worker_step workers q q'" if "n < todo p"
    using worker_progress [OF assms(3), of q] todo that by simp
  assume "n = todo p"
  then have e: "po_queue q = []" "po_running q = []" using todo by (auto simp: todo_def)
  then show "po_queue q = []" "po_running q = []" by simp_all
  show "po_permits q = bound + workers" using inv ready e by (simp add: pool_inv_def in_hand_def)
qed

section \<open>A run, evaluated\<close>

text \<open>One worker, no queue: a job is submitted and started; the next submission has to wait.\<close>

definition ex_pool :: pool where
  "ex_pool = \<lparr>po_permits = 0, po_submitting = Ready, po_next = 1, po_queue = [], po_running = [0]\<rparr>"

lemma ex_pool_reachable: "pool_reachable 0 1 ex_pool"
proof -
  let ?p0 = "new_pool 0 1"
  let ?p1 = "?p0\<lparr>po_permits := 0, po_submitting := Acquired 0, po_next := 1\<rparr>"
  let ?p2 = "?p1\<lparr>po_submitting := Handed 0, po_queue := [0]\<rparr>"
  let ?p3 = "?p2\<lparr>po_submitting := Ready\<rparr>"
  have 1: "pool_reachable 0 1 ?p1"
    using pool_reachable.submits [OF pool_reachable.new submit_step.acquire, of 0 1] by (simp add: new_pool_def)
  have 2: "pool_reachable 0 1 ?p2"
    using pool_reachable.submits [OF 1 submit_step.enqueue, of 0] by (simp add: new_pool_def)
  have 3: "pool_reachable 0 1 ?p3"
    using pool_reachable.submits [OF 2 submit_step.register, of 0] by (simp add: new_pool_def)
  show ?thesis
    using pool_reachable.works [OF 3 worker_step.start, of 0 "[]"] by (simp add: new_pool_def ex_pool_def)
qed

theorem pool_bounded_witness: "length (po_running ex_pool) \<le> 1 \<and> po_permits ex_pool \<le> 1"
  using pool_bounded [OF ex_pool_reachable] by simp

theorem submission_waits_only_when_full_witness:
  "\<not> (\<exists>p'. submit_step ex_pool p') \<and> (\<exists>p'. submit_step (new_pool 0 1) p')"
proof -
  have "po_submitting ex_pool = Ready" "po_submitting (new_pool 0 1) = Ready" by (simp_all add: ex_pool_def new_pool_def)
  with submission_waits_only_when_full [OF ex_pool_reachable] submission_waits_only_when_full [OF pool_reachable.new [of 0 1]]
  show ?thesis by (simp add: ex_pool_def new_pool_def)
qed

theorem pool_drains_witness: "\<exists>q. worker_run 1 ex_pool 1 q"
  using pool_drains [OF ex_pool_reachable] by (simp add: ex_pool_def todo_def)

end
