(* ===== verification/Tasks_Service.thy ===== *)
theory Tasks_Service
  imports Http_Retry
begin

text \<open>
  The Tasks application: its rows (\<open>tasks/models.py\<close>), the handlers of the tasks service
  (\<open>tasks/management/commands/tasks_service.py\<close>) that follow the Playbook Dispatcher and the
  uploads of scripts, and the two commands that time jobs out and recompute the state of executed
  tasks.  Log lines of the process are left out; the log lines of a job are rows and are kept.
\<close>

section \<open>Rows\<close>

datatype task_status = TRunning | TCompleted | TErrors | TFailure | TCancelled

datatype job_status = JRunning | JSuccess | JFailure | JTimeout | JCancelled

datatype task_type = ANSIBLE | SCRIPT

record task_param =
  tp_id :: nat
  tp_key :: string
  tp_required :: bool
  tp_default :: "string option"
  tp_values :: "string list"
  tp_multi :: bool
  tp_title :: string
  tp_description :: string
  tp_index :: int

record task_row =
  tt_id :: nat
  tt_slug :: string
  tt_title :: string
  tt_type :: task_type
  tt_timeout :: int
  tt_active :: bool
  tt_params :: "task_param list"
  tt_filters :: "string list"
  tt_description :: string
  tt_publish :: int
  tt_playbook :: string
  tt_message :: "string option"

record extask =
  xt_id :: nat
  xt_name :: string
  xt_task :: nat
  xt_org :: string
  xt_user :: string
  xt_admin :: json
  xt_start :: int
  xt_end :: "int option"
  xt_status :: task_status
  xt_token :: string

record job_row =
  jb_id :: nat
  jb_extask :: nat
  jb_system :: string
  jb_status :: job_status
  jb_stdout :: string
  jb_results :: json
  jb_updated :: int
  jb_run :: string
  jb_rhc :: "string option"

record job_log =
  jl_job :: nat
  jl_ok :: bool
  jl_line :: string

record task_host =
  th_id :: string
  th_org :: string
  th_name :: string
  th_rhc :: "string option"
  th_tags :: "(string \<times> string \<times> string) list"
  th_os_name :: "string option"
  th_os_major :: "int option"
  th_os_minor :: "int option"
  th_bootc_image :: "string option"
  th_bootc_digest :: "string option"
  th_host_type :: "string option"
  th_workspace :: "string option"
  th_workspace_name :: "string option"
  th_ungrouped :: "bool option"

record sat_rhc =
  sr_instance :: string
  sr_source :: int
  sr_rhc :: "string option"

record extask_param =
  ep_extask :: nat
  ep_param :: nat
  ep_value :: string

record tasks_db =
  td_tasks :: "task_row list"
  td_extasks :: "extask list"
  td_jobs :: "job_row list"
  td_logs :: "job_log list"
  td_hosts :: "task_host list"
  td_sats :: "sat_rhc list"
  td_params :: "extask_param list"

text \<open>The labels Django derives from the names of the choices.\<close>

fun job_label :: "job_status \<Rightarrow> string" where
  "job_label JRunning = ''Running''"
| "job_label JSuccess = ''Success''"
| "job_label JFailure = ''Failure''"
| "job_label JTimeout = ''Timeout''"
| "job_label JCancelled = ''Cancelled''"

fun task_label :: "task_status \<Rightarrow> string" where
  "task_label TRunning = ''Running''"
| "task_label TCompleted = ''Completed''"
| "task_label TErrors = ''Completed With Errors''"
| "task_label TFailure = ''Failure''"
| "task_label TCancelled = ''Cancelled''"

text \<open>\<open>JobStatusChoices[name]\<close>\<close>

definition job_status_of_name :: "string \<Rightarrow> job_status option" where
  "job_status_of_name n =
     map_of [(''RUNNING'', JRunning), (''SUCCESS'', JSuccess), (''FAILURE'', JFailure),
             (''TIMEOUT'', JTimeout), (''CANCELLED'', JCancelled)] n"

fun job_code :: "job_status \<Rightarrow> int" where
  "job_code JRunning = 1"
| "job_code JSuccess = 2"
| "job_code JFailure = 3"
| "job_code JTimeout = 4"
| "job_code JCancelled = 5"

section \<open>State and environment\<close>

record event_message =
  em_type :: string
  em_org :: string
  em_context :: "(string \<times> json) list"
  em_payloads :: "(string \<times> json) list list"

record tasks_state =
  tk_db :: tasks_db
  tk_events :: "event_message list"
  tk_tracker :: "json list"
  tk_source_type :: int

text \<open>
  The environment: the clock, the text of a time, the conversion of a UUID and of a date, the topics
  that take a message, the attempts of a request to a URL (with the body of a POST),
  \<open>json.loads\<close> with the text of its exceptions and of those raised about a value, fresh
  identifiers, and the settings the code reads.
\<close>

record tasks_env =
  tv_now :: int
  tv_time_text :: "int \<Rightarrow> string"
  tv_uuid :: "json \<Rightarrow> string option"
  tv_datetime :: "json \<Rightarrow> int option py"
  tv_sends :: "string \<Rightarrow> bool"
  tv_attempt :: "string \<Rightarrow> nat \<Rightarrow> attempt"
  tv_loads :: "string \<Rightarrow> string + json"
  tv_str :: "json \<Rightarrow> string"
  tv_exn_text :: "pyexn \<Rightarrow> json \<Rightarrow> string"
  tv_int :: "json \<Rightarrow> int py"
  tv_dev :: bool
  tv_pd_url :: string
  tv_pd_psk :: string
  tv_sources_url :: string
  tv_batch :: nat
  tv_post :: "string \<Rightarrow> json \<Rightarrow> nat \<Rightarrow> attempt"
  tv_fresh :: "string \<Rightarrow> string"
  tv_cloud_url :: string
  tv_platform_url :: string

definition upd_db :: "(tasks_db \<Rightarrow> tasks_db) \<Rightarrow> (tasks_state, unit) act" where
  "upd_db f = a_upd (\<lambda>s. s\<lparr>tk_db := f (tk_db s)\<rparr>)"

definition get_db :: "(tasks_db \<Rightarrow> 'a) \<Rightarrow> (tasks_state, 'a) act" where
  "get_db f = a_get (\<lambda>s. f (tk_db s))"

definition save_job :: "job_row \<Rightarrow> (tasks_state, unit) act" where
  "save_job j = upd_db (\<lambda>db. db\<lparr>td_jobs := map (\<lambda>x. if jb_id x = jb_id j then j else x) (td_jobs db)\<rparr>)"

definition save_extask :: "extask \<Rightarrow> (tasks_state, unit) act" where
  "save_extask x = upd_db (\<lambda>db. db\<lparr>td_extasks := map (\<lambda>y. if xt_id y = xt_id x then x else y) (td_extasks db)\<rparr>)"

text \<open>\<open>Job.new_log\<close>: the column holds 255 characters; a longer line is refused by the database.\<close>

definition new_log :: "job_row \<Rightarrow> bool \<Rightarrow> string \<Rightarrow> (tasks_state, unit) act" where
  "new_log j ok line =
     (if length line > 255 then a_raise (Exn ''DataError'')
      else upd_db (\<lambda>db. db\<lparr>td_logs := td_logs db @ [\<lparr>jl_job = jb_id j, jl_ok = ok, jl_line = line\<rparr>]\<rparr>))"

text \<open>\<open>send_event_message\<close>: nothing without payloads; a message that cannot be sent is only logged.\<close>

definition send_event_message ::
  "tasks_env \<Rightarrow> string \<Rightarrow> string \<Rightarrow> (string \<times> json) list \<Rightarrow> (string \<times> json) list list \<Rightarrow> (tasks_state, unit) act" where
  "send_event_message tv event_type org context payloads =
     (if payloads = [] \<or> \<not> tv_sends tv ''webhooks'' then a_ret ()
      else a_upd (\<lambda>s. s\<lparr>tk_events := tk_events s @
        [\<lparr>em_type = event_type, em_org = org, em_context = context, em_payloads = payloads\<rparr>]\<rparr>))"

section \<open>The state of an executed task\<close>

definition jobs_of :: "extask \<Rightarrow> tasks_db \<Rightarrow> job_row list" where
  "jobs_of x db = filter (\<lambda>j. jb_extask j = xt_id x) (td_jobs db)"

definition job_statuses :: "extask \<Rightarrow> tasks_db \<Rightarrow> job_status list" where
  "job_statuses x db = remdups (map jb_status (jobs_of x db))"

definition finished_status :: "job_status list \<Rightarrow> task_status" where
  "finished_status ss =
     (if JCancelled \<in> set ss then TCancelled
      else if set ss = {JSuccess} then TCompleted
      else if JSuccess \<in> set ss then TErrors
      else TFailure)"

definition delete_extask :: "extask \<Rightarrow> tasks_db \<Rightarrow> tasks_db" where
  "delete_extask x db =
     (let gone = map jb_id (jobs_of x db) in
      db\<lparr>td_extasks := filter (\<lambda>y. xt_id y \<noteq> xt_id x) (td_extasks db),
         td_jobs := filter (\<lambda>j. jb_extask j \<noteq> xt_id x) (td_jobs db),
         td_logs := filter (\<lambda>l. jl_job l \<notin> set gone) (td_logs db),
         td_params := filter (\<lambda>p. ep_extask p \<noteq> xt_id x) (td_params db)\<rparr>)"

definition find_task :: "nat \<Rightarrow> tasks_db \<Rightarrow> task_row option" where
  "find_task i db = find (\<lambda>t. tt_id t = i) (td_tasks db)"

definition or_missing :: "'a option \<Rightarrow> (tasks_state, 'a) act" where
  "or_missing x = (case x of None \<Rightarrow> a_raise DoesNotExist | Some y \<Rightarrow> a_ret y)"

definition task_of :: "extask \<Rightarrow> (tasks_state, task_row) act" where
  "task_of x = a_bind (get_db (find_task (xt_task x))) or_missing"

definition completed_payload :: "extask \<Rightarrow> task_row \<Rightarrow> (string \<times> json) list" where
  "completed_payload x t =
     [(''task_name'', JStr (xt_name x)), (''task_slug'', JStr (tt_slug t)),
      (''executed_task_id'', JInt (int (xt_id x))), (''status'', JStr (task_label (xt_status x)))]"

text \<open>
  \<open>update_executed_task_status\<close> works on the object the caller holds, whose status may be older
  than the row's, and returns it as it is afterwards.
\<close>

definition finish_extask :: "tasks_env \<Rightarrow> extask \<Rightarrow> task_status \<Rightarrow> bool \<Rightarrow> (tasks_state, extask) act" where
  "finish_extask tv x new_status send_message =
     (if xt_status x = new_status then a_ret x
      else
        let x' = x\<lparr>xt_status := new_status, xt_end := Some (tv_now tv)\<rparr> in
        a_then (save_extask x')
       (a_then (if send_message
                then a_bind (task_of x') (\<lambda>t.
                       send_event_message tv ''executed-task-completed'' (xt_org x') [] [completed_payload x' t])
                else a_ret ())
         (a_ret x')))"

definition log_no_more :: "job_row option \<Rightarrow> extask \<Rightarrow> (tasks_state, unit) act" where
  "log_no_more job x =
     (case job of
        None \<Rightarrow> a_ret ()
      | Some j \<Rightarrow> new_log j True (''No more jobs running for executed task '' @ xt_name x @
                   '' (ID '' @ nat_digits (jb_extask j) @ '')''))"

definition update_executed_task_status ::
  "tasks_env \<Rightarrow> job_row option \<Rightarrow> bool \<Rightarrow> bool \<Rightarrow> extask \<Rightarrow> (tasks_state, extask) act" where
  "update_executed_task_status tv job send_message delete_empty x =
     a_bind (get_db (job_statuses x)) (\<lambda>ss.
       if ss = [] then
         a_then (if delete_empty then upd_db (delete_extask x) else a_ret ()) (a_ret x)
       else if JRunning \<in> set ss then
         if xt_status x \<noteq> TRunning
         then a_then (save_extask (x\<lparr>xt_status := TRunning\<rparr>)) (a_ret (x\<lparr>xt_status := TRunning\<rparr>))
         else a_ret x
       else
         a_then (log_no_more job x) (finish_extask tv x (finished_status ss) send_message))"

section \<open>Results in the output of a job\<close>

definition script_prefix :: string where "script_prefix = ''### JSON START ###''"
definition script_suffix :: string where "script_suffix = ''### JSON END ###''"

definition ansible_prefix :: string where "ansible_prefix = [CHR 0x22] @ ''task_results'' @ [CHR 0x22] @ '': ''"

text \<open>\<open>str.index\<close>, from the left: the position of the first occurrence.\<close>

fun index_of :: "'a list \<Rightarrow> 'a list \<Rightarrow> nat option" where
  "index_of p [] = (if p = [] then Some 0 else None)"
| "index_of p (c # s) = (if prefix p (c # s) then Some 0 else map_option Suc (index_of p s))"

text \<open>A match of \<open>}\s+PLAY RECAP \*\<close> at the start of a text, and the first position of one.\<close>

definition recap_here :: "string \<Rightarrow> bool" where
  "recap_here s =
     (case s of [] \<Rightarrow> False
      | c # r \<Rightarrow> c = CHR ''}'' \<and> r \<noteq> [] \<and> is_space (hd r) \<and>
                 prefix ''PLAY RECAP *'' (dropWhile is_space r))"

fun recap_index :: "string \<Rightarrow> nat option" where
  "recap_index [] = None"
| "recap_index (c # s) = (if recap_here (c # s) then Some 0 else map_option Suc (recap_index s))"

definition delim_prefix :: "task_type \<Rightarrow> string" where
  "delim_prefix ty = (case ty of ANSIBLE \<Rightarrow> ansible_prefix | SCRIPT \<Rightarrow> script_prefix)"

definition delim_source :: "task_type \<Rightarrow> string" where
  "delim_source ty = (case ty of ANSIBLE \<Rightarrow> ''Playbook Dispatcher'' | SCRIPT \<Rightarrow> ''Cloud Connector'')"

definition results_end :: "task_type \<Rightarrow> string \<Rightarrow> nat \<Rightarrow> nat option" where
  "results_end ty out st =
     (case ty of
        ANSIBLE \<Rightarrow> recap_index out
      | SCRIPT \<Rightarrow> map_option (\<lambda>i. st + i) (index_of script_suffix (drop st out)))"

text \<open>\<open>stdout[start:end]\<close>; an end before the start gives the empty text.\<close>

definition slice :: "nat \<Rightarrow> nat \<Rightarrow> 'a list \<Rightarrow> 'a list" where
  "slice st en s = take (en - st) (drop st s)"

definition failed_results :: "string \<Rightarrow> json" where
  "failed_results msg = JObj [(''error'', JBool True), (''alert'', JBool True), (''message'', JStr msg)]"

definition no_prefix_line :: "task_type \<Rightarrow> string" where
  "no_prefix_line ty = ''Could not find JSON prefix '' @ [CHR 0x27] @ delim_prefix ty @ [CHR 0x27] @ '' in stdout''"

text \<open>The line for a missing end, with the \<open>repr\<close> of the pattern or of the list of suffixes.\<close>

definition no_end_line :: "task_type \<Rightarrow> string" where
  "no_end_line ty =
     (let bs = [CHR 0x5C, CHR 0x5C]; q = [CHR 0x27] in case ty of
        ANSIBLE \<Rightarrow> ''Could not find regular expression re.compile('' @ q @ ''}'' @ bs @ ''s+PLAY RECAP '' @ bs @ ''*'' @ q @
                   '', re.MULTILINE) in stdout after prefix''
      | SCRIPT \<Rightarrow> ''Could not find any of JSON suffix ['' @ q @ script_suffix @ q @ ''] in stdout after prefix'')"

definition fail_results :: "job_row \<Rightarrow> string \<Rightarrow> (tasks_state, job_status \<times> json) act" where
  "fail_results j msg = a_then (new_log j False msg) (a_ret (JFailure, failed_results msg))"

text \<open>
  Adding the missing \<open>alert\<close> to what \<open>loads\<close> returned.  A value that is no dictionary has
  no \<open>get\<close>; the handler of the exception assigns to the same value and raises again.
\<close>

definition add_alert :: "json \<Rightarrow> json py" where
  "add_alert r =
     py_bind (py_in ''alert'' r) (\<lambda>has. if has then Inr r
       else case r of
         JObj d \<Rightarrow> Inr (JObj (dict_set ''alert'' (case map_of d ''error'' of None \<Rightarrow> JBool False | Some e \<Rightarrow> e) d))
       | _ \<Rightarrow> Inl AttributeError)"

definition load_results :: "tasks_env \<Rightarrow> job_row \<Rightarrow> string \<Rightarrow> (tasks_state, job_status \<times> json) act" where
  "load_results tv j text =
     (case tv_loads tv text of
        Inl msg \<Rightarrow> fail_results j (''Error in parsing JSON between delimiters ('' @ msg)
      | Inr r \<Rightarrow>
          (case add_alert r of
             Inl e \<Rightarrow> a_then (new_log j False (''Error in parsing JSON between delimiters ('' @ tv_exn_text tv e r))
               (a_raise TypeError)
           | Inr r' \<Rightarrow> a_then (new_log j True ''Parsed JSON output successfully'') (a_ret (JSuccess, r'))))"

definition get_results ::
  "tasks_env \<Rightarrow> job_row \<Rightarrow> string \<Rightarrow> task_type \<Rightarrow> (tasks_state, job_status \<times> json) act" where
  "get_results tv j out ty =
     (case index_of (delim_prefix ty) out of
        None \<Rightarrow> fail_results j (no_prefix_line ty)
      | Some i \<Rightarrow>
          let st = i + length (delim_prefix ty) in
          (case results_end ty out st of
             None \<Rightarrow> fail_results j (no_end_line ty)
           | Some en \<Rightarrow> load_results tv j (slice st en out)))"

text \<open>
  An output that is no text: a list or a dictionary can be searched for the prefix as an element or
  a key; what follows a prefix found there is no text either.
\<close>

definition search_list ::
  "tasks_env \<Rightarrow> job_row \<Rightarrow> json list \<Rightarrow> task_type \<Rightarrow> (tasks_state, job_status \<times> json) act" where
  "search_list tv j xs ty =
     (case index_of [JStr (delim_prefix ty)] xs of
        None \<Rightarrow> fail_results j (no_prefix_line ty)
      | Some i \<Rightarrow>
          if ty = ANSIBLE then a_raise TypeError
          else if JStr script_suffix \<in> set (drop (i + length (delim_prefix ty)) xs)
          then fail_results j (''Error in parsing JSON between delimiters ('' @ tv_exn_text tv TypeError (JList xs))
          else fail_results j (no_end_line ty))"

definition search_output ::
  "tasks_env \<Rightarrow> job_row \<Rightarrow> json \<Rightarrow> task_type \<Rightarrow> (tasks_state, job_status \<times> json) act" where
  "search_output tv j out ty =
     (case out of
        JStr s \<Rightarrow> get_results tv j s ty
      | JList xs \<Rightarrow> search_list tv j xs ty
      | JObj d \<Rightarrow> if dict_has d (delim_prefix ty) then a_raise AttributeError
                 else fail_results j (no_prefix_line ty)
      | _ \<Rightarrow> a_raise TypeError)"

definition parse_json_from_stdout ::
  "tasks_env \<Rightarrow> job_row \<Rightarrow> json \<Rightarrow> task_type \<Rightarrow> (tasks_state, job_row) act" where
  "parse_json_from_stdout tv j out ty =
     (let j1 = j\<lparr>jb_stdout := py_str (tv_str tv) out\<rparr> in
      a_then (if out = JNull then a_raise IntegrityError else save_job j1)
     (a_then (new_log j1 True (''got stdout from '' @ delim_source ty @ '' for this job''))
     (a_bind (search_output tv j1 out ty) (\<lambda>(status, results).
        let j2 = j1\<lparr>jb_results := results, jb_status := status\<rparr> in
        a_then (save_job j2) (a_ret j2)))))"

section \<open>The status of a job\<close>

definition event_type_for :: "job_status \<Rightarrow> string option" where
  "event_type_for st =
     map_of [(JCancelled, ''job-cancelled''), (JFailure, ''job-failed''), (JSuccess, ''job-completed''),
             (JTimeout, ''job-failed'')] st"

definition find_extask :: "nat \<Rightarrow> tasks_db \<Rightarrow> extask option" where
  "find_extask i db = find (\<lambda>x. xt_id x = i) (td_extasks db)"

definition extask_of :: "job_row \<Rightarrow> (tasks_state, extask) act" where
  "extask_of j = a_bind (get_db (find_extask (jb_extask j))) or_missing"

definition set_job_status ::
  "tasks_env \<Rightarrow> job_row \<Rightarrow> job_status \<Rightarrow> json \<Rightarrow> (tasks_state, job_row) act" where
  "set_job_status tv j new_status updated_on =
     (if jb_status j = new_status then a_ret j
      else a_bind (a_lift (tv_datetime tv updated_on)) (\<lambda>parsed.
        let j' = j\<lparr>jb_status := new_status,
                   jb_updated := (case parsed of None \<Rightarrow> tv_now tv | Some t \<Rightarrow> t)\<rparr> in
        a_then (save_job j')
       (a_then (new_log j' (new_status = JSuccess)
                 (''Updated job status to '' @ job_label new_status @ '', update time '' @
                  tv_time_text tv (jb_updated j') @ '' (run ID '' @ jb_run j' @ '')''))
         (a_ret j'))))"

definition announce_job :: "tasks_env \<Rightarrow> job_row \<Rightarrow> extask \<Rightarrow> task_host \<Rightarrow> string \<Rightarrow> (tasks_state, unit) act" where
  "announce_job tv j x h event_type =
     a_bind (task_of x) (\<lambda>t.
     a_then (send_event_message tv event_type (xt_org x)
              [(''task_name'', JStr (xt_name x)), (''task_slug'', JStr (tt_slug t)),
               (''executed_task_id'', JInt (int (jb_extask j)))]
              [[(''system_uuid'', JStr (jb_system j)), (''display_name'', JStr (th_name h)),
                (''status'', JStr (job_label (jb_status j)))]])
      (new_log j True (''Sent message that this job is '' @ job_label (jb_status j) @ '' on system '' @
         th_name h @ '' (ID '' @ jb_system j @ '', run ID '' @ jb_run j @ '')'')))"

definition find_host :: "string \<Rightarrow> tasks_db \<Rightarrow> task_host option" where
  "find_host i db = find (\<lambda>h. th_id h = i) (td_hosts db)"

definition update_job_status ::
  "tasks_env \<Rightarrow> job_row \<Rightarrow> job_status \<Rightarrow> json \<Rightarrow> (tasks_state, job_row) act" where
  "update_job_status tv j new_status updated_on =
     a_bind (set_job_status tv j new_status updated_on) (\<lambda>j'.
     a_bind (get_db (find_host (jb_system j'))) (\<lambda>host.
     a_bind (extask_of j') (\<lambda>x.
     a_then (case (host, event_type_for (jb_status j')) of
               (Some h, Some ev) \<Rightarrow> announce_job tv j' x h ev
             | _ \<Rightarrow> a_ret ())
    (a_then (update_executed_task_status tv (Some j') True False x)
      (a_ret j')))))"

section \<open>Messages of the Playbook Dispatcher\<close>

definition upper_char :: "char \<Rightarrow> char" where
  "upper_char c = (let n = of_char c :: nat in if 97 \<le> n \<and> n \<le> 122 then char_of (n - 32) else c)"

fun py_upper :: "json \<Rightarrow> string py" where
  "py_upper (JStr s) = Inr (map upper_char s)"
| "py_upper _ = Inl AttributeError"

text \<open>\<open>Job.objects.get(run_id=...)\<close>; \<open>None\<close> when there is no such job.\<close>

definition job_by_run :: "tasks_env \<Rightarrow> json \<Rightarrow> (tasks_state, job_row option) act" where
  "job_by_run tv run_id =
     (if run_id = JNull then a_ret None
      else case tv_uuid tv run_id of
        None \<Rightarrow> a_raise ValidationError
      | Some u \<Rightarrow> a_bind (get_db (\<lambda>db. filter (\<lambda>j. jb_run j = u) (td_jobs db))) (\<lambda>js.
          case js of [] \<Rightarrow> a_ret None | [j] \<Rightarrow> a_ret (Some j) | _ \<Rightarrow> a_raise (Exn ''MultipleObjectsReturned'')))"

text \<open>
  \<open>fetch_playbook_dispatcher_stdout\<close> with the identity it is given or the one it makes for the
  user of the executed task; each check of the answer that fails writes a line and returns None.
\<close>

definition stdout_problem :: "response \<Rightarrow> json \<Rightarrow> string option py" where
  "stdout_problem r v =
     (case v of
        JObj d \<Rightarrow>
          (case map_of d ''data'' of
             None \<Rightarrow> Inr (Some ''returned JSON response with no data object'')
           | Some (JList []) \<Rightarrow> Inr (Some ''an empty JSON data list'')
           | Some (JList (JObj e # _)) \<Rightarrow>
               (if dict_has e ''stdout'' then Inr None else Inr (Some ''JSON data list item has no stdout data''))
           | Some (JList (_ # _)) \<Rightarrow> Inr (Some ''JSON data list with non-object'')
           | Some _ \<Rightarrow> Inr (Some ''JSON data is not a list''))
      | _ \<Rightarrow> Inr (Some ''returned non-JSON response''))"

definition stdout_in :: "json \<Rightarrow> json" where
  "stdout_in v =
     (case v of JObj d \<Rightarrow>
        (case map_of d ''data'' of Some (JList (JObj e # _)) \<Rightarrow>
           (case map_of e ''stdout'' of Some x \<Rightarrow> x | None \<Rightarrow> JNull) | _ \<Rightarrow> JNull) | _ \<Rightarrow> JNull)"

definition stdout_url :: "tasks_env \<Rightarrow> string \<Rightarrow> string" where
  "stdout_url tv run_id = tv_pd_url tv @ ''/internal/v2/run_hosts?fields[data]=stdout&filter[run][id]='' @ run_id"

definition read_stdout :: "job_row \<Rightarrow> response \<Rightarrow> (tasks_state, json) act" where
  "read_stdout j r =
     (let bad = (\<lambda>msg. a_then (new_log j False (''Playbook Dispatcher '' @ msg @ '' for run ID '' @ jb_run j)) (a_ret JNull)) in
      if status_code r = 404 then
        a_then (new_log j False (''Playbook Dispatcher does not know of run ID '' @ jb_run j)) (a_ret JNull)
      else if status_code r \<noteq> 200 then bad (''returned '' @ str_of_int (status_code r))
      else case body r of
        None \<Rightarrow> a_raise ValueError
      | Some v \<Rightarrow> a_bind (a_lift (stdout_problem r v)) (\<lambda>p. case p of
          Some msg \<Rightarrow> bad msg
        | None \<Rightarrow> a_ret (stdout_in v)))"

definition fetch_playbook_dispatcher_stdout :: "tasks_env \<Rightarrow> job_row \<Rightarrow> (tasks_state, json) act" where
  "fetch_playbook_dispatcher_stdout tv j =
     (if tv_pd_url tv = '''' \<or> tv_pd_psk tv = '''' then a_ret JNull
      else a_then (new_log j True (''Requesting data from Playbook Dispatcher for run ID '' @ jb_run j))
        (a_bind (a_lift (retry_request (tv_dev tv) (tv_attempt tv (stdout_url tv (jb_run j))) (\<lambda>_. 0) 1 5 False)) (\<lambda>rr.
          read_stdout j (rr_response rr))))"

text \<open>A false output, such as the empty text, is not processed.\<close>

definition process_stdout :: "tasks_env \<Rightarrow> job_row \<Rightarrow> (tasks_state, unit) act" where
  "process_stdout tv j =
     a_bind (fetch_playbook_dispatcher_stdout tv j) (\<lambda>out.
       if \<not> truthy out then a_ret ()
       else a_then (parse_json_from_stdout tv j out ANSIBLE) (a_ret ()))"

text \<open>
  The status named by the message.  For an unknown name the code looks the number of the job's
  status up among the names, which raises \<open>KeyError\<close>.
\<close>

definition status_named :: "string \<Rightarrow> job_row \<Rightarrow> job_status py" where
  "status_named name j =
     (case job_status_of_name name of
        Some st \<Rightarrow> Inr st
      | None \<Rightarrow> Inl (KeyError (str_of_int (job_code (jb_status j)))))"

definition follow_job :: "tasks_env \<Rightarrow> json \<Rightarrow> json \<Rightarrow> job_row \<Rightarrow> (tasks_state, unit) act" where
  "follow_job tv payload updated_on j =
     a_bind (a_lift (py_bind (py_item payload ''status'') py_upper)) (\<lambda>name.
     a_bind (a_lift (status_named name j)) (\<lambda>new_status.
     a_bind (update_job_status tv j new_status updated_on) (\<lambda>j'.
       if new_status = JRunning then a_ret () else process_stdout tv j')))"

definition handle_ansible_job_updates :: "tasks_env \<Rightarrow> json \<Rightarrow> (tasks_state, unit) act" where
  "handle_ansible_job_updates tv message =
     a_bind (a_lift (py_in ''payload'' message)) (\<lambda>has.
       if \<not> has then a_ret ()
       else
         a_bind (a_lift (py_item message ''payload'')) (\<lambda>payload.
         a_bind (a_lift (py_in ''id'' payload)) (\<lambda>has_id.
         a_bind (a_lift (py_in ''status'' payload)) (\<lambda>has_status.
           if \<not> (has_id \<and> has_status) then a_ret ()
           else
             a_bind (a_lift (py_item payload ''id'')) (\<lambda>run_id.
             a_bind (a_lift (py_item payload ''updated_at'')) (\<lambda>updated_on.
             a_bind (job_by_run tv run_id) (\<lambda>job. case job of
               None \<Rightarrow> a_ret ()
             | Some j \<Rightarrow> follow_job tv payload updated_on j)))))))"

section \<open>Uploads of scripts\<close>

definition tracker_message :: "json \<Rightarrow> json \<Rightarrow> json py" where
  "tracker_message message updated_on =
     py_bind (py_get message ''account'') (\<lambda>account. py_bind (py_get message ''org_id'') (\<lambda>org_id.
     py_bind (py_get message ''id'') (\<lambda>uuid. py_bind (py_get message ''request_id'') (\<lambda>rid.
       Inr (JObj [(''status'', JStr ''received''), (''service'', JStr ''tasks''), (''source'', JStr ''rhc-worker-script''),
         (''account'', account), (''org_id'', org_id), (''inventory_id'', uuid), (''request_id'', rid),
         (''status_msg'', JStr ''Tasks backend starting to process rhc-worker-script payload''),
         (''date'', updated_on)])))))"

definition send_tracker :: "tasks_env \<Rightarrow> json \<Rightarrow> (tasks_state, unit) act" where
  "send_tracker tv m =
     (if tv_sends tv ''payload-tracker'' then a_upd (\<lambda>s. s\<lparr>tk_tracker := tk_tracker s @ [m]\<rparr>)
      else a_raise (Exn ''BufferError''))"

text \<open>A request to something that is no address raises.\<close>

fun as_text :: "json \<Rightarrow> string py" where
  "as_text (JStr s) = Inr s"
| "as_text _ = Inl ValueError"

definition download :: "tasks_env \<Rightarrow> json \<Rightarrow> (tasks_state, json) act" where
  "download tv url =
     a_bind (a_lift (as_text url)) (\<lambda>u.
     a_bind (a_lift (retry_request_default (tv_dev tv) (tv_attempt tv u) (\<lambda>_. 0))) (\<lambda>rr.
       case body (rr_response rr) of None \<Rightarrow> a_raise ValueError | Some v \<Rightarrow> a_ret v))"

definition handle_script_job_updates :: "tasks_env \<Rightarrow> json \<Rightarrow> (tasks_state, unit) act" where
  "handle_script_job_updates tv message =
     a_bind (a_lift (py_get message ''request_id'')) (\<lambda>_.
     a_bind (a_lift (py_item message ''timestamp'')) (\<lambda>updated_on.
     a_bind (a_lift (tracker_message message updated_on)) (\<lambda>m.
     a_then (send_tracker tv m)
    (a_bind (a_lift (py_item message ''url'')) (\<lambda>url.
     a_bind (download tv url) (\<lambda>contents.
     a_bind (a_lift (py_item contents ''correlation_id'')) (\<lambda>run_id.
     a_bind (a_lift (py_item contents ''stdout'')) (\<lambda>out.
     a_bind (job_by_run tv run_id) (\<lambda>job. case job of
       None \<Rightarrow> a_ret ()
     | Some j \<Rightarrow>
         a_bind (parse_json_from_stdout tv j out SCRIPT) (\<lambda>j'.
         a_then (update_job_status tv j' (jb_status j') JNull) (a_ret ())))))))))))"

section \<open>Sources\<close>

text \<open>The source type of Satellite, kept in the cache; 0 stands for no entry.\<close>

definition get_satellite_source_type_id :: "tasks_env \<Rightarrow> (tasks_state, int) act" where
  "get_satellite_source_type_id tv =
     a_bind (a_get tk_source_type) (\<lambda>cached.
       if cached \<noteq> 0 then a_ret cached
       else
         a_bind (a_lift (retry_request_default (tv_dev tv)
            (tv_attempt tv (tv_sources_url tv @ ''/api/sources/v3.1/source_types?filter[name]=satellite'')) (\<lambda>_. 0))) (\<lambda>rr.
         a_bind (case body (rr_response rr) of None \<Rightarrow> a_raise ValueError | Some v \<Rightarrow> a_lift (py_item v ''data'')) (\<lambda>data.
         a_bind (case data of JList (x # _) \<Rightarrow> a_lift (py_item x ''id'') | JList [] \<Rightarrow> a_raise IndexError | _ \<Rightarrow> a_raise TypeError) (\<lambda>raw.
         a_bind (a_lift (tv_int tv raw)) (\<lambda>n.
         a_then (a_upd (\<lambda>s. s\<lparr>tk_source_type := n\<rparr>)) (a_ret n))))))"

definition is_valid_uuid :: "tasks_env \<Rightarrow> json \<Rightarrow> bool" where
  "is_valid_uuid tv v = (tv_uuid tv (JStr (py_str (tv_str tv) v)) \<noteq> None)"

definition source_number :: "tasks_env \<Rightarrow> json \<Rightarrow> int option py" where
  "source_number tv v = (if v = JNull then Inr None else py_bind (tv_int tv v) (\<lambda>i. Inr (Some i)))"

text \<open>The source number is unique and not null.\<close>

definition set_satellite :: "string \<Rightarrow> int option \<Rightarrow> (tasks_state, unit) act" where
  "set_satellite u number =
     (case number of None \<Rightarrow> a_raise IntegrityError | Some source \<Rightarrow>
     a_bind (get_db td_sats) (\<lambda>sats.
       if \<exists>r \<in> set sats. sr_source r = source \<and> sr_instance r \<noteq> u then a_raise IntegrityError
       else if \<exists>r \<in> set sats. sr_instance r = u
       then upd_db (\<lambda>db. db\<lparr>td_sats := map (\<lambda>r. if sr_instance r = u then r\<lparr>sr_source := source\<rparr> else r) (td_sats db)\<rparr>)
       else upd_db (\<lambda>db. db\<lparr>td_sats := td_sats db @ [\<lparr>sr_instance = u, sr_source = source, sr_rhc = None\<rparr>]\<rparr>)))"

definition first_source :: "json \<Rightarrow> json py" where
  "first_source ids =
     (case ids of JList (x # _) \<Rightarrow> Inr x | JList [] \<Rightarrow> Inl IndexError | JStr (c # _) \<Rightarrow> Inr (JStr [c])
      | JStr [] \<Rightarrow> Inl IndexError | JObj _ \<Rightarrow> Inl (KeyError ''0'') | _ \<Rightarrow> Inl TypeError)"

definition source_event :: "tasks_env \<Rightarrow> json \<Rightarrow> (tasks_state, bool) act" where
  "source_event tv message =
     a_bind (a_lift (py_in ''source_type_id'' message)) (\<lambda>b1.
     a_bind (a_lift (if b1 then py_in ''source_ref'' message else Inr False)) (\<lambda>b2.
       if \<not> b2 then a_ret False
       else
         a_bind (get_satellite_source_type_id tv) (\<lambda>n.
         a_bind (a_lift (py_item message ''source_type_id'')) (\<lambda>ty.
         a_bind (a_lift (py_item message ''source_ref'')) (\<lambda>ref.
           if py_eq_int ty n \<and> is_valid_uuid tv ref then
             a_bind (a_lift (py_bind (py_item message ''id'') (source_number tv))) (\<lambda>source.
               case tv_uuid tv (JStr (py_str (tv_str tv) ref)) of
                 None \<Rightarrow> a_ret False
               | Some u \<Rightarrow> a_then (set_satellite u source) (a_ret True))
           else a_ret False)))))"

definition rhc_event :: "tasks_env \<Rightarrow> json \<Rightarrow> (tasks_state, unit) act" where
  "rhc_event tv message =
     a_bind (a_lift (py_in ''rhc_id'' message)) (\<lambda>b1.
     a_bind (a_lift (if b1 then py_in ''source_ids'' message else Inr False)) (\<lambda>b2.
       if \<not> b2 then a_ret ()
       else
         a_bind (a_lift (py_item message ''rhc_id'')) (\<lambda>rhc.
         a_bind (a_lift (py_item message ''source_ids'')) (\<lambda>ids.
           if \<not> is_valid_uuid tv rhc then a_then (a_lift (first_source ids)) (a_ret ())
           else if \<not> truthy ids then a_ret ()
           else a_bind (a_lift (py_bind (first_source ids) (source_number tv))) (\<lambda>source.
             upd_db (\<lambda>db. db\<lparr>td_sats := map (\<lambda>r. if Some (sr_source r) = source
               then r\<lparr>sr_rhc := tv_uuid tv (JStr (py_str (tv_str tv) rhc))\<rparr> else r) (td_sats db)\<rparr>))))))"

definition handle_sources_event :: "tasks_env \<Rightarrow> json \<Rightarrow> (tasks_state, unit) act" where
  "handle_sources_event tv message =
     a_bind (source_event tv message) (\<lambda>done. if done then a_ret () else rhc_event tv message)"

section \<open>Commands\<close>

definition stale :: "int \<Rightarrow> job_row \<Rightarrow> bool" where
  "stale limit j = (jb_status j = JRunning \<and> jb_updated j < limit)"

text \<open>
  The executed tasks of a task with stale jobs.  The filter joins the jobs, so an executed task is
  listed once for each of them, each time as an object of its own.
\<close>

definition timed_out_extasks :: "task_row \<Rightarrow> int \<Rightarrow> tasks_db \<Rightarrow> extask list" where
  "timed_out_extasks t limit db =
     concat (map (\<lambda>x. map (\<lambda>_. x) (filter (stale limit) (jobs_of x db)))
       (filter (\<lambda>x. xt_task x = tt_id t) (td_extasks db)))"

definition time_out_job :: "tasks_env \<Rightarrow> task_row \<Rightarrow> job_row \<Rightarrow> (tasks_state, unit) act" where
  "time_out_job tv t j =
     a_then (new_log j False (''Job timed out after '' @ str_of_int (tt_timeout t) @ '' seconds (run ID '' @ jb_run j @ '')''))
       (save_job (j\<lparr>jb_status := JTimeout, jb_updated := tv_now tv\<rparr>))"

definition time_out_extask :: "tasks_env \<Rightarrow> task_row \<Rightarrow> int \<Rightarrow> extask \<Rightarrow> (tasks_state, unit) act" where
  "time_out_extask tv t limit x =
     a_bind (get_db (\<lambda>db. filter (stale limit) (jobs_of x db))) (\<lambda>js.
     a_then (a_for (time_out_job tv t) js)
    (a_then (update_executed_task_status tv None True False x) (a_ret ())))"

definition check_stale_jobs_for :: "tasks_env \<Rightarrow> task_row \<Rightarrow> (tasks_state, unit) act" where
  "check_stale_jobs_for tv t =
     (let limit = tv_now tv - tt_timeout t in
      a_bind (get_db (timed_out_extasks t limit)) (a_for (time_out_extask tv t limit)))"

definition stale_job_timeout :: "tasks_env \<Rightarrow> (tasks_state, unit) act" where
  "stale_job_timeout tv =
     a_bind (get_db (\<lambda>db. filter tt_active (td_tasks db))) (a_for (check_stale_jobs_for tv))"

text \<open>
  The command that recomputes the states: the options that are given and not empty restrict the
  executed tasks; the option on jobs joins them.
\<close>

record recompute_options =
  ro_extasks :: "nat list"
  ro_jobs :: "nat list"
  ro_orgs :: "int list"
  ro_tasks :: "string list"
  ro_delete_empty :: bool

definition recompute_selected :: "recompute_options \<Rightarrow> tasks_db \<Rightarrow> extask list" where
  "recompute_selected ro db =
     concat (map (\<lambda>x. if ro_jobs ro = [] then [x]
                      else map (\<lambda>_. x) (filter (\<lambda>j. jb_id j \<in> set (ro_jobs ro)) (jobs_of x db)))
       (filter (\<lambda>x. (ro_extasks ro = [] \<or> xt_id x \<in> set (ro_extasks ro)) \<and>
                    (ro_orgs ro = [] \<or> xt_org x \<in> set (map str_of_int (ro_orgs ro))) \<and>
                    (ro_tasks ro = [] \<or> (case find_task (xt_task x) db of None \<Rightarrow> False
                                         | Some t \<Rightarrow> tt_slug t \<in> set (ro_tasks ro))))
         (td_extasks db)))"

definition recompute_command :: "tasks_env \<Rightarrow> recompute_options \<Rightarrow> (tasks_state, unit) act" where
  "recompute_command tv ro =
     a_bind (get_db (recompute_selected ro))
       (a_for (\<lambda>x. a_then (update_executed_task_status tv None False (ro_delete_empty ro) x) (a_ret ())))"

end
