(* ===== verification/Tasks_Views.thy ===== *)
theory Tasks_Views
  imports Tasks_Service
begin

text \<open>
  The Tasks API: executing a task on hosts, cancelling and deleting an executed task
  (\<open>tasks/views/executed_task.py\<close>), the validation of the request
  (\<open>tasks/serializers.py\<close>), the requirements of a task on a host (\<open>tasks/utils.py\<close>) and the
  connection state of a page of systems (\<open>tasks/views/system.py\<close>).  A request is given by what
  the permission classes left on it.
\<close>

record task_request =
  tr_org :: string
  tr_user :: string
  tr_admin :: json
  tr_visible :: "task_host \<Rightarrow> bool"
  tr_header :: string

section \<open>Requirements\<close>

definition tag_value :: "string \<Rightarrow> task_host \<Rightarrow> string option" where
  "tag_value k h = map_option (\<lambda>(n, k', v). v) (find (\<lambda>(n, k', v). n = ''satellite'' \<and> k' = k) (th_tags h))"

definition direct_connect :: "task_host \<Rightarrow> bool" where
  "direct_connect h = (th_rhc h \<noteq> None)"

definition satellite_rhc :: "tasks_env \<Rightarrow> tasks_db \<Rightarrow> task_host \<Rightarrow> bool" where
  "satellite_rhc tv db h =
     (case tag_value ''satellite_instance_id'' h of
        None \<Rightarrow> False
      | Some i \<Rightarrow> list_ex (\<lambda>r. Some (sr_instance r) = tv_uuid tv (JStr i) \<and> sr_rhc r \<noteq> None) (td_sats db))"

definition known_os :: "task_host \<Rightarrow> bool" where
  "known_os h = (th_os_name h \<noteq> None)"

definition starts_with :: "string \<Rightarrow> string option \<Rightarrow> bool" where
  "starts_with p v = (case v of None \<Rightarrow> False | Some s \<Rightarrow> prefix p s)"

text \<open>A match of \<open>/rhelai[0-9]*/\<close> somewhere in the image's name.\<close>

fun rhelai_image_name :: "string \<Rightarrow> bool" where
  "rhelai_image_name [] = False"
| "rhelai_image_name (c # s) =
     ((prefix ''/rhelai'' (c # s) \<and> prefix ''/'' (dropWhile is_digit (drop 7 (c # s)))) \<or> rhelai_image_name s)"

text \<open>
  The conditions are three-valued in the database: a comparison with null is unknown, and so is its
  negation.
\<close>

definition requirement :: "tasks_env \<Rightarrow> tasks_db \<Rightarrow> task_host \<Rightarrow> string \<Rightarrow> bool option" where
  "requirement tv db h req =
     (let on_name = (\<lambda>f. map_option f (th_os_name h)); on_major = (\<lambda>f. map_option f (th_os_major h)) in
      if req = ''direct_connect'' then Some (direct_connect h)
      else if req = ''satellite_rhc'' then Some (satellite_rhc tv db h)
      else if req = ''system_connected'' then Some (direct_connect h \<or> satellite_rhc tv db h)
      else if req = ''known_os'' then Some (known_os h)
      else if req = ''centos'' then on_name (prefix ''CentOS'')
      else if req = ''rhel'' then on_name (\<lambda>n. n = ''RHEL'')
      else if req = ''os_v7'' then on_major (\<lambda>m. m = 7)
      else if req = ''os_v8'' then on_major (\<lambda>m. m = 8)
      else if req = ''os_v7_v8'' then on_major (\<lambda>m. m = 7 \<or> m = 8)
      else if req = ''bootc_image'' then Some (th_bootc_digest h \<noteq> None)
      else if req = ''rhelai_image'' then map_option rhelai_image_name (th_bootc_image h)
      else if req = ''not_rhelai_image'' then
        Some (\<not> (case th_bootc_image h of None \<Rightarrow> False | Some n \<Rightarrow> rhelai_image_name n))
      else None)"

definition requirement_names :: "string list" where
  "requirement_names =
     [''direct_connect'', ''satellite_rhc'', ''system_connected'', ''known_os'', ''centos'', ''rhel'', ''os_v7'',
      ''os_v8'', ''os_v7_v8'', ''bootc_image'', ''rhelai_image'', ''not_rhelai_image'']"

definition alert :: "string \<Rightarrow> string" where
  "alert req = the (map_of
     [(''direct_connect'', ''System must be directly connected to RHC''),
      (''satellite_rhc'', ''System must be connected via Satellite''),
      (''system_connected'', ''System must be connected via RHC or Satellite''),
      (''known_os'', ''System must have a known OS''), (''centos'', ''System must be CentOS''),
      (''rhel'', ''System must be RHEL''), (''os_v7'', ''System must be OS version 7''),
      (''os_v8'', ''System must be OS version 8''), (''os_v7_v8'', ''System must be OS version 7 or 8''),
      (''bootc_image'', ''System must be a bootc image''), (''rhelai_image'', ''System must be a RHEL AI image''),
      (''not_rhelai_image'', ''System must not be a RHEL AI image'')] req)"

text \<open>
  The alerts a task shows for a system (\<open>build_task_system_requirements\<close>): one for each
  requirement the system does not meet; and the systems listed for a task.
\<close>

definition task_requirements :: "task_row \<Rightarrow> string list" where
  "task_requirements t =
     (if tt_filters t = [] then [''system_connected''] else tt_filters t @ [''known_os'', ''system_connected''])"

definition unmet :: "tasks_env \<Rightarrow> tasks_db \<Rightarrow> task_row \<Rightarrow> task_host \<Rightarrow> string list" where
  "unmet tv db t h =
     map alert (filter (\<lambda>req. req \<in> set requirement_names \<and> requirement tv db h req \<noteq> Some True) (task_requirements t))"

definition listed_for :: "tasks_env \<Rightarrow> tasks_db \<Rightarrow> bool \<Rightarrow> task_row \<Rightarrow> task_host \<Rightarrow> bool" where
  "listed_for tv db all_systems t h =
     (all_systems \<or>
      (requirement tv db h ''system_connected'' = Some True \<and>
       list_all (\<lambda>req. req \<in> set requirement_names \<longrightarrow> requirement tv db h req = Some True) (tt_filters t)))"

section \<open>Validation\<close>

record execute_data =
  xd_task :: string
  xd_hosts :: "string list"
  xd_params :: "(string \<times> string) list option"
  xd_name :: "string option"

definition find_slug :: "string \<Rightarrow> tasks_db \<Rightarrow> task_row option" where
  "find_slug slug db = find (\<lambda>t. tt_slug t = slug) (td_tasks db)"

definition hosts_in_org :: "string list \<Rightarrow> string \<Rightarrow> tasks_db \<Rightarrow> bool" where
  "hosts_in_org hosts org db = list_all (\<lambda>u. list_ex (\<lambda>h. th_id h = u \<and> th_org h = org) (td_hosts db)) hosts"

definition supplied_values :: "task_param \<Rightarrow> string \<Rightarrow> string list" where
  "supplied_values p v = (if tp_multi p then split_on (CHR '','') v else [v])"

definition find_param :: "task_row \<Rightarrow> string \<Rightarrow> task_param option" where
  "find_param t k = map_of (map (\<lambda>p. (tp_key p, p)) (rev (tt_params t))) k"

text \<open>The loop over the supplied parameters: the keys provided so far, and whether each kind of fault was seen.\<close>

record param_check =
  pk_provided :: "string list"
  pk_unrecognised :: bool
  pk_duplicated :: bool
  pk_unmatched :: bool

fun check_params :: "task_row \<Rightarrow> (string \<times> string) list \<Rightarrow> param_check \<Rightarrow> param_check" where
  "check_params t [] acc = acc"
| "check_params t ((k, v) # ps) acc =
     check_params t ps
       (case find_param t k of
          None \<Rightarrow> acc\<lparr>pk_unrecognised := True\<rparr>
        | Some p \<Rightarrow>
            if k \<in> set (pk_provided acc) then acc\<lparr>pk_duplicated := True\<rparr>
            else acc\<lparr>pk_provided := k # pk_provided acc,
                     pk_unmatched := pk_unmatched acc \<or> \<not> list_all (\<lambda>x. x \<in> set (tp_values p)) (supplied_values p v)\<rparr>)"

definition missing_params :: "task_row \<Rightarrow> string list \<Rightarrow> task_param list" where
  "missing_params t provided = filter (\<lambda>p. tp_required p \<and> tp_default p = None \<and> tp_key p \<notin> set provided) (tt_params t)"

definition validate_execute :: "task_request \<Rightarrow> execute_data \<Rightarrow> tasks_db \<Rightarrow> task_row py" where
  "validate_execute rq xd db =
     (case find_slug (xd_task xd) db of
        None \<Rightarrow> Inl ValidationError
      | Some t \<Rightarrow>
          if xd_hosts xd = [] then Inl ValidationError
          else if \<not> hosts_in_org (xd_hosts xd) (tr_org rq) db then Inl ValidationError
          else
            let acc = check_params t (case xd_params xd of None \<Rightarrow> [] | Some ps \<Rightarrow> ps)
                        \<lparr>pk_provided = [], pk_unrecognised = False, pk_duplicated = False, pk_unmatched = False\<rparr> in
            if pk_unrecognised acc \<or> pk_duplicated acc \<or> pk_unmatched acc \<or> missing_params t (pk_provided acc) \<noteq> []
            then Inl ValidationError
            else Inr t)"

section \<open>Parameters of an executed task\<close>

definition given_params :: "task_row \<Rightarrow> nat \<Rightarrow> (string \<times> string) list \<Rightarrow> extask_param list py" where
  "given_params t x ps =
     py_mapM (\<lambda>(k, v). case find_param t k of
        None \<Rightarrow> Inl (KeyError k)
      | Some p \<Rightarrow> Inr \<lparr>ep_extask = x, ep_param = tp_id p, ep_value = v\<rparr>) ps"

definition default_params :: "task_row \<Rightarrow> nat \<Rightarrow> string list \<Rightarrow> extask_param list" where
  "default_params t x given =
     List.map_filter (\<lambda>p. if tp_required p \<and> tp_key p \<notin> set given
       then map_option (\<lambda>d. \<lparr>ep_extask = x, ep_param = tp_id p, ep_value = d\<rparr>) (tp_default p) else None) (tt_params t)"

definition create_task_parameters :: "task_row \<Rightarrow> nat \<Rightarrow> (string \<times> string) list option \<Rightarrow> (tasks_state, bool) act" where
  "create_task_parameters t x params =
     (let ps = (case params of None \<Rightarrow> [] | Some ps \<Rightarrow> ps) in
      a_bind (a_lift (given_params t x ps)) (\<lambda>given.
        let all_params = given @ default_params t x (map fst ps) in
        a_then (upd_db (\<lambda>db. db\<lparr>td_params := td_params db @ all_params\<rparr>))
          (a_ret (all_params \<noteq> []))))"

section \<open>Dispatching\<close>

record target =
  tg_host :: task_host
  tg_sat :: "string option"
  tg_sat_org :: "string option"
  tg_client :: "string option"

text \<open>\<open>Coalesce\<close> of the host's own client and that of its Satellite.\<close>

definition sat_client :: "tasks_env \<Rightarrow> tasks_db \<Rightarrow> task_host \<Rightarrow> string option" where
  "sat_client tv db h =
     (case tag_value ''satellite_instance_id'' h of
        None \<Rightarrow> None
      | Some i \<Rightarrow> Option.bind (find (\<lambda>r. Some (sr_instance r) = tv_uuid tv (JStr i)) (td_sats db)) sr_rhc)"

definition target_of :: "tasks_env \<Rightarrow> tasks_db \<Rightarrow> task_host \<Rightarrow> target" where
  "target_of tv db h =
     \<lparr>tg_host = h, tg_sat = tag_value ''satellite_instance_id'' h, tg_sat_org = tag_value ''organization_id'' h,
      tg_client = (case th_rhc h of Some c \<Rightarrow> Some c | None \<Rightarrow> sat_client tv db h)\<rparr>"

fun insert_target :: "target \<Rightarrow> target list \<Rightarrow> target list" where
  "insert_target x [] = [x]"
| "insert_target x (y # ys) =
     (if str_less (th_id (tg_host y)) (th_id (tg_host x)) then y # insert_target x ys else x # y # ys)"

definition targets :: "tasks_env \<Rightarrow> task_request \<Rightarrow> string list \<Rightarrow> tasks_db \<Rightarrow> target list" where
  "targets tv rq hosts db =
     foldr insert_target (map (target_of tv db)
       (filter (\<lambda>h. tr_visible rq h \<and> th_org h = tr_org rq \<and> th_id h \<in> set hosts) (td_hosts db))) []"

definition dispatch_run :: "task_request \<Rightarrow> task_row \<Rightarrow> string \<Rightarrow> target \<Rightarrow> json py" where
  "dispatch_run rq t url g =
     (case tg_client g of
        None \<Rightarrow> Inl ValidationError
      | Some client \<Rightarrow>
          let sat = (case tg_sat g of Some i \<Rightarrow> i \<noteq> '''' | None \<Rightarrow> False);
              base = [(''recipient'', JStr client), (''org_id'', JStr (tr_org rq)),
                      (''url'', JStr (if sat then url @ ''?inventory_id='' @ th_id (tg_host g) else url)),
                      (''principal'', JStr (tr_user rq)), (''name'', JStr (tt_title t))]
          in Inr (JObj (if \<not> sat then base
               else base @ [(''recipient_config'', JObj
                 [(''sat_id'', JStr (the (tg_sat g))),
                  (''sat_org_id'', case tg_sat_org g of None \<Rightarrow> JNull | Some i \<Rightarrow> JStr i)]),
                 (''hosts'', JList [JObj [(''inventory_id'', JStr (th_id (tg_host g)))]])])))"

definition execute_playbook_dispatcher ::
  "tasks_env \<Rightarrow> task_request \<Rightarrow> task_row \<Rightarrow> string \<Rightarrow> target list \<Rightarrow> json py" where
  "execute_playbook_dispatcher tv rq t url gs =
     py_bind (py_mapM (dispatch_run rq t url) gs) (\<lambda>runs.
     py_bind (retry_request (tv_dev tv) (tv_post tv (tv_pd_url tv @ ''/internal/v2/dispatch'') (JList runs)) (\<lambda>_. 0) 1 5 False) (\<lambda>rr.
       if status_code (rr_response rr) \<noteq> 207 then Inl (Exn ''BadRequest'')
       else case body (rr_response rr) of None \<Rightarrow> Inl ValueError | Some v \<Rightarrow> Inr v))"

definition cloud_run :: "tasks_env \<Rightarrow> string \<Rightarrow> target \<Rightarrow> json py" where
  "cloud_run tv url g =
     (case tg_client g of
        None \<Rightarrow> Inl ValidationError
      | Some client \<Rightarrow>
          let run_id = tv_fresh tv (th_id (tg_host g));
              message = JObj [(''payload'', JStr url), (''directive'', JStr ''rhc-worker-script''),
                (''metadata'', JObj [(''correlation_id'', JStr run_id),
                   (''return_url'', JStr (''https://'' @ tv_platform_url tv @ ''/api/ingress/v1/upload'')),
                   (''return_content_type'', JStr ''application/vnd.redhat.tasks.payload+tgz'')])]
          in py_bind (retry_request (tv_dev tv) (tv_post tv (tv_cloud_url tv @ ''/'' @ client @ ''/message'') message)
                       (\<lambda>_. 0) 1 5 False) (\<lambda>rr.
               let code = status_code (rr_response rr) in
               Inr (JObj (if code = 201 then [(''code'', JInt code), (''id'', JStr run_id)] else [(''code'', JInt code)]))))"

definition execute_cloud_connector :: "tasks_env \<Rightarrow> string \<Rightarrow> target list \<Rightarrow> json py" where
  "execute_cloud_connector tv url gs = py_bind (py_mapM (cloud_run tv url) gs) (\<lambda>rs. Inr (JList rs))"

text \<open>\<open>runs_created += ...\<close> over the batches.\<close>

fun dispatch_batches :: "(target list \<Rightarrow> json py) \<Rightarrow> target list list \<Rightarrow> json list py" where
  "dispatch_batches f [] = Inr []"
| "dispatch_batches f (b # bs) =
     py_bind (f b) (\<lambda>v. py_bind (py_iter v) (\<lambda>rs. py_bind (dispatch_batches f bs) (\<lambda>rs'. Inr (rs @ rs'))))"

definition dispatch :: "tasks_env \<Rightarrow> task_request \<Rightarrow> task_row \<Rightarrow> string \<Rightarrow> target list \<Rightarrow> json list py" where
  "dispatch tv rq t url gs =
     (if tv_batch tv = 0 then Inl ValueError
      else dispatch_batches (case tt_type t of SCRIPT \<Rightarrow> execute_cloud_connector tv url
                             | ANSIBLE \<Rightarrow> execute_playbook_dispatcher tv rq t url)
             (batched (tv_batch tv) gs))"

section \<open>Creating the jobs\<close>

definition zero_uuid :: string where
  "zero_uuid = ''00000000-0000-0000-0000-000000000000''"

definition next_job_id :: "tasks_db \<Rightarrow> nat" where
  "next_job_id db = Suc (fold max (map jb_id (td_jobs db)) 0)"

definition dispatcher_name :: "task_row \<Rightarrow> string" where
  "dispatcher_name t = (case tt_type t of SCRIPT \<Rightarrow> ''Cloud Connector'' | ANSIBLE \<Rightarrow> ''Playbook Dispatcher'')"

definition failure_reason :: "tasks_env \<Rightarrow> json \<Rightarrow> string" where
  "failure_reason tv code =
     (if py_eq_int code 404 then ''host is not currently connected to RHC''
      else ''returned status code '' @ py_str (tv_str tv) code)"

definition log_dispatch :: "tasks_env \<Rightarrow> string \<Rightarrow> json \<Rightarrow> json \<Rightarrow> job_row \<Rightarrow> (tasks_state, unit) act" where
  "log_dispatch tv dispatcher run run_id j =
     (if truthy run_id
      then new_log j True (''Job dispatched to '' @ dispatcher @ '' (run ID '' @ py_str (tv_str tv) run_id @ '')'')
      else a_bind (a_lift (py_item run ''code'')) (\<lambda>code.
        new_log j False (''Job dispatch to '' @ dispatcher @ '' failed - '' @ failure_reason tv code)))"

definition create_job :: "tasks_env \<Rightarrow> extask \<Rightarrow> string \<Rightarrow> target \<Rightarrow> json \<Rightarrow> (tasks_state, job_row) act" where
  "create_job tv x dispatcher g run =
     a_bind (a_lift (py_get run ''id'')) (\<lambda>run_id.
     a_bind (a_lift (if truthy run_id then (case tv_uuid tv run_id of None \<Rightarrow> Inl ValidationError | Some u \<Rightarrow> Inr u)
                     else Inr zero_uuid)) (\<lambda>u.
     a_bind (get_db next_job_id) (\<lambda>i.
       let j = \<lparr>jb_id = i, jb_extask = xt_id x, jb_system = th_id (tg_host g),
                jb_status = (if truthy run_id then JRunning else JFailure), jb_stdout = '''', jb_results = JObj [],
                jb_updated = tv_now tv, jb_run = u, jb_rhc = tg_client g\<rparr> in
       a_then (upd_db (\<lambda>db. db\<lparr>td_jobs := td_jobs db @ [j]\<rparr>))
      (a_then (log_dispatch tv dispatcher run run_id j)
        (a_ret j)))))"

fun create_jobs :: "tasks_env \<Rightarrow> extask \<Rightarrow> string \<Rightarrow> (target \<times> json) list \<Rightarrow> (tasks_state, job_row list) act" where
  "create_jobs tv x dispatcher [] = a_ret []"
| "create_jobs tv x dispatcher ((g, run) # ps) =
     a_bind (create_job tv x dispatcher g run) (\<lambda>j.
     a_bind (create_jobs tv x dispatcher ps) (\<lambda>js. a_ret (j # js)))"

definition create_jobs_for_executed_task ::
  "tasks_env \<Rightarrow> extask \<Rightarrow> target list \<Rightarrow> json list \<Rightarrow> string \<Rightarrow> (tasks_state, job_row list \<times> job_row list) act" where
  "create_jobs_for_executed_task tv x gs runs dispatcher =
     a_bind (create_jobs tv x dispatcher (zip gs runs)) (\<lambda>js.
     a_then (update_executed_task_status tv None True False x)
       (a_ret (filter (\<lambda>j. jb_status j = JRunning) js, filter (\<lambda>j. jb_status j = JFailure) js)))"

section \<open>Start messages\<close>

definition job_payload :: "job_row \<Rightarrow> (tasks_state, (string \<times> json) list) act" where
  "job_payload j =
     a_bind (get_db (find_host (jb_system j))) (\<lambda>h. a_bind (or_missing h) (\<lambda>h.
       a_ret [(''system_uuid'', JStr (jb_system j)), (''display_name'', JStr (th_name h)),
              (''status'', JStr (job_label (jb_status j)))]))"

fun job_payloads :: "job_row list \<Rightarrow> (tasks_state, (string \<times> json) list list) act" where
  "job_payloads [] = a_ret []"
| "job_payloads (j # js) = a_bind (job_payload j) (\<lambda>p. a_bind (job_payloads js) (\<lambda>ps. a_ret (p # ps)))"

definition send_job_start_messages ::
  "tasks_env \<Rightarrow> extask \<Rightarrow> task_row \<Rightarrow> string \<Rightarrow> job_row list \<Rightarrow> (tasks_state, unit) act" where
  "send_job_start_messages tv x t event_type js =
     (if js = [] then a_ret ()
      else a_bind (job_payloads js) (\<lambda>ps.
        send_event_message tv event_type (xt_org x)
          [(''task_name'', JStr (xt_name x)), (''task_slug'', JStr (tt_slug t)), (''executed_task_id'', JInt (int (xt_id x)))] ps))"

definition send_start_messages ::
  "tasks_env \<Rightarrow> extask \<Rightarrow> job_row list \<Rightarrow> job_row list \<Rightarrow> (tasks_state, unit) act" where
  "send_start_messages tv x started failed =
     a_bind (task_of x) (\<lambda>t.
     a_then (send_event_message tv ''executed-task-started'' (xt_org x) [] [completed_payload x t])
    (a_then (send_job_start_messages tv x t ''job-started'' started)
     (send_job_start_messages tv x t ''job-failed'' failed)))"

section \<open>Operations on executed tasks\<close>

definition tasks_atomic :: "(tasks_state, 'a) act \<Rightarrow> (tasks_state, 'a) act" where
  "tasks_atomic m = (\<lambda>s. case m s of (Inl e, t) \<Rightarrow> (Inl e, t\<lparr>tk_db := tk_db s\<rparr>) | (Inr x, t) \<Rightarrow> (Inr x, t))"

definition next_extask_id :: "tasks_db \<Rightarrow> nat" where
  "next_extask_id db = Suc (fold max (map xt_id (td_extasks db)) 0)"

definition new_extask :: "tasks_env \<Rightarrow> task_request \<Rightarrow> task_row \<Rightarrow> execute_data \<Rightarrow> nat \<Rightarrow> extask" where
  "new_extask tv rq t xd i =
     \<lparr>xt_id = i, xt_name = (case xd_name xd of None \<Rightarrow> tt_title t | Some n \<Rightarrow> n), xt_task = tt_id t, xt_org = tr_org rq,
      xt_user = tr_user rq, xt_admin = tr_admin rq, xt_start = tv_now tv, xt_end = None, xt_status = TRunning,
      xt_token = tv_fresh tv (nat_digits i)\<rparr>"

definition playbook_url :: "tasks_env \<Rightarrow> task_row \<Rightarrow> string" where
  "playbook_url tv t = ''https://'' @ tv_platform_url tv @ ''/api/tasks/v1/task/'' @ tt_slug t @ ''/playbook''"

definition start_extask ::
  "tasks_env \<Rightarrow> task_request \<Rightarrow> execute_data \<Rightarrow> task_row \<Rightarrow> (tasks_state, nat \<times> job_row list \<times> job_row list) act" where
  "start_extask tv rq xd t =
     a_bind (get_db next_extask_id) (\<lambda>i.
       let x = new_extask tv rq t xd i in
       a_then (upd_db (\<lambda>db. db\<lparr>td_extasks := td_extasks db @ [x]\<rparr>))
      (a_bind (create_task_parameters t i (xd_params xd)) (\<lambda>has_parameters.
       a_bind (get_db (targets tv rq (xd_hosts xd))) (\<lambda>gs.
       a_bind (a_lift (dispatch tv rq t
          (if has_parameters then playbook_url tv t @ ''?token='' @ xt_token x else playbook_url tv t) gs)) (\<lambda>runs.
         if length runs \<noteq> length gs then a_raise AssertionError
         else a_bind (create_jobs_for_executed_task tv x gs runs (dispatcher_name t)) (\<lambda>(started, failed).
           a_ret (i, started, failed)))))))"

definition create_executed_task :: "tasks_env \<Rightarrow> task_request \<Rightarrow> execute_data \<Rightarrow> (tasks_state, extask) act" where
  "create_executed_task tv rq xd =
     a_bind (get_db (validate_execute rq xd)) (\<lambda>v. a_bind (a_lift v) (\<lambda>t.
     a_bind (tasks_atomic (start_extask tv rq xd t)) (\<lambda>(i, started, failed).
     a_bind (get_db (find_extask i)) (\<lambda>x. a_bind (or_missing x) (\<lambda>x.
     a_then (send_start_messages tv x started failed) (a_ret x))))))"

text \<open>The executed task of the request's organisation, or 404.\<close>

definition get_object :: "task_request \<Rightarrow> nat \<Rightarrow> (tasks_state, extask) act" where
  "get_object rq i =
     a_bind (get_db (\<lambda>db. find (\<lambda>x. xt_id x = i \<and> xt_org x = tr_org rq) (td_extasks db))) (\<lambda>x.
       case x of None \<Rightarrow> a_raise Http404 | Some x \<Rightarrow> a_ret x)"

definition cancel_request :: "task_request \<Rightarrow> string list \<Rightarrow> json" where
  "cancel_request rq run_ids =
     JList (map (\<lambda>r. JObj [(''run_id'', JStr r), (''org_id'', JStr (tr_org rq)), (''principal'', JStr (tr_user rq))]) run_ids)"

definition send_cancel :: "tasks_env \<Rightarrow> task_request \<Rightarrow> string list \<Rightarrow> (tasks_state, unit) act" where
  "send_cancel tv rq run_ids =
     a_then (a_lift (retry_request (tv_dev tv)
       (tv_post tv (tv_pd_url tv @ ''/internal/v2/cancel'') (cancel_request rq run_ids)) (\<lambda>_. 0) 1 5 False)) (a_ret ())"

definition cancel_jobs :: "extask \<Rightarrow> tasks_db \<Rightarrow> tasks_db" where
  "cancel_jobs x db = db\<lparr>td_jobs := map (\<lambda>j. if jb_extask j = xt_id x \<and> jb_status j = JRunning
     then j\<lparr>jb_status := JCancelled\<rparr> else j) (td_jobs db)\<rparr>"

definition cancel :: "tasks_env \<Rightarrow> task_request \<Rightarrow> nat \<Rightarrow> (tasks_state, extask) act" where
  "cancel tv rq i =
     a_bind (get_object rq i) (\<lambda>x.
       if xt_status x \<noteq> TRunning then a_ret x
       else
         a_bind (get_db (\<lambda>db. map jb_run (filter (\<lambda>j. jb_status j = JRunning) (jobs_of x db)))) (\<lambda>runs.
         a_then (if tv_batch tv = 0 then a_raise ValueError else a_for (send_cancel tv rq) (batched (tv_batch tv) runs))
        (a_then (upd_db (cancel_jobs x))
          (update_executed_task_status tv None True False x))))"

definition destroy :: "task_request \<Rightarrow> nat \<Rightarrow> (tasks_state, unit) act" where
  "destroy rq i = a_bind (get_object rq i) (\<lambda>x. upd_db (delete_extask x))"

section \<open>Connection state of systems\<close>

definition connected_in :: "json \<Rightarrow> json list py" where
  "connected_in info =
     py_bind (py_bind (py_item info ''systems'') py_iter) (\<lambda>systems.
     py_bind (if systems = [] then Inr JNull else py_item info ''status'') (\<lambda>status.
       if status = JStr ''connected''
       then (if list_all hashable systems then Inr systems else Inl TypeError) else Inr []))"

definition retrieve_pd_connected_systems :: "tasks_env \<Rightarrow> task_request \<Rightarrow> string list \<Rightarrow> json list py" where
  "retrieve_pd_connected_systems tv rq uuids =
     (if tv_pd_url tv = '''' \<or> tv_pd_psk tv = '''' then Inr []
      else py_bind (retry_request (tv_dev tv) (tv_post tv (tv_pd_url tv @ ''/internal/v2/connection_status'')
             (JObj [(''org_id'', JStr (tr_org rq)), (''hosts'', JList (map JStr uuids))])) (\<lambda>_. 0) 1 5 False) (\<lambda>rr.
        if status_code (rr_response rr) \<noteq> 200 then Inr []
        else case body (rr_response rr) of
          None \<Rightarrow> Inl ValueError
        | Some (JList infos) \<Rightarrow> py_bind (py_mapM connected_in infos) (\<lambda>xss. Inr (concat xss))
        | Some _ \<Rightarrow> Inr []))"

definition annotate_rhc_status :: "tasks_env \<Rightarrow> task_request \<Rightarrow> task_host list \<Rightarrow> (task_host \<times> bool) list py" where
  "annotate_rhc_status tv rq page =
     py_bind (py_mapM (\<lambda>b. retrieve_pd_connected_systems tv rq (map th_id b)) (batched 50 page)) (\<lambda>xss.
       Inr (map (\<lambda>h. (h, JStr (th_id h) \<in> set (concat xss))) page))"

end
