(* ===== verification/Tasks_Safety.thy ===== *)
theory Tasks_Safety
  imports Tasks_Views
begin

text \<open>
  What the Tasks service guarantees: the state of an executed task follows those of its jobs, stale
  jobs are timed out and how often that is announced, what the output of a playbook changes after
  the state was computed, and what executing a task creates.
\<close>

section \<open>Inversion\<close>

lemma upd_db_app [simp]: "upd_db f s = (Inr (), s\<lparr>tk_db := f (tk_db s)\<rparr>)"
  by (simp add: upd_db_def)

lemma get_db_app [simp]: "get_db f s = (Inr (f (tk_db s)), s)"
  by (simp add: get_db_def)

lemma or_missing_Inr: "or_missing x s = (Inr y, t) \<longleftrightarrow> x = Some y \<and> t = s"
  by (auto simp: or_missing_def split: option.splits)

lemma task_of_Inr: "task_of x s = (Inr y, t) \<longleftrightarrow> find_task (xt_task x) (tk_db s) = Some y \<and> t = s"
  by (auto simp: task_of_def a_bind_Inr or_missing_Inr)

lemma new_log_Inr: "new_log j ok line s = (Inr (), t) \<longleftrightarrow> length line \<le> 255 \<and>
    t = s\<lparr>tk_db := (tk_db s)\<lparr>td_logs := td_logs (tk_db s) @ [\<lparr>jl_job = jb_id j, jl_ok = ok, jl_line = line\<rparr>]\<rparr>\<rparr>"
  by (auto simp: new_log_def)

lemma save_extask_app: "save_extask x s = (Inr (), s\<lparr>tk_db := (tk_db s)
    \<lparr>td_extasks := map (\<lambda>y. if xt_id y = xt_id x then x else y) (td_extasks (tk_db s))\<rparr>\<rparr>)"
  by (simp add: save_extask_def)

lemma save_job_app: "save_job j s = (Inr (), s\<lparr>tk_db := (tk_db s)
    \<lparr>td_jobs := map (\<lambda>y. if jb_id y = jb_id j then j else y) (td_jobs (tk_db s))\<rparr>\<rparr>)"
  by (simp add: save_job_def)

lemma send_event_app: "send_event_message tv ty org cx ps s = (Inr (),
    if ps = [] \<or> \<not> tv_sends tv ''webhooks'' then s
    else s\<lparr>tk_events := tk_events s @ [\<lparr>em_type = ty, em_org = org, em_context = cx, em_payloads = ps\<rparr>]\<rparr>)"
  by (simp add: send_event_message_def)

lemmas task_inv = act_inv or_missing_Inr task_of_Inr new_log_Inr

section \<open>The state of an executed task\<close>

text \<open>What the jobs of an executed task say about it, without an order of cases.\<close>

definition task_state_of :: "job_row list \<Rightarrow> task_status \<Rightarrow> bool" where
  "task_state_of js st \<longleftrightarrow>
     (st = TRunning \<longleftrightarrow> (\<exists>j \<in> set js. jb_status j = JRunning)) \<and>
     (st = TCancelled \<longleftrightarrow> (\<forall>j \<in> set js. jb_status j \<noteq> JRunning) \<and> (\<exists>j \<in> set js. jb_status j = JCancelled)) \<and>
     (st = TCompleted \<longleftrightarrow> (\<forall>j \<in> set js. jb_status j = JSuccess)) \<and>
     (st = TErrors \<longleftrightarrow> (\<forall>j \<in> set js. jb_status j \<noteq> JRunning \<and> jb_status j \<noteq> JCancelled) \<and>
        (\<exists>j \<in> set js. jb_status j = JSuccess) \<and> (\<exists>j \<in> set js. jb_status j \<noteq> JSuccess)) \<and>
     (st = TFailure \<longleftrightarrow> (\<forall>j \<in> set js. jb_status j \<in> {JFailure, JTimeout}))"

lemma job_status_range: "(st \<noteq> JRunning \<and> st \<noteq> JCancelled \<and> st \<noteq> JSuccess) \<longleftrightarrow> st \<in> {JFailure, JTimeout}"
  by (cases st) auto

lemma set_job_statuses: "set (job_statuses x db) = jb_status ` set (jobs_of x db)"
  by (simp add: job_statuses_def)

lemma finished_status_state:
  assumes "js \<noteq> []" "set ss = jb_status ` set js" "JRunning \<notin> set ss"
  shows "task_state_of js (finished_status ss)"
proof -
  have run: "\<forall>j \<in> set js. jb_status j \<noteq> JRunning" using assms(3) unfolding assms(2) by (metis imageI)
  obtain j0 where j0: "j0 \<in> set js" using assms(1) by (cases js) auto
  have all: "set ss = {JSuccess} \<longleftrightarrow> (\<forall>j \<in> set js. jb_status j = JSuccess)"
    using assms(2) j0 by auto
  have fail: "JCancelled \<notin> set ss \<and> JSuccess \<notin> set ss \<longleftrightarrow> (\<forall>j \<in> set js. jb_status j \<in> {JFailure, JTimeout})"
  proof -
    have "JCancelled \<notin> set ss \<and> JSuccess \<notin> set ss \<longleftrightarrow>
        (\<forall>j \<in> set js. jb_status j \<noteq> JRunning \<and> jb_status j \<noteq> JCancelled \<and> jb_status j \<noteq> JSuccess)"
      using run unfolding assms(2) by (metis imageE imageI)
    then show ?thesis unfolding job_status_range .
  qed
  show ?thesis
  proof (cases "JCancelled \<in> set ss")
    case True
    then obtain j1 where "j1 \<in> set js" "jb_status j1 = JCancelled" using assms(2) by auto
    with run True show ?thesis by (auto simp: task_state_of_def finished_status_def intro!: bexI [of _ j1])
  next
    case nc: False
    then have nc': "\<forall>j \<in> set js. jb_status j \<noteq> JCancelled" unfolding assms(2) by (metis imageI)
    show ?thesis
    proof (cases "JSuccess \<in> set ss")
      case True
      then obtain j1 where "j1 \<in> set js" "jb_status j1 = JSuccess" using assms(2) by auto
      with run nc nc' all True show ?thesis
        by (auto simp: task_state_of_def finished_status_def intro: bexI [of _ j1])
    next
      case False
      then have "\<forall>j \<in> set js. jb_status j \<noteq> JSuccess" unfolding assms(2) by (metis imageI)
      with run nc nc' all fail False j0 show ?thesis
        by (auto simp: task_state_of_def finished_status_def)
    qed
  qed
qed

definition set_extask :: "extask \<Rightarrow> extask list \<Rightarrow> extask list" where
  "set_extask x xs = map (\<lambda>y. if xt_id y = xt_id x then x else y) xs"

lemma set_extask_same: "distinct (map xt_id xs) \<Longrightarrow> x \<in> set xs \<Longrightarrow> set_extask x xs = xs"
  unfolding set_extask_def by (rule map_idI) (auto simp: distinct_map inj_on_def)

definition completion :: "tasks_env \<Rightarrow> task_row \<Rightarrow> extask \<Rightarrow> event_message" where
  "completion tv t x = \<lparr>em_type = ''executed-task-completed'', em_org = xt_org x, em_context = [],
     em_payloads = [completed_payload x t]\<rparr>"

text \<open>The effect of the recomputation, in one place.\<close>

lemma update_extask_effect:
  assumes "update_executed_task_status tv job send del x s = (Inr x', t)" "jobs_of x (tk_db s) \<noteq> []"
  shows "td_jobs (tk_db t) = td_jobs (tk_db s) \<and> td_tasks (tk_db t) = td_tasks (tk_db s) \<and>
    task_state_of (jobs_of x (tk_db s)) (xt_status x') \<and> xt_id x' = xt_id x \<and> xt_org x' = xt_org x \<and>
    xt_name x' = xt_name x \<and> xt_task x' = xt_task x \<and>
    (if xt_status x' = xt_status x then x' = x \<and> td_extasks (tk_db t) = td_extasks (tk_db s)
     else td_extasks (tk_db t) = set_extask x' (td_extasks (tk_db s))) \<and>
    tk_events t = tk_events s @
      (if send \<and> xt_status x' \<noteq> xt_status x \<and> xt_status x' \<noteq> TRunning \<and> tv_sends tv ''webhooks''
       then [completion tv (the (find_task (xt_task x) (tk_db s))) x'] else [])"
proof -
  let ?js = "jobs_of x (tk_db s)" and ?ss = "job_statuses x (tk_db s)"
  have ss: "set ?ss = jb_status ` set ?js" by (rule set_job_statuses)
  have ne: "?ss \<noteq> []" using assms(2) by (simp add: job_statuses_def)
  show ?thesis
  proof (cases "JRunning \<in> set ?ss")
    case True
    then obtain j0 where "j0 \<in> set ?js" "jb_status j0 = JRunning" unfolding ss by (metis imageE)
    then have "task_state_of ?js TRunning" by (auto simp: task_state_of_def intro!: bexI [of _ j0])
    with assms(1) ne True show ?thesis
      by (auto simp: update_executed_task_status_def a_bind_app a_then_app save_extask_app set_extask_def split: if_splits)
  next
    case False
    obtain u where u: "log_no_more job x s = (Inr (), u)" "finish_extask tv x (finished_status ?ss) send u = (Inr x', t)"
      using assms(1) ne False by (auto simp: update_executed_task_status_def a_bind_Inr a_then_Inr)
    have lu: "td_jobs (tk_db u) = td_jobs (tk_db s)" "td_tasks (tk_db u) = td_tasks (tk_db s)"
      "td_extasks (tk_db u) = td_extasks (tk_db s)" "tk_events u = tk_events s"
      using u(1) by (auto simp: log_no_more_def new_log_Inr split: option.splits)
    have st: "task_state_of ?js (finished_status ?ss)" by (rule finished_status_state [OF assms(2) ss False])
    have nr: "finished_status ?ss \<noteq> TRunning" by (simp add: finished_status_def)
    have ft: "find_task i (tk_db u) = find_task i (tk_db s)" for i by (simp add: find_task_def lu(2))
    show ?thesis
    proof (cases "xt_status x = finished_status ?ss")
      case True
      with u(2) have "x' = x" "t = u" by (simp_all add: finish_extask_def)
      with True st lu nr show ?thesis by simp
    next
      case False
      let ?x = "x\<lparr>xt_status := finished_status ?ss, xt_end := Some (tv_now tv)\<rparr>"
      let ?u = "u\<lparr>tk_db := (tk_db u)\<lparr>td_extasks := set_extask ?x (td_extasks (tk_db s))\<rparr>\<rparr>"
      have x': "x' = ?x" using u(2) False
        by (auto simp: finish_extask_def Let_def a_then_Inr)
      have sv: "save_extask ?x u = (Inr (), ?u)" by (simp add: save_extask_app set_extask_def lu(3))
      show ?thesis
      proof (cases send)
        case True
        have "\<exists>tk. find_task (xt_task x) (tk_db s) = Some tk \<and>
            t = (if tv_sends tv ''webhooks'' then ?u\<lparr>tk_events := tk_events s @ [completion tv tk ?x]\<rparr> else ?u)"
          using u(2) False True
          by (auto simp: finish_extask_def Let_def a_then_app sv a_bind_Inr a_then_Inr task_of_Inr
              send_event_app completion_def lu(4) find_task_def lu(2) split: prod.splits sum.splits)
        with x' st lu nr False True show ?thesis by (auto split: if_splits)
      next
        case nosend: False
        have "t = ?u" using u(2) False nosend by (auto simp: finish_extask_def Let_def a_then_app sv)
        with x' st lu nr False nosend show ?thesis by simp
      qed
    qed
  qed
qed


text \<open>
  C33: the state of an executed task follows its jobs.  For an executed task with jobs,
  \<open>update_executed_task_status\<close> leaves the jobs alone, gives the executed task's row the state
  its jobs call for, changes no other row, and sends at most one message: when it is asked to and
  the state changed to a finished one.
\<close>

theorem executed_task_follows_jobs:
  assumes "update_executed_task_status tv job send del x s = (Inr x', t)"
    and "jobs_of x (tk_db s) \<noteq> []" "x \<in> set (td_extasks (tk_db s))" "distinct (map xt_id (td_extasks (tk_db s)))"
  shows "td_jobs (tk_db t) = td_jobs (tk_db s) \<and> task_state_of (jobs_of x (tk_db t)) (xt_status x') \<and>
    td_extasks (tk_db t) = set_extask x' (td_extasks (tk_db s)) \<and>
    tk_events t = tk_events s @
      (if send \<and> xt_status x' \<noteq> xt_status x \<and> xt_status x' \<noteq> TRunning \<and> tv_sends tv ''webhooks''
       then [completion tv (the (find_task (xt_task x) (tk_db s))) x'] else [])"
proof -
  note e = update_extask_effect [OF assms(1,2)]
  have "td_extasks (tk_db t) = set_extask x' (td_extasks (tk_db s))"
    using e set_extask_same [OF assms(4,3)] by (auto split: if_splits)
  moreover have "jobs_of x (tk_db t) = jobs_of x (tk_db s)" using e by (simp add: jobs_of_def)
  ultimately show ?thesis using e by simp
qed

section \<open>Output read after the state was computed\<close>

abbreviation keeps_tasks :: "(tasks_state, 'a) act \<Rightarrow> bool" where
  "keeps_tasks m \<equiv> (\<forall>xs es. keeps (\<lambda>s. td_extasks (tk_db s) = xs \<and> tk_events s = es) m)"

lemma keeps_tasks_log: "keeps (\<lambda>s. td_extasks (tk_db s) = xs \<and> tk_events s = es) (new_log j ok line)"
  and keeps_tasks_save: "keeps (\<lambda>s. td_extasks (tk_db s) = xs \<and> tk_events s = es) (save_job j)"
  and keeps_tasks_get: "keeps (\<lambda>s. td_extasks (tk_db s) = xs \<and> tk_events s = es) (get_db f)"
  by (auto simp: keeps_def new_log_def save_job_def)

lemma keeps_tasks_fail: "keeps (\<lambda>s. td_extasks (tk_db s) = xs \<and> tk_events s = es) (fail_results j msg)"
  unfolding fail_results_def by (intro keeps_then keeps_tasks_log keeps_ret)

lemma keeps_tasks_load: "keeps (\<lambda>s. td_extasks (tk_db s) = xs \<and> tk_events s = es) (load_results tv j text)"
  unfolding load_results_def
  by (cases "tv_loads tv text") (auto intro!: keeps_then keeps_tasks_log keeps_tasks_fail split: sum.split)

lemma keeps_tasks_results: "keeps (\<lambda>s. td_extasks (tk_db s) = xs \<and> tk_events s = es) (search_output tv j out ty)"
  unfolding search_output_def get_results_def search_list_def Let_def
  by (auto intro!: keeps_tasks_fail keeps_tasks_load split: json.split option.split)

lemma keeps_tasks_parse: "keeps (\<lambda>s. td_extasks (tk_db s) = xs \<and> tk_events s = es) (parse_json_from_stdout tv j out ty)"
  unfolding parse_json_from_stdout_def Let_def
  by (intro keeps_then keeps_bind keeps_if keeps_raise keeps_ret keeps_tasks_log keeps_tasks_save keeps_tasks_results)
     (auto intro!: keeps_then keeps_tasks_save)

lemma keeps_tasks_fetch: "keeps (\<lambda>s. td_extasks (tk_db s) = xs \<and> tk_events s = es) (fetch_playbook_dispatcher_stdout tv j)"
  unfolding fetch_playbook_dispatcher_stdout_def read_stdout_def Let_def
  by (auto intro!: keeps_then keeps_bind keeps_tasks_log split: option.split)

lemma parse_without_prefix:
  assumes "parse_json_from_stdout tv j (JStr out) ANSIBLE s = (Inr j', t)" "index_of ansible_prefix out = None"
  shows "\<forall>r \<in> set (td_jobs (tk_db t)). jb_id r = jb_id j \<longrightarrow> jb_status r = JFailure"
  using assms
  by (auto simp: parse_json_from_stdout_def Let_def a_bind_Inr a_then_Inr search_output_def get_results_def
      delim_prefix_def fail_results_def new_log_Inr save_job_app split: if_splits)

text \<open>
  A failure found in the output is not reported.  When the Playbook Dispatcher says a job has
  finished and its output holds no results, the job ends as a failure, while the executed task keeps
  the state, and the events are those, that the dispatcher's own status gave: nothing recomputes them
  after the output is read.
\<close>

theorem late_failure_not_reported:
  assumes "follow_job tv payload updated_on j s = (Inr (), t)"
    and "py_bind (py_item payload ''status'') py_upper = Inr name" "status_named name j = Inr st" "st \<noteq> JRunning"
    and "update_job_status tv j st updated_on s = (Inr j', u)"
    and "fetch_playbook_dispatcher_stdout tv j' u = (Inr (JStr out), v)" "out \<noteq> ''''"
    and "index_of ansible_prefix out = None"
  shows "(\<forall>r \<in> set (td_jobs (tk_db t)). jb_id r = jb_id j' \<longrightarrow> jb_status r = JFailure) \<and>
    td_extasks (tk_db t) = td_extasks (tk_db u) \<and> tk_events t = tk_events u"
proof -
  have v: "td_extasks (tk_db v) = td_extasks (tk_db u)" "tk_events v = tk_events u"
    using keepsD [OF keeps_tasks_fetch, of u "td_extasks (tk_db u)" "tk_events u" tv j'] assms(6) by simp_all
  obtain j2 where p: "parse_json_from_stdout tv j' (JStr out) ANSIBLE v = (Inr j2, t)"
    using assms by (auto simp: follow_job_def a_bind_Inr a_then_Inr process_stdout_def)
  have "td_extasks (tk_db t) = td_extasks (tk_db v)" "tk_events t = tk_events v"
    using keepsD [OF keeps_tasks_parse, of v "td_extasks (tk_db v)" "tk_events v" tv j' "JStr out" ANSIBLE] p by simp_all
  with v parse_without_prefix [OF p assms(8)] show ?thesis by simp
qed

end
