(* ===== verification/Tasks_Timeouts.thy ===== *)
theory Tasks_Timeouts
  imports Tasks_Safety
begin

text \<open>
  Stale jobs: which jobs \<open>stale_job_timeout\<close> times out, that it changes no other, and the messages
  it sends about the executed tasks.
\<close>

section \<open>The jobs after a step\<close>

definition timed_out :: "tasks_env \<Rightarrow> job_row \<Rightarrow> job_row" where
  "timed_out tv j = j\<lparr>jb_status := JTimeout, jb_updated := tv_now tv\<rparr>"

lemma timed_out_fields [simp]:
  "jb_id (timed_out tv j) = jb_id j" "jb_extask (timed_out tv j) = jb_extask j"
  "jb_status (timed_out tv j) = JTimeout" "\<not> stale limit (timed_out tv j)"
  by (simp_all add: timed_out_def stale_def)

text \<open>The jobs \<open>js\<close>, those satisfying \<open>P\<close> timed out.\<close>

definition with_timed_out :: "tasks_env \<Rightarrow> job_row list \<Rightarrow> (job_row \<Rightarrow> bool) \<Rightarrow> job_row list" where
  "with_timed_out tv js P = map (\<lambda>j. if P j then timed_out tv j else j) js"

lemma with_timed_out_none: "with_timed_out tv js (\<lambda>_. False) = js"
  by (simp add: with_timed_out_def)

lemma with_timed_out_cong:
  "(\<And>j. j \<in> set js \<Longrightarrow> P j \<longleftrightarrow> Q j) \<Longrightarrow> with_timed_out tv js P = with_timed_out tv js Q"
  by (simp add: with_timed_out_def)

lemma stale_with_timed_out:
  "set (filter (stale limit) (with_timed_out tv js P)) = {j \<in> set js. stale limit j \<and> \<not> P j}"
  by (auto simp: with_timed_out_def split: if_splits)

lemma time_out_job_effect:
  assumes "time_out_job tv t j s = (Inr (), s')" "td_jobs (tk_db s) = with_timed_out tv js P"
    and "distinct (map jb_id js)" "j \<in> set js"
  shows "td_jobs (tk_db s') = with_timed_out tv js (\<lambda>y. P y \<or> y = j) \<and>
    td_extasks (tk_db s') = td_extasks (tk_db s) \<and> td_tasks (tk_db s') = td_tasks (tk_db s) \<and> tk_events s' = tk_events s"
proof -
  have same: "jb_id y = jb_id j \<longleftrightarrow> y = j" if "y \<in> set js" for y
    using assms(3,4) that by (auto simp: distinct_map inj_on_def)
  have "td_jobs (tk_db s') = map (\<lambda>y. if jb_id y = jb_id j then timed_out tv j else y) (with_timed_out tv js P)"
    using assms(1,2) by (auto simp: time_out_job_def a_then_Inr new_log_Inr save_job_app timed_out_def)
  also have "\<dots> = with_timed_out tv js (\<lambda>y. P y \<or> y = j)"
    by (auto simp: with_timed_out_def same)
  finally show ?thesis using assms(1)
    by (auto simp: time_out_job_def a_then_Inr new_log_Inr save_job_app)
qed

lemma time_out_jobs_effect:
  assumes "a_for (time_out_job tv t) us s = (Inr (), s')" "td_jobs (tk_db s) = with_timed_out tv js P"
    and "distinct (map jb_id js)" "set us \<subseteq> set js"
  shows "td_jobs (tk_db s') = with_timed_out tv js (\<lambda>y. P y \<or> y \<in> set us) \<and>
    td_extasks (tk_db s') = td_extasks (tk_db s) \<and> td_tasks (tk_db s') = td_tasks (tk_db s) \<and> tk_events s' = tk_events s"
  using assms
proof (induction us arbitrary: s P)
  case Nil
  then show ?case by simp
next
  case (Cons j us)
  obtain u where u: "time_out_job tv t j s = (Inr (), u)" "a_for (time_out_job tv t) us u = (Inr (), s')"
    using Cons.prems(1) by (auto simp: a_then_Inr)
  note e = time_out_job_effect [OF u(1) Cons.prems(2,3)]
  have "j \<in> set js" "set us \<subseteq> set js" using Cons.prems(4) by auto
  with Cons.IH [OF u(2) _ Cons.prems(3)] e
  have "td_jobs (tk_db s') = with_timed_out tv js (\<lambda>y. (P y \<or> y = j) \<or> y \<in> set us) \<and>
    td_extasks (tk_db s') = td_extasks (tk_db s) \<and> td_tasks (tk_db s') = td_tasks (tk_db s) \<and> tk_events s' = tk_events s"
    by simp
  then show ?case by (simp add: disj_assoc)
qed

lemma keeps_jobs_log: "keeps (\<lambda>s. td_jobs (tk_db s) = js) (new_log j ok line)"
  and keeps_jobs_save: "keeps (\<lambda>s. td_jobs (tk_db s) = js) (save_extask x)"
  and keeps_jobs_send: "keeps (\<lambda>s. td_jobs (tk_db s) = js) (send_event_message tv ty org cx ps)"
  by (auto simp: keeps_def new_log_def save_extask_app send_event_app)

lemma keeps_jobs_task_of: "keeps (\<lambda>s. td_jobs (tk_db s) = js) (task_of x)"
  by (auto simp: keeps_def task_of_def or_missing_def a_bind_app split: option.split)

lemma keeps_jobs_update: "keeps (\<lambda>s. td_jobs (tk_db s) = js) (update_executed_task_status tv job send False x)"
  unfolding update_executed_task_status_def get_db_def log_no_more_def finish_extask_def Let_def
  by (auto intro!: keeps_bind keeps_if keeps_then keeps_get keeps_ret keeps_jobs_log keeps_jobs_save keeps_jobs_send
      keeps_jobs_task_of split: option.split)

lemma time_out_extask_effect:
  assumes "time_out_extask tv t limit x s = (Inr (), s')" "td_jobs (tk_db s) = with_timed_out tv js P"
    and "distinct (map jb_id js)"
  shows "td_jobs (tk_db s') = with_timed_out tv js (\<lambda>y. P y \<or> stale limit y \<and> jb_extask y = xt_id x)"
proof -
  let ?us = "filter (stale limit) (jobs_of x (tk_db s))"
  obtain u x' where u: "a_for (time_out_job tv t) ?us s = (Inr (), u)"
      "update_executed_task_status tv None True False x u = (Inr x', s')"
    using assms(1) by (auto simp: time_out_extask_def a_bind_Inr a_then_Inr)
  have "set ?us = {j \<in> set (filter (stale limit) (td_jobs (tk_db s))). jb_extask j = xt_id x}"
    by (auto simp: jobs_of_def)
  then have us: "set ?us = {j \<in> set js. stale limit j \<and> \<not> P j \<and> jb_extask j = xt_id x}"
    unfolding assms(2) stale_with_timed_out by auto
  have "td_jobs (tk_db s') = td_jobs (tk_db u)"
    using keepsD [OF keeps_jobs_update, of u "td_jobs (tk_db u)" tv None True x] u(2) by simp
  also have "\<dots> = with_timed_out tv js (\<lambda>y. P y \<or> y \<in> set ?us)"
    using time_out_jobs_effect [OF u(1) assms(2,3)] us by blast
  also have "\<dots> = with_timed_out tv js (\<lambda>y. P y \<or> stale limit y \<and> jb_extask y = xt_id x)"
    using us by (intro with_timed_out_cong) auto
  finally show ?thesis .
qed

lemma time_out_extasks_effect:
  assumes "a_for (time_out_extask tv t limit) xs s = (Inr (), s')" "td_jobs (tk_db s) = with_timed_out tv js P"
    and "distinct (map jb_id js)"
  shows "td_jobs (tk_db s') = with_timed_out tv js (\<lambda>y. P y \<or> stale limit y \<and> jb_extask y \<in> xt_id ` set xs)"
  using assms
proof (induction xs arbitrary: s P)
  case Nil
  then show ?case by simp
next
  case (Cons x xs)
  obtain u where u: "time_out_extask tv t limit x s = (Inr (), u)" "a_for (time_out_extask tv t limit) xs u = (Inr (), s')"
    using Cons.prems(1) by (auto simp: a_then_Inr)
  note e = time_out_extask_effect [OF u(1) Cons.prems(2,3)]
  have "td_jobs (tk_db s') = with_timed_out tv js
    (\<lambda>y. (P y \<or> stale limit y \<and> jb_extask y = xt_id x) \<or> stale limit y \<and> jb_extask y \<in> xt_id ` set xs)"
    by (rule Cons.IH [OF u(2) e Cons.prems(3)])
  also have "\<dots> = with_timed_out tv js (\<lambda>y. P y \<or> stale limit y \<and> jb_extask y \<in> xt_id ` set (x # xs))"
    by (intro with_timed_out_cong) auto
  finally show ?case .
qed

text \<open>
  C36: stale jobs are timed out, and only those.  When \<open>check_stale_jobs_for\<close> returns, the jobs of
  the task's executed tasks that were running and not updated within the task's timeout have the
  state Timeout and the present time; no other job has changed.
\<close>

theorem stale_jobs_time_out:
  assumes "check_stale_jobs_for tv t s = (Inr (), s')" "distinct (map jb_id (td_jobs (tk_db s)))"
  shows "td_jobs (tk_db s') =
    map (\<lambda>j. if jb_status j = JRunning \<and> jb_updated j < tv_now tv - tt_timeout t \<and>
               (\<exists>x \<in> set (td_extasks (tk_db s)). xt_id x = jb_extask j \<and> xt_task x = tt_id t)
             then j\<lparr>jb_status := JTimeout, jb_updated := tv_now tv\<rparr> else j) (td_jobs (tk_db s))"
proof -
  let ?l = "tv_now tv - tt_timeout t" and ?js = "td_jobs (tk_db s)"
  have mem: "jb_extask j \<in> xt_id ` set (timed_out_extasks t ?l (tk_db s)) \<longleftrightarrow>
      (\<exists>x \<in> set (td_extasks (tk_db s)). xt_id x = jb_extask j \<and> xt_task x = tt_id t)"
    if "j \<in> set ?js" "stale ?l j" for j
    using that by (force simp: timed_out_extasks_def jobs_of_def)
  have "td_jobs (tk_db s') = with_timed_out tv ?js
      (\<lambda>y. False \<or> stale ?l y \<and> jb_extask y \<in> xt_id ` set (timed_out_extasks t ?l (tk_db s)))"
    using assms by (intro time_out_extasks_effect [where s = s and t = t])
      (simp_all add: check_stale_jobs_for_def Let_def a_bind_Inr with_timed_out_none)
  also have "\<dots> = with_timed_out tv ?js (\<lambda>y. jb_status y = JRunning \<and> jb_updated y < ?l \<and>
               (\<exists>x \<in> set (td_extasks (tk_db s)). xt_id x = jb_extask y \<and> xt_task x = tt_id t))"
    using mem by (intro with_timed_out_cong) (auto simp: stale_def)
  finally show ?thesis unfolding with_timed_out_def timed_out_def .
qed

section \<open>The messages\<close>

text \<open>An executed task whose jobs have all timed out, in the database.\<close>

definition all_timed_out :: "extask \<Rightarrow> tasks_db \<Rightarrow> bool" where
  "all_timed_out x db \<longleftrightarrow> jobs_of x db \<noteq> [] \<and> (\<forall>j \<in> set (jobs_of x db). jb_status j = JTimeout)"

definition failed_completion :: "tasks_env \<Rightarrow> task_row \<Rightarrow> extask \<Rightarrow> event_message" where
  "failed_completion tv t x = completion tv t (x\<lparr>xt_status := TFailure, xt_end := Some (tv_now tv)\<rparr>)"

lemma update_timed_out:
  assumes "update_executed_task_status tv None True False x s = (Inr x', s')" "all_timed_out x (tk_db s)"
    and "xt_status x = TRunning" "find_task (xt_task x) (tk_db s) = Some t" "tv_sends tv ''webhooks''"
  shows "tk_events s' = tk_events s @ [failed_completion tv t x] \<and> td_jobs (tk_db s') = td_jobs (tk_db s) \<and>
    td_tasks (tk_db s') = td_tasks (tk_db s)"
proof -
  note e = update_extask_effect [OF assms(1)]
  have "jobs_of x (tk_db s) \<noteq> []" "\<forall>j \<in> set (jobs_of x (tk_db s)). jb_status j = JTimeout"
    using assms(2) by (simp_all add: all_timed_out_def)
  with e have "xt_status x' = TFailure" by (auto simp: task_state_of_def)
  with e assms show ?thesis
    by (simp add: failed_completion_def completion_def completed_payload_def all_timed_out_def)
qed

lemma jobs_of_cong: "td_jobs a = td_jobs b \<Longrightarrow> jobs_of x a = jobs_of x b"
  by (simp add: jobs_of_def)

lemma find_task_cong: "td_tasks a = td_tasks b \<Longrightarrow> find_task i a = find_task i b"
  by (simp add: find_task_def)

text \<open>One more time through the loop for an executed task all of whose jobs are stale or timed out.\<close>

lemma time_out_extask_events:
  assumes "time_out_extask tv t limit x s = (Inr (), s')" "distinct (map jb_id (td_jobs (tk_db s)))"
    and "jobs_of x (tk_db s) \<noteq> []"
    and "\<forall>j \<in> set (jobs_of x (tk_db s)). stale limit j \<or> jb_status j = JTimeout"
    and "xt_status x = TRunning" "find_task (xt_task x) (tk_db s) = Some t" "tv_sends tv ''webhooks''"
  shows "tk_events s' = tk_events s @ [failed_completion tv t x] \<and> all_timed_out x (tk_db s') \<and>
    find_task (xt_task x) (tk_db s') = Some t \<and> distinct (map jb_id (td_jobs (tk_db s')))"
proof -
  let ?js = "td_jobs (tk_db s)" and ?us = "filter (stale limit) (jobs_of x (tk_db s))"
  obtain u x' where u: "a_for (time_out_job tv t) ?us s = (Inr (), u)"
      "update_executed_task_status tv None True False x u = (Inr x', s')"
    using assms(1) by (auto simp: time_out_extask_def a_bind_Inr a_then_Inr)
  have us: "set ?us \<subseteq> set ?js" by (auto simp: jobs_of_def)
  have e: "td_jobs (tk_db u) = with_timed_out tv ?js (\<lambda>y. y \<in> set ?us)" "td_tasks (tk_db u) = td_tasks (tk_db s)"
      "tk_events u = tk_events s"
    using time_out_jobs_effect [OF u(1), where js = ?js and P = "\<lambda>_. False"] us assms(2)
    by (simp_all add: with_timed_out_none)
  have jobs: "jobs_of x (tk_db u) = map (\<lambda>j. if j \<in> set ?us then timed_out tv j else j) (jobs_of x (tk_db s))"
    unfolding jobs_of_def e(1) with_timed_out_def by (simp add: filter_map comp_def) (rule map_cong, rule filter_cong, auto)
  have all: "all_timed_out x (tk_db u)"
    unfolding all_timed_out_def jobs using assms(3,4) by auto
  have ft: "find_task (xt_task x) (tk_db u) = Some t" using assms(6) find_task_cong [OF e(2)] by simp
  note w = update_timed_out [OF u(2) all assms(5) ft assms(7)]
  have "distinct (map jb_id (td_jobs (tk_db u)))"
    unfolding e(1) with_timed_out_def using assms(2) by (simp add: comp_def if_distrib cong: if_cong)
  with w e all ft show ?thesis
    by (simp add: all_timed_out_def jobs_of_cong [of "tk_db s'" "tk_db u"] find_task_cong [of "tk_db s'" "tk_db u"])
qed

lemma time_out_copies_events:
  assumes "a_for (time_out_extask tv t limit) (replicate n x) s = (Inr (), s')"
    and "distinct (map jb_id (td_jobs (tk_db s)))" "jobs_of x (tk_db s) \<noteq> []"
    and "\<forall>j \<in> set (jobs_of x (tk_db s)). stale limit j \<or> jb_status j = JTimeout"
    and "xt_status x = TRunning" "find_task (xt_task x) (tk_db s) = Some t" "tv_sends tv ''webhooks''"
  shows "tk_events s' = tk_events s @ replicate n (failed_completion tv t x)"
  using assms
proof (induction n arbitrary: s)
  case 0
  then show ?case by simp
next
  case (Suc n)
  obtain u where u: "time_out_extask tv t limit x s = (Inr (), u)"
      "a_for (time_out_extask tv t limit) (replicate n x) u = (Inr (), s')"
    using Suc.prems(1) by (auto simp: a_then_Inr)
  note e = time_out_extask_events [OF u(1) Suc.prems(2-)]
  have "tk_events s' = tk_events u @ replicate n (failed_completion tv t x)"
    using e Suc.prems(5,7) by (intro Suc.IH [OF u(2)]) (simp_all add: all_timed_out_def)
  with e show ?case by simp
qed

text \<open>
  One message per stale job.  When all jobs of the only executed task of a task are stale, the
  command sends the completion of that executed task once for each of them: the query that finds it
  joins the jobs and lists it as many times, each time with the state it had.
\<close>

theorem completion_sent_per_stale_job:
  assumes "check_stale_jobs_for tv t s = (Inr (), s')" "distinct (map jb_id (td_jobs (tk_db s)))"
    and "filter (\<lambda>y. xt_task y = tt_id t) (td_extasks (tk_db s)) = [x]"
    and "jobs_of x (tk_db s) \<noteq> []" "\<forall>j \<in> set (jobs_of x (tk_db s)). stale (tv_now tv - tt_timeout t) j"
    and "xt_status x = TRunning" "find_task (xt_task x) (tk_db s) = Some t" "tv_sends tv ''webhooks''"
  shows "tk_events s' = tk_events s @ replicate (length (jobs_of x (tk_db s)))
    (completion tv t (x\<lparr>xt_status := TFailure, xt_end := Some (tv_now tv)\<rparr>))"
proof -
  let ?l = "tv_now tv - tt_timeout t"
  have "filter (stale ?l) (jobs_of x (tk_db s)) = jobs_of x (tk_db s)" using assms(5) by (simp add: filter_id_conv)
  then have "timed_out_extasks t ?l (tk_db s) = replicate (length (jobs_of x (tk_db s))) x"
    using assms(3) by (simp add: timed_out_extasks_def map_replicate_const)
  then show ?thesis
    using time_out_copies_events [where s = s and s' = s' and t = t and limit = ?l and x = x
        and n = "length (jobs_of x (tk_db s))" and tv = tv] assms
    by (simp add: check_stale_jobs_for_def Let_def a_bind_Inr failed_completion_def)
qed

section \<open>Examples\<close>

text \<open>
  One task, executed once on two hosts: job 1 failed, job 2 is running.  The dispatcher answers with
  an output that holds no results.
\<close>

definition ex_task :: task_row where
  "ex_task = \<lparr>tt_id = 1, tt_slug = ''ping'', tt_title = ''Ping'', tt_type = ANSIBLE, tt_timeout = 100, tt_active = True,
     tt_params = [], tt_filters = [], tt_description = '''', tt_publish = 0, tt_playbook = '''', tt_message = None\<rparr>"

definition ex_extask :: extask where
  "ex_extask = \<lparr>xt_id = 7, xt_name = ''Ping'', xt_task = 1, xt_org = ''o1'', xt_user = ''u'', xt_admin = JBool False,
     xt_start = 0, xt_end = None, xt_status = TRunning, xt_token = ''t''\<rparr>"

definition ex_job :: "nat \<Rightarrow> job_status \<Rightarrow> job_row" where
  "ex_job i st = \<lparr>jb_id = i, jb_extask = 7, jb_system = ''h'' @ nat_digits i, jb_status = st, jb_stdout = '''',
     jb_results = JObj [], jb_updated = 10, jb_run = ''r'' @ nat_digits i, jb_rhc = None\<rparr>"

definition ex_host :: "nat \<Rightarrow> task_host" where
  "ex_host i = \<lparr>th_id = ''h'' @ nat_digits i, th_org = ''o1'', th_name = ''host'', th_rhc = None, th_tags = [],
     th_os_name = None, th_os_major = None, th_os_minor = None, th_bootc_image = None, th_bootc_digest = None,
     th_host_type = None, th_workspace = None, th_workspace_name = None, th_ungrouped = None\<rparr>"

definition ex_tasks :: "job_row list \<Rightarrow> tasks_state" where
  "ex_tasks js = \<lparr>tk_db = \<lparr>td_tasks = [ex_task], td_extasks = [ex_extask], td_jobs = js, td_logs = [],
       td_hosts = [ex_host 1, ex_host 2], td_sats = [], td_params = []\<rparr>,
     tk_events = [], tk_tracker = [], tk_source_type = 0\<rparr>"

definition ex_env :: tasks_env where
  "ex_env = \<lparr>tv_now = 1000, tv_time_text = str_of_int, tv_uuid = (\<lambda>v. case v of JStr u \<Rightarrow> Some u | _ \<Rightarrow> None),
     tv_datetime = (\<lambda>_. Inr None), tv_sends = (\<lambda>_. True),
     tv_attempt = (\<lambda>url n. Answer \<lparr>status_code = 200,
       body = Some (JObj [(''data'', JList [JObj [(''stdout'', JStr ''none'')]])])\<rparr>),
     tv_loads = (\<lambda>_. Inr JNull), tv_str = (\<lambda>_. ''''), tv_exn_text = (\<lambda>_ _. ''''), tv_int = (\<lambda>_. Inl ValueError),
     tv_dev = False, tv_pd_url = ''http://pd'', tv_pd_psk = ''k'', tv_sources_url = '''', tv_batch = 50,
     tv_post = (\<lambda>_ _ _. ConnFail), tv_fresh = (\<lambda>x. x), tv_cloud_url = '''', tv_platform_url = ''''\<rparr>"

abbreviation ex_jobs :: "job_status \<Rightarrow> job_row list" where
  "ex_jobs st \<equiv> [ex_job 1 JFailure, ex_job 2 st]"

lemma run_eqI: "fst r = x \<Longrightarrow> r = (x, snd r)"
  by (cases r) simp

text \<open>One job failed and one succeeded: the executed task completed with errors, and is announced once.\<close>

theorem executed_task_follows_jobs_witness:
  "map xt_status (td_extasks (tk_db (snd
     (update_executed_task_status ex_env None True False ex_extask (ex_tasks (ex_jobs JSuccess)))))) = [TErrors]"
proof -
  let ?r = "update_executed_task_status ex_env None True False ex_extask (ex_tasks (ex_jobs JSuccess))"
  let ?x = "ex_extask\<lparr>xt_status := TErrors, xt_end := Some 1000\<rparr>"
  have run: "?r = (Inr ?x, snd ?r)" by (rule run_eqI) code_simp
  have "jobs_of ex_extask (tk_db (ex_tasks (ex_jobs JSuccess))) \<noteq> []"
    "ex_extask \<in> set (td_extasks (tk_db (ex_tasks (ex_jobs JSuccess))))"
    "distinct (map xt_id (td_extasks (tk_db (ex_tasks (ex_jobs JSuccess)))))"
    by (simp_all add: jobs_of_def ex_tasks_def ex_job_def ex_extask_def)
  from executed_task_follows_jobs [OF run this] have
    "td_extasks (tk_db (snd ?r)) = set_extask ?x (td_extasks (tk_db (ex_tasks (ex_jobs JSuccess))))" by simp
  then show ?thesis by (simp add: set_extask_def ex_tasks_def ex_extask_def)
qed

text \<open>The only job is announced as a success and ends as a failure: the executed task stays Completed.\<close>

abbreviation ex_update :: json where
  "ex_update \<equiv> JObj [(''id'', JStr ''r2''), (''status'', JStr ''success''), (''updated_at'', JStr ''now'')]"

abbreviation ex_one :: tasks_state where
  "ex_one \<equiv> ex_tasks [ex_job 2 JRunning]"

theorem late_failure_not_reported_witness:
  "filter (\<lambda>r. jb_id r = 2 \<and> jb_status r \<noteq> JFailure)
     (td_jobs (tk_db (snd (follow_job ex_env ex_update (JStr ''now'') (ex_job 2 JRunning) ex_one)))) = [] \<and>
   map xt_status (td_extasks (tk_db (snd (follow_job ex_env ex_update (JStr ''now'') (ex_job 2 JRunning) ex_one)))) = [TCompleted]"
proof -
  let ?r = "follow_job ex_env ex_update (JStr ''now'') (ex_job 2 JRunning) ex_one"
  let ?u = "update_job_status ex_env (ex_job 2 JRunning) JSuccess (JStr ''now'') ex_one"
  let ?j = "ex_job 2 JSuccess\<lparr>jb_updated := 1000\<rparr>"
  let ?v = "fetch_playbook_dispatcher_stdout ex_env ?j (snd ?u)"
  have r: "?r = (Inr (), snd ?r)" by (rule run_eqI) code_simp
  have n: "py_bind (py_item ex_update ''status'') py_upper = Inr ''SUCCESS''" by code_simp
  have st: "status_named ''SUCCESS'' (ex_job 2 JRunning) = Inr JSuccess" by code_simp
  have u: "?u = (Inr ?j, snd ?u)" by (rule run_eqI) code_simp
  have v: "?v = (Inr (JStr ''none''), snd ?v)" by (rule run_eqI) code_simp
  have i: "index_of ansible_prefix ''none'' = None" by code_simp
  have "map xt_status (td_extasks (tk_db (snd ?u))) = [TCompleted]" by code_simp
  moreover have "(\<forall>x \<in> set (td_jobs (tk_db (snd ?r))). jb_id x = jb_id ?j \<longrightarrow> jb_status x = JFailure) \<and>
      td_extasks (tk_db (snd ?r)) = td_extasks (tk_db (snd ?u)) \<and> tk_events (snd ?r) = tk_events (snd ?u)"
    by (rule late_failure_not_reported [OF r n st _ u v _ i]) simp_all
  ultimately show ?thesis by (simp add: ex_job_def filter_empty_conv)
qed

theorem stale_jobs_time_out_witness:
  "map jb_status (td_jobs (tk_db (snd (check_stale_jobs_for ex_env ex_task (ex_tasks (ex_jobs JRunning)))))) =
     [JFailure, JTimeout]"
proof -
  let ?r = "check_stale_jobs_for ex_env ex_task (ex_tasks (ex_jobs JRunning))"
  have run: "?r = (Inr (), snd ?r)" by (rule run_eqI) code_simp
  have "distinct (map jb_id (td_jobs (tk_db (ex_tasks (ex_jobs JRunning)))))" by (simp add: ex_tasks_def ex_job_def)
  from stale_jobs_time_out [OF run this] show ?thesis
    by (simp add: ex_tasks_def ex_job_def ex_env_def ex_task_def ex_extask_def)
qed

text \<open>Two stale jobs, two messages about the same executed task.\<close>

theorem completion_sent_per_stale_job_witness:
  "length (tk_events (snd (check_stale_jobs_for ex_env ex_task (ex_tasks [ex_job 1 JRunning, ex_job 2 JRunning])))) = 2"
proof -
  let ?s = "ex_tasks [ex_job 1 JRunning, ex_job 2 JRunning]"
  let ?r = "check_stale_jobs_for ex_env ex_task ?s"
  have run: "?r = (Inr (), snd ?r)" by (rule run_eqI) code_simp
  have "tk_events (snd ?r) = tk_events ?s @ replicate (length (jobs_of ex_extask (tk_db ?s)))
      (completion ex_env ex_task (ex_extask\<lparr>xt_status := TFailure, xt_end := Some (tv_now ex_env)\<rparr>))"
    by (rule completion_sent_per_stale_job [OF run])
       (simp_all add: ex_tasks_def ex_job_def ex_extask_def ex_task_def ex_env_def jobs_of_def stale_def find_task_def)
  then show ?thesis by (simp add: ex_tasks_def ex_job_def ex_extask_def jobs_of_def)
qed

end
