(* ===== verification/Tasks_Wellformed.thy ===== *)
theory Tasks_Wellformed
  imports Tasks_Timeouts
begin

text \<open>
  The tables of the Tasks application stay well formed: keys are unique, every job and parameter
  belongs to an executed task, every log line belongs to a job and fits its column.  Each operation
  keeps this, whether it returns or raises, and so does every sequence of them.
\<close>

section \<open>The tables\<close>

definition tasks_wf :: "tasks_db \<Rightarrow> bool" where
  "tasks_wf db \<longleftrightarrow>
     distinct (map xt_id (td_extasks db)) \<and> distinct (map jb_id (td_jobs db)) \<and>
     jb_extask ` set (td_jobs db) \<subseteq> xt_id ` set (td_extasks db) \<and>
     ep_extask ` set (td_params db) \<subseteq> xt_id ` set (td_extasks db) \<and>
     jl_job ` set (td_logs db) \<subseteq> jb_id ` set (td_jobs db) \<and>
     (\<forall>l \<in> set (td_logs db). length (jl_line l) \<le> 255)"

text \<open>The executed tasks and jobs whose keys an operation holds exist.\<close>

definition holding :: "nat set \<Rightarrow> nat set \<Rightarrow> tasks_state \<Rightarrow> bool" where
  "holding X J s \<longleftrightarrow> tasks_wf (tk_db s) \<and> X \<subseteq> xt_id ` set (td_extasks (tk_db s)) \<and>
     J \<subseteq> jb_id ` set (td_jobs (tk_db s))"

lemma holding_none: "holding {} {} s \<longleftrightarrow> tasks_wf (tk_db s)"
  by (simp add: holding_def)

lemma holding_mono: "holding X J s \<Longrightarrow> X' \<subseteq> X \<Longrightarrow> J' \<subseteq> J \<Longrightarrow> holding X' J' s"
  by (auto simp: holding_def)

lemma holding_more: "holding X J s \<Longrightarrow> X' \<subseteq> xt_id ` set (td_extasks (tk_db s)) \<Longrightarrow>
    J' \<subseteq> jb_id ` set (td_jobs (tk_db s)) \<Longrightarrow> holding (X' \<union> X) (J' \<union> J) s"
  by (auto simp: holding_def)

lemma holding_job:
  "holding X J s \<Longrightarrow> j \<in> set (td_jobs (tk_db s)) \<Longrightarrow> holding (insert (jb_extask j) X) (insert (jb_id j) J) s"
  unfolding holding_def tasks_wf_def by (simp add: image_subset_iff image_iff) blast

section \<open>Rules\<close>

lemma keeps_bind_post:
  assumes "keeps P m" "\<And>s x t. P s \<Longrightarrow> m s = (Inr x, t) \<Longrightarrow> C x" "\<And>x. C x \<Longrightarrow> keeps P (f x)"
  shows "keeps P (a_bind m f)"
proof (rule keepsI)
  fix s assume s: "P s"
  show "P (snd (a_bind m f s))"
  proof (cases "m s")
    case (Pair r t)
    then have t: "P t" using keepsD [OF assms(1) s] by simp
    show ?thesis
    proof (cases r)
      case (Inl e)
      with Pair t show ?thesis by (simp add: a_bind_app)
    next
      case (Inr x)
      with Pair t assms(2) [OF s, of x t] keepsD [OF assms(3), of x t] show ?thesis by (simp add: a_bind_app)
    qed
  qed
qed

text \<open>Rows read from the tables: what they name exists from then on.\<close>

lemma keeps_bind_get_db:
  assumes "\<And>s. holding X J s \<Longrightarrow> \<exists>X' J'. holding (X' \<union> X) (J' \<union> J) s \<and> keeps (holding (X' \<union> X) (J' \<union> J)) (f (g (tk_db s)))"
  shows "keeps (holding X J) (a_bind (get_db g) f)"
proof (rule keepsI)
  fix s assume s: "holding X J s"
  obtain X' J' where "holding (X' \<union> X) (J' \<union> J) s" "keeps (holding (X' \<union> X) (J' \<union> J)) (f (g (tk_db s)))"
    using assms [OF s] by blast
  then have "holding (X' \<union> X) (J' \<union> J) (snd (f (g (tk_db s)) s))" by (metis keepsD)
  then show "holding X J (snd (a_bind (get_db g) f s))"
    by (simp add: a_bind_app) (rule holding_mono, auto)
qed

lemma keeps_bind_get_any:
  "(\<And>x. keeps (holding X J) (f x)) \<Longrightarrow> keeps (holding X J) (a_bind (get_db g) f)"
  unfolding get_db_def by (intro keeps_bind keeps_get)

lemma keeps_holding_event:
  assumes "\<And>s. tk_db (snd (m s)) = tk_db s"
  shows "keeps (holding X J) m"
  using assms by (auto simp: keeps_def holding_def)

section \<open>Writes\<close>

lemma keeps_wf_log: "jb_id j \<in> J \<Longrightarrow> keeps (holding X J) (new_log j ok line)"
  by (rule keepsI) (auto simp: new_log_def holding_def tasks_wf_def)

lemma map_key_replace: "map k (map (\<lambda>y. if k y = k x then x else y) ys) = map k ys"
  by (induction ys) auto

lemma image_key_replace: "k ` set (map (\<lambda>y. if k y = k x then x else y) ys) = k ` set ys"
  by (metis map_key_replace set_map)

lemma keeps_wf_save_extask: "keeps (holding X J) (save_extask x)"
proof (rule keepsI)
  fix s assume s: "holding X J s"
  let ?xs = "td_extasks (tk_db s)" and ?r = "\<lambda>y. if xt_id y = xt_id x then x else y"
  have "map xt_id (map ?r ?xs) = map xt_id ?xs" by (rule map_key_replace)
  moreover have "xt_id ` set (map ?r ?xs) = xt_id ` set ?xs" by (rule image_key_replace)
  ultimately show "holding X J (snd (save_extask x s))"
    using s by (simp add: save_extask_app holding_def tasks_wf_def del: set_map map_map)
qed

lemma keeps_wf_save_job: "jb_extask j \<in> X \<Longrightarrow> keeps (holding X J) (save_job j)"
proof (rule keepsI)
  fix s assume x: "jb_extask j \<in> X" and s: "holding X J s"
  let ?js = "td_jobs (tk_db s)" and ?r = "\<lambda>y. if jb_id y = jb_id j then j else y"
  have "jb_extask ` set (map ?r ?js) \<subseteq> xt_id ` set (td_extasks (tk_db s))"
    using s x by (auto simp: holding_def tasks_wf_def)
  moreover have "map jb_id (map ?r ?js) = map jb_id ?js" by (rule map_key_replace)
  moreover have "jb_id ` set (map ?r ?js) = jb_id ` set ?js" by (rule image_key_replace)
  ultimately show "holding X J (snd (save_job j s))"
    using s by (simp add: save_job_app holding_def tasks_wf_def del: set_map map_map)
qed

lemma keeps_wf_send: "keeps (holding X J) (send_event_message tv ty org cx ps)"
  by (rule keeps_holding_event) (simp add: send_event_app)

lemma keeps_wf_or_missing: "keeps (holding X J) (or_missing x)"
  by (rule keeps_holding_event) (simp add: or_missing_def split: option.split)

lemma keeps_wf_task_of: "keeps (holding X J) (task_of x)"
  unfolding task_of_def by (intro keeps_bind_get_any keeps_wf_or_missing)

lemmas keeps_wf = keeps_bind_get_any keeps_then keeps_bind keeps_if keeps_ret keeps_raise keeps_lift keeps_wf_log
  keeps_wf_save_extask keeps_wf_save_job keeps_wf_send keeps_wf_or_missing keeps_wf_task_of

lemma image_filter_subset:
  "f ` set xs \<subseteq> g ` set ys \<Longrightarrow> f ` set (filter (\<lambda>x. f x \<noteq> k) xs) \<subseteq> g ` set (filter (\<lambda>y. g y \<noteq> k) ys)"
  by (force simp: image_subset_iff)

lemma delete_extask_wf:
  assumes "tasks_wf db"
  shows "tasks_wf (delete_extask x db)"
proof -
  let ?db = "delete_extask x db"
  have "jl_job l \<in> jb_id ` set (td_jobs ?db)" if l: "l \<in> set (td_logs ?db)" for l
  proof -
    from l have "jl_job l \<in> jb_id ` set (td_jobs db)" and n: "jl_job l \<notin> jb_id ` set (jobs_of x db)"
      using assms by (auto simp: delete_extask_def Let_def tasks_wf_def)
    then obtain j where "j \<in> set (td_jobs db)" "jl_job l = jb_id j" by auto
    with n show ?thesis by (force simp: jobs_of_def delete_extask_def Let_def)
  qed
  moreover have "distinct (map xt_id (td_extasks ?db))" "distinct (map jb_id (td_jobs ?db))"
    using assms by (simp_all add: delete_extask_def Let_def tasks_wf_def distinct_map_filter)
  moreover have "jb_extask ` set (td_jobs ?db) \<subseteq> xt_id ` set (td_extasks ?db)"
    "ep_extask ` set (td_params ?db) \<subseteq> xt_id ` set (td_extasks ?db)"
    using assms by (simp_all add: delete_extask_def Let_def tasks_wf_def image_filter_subset del: set_filter)
  moreover have "\<forall>l \<in> set (td_logs ?db). length (jl_line l) \<le> 255"
    using assms by (simp add: delete_extask_def Let_def tasks_wf_def)
  ultimately show ?thesis unfolding tasks_wf_def by blast
qed

lemma cancel_jobs_wf: "keeps (holding X J) (upd_db (cancel_jobs x))"
proof (rule keepsI)
  fix s assume s: "holding X J s"
  let ?js = "td_jobs (tk_db s)" and ?c = "\<lambda>j. if jb_extask j = xt_id x \<and> jb_status j = JRunning then j\<lparr>jb_status := JCancelled\<rparr> else j"
  have "map jb_id (map ?c ?js) = map jb_id ?js" "map jb_extask (map ?c ?js) = map jb_extask ?js"
    by (induction ?js) auto
  then have "map jb_id (map ?c ?js) = map jb_id ?js" "jb_id ` set (map ?c ?js) = jb_id ` set ?js"
    "jb_extask ` set (map ?c ?js) = jb_extask ` set ?js" by (metis set_map)+
  with s show "holding X J (snd (upd_db (cancel_jobs x) s))"
    by (simp add: cancel_jobs_def holding_def tasks_wf_def del: set_map map_map)
qed

lemma keeps_wf_update:
  "(\<And>j. job = Some j \<Longrightarrow> jb_id j \<in> J) \<Longrightarrow>
   keeps (holding X J) (update_executed_task_status tv job send False x)"
  unfolding update_executed_task_status_def log_no_more_def finish_extask_def Let_def
  by (auto intro!: keeps_wf split: option.split)

lemma keeps_wf_update_deleting:
  "keeps (holding {} {}) (update_executed_task_status tv None send del x)"
proof -
  have "keeps (holding {} {}) (upd_db (delete_extask x))"
    by (rule keepsI) (simp add: holding_none delete_extask_wf)
  then show ?thesis
    unfolding update_executed_task_status_def log_no_more_def finish_extask_def Let_def
    by (auto intro!: keeps_wf split: option.split)
qed

section \<open>The tasks service\<close>

lemma keeps_wf_fail: "jb_id j \<in> J \<Longrightarrow> keeps (holding X J) (fail_results j msg)"
  unfolding fail_results_def by (intro keeps_wf)

lemma keeps_wf_load: "jb_id j \<in> J \<Longrightarrow> keeps (holding X J) (load_results tv j out)"
  unfolding load_results_def
  by (cases "tv_loads tv out") (auto intro!: keeps_wf keeps_wf_fail split: sum.split)

lemma keeps_wf_search: "jb_id j \<in> J \<Longrightarrow> keeps (holding X J) (search_output tv j out ty)"
  unfolding search_output_def get_results_def search_list_def Let_def
  by (auto intro!: keeps_wf_fail keeps_wf_load split: json.split option.split)

text \<open>Operations on a job return the same job.\<close>

definition same_job :: "job_row \<Rightarrow> job_row \<Rightarrow> bool" where
  "same_job j j' \<longleftrightarrow> jb_id j' = jb_id j \<and> jb_extask j' = jb_extask j"

lemma same_job_refl [simp]: "same_job j j"
  by (simp add: same_job_def)

lemma keeps_wf_parse:
  assumes "jb_id j \<in> J" "jb_extask j \<in> X"
  shows "keeps (holding X J) (parse_json_from_stdout tv j out ty)"
proof -
  have s: "keeps (holding X J) (search_output tv (j\<lparr>jb_stdout := t\<rparr>) out ty)" for t
    using assms by (intro keeps_wf_search) simp
  show ?thesis unfolding parse_json_from_stdout_def Let_def
    by (intro keeps_then keeps_bind keeps_if keeps_raise keeps_wf_log keeps_wf_save_job s)
       (use assms in \<open>auto intro!: keeps_then keeps_ret keeps_wf_save_job\<close>)
qed

lemma keeps_wf_set_status:
  "jb_id j \<in> J \<Longrightarrow> jb_extask j \<in> X \<Longrightarrow> keeps (holding X J) (set_job_status tv j st on)"
  unfolding set_job_status_def Let_def by (auto intro!: keeps_wf)

lemma set_status_same: "set_job_status tv j st on s = (Inr j', t) \<Longrightarrow> same_job j j'"
  by (auto simp: set_job_status_def Let_def a_bind_Inr a_then_Inr same_job_def split: if_splits)

lemma keeps_wf_announce: "jb_id j \<in> J \<Longrightarrow> keeps (holding X J) (announce_job tv j x h ev)"
  unfolding announce_job_def by (intro keeps_wf) auto

lemma keeps_wf_extask_of: "keeps (holding X J) (extask_of j)"
  unfolding extask_of_def by (intro keeps_bind_get_any keeps_wf_or_missing)

lemma keeps_wf_update_job:
  assumes "jb_id j \<in> J" "jb_extask j \<in> X"
  shows "keeps (holding X J) (update_job_status tv j st on)"
  unfolding update_job_status_def
proof (rule keeps_bind_post [where C = "same_job j"])
  fix j' assume "same_job j j'"
  then have j': "jb_id j' \<in> J" using assms by (simp add: same_job_def)
  show "keeps (holding X J) (a_bind (get_db (find_host (jb_system j'))) (\<lambda>host. a_bind (extask_of j') (\<lambda>x.
     a_then (case (host, event_type_for (jb_status j')) of (Some h, Some ev) \<Rightarrow> announce_job tv j' x h ev | _ \<Rightarrow> a_ret ())
    (a_then (update_executed_task_status tv (Some j') True False x) (a_ret j')))))"
    using j' by (auto intro!: keeps_wf keeps_wf_extask_of keeps_wf_announce keeps_wf_update split: option.split)
qed (use assms in \<open>auto intro: keeps_wf_set_status set_status_same\<close>)

lemma update_job_same: "update_job_status tv j st on s = (Inr j', t) \<Longrightarrow> same_job j j'"
  by (auto simp: update_job_status_def a_bind_Inr a_then_Inr dest: set_status_same)

lemma parse_same: "parse_json_from_stdout tv j out ty s = (Inr j', t) \<Longrightarrow> same_job j j'"
  by (auto simp: parse_json_from_stdout_def Let_def a_bind_Inr a_then_Inr same_job_def)

lemma keeps_wf_read: "jb_id j \<in> J \<Longrightarrow> keeps (holding X J) (read_stdout j r)"
  unfolding read_stdout_def Let_def
  by (cases "body r") (auto intro!: keeps_wf split: option.split)

lemma keeps_wf_fetch: "jb_id j \<in> J \<Longrightarrow> keeps (holding X J) (fetch_playbook_dispatcher_stdout tv j)"
  unfolding fetch_playbook_dispatcher_stdout_def by (auto intro!: keeps_wf keeps_wf_read)

lemma keeps_wf_follow:
  assumes "jb_id j \<in> J" "jb_extask j \<in> X"
  shows "keeps (holding X J) (follow_job tv payload on j)"
proof -
  have "keeps (holding X J) (a_bind (update_job_status tv j st on)
      (\<lambda>j'. if st = JRunning then a_ret () else process_stdout tv j'))" for st
  proof (rule keeps_bind_post [where C = "same_job j"])
    fix j' assume "same_job j j'"
    then have "jb_id j' \<in> J" "jb_extask j' \<in> X" using assms by (simp_all add: same_job_def)
    then show "keeps (holding X J) (if st = JRunning then a_ret () else process_stdout tv j')"
      unfolding process_stdout_def by (auto intro!: keeps_wf keeps_wf_fetch keeps_wf_parse)
  qed (use assms in \<open>auto intro: keeps_wf_update_job update_job_same\<close>)
  then show ?thesis unfolding follow_job_def by (intro keeps_bind [OF keeps_lift])
qed

lemma job_by_run_db: "job_by_run tv v s = (Inr (Some j), t) \<Longrightarrow> t = s \<and> j \<in> set (td_jobs (tk_db s))"
  by (auto simp: job_by_run_def a_bind_Inr filter_eq_Cons_iff split: if_splits option.splits list.splits)

lemma keeps_wf_job_by_run: "keeps (holding X J) (job_by_run tv v)"
  by (rule keeps_holding_event)
     (auto simp: job_by_run_def a_bind_app split: option.split list.split)

lemma keeps_wf_bind_job:
  assumes "keeps (holding {} {}) (f None)" "\<And>j. keeps (holding {jb_extask j} {jb_id j}) (f (Some j))"
  shows "keeps (holding {} {}) (a_bind (job_by_run tv v) f)"
proof (rule keepsI)
  fix s assume s: "holding {} {} s"
  have u: "holding {} {} (snd (job_by_run tv v s))" by (rule keepsD [OF keeps_wf_job_by_run s])
  show "holding {} {} (snd (a_bind (job_by_run tv v) f s))"
  proof (cases "fst (job_by_run tv v s)")
    case (Inl e)
    with u show ?thesis by (auto simp: a_bind_app split: prod.splits)
  next
    case (Inr r)
    show ?thesis
    proof (cases r)
      case None
      with u Inr keepsD [OF assms(1) u] show ?thesis by (auto simp: a_bind_app split: prod.splits)
    next
      case (Some j)
      then have r: "job_by_run tv v s = (Inr (Some j), snd (job_by_run tv v s))" using Inr by (metis prod.collapse)
      from job_by_run_db [OF r] have "holding {jb_extask j} {jb_id j} s" using holding_job [OF s, of j] by simp
      then have "holding {jb_extask j} {jb_id j} (snd (f (Some j) s))" by (rule keepsD [OF assms(2)])
      then have "holding {} {} (snd (f (Some j) s))" by (rule holding_mono) simp_all
      with r job_by_run_db [OF r] show ?thesis by (simp add: a_bind_app split: prod.splits)
    qed
  qed
qed

lemma keeps_wf_ansible: "keeps (holding {} {}) (handle_ansible_job_updates tv message)"
  unfolding handle_ansible_job_updates_def
  by (intro keeps_bind keeps_lift keeps_if keeps_ret keeps_wf_bind_job) (auto intro!: keeps_wf_follow)

lemma keeps_wf_script: "keeps (holding {} {}) (handle_script_job_updates tv message)"
proof -
  have job: "keeps (holding {jb_extask j} {jb_id j}) (a_bind (parse_json_from_stdout tv j out SCRIPT)
      (\<lambda>j'. a_then (update_job_status tv j' (jb_status j') JNull) (a_ret ())))" for j out
    by (rule keeps_bind_post [where C = "same_job j"], rule keeps_wf_parse, simp, simp, erule parse_same)
       (auto intro!: keeps_then keeps_ret keeps_wf_update_job simp: same_job_def)
  have send: "keeps (holding {} {}) (send_tracker tv m)" for m
    by (rule keeps_holding_event) (simp add: send_tracker_def)
  have down: "keeps (holding {} {}) (download tv url)" for url
    unfolding download_def by (auto intro!: keeps_wf split: option.split)
  show ?thesis unfolding handle_script_job_updates_def
    by (intro keeps_bind keeps_lift keeps_then send down keeps_wf_bind_job) (auto intro!: job)
qed

lemma keeps_wf_sats: "keeps (holding X J) (upd_db (\<lambda>db. db\<lparr>td_sats := f db\<rparr>))"
  by (rule keepsI) (simp add: holding_def tasks_wf_def)

lemma keeps_wf_source_type: "keeps (holding X J) (get_satellite_source_type_id tv)"
proof -
  have set_type: "keeps (holding X J) (a_upd (tk_source_type_update f))" for f
    by (rule keeps_holding_event) simp
  show ?thesis unfolding get_satellite_source_type_id_def
    by (auto intro!: keeps_bind keeps_get keeps_then keeps_ret keeps_lift keeps_raise set_type
        split: option.split json.split list.split)
qed

lemma keeps_wf_set_satellite: "keeps (holding X J) (set_satellite u n)"
  unfolding set_satellite_def
  by (cases n) (auto intro!: keeps_wf keeps_wf_sats)

lemma keeps_wf_sources: "keeps (holding X J) (handle_sources_event tv message)"
proof -
  have 1: "keeps (holding X J) (source_event tv message)"
    unfolding source_event_def
    by (auto intro!: keeps_bind keeps_lift keeps_ret keeps_then keeps_wf_source_type keeps_wf_set_satellite
        split: option.split)
  have 2: "keeps (holding X J) (rhc_event tv message)"
    unfolding rhc_event_def by (auto intro!: keeps_bind keeps_lift keeps_ret keeps_then keeps_wf_sats)
  show ?thesis unfolding handle_sources_event_def by (intro keeps_bind 1 keeps_if keeps_ret 2)
qed

section \<open>The commands\<close>

lemma keeps_wf_time_out_job:
  "jb_id j \<in> J \<Longrightarrow> jb_extask j \<in> X \<Longrightarrow> keeps (holding X J) (time_out_job tv t j)"
  unfolding time_out_job_def by (intro keeps_wf) simp_all

lemma keeps_wf_time_out_extask: "keeps (holding X J) (time_out_extask tv t limit x)"
  unfolding time_out_extask_def
proof (rule keeps_bind_get_db)
  fix s assume s: "holding X J s"
  let ?js = "filter (stale limit) (jobs_of x (tk_db s))"
  let ?X = "jb_extask ` set ?js" and ?J = "jb_id ` set ?js"
  have sub: "set ?js \<subseteq> set (td_jobs (tk_db s))" by (auto simp: jobs_of_def)
  have "?X \<subseteq> xt_id ` set (td_extasks (tk_db s))" using s sub by (fastforce simp: holding_def tasks_wf_def)
  moreover have "?J \<subseteq> jb_id ` set (td_jobs (tk_db s))" using sub by (rule image_mono)
  ultimately have h: "holding (?X \<union> X) (?J \<union> J) s" by (rule holding_more [OF s])
  have "keeps (holding (?X \<union> X) (?J \<union> J)) (a_then (a_for (time_out_job tv t) ?js)
      (a_then (update_executed_task_status tv None True False x) (a_ret ())))"
    by (intro keeps_then keeps_ret keeps_for keeps_wf_time_out_job keeps_wf_update) auto
  with h show "\<exists>X' J'. holding (X' \<union> X) (J' \<union> J) s \<and> keeps (holding (X' \<union> X) (J' \<union> J))
      (a_then (a_for (time_out_job tv t) ?js) (a_then (update_executed_task_status tv None True False x) (a_ret ())))"
    by blast
qed

lemma keeps_wf_stale: "keeps (holding X J) (stale_job_timeout tv)"
  unfolding stale_job_timeout_def check_stale_jobs_for_def Let_def
  by (intro keeps_bind_get_any keeps_for keeps_wf_time_out_extask)

lemma keeps_wf_recompute: "keeps (holding {} {}) (recompute_command tv ro)"
  unfolding recompute_command_def
  by (intro keeps_bind_get_any keeps_for keeps_then keeps_ret keeps_wf_update_deleting)

section \<open>The API\<close>

lemma fold_max_start: "(a::nat) \<le> fold max ns a"
  by (induction ns arbitrary: a) (auto intro: order_trans [OF max.cobounded2])

lemma le_fold_max: "(n::nat) \<in> set ns \<Longrightarrow> n \<le> fold max ns a"
  by (induction ns arbitrary: a) (auto intro: order_trans [OF max.cobounded1 fold_max_start])

lemma next_ids_fresh:
  "next_job_id db \<notin> jb_id ` set (td_jobs db)" "next_extask_id db \<notin> xt_id ` set (td_extasks db)"
  using le_fold_max [of _ "map jb_id (td_jobs db)" 0] le_fold_max [of _ "map xt_id (td_extasks db)" 0]
  by (force simp: next_job_id_def next_extask_id_def)+

lemma keeps_wf_create_job:
  assumes "xt_id x \<in> X"
  shows "keeps (holding X J) (create_job tv x dispatcher g run)"
proof -
  have log: "keeps (holding X (insert (jb_id j) J)) (log_dispatch tv dispatcher run run_id j)" for j run_id
    unfolding log_dispatch_def by (auto intro!: keeps_wf)
  have add: "keeps (holding X J) (a_bind (get_db next_job_id) (\<lambda>i. let j = j0 i in
      a_then (upd_db (\<lambda>db. db\<lparr>td_jobs := td_jobs db @ [j]\<rparr>))
     (a_then (log_dispatch tv dispatcher run run_id j) (a_ret j))))"
    if j0: "\<And>i. jb_id (j0 i) = i" "\<And>i. jb_extask (j0 i) = xt_id x" for j0 run_id
  proof (rule keepsI)
    fix s assume s: "holding X J s"
    let ?j = "j0 (next_job_id (tk_db s))"
    let ?t = "s\<lparr>tk_db := (tk_db s)\<lparr>td_jobs := td_jobs (tk_db s) @ [?j]\<rparr>\<rparr>"
    have t: "holding X (insert (jb_id ?j) J) ?t"
      using s assms next_ids_fresh(1) [of "tk_db s"] j0 by (auto simp: holding_def tasks_wf_def)
    have "keeps (holding X (insert (jb_id ?j) J)) (a_then (log_dispatch tv dispatcher run run_id ?j) (a_ret ?j))"
      by (intro keeps_then keeps_ret log)
    from keepsD [OF this t] have "holding X J (snd (a_then (log_dispatch tv dispatcher run run_id ?j) (a_ret ?j) ?t))"
      by (rule holding_mono) auto
    then show "holding X J (snd (a_bind (get_db next_job_id) (\<lambda>i. let j = j0 i in
      a_then (upd_db (\<lambda>db. db\<lparr>td_jobs := td_jobs db @ [j]\<rparr>))
     (a_then (log_dispatch tv dispatcher run run_id j) (a_ret j))) s))"
      by (simp add: a_bind_app a_then_app Let_def)
  qed
  show ?thesis unfolding create_job_def
    by (intro keeps_bind [OF keeps_lift] add) simp_all
qed

lemma keeps_wf_create_jobs: "xt_id x \<in> X \<Longrightarrow> keeps (holding X J) (create_jobs tv x dispatcher ps)"
  by (induction ps rule: create_jobs.induct) (auto intro!: keeps_bind keeps_ret keeps_wf_create_job)

lemma keeps_wf_create_jobs_for:
  "xt_id x \<in> X \<Longrightarrow> keeps (holding X J) (create_jobs_for_executed_task tv x gs runs dispatcher)"
  unfolding create_jobs_for_executed_task_def
  by (intro keeps_bind keeps_then keeps_ret keeps_wf_create_jobs keeps_wf_update) auto

lemma params_of: "given_params t x ps = Inr qs \<Longrightarrow> ep_extask ` set qs \<subseteq> {x}"
proof (induction ps arbitrary: qs)
  case Nil
  then show ?case by (simp add: given_params_def)
next
  case (Cons p ps)
  then show ?case
    by (cases p) (fastforce simp: given_params_def py_bind_def split: option.splits sum.splits)
qed

lemma default_params_of: "ep_extask ` set (default_params t x ks) \<subseteq> {x}"
  by (auto simp: default_params_def List.map_filter_def split: if_splits)

lemma keeps_wf_params:
  assumes "x \<in> X"
  shows "keeps (holding X J) (create_task_parameters t x params)"
proof -
  have add: "keeps (holding X J) (upd_db (\<lambda>db. db\<lparr>td_params := td_params db @ qs\<rparr>))"
    if "ep_extask ` set qs \<subseteq> {x}" for qs
    using that assms by (intro keepsI) (auto simp: holding_def tasks_wf_def)
  show ?thesis unfolding create_task_parameters_def Let_def
  proof (rule keeps_bind_post [where C = "\<lambda>qs. ep_extask ` set qs \<subseteq> {x}"])
    fix s :: tasks_state and qs s'
    assume "a_lift (given_params t x (case params of None \<Rightarrow> [] | Some ps \<Rightarrow> ps)) s = (Inr qs, s')"
    then show "ep_extask ` set qs \<subseteq> {x}" by (auto simp: params_of dest: params_of)
  next
    fix qs :: "extask_param list" assume "ep_extask ` set qs \<subseteq> {x}"
    then have "ep_extask ` set (qs @ default_params t x ks) \<subseteq> {x}" for ks
      using default_params_of [of t x ks] by auto
    then show "keeps (holding X J)
      (a_then (upd_db (\<lambda>db. db\<lparr>td_params := td_params db @ qs @
          default_params t x (map fst (case params of None \<Rightarrow> [] | Some ps \<Rightarrow> ps))\<rparr>))
        (a_ret (qs @ default_params t x (map fst (case params of None \<Rightarrow> [] | Some ps \<Rightarrow> ps)) \<noteq> [])))"
      by (intro keeps_then keeps_ret add)
  qed (rule keeps_lift)
qed

lemma keeps_wf_add_extask:
  assumes "xt_id x = i" "keeps (holding {i} {}) m" "i \<notin> xt_id ` set (td_extasks (tk_db s))" "holding {} {} s"
  shows "holding {} {} (snd (a_then (upd_db (\<lambda>db. db\<lparr>td_extasks := td_extasks db @ [x]\<rparr>)) m s))"
proof -
  have "holding {i} {} (s\<lparr>tk_db := (tk_db s)\<lparr>td_extasks := td_extasks (tk_db s) @ [x]\<rparr>\<rparr>)"
    using assms by (auto simp: holding_def tasks_wf_def)
  from keepsD [OF assms(2) this] show ?thesis
    by (simp add: a_then_app) (rule holding_mono, auto)
qed

lemma keeps_wf_start: "keeps (holding {} {}) (start_extask tv rq xd t)"
proof (rule keepsI)
  fix s assume s: "holding {} {} s"
  let ?i = "next_extask_id (tk_db s)"
  let ?x = "new_extask tv rq t xd ?i"
  have x: "xt_id ?x = ?i" by (simp add: new_extask_def)
  let ?m = "a_bind (create_task_parameters t ?i (xd_params xd)) (\<lambda>has_parameters.
       a_bind (get_db (targets tv rq (xd_hosts xd))) (\<lambda>gs.
       a_bind (a_lift (dispatch tv rq t
          (if has_parameters then playbook_url tv t @ ''?token='' @ xt_token ?x else playbook_url tv t) gs)) (\<lambda>runs.
         if length runs \<noteq> length gs then a_raise AssertionError
         else a_bind (create_jobs_for_executed_task tv ?x gs runs (dispatcher_name t)) (\<lambda>(started, failed).
           a_ret (?i, started, failed)))))"
  have m: "keeps (holding {?i} {}) ?m"
    by (intro keeps_bind [OF keeps_wf_params] keeps_bind_get_any keeps_bind [OF keeps_lift] keeps_if keeps_raise
        keeps_bind [OF keeps_wf_create_jobs_for]) (auto simp: x split: prod.split)
  have "holding {} {} (snd (a_then (upd_db (\<lambda>db. db\<lparr>td_extasks := td_extasks db @ [?x]\<rparr>)) ?m s))"
    by (rule keeps_wf_add_extask [OF x m next_ids_fresh(2) s])
  then show "holding {} {} (snd (start_extask tv rq xd t s))"
    by (simp add: start_extask_def a_bind_app Let_def)
qed

lemma keeps_tasks_atomic: "keeps (holding {} {}) m \<Longrightarrow> keeps (holding {} {}) (tasks_atomic m)"
  by (auto simp: keeps_def tasks_atomic_def holding_def split: prod.splits sum.splits)

lemma keeps_wf_payloads: "keeps (holding X J) (job_payloads js)"
proof (induction js)
  case Nil
  then show ?case by (simp add: keeps_def)
qed (auto intro!: keeps_bind keeps_bind_get_any keeps_wf_or_missing keeps_ret simp: job_payload_def)

lemma keeps_wf_start_messages: "keeps (holding X J) (send_start_messages tv x started failed)"
  unfolding send_start_messages_def send_job_start_messages_def
  by (auto intro!: keeps_wf keeps_wf_payloads)

lemma keeps_tasks_create: "keeps (holding {} {}) (create_executed_task tv rq xd)"
  unfolding create_executed_task_def
  by (intro keeps_bind_get_any keeps_bind [OF keeps_lift] keeps_bind [OF keeps_tasks_atomic] keeps_wf_start)
     (auto intro!: keeps_bind_get_any keeps_bind keeps_then keeps_ret keeps_wf_or_missing keeps_wf_start_messages
       split: prod.split)

lemma keeps_wf_get_object: "keeps (holding X J) (get_object rq i)"
  unfolding get_object_def by (auto intro!: keeps_bind_get_any split: option.split)

lemma keeps_wf_cancel: "keeps (holding X J) (cancel tv rq i)"
  unfolding cancel_def send_cancel_def
  by (intro keeps_bind [OF keeps_wf_get_object] keeps_if keeps_ret keeps_bind_get_any keeps_then keeps_raise keeps_for
      keeps_lift cancel_jobs_wf keeps_wf_update) simp

lemma keeps_wf_destroy: "keeps (holding {} {}) (destroy rq i)"
proof -
  have "keeps (holding {} {}) (upd_db (delete_extask x))" for x
    by (rule keepsI) (simp add: holding_none delete_extask_wf)
  then show ?thesis unfolding destroy_def by (intro keeps_bind keeps_wf_get_object)
qed

section \<open>Runs of the application\<close>

text \<open>
  What can happen to the tables: a message of either topic, the two commands, and the requests that
  write.  Each step has its own environment, as the time and the answers of the other services
  change, and a step that raises keeps what it wrote outside a transaction.
\<close>

datatype tasks_op =
    PlaybookUpdate json
  | ScriptUpload json
  | SourcesEvent json
  | StaleJobs
  | Recompute recompute_options
  | Execute task_request execute_data
  | Cancel task_request nat
  | Destroy task_request nat

fun run_tasks_op :: "tasks_env \<Rightarrow> tasks_op \<Rightarrow> tasks_state \<Rightarrow> tasks_state" where
  "run_tasks_op tv (PlaybookUpdate m) s = snd (handle_ansible_job_updates tv m s)"
| "run_tasks_op tv (ScriptUpload m) s = snd (handle_script_job_updates tv m s)"
| "run_tasks_op tv (SourcesEvent m) s = snd (handle_sources_event tv m s)"
| "run_tasks_op tv StaleJobs s = snd (stale_job_timeout tv s)"
| "run_tasks_op tv (Recompute ro) s = snd (recompute_command tv ro s)"
| "run_tasks_op tv (Execute rq xd) s = snd (create_executed_task tv rq xd s)"
| "run_tasks_op tv (Cancel rq i) s = snd (cancel tv rq i s)"
| "run_tasks_op tv (Destroy rq i) s = snd (destroy rq i s)"

inductive tasks_run :: "tasks_state \<Rightarrow> tasks_state \<Rightarrow> bool" where
  tasks_start: "tasks_run s s"
| tasks_next: "tasks_run s t \<Longrightarrow> tasks_run s (run_tasks_op tv op t)"

lemma tasks_op_wf: "tasks_wf (tk_db s) \<Longrightarrow> tasks_wf (tk_db (run_tasks_op tv op s))"
  unfolding holding_none [symmetric]
  by (cases op) (auto intro: keepsD [OF keeps_wf_ansible] keepsD [OF keeps_wf_script] keepsD [OF keeps_wf_sources]
      keepsD [OF keeps_wf_stale] keepsD [OF keeps_wf_recompute] keepsD [OF keeps_tasks_create] keepsD [OF keeps_wf_cancel]
      keepsD [OF keeps_wf_destroy])

text \<open>
  C37: the tables of the Tasks application stay well formed.  Whatever messages, commands and requests
  are processed, in whatever order and whether they succeed or raise, keys stay unique, jobs and
  parameters belong to executed tasks, log lines belong to jobs and fit their column.
\<close>

theorem tasks_tables_stay_well_formed:
  assumes "tasks_run s t" "tasks_wf (tk_db s)"
  shows "tasks_wf (tk_db t)"
  using assms by (induction rule: tasks_run.induct) (auto intro: tasks_op_wf)

theorem tasks_tables_stay_well_formed_witness:
  "tasks_wf (tk_db (run_tasks_op ex_env (Destroy \<lparr>tr_org = ''o1'', tr_user = ''u'', tr_admin = JBool False,
     tr_visible = (\<lambda>_. True), tr_header = ''''\<rparr> 7) (run_tasks_op ex_env StaleJobs (ex_tasks (ex_jobs JRunning)))))"
proof -
  have "tasks_wf (tk_db (ex_tasks (ex_jobs JRunning)))"
    by (simp add: tasks_wf_def ex_tasks_def ex_job_def ex_extask_def)
  then show ?thesis by (rule tasks_tables_stay_well_formed [OF tasks_next [OF tasks_next [OF tasks_start]]])
qed

end
