(* ===== verification/Content_Import.thy ===== *)
theory Content_Import
  imports Py_Values
begin

text \<open>
  The import of rule content (\<open>api/management/commands/import_content.py\<close>): the generic
  insert-or-update of a table from a configuration, the configuration and lookups, the rules with
  their tags, resolutions, automatic acknowledgements and playbooks, and the command.  A row is a
  dictionary of its fields, as \<open>getattr\<close> and \<open>setattr\<close> with field names use it; a
  reference to another row is held as its key.
\<close>

section \<open>Tables\<close>

type_synonym drow = "(string \<times> json) list"

text \<open>A model: its fields with their defaults, those that may not be null, unique sets and column lengths.\<close>

record mclass =
  mc_fields :: drow
  mc_required :: "string list"
  mc_unique :: "string list list"
  mc_lengths :: "(string \<times> nat) list"

record dtable =
  tb_rows :: "drow list"
  tb_next :: int

definition row_get :: "drow \<Rightarrow> string \<Rightarrow> json" where
  "row_get r f = (case map_of r f of None \<Rightarrow> JNull | Some v \<Rightarrow> v)"

definition col_text :: "string \<Rightarrow> drow \<Rightarrow> string" where
  "col_text f r = (case row_get r f of JStr s \<Rightarrow> s | _ \<Rightarrow> '''')"

definition row_id :: "drow \<Rightarrow> json" where
  "row_id r = row_get r ''id''"

definition known_fields :: "mclass \<Rightarrow> drow \<Rightarrow> bool" where
  "known_fields cls fs = list_all (\<lambda>(f, _). f = ''id'' \<or> dict_has (mc_fields cls) f) fs"

definition new_row :: "mclass \<Rightarrow> int \<Rightarrow> drow \<Rightarrow> drow" where
  "new_row cls pk fs =
     (''id'', JInt pk) # map (\<lambda>(f, d). (f, case map_of fs f of None \<Rightarrow> d | Some v \<Rightarrow> v)) (mc_fields cls)"

fun number_rows :: "mclass \<Rightarrow> int \<Rightarrow> drow list \<Rightarrow> drow list" where
  "number_rows cls pk [] = []"
| "number_rows cls pk (fs # rest) = new_row cls pk fs # number_rows cls (pk + 1) rest"

definition too_long :: "mclass \<Rightarrow> drow \<Rightarrow> bool" where
  "too_long cls r = list_ex (\<lambda>(f, n). length (col_text f r) > n) (mc_lengths cls)"

text \<open>What the database says of the rows of a table.\<close>

definition constraint_error :: "mclass \<Rightarrow> drow list \<Rightarrow> pyexn option" where
  "constraint_error cls rows =
     (if list_ex (too_long cls) rows then Some (Exn ''DataError'')
      else if list_ex (\<lambda>r. list_ex (\<lambda>f. row_get r f = JNull) (mc_required cls)) rows \<or>
              \<not> list_all (\<lambda>u. distinct (map (\<lambda>r. map (row_get r) u) rows)) (mc_unique cls)
      then Some IntegrityError else None)"

text \<open>
  \<open>bulk_create\<close>: nothing for no rows; the keys are taken from a sequence, which is not rolled back.
\<close>

definition bulk_create :: "mclass \<Rightarrow> drow list \<Rightarrow> (dtable, unit) act" where
  "bulk_create cls css = (\<lambda>t. if css = [] then (Inr (), t) else
     let rows = tb_rows t @ number_rows cls (tb_next t) css; t' = t\<lparr>tb_next := tb_next t + int (length css)\<rparr> in
     case constraint_error cls rows of
       Some e \<Rightarrow> (Inl e, t')
     | None \<Rightarrow> (Inr (), t'\<lparr>tb_rows := rows\<rparr>))"

definition write_rows :: "drow list \<Rightarrow> drow list \<Rightarrow> drow list" where
  "write_rows ups rows = map (\<lambda>r. case find (\<lambda>u. row_id u = row_id r) ups of None \<Rightarrow> r | Some u \<Rightarrow> u) rows"

definition bulk_update :: "mclass \<Rightarrow> drow list \<Rightarrow> (dtable, unit) act" where
  "bulk_update cls ups = (\<lambda>t.
     let rows = write_rows ups (tb_rows t) in
     case constraint_error cls rows of
       Some e \<Rightarrow> (Inl e, t)
     | None \<Rightarrow> (Inr (), t\<lparr>tb_rows := rows\<rparr>))"

section \<open>Insert or update\<close>

text \<open>\<open>{f(r): g(r) for r in rows}\<close>\<close>

definition dict_of :: "('r \<Rightarrow> 'k) \<Rightarrow> ('r \<Rightarrow> 'v) \<Rightarrow> 'r list \<Rightarrow> ('k \<times> 'v) list" where
  "dict_of f g rows = fold (\<lambda>r d. dict_set (f r) (g r) d) rows []"

text \<open>The row with the fields of the configuration, and the fields that changed.\<close>

fun update_permute :: "drow \<Rightarrow> drow \<Rightarrow> (drow \<times> string list) py" where
  "update_permute [] row = Inr (row, [])"
| "update_permute ((f, v) # fs) row =
     (case map_of row f of
        None \<Rightarrow> Inl AttributeError
      | Some w \<Rightarrow>
          if py_eq w v then update_permute fs row
          else py_bind (update_permute fs (dict_set f v row)) (\<lambda>(r, changed). Inr (r, f # changed)))"

definition construct :: "mclass \<Rightarrow> drow \<Rightarrow> drow py" where
  "construct cls fs = (if known_fields cls fs then Inr fs else Inl TypeError)"

text \<open>The loop over the configuration: what to insert and what to update.\<close>

fun plan_rows :: "mclass \<Rightarrow> ('c \<Rightarrow> drow option py) \<Rightarrow> (string \<times> drow) list \<Rightarrow> (string \<times> 'c) list \<Rightarrow>
    (drow list \<times> drow list) py" where
  "plan_rows cls transformer model_data [] = Inr ([], [])"
| "plan_rows cls transformer model_data ((key, config_row) # cs) =
     py_bind (transformer config_row) (\<lambda>r. case r of
       None \<Rightarrow> plan_rows cls transformer model_data cs
     | Some row \<Rightarrow>
         (case map_of model_data key of
            Some db_row \<Rightarrow>
              py_bind (update_permute row db_row) (\<lambda>(db_row', changed).
              py_bind (plan_rows cls transformer model_data cs) (\<lambda>(ins, ups).
                Inr (ins, if changed = [] then ups else db_row' # ups)))
          | None \<Rightarrow>
              py_bind (construct cls row) (\<lambda>new.
              py_bind (plan_rows cls transformer model_data cs) (\<lambda>(ins, ups). Inr (new # ins, ups)))))"

text \<open>The fast path: nothing in the table yet; rows the transformer gives nothing for are left out.\<close>

fun plan_all :: "mclass \<Rightarrow> ('c \<Rightarrow> drow option py) \<Rightarrow> (string \<times> 'c) list \<Rightarrow> drow list py" where
  "plan_all cls transformer [] = Inr []"
| "plan_all cls transformer ((key, config_row) # cs) =
     py_bind (transformer config_row) (\<lambda>r. case r of
       None \<Rightarrow> plan_all cls transformer cs
     | Some row \<Rightarrow>
         if row = [] then plan_all cls transformer cs
         else py_bind (construct cls row) (\<lambda>new. py_bind (plan_all cls transformer cs) (\<lambda>news. Inr (new # news))))"

definition surplus_rows :: "(drow \<Rightarrow> bool) \<Rightarrow> (drow \<Rightarrow> string) \<Rightarrow> (string \<times> 'c) list \<Rightarrow> drow \<Rightarrow> bool" where
  "surplus_rows queryset key_field config r = (queryset r \<and> key_field r \<notin> set (map fst config))"

definition update_model_from_config :: "mclass \<Rightarrow> (drow \<Rightarrow> bool) \<Rightarrow> (drow \<Rightarrow> string) \<Rightarrow> ('c \<Rightarrow> drow option py) \<Rightarrow>
    bool \<Rightarrow> (string \<times> 'c) list option \<Rightarrow> (dtable, unit) act" where
  "update_model_from_config cls queryset key_field transformer delete_missing config_data =
     (case config_data of
        None \<Rightarrow> a_ret ()
      | Some config \<Rightarrow>
          if config = [] \<and> \<not> delete_missing then a_ret ()
          else a_bind (a_get (\<lambda>t. filter queryset (tb_rows t))) (\<lambda>rows.
            if rows = [] then a_bind (a_lift (plan_all cls transformer config)) (bulk_create cls)
            else a_bind (a_lift (plan_rows cls transformer (dict_of key_field (\<lambda>r. r) rows) config)) (\<lambda>(ins, ups).
              a_then (if ins = [] then a_ret () else bulk_create cls ins)
             (a_then (if ups = [] then a_ret () else bulk_update cls ups)
               (if delete_missing
                then a_upd (\<lambda>t. t\<lparr>tb_rows := filter (\<lambda>r. \<not> surplus_rows queryset key_field config r) (tb_rows t)\<rparr>)
                else a_ret ())))))"

section \<open>The models\<close>

definition rule_impact_class :: mclass where
  "rule_impact_class = \<lparr>mc_fields = [(''name'', JStr ''None''), (''impact'', JInt 0)],
     mc_required = [''name'', ''impact''], mc_unique = [[''name'']], mc_lengths = [(''name'', 80)]\<rparr>"

definition resolution_risk_class :: mclass where
  "resolution_risk_class = \<lparr>mc_fields = [(''name'', JStr ''None''), (''risk'', JInt 0)],
     mc_required = [''name'', ''risk''], mc_unique = [[''name'']], mc_lengths = [(''name'', 80)]\<rparr>"

definition tag_class :: mclass where
  "tag_class = \<lparr>mc_fields = [(''name'', JStr '''')], mc_required = [''name''], mc_unique = [[''name'']],
     mc_lengths = [(''name'', 32)]\<rparr>"

definition rule_class :: mclass where
  "rule_class = \<lparr>mc_fields = [(''ruleset'', JNull), (''rule_id'', JStr ''''), (''description'', JStr ''''),
       (''total_risk'', JInt 1), (''active'', JBool False), (''reboot_required'', JBool False), (''publish_date'', JNull),
       (''category_id'', JNull), (''impact_id'', JNull), (''likelihood'', JInt 0), (''pathway_id'', JNull),
       (''node_id'', JStr ''''), (''summary'', JStr ''''), (''generic'', JStr ''''), (''reason'', JStr ''''),
       (''more_info'', JStr ''''), (''deleted_at'', JNull)],
     mc_required = [''ruleset'', ''rule_id'', ''description'', ''total_risk'', ''active'', ''reboot_required'', ''category_id'',
       ''likelihood'', ''node_id'', ''summary'', ''generic'', ''reason'', ''more_info''],
     mc_unique = [[''rule_id'']], mc_lengths = [(''rule_id'', 240), (''description'', 240), (''node_id'', 10)]\<rparr>"

definition rule_tag_class :: mclass where
  "rule_tag_class = \<lparr>mc_fields = [(''rule_id'', JNull), (''tag'', JNull)], mc_required = [''rule_id'', ''tag''],
     mc_unique = [[''rule_id'', ''tag'']], mc_lengths = []\<rparr>"

definition resolution_class :: mclass where
  "resolution_class = \<lparr>mc_fields = [(''rule_id'', JNull), (''system_type_id'', JNull), (''resolution'', JStr ''''),
       (''resolution_risk_id'', JNull)],
     mc_required = [''rule_id'', ''system_type_id'', ''resolution'', ''resolution_risk_id''],
     mc_unique = [[''rule_id'', ''system_type_id'']], mc_lengths = []\<rparr>"

definition ack_class :: mclass where
  "ack_class = \<lparr>mc_fields = [(''rule_id'', JNull), (''account'', JNull), (''org_id'', JStr ''''), (''justification'', JStr ''''),
       (''created_by'', JStr '''')],
     mc_required = [''rule_id'', ''org_id'', ''justification'', ''created_by''], mc_unique = [[''rule_id'', ''org_id'']],
     mc_lengths = [(''account'', 10), (''org_id'', 50), (''justification'', 255), (''created_by'', 255)]\<rparr>"

definition playbook_class :: mclass where
  "playbook_class = \<lparr>mc_fields = [(''resolution_id'', JNull), (''type'', JStr ''''), (''play'', JNull),
       (''description'', JStr ''''), (''path'', JStr ''''), (''version'', JNull)],
     mc_required = [''resolution_id'', ''type'', ''description'', ''path''], mc_unique = [],
     mc_lengths = [(''type'', 100), (''description'', 255), (''path'', 255), (''version'', 40)]\<rparr>"

end
