(* ===== verification/Content_Sync.thy ===== *)
theory Content_Sync
  imports Content_Import
begin

text \<open>
  What \<open>update_model_from_config\<close> promises its callers, proved once for any model whose key and
  transformer fit together (a locale), and interpreted on the models of the import.
\<close>

section \<open>Rows\<close>

lemma py_eq_refl_hashable: "hashable v \<Longrightarrow> py_eq v v"
  by (cases v) (simp_all add: hashable_def)

text \<open>The row has the values of the configuration.\<close>

definition agrees :: "drow \<Rightarrow> drow \<Rightarrow> bool" where
  "agrees fs r \<longleftrightarrow> (\<forall>(f, v) \<in> set fs. \<exists>w. map_of r f = Some w \<and> py_eq w v)"

definition plain_fields :: "drow \<Rightarrow> bool" where
  "plain_fields fs \<longleftrightarrow> distinct (map fst fs) \<and> ''id'' \<notin> fst ` set fs \<and> (\<forall>(f, v) \<in> set fs. hashable v)"

lemma permute_other:
  "update_permute fs r = Inr (r', ch) \<Longrightarrow> f \<notin> fst ` set fs \<Longrightarrow> map_of r' f = map_of r f"
proof (induction fs r arbitrary: r' ch rule: update_permute.induct)
  case (2 f' v fs row)
  then show ?case
    by (fastforce split: option.splits if_splits prod.splits sum.splits simp: py_bind_def)
qed simp

lemma permute_agrees:
  "update_permute fs r = Inr (r', ch) \<Longrightarrow> plain_fields fs \<Longrightarrow> agrees fs r'"
proof (induction fs r arbitrary: r' ch rule: update_permute.induct)
  case (1 row)
  then show ?case by (simp add: agrees_def)
next
  case (2 f v fs row)
  have pf: "plain_fields fs" "f \<notin> fst ` set fs" "hashable v"
    using "2.prems"(2) by (auto simp: plain_fields_def)
  obtain w where w: "map_of row f = Some w" using "2.prems"(1) by (auto split: option.splits)
  show ?case
  proof (cases "py_eq w v")
    case True
    with "2.prems" w have u: "update_permute fs row = Inr (r', ch)" by simp
    from "2.IH"(1) [OF w True u pf(1)] permute_other [OF u pf(2)] w True show ?thesis
      by (auto simp: agrees_def)
  next
    case False
    with "2.prems" w obtain ch' where u: "update_permute fs (dict_set f v row) = Inr (r', ch')"
      by (auto simp: py_bind_eq_Inr)
    from "2.IH"(2) [OF w False u pf(1)] permute_other [OF u pf(2)] py_eq_refl_hashable [OF pf(3)] show ?thesis
      by (auto simp: agrees_def)
  qed
qed

lemma permute_unchanged: "update_permute fs r = Inr (r', []) \<Longrightarrow> r' = r"
  by (induction fs r arbitrary: r' rule: update_permute.induct)
     (auto simp: py_bind_eq_Inr split: option.splits if_splits prod.splits)

lemma permute_agreeing: "agrees fs r \<Longrightarrow> update_permute fs r = Inr (r, [])"
  by (induction fs) (auto simp: agrees_def)

lemma permute_id: "update_permute fs r = Inr (r', ch) \<Longrightarrow> plain_fields fs \<Longrightarrow> row_id r' = row_id r"
  by (simp add: row_id_def row_get_def permute_other plain_fields_def)

lemma new_row_field:
  "dict_has (mc_fields cls) f \<Longrightarrow> f \<noteq> ''id'' \<Longrightarrow> map_of fs f = Some v \<Longrightarrow> map_of (new_row cls pk fs) f = Some v"
proof -
  have "dict_has ds f \<Longrightarrow> map_of fs f = Some v \<Longrightarrow>
      map_of (map (\<lambda>(f, d). (f, case map_of fs f of None \<Rightarrow> d | Some v \<Rightarrow> v)) ds) f = Some v" for ds
    by (induction ds) auto
  then show "dict_has (mc_fields cls) f \<Longrightarrow> f \<noteq> ''id'' \<Longrightarrow> map_of fs f = Some v \<Longrightarrow> map_of (new_row cls pk fs) f = Some v"
    by (simp add: new_row_def)
qed

lemma new_row_agrees:
  assumes "plain_fields fs" "known_fields cls fs"
  shows "agrees fs (new_row cls pk fs)"
  unfolding agrees_def
proof clarify
  fix f v assume fv: "(f, v) \<in> set fs"
  have "f \<noteq> ''id''" using assms(1) fv by (force simp: plain_fields_def)
  moreover have "dict_has (mc_fields cls) f"
    using assms(2) fv calculation by (auto simp: known_fields_def list_all_iff)
  moreover have "map_of fs f = Some v" using assms(1) fv by (simp add: plain_fields_def)
  ultimately have "map_of (new_row cls pk fs) f = Some v" by (simp add: new_row_field)
  moreover have "py_eq v v" using assms(1) fv by (auto simp: plain_fields_def intro: py_eq_refl_hashable)
  ultimately show "\<exists>w. map_of (new_row cls pk fs) f = Some w \<and> py_eq w v" by blast
qed

lemma new_row_id [simp]: "row_id (new_row cls pk fs) = JInt pk"
  by (simp add: row_id_def row_get_def new_row_def)

section \<open>The plan\<close>

definition inserted :: "('c \<Rightarrow> drow option py) \<Rightarrow> (string \<times> drow) list \<Rightarrow> string \<times> 'c \<Rightarrow> drow list" where
  "inserted tr md kc = (case kc of (k, c) \<Rightarrow>
     (case tr c of Inr (Some fs) \<Rightarrow> if map_of md k = None then [fs] else [] | _ \<Rightarrow> []))"

definition updated :: "('c \<Rightarrow> drow option py) \<Rightarrow> (string \<times> drow) list \<Rightarrow> string \<times> 'c \<Rightarrow> drow list" where
  "updated tr md kc = (case kc of (k, c) \<Rightarrow>
     (case tr c of
        Inr (Some fs) \<Rightarrow>
          (case map_of md k of
             None \<Rightarrow> []
           | Some r \<Rightarrow> (case update_permute fs r of Inr (r', ch) \<Rightarrow> if ch = [] then [] else [r'] | Inl e \<Rightarrow> []))
      | _ \<Rightarrow> []))"

lemma inserted_app: "inserted tr md (k, c) =
    (case tr c of Inr (Some fs) \<Rightarrow> if map_of md k = None then [fs] else [] | _ \<Rightarrow> [])"
  by (simp add: inserted_def)

lemma updated_app: "updated tr md (k, c) = (case tr c of
    Inr (Some fs) \<Rightarrow>
      (case map_of md k of
         None \<Rightarrow> []
       | Some r \<Rightarrow> (case update_permute fs r of Inr (r', ch) \<Rightarrow> if ch = [] then [] else [r'] | Inl e \<Rightarrow> []))
  | _ \<Rightarrow> [])"
  by (simp add: updated_def)

lemma plan_rows_result:
  assumes "plan_rows cls tr md cfg = Inr (ins, ups)"
  shows "ins = concat (map (inserted tr md) cfg) \<and> ups = concat (map (updated tr md) cfg) \<and>
    (\<forall>(k, c) \<in> set cfg. \<exists>r. tr c = Inr r) \<and> list_all (known_fields cls) ins \<and>
    (\<forall>(k, c) \<in> set cfg. \<forall>fs r. tr c = Inr (Some fs) \<longrightarrow> map_of md k = Some r \<longrightarrow> (\<exists>x. update_permute fs r = Inr x))"
  using assms
proof (induction cfg arbitrary: ins ups)
  case Nil
  then show ?case by simp
next
  case (Cons kc cfg)
  obtain k c where kc: "kc = (k, c)" by (cases kc)
  obtain r where r: "tr c = Inr r" using Cons.prems kc by (auto simp: py_bind_eq_Inr)
  show ?case
  proof (cases r)
    case None
    with Cons kc r show ?thesis by (auto simp: inserted_app updated_app)
  next
    case (Some fs)
    show ?thesis
    proof (cases "map_of md k")
      case None
      with Cons.prems kc r Some obtain ins' where "plan_rows cls tr md cfg = Inr (ins', ups)" "ins = fs # ins'"
          "known_fields cls fs"
        by (auto simp: py_bind_eq_Inr construct_def split: if_splits)
      with Cons.IH [of ins' ups] kc r Some None show ?thesis
        by (auto simp: inserted_app updated_app)
    next
      case row: (Some db)
      with Cons.prems kc r Some obtain r' ch ups' where "update_permute fs db = Inr (r', ch)"
          "plan_rows cls tr md cfg = Inr (ins, ups')" "ups = (if ch = [] then ups' else r' # ups')"
        by (auto simp: py_bind_eq_Inr)
      with Cons.IH [of ins ups'] kc r Some row show ?thesis
        by (auto simp: inserted_app updated_app)
    qed
  qed
qed

lemma plan_all_result:
  assumes "plan_all cls tr cfg = Inr news" "\<forall>(k, c) \<in> set cfg. tr c \<noteq> Inr (Some [])"
  shows "news = concat (map (inserted tr []) cfg) \<and> (\<forall>(k, c) \<in> set cfg. \<exists>r. tr c = Inr r) \<and>
    list_all (known_fields cls) news"
  using assms
proof (induction cfg arbitrary: news)
  case Nil
  then show ?case by simp
next
  case (Cons kc cfg)
  obtain k c where kc: "kc = (k, c)" by (cases kc)
  obtain r where r: "tr c = Inr r" using Cons.prems kc by (auto simp: py_bind_eq_Inr)
  show ?case
  proof (cases r)
    case None
    with Cons kc r show ?thesis by (auto simp: inserted_app)
  next
    case (Some fs)
    with Cons.prems kc r obtain news' where "plan_all cls tr cfg = Inr news'" "news = fs # news'" "known_fields cls fs"
      by (auto simp: py_bind_eq_Inr construct_def split: if_splits)
    with Cons.IH [of news'] Cons.prems(2) kc r Some show ?thesis by (auto simp: inserted_app)
  qed
qed

section \<open>The contract\<close>

text \<open>The rows of a query by their key, and what the database keeps of a table.\<close>

definition keyed :: "(drow \<Rightarrow> bool) \<Rightarrow> (drow \<Rightarrow> string) \<Rightarrow> dtable \<Rightarrow> string \<Rightarrow> drow option" where
  "keyed qs key t = map_of (map (\<lambda>r. (key r, r)) (filter qs (tb_rows t)))"

definition table_ok :: "(drow \<Rightarrow> bool) \<Rightarrow> (drow \<Rightarrow> string) \<Rightarrow> dtable \<Rightarrow> bool" where
  "table_ok qs key t \<longleftrightarrow> distinct (map row_id (tb_rows t)) \<and>
     (\<forall>r \<in> set (tb_rows t). \<exists>i. row_id r = JInt i \<and> i < tb_next t) \<and>
     distinct (map key (filter qs (tb_rows t)))"

text \<open>
  The table is in step with the configuration: each entry has one row, with the entry's values and
  otherwise as it was; the other rows stay, or go when missing rows are to be deleted.
\<close>

definition synced :: "('c \<Rightarrow> drow option py) \<Rightarrow> (string \<times> 'c) list \<Rightarrow> bool \<Rightarrow> (string \<Rightarrow> drow option) \<Rightarrow>
    (string \<Rightarrow> drow option) \<Rightarrow> bool" where
  "synced tr cfg del m m' \<longleftrightarrow> (\<forall>k. case map_of cfg k of
       None \<Rightarrow> m' k = (if del then None else m k)
     | Some c \<Rightarrow>
         (case tr c of
            Inr (Some fs) \<Rightarrow> \<exists>r. m' k = Some r \<and> agrees fs r \<and>
              (\<forall>r0. m k = Some r0 \<longrightarrow> (\<forall>f. f \<notin> fst ` set fs \<longrightarrow> map_of r f = map_of r0 f))
          | _ \<Rightarrow> m' k = m k))"

lemma keyed_iff:
  "table_ok qs key t \<Longrightarrow> keyed qs key t k = Some r \<longleftrightarrow> r \<in> set (tb_rows t) \<and> qs r \<and> key r = k"
  unfolding keyed_def table_ok_def
  by (subst map_of_eq_Some_iff) (auto simp: comp_def)

lemma keyed_None: "keyed qs key t k = None \<longleftrightarrow> (\<forall>r \<in> set (tb_rows t). qs r \<longrightarrow> key r \<noteq> k)"
  by (auto simp: keyed_def map_of_eq_None_iff image_image)

lemma map_of_dict_of_keys: "map_of (dict_of f g rows) = map_of (rev (map (\<lambda>r. (f r, g r)) rows))"
proof -
  have "map_of (fold (\<lambda>r d. dict_set (f r) (g r) d) rows d) =
      map_of d ++ map_of (rev (map (\<lambda>r. (f r, g r)) rows))" for d
    by (induction rows arbitrary: d) (auto simp: fun_eq_iff map_add_def split: option.splits)
  from this [of "[]"] show ?thesis by (simp add: dict_of_def)
qed

lemma map_of_rev: "distinct (map fst xs) \<Longrightarrow> map_of (rev xs) = map_of xs"
proof (rule ext)
  fix k assume d: "distinct (map fst xs)"
  then have r: "distinct (map fst (rev xs))" by (simp add: rev_map [symmetric])
  show "map_of (rev xs) k = map_of xs k"
  proof (cases "map_of xs k")
    case None
    then have "map_of (rev xs) k = None" by (simp add: map_of_eq_None_iff)
    with None show ?thesis by simp
  next
    case (Some v)
    then have "(k, v) \<in> set (rev xs)" by (simp add: map_of_SomeD)
    with r Some show ?thesis by (simp add: map_of_is_SomeI)
  qed
qed

lemma map_of_dict_of:
  assumes "distinct (map key rows)"
  shows "map_of (dict_of key (\<lambda>r. r) rows) = map_of (map (\<lambda>r. (key r, r)) rows)"
proof -
  have "distinct (map fst (map (\<lambda>r. (key r, r)) rows))" using assms by (simp add: comp_def)
  then show ?thesis unfolding map_of_dict_of_keys by (rule map_of_rev)
qed

text \<open>The row after the update.\<close>

definition upd_row :: "(drow \<Rightarrow> bool) \<Rightarrow> (drow \<Rightarrow> string) \<Rightarrow> ('c \<Rightarrow> drow option py) \<Rightarrow> (string \<times> 'c) list \<Rightarrow> drow \<Rightarrow> drow" where
  "upd_row qs key tr cfg r =
     (if \<not> qs r then r
      else case map_of cfg (key r) of
        None \<Rightarrow> r
      | Some c \<Rightarrow> (case tr c of
          Inr (Some fs) \<Rightarrow> (case update_permute fs r of Inr (r', _) \<Rightarrow> r' | Inl e \<Rightarrow> r)
        | _ \<Rightarrow> r))"

lemma number_rows_mem:
  "r \<in> set (number_rows cls pk css) \<Longrightarrow> \<exists>i fs. r = new_row cls i fs \<and> fs \<in> set css \<and> pk \<le> i \<and> i < pk + int (length css)"
proof (induction css arbitrary: pk)
  case (Cons fs css)
  then show ?case
  proof (cases "r = new_row cls pk fs")
    case True
    then show ?thesis by (intro exI [of _ pk] exI [of _ fs]) simp
  next
    case False
    with Cons.prems have "r \<in> set (number_rows cls (pk + 1) css)" by simp
    from Cons.IH [OF this] show ?thesis by force
  qed
qed simp

lemma number_rows_ids: "distinct (map row_id (number_rows cls pk css))"
proof (induction css arbitrary: pk)
  case (Cons fs css)
  have "row_id r \<noteq> JInt pk" if r: "r \<in> set (number_rows cls (pk + 1) css)" for r
    using number_rows_mem [OF r] by auto
  then have "JInt pk \<notin> row_id ` set (number_rows cls (pk + 1) css)" by force
  with Cons show ?case by simp
qed simp

lemma bulk_create_result:
  "bulk_create cls css t = (Inr (), t') \<Longrightarrow> tb_rows t' = tb_rows t @ number_rows cls (tb_next t) css \<and>
    tb_next t' = tb_next t + int (length css)"
  by (auto simp: bulk_create_def Let_def split: if_splits option.splits)

lemma bulk_update_result:
  "bulk_update cls ups t = (Inr (), t') \<Longrightarrow> tb_rows t' = write_rows ups (tb_rows t) \<and> tb_next t' = tb_next t"
  by (auto simp: bulk_update_def Let_def split: option.splits)

text \<open>
  What a caller provides: a query, its key, a transformer, and the entries it makes (\<open>entry k c\<close>).
  The fields of an entry have plain values, and the rows made from it belong to the query under its
  key.
\<close>

locale synced_model =
  fixes cls :: mclass and qs :: "drow \<Rightarrow> bool" and key :: "drow \<Rightarrow> string"
    and tr :: "'c \<Rightarrow> drow option py" and entry :: "string \<Rightarrow> 'c \<Rightarrow> bool"
  assumes plain: "entry k c \<Longrightarrow> tr c = Inr (Some fs) \<Longrightarrow> plain_fields fs \<and> fs \<noteq> []"
    and created: "entry k c \<Longrightarrow> tr c = Inr (Some fs) \<Longrightarrow> known_fields cls fs \<Longrightarrow>
      qs (new_row cls pk fs) \<and> key (new_row cls pk fs) = k"
    and kept: "entry k c \<Longrightarrow> tr c = Inr (Some fs) \<Longrightarrow> qs r \<Longrightarrow> key r = k \<Longrightarrow>
      update_permute fs r = Inr (r', ch) \<Longrightarrow> qs r' \<and> key r' = k"

context synced_model begin

abbreviation entries :: "(string \<times> 'c) list \<Rightarrow> bool" where
  "entries cfg \<equiv> (\<forall>(k, c) \<in> set cfg. entry k c)"

lemma upd_row_cases:
  assumes "entries cfg" "qs r"
  shows "qs (upd_row qs key tr cfg r) \<and> key (upd_row qs key tr cfg r) = key r \<and>
    row_id (upd_row qs key tr cfg r) = row_id r"
proof (cases "map_of cfg (key r)")
  case None
  then show ?thesis using assms(2) by (simp add: upd_row_def)
next
  case (Some c)
  then have e: "entry (key r) c" using assms(1) by (auto dest: map_of_SomeD)
  show ?thesis
  proof (cases "tr c")
    case (Inl x)
    then show ?thesis using Some assms(2) by (simp add: upd_row_def)
  next
    case (Inr x)
    show ?thesis
    proof (cases x)
      case None
      then show ?thesis using Inr Some assms(2) by (simp add: upd_row_def)
    next
      case fs: (Some fs)
      show ?thesis
      proof (cases "update_permute fs r")
        case (Inl a)
        then show ?thesis using fs Inr Some assms(2) by (simp add: upd_row_def)
      next
        case p: (Inr p)
        obtain r' ch where pr: "p = (r', ch)" by (cases p)
        have u: "upd_row qs key tr cfg r = r'" using p pr fs Inr Some assms(2) by (simp add: upd_row_def)
        have "tr c = Inr (Some fs)" using Inr fs by simp
        from kept [OF e this assms(2) refl] permute_id [of fs r r' ch] plain [OF e this] p pr
        show ?thesis unfolding u by simp
      qed
    qed
  qed
qed

lemma upd_row_id: "entries cfg \<Longrightarrow> row_id (upd_row qs key tr cfg r) = row_id r"
  using upd_row_cases [of cfg r] by (cases "qs r") (simp_all add: upd_row_def)

lemma upd_row_qs: "entries cfg \<Longrightarrow> qs (upd_row qs key tr cfg r) \<longleftrightarrow> qs r"
  using upd_row_cases [of cfg r] by (cases "qs r") (simp_all add: upd_row_def)

text \<open>The new rows, in the order of their entries.\<close>

definition is_new :: "(string \<Rightarrow> drow option) \<Rightarrow> string \<times> 'c \<Rightarrow> bool" where
  "is_new m kc \<longleftrightarrow> (\<exists>fs. tr (snd kc) = Inr (Some fs)) \<and> m (fst kc) = None"

lemma new_rows_keys:
  assumes "entries cfg" "list_all (known_fields cls) (concat (map (inserted tr md) cfg))"
  shows "map key (number_rows cls pk (concat (map (inserted tr md) cfg))) = map fst (filter (is_new (map_of md)) cfg) \<and>
    (\<forall>r \<in> set (number_rows cls pk (concat (map (inserted tr md) cfg))). qs r)"
  using assms
proof (induction cfg arbitrary: pk)
  case Nil
  then show ?case by simp
next
  case (Cons kc cfg)
  obtain k c where kc: "kc = (k, c)" by (cases kc)
  have e: "entry k c" "entries cfg" using Cons.prems(1) kc by auto
  show ?case
  proof (cases "is_new (map_of md) kc")
    case True
    then obtain fs where fs: "tr c = Inr (Some fs)" "map_of md k = None" by (auto simp: is_new_def kc)
    then have "inserted tr md kc = [fs]" by (simp add: kc inserted_app)
    with Cons.prems(2) True kc created [OF e(1) fs(1)] Cons.IH [OF e(2), of "pk + 1"] show ?thesis by simp
  next
    case False
    then have "inserted tr md kc = []" by (auto simp: is_new_def kc inserted_app split: sum.split option.split)
    with Cons.prems(2) False Cons.IH [OF e(2)] show ?thesis by simp
  qed
qed

lemma updates_of:
  assumes "u \<in> set (concat (map (updated tr md) cfg))" "distinct (map fst cfg)"
  obtains k c fs r ch where "map_of cfg k = Some c" "tr c = Inr (Some fs)" "map_of md k = Some r"
    "update_permute fs r = Inr (u, ch)"
proof -
  obtain k c where kc: "(k, c) \<in> set cfg" "u \<in> set (updated tr md (k, c))" using assms(1) by auto
  from kc(2) obtain fs where fs: "tr c = Inr (Some fs)"
    by (cases "tr c") (auto simp: updated_app split: option.splits)
  from kc(2) fs obtain r where r: "map_of md k = Some r"
    by (cases "map_of md k") (auto simp: updated_app)
  from kc(2) fs r obtain ch where "update_permute fs r = Inr (u, ch)"
    by (cases "update_permute fs r") (auto simp: updated_app split: if_splits)
  with fs r that kc(1) assms(2) show ?thesis by simp
qed

text \<open>Writing the updates back.\<close>

lemma written_rows:
  assumes ok: "table_ok qs key t" and e: "entries cfg" "distinct (map fst cfg)"
    and plan: "plan_rows cls tr md cfg = Inr (ins, ups)" and md: "map_of md = keyed qs key t"
    and new: "\<forall>n \<in> set new. row_id n \<notin> row_id ` set (tb_rows t)"
  shows "write_rows ups (tb_rows t @ new) = map (upd_row qs key tr cfg) (tb_rows t) @ new"
proof -
  note p = plan_rows_result [OF plan]
  have ids: "distinct (map row_id (tb_rows t))" using ok by (simp add: table_ok_def)
  have old: "\<exists>r0 \<in> set (tb_rows t). row_id r0 = row_id u \<and> u = upd_row qs key tr cfg r0" if "u \<in> set ups" for u
  proof -
    from that p have "u \<in> set (concat (map (updated tr md) cfg))" by simp
    from updates_of [OF this e(2)] obtain k c fs r ch where
      u: "map_of cfg k = Some c" "tr c = Inr (Some fs)" "map_of md k = Some r" "update_permute fs r = Inr (u, ch)" .
    have r: "r \<in> set (tb_rows t)" "qs r" "key r = k" using u(3) keyed_iff [OF ok, of k r] by (simp_all add: md)
    have "entry k c" using u(1) e(1) by (auto dest: map_of_SomeD)
    then have "row_id u = row_id r" using permute_id [OF u(4)] plain u(2) by blast
    moreover have "upd_row qs key tr cfg r = u" using r u by (simp add: upd_row_def)
    ultimately show ?thesis using r by auto
  qed
  have one: "(case find (\<lambda>u. row_id u = row_id r) ups of None \<Rightarrow> r | Some u \<Rightarrow> u) = upd_row qs key tr cfg r"
    if r: "r \<in> set (tb_rows t)" for r
  proof (cases "find (\<lambda>u. row_id u = row_id r) ups")
    case (Some u)
    then have u: "u \<in> set ups" "row_id u = row_id r" by (auto simp: find_Some_iff)
    from old [OF u(1)] obtain r0 where r0: "r0 \<in> set (tb_rows t)" "row_id r0 = row_id u" "u = upd_row qs key tr cfg r0"
      by blast
    then have "r0 = r" using ids r u(2) by (simp add: distinct_map inj_on_def)
    with Some r0 show ?thesis by simp
  next
    case None
    then have none: "\<forall>u \<in> set ups. row_id u \<noteq> row_id r" by (simp add: find_None_iff)
    have "upd_row qs key tr cfg r = r"
    proof (rule ccontr)
      assume ne: "upd_row qs key tr cfg r \<noteq> r"
      then obtain c fs r' ch where c: "qs r" "map_of cfg (key r) = Some c" "tr c = Inr (Some fs)"
          "update_permute fs r = Inr (r', ch)"
        by (auto simp: upd_row_def split: if_splits option.splits sum.splits prod.splits)
      have "ch \<noteq> []" using ne c permute_unchanged [of fs r r'] by (auto simp: upd_row_def)
      moreover have "map_of md (key r) = Some r" using r c(1) keyed_iff [OF ok, of "key r" r] by (simp add: md)
      ultimately have "r' \<in> set (updated tr md (key r, c))" using c by (simp add: updated_app)
      then have "r' \<in> set ups" using p c(2) by (auto dest: map_of_SomeD)
      moreover have "entry (key r) c" using c(2) e(1) by (auto dest: map_of_SomeD)
      then have "row_id r' = row_id r" using permute_id [OF c(4)] plain c(3) by blast
      ultimately show False using none by blast
    qed
    with None show ?thesis by simp
  qed
  have two: "(case find (\<lambda>u. row_id u = row_id r) ups of None \<Rightarrow> r | Some u \<Rightarrow> u) = r" if r: "r \<in> set new" for r
  proof -
    have "row_id u \<noteq> row_id r" if "u \<in> set ups" for u
      using old [OF that] new r by (metis imageI)
    then have "find (\<lambda>u. row_id u = row_id r) ups = None" by (simp add: find_None_iff)
    then show ?thesis by simp
  qed
  show ?thesis using one two by (simp add: write_rows_def map_idI)
qed

lemma new_facts:
  assumes e: "entries cfg" and known: "list_all (known_fields cls) (concat (map (inserted tr md) cfg))"
    and new: "new = number_rows cls pk (concat (map (inserted tr md) cfg))"
  shows "map key new = map fst (filter (is_new (map_of md)) cfg) \<and> (\<forall>r \<in> set new. qs r) \<and> distinct (map row_id new) \<and>
    (\<forall>r \<in> set new. \<exists>i. row_id r = JInt i \<and> pk \<le> i \<and> i < pk + int (length (concat (map (inserted tr md) cfg)))) \<and>
    (\<forall>r \<in> set new. \<exists>k c fs i. (k, c) \<in> set cfg \<and> tr c = Inr (Some fs) \<and> r = new_row cls i fs \<and> known_fields cls fs)"
proof -
  let ?ins = "concat (map (inserted tr md) cfg)"
  have 1: "\<exists>i. row_id r = JInt i \<and> pk \<le> i \<and> i < pk + int (length ?ins)" if "r \<in> set new" for r
    using number_rows_mem [of r cls pk ?ins] that new by auto
  have 2: "\<exists>k c fs i. (k, c) \<in> set cfg \<and> tr c = Inr (Some fs) \<and> r = new_row cls i fs \<and> known_fields cls fs"
    if r: "r \<in> set new" for r
  proof -
    obtain i fs where i: "r = new_row cls i fs" "fs \<in> set ?ins" using number_rows_mem [of r cls pk ?ins] r new by blast
    then obtain k c where kc: "(k, c) \<in> set cfg" "fs \<in> set (inserted tr md (k, c))" by auto
    then have "tr c = Inr (Some fs)" by (auto simp: inserted_app split: sum.splits option.splits if_splits)
    moreover have "known_fields cls fs" using known i(2) unfolding list_all_iff by blast
    ultimately show ?thesis using kc(1) i(1) by blast
  qed
  show ?thesis using new_rows_keys [OF e known, of pk] number_rows_ids 1 2 unfolding new by blast
qed

lemma upd_row_none: "\<not> qs r \<Longrightarrow> upd_row qs key tr cfg r = r"
  by (simp add: upd_row_def)

lemma kept_rows:
  assumes "\<forall>r \<in> set rs. \<not> surplus_rows qs key cfg r"
  shows "filter (\<lambda>r. \<not> (del \<and> surplus_rows qs key cfg r)) rs = rs"
  using assms by (simp add: filter_id_conv)

text \<open>The table after the call, on every path.\<close>

lemma update_result:
  assumes run: "update_model_from_config cls qs key tr del (Some cfg) t = (Inr (), t')"
    and ok: "table_ok qs key t" and e: "entries cfg" "distinct (map fst cfg)"
  obtains new where
    "tb_rows t' = filter (\<lambda>r. \<not> (del \<and> surplus_rows qs key cfg r)) (map (upd_row qs key tr cfg) (tb_rows t) @ new)"
    "map key new = map fst (filter (is_new (keyed qs key t)) cfg)" "\<forall>r \<in> set new. qs r"
    "distinct (map row_id new)" "\<forall>r \<in> set new. \<exists>i. row_id r = JInt i \<and> tb_next t \<le> i \<and> i < tb_next t'"
    "tb_next t \<le> tb_next t'" "\<forall>(k, c) \<in> set cfg. \<exists>x. tr c = Inr x"
    "\<forall>(k, c) \<in> set cfg. \<forall>fs r. tr c = Inr (Some fs) \<longrightarrow> keyed qs key t k = Some r \<longrightarrow> (\<exists>x. update_permute fs r = Inr x)"
    "\<forall>r \<in> set new. \<exists>k c fs i. (k, c) \<in> set cfg \<and> tr c = Inr (Some fs) \<and> r = new_row cls i fs \<and> known_fields cls fs"
proof -
  let ?rows = "filter qs (tb_rows t)" and ?md = "dict_of key (\<lambda>r. r) (filter qs (tb_rows t))"
  have md: "map_of ?md = keyed qs key t"
    using ok by (simp add: table_ok_def map_of_dict_of keyed_def)
  consider (none) "cfg = []" "\<not> del" | (empty) "cfg \<noteq> [] \<or> del" "?rows = []" | (rows) "cfg \<noteq> [] \<or> del" "?rows \<noteq> []"
    by blast
  then show ?thesis
  proof cases
    case none
    with run have "t' = t" by (simp add: update_model_from_config_def)
    moreover have "map (upd_row qs key tr cfg) (tb_rows t) = tb_rows t"
      using none(1) by (intro map_idI) (simp add: upd_row_def)
    ultimately show ?thesis using none that [of "[]"] by simp
  next
    case empty
    then obtain news where news: "plan_all cls tr cfg = Inr news" "bulk_create cls news t = (Inr (), t')"
      using run by (auto simp: update_model_from_config_def a_bind_Inr split: if_splits)
    have "\<forall>(k, c) \<in> set cfg. tr c \<noteq> Inr (Some [])"
    proof clarify
      fix k c assume "(k, c) \<in> set cfg" and none: "tr c = Inr (Some [])"
      with e(1) have "entry k c" by auto
      from plain [OF this none] show False by simp
    qed
    note p = plan_all_result [OF news(1) this]
    have k: "map_of [] = keyed qs key t" using empty(2) by (simp add: keyed_def)
    note b = bulk_create_result [OF news(2)]
    obtain new where new: "new = number_rows cls (tb_next t) (concat (map (inserted tr []) cfg))" by blast
    have known: "list_all (known_fields cls) (concat (map (inserted tr []) cfg))" using p by metis
    note f = new_facts [OF e(1) known new]
    have old: "map (upd_row qs key tr cfg) (tb_rows t) = tb_rows t"
      using empty(2) by (intro map_idI upd_row_none) (auto simp: filter_empty_conv)
    have "\<forall>r \<in> set (tb_rows t @ new). \<not> surplus_rows qs key cfg r"
    proof
      fix r assume "r \<in> set (tb_rows t @ new)"
      then have "\<not> qs r \<or> key r \<in> set (map key new)" using empty(2) by (auto simp: filter_empty_conv)
      moreover have "set (map key new) \<subseteq> set (map fst cfg)" using f by auto
      ultimately show "\<not> surplus_rows qs key cfg r" by (auto simp: surplus_rows_def)
    qed
    from kept_rows [OF this] have rows': "tb_rows t' = filter (\<lambda>r. \<not> (del \<and> surplus_rows qs key cfg r))
        (map (upd_row qs key tr cfg) (tb_rows t) @ new)"
      using b p new old by simp
    have upd: "\<forall>(k, c) \<in> set cfg. \<forall>fs r. tr c = Inr (Some fs) \<longrightarrow> keyed qs key t k = Some r \<longrightarrow> (\<exists>x. update_permute fs r = Inr x)"
      using k by (simp flip: k)
    show ?thesis
    proof (rule that [of new])
      have "tb_next t' = tb_next t + int (length (concat (map (inserted tr []) cfg)))" using b p by simp
      then show "tb_next t \<le> tb_next t'" "\<forall>r \<in> set new. \<exists>i. row_id r = JInt i \<and> tb_next t \<le> i \<and> i < tb_next t'"
        using f by (simp, metis)
    qed (use rows' f [unfolded k] p upd in \<open>blast+\<close>)
  next
    case rows
    then obtain ins ups u v where r: "plan_rows cls tr ?md cfg = Inr (ins, ups)"
        "(if ins = [] then a_ret () else bulk_create cls ins) t = (Inr (), u)"
        "(if ups = [] then a_ret () else bulk_update cls ups) u = (Inr (), v)"
        "t' = (if del then v\<lparr>tb_rows := filter (\<lambda>r. \<not> surplus_rows qs key cfg r) (tb_rows v)\<rparr> else v)"
      using run by (auto simp: update_model_from_config_def a_bind_Inr a_then_Inr split: if_splits)
    note p = plan_rows_result [OF r(1)]
    obtain new where new: "new = number_rows cls (tb_next t) (concat (map (inserted tr ?md) cfg))" by blast
    have known: "list_all (known_fields cls) (concat (map (inserted tr ?md) cfg))" using p by metis
    note f = new_facts [OF e(1) known new]
    have ins: "ins = concat (map (inserted tr ?md) cfg)" using p by simp
    have "tb_rows u = tb_rows t @ number_rows cls (tb_next t) ins \<and> tb_next u = tb_next t + int (length ins)"
      using r(2) bulk_create_result [of cls ins t u] by (cases "ins = []") simp_all
    then have u: "tb_rows u = tb_rows t @ new" "tb_next u = tb_next t + int (length ins)"
      unfolding new ins by simp_all
    have "row_id n \<notin> row_id ` set (tb_rows t)" if "n \<in> set new" for n
    proof
      assume "row_id n \<in> row_id ` set (tb_rows t)"
      then obtain i where "row_id n = JInt i" "i < tb_next t" using ok by (auto simp: table_ok_def)
      with f that show False by fastforce
    qed
    then have "write_rows ups (tb_rows u) = map (upd_row qs key tr cfg) (tb_rows t) @ new"
      unfolding u(1) by (intro written_rows [OF ok e r(1) md]) blast
    moreover have "tb_rows v = write_rows ups (tb_rows u) \<and> tb_next v = tb_next u"
      using r(3) bulk_update_result [of cls ups u v] by (cases "ups = []") (simp_all add: write_rows_def)
    ultimately have v: "tb_rows v = map (upd_row qs key tr cfg) (tb_rows t) @ new" "tb_next v = tb_next u"
      by simp_all
    have fin: "tb_rows t' = filter (\<lambda>r. \<not> (del \<and> surplus_rows qs key cfg r)) (map (upd_row qs key tr cfg) (tb_rows t) @ new)"
      "tb_next t' = tb_next t + int (length (concat (map (inserted tr ?md) cfg)))"
      using r(4) v u(2) ins by simp_all
    note f' = f [unfolded md]
    show ?thesis
    proof (rule that [of new])
      show "\<forall>(k, c) \<in> set cfg. \<forall>fs r. tr c = Inr (Some fs) \<longrightarrow> keyed qs key t k = Some r \<longrightarrow> (\<exists>x. update_permute fs r = Inr x)"
        using p unfolding md by blast
      show "tb_next t \<le> tb_next t'" unfolding fin(2) by simp
      show "\<forall>r \<in> set new. \<exists>i. row_id r = JInt i \<and> tb_next t \<le> i \<and> i < tb_next t'" using f' unfolding fin(2) by blast
    qed (use f' fin p in \<open>blast+\<close>)
  qed
qed

text \<open>The rows and keys after the call.\<close>

lemma after_update:
  assumes run: "update_model_from_config cls qs key tr del (Some cfg) t = (Inr (), t')"
    and ok: "table_ok qs key t" and e: "entries cfg" "distinct (map fst cfg)"
  shows "table_ok qs key t' \<and> filter (\<lambda>r. \<not> qs r) (tb_rows t') = filter (\<lambda>r. \<not> qs r) (tb_rows t)"
proof -
  obtain new where n:
    "tb_rows t' = filter (\<lambda>r. \<not> (del \<and> surplus_rows qs key cfg r)) (map (upd_row qs key tr cfg) (tb_rows t) @ new)"
    "map key new = map fst (filter (is_new (keyed qs key t)) cfg)" "\<forall>r \<in> set new. qs r"
    "distinct (map row_id new)" "\<forall>r \<in> set new. \<exists>i. row_id r = JInt i \<and> tb_next t \<le> i \<and> i < tb_next t'"
    "tb_next t \<le> tb_next t'"
    by (rule update_result [OF run ok e], rule that, assumption+)
  let ?all = "map (upd_row qs key tr cfg) (tb_rows t) @ new"
  have ids: "map row_id ?all = map row_id (tb_rows t) @ map row_id new" by (simp add: comp_def upd_row_id [OF e(1)])
  have old_ids: "\<exists>i. row_id r = JInt i \<and> i < tb_next t" if "r \<in> set (tb_rows t)" for r
    using ok that by (simp add: table_ok_def)
  have "row_id ` set (tb_rows t) \<inter> row_id ` set new = {}" using old_ids n(5) by fastforce
  then have "distinct (map row_id ?all)" unfolding ids using ok n(4) by (simp add: table_ok_def)
  then have 1: "distinct (map row_id (tb_rows t'))" unfolding n(1) by (rule distinct_map_filter)
  have "\<exists>i. row_id r = JInt i \<and> i < tb_next t'" if r: "r \<in> set ?all" for r
  proof (cases "r \<in> set new")
    case True
    then show ?thesis using n(5) by blast
  next
    case False
    with r obtain r0 where r0: "r0 \<in> set (tb_rows t)" "r = upd_row qs key tr cfg r0" by auto
    obtain i where "row_id r0 = JInt i" "i < tb_next t" using old_ids [OF r0(1)] by blast
    then show ?thesis using n(6) unfolding r0(2) upd_row_id [OF e(1)] by (intro exI [of _ i]) simp
  qed
  then have 2: "\<forall>r \<in> set (tb_rows t'). \<exists>i. row_id r = JInt i \<and> i < tb_next t'" unfolding n(1) by (metis filter_is_subset subsetD)
  have "filter qs (map (upd_row qs key tr cfg) rs) = map (upd_row qs key tr cfg) (filter qs rs)" for rs
    by (induction rs) (simp_all add: upd_row_qs [OF e(1)])
  moreover have "map key (map (upd_row qs key tr cfg) (filter qs rs)) = map key (filter qs rs)" for rs
    using upd_row_cases [OF e(1)] by (induction rs) simp_all
  moreover have "filter qs new = new" using n(3) by (simp add: filter_id_conv)
  ultimately have keys: "map key (filter qs ?all) = map key (filter qs (tb_rows t)) @ map fst (filter (is_new (keyed qs key t)) cfg)"
    by (simp add: n(2) del: map_map)
  have "key ` set (filter qs (tb_rows t)) \<inter> fst ` set (filter (is_new (keyed qs key t)) cfg) = {}"
    by (force simp: is_new_def keyed_None)
  then have "distinct (map key (filter qs ?all))"
    unfolding keys using ok e(2) by (simp add: table_ok_def distinct_map_filter)
  then have "distinct (map key (filter (\<lambda>r. \<not> (del \<and> surplus_rows qs key cfg r)) (filter qs ?all)))" by (rule distinct_map_filter)
  then have 3: "distinct (map key (filter qs (tb_rows t')))" unfolding n(1) by (simp add: conj_commute)
  have "filter (\<lambda>r. \<not> qs r) (map (upd_row qs key tr cfg) rs) = filter (\<lambda>r. \<not> qs r) rs" for rs
    by (induction rs) (simp_all add: upd_row_qs [OF e(1)] upd_row_none)
  moreover have "filter (\<lambda>r. \<not> qs r) new = []" using n(3) by (simp add: filter_empty_conv)
  ultimately have "filter (\<lambda>r. \<not> qs r) ?all = filter (\<lambda>r. \<not> qs r) (tb_rows t)" by simp
  moreover have "filter (\<lambda>r. \<not> qs r) (filter (\<lambda>r. \<not> (del \<and> surplus_rows qs key cfg r)) rs) = filter (\<lambda>r. \<not> qs r) rs" for rs
    by (induction rs) (auto simp: surplus_rows_def)
  ultimately have 4: "filter (\<lambda>r. \<not> qs r) (tb_rows t') = filter (\<lambda>r. \<not> qs r) (tb_rows t)" unfolding n(1) by simp
  show ?thesis using 1 2 3 4 by (simp add: table_ok_def)
qed

lemma unsurplus: "map_of cfg k = Some c \<Longrightarrow> key r = k \<Longrightarrow> \<not> surplus_rows qs key cfg r"
  by (force simp: surplus_rows_def dest: map_of_SomeD)

text \<open>The contract.\<close>

lemma update_synced:
  assumes run: "update_model_from_config cls qs key tr del (Some cfg) t = (Inr (), t')"
    and ok: "table_ok qs key t" and e: "entries cfg" "distinct (map fst cfg)"
  shows "synced tr cfg del (keyed qs key t) (keyed qs key t')"
  unfolding synced_def
proof
  fix k
  obtain new where n:
    "tb_rows t' = filter (\<lambda>r. \<not> (del \<and> surplus_rows qs key cfg r)) (map (upd_row qs key tr cfg) (tb_rows t) @ new)"
    "map key new = map fst (filter (is_new (keyed qs key t)) cfg)" "\<forall>r \<in> set new. qs r"
    "distinct (map row_id new)" "\<forall>r \<in> set new. \<exists>i. row_id r = JInt i \<and> tb_next t \<le> i \<and> i < tb_next t'"
    "tb_next t \<le> tb_next t'" "\<forall>(k, c) \<in> set cfg. \<exists>x. tr c = Inr x"
    "\<forall>(k, c) \<in> set cfg. \<forall>fs r. tr c = Inr (Some fs) \<longrightarrow> keyed qs key t k = Some r \<longrightarrow> (\<exists>x. update_permute fs r = Inr x)"
    "\<forall>r \<in> set new. \<exists>k c fs i. (k, c) \<in> set cfg \<and> tr c = Inr (Some fs) \<and> r = new_row cls i fs \<and> known_fields cls fs"
    by (rule update_result [OF run ok e], rule that, assumption+)
  have ok': "table_ok qs key t'" using after_update [OF run ok e] by simp
  let ?P = "\<lambda>r. \<not> (del \<and> surplus_rows qs key cfg r)"
  have mem: "r \<in> set (tb_rows t') \<longleftrightarrow> ?P r \<and> (r \<in> upd_row qs key tr cfg ` set (tb_rows t) \<or> r \<in> set new)" for r
    unfolding n(1) by auto
  have newkey: "\<exists>c fs. map_of cfg (key r) = Some c \<and> tr c = Inr (Some fs) \<and> keyed qs key t (key r) = None" if "r \<in> set new" for r
  proof -
    from that n(2) have "key r \<in> fst ` set (filter (is_new (keyed qs key t)) cfg)" by (metis image_eqI set_map)
    with e(2) show ?thesis by (auto simp: is_new_def)
  qed
  text \<open>An entry that changes nothing leaves the row of its key.\<close>
  have same: "keyed qs key t' k = keyed qs key t k"
    if still: "\<And>r. qs r \<Longrightarrow> key r = k \<Longrightarrow> upd_row qs key tr cfg r = r" and stay: "\<And>r. key r = k \<Longrightarrow> ?P r"
      and nonew: "\<And>r. r \<in> set new \<Longrightarrow> key r \<noteq> k"
  proof -
    have "keyed qs key t' k = Some r \<longleftrightarrow> keyed qs key t k = Some r" for r
      unfolding keyed_iff [OF ok'] keyed_iff [OF ok]
    proof
      assume r: "r \<in> set (tb_rows t') \<and> qs r \<and> key r = k"
      then obtain r0 where r0: "r0 \<in> set (tb_rows t)" "r = upd_row qs key tr cfg r0" using mem nonew by blast
      have "qs r0" "key r0 = k"
        using r r0(2) upd_row_qs [OF e(1), of r0] upd_row_cases [OF e(1), of r0] by simp_all
      with still r0 have "r = r0" by simp
      with r r0(1) show "r \<in> set (tb_rows t) \<and> qs r \<and> key r = k" by simp
    next
      assume r: "r \<in> set (tb_rows t) \<and> qs r \<and> key r = k"
      with still have "r \<in> upd_row qs key tr cfg ` set (tb_rows t)" by (metis imageI)
      with r stay mem show "r \<in> set (tb_rows t') \<and> qs r \<and> key r = k" by blast
    qed
    then show ?thesis by (metis option.exhaust)
  qed
  show "case map_of cfg k of None \<Rightarrow> keyed qs key t' k = (if del then None else keyed qs key t k)
    | Some c \<Rightarrow> (case tr c of
        Inr (Some fs) \<Rightarrow> \<exists>r. keyed qs key t' k = Some r \<and> agrees fs r \<and>
          (\<forall>r0. keyed qs key t k = Some r0 \<longrightarrow> (\<forall>f. f \<notin> fst ` set fs \<longrightarrow> map_of r f = map_of r0 f))
      | _ \<Rightarrow> keyed qs key t' k = keyed qs key t k)"
  proof (cases "map_of cfg k")
    case None
    then have k: "k \<notin> set (map fst cfg)" by (simp add: map_of_eq_None_iff)
    have nonew: "key r \<noteq> k" if "r \<in> set new" for r using newkey [OF that] None by auto
    show ?thesis
    proof (cases del)
      case True
      have "\<forall>r \<in> set (tb_rows t'). qs r \<longrightarrow> key r \<noteq> k"
      proof (intro ballI impI)
        fix r assume r: "r \<in> set (tb_rows t')" "qs r"
        from r(1) have "\<not> surplus_rows qs key cfg r" unfolding mem using True by simp
        with r(2) k show "key r \<noteq> k" by (auto simp: surplus_rows_def)
      qed
      then have "keyed qs key t' k = None" by (simp add: keyed_None)
      with None True show ?thesis by simp
    next
      case False
      have "keyed qs key t' k = keyed qs key t k"
        by (rule same) (use None False nonew in \<open>auto simp: upd_row_def\<close>)
      with None False show ?thesis by simp
    qed
  next
    case (Some c)
    then have ec: "(k, c) \<in> set cfg" "entry k c" using e(1) by (auto dest: map_of_SomeD)
    obtain x where x: "tr c = Inr x" using n(7) ec(1) by blast
    show ?thesis
    proof (cases x)
      case None
      have "keyed qs key t' k = keyed qs key t k"
      proof (rule same)
        fix r assume "key r = k"
        then show "\<not> (del \<and> surplus_rows qs key cfg r)" using unsurplus [OF Some] by simp
      next
        fix r assume "r \<in> set new"
        then show "key r \<noteq> k" using newkey [of r] Some x None by fastforce
      qed (use Some x None in \<open>simp add: upd_row_def\<close>)
      with Some x None show ?thesis by simp
    next
      case fs: (Some fs)
      with x have c: "tr c = Inr (Some fs)" by simp
      note pl = plain [OF ec(2) c]
      have "\<exists>r. keyed qs key t' k = Some r \<and> agrees fs r \<and>
          (\<forall>r0. keyed qs key t k = Some r0 \<longrightarrow> (\<forall>f. f \<notin> fst ` set fs \<longrightarrow> map_of r f = map_of r0 f))"
      proof (cases "keyed qs key t k")
        case None
        then have "is_new (keyed qs key t) (k, c)" using c by (simp add: is_new_def)
        with ec(1) have "k \<in> set (map fst (filter (is_new (keyed qs key t)) cfg))" by force
        then have "k \<in> set (map key new)" unfolding n(2) .
        then have "k \<in> key ` set new" by simp
        then obtain r where r: "r \<in> set new" "key r = k" by blast
        then obtain k2 c2 fs2 i where o: "(k2, c2) \<in> set cfg" "tr c2 = Inr (Some fs2)" "r = new_row cls i fs2" "known_fields cls fs2"
          using n(9) by blast
        have "entry k2 c2" using o(1) e(1) by blast
        from created [OF this o(2,4), of i] r o(3) have "k2 = k" by simp
        with o(1,2) ec(1) e(2) c have "fs2 = fs" by (metis eq_key_imp_eq_value Inr_inject option.inject)
        then have "agrees fs r" using new_row_agrees pl o(3,4) by simp
        moreover have "keyed qs key t' k = Some r"
          unfolding keyed_iff [OF ok'] mem using r n(3) unsurplus [OF Some r(2)] by simp
        ultimately show ?thesis using None by simp
      next
        case r0: (Some r0)
        then have "r0 \<in> set (tb_rows t)" "qs r0" "key r0 = k" using keyed_iff [OF ok] by simp_all
        obtain r ch where p: "update_permute fs r0 = Inr (r, ch)" using n(8) ec(1) c r0 by fastforce
        have u: "upd_row qs key tr cfg r0 = r" using \<open>qs r0\<close> \<open>key r0 = k\<close> Some c p by (simp add: upd_row_def)
        have "qs r" "key r = k" using upd_row_cases [OF e(1) \<open>qs r0\<close>] u \<open>key r0 = k\<close> by simp_all
        then have "keyed qs key t' k = Some r"
          unfolding keyed_iff [OF ok'] mem using \<open>r0 \<in> set (tb_rows t)\<close> u unsurplus [OF Some] by blast
        with permute_agrees [OF p] permute_other [OF p] pl r0 show ?thesis by simp
      qed
      with Some c show ?thesis by simp
    qed
  qed
qed

lemma plan_rows_agreeing:
  assumes "\<And>k c. (k, c) \<in> set cfg \<Longrightarrow> \<exists>x. tr c = Inr x"
    and "\<And>k c fs. (k, c) \<in> set cfg \<Longrightarrow> tr c = Inr (Some fs) \<Longrightarrow> \<exists>r. map_of md k = Some r \<and> agrees fs r"
  shows "plan_rows cls tr md cfg = Inr ([], [])"
  using assms
proof (induction cfg)
  case (Cons kc cfg)
  obtain k c where kc: "kc = (k, c)" by (cases kc)
  obtain x where x: "tr c = Inr x" using Cons.prems(1) [of k c] kc by auto
  have IH: "plan_rows cls tr md cfg = Inr ([], [])"
  proof (rule Cons.IH)
    show "\<exists>x. tr c = Inr x" if "(k, c) \<in> set cfg" for k c using Cons.prems(1) [of k c] that by simp
    show "\<exists>r. map_of md k = Some r \<and> agrees fs r" if "(k, c) \<in> set cfg" "tr c = Inr (Some fs)" for k c fs
      using Cons.prems(2) [of k c fs] that by simp
  qed
  show ?case
  proof (cases x)
    case None
    with x kc IH show ?thesis by simp
  next
    case (Some fs)
    with x Cons.prems(2) [of k c fs] kc obtain r where "map_of md k = Some r" "agrees fs r" by auto
    with x Some kc IH show ?thesis by (simp add: permute_agreeing)
  qed
qed simp

lemma plan_all_nothing:
  assumes "\<And>k c. (k, c) \<in> set cfg \<Longrightarrow> tr c = Inr None"
  shows "plan_all cls tr cfg = Inr []"
  using assms
proof (induction cfg)
  case (Cons kc cfg)
  obtain k c where kc: "kc = (k, c)" by (cases kc)
  have "plan_all cls tr cfg = Inr []" by (rule Cons.IH) (use Cons.prems in auto)
  with kc Cons.prems [of k c] show ?case by simp
qed simp

text \<open>A second import of the same configuration changes nothing.\<close>

lemma update_idempotent:
  assumes run: "update_model_from_config cls qs key tr del (Some cfg) t = (Inr (), t')"
    and ok: "table_ok qs key t" and e: "entries cfg" "distinct (map fst cfg)"
  shows "update_model_from_config cls qs key tr del (Some cfg) t' = (Inr (), t')"
proof -
  have ok': "table_ok qs key t'" using after_update [OF run ok e] by simp
  have tr: "\<forall>(k, c) \<in> set cfg. \<exists>x. tr c = Inr x" by (rule update_result [OF run ok e])
  note s = update_synced [OF run ok e, unfolded synced_def]
  have there: "\<exists>r. keyed qs key t' k = Some r \<and> agrees fs r" if "(k, c) \<in> set cfg" "tr c = Inr (Some fs)" for k c fs
  proof -
    have "map_of cfg k = Some c" using that(1) e(2) by simp
    with s [rule_format, of k] that(2) show ?thesis by auto
  qed
  have gone: "\<not> surplus_rows qs key cfg r" if "del" "r \<in> set (tb_rows t')" for r
  proof
    assume sr: "surplus_rows qs key cfg r"
    then have "keyed qs key t' (key r) = Some r" using that(2) keyed_iff [OF ok', of "key r" r] by (simp add: surplus_rows_def)
    moreover have "map_of cfg (key r) = None" using sr by (simp add: surplus_rows_def map_of_eq_None_iff)
    ultimately show False using s [rule_format, of "key r"] that(1) by simp
  qed
  then have del: "t'\<lparr>tb_rows := filter (\<lambda>r. \<not> surplus_rows qs key cfg r) (tb_rows t')\<rparr> = t'" if del
    using that by (simp add: filter_id_conv)
  let ?rows = "filter qs (tb_rows t')"
  show ?thesis
  proof (cases "?rows = []")
    case True
    then have "keyed qs key t' k = None" for k by (simp add: keyed_def)
    then have no: "tr c \<noteq> Inr (Some fs)" if "(k, c) \<in> set cfg" for k c fs using there [OF that] by auto
    have "plan_all cls tr cfg = Inr []"
    proof (rule plan_all_nothing)
      fix k c assume kc: "(k, c) \<in> set cfg"
      then obtain x where "tr c = Inr x" using tr by blast
      with no [OF kc] show "tr c = Inr None" by (cases x) auto
    qed
    with True show ?thesis by (simp add: update_model_from_config_def a_bind_app bulk_create_def)
  next
    case False
    have md: "map_of (dict_of key (\<lambda>r. r) ?rows) = keyed qs key t'"
      using ok' by (simp add: table_ok_def map_of_dict_of keyed_def)
    have "plan_rows cls tr (dict_of key (\<lambda>r. r) ?rows) cfg = Inr ([], [])"
      by (rule plan_rows_agreeing) (use tr there md in auto)
    with False del show ?thesis by (simp add: update_model_from_config_def a_bind_app a_then_app)
  qed
qed

end

end
