(* ===== verification/Content_Rules.thy ===== *)
theory Content_Rules
  imports Content_Import
begin

text \<open>
  The import itself: the configuration, the lookups kept in the module, the rules with their tags,
  automatic acknowledgements and resolutions, the playbooks, and the command
  (\<open>api/management/commands/import_content.py\<close>).  The lookups are part of the state, as they
  are globals of the module.
\<close>

section \<open>State\<close>

record import_state =
  is_impacts :: dtable
  is_risks :: dtable
  is_tags :: dtable
  is_categories :: dtable
  is_pathways :: dtable
  is_rulesets :: dtable
  is_system_types :: dtable
  is_rules :: dtable
  is_rule_tags :: dtable
  is_resolutions :: dtable
  is_acks :: dtable
  is_playbooks :: dtable
  is_host_orgs :: "string list"
  ix_risk :: "(string \<times> json) list"
  ix_category :: "(string \<times> json) list"
  ix_impact :: "(string \<times> json) list"
  ix_pathway :: "(string \<times> json) list"
  ix_tag :: "(string \<times> json) list"
  ix_ruleset :: "(string \<times> json) list"
  ix_system_type :: "(string \<times> json) list"
  ix_rule :: "(string \<times> json) list"

text \<open>
  The environment: \<open>int\<close>, the reading of a publication date (which replaces its time zone), the
  settings of automatic acknowledgements, and the decoded answers to requests and files.
\<close>

record config_file =
  ic_impact :: "(string option \<times> json) list option"
  ic_risk :: "(string \<times> json) list option"
  ic_tags :: "(string \<times> string list) list option"

record playbook_row =
  pb_rule :: string
  pb_type :: string
  pb_play :: string
  pb_description :: json
  pb_path :: string
  pb_version :: json

type_synonym content_row = "(string \<times> json) list"

record import_env =
  ie_int :: "json \<Rightarrow> int py"
  ie_date :: "json \<Rightarrow> json py"
  ie_autoack :: string
  ie_created_by :: string
  ie_justification :: string
  ie_status :: "string \<Rightarrow> int"
  ie_config_at :: "string \<Rightarrow> config_file py"
  ie_rules_at :: "bool \<Rightarrow> string \<Rightarrow> content_row list option py"
  ie_playbooks_at :: "bool \<Rightarrow> string \<Rightarrow> (string \<times> playbook_row) list option py"
  ie_exists :: "string \<Rightarrow> bool"
  ie_generate :: "string \<Rightarrow> content_row list py"
  ie_generate_playbooks :: "string \<Rightarrow> (string \<times> playbook_row) list option py"

definition on_table :: "(import_state \<Rightarrow> dtable) \<Rightarrow> ((dtable \<Rightarrow> dtable) \<Rightarrow> import_state \<Rightarrow> import_state) \<Rightarrow>
    (dtable, 'a) act \<Rightarrow> (import_state, 'a) act" where
  "on_table get upd m = (\<lambda>s. case m (get s) of (r, t) \<Rightarrow> (r, upd (\<lambda>_. t) s))"

definition rows_of :: "(import_state \<Rightarrow> dtable) \<Rightarrow> (import_state, drow list) act" where
  "rows_of get = a_get (\<lambda>s. tb_rows (get s))"

section \<open>Configuration\<close>

definition transform_config :: "string \<Rightarrow> (string \<times> json) list \<Rightarrow> (string \<times> drow) list" where
  "transform_config value_field d = map (\<lambda>(key, value). (key, [(''name'', JStr key), (value_field, value)])) d"

definition transform_tags :: "(string \<times> string list) list \<Rightarrow> (string \<times> drow) list" where
  "transform_tags groups = dict_of (\<lambda>tag. tag) (\<lambda>tag. [(''name'', JStr tag)]) (concat (map snd groups))"

definition config_section :: "string \<Rightarrow> 'a option \<Rightarrow> 'a py" where
  "config_section name v = (case v of None \<Rightarrow> Inl (KeyError name) | Some x \<Rightarrow> Inr x)"

definition without_null :: "(string option \<times> json) list \<Rightarrow> (string \<times> json) list" where
  "without_null d = List.map_filter (\<lambda>(k, v). map_option (\<lambda>k. (k, v)) k) d"

text \<open>A configuration section into the table of a model with a name, with no transformer.\<close>

definition update_named :: "mclass \<Rightarrow> (string \<times> drow) list \<Rightarrow> (dtable, unit) act" where
  "update_named cls config =
     update_model_from_config cls (\<lambda>_. True) (col_text ''name'') (\<lambda>row. Inr (Some row)) False (Some config)"

definition import_config :: "config_file \<Rightarrow> (import_state, bool) act" where
  "import_config config =
     a_bind (a_lift (config_section ''impact'' (ic_impact config))) (\<lambda>impact.
     a_then (on_table is_impacts is_impacts_update
       (update_named rule_impact_class (transform_config ''impact'' (without_null impact))))
    (a_bind (a_lift (config_section ''resolution_risk'' (ic_risk config))) (\<lambda>risk.
     a_then (on_table is_risks is_risks_update (update_named resolution_risk_class (transform_config ''risk'' risk)))
    (a_bind (a_lift (config_section ''tags'' (ic_tags config))) (\<lambda>tags.
     a_then (on_table is_tags is_tags_update (update_named tag_class (transform_tags tags)))
    (a_then (a_upd (ix_risk_update (\<lambda>_. risk)))
      (a_ret True)))))))"

section \<open>Lookups\<close>

definition load_map :: "(import_state \<Rightarrow> dtable) \<Rightarrow> (drow \<Rightarrow> string) \<Rightarrow>
    (((string \<times> json) list \<Rightarrow> (string \<times> json) list) \<Rightarrow> import_state \<Rightarrow> import_state) \<Rightarrow> (import_state, unit) act" where
  "load_map get name upd =
     a_bind (rows_of get) (\<lambda>rows.
       let m = dict_of name row_id rows in
       a_then (a_upd (upd (\<lambda>_. m))) (if m = [] then a_raise (Exn ''Exception'') else a_ret ()))"

definition system_type_name :: "drow \<Rightarrow> string" where
  "system_type_name r = col_text ''product_code'' r @ ''/'' @ col_text ''role'' r"

definition load_database_maps :: "(import_state, unit) act" where
  "load_database_maps =
     a_then (load_map is_categories (col_text ''name'') ix_category_update)
    (a_then (load_map is_impacts (col_text ''name'') ix_impact_update)
    (a_then (load_map is_pathways (col_text ''resolution_risk_name'') ix_pathway_update)
    (a_then (load_map is_tags (col_text ''name'') ix_tag_update)
    (a_then (load_map is_rulesets (col_text ''module_starts_with'') ix_ruleset_update)
     (load_map is_system_types system_type_name ix_system_type_update)))))"

definition load_rule_id_map :: "(import_state, unit) act" where
  "load_rule_id_map =
     a_bind (rows_of is_rules) (\<lambda>rows. a_upd (ix_rule_update (\<lambda>_. dict_of (col_text ''rule_id'') row_id rows)))"

section \<open>Rules\<close>

text \<open>\<open>row[k]\<close>, and a lookup by a value of the row.\<close>

definition row_item :: "content_row \<Rightarrow> string \<Rightarrow> json py" where
  "row_item row k = py_item (JObj row) k"

definition row_text :: "content_row \<Rightarrow> string \<Rightarrow> string py" where
  "row_text row k = py_bind (row_item row k) (\<lambda>v. case v of JStr s \<Rightarrow> Inr s | _ \<Rightarrow> Inl TypeError)"

definition look_up :: "(string \<times> json) list \<Rightarrow> json \<Rightarrow> json py" where
  "look_up m v =
     (case v of
        JStr s \<Rightarrow> (case map_of m s of None \<Rightarrow> Inl (KeyError s) | Some x \<Rightarrow> Inr x)
      | _ \<Rightarrow> if hashable v then Inl (KeyError '''') else Inl TypeError)"

definition look_up_default :: "(string \<times> json) list \<Rightarrow> json \<Rightarrow> json \<Rightarrow> json py" where
  "look_up_default m v dflt =
     (case v of
        JStr s \<Rightarrow> Inr (case map_of m s of None \<Rightarrow> dflt | Some x \<Rightarrow> x)
      | _ \<Rightarrow> if hashable v then Inr dflt else Inl TypeError)"

definition find_ruleset_model :: "(string \<times> json) list \<Rightarrow> content_row \<Rightarrow> json py" where
  "find_ruleset_model rulesets row =
     py_bind (row_item row ''python_module'') (\<lambda>m. case m of
        JStr s \<Rightarrow> (case find (\<lambda>(p, _). prefix p s) rulesets of None \<Rightarrow> Inl ValueError | Some (_, model) \<Rightarrow> Inr model)
      | _ \<Rightarrow> if rulesets = [] then Inl ValueError else Inl AttributeError)"

text \<open>\<open>int((likelihood + risk) / 2)\<close>\<close>

definition truncate_rat :: "rat \<Rightarrow> int" where
  "truncate_rat r = (if r < 0 then \<lceil>r\<rceil> else \<lfloor>r\<rfloor>)"

definition average_risk :: "int \<Rightarrow> json \<Rightarrow> json py" where
  "average_risk likelihood risk =
     (case py_num risk of None \<Rightarrow> Inl TypeError | Some r \<Rightarrow> Inr (JInt (truncate_rat ((of_int likelihood + r) / 2))))"

definition copied_fields :: "string list" where
  "copied_fields =
     [''rule_id'', ''description'', ''reboot_required'', ''likelihood'', ''node_id'', ''generic'', ''reason'', ''more_info'']"

definition publish_fields :: "import_env \<Rightarrow> json \<Rightarrow> drow py" where
  "publish_fields ie v =
     (if truthy v then py_bind (ie_date ie v) (\<lambda>d. Inr [(''publish_date'', d)]) else Inr [])"

text \<open>The fields in the order they are first assigned.\<close>

definition rule_fields :: "drow \<Rightarrow> json \<Rightarrow> bool \<Rightarrow> int \<Rightarrow> json \<Rightarrow> drow \<Rightarrow> json \<Rightarrow> json \<Rightarrow> json \<Rightarrow> json \<Rightarrow> drow" where
  "rule_fields base ruleset active likelihood total_risk publish summary category impact pathway =
     dict_set ''likelihood'' (JInt likelihood)
       (if row_get base ''node_id'' = JNull then dict_set ''node_id'' (JStr '''') base else base) @
     [(''ruleset'', ruleset), (''active'', JBool active), (''total_risk'', total_risk)] @ publish @
     [(''summary'', summary), (''category_id'', category), (''impact_id'', impact), (''pathway_id'', pathway)]"

definition rule_content_to_model_fields :: "import_env \<Rightarrow> import_state \<Rightarrow> content_row \<Rightarrow> drow option py" where
  "rule_content_to_model_fields ie s row =
     py_bind (py_mapM (\<lambda>f. py_bind (row_item row f) (\<lambda>v. Inr (f, v))) copied_fields) (\<lambda>base.
     py_bind (find_ruleset_model (ix_ruleset s) row) (\<lambda>ruleset.
     py_bind (row_item row ''status'') (\<lambda>status.
     py_bind (py_bind (row_item row ''likelihood'') (ie_int ie)) (\<lambda>likelihood.
     py_bind (py_bind (row_item row ''resolution_risk'') (look_up (ix_risk s))) (\<lambda>risk.
     py_bind (average_risk likelihood risk) (\<lambda>total_risk.
     py_bind (py_bind (row_item row ''publish_date'') (publish_fields ie)) (\<lambda>publish.
     py_bind (row_item row ''generic'') (\<lambda>generic.
     py_bind (py_bind (row_item row ''category'') (look_up (ix_category s))) (\<lambda>category.
     py_bind (py_bind (row_item row ''impact'') (look_up (ix_impact s))) (\<lambda>impact.
     py_bind (py_bind (row_item row ''resolution_risk'') (\<lambda>v. look_up_default (ix_pathway s) v JNull)) (\<lambda>pathway.
       Inr (Some (rule_fields base ruleset (status = JStr ''active'') likelihood total_risk publish
         (case map_of row ''summary'' of None \<Rightarrow> generic | Some v \<Rightarrow> v) category impact pathway)))))))))))))"

text \<open>\<open>{key(row): row for row in rows}\<close> where the key may raise.\<close>

fun dict_of_py :: "('r \<Rightarrow> string py) \<Rightarrow> ('r \<Rightarrow> 'v py) \<Rightarrow> 'r list \<Rightarrow> (string \<times> 'v) list \<Rightarrow> (string \<times> 'v) list py" where
  "dict_of_py f g [] d = Inr d"
| "dict_of_py f g (r # rs) d =
     py_bind (f r) (\<lambda>k. py_bind (g r) (\<lambda>v. dict_of_py f g rs (dict_set k v d)))"

definition load_all_rules :: "import_env \<Rightarrow> content_row list \<Rightarrow> (import_state, unit) act" where
  "load_all_rules ie content =
     a_bind (a_lift (dict_of_py (\<lambda>row. row_text row ''rule_id'') Inr content [])) (\<lambda>rule_dict.
     a_bind (a_get (\<lambda>s. s)) (\<lambda>s.
       on_table is_rules is_rules_update
         (update_model_from_config rule_class (\<lambda>_. True) (col_text ''rule_id'') (rule_content_to_model_fields ie s) False
            (Some rule_dict))))"

section \<open>Tags of rules\<close>

text \<open>Joins: the text of a row found by its key.\<close>

definition name_of :: "(import_state \<Rightarrow> dtable) \<Rightarrow> string \<Rightarrow> import_state \<Rightarrow> json \<Rightarrow> string" where
  "name_of get f s pk = (case find (\<lambda>r. row_id r = pk) (tb_rows (get s)) of None \<Rightarrow> '''' | Some r \<Rightarrow> col_text f r)"

definition rule_tag_key :: "import_state \<Rightarrow> drow \<Rightarrow> string" where
  "rule_tag_key s r = name_of is_rules ''rule_id'' s (row_get r ''rule_id'') @ name_of is_tags ''name'' s (row_get r ''tag'')"

definition row_tags :: "content_row \<Rightarrow> (content_row \<times> json) list py" where
  "row_tags row = py_bind (py_bind (row_item row ''tags'') py_iter) (\<lambda>tags. Inr (map (\<lambda>tag. (row, tag)) tags))"

definition known_tag :: "(string \<times> json) list \<Rightarrow> json \<Rightarrow> bool py" where
  "known_tag m tag =
     (if \<not> hashable tag then Inl TypeError else Inr (case tag of JStr s \<Rightarrow> dict_has m s | _ \<Rightarrow> False))"

definition rule_tag_name :: "content_row \<times> json \<Rightarrow> string py" where
  "rule_tag_name rt = py_bind (row_text (fst rt) ''rule_id'') (\<lambda>rule. case snd rt of JStr tag \<Rightarrow> Inr (rule @ tag) | _ \<Rightarrow> Inl TypeError)"

definition rule_tag_fields :: "import_state \<Rightarrow> content_row \<times> json \<Rightarrow> drow py" where
  "rule_tag_fields s rt =
     py_bind (py_bind (row_item (fst rt) ''rule_id'') (look_up (ix_rule s))) (\<lambda>rule.
     py_bind (look_up (ix_tag s) (snd rt)) (\<lambda>tag. Inr [(''rule_id'', rule), (''tag'', tag)]))"

definition load_all_rule_tags :: "content_row list \<Rightarrow> (import_state, unit) act" where
  "load_all_rule_tags content =
     a_bind (a_get (\<lambda>s. s)) (\<lambda>s.
     a_bind (a_lift (py_mapM row_tags content)) (\<lambda>pairs.
     a_bind (a_lift (py_mapM (\<lambda>rt. known_tag (ix_tag s) (snd rt)) (concat pairs))) (\<lambda>known.
       if False \<in> set known then a_ret ()
       else a_bind (a_lift (dict_of_py rule_tag_name (rule_tag_fields s) (concat pairs) [])) (\<lambda>rule_tag_content.
         on_table is_rule_tags is_rule_tags_update
           (update_model_from_config rule_tag_class (\<lambda>_. True) (rule_tag_key s) (\<lambda>row. Inr (Some row)) True
              (Some rule_tag_content))))))"

section \<open>Automatic acknowledgements\<close>

definition ack_key :: "import_state \<Rightarrow> drow \<Rightarrow> string" where
  "ack_key s r = name_of is_rules ''rule_id'' s (row_get r ''rule_id'') @ col_text ''org_id'' r"

definition is_autoack :: "import_env \<Rightarrow> drow \<Rightarrow> bool" where
  "is_autoack ie r = (row_get r ''created_by'' = JStr (ie_created_by ie))"

definition autoack_rule :: "import_env \<Rightarrow> content_row \<Rightarrow> string list py" where
  "autoack_rule ie row =
     py_bind (py_bind (row_item row ''tags'') (py_in (ie_autoack ie))) (\<lambda>marked.
       if marked then py_bind (row_text row ''rule_id'') (\<lambda>r. Inr [r]) else Inr [])"

text \<open>Whoever acknowledged it: the organisation has the rule acknowledged.\<close>

definition org_has_rule_acked :: "import_state \<Rightarrow> string \<Rightarrow> string \<Rightarrow> bool" where
  "org_has_rule_acked s rule org = list_ex (\<lambda>a. name_of is_rules ''rule_id'' s (row_get a ''rule_id'') = rule \<and>
     col_text ''org_id'' a = org) (tb_rows (is_acks s))"

definition autoack_fields :: "import_env \<Rightarrow> import_state \<Rightarrow> string \<times> string \<Rightarrow> drow py" where
  "autoack_fields ie s ro =
     py_bind (look_up (ix_rule s) (JStr (fst ro))) (\<lambda>rule.
       Inr [(''rule_id'', rule), (''org_id'', JStr (snd ro)), (''created_by'', JStr (ie_created_by ie)),
            (''justification'', JStr (ie_justification ie))])"

definition autoack_name :: "string \<times> string \<Rightarrow> string py" where
  "autoack_name ro = Inr (fst ro @ snd ro)"

definition wanted_autoacks :: "import_state \<Rightarrow> string list \<Rightarrow> (string \<times> string) list" where
  "wanted_autoacks s rules =
     filter (\<lambda>(rule, org). \<not> org_has_rule_acked s rule org) (List.product rules (remdups (is_host_orgs s)))"

definition load_all_autoacks :: "import_env \<Rightarrow> content_row list \<Rightarrow> (import_state, unit) act" where
  "load_all_autoacks ie content =
     a_bind (a_get (\<lambda>s. s)) (\<lambda>s.
     a_bind (a_lift (py_mapM (autoack_rule ie) content)) (\<lambda>rules.
     a_bind (a_lift (dict_of_py autoack_name (autoack_fields ie s)
         (wanted_autoacks s (remdups (concat rules))) [])) (\<lambda>autoacks_from_content.
       on_table is_acks is_acks_update
         (update_model_from_config ack_class (is_autoack ie) (ack_key s) (\<lambda>row. Inr (Some row)) True
            (Some autoacks_from_content)))))"

section \<open>Resolutions\<close>

definition pk_text :: "json \<Rightarrow> string" where
  "pk_text v = (case v of JInt i \<Rightarrow> str_of_int i | JStr s \<Rightarrow> s | _ \<Rightarrow> '''')"

definition resolution_key :: "drow \<Rightarrow> string" where
  "resolution_key r = pk_text (row_get r ''rule_id'') @ '','' @ pk_text (row_get r ''system_type_id'')"

definition content_system_type :: "import_state \<Rightarrow> content_row \<Rightarrow> json py" where
  "content_system_type s row =
     py_bind (row_text row ''product_code'') (\<lambda>product. py_bind (row_text row ''role'') (\<lambda>role.
       look_up (ix_system_type s) (JStr (product @ ''/'' @ role))))"

definition content_rule :: "import_state \<Rightarrow> content_row \<Rightarrow> json py" where
  "content_rule s row = py_bind (row_item row ''rule_id'') (look_up (ix_rule s))"

definition rule_to_resolution :: "import_state \<Rightarrow> content_row \<Rightarrow> drow option py" where
  "rule_to_resolution s row =
     py_bind (content_rule s row) (\<lambda>rule.
     py_bind (content_system_type s row) (\<lambda>system_type.
     py_bind (row_item row ''resolution'') (\<lambda>resolution.
     py_bind (py_bind (row_item row ''resolution_risk'') (look_up (dict_of (col_text ''name'') row_id (tb_rows (is_risks s))))) (\<lambda>risk.
       Inr (Some [(''rule_id'', rule), (''system_type_id'', system_type), (''resolution'', resolution),
                  (''resolution_risk_id'', risk)])))))"

definition resolution_name :: "import_state \<Rightarrow> content_row \<Rightarrow> string py" where
  "resolution_name s row =
     py_bind (content_rule s row) (\<lambda>rule. py_bind (content_system_type s row) (\<lambda>system_type.
       Inr (pk_text rule @ '','' @ pk_text system_type)))"

text \<open>Deleting a resolution deletes its playbooks.\<close>

definition cascade_playbooks :: "drow list \<Rightarrow> import_state \<Rightarrow> import_state" where
  "cascade_playbooks before s =
     (let gone = (\<lambda>pk. pk \<in> set (map row_id before) \<and> pk \<notin> set (map row_id (tb_rows (is_resolutions s)))) in
      s\<lparr>is_playbooks := (is_playbooks s)\<lparr>tb_rows :=
        filter (\<lambda>p. \<not> gone (row_get p ''resolution_id'')) (tb_rows (is_playbooks s))\<rparr>\<rparr>)"

definition load_all_resolutions :: "content_row list \<Rightarrow> (import_state, unit) act" where
  "load_all_resolutions content =
     a_bind (a_get (\<lambda>s. s)) (\<lambda>s.
     a_bind (a_lift (dict_of_py (resolution_name s) Inr content [])) (\<lambda>resolution_content.
     a_then (on_table is_resolutions is_resolutions_update
         (update_model_from_config resolution_class (\<lambda>_. True) resolution_key (rule_to_resolution s) True
            (Some resolution_content)))
       (a_upd (cascade_playbooks (tb_rows (is_resolutions s))))))"

definition import_content :: "import_env \<Rightarrow> content_row list \<Rightarrow> (import_state, bool) act" where
  "import_content ie content =
     a_then (load_all_rules ie content)
    (a_then load_rule_id_map
    (a_then (load_all_rule_tags content)
    (a_then (load_all_autoacks ie content)
    (a_then (load_all_resolutions content)
      (a_ret True)))))"

section \<open>Playbooks\<close>

definition resolution_of_rule :: "import_state \<Rightarrow> (string \<times> json) list" where
  "resolution_of_rule s =
     dict_of (\<lambda>r. name_of is_rules ''rule_id'' s (row_get r ''rule_id'')) row_id (tb_rows (is_resolutions s))"

definition playbook_transformer :: "import_state \<Rightarrow> playbook_row \<Rightarrow> drow option py" where
  "playbook_transformer s p =
     Inr (case map_of (resolution_of_rule s) (pb_rule p) of
        None \<Rightarrow> None
      | Some resolution \<Rightarrow> Some [(''resolution_id'', resolution), (''type'', JStr (pb_type p)), (''play'', JStr (pb_play p)),
          (''description'', pb_description p), (''path'', JStr (pb_path p)), (''version'', pb_version p)])"

definition playbook_key :: "import_state \<Rightarrow> drow \<Rightarrow> string" where
  "playbook_key s r =
     name_of is_rules ''rule_id'' s
       (case find (\<lambda>x. row_id x = row_get r ''resolution_id'') (tb_rows (is_resolutions s)) of
          None \<Rightarrow> JNull | Some x \<Rightarrow> row_get x ''rule_id'') @ col_text ''type'' r"

definition load_all_playbooks :: "(string \<times> playbook_row) list option \<Rightarrow> (import_state, unit) act" where
  "load_all_playbooks playbooks =
     a_bind (a_get (\<lambda>s. s)) (\<lambda>s.
       on_table is_playbooks is_playbooks_update
         (update_model_from_config playbook_class (\<lambda>_. True) (playbook_key s) (playbook_transformer s) False playbooks))"

section \<open>The command\<close>

text \<open>
  A dump at a URL: the compressed file, or the plain one when that is not found; \<open>None\<close> when
  neither can be had.
\<close>

definition load_previous_dump_from_url :: "import_env \<Rightarrow> (bool \<Rightarrow> string \<Rightarrow> 'a option py) \<Rightarrow> string \<Rightarrow> 'a option py" where
  "load_previous_dump_from_url ie fetch url =
     (let compressed = (ie_status ie (url @ ''.gz'') \<noteq> 404);
          found = (if compressed then url @ ''.gz'' else url) in
      if ie_status ie found \<noteq> 200 then Inr None else fetch compressed found)"

definition load_config_from_url :: "import_env \<Rightarrow> string \<Rightarrow> (import_state, bool) act" where
  "load_config_from_url ie base =
     (let url = base @ ''config.yaml'' in
      if ie_status ie url \<noteq> 200 then a_ret False
      else a_bind (a_lift (ie_config_at ie url)) import_config)"

definition process_content_from_url :: "import_env \<Rightarrow> string \<Rightarrow> (import_state, bool) act" where
  "process_content_from_url ie base =
     a_bind (a_lift (load_previous_dump_from_url ie (ie_rules_at ie) (base @ ''rule_content.yaml''))) (\<lambda>c. case c of
       None \<Rightarrow> a_ret False
     | Some content \<Rightarrow> if content = [] then a_ret False else import_content ie content)"

text \<open>What \<open>load_all_playbooks\<close> returns is not a true value.\<close>

definition process_playbooks_from_url :: "import_env \<Rightarrow> string \<Rightarrow> (import_state, bool) act" where
  "process_playbooks_from_url ie base =
     a_bind (a_lift (load_previous_dump_from_url ie (ie_playbooks_at ie) (base @ ''playbook_content.yaml''))) (\<lambda>c. case c of
       None \<Rightarrow> a_ret False
     | Some playbooks \<Rightarrow> if playbooks = [] then a_ret False
         else a_then (load_all_playbooks (Some playbooks)) (a_ret False))"

definition path_join :: "string \<Rightarrow> string \<Rightarrow> string" where
  "path_join a b = (if a = [] \<or> last a = CHR ''/'' then a @ b else a @ ''/'' @ b)"

definition filename_for_dump :: "import_env \<Rightarrow> string \<Rightarrow> string \<Rightarrow> bool \<Rightarrow> string" where
  "filename_for_dump ie repo filename compress =
     (let dump = path_join repo (if compress then filename @ ''.gz'' else filename) in
      if ie_exists ie (dump @ ''.gz'') then dump @ ''.gz'' else dump)"

definition load_config_from_file :: "import_env \<Rightarrow> string \<Rightarrow> (import_state, bool) act" where
  "load_config_from_file ie repo =
     (let f1 = path_join repo ''content/config.yaml''; f2 = path_join repo ''config.yaml'' in
      if ie_exists ie f1 then a_bind (a_lift (ie_config_at ie f1)) import_config
      else if ie_exists ie f2 then a_bind (a_lift (ie_config_at ie f2)) import_config
      else a_ret False)"

definition ends_with :: "string \<Rightarrow> string \<Rightarrow> bool" where
  "ends_with e s = suffix e s"

text \<open>A dump that holds no document is no list and cannot be iterated over.\<close>

definition process_content_from_path :: "import_env \<Rightarrow> string \<Rightarrow> (import_state, bool) act" where
  "process_content_from_path ie repo =
     (let dump = filename_for_dump ie repo ''rule_content.yaml'' False in
      a_bind (a_lift (if ie_exists ie dump then ie_rules_at ie (ends_with ''.gz'' dump) dump
                      else py_bind (ie_generate ie repo) (\<lambda>c. Inr (Some c)))) (\<lambda>c. case c of
        None \<Rightarrow> a_raise TypeError
      | Some content \<Rightarrow> import_content ie content))"

definition process_playbooks_from_path :: "import_env \<Rightarrow> string \<Rightarrow> (import_state, unit) act" where
  "process_playbooks_from_path ie repo =
     (let dump = filename_for_dump ie repo ''playbook_content.yaml'' False in
      a_bind (a_lift (if ie_exists ie dump then ie_playbooks_at ie (ends_with ''.gz'' dump) dump
                      else ie_generate_playbooks ie repo)) load_all_playbooks)"

record import_options =
  io_remote_url :: "string option"
  io_content_path :: "string option"
  io_playbook_path :: "string option"
  io_dump :: bool

definition import_from_url :: "import_env \<Rightarrow> string \<Rightarrow> (import_state, unit) act" where
  "import_from_url ie url =
     (let base = (if ends_with ''/'' url then url else url @ ''/'') in
      a_bind (load_config_from_url ie base) (\<lambda>ok.
        if \<not> ok then a_ret ()
        else a_then load_database_maps
            (a_bind (process_content_from_url ie base) (\<lambda>ok.
              if \<not> ok then a_ret () else a_bind (process_playbooks_from_url ie base) (\<lambda>_. a_ret ())))))"

definition import_from_path :: "import_env \<Rightarrow> string \<Rightarrow> string \<Rightarrow> (import_state, unit) act" where
  "import_from_path ie content_path playbook_path =
     a_bind (load_config_from_file ie content_path) (\<lambda>ok.
       if \<not> ok then a_ret ()
       else a_then load_database_maps
           (a_bind (process_content_from_path ie content_path) (\<lambda>_. process_playbooks_from_path ie playbook_path)))"

definition given :: "string option \<Rightarrow> string option" where
  "given v = (case v of None \<Rightarrow> None | Some s \<Rightarrow> if s = '''' then None else Some s)"

text \<open>Dumping writes files and no tables.\<close>

definition import_command :: "import_env \<Rightarrow> import_options \<Rightarrow> (import_state, unit) act" where
  "import_command ie opts =
     (case given (io_remote_url opts) of
        Some url \<Rightarrow> import_from_url ie url
      | None \<Rightarrow>
          (case given (io_content_path opts) of
             None \<Rightarrow> a_ret ()
           | Some path \<Rightarrow>
               if \<not> ie_exists ie path \<or> io_dump opts then a_ret ()
               else import_from_path ie path (case given (io_playbook_path opts) of None \<Rightarrow> path | Some p \<Rightarrow> p)))"

end
