(* ===== verification/Content_Safety.thy ===== *)
theory Content_Safety
  imports Content_Sync Content_Rules
begin

text \<open>
  The import of rule content: the tables of the configuration and of the rules follow their content
  and a repeated import changes nothing, while the automatic acknowledgements of one import are
  deleted by the next.
\<close>

section \<open>The contract on the models of the import\<close>

lemma on_table_Inr: "on_table get upd m s = (Inr x, s') \<longleftrightarrow> (\<exists>t. m (get s) = (Inr x, t) \<and> s' = upd (\<lambda>_. t) s)"
  by (auto simp: on_table_def split: prod.splits)

lemma py_eq_str: "py_eq w (JStr k) \<Longrightarrow> w = JStr k"
  by (cases w) (auto split: if_splits)

lemma agrees_text:
  "agrees fs r \<Longrightarrow> (f, JStr k) \<in> set fs \<Longrightarrow> col_text f r = k"
  by (fastforce simp: agrees_def col_text_def row_get_def dest: py_eq_str)

lemma map_of_Some_dict_has: "map_of d k = Some v \<Longrightarrow> dict_has d k"
  by (simp add: dict_has_def)

text \<open>A key that is a text field of the configuration fits every model that has the field.\<close>

lemma text_key_fits:
  assumes "plain_fields fs" "(f, JStr k) \<in> set fs"
  shows "known_fields cls fs \<Longrightarrow> col_text f (new_row cls pk fs) = k"
    and "update_permute fs r = Inr (r', ch) \<Longrightarrow> col_text f r' = k"
  using agrees_text [OF new_row_agrees [OF assms(1)] assms(2)] agrees_text [OF permute_agrees [OF _ assms(1)] assms(2)]
  by simp_all

definition named_entry :: "string \<Rightarrow> string \<Rightarrow> drow \<Rightarrow> bool" where
  "named_entry field k c \<longleftrightarrow> (\<exists>v. c = [(''name'', JStr k), (field, v)] \<and> hashable v)"

lemma hashable_str [simp]: "hashable (JStr s)" "hashable (JInt i)" "hashable (JBool b)" "hashable JNull"
  by (simp_all add: hashable_def)

lemma named_entry_plain:
  "named_entry field k c \<Longrightarrow> field \<noteq> ''name'' \<Longrightarrow> field \<noteq> ''id'' \<Longrightarrow> plain_fields c \<and> c \<noteq> [] \<and> (''name'', JStr k) \<in> set c"
  by (auto simp: named_entry_def plain_fields_def)

lemma synced_by_text:
  assumes "\<And>k c fs. entry k c \<Longrightarrow> tr c = Inr (Some fs) \<Longrightarrow> plain_fields fs \<and> fs \<noteq> [] \<and> (f, JStr k) \<in> set fs"
  shows "synced_model cls (\<lambda>_. True) (col_text f) tr entry"
  by unfold_locales (use assms text_key_fits in \<open>blast+\<close>)

interpretation impact_sync: synced_model rule_impact_class "\<lambda>_. True" "col_text ''name''" "\<lambda>row. Inr (Some row)"
  "named_entry ''impact''"
  by (rule synced_by_text) (simp add: named_entry_plain)

interpretation risk_sync: synced_model resolution_risk_class "\<lambda>_. True" "col_text ''name''" "\<lambda>row. Inr (Some row)"
  "named_entry ''risk''"
  by (rule synced_by_text) (simp add: named_entry_plain)

definition tag_entry :: "string \<Rightarrow> drow \<Rightarrow> bool" where
  "tag_entry k c \<longleftrightarrow> c = [(''name'', JStr k)]"

lemma tag_entry_plain: "tag_entry k c \<Longrightarrow> plain_fields c \<and> c \<noteq> [] \<and> (''name'', JStr k) \<in> set c"
  by (simp add: tag_entry_def plain_fields_def)

interpretation tag_sync: synced_model tag_class "\<lambda>_. True" "col_text ''name''" "\<lambda>row. Inr (Some row)" tag_entry
  by (rule synced_by_text) (simp add: tag_entry_plain)

section \<open>Rules\<close>

text \<open>A row of rule content whose values are scalars.\<close>

definition rule_entry :: "import_env \<Rightarrow> import_state \<Rightarrow> string \<Rightarrow> content_row \<Rightarrow> bool" where
  "rule_entry ie s k row \<longleftrightarrow> row_text row ''rule_id'' = Inr k \<and>
     (\<forall>fs. rule_content_to_model_fields ie s row = Inr (Some fs) \<longrightarrow> (\<forall>(f, v) \<in> set fs. hashable v))"

lemma row_text_item: "row_text row f = Inr k \<longleftrightarrow> row_item row f = Inr (JStr k)"
proof (cases "row_item row f")
  case (Inr v)
  then show ?thesis by (cases v) (simp_all add: row_text_def)
qed (simp add: row_text_def)

lemma py_mapM_fields:
  "py_mapM (\<lambda>f. py_bind (g f) (\<lambda>v. Inr (f, v))) fs = Inr base \<Longrightarrow>
     map fst base = fs \<and> (\<forall>(f, v) \<in> set base. g f = Inr v)"
  by (induction fs arbitrary: base) (auto simp: py_bind_eq_Inr)

lemma dict_set_keys_same: "k \<in> fst ` set d \<Longrightarrow> map fst (dict_set k v d) = map fst d"
  by (simp add: keys_dict_set)

lemma rule_fields_shape:
  assumes "rule_content_to_model_fields ie s row = Inr (Some fs)"
  obtains base publish rest where
    "map fst base = copied_fields" "\<forall>(f, v) \<in> set base. row_item row f = Inr v"
    "fs = dict_set ''likelihood'' rest (if row_get base ''node_id'' = JNull then dict_set ''node_id'' (JStr '''') base else base) @ publish"
    "distinct (map fst publish)" "set (map fst publish) \<subseteq> {''ruleset'', ''active'', ''total_risk'', ''publish_date'', ''summary'',
       ''category_id'', ''impact_id'', ''pathway_id''}"
proof -
  obtain base ruleset status likelihood risk total publish generic category impact pathway pd where
    b: "py_mapM (\<lambda>f. py_bind (row_item row f) (\<lambda>v. Inr (f, v))) copied_fields = Inr base"
    and p: "publish_fields ie pd = Inr publish"
    and fs: "fs = rule_fields base ruleset status likelihood total publish risk category impact pathway"
    using assms by (auto simp: rule_content_to_model_fields_def py_bind_eq_Inr)
  note shape = py_mapM_fields [OF b]
  have pub: "publish = [] \<or> (\<exists>d. publish = [(''publish_date'', d)])"
    using p by (auto simp: publish_fields_def py_bind_eq_Inr split: if_splits)
  show ?thesis
    by (rule that [OF _ _ fs [unfolded rule_fields_def]]) (use shape pub in \<open>auto simp del: set_map\<close>)
qed

lemma copied_distinct: "distinct copied_fields"
  by (simp add: copied_fields_def)

lemma rule_entry_plain:
  assumes "rule_entry ie s k row" "rule_content_to_model_fields ie s row = Inr (Some fs)"
  shows "plain_fields fs \<and> fs \<noteq> [] \<and> (''rule_id'', JStr k) \<in> set fs"
proof -
  obtain base publish rest where
    b: "map fst base = copied_fields" "\<forall>(f, v) \<in> set base. row_item row f = Inr v"
    and fs: "fs = dict_set ''likelihood'' rest (if row_get base ''node_id'' = JNull then dict_set ''node_id'' (JStr '''') base else base) @ publish"
    and p: "distinct (map fst publish)" "set (map fst publish) \<subseteq> {''ruleset'', ''active'', ''total_risk'', ''publish_date'', ''summary'',
       ''category_id'', ''impact_id'', ''pathway_id''}"
    by (rule rule_fields_shape [OF assms(2)])
  let ?base = "dict_set ''likelihood'' rest (if row_get base ''node_id'' = JNull then dict_set ''node_id'' (JStr '''') base else base)"
  have keys: "map fst ?base = copied_fields"
  proof -
    have "f \<in> fst ` set base" if "f \<in> set copied_fields" for f using that b(1) by (metis set_map)
    then have "''likelihood'' \<in> fst ` set base" "''node_id'' \<in> fst ` set base" by (simp_all add: copied_fields_def)
    then show ?thesis using b(1) by (auto simp: keys_dict_set copied_fields_def)
  qed
  have "map fst fs = copied_fields @ map fst publish" unfolding fs by (simp add: keys)
  moreover have "distinct (copied_fields @ map fst publish)"
    using p copied_distinct by (auto simp: copied_fields_def)
  moreover have "''id'' \<notin> set (copied_fields @ map fst publish)" using p(2) by (auto simp: copied_fields_def)
  ultimately have d: "distinct (map fst fs)" "''id'' \<notin> fst ` set fs" by (metis, metis set_map)
  have "''rule_id'' \<in> set (map fst base)" unfolding b(1) by (simp add: copied_fields_def)
  then obtain v where v: "map_of base ''rule_id'' = Some v" by (cases "map_of base ''rule_id''") (auto simp: map_of_eq_None_iff)
  then have "row_item row ''rule_id'' = Inr v" using b(2) map_of_SomeD [OF v] by blast
  with assms(1) v have base: "map_of base ''rule_id'' = Some (JStr k)" by (simp add: rule_entry_def row_text_item)
  have "''rule_id'' \<notin> fst ` set publish" using p(2) by auto
  then have "map_of publish ''rule_id'' = None" by (simp add: map_of_eq_None_iff)
  with base have "map_of fs ''rule_id'' = Some (JStr k)" unfolding fs by (simp add: map_add_def)
  then have "(''rule_id'', JStr k) \<in> set fs" by (rule map_of_SomeD)
  with d assms show ?thesis by (auto simp: plain_fields_def rule_entry_def)
qed

interpretation rule_sync: synced_model rule_class "\<lambda>_. True" "col_text ''rule_id''"
  "rule_content_to_model_fields ie s" "rule_entry ie s" for ie s
  by (rule synced_by_text) (rule rule_entry_plain)

lemma dict_of_py_result:
  "dict_of_py f g rs d = Inr d' \<Longrightarrow> distinct (map fst d) \<Longrightarrow>
     distinct (map fst d') \<and> (\<forall>(k, v) \<in> set d'. (k, v) \<in> set d \<or> (\<exists>r \<in> set rs. f r = Inr k \<and> g r = Inr v))"
proof (induction rs arbitrary: d)
  case (Cons r rs)
  then obtain k v where kv: "f r = Inr k" "g r = Inr v" "dict_of_py f g rs (dict_set k v d) = Inr d'"
    by (auto simp: py_bind_eq_Inr)
  have "set (dict_set k v d) \<subseteq> insert (k, v) (set d)" by (induction d) (auto split: if_splits)
  with Cons.IH [OF kv(3)] Cons.prems(2) kv(1,2) show ?case by (auto simp: distinct_dict_set)
qed auto

definition rule_dict :: "content_row list \<Rightarrow> (string \<times> content_row) list py" where
  "rule_dict content = dict_of_py (\<lambda>row. row_text row ''rule_id'') Inr content []"

lemma rule_dict_entries:
  assumes "rule_dict content = Inr d" "\<forall>row \<in> set content. \<forall>k. row_text row ''rule_id'' = Inr k \<longrightarrow> rule_entry ie s k row"
  shows "rule_sync.entries ie s d" "distinct (map fst d)"
  using dict_of_py_result [OF assms(1) [unfolded rule_dict_def]] assms(2) by auto

lemma load_all_rules_Inr:
  "load_all_rules ie content s = (Inr (), s') \<longleftrightarrow> (\<exists>d t. rule_dict content = Inr d \<and>
     update_model_from_config rule_class (\<lambda>_. True) (col_text ''rule_id'') (rule_content_to_model_fields ie s) False (Some d)
       (is_rules s) = (Inr (), t) \<and> s' = s\<lparr>is_rules := t\<rparr>)"
  by (auto simp: load_all_rules_def rule_dict_def a_bind_Inr on_table_Inr)

lemma rule_fields_cong: "rule_content_to_model_fields ie (s\<lparr>is_rules := t\<rparr>) = rule_content_to_model_fields ie s"
  by (rule ext) (simp add: rule_content_to_model_fields_def)

text \<open>
  C38: the rules follow their content.  When \<open>load_all_rules\<close> returns, every rule of the content has
  one row, with the values of its last entry in the content and otherwise as it was, and every other
  rule's row is as it was: a rule that is gone from the content keeps its state.
\<close>

theorem rules_follow_content:
  assumes "load_all_rules ie content s = (Inr (), s')" "rule_dict content = Inr d"
    and "table_ok (\<lambda>_. True) (col_text ''rule_id'') (is_rules s)"
    and "\<forall>row \<in> set content. \<forall>k. row_text row ''rule_id'' = Inr k \<longrightarrow> rule_entry ie s k row"
  shows "table_ok (\<lambda>_. True) (col_text ''rule_id'') (is_rules s') \<and>
    synced (rule_content_to_model_fields ie s) d False (keyed (\<lambda>_. True) (col_text ''rule_id'') (is_rules s))
      (keyed (\<lambda>_. True) (col_text ''rule_id'') (is_rules s'))"
proof -
  obtain t where t: "update_model_from_config rule_class (\<lambda>_. True) (col_text ''rule_id'')
      (rule_content_to_model_fields ie s) False (Some d) (is_rules s) = (Inr (), t)" "s' = s\<lparr>is_rules := t\<rparr>"
    using assms(1,2) by (auto simp: load_all_rules_Inr)
  note e = rule_dict_entries [OF assms(2,4)]
  show ?thesis
    using rule_sync.after_update [OF t(1) assms(3) e] rule_sync.update_synced [OF t(1) assms(3) e] t(2) by simp
qed

text \<open>
  C39: importing the same rules again changes nothing, neither a row nor the sequence of keys.
\<close>

theorem rules_import_idempotent:
  assumes "load_all_rules ie content s = (Inr (), s')"
    and "table_ok (\<lambda>_. True) (col_text ''rule_id'') (is_rules s)"
    and "\<forall>row \<in> set content. \<forall>k. row_text row ''rule_id'' = Inr k \<longrightarrow> rule_entry ie s k row"
  shows "load_all_rules ie content s' = (Inr (), s')"
proof -
  obtain d t where t: "rule_dict content = Inr d"
      "update_model_from_config rule_class (\<lambda>_. True) (col_text ''rule_id'') (rule_content_to_model_fields ie s) False (Some d)
        (is_rules s) = (Inr (), t)" "s' = s\<lparr>is_rules := t\<rparr>"
    using assms(1) by (auto simp: load_all_rules_Inr)
  note e = rule_dict_entries [OF t(1) assms(3)]
  from rule_sync.update_idempotent [OF t(2) assms(2) e] t(1,3) show ?thesis
    unfolding load_all_rules_Inr by (simp add: rule_fields_cong)
qed

section \<open>Automatic acknowledgements\<close>

text \<open>The lookup of the rules is that of the table.\<close>

definition rule_map_ok :: "import_state \<Rightarrow> bool" where
  "rule_map_ok s \<longleftrightarrow> (\<forall>rule pk. map_of (ix_rule s) rule = Some pk \<longrightarrow> name_of is_rules ''rule_id'' s pk = rule)"

definition autoacked_rules :: "import_env \<Rightarrow> content_row list \<Rightarrow> string list py" where
  "autoacked_rules ie content = py_bind (py_mapM (autoack_rule ie) content) (\<lambda>rules. Inr (remdups (concat rules)))"

definition autoacks_for :: "import_env \<Rightarrow> import_state \<Rightarrow> (string \<times> string) list \<Rightarrow> (string \<times> drow) list py" where
  "autoacks_for ie s wanted = dict_of_py autoack_name (autoack_fields ie s) wanted []"

lemma load_all_autoacks_Inr:
  "load_all_autoacks ie content s = (Inr (), s') \<longleftrightarrow> (\<exists>rules d t. autoacked_rules ie content = Inr rules \<and>
     autoacks_for ie s (wanted_autoacks s rules) = Inr d \<and>
     update_model_from_config ack_class (is_autoack ie) (ack_key s) (\<lambda>row. Inr (Some row)) True (Some d) (is_acks s) = (Inr (), t) \<and>
     s' = s\<lparr>is_acks := t\<rparr>)"
  by (auto simp: load_all_autoacks_def autoacked_rules_def autoacks_for_def a_bind_Inr on_table_Inr py_bind_eq_Inr)

lemma dict_of_py_keeps: "dict_of_py f g rs d = Inr d' \<Longrightarrow> \<forall>r \<in> set rs. f r \<noteq> Inr k \<Longrightarrow> map_of d' k = map_of d k"
proof (induction rs arbitrary: d)
  case (Cons r rs)
  then obtain k' v where "f r = Inr k'" "dict_of_py f g rs (dict_set k' v d) = Inr d'" "k' \<noteq> k"
    by (auto simp: py_bind_eq_Inr)
  with Cons.IH [of "dict_set k' v d"] Cons.prems(2) show ?case by simp
qed simp

text \<open>Distinct keys: every pair has its entry.\<close>

lemma dict_of_py_entry:
  assumes "dict_of_py f g rs d = Inr d'" "r \<in> set rs" "\<forall>r' \<in> set rs. f r' = f r \<longrightarrow> r' = r"
  shows "\<exists>k v. f r = Inr k \<and> g r = Inr v \<and> map_of d' k = Some v"
  using assms
proof (induction rs arbitrary: d)
  case (Cons x rs)
  obtain k v where kv: "f x = Inr k" "g x = Inr v" "dict_of_py f g rs (dict_set k v d) = Inr d'"
    using Cons.prems(1) by (auto simp: py_bind_eq_Inr)
  show ?case
  proof (cases "r \<in> set rs")
    case True
    from Cons.IH [OF kv(3) True] Cons.prems(3) show ?thesis by simp
  next
    case False
    with Cons.prems(2) have "x = r" by simp
    moreover have "\<forall>r' \<in> set rs. f r' \<noteq> Inr k" using False Cons.prems(3) kv(1) \<open>x = r\<close> by (metis list.set_intros(2))
    ultimately show ?thesis using dict_of_py_keeps [OF kv(3)] kv by simp
  qed
qed simp

lemma autoack_fields_Inr:
  "autoack_fields ie s (rule, org) = Inr fs \<longleftrightarrow> (\<exists>pk. map_of (ix_rule s) rule = Some pk \<and>
     fs = [(''rule_id'', pk), (''org_id'', JStr org), (''created_by'', JStr (ie_created_by ie)),
           (''justification'', JStr (ie_justification ie))])"
  by (auto simp: autoack_fields_def py_bind_eq_Inr look_up_def split: option.splits)

lemma name_of_acks [simp]: "name_of is_rules f (s\<lparr>is_acks := t\<rparr>) = name_of is_rules f s"
  by (rule ext) (simp add: name_of_def)

lemma new_ack:
  "autoack_fields ie s (rule, org) = Inr fs \<Longrightarrow> rule_map_ok s \<Longrightarrow>
     is_autoack ie (new_row ack_class pk fs) \<and>
     name_of is_rules ''rule_id'' s (row_get (new_row ack_class pk fs) ''rule_id'') = rule \<and>
     col_text ''org_id'' (new_row ack_class pk fs) = org"
  by (auto simp: autoack_fields_Inr new_row_def ack_class_def row_get_def is_autoack_def col_text_def rule_map_ok_def)

lemma plan_all_plain: "plan_all cls (\<lambda>row. Inr (Some row)) cfg = Inr news \<Longrightarrow> \<forall>(k, fs) \<in> set cfg. fs \<noteq> [] \<Longrightarrow> news = map snd cfg"
  by (induction cfg arbitrary: news) (auto simp: py_bind_eq_Inr construct_def split: if_splits)

lemma number_rows_each: "fs \<in> set css \<Longrightarrow> \<exists>i. new_row cls i fs \<in> set (number_rows cls pk css)"
  by (induction css arbitrary: pk) auto

lemma autoacks_for_entries:
  assumes "autoacks_for ie s wanted = Inr d"
  shows "\<forall>(k, fs) \<in> set d. \<exists>ro \<in> set wanted. autoack_fields ie s ro = Inr fs"
  using dict_of_py_result [OF assms [unfolded autoacks_for_def]] by fastforce

lemma autoacks_for_has:
  assumes "autoacks_for ie s wanted = Inr d" "(rule, org) \<in> set wanted"
    and "inj_on (\<lambda>(r, g). r @ g) (set wanted)"
  shows "\<exists>k fs. (k, fs) \<in> set d \<and> autoack_fields ie s (rule, org) = Inr fs"
proof -
  have "\<forall>r' \<in> set wanted. autoack_name r' = autoack_name (rule, org) \<longrightarrow> r' = (rule, org)"
    using assms(2,3) by (force simp: inj_on_def autoack_name_def)
  then obtain k fs where "autoack_fields ie s (rule, org) = Inr fs" "map_of d k = Some fs"
    using dict_of_py_entry [OF assms(1) [unfolded autoacks_for_def] assms(2)] by auto
  then show ?thesis by (auto dest: map_of_SomeD)
qed

lemma autoack_fields_nonempty: "autoack_fields ie s ro = Inr fs \<Longrightarrow> fs \<noteq> []"
  by (cases ro) (auto simp: autoack_fields_Inr)

text \<open>The first import, where nothing was acknowledged automatically yet.\<close>

lemma first_autoacks:
  assumes run: "load_all_autoacks ie content s = (Inr (), s1)" and rules: "autoacked_rules ie content = Inr rules"
    and none: "filter (is_autoack ie) (tb_rows (is_acks s)) = []" and ok: "rule_map_ok s"
    and inj: "inj_on (\<lambda>(r, g). r @ g) (set (wanted_autoacks s rules))"
  obtains new where "tb_rows (is_acks s1) = tb_rows (is_acks s) @ new" "\<forall>a \<in> set new. is_autoack ie a"
    "s1 = s\<lparr>is_acks := is_acks s1\<rparr>"
    "\<forall>(rule, org) \<in> set (wanted_autoacks s rules). \<exists>a \<in> set new.
       name_of is_rules ''rule_id'' s (row_get a ''rule_id'') = rule \<and> col_text ''org_id'' a = org"
proof -
  obtain d t where t: "autoacks_for ie s (wanted_autoacks s rules) = Inr d"
      "update_model_from_config ack_class (is_autoack ie) (ack_key s) (\<lambda>row. Inr (Some row)) True (Some d) (is_acks s) = (Inr (), t)"
      "s1 = s\<lparr>is_acks := t\<rparr>"
    using run rules by (auto simp: load_all_autoacks_Inr)
  note es = autoacks_for_entries [OF t(1)]
  have "a_bind (a_lift (plan_all ack_class (\<lambda>row. Inr (Some row)) d)) (bulk_create ack_class) (is_acks s) = (Inr (), t)"
    using t(2) none by (simp add: update_model_from_config_def a_bind_app)
  then obtain news where "plan_all ack_class (\<lambda>row. Inr (Some row)) d = Inr news" "bulk_create ack_class news (is_acks s) = (Inr (), t)"
    by (auto simp: a_bind_Inr)
  moreover have "\<forall>(k, fs) \<in> set d. fs \<noteq> []" using es autoack_fields_nonempty by blast
  ultimately have news: "news = map snd d" and b: "bulk_create ack_class news (is_acks s) = (Inr (), t)"
    using plan_all_plain by blast+
  have r: "tb_rows t = tb_rows (is_acks s) @ number_rows ack_class (tb_next (is_acks s)) (map snd d)"
    using bulk_create_result [OF b] by (simp add: news)
  let ?new = "number_rows ack_class (tb_next (is_acks s)) (map snd d)"
  have auto: "is_autoack ie a" if "a \<in> set ?new" for a
  proof -
    have "\<exists>i fs. a = new_row ack_class i fs \<and> fs \<in> set (map snd d)" using number_rows_mem [OF that] by blast
    then obtain i fs where a: "a = new_row ack_class i fs" "fs \<in> set (map snd d)" by blast
    then obtain rule org where "autoack_fields ie s (rule, org) = Inr fs" using es by fastforce
    from new_ack [OF this ok] a(1) show ?thesis by simp
  qed
  have all: "\<exists>a \<in> set ?new. name_of is_rules ''rule_id'' s (row_get a ''rule_id'') = rule \<and> col_text ''org_id'' a = org"
    if w: "(rule, org) \<in> set (wanted_autoacks s rules)" for rule org
  proof -
    obtain k fs where fs: "(k, fs) \<in> set d" "autoack_fields ie s (rule, org) = Inr fs"
      using autoacks_for_has [OF t(1) w inj] by blast
    then have "fs \<in> set (map snd d)" by force
    from number_rows_each [OF this] obtain i where "new_row ack_class i fs \<in> set ?new" by blast
    with new_ack [OF fs(2) ok] show ?thesis by blast
  qed
  show ?thesis by (rule that [of ?new]) (use r t(3) auto all in auto)
qed

text \<open>
  The next import deletes the automatic acknowledgements of the last one.  Starting without any,
  the first import acknowledges the marked rules for every organisation that has not acknowledged
  them; the second, of the same content, finds them acknowledged, wants none and deletes those it
  finds: the acknowledgements are as before the first.
\<close>

theorem second_import_deletes_autoacks:
  assumes "load_all_autoacks ie content s = (Inr (), s1)" "load_all_autoacks ie content s1 = (Inr (), s2)"
    and "autoacked_rules ie content = Inr rules"
    and "filter (is_autoack ie) (tb_rows (is_acks s)) = []" "rule_map_ok s"
    and "inj_on (\<lambda>(r, g). r @ g) (set (wanted_autoacks s rules))"
  shows "(\<forall>(rule, org) \<in> set (wanted_autoacks s rules). org_has_rule_acked s1 rule org) \<and>
    tb_rows (is_acks s2) = tb_rows (is_acks s)"
proof -
  obtain new where n: "tb_rows (is_acks s1) = tb_rows (is_acks s) @ new" "\<forall>a \<in> set new. is_autoack ie a"
    "s1 = s\<lparr>is_acks := is_acks s1\<rparr>"
    "\<forall>(rule, org) \<in> set (wanted_autoacks s rules). \<exists>a \<in> set new.
       name_of is_rules ''rule_id'' s (row_get a ''rule_id'') = rule \<and> col_text ''org_id'' a = org"
    by (rule first_autoacks [OF assms(1,3-6)])
  have names: "name_of is_rules ''rule_id'' s1 = name_of is_rules ''rule_id'' s" by (subst n(3)) simp
  have orgs: "is_host_orgs s1 = is_host_orgs s" by (subst n(3)) simp
  have acked: "org_has_rule_acked s1 rule org" if "(rule, org) \<in> set (wanted_autoacks s rules)" for rule org
    using n(4) that by (fastforce simp: org_has_rule_acked_def list_ex_iff names n(1))
  have "org_has_rule_acked s rule org \<Longrightarrow> org_has_rule_acked s1 rule org" for rule org
    by (auto simp: org_has_rule_acked_def list_ex_iff names n(1))
  with acked have "wanted_autoacks s1 rules = []"
    by (fastforce simp: wanted_autoacks_def filter_empty_conv orgs)
  then obtain t where t: "update_model_from_config ack_class (is_autoack ie) (ack_key s1) (\<lambda>row. Inr (Some row)) True (Some [])
      (is_acks s1) = (Inr (), t)" "s2 = s1\<lparr>is_acks := t\<rparr>"
    using assms(2,3) by (auto simp: load_all_autoacks_Inr autoacks_for_def)
  have none: "filter (\<lambda>a. \<not> is_autoack ie a) (tb_rows (is_acks s)) = tb_rows (is_acks s)"
    using assms(4) by (simp add: filter_empty_conv filter_id_conv)
  have "tb_rows t = filter (\<lambda>a. \<not> is_autoack ie a) (tb_rows (is_acks s1))"
    using t(1) by (auto simp: update_model_from_config_def a_bind_app a_then_app bulk_create_def surplus_rows_def
        filter_empty_conv filter_id_conv split: if_splits)
  also have "\<dots> = tb_rows (is_acks s)" using n(2) none by (simp add: n(1) filter_empty_conv)
  finally have "tb_rows (is_acks s2) = tb_rows (is_acks s)" using t(2) by simp
  with acked show ?thesis by blast
qed

section \<open>Examples\<close>

definition ex_table :: "drow list \<Rightarrow> dtable" where
  "ex_table rows = \<lparr>tb_rows = map (\<lambda>(i, r). (''id'', JInt (int i)) # r) (enumerate 1 rows), tb_next = 1 + int (length rows)\<rparr>"

definition ex_import :: import_state where
  "ex_import = \<lparr>is_impacts = ex_table [], is_risks = ex_table [], is_tags = ex_table [], is_categories = ex_table [],
     is_pathways = ex_table [], is_rulesets = ex_table [], is_system_types = ex_table [],
     is_rules = \<lparr>tb_rows = [new_row rule_class 1 [(''rule_id'', JStr ''p|OLD''), (''active'', JBool True), (''ruleset'', JInt 1),
       (''category_id'', JInt 1)]], tb_next = 2\<rparr>,
     is_rule_tags = ex_table [], is_resolutions = ex_table [], is_acks = ex_table [], is_playbooks = ex_table [],
     is_host_orgs = [''o1''], ix_risk = [(''Reboot'', JInt 4)], ix_category = [(''Stability'', JInt 1)],
     ix_impact = [(''Crash'', JInt 2)], ix_pathway = [], ix_tag = [(''autoack'', JInt 1)],
     ix_ruleset = [(''telemetry'', JInt 1)], ix_system_type = [], ix_rule = [(''p|OLD'', JInt 1)]\<rparr>"

definition ex_content_row :: "string \<Rightarrow> content_row" where
  "ex_content_row rule = [(''rule_id'', JStr rule), (''description'', JStr ''d''), (''reboot_required'', JBool False),
     (''likelihood'', JInt 3), (''node_id'', JNull), (''generic'', JStr ''g''), (''reason'', JStr ''r''),
     (''more_info'', JStr ''''), (''python_module'', JStr ''telemetry.rules''), (''status'', JStr ''active''),
     (''resolution_risk'', JStr ''Reboot''), (''publish_date'', JNull), (''category'', JStr ''Stability''),
     (''impact'', JStr ''Crash''), (''tags'', JList [JStr ''autoack''])]"

definition ex_import_env :: import_env where
  "ex_import_env = \<lparr>ie_int = (\<lambda>v. case v of JInt i \<Rightarrow> Inr i | _ \<Rightarrow> Inl ValueError), ie_date = (\<lambda>v. Inr v),
     ie_autoack = ''autoack'', ie_created_by = ''Red Hat'', ie_justification = ''j'', ie_status = (\<lambda>_. 404),
     ie_config_at = (\<lambda>_. Inl ValueError), ie_rules_at = (\<lambda>_ _. Inr None), ie_playbooks_at = (\<lambda>_ _. Inr None),
     ie_exists = (\<lambda>_. False), ie_generate = (\<lambda>_. Inr []), ie_generate_playbooks = (\<lambda>_. Inr None)\<rparr>"

abbreviation ex_content :: "content_row list" where
  "ex_content \<equiv> [ex_content_row ''p|NEW'']"

abbreviation ex_rules_run :: "unit py \<times> import_state" where
  "ex_rules_run \<equiv> load_all_rules ex_import_env ex_content ex_import"

lemma ex_rules_ok: "ex_rules_run = (Inr (), snd ex_rules_run)"
  by (rule prod_eqI) (code_simp, simp)

lemma ex_table_ok: "table_ok (\<lambda>_. True) (col_text ''rule_id'') (is_rules ex_import)"
  by (simp add: table_ok_def ex_import_def)

lemma ex_entry: "\<forall>row \<in> set ex_content. \<forall>k. row_text row ''rule_id'' = Inr k \<longrightarrow> rule_entry ex_import_env ex_import k row"
proof -
  have "rule_content_to_model_fields ex_import_env ex_import (ex_content_row ''p|NEW'') =
    Inr (Some [(''rule_id'', JStr ''p|NEW''), (''description'', JStr ''d''), (''reboot_required'', JBool False),
      (''likelihood'', JInt 3), (''node_id'', JStr ''''), (''generic'', JStr ''g''), (''reason'', JStr ''r''), (''more_info'', JStr ''''),
      (''ruleset'', JInt 1), (''active'', JBool True), (''total_risk'', JInt 3), (''summary'', JStr ''g''), (''category_id'', JInt 1),
      (''impact_id'', JInt 2), (''pathway_id'', JNull)])"
    by code_simp
  then show ?thesis by (simp add: rule_entry_def)
qed

text \<open>A rule is added; the one that is no longer in the content stays, and stays active.\<close>

theorem rules_follow_content_witness:
  "map_option (\<lambda>r. row_get r ''active'') (keyed (\<lambda>_. True) (col_text ''rule_id'') (is_rules (snd ex_rules_run)) ''p|OLD'') = Some (JBool True)"
proof -
  have "rule_dict ex_content = Inr [(''p|NEW'', ex_content_row ''p|NEW'')]" by code_simp
  from rules_follow_content [OF ex_rules_ok this ex_table_ok ex_entry]
  have "keyed (\<lambda>_. True) (col_text ''rule_id'') (is_rules (snd ex_rules_run)) ''p|OLD'' =
      keyed (\<lambda>_. True) (col_text ''rule_id'') (is_rules ex_import) ''p|OLD''"
    unfolding synced_def by (auto dest: spec [of _ "''p|OLD''"])
  then show ?thesis by (simp add: keyed_def ex_import_def col_text_def row_get_def new_row_def rule_class_def)
qed

theorem rules_import_idempotent_witness:
  "load_all_rules ex_import_env ex_content (snd ex_rules_run) = (Inr (), snd ex_rules_run)"
  by (rule rules_import_idempotent [OF ex_rules_ok ex_table_ok ex_entry])

abbreviation ex_acks_run :: "unit py \<times> import_state" where
  "ex_acks_run \<equiv> load_all_autoacks ex_import_env [ex_content_row ''p|OLD''] ex_import"

abbreviation ex_acks_rerun :: "unit py \<times> import_state" where
  "ex_acks_rerun \<equiv> load_all_autoacks ex_import_env [ex_content_row ''p|OLD''] (snd ex_acks_run)"

text \<open>One acknowledgement after the first import, none after the second.\<close>

theorem second_import_deletes_autoacks_witness:
  "org_has_rule_acked (snd ex_acks_run) ''p|OLD'' ''o1'' \<and> tb_rows (is_acks (snd ex_acks_rerun)) = []"
proof -
  have 1: "ex_acks_run = (Inr (), snd ex_acks_run)" by (rule prod_eqI) (code_simp, simp)
  have 2: "ex_acks_rerun = (Inr (), snd ex_acks_rerun)" by (rule prod_eqI) (code_simp, simp)
  have 3: "autoacked_rules ex_import_env [ex_content_row ''p|OLD''] = Inr [''p|OLD'']" by code_simp
  have w: "wanted_autoacks ex_import [''p|OLD''] = [(''p|OLD'', ''o1'')]" by code_simp
  have 4: "filter (is_autoack ex_import_env) (tb_rows (is_acks ex_import)) = []" by code_simp
  have 5: "rule_map_ok ex_import"
    by (simp add: rule_map_ok_def name_of_def ex_import_def row_id_def col_text_def row_get_def new_row_def rule_class_def)
  have 6: "inj_on (\<lambda>(r, g). r @ g) (set (wanted_autoacks ex_import [''p|OLD'']))" by (simp add: w)
  have "tb_rows (is_acks ex_import) = []" by code_simp
  with second_import_deletes_autoacks [OF 1 2 3 4 5 6] show ?thesis by (simp add: w)
qed

end
