(* ===== verification/Query_Params.thy ===== *)
theory Query_Params
  imports Py_Values
begin

text \<open>
  The parameters of a request (\<open>api/filters.py\<close>): a declaration as \<open>OpenApiParameter\<close> has
  it, the conversion and validation of a value, and the value of a parameter in a query.  The
  query is the list of its names with their values.  Dates, times and UUIDs are held in the form
  the library prints them in; a value is a string unless it is a declared default.
\<close>

section \<open>Declarations\<close>

datatype ptype =
    OT_BOOL | OT_INT | OT_INT32 | OT_INT64 | OT_NUMBER | OT_DOUBLE | OT_FLOAT | OT_REGEX
  | OT_DATE | OT_DATETIME | OT_UUID | OT_STR | OT_other

datatype plocation = In_path | In_query | In_header | In_cookie

text \<open>A converted value; \<open>AOther\<close> is one that is no string and whose type asks for no conversion.\<close>

datatype atom =
    AStr string
  | AInt int
  | AFloat rat
  | ABool bool
  | ADate string
  | ATime string
  | AUuid string
  | AOther json

record param =
  pa_name :: string
  pa_location :: plocation
  pa_many :: bool
  pa_style :: "string option"
  pa_type :: ptype
  pa_pattern :: "string \<Rightarrow> bool"   \<comment> \<open>what \<open>re.match\<close> finds\<close>
  pa_enum :: "atom list"
  pa_required :: bool
  pa_default :: "json option"

type_synonym query_params = "(string \<times> string list) list"

text \<open>
  The conversions of the libraries: \<open>float\<close>, \<open>parse_date\<close> with the time zone added,
  \<open>parse_datetime\<close> (which returns \<open>None\<close> for another format and raises \<open>ValueError\<close>
  for an impossible date), \<open>is_naive\<close>, \<open>make_aware\<close>, \<open>UUID\<close> and the text of a list.
\<close>

record query_env =
  qe_float :: "string \<Rightarrow> rat option"
  qe_date :: "string \<Rightarrow> string option"
  qe_datetime :: "string \<Rightarrow> string option py"
  qe_naive :: "string \<Rightarrow> bool"
  qe_aware :: "string \<Rightarrow> string"
  qe_uuid :: "string \<Rightarrow> string option"
  qe_render :: "json \<Rightarrow> string"

section \<open>Numbers in text\<close>

definition digit_value :: "char \<Rightarrow> int" where
  "digit_value c = int (of_char c - 48)"

text \<open>\<open>str.isdigit\<close>: false for the empty string.\<close>

definition str_isdigit :: "string \<Rightarrow> bool" where
  "str_isdigit s \<longleftrightarrow> s \<noteq> [] \<and> list_all is_digit s"

fun digits_value :: "int \<Rightarrow> string \<Rightarrow> int" where
  "digits_value n [] = n"
| "digits_value n (c # s) = digits_value (10 * n + digit_value c) s"

text \<open>
  \<open>int(s)\<close>: white space around, a sign, and digits between which single underscores may stand;
  \<open>None\<close> where it raises \<open>ValueError\<close>, which it also does for more than 4300 digits.
\<close>

definition digit_groups :: "string \<Rightarrow> int option" where
  "digit_groups s =
     (let groups = split_on (CHR ''_'') s in
      if list_all str_isdigit groups \<and> length (concat groups) \<le> 4300
      then Some (digits_value 0 (concat groups)) else None)"

definition str_strip :: "string \<Rightarrow> string" where
  "str_strip s = rev (dropWhile is_space (rev (dropWhile is_space s)))"

definition py_int :: "string \<Rightarrow> int option" where
  "py_int s = (case str_strip s of
     [] \<Rightarrow> None
   | c # r \<Rightarrow>
       if c = CHR ''-'' then map_option uminus (digit_groups r)
       else if c = CHR ''+'' then digit_groups r
       else digit_groups (c # r))"

section \<open>Validation\<close>

definition or_invalid :: "'a option \<Rightarrow> 'a py" where
  "or_invalid x = (case x of None \<Rightarrow> Inl ValidationError | Some y \<Rightarrow> Inr y)"

text \<open>\<open>int(value)\<close> of a value that may be a default.\<close>

fun to_int :: "json \<Rightarrow> atom py" where
  "to_int (JStr s) = map_sum id AInt (or_invalid (py_int s))"
| "to_int (JInt i) = Inr (AInt i)"
| "to_int (JBool b) = Inr (AInt (if b then 1 else 0))"
| "to_int (JFloat r) = Inr (AInt (if r < 0 then - \<lfloor>- r\<rfloor> else \<lfloor>r\<rfloor>))"
| "to_int _ = Inl TypeError"

fun to_float :: "query_env \<Rightarrow> json \<Rightarrow> atom py" where
  "to_float qe (JStr s) = map_sum id AFloat (or_invalid (qe_float qe s))"
| "to_float qe (JInt i) = Inr (AFloat (of_int i))"
| "to_float qe (JBool b) = Inr (AFloat (if b then 1 else 0))"
| "to_float qe (JFloat r) = Inr (AFloat r)"
| "to_float qe _ = Inl TypeError"

text \<open>A value no conversion applies to.\<close>

fun plain_atom :: "json \<Rightarrow> atom" where
  "plain_atom (JStr s) = AStr s"
| "plain_atom (JInt i) = AInt i"
| "plain_atom (JBool b) = ABool b"
| "plain_atom (JFloat r) = AFloat r"
| "plain_atom v = AOther v"

definition to_datetime :: "query_env \<Rightarrow> string \<Rightarrow> atom py" where
  "to_datetime qe s =
     py_bind (qe_datetime qe s) (\<lambda>t. case t of
        None \<Rightarrow> Inl ValidationError
      | Some x \<Rightarrow> Inr (ATime (if qe_naive qe x then qe_aware qe x else x)))"

text \<open>The conversion a type asks for; the Boolean says whether the enumeration is looked at.\<close>

definition convert :: "query_env \<Rightarrow> param \<Rightarrow> json \<Rightarrow> (atom \<times> bool) py" where
  "convert qe p v =
     (case pa_type p of
        OT_BOOL \<Rightarrow>
          Inr (ABool (str_lower (py_str (qe_render qe) v) \<in> set [''true'', ''1'', ''yes'']), False)
      | OT_INT \<Rightarrow> py_bind (to_int v) (\<lambda>a. Inr (a, True))
      | OT_INT32 \<Rightarrow> py_bind (to_int v) (\<lambda>a. Inr (a, True))
      | OT_INT64 \<Rightarrow> py_bind (to_int v) (\<lambda>a. Inr (a, True))
      | OT_NUMBER \<Rightarrow> py_bind (to_float qe v) (\<lambda>a. Inr (a, True))
      | OT_DOUBLE \<Rightarrow> py_bind (to_float qe v) (\<lambda>a. Inr (a, True))
      | OT_FLOAT \<Rightarrow> py_bind (to_float qe v) (\<lambda>a. Inr (a, True))
      | OT_REGEX \<Rightarrow>
          (case v of
             JStr s \<Rightarrow> if pa_pattern p s then Inr (AStr s, True) else Inl ValidationError
           | _ \<Rightarrow> Inl TypeError)
      | OT_DATE \<Rightarrow>
          (case v of
             JStr s \<Rightarrow> py_bind (or_invalid (qe_date qe s)) (\<lambda>d. Inr (ADate d, True))
           | _ \<Rightarrow> Inl TypeError)
      | OT_DATETIME \<Rightarrow>
          (case v of JStr s \<Rightarrow> py_bind (to_datetime qe s) (\<lambda>a. Inr (a, True)) | _ \<Rightarrow> Inl TypeError)
      | OT_UUID \<Rightarrow>
          (case v of
             JStr s \<Rightarrow> py_bind (or_invalid (qe_uuid qe s)) (\<lambda>u. Inr (AUuid u, True))
           | JNull \<Rightarrow> Inl TypeError
           | _ \<Rightarrow> Inl AttributeError)
      | OT_STR \<Rightarrow> Inr (plain_atom v, True)
      | OT_other \<Rightarrow> Inr (plain_atom v, True))"

text \<open>\<open>value in enum\<close>: integers, floats and truth values compare by their number.\<close>

fun atom_num :: "atom \<Rightarrow> rat option" where
  "atom_num (AInt i) = Some (of_int i)"
| "atom_num (AFloat r) = Some r"
| "atom_num (ABool b) = Some (if b then 1 else 0)"
| "atom_num _ = None"

definition atom_eq :: "atom \<Rightarrow> atom \<Rightarrow> bool" where
  "atom_eq a b \<longleftrightarrow> a = b \<or> atom_num a \<noteq> None \<and> atom_num a = atom_num b"

definition in_enum :: "atom \<Rightarrow> atom list \<Rightarrow> bool" where
  "in_enum a enum \<longleftrightarrow> (\<exists>b \<in> set enum. atom_eq a b)"

definition validate_single :: "query_env \<Rightarrow> param \<Rightarrow> json \<Rightarrow> atom py" where
  "validate_single qe p v =
     (if pa_style p \<noteq> None \<and> pa_style p \<noteq> Some [] then Inl ValidationError
      else py_bind (convert qe p v) (\<lambda>(a, check).
        if check \<and> pa_enum p \<noteq> [] \<and> \<not> in_enum a (pa_enum p) then Inl ValidationError else Inr a))"

text \<open>How an array is split, by location and style.\<close>

definition splitter_for :: "plocation \<Rightarrow> (string \<times> char) list option" where
  "splitter_for l =
     (case l of
        In_path \<Rightarrow> Some [(''simple'', CHR '',''), (''label'', CHR ''.''), (''matrix'', CHR '';'')]
      | In_query \<Rightarrow> Some [(''form'', CHR '',''), (''spaceDelimited'', CHR '' ''), (''pipeDelimited'', CHR ''|'')]
      | _ \<Rightarrow> None)"

fun split_value :: "char \<Rightarrow> json \<Rightarrow> json py" where
  "split_value c (JStr s) = Inr (JList (map JStr (split_on c s)))"
| "split_value c _ = Inl AttributeError"

fun split_values :: "char \<Rightarrow> json \<Rightarrow> json list py" where
  "split_values c (JStr s) = Inr (map JStr (split_on c s))"
| "split_values c (JList vs) = py_bind (py_mapM (split_value c) vs) (\<lambda>ls. Inr (concat (map as_list ls)))"
| "split_values c v = Inr [v]"

definition basic_param :: "param \<Rightarrow> param" where
  "basic_param p = p\<lparr>pa_many := False, pa_style := None\<rparr>"

definition validate_many :: "query_env \<Rightarrow> param \<Rightarrow> json \<Rightarrow> atom list py" where
  "validate_many qe p v =
     (case pa_style p of
        None \<Rightarrow> Inl ValidationError
      | Some st \<Rightarrow>
          (case splitter_for (pa_location p) of
             None \<Rightarrow> Inl ValidationError
           | Some m \<Rightarrow>
               (case map_of m st of
                  None \<Rightarrow> Inl ValidationError
                | Some c \<Rightarrow> py_bind (split_values c v) (py_mapM (validate_single qe (basic_param p))))))"

section \<open>The value of a parameter\<close>

datatype pvalue = PNone | POne atom | PMany "atom list"

definition validate_param_part :: "query_env \<Rightarrow> param \<Rightarrow> json \<Rightarrow> pvalue py" where
  "validate_param_part qe p v =
     (if pa_many p then map_sum id PMany (validate_many qe p v) else map_sum id POne (validate_single qe p v))"

definition value_of_param :: "query_env \<Rightarrow> param \<Rightarrow> query_params \<Rightarrow> pvalue py" where
  "value_of_param qe p query =
     (case map_of query (pa_name p) of
        None \<Rightarrow>
          if pa_required p then Inl ValidationError
          else (case pa_default p of None \<Rightarrow> Inr PNone | Some d \<Rightarrow> validate_param_part qe p d)
      | Some vs \<Rightarrow>
          if length vs > 1 \<and> \<not> pa_many p then Inl ValidationError
          else if \<not> pa_many p then
            (case vs of [] \<Rightarrow> Inl IndexError | v # _ \<Rightarrow> validate_param_part qe p (JStr v))
          else py_bind (py_mapM (\<lambda>v. validate_many qe p (JStr v)) vs) (\<lambda>ls. Inr (PMany (concat ls))))"

end
