(* ===== verification/Query_Filters.thy ===== *)
theory Query_Filters
  imports Query_Params Identity_Auth
begin

text \<open>
  The filters of the API (\<open>api/filters.py\<close>, the filters of \<open>api/views/rules.py\<close> and the
  host groups and certificates of \<open>api/models.py\<close>): each reads its parameter and returns a
  \<open>Q\<close> object.  A \<open>Q\<close> is a term of \<open>q\<close>: a lookup with its value, possibly negated, the
  two subqueries of the filters, and conjunctions and disjunctions, in which Django drops an empty
  \<open>Q\<close>.  What a lookup means on a row is an argument of \<open>q_holds\<close>.
\<close>

section \<open>Expressions\<close>

datatype qval =
    QAtom atom
  | QAtoms "atom list"
  | QKey string atom                          \<comment> \<open>\<open>{key: value}\<close>\<close>
  | QTag string string "string option"        \<comment> \<open>\<open>[{namespace, key, value}]\<close>\<close>

datatype q =
    QAll
  | QTerm bool string qval                    \<comment> \<open>negated, the lookup, its value\<close>
  | QTagged string "qval list" json           \<comment> \<open>the field is among the hosts with these tags, of the organisation\<close>
  | QDisabled bool json                       \<comment> \<open>negated: a host or rule acknowledgement of the organisation\<close>
  | QResolution string qval                   \<comment> \<open>the rule has a resolution the lookup selects\<close>
  | QAnd q q
  | QOr q q

definition q_and :: "q \<Rightarrow> q \<Rightarrow> q" where
  "q_and a b = (if a = QAll then b else if b = QAll then a else QAnd a b)"

definition q_or :: "q \<Rightarrow> q \<Rightarrow> q" where
  "q_or a b = (if a = QAll then b else if b = QAll then a else QOr a b)"

definition q_is :: "string \<Rightarrow> atom \<Rightarrow> q" where
  "q_is field a = QTerm False field (QAtom a)"

text \<open>
  What a row must satisfy: \<open>lk_term\<close> is the lookup (or its negation) on a row, \<open>lk_tags\<close> the
  hosts that have the tags, \<open>lk_field\<close> the comparison of a field with the key of a host.
\<close>

record 'row lookups =
  lk_term :: "bool \<Rightarrow> string \<Rightarrow> qval \<Rightarrow> 'row \<Rightarrow> bool"
  lk_tagged :: "string \<Rightarrow> qval list \<Rightarrow> json \<Rightarrow> 'row \<Rightarrow> bool"
  lk_disabled :: "json \<Rightarrow> 'row \<Rightarrow> bool"
  lk_resolution :: "string \<Rightarrow> qval \<Rightarrow> 'row \<Rightarrow> bool"

fun q_holds :: "'row lookups \<Rightarrow> 'row \<Rightarrow> q \<Rightarrow> bool" where
  "q_holds lk r QAll = True"
| "q_holds lk r (QTerm neg f v) = lk_term lk neg f v r"
| "q_holds lk r (QTagged f ts org) = lk_tagged lk f ts org r"
| "q_holds lk r (QDisabled neg org) = (lk_disabled lk org r \<noteq> neg)"
| "q_holds lk r (QResolution f v) = lk_resolution lk f v r"
| "q_holds lk r (QAnd a b) = (q_holds lk r a \<and> q_holds lk r b)"
| "q_holds lk r (QOr a b) = (q_holds lk r a \<or> q_holds lk r b)"

text \<open>\<open>prefix = relation + '__'\<close> when there is a relation.\<close>

definition with_relation :: "string \<Rightarrow> string \<Rightarrow> string" where
  "with_relation relation field = (if relation = [] then field else relation @ ''__'' @ field)"

section \<open>The parameters\<close>

definition is_word :: "char \<Rightarrow> bool" where
  "is_word c =
     (let n = of_char c :: nat in is_digit c \<or> 65 \<le> n \<and> n \<le> 90 \<or> 97 \<le> n \<and> n \<le> 122 \<or> c = CHR ''_'')"

definition newline :: char where
  "newline = CHR 0x0A"

text \<open>\<open>$\<close> matches at the end and before a final newline.\<close>

definition without_newline :: "string \<Rightarrow> string" where
  "without_newline s = (if s \<noteq> [] \<and> last s = newline then butlast s else s)"

definition split_once :: "char \<Rightarrow> string \<Rightarrow> (string \<times> string) option" where
  "split_once c s =
     (case dropWhile (\<lambda>x. x \<noteq> c) s of [] \<Rightarrow> None | _ # r \<Rightarrow> Some (takeWhile (\<lambda>x. x \<noteq> c) s, r))"

text \<open>\<open>^[^/]+/[^=]+(=.*)?$\<close>\<close>

definition tag_pattern :: "string \<Rightarrow> bool" where
  "tag_pattern s =
     (case split_once (CHR ''/'') s of
        None \<Rightarrow> False
      | Some (namespace, r) \<Rightarrow>
          namespace \<noteq> [] \<and>
          (case split_once (CHR ''='') r of
             None \<Rightarrow> r \<noteq> []
           | Some (key, v) \<Rightarrow> key \<noteq> [] \<and> newline \<notin> set (without_newline v)))"

text \<open>\<open>^\d+\.\d+$\<close>\<close>

definition version_pattern :: "string \<Rightarrow> bool" where
  "version_pattern s =
     (case split_on (CHR ''.'') (without_newline s) of
        [a, b] \<Rightarrow> str_isdigit a \<and> str_isdigit b | _ \<Rightarrow> False)"

text \<open>\<open>[\w-]+\<close> and \<open>\w+(,\w+)*\<close> match a prefix only.\<close>

definition topic_pattern :: "string \<Rightarrow> bool" where
  "topic_pattern s \<longleftrightarrow> s \<noteq> [] \<and> (is_word (hd s) \<or> hd s = CHR ''-'')"

definition rule_id_pattern :: "string \<Rightarrow> bool" where
  "rule_id_pattern s \<longleftrightarrow> s \<noteq> [] \<and> is_word (hd s)"

text \<open>What the declarations share: an optional query parameter with one value.\<close>

definition query_param :: "string \<Rightarrow> ptype \<Rightarrow> param" where
  "query_param name t =
     \<lparr>pa_name = name, pa_location = In_query, pa_many = False, pa_style = None, pa_type = t,
      pa_pattern = (\<lambda>_. True), pa_enum = [], pa_required = False, pa_default = None\<rparr>"

definition many_param :: "string \<Rightarrow> ptype \<Rightarrow> param" where
  "many_param name t = (query_param name t)\<lparr>pa_many := True, pa_style := Some ''form''\<rparr>"

definition branch_id_param :: param where
  "branch_id_param = query_param ''branch_id'' OT_UUID"

definition category_query_param :: param where
  "category_query_param = (many_param ''category'' OT_INT)\<lparr>pa_enum := [AInt 1, AInt 2, AInt 3, AInt 4]\<rparr>"

definition display_name_query_param :: param where
  "display_name_query_param = query_param ''display_name'' OT_STR"

definition workload_names :: "string list" where
  "workload_names = [''sap'', ''ansible'', ''mssql'', ''crowdstrike'', ''ibm_db2'', ''intersystems'',
     ''oracle_db'', ''rhel_ai'', ''satellite'']"

definition workload_query_param :: param where
  "workload_query_param = (many_param ''workload'' OT_STR)\<lparr>pa_enum := map AStr workload_names\<rparr>"

definition has_disabled_recommendation_query_param :: param where
  "has_disabled_recommendation_query_param = query_param ''has_disabled_recommendation'' OT_BOOL"

definition hits_query_param :: param where
  "hits_query_param = (many_param ''hits'' OT_STR)
     \<lparr>pa_enum := map AStr [''all'', ''yes'', ''no'', ''1'', ''2'', ''3'', ''4'']\<rparr>"

definition host_group_name_query_param :: param where
  "host_group_name_query_param = many_param ''groups'' OT_STR"

definition host_id_query_param :: param where
  "host_id_query_param = query_param ''uuid'' OT_STR"

definition host_tags_query_param :: param where
  "host_tags_query_param = (many_param ''tags'' OT_REGEX)\<lparr>pa_pattern := tag_pattern\<rparr>"

definition incident_query_param :: param where
  "incident_query_param = query_param ''incident'' OT_BOOL"

definition pathway_query_param :: param where
  "pathway_query_param = query_param ''pathway'' OT_STR"

definition rhel_version_query_param :: param where
  "rhel_version_query_param = (many_param ''rhel_version'' OT_REGEX)\<lparr>pa_pattern := version_pattern\<rparr>"

definition system_type_query_param :: param where
  "system_type_query_param = (query_param ''system_type'' OT_STR)
     \<lparr>pa_enum := map AStr [''all'', ''edge'', ''conventional'', ''bootc'']\<rparr>"

definition topic_query_param :: param where
  "topic_query_param = (query_param ''topic'' OT_REGEX)\<lparr>pa_pattern := topic_pattern\<rparr>"

definition update_method_query_param :: param where
  "update_method_query_param = (many_param ''update_method'' OT_STR)
     \<lparr>pa_enum := [AStr ''ostree'', AStr ''dnfyum'']\<rparr>"

section \<open>Filters on a parameter\<close>

fun the_atoms :: "pvalue \<Rightarrow> atom list" where
  "the_atoms (PMany vs) = vs"
| "the_atoms (POne a) = [a]"
| "the_atoms PNone = []"

text \<open>\<open>value_map[v]\<close>: the maps have names as keys and the numbers of a choice as values.\<close>

fun map_value :: "(string \<times> int) list \<Rightarrow> atom \<Rightarrow> atom py" where
  "map_value m (AStr k) = (case map_of m k of None \<Rightarrow> Inl (KeyError k) | Some i \<Rightarrow> Inr (AInt i))"
| "map_value m a = Inl (KeyError ''value'')"

text \<open>\<open>reduce(lambda l, r: l | r, ...)\<close>: an empty sequence raises \<open>TypeError\<close>.\<close>

definition any_of :: "string \<Rightarrow> atom list \<Rightarrow> q py" where
  "any_of field vs =
     (case map (q_is field) vs of [] \<Rightarrow> Inl TypeError | t # ts \<Rightarrow> Inr (foldl q_or t ts))"

definition filter_on_param :: "query_env \<Rightarrow> string \<Rightarrow> param \<Rightarrow> query_params \<Rightarrow> (string \<times> int) list \<Rightarrow> q py" where
  "filter_on_param qe field p query value_map =
     py_bind (value_of_param qe p query) (\<lambda>v. case v of
        PNone \<Rightarrow> Inr QAll
      | POne a \<Rightarrow>
          if value_map = [] then Inr (q_is field a)
          else py_bind (map_value value_map a) (\<lambda>b. Inr (q_is field b))
      | PMany vs \<Rightarrow>
          if value_map = [] then any_of field vs
          else py_bind (py_mapM (map_value value_map) vs) (any_of field))"

definition filter_on_branch_id :: "query_env \<Rightarrow> query_params \<Rightarrow> string \<Rightarrow> q py" where
  "filter_on_branch_id qe query relation =
     py_bind (value_of_param qe branch_id_param query) (\<lambda>v. case v of
        POne a \<Rightarrow> Inr (q_is (with_relation relation ''branch_id'') a)
      | _ \<Rightarrow> Inr QAll)"

definition filter_on_display_name :: "query_env \<Rightarrow> query_params \<Rightarrow> string \<Rightarrow> q py" where
  "filter_on_display_name qe query relation =
     py_bind (value_of_param qe display_name_query_param query) (\<lambda>v.
       if the_atoms v = [] \<or> the_atoms v = [AStr []] then Inr QAll
       else Inr (q_is (with_relation relation ''display_name__icontains'') (hd (the_atoms v))))"

definition filter_on_has_disabled_recommendation :: "query_env \<Rightarrow> request \<Rightarrow> query_params \<Rightarrow> q py" where
  "filter_on_has_disabled_recommendation qe rq query =
     py_bind (value_of_param qe has_disabled_recommendation_query_param query) (\<lambda>v. case v of
        PNone \<Rightarrow> Inr QAll
      | _ \<Rightarrow> py_bind (request_to_org rq) (\<lambda>org. Inr (QDisabled (the_atoms v \<noteq> [ABool True]) org)))"

text \<open>\<open>hit_types\<close>\<close>

definition hit_type :: "string \<Rightarrow> q option" where
  "hit_type h = map_of
     [(''all'', QAll), (''yes'', q_is ''hits__gt'' (AInt 0)), (''no'', q_is ''hits__exact'' (AInt 0)),
      (''4'', q_is ''critical_hits__gt'' (AInt 0)), (''3'', q_is ''important_hits__gt'' (AInt 0)),
      (''2'', q_is ''moderate_hits__gt'' (AInt 0)), (''1'', q_is ''low_hits__gt'' (AInt 0))] h"

definition hit_filter :: "atom \<Rightarrow> q py" where
  "hit_filter a = (case a of
     AStr h \<Rightarrow> (case hit_type h of None \<Rightarrow> Inl (KeyError h) | Some t \<Rightarrow> Inr t)
   | _ \<Rightarrow> Inl (KeyError ''hits''))"

definition filter_on_hits :: "query_env \<Rightarrow> query_params \<Rightarrow> q py" where
  "filter_on_hits qe query =
     py_bind (value_of_param qe hits_query_param query) (\<lambda>v.
       let hits = the_atoms v in
       if hits = [] then Inr QAll
       else case filter (\<lambda>i. AStr i \<in> set hits) [''all'', ''yes'', ''no''] of
          special # _ \<Rightarrow> hit_filter (AStr special)
        | [] \<Rightarrow> py_bind (py_mapM hit_filter hits) (\<lambda>ts. Inr (foldl q_or QAll ts)))"

definition filter_on_host_id :: "query_env \<Rightarrow> query_params \<Rightarrow> string \<Rightarrow> q py" where
  "filter_on_host_id qe query relation =
     py_bind (value_of_param qe host_id_query_param query) (\<lambda>v.
       if the_atoms v = [] \<or> the_atoms v = [AStr []] then Inr QAll
       else Inr (q_is (with_relation relation ''host'') (hd (the_atoms v))))"

text \<open>\<open>str.replace\<close> of a text of three characters by one, first to last.\<close>

fun replace_escape :: "string \<Rightarrow> char \<Rightarrow> string \<Rightarrow> string" where
  "replace_escape e c (x # y # z # s) =
     (if [x, y, z] = e then c # replace_escape e c s else x # replace_escape e c (y # z # s))"
| "replace_escape e c s = s"

definition unescape :: "string \<Rightarrow> string" where
  "unescape token = replace_escape ''%3D'' (CHR ''='') (replace_escape ''%2F'' (CHR ''/'') token)"

text \<open>A tag of the parameter; one without a slash cannot be unpacked.\<close>

definition parse_tag :: "string \<Rightarrow> qval py" where
  "parse_tag tag =
     (case split_once (CHR ''/'') tag of
        None \<Rightarrow> Inl ValueError
      | Some (namespace, key_and_value) \<Rightarrow>
          (case split_once (CHR ''='') key_and_value of
             None \<Rightarrow> Inr (QTag (unescape namespace) (unescape key_and_value) None)
           | Some (key, v) \<Rightarrow>
               Inr (QTag (unescape namespace) (unescape key) (if v = [] then None else Some (unescape v)))))"

fun tag_of_atom :: "atom \<Rightarrow> qval py" where
  "tag_of_atom (AStr s) = parse_tag s"
| "tag_of_atom a = Inl AttributeError"

definition filter_on_host_tags :: "query_env \<Rightarrow> request \<Rightarrow> query_params \<Rightarrow> string \<Rightarrow> q py" where
  "filter_on_host_tags qe rq query field =
     py_bind (value_of_param qe host_tags_query_param query) (\<lambda>v.
       if the_atoms v = [] then Inr QAll
       else py_bind (py_mapM tag_of_atom (the_atoms v)) (\<lambda>ts.
         py_bind (request_to_org rq) (\<lambda>org. Inr (QTagged (field @ ''__in'') ts org))))"

text \<open>
  The last \<open>elif\<close> has no \<open>else\<close>: another type would give \<open>None\<close>, which no queryset accepts;
  the enumeration leaves none.
\<close>

definition filter_on_system_type :: "query_env \<Rightarrow> query_params \<Rightarrow> string \<Rightarrow> q py" where
  "filter_on_system_type qe query relation =
     py_bind (value_of_param qe system_type_query_param query) (\<lambda>v.
       if v = PNone \<or> v = POne (AStr ''all'') then Inr QAll
       else if v = POne (AStr ''edge'') then Inr (q_is (with_relation relation ''host_type'') (AStr ''edge''))
       else if v = POne (AStr ''bootc'')
         then Inr (q_is (with_relation relation ''bootc_booted_image__isnull'') (ABool False))
       else if v = POne (AStr ''conventional'')
         then Inr (q_is (with_relation relation ''host_type__isnull'') (ABool True))
       else Inl TypeError)"

definition filter_on_incident :: "query_env \<Rightarrow> query_params \<Rightarrow> q py" where
  "filter_on_incident qe query =
     py_bind (value_of_param qe incident_query_param query) (\<lambda>v.
       if v = PNone then Inr QAll
       else if v = POne (ABool True) then Inr (q_is ''incident_hits__gt'' (AInt 0))
       else Inr (q_is ''incident_hits'' (AInt 0)))"

text \<open>\<open>major, minor = map(int, version.split('.'))\<close>\<close>

fun version_term :: "string \<Rightarrow> atom \<Rightarrow> q py" where
  "version_term relation (AStr s) =
     (case split_on (CHR ''.'') s of
        [a, b] \<Rightarrow>
          (case (py_int a, py_int b) of
             (Some major, Some minor) \<Rightarrow>
               Inr (QAnd (q_is (with_relation relation ''os_major'') (AInt major))
                         (q_is (with_relation relation ''os_minor'') (AInt minor)))
           | _ \<Rightarrow> Inl ValueError)
      | _ \<Rightarrow> Inl ValueError)"
| "version_term relation a = Inl AttributeError"

definition filter_on_rhel_version :: "query_env \<Rightarrow> query_params \<Rightarrow> string \<Rightarrow> q py" where
  "filter_on_rhel_version qe query relation =
     py_bind (value_of_param qe rhel_version_query_param query) (\<lambda>v.
       py_bind (py_mapM (version_term relation) (the_atoms v)) (\<lambda>ts. Inr (foldl q_or QAll ts)))"

definition filter_on_topic :: "query_env \<Rightarrow> query_params \<Rightarrow> string \<Rightarrow> q py" where
  "filter_on_topic qe query relation =
     py_bind (value_of_param qe topic_query_param query) (\<lambda>v.
       if the_atoms v = [] \<or> the_atoms v = [AStr []] then Inr QAll
       else Inr (q_is (with_relation relation ''tags__topic__slug'') (hd (the_atoms v))))"

definition workload_term :: "string \<Rightarrow> atom \<Rightarrow> q" where
  "workload_term relation w =
     (let base = with_relation relation ''workloads'' in
      if w = AStr ''sap'' then q_is (base @ ''__sap__sap_system'') (ABool True)
      else q_is (base @ ''__'' @ (case w of AStr s \<Rightarrow> s | _ \<Rightarrow> []) @ ''__isnull'') (ABool False))"

definition filter_on_workload :: "query_env \<Rightarrow> query_params \<Rightarrow> string \<Rightarrow> q py" where
  "filter_on_workload qe query relation =
     py_bind (value_of_param qe workload_query_param query) (\<lambda>v.
       Inr (foldl q_or QAll (map (workload_term relation) (the_atoms v))))"

definition filter_on_update_method :: "query_env \<Rightarrow> query_params \<Rightarrow> string \<Rightarrow> q py" where
  "filter_on_update_method qe query relation =
     py_bind (value_of_param qe update_method_query_param query) (\<lambda>v.
       let ms = the_atoms v; base = with_relation relation ''system_update_method'' in
       if ms = [] \<or> list_all (\<lambda>e. e \<in> set ms) (pa_enum update_method_query_param) then Inr QAll
       else Inr (q_or
         (if AStr ''ostree'' \<in> set ms then q_is base (AStr ''rpm-ostree'') else QAll)
         (if AStr ''dnfyum'' \<in> set ms then QTerm False (base @ ''__in'') (QAtoms [AStr ''dnf'', AStr ''yum'']) else QAll)))"

section \<open>Host groups and certificates\<close>

definition group_name_term :: "string \<Rightarrow> atom \<Rightarrow> q" where
  "group_name_term relation a =
     (if a = AStr [] then q_is (with_relation relation ''workspace_ungrouped'') (ABool True)
      else q_is (with_relation relation ''workspace_name'') a)"

definition group_id_term :: "string \<Rightarrow> json \<Rightarrow> q" where
  "group_id_term relation g =
     (if g = JNull then q_is (with_relation relation ''workspace_id__isnull'') (ABool True)
      else q_is (with_relation relation ''workspace_id'') (plain_atom g))"

definition get_host_group_filter :: "query_env \<Rightarrow> request \<Rightarrow> query_params \<Rightarrow> string \<Rightarrow> q py" where
  "get_host_group_filter qe rq query relation =
     (let host_groups = (case rq_host_groups rq of None \<Rightarrow> [] | Some gs \<Rightarrow> gs) in
      py_bind (value_of_param qe host_group_name_query_param query) (\<lambda>v.
        Inr (q_and (foldl q_or QAll (map (group_id_term relation) host_groups))
                   (foldl q_or QAll (map (group_name_term relation) (the_atoms v))))))"

definition cert_auth_q :: "request \<Rightarrow> string \<Rightarrow> q" where
  "cert_auth_q rq relation =
     (case rq_auth_system rq of
        None \<Rightarrow> QAll
      | Some owner \<Rightarrow> q_is (with_relation relation ''owner_id'') (AStr owner))"

section \<open>Structured filters\<close>

text \<open>
  \<open>(?:\[\w+\])+\<close> from the left: the words in brackets and what is left.
\<close>

definition bracket_word :: "string \<Rightarrow> (string \<times> string) option" where
  "bracket_word s =
     (case s of
        [] \<Rightarrow> None
      | c # r \<Rightarrow>
          if c = CHR ''['' \<and> takeWhile is_word r \<noteq> [] \<and> prefix '']'' (dropWhile is_word r)
          then Some (takeWhile is_word r, tl (dropWhile is_word r)) else None)"

lemma bracket_word_shorter:
  assumes "bracket_word s = Some (w, r)"
  shows "length r < length s"
proof (cases s)
  case (Cons c t)
  then have "r = tl (dropWhile is_word t)"
    using assms by (simp add: bracket_word_def split: if_splits)
  with Cons length_dropWhile_le [of is_word t] show ?thesis by simp
qed (use assms in \<open>simp add: bracket_word_def\<close>)

function bracket_words :: "string \<Rightarrow> string list \<times> string" where
  "bracket_words s =
     (case bracket_word s of
        None \<Rightarrow> ([], s)
      | Some (w, r) \<Rightarrow> (let (ws, t) = bracket_words r in (w # ws, t)))"
  by pat_completeness auto
termination
  by (relation "measure length") (auto dest: bracket_word_shorter)

declare bracket_words.simps [simp del]

text \<open>
  \<open>^(?P<prefix>\w+)(?P<brackets>(?:\[\w+\])+)(?:\[\])?$\<close>: the words in the brackets.
\<close>

definition filter_name :: "string \<Rightarrow> string list option" where
  "filter_name name =
     (let (ws, rest) = bracket_words (dropWhile is_word name) in
      if takeWhile is_word name \<noteq> [] \<and> ws \<noteq> [] \<and> without_newline rest \<in> set ['''', ''[]''] then Some ws
      else None)"

definition redirect_workloads :: "string \<Rightarrow> string list \<Rightarrow> string list" where
  "redirect_workloads filter_prefix parts =
     (if filter_prefix = ''system_profile'' \<and> length parts \<ge> 2 then
        let field = parts ! 1 in
        if field = ''sap_system'' then [filter_prefix, ''workloads'', ''sap''] @ drop 1 parts
        else if field = ''sap_sids'' then [filter_prefix, ''workloads'', ''sap'', ''sids''] @ drop 2 parts
        else if field \<in> set [''ansible'', ''mssql''] then [filter_prefix, ''workloads''] @ drop 1 parts
        else parts
      else parts)"

text \<open>\<open>_remap_system_profile_parts_for_local\<close>\<close>

definition remap_parts :: "string list \<Rightarrow> string list" where
  "remap_parts filter_parts =
     (let parts = drop 1 filter_parts in
      if length parts \<ge> 2 \<and> parts ! 0 = ''operating_system'' then
        if parts ! 1 = ''major'' then ''os_major'' # drop 2 parts
        else if parts ! 1 = ''minor'' then ''os_minor'' # drop 2 parts
        else if parts ! 1 = ''name'' then ''os_name'' # drop 2 parts
        else parts
      else parts)"

definition comparator_translations :: "(string \<times> string) list" where
  "comparator_translations =
     [(''eq_i'', ''iexact''), (''contains_i'', ''icontains''), (''starts_with_i'', ''istartswith''),
      (''ends_with_i'', ''iendswith''), (''starts_with'', ''startswith''), (''ends_with'', ''endswith'')]"

text \<open>What the name of a parameter says: the operator, the lookup, and the key a value is wrapped under.\<close>

record filter_plan =
  fp_operator :: string
  fp_parts :: "string list"
  fp_contains :: "string option"

definition plan_operator :: "bool \<Rightarrow> bool \<Rightarrow> string list \<Rightarrow> filter_plan py" where
  "plan_operator use_contains_for_eq is_local parts =
     (if parts = [] then Inl IndexError
      else let operator = last parts in
        if operator \<in> set [''eq'', ''ne''] then
          (let parts = butlast parts in
           if use_contains_for_eq \<and> \<not> is_local then
             (if parts = [] then Inl IndexError
              else Inr \<lparr>fp_operator = operator, fp_parts = butlast parts @ [''contains''],
                        fp_contains = Some (last parts)\<rparr>)
           else Inr \<lparr>fp_operator = operator, fp_parts = parts, fp_contains = None\<rparr>)
        else if operator \<in> set [''nil'', ''not_nil''] then
          Inr \<lparr>fp_operator = operator, fp_parts = butlast parts @ [''isnull''], fp_contains = None\<rparr>
        else
          Inr \<lparr>fp_operator = operator,
               fp_parts = (case map_of comparator_translations operator of
                  None \<Rightarrow> parts | Some c \<Rightarrow> butlast parts @ [c]),
               fp_contains = None\<rparr>)"

definition plan_filter :: "string \<Rightarrow> bool \<Rightarrow> string list \<Rightarrow> filter_plan py" where
  "plan_filter filter_prefix use_contains_for_eq words =
     (let parts = redirect_workloads filter_prefix words in
      if filter_prefix = ''system_profile'' then
        (let local_parts = remap_parts parts in
         if local_parts = [] then Inl IndexError
         else plan_operator use_contains_for_eq (hd local_parts \<noteq> ''workloads'') local_parts)
      else plan_operator use_contains_for_eq False parts)"

section \<open>The values of a structured filter\<close>

text \<open>A truth value has no method \<open>isdigit\<close>.\<close>

definition is_bool_text :: "string \<Rightarrow> bool" where
  "is_bool_text s \<longleftrightarrow> s \<in> set [''true'', ''True'', ''false'', ''False'']"

definition number_text :: "string \<Rightarrow> atom py" where
  "number_text s = (case py_int s of None \<Rightarrow> Inl ValueError | Some i \<Rightarrow> Inr (AInt i))"

definition filter_atom :: "string \<Rightarrow> string \<Rightarrow> atom py" where
  "filter_atom operator s =
     (if operator \<in> set [''gt'', ''gte'', ''lt'', ''lte''] then
        (if is_bool_text s then Inl AttributeError
         else if str_isdigit s then number_text s else Inl ValidationError)
      else if operator \<in> set [''eq'', ''ne''] then
        (if is_bool_text s then Inl AttributeError
         else if str_isdigit s then number_text s else Inr (AStr s))
      else Inr (if is_bool_text s then ABool (s \<in> set [''true'', ''True'']) else AStr s))"

definition filter_value :: "filter_plan \<Rightarrow> string \<Rightarrow> qval py" where
  "filter_value fp s =
     py_bind (filter_atom (fp_operator fp) s) (\<lambda>a.
       if fp_operator fp \<in> set [''nil'', ''not_nil''] then
         (let b = (case a of ABool b \<Rightarrow> b | _ \<Rightarrow> True) in
          Inr (QAtom (ABool (if fp_operator fp = ''not_nil'' then \<not> b else b))))
       else Inr (case fp_contains fp of None \<Rightarrow> QAtom a | Some k \<Rightarrow> QKey k a))"

definition filter_terms :: "filter_plan \<Rightarrow> string \<Rightarrow> string list \<Rightarrow> q list py" where
  "filter_terms fp field values =
     (if fp_operator fp = ''in'' then
        Inr [QTerm False field (QAtoms (map AStr (concat (map (split_on (CHR '','')) values))))]
      else py_mapM (\<lambda>s. py_bind (filter_value fp s) (\<lambda>v. Inr (QTerm (fp_operator fp = ''ne'') field v))) values)"

text \<open>One parameter of the query: only those that start with the prefix are looked at.\<close>

definition one_filter :: "string \<Rightarrow> string \<Rightarrow> string \<Rightarrow> bool \<Rightarrow> string \<times> string list \<Rightarrow> q list py" where
  "one_filter filter_prefix param_name field_prefix use_contains_for_eq = (\<lambda>(this_param, values).
     if \<not> prefix (param_name @ ''['' @ filter_prefix @ '']['') this_param then Inr []
     else case filter_name this_param of
        None \<Rightarrow> Inl ValidationError
      | Some words \<Rightarrow>
          py_bind (plan_filter filter_prefix use_contains_for_eq words) (\<lambda>fp.
            filter_terms fp
              (join_on ''__'' ((if field_prefix = [] then [] else [field_prefix]) @ fp_parts fp)) values))"

definition filter_multi_param :: "query_params \<Rightarrow> string \<Rightarrow> string \<Rightarrow> string \<Rightarrow> bool \<Rightarrow> q py" where
  "filter_multi_param query filter_prefix param_name field_prefix use_contains_for_eq =
     py_bind (py_mapM (one_filter filter_prefix param_name field_prefix use_contains_for_eq) query)
       (\<lambda>ts. Inr (foldl q_and QAll (concat ts)))"

text \<open>The filter on system profiles, as every caller asks for it.\<close>

definition system_profile_filter :: "query_params \<Rightarrow> string \<Rightarrow> q py" where
  "system_profile_filter query field_prefix =
     filter_multi_param query ''system_profile'' ''filter'' field_prefix True"

section \<open>Sorting\<close>

record sort_field =
  so_field :: string
  so_desc :: bool
  so_nulls :: bool   \<comment> \<open>first when ascending, last when descending; not stated when false\<close>

definition sort_param_enum :: "string list \<Rightarrow> string list" where
  "sort_param_enum names = concat (map (\<lambda>f. [f, CHR ''-'' # f]) names)"

definition map_and_expand :: "(string \<times> string list) list \<Rightarrow> bool \<Rightarrow> string \<Rightarrow> sort_field list py" where
  "map_and_expand field_map reverse_nulls_order sort_param =
     (if sort_param = [] then Inl IndexError
      else
        let is_desc = (hd sort_param = CHR ''-''); name = (if is_desc then tl sort_param else sort_param) in
        Inr (map (\<lambda>f. \<lparr>so_field = f, so_desc = is_desc, so_nulls = \<not> reverse_nulls_order\<rparr>)
          (case map_of field_map name of None \<Rightarrow> [name] | Some fs \<Rightarrow> fs)))"

definition sort_params_to_fields ::
  "string list \<Rightarrow> (string \<times> string list) list \<Rightarrow> bool \<Rightarrow> sort_field list py" where
  "sort_params_to_fields values field_map reverse_nulls_order =
     py_bind (py_mapM (map_and_expand field_map reverse_nulls_order) values) (\<lambda>fs. Inr (concat fs))"

section \<open>The filters of the rule list\<close>

definition impacting_query_param :: param where
  "impacting_query_param = query_param ''impacting'' OT_BOOL"

definition reboot_required_query_param :: param where
  "reboot_required_query_param = query_param ''reboot'' OT_BOOL"

definition res_risk_query_param :: param where
  "res_risk_query_param = (many_param ''res_risk'' OT_INT)\<lparr>pa_enum := [AInt 1, AInt 2, AInt 3, AInt 4]\<rparr>"

definition reports_shown_query_param :: param where
  "reports_shown_query_param = query_param ''reports_shown'' OT_BOOL"

definition rule_status_query_param :: param where
  "rule_status_query_param = (query_param ''rule_status'' OT_STR)
     \<lparr>pa_enum := map AStr [''all'', ''enabled'', ''disabled'', ''rhdisabled'']\<rparr>"

definition text_query_param :: param where
  "text_query_param = query_param ''text'' OT_STR"

definition has_playbook_query_param :: param where
  "has_playbook_query_param = query_param ''has_playbook'' OT_BOOL"

text \<open>A parameter that is one truth value, or was not given.\<close>

definition on_bool :: "query_env \<Rightarrow> param \<Rightarrow> query_params \<Rightarrow> (atom \<Rightarrow> q) \<Rightarrow> q py" where
  "on_bool qe p query f =
     py_bind (value_of_param qe p query) (\<lambda>v. Inr (case v of POne a \<Rightarrow> f a | _ \<Rightarrow> QAll))"

definition filter_on_impacting :: "query_env \<Rightarrow> query_params \<Rightarrow> q py" where
  "filter_on_impacting qe query = on_bool qe impacting_query_param query (q_is ''has_reports'')"

definition filter_on_rule_incident :: "query_env \<Rightarrow> query_params \<Rightarrow> q py" where
  "filter_on_rule_incident qe query =
     on_bool qe incident_query_param query
       (\<lambda>a. QTerm (a \<noteq> ABool True) ''tags__name'' (QAtom (AStr ''incident'')))"

definition filter_on_reboot_required :: "query_env \<Rightarrow> query_params \<Rightarrow> q py" where
  "filter_on_reboot_required qe query = on_bool qe reboot_required_query_param query (q_is ''reboot_required'')"

definition filter_on_resolution_risk :: "query_env \<Rightarrow> query_params \<Rightarrow> q py" where
  "filter_on_resolution_risk qe query =
     py_bind (value_of_param qe res_risk_query_param query) (\<lambda>v.
       if the_atoms v = [] then Inr QAll
       else Inr (QResolution ''resolution_risk__risk__in'' (QAtoms (the_atoms v))))"

definition filter_on_reports_shown :: "query_env \<Rightarrow> query_params \<Rightarrow> q py" where
  "filter_on_reports_shown qe query = on_bool qe reports_shown_query_param query (q_is ''reports_shown'')"

definition filter_on_rule_status :: "query_env \<Rightarrow> query_params \<Rightarrow> q py" where
  "filter_on_rule_status qe query =
     on_bool qe rule_status_query_param query
       (\<lambda>a. if a = AStr [] \<or> a = AStr ''all'' then QAll else q_is ''rule_status'' a)"

definition filter_on_text :: "query_env \<Rightarrow> query_params \<Rightarrow> q py" where
  "filter_on_text qe query =
     on_bool qe text_query_param query (\<lambda>a.
       if a = AStr [] then QAll
       else foldl q_or QAll
         (map (\<lambda>f. q_is f a) [''rule_id__icontains'', ''description__icontains'', ''summary__icontains'',
            ''generic__icontains'', ''reason__icontains'', ''more_info__icontains''] @
          [QResolution ''resolution__icontains'' (QAtom a)]))"

definition filter_on_has_playbook :: "query_env \<Rightarrow> query_params \<Rightarrow> q py" where
  "filter_on_has_playbook qe query =
     on_bool qe has_playbook_query_param query
       (\<lambda>a. if a = ABool True then q_is ''playbook_count__gt'' (AInt 0)
            else q_is ''playbook_count__isnull'' (ABool True))"

end
