(* ===== verification/Report_Query.thy ===== *)
theory Report_Query
  imports Query_Filters
begin

text \<open>
  What the API shows (\<open>api/models.py\<close>): the tables it reads, the filters of a request, the
  query over reports every view builds on, and the systems, rules and pathways of an account with
  the counts they are annotated with.  Tables are lists of rows.  A lookup on a column that is not
  in a row here is answered by an argument (\<open>lookups\<close>), which may look the row up by its key.
\<close>

record api_rule =
  ar_pk :: nat
  ar_rule_id :: string
  ar_active :: bool
  ar_deleted :: bool
  ar_total_risk :: nat
  ar_pathway :: "nat option"
  ar_reboot :: bool
  ar_tags :: "string list"
  ar_category :: string

record api_report =
  rp_id :: nat
  rp_rule :: nat
  rp_host :: string
  rp_org :: string

text \<open>
  A host of the inventory: \<open>ih_stale\<close> is puptoo's \<open>stale_warning_timestamp\<close>.  Advisor's own row
  for the host is an \<open>api_hostrow\<close>.
\<close>

record api_host =
  ih_id :: string
  ih_org :: string
  ih_stale :: "int option"
  ih_account :: "string option"
  ih_insights :: string
  ih_name :: string

record api_hostrow =
  hr_id :: string
  hr_org :: string
  hr_branch :: "string option"

record api_ack =
  ack_id :: nat
  ack_rule :: nat
  ack_org :: string
  ack_account :: "string option"
  ack_justification :: string
  ack_created_by :: string

record api_hostack =
  ha_id :: nat
  ha_rule :: nat
  ha_host :: string
  ha_org :: string
  ha_account :: "string option"
  ha_justification :: string
  ha_created_by :: string

record api_rating =
  rg_rule :: nat
  rg_by :: string
  rg_account :: "string option"
  rg_org :: string
  rg_rating :: int

record api_pathway =
  pw_id :: nat
  pw_slug :: string
  pw_published :: "int option"

record api_topic =
  to_slug :: string
  to_tag :: "string option"
  to_enabled :: bool

record api_db =
  ad_rules :: "api_rule list"
  ad_reports :: "api_report list"
  ad_inventory :: "api_host list"
  ad_hosts :: "api_hostrow list"
  ad_acks :: "api_ack list"
  ad_hostacks :: "api_hostack list"
  ad_ratings :: "api_rating list"
  ad_pathways :: "api_pathway list"
  ad_categories :: "string list"
  ad_topics :: "api_topic list"
  ad_next :: nat

abbreviation host_ids :: "api_db \<Rightarrow> string list" where
  "host_ids db \<equiv> map hr_id (ad_hosts db)"

text \<open>A request with its query and what the process knows.\<close>

record api_env =
  ae_query_env :: query_env
  ae_now :: int
  ae_autoack :: string                       \<comment> \<open>\<open>settings.AUTOACK['CREATED_BY']\<close>\<close>
  ae_report_lookups :: "api_report lookups"
  ae_host_lookups :: "api_host lookups"

record api_request =
  aq_request :: request
  aq_query :: query_params

section \<open>Pure helpers\<close>

text \<open>
  \<open>account_minimum_length\<close> and \<open>org_id_minimum_length\<close>: digits, and a number above 100000.
\<close>

definition minimum_length :: "string \<Rightarrow> unit py" where
  "minimum_length value =
     (if \<not> str_isdigit value then Inl ValidationError
      else case py_int value of
         None \<Rightarrow> Inl ValueError
       | Some i \<Rightarrow> if i > 100000 then Inr () else Inl ValidationError)"

definition calculate_rec_level :: "rat \<Rightarrow> bool \<Rightarrow> int \<Rightarrow> int" where
  "calculate_rec_level percentage_of_systems has_incidents max_risk =
     (let base = (if percentage_of_systems > 1 / 4 then 62 else if percentage_of_systems > 1 / 10 then 58 else 54) in
      base + (if has_incidents then 2 else 0) + 12 * (min (max max_risk 1) 4 - 1))"

text \<open>\<open>get_rhel_version_from_flat\<close>; an empty name counts as none.\<close>

definition rhel_version :: "int option \<Rightarrow> int option \<Rightarrow> string option \<Rightarrow> string" where
  "rhel_version major minor name =
     (case major of
        Some a \<Rightarrow> (case minor of Some b \<Rightarrow> str_of_int a @ ''.'' @ str_of_int b | None \<Rightarrow> str_of_int a)
      | None \<Rightarrow>
          (case name of
             Some n \<Rightarrow> if n \<noteq> [] then ''Unknown '' @ n @ '' version'' else ''Unknown system version''
           | None \<Rightarrow> ''Unknown system version''))"

text \<open>The text a column holds: null stays null.\<close>

definition column_text :: "api_env \<Rightarrow> json \<Rightarrow> string option" where
  "column_text ae v = (if v = JNull then None else Some (py_str (qe_render (ae_query_env ae)) v))"

text \<open>\<open>request_to_org\<close>; a false value means no organisation.\<close>

definition org_of :: "api_env \<Rightarrow> request \<Rightarrow> string option py" where
  "org_of ae rq =
     py_bind (request_to_org rq) (\<lambda>v. Inr (if truthy v then column_text ae v else None))"

text \<open>\<open>request.auth['org_id']\<close>\<close>

definition auth_org :: "api_env \<Rightarrow> request \<Rightarrow> string option py" where
  "auth_org ae rq =
     (case rq_auth rq of
        None \<Rightarrow> Inl AttributeError
      | Some auth \<Rightarrow> py_bind (py_item auth ''org_id'') (\<lambda>v. Inr (column_text ae v)))"

section \<open>Filters of a request\<close>

text \<open>
  The filter on a category is only applied when the first value consists of numbers; the others
  are left to the Satellite views.
\<close>

definition category_filter :: "query_env \<Rightarrow> query_params \<Rightarrow> q py" where
  "category_filter qe query =
     (case map_of query ''category'' of
        Some (first # _) \<Rightarrow>
          if list_all str_isdigit (split_on (CHR '','') first)
          then filter_on_param qe ''rule__category_id'' category_query_param query [] else Inr QAll
      | _ \<Rightarrow> Inr QAll)"

definition conj_q :: "q list \<Rightarrow> q" where
  "conj_q qs = foldl q_and QAll qs"

text \<open>
  The filters of \<open>get_reports_subquery\<close> that concern hosts.  The first five are computed, and may
  raise, even when hosts are not filtered.
\<close>

definition host_filters :: "api_env \<Rightarrow> api_request \<Rightarrow> bool \<Rightarrow> bool \<Rightarrow> q py" where
  "host_filters ae ar filter_branch_id exclude_ineligible_hosts =
     (let qe = ae_query_env ae; rq = aq_request ar; query = aq_query ar; inv = ''advisor_inventory'' in
      py_bind (filter_on_host_tags qe rq query ''host_id'') (\<lambda>tags.
      py_bind (filter_on_system_type qe query inv) (\<lambda>types.
      py_bind (system_profile_filter query inv) (\<lambda>profile.
      py_bind (category_filter qe query) (\<lambda>category.
      py_bind (if filter_branch_id then filter_on_branch_id qe query ''host'' else Inr QAll) (\<lambda>branch.
        if \<not> exclude_ineligible_hosts then Inr QAll
        else
          py_bind (filter_on_update_method qe query inv) (\<lambda>updates.
          py_bind (filter_on_workload qe query inv) (\<lambda>workloads.
          py_bind (get_host_group_filter qe rq query inv) (\<lambda>groups.
            Inr (conj_q [tags, types, profile, category, cert_auth_q rq inv, branch, updates, workloads,
              groups]))))))))))"

section \<open>Reports\<close>

text \<open>\<open>stale_systems_q\<close>: the host is in the inventory of the organisation and not stale.\<close>

definition stale_systems_q :: "api_env \<Rightarrow> api_db \<Rightarrow> string \<Rightarrow> string \<Rightarrow> bool" where
  "stale_systems_q ae db org host \<longleftrightarrow>
     list_ex (\<lambda>h. ih_org h = org \<and> ih_id h = host \<and>
       (case ih_stale h of None \<Rightarrow> False | Some t \<Rightarrow> t > ae_now ae)) (ad_inventory db)"

definition rule_acked :: "api_db \<Rightarrow> string \<Rightarrow> nat \<Rightarrow> bool" where
  "rule_acked db org rule \<longleftrightarrow> list_ex (\<lambda>a. ack_org a = org \<and> ack_rule a = rule) (ad_acks db)"

definition host_acked :: "api_db \<Rightarrow> string \<Rightarrow> nat \<Rightarrow> string \<Rightarrow> bool" where
  "host_acked db org rule host \<longleftrightarrow>
     list_ex (\<lambda>a. ha_org a = org \<and> ha_rule a = rule \<and> ha_host a = host) (ad_hostacks db)"

text \<open>The rules excluded by the subquery: those not active and those acknowledged.\<close>

definition excluded_rules :: "api_db \<Rightarrow> string \<Rightarrow> nat list" where
  "excluded_rules db org =
     map ar_pk (filter (\<lambda>r. \<not> ar_active r) (ad_rules db)) @
     map ack_rule (filter (\<lambda>a. ack_org a = org) (ad_acks db))"

definition rule_excluded :: "api_db \<Rightarrow> bool \<Rightarrow> string \<Rightarrow> nat \<Rightarrow> bool" where
  "rule_excluded db use_joins org rule =
     (if use_joins then rule_acked db org rule else rule \<in> set (excluded_rules db org))"

text \<open>The join on the rule of a report: it is active.\<close>

definition rule_active :: "api_db \<Rightarrow> nat \<Rightarrow> bool" where
  "rule_active db rule \<longleftrightarrow> list_ex (\<lambda>r. ar_pk r = rule \<and> ar_active r) (ad_rules db)"

record report_options =
  ro_rules :: bool    \<comment> \<open>\<open>exclude_ineligible_rules\<close>\<close>
  ro_hosts :: bool    \<comment> \<open>\<open>exclude_ineligible_hosts\<close>\<close>
  ro_branch :: bool   \<comment> \<open>\<open>filter_branch_id\<close>\<close>
  ro_joins :: bool    \<comment> \<open>\<open>use_joins\<close>\<close>

definition default_options :: report_options where
  "default_options = \<lparr>ro_rules = True, ro_hosts = True, ro_branch = True, ro_joins = False\<rparr>"

definition report_shown ::
  "api_env \<Rightarrow> api_db \<Rightarrow> report_options \<Rightarrow> string \<Rightarrow> q \<Rightarrow> api_report \<Rightarrow> bool" where
  "report_shown ae db ro org hosts r \<longleftrightarrow>
     (ro_hosts ro \<longrightarrow> q_holds (ae_report_lookups ae) r hosts \<and> stale_systems_q ae db org (rp_host r)) \<and>
     rp_org r = org \<and>
     (ro_joins ro \<and> ro_rules ro \<longrightarrow> rule_active db (rp_rule r)) \<and>
     \<not> (ro_rules ro \<and> rule_excluded db (ro_joins ro) org (rp_rule r)) \<and>
     \<not> host_acked db org (rp_rule r) (rp_host r)"

text \<open>The join with an outer table, and any further condition, is \<open>extra\<close>.\<close>

definition get_reports_subquery ::
  "api_env \<Rightarrow> api_request \<Rightarrow> report_options \<Rightarrow> (api_report \<Rightarrow> bool) \<Rightarrow> api_db \<Rightarrow> api_report list py" where
  "get_reports_subquery ae ar ro extra db =
     py_bind (org_of ae (aq_request ar)) (\<lambda>org. case org of
        None \<Rightarrow> Inr []
      | Some org \<Rightarrow>
          py_bind (host_filters ae ar (ro_branch ro) (ro_hosts ro)) (\<lambda>hosts.
            Inr (filter (\<lambda>r. extra r \<and> report_shown ae db ro org hosts r) (ad_reports db))))"

text \<open>
  \<open>Rule.reports_for_account\<close>: nothing for a rule that is inactive, deleted or acknowledged.
\<close>

definition reports_for_account :: "api_env \<Rightarrow> api_request \<Rightarrow> api_rule \<Rightarrow> api_db \<Rightarrow> api_report list py" where
  "reports_for_account ae ar rule db =
     py_bind (auth_org ae (aq_request ar)) (\<lambda>org.
       if \<not> ar_active rule \<or> ar_deleted rule \<or>
          (case org of None \<Rightarrow> False | Some org \<Rightarrow> rule_acked db org (ar_pk rule)) then Inr []
       else get_reports_subquery ae ar default_options (\<lambda>r. rp_rule r = ar_pk rule) db)"

end
