(* ===== verification/Account_Views.thy ===== *)
theory Account_Views
  imports Report_Query
begin

text \<open>
  What the API shows of an account (\<open>api/models.py\<close>): the hosts of a request, the systems with
  their counts of reports, the rules with their status, and the pathways with what they impact.
\<close>

section \<open>Systems\<close>

text \<open>\<open>AdvisorInventoryHostManager.for_account\<close>\<close>

definition hosts_q :: "api_env \<Rightarrow> api_request \<Rightarrow> bool \<Rightarrow> q py" where
  "hosts_q ae ar filter_branch_id =
     (let qe = ae_query_env ae; rq = aq_request ar; query = aq_query ar in
      py_bind (filter_on_host_tags qe rq query ''inventory_id'') (\<lambda>tags.
      py_bind (filter_on_system_type qe query []) (\<lambda>types.
      py_bind (system_profile_filter query []) (\<lambda>profile.
      py_bind (if filter_branch_id then filter_on_branch_id qe query ''host'' else Inr QAll) (\<lambda>branch.
      py_bind (get_host_group_filter qe rq query []) (\<lambda>groups.
      py_bind (filter_on_update_method qe query []) (\<lambda>updates.
      py_bind (filter_on_workload qe query []) (\<lambda>workloads.
        Inr (conj_q [tags, types, profile, cert_auth_q rq [], branch, updates, workloads, groups])))))))))"

definition is_stale :: "api_env \<Rightarrow> api_host \<Rightarrow> bool" where
  "is_stale ae h = (case ih_stale h of None \<Rightarrow> True | Some t \<Rightarrow> t \<le> ae_now ae)"

definition hosts_for_account ::
  "api_env \<Rightarrow> api_request \<Rightarrow> bool \<Rightarrow> bool \<Rightarrow> bool \<Rightarrow> api_db \<Rightarrow> api_host list py" where
  "hosts_for_account ae ar filter_stale filter_branch_id require_host db =
     py_bind (org_of ae (aq_request ar)) (\<lambda>org. case org of
        None \<Rightarrow> Inr []
      | Some org \<Rightarrow>
          py_bind (hosts_q ae ar filter_branch_id) (\<lambda>f.
            Inr (filter (\<lambda>h. q_holds (ae_host_lookups ae) h f \<and> (filter_stale \<longrightarrow> \<not> is_stale ae h) \<and>
              (require_host \<longrightarrow> ih_id h \<in> set (host_ids db)) \<and> ih_org h = org) (ad_inventory db))))"

record system_row =
  sy_host :: api_host
  sy_hits :: nat
  sy_critical :: nat
  sy_important :: nat
  sy_moderate :: nat
  sy_low :: nat
  sy_incident :: nat
  sy_all_pathway :: nat
  sy_pathway :: nat

definition rule_of :: "api_db \<Rightarrow> api_report \<Rightarrow> api_rule option" where
  "rule_of db r = find (\<lambda>u. ar_pk u = rp_rule r) (ad_rules db)"

text \<open>The reports whose rule satisfies a condition.\<close>

definition of_rule :: "api_db \<Rightarrow> (api_rule \<Rightarrow> bool) \<Rightarrow> api_report \<Rightarrow> bool" where
  "of_rule db P r = (case rule_of db r of None \<Rightarrow> False | Some u \<Rightarrow> P u)"

definition pathway_slug_of :: "api_db \<Rightarrow> nat \<Rightarrow> string option" where
  "pathway_slug_of db i = map_option pw_slug (find (\<lambda>p. pw_id p = i) (ad_pathways db))"

definition in_pathway :: "api_db \<Rightarrow> string \<Rightarrow> api_rule \<Rightarrow> bool" where
  "in_pathway db slug u = (case ar_pathway u of None \<Rightarrow> False | Some i \<Rightarrow> pathway_slug_of db i = Some slug)"

text \<open>A subquery that counts: reports of the host that satisfy a condition.\<close>

definition count_for :: "api_report list \<Rightarrow> api_host \<Rightarrow> (api_report \<Rightarrow> bool) \<Rightarrow> nat" where
  "count_for reports h P = length (filter (\<lambda>r. rp_host r = ih_id h \<and> P r) reports)"

definition system_row_of :: "api_db \<Rightarrow> api_report list \<Rightarrow> string option \<Rightarrow> api_host \<Rightarrow> system_row" where
  "system_row_of db reports slug h =
     (let risk = (\<lambda>v. count_for reports h (of_rule db (\<lambda>u. ar_total_risk u = v))) in
      \<lparr>sy_host = h,
       sy_hits = count_for reports h (\<lambda>_. True),
       sy_critical = risk 4, sy_important = risk 3, sy_moderate = risk 2, sy_low = risk 1,
       sy_incident = count_for reports h (of_rule db (\<lambda>u. ''incident'' \<in> set (ar_tags u))),
       sy_all_pathway = count_for reports h (of_rule db (\<lambda>u. ar_pathway u \<noteq> None)),
       sy_pathway = count_for reports h (of_rule db (case slug of
          None \<Rightarrow> (\<lambda>u. ar_pathway u = None) | Some s \<Rightarrow> in_pathway db s))\<rparr>)"

text \<open>Lookups on a system: those on its counts, and those on the columns of the host.\<close>

definition system_count :: "system_row \<Rightarrow> string \<Rightarrow> nat option" where
  "system_count s f = map_of
     [(''hits'', sy_hits s), (''critical_hits'', sy_critical s), (''important_hits'', sy_important s),
      (''moderate_hits'', sy_moderate s), (''low_hits'', sy_low s), (''incident_hits'', sy_incident s)] f"

definition count_lookup :: "system_row \<Rightarrow> string \<Rightarrow> nat \<Rightarrow> bool option" where
  "count_lookup s f n =
     (if suffix ''__gt'' f then map_option (\<lambda>c. c > n) (system_count s (take (length f - 4) f))
      else if suffix ''__exact'' f then map_option (\<lambda>c. c = n) (system_count s (take (length f - 7) f))
      else map_option (\<lambda>c. c = n) (system_count s f))"

definition system_lookups :: "api_host lookups \<Rightarrow> system_row lookups" where
  "system_lookups lk =
     \<lparr>lk_term = (\<lambda>neg f v s.
        case (case v of QAtom (AInt n) \<Rightarrow> count_lookup s f (nat n) | _ \<Rightarrow> None) of
          Some b \<Rightarrow> b \<noteq> neg
        | None \<Rightarrow> lk_term lk neg f v (sy_host s)),
      lk_tagged = (\<lambda>f ts org s. lk_tagged lk f ts org (sy_host s)),
      lk_disabled = (\<lambda>org s. lk_disabled lk org (sy_host s)),
      lk_resolution = (\<lambda>f v s. lk_resolution lk f v (sy_host s))\<rparr>"

definition system_filters :: "query_env \<Rightarrow> request \<Rightarrow> query_params \<Rightarrow> q py" where
  "system_filters qe rq query =
     py_bind (filter_on_rhel_version qe query []) (\<lambda>versions.
     py_bind (filter_on_display_name qe query []) (\<lambda>names.
     py_bind (filter_on_hits qe query) (\<lambda>hits.
     py_bind (filter_on_incident qe query) (\<lambda>incident.
     py_bind (filter_on_has_disabled_recommendation qe rq query) (\<lambda>disabled.
       Inr (conj_q [names, hits, incident, versions, disabled]))))))"

definition pathway_slug :: "query_env \<Rightarrow> query_params \<Rightarrow> string option py" where
  "pathway_slug qe query =
     py_bind (value_of_param qe pathway_query_param query) (\<lambda>v.
       Inr (case v of POne (AStr s) \<Rightarrow> Some s | _ \<Rightarrow> None))"

definition get_systems_queryset :: "api_env \<Rightarrow> api_request \<Rightarrow> api_db \<Rightarrow> system_row list py" where
  "get_systems_queryset ae ar db =
     (let qe = ae_query_env ae; query = aq_query ar in
      py_bind (get_reports_subquery ae ar (default_options\<lparr>ro_hosts := False\<rparr>) (\<lambda>_. True) db) (\<lambda>reports.
      py_bind (pathway_slug qe query) (\<lambda>slug.
      py_bind (hosts_for_account ae ar True True True db) (\<lambda>hosts.
      py_bind (system_filters qe (aq_request ar) query) (\<lambda>f.
        Inr (filter (\<lambda>s. (slug \<noteq> None \<and> slug \<noteq> Some [] \<longrightarrow> sy_pathway s > 0) \<and>
               q_holds (system_lookups (ae_host_lookups ae)) s f)
             (map (system_row_of db reports slug) hosts)))))))"

section \<open>Rules\<close>

record rule_row =
  rv_rule :: api_rule
  rv_reports_shown :: bool
  rv_status :: string
  rv_has_reports :: bool
  rv_impacted :: nat
  rv_hosts_acked :: nat
  rv_rating :: int

text \<open>The acknowledgement the filtered relation joins; the pair of rule and organisation is unique.\<close>

definition ack_of :: "api_db \<Rightarrow> string option \<Rightarrow> nat \<Rightarrow> api_ack option" where
  "ack_of db org rule = find (\<lambda>a. Some (ack_org a) = org \<and> ack_rule a = rule) (ad_acks db)"

definition rule_status :: "api_env \<Rightarrow> api_ack option \<Rightarrow> string" where
  "rule_status ae a = (case a of
     None \<Rightarrow> ''enabled''
   | Some x \<Rightarrow> if ack_created_by x = ae_autoack ae then ''rhdisabled'' else ''disabled'')"

text \<open>The host acknowledgements counted for a rule: of fresh hosts that have the tags and profile.\<close>

definition hostacks_q :: "api_env \<Rightarrow> api_request \<Rightarrow> q py" where
  "hostacks_q ae ar =
     py_bind (system_profile_filter (aq_query ar) ''host__advisor_inventory'') (\<lambda>profile.
     py_bind (filter_on_host_tags (ae_query_env ae) (aq_request ar) (aq_query ar) ''host_id'') (\<lambda>tags.
       Inr (conj_q [tags, profile])))"

definition hosts_acked_for_rule ::
  "api_env \<Rightarrow> api_hostack lookups \<Rightarrow> api_db \<Rightarrow> string option \<Rightarrow> q \<Rightarrow> nat \<Rightarrow> nat" where
  "hosts_acked_for_rule ae lk db org f rule =
     length (filter (\<lambda>a. q_holds lk a f \<and> stale_systems_q ae db (ha_org a) (ha_host a) \<and>
       Some (ha_org a) = org \<and> ha_rule a = rule) (ad_hostacks db))"

definition rating_of :: "api_db \<Rightarrow> json \<Rightarrow> nat \<Rightarrow> int" where
  "rating_of db username rule =
     (case find (\<lambda>g. rg_rule g = rule \<and> JStr (rg_by g) = username) (ad_ratings db) of
        None \<Rightarrow> 0 | Some g \<Rightarrow> rg_rating g)"

definition rules_for_account ::
  "api_env \<Rightarrow> api_hostack lookups \<Rightarrow> api_request \<Rightarrow> api_db \<Rightarrow> rule_row list py" where
  "rules_for_account ae lk ar db =
     py_bind (fst (request_to_username (aq_request ar))) (\<lambda>username.
     py_bind (get_reports_subquery ae ar (default_options\<lparr>ro_rules := False\<rparr>) (\<lambda>_. True) db) (\<lambda>reports.
     py_bind (auth_org ae (aq_request ar)) (\<lambda>org.
     py_bind (hostacks_q ae ar) (\<lambda>f.
       Inr (map (\<lambda>u.
         let rs = filter (\<lambda>r. rp_rule r = ar_pk u) reports; a = ack_of db org (ar_pk u) in
         \<lparr>rv_rule = u, rv_reports_shown = (a = None), rv_status = rule_status ae a,
          rv_has_reports = (rs \<noteq> []), rv_impacted = length rs,
          rv_hosts_acked = hosts_acked_for_rule ae lk db org f (ar_pk u),
          rv_rating = rating_of db username (ar_pk u)\<rparr>)
         (filter ar_active (ad_rules db)))))))"

section \<open>Pathways\<close>

text \<open>
  What \<open>PathwayManager.for_account\<close> collects of a pathway: the hosts with a report of one of its
  rules, of an incident, and of each risk.  Later the sets become counts.
\<close>

record pathway_hosts =
  ph_impacted :: "string list"
  ph_incidents :: "string list"
  ph_low :: "string list"
  ph_medium :: "string list"
  ph_high :: "string list"
  ph_critical :: "string list"

definition no_hosts :: pathway_hosts where
  "no_hosts = \<lparr>ph_impacted = [], ph_incidents = [], ph_low = [], ph_medium = [], ph_high = [], ph_critical = []\<rparr>"

text \<open>\<open>set.add\<close>\<close>

definition set_add :: "'a \<Rightarrow> 'a list \<Rightarrow> 'a list" where
  "set_add x xs = (if x \<in> set xs then xs else xs @ [x])"

text \<open>
  \<open>pathway_agg_data[pathway_id][total_risk_to_risk_name[risk]].add(host)\<close>: the first entry of
  the list of names is \<open>None\<close>, which is no key, and it ends at four.
\<close>

definition add_risk :: "nat \<Rightarrow> string \<Rightarrow> pathway_hosts \<Rightarrow> pathway_hosts py" where
  "add_risk risk host p =
     (if risk = 0 then Inl (KeyError ''None'')
      else if risk = 1 then Inr (p\<lparr>ph_low := set_add host (ph_low p)\<rparr>)
      else if risk = 2 then Inr (p\<lparr>ph_medium := set_add host (ph_medium p)\<rparr>)
      else if risk = 3 then Inr (p\<lparr>ph_high := set_add host (ph_high p)\<rparr>)
      else if risk = 4 then Inr (p\<lparr>ph_critical := set_add host (ph_critical p)\<rparr>)
      else Inl IndexError)"

type_synonym pathway_data = "(nat \<times> pathway_hosts) list"

definition pathway_entry :: "pathway_data \<Rightarrow> nat \<Rightarrow> pathway_hosts" where
  "pathway_entry d i = (case map_of d i of None \<Rightarrow> no_hosts | Some p \<Rightarrow> p)"

definition add_entry :: "api_rule \<Rightarrow> string \<Rightarrow> pathway_hosts \<Rightarrow> pathway_hosts py" where
  "add_entry rule host p =
     (let p = p\<lparr>ph_impacted := set_add host (ph_impacted p)\<rparr>;
          p = (if ''incident'' \<in> set (ar_tags rule) then p\<lparr>ph_incidents := set_add host (ph_incidents p)\<rparr> else p) in
      add_risk (ar_total_risk rule) host p)"

definition add_pathway_report :: "nat \<Rightarrow> api_rule \<Rightarrow> string \<Rightarrow> pathway_data \<Rightarrow> pathway_data py" where
  "add_pathway_report pathway rule host d =
     py_bind (add_entry rule host (pathway_entry d pathway)) (\<lambda>p. Inr (dict_set pathway p d))"

text \<open>The reports whose rule is in a pathway, each with its rule.\<close>

fun collect_pathways :: "api_db \<Rightarrow> api_report list \<Rightarrow> pathway_data \<Rightarrow> pathway_data py" where
  "collect_pathways db [] d = Inr d"
| "collect_pathways db (r # rs) d =
     (case rule_of db r of
        None \<Rightarrow> collect_pathways db rs d
      | Some u \<Rightarrow>
          (case ar_pathway u of
             None \<Rightarrow> collect_pathways db rs d
           | Some i \<Rightarrow> py_bind (add_pathway_report i u (rp_host r) d) (collect_pathways db rs)))"

record pathway_counts =
  pc_impacted :: nat
  pc_incidents :: nat
  pc_low :: nat
  pc_medium :: nat
  pc_high :: nat
  pc_critical :: nat
  pc_has_incident :: bool
  pc_reboot :: bool
  pc_level :: int

definition pathway_rules :: "api_db \<Rightarrow> nat \<Rightarrow> api_rule list" where
  "pathway_rules db i = filter (\<lambda>u. ar_pathway u = Some i) (ad_rules db)"

text \<open>\<open>Max('rule__total_risk')\<close> over all rules of the pathway.\<close>

definition max_risk :: "api_db \<Rightarrow> nat \<Rightarrow> int" where
  "max_risk db i = int (foldl max 0 (map ar_total_risk (pathway_rules db i)))"

definition pathway_counts_of :: "api_db \<Rightarrow> bool \<Rightarrow> nat \<Rightarrow> nat \<Rightarrow> pathway_hosts \<Rightarrow> pathway_counts" where
  "pathway_counts_of db impacting systems i p =
     (let impacted = length (ph_impacted p); incidents = length (ph_incidents p) in
      \<lparr>pc_impacted = impacted, pc_incidents = incidents, pc_low = length (ph_low p),
       pc_medium = length (ph_medium p), pc_high = length (ph_high p), pc_critical = length (ph_critical p),
       pc_has_incident = (incidents > 0),
       pc_reboot = (impacted > 0 \<and> list_ex ar_reboot (pathway_rules db i) \<and> impacting),
       pc_level = (if systems > 0
         then calculate_rec_level (of_nat impacted / of_nat systems) (incidents > 0) (max_risk db i)
         else 0)\<rparr>)"

type_synonym pathway_agg = "(nat \<times> pathway_counts) list"

text \<open>
  \<open>pathway_agg_case\<close>: the value of a field for each pathway, with the data it leaves.  A single
  entry is taken out of the dictionary with \<open>popitem\<close>; when all entries agree, their value
  stands for every pathway; a \<open>Case\<close> without branches is its default.
\<close>

definition pathway_agg_case ::
  "(pathway_counts \<Rightarrow> 'v) \<Rightarrow> 'v \<Rightarrow> pathway_agg \<Rightarrow> (nat \<Rightarrow> 'v) \<times> pathway_agg" where
  "pathway_agg_case field dflt d =
     (case d of
        [(_, c)] \<Rightarrow> ((\<lambda>_. field c), [])
      | _ \<Rightarrow>
          (case remdups (map (\<lambda>(_, c). field c) d) of
             [v] \<Rightarrow> ((\<lambda>_. v), d)
           | _ \<Rightarrow>
               ((\<lambda>i. case map_of (filter (\<lambda>(_, c). field c \<noteq> dflt) d) i of
                   None \<Rightarrow> dflt | Some c \<Rightarrow> field c), d)))"

record pathway_row =
  pr_pathway :: api_pathway
  pr_total :: nat
  pr_impacted :: nat
  pr_reboot :: bool
  pr_incidents :: nat
  pr_has_incident :: bool
  pr_level :: int
  pr_critical :: nat
  pr_high :: nat
  pr_medium :: nat
  pr_low :: nat

text \<open>The annotations, in the order of the keyword arguments.\<close>

definition annotate_pathways :: "nat \<Rightarrow> pathway_agg \<Rightarrow> api_pathway \<Rightarrow> pathway_row" where
  "annotate_pathways systems d p =
     (let (impacted, d) = pathway_agg_case pc_impacted 0 d;
          (reboot, d) = pathway_agg_case pc_reboot False d;
          (incidents, d) = pathway_agg_case pc_incidents 0 d;
          (has_incident, d) = pathway_agg_case pc_has_incident False d;
          (level, d) = pathway_agg_case pc_level 0 d;
          (critical, d) = pathway_agg_case pc_critical 0 d;
          (high, d) = pathway_agg_case pc_high 0 d;
          (medium, d) = pathway_agg_case pc_medium 0 d;
          (low, d) = pathway_agg_case pc_low 0 d in
      \<lparr>pr_pathway = p, pr_total = systems, pr_impacted = impacted (pw_id p), pr_reboot = reboot (pw_id p),
       pr_incidents = incidents (pw_id p), pr_has_incident = has_incident (pw_id p), pr_level = level (pw_id p),
       pr_critical = critical (pw_id p), pr_high = high (pw_id p), pr_medium = medium (pw_id p),
       pr_low = low (pw_id p)\<rparr>)"

definition published :: "api_env \<Rightarrow> api_pathway \<Rightarrow> bool" where
  "published ae p = (case pw_published p of None \<Rightarrow> False | Some t \<Rightarrow> t \<le> ae_now ae)"

definition pathways_for_account ::
  "api_env \<Rightarrow> api_request \<Rightarrow> bool \<Rightarrow> api_db \<Rightarrow> pathway_row list py" where
  "pathways_for_account ae ar impacting db =
     py_bind (get_reports_subquery ae ar default_options (of_rule db (\<lambda>u. ar_pathway u \<noteq> None)) db) (\<lambda>reports.
     py_bind (collect_pathways db reports []) (\<lambda>data.
       if data = [] then Inr []
       else py_bind (get_systems_queryset ae ar db) (\<lambda>systems.
         let n = length systems;
             agg = map (\<lambda>(i, p). (i, pathway_counts_of db impacting n i p)) data in
         Inr (map (annotate_pathways n agg)
           (filter (\<lambda>p. (impacting \<longrightarrow> pw_id p \<in> set (map fst data)) \<and> published ae p) (ad_pathways db))))))"

end
