(* ===== verification/Ack_Views.thy ===== *)
theory Ack_Views
  imports Account_Views
begin

text \<open>
  Disabling rules: acknowledgements of a rule for an organisation (\<open>api/views/acks.py\<close>), on one
  host (\<open>api/views/hostacks.py\<close>) and on many (\<open>ack_hosts\<close> and \<open>unack_hosts\<close> of
  \<open>api/views/rules.py\<close>), the list of disabled rules (\<open>api/views/disabled_rules.py\<close>) and the
  ratings of rules (\<open>api/views/rule_ratings.py\<close>).  A request body is given by the fields the
  serializer has converted; the conditions the code declares for them are checked here.  A view is
  no transaction: \<open>ATOMIC_REQUESTS\<close> stands outside \<open>DATABASES\<close>, where Django does not read it.
\<close>

section \<open>What a request gives\<close>

definition not_null :: "string option \<Rightarrow> string py" where
  "not_null v = (case v of None \<Rightarrow> Inl IntegrityError | Some s \<Rightarrow> Inr s)"

text \<open>\<open>request.account\<close>, an attribute the authentication sets.\<close>

definition account_of :: "api_env \<Rightarrow> request \<Rightarrow> string option py" where
  "account_of ae rq = (case rq_account rq of None \<Rightarrow> Inl AttributeError | Some v \<Rightarrow> Inr (column_text ae v))"

definition username_of :: "api_env \<Rightarrow> request \<Rightarrow> string option py" where
  "username_of ae rq = py_bind (fst (request_to_username rq)) (\<lambda>v. Inr (column_text ae v))"

record ack_author =
  aw_org :: string
  aw_account :: "string option"
  aw_user :: string

definition ack_author_of :: "api_env \<Rightarrow> request \<Rightarrow> ack_author py" where
  "ack_author_of ae rq =
     py_bind (auth_org ae rq) (\<lambda>org.
     py_bind (account_of ae rq) (\<lambda>account.
     py_bind (username_of ae rq) (\<lambda>user.
     py_bind (not_null org) (\<lambda>org.
     py_bind (not_null user) (\<lambda>user.
       Inr \<lparr>aw_org = org, aw_account = account, aw_user = user\<rparr>)))))"

text \<open>The lengths of the columns.\<close>

definition fits_columns :: "ack_author \<Rightarrow> string \<Rightarrow> bool" where
  "fits_columns w justification \<longleftrightarrow>
     length (aw_org w) \<le> 50 \<and> (case aw_account w of None \<Rightarrow> True | Some a \<Rightarrow> length a \<le> 10) \<and>
     length (aw_user w) \<le> 255 \<and> length justification \<le> 255"

definition data_error :: pyexn where
  "data_error = Exn ''DataError''"

definition justification_ok :: "string option \<Rightarrow> string py" where
  "justification_ok j =
     (case j of None \<Rightarrow> Inr [] | Some s \<Rightarrow> if length s \<le> 255 then Inr s else Inl ValidationError)"

section \<open>Insert or update\<close>

text \<open>
  \<open>update_or_create\<close> on a table: the row the lookup finds is updated; none found, the new row is
  inserted unless a constraint forbids it (the lookup after the failed insert finds nothing either,
  and the error is raised); the check of the row written comes first in both cases.
\<close>

definition update_or_create ::
  "('r \<Rightarrow> bool) \<Rightarrow> ('r \<Rightarrow> 'r) \<Rightarrow> 'r \<Rightarrow> bool \<Rightarrow> bool \<Rightarrow> 'r list \<Rightarrow> ('r \<times> bool) py \<times> 'r list" where
  "update_or_create found upd new fits allowed rows =
     (case filter found rows of
        [] \<Rightarrow>
          if \<not> fits then (Inl data_error, rows)
          else if \<not> allowed then (Inl IntegrityError, rows)
          else (Inr (new, True), rows @ [new])
      | [r] \<Rightarrow>
          if \<not> fits then (Inl data_error, rows)
          else (Inr (upd r, False), map (\<lambda>x. if found x then upd x else x) rows)
      | _ \<Rightarrow> (Inl (Exn ''MultipleObjectsReturned''), rows))"

definition find_rule :: "string \<Rightarrow> api_db \<Rightarrow> api_rule option" where
  "find_rule rule_id db = find (\<lambda>u. ar_rule_id u = rule_id) (ad_rules db)"

section \<open>Acknowledgements of a rule\<close>

definition put_acks :: "api_ack list \<Rightarrow> api_db \<Rightarrow> api_db" where
  "put_acks acks db = db\<lparr>ad_acks := acks, ad_next := ad_next db + 1\<rparr>"

definition put_hostacks :: "api_hostack list \<Rightarrow> api_db \<Rightarrow> api_db" where
  "put_hostacks acks db = db\<lparr>ad_hostacks := acks, ad_next := ad_next db + 1\<rparr>"

definition save_ack :: "ack_author \<Rightarrow> nat \<Rightarrow> string \<Rightarrow> (api_db, api_ack \<times> bool) act" where
  "save_ack w rule justification = (\<lambda>db.
     let new = \<lparr>ack_id = ad_next db, ack_rule = rule, ack_org = aw_org w, ack_account = aw_account w,
                ack_justification = justification, ack_created_by = aw_user w\<rparr>;
         (res, acks) = update_or_create (\<lambda>a. ack_org a = aw_org w \<and> ack_rule a = rule)
           (\<lambda>a. a\<lparr>ack_account := aw_account w, ack_justification := justification, ack_created_by := aw_user w\<rparr>)
           new (fits_columns w justification) True (ad_acks db) in
     (res, put_acks acks db))"

definition create_ack ::
  "api_env \<Rightarrow> api_request \<Rightarrow> string \<Rightarrow> string option \<Rightarrow> (api_db, api_ack) act" where
  "create_ack ae ar rule_id justification =
     a_bind (a_lift (if length rule_id \<le> 240 then Inr () else Inl ValidationError)) (\<lambda>_.
     a_bind (a_get (find_rule rule_id)) (\<lambda>rule. case rule of
        None \<Rightarrow> a_raise ValidationError
      | Some u \<Rightarrow>
          a_bind (a_lift (justification_ok justification)) (\<lambda>j.
          a_bind (a_lift (ack_author_of ae (aq_request ar))) (\<lambda>w.
          a_bind (save_ack w (ar_pk u) j) (\<lambda>(a, _). a_ret a)))))"

text \<open>The acknowledgements the view set shows: of the caller's organisation, for active rules.\<close>

definition live_rule :: "api_db \<Rightarrow> nat \<Rightarrow> bool" where
  "live_rule db pk \<longleftrightarrow> list_ex (\<lambda>u. ar_pk u = pk \<and> ar_active u \<and> \<not> ar_deleted u) (ad_rules db)"

definition ack_for_rule :: "api_db \<Rightarrow> string option \<Rightarrow> string \<Rightarrow> api_ack \<Rightarrow> bool" where
  "ack_for_rule db org rule_id a \<longleftrightarrow>
     Some (ack_org a) = org \<and> live_rule db (ack_rule a) \<and>
     list_ex (\<lambda>u. ar_pk u = ack_rule a \<and> ar_rule_id u = rule_id) (ad_rules db)"

definition get_ack :: "api_env \<Rightarrow> api_request \<Rightarrow> string \<Rightarrow> (api_db, api_ack) act" where
  "get_ack ae ar rule_id =
     a_bind (a_lift (auth_org ae (aq_request ar))) (\<lambda>org.
     a_bind (a_get (\<lambda>db. find (ack_for_rule db org rule_id) (ad_acks db))) (\<lambda>a. case a of
        None \<Rightarrow> a_raise Http404 | Some x \<Rightarrow> a_ret x))"

definition user_text :: "api_env \<Rightarrow> request \<Rightarrow> string py" where
  "user_text ae rq =
     py_bind (username_of ae rq) (\<lambda>u. py_bind (not_null u) (\<lambda>u.
       if length u \<le> 255 then Inr u else Inl data_error))"

definition update_ack :: "api_env \<Rightarrow> api_request \<Rightarrow> string \<Rightarrow> string option \<Rightarrow> (api_db, api_ack) act" where
  "update_ack ae ar rule_id justification =
     a_bind (a_lift (justification_ok justification)) (\<lambda>j.
     a_bind (get_ack ae ar rule_id) (\<lambda>a.
     a_bind (a_lift (user_text ae (aq_request ar))) (\<lambda>user.
       let b = a\<lparr>ack_justification := j, ack_created_by := user\<rparr> in
       a_then (a_upd (\<lambda>db. db\<lparr>ad_acks := map (\<lambda>x. if ack_id x = ack_id a then b else x) (ad_acks db)\<rparr>))
         (a_ret b))))"

definition destroy_ack :: "api_env \<Rightarrow> api_request \<Rightarrow> string \<Rightarrow> (api_db, unit) act" where
  "destroy_ack ae ar rule_id =
     a_bind (get_ack ae ar rule_id) (\<lambda>a.
       a_upd (\<lambda>db. db\<lparr>ad_acks := filter (\<lambda>x. ack_id x \<noteq> ack_id a) (ad_acks db)\<rparr>))"

text \<open>\<open>all\<close>: those of every organisation but the automatic ones.\<close>

definition all_acks :: "api_env \<Rightarrow> api_db \<Rightarrow> api_ack list" where
  "all_acks ae db =
     filter (\<lambda>a. rule_active db (ack_rule a) \<and> ack_created_by a \<noteq> ae_autoack ae) (ad_acks db)"

text \<open>\<open>AckCountViewSet\<close>\<close>

definition ack_count :: "api_db \<Rightarrow> string \<Rightarrow> nat py" where
  "ack_count db rule_id =
     (case find (\<lambda>u. ar_rule_id u = rule_id \<and> ar_active u) (ad_rules db) of
        None \<Rightarrow> Inl Http404
      | Some u \<Rightarrow> Inr (length (filter (\<lambda>a. ack_rule a = ar_pk u) (ad_acks db))))"

section \<open>Acknowledgements on a host\<close>

definition new_hostack :: "ack_author \<Rightarrow> nat \<Rightarrow> string \<Rightarrow> string \<Rightarrow> nat \<Rightarrow> api_hostack" where
  "new_hostack w rule host justification i =
     \<lparr>ha_id = i, ha_rule = rule, ha_host = host, ha_org = aw_org w, ha_account = aw_account w,
      ha_justification = justification, ha_created_by = aw_user w\<rparr>"

definition same_hostack :: "api_hostack \<Rightarrow> api_hostack \<Rightarrow> bool" where
  "same_hostack a b \<longleftrightarrow> ha_rule a = ha_rule b \<and> ha_host a = ha_host b \<and> ha_org a = ha_org b"

text \<open>An insert needs the host's row, and no row for the same rule, organisation and host.\<close>

definition hostack_allowed :: "api_db \<Rightarrow> api_hostack \<Rightarrow> bool" where
  "hostack_allowed db a \<longleftrightarrow> ha_host a \<in> set (host_ids db) \<and> \<not> list_ex (same_hostack a) (ad_hostacks db)"

text \<open>The host acknowledgements of the view set: for active rules and fresh hosts.\<close>

definition hostack_shown :: "api_env \<Rightarrow> api_db \<Rightarrow> string \<Rightarrow> api_hostack \<Rightarrow> bool" where
  "hostack_shown ae db org a \<longleftrightarrow>
     live_rule db (ha_rule a) \<and> stale_systems_q ae db org (ha_host a) \<and> ha_org a = org"

text \<open>The organisation of the queryset: \<open>''\<close> when there is none.\<close>

definition queryset_org :: "api_env \<Rightarrow> request \<Rightarrow> string py" where
  "queryset_org ae rq =
     py_bind (request_to_org rq) (\<lambda>v. Inr (case column_text ae v of None \<Rightarrow> [] | Some s \<Rightarrow> s))"

definition create_hostack ::
  "api_env \<Rightarrow> api_request \<Rightarrow> string \<Rightarrow> string \<Rightarrow> string option \<Rightarrow> (api_db, api_hostack) act" where
  "create_hostack ae ar rule_id host justification =
     a_bind (a_get (find_rule rule_id)) (\<lambda>rule.
       if (case rule of None \<Rightarrow> True | Some u \<Rightarrow> \<not> ar_active u) then a_raise ValidationError
       else
         a_bind (a_lift (justification_ok justification)) (\<lambda>j.
         a_bind (a_lift (queryset_org ae (aq_request ar))) (\<lambda>org.
         a_bind (a_lift (ack_author_of ae (aq_request ar))) (\<lambda>w. (\<lambda>db.
           let new = new_hostack w (ar_pk (the rule)) host j (ad_next db);
               (res, acks) = update_or_create (\<lambda>a. same_hostack new a \<and> hostack_shown ae db org a)
                 (\<lambda>a. a\<lparr>ha_account := aw_account w, ha_justification := j, ha_created_by := aw_user w\<rparr>)
                 new (fits_columns w j) (hostack_allowed db new) (ad_hostacks db) in
           (map_sum id fst res, put_hostacks acks db))))))"

definition get_hostack :: "api_env \<Rightarrow> api_request \<Rightarrow> nat \<Rightarrow> (api_db, api_hostack) act" where
  "get_hostack ae ar pk =
     a_bind (a_lift (queryset_org ae (aq_request ar))) (\<lambda>org.
     a_bind (a_get (\<lambda>db. find (\<lambda>a. ha_id a = pk \<and> hostack_shown ae db org a) (ad_hostacks db))) (\<lambda>a. case a of
        None \<Rightarrow> a_raise Http404 | Some x \<Rightarrow> a_ret x))"

definition update_hostack :: "api_env \<Rightarrow> api_request \<Rightarrow> nat \<Rightarrow> string option \<Rightarrow> (api_db, api_hostack) act" where
  "update_hostack ae ar pk justification =
     a_bind (get_hostack ae ar pk) (\<lambda>a.
     a_bind (a_lift (justification_ok justification)) (\<lambda>j.
     a_bind (a_lift (user_text ae (aq_request ar))) (\<lambda>user.
       let b = a\<lparr>ha_justification := j, ha_created_by := user\<rparr> in
       a_then (a_upd (\<lambda>db. db\<lparr>ad_hostacks := map (\<lambda>x. if ha_id x = ha_id a then b else x) (ad_hostacks db)\<rparr>))
         (a_ret b))))"

definition destroy_hostack :: "api_env \<Rightarrow> api_request \<Rightarrow> nat \<Rightarrow> (api_db, unit) act" where
  "destroy_hostack ae ar pk =
     a_bind (get_hostack ae ar pk) (\<lambda>a.
       a_upd (\<lambda>db. db\<lparr>ad_hostacks := filter (\<lambda>x. ha_id x \<noteq> ha_id a) (ad_hostacks db)\<rparr>))"

section \<open>Many hosts at once\<close>

text \<open>\<open>RuleViewSet.get_object\<close>: the rule must be active.\<close>

definition get_rule :: "api_env \<Rightarrow> api_hostack lookups \<Rightarrow> api_request \<Rightarrow> string \<Rightarrow> (api_db, api_rule) act" where
  "get_rule ae lk ar rule_id = (\<lambda>db.
     (py_bind (rules_for_account ae lk ar db) (\<lambda>rows.
        case find (\<lambda>v. ar_rule_id (rv_rule v) = rule_id) rows of
          None \<Rightarrow> Inl Http404 | Some v \<Rightarrow> Inr (rv_rule v)), db))"

text \<open>\<open>validate_hosts_in_org\<close>\<close>

definition validate_hosts_in_org :: "string list \<Rightarrow> string option \<Rightarrow> api_db \<Rightarrow> unit py" where
  "validate_hosts_in_org hosts org db =
     (if list_all (\<lambda>u. list_ex (\<lambda>h. ih_id h = u \<and> Some (ih_org h) = org) (ad_inventory db)) hosts
      then Inr () else Inl ValidationError)"

text \<open>The account is part of the lookup here.\<close>

definition ack_host :: "ack_author \<Rightarrow> nat \<Rightarrow> string \<Rightarrow> string \<Rightarrow> (api_db, bool) act" where
  "ack_host w rule justification host = (\<lambda>db.
     let new = new_hostack w rule host justification (ad_next db);
         (res, acks) = update_or_create (\<lambda>a. same_hostack new a \<and> ha_account a = aw_account w)
           (\<lambda>a. a\<lparr>ha_justification := justification, ha_created_by := aw_user w\<rparr>)
           new (fits_columns w justification) (hostack_allowed db new) (ad_hostacks db) in
     (map_sum id snd res, put_hostacks acks db))"

fun ack_each :: "ack_author \<Rightarrow> nat \<Rightarrow> string \<Rightarrow> string list \<Rightarrow> (api_db, nat) act" where
  "ack_each w rule justification [] = a_ret 0"
| "ack_each w rule justification (host # hosts) =
     a_bind (ack_host w rule justification host) (\<lambda>created.
     a_bind (ack_each w rule justification hosts) (\<lambda>n. a_ret (if created then Suc n else n)))"

fun insert_text :: "string \<Rightarrow> string list \<Rightarrow> string list" where
  "insert_text s [] = [s]"
| "insert_text s (t # ts) = (if str_less t s then t # insert_text s ts else s # t # ts)"

definition impacted_hosts :: "api_env \<Rightarrow> api_request \<Rightarrow> api_rule \<Rightarrow> api_db \<Rightarrow> string list py" where
  "impacted_hosts ae ar u db =
     py_bind (reports_for_account ae ar u db) (\<lambda>rs. Inr (foldr insert_text (map rp_host rs) []))"

text \<open>The author is computed in the loop, so without hosts nothing of it is asked but the name.\<close>

definition ack_all ::
  "api_env \<Rightarrow> request \<Rightarrow> nat \<Rightarrow> string \<Rightarrow> string list \<Rightarrow> (api_db, nat) act" where
  "ack_all ae rq rule justification hosts =
     a_bind (a_lift (username_of ae rq)) (\<lambda>_.
       if hosts = [] then a_ret 0
       else a_bind (a_lift (ack_author_of ae rq)) (\<lambda>w. ack_each w rule justification hosts))"

definition ack_hosts ::
  "api_env \<Rightarrow> api_hostack lookups \<Rightarrow> api_request \<Rightarrow> string \<Rightarrow> string list \<Rightarrow> string \<Rightarrow>
     (api_db, nat \<times> string list) act" where
  "ack_hosts ae lk ar rule_id hosts justification =
     a_bind (get_rule ae lk ar rule_id) (\<lambda>u.
     a_bind (a_lift (justification_ok (Some justification))) (\<lambda>j.
     a_bind (a_lift (auth_org ae (aq_request ar))) (\<lambda>org.
     a_bind (\<lambda>db. (validate_hosts_in_org hosts org db, db)) (\<lambda>_.
     a_bind (ack_all ae (aq_request ar) (ar_pk u) j hosts) (\<lambda>n.
     a_bind (\<lambda>db. (impacted_hosts ae ar u db, db)) (\<lambda>hs. a_ret (n, hs)))))))"

definition unack_hosts ::
  "api_env \<Rightarrow> api_hostack lookups \<Rightarrow> api_request \<Rightarrow> string \<Rightarrow> string list \<Rightarrow> (api_db, nat \<times> string list) act" where
  "unack_hosts ae lk ar rule_id hosts =
     a_bind (get_rule ae lk ar rule_id) (\<lambda>u.
     a_bind (a_lift (auth_org ae (aq_request ar))) (\<lambda>org.
     a_bind (\<lambda>db. (validate_hosts_in_org hosts org db, db)) (\<lambda>_.
       let gone = (\<lambda>a. ha_rule a = ar_pk u \<and> Some (ha_org a) = org \<and> ha_host a \<in> set hosts) in
       a_bind (a_get (\<lambda>db. length (filter gone (ad_hostacks db)))) (\<lambda>n.
       a_then (a_upd (\<lambda>db. db\<lparr>ad_hostacks := filter (\<lambda>a. \<not> gone a) (ad_hostacks db)\<rparr>))
         (a_bind (\<lambda>db. (impacted_hosts ae ar u db, db)) (\<lambda>hs. a_ret (n, hs)))))))"

section \<open>Disabled rules\<close>

text \<open>
  The union of both queries without duplicates, by rule id and scope: \<open>account\<close> sorts before
  \<open>system\<close>.
\<close>

definition disabled_ids :: "api_db \<Rightarrow> nat list \<Rightarrow> string list" where
  "disabled_ids db pks = map ar_rule_id (filter (\<lambda>u. ar_active u \<and> ar_pk u \<in> set pks) (ad_rules db))"

definition disabled_rule_list :: "api_env \<Rightarrow> api_request \<Rightarrow> api_db \<Rightarrow> (string \<times> string) list py" where
  "disabled_rule_list ae ar db =
     py_bind (queryset_org ae (aq_request ar)) (\<lambda>org.
       let acked = disabled_ids db (map ack_rule (filter (\<lambda>a. ack_org a = org) (ad_acks db)));
           hostacked = disabled_ids db (map ha_rule (filter (\<lambda>a. ha_org a = org) (ad_hostacks db))) in
       Inr (concat (map (\<lambda>i. (if i \<in> set acked then [(i, ''account'')] else []) @
                             (if i \<in> set hostacked then [(i, ''system'')] else []))
         (remdups_adj (foldr insert_text (acked @ hostacked) [])))))"

definition disabled_scope :: "api_env \<Rightarrow> api_request \<Rightarrow> string \<Rightarrow> api_db \<Rightarrow> string py" where
  "disabled_scope ae ar rule_id db =
     py_bind (queryset_org ae (aq_request ar)) (\<lambda>org.
       let of_id = (\<lambda>pk. list_ex (\<lambda>u. ar_pk u = pk \<and> ar_active u \<and> ar_rule_id u = rule_id) (ad_rules db)) in
       if list_ex (\<lambda>a. ack_org a = org \<and> of_id (ack_rule a)) (ad_acks db) then Inr ''account''
       else if list_ex (\<lambda>a. ha_org a = org \<and> of_id (ha_rule a)) (ad_hostacks db) then Inr ''system''
       else Inl Http404)"

section \<open>Ratings\<close>

definition put_ratings :: "api_rating list \<Rightarrow> api_db \<Rightarrow> api_db" where
  "put_ratings ratings db = db\<lparr>ad_ratings := ratings\<rparr>"

text \<open>The queryset holds the ratings of the user; a rating is unique for the rule and the user.\<close>

definition create_rating :: "api_env \<Rightarrow> api_request \<Rightarrow> string \<Rightarrow> int \<Rightarrow> (api_db, api_rating \<times> bool) act" where
  "create_rating ae ar rule_id rating =
     a_bind (a_lift (username_of ae (aq_request ar))) (\<lambda>_.
     a_bind (a_get (find_rule rule_id)) (\<lambda>rule.
       if (case rule of None \<Rightarrow> True | Some u \<Rightarrow> \<not> ar_active u) \<or> rating \<notin> {-1, 0, 1} then a_raise ValidationError
       else
         a_bind (a_lift (ack_author_of ae (aq_request ar))) (\<lambda>w. (\<lambda>db.
         let pk = ar_pk (the rule);
             new = \<lparr>rg_rule = pk, rg_by = aw_user w, rg_account = aw_account w, rg_org = aw_org w, rg_rating = rating\<rparr>;
             (res, ratings) = update_or_create (\<lambda>g. rg_rule g = pk \<and> rg_by g = aw_user w)
               (\<lambda>g. g\<lparr>rg_account := aw_account w, rg_org := aw_org w, rg_rating := rating\<rparr>)
               new (fits_columns w []) True (ad_ratings db) in
         (res, put_ratings ratings db)))))"

text \<open>\<open>stats\<close>: the number of ratings of a rule, of likes and of dislikes.\<close>

definition rating_stats :: "api_db \<Rightarrow> nat \<Rightarrow> nat \<times> nat \<times> nat" where
  "rating_stats db rule =
     (let gs = filter (\<lambda>g. rg_rule g = rule) (ad_ratings db) in
      (length gs, length (filter (\<lambda>g. rg_rating g = 1) gs), length (filter (\<lambda>g. rg_rating g = -1) gs)))"

end
