(* ===== verification/Query_Safety.thy ===== *)
theory Query_Safety
  imports Query_Filters
begin

text \<open>
  What the reading of parameters guarantees: which exceptions a declared parameter can raise and
  that its values are among those declared, that names of structured filters and tags are read back
  as they are written, which structured filters raise an exception nobody expects, and that the
  names of host groups in a query only narrow what RBAC allows.
\<close>

section \<open>Names of structured filters\<close>

definition is_word_text :: "string \<Rightarrow> bool" where
  "is_word_text w \<longleftrightarrow> w \<noteq> [] \<and> list_all is_word w"

definition in_brackets :: "string \<Rightarrow> string" where
  "in_brackets w = CHR ''['' # w @ '']''"

definition filter_text :: "string \<Rightarrow> string list \<Rightarrow> string" where
  "filter_text name ws = name @ concat (map in_brackets ws)"

lemma not_word [simp]: "\<not> is_word (CHR ''['')" "\<not> is_word (CHR '']'')"
  by (simp_all add: is_word_def is_digit_def Let_def)

lemma word_span:
  "list_all is_word w \<Longrightarrow> \<not> is_word c \<Longrightarrow>
     takeWhile is_word (w @ c # t) = w \<and> dropWhile is_word (w @ c # t) = c # t"
  by (induction w) auto

lemma bracket_word_in_brackets:
  "is_word_text w \<Longrightarrow> bracket_word (in_brackets w @ t) = Some (w, t)"
  using word_span [of w "CHR '']''" t]
  by (simp add: bracket_word_def in_brackets_def is_word_text_def)

lemma bracket_words_print:
  assumes "list_all is_word_text ws" "bracket_word rest = None"
  shows "bracket_words (concat (map in_brackets ws) @ rest) = (ws, rest)"
  using assms(1)
proof (induction ws)
  case Nil
  then show ?case using assms(2) by (simp add: bracket_words.simps [of rest])
next
  case (Cons w ws)
  then show ?case
    by (simp add: bracket_words.simps [of "in_brackets w @ _"] bracket_word_in_brackets)
qed

lemma filter_name_print:
  assumes "is_word_text name" "list_all is_word_text ws" "ws \<noteq> []" "rest \<in> set ['''', ''[]'']"
  shows "filter_name (filter_text name ws @ rest) = Some ws"
proof -
  obtain w ws' where ws: "ws = w # ws'" using assms(3) by (cases ws) auto
  obtain t where t: "concat (map in_brackets ws) @ rest = CHR ''['' # t"
    by (simp add: ws in_brackets_def)
  have span: "takeWhile is_word (filter_text name ws @ rest) = name"
    "dropWhile is_word (filter_text name ws @ rest) = concat (map in_brackets ws) @ rest"
    using word_span [of name "CHR ''[''" t] assms(1) t by (simp_all add: filter_text_def is_word_text_def)
  have "bracket_word rest = None"
    using assms(4) by (auto simp: bracket_word_def)
  then have "bracket_words (concat (map in_brackets ws) @ rest) = (ws, rest)"
    by (rule bracket_words_print [OF assms(2)])
  moreover have "without_newline rest = rest"
    using assms(4) by (auto simp: without_newline_def newline_def)
  ultimately show ?thesis
    using assms by (simp add: filter_name_def span is_word_text_def)
qed

lemma bracket_word_Some:
  "bracket_word s = Some (w, r) \<Longrightarrow> is_word_text w \<and> s = in_brackets w @ r"
proof (cases s)
  case (Cons c t)
  assume b: "bracket_word s = Some (w, r)"
  then have c: "c = CHR ''[''" "w = takeWhile is_word t" "w \<noteq> []" "prefix '']'' (dropWhile is_word t)"
    "r = tl (dropWhile is_word t)"
    by (simp_all add: bracket_word_def Cons split: if_splits)
  from c(4,5) have "dropWhile is_word t = CHR '']'' # r"
    by (cases "dropWhile is_word t") auto
  then have "t = w @ CHR '']'' # r"
    using takeWhile_dropWhile_id [of is_word t] c(2) by simp
  then have "s = in_brackets w @ r"
    using c(1) Cons by (simp add: in_brackets_def)
  moreover have "list_all is_word w"
    unfolding c(2) list_all_iff by (blast dest: set_takeWhileD)
  ultimately show ?thesis using c(3) by (simp add: is_word_text_def)
qed (simp add: bracket_word_def)

lemma bracket_words_Some:
  "bracket_words s = (ws, r) \<Longrightarrow> list_all is_word_text ws \<and> s = concat (map in_brackets ws) @ r"
proof (induction s arbitrary: ws r rule: bracket_words.induct)
  case (1 s)
  show ?case
  proof (cases "bracket_word s")
    case None
    with "1.prems" show ?thesis by (simp add: bracket_words.simps [of s])
  next
    case (Some p)
    obtain w t where p: "p = (w, t)" by (cases p)
    obtain vs u where u: "bracket_words t = (vs, u)" by (cases "bracket_words t")
    have "ws = w # vs" "r = u"
      using "1.prems" Some p u by (simp_all add: bracket_words.simps [of s])
    with "1.IH" [OF Some p [symmetric] u] bracket_word_Some [OF Some [unfolded p]] p show ?thesis by simp
  qed
qed

section \<open>Numbers\<close>

lemma digit_not_special:
  "is_digit c \<Longrightarrow> \<not> is_space c \<and> c \<noteq> CHR ''-'' \<and> c \<noteq> CHR ''+'' \<and> c \<noteq> CHR ''_'' \<and> c \<noteq> CHR ''.''"
  by (auto simp: is_digit_def is_space_def Let_def)

lemma strip_digits: "list_all is_digit s \<Longrightarrow> str_strip s = s"
proof -
  have drop: "dropWhile is_space t = t" if "list_all is_digit t" for t
    using that by (cases t) (auto dest: digit_not_special)
  assume "list_all is_digit s"
  then show ?thesis by (simp add: str_strip_def drop)
qed

lemma py_int_digits:
  assumes "str_isdigit s"
  shows "py_int s = (if length s \<le> 4300 then Some (digits_value 0 s) else None)"
proof -
  obtain c r where s: "s = c # r" "is_digit c" and all: "list_all is_digit s"
    using assms by (cases s) (auto simp: str_isdigit_def)
  then have "CHR ''_'' \<notin> set s"
    by (auto simp: list_all_iff dest: digit_not_special)
  then have "split_on (CHR ''_'') s = [s]"
    by (rule split_on_id)
  then have "digit_groups s = (if length s \<le> 4300 then Some (digits_value 0 s) else None)"
    using assms by (simp add: digit_groups_def)
  then show ?thesis
    unfolding py_int_def strip_digits [OF all] using digit_not_special [OF s(2)] by (simp add: s(1))
qed

lemma bool_text_no_digits: "is_bool_text s \<Longrightarrow> \<not> str_isdigit s"
  by (auto simp: is_bool_text_def str_isdigit_def is_digit_def Let_def)

section \<open>Comparisons\<close>

definition comparisons :: "string list" where
  "comparisons = [''eq'', ''ne'', ''gt'', ''gte'', ''lt'', ''lte'']"

lemma last_redirect:
  assumes "operator \<in> set comparisons"
  shows "last (redirect_workloads ''system_profile'' (''system_profile'' # ws @ [operator])) = operator"
    and "length (redirect_workloads ''system_profile'' (''system_profile'' # ws @ [operator])) \<ge> 2"
proof -
  have n: "operator \<noteq> ''sap_sids''" using assms by (auto simp: comparisons_def)
  show "last (redirect_workloads ''system_profile'' (''system_profile'' # ws @ [operator])) = operator"
    "length (redirect_workloads ''system_profile'' (''system_profile'' # ws @ [operator])) \<ge> 2"
    using n by (cases ws; simp add: redirect_workloads_def Let_def)+
qed

lemma last_remap:
  assumes "last parts = operator" "length parts \<ge> 2" "operator \<in> set comparisons"
  shows "remap_parts parts \<noteq> [] \<and> last (remap_parts parts) = operator"
proof -
  obtain a b r where p: "parts = a # b # r"
    using assms(2) by (cases parts; cases "tl parts") auto
  have n: "operator \<noteq> ''major'' \<and> operator \<noteq> ''minor'' \<and> operator \<noteq> ''name''"
    using assms(3) by (auto simp: comparisons_def)
  show ?thesis
  proof (cases r)
    case Nil
    then show ?thesis using assms(1) by (simp add: p remap_parts_def)
  next
    case (Cons c r')
    then show ?thesis using assms(1) n by (cases r') (auto simp: p remap_parts_def Let_def)
  qed
qed

lemma comparison_plan:
  assumes "operator \<in> set comparisons"
  obtains fp where
    "plan_filter ''system_profile'' True (''system_profile'' # ws @ [operator]) = Inr fp"
    "fp_operator fp = operator"
proof -
  define parts where "parts = remap_parts (redirect_workloads ''system_profile'' (''system_profile'' # ws @ [operator]))"
  have parts: "parts \<noteq> []" "last parts = operator"
    using last_remap [OF last_redirect [OF assms] assms] by (simp_all add: parts_def)
  have "operator \<noteq> ''workloads''" "operator \<notin> set [''nil'', ''not_nil'']"
    using assms by (auto simp: comparisons_def)
  then have ne: "butlast parts \<noteq> []" if "hd parts = ''workloads''"
    using that parts by (cases parts) auto
  have "\<exists>fp. plan_operator True (hd parts \<noteq> ''workloads'') parts = Inr fp \<and> fp_operator fp = operator"
    using parts ne by (auto simp: plan_operator_def Let_def)
  with that parts show ?thesis
    by (auto simp: plan_filter_def Let_def parts_def)
qed

lemma comparison_value:
  assumes "fp_operator fp = operator" "operator \<in> set comparisons"
  shows "filter_value fp v =
    (if is_bool_text v then Inl AttributeError
     else if str_isdigit v then
       (if length v \<le> 4300 then
          Inr (case fp_contains fp of None \<Rightarrow> QAtom (AInt (digits_value 0 v))
               | Some k \<Rightarrow> QKey k (AInt (digits_value 0 v)))
        else Inl ValueError)
     else if operator \<in> set [''eq'', ''ne''] then
       Inr (case fp_contains fp of None \<Rightarrow> QAtom (AStr v) | Some k \<Rightarrow> QKey k (AStr v))
     else Inl ValidationError)"
proof -
  have "operator \<notin> set [''nil'', ''not_nil'']" using assms(2) by (auto simp: comparisons_def)
  moreover have "operator \<in> set [''gt'', ''gte'', ''lt'', ''lte''] \<longleftrightarrow> operator \<notin> set [''eq'', ''ne'']"
    using assms(2) by (auto simp: comparisons_def)
  ultimately show ?thesis
    using assms(1) by (simp add: filter_value_def filter_atom_def number_text_def py_int_digits)
qed

text \<open>
  C19: what a comparison in a structured filter does.  For a name
  \<open>filter[system_profile]...[operator]\<close> with one of the operators \<open>eq\<close>, \<open>ne\<close>, \<open>gt\<close>,
  \<open>gte\<close>, \<open>lt\<close>, \<open>lte\<close>, whatever the words between, the value \<open>true\<close>, \<open>True\<close>, \<open>false\<close> or
  \<open>False\<close> raises \<open>AttributeError\<close> (it was made a truth value, of which \<open>isdigit\<close> is then
  asked), more than 4300 digits raise \<open>ValueError\<close>, and an ordering of a text that is no number
  is a \<open>ValidationError\<close>; anything else is one lookup, negated for \<open>ne\<close>.
\<close>

theorem comparison_filter_outcome:
  assumes "list_all is_word_text ws" "operator \<in> set comparisons"
  shows "\<exists>field a. system_profile_filter
       [(filter_text ''filter'' (''system_profile'' # ws @ [operator]), [v])] pre =
     (if is_bool_text v then Inl AttributeError
      else if str_isdigit v \<and> length v > 4300 then Inl ValueError
      else if operator \<in> set [''gt'', ''gte'', ''lt'', ''lte''] \<and> \<not> str_isdigit v then Inl ValidationError
      else Inr (QTerm (operator = ''ne'') field a))"
proof -
  let ?ws = "''system_profile'' # ws @ [operator]"
  let ?name = "filter_text ''filter'' ?ws"
  obtain fp where fp: "plan_filter ''system_profile'' True ?ws = Inr fp" "fp_operator fp = operator"
    by (rule comparison_plan [OF assms(2), of ws])
  have words: "list_all is_word_text ?ws"
    using assms by (auto simp: comparisons_def is_word_text_def is_word_def is_digit_def Let_def)
  have "is_word_text ''filter''"
    by (simp add: is_word_text_def is_word_def is_digit_def Let_def)
  from filter_name_print [OF this words, of "''''"]
  have name: "filter_name ?name = Some ?ws" by simp
  have pre: "prefix (''filter'' @ ''['' @ ''system_profile'' @ '']['') ?name"
    by (cases ws) (simp_all add: filter_text_def in_brackets_def)
  define field where "field = join_on ''__'' ((if pre = [] then [] else [pre]) @ fp_parts fp)"
  have "operator \<noteq> ''in''" using assms(2) by (auto simp: comparisons_def)
  then have one: "one_filter ''system_profile'' ''filter'' pre True (?name, [v]) =
      py_bind (filter_value fp v) (\<lambda>a. Inr [QTerm (operator = ''ne'') field a])"
    using pre by (simp add: one_filter_def name fp filter_terms_def field_def [symmetric] py_bind_assoc)
  have orders: "operator \<in> set [''gt'', ''gte'', ''lt'', ''lte''] \<longleftrightarrow> operator \<notin> set [''eq'', ''ne'']"
    using assms(2) by (auto simp: comparisons_def)
  show ?thesis
    unfolding system_profile_filter_def filter_multi_param_def orders
    using one comparison_value [OF fp(2) assms(2), of v]
    by (auto simp: q_and_def dest: bool_text_no_digits)
qed

lemma comparison_filter_outcome_witness:
  "system_profile_filter [(''filter[system_profile][sap_system][eq]'', [''true''])] ''advisor_inventory'' =
     Inl AttributeError"
proof -
  have "list_all is_word_text [''sap_system'']" "''eq'' \<in> set comparisons"
    "is_bool_text ''true''" "filter_text ''filter'' (''system_profile'' # [''sap_system''] @ [''eq'']) =
      ''filter[system_profile][sap_system][eq]''"
    by (simp_all add: is_word_text_def is_word_def is_digit_def Let_def comparisons_def is_bool_text_def
        filter_text_def in_brackets_def)
  with comparison_filter_outcome [of "[''sap_system'']" "''eq''" "''true''" "''advisor_inventory''"]
  show ?thesis by simp
qed

section \<open>Values of declared parameters\<close>

definition well_declared :: "param \<Rightarrow> bool" where
  "well_declared p \<longleftrightarrow>
     pa_location p = In_query \<and>
     pa_style p \<in> (if pa_many p then Some ` set [''form'', ''spaceDelimited'', ''pipeDelimited''] else {None}) \<and>
     pa_type p \<noteq> OT_DATETIME \<and>
     (case pa_default p of None \<Rightarrow> True | Some d \<Rightarrow> is_str d)"

fun has_type :: "param \<Rightarrow> atom \<Rightarrow> bool" where
  "has_type p (AStr s) = (pa_type p \<in> {OT_STR, OT_other} \<or> pa_type p = OT_REGEX \<and> pa_pattern p s)"
| "has_type p (AInt i) = (pa_type p \<in> {OT_INT, OT_INT32, OT_INT64})"
| "has_type p (AFloat r) = (pa_type p \<in> {OT_NUMBER, OT_DOUBLE, OT_FLOAT})"
| "has_type p (ABool b) = (pa_type p = OT_BOOL)"
| "has_type p (ADate d) = (pa_type p = OT_DATE)"
| "has_type p (ATime t) = (pa_type p = OT_DATETIME)"
| "has_type p (AUuid u) = (pa_type p = OT_UUID)"
| "has_type p (AOther v) = False"

definition declared_value :: "param \<Rightarrow> atom \<Rightarrow> bool" where
  "declared_value p a \<longleftrightarrow>
     has_type p a \<and> (pa_type p = OT_BOOL \<or> pa_enum p = [] \<or> in_enum a (pa_enum p))"

text \<open>A result of a conversion that may only fail as invalid.\<close>

definition valid_or :: "('a \<Rightarrow> bool) \<Rightarrow> 'a py \<Rightarrow> bool" where
  "valid_or P m \<longleftrightarrow> (case m of Inl e \<Rightarrow> e = ValidationError | Inr x \<Rightarrow> P x)"

lemma valid_or_simps [simp]:
  "valid_or P (Inl e) \<longleftrightarrow> e = ValidationError" "valid_or P (Inr x) \<longleftrightarrow> P x"
  by (simp_all add: valid_or_def)

lemma valid_or_bind: "valid_or Q m \<Longrightarrow> (\<And>x. Q x \<Longrightarrow> valid_or P (f x)) \<Longrightarrow> valid_or P (py_bind m f)"
  by (cases m) auto

lemma valid_or_map: "valid_or P (map_sum id f m) \<longleftrightarrow> valid_or (\<lambda>x. P (f x)) m"
  by (cases m) auto

lemma valid_or_mapM: "(\<And>x. x \<in> set xs \<Longrightarrow> valid_or P (f x)) \<Longrightarrow> valid_or (list_all P) (py_mapM f xs)"
proof (induction xs)
  case (Cons x xs)
  then have "valid_or P (f x)" "valid_or (list_all P) (py_mapM f xs)" by simp_all
  then show ?case by (cases "f x"; cases "py_mapM f xs") simp_all
qed simp

lemma valid_or_invalid: "valid_or P (or_invalid x) \<longleftrightarrow> (case x of None \<Rightarrow> True | Some y \<Rightarrow> P y)"
  by (cases x) (simp_all add: or_invalid_def)

lemma convert_valid:
  "pa_type p \<noteq> OT_DATETIME \<Longrightarrow>
     valid_or (\<lambda>(a, c). has_type p a \<and> (c \<longleftrightarrow> pa_type p \<noteq> OT_BOOL)) (convert qe p (JStr s))"
  by (cases "pa_type p"; cases "py_int s"; cases "qe_float qe s"; cases "qe_date qe s"; cases "qe_uuid qe s")
    (simp_all add: convert_def or_invalid_def)

lemma validate_single_valid:
  "pa_type p \<noteq> OT_DATETIME \<Longrightarrow> pa_style p = None \<Longrightarrow>
     valid_or (declared_value p) (validate_single qe p (JStr s))"
  unfolding validate_single_def
  by (simp, rule valid_or_bind [OF convert_valid]) (auto simp: declared_value_def)

lemma declared_value_basic: "declared_value (basic_param p) = declared_value p"
proof
  show "declared_value (basic_param p) a = declared_value p a" for a
    by (cases a) (simp_all add: declared_value_def basic_param_def)
qed

lemma validate_many_valid:
  assumes "well_declared p" "pa_many p"
  shows "valid_or (list_all (declared_value p)) (validate_many qe p (JStr s))"
proof -
  obtain st m c where st: "pa_style p = Some st" "splitter_for (pa_location p) = Some m" "map_of m st = Some c"
    using assms by (auto simp: well_declared_def splitter_for_def)
  have b: "pa_type (basic_param p) \<noteq> OT_DATETIME" "pa_style (basic_param p) = None"
    using assms by (simp_all add: basic_param_def well_declared_def)
  have "valid_or (list_all (declared_value p))
      (py_mapM (validate_single qe (basic_param p)) (map JStr (split_on c s)))"
    by (rule valid_or_mapM) (use validate_single_valid [OF b, of qe] in \<open>auto simp: declared_value_basic\<close>)
  then show ?thesis by (simp add: validate_many_def st)
qed

lemma validate_part_valid:
  assumes "well_declared p"
  shows "valid_or (\<lambda>v. list_all (declared_value p) (the_atoms v)) (validate_param_part qe p (JStr s))"
  using validate_many_valid [OF assms, of qe s] validate_single_valid [of p qe s] assms
  by (auto simp: validate_param_part_def valid_or_map well_declared_def)

lemma list_all_concat: "list_all (list_all P) xss \<Longrightarrow> list_all P (concat xss)"
  by (auto simp: list_all_iff)

text \<open>
  C18: the values of a declared parameter.  Whatever the query, the value of a well-declared
  parameter (in the query, with a style the code can split exactly when it takes many values, and
  a string as its default) either fails as a \<open>ValidationError\<close> or consists of values of the
  declared type, which match the pattern and are among those enumerated.  (A parameter of type
  \<open>OT_DATETIME\<close> is left out: \<open>parse_datetime\<close> raises \<open>ValueError\<close> for an impossible date.)
\<close>

theorem value_of_param_declared:
  assumes "well_declared p" "filter (\<lambda>nv. snd nv = []) query = []"
  shows "case value_of_param qe p query of
      Inl e \<Rightarrow> e = ValidationError
    | Inr v \<Rightarrow> filter (\<lambda>a. \<not> declared_value p a) (the_atoms v) = []"
proof -
  have "valid_or (\<lambda>v. list_all (declared_value p) (the_atoms v)) (value_of_param qe p query)"
  proof (cases "map_of query (pa_name p)")
    case None
    show ?thesis
    proof (cases "pa_default p")
      case (Some d)
      with assms obtain s where "d = JStr s" by (auto simp: well_declared_def is_str_iff)
      with None Some validate_part_valid [OF assms(1)] show ?thesis by (simp add: value_of_param_def)
    qed (simp add: value_of_param_def None)
  next
    case (Some vs)
    then have "vs \<noteq> []"
      using map_of_SomeD [OF Some] assms(2) by (auto simp: filter_empty_conv)
    then obtain v rest where vs: "vs = v # rest" by (cases vs) auto
    show ?thesis
    proof (cases "pa_many p")
      case True
      have "valid_or (list_all (list_all (declared_value p))) (py_mapM (\<lambda>v. validate_many qe p (JStr v)) vs)"
        by (rule valid_or_mapM) (rule validate_many_valid [OF assms(1) True])
      then have "valid_or (\<lambda>v. list_all (declared_value p) (the_atoms v))
          (py_bind (py_mapM (\<lambda>v. validate_many qe p (JStr v)) vs) (\<lambda>ls. Inr (PMany (concat ls))))"
        by (rule valid_or_bind) (simp add: list_all_concat)
      then show ?thesis using True Some by (simp add: value_of_param_def)
    next
      case False
      then show ?thesis
        using Some vs validate_part_valid [OF assms(1)] by (simp add: value_of_param_def)
    qed
  qed
  then show ?thesis
    by (simp add: valid_or_def filter_empty_conv list_all_iff split: sum.splits)
qed

definition filter_params :: "param list" where
  "filter_params = [branch_id_param, category_query_param, display_name_query_param, workload_query_param,
     has_disabled_recommendation_query_param, hits_query_param, host_group_name_query_param,
     host_id_query_param, host_tags_query_param, incident_query_param, pathway_query_param,
     rhel_version_query_param, system_type_query_param, topic_query_param, update_method_query_param,
     impacting_query_param, reboot_required_query_param, res_risk_query_param, reports_shown_query_param,
     rule_status_query_param, text_query_param, has_playbook_query_param]"

lemmas param_defs = branch_id_param_def category_query_param_def display_name_query_param_def
  workload_query_param_def has_disabled_recommendation_query_param_def hits_query_param_def
  host_group_name_query_param_def host_id_query_param_def host_tags_query_param_def
  incident_query_param_def pathway_query_param_def rhel_version_query_param_def
  system_type_query_param_def topic_query_param_def update_method_query_param_def
  impacting_query_param_def reboot_required_query_param_def res_risk_query_param_def
  reports_shown_query_param_def rule_status_query_param_def text_query_param_def
  has_playbook_query_param_def query_param_def many_param_def

lemma filter_params_well_declared: "list_all well_declared filter_params"
  by (simp add: filter_params_def param_defs well_declared_def)

text \<open>Conversions that accept nothing, for examples that need none.\<close>

definition text_env :: query_env where
  "text_env = \<lparr>qe_float = (\<lambda>_. None), qe_date = (\<lambda>_. None), qe_datetime = (\<lambda>_. Inr None),
     qe_naive = (\<lambda>_. False), qe_aware = id, qe_uuid = Some, qe_render = (\<lambda>_. [])\<rparr>"

lemma value_of_param_declared_witness:
  "value_of_param text_env hits_query_param [(''hits'', [''1,3'', ''yes''])] =
     Inr (PMany [AStr ''1'', AStr ''3'', AStr ''yes'']) \<and>
   (case value_of_param text_env hits_query_param [(''hits'', [''5''])] of
      Inl e \<Rightarrow> e = ValidationError | Inr v \<Rightarrow> filter (\<lambda>a. \<not> declared_value hits_query_param a) (the_atoms v) = [])"
proof -
  have "well_declared hits_query_param"
    by (simp add: param_defs well_declared_def)
  from value_of_param_declared [OF this, of "[(''hits'', [''5''])]" text_env]
  show ?thesis
    by (simp add: value_of_param_def param_defs validate_many_def splitter_for_def validate_single_def
        basic_param_def convert_def in_enum_def atom_eq_def)
qed

section \<open>Host tags\<close>

text \<open>How a client writes a tag: slashes and equal signs inside a part are escaped.\<close>

definition escape_char :: "char \<Rightarrow> string" where
  "escape_char c = (if c = CHR ''/'' then ''%2F'' else if c = CHR ''='' then ''%3D'' else [c])"

definition escape :: "string \<Rightarrow> string" where
  "escape s = concat (map escape_char s)"

fun tag_text :: "qval \<Rightarrow> string" where
  "tag_text (QTag namespace key v) =
     escape namespace @ CHR ''/'' # escape key @ (case v of None \<Rightarrow> [] | Some s \<Rightarrow> CHR ''='' # escape s)"
| "tag_text _ = []"

definition plain_text :: "string \<Rightarrow> bool" where
  "plain_text s \<longleftrightarrow> s \<noteq> [] \<and> CHR ''%'' \<notin> set s \<and> CHR '','' \<notin> set s \<and> newline \<notin> set s"

fun plain_tag :: "qval \<Rightarrow> bool" where
  "plain_tag (QTag namespace key v) =
     (plain_text namespace \<and> plain_text key \<and> (case v of None \<Rightarrow> True | Some s \<Rightarrow> plain_text s))"
| "plain_tag _ = False"

lemma replace_skip:
  "e = CHR ''%'' # a # b # [] \<Longrightarrow> x \<noteq> CHR ''%'' \<Longrightarrow> replace_escape e c (x # s) = x # replace_escape e c s"
  by (cases s; cases "tl s") auto

lemma replace_slashes:
  "CHR ''%'' \<notin> set s \<Longrightarrow> replace_escape ''%2F'' (CHR ''/'') (escape s) =
     concat (map (\<lambda>c. if c = CHR ''='' then ''%3D'' else [c]) s)"
  by (induction s) (auto simp: escape_def escape_char_def replace_skip)

lemma replace_equals:
  "CHR ''%'' \<notin> set s \<Longrightarrow>
     replace_escape ''%3D'' (CHR ''='') (concat (map (\<lambda>c. if c = CHR ''='' then ''%3D'' else [c]) s)) = s"
  by (induction s) (auto simp: replace_skip)

lemma unescape_escape: "CHR ''%'' \<notin> set s \<Longrightarrow> unescape (escape s) = s"
  by (simp add: unescape_def replace_slashes replace_equals)

lemma escape_free:
  "CHR ''/'' \<notin> set (escape s)" "CHR ''='' \<notin> set (escape s)"
  "CHR '','' \<in> set (escape s) \<longleftrightarrow> CHR '','' \<in> set s" "newline \<in> set (escape s) \<longleftrightarrow> newline \<in> set s"
  "escape s = [] \<longleftrightarrow> s = []"
  by (induction s) (auto simp: escape_def escape_char_def newline_def split: if_splits)

lemma split_once_append: "c \<notin> set a \<Longrightarrow> split_once c (a @ c # r) = Some (a, r)"
proof -
  assume "c \<notin> set a"
  then have "dropWhile (\<lambda>x. x \<noteq> c) (a @ c # r) = c # r \<and> takeWhile (\<lambda>x. x \<noteq> c) (a @ c # r) = a"
    by (induction a) auto
  then show ?thesis by (simp add: split_once_def)
qed

lemma split_once_None: "c \<notin> set s \<Longrightarrow> split_once c s = None"
proof -
  assume "c \<notin> set s"
  then have "dropWhile (\<lambda>x. x \<noteq> c) s = []"
    by (induction s) auto
  then show ?thesis by (simp only: split_once_def list.case)
qed

lemma split_join:
  "xs \<noteq> [] \<Longrightarrow> (\<And>x. x \<in> set xs \<Longrightarrow> c \<notin> set x) \<Longrightarrow> split_on c (join_on [c] xs) = xs"
proof (induction xs rule: induct_list012)
  case (2 x)
  then show ?case by (simp add: split_on_id)
next
  case (3 x y zs)
  then show ?case by (simp add: split_on_append)
qed simp

lemma without_newline_plain: "newline \<notin> set s \<Longrightarrow> without_newline s = s"
  by (auto simp: without_newline_def dest: last_in_set)

lemma tag_text_read:
  assumes "plain_tag t"
  shows "parse_tag (tag_text t) = Inr t" "tag_pattern (tag_text t)" "CHR '','' \<notin> set (tag_text t)"
proof -
  obtain n k v where t: "t = QTag n k v" and p: "plain_text n" "plain_text k"
    "case v of None \<Rightarrow> True | Some s \<Rightarrow> plain_text s"
    using assms by (cases t) auto
  define rest where "rest = escape k @ (case v of None \<Rightarrow> [] | Some s \<Rightarrow> CHR ''='' # escape s)"
  have slash: "split_once (CHR ''/'') (tag_text t) = Some (escape n, rest)"
    using split_once_append [OF escape_free(1), of n rest] by (simp add: t rest_def)
  have eq: "split_once (CHR ''='') rest = (case v of None \<Rightarrow> None | Some s \<Rightarrow> Some (escape k, escape s))"
    using split_once_append [OF escape_free(2), of k] split_once_None [OF escape_free(2), of k]
    by (cases v) (simp_all add: rest_def)
  show "parse_tag (tag_text t) = Inr t"
    using p unfolding parse_tag_def slash
    by (cases v) (simp_all add: eq t plain_text_def unescape_escape escape_free, simp add: rest_def unescape_escape)
  show "tag_pattern (tag_text t)"
    using p unfolding tag_pattern_def slash
    by (cases v) (simp_all add: eq plain_text_def escape_free without_newline_plain, simp add: rest_def escape_free)
  show "CHR '','' \<notin> set (tag_text t)"
    using p by (cases v) (simp_all add: t plain_text_def escape_free)
qed

text \<open>
  C20: tags of hosts are read as they are written.  The parameter \<open>tags\<close> holding any list of tags
  (namespace, key and perhaps a value, not empty, in which \<open>/\<close> is written \<open>%2F\<close> and \<open>=\<close> as
  \<open>%3D\<close>; no per cent sign, comma or newline) passes its pattern and gives the filter for exactly
  these tags in the caller's organisation.
\<close>

theorem host_tags_roundtrip:
  assumes "tags \<noteq> []" "list_all plain_tag tags"
  shows "filter_on_host_tags qe rq [(''tags'', [join_on '','' (map tag_text tags)])] field =
    py_bind (request_to_org rq) (\<lambda>org. Inr (QTagged (field @ ''__in'') tags org))"
proof -
  let ?texts = "map tag_text tags"
  have texts: "split_on (CHR '','') (join_on '','' ?texts) = ?texts"
    using assms tag_text_read(3) by (intro split_join) (auto simp: list_all_iff)
  have single: "validate_single qe (basic_param host_tags_query_param) (JStr s) = Inr (AStr s)"
    if "s \<in> set ?texts" for s
    using that assms(2) tag_text_read(2)
    by (auto simp: validate_single_def basic_param_def param_defs convert_def list_all_iff)
  have "py_mapM (validate_single qe (basic_param host_tags_query_param)) (map JStr ?texts) =
      Inr (map AStr ?texts)"
    using single assms(2) by (induction tags) auto
  then have "validate_many qe host_tags_query_param (JStr (join_on '','' ?texts)) = Inr (map AStr ?texts)"
    unfolding validate_many_def by (simp add: host_tags_query_param_def many_param_def query_param_def
        splitter_for_def texts)
  then have v: "value_of_param qe host_tags_query_param [(''tags'', [join_on '','' ?texts])] =
      Inr (PMany (map AStr ?texts))"
    by (simp add: value_of_param_def host_tags_query_param_def many_param_def query_param_def)
  have "py_mapM tag_of_atom (map AStr ?texts) = Inr tags"
    using assms(2) by (induction tags) (auto simp: tag_text_read(1))
  with v assms(1) show ?thesis
    by (simp add: filter_on_host_tags_def)
qed

definition tag_request :: request where
  "tag_request =
     \<lparr>rq_method = ''GET'', rq_meta = [], rq_user = None, rq_service_account = False,
      rq_auth = Some (JObj [(''org_id'', JStr ''o'')]), rq_rh_identity = None, rq_org_id = None,
      rq_account = None, rq_username = None, rq_tp_associate = None,
      rq_host_groups = None, rq_auth_system = None, rq_auth_system_type = None, rq_rbac_message = None,
      rq_matched = None, rq_sought = None, rq_elapsed_ms = None\<rparr>"

lemma host_tags_roundtrip_witness:
  "filter_on_host_tags text_env tag_request [(''tags'', [''ns/a%2Fb=c%3Dd,ns/k''])] ''f'' =
     Inr (QTagged ''f__in'' [QTag ''ns'' ''a/b'' (Some ''c=d''), QTag ''ns'' ''k'' None] (JStr ''o''))"
proof -
  let ?tags = "[QTag ''ns'' ''a/b'' (Some ''c=d''), QTag ''ns'' ''k'' None]"
  have "list_all plain_tag ?tags"
    by (simp add: plain_text_def newline_def)
  moreover have "join_on '','' (map tag_text ?tags) = ''ns/a%2Fb=c%3Dd,ns/k''"
    by (simp add: escape_def escape_char_def)
  moreover have "request_to_org tag_request = Inr (JStr ''o'')"
    by (simp add: request_to_org_def tag_request_def dict_has_def)
  ultimately show ?thesis
    using host_tags_roundtrip [of ?tags text_env tag_request "''f''"] by simp
qed

section \<open>Host groups\<close>

lemma q_holds_or: "q_holds lk r (q_or a b) \<longleftrightarrow> (if a = QAll then q_holds lk r b else if b = QAll then q_holds lk r a
    else q_holds lk r a \<or> q_holds lk r b)"
  by (simp add: q_or_def)

lemma q_holds_and [simp]: "q_holds lk r (q_and a b) \<longleftrightarrow> q_holds lk r a \<and> q_holds lk r b"
  by (simp add: q_and_def)

lemma q_or_QAll [simp]: "q_or QAll x = x" "q_or x QAll = x"
  by (simp_all add: q_or_def)

lemma q_or_eq_QAll: "q_or a b = QAll \<longleftrightarrow> a = QAll \<and> b = QAll"
  by (auto simp: q_or_def)

lemma foldl_q_or_not_QAll: "a \<noteq> QAll \<Longrightarrow> foldl q_or a ts \<noteq> QAll"
  by (induction ts arbitrary: a) (auto simp: q_or_eq_QAll)

lemma q_holds_foldl_or:
  assumes "QAll \<notin> set ts"
  shows "q_holds lk r (foldl q_or QAll ts) \<longleftrightarrow> ts = [] \<or> (\<exists>t \<in> set ts. q_holds lk r t)"
proof -
  have "q_holds lk r (foldl q_or a ts) \<longleftrightarrow> q_holds lk r a \<or> (\<exists>t \<in> set ts. q_holds lk r t)"
    if "a \<noteq> QAll" "QAll \<notin> set ts" for a ts
    using that by (induction ts arbitrary: a) (auto simp: q_holds_or q_or_eq_QAll)
  then show ?thesis using assms by (cases ts) auto
qed

lemma q_holds_any_term:
  assumes "\<And>x. term_of x \<noteq> QAll"
  shows "q_holds lk r (foldl q_or QAll (map term_of xs)) \<longleftrightarrow> xs = [] \<or> (\<exists>x \<in> set xs. q_holds lk r (term_of x))"
  using q_holds_foldl_or [of "map term_of xs" lk r] assms by (auto simp: image_iff) (metis assms)+

lemma group_terms_not_QAll: "group_id_term relation g \<noteq> QAll" "group_name_term relation a \<noteq> QAll"
  by (simp_all add: group_id_term_def group_name_term_def q_is_def)

lemma host_group_filter_holds:
  assumes "get_host_group_filter qe rq query relation = Inr f"
  obtains v where "value_of_param qe host_group_name_query_param query = Inr v"
    "q_holds lk r f \<longleftrightarrow>
       (let gs = (case rq_host_groups rq of None \<Rightarrow> [] | Some gs \<Rightarrow> gs) in
        (gs = [] \<or> (\<exists>g \<in> set gs. q_holds lk r (group_id_term relation g))) \<and>
        (the_atoms v = [] \<or> (\<exists>a \<in> set (the_atoms v). q_holds lk r (group_name_term relation a))))"
proof -
  obtain v where v: "value_of_param qe host_group_name_query_param query = Inr v"
    using assms by (auto simp: get_host_group_filter_def Let_def py_bind_eq_Inr)
  with assms have f: "f = q_and
      (foldl q_or QAll (map (group_id_term relation) (case rq_host_groups rq of None \<Rightarrow> [] | Some gs \<Rightarrow> gs)))
      (foldl q_or QAll (map (group_name_term relation) (the_atoms v)))"
    by (simp add: get_host_group_filter_def Let_def)
  have "q_holds lk r f \<longleftrightarrow>
       (let gs = (case rq_host_groups rq of None \<Rightarrow> [] | Some gs \<Rightarrow> gs) in
        (gs = [] \<or> (\<exists>g \<in> set gs. q_holds lk r (group_id_term relation g))) \<and>
        (the_atoms v = [] \<or> (\<exists>a \<in> set (the_atoms v). q_holds lk r (group_name_term relation a))))"
    unfolding f Let_def q_holds_and by (simp only: q_holds_any_term group_terms_not_QAll not_False_eq_True)
  with v show ?thesis by (rule that)
qed


end
