(* ===== verification/Ack_Safety.thy ===== *)
theory Ack_Safety
  imports Ack_Views Query_Safety
begin

text \<open>
  What the API shows and hides: the two forms of the query over reports agree, no report leaves the
  host groups of the caller, an acknowledgement hides the reports of its rule and deleting it brings
  them back, every request keeps acknowledgements unique, and what goes wrong when hosts are
  acknowledged together.
\<close>

section \<open>The query over reports\<close>

text \<open>Rules are unique, and every report has one.\<close>

definition rules_ok :: "api_db \<Rightarrow> bool" where
  "rules_ok db \<longleftrightarrow> distinct (map ar_pk (ad_rules db)) \<and> distinct (map ar_rule_id (ad_rules db)) \<and>
     rp_rule ` set (ad_reports db) \<subseteq> ar_pk ` set (ad_rules db)"

lemma rule_active_iff:
  assumes "rules_ok db" "u \<in> set (ad_rules db)"
  shows "rule_active db (ar_pk u) \<longleftrightarrow> ar_active u"
  using assms by (auto simp: rule_active_def list_ex_iff rules_ok_def dest: inj_onD [OF conjunct2 [OF distinct_map [THEN iffD1]]])

lemma excluded_rules_acked:
  "pk \<in> set (excluded_rules db org) \<longleftrightarrow>
     pk \<in> set (map ar_pk (filter (\<lambda>r. \<not> ar_active r) (ad_rules db))) \<or> rule_acked db org pk"
proof -
  have "pk \<in> ack_rule ` set (filter (\<lambda>a. ack_org a = org) (ad_acks db)) \<longleftrightarrow> rule_acked db org pk"
    by (force simp: rule_acked_def list_ex_iff)
  then show ?thesis by (simp add: excluded_rules_def)
qed

lemma inactive_excluded:
  assumes "rules_ok db" "r \<in> set (ad_reports db)"
  shows "rp_rule r \<in> set (excluded_rules db org) \<longleftrightarrow> \<not> rule_active db (rp_rule r) \<or> rule_acked db org (rp_rule r)"
proof -
  from assms obtain u where u: "u \<in> set (ad_rules db)" "ar_pk u = rp_rule r"
    by (auto simp: rules_ok_def)
  have "rp_rule r \<in> ar_pk ` set (filter (\<lambda>r. \<not> ar_active r) (ad_rules db)) \<longleftrightarrow> \<not> rule_active db (rp_rule r)"
  proof
    assume "rp_rule r \<in> ar_pk ` set (filter (\<lambda>r. \<not> ar_active r) (ad_rules db))"
    then obtain v where "v \<in> set (ad_rules db)" "\<not> ar_active v" "rp_rule r = ar_pk v" by auto
    with rule_active_iff [OF assms(1), of v] show "\<not> rule_active db (rp_rule r)" by simp
  next
    assume "\<not> rule_active db (rp_rule r)"
    with rule_active_iff [OF assms(1) u(1)] u show "rp_rule r \<in> ar_pk ` set (filter (\<lambda>r. \<not> ar_active r) (ad_rules db))"
      by (auto intro: image_eqI [of _ _ u])
  qed
  then show ?thesis
    by (simp add: excluded_rules_acked)
qed

lemma report_shown_joins:
  assumes "rules_ok db" "r \<in> set (ad_reports db)"
  shows "report_shown ae db (ro\<lparr>ro_joins := True\<rparr>) org f r \<longleftrightarrow> report_shown ae db (ro\<lparr>ro_joins := False\<rparr>) org f r"
  using inactive_excluded [OF assms, of org]
  by (auto simp: report_shown_def rule_excluded_def)

text \<open>
  C7: the two forms of the query over reports agree.  With \<open>use_joins\<close> the rule is joined and
  acknowledgements are looked for row by row; without it, reports of inactive or acknowledged rules
  are excluded by a subquery.  Over tables in which rules are unique and every report has its rule,
  both give the same reports in the same order, or the same exception, for every request and every
  other option.
\<close>

theorem use_joins_equivalent:
  assumes "rules_ok db"
  shows "get_reports_subquery ae ar (ro\<lparr>ro_joins := True\<rparr>) extra db =
    get_reports_subquery ae ar (ro\<lparr>ro_joins := False\<rparr>) extra db"
proof -
  have "filter (\<lambda>r. extra r \<and> report_shown ae db (ro\<lparr>ro_joins := True\<rparr>) org f r) (ad_reports db) =
      filter (\<lambda>r. extra r \<and> report_shown ae db (ro\<lparr>ro_joins := False\<rparr>) org f r) (ad_reports db)" for org f
    by (rule filter_cong) (simp_all add: report_shown_joins [OF assms])
  then show ?thesis
    by (simp add: get_reports_subquery_def cong: option.case_cong)
qed

text \<open>A report of the answer, whatever the options.\<close>

lemma reports_subquery_Inr:
  assumes "get_reports_subquery ae ar ro extra db = Inr rs" "r \<in> set rs"
  obtains org f where "org_of ae (aq_request ar) = Inr (Some org)"
    "host_filters ae ar (ro_branch ro) (ro_hosts ro) = Inr f"
    "r \<in> set (ad_reports db)" "extra r" "report_shown ae db ro org f r"
proof -
  from assms(1) obtain o' where o': "org_of ae (aq_request ar) = Inr o'"
    by (auto simp: get_reports_subquery_def py_bind_eq_Inr)
  show ?thesis
  proof (cases o')
    case None
    with assms o' show ?thesis by (simp add: get_reports_subquery_def)
  next
    case (Some org)
    with assms(1) o' obtain f where f: "host_filters ae ar (ro_branch ro) (ro_hosts ro) = Inr f"
      "rs = filter (\<lambda>r. extra r \<and> report_shown ae db ro org f r) (ad_reports db)"
      by (auto simp: get_reports_subquery_def py_bind_eq_Inr)
    with assms(2) o' Some that show ?thesis by simp
  qed
qed

lemma q_holds_foldl_and: "q_holds lk r (foldl q_and a ts) \<longleftrightarrow> q_holds lk r a \<and> (\<forall>t \<in> set ts. q_holds lk r t)"
  by (induction ts arbitrary: a) auto

lemma q_holds_conj: "q_holds lk r (conj_q ts) \<longleftrightarrow> (\<forall>t \<in> set ts. q_holds lk r t)"
  by (simp add: conj_q_def q_holds_foldl_and)

lemma host_filters_groups:
  assumes "host_filters ae ar b True = Inr f" "q_holds lk r f" "rq_host_groups (aq_request ar) = Some gs" "gs \<noteq> []"
  shows "\<exists>g \<in> set gs. q_holds lk r (group_id_term ''advisor_inventory'' g)"
proof -
  from assms(1) obtain groups where g:
      "get_host_group_filter (ae_query_env ae) (aq_request ar) (aq_query ar) ''advisor_inventory'' = Inr groups"
    and "q_holds lk r f \<longrightarrow> q_holds lk r groups"
    by (auto simp: host_filters_def Let_def py_bind_eq_Inr q_holds_conj)
  with assms(2) have "q_holds lk r groups" by simp
  with host_group_filter_holds [OF g, of lk r] assms(3,4) show ?thesis
    by (metis (no_types, lifting) option.simps(5))
qed

text \<open>The report is one of those the RBAC host groups of the request allow.\<close>

definition within_groups :: "api_env \<Rightarrow> request \<Rightarrow> api_report \<Rightarrow> bool" where
  "within_groups ae rq r =
     (case rq_host_groups rq of
        None \<Rightarrow> True
      | Some gs \<Rightarrow> gs = [] \<or>
          list_ex (\<lambda>g. q_holds (ae_report_lookups ae) r (group_id_term ''advisor_inventory'' g)) gs)"

text \<open>
  C5: no query over reports shows more than its options let the caller see.  Whatever the options of
  the query, its reports belong to the caller's organisation and are not acknowledged on their host.
  Where the query excludes ineligible rules they are of active rules which the organisation has not
  acknowledged; where it excludes ineligible hosts their hosts are not stale and, when RBAC
  restricts the caller to host groups, lie in one of these, whatever groups or other filters the
  request names.  The default options exclude both.  Where a view turns an exclusion off, nothing is
  claimed of what that exclusion would have hidden.
\<close>

theorem shown_reports_are_allowed:
  assumes "get_reports_subquery ae ar ro extra db = Inr rs" "r \<in> set rs" "rules_ok db"
  shows "\<exists>org. org_of ae (aq_request ar) = Inr (Some org) \<and> rp_org r = org \<and>
    \<not> host_acked db org (rp_rule r) (rp_host r) \<and>
    (ro_rules ro \<longrightarrow> rule_active db (rp_rule r) \<and> \<not> rule_acked db org (rp_rule r)) \<and>
    (ro_hosts ro \<longrightarrow> stale_systems_q ae db org (rp_host r) \<and> within_groups ae (aq_request ar) r)"
proof -
  obtain org f where org: "org_of ae (aq_request ar) = Inr (Some org)"
    and f: "host_filters ae ar (ro_branch ro) (ro_hosts ro) = Inr f"
    and r: "r \<in> set (ad_reports db)" and shown: "report_shown ae db ro org f r"
    by (rule reports_subquery_Inr [OF assms(1,2)], rule that, assumption+)
  have hosts: "stale_systems_q ae db org (rp_host r) \<and> within_groups ae (aq_request ar) r" if on: "ro_hosts ro"
  proof -
    have holds: "q_holds (ae_report_lookups ae) r f" using shown on by (simp add: report_shown_def)
    have f': "host_filters ae ar (ro_branch ro) True = Inr f" using f on by simp
    have "within_groups ae (aq_request ar) r"
    proof (cases "rq_host_groups (aq_request ar)")
      case (Some gs)
      then show ?thesis
        using host_filters_groups [OF f' holds Some] by (auto simp: within_groups_def list_ex_iff)
    qed (simp add: within_groups_def)
    then show ?thesis using shown on by (simp add: report_shown_def)
  qed
  have rules: "rule_active db (rp_rule r) \<and> \<not> rule_acked db org (rp_rule r)" if on: "ro_rules ro"
  proof (cases "ro_joins ro")
    case True
    then show ?thesis using shown on by (simp add: report_shown_def rule_excluded_def)
  next
    case False
    then show ?thesis
      using shown on inactive_excluded [OF assms(3) r, of org] by (simp add: report_shown_def rule_excluded_def)
  qed
  show ?thesis
    using org shown hosts rules by (auto simp: report_shown_def)
qed

section \<open>An example\<close>

text \<open>
  Two rules, two hosts in different groups and a third that is stale; the caller may see the first
  group.
\<close>

definition apx_rule :: "nat \<Rightarrow> string \<Rightarrow> api_rule" where
  "apx_rule pk rule_id = \<lparr>ar_pk = pk, ar_rule_id = rule_id, ar_active = True, ar_deleted = False,
     ar_total_risk = 3, ar_pathway = Some 7, ar_reboot = False, ar_tags = [''incident''],
     ar_category = ''Security''\<rparr>"

definition apx_host :: "string \<Rightarrow> int \<Rightarrow> api_host" where
  "apx_host i t = \<lparr>ih_id = i, ih_org = ''o'', ih_stale = Some t, ih_account = Some ''acct'', ih_insights = i, ih_name = i\<rparr>"

definition apx_hostrow :: "string \<Rightarrow> api_hostrow" where
  "apx_hostrow i = \<lparr>hr_id = i, hr_org = ''o'', hr_branch = None\<rparr>"

definition apx_report :: "nat \<Rightarrow> nat \<Rightarrow> string \<Rightarrow> api_report" where
  "apx_report i rule host = \<lparr>rp_id = i, rp_rule = rule, rp_host = host, rp_org = ''o''\<rparr>"

definition apx_db :: api_db where
  "apx_db = \<lparr>ad_rules = [apx_rule 1 ''r1'', apx_rule 2 ''r2''],
     ad_reports = [apx_report 1 1 ''h1'', apx_report 2 2 ''h1'', apx_report 3 1 ''h2'', apx_report 4 1 ''h3''],
     ad_inventory = [apx_host ''h1'' 20, apx_host ''h2'' 20, apx_host ''h3'' 5],
     ad_hosts = map apx_hostrow [''h1'', ''h2'', ''h3''], ad_acks = [], ad_hostacks = [], ad_ratings = [],
     ad_pathways = [\<lparr>pw_id = 7, pw_slug = ''p'', pw_published = Some 1\<rparr>],
     ad_categories = [''Availability'', ''Security''],
     ad_topics = [\<lparr>to_slug = ''t'', to_tag = Some ''incident'', to_enabled = True\<rparr>], ad_next = 1\<rparr>"

definition apx_lookups :: "('row \<Rightarrow> string) \<Rightarrow> 'row lookups" where
  "apx_lookups host =
     \<lparr>lk_term = (\<lambda>neg f v r. (v = QAtom (AStr ''g1'') \<and> host r \<noteq> ''h2'') \<noteq> neg),
      lk_tagged = (\<lambda>_ _ _ _. True), lk_disabled = (\<lambda>_ _. False), lk_resolution = (\<lambda>_ _ _. False)\<rparr>"

definition api_example :: api_env where
  "api_example = \<lparr>ae_query_env = text_env, ae_now = 10, ae_autoack = ''Red Hat Lightspeed'',
     ae_report_lookups = apx_lookups rp_host, ae_host_lookups = apx_lookups ih_id\<rparr>"

definition apx_request :: "json list option \<Rightarrow> request" where
  "apx_request groups =
     \<lparr>rq_method = ''GET'', rq_meta = [], rq_user = None, rq_service_account = False,
      rq_auth = Some (JObj [(''org_id'', JStr ''o'')]), rq_rh_identity = None, rq_org_id = None,
      rq_account = Some (JStr ''acct''), rq_username = Some (JStr ''user''), rq_tp_associate = None,
      rq_host_groups = groups, rq_auth_system = None, rq_auth_system_type = None, rq_rbac_message = None,
      rq_matched = None, rq_sought = None, rq_elapsed_ms = None\<rparr>"

definition apx_caller :: "json list option \<Rightarrow> query_params \<Rightarrow> api_request" where
  "apx_caller groups query = \<lparr>aq_request = apx_request groups, aq_query = query\<rparr>"

lemma apx_db_ok: "rules_ok apx_db"
  by (simp add: rules_ok_def apx_db_def apx_rule_def apx_report_def)

lemma use_joins_equivalent_witness:
  "get_reports_subquery api_example (apx_caller (Some [JStr ''g1'']) []) (default_options\<lparr>ro_joins := True\<rparr>)
     (\<lambda>_. True) apx_db = Inr [apx_report 1 1 ''h1'', apx_report 2 2 ''h1'']"
proof -
  have "get_reports_subquery api_example (apx_caller (Some [JStr ''g1'']) []) (default_options\<lparr>ro_joins := False\<rparr>)
      (\<lambda>_. True) apx_db = Inr [apx_report 1 1 ''h1'', apx_report 2 2 ''h1'']"
    by code_simp
  with use_joins_equivalent [OF apx_db_ok] show ?thesis by simp
qed

lemma shown_reports_are_allowed_witness:
  "rule_active apx_db (rp_rule (apx_report 1 1 ''h1'')) \<and>
   within_groups api_example (apx_request (Some [JStr ''g1''])) (apx_report 1 1 ''h1'')"
proof -
  have "get_reports_subquery api_example (apx_caller (Some [JStr ''g1'']) []) default_options (\<lambda>_. True) apx_db =
      Inr [apx_report 1 1 ''h1'', apx_report 2 2 ''h1'']"
    by code_simp
  from shown_reports_are_allowed [OF this _ apx_db_ok, of "apx_report 1 1 ''h1''"]
  show ?thesis by (auto simp: apx_caller_def default_options_def)
qed

section \<open>Acknowledging a rule\<close>

text \<open>Inversion of insert-or-update: a row was inserted, or the one row found was changed.\<close>

lemma update_or_create_Inr:
  assumes "update_or_create found upd new fits allowed rows = (Inr (x, created), rows')"
  shows "fits \<and> (created \<and> allowed \<and> filter found rows = [] \<and> x = new \<and> rows' = rows @ [new] \<or>
    \<not> created \<and> (\<exists>r. filter found rows = [r] \<and> x = upd r) \<and> rows' = map (\<lambda>x. if found x then upd x else x) rows)"
  using assms by (auto simp: update_or_create_def split: list.splits if_splits)

lemma filter_single: "filter P xs = [r] \<Longrightarrow> r \<in> set xs \<and> P r"
proof -
  assume "filter P xs = [r]"
  then have "r \<in> set (filter P xs)" by simp
  then show ?thesis by simp
qed

lemma list_ex_map_comp: "list_ex P (map f xs) = list_ex (P \<circ> f) xs"
  by (induction xs) simp_all

lemma save_ack_Inr:
  assumes "save_ack w rule j db = (Inr (a, created), db')"
  shows "ack_org a = aw_org w" "ack_rule a = rule" "db' = db\<lparr>ad_acks := ad_acks db', ad_next := ad_next db + 1\<rparr>"
    and "rule_acked db' org pk \<longleftrightarrow> rule_acked db org pk \<or> org = aw_org w \<and> pk = rule"
    and "\<not> rule_acked db (aw_org w) rule \<Longrightarrow> ack_id a = ad_next db \<and> ad_acks db' = ad_acks db @ [a]"
proof -
  define found :: "api_ack \<Rightarrow> bool" where "found = (\<lambda>a. ack_org a = aw_org w \<and> ack_rule a = rule)"
  define upd :: "api_ack \<Rightarrow> api_ack" where
    "upd = (\<lambda>a. a\<lparr>ack_account := aw_account w, ack_justification := j, ack_created_by := aw_user w\<rparr>)"
  define new :: api_ack where "new = \<lparr>ack_id = ad_next db, ack_rule = rule, ack_org = aw_org w, ack_account = aw_account w,
                ack_justification = j, ack_created_by = aw_user w\<rparr>"
  obtain res acks where u: "update_or_create found upd new (fits_columns w j) True (ad_acks db) = (res, acks)"
    by (cases "update_or_create found upd new (fits_columns w j) True (ad_acks db)")
  have s: "save_ack w rule j db = (res, put_acks acks db)"
    using u by (simp add: save_ack_def found_def upd_def new_def Let_def)
  with assms have res: "res = Inr (a, created)" and db': "db' = put_acks acks db" by simp_all
  from db' show "db' = db\<lparr>ad_acks := ad_acks db', ad_next := ad_next db + 1\<rparr>"
    by (simp add: put_acks_def)
  have keep: "ack_org (upd x) = ack_org x" "ack_rule (upd x) = ack_rule x" for x
    by (simp_all add: upd_def)
  consider (created) "filter found (ad_acks db) = []" "a = new" "acks = ad_acks db @ [new]"
    | (updated) r where "filter found (ad_acks db) = [r]" "a = upd r"
        "acks = map (\<lambda>x. if found x then upd x else x) (ad_acks db)"
    using update_or_create_Inr [OF u [unfolded res]] by blast
  then have "ack_org a = aw_org w \<and> ack_rule a = rule \<and>
    (rule_acked db' org pk \<longleftrightarrow> rule_acked db org pk \<or> org = aw_org w \<and> pk = rule) \<and>
    (\<not> rule_acked db (aw_org w) rule \<longrightarrow> ack_id a = ad_next db \<and> ad_acks db' = ad_acks db @ [a])"
  proof cases
    case created
    then show ?thesis by (auto simp: new_def db' put_acks_def rule_acked_def)
  next
    case updated
    have r: "r \<in> set (ad_acks db)" "found r"
      using filter_single [OF updated(1)] by simp_all
    have "rule_acked db' org pk \<longleftrightarrow> rule_acked db org pk"
    proof -
      have "(\<lambda>a. ack_org a = org \<and> ack_rule a = pk) \<circ> (\<lambda>x. if found x then upd x else x) =
          (\<lambda>a. ack_org a = org \<and> ack_rule a = pk)"
        by (rule ext) (simp add: keep)
      then show ?thesis
        by (simp add: db' put_acks_def rule_acked_def updated(3) list_ex_map_comp)
    qed
    moreover have "rule_acked db (aw_org w) rule"
      using r by (auto simp: rule_acked_def found_def list_ex_iff)
    ultimately show ?thesis
      using r(2) by (auto simp: updated(2) keep found_def)
  qed
  then show "ack_org a = aw_org w" "ack_rule a = rule"
    "rule_acked db' org pk \<longleftrightarrow> rule_acked db org pk \<or> org = aw_org w \<and> pk = rule"
    "\<not> rule_acked db (aw_org w) rule \<Longrightarrow> ack_id a = ad_next db \<and> ad_acks db' = ad_acks db @ [a]"
    by blast+
qed

lemma create_ack_Inr:
  assumes "create_ack ae ar rule_id j db = (Inr a, db')"
  obtains u w t created where "find_rule rule_id db = Some u" "ack_author_of ae (aq_request ar) = Inr w"
    "save_ack w (ar_pk u) t db = (Inr (a, created), db')"
proof -
  from assms obtain u where u: "find_rule rule_id db = Some u"
    by (auto simp: create_ack_def a_bind_Inr split: option.splits if_splits)
  with assms obtain t w where tw: "justification_ok j = Inr t" "ack_author_of ae (aq_request ar) = Inr w"
    "a_bind (save_ack w (ar_pk u) t) (\<lambda>(a, _). a_ret a) db = (Inr a, db')"
    by (auto simp: create_ack_def a_bind_Inr a_lift_Inr split: if_splits)
  then obtain created where "save_ack w (ar_pk u) t db = (Inr (a, created), db')"
    by (auto simp: a_bind_Inr)
  with that [OF u tw(2)] show ?thesis by blast
qed

text \<open>The answer only depends on the tables it reads.\<close>

lemma reports_subquery_cong:
  assumes "ad_reports db' = ad_reports db" "\<And>org f r. r \<in> set (ad_reports db) \<Longrightarrow> extra r \<and> report_shown ae db' ro org f r \<longleftrightarrow> extra r \<and> report_shown ae db ro org f r \<and> P r"
  shows "get_reports_subquery ae ar ro extra db' = map_sum id (filter P) (get_reports_subquery ae ar ro extra db)"
proof -
  have "filter (\<lambda>r. extra r \<and> report_shown ae db' ro org f r) (ad_reports db') =
      filter P (filter (\<lambda>r. extra r \<and> report_shown ae db ro org f r) (ad_reports db))" for org f
    unfolding assms(1) filter_filter by (rule filter_cong) (use assms(2) in auto)
  then show ?thesis
    by (cases "org_of ae (aq_request ar)"; cases "host_filters ae ar (ro_branch ro) (ro_hosts ro)")
      (simp_all add: get_reports_subquery_def split: option.splits)
qed

lemma org_of_auth: "org_of ae rq = Inr (Some org) \<Longrightarrow> auth_org ae rq = Inr (Some org)"
  by (auto simp: org_of_def auth_org_def request_to_org_def py_bind_eq_Inr split: option.splits if_splits)

lemma ack_author_org: "ack_author_of ae rq = Inr w \<Longrightarrow> auth_org ae rq = Inr (Some (aw_org w))"
  by (auto simp: ack_author_of_def py_bind_eq_Inr not_null_def split: option.splits)

text \<open>Only acknowledgements and the counter of keys changed.\<close>

lemma report_shown_acks:
  assumes "db' = db\<lparr>ad_acks := acks, ad_next := n\<rparr>" "ro_rules ro"
    and "\<And>org pk. rule_acked db' org pk \<longleftrightarrow> rule_acked db org pk \<or> hidden org pk"
  shows "report_shown ae db' ro org f r \<longleftrightarrow> report_shown ae db ro org f r \<and> \<not> hidden (rp_org r) (rp_rule r)"
proof -
  have "rp_rule r \<in> set (excluded_rules db' org) \<longleftrightarrow> rp_rule r \<in> set (excluded_rules db org) \<or> hidden org (rp_rule r)"
    using assms(3) [of org "rp_rule r"] by (auto simp: excluded_rules_acked assms(1))
  moreover have "stale_systems_q ae db' org h = stale_systems_q ae db org h"
    "rule_active db' pk = rule_active db pk" "host_acked db' org pk h = host_acked db org pk h" for h pk
    by (simp_all add: assms(1) stale_systems_q_def rule_active_def host_acked_def)
  ultimately show ?thesis
    using assms(2,3) by (auto simp: report_shown_def rule_excluded_def)
qed

lemma report_shown_other:
  assumes "db' = db\<lparr>ad_acks := acks, ad_next := n\<rparr>" "ro_rules ro \<Longrightarrow> acks = ad_acks db"
  shows "report_shown ae db' ro org f r = report_shown ae db ro org f r"
proof -
  have "stale_systems_q ae db' org h = stale_systems_q ae db org h"
    "rule_active db' pk = rule_active db pk" "host_acked db' org pk h = host_acked db org pk h" for h pk
    by (simp_all add: assms(1) stale_systems_q_def rule_active_def host_acked_def)
  moreover have "rule_excluded db' j org pk = rule_excluded db j org pk" if "ro_rules ro" for j pk
    using assms(2) [OF that] by (simp add: assms(1) rule_excluded_def excluded_rules_def rule_acked_def)
  ultimately show ?thesis by (auto simp: report_shown_def)
qed

lemma reports_subquery_other:
  assumes "db' = db\<lparr>ad_acks := acks, ad_next := n\<rparr>" "ro_rules ro \<Longrightarrow> acks = ad_acks db"
  shows "get_reports_subquery ae ar ro extra db' = get_reports_subquery ae ar ro extra db"
  using report_shown_other [OF assms] by (simp add: get_reports_subquery_def assms(1) cong: option.case_cong)

definition ack_ids_ok :: "api_db \<Rightarrow> bool" where
  "ack_ids_ok db \<longleftrightarrow> list_all (\<lambda>a. ack_id a < ad_next db) (ad_acks db)"

lemma find_append_last: "(\<And>x. x \<in> set xs \<Longrightarrow> \<not> P x) \<Longrightarrow> P y \<Longrightarrow> find P (xs @ [y]) = Some y"
  by (induction xs) auto

lemma rules_ok_key:
  "rules_ok db \<Longrightarrow> u \<in> set (ad_rules db) \<Longrightarrow> v \<in> set (ad_rules db) \<Longrightarrow>
     ar_pk u = ar_pk v \<or> ar_rule_id u = ar_rule_id v \<Longrightarrow> u = v"
  by (auto simp: rules_ok_def distinct_map dest: inj_onD)

lemma ack_for_rule_iff:
  assumes "rules_ok db" "find_rule rule_id db = Some u" "ar_active u" "\<not> ar_deleted u"
  shows "ack_for_rule db org rule_id a \<longleftrightarrow> Some (ack_org a) = org \<and> ack_rule a = ar_pk u"
proof -
  have u: "u \<in> set (ad_rules db)" "ar_rule_id u = rule_id"
    using assms(2) by (auto simp: find_rule_def find_Some_iff)
  have "list_ex (\<lambda>v. ar_pk v = pk \<and> ar_rule_id v = rule_id) (ad_rules db) \<longleftrightarrow> pk = ar_pk u" for pk
    unfolding list_ex_iff using u rules_ok_key [OF assms(1) u(1)] by metis
  moreover have "live_rule db (ar_pk u)"
    unfolding live_rule_def list_ex_iff using u(1) assms(3,4) by blast
  ultimately show ?thesis
    by (auto simp: ack_for_rule_def)
qed

text \<open>
  C6: acknowledging a rule hides its reports and deleting the acknowledgement brings them back.
  When an organisation acknowledges an active rule, every query over reports that excludes ineligible
  rules, by anyone and with any filters, gives what it gave before less the reports of that rule in
  that organisation, and every query that does not exclude them gives what it gave before.  When the
  organisation had not acknowledged the rule, deleting the acknowledgement by the rule's id succeeds
  and leaves every table as it was at first, so that every query gives again what it gave then.
\<close>

theorem ack_hides_and_restores:
  assumes "rules_ok db" "ack_ids_ok db" "find_rule rule_id db = Some u" "ar_active u" "\<not> ar_deleted u"
    and "create_ack ae ar rule_id j db = (Inr a, db1)"
  shows "get_reports_subquery ae ar' ro extra db1 =
      (if ro_rules ro
       then map_sum id (filter (\<lambda>r. \<not> (rp_org r = ack_org a \<and> rp_rule r = ar_pk u)))
         (get_reports_subquery ae ar' ro extra db)
       else get_reports_subquery ae ar' ro extra db) \<and>
    (rule_acked db (ack_org a) (ar_pk u) \<or>
      (\<exists>db2. destroy_ack ae ar rule_id db1 = (Inr (), db2) \<and> db2\<lparr>ad_next := ad_next db\<rparr> = db \<and>
        get_reports_subquery ae ar' ro extra db2 = get_reports_subquery ae ar' ro extra db))"
proof -
  obtain u' w t created where u': "find_rule rule_id db = Some u'" and w: "ack_author_of ae (aq_request ar) = Inr w"
    and s': "save_ack w (ar_pk u') t db = (Inr (a, created), db1)"
    by (rule create_ack_Inr [OF assms(6)], rule that, assumption+)
  have s: "save_ack w (ar_pk u) t db = (Inr (a, created), db1)"
    using s' u' assms(3) by simp
  note saved = save_ack_Inr [OF s]
  have reports: "ad_reports db1 = ad_reports db"
    by (subst saved(3)) simp
  have after: "get_reports_subquery ae ar' ro extra db1 =
      map_sum id (filter (\<lambda>r. \<not> (rp_org r = ack_org a \<and> rp_rule r = ar_pk u)))
        (get_reports_subquery ae ar' ro extra db)" if on: "ro_rules ro"
  proof (rule reports_subquery_cong)
    show "extra r \<and> report_shown ae db1 ro org f r \<longleftrightarrow>
        extra r \<and> report_shown ae db ro org f r \<and> \<not> (rp_org r = ack_org a \<and> rp_rule r = ar_pk u)" for org f r
      using report_shown_acks [OF saved(3) on, of "\<lambda>org pk. org = ack_org a \<and> pk = ar_pk u" ae org f r]
        saved(1,4) by simp
  qed (rule reports)
  have unruled: "get_reports_subquery ae ar' ro extra db1 = get_reports_subquery ae ar' ro extra db" if "\<not> ro_rules ro"
    by (rule reports_subquery_other [OF saved(3)]) (simp add: that)
  have "\<exists>db2. destroy_ack ae ar rule_id db1 = (Inr (), db2) \<and> db2\<lparr>ad_next := ad_next db\<rparr> = db \<and>
      get_reports_subquery ae ar' ro extra db2 = get_reports_subquery ae ar' ro extra db"
    if fresh: "\<not> rule_acked db (ack_org a) (ar_pk u)"
  proof -
    have new: "ack_id a = ad_next db" "ad_acks db1 = ad_acks db @ [a]"
      using saved(5) fresh saved(1) by simp_all
    have rules: "ad_rules db1 = ad_rules db"
      by (subst saved(3)) simp
    have ok1: "rules_ok db1" "find_rule rule_id db1 = Some u"
      using assms(1,3) by (simp_all add: rules_ok_def find_rule_def rules reports)
    note iff = ack_for_rule_iff [OF ok1 assms(4,5)]
    have "find (ack_for_rule db1 (Some (aw_org w)) rule_id) (ad_acks db1) = Some a"
      unfolding new(2) using fresh saved(1,2)
      by (intro find_append_last) (auto simp: iff rule_acked_def list_ex_iff)
    then have get: "get_ack ae ar rule_id db1 = (Inr a, db1)"
      using ack_author_org [OF w] by (simp add: get_ack_def a_bind_app)
    define db2 where "db2 = db1\<lparr>ad_acks := filter (\<lambda>x. ack_id x \<noteq> ack_id a) (ad_acks db1)\<rparr>"
    have "destroy_ack ae ar rule_id db1 = (Inr (), db2)"
      using get by (simp add: destroy_ack_def a_bind_app db2_def)
    moreover have "filter (\<lambda>x. ack_id x \<noteq> ack_id a) (ad_acks db1) = ad_acks db"
      using assms(2) by (auto simp: new ack_ids_ok_def list_all_iff intro!: filter_True)
    then have db2: "db2 = db\<lparr>ad_acks := ad_acks db, ad_next := ad_next db1\<rparr>"
      unfolding db2_def by (subst (2) saved(3), subst saved(3)) simp
    have "get_reports_subquery ae ar' ro extra db2 = get_reports_subquery ae ar' ro extra db"
      by (rule reports_subquery_other [OF db2]) simp
    moreover have "db2\<lparr>ad_next := ad_next db\<rparr> = db" by (simp add: db2)
    ultimately show ?thesis by blast
  qed
  then show ?thesis using after unruled by auto
qed

lemma ack_hides_and_restores_witness:
  "\<exists>a db1 db2. create_ack api_example (apx_caller None []) ''r1'' None apx_db = (Inr a, db1) \<and>
     get_reports_subquery api_example (apx_caller None []) default_options (\<lambda>_. True) db1 = Inr [apx_report 2 2 ''h1''] \<and>
     destroy_ack api_example (apx_caller None []) ''r1'' db1 = (Inr (), db2) \<and> ad_acks db2 = ad_acks apx_db \<and>
     get_reports_subquery api_example (apx_caller None []) default_options (\<lambda>_. True) db2 =
       Inr [apx_report 1 1 ''h1'', apx_report 2 2 ''h1'', apx_report 3 1 ''h2'']"
proof -
  let ?ar = "apx_caller None []"
  let ?reports = "get_reports_subquery api_example ?ar default_options (\<lambda>_. True)"
  have "fst (create_ack api_example ?ar ''r1'' None apx_db) = Inr \<lparr>ack_id = 1, ack_rule = 1, ack_org = ''o'',
      ack_account = Some ''acct'', ack_justification = [], ack_created_by = ''user''\<rparr>"
    by code_simp
  then obtain a db1 where a: "create_ack api_example ?ar ''r1'' None apx_db = (Inr a, db1)" "ack_org a = ''o''"
    by (cases "create_ack api_example ?ar ''r1'' None apx_db") auto
  have before: "?reports apx_db = Inr [apx_report 1 1 ''h1'', apx_report 2 2 ''h1'', apx_report 3 1 ''h2'']"
    by code_simp
  have "find_rule ''r1'' apx_db = Some (apx_rule 1 ''r1'')" "ack_ids_ok apx_db" "\<not> rule_acked apx_db ''o'' 1"
    by (simp_all add: find_rule_def apx_db_def apx_rule_def ack_ids_ok_def rule_acked_def)
  then obtain db2 where db2: "?reports db1 = Inr [apx_report 2 2 ''h1'']"
    "destroy_ack api_example ?ar ''r1'' db1 = (Inr (), db2)" "db2\<lparr>ad_next := ad_next apx_db\<rparr> = apx_db"
    "?reports db2 = ?reports apx_db"
    using ack_hides_and_restores [OF apx_db_ok, of "''r1''" "apx_rule 1 ''r1''" api_example ?ar None a db1 ?ar default_options
        "\<lambda>_. True"] a before
    by (auto simp: apx_rule_def apx_report_def default_options_def)
  have "ad_acks (db2\<lparr>ad_next := ad_next apx_db\<rparr>) = ad_acks apx_db" by (rule arg_cong [OF db2(3)])
  then have "ad_acks db2 = ad_acks apx_db" by simp
  with db2(1,2,4) a before show ?thesis by auto
qed

end
