(* ===== verification/Hostack_Safety.thy ===== *)
theory Hostack_Safety
  imports Ack_Safety
begin

text \<open>
  Acknowledgements on hosts: every request keeps the keys of the tables unique, acknowledging many
  hosts stops at the first whose acknowledgement carries another account and leaves those before it
  in place, and an acknowledgement that the view set does not show cannot be made again.
\<close>

section \<open>Insert or update keeps keys unique\<close>

lemma update_or_create_map:
  assumes "update_or_create found upd new fits allowed rows = (res, rows')" "\<And>x. k (upd x) = k x"
  shows "map k rows' = map k rows \<or> map k rows' = map k rows @ [k new] \<and> filter found rows = [] \<and> allowed"
proof -
  have "map k (map (\<lambda>x. if found x then upd x else x) rows) = map k rows"
    by (simp add: assms(2))
  then show ?thesis
    using assms(1) by (auto simp: update_or_create_def split: list.splits if_splits)
qed

lemma update_or_create_distinct:
  assumes "update_or_create found upd new fits allowed rows = (res, rows')" "\<And>x. k (upd x) = k x"
    and "distinct (map k rows)" "filter found rows = [] \<Longrightarrow> allowed \<Longrightarrow> k new \<notin> k ` set rows"
  shows "distinct (map k rows')"
  using update_or_create_map [OF assms(1), of k, OF assms(2)] assms(3,4) by auto

text \<open>The keys of the tables, and the numbers of rows drawn so far.\<close>

definition ack_row_key :: "api_ack \<Rightarrow> nat \<times> string" where
  "ack_row_key a = (ack_rule a, ack_org a)"

definition hostack_key :: "api_hostack \<Rightarrow> nat \<times> string \<times> string" where
  "hostack_key a = (ha_rule a, ha_org a, ha_host a)"

definition rating_key :: "api_rating \<Rightarrow> nat \<times> string" where
  "rating_key g = (rg_rule g, rg_by g)"

definition numbered :: "nat \<Rightarrow> nat list \<Rightarrow> bool" where
  "numbered n is \<longleftrightarrow> distinct is \<and> list_all (\<lambda>i. i < n) is"

definition acks_wf :: "api_db \<Rightarrow> bool" where
  "acks_wf db \<longleftrightarrow>
     distinct (map ack_row_key (ad_acks db)) \<and> numbered (ad_next db) (map ack_id (ad_acks db)) \<and>
     distinct (map hostack_key (ad_hostacks db)) \<and> numbered (ad_next db) (map ha_id (ad_hostacks db)) \<and>
     distinct (map rating_key (ad_ratings db))"

lemma numbered_mono: "numbered n is \<Longrightarrow> numbered (Suc n) is"
  by (auto simp: numbered_def list_all_iff)

lemma numbered_append: "numbered n is \<Longrightarrow> numbered (Suc n) (is @ [n])"
  by (auto simp: numbered_def list_all_iff)

lemma numbered_filter: "numbered n (map f xs) \<Longrightarrow> numbered n (map f (filter P xs))"
  by (auto simp: numbered_def list_all_iff distinct_map_filter)

lemma update_or_create_numbered:
  assumes "update_or_create found upd new fits allowed rows = (res, rows')" "\<And>x. k (upd x) = k x"
    and "numbered n (map k rows)" "k new = n"
  shows "numbered (Suc n) (map k rows')"
  using update_or_create_map [OF assms(1), of k, OF assms(2)] numbered_mono [OF assms(3)]
    numbered_append [OF assms(3)] assms(4) by auto

lemma keeps_acks_save: "keeps acks_wf (save_ack w rule j)"
proof (rule keepsI)
  fix db assume wf: "acks_wf db"
  let ?new = "\<lparr>ack_id = ad_next db, ack_rule = rule, ack_org = aw_org w, ack_account = aw_account w,
                ack_justification = j, ack_created_by = aw_user w\<rparr>"
  let ?upd = "\<lambda>a :: api_ack. a\<lparr>ack_account := aw_account w, ack_justification := j, ack_created_by := aw_user w\<rparr>"
  let ?found = "\<lambda>a :: api_ack. ack_org a = aw_org w \<and> ack_rule a = rule"
  obtain res acks where u: "update_or_create ?found ?upd ?new (fits_columns w j) True (ad_acks db) = (res, acks)"
    by (cases "update_or_create ?found ?upd ?new (fits_columns w j) True (ad_acks db)")
  have s: "snd (save_ack w rule j db) = put_acks acks db"
    by (simp add: save_ack_def u)
  have "distinct (map ack_row_key acks)"
    by (rule update_or_create_distinct [OF u])
      (use wf in \<open>auto simp: ack_row_key_def acks_wf_def filter_empty_conv\<close>)
  moreover have "numbered (Suc (ad_next db)) (map ack_id acks)"
    by (rule update_or_create_numbered [OF u]) (use wf in \<open>simp_all add: acks_wf_def\<close>)
  ultimately show "acks_wf (snd (save_ack w rule j db))"
    using wf by (simp add: s put_acks_def acks_wf_def numbered_mono)
qed

text \<open>What writing host acknowledgements by insert-or-update keeps, for any lookup.\<close>

lemma hostacks_wf:
  assumes "acks_wf db"
    and u: "update_or_create found upd (new_hostack w rule host j (ad_next db)) fits
      (hostack_allowed db (new_hostack w rule host j (ad_next db))) (ad_hostacks db) = (res, acks)"
    and "\<And>x. hostack_key (upd x) = hostack_key x" "\<And>x. ha_id (upd x) = ha_id x"
  shows "acks_wf (put_hostacks acks db)"
proof -
  have "distinct (map hostack_key acks)"
    by (rule update_or_create_distinct [where k = hostack_key, OF u]; (rule assms(3))?)
      (use assms(1) in \<open>auto simp: acks_wf_def hostack_allowed_def hostack_key_def same_hostack_def list_ex_iff\<close>)
  moreover have "numbered (Suc (ad_next db)) (map ha_id acks)"
    by (rule update_or_create_numbered [where k = ha_id, OF u]; (rule assms(4))?)
      (use assms(1) in \<open>simp_all add: acks_wf_def new_hostack_def\<close>)
  ultimately show ?thesis
    using assms(1) by (simp add: put_hostacks_def acks_wf_def numbered_mono)
qed

lemma keeps_acks_host: "keeps acks_wf (ack_host w rule j host)"
proof (rule keepsI)
  fix db assume wf: "acks_wf db"
  let ?new = "new_hostack w rule host j (ad_next db)"
  let ?u = "update_or_create (\<lambda>a. same_hostack ?new a \<and> ha_account a = aw_account w)
    (\<lambda>a. a\<lparr>ha_justification := j, ha_created_by := aw_user w\<rparr>) ?new (fits_columns w j)
    (hostack_allowed db ?new) (ad_hostacks db)"
  obtain res acks where u: "?u = (res, acks)" by (cases ?u)
  have "acks_wf (put_hostacks acks db)"
    by (rule hostacks_wf [OF wf u]) (simp_all add: hostack_key_def)
  then show "acks_wf (snd (ack_host w rule j host db))"
    by (simp add: ack_host_def u)
qed

lemma keeps_acks_each: "keeps acks_wf (ack_each w rule j hosts)"
  by (induction hosts; simp only: ack_each.simps) (intro keeps_ret keeps_bind keeps_acks_host | assumption)+

lemma keeps_read: "keeps P (\<lambda>db. (f db, db))"
  by (simp add: keeps_def)

lemma keeps_bind_get_value: "(\<And>x. keeps P (f x)) \<Longrightarrow> keeps P (a_bind (a_get g) f)"
  by (rule keeps_bind [OF keeps_get])

lemma keeps_get_rule: "keeps P (get_rule ae lk ar rule_id)"
  unfolding get_rule_def by (rule keeps_read)

lemma keeps_get_ack: "keeps P (get_ack ae ar rule_id)"
  unfolding get_ack_def by (intro keeps_bind keeps_lift keeps_get keeps_option keeps_raise keeps_ret)

lemma keeps_get_hostack: "keeps P (get_hostack ae ar pk)"
  unfolding get_hostack_def by (intro keeps_bind keeps_lift keeps_get keeps_option keeps_raise keeps_ret)

lemma keeps_acks_create: "keeps acks_wf (create_ack ae ar rule_id j)"
  unfolding create_ack_def
  by (intro keeps_bind keeps_lift keeps_get keeps_option keeps_raise keeps_acks_save)
    (simp add: keeps_def split: prod.splits)

lemma keeps_acks_ack_hosts: "keeps acks_wf (ack_hosts ae lk ar rule_id hosts j)"
  unfolding ack_hosts_def ack_all_def
  by (intro keeps_bind keeps_lift keeps_get_rule keeps_read keeps_if keeps_ret keeps_acks_each)

lemma acks_wf_filter_hostacks:
  "acks_wf db \<Longrightarrow> acks_wf (db\<lparr>ad_hostacks := filter P (ad_hostacks db)\<rparr>)"
  by (simp add: acks_wf_def distinct_map_filter numbered_filter)

lemma keeps_acks_unack_hosts: "keeps acks_wf (unack_hosts ae lk ar rule_id hosts)"
  unfolding unack_hosts_def Let_def
  by (intro keeps_bind keeps_then keeps_lift keeps_get keeps_get_rule keeps_read keeps_ret keeps_upd
      acks_wf_filter_hostacks)

lemma keeps_acks_destroy: "keeps acks_wf (destroy_ack ae ar rule_id)"
  unfolding destroy_ack_def
  by (intro keeps_bind keeps_get_ack keeps_upd) (simp add: acks_wf_def distinct_map_filter numbered_filter)

lemma keeps_hostacks_destroy: "keeps acks_wf (destroy_hostack ae ar pk)"
  unfolding destroy_hostack_def by (intro keeps_bind keeps_get_hostack keeps_upd acks_wf_filter_hostacks)

text \<open>A row written back under its own number.\<close>

lemma replace_row:
  assumes "distinct (map i rows)" "a \<in> set rows" "k b = k a"
  shows "map k (map (\<lambda>x. if i x = i a then b else x) rows) = map k rows"
proof -
  have "k (if i x = i a then b else x) = k x" if "x \<in> set rows" for x
    using that assms by (auto simp: distinct_map dest: inj_onD)
  then show ?thesis by simp
qed

lemma find_Some_in: "find P xs = Some x \<Longrightarrow> x \<in> set xs"
  by (auto simp: find_Some_iff)

lemma get_ack_Inr: "get_ack ae ar rule_id db = (Inr a, db') \<Longrightarrow> db' = db \<and> a \<in> set (ad_acks db)"
  by (auto simp: get_ack_def a_bind_Inr split: option.splits dest: find_Some_in)

lemma get_hostack_Inr: "get_hostack ae ar pk db = (Inr a, db') \<Longrightarrow> db' = db \<and> a \<in> set (ad_hostacks db)"
  by (auto simp: get_hostack_def a_bind_Inr split: option.splits dest: find_Some_in)

text \<open>A computation that finds a row of the state and then goes on from it.\<close>

lemma keeps_found:
  assumes "keeps P m" "\<And>db a db'. m db = (Inr a, db') \<Longrightarrow> db' = db \<and> a \<in> rows db"
    and "\<And>a db. a \<in> rows db \<Longrightarrow> P db \<Longrightarrow> P (snd (f a db))"
  shows "keeps P (a_bind m f)"
proof (rule keepsI)
  fix db assume P: "P db"
  show "P (snd (a_bind m f db))"
  proof (cases "m db")
    case (Pair res db')
    then show ?thesis
      using P keepsD [OF assms(1) P] assms(2) [of db _ db'] assms(3)
      by (cases res) (auto simp: a_bind_app)
  qed
qed

lemma keeps_acks_update: "keeps acks_wf (update_ack ae ar rule_id j)"
proof -
  have step: "acks_wf (snd (a_bind (a_lift (user_text ae rq)) (\<lambda>user.
      let b = a\<lparr>ack_justification := t, ack_created_by := user\<rparr> in
      a_then (a_upd (\<lambda>db. db\<lparr>ad_acks := map (\<lambda>x. if ack_id x = ack_id a then b else x) (ad_acks db)\<rparr>)) (a_ret b)) db))"
    if a: "a \<in> set (ad_acks db)" and wf: "acks_wf db" for a t db rq
  proof (cases "user_text ae rq")
    case (Inr user)
    let ?b = "a\<lparr>ack_justification := t, ack_created_by := user\<rparr>"
    let ?acks = "map (\<lambda>x. if ack_id x = ack_id a then ?b else x) (ad_acks db)"
    have d: "distinct (map ack_id (ad_acks db))"
      using wf by (simp add: acks_wf_def numbered_def)
    have "map ack_row_key ?acks = map ack_row_key (ad_acks db)" "map ack_id ?acks = map ack_id (ad_acks db)"
      by (rule replace_row [OF d a]; simp add: ack_row_key_def)+
    then show ?thesis
      using wf Inr by (simp add: Let_def a_bind_app a_then_app acks_wf_def del: map_map)
  qed (simp add: a_bind_app wf)
  show ?thesis
    unfolding update_ack_def
    by (rule keeps_bind [OF keeps_lift],
        rule keeps_found [where rows = "\<lambda>db. set (ad_acks db)", OF keeps_get_ack get_ack_Inr], assumption, rule step)
qed

lemma keeps_hostacks_update: "keeps acks_wf (update_hostack ae ar pk j)"
proof -
  have step: "acks_wf (snd (a_bind (a_lift (justification_ok j)) (\<lambda>t.
      a_bind (a_lift (user_text ae rq)) (\<lambda>user.
      let b = a\<lparr>ha_justification := t, ha_created_by := user\<rparr> in
      a_then (a_upd (\<lambda>db. db\<lparr>ad_hostacks := map (\<lambda>x. if ha_id x = ha_id a then b else x) (ad_hostacks db)\<rparr>))
        (a_ret b))) db))"
    if a: "a \<in> set (ad_hostacks db)" and wf: "acks_wf db" for a db rq
  proof (cases "justification_ok j"; cases "user_text ae rq")
    fix t user assume ok: "justification_ok j = Inr t" "user_text ae rq = Inr user"
    let ?b = "a\<lparr>ha_justification := t, ha_created_by := user\<rparr>"
    let ?acks = "map (\<lambda>x. if ha_id x = ha_id a then ?b else x) (ad_hostacks db)"
    have d: "distinct (map ha_id (ad_hostacks db))"
      using wf by (simp add: acks_wf_def numbered_def)
    have "map hostack_key ?acks = map hostack_key (ad_hostacks db)" "map ha_id ?acks = map ha_id (ad_hostacks db)"
      by (rule replace_row [OF d a]; simp add: hostack_key_def)+
    then show ?thesis
      using wf ok by (simp add: Let_def a_bind_app a_then_app acks_wf_def del: map_map)
  qed (simp_all add: a_bind_app wf)
  show ?thesis
    unfolding update_hostack_def
    by (rule keeps_found [where rows = "\<lambda>db. set (ad_hostacks db)", OF keeps_get_hostack get_hostack_Inr], assumption,
        rule step)
qed

lemma keeps_hostacks_create: "keeps acks_wf (create_hostack ae ar rule_id host j)"
proof -
  have step: "acks_wf (snd ((let new = new_hostack w pk host t (ad_next db);
        (res, acks) = update_or_create (\<lambda>a. same_hostack new a \<and> hostack_shown ae db org a)
          (\<lambda>a. a\<lparr>ha_account := aw_account w, ha_justification := t, ha_created_by := aw_user w\<rparr>)
          new (fits_columns w t) (hostack_allowed db new) (ad_hostacks db) in
      (map_sum id fst res :: api_hostack py, put_hostacks acks db))))"
    if wf: "acks_wf db" for w pk t org db
  proof -
    let ?new = "new_hostack w pk host t (ad_next db)"
    let ?u = "update_or_create (\<lambda>a. same_hostack ?new a \<and> hostack_shown ae db org a)
      (\<lambda>a. a\<lparr>ha_account := aw_account w, ha_justification := t, ha_created_by := aw_user w\<rparr>)
      ?new (fits_columns w t) (hostack_allowed db ?new) (ad_hostacks db)"
    obtain res acks where u: "?u = (res, acks)" by (cases ?u)
    have "acks_wf (put_hostacks acks db)"
      by (rule hostacks_wf [OF wf u]) (simp_all add: hostack_key_def)
    then show ?thesis by (simp add: u)
  qed
  show ?thesis
    unfolding create_hostack_def
    by (intro keeps_bind keeps_get keeps_lift keeps_if keeps_raise keepsI step)
qed

lemma keeps_acks_rating: "keeps acks_wf (create_rating ae ar rule_id rating)"
proof -
  have step: "acks_wf (snd (let pk = ar_pk rule;
        new = \<lparr>rg_rule = pk, rg_by = aw_user w, rg_account = aw_account w, rg_org = aw_org w, rg_rating = rating\<rparr>;
        (res, ratings) = update_or_create (\<lambda>g. rg_rule g = pk \<and> rg_by g = aw_user w)
          (\<lambda>g. g\<lparr>rg_account := aw_account w, rg_org := aw_org w, rg_rating := rating\<rparr>)
          new (fits_columns w []) True (ad_ratings db) in (res, put_ratings ratings db)))"
    if wf: "acks_wf db" for w rule db
  proof -
    let ?u = "update_or_create (\<lambda>g. rg_rule g = ar_pk rule \<and> rg_by g = aw_user w)
      (\<lambda>g. g\<lparr>rg_account := aw_account w, rg_org := aw_org w, rg_rating := rating\<rparr>)
      \<lparr>rg_rule = ar_pk rule, rg_by = aw_user w, rg_account = aw_account w, rg_org = aw_org w, rg_rating = rating\<rparr>
      (fits_columns w []) True (ad_ratings db)"
    obtain res ratings where u: "?u = (res, ratings)" by (cases ?u)
    have "distinct (map rating_key ratings)"
      by (rule update_or_create_distinct [where k = rating_key, OF u])
        (use wf in \<open>auto simp: rating_key_def acks_wf_def filter_empty_conv\<close>)
    then show ?thesis
      using wf by (simp add: u put_ratings_def acks_wf_def Let_def)
  qed
  show ?thesis
    unfolding create_rating_def
    by (intro keeps_bind keeps_get keeps_lift keeps_if keeps_raise keepsI step)
qed

section \<open>Any sequence of requests\<close>

text \<open>The requests of the views, whatever they return or raise.\<close>

inductive ack_run :: "api_db \<Rightarrow> api_db \<Rightarrow> bool" where
  done_run: "ack_run db db"
| run_create_ack: "ack_run db db' \<Longrightarrow> ack_run db (snd (create_ack ae ar rule_id j db'))"
| run_update_ack: "ack_run db db' \<Longrightarrow> ack_run db (snd (update_ack ae ar rule_id j db'))"
| run_destroy_ack: "ack_run db db' \<Longrightarrow> ack_run db (snd (destroy_ack ae ar rule_id db'))"
| run_create_hostack: "ack_run db db' \<Longrightarrow> ack_run db (snd (create_hostack ae ar rule_id host j db'))"
| run_update_hostack: "ack_run db db' \<Longrightarrow> ack_run db (snd (update_hostack ae ar pk j db'))"
| run_destroy_hostack: "ack_run db db' \<Longrightarrow> ack_run db (snd (destroy_hostack ae ar pk db'))"
| run_ack_hosts: "ack_run db db' \<Longrightarrow> ack_run db (snd (ack_hosts ae lk ar rule_id hosts justification db'))"
| run_unack_hosts: "ack_run db db' \<Longrightarrow> ack_run db (snd (unack_hosts ae lk ar rule_id hosts db'))"
| run_rating: "ack_run db db' \<Longrightarrow> ack_run db (snd (create_rating ae ar rule_id rating db'))"

lemmas keeps_acks = keeps_acks_create keeps_acks_update keeps_acks_destroy keeps_hostacks_create
  keeps_hostacks_update keeps_hostacks_destroy keeps_acks_ack_hosts keeps_acks_unack_hosts keeps_acks_rating

text \<open>
  C8: acknowledgements and ratings stay unique.  Whatever requests the views serve, in whatever order,
  returning or raising, there stays at most one acknowledgement for a rule and an organisation, one
  host acknowledgement for a rule, an organisation and a host, one rating for a rule and a user, and
  the numbers of the acknowledgements stay distinct.
\<close>

theorem acks_stay_unique:
  assumes "ack_run db db'" "acks_wf db"
  shows "acks_wf db'"
  using assms by induction (simp_all add: keeps_acks [THEN keepsD])

lemma acks_stay_unique_witness:
  "acks_wf (snd (create_rating api_example (apx_caller None []) ''r1'' 1
     (snd (create_ack api_example (apx_caller None []) ''r1'' None apx_db))))"
  by (rule acks_stay_unique [where db = apx_db])
    (intro ack_run.intros, simp add: acks_wf_def apx_db_def numbered_def)

section \<open>Acknowledging many hosts\<close>

definition foreign_hostack :: "api_db \<Rightarrow> ack_author \<Rightarrow> nat \<Rightarrow> string \<Rightarrow> bool" where
  "foreign_hostack db w rule host \<longleftrightarrow> host_acked db (aw_org w) rule host \<and>
     list_all (\<lambda>a. ha_rule a = rule \<and> ha_host a = host \<and> ha_org a = aw_org w \<longrightarrow> ha_account a \<noteq> aw_account w)
       (ad_hostacks db)"

lemma ack_host_new:
  assumes "\<not> host_acked db (aw_org w) rule host" "host \<in> set (host_ids db)" "fits_columns w j"
  shows "ack_host w rule j host db =
    (Inr True, put_hostacks (ad_hostacks db @ [new_hostack w rule host j (ad_next db)]) db)"
proof -
  let ?new = "new_hostack w rule host j (ad_next db)"
  have no: "\<not> same_hostack ?new a" if "a \<in> set (ad_hostacks db)" for a
    using that assms(1) by (auto simp: same_hostack_def new_hostack_def host_acked_def list_ex_iff)
  then have "filter (\<lambda>a. same_hostack ?new a \<and> ha_account a = aw_account w) (ad_hostacks db) = []"
    by (simp add: filter_empty_conv)
  moreover have "hostack_allowed db ?new"
    using no assms(2) by (auto simp: hostack_allowed_def list_ex_iff new_hostack_def)
  ultimately show ?thesis
    using assms(3) by (simp add: ack_host_def update_or_create_def)
qed

lemma ack_host_foreign:
  assumes "foreign_hostack db w rule host" "fits_columns w j"
  shows "ack_host w rule j host db = (Inl IntegrityError, put_hostacks (ad_hostacks db) db)"
proof -
  let ?new = "new_hostack w rule host j (ad_next db)"
  have "filter (\<lambda>a. same_hostack ?new a \<and> ha_account a = aw_account w) (ad_hostacks db) = []"
    using assms(1) by (auto simp: filter_empty_conv foreign_hostack_def same_hostack_def new_hostack_def list_all_iff)
  moreover have "\<not> hostack_allowed db ?new"
    using assms(1) by (auto simp: hostack_allowed_def foreign_hostack_def host_acked_def same_hostack_def
        new_hostack_def list_ex_iff)
  ultimately show ?thesis
    using assms(2) by (simp add: ack_host_def update_or_create_def)
qed

lemma host_acked_insert:
  "host_acked (put_hostacks (ad_hostacks db @ [new_hostack w rule host j i]) db) org pk h \<longleftrightarrow>
     host_acked db org pk h \<or> org = aw_org w \<and> pk = rule \<and> h = host"
  by (auto simp: host_acked_def put_hostacks_def new_hostack_def)

lemma foreign_insert:
  "h \<noteq> host \<Longrightarrow> foreign_hostack (put_hostacks (ad_hostacks db @ [new_hostack w rule host j i]) db) w rule h \<longleftrightarrow>
     foreign_hostack db w rule h"
  by (simp add: foreign_hostack_def host_acked_insert) (simp add: put_hostacks_def new_hostack_def)

lemma ack_each_stops:
  assumes "distinct first" "list_all (\<lambda>g. \<not> host_acked db (aw_org w) rule g \<and> g \<in> set (host_ids db)) first"
    and "foreign_hostack db w rule h" "fits_columns w j"
  shows "fst (ack_each w rule j (first @ h # rest) db) = Inl IntegrityError \<and>
    (\<forall>org pk g. host_acked (snd (ack_each w rule j (first @ h # rest) db)) org pk g \<longleftrightarrow>
       host_acked db org pk g \<or> org = aw_org w \<and> pk = rule \<and> g \<in> set first)"
  using assms(1-3)
proof (induction first arbitrary: db)
  case Nil
  then show ?case
    by (simp add: a_bind_app ack_host_foreign assms(4)) (simp add: host_acked_def put_hostacks_def)
next
  case (Cons g first)
  let ?db = "put_hostacks (ad_hostacks db @ [new_hostack w rule g j (ad_next db)]) db"
  have g: "ack_host w rule j g db = (Inr True, ?db)"
    using Cons.prems assms(4) by (simp add: ack_host_new)
  have "h \<noteq> g"
    using Cons.prems by (auto simp: foreign_hostack_def)
  have "list_all (\<lambda>x. \<not> host_acked ?db (aw_org w) rule x \<and> x \<in> set (host_ids ?db)) first"
    using Cons.prems by (auto simp: list_all_iff host_acked_insert) (simp add: put_hostacks_def)
  with Cons.IH [of ?db] Cons.prems \<open>h \<noteq> g\<close> have
    "fst (ack_each w rule j (first @ h # rest) ?db) = Inl IntegrityError"
    "\<forall>org pk x. host_acked (snd (ack_each w rule j (first @ h # rest) ?db)) org pk x \<longleftrightarrow>
       host_acked ?db org pk x \<or> org = aw_org w \<and> pk = rule \<and> x \<in> set first"
    by (simp_all add: foreign_insert)
  then show ?case
    by (cases "ack_each w rule j (first @ h # rest) ?db") (auto simp: a_bind_app g host_acked_insert split: sum.splits)
qed

text \<open>
  Acknowledging many hosts is not atomic and depends on the account.  The lookup of
  \<open>ack_hosts\<close> includes the account, which the unique key does not: when the rule is already
  acknowledged on a host of the list under another account (or none), the request raises
  \<open>IntegrityError\<close> instead of updating that acknowledgement, the hosts before it in the list stay
  acknowledged, and those after it do not become so.
\<close>

theorem ack_hosts_stops_at_other_account:
  assumes "fst (get_rule ae lk ar rule_id db) = Inr u" "length justification \<le> 255"
    and "ack_author_of ae (aq_request ar) = Inr w" "fits_columns w justification"
    and "validate_hosts_in_org (first @ h # rest) (Some (aw_org w)) db = Inr ()"
    and "distinct first" "filter (\<lambda>g. host_acked db (aw_org w) (ar_pk u) g \<or> g \<notin> set (host_ids db)) first = []"
    and "foreign_hostack db w (ar_pk u) h"
  shows "fst (ack_hosts ae lk ar rule_id (first @ h # rest) justification db) = Inl IntegrityError \<and>
    (\<forall>g. host_acked (snd (ack_hosts ae lk ar rule_id (first @ h # rest) justification db)) (aw_org w) (ar_pk u) g \<longleftrightarrow>
       host_acked db (aw_org w) (ar_pk u) g \<or> g \<in> set first)"
proof -
  let ?hosts = "first @ h # rest"
  have rule: "get_rule ae lk ar rule_id db = (Inr u, db)"
    using assms(1) by (simp add: get_rule_def)
  have org: "auth_org ae (aq_request ar) = Inr (Some (aw_org w))"
    by (rule ack_author_org [OF assms(3)])
  obtain name where name: "username_of ae (aq_request ar) = Inr name"
    using assms(3) by (auto simp: ack_author_of_def py_bind_eq_Inr)
  have stops: "fst (ack_each w (ar_pk u) justification ?hosts db) = Inl IntegrityError \<and>
      (\<forall>org pk g. host_acked (snd (ack_each w (ar_pk u) justification ?hosts db)) org pk g \<longleftrightarrow>
         host_acked db org pk g \<or> org = aw_org w \<and> pk = ar_pk u \<and> g \<in> set first)"
    by (rule ack_each_stops [OF assms(6) _ assms(8,4)])
      (use assms(7) in \<open>auto simp: filter_empty_conv list_all_iff\<close>)
  have "ack_hosts ae lk ar rule_id ?hosts justification db =
      a_bind (ack_each w (ar_pk u) justification ?hosts)
        (\<lambda>n. a_bind (\<lambda>db. (impacted_hosts ae ar u db, db)) (\<lambda>hs. a_ret (n, hs))) db"
    using assms(2) by (simp add: ack_hosts_def ack_all_def a_bind_app rule justification_ok_def org assms(3,5) name)
  with stops show ?thesis
    by (cases "ack_each w (ar_pk u) justification ?hosts db") (auto simp: a_bind_app)
qed

definition apx_hostack :: "nat \<Rightarrow> nat \<Rightarrow> string \<Rightarrow> string option \<Rightarrow> api_hostack" where
  "apx_hostack i rule host account = \<lparr>ha_id = i, ha_rule = rule, ha_host = host, ha_org = ''o'',
     ha_account = account, ha_justification = [], ha_created_by = ''other''\<rparr>"

definition apx_acked_db :: api_db where
  "apx_acked_db = apx_db\<lparr>ad_hostacks := [apx_hostack 0 1 ''h2'' None]\<rparr>"

definition apx_writer :: ack_author where
  "apx_writer = \<lparr>aw_org = ''o'', aw_account = Some ''acct'', aw_user = ''user''\<rparr>"

lemma ack_hosts_stops_at_other_account_witness:
  "fst (ack_hosts api_example (apx_lookups ha_host) (apx_caller None []) ''r1'' [''h1'', ''h2'', ''h3''] ''x'' apx_acked_db) =
     Inl IntegrityError"
proof -
  have rule: "fst (get_rule api_example (apx_lookups ha_host) (apx_caller None []) ''r1'' apx_acked_db) =
      Inr (apx_rule 1 ''r1'')"
    by code_simp
  have w: "ack_author_of api_example (aq_request (apx_caller None [])) = Inr apx_writer"
    by code_simp
  have ok: "fits_columns apx_writer ''x''"
    "validate_hosts_in_org ([''h1''] @ ''h2'' # [''h3'']) (Some (aw_org apx_writer)) apx_acked_db = Inr ()"
    "filter (\<lambda>g. host_acked apx_acked_db (aw_org apx_writer) (ar_pk (apx_rule 1 ''r1'')) g \<or> g \<notin> set (host_ids apx_acked_db)) [''h1''] = []"
    "foreign_hostack apx_acked_db apx_writer (ar_pk (apx_rule 1 ''r1'')) ''h2''"
    by code_simp+
  from ack_hosts_stops_at_other_account [OF rule _ w ok(1,2) _ ok(3,4)] show ?thesis by simp
qed

text \<open>
  A host acknowledgement the view set does not show, because the host is stale or the rule is no
  longer active, is not found by \<open>create_hostack\<close>, whose insert then violates the unique key.
\<close>

lemma hidden_hostack_not_recreated:
  assumes "find_rule rule_id db = Some u" "ar_active u" "justification_ok j = Inr t"
    and "ack_author_of ae (aq_request ar) = Inr w" "queryset_org ae (aq_request ar) = Inr org" "fits_columns w t"
    and "host_acked db (aw_org w) (ar_pk u) host" "\<not> stale_systems_q ae db org host"
  shows "fst (create_hostack ae ar rule_id host j db) = Inl IntegrityError"
proof -
  let ?new = "new_hostack w (ar_pk u) host t (ad_next db)"
  have "filter (\<lambda>a. same_hostack ?new a \<and> hostack_shown ae db org a) (ad_hostacks db) = []"
    using assms(8) by (auto simp: filter_empty_conv same_hostack_def hostack_shown_def new_hostack_def)
  moreover have "\<not> hostack_allowed db ?new"
    using assms(7) by (auto simp: hostack_allowed_def host_acked_def same_hostack_def new_hostack_def list_ex_iff)
  ultimately show ?thesis
    using assms(1-6) by (simp add: create_hostack_def a_bind_app update_or_create_def Let_def)
qed

end
