(* ===== verification/Pathway_Safety.thy ===== *)
theory Pathway_Safety
  imports Ack_Safety
begin

text \<open>
  Pathways: what \<open>PathwayManager.for_account\<close> collects is what the reports say, the pathways are
  annotated with it when at least two are impacted, and with defaults when there is only one; the
  recommendation level stays within its bounds and grows with what it measures.
\<close>

section \<open>What is collected\<close>

definition hosts_in :: "api_db \<Rightarrow> api_report list \<Rightarrow> nat \<Rightarrow> (api_rule \<Rightarrow> bool) \<Rightarrow> string set" where
  "hosts_in db rs i Q = rp_host ` set (filter (of_rule db (\<lambda>u. ar_pathway u = Some i \<and> Q u)) rs)"

lemma set_add [simp]: "set (set_add x xs) = insert x (set xs)" "distinct xs \<Longrightarrow> distinct (set_add x xs)"
  by (auto simp: set_add_def)

lemma set_set_add: "set (set_add x xs) = insert x (set xs)"
  by (rule set_add(1))

lemma collect_field:
  assumes "\<And>u host p p'. add_entry u host p = Inr p' \<Longrightarrow> set (f p') = set (f p) \<union> (if Q u then {host} else {})"
    and "collect_pathways db rs d = Inr d'"
  shows "set (f (pathway_entry d' i)) = set (f (pathway_entry d i)) \<union> hosts_in db rs i Q"
  using assms(2)
proof (induction db rs d rule: collect_pathways.induct)
  case (1 db d)
  then show ?case by (simp add: hosts_in_def)
next
  case (2 db r rs d)
  show ?case
  proof (cases "rule_of db r")
    case None
    with 2 show ?thesis by (simp add: hosts_in_def of_rule_def)
  next
    case (Some u)
    show ?thesis
    proof (cases "ar_pathway u")
      case None
      with 2 Some show ?thesis by (simp add: hosts_in_def of_rule_def)
    next
      case (Some k)
      note u = \<open>rule_of db r = Some u\<close> Some
      from "2.prems" u obtain p where p: "add_entry u (rp_host r) (pathway_entry d k) = Inr p"
        and c: "collect_pathways db rs (dict_set k p d) = Inr d'"
        by (auto simp: add_pathway_report_def py_bind_eq_Inr)
      have "set (f (pathway_entry d' i)) = set (f (pathway_entry (dict_set k p d) i)) \<union> hosts_in db rs i Q"
        using "2.IH"(3) [OF u] p c by (simp add: add_pathway_report_def)
      moreover have "set (f (pathway_entry (dict_set k p d) i)) =
          set (f (pathway_entry d i)) \<union> (if i = k \<and> Q u then {rp_host r} else {})"
        using assms(1) [OF p] by (auto simp: pathway_entry_def)
      ultimately show ?thesis
        by (auto simp: hosts_in_def of_rule_def u)
    qed
  qed
qed

lemma collect_distinct:
  assumes "\<And>u host p p'. add_entry u host p = Inr p' \<Longrightarrow> P p \<Longrightarrow> P p'"
    and "collect_pathways db rs d = Inr d'" "\<And>i. P (pathway_entry d i)" "distinct (map fst d)"
  shows "P (pathway_entry d' i) \<and> distinct (map fst d') \<and>
    fst ` set d' = fst ` set d \<union> {k. hosts_in db rs k (\<lambda>_. True) \<noteq> {}}"
  using assms(2-)
proof (induction db rs d rule: collect_pathways.induct)
  case (1 db d)
  then show ?case by (simp add: hosts_in_def)
next
  case (2 db r rs d)
  show ?case
  proof (cases "rule_of db r")
    case None
    with 2 show ?thesis by (simp add: hosts_in_def of_rule_def)
  next
    case (Some u)
    show ?thesis
    proof (cases "ar_pathway u")
      case None
      with 2 Some show ?thesis by (simp add: hosts_in_def of_rule_def)
    next
      case (Some k)
      note u = \<open>rule_of db r = Some u\<close> Some
      from "2.prems"(1) u obtain p where p: "add_entry u (rp_host r) (pathway_entry d k) = Inr p"
        and c: "collect_pathways db rs (dict_set k p d) = Inr d'"
        by (auto simp: add_pathway_report_def py_bind_eq_Inr)
      have P: "P (pathway_entry (dict_set k p d) i)" for i
        using assms(1) [OF p "2.prems"(2)] "2.prems"(2) by (auto simp: pathway_entry_def)
      have "add_pathway_report k u (rp_host r) d = Inr (dict_set k p d)"
        by (simp add: add_pathway_report_def p)
      then have "P (pathway_entry d' i) \<and> distinct (map fst d') \<and>
          fst ` set d' = fst ` set (dict_set k p d) \<union> {k. hosts_in db rs k (\<lambda>_. True) \<noteq> {}}"
        using "2.IH"(3) [OF u _ c P distinct_dict_set [OF "2.prems"(3)]] by simp
      moreover have "{l. hosts_in db (r # rs) l (\<lambda>_. True) \<noteq> {}} = insert k {l. hosts_in db rs l (\<lambda>_. True) \<noteq> {}}"
        by (auto simp: hosts_in_def of_rule_def u filter_empty_conv)
      ultimately show ?thesis by simp
    qed
  qed
qed

text \<open>Each field of the collected data, and what selects a rule for it.\<close>

definition pathway_fields :: "((pathway_hosts \<Rightarrow> string list) \<times> (api_rule \<Rightarrow> bool)) list" where
  "pathway_fields =
     [(ph_impacted, \<lambda>_. True), (ph_incidents, \<lambda>u. ''incident'' \<in> set (ar_tags u)),
      (ph_low, \<lambda>u. ar_total_risk u = 1), (ph_medium, \<lambda>u. ar_total_risk u = 2),
      (ph_high, \<lambda>u. ar_total_risk u = 3), (ph_critical, \<lambda>u. ar_total_risk u = 4)]"

lemma add_entry_field:
  "add_entry u host p = Inr p' \<Longrightarrow> (f, Q) \<in> set pathway_fields \<Longrightarrow>
     set (f p') = set (f p) \<union> (if Q u then {host} else {}) \<and> (distinct (f p) \<longrightarrow> distinct (f p'))"
  by (auto simp: add_entry_def add_risk_def Let_def pathway_fields_def split: if_splits)

lemma collected_length:
  assumes "collect_pathways db rs [] = Inr d" "(f, Q) \<in> set pathway_fields"
  shows "length (f (pathway_entry d i)) = card (hosts_in db rs i Q)"
proof -
  have none: "f (pathway_entry [] k) = []" for k
    using assms(2) by (auto simp: pathway_fields_def pathway_entry_def no_hosts_def)
  have "set (f (pathway_entry d i)) = hosts_in db rs i Q"
    using collect_field [of f Q, OF _ assms(1), of i] add_entry_field [OF _ assms(2)] none by simp
  moreover have "distinct (f (pathway_entry d i))"
    using collect_distinct [of "\<lambda>p. distinct (f p)", OF _ assms(1), of i] add_entry_field [OF _ assms(2)] none
    by simp
  ultimately show ?thesis
    by (metis distinct_card)
qed

lemma collected_keys:
  assumes "collect_pathways db rs [] = Inr d"
  shows "distinct (map fst d)" "fst ` set d = {k. hosts_in db rs k (\<lambda>_. True) \<noteq> {}}"
  using collect_distinct [of "\<lambda>_. True", OF _ assms] by auto

section \<open>How it is annotated\<close>

lemma agg_case_single: "pathway_agg_case field dflt [(i, c)] = ((\<lambda>_. field c), [])"
  by (simp add: pathway_agg_case_def)

lemma agg_case_empty: "pathway_agg_case field dflt [] = ((\<lambda>_. dflt), [])"
  by (simp add: pathway_agg_case_def)

lemma map_of_filter_value:
  "distinct (map fst d) \<Longrightarrow> (i, c) \<in> set d \<Longrightarrow>
     map_of (filter (\<lambda>(_, c). P c) d) i = (if P c then Some c else None)"
proof (induction d)
  case (Cons x d)
  obtain k v where x: "x = (k, v)" by (cases x)
  show ?case
  proof (cases "i = k \<and> c = v")
    case True
    have "i \<notin> fst ` set (filter (\<lambda>(_, c). P c) d)"
      using Cons.prems(1) True by (auto simp: x)
    then have "map_of (filter (\<lambda>(_, c). P c) d) i = None"
      by (simp only: map_of_eq_None_iff not_False_eq_True)
    with True show ?thesis by (simp add: x)
  next
    case False
    with Cons.prems have "i \<noteq> k" "(i, c) \<in> set d" by (auto simp: x rev_image_eqI)
    with Cons show ?thesis by (simp add: x)
  qed
qed simp

lemma agg_case_many:
  assumes "length d \<ge> 2" "distinct (map fst d)" "(i, c) \<in> set d"
  shows "fst (pathway_agg_case field dflt d) i = field c" "snd (pathway_agg_case field dflt d) = d"
proof -
  obtain a b r where d: "d = a # b # r"
    using assms(1) by (cases d; cases "tl d") auto
  define vals where "vals = remdups (map (\<lambda>(_, c). field c) d)"
  have eq: "pathway_agg_case field dflt d =
      (case vals of [v] \<Rightarrow> ((\<lambda>_. v), d)
       | _ \<Rightarrow> ((\<lambda>i. case map_of (filter (\<lambda>(_, c). field c \<noteq> dflt) d) i of None \<Rightarrow> dflt | Some c \<Rightarrow> field c), d))"
    unfolding pathway_agg_case_def vals_def d by simp
  have "set vals = (\<lambda>(_, c). field c) ` set d" by (simp add: vals_def)
  then have mem: "field c \<in> set vals" using assms(3) by force
  show "snd (pathway_agg_case field dflt d) = d"
    unfolding eq by (simp split: list.split)
  show "fst (pathway_agg_case field dflt d) i = field c"
    unfolding eq using mem map_of_filter_value [OF assms(2,3), of "\<lambda>c. field c \<noteq> dflt"]
    by (auto split: list.splits)
qed

section \<open>The pathways of an account\<close>

definition hit_pathways :: "api_db \<Rightarrow> api_report list \<Rightarrow> nat set" where
  "hit_pathways db reports = {k. hosts_in db reports k (\<lambda>_. True) \<noteq> {}}"

text \<open>The figures the reports call for.\<close>

definition right_figures :: "api_db \<Rightarrow> api_report list \<Rightarrow> pathway_row \<Rightarrow> bool" where
  "right_figures db reports row \<longleftrightarrow>
     (let n = (\<lambda>Q. card (hosts_in db reports (pw_id (pr_pathway row)) Q)) in
      pr_impacted row = n (\<lambda>_. True) \<and>
      pr_incidents row = n (\<lambda>u. ''incident'' \<in> set (ar_tags u)) \<and>
      pr_has_incident row = (n (\<lambda>u. ''incident'' \<in> set (ar_tags u)) > 0) \<and>
      pr_low row = n (\<lambda>u. ar_total_risk u = 1) \<and> pr_medium row = n (\<lambda>u. ar_total_risk u = 2) \<and>
      pr_high row = n (\<lambda>u. ar_total_risk u = 3) \<and> pr_critical row = n (\<lambda>u. ar_total_risk u = 4) \<and>
      pr_level row = (if pr_total row > 0
        then calculate_rec_level (of_nat (n (\<lambda>_. True)) / of_nat (pr_total row))
          (n (\<lambda>u. ''incident'' \<in> set (ar_tags u)) > 0)
          (int (Max (insert 0 {ar_total_risk u | u. u \<in> set (ad_rules db) \<and> ar_pathway u = Some (pw_id (pr_pathway row))})))
        else 0))"

lemma foldl_max: "foldl max a xs = Max (insert a (set xs))" for a :: nat
proof (induction xs arbitrary: a)
  case (Cons x xs)
  have "Max (insert (max a x) (set xs)) = Max (insert a (insert x (set xs)))"
    by (cases "xs = []") (simp_all add: max.assoc)
  with Cons show ?case by simp
qed simp

lemma max_risk_Max:
  "max_risk db i = int (Max (insert 0 {ar_total_risk u | u. u \<in> set (ad_rules db) \<and> ar_pathway u = Some i}))"
proof -
  have "set (map ar_total_risk (pathway_rules db i)) = {ar_total_risk u | u. u \<in> set (ad_rules db) \<and> ar_pathway u = Some i}"
    by (auto simp: pathway_rules_def)
  then show ?thesis unfolding max_risk_def foldl_max by simp
qed

lemma collected_counts:
  assumes "collect_pathways db rs [] = Inr d"
  shows "length (ph_impacted (pathway_entry d i)) = card (hosts_in db rs i (\<lambda>_. True))"
    "length (ph_incidents (pathway_entry d i)) = card (hosts_in db rs i (\<lambda>u. ''incident'' \<in> set (ar_tags u)))"
    "length (ph_low (pathway_entry d i)) = card (hosts_in db rs i (\<lambda>u. ar_total_risk u = 1))"
    "length (ph_medium (pathway_entry d i)) = card (hosts_in db rs i (\<lambda>u. ar_total_risk u = 2))"
    "length (ph_high (pathway_entry d i)) = card (hosts_in db rs i (\<lambda>u. ar_total_risk u = 3))"
    "length (ph_critical (pathway_entry d i)) = card (hosts_in db rs i (\<lambda>u. ar_total_risk u = 4))"
  by (rule collected_length [OF assms]; simp add: pathway_fields_def)+

lemma pathways_for_account_rows:
  assumes "pathways_for_account ae ar impacting db = Inr rows" "data \<noteq> []"
    and "get_reports_subquery ae ar default_options (of_rule db (\<lambda>u. ar_pathway u \<noteq> None)) db = Inr reports"
    and "collect_pathways db reports [] = Inr data"
  obtains systems where "get_systems_queryset ae ar db = Inr systems"
    "rows = map (annotate_pathways (length systems)
        (map (\<lambda>(i, p). (i, pathway_counts_of db impacting (length systems) i p)) data))
      (filter (\<lambda>p. (impacting \<longrightarrow> pw_id p \<in> set (map fst data)) \<and> published ae p) (ad_pathways db))"
proof (cases "get_systems_queryset ae ar db")
  case (Inl e)
  with assms show ?thesis by (simp add: pathways_for_account_def)
next
  case (Inr systems)
  with assms show ?thesis by (intro that [OF Inr]) (simp add: pathways_for_account_def Let_def)
qed

lemma pathways_for_account_Inr:
  assumes "pathways_for_account ae ar impacting db = Inr rows" "row \<in> set rows"
    and "get_reports_subquery ae ar default_options (of_rule db (\<lambda>u. ar_pathway u \<noteq> None)) db = Inr reports"
  obtains d n q where "collect_pathways db reports [] = Inr d"
    "row = annotate_pathways n (map (\<lambda>(i, p). (i, pathway_counts_of db impacting n i p)) d) q"
proof -
  from assms(1,3) obtain d where d: "collect_pathways db reports [] = Inr d"
    by (auto simp: pathways_for_account_def py_bind_eq_Inr)
  have some: "d \<noteq> []"
    using assms d by (auto simp: pathways_for_account_def)
  obtain systems where "get_systems_queryset ae ar db = Inr systems"
    and rows: "rows = map (annotate_pathways (length systems)
        (map (\<lambda>(i, p). (i, pathway_counts_of db impacting (length systems) i p)) d))
      (filter (\<lambda>p. (impacting \<longrightarrow> pw_id p \<in> set (map fst d)) \<and> published ae p) (ad_pathways db))"
    by (rule pathways_for_account_rows [OF assms(1) some assms(3) d], rule that, assumption+)
  from assms(2) obtain q where "row = annotate_pathways (length systems)
      (map (\<lambda>(i, p). (i, pathway_counts_of db impacting (length systems) i p)) d) q"
    unfolding rows set_map by (rule imageE)
  with d show ?thesis by (rule that)
qed

definition row_of_counts :: "api_pathway \<Rightarrow> nat \<Rightarrow> pathway_counts \<Rightarrow> pathway_row" where
  "row_of_counts q n c =
     \<lparr>pr_pathway = q, pr_total = n, pr_impacted = pc_impacted c, pr_reboot = pc_reboot c,
      pr_incidents = pc_incidents c, pr_has_incident = pc_has_incident c, pr_level = pc_level c,
      pr_critical = pc_critical c, pr_high = pc_high c, pr_medium = pc_medium c, pr_low = pc_low c\<rparr>"

lemma collected_counts_annotated:
  assumes "collect_pathways db reports [] = Inr d" "card (hit_pathways db reports) \<ge> 2" "pw_id q \<in> hit_pathways db reports"
  shows "annotate_pathways n (map (\<lambda>(i, p). (i, pathway_counts_of db impacting n i p)) d) q =
    row_of_counts q n (pathway_counts_of db impacting n (pw_id q) (pathway_entry d (pw_id q)))"
proof -
  let ?agg = "map (\<lambda>(i, p). (i, pathway_counts_of db impacting n i p)) d"
  let ?i = "pw_id q"
  let ?c = "pathway_counts_of db impacting n ?i (pathway_entry d ?i)"
  note keys = collected_keys [OF assms(1)]
  have fst: "map fst ?agg = map fst d" by (induction d) auto
  have "card (fst ` set d) \<ge> 2" using assms(2) keys(2) by (simp add: hit_pathways_def)
  then have len: "length ?agg \<ge> 2"
    using card_length [of "map fst d"] by simp
  have dist: "distinct (map fst ?agg)" by (simp only: fst keys(1))
  have "?i \<in> fst ` set d"
    unfolding keys(2) using assms(3) by (simp only: hit_pathways_def)
  then obtain p where p: "(?i, p) \<in> set d" by force
  then have "pathway_entry d ?i = p"
    using keys(1) by (simp add: pathway_entry_def)
  with p have mem: "(?i, ?c) \<in> set ?agg" by force
  note case1 = agg_case_many [OF len dist mem]
  show ?thesis
    by (simp add: annotate_pathways_def case_prod_beta case1 row_of_counts_def)
qed


text \<open>
  A single pathway loses its figures.  When the reports shown to the caller hit exactly one
  pathway, the first annotation takes its entry out of the collected data: the number of impacted
  hosts is right, and every other figure is its default, whatever the risks and incidents of the
  reports (no incident, no reboot, recommendation level 0).
\<close>

theorem single_pathway_loses_figures:
  assumes "get_reports_subquery ae ar default_options (of_rule db (\<lambda>u. ar_pathway u \<noteq> None)) db = Inr reports"
    and "pathways_for_account ae ar impacting db = Inr rows" "row \<in> set rows"
    and "hit_pathways db reports = {i}"
  shows "pr_impacted row = card (hosts_in db reports i (\<lambda>_. True)) \<and>
    pr_incidents row = 0 \<and> \<not> pr_has_incident row \<and> \<not> pr_reboot row \<and> pr_level row = 0 \<and>
    pr_critical row = 0 \<and> pr_high row = 0 \<and> pr_medium row = 0 \<and> pr_low row = 0"
proof -
  obtain d n q where d: "collect_pathways db reports [] = Inr d"
    and row: "row = annotate_pathways n (map (\<lambda>(i, p). (i, pathway_counts_of db impacting n i p)) d) q"
    by (rule pathways_for_account_Inr [OF assms(2,3,1)], rule that, assumption+)
  have q: "pr_pathway row = q"
    by (simp add: row annotate_pathways_def case_prod_beta Let_def)
  note keys = collected_keys [OF d]
  have "fst ` set d = {i}" using keys(2) assms(4) by (simp add: hit_pathways_def)
  moreover from this have "length (map fst d) = 1"
    using keys(1) by (metis card.empty card_insert_disjoint distinct_card empty_iff finite.emptyI set_map One_nat_def)
  ultimately obtain p where p: "d = [(i, p)]"
    by (cases d) auto
  then have "pathway_entry d i = p" by (simp add: pathway_entry_def)
  then have "length (ph_impacted p) = card (hosts_in db reports i (\<lambda>_. True))"
    using collected_counts(1) [OF d, of i] by simp
  moreover have "row = \<lparr>pr_pathway = q, pr_total = n, pr_impacted = length (ph_impacted p),
      pr_reboot = False, pr_incidents = 0, pr_has_incident = False, pr_level = 0, pr_critical = 0,
      pr_high = 0, pr_medium = 0, pr_low = 0\<rparr>"
    by (simp add: row p annotate_pathways_def agg_case_single agg_case_empty pathway_counts_of_def Let_def)
  ultimately show ?thesis by simp
qed


section \<open>Examples\<close>

lemma single_pathway_loses_figures_witness:
  "\<exists>row. pathways_for_account api_example (apx_caller None []) False apx_db = Inr [row] \<and>
     pr_impacted row = 2 \<and> pr_high row = 0 \<and> \<not> pr_has_incident row \<and> pr_level row = 0"
proof -
  let ?ar = "apx_caller None []"
  let ?reports = "[apx_report 1 1 ''h1'', apx_report 2 2 ''h1'', apx_report 3 1 ''h2'']"
  have reports: "get_reports_subquery api_example ?ar default_options
      (of_rule apx_db (\<lambda>u. ar_pathway u \<noteq> None)) apx_db = Inr ?reports"
    by code_simp
  have hosts: "hosts_in apx_db ?reports k (\<lambda>_. True) = (if k = 7 then {''h1'', ''h2''} else {})" for k
    by (auto simp: hosts_in_def of_rule_def rule_of_def apx_db_def apx_rule_def apx_report_def)
  then have hit: "hit_pathways apx_db ?reports = {7}"
    by (auto simp: hit_pathways_def split: if_splits)
  have "case pathways_for_account api_example ?ar False apx_db of Inl _ \<Rightarrow> False | Inr rows \<Rightarrow> length rows = 1"
    by code_simp
  then obtain row where rows: "pathways_for_account api_example ?ar False apx_db = Inr [row]"
    by (auto split: sum.splits simp: length_Suc_conv)
  from single_pathway_loses_figures [OF reports rows _ hit] hosts rows show ?thesis
    by simp
qed

text \<open>With a second pathway, the figures are those of the reports.\<close>

definition apx_two :: api_db where
  "apx_two = apx_db
     \<lparr>ad_rules := [apx_rule 1 ''r1'', apx_rule 2 ''r2'' \<lparr>ar_pathway := Some 8, ar_total_risk := 4\<rparr>],
      ad_pathways := ad_pathways apx_db @ [\<lparr>pw_id = 8, pw_slug = ''q'', pw_published = Some 1\<rparr>]\<rparr>"


end
