(* ===== verification/List_Views.thy ===== *)
theory List_Views
  imports Ack_Views "HOL-Library.List_Lexorder" "HOL-Library.Product_Lexorder"
begin

text \<open>
  The views that list rules, systems, topics and pathways and their statistics
  (\<open>api/views/rules.py\<close>, \<open>systems.py\<close>, \<open>rule_topics.py\<close>, \<open>pathways.py\<close>,
  \<open>stats.py\<close>): what they filter, how they sort, and what a join does to the rows.  The database's
  order of a column is an argument: the rank of a row's value, \<open>None\<close> for null.
\<close>

section \<open>Sorting\<close>

type_synonym 'row ranks = "'row \<Rightarrow> string \<Rightarrow> int option"

text \<open>A field of \<open>order_by\<close> given by its name.\<close>

definition plain_order :: "string \<Rightarrow> sort_field" where
  "plain_order name =
     (if prefix ''-'' name then \<lparr>so_field = drop 1 name, so_desc = True, so_nulls = False\<rparr>
      else \<lparr>so_field = name, so_desc = False, so_nulls = False\<rparr>)"

text \<open>
  The place of a value: nulls come first or last as stated, or else last when ascending and first
  when descending, as PostgreSQL has it.
\<close>

definition sort_rank :: "sort_field \<Rightarrow> int option \<Rightarrow> int \<times> int" where
  "sort_rank f v =
     (case v of
        None \<Rightarrow> (if so_desc f \<noteq> so_nulls f then 0 else 2, 0)
      | Some i \<Rightarrow> (1, if so_desc f then - i else i))"

definition order_key :: "'row ranks \<Rightarrow> sort_field list \<Rightarrow> 'row \<Rightarrow> (int \<times> int) list" where
  "order_key ranks sorts r = map (\<lambda>f. sort_rank f (ranks r (so_field f))) sorts"

definition order_rows :: "'row ranks \<Rightarrow> sort_field list \<Rightarrow> 'row list \<Rightarrow> 'row list" where
  "order_rows ranks sorts rows = sort_key (order_key ranks sorts) rows"

text \<open>The names a sort parameter gives.\<close>

definition sort_values :: "pvalue \<Rightarrow> string list" where
  "sort_values v = concat (map (\<lambda>a. case a of AStr s \<Rightarrow> [s] | _ \<Rightarrow> []) (the_atoms v))"

definition sort_param :: "query_env \<Rightarrow> param \<Rightarrow> (string \<times> string list) list \<Rightarrow> query_params \<Rightarrow> sort_field list py" where
  "sort_param qe p field_map query =
     py_bind (value_of_param qe p query) (\<lambda>v. sort_params_to_fields (sort_values v) field_map False)"

text \<open>What the views ask of the database beyond the tables.\<close>

record list_env =
  le_rules :: "api_rule lookups"
  le_hostacks :: "api_hostack lookups"
  le_pathways :: "api_pathway lookups"
  le_resolutions :: "nat \<Rightarrow> int list"      \<comment> \<open>the risks of the resolutions of a rule\<close>
  le_rank_rule :: "rule_row ranks"
  le_rank_report :: "api_report ranks"
  le_rank_system :: "system_row ranks"
  le_rank_pathway :: "pathway_row ranks"

section \<open>The list of rules\<close>

definition choice_param :: "string \<Rightarrow> param" where
  "choice_param name = (many_param name OT_INT)\<lparr>pa_enum := [AInt 1, AInt 2, AInt 3, AInt 4]\<rparr>"

definition has_tag_query_param :: param where
  "has_tag_query_param = many_param ''has_tag'' OT_STR"

definition impact_query_param :: param where
  "impact_query_param = choice_param ''impact''"

definition likelihood_query_param :: param where
  "likelihood_query_param = choice_param ''likelihood''"

definition total_risk_query_param :: param where
  "total_risk_query_param = choice_param ''total_risk''"

definition rule_sort_map :: "(string \<times> string list) list" where
  "rule_sort_map =
     [(''category'', [''category__name'']), (''description'', [''description'']),
      (''impact'', [''impact__impact'']), (''impacted_count'', [''impacted_systems_count'']),
      (''likelihood'', [''likelihood'']), (''playbook_count'', [''playbook_count'']),
      (''publish_date'', [''publish_date'']), (''rule_id'', [''rule_id'']),
      (''total_risk'', [''total_risk'']), (''resolution_risk'', [''resolution__resolution_risk__risk''])]"

definition rule_sort_param :: param where
  "rule_sort_param = (many_param ''sort'' OT_STR)
     \<lparr>pa_enum := map AStr (sort_param_enum (map fst rule_sort_map)), pa_default := Some (JList [JStr ''rule_id''])\<rparr>"

text \<open>
  A row of the list as the filters see it: a condition on \<open>tags\<close> joins the table of tags, so that
  a rule has a row for each of its tags.
\<close>

type_synonym tagged_rule = "rule_row \<times> string option"

fun q_mentions :: "string \<Rightarrow> q \<Rightarrow> bool" where
  "q_mentions s (QTerm _ f _) = prefix s f"
| "q_mentions s (QTagged f _ _) = prefix s f"
| "q_mentions s (QAnd a b) = (q_mentions s a \<or> q_mentions s b)"
| "q_mentions s (QOr a b) = (q_mentions s a \<or> q_mentions s b)"
| "q_mentions s _ = False"

definition join_tags :: "q \<Rightarrow> rule_row list \<Rightarrow> tagged_rule list" where
  "join_tags f rows =
     (if q_mentions ''tags__'' f
      then concat (map (\<lambda>r. map (\<lambda>t. (r, Some t)) (ar_tags (rv_rule r))) rows)
      else map (\<lambda>r. (r, None)) rows)"

definition topic_of_tag :: "api_db \<Rightarrow> string \<Rightarrow> string \<Rightarrow> bool" where
  "topic_of_tag db slug tag \<longleftrightarrow> list_ex (\<lambda>t. to_slug t = slug \<and> to_tag t = Some tag) (ad_topics db)"

definition rule_term :: "api_db \<Rightarrow> api_rule lookups \<Rightarrow> bool \<Rightarrow> string \<Rightarrow> qval \<Rightarrow> tagged_rule \<Rightarrow> bool" where
  "rule_term db lk neg f v = (\<lambda>(row, tag).
     if f = ''tags__name'' then (case tag of None \<Rightarrow> False | Some t \<Rightarrow> (v = QAtom (AStr t)) \<noteq> neg)
     else if f = ''tags__topic__slug'' then
       (case (tag, v) of (Some t, QAtom (AStr slug)) \<Rightarrow> topic_of_tag db slug t \<noteq> neg | _ \<Rightarrow> False)
     else if f = ''has_reports'' then (v = QAtom (ABool (rv_has_reports row))) \<noteq> neg
     else if f = ''reports_shown'' then (v = QAtom (ABool (rv_reports_shown row))) \<noteq> neg
     else if f = ''rule_status'' then (v = QAtom (AStr (rv_status row))) \<noteq> neg
     else lk_term lk neg f v (rv_rule row))"

definition rule_lookups :: "api_db \<Rightarrow> api_rule lookups \<Rightarrow> tagged_rule lookups" where
  "rule_lookups db lk =
     \<lparr>lk_term = rule_term db lk,
      lk_tagged = (\<lambda>f ts org r. lk_tagged lk f ts org (rv_rule (fst r))),
      lk_disabled = (\<lambda>org r. lk_disabled lk org (rv_rule (fst r))),
      lk_resolution = (\<lambda>f v r. lk_resolution lk f v (rv_rule (fst r)))\<rparr>"

text \<open>The filters but that on incidents, all of one call.\<close>

definition rule_filters :: "query_env \<Rightarrow> query_params \<Rightarrow> q list py" where
  "rule_filters qe query =
     py_mapM (\<lambda>f. f)
       [filter_on_param qe ''pathway__slug'' pathway_query_param query [],
        filter_on_param qe ''category_id'' category_query_param query [],
        filter_on_param qe ''tags__name'' has_tag_query_param query [],
        filter_on_param qe ''impact__impact'' impact_query_param query [],
        filter_on_impacting qe query,
        filter_on_param qe ''likelihood'' likelihood_query_param query [],
        filter_on_reboot_required qe query,
        filter_on_reports_shown qe query,
        filter_on_rule_status qe query,
        filter_on_resolution_risk qe query,
        filter_on_text qe query,
        filter_on_topic qe query [],
        filter_on_param qe ''total_risk'' total_risk_query_param query [],
        filter_on_has_playbook qe query]"

text \<open>
  The filter on incidents is a call of its own: the positive one joins tags again, of which one at
  most is the incident; the negative one excludes the rules that have it.
\<close>

fun incident_holds :: "q \<Rightarrow> rule_row \<Rightarrow> bool" where
  "incident_holds (QTerm neg _ (QAtom (AStr t))) row = ((t \<in> set (ar_tags (rv_rule row))) \<noteq> neg)"
| "incident_holds _ row = True"

definition filter_rules :: "api_db \<Rightarrow> api_rule lookups \<Rightarrow> q \<Rightarrow> q \<Rightarrow> rule_row list \<Rightarrow> rule_row list" where
  "filter_rules db lk f incident rows =
     filter (incident_holds incident)
       (map fst (filter (\<lambda>r. q_holds (rule_lookups db lk) r f) (join_tags f rows)))"

text \<open>Sorting by the risk of the resolutions joins them: a rule has a row for each.\<close>

definition risk_field :: string where
  "risk_field = ''resolution__resolution_risk__risk''"

definition join_resolutions ::
  "(nat \<Rightarrow> int list) \<Rightarrow> sort_field list \<Rightarrow> rule_row list \<Rightarrow> (rule_row \<times> int option) list" where
  "join_resolutions resolutions sorts rows =
     (if list_ex (\<lambda>f. so_field f = risk_field) sorts
      then concat (map (\<lambda>r. case resolutions (ar_pk (rv_rule r)) of
             [] \<Rightarrow> [(r, None)] | is \<Rightarrow> map (\<lambda>i. (r, Some i)) is) rows)
      else map (\<lambda>r. (r, None)) rows)"

definition order_rules :: "list_env \<Rightarrow> sort_field list \<Rightarrow> rule_row list \<Rightarrow> rule_row list" where
  "order_rules le sorts rows =
     map fst (order_rows (\<lambda>(r, i) f. if f = risk_field then i else le_rank_rule le r f) sorts
       (join_resolutions (le_resolutions le) sorts rows))"

text \<open>Without parameters nothing is filtered, and the order is that of the model.\<close>

definition rule_list :: "api_env \<Rightarrow> list_env \<Rightarrow> api_request \<Rightarrow> api_db \<Rightarrow> rule_row list py" where
  "rule_list ae le ar db =
     (let qe = ae_query_env ae; query = aq_query ar in
      py_bind (rules_for_account ae (le_hostacks le) ar db) (\<lambda>rows.
        if query = [] then Inr (order_rules le [plain_order ''rule_id''] rows)
        else
          py_bind (rule_filters qe query) (\<lambda>fs.
          py_bind (filter_on_rule_incident qe query) (\<lambda>incident.
          py_bind (sort_param qe rule_sort_param rule_sort_map query) (\<lambda>sorts.
            Inr (order_rules le (sorts @ [plain_order ''rule_id''])
              (filter_rules db (le_rules le) (conj_q fs) incident rows)))))))"

definition rule_detail :: "api_env \<Rightarrow> list_env \<Rightarrow> api_request \<Rightarrow> string \<Rightarrow> api_db \<Rightarrow> rule_row py" where
  "rule_detail ae le ar rule_id db =
     py_bind (rules_for_account ae (le_hostacks le) ar db) (\<lambda>rows.
       case find (\<lambda>r. ar_rule_id (rv_rule r) = rule_id) rows of None \<Rightarrow> Inl Http404 | Some r \<Rightarrow> Inr r)"

section \<open>One rule\<close>

text \<open>
  \<open>stats\<close>: the hosts and organisations with a report of the rule.  The staleness is compared as
  text (\<open>fresh\<close>), not as a time.
\<close>

record rule_usage =
  us_systems :: nat
  us_accounts :: nat
  us_acked :: nat

definition rule_stats :: "(api_report \<Rightarrow> bool) \<Rightarrow> string \<Rightarrow> api_db \<Rightarrow> rule_usage py" where
  "rule_stats fresh rule_id db =
     (case find_rule rule_id db of
        None \<Rightarrow> Inl Http404
      | Some u \<Rightarrow>
          (let rs = filter (\<lambda>r. rp_rule r = ar_pk u \<and> fresh r) (ad_reports db) in
           Inr \<lparr>us_systems = length (remdups (map rp_host rs)),
                us_accounts = length (remdups (map rp_org rs)),
                us_acked = length (filter (\<lambda>a. ack_rule a = ar_pk u) (ad_acks db))\<rparr>))"

text \<open>
  \<open>justifications\<close>: \<open>Count\<close> before \<open>values\<close> counts within one acknowledgement, and the union
  drops equal rows.
\<close>

definition justification_rows :: "api_env \<Rightarrow> (string \<times> string) list \<Rightarrow> (string \<times> nat) list" where
  "justification_rows ae rows =
     map (\<lambda>(j, _). (j, 1)) (filter (\<lambda>(j, by). \<not> (j = [] \<and> by = ae_autoack ae)) rows)"

fun insert_pair :: "string \<times> nat \<Rightarrow> (string \<times> nat) list \<Rightarrow> (string \<times> nat) list" where
  "insert_pair x [] = [x]"
| "insert_pair x (y # ys) = (if str_less (fst y) (fst x) then y # insert_pair x ys else x # y # ys)"

definition rule_justifications :: "api_env \<Rightarrow> string \<Rightarrow> api_db \<Rightarrow> (string \<times> nat) list py" where
  "rule_justifications ae rule_id db =
     (case find_rule rule_id db of
        None \<Rightarrow> Inl Http404
      | Some u \<Rightarrow>
          Inr (foldr insert_pair (remdups
            (justification_rows ae (map (\<lambda>a. (ack_justification a, ack_created_by a))
                (filter (\<lambda>a. ack_rule a = ar_pk u) (ad_acks db))) @
             justification_rows ae (map (\<lambda>a. (ha_justification a, ha_created_by a))
                (filter (\<lambda>a. ha_rule a = ar_pk u) (ad_hostacks db))))) []))"

definition systems_sort_map :: "(string \<times> string list) list" where
  "systems_sort_map =
     [(''display_name'', [''advisor_inventory__display_name'']), (''last_seen'', [''last_upload'']),
      (''stale_at'', [''advisor_inventory__stale_timestamp'']), (''system_uuid'', [''host_id'']),
      (''updated'', [''advisor_inventory__updated''])]"

definition systems_sort_query_param :: param where
  "systems_sort_query_param = (many_param ''sort'' OT_STR)
     \<lparr>pa_enum := map AStr (sort_param_enum (map fst systems_sort_map)), pa_default := Some (JList [JStr ''system_uuid''])\<rparr>"

definition systems_detail_name_query_param :: param where
  "systems_detail_name_query_param = query_param ''name'' OT_STR"

text \<open>\<open>filter_on_display_name\<close> with another parameter.\<close>

definition filter_on_system_name :: "query_env \<Rightarrow> query_params \<Rightarrow> string \<Rightarrow> q py" where
  "filter_on_system_name qe query relation =
     py_bind (value_of_param qe systems_detail_name_query_param query) (\<lambda>v.
       if the_atoms v = [] \<or> the_atoms v = [AStr []] then Inr QAll
       else Inr (q_is (with_relation relation ''display_name__icontains'') (hd (the_atoms v))))"

text \<open>\<open>get_reporting_system_ids_queryset\<close>: the reports themselves, of which the hosts are listed.\<close>

definition reporting_systems ::
  "api_env \<Rightarrow> api_request \<Rightarrow> (api_report \<Rightarrow> bool) \<Rightarrow> api_db \<Rightarrow> api_report list py" where
  "reporting_systems ae ar P db = get_reports_subquery ae ar default_options P db"

definition rule_systems :: "api_env \<Rightarrow> list_env \<Rightarrow> api_request \<Rightarrow> string \<Rightarrow> api_db \<Rightarrow> string list py" where
  "rule_systems ae le ar rule_id db =
     (let qe = ae_query_env ae; query = aq_query ar in
      case find_rule rule_id db of
        None \<Rightarrow> Inl Http404
      | Some u \<Rightarrow>
          py_bind (sort_param qe systems_sort_query_param systems_sort_map query) (\<lambda>sorts.
          py_bind (reporting_systems ae ar (\<lambda>r. rp_rule r = ar_pk u) db) (\<lambda>reports.
          py_bind (filter_on_system_name qe query ''advisor_inventory'') (\<lambda>names.
          py_bind (filter_on_rhel_version qe query ''advisor_inventory'') (\<lambda>versions.
            Inr (map rp_host (order_rows (le_rank_report le) (sorts @ [plain_order ''host_id''])
              (filter (\<lambda>r. q_holds (ae_report_lookups ae) r (conj_q [names, versions])) reports))))))))"

definition systems_detail_fields :: "string list" where
  "systems_detail_fields =
     [''display_name'', ''last_seen'', ''hits'', ''critical_hits'', ''important_hits'', ''moderate_hits'',
      ''low_hits'', ''impacted_date'', ''rhel_version'', ''group_name'']"

text \<open>The enumeration is that of \<open>sort_param_enum\<close> in another order.\<close>

definition systems_detail_sort_param :: param where
  "systems_detail_sort_param = (query_param ''sort'' OT_STR)
     \<lparr>pa_enum := map AStr (systems_detail_fields @ map (\<lambda>k. CHR ''-'' # k) systems_detail_fields),
      pa_default := Some (JStr ''display_name'')\<rparr>"

definition system_sort_map :: "(string \<times> string list) list" where
  "system_sort_map = [(''rhel_version'', [''os_major'', ''os_minor'']), (''group_name'', [''workspace_name''])]"

definition systems_detail ::
  "api_env \<Rightarrow> list_env \<Rightarrow> api_request \<Rightarrow> string \<Rightarrow> api_db \<Rightarrow> system_row list py" where
  "systems_detail ae le ar rule_id db =
     (let qe = ae_query_env ae; query = aq_query ar in
      py_bind (rule_detail ae le ar rule_id db) (\<lambda>row.
      py_bind (sort_param qe systems_detail_sort_param system_sort_map query) (\<lambda>sorts.
      py_bind (get_reports_subquery ae ar (default_options\<lparr>ro_hosts := False\<rparr>)
          (\<lambda>r. rp_rule r = ar_pk (rv_rule row)) db) (\<lambda>reports.
      py_bind (get_systems_queryset ae ar db) (\<lambda>systems.
      py_bind (filter_on_system_name qe query []) (\<lambda>names.
      py_bind (filter_on_rhel_version qe query []) (\<lambda>versions.
        Inr (order_rows (le_rank_system le) (sorts @ [plain_order ''display_name''])
          (filter (\<lambda>s. q_holds (system_lookups (ae_host_lookups ae)) s (conj_q [names, versions]) \<and>
             list_ex (\<lambda>r. rp_host r = ih_id (sy_host s)) reports) systems)))))))))"

text \<open>\<open>InternalRuleViewSet.reports\<close>: every report of the rule, the newest upload first.\<close>

definition internal_rule_reports :: "list_env \<Rightarrow> string \<Rightarrow> api_db \<Rightarrow> api_report list py" where
  "internal_rule_reports le rule_id db =
     (case find_rule rule_id db of
        None \<Rightarrow> Inl Http404
      | Some u \<Rightarrow> Inr (order_rows (le_rank_report le) [plain_order ''-upload__checked_on'']
          (filter (\<lambda>r. rp_rule r = ar_pk u) (ad_reports db))))"

section \<open>Systems\<close>

definition system_sort_fields :: "string list" where
  "system_sort_fields =
     [''hits'', ''last_seen'', ''display_name'', ''rhel_version'', ''group_name'',
      ''critical_hits'', ''important_hits'', ''moderate_hits'', ''low_hits'']"

definition system_sort_param :: param where
  "system_sort_param = (query_param ''sort'' OT_STR)
     \<lparr>pa_enum := map AStr (sort_param_enum system_sort_fields), pa_default := Some (JStr ''-hits'')\<rparr>"

definition system_list :: "api_env \<Rightarrow> list_env \<Rightarrow> api_request \<Rightarrow> api_db \<Rightarrow> system_row list py" where
  "system_list ae le ar db =
     py_bind (sort_param (ae_query_env ae) system_sort_param system_sort_map (aq_query ar)) (\<lambda>sorts.
     py_bind (get_systems_queryset ae ar db) (\<lambda>systems.
       Inr (order_rows (le_rank_system le) (sorts @ [plain_order ''inventory_id'']) systems)))"

definition system_detail :: "api_env \<Rightarrow> api_request \<Rightarrow> string \<Rightarrow> api_db \<Rightarrow> system_row py" where
  "system_detail ae ar uuid db =
     py_bind (get_systems_queryset ae ar db) (\<lambda>systems.
       case find (\<lambda>s. ih_id (sy_host s) = uuid) systems of None \<Rightarrow> Inl Http404 | Some s \<Rightarrow> Inr s)"

definition system_reports :: "api_env \<Rightarrow> list_env \<Rightarrow> api_request \<Rightarrow> string \<Rightarrow> api_db \<Rightarrow> api_report list py" where
  "system_reports ae le ar uuid db =
     py_bind (get_reports_subquery ae ar (default_options\<lparr>ro_joins := True\<rparr>) (\<lambda>r. rp_host r = uuid) db) (\<lambda>rs.
       Inr (order_rows (le_rank_report le) [plain_order ''rule_id''] rs))"

section \<open>Topics\<close>

definition show_disabled_query_param :: param where
  "show_disabled_query_param = (query_param ''show_disabled'' OT_BOOL)\<lparr>pa_default := Some (JBool False)\<rparr>"

text \<open>The reports whose rule has the tag of a topic; a null tag equals nothing.\<close>

definition tagged_report :: "api_db \<Rightarrow> string option \<Rightarrow> api_report \<Rightarrow> bool" where
  "tagged_report db tag =
     of_rule db (\<lambda>u. case tag of None \<Rightarrow> False | Some t \<Rightarrow> t \<in> set (ar_tags u))"

definition topic_rows :: "api_env \<Rightarrow> api_request \<Rightarrow> api_db \<Rightarrow> (api_topic \<times> nat) list py" where
  "topic_rows ae ar db =
     py_bind (get_reports_subquery ae ar default_options (\<lambda>_. True) db) (\<lambda>reports.
       Inr (map (\<lambda>t. (t, length (remdups (map rp_host (filter (tagged_report db (to_tag t)) reports)))))
         (ad_topics db)))"

text \<open>The table is held in the order of the model, by name.\<close>

definition topic_list :: "api_env \<Rightarrow> api_request \<Rightarrow> api_db \<Rightarrow> (api_topic \<times> nat) list py" where
  "topic_list ae ar db =
     py_bind (topic_rows ae ar db) (\<lambda>topics.
     py_bind (value_of_param (ae_query_env ae) show_disabled_query_param (aq_query ar)) (\<lambda>v.
       Inr (if v = POne (ABool True) then topics else filter (\<lambda>(t, _). to_enabled t) topics)))"

definition find_topic :: "string \<Rightarrow> api_db \<Rightarrow> api_topic option" where
  "find_topic slug db = find (\<lambda>t. to_slug t = slug) (ad_topics db)"

definition topic_detail :: "api_env \<Rightarrow> api_request \<Rightarrow> string \<Rightarrow> api_db \<Rightarrow> (api_topic \<times> nat) py" where
  "topic_detail ae ar slug db =
     py_bind (topic_rows ae ar db) (\<lambda>topics.
       case find (\<lambda>(t, _). to_slug t = slug) topics of None \<Rightarrow> Inl Http404 | Some t \<Rightarrow> Inr t)"

text \<open>\<open>distinct(*fields)\<close> on sorted rows: the first of those that agree in the fields.\<close>

definition distinct_on :: "('row \<Rightarrow> 'k) \<Rightarrow> 'row list \<Rightarrow> 'row list" where
  "distinct_on key rows = foldr (\<lambda>r acc. r # filter (\<lambda>x. key x \<noteq> key r) acc) rows []"

text \<open>The join on the tags of a rule gives a report a row for each tag of the topic.\<close>

definition topic_systems :: "api_env \<Rightarrow> list_env \<Rightarrow> api_request \<Rightarrow> string \<Rightarrow> api_db \<Rightarrow> string list py" where
  "topic_systems ae le ar slug db =
     (case find_topic slug db of
        None \<Rightarrow> Inl Http404
      | Some t \<Rightarrow>
          py_bind (sort_param (ae_query_env ae) systems_sort_query_param systems_sort_map (aq_query ar)) (\<lambda>sorts.
          py_bind (reporting_systems ae ar (tagged_report db (to_tag t)) db) (\<lambda>reports.
            Inr (map rp_host (distinct_on (order_key (le_rank_report le) sorts)
              (order_rows (le_rank_report le) sorts reports))))))"

definition topic_rules :: "api_env \<Rightarrow> api_request \<Rightarrow> string \<Rightarrow> api_db \<Rightarrow> api_rule list py" where
  "topic_rules ae ar slug db =
     py_bind (topic_detail ae ar slug db) (\<lambda>(t, _).
       Inr (filter (\<lambda>u. ar_active u \<and> (case to_tag t of None \<Rightarrow> False | Some tag \<Rightarrow> tag \<in> set (ar_tags u)))
         (ad_rules db)))"

section \<open>Pathways\<close>

definition pathway_sort_fields :: "string list" where
  "pathway_sort_fields = [''impacted_systems_count'', ''name'', ''recommendation_level'']"

definition pathway_sort_param :: param where
  "pathway_sort_param = (query_param ''sort'' OT_STR)
     \<lparr>pa_enum := map AStr (pathway_sort_fields @ map (\<lambda>k. CHR ''-'' # k) pathway_sort_fields),
      pa_default := Some (JStr ''name'')\<rparr>"

definition pathway_impacting_param :: param where
  "pathway_impacting_param = (query_param ''impacting'' OT_BOOL)\<lparr>pa_default := Some (JBool True)\<rparr>"

definition reboot_required_filter_param :: param where
  "reboot_required_filter_param = query_param ''reboot_required'' OT_BOOL"

definition has_incident_filter_param :: param where
  "has_incident_filter_param = query_param ''has_incident'' OT_BOOL"

definition pathway_rule_id_param :: param where
  "pathway_rule_id_param = (many_param ''rule_id'' OT_REGEX)\<lparr>pa_pattern := rule_id_pattern\<rparr>"

definition pathway_host_id_param :: param where
  "pathway_host_id_param = (many_param ''host_id'' OT_REGEX)\<lparr>pa_pattern := rule_id_pattern\<rparr>"

definition on_text :: "query_env \<Rightarrow> query_params \<Rightarrow> (atom \<Rightarrow> q) \<Rightarrow> q py" where
  "on_text qe query f = on_bool qe text_query_param query (\<lambda>a. if a = AStr [] then QAll else f a)"

definition filter_on_text_pathway :: "query_env \<Rightarrow> query_params \<Rightarrow> q py" where
  "filter_on_text_pathway qe query = on_text qe query (q_is ''name__icontains'')"

definition filter_on_text_report :: "query_env \<Rightarrow> query_params \<Rightarrow> q py" where
  "filter_on_text_report qe query =
     on_text qe query (\<lambda>a. foldl q_or QAll
       (map (\<lambda>f. q_is f a) [''rule__pathway__name__icontains'', ''rule__rule_id__icontains'',
          ''rule__description__icontains'', ''rule__summary__icontains'', ''rule__generic__icontains'',
          ''rule__reason__icontains'', ''rule__more_info__icontains''] @
        [QResolution ''resolution__icontains'' (QAtom a)]))"

text \<open>\<open>filter_on_text_rule\<close> is \<open>filter_on_text\<close> of the rule list, written again.\<close>

definition filter_on_text_rule :: "query_env \<Rightarrow> query_params \<Rightarrow> q py" where
  "filter_on_text_rule qe query =
     on_text qe query (\<lambda>a. foldl q_or QAll
       (map (\<lambda>f. q_is f a) [''rule_id__icontains'', ''description__icontains'', ''summary__icontains'',
          ''generic__icontains'', ''reason__icontains'', ''more_info__icontains''] @
        [QResolution ''resolution__icontains'' (QAtom a)]))"

definition filter_on_text_system :: "query_env \<Rightarrow> query_params \<Rightarrow> q py" where
  "filter_on_text_system qe query = on_text qe query (q_is ''display_name__icontains'')"

definition pathway_term :: "api_pathway lookups \<Rightarrow> bool \<Rightarrow> string \<Rightarrow> qval \<Rightarrow> pathway_row \<Rightarrow> bool" where
  "pathway_term lk neg f v row =
     (if f = ''reboot_required'' then (v = QAtom (ABool (pr_reboot row))) \<noteq> neg
      else if f = ''has_incident'' then (v = QAtom (ABool (pr_has_incident row))) \<noteq> neg
      else lk_term lk neg f v (pr_pathway row))"

definition pathway_lookups :: "api_pathway lookups \<Rightarrow> pathway_row lookups" where
  "pathway_lookups lk =
     \<lparr>lk_term = pathway_term lk,
      lk_tagged = (\<lambda>f ts org r. lk_tagged lk f ts org (pr_pathway r)),
      lk_disabled = (\<lambda>org r. lk_disabled lk org (pr_pathway r)),
      lk_resolution = (\<lambda>f v r. lk_resolution lk f v (pr_pathway r))\<rparr>"

definition impacting_of :: "query_env \<Rightarrow> query_params \<Rightarrow> bool py" where
  "impacting_of qe query =
     py_bind (value_of_param qe pathway_impacting_param query) (\<lambda>v. Inr (v = POne (ABool True)))"

definition pathway_queryset :: "api_env \<Rightarrow> list_env \<Rightarrow> api_request \<Rightarrow> api_db \<Rightarrow> pathway_row list py" where
  "pathway_queryset ae le ar db =
     py_bind (impacting_of (ae_query_env ae) (aq_query ar)) (\<lambda>impacting.
     py_bind (pathways_for_account ae ar impacting db) (\<lambda>rows.
     py_bind (filter_on_text_pathway (ae_query_env ae) (aq_query ar)) (\<lambda>f.
       Inr (filter (\<lambda>r. q_holds (pathway_lookups (le_pathways le)) r f) rows))))"

definition pathway_list :: "api_env \<Rightarrow> list_env \<Rightarrow> api_request \<Rightarrow> api_db \<Rightarrow> pathway_row list py" where
  "pathway_list ae le ar db =
     (let qe = ae_query_env ae; query = aq_query ar in
      py_bind (value_of_param qe pathway_sort_param query) (\<lambda>sort.
      py_bind (pathway_queryset ae le ar db) (\<lambda>rows.
      py_bind (filter_on_param qe ''reboot_required'' reboot_required_filter_param query []) (\<lambda>reboot.
      py_bind (filter_on_param qe ''has_incident'' has_incident_filter_param query []) (\<lambda>incident.
        Inr (order_rows (le_rank_pathway le) (map plain_order (sort_values sort) @ [plain_order ''slug''])
          (filter (\<lambda>r. q_holds (pathway_lookups (le_pathways le)) r (conj_q [reboot, incident])) rows)))))))"

definition pathway_detail :: "api_env \<Rightarrow> list_env \<Rightarrow> api_request \<Rightarrow> string \<Rightarrow> api_db \<Rightarrow> pathway_row py" where
  "pathway_detail ae le ar slug db =
     py_bind (pathway_queryset ae le ar db) (\<lambda>rows.
       case find (\<lambda>r. pw_slug (pr_pathway r) = slug) rows of None \<Rightarrow> Inl Http404 | Some r \<Rightarrow> Inr r)"

text \<open>\<open>Pathway.get_reports\<close> and \<open>Pathway.impacted_systems\<close>\<close>

definition pathway_reports_of :: "api_env \<Rightarrow> api_request \<Rightarrow> api_pathway \<Rightarrow> api_db \<Rightarrow> api_report list py" where
  "pathway_reports_of ae ar p db =
     get_reports_subquery ae ar default_options
       (\<lambda>r. rp_rule r \<in> set (map ar_pk (filter ar_active (pathway_rules db (pw_id p))))) db"

definition impacted_systems :: "api_env \<Rightarrow> api_request \<Rightarrow> pathway_row \<Rightarrow> api_db \<Rightarrow> system_row list py" where
  "impacted_systems ae ar row db =
     (if pr_impacted row = 0 then Inr []
      else py_bind (pathway_reports_of ae ar (pr_pathway row) db) (\<lambda>reports.
        py_bind (get_systems_queryset ae ar db) (\<lambda>systems.
          Inr (filter (\<lambda>s. ih_id (sy_host s) \<in> set (map rp_host reports)) systems))))"

definition pathway_systems ::
  "api_env \<Rightarrow> list_env \<Rightarrow> api_request \<Rightarrow> string \<Rightarrow> api_db \<Rightarrow> system_row list py" where
  "pathway_systems ae le ar slug db =
     py_bind (impacting_of (ae_query_env ae) (aq_query ar)) (\<lambda>impacting.
     py_bind (pathways_for_account ae ar impacting db) (\<lambda>rows.
       case find (\<lambda>r. pw_slug (pr_pathway r) = slug) rows of
         None \<Rightarrow> Inl Http404
       | Some row \<Rightarrow>
           py_bind (impacted_systems ae ar row db) (\<lambda>systems.
           py_bind (filter_on_text_system (ae_query_env ae) (aq_query ar)) (\<lambda>f.
             Inr (order_rows (le_rank_system le) [plain_order ''display_name'']
               (filter (\<lambda>s. q_holds (system_lookups (ae_host_lookups ae)) s f) systems))))))"

definition find_pathway :: "string \<Rightarrow> api_db \<Rightarrow> api_pathway option" where
  "find_pathway slug db = find (\<lambda>p. pw_slug p = slug) (ad_pathways db)"

definition pathway_rule_list :: "api_env \<Rightarrow> list_env \<Rightarrow> api_request \<Rightarrow> string \<Rightarrow> api_db \<Rightarrow> rule_row list py" where
  "pathway_rule_list ae le ar slug db =
     (let qe = ae_query_env ae; query = aq_query ar in
      case find_pathway slug db of
        None \<Rightarrow> Inl Http404
      | Some p \<Rightarrow>
          py_bind (rules_for_account ae (le_hostacks le) ar db) (\<lambda>rows.
          py_bind (filter_on_text_rule qe query) (\<lambda>f.
          py_bind (filter_on_param qe ''category_id'' category_query_param query []) (\<lambda>categories.
            Inr (order_rows (le_rank_rule le) [plain_order ''id'']
              (filter (\<lambda>r. ar_pathway (rv_rule r) = Some (pw_id p) \<and>
                 q_holds (rule_lookups db (le_rules le)) (r, None) (conj_q [f, categories])) rows))))))"

text \<open>The systems of each rule, in the order in which the rules first appear.\<close>

fun systems_by_rule :: "api_db \<Rightarrow> api_report list \<Rightarrow> (string \<times> string list) list \<Rightarrow> (string \<times> string list) list" where
  "systems_by_rule db [] d = d"
| "systems_by_rule db (r # rs) d =
     (case rule_of db r of
        None \<Rightarrow> systems_by_rule db rs d
      | Some u \<Rightarrow>
          systems_by_rule db rs
            (dict_set (ar_rule_id u)
              ((case map_of d (ar_rule_id u) of None \<Rightarrow> [] | Some hs \<Rightarrow> hs) @ [rp_host r]) d))"

definition pathway_reports ::
  "api_env \<Rightarrow> list_env \<Rightarrow> api_request \<Rightarrow> string \<Rightarrow> api_db \<Rightarrow> (string \<times> string list) list py" where
  "pathway_reports ae le ar slug db =
     (let qe = ae_query_env ae; query = aq_query ar in
      case find_pathway slug db of
        None \<Rightarrow> Inl Http404
      | Some p \<Rightarrow>
          py_bind (pathway_reports_of ae ar p db) (\<lambda>reports.
          py_bind (filter_on_text_report qe query) (\<lambda>f.
          py_bind (filter_on_param qe ''rule__rule_id'' pathway_rule_id_param query []) (\<lambda>ids.
          py_bind (filter_on_param qe ''host_id'' pathway_host_id_param query []) (\<lambda>hosts.
            Inr (systems_by_rule db (order_rows (le_rank_report le) [plain_order ''host_id'']
              (filter (\<lambda>r. q_holds (ae_report_lookups ae) r (conj_q [f, ids, hosts])) reports)) []))))))"

section \<open>Statistics\<close>

text \<open>\<open>Count(field, distinct=True)\<close> of the reports with a condition on their rule.\<close>

definition count_distinct :: "api_db \<Rightarrow> (api_report \<Rightarrow> 'k) \<Rightarrow> (api_rule \<Rightarrow> bool) \<Rightarrow> api_report list \<Rightarrow> nat" where
  "count_distinct db field P reports = length (remdups (map field (filter (of_rule db P) reports)))"

record stats =
  sc_total :: nat
  sc_risk :: "(nat \<times> nat) list"
  sc_category :: "(string \<times> nat) list"
  sc_incidents :: nat

definition stats_counts :: "api_db \<Rightarrow> (api_report \<Rightarrow> 'k) \<Rightarrow> api_report list \<Rightarrow> stats" where
  "stats_counts db field reports =
     \<lparr>sc_total = length (remdups (map field reports)),
      sc_risk = map (\<lambda>risk. (risk, count_distinct db field (\<lambda>u. ar_total_risk u = risk) reports)) [1, 2, 3, 4],
      sc_category = map (\<lambda>c. (c, count_distinct db field (\<lambda>u. ar_category u = c) reports)) (ad_categories db),
      sc_incidents = count_distinct db field (\<lambda>u. ''incident'' \<in> set (ar_tags u)) reports\<rparr>"

record overview =
  ov_pathways :: nat
  ov_incidents :: nat
  ov_critical :: nat
  ov_important :: nat

definition overview_stats_counts :: "api_db \<Rightarrow> api_report list \<Rightarrow> overview" where
  "overview_stats_counts db reports =
     \<lparr>ov_pathways = length (remdups (concat (map (\<lambda>r. case Option.bind (rule_of db r) ar_pathway of
          None \<Rightarrow> [] | Some i \<Rightarrow> [i]) reports))),
      ov_incidents = count_distinct db rp_rule (\<lambda>u. ''incident'' \<in> set (ar_tags u)) reports,
      ov_critical = count_distinct db rp_rule (\<lambda>u. ar_total_risk u = 4) reports,
      ov_important = count_distinct db rp_rule (\<lambda>u. ar_total_risk u = 3) reports\<rparr>"

text \<open>The four views, and the functions of the weekly report, which make up a request.\<close>

definition stats_view ::
  "api_env \<Rightarrow> api_request \<Rightarrow> (api_report list \<Rightarrow> 'v) \<Rightarrow> api_db \<Rightarrow> 'v py" where
  "stats_view ae ar f db =
     py_bind (get_reports_subquery ae ar (default_options\<lparr>ro_joins := True\<rparr>) (\<lambda>_. True) db) (\<lambda>rs. Inr (f rs))"

definition stats_overview :: "api_env \<Rightarrow> api_request \<Rightarrow> api_db \<Rightarrow> overview py" where
  "stats_overview ae ar db = stats_view ae ar (overview_stats_counts db) db"

definition stats_rules :: "api_env \<Rightarrow> api_request \<Rightarrow> api_db \<Rightarrow> stats py" where
  "stats_rules ae ar db = stats_view ae ar (stats_counts db rp_rule) db"

definition stats_reports :: "api_env \<Rightarrow> api_request \<Rightarrow> api_db \<Rightarrow> stats py" where
  "stats_reports ae ar db = stats_view ae ar (stats_counts db rp_id) db"

definition stats_systems :: "api_env \<Rightarrow> api_request \<Rightarrow> api_db \<Rightarrow> stats py" where
  "stats_systems ae ar db = stats_view ae ar (stats_counts db rp_host) db"

definition org_request ::
  "(json \<Rightarrow> string) \<Rightarrow> (string \<Rightarrow> json option) \<Rightarrow> string \<Rightarrow> api_request py" where
  "org_request encode decode org =
     py_bind (request_object_for_testing encode decode (default_auth_args\<lparr>aa_org_id := JStr org\<rparr>)) (\<lambda>rq.
       Inr \<lparr>aq_request = rq, aq_query = []\<rparr>)"

definition org_stats ::
  "(json \<Rightarrow> string) \<Rightarrow> (string \<Rightarrow> json option) \<Rightarrow> api_env \<Rightarrow> (api_report \<Rightarrow> 'k) \<Rightarrow> string \<Rightarrow> api_db \<Rightarrow> stats py" where
  "org_stats encode decode ae field org db =
     py_bind (org_request encode decode org) (\<lambda>ar.
     py_bind (get_reports_subquery ae ar default_options (\<lambda>_. True) db) (\<lambda>rs.
       Inr (stats_counts db field rs)))"

end
