(* ===== verification/List_Safety.thy ===== *)
theory List_Safety
  imports List_Views Pathway_Safety "HOL-Library.Multiset"
begin

text \<open>
  What the list views return: a sorted arrangement of what they select, a rule once for each of the
  wanted tags it has, one system for each value of the sort fields of a topic, and statistics whose
  parts add up to the total.
\<close>

section \<open>Sorting\<close>

lemma order_rows_mset [simp]: "mset (order_rows ranks sorts rows) = mset rows"
  by (simp add: order_rows_def)

lemma order_rows_set [simp]: "set (order_rows ranks sorts rows) = set rows"
  by (simp add: order_rows_def)

lemma order_rows_sorted: "sorted (map (order_key ranks sorts) (order_rows ranks sorts rows))"
  by (simp add: order_rows_def)

text \<open>
  The order a sort parameter asks for, column by column: a null is below every value, and a leading
  minus turns the order of the columns round.
\<close>

fun below :: "int option \<Rightarrow> int option \<Rightarrow> bool" where
  "below None (Some _) = True"
| "below (Some a) (Some b) = (a < b)"
| "below _ None = False"

fun in_order :: "'row ranks \<Rightarrow> (string \<times> bool) list \<Rightarrow> 'row \<Rightarrow> 'row \<Rightarrow> bool" where
  "in_order ranks [] r r' = True"
| "in_order ranks ((c, descending) # cs) r r' =
     (let v = ranks r c; v' = ranks r' c in
      (if descending then below v' v else below v v') \<or> v = v' \<and> in_order ranks cs r r')"

definition system_sort_columns :: "string \<Rightarrow> (string \<times> bool) list" where
  "system_sort_columns s =
     (let descending = prefix ''-'' s; name = (if descending then drop 1 s else s) in
      map (\<lambda>c. (c, descending))
        (if name = ''rhel_version'' then [''os_major'', ''os_minor'']
         else if name = ''group_name'' then [''workspace_name''] else [name]))"

lemma system_sort_columns_map:
  "system_sort_columns s =
     (let descending = prefix ''-'' s; name = (if descending then drop 1 s else s) in
      map (\<lambda>c. (c, descending)) (case map_of system_sort_map name of None \<Rightarrow> [name] | Some cs \<Rightarrow> cs))"
  by (simp add: system_sort_columns_def system_sort_map_def Let_def)

lemma sort_rank_less:
  "sort_rank \<lparr>so_field = c, so_desc = d, so_nulls = True\<rparr> v < sort_rank \<lparr>so_field = c, so_desc = d, so_nulls = True\<rparr> v' \<longleftrightarrow>
     (if d then below v' v else below v v')"
  "sort_rank \<lparr>so_field = c, so_desc = d, so_nulls = True\<rparr> v = sort_rank \<lparr>so_field = c, so_desc = d, so_nulls = True\<rparr> v' \<longleftrightarrow>
     v = v'"
  by (cases v; cases v'; auto simp: sort_rank_def)+

lemma order_key_in_order:
  assumes "\<And>r. ranks r key \<noteq> None"
  shows "order_key ranks (map (\<lambda>(c, d). \<lparr>so_field = c, so_desc = d, so_nulls = True\<rparr>) cs @
      [\<lparr>so_field = key, so_desc = False, so_nulls = False\<rparr>]) r \<le>
    order_key ranks (map (\<lambda>(c, d). \<lparr>so_field = c, so_desc = d, so_nulls = True\<rparr>) cs @
      [\<lparr>so_field = key, so_desc = False, so_nulls = False\<rparr>]) r' \<longleftrightarrow>
    in_order ranks (cs @ [(key, False)]) r r'"
proof (induction cs)
  case Nil
  obtain i i' where "ranks r key = Some i" "ranks r' key = Some i'" using assms by fastforce
  then show ?case by (auto simp: order_key_def sort_rank_def)
next
  case (Cons c cs)
  obtain n d where c: "c = (n, d)" by fastforce
  show ?case using Cons by (auto simp: c order_key_def sort_rank_less Let_def)
qed

lemma in_text_enum: "in_enum (AStr t) (map AStr ts) \<longleftrightarrow> t \<in> set ts"
  by (auto simp: in_enum_def atom_eq_def)

lemma validate_system_sort:
  "validate_param_part qe system_sort_param (JStr t) =
     (if t \<in> set (sort_param_enum system_sort_fields) then Inr (POne (AStr t)) else Inl ValidationError)"
proof -
  have "sort_param_enum system_sort_fields \<noteq> []" by (simp add: sort_param_enum_def system_sort_fields_def)
  then show ?thesis
    by (simp add: validate_param_part_def validate_single_def system_sort_param_def query_param_def convert_def in_text_enum)
qed

lemma system_sort_fields_of:
  "s \<noteq> [] \<Longrightarrow> sort_params_to_fields [s] system_sort_map False =
     Inr (map (\<lambda>(c, d). \<lparr>so_field = c, so_desc = d, so_nulls = True\<rparr>) (system_sort_columns s))"
  by (cases s) (simp_all add: sort_params_to_fields_def map_and_expand_def system_sort_columns_map Let_def comp_def
      cong: option.case_cong)

lemma system_sort_value:
  assumes "sort_param qe system_sort_param system_sort_map query = Inr sorts"
  obtains s where "map_of query ''sort'' = Some [s] \<or> map_of query ''sort'' = None \<and> s = ''-hits''"
    "s \<in> set (sort_param_enum system_sort_fields)"
    "sorts = map (\<lambda>(c, d). \<lparr>so_field = c, so_desc = d, so_nulls = True\<rparr>) (system_sort_columns s)"
proof -
  have param: "pa_name system_sort_param = ''sort''" "\<not> pa_many system_sort_param" "\<not> pa_required system_sort_param"
    "pa_default system_sort_param = Some (JStr ''-hits'')"
    by (simp_all add: system_sort_param_def query_param_def)
  obtain v where v: "value_of_param qe system_sort_param query = Inr v"
    and sorts: "sort_params_to_fields (sort_values v) system_sort_map False = Inr sorts"
    using assms by (auto simp: sort_param_def py_bind_eq_Inr)
  obtain s where s: "map_of query ''sort'' = Some [s] \<or> map_of query ''sort'' = None \<and> s = ''-hits''"
    and valid: "validate_param_part qe system_sort_param (JStr s) = Inr v"
    using v unfolding value_of_param_def param by (auto simp: param split: option.splits if_splits list.splits)
  from valid have enum: "s \<in> set (sort_param_enum system_sort_fields)" and pv: "v = POne (AStr s)"
    unfolding validate_system_sort by (auto split: if_splits)
  from enum have "s \<noteq> []" by (auto simp: sort_param_enum_def system_sort_fields_def)
  then show ?thesis
    using sorts by (intro that [OF s enum]) (simp add: pv sort_values_def system_sort_fields_of)
qed

text \<open>
  C10: the list of systems.  Whatever the filters, the list holds exactly the systems the filters
  select, each as often as it is selected.  They come in the order of the sort parameter, which is
  given once and is one of the documented values, or \<open>-hits\<close> when it is absent: by the columns it
  stands for, nulls first when ascending and last when descending, and by the key of the host among
  equals.
\<close>

theorem system_list_sorted:
  assumes "system_list ae le ar db = Inr out" "\<And>r. le_rank_system le r ''inventory_id'' \<noteq> None"
  shows "\<exists>systems s. get_systems_queryset ae ar db = Inr systems \<and> mset out = mset systems \<and>
    (map_of (aq_query ar) ''sort'' = Some [s] \<or> map_of (aq_query ar) ''sort'' = None \<and> s = ''-hits'') \<and>
    s \<in> set (sort_param_enum system_sort_fields) \<and>
    sorted_wrt (in_order (le_rank_system le) (system_sort_columns s @ [(''inventory_id'', False)])) out"
proof -
  obtain sorts systems where sorts: "sort_param (ae_query_env ae) system_sort_param system_sort_map (aq_query ar) = Inr sorts"
    and systems: "get_systems_queryset ae ar db = Inr systems"
    and out: "out = order_rows (le_rank_system le) (sorts @ [plain_order ''inventory_id'']) systems"
    using assms(1) by (auto simp: system_list_def py_bind_eq_Inr)
  obtain s where s: "map_of (aq_query ar) ''sort'' = Some [s] \<or> map_of (aq_query ar) ''sort'' = None \<and> s = ''-hits''"
    "s \<in> set (sort_param_enum system_sort_fields)"
    and eq: "sorts = map (\<lambda>(c, d). \<lparr>so_field = c, so_desc = d, so_nulls = True\<rparr>) (system_sort_columns s)"
    by (rule system_sort_value [OF sorts], rule that)
  have "sorted (map (order_key (le_rank_system le) (sorts @ [plain_order ''inventory_id''])) out)"
    unfolding out by (rule order_rows_sorted)
  then have "sorted_wrt (in_order (le_rank_system le) (system_sort_columns s @ [(''inventory_id'', False)])) out"
    unfolding sorted_map eq plain_order_def by (simp add: order_key_in_order [of "le_rank_system le", OF assms(2)])
  with systems s out show ?thesis by (intro exI [of _ systems] exI [of _ s]) simp
qed

section \<open>Statistics\<close>

lemma remdups_split:
  assumes "\<And>r. r \<in> set rs \<Longrightarrow> list_ex (\<lambda>c. P c r) cs" "distinct cs"
    and "\<And>c c' r r'. r \<in> set rs \<Longrightarrow> r' \<in> set rs \<Longrightarrow> f r = f r' \<Longrightarrow> P c r \<Longrightarrow> P c' r' \<Longrightarrow> c = c'"
  shows "length (remdups (map f rs)) = (\<Sum>c \<leftarrow> cs. length (remdups (map f (filter (P c) rs))))"
proof -
  let ?A = "\<lambda>c. f ` set (filter (P c) rs)"
  have "f ` set rs = (\<Union>c \<in> set cs. ?A c)"
    using assms(1) by (force simp: list_ex_iff)
  moreover have "card (\<Union>c \<in> set cs. ?A c) = (\<Sum>c \<in> set cs. card (?A c))"
  proof (rule card_UN_disjoint)
    show "\<forall>c \<in> set cs. \<forall>j \<in> set cs. c \<noteq> j \<longrightarrow> ?A c \<inter> ?A j = {}"
    proof (intro ballI impI)
      fix c j assume "c \<in> set cs" "j \<in> set cs" "c \<noteq> j"
      show "?A c \<inter> ?A j = {}"
      proof (rule ccontr)
        assume "?A c \<inter> ?A j \<noteq> {}"
        then obtain r r' where "r \<in> set rs" "P c r" "r' \<in> set rs" "P j r'" "f r = f r'" by auto
        with assms(3) [of r r' c j] \<open>c \<noteq> j\<close> show False by simp
      qed
    qed
  qed simp_all
  ultimately show ?thesis
    using assms(2) by (simp add: length_remdups_card_conv sum_list_distinct_conv_sum_set)
qed

lemma card_image_factor:
  assumes "finite A" "\<And>r r'. r \<in> A \<Longrightarrow> r' \<in> A \<Longrightarrow> f r = f r' \<Longrightarrow> g r = g r'"
  shows "card (g ` A) \<le> card (f ` A)"
proof -
  have "g (inv_into A f (f r)) = g r" if "r \<in> A" for r
    using that by (intro assms(2)) (simp_all add: inv_into_into f_inv_into_f)
  then have "g ` A = (\<lambda>i. g (inv_into A f i)) ` f ` A"
    unfolding image_image by (intro image_cong) simp_all
  then show ?thesis by (metis assms(1) card_image_le finite_imageI)
qed

text \<open>Every report has a rule, of a risk from 1 to 4 and in one of the categories.\<close>

definition stats_ok :: "api_db \<Rightarrow> bool" where
  "stats_ok db \<longleftrightarrow> distinct (ad_categories db) \<and>
     (\<forall>r \<in> set (ad_reports db). of_rule db (\<lambda>u. ar_total_risk u \<in> {1..4} \<and> ar_category u \<in> set (ad_categories db)) r)"

lemma stats_parts:
  assumes "stats_ok db" "set rs \<subseteq> set (ad_reports db)"
    and f: "\<And>r r'. r \<in> set rs \<Longrightarrow> r' \<in> set rs \<Longrightarrow> f r = f r' \<Longrightarrow> rp_rule r = rp_rule r'"
  shows "sc_total (stats_counts db f rs) = sum_list (map snd (sc_risk (stats_counts db f rs)))"
    "sc_total (stats_counts db f rs) = sum_list (map snd (sc_category (stats_counts db f rs)))"
proof -
  have ok: "of_rule db (\<lambda>u. ar_total_risk u \<in> {1..4} \<and> ar_category u \<in> set (ad_categories db)) r" if "r \<in> set rs" for r
    using assms(1,2) that by (auto simp: stats_ok_def)
  have same: "rule_of db r = rule_of db r'" if "r \<in> set rs" "r' \<in> set rs" "f r = f r'" for r r'
    using f [OF that] by (simp add: rule_of_def)
  have risk: "length (remdups (map f rs)) =
      (\<Sum>c \<leftarrow> [1, 2, 3, 4]. length (remdups (map f (filter (of_rule db (\<lambda>u. ar_total_risk u = c)) rs))))"
  proof (rule remdups_split)
    show "list_ex (\<lambda>c. of_rule db (\<lambda>u. ar_total_risk u = c) r) [1, 2, 3, 4]" if "r \<in> set rs" for r
      using ok [OF that] by (auto simp: of_rule_def atLeastAtMost_iff split: option.splits)
    show "c = c'" if "r \<in> set rs" "r' \<in> set rs" "f r = f r'" "of_rule db (\<lambda>u. ar_total_risk u = c) r"
      "of_rule db (\<lambda>u. ar_total_risk u = c') r'" for c c' r r'
      using that(4,5) same [OF that(1-3)] by (auto simp: of_rule_def split: option.splits)
  qed simp
  have category: "length (remdups (map f rs)) =
      (\<Sum>c \<leftarrow> ad_categories db. length (remdups (map f (filter (of_rule db (\<lambda>u. ar_category u = c)) rs))))"
  proof (rule remdups_split)
    show "list_ex (\<lambda>c. of_rule db (\<lambda>u. ar_category u = c) r) (ad_categories db)" if "r \<in> set rs" for r
      using ok [OF that] by (auto simp: of_rule_def list_ex_iff split: option.splits)
    show "distinct (ad_categories db)" using assms(1) by (simp add: stats_ok_def)
    show "c = c'" if "r \<in> set rs" "r' \<in> set rs" "f r = f r'" "of_rule db (\<lambda>u. ar_category u = c) r"
      "of_rule db (\<lambda>u. ar_category u = c') r'" for c c' r r'
      using that(4,5) same [OF that(1-3)] by (auto simp: of_rule_def split: option.splits)
  qed
  show "sc_total (stats_counts db f rs) = sum_list (map snd (sc_risk (stats_counts db f rs)))"
    using risk by (simp add: stats_counts_def count_distinct_def)
  show "sc_total (stats_counts db f rs) = sum_list (map snd (sc_category (stats_counts db f rs)))"
    using category by (simp add: stats_counts_def count_distinct_def comp_def)
qed

lemma shown_subset:
  "get_reports_subquery ae ar ro P db = Inr rs \<Longrightarrow> set rs \<subseteq> set (ad_reports db)"
  by (auto simp: get_reports_subquery_def py_bind_eq_Inr split: option.splits)

text \<open>
  The statistics add up.  Over tables in which report numbers are unique and every report's rule
  has a risk from 1 to 4 and a known category, the numbers by risk and the numbers by category of
  the statistics of rules and of reports each add up to the total, for every caller and filter.
\<close>

theorem statistics_add_up:
  assumes "stats_ok db" "distinct (map rp_id (ad_reports db))"
    and "stats_rules ae ar db = Inr rules" "stats_reports ae ar db = Inr reports"
  shows "sc_total rules = sum_list (map snd (sc_risk rules)) \<and>
    sc_total rules = sum_list (map snd (sc_category rules)) \<and>
    sc_total reports = sum_list (map snd (sc_risk reports)) \<and>
    sc_total reports = sum_list (map snd (sc_category reports)) \<and> sc_total rules \<le> sc_total reports"
proof -
  obtain rs where rs: "get_reports_subquery ae ar (default_options\<lparr>ro_joins := True\<rparr>) (\<lambda>_. True) db = Inr rs"
    and eqs: "rules = stats_counts db rp_rule rs" "reports = stats_counts db rp_id rs"
    using assms(3,4) by (auto simp: stats_rules_def stats_reports_def stats_view_def py_bind_eq_Inr)
  have ids: "rp_rule r = rp_rule r'" if "r \<in> set rs" "r' \<in> set rs" "rp_id r = rp_id r'" for r r'
  proof -
    have inj: "inj_on rp_id (set (ad_reports db))" using assms(2) by (simp add: distinct_map)
    have "r = r'" by (rule inj_onD [OF inj that(3)]) (use that shown_subset [OF rs] in auto)
    then show ?thesis by simp
  qed
  have "card (rp_rule ` set rs) \<le> card (rp_id ` set rs)"
    by (rule card_image_factor [OF List.finite_set]) (rule ids)
  then have "sc_total rules \<le> sc_total reports"
    by (simp add: eqs stats_counts_def length_remdups_card_conv)
  moreover note stats_parts [OF assms(1) shown_subset [OF rs], of rp_rule]
    stats_parts [OF assms(1) shown_subset [OF rs] ids]
  ultimately show ?thesis
    unfolding eqs by blast
qed

section \<open>Systems of a topic\<close>

lemma distinct_on_Cons: "distinct_on key (r # rows) = r # filter (\<lambda>x. key x \<noteq> key r) (distinct_on key rows)"
  by (simp add: distinct_on_def)

lemma distinct_on:
  "set (distinct_on key rows) \<subseteq> set rows" "distinct (map key (distinct_on key rows))"
  "key ` set (distinct_on key rows) = key ` set rows"
proof (induction rows)
  case (Cons r rows)
  case 1
  show ?case using Cons by (auto simp: distinct_on_Cons)
  case 2
  show ?case using Cons by (auto simp: distinct_on_Cons distinct_map inj_on_def)
  case 3
  have "key ` set (distinct_on key (r # rows)) =
      insert (key r) (key ` {x \<in> set (distinct_on key rows). key x \<noteq> key r})"
    by (simp add: distinct_on_Cons)
  also have "\<dots> = insert (key r) (key ` set (distinct_on key rows))" by auto
  finally show ?case using Cons by simp
qed (simp_all add: distinct_on_def)

text \<open>
  The systems of a topic are distinct in the sort fields, not as systems.  Of the systems that
  reports of the topic impact, the view lists exactly one for each value of the requested sort
  fields: sorted by display name, two systems of one name are listed as one.
\<close>

theorem topic_systems_one_per_sort_value:
  assumes "topic_systems ae le ar slug db = Inr out" "find_topic slug db = Some t"
    and "reporting_systems ae ar (tagged_report db (to_tag t)) db = Inr reports"
    and "sort_param (ae_query_env ae) systems_sort_query_param systems_sort_map (aq_query ar) = Inr sorts"
  shows "\<exists>kept. out = map rp_host kept \<and> set kept \<subseteq> set reports \<and>
    distinct (map (order_key (le_rank_report le) sorts) kept) \<and>
    order_key (le_rank_report le) sorts ` set kept = order_key (le_rank_report le) sorts ` set reports"
proof -
  let ?key = "order_key (le_rank_report le) sorts"
  let ?kept = "distinct_on ?key (order_rows (le_rank_report le) sorts reports)"
  have "out = map rp_host ?kept"
    using assms by (simp add: topic_systems_def)
  with distinct_on [of ?key "order_rows (le_rank_report le) sorts reports"] show ?thesis
    by (intro exI [of _ ?kept]) simp
qed

section \<open>The list of rules\<close>

lemma value_absent:
  "map_of query (pa_name p) = None \<Longrightarrow> \<not> pa_required p \<Longrightarrow> pa_default p = None \<Longrightarrow>
     value_of_param qe p query = Inr PNone"
  by (simp add: value_of_param_def)

lemma validate_text:
  "pa_type p = OT_STR \<Longrightarrow> pa_style p = None \<Longrightarrow> pa_enum p = [] \<Longrightarrow> validate_single qe p (JStr s) = Inr (AStr s)"
  by (simp add: validate_single_def convert_def)

lemma has_tag_value:
  "value_of_param qe has_tag_query_param [(''has_tag'', [s])] = Inr (PMany (map AStr (split_on (CHR '','') s)))"
proof -
  have "py_mapM (validate_single qe (basic_param has_tag_query_param)) (map JStr xs) = Inr (map AStr xs)" for xs
    by (induction xs) (simp_all add: validate_text basic_param_def has_tag_query_param_def many_param_def query_param_def)
  then show ?thesis
    by (simp add: value_of_param_def validate_many_def has_tag_query_param_def many_param_def query_param_def
        splitter_for_def)
qed

definition any_tag :: "string list \<Rightarrow> q" where
  "any_tag wanted = (case wanted of [] \<Rightarrow> QAll
     | w # ws \<Rightarrow> foldl q_or (q_is ''tags__name'' (AStr w)) (map (\<lambda>w. q_is ''tags__name'' (AStr w)) ws))"

lemma any_tag_fold:
  assumes "f \<noteq> QAll" "q_mentions ''tags__'' f"
  shows "foldl q_or f (map (\<lambda>w. q_is ''tags__name'' (AStr w)) ws) \<noteq> QAll \<and>
    q_mentions ''tags__'' (foldl q_or f (map (\<lambda>w. q_is ''tags__name'' (AStr w)) ws)) \<and>
    (q_holds (rule_lookups db lk) (r, Some t) (foldl q_or f (map (\<lambda>w. q_is ''tags__name'' (AStr w)) ws)) \<longleftrightarrow>
       q_holds (rule_lookups db lk) (r, Some t) f \<or> t \<in> set ws)"
  using assms
proof (induction ws arbitrary: f)
  case (Cons w ws)
  have "q_or f (q_is ''tags__name'' (AStr w)) = QOr f (q_is ''tags__name'' (AStr w))"
    using Cons.prems by (simp add: q_or_def q_is_def)
  with Cons.IH [of "QOr f (q_is ''tags__name'' (AStr w))"] Cons.prems show ?case
    by (auto simp: q_is_def rule_lookups_def rule_term_def)
qed simp

lemma any_tag:
  assumes "wanted \<noteq> []"
  shows "any_tag wanted \<noteq> QAll" "q_mentions ''tags__'' (any_tag wanted)"
    "q_holds (rule_lookups db lk) (r, Some t) (any_tag wanted) \<longleftrightarrow> t \<in> set wanted"
proof -
  obtain w ws where w: "wanted = w # ws" using assms by (cases wanted) auto
  have 1: "q_is ''tags__name'' (AStr w) \<noteq> QAll" "q_mentions ''tags__'' (q_is ''tags__name'' (AStr w))"
    by (simp_all add: q_is_def)
  have 2: "q_holds (rule_lookups db lk) (r, Some t) (q_is ''tags__name'' (AStr w)) \<longleftrightarrow> t = w" for r t
    by (auto simp: q_is_def rule_lookups_def rule_term_def)
  show "any_tag wanted \<noteq> QAll" "q_mentions ''tags__'' (any_tag wanted)"
    "q_holds (rule_lookups db lk) (r, Some t) (any_tag wanted) \<longleftrightarrow> t \<in> set wanted"
    using any_tag_fold [OF 1, of ws db lk r t] by (auto simp: any_tag_def w 2)
qed

lemma filter_rules_tags:
  assumes "wanted \<noteq> []"
  shows "filter_rules db lk (any_tag wanted) QAll rows =
    concat (map (\<lambda>r. replicate (length (filter (\<lambda>t. t \<in> set wanted) (ar_tags (rv_rule r)))) r) rows)"
proof -
  have one: "map fst (filter (\<lambda>x. q_holds (rule_lookups db lk) x (any_tag wanted)) (map (\<lambda>t. (r, Some t)) ts)) =
      replicate (length (filter (\<lambda>t. t \<in> set wanted) ts)) r" for r ts
    by (induction ts) (auto simp: any_tag(3) [OF assms])
  show ?thesis
    by (simp add: filter_rules_def join_tags_def any_tag(2) [OF assms] filter_concat map_concat o_def one)
qed


lemma any_of_tags: "wanted \<noteq> [] \<Longrightarrow> any_of ''tags__name'' (map AStr wanted) = Inr (any_tag wanted)"
  by (cases wanted) (simp_all add: any_of_def any_tag_def comp_def)

definition untagged_params :: "param list" where
  "untagged_params =
     [pathway_query_param, category_query_param, impact_query_param, impacting_query_param,
      likelihood_query_param, reboot_required_query_param, reports_shown_query_param, rule_status_query_param,
      res_risk_query_param, text_query_param, topic_query_param, total_risk_query_param,
      has_playbook_query_param, incident_query_param]"

lemma untagged_params_absent:
  "p \<in> set untagged_params \<Longrightarrow> value_of_param qe p [(''has_tag'', [s])] = Inr PNone"
  by (auto simp: untagged_params_def value_of_param_def param_defs impact_query_param_def likelihood_query_param_def
      total_risk_query_param_def choice_param_def impacting_query_param_def reboot_required_query_param_def
      reports_shown_query_param_def rule_status_query_param_def res_risk_query_param_def text_query_param_def
      has_playbook_query_param_def)

lemma has_tag_filters:
  "rule_filters qe [(''has_tag'', [s])] =
     Inr [QAll, QAll, any_tag (split_on (CHR '','') s), QAll, QAll, QAll, QAll, QAll, QAll, QAll, QAll, QAll, QAll, QAll]"
  "filter_on_rule_incident qe [(''has_tag'', [s])] = Inr QAll"
proof -
  note [simp] = untagged_params_absent [unfolded untagged_params_def, simplified]
  show "rule_filters qe [(''has_tag'', [s])] =
     Inr [QAll, QAll, any_tag (split_on (CHR '','') s), QAll, QAll, QAll, QAll, QAll, QAll, QAll, QAll, QAll, QAll, QAll]"
    by (simp add: rule_filters_def filter_on_param_def has_tag_value any_of_tags filter_on_impacting_def on_bool_def
        filter_on_reboot_required_def filter_on_reports_shown_def filter_on_rule_status_def
        filter_on_resolution_risk_def filter_on_text_def filter_on_topic_def filter_on_has_playbook_def)
  show "filter_on_rule_incident qe [(''has_tag'', [s])] = Inr QAll"
    by (simp add: filter_on_rule_incident_def on_bool_def)
qed

lemma default_rule_sort:
  "sort_param qe rule_sort_param rule_sort_map [(''has_tag'', [s])] =
     Inr [\<lparr>so_field = ''rule_id'', so_desc = False, so_nulls = True\<rparr>]"
  by code_simp

text \<open>
  The filter on tags lists a rule once for each tag.  Asked for the rules with one of several
  tags and nothing else, the list holds every active rule as often as it has a tag among the wanted
  ones: the join on tags is never made distinct, so a rule with two of them is listed twice.
\<close>

theorem has_tag_lists_rule_per_tag:
  assumes "rules_for_account ae (le_hostacks le) ar db = Inr rows" "aq_query ar = [(''has_tag'', [s])]"
  shows "\<exists>out. rule_list ae le ar db = Inr out \<and>
    mset out = mset (concat (map (\<lambda>r.
      replicate (length (filter (\<lambda>t. t \<in> set (split_on (CHR '','') s)) (ar_tags (rv_rule r)))) r) rows))"
proof -
  have "conj_q [QAll, QAll, any_tag (split_on (CHR '','') s), QAll, QAll, QAll, QAll, QAll, QAll, QAll, QAll, QAll, QAll, QAll]
      = any_tag (split_on (CHR '','') s)"
    by (simp add: conj_q_def q_and_def)
  moreover have "mset (order_rules le sorts xs) = mset xs" if "\<not> list_ex (\<lambda>f. so_field f = risk_field) sorts" for sorts xs
    using that by (simp add: order_rules_def join_resolutions_def multiset.map_comp comp_def)
  ultimately show ?thesis
    using assms by (simp add: rule_list_def has_tag_filters default_rule_sort filter_rules_tags plain_order_def risk_field_def)
qed

section \<open>Examples\<close>

text \<open>Every display name is the same; other columns have no order of their own but the host's.\<close>

definition no_lookups :: "'row lookups" where
  "no_lookups = \<lparr>lk_term = (\<lambda>_ _ _ _. True), lk_tagged = (\<lambda>_ _ _ _. True), lk_disabled = (\<lambda>_ _. False),
     lk_resolution = (\<lambda>_ _ _. False)\<rparr>"

definition list_example :: list_env where
  "list_example = \<lparr>le_rules = no_lookups, le_hostacks = no_lookups, le_pathways = no_lookups,
     le_resolutions = (\<lambda>_. []), le_rank_rule = (\<lambda>r _. Some (int (ar_pk (rv_rule r)))),
     le_rank_report = (\<lambda>r f. if f = ''host_id'' then Some (if rp_host r = ''h1'' then 1 else 2) else Some 0),
     le_rank_system = (\<lambda>s f. if f = ''hits'' then Some (int (sy_hits s))
       else if f = ''inventory_id'' then Some (if ih_id (sy_host s) = ''h1'' then 1 else 2) else None),
     le_rank_pathway = (\<lambda>_ _. None)\<rparr>"

lemma system_list_sorted_witness:
  "\<exists>out systems. system_list api_example list_example (apx_caller None []) apx_db = Inr out \<and>
     get_systems_queryset api_example (apx_caller None []) apx_db = Inr systems \<and> mset out = mset systems \<and>
     map (\<lambda>s. ih_id (sy_host s)) out = [''h1'', ''h2''] \<and>
     sorted_wrt (in_order (le_rank_system list_example) [(''hits'', True), (''inventory_id'', False)]) out"
proof -
  have "case system_list api_example list_example (apx_caller None []) apx_db of Inl _ \<Rightarrow> False
      | Inr out \<Rightarrow> map (\<lambda>s. ih_id (sy_host s)) out = [''h1'', ''h2'']"
    by code_simp
  then obtain out where out: "system_list api_example list_example (apx_caller None []) apx_db = Inr out"
    "map (\<lambda>s. ih_id (sy_host s)) out = [''h1'', ''h2'']"
    by (auto split: sum.splits)
  have "le_rank_system list_example r ''inventory_id'' \<noteq> None" for r by (simp add: list_example_def)
  from system_list_sorted [OF out(1) this] obtain systems s
    where s: "get_systems_queryset api_example (apx_caller None []) apx_db = Inr systems" "mset out = mset systems"
      "map_of (aq_query (apx_caller None [])) ''sort'' = Some [s] \<or>
        map_of (aq_query (apx_caller None [])) ''sort'' = None \<and> s = ''-hits''"
      "sorted_wrt (in_order (le_rank_system list_example) (system_sort_columns s @ [(''inventory_id'', False)])) out"
    by blast
  have "s = ''-hits''" using s(3) by (simp add: apx_caller_def)
  moreover have "system_sort_columns ''-hits'' = [(''hits'', True)]" by code_simp
  ultimately have "sorted_wrt (in_order (le_rank_system list_example) [(''hits'', True), (''inventory_id'', False)]) out"
    using s(4) by simp
  with out s(1,2) show ?thesis by (intro exI [of _ out] exI [of _ systems]) simp
qed

lemma statistics_add_up_witness:
  "\<exists>rules. stats_rules api_example (apx_caller None []) apx_db = Inr rules \<and> sc_total rules = 2 \<and>
     sum_list (map snd (sc_risk rules)) = 2 \<and> sum_list (map snd (sc_category rules)) = 2"
proof -
  have ok: "stats_ok apx_db" "distinct (map rp_id (ad_reports apx_db))"
    by (simp_all add: stats_ok_def apx_db_def of_rule_def rule_of_def apx_rule_def apx_report_def)
  have "case stats_rules api_example (apx_caller None []) apx_db of Inl _ \<Rightarrow> False | Inr s \<Rightarrow> sc_total s = 2"
    by code_simp
  then obtain rules where rules: "stats_rules api_example (apx_caller None []) apx_db = Inr rules" "sc_total rules = 2"
    by (auto split: sum.splits)
  then obtain reports where "stats_reports api_example (apx_caller None []) apx_db = Inr reports"
    by (auto simp: stats_rules_def stats_reports_def stats_view_def py_bind_eq_Inr)
  from statistics_add_up [OF ok rules(1) this] rules show ?thesis by simp
qed

lemma topic_systems_one_per_sort_value_witness:
  "\<exists>host. topic_systems api_example list_example (apx_caller None [(''sort'', [''display_name''])]) ''t'' apx_db =
     Inr [host] \<and> length (remdups (map rp_host
       [apx_report 1 1 ''h1'', apx_report 2 2 ''h1'', apx_report 3 1 ''h2''])) = 2"
proof -
  let ?ar = "apx_caller None [(''sort'', [''display_name''])]"
  let ?reports = "[apx_report 1 1 ''h1'', apx_report 2 2 ''h1'', apx_report 3 1 ''h2'']"
  let ?sorts = "[\<lparr>so_field = ''advisor_inventory__display_name'', so_desc = False, so_nulls = True\<rparr>]"
  let ?key = "order_key (le_rank_report list_example) ?sorts"
  have t: "find_topic ''t'' apx_db = Some (hd (ad_topics apx_db))"
    by (simp add: find_topic_def apx_db_def)
  have reports: "reporting_systems api_example ?ar (tagged_report apx_db (to_tag (hd (ad_topics apx_db)))) apx_db = Inr ?reports"
    by code_simp
  have sorts: "sort_param (ae_query_env api_example) systems_sort_query_param systems_sort_map (aq_query ?ar) = Inr ?sorts"
    by code_simp
  obtain out where out: "topic_systems api_example list_example ?ar ''t'' apx_db = Inr out"
    using t reports sorts by (simp add: topic_systems_def)
  from topic_systems_one_per_sort_value [OF out t reports sorts] obtain kept
    where kept: "out = map rp_host kept" "distinct (map ?key kept)" "?key ` set kept = ?key ` set ?reports"
    by blast
  have "?key r = [(1, 0)]" for r
    by (simp add: order_key_def list_example_def sort_rank_def)
  with kept(2,3) obtain r where "kept = [r]"
    by (cases kept rule: remdups_adj.cases) auto
  with out kept(1) show ?thesis
    by (simp add: apx_report_def)
qed

definition apx_tagged :: api_db where
  "apx_tagged = apx_db\<lparr>ad_rules := [apx_rule 1 ''r1'' \<lparr>ar_tags := [''incident'', ''kernel'']\<rparr>]\<rparr>"

lemma has_tag_lists_rule_per_tag_witness:
  "\<exists>out. rule_list api_example list_example (apx_caller None [(''has_tag'', [''incident,kernel''])]) apx_tagged = Inr out \<and>
     length out = 2 \<and> length (ad_rules apx_tagged) = 1"
proof -
  let ?ar = "apx_caller None [(''has_tag'', [''incident,kernel''])]"
  have "case rules_for_account api_example (le_hostacks list_example) ?ar apx_tagged of Inl _ \<Rightarrow> False
      | Inr rows \<Rightarrow> map (\<lambda>r. ar_tags (rv_rule r)) rows = [[''incident'', ''kernel'']]"
    by code_simp
  then obtain r where rows: "rules_for_account api_example (le_hostacks list_example) ?ar apx_tagged = Inr [r]"
    "ar_tags (rv_rule r) = [''incident'', ''kernel'']"
    by (auto split: sum.splits simp: map_eq_Cons_conv)
  have query: "aq_query ?ar = [(''has_tag'', [''incident,kernel''])]" by (simp add: apx_caller_def)
  from has_tag_lists_rule_per_tag [OF rows(1) query] obtain out
    where out: "rule_list api_example list_example ?ar apx_tagged = Inr out" "size (mset out) = 2"
    using rows(2) by fastforce
  then show ?thesis by (auto simp: apx_tagged_def)
qed

end
