(* ===== verification/Weekly_Reports.thy ===== *)
theory Weekly_Reports
  imports List_Views Access_Control
begin

text \<open>
  The weekly report: subscriptions to it (\<open>api/wrs_utils.py\<close> and the views
  \<open>weekly_report_subscriptions.py\<close>, \<open>weekly_report_auto_subscribe.py\<close>,
  \<open>user_preferences.py\<close>, \<open>autosubexclusion.py\<close>) and the command that sends it
  (\<open>api/management/commands/weekly_report_emails.py\<close>).  The mail service answers the \<open>n\<close>th
  request it gets; the clock is read by the number of requests sent before.
\<close>

section \<open>Tables, settings and services\<close>

record wrs_row =
  wr_id :: nat
  wr_username :: string
  wr_account :: "string option"
  wr_org :: string
  wr_last :: "int option"
  wr_autosub :: bool

record exclusion =
  xc_id :: nat
  xc_org :: string
  xc_account :: "string option"

text \<open>
  \<open>ms_log\<close> records, for statements about it, each POST to the mail service: the user it was for, and
  whether it was accepted, that is answered without an exception in \<open>send_email\<close>.
\<close>

record mail_state =
  ms_subs :: "wrs_row list"
  ms_excluded :: "exclusion list"
  ms_next :: nat
  ms_posts :: nat
  ms_log :: "(string \<times> bool) list"
  ms_status :: "(nat \<times> string) list"          \<comment> \<open>pushed to Prometheus\<close>
  ms_rbac_cache :: "((json \<times> json) \<times> response) list option"
  ms_workspaces :: "((json \<times> string) \<times> string) list"

record inventory_stats =
  iv_total :: nat
  iv_stale :: nat

record weekly_report =
  wk_rules :: stats
  wk_reports :: stats
  wk_systems :: inventory_stats
  wk_rhdisabled :: "nat \<times> nat"

text \<open>A user to send to: the account data of the middleware, the subscription and the address.\<close>

record mail_user =
  mu_data :: json
  mu_sub :: wrs_row
  mu_address :: json

record mail_env =
  me_api :: api_env
  me_services :: services
  me_decode :: "string \<Rightarrow> json option"          \<comment> \<open>of an identity header\<close>
  me_settings :: settings
  me_db :: api_db
  me_url :: string                               \<comment> \<open>\<open>MIDDLEWARE_HOST_URL\<close>\<close>
  me_post :: "nat \<Rightarrow> nat py"                     \<comment> \<open>the status of the answer to \<open>sendEmails\<close>\<close>
  me_saves :: "nat \<Rightarrow> bool"                     \<comment> \<open>whether the database saves \<open>last_email_at\<close>\<close>
  me_users :: "string list \<Rightarrow> nat \<Rightarrow> attempt"    \<comment> \<open>\<open>/users\<close> of the middleware\<close>
  me_duration :: "nat \<Rightarrow> rat"
  me_subjects :: "resource_ref \<Rightarrow> string \<Rightarrow> string list py"
  me_body :: "weekly_report \<Rightarrow> mail_user \<Rightarrow> string py"
  me_welcome :: "string py"
  me_now :: "nat \<Rightarrow> int"
  me_stale :: "api_host \<Rightarrow> bool"                 \<comment> \<open>\<open>stale_timestamp\<close> is before now, as text\<close>
  me_attempts :: nat                             \<comment> \<open>\<open>MAIL_RETRY_ATTEMPTS\<close>\<close>
  me_hours :: int                                \<comment> \<open>\<open>MAIL_MINIMUM_HOURS\<close>\<close>
  me_permission :: string                        \<comment> \<open>\<open>WEEKLY_REPORT_RBAC_PERMISSION\<close>\<close>
  me_autosub :: bool                             \<comment> \<open>\<open>ENABLE_AUTOSUB\<close>\<close>
  me_prometheus :: bool
  me_text :: "pyexn \<Rightarrow> string"                 \<comment> \<open>\<open>str\<close> of an exception\<close>

text \<open>\<open>me_subjects\<close> is what \<open>subjects_with_permission\<close> returns; that it returns is a property of its pages.\<close>

definition subjects_end :: "mail_env \<Rightarrow> bool" where
  "subjects_end me \<longleftrightarrow> (\<forall>ws rel. subjects_with_permission (sv_stub (me_services me)) ws rel = Some (me_subjects me ws rel))"

section \<open>Sending one mail\<close>

text \<open>
  \<open>MiddlewareClient.send_email\<close>: a status other than 200 is logged, and \<open>raise_for_status\<close> raises
  from 400 on only.
\<close>

definition mail_answer :: "mail_env \<Rightarrow> nat \<Rightarrow> unit py" where
  "mail_answer me n =
     (case me_post me n of
        Inl e \<Rightarrow> Inl e
      | Inr status \<Rightarrow> if status \<ge> 400 \<and> status < 600 then Inl (Exn ''HTTPError'') else Inr ())"

definition send_email :: "mail_env \<Rightarrow> string \<Rightarrow> (mail_state, unit) act" where
  "send_email me who =
     (if me_url me = '''' then a_ret ()
      else (\<lambda>s. let r = mail_answer me (ms_posts s) in
        (r, s\<lparr>ms_posts := ms_posts s + 1, ms_log := ms_log s @ [(who, r = Inr ())]\<rparr>)))"

section \<open>Subscriptions\<close>

definition subscribed :: "string \<Rightarrow> string \<Rightarrow> mail_state \<Rightarrow> bool" where
  "subscribed username org s \<longleftrightarrow> list_ex (\<lambda>w. wr_username w = username \<and> wr_org w = org) (ms_subs s)"

text \<open>Every exception of the confirmation is dropped.\<close>

definition send_confirmation_email :: "mail_env \<Rightarrow> string \<Rightarrow> (mail_state, unit) act" where
  "send_confirmation_email me username =
     a_catch (a_bind (a_lift (me_welcome me)) (\<lambda>_. send_email me username)) (\<lambda>_. a_ret ())"

definition fits_subscription :: "string \<Rightarrow> string option \<Rightarrow> string \<Rightarrow> bool" where
  "fits_subscription username account org \<longleftrightarrow>
     length username \<le> 255 \<and> (case account of None \<Rightarrow> True | Some a \<Rightarrow> length a \<le> 10) \<and> length org \<le> 50"

text \<open>
  \<open>update_or_create\<close> with every column in the lookup: a row that has them all is left as it is;
  otherwise one is inserted, unless the user name, which is unique in the table, exists.
\<close>

definition insert_subscription ::
  "string \<Rightarrow> string option \<Rightarrow> string \<Rightarrow> bool \<Rightarrow> (mail_state, unit) act" where
  "insert_subscription username account org autosub = (\<lambda>s.
     if list_ex (\<lambda>w. wr_username w = username \<and> wr_account w = account \<and> wr_org w = org \<and>
          wr_last w = None \<and> wr_autosub w = autosub) (ms_subs s) then (Inr (), s)
     else if \<not> fits_subscription username account org then (Inl data_error, s)
     else if list_ex (\<lambda>w. wr_username w = username) (ms_subs s) then (Inl IntegrityError, s\<lparr>ms_next := ms_next s + 1\<rparr>)
     else (Inr (), s\<lparr>ms_next := ms_next s + 1,
        ms_subs := ms_subs s @ [\<lparr>wr_id = ms_next s, wr_username = username, wr_account = account, wr_org = org,
          wr_last = None, wr_autosub = autosub\<rparr>]\<rparr>))"

definition update_wrs ::
  "mail_env \<Rightarrow> string \<Rightarrow> string option \<Rightarrow> bool \<Rightarrow> string \<Rightarrow> bool \<Rightarrow> (mail_state, unit) act" where
  "update_wrs me username account sub_desired org auto_subscribed =
     a_bind (a_get (subscribed username org)) (\<lambda>currently_subbed.
       if currently_subbed \<and> \<not> sub_desired then
         a_upd (\<lambda>s. s\<lparr>ms_subs := filter (\<lambda>w. \<not> (wr_username w = username \<and> wr_org w = org)) (ms_subs s)\<rparr>)
       else if \<not> currently_subbed \<and> (sub_desired \<or> auto_subscribed) then
         a_then (insert_subscription username account org auto_subscribed) (send_confirmation_email me username)
       else a_ret ())"

text \<open>With values of a request: a null user or organisation matches no row and cannot be inserted.\<close>

definition update_wrs_for ::
  "mail_env \<Rightarrow> string option \<Rightarrow> string option \<Rightarrow> bool \<Rightarrow> string option \<Rightarrow> bool \<Rightarrow> (mail_state, unit) act" where
  "update_wrs_for me username account sub_desired org auto_subscribed =
     (case (username, org) of
        (Some u, Some i) \<Rightarrow> update_wrs me u account sub_desired i auto_subscribed
      | _ \<Rightarrow> if sub_desired \<or> auto_subscribed then a_raise IntegrityError else a_ret ())"

definition wrs_list :: "mail_env \<Rightarrow> request \<Rightarrow> mail_state \<Rightarrow> bool py" where
  "wrs_list me rq s =
     py_bind (username_of (me_api me) rq) (\<lambda>user.
     py_bind (auth_org (me_api me) rq) (\<lambda>org.
       Inr (case (user, org) of (Some u, Some i) \<Rightarrow> subscribed u i s | _ \<Rightarrow> False)))"

text \<open>The body is what the serializer made of it: \<open>None\<close> where it is not valid.\<close>

definition wrs_create :: "mail_env \<Rightarrow> request \<Rightarrow> bool option \<Rightarrow> (mail_state, bool) act" where
  "wrs_create me rq given =
     a_bind (a_lift (username_of (me_api me) rq)) (\<lambda>user.
     a_bind (a_lift (or_invalid given)) (\<lambda>subbed.
     a_bind (a_lift (account_of (me_api me) rq)) (\<lambda>account.
     a_bind (a_lift (auth_org (me_api me) rq)) (\<lambda>org.
     a_then (update_wrs_for me user account subbed org False) (a_ret subbed)))))"

text \<open>The automatic subscription: an answer, or the reason why the method is not allowed.\<close>

definition autosub_list :: "mail_env \<Rightarrow> request \<Rightarrow> mail_state \<Rightarrow> bool py" where
  "autosub_list me rq s =
     py_bind (auth_org (me_api me) rq) (\<lambda>org.
     py_bind (username_of (me_api me) rq) (\<lambda>user.
       Inr (case (user, org) of
          (Some u, Some i) \<Rightarrow>
            list_ex (\<lambda>w. wr_username w = u \<and> wr_org w = i \<and> wr_autosub w) (ms_subs s)
        | _ \<Rightarrow> False)))"

definition autosub_create :: "mail_env \<Rightarrow> request \<Rightarrow> bool option \<Rightarrow> (mail_state, string + bool) act" where
  "autosub_create me rq given =
     a_bind (a_lift (auth_org (me_api me) rq)) (\<lambda>org.
     a_bind (a_lift (account_of (me_api me) rq)) (\<lambda>account.
     a_bind (a_lift (username_of (me_api me) rq)) (\<lambda>user.
       if \<not> me_autosub me then a_ret (Inl ''Auto-subscription is not enabled on this enviroment'')
       else a_bind (a_get (\<lambda>s. list_ex (\<lambda>x. Some (xc_org x) = org) (ms_excluded s))) (\<lambda>excluded.
         if excluded then a_ret (Inl ''Auto-subscription is excluded for this Org Id'')
         else a_bind (a_lift (or_invalid given)) (\<lambda>subscribe.
           a_then (update_wrs_for me user account subscribe org subscribe) (a_ret (Inr subscribe)))))))"

section \<open>Preferences\<close>

definition on_access :: "(acc_state, 'a) act \<Rightarrow> request \<Rightarrow> (mail_state, 'a) act" where
  "on_access m rq = (\<lambda>s.
     case m \<lparr>ac_request = rq, ac_rbac_cache = ms_rbac_cache s, ac_workspaces = ms_workspaces s\<rparr> of
       (r, t) \<Rightarrow> (r, s\<lparr>ms_rbac_cache := ac_rbac_cache t, ms_workspaces := ac_workspaces t\<rparr>))"

text \<open>The one setting there is, when the caller may read it: its initial value.\<close>

definition preferences_list :: "mail_env \<Rightarrow> request \<Rightarrow> (mail_state, bool list) act" where
  "preferences_list me rq =
     a_bind (a_lift (username_of (me_api me) rq)) (\<lambda>_.
     a_bind (a_lift (auth_org (me_api me) rq)) (\<lambda>_.
     a_bind (on_access (check_permission (me_services me) (me_settings me) ''advisor:weekly-report:read'' ORG) rq)
       (\<lambda>(allowed, _).
         if granted allowed then a_bind (\<lambda>s. (wrs_list me rq s, s)) (\<lambda>b. a_ret [b]) else a_ret [])))"

definition preferences_create :: "mail_env \<Rightarrow> request \<Rightarrow> bool option \<Rightarrow> (mail_state, bool) act" where
  "preferences_create me rq given = wrs_create me rq given"

section \<open>Excluded accounts\<close>

text \<open>The lookup is by both columns, and the account is asked for although it is optional.\<close>

definition create_exclusion :: "string \<Rightarrow> string option \<Rightarrow> (mail_state, exclusion) act" where
  "create_exclusion org account =
     (case account of
        None \<Rightarrow> a_raise (KeyError ''account'')
      | Some a \<Rightarrow> (\<lambda>s.
          case filter (\<lambda>x. xc_org x = org \<and> xc_account x = Some a) (ms_excluded s) of
            [] \<Rightarrow>
              if length org \<le> 50 \<and> length a \<le> 10 then
                (let x = \<lparr>xc_id = ms_next s, xc_org = org, xc_account = Some a\<rparr> in
                 (Inr x, s\<lparr>ms_next := ms_next s + 1, ms_excluded := ms_excluded s @ [x]\<rparr>))
              else (Inl data_error, s)
          | [x] \<Rightarrow> (Inr x, s)
          | _ \<Rightarrow> (Inl (Exn ''MultipleObjectsReturned''), s)))"

text \<open>\<open>get_object_or_404\<close> on the organisation alone, which several rows may have.\<close>

definition destroy_exclusion :: "string \<Rightarrow> (mail_state, unit) act" where
  "destroy_exclusion org = (\<lambda>s.
     case filter (\<lambda>x. xc_org x = org) (ms_excluded s) of
       [] \<Rightarrow> (Inl Http404, s)
     | [x] \<Rightarrow> (Inr (), s\<lparr>ms_excluded := filter (\<lambda>y. xc_id y \<noteq> xc_id x) (ms_excluded s)\<rparr>)
     | _ \<Rightarrow> (Inl (Exn ''MultipleObjectsReturned''), s))"

definition exclusion_sort_param :: param where
  "exclusion_sort_param = (query_param ''sort'' OT_STR)
     \<lparr>pa_enum := map AStr [''account'', ''org_id'', ''-account'', ''-org_id''], pa_default := Some (JStr ''org_id'')\<rparr>"

definition list_exclusions ::
  "query_env \<Rightarrow> exclusion ranks \<Rightarrow> query_params \<Rightarrow> mail_state \<Rightarrow> exclusion list py" where
  "list_exclusions qe ranks query s =
     py_bind (value_of_param qe exclusion_sort_param query) (\<lambda>v.
       Inr (order_rows ranks (map plain_order (sort_values v) @ [plain_order ''org_id'']) (ms_excluded s)))"

definition get_exclusion ::
  "query_env \<Rightarrow> exclusion ranks \<Rightarrow> query_params \<Rightarrow> string \<Rightarrow> mail_state \<Rightarrow> exclusion py" where
  "get_exclusion qe ranks query org s =
     py_bind (list_exclusions qe ranks query s) (\<lambda>xs.
       case find (\<lambda>x. xc_org x = org) xs of None \<Rightarrow> Inl Http404 | Some x \<Rightarrow> Inr x)"

section \<open>Whom to send to\<close>

text \<open>\<open>user_account_details\<close>: another answer than 200 raises \<open>ValidationError\<close>.\<close>

definition user_account_details :: "mail_env \<Rightarrow> string list \<Rightarrow> json py" where
  "user_account_details me users =
     (if me_url me = '''' then Inl ValidationError
      else py_bind (retry_request (st_dev (me_settings me)) (me_users me users) (me_duration me) 3 5 True) (\<lambda>r.
        if status_code (rr_response r) = 200
        then (case body (rr_response r) of None \<Rightarrow> Inl ValueError | Some j \<Rightarrow> Inr j)
        else Inl ValidationError))"

text \<open>The dictionary of the account data by user name; only \<open>Http404\<close> is caught.\<close>

fun details_by_name :: "json list \<Rightarrow> (json \<times> json) list \<Rightarrow> (json \<times> json) list py" where
  "details_by_name [] d = Inr d"
| "details_by_name (j # js) d =
     py_bind (py_item j ''username'') (\<lambda>u.
       if \<not> hashable u then Inl TypeError else details_by_name js (dict_set u j d))"

definition account_details :: "mail_env \<Rightarrow> string list \<Rightarrow> (json \<times> json) list py" where
  "account_details me users =
     (case py_bind (user_account_details me users) (\<lambda>v. py_bind (py_iter v) (\<lambda>js. details_by_name js [])) of
        Inl Http404 \<Rightarrow> Inr []
      | r \<Rightarrow> r)"

definition testing_request :: "mail_env \<Rightarrow> auth_args \<Rightarrow> request py" where
  "testing_request me a = request_object_for_testing (sv_encode (me_services me)) (me_decode me) a"

text \<open>
  The users Kessel permits, or \<open>None\<close> where it is off, without a client, without a workspace, or
  failing.
\<close>

definition kessel_permitted :: "mail_env \<Rightarrow> string \<Rightarrow> (mail_state, string list option) act" where
  "kessel_permitted me org =
     (if \<not> kessel_on (me_settings me) \<or> sv_stub (me_services me) = None then a_ret None
      else a_catch
        (a_bind (a_lift (testing_request me (default_auth_args\<lparr>aa_org_id := JStr org\<rparr>))) (\<lambda>rq.
         a_bind (on_access (get_workspace_id (me_services me)) rq) (\<lambda>(ws, _).
           if ws = '''' then a_ret None
           else a_bind (a_lift (me_subjects me (workspace_to_ref ws) ''advisor_weekly_report_view'')) (\<lambda>ids.
             a_ret (Some ids)))))
        (\<lambda>_. a_ret None))"

definition user_has_permission ::
  "mail_env \<Rightarrow> string \<Rightarrow> string \<Rightarrow> string list option \<Rightarrow> json \<Rightarrow> (mail_state, bool) act" where
  "user_has_permission me username org permitted data =
     (case permitted of
        Some ids \<Rightarrow>
          a_bind (a_lift (py_in ''id'' data)) (\<lambda>has.
            if \<not> has then a_ret False
            else a_bind (a_lift (py_item data ''id'')) (\<lambda>i.
              a_ret (py_str (sv_render (me_services me)) i \<in> set ids)))
      | None \<Rightarrow>
          a_bind (a_lift (testing_request me
              (default_auth_args\<lparr>aa_org_id := JStr org, aa_username := JStr username\<rparr>))) (\<lambda>rq.
          a_bind (on_access (has_rbac_permission (me_services me) (me_settings me) (me_permission me)) rq)
            (\<lambda>(ok, _). a_ret ok)))"

definition is_active :: "json \<Rightarrow> bool py" where
  "is_active data =
     py_bind (py_in ''is_active'' data) (\<lambda>has.
       if has then py_bind (py_item data ''is_active'') (\<lambda>v. Inr (truthy v)) else Inr False)"

definition address_of :: "json \<Rightarrow> json py" where
  "address_of data =
     py_bind (py_get data ''address_string'') (\<lambda>a.
       if truthy a then Inr a else py_get data ''email'')"

text \<open>One subscription: the user to send to, or none where the user counts as expired.\<close>

definition mail_user_of ::
  "mail_env \<Rightarrow> string \<Rightarrow> string list option \<Rightarrow> (json \<times> json) list \<Rightarrow> wrs_row \<Rightarrow> (mail_state, mail_user option) act" where
  "mail_user_of me org permitted details w =
     (case map_of details (JStr (wr_username w)) of
        None \<Rightarrow> a_ret None
      | Some data \<Rightarrow>
          a_bind (a_lift (is_active data)) (\<lambda>active.
            if \<not> active then a_ret None
            else a_bind (user_has_permission me (wr_username w) org permitted data) (\<lambda>ok.
              if \<not> ok then a_ret None
              else a_bind (a_lift (address_of data)) (\<lambda>address.
                a_ret (if truthy address then Some \<lparr>mu_data = data, mu_sub = w, mu_address = address\<rparr> else None)))))"

fun select_users ::
  "mail_env \<Rightarrow> string \<Rightarrow> string list option \<Rightarrow> (json \<times> json) list \<Rightarrow> wrs_row list \<Rightarrow>
     (mail_state, mail_user list \<times> string list) act" where
  "select_users me org permitted details [] = a_ret ([], [])"
| "select_users me org permitted details (w # ws) =
     a_bind (mail_user_of me org permitted details w) (\<lambda>u.
     a_bind (select_users me org permitted details ws) (\<lambda>(users, expired).
       a_ret (case u of None \<Rightarrow> (users, wr_username w # expired) | Some x \<Rightarrow> (x # users, expired))))"

definition due :: "int \<Rightarrow> wrs_row \<Rightarrow> bool" where
  "due latest w = (case wr_last w of None \<Rightarrow> True | Some t \<Rightarrow> t < latest)"

text \<open>The model's order, by organisation and user name, within one organisation.\<close>

fun insert_subscriber :: "wrs_row \<Rightarrow> wrs_row list \<Rightarrow> wrs_row list" where
  "insert_subscriber w [] = [w]"
| "insert_subscriber w (x # xs) =
     (if str_less (wr_username x) (wr_username w) then x # insert_subscriber w xs else w # x # xs)"

definition by_username :: "wrs_row list \<Rightarrow> wrs_row list" where
  "by_username ws = foldr insert_subscriber ws []"

definition get_users_to_email ::
  "mail_env \<Rightarrow> int \<Rightarrow> string \<Rightarrow> (mail_state, mail_user list \<times> string list) act" where
  "get_users_to_email me latest org =
     a_bind (a_get (\<lambda>s. by_username (filter (\<lambda>w. due latest w \<and> wr_org w = org) (ms_subs s)))) (\<lambda>subs.
     a_bind (a_lift (account_details me (foldr insert_text (map wr_username subs) []))) (\<lambda>details.
     a_bind (kessel_permitted me org) (\<lambda>permitted.
       select_users me org permitted details subs)))"

section \<open>What to send\<close>

definition inventory_stats_of :: "mail_env \<Rightarrow> string \<Rightarrow> inventory_stats" where
  "inventory_stats_of me org =
     (let hosts = filter (\<lambda>h. ih_org h = org \<and> ih_id h \<in> set (host_ids (me_db me))) (ad_inventory (me_db me)) in
      \<lparr>iv_total = length hosts, iv_stale = length (filter (me_stale me) hosts)\<rparr>)"

definition rhdisabled_stats :: "mail_env \<Rightarrow> string \<Rightarrow> nat \<times> nat" where
  "rhdisabled_stats me org =
     (let db = me_db me;
          rs = filter (\<lambda>r. stale_systems_q (me_api me) db org (rp_host r) \<and> rp_org r = org \<and>
             list_ex (\<lambda>a. ack_rule a = rp_rule r \<and> ack_org a = org \<and> ack_created_by a = ae_autoack (me_api me))
               (ad_acks db) \<and> rule_active db (rp_rule r)) (ad_reports db) in
      (length (remdups (map rp_rule rs)), length (remdups (map rp_host rs))))"

definition get_reports :: "mail_env \<Rightarrow> string \<Rightarrow> weekly_report py" where
  "get_reports me org =
     (let stats = (\<lambda>field. org_stats (sv_encode (me_services me)) (me_decode me) (me_api me) field org (me_db me)) in
      py_bind (org_stats (sv_encode (me_services me)) (me_decode me) (me_api me) rp_rule org (me_db me)) (\<lambda>rules.
      py_bind (stats rp_id) (\<lambda>reports.
        Inr \<lparr>wk_rules = rules, wk_reports = reports, wk_systems = inventory_stats_of me org,
             wk_rhdisabled = rhdisabled_stats me org\<rparr>)))"

section \<open>Sending\<close>

text \<open>The attempts for one user; any exception of one makes the next.\<close>

fun try_send :: "mail_env \<Rightarrow> weekly_report \<Rightarrow> mail_user \<Rightarrow> nat \<Rightarrow> (mail_state, bool) act" where
  "try_send me report user 0 = a_ret False"
| "try_send me report user (Suc n) = (\<lambda>s.
     case a_bind (a_lift (me_body me report user)) (\<lambda>_. send_email me (wr_username (mu_sub user))) s of
       (Inr _, t) \<Rightarrow> (Inr True, t)
     | (Inl _, t) \<Rightarrow> try_send me report user n t)"

text \<open>\<open>save(update_fields=...)\<close> raises when no row is updated, and when the database fails.\<close>

definition mark_sent :: "mail_env \<Rightarrow> mail_user \<Rightarrow> (mail_state, unit) act" where
  "mark_sent me user = (\<lambda>s.
     let now = me_now me (ms_posts s); i = wr_id (mu_sub user) in
     if list_ex (\<lambda>w. wr_id w = i) (ms_subs s) \<and> me_saves me (ms_posts s) then
       (Inr (), s\<lparr>ms_subs := map (\<lambda>w. if wr_id w = i then w\<lparr>wr_last := Some now\<rparr> else w) (ms_subs s)\<rparr>)
     else (Inl DbError, s))"

fun send_emails :: "mail_env \<Rightarrow> weekly_report \<Rightarrow> mail_user list \<Rightarrow> (mail_state, mail_user list \<times> mail_user list) act" where
  "send_emails me report [] = a_ret ([], [])"
| "send_emails me report (u # us) =
     a_bind (try_send me report u (me_attempts me)) (\<lambda>sent.
       if sent then
         a_then (mark_sent me u)
           (a_bind (send_emails me report us) (\<lambda>(ok, failed). a_ret (u # ok, failed)))
       else a_bind (send_emails me report us) (\<lambda>(ok, failed). a_ret (ok, u # failed)))"

definition delete_expired :: "string \<Rightarrow> string list \<Rightarrow> (mail_state, unit) act" where
  "delete_expired org expired =
     a_upd (\<lambda>s. s\<lparr>ms_subs := filter (\<lambda>w. \<not> (wr_org w = org \<and> wr_username w \<in> set expired)) (ms_subs s)\<rparr>)"

text \<open>One organisation: how many were sent and how many failed.\<close>

definition mail_org :: "mail_env \<Rightarrow> bool \<Rightarrow> int \<Rightarrow> string \<Rightarrow> (mail_state, nat \<times> nat) act" where
  "mail_org me delete_expired_users latest org =
     a_bind (get_users_to_email me latest org) (\<lambda>(users, expired).
       if users = [] then a_ret (0, 0)
       else a_bind (a_lift (get_reports me org)) (\<lambda>report.
         if iv_total (wk_systems report) = 0 then a_ret (0, 0)
         else a_bind (send_emails me report users) (\<lambda>(ok, failed).
           a_then (if expired \<noteq> [] \<and> delete_expired_users then delete_expired org expired else a_ret ())
             (a_ret (length ok, length failed)))))"

fun mail_orgs :: "mail_env \<Rightarrow> bool \<Rightarrow> int \<Rightarrow> string list \<Rightarrow> (mail_state, nat \<times> nat) act" where
  "mail_orgs me delete_expired_users latest [] = a_ret (0, 0)"
| "mail_orgs me delete_expired_users latest (org # orgs) =
     a_bind (mail_org me delete_expired_users latest org) (\<lambda>(ok, failed).
     a_bind (mail_orgs me delete_expired_users latest orgs) (\<lambda>(ok', failed').
       a_ret (ok + ok', failed + failed')))"

text \<open>The options of the command that select organisations; none selects all.\<close>

record mail_options =
  mo_org_ids :: "string list"
  mo_from :: string
  mo_to :: string
  mo_delete :: bool

definition org_selected :: "mail_options \<Rightarrow> string \<Rightarrow> bool" where
  "org_selected mo org \<longleftrightarrow>
     (let range = mo_from mo \<noteq> [] \<or> mo_to mo \<noteq> [] in
      if mo_org_ids mo = [] \<and> \<not> range then True
      else org \<in> set (mo_org_ids mo) \<or>
        range \<and> (mo_from mo \<noteq> [] \<longrightarrow> \<not> str_less org (mo_from mo)) \<and>
        (mo_to mo \<noteq> [] \<longrightarrow> \<not> str_less (mo_to mo) org))"

definition get_account_orgs :: "mail_options \<Rightarrow> int \<Rightarrow> mail_state \<Rightarrow> string list" where
  "get_account_orgs mo latest s =
     remdups_adj (foldr insert_text (map wr_org
       (filter (\<lambda>w. org_selected mo (wr_org w) \<and> due latest w) (ms_subs s))) [])"

definition handle_emails :: "mail_env \<Rightarrow> mail_options \<Rightarrow> int \<Rightarrow> (mail_state, nat \<times> nat) act" where
  "handle_emails me mo latest =
     a_bind (a_get (get_account_orgs mo latest)) (mail_orgs me (mo_delete mo) latest)"

definition send_to_prometheus :: "mail_env \<Rightarrow> nat \<Rightarrow> string \<Rightarrow> (mail_state, unit) act" where
  "send_to_prometheus me status msg =
     (if me_prometheus me then a_upd (\<lambda>s. s\<lparr>ms_status := ms_status s @ [(status, msg)]\<rparr>) else a_ret ())"

definition latest_email_time :: "mail_env \<Rightarrow> mail_state \<Rightarrow> int" where
  "latest_email_time me s = me_now me (ms_posts s) - 3600 * me_hours me"

definition weekly_command :: "mail_env \<Rightarrow> mail_options \<Rightarrow> (mail_state, unit) act" where
  "weekly_command me mo = (\<lambda>s.
     case handle_emails me mo (latest_email_time me s) s of
       (Inl e, t) \<Rightarrow> a_then (send_to_prometheus me 0 (me_text me e)) (a_raise e) t
     | (Inr (ok, failed), t) \<Rightarrow>
         (if failed > 0 then send_to_prometheus me 0 (''Sending emails failed for '' @ nat_digits failed @ '' user(s)'')
          else if ok = 0 then send_to_prometheus me 0 ''No emails were sent to any users!''
          else send_to_prometheus me 1 (''Emails sent successfully for '' @ nat_digits ok @ '' user(s)'')) t)"

end
