(* ===== verification/Weekly_Safety.thy ===== *)
theory Weekly_Safety
  imports Weekly_Reports Ack_Safety Access_Safety "HOL-Library.Multiset"
begin

text \<open>
  The weekly report: nobody is mailed again once a mail is accepted, users counted as
  expired are deleted only in runs that mail their organisation, a failure of the middleware stops
  the whole run, and a subscription follows its request except where the user name is subscribed in
  another organisation.
\<close>

section \<open>What does not touch the subscriptions\<close>

definition subs_wf :: "mail_state \<Rightarrow> bool" where
  "subs_wf s \<longleftrightarrow> distinct (map wr_username (ms_subs s)) \<and> distinct (map wr_id (ms_subs s))"

definition mail_part :: "wrs_row list \<Rightarrow> (string \<times> bool) list \<Rightarrow> nat \<Rightarrow> mail_state \<Rightarrow> bool" where
  "mail_part subs mailed n s \<longleftrightarrow> ms_subs s = subs \<and> ms_log s = mailed \<and> n \<le> ms_posts s"

lemmas keeps_part = keeps_bind keeps_then keeps_if keeps_ret keeps_raise keeps_lift keeps_get keeps_catch
  keeps_option keeps_sum keeps_prod

lemma part_on_access: "keeps (mail_part x y n) (on_access m rq)"
  by (auto simp: on_access_def keeps_def mail_part_def split: prod.splits)

lemma part_kessel: "keeps (mail_part x y n) (kessel_permitted me org)"
  unfolding kessel_permitted_def by (intro keeps_part part_on_access)

lemma part_permission: "keeps (mail_part x y n) (user_has_permission me u org permitted d)"
  unfolding user_has_permission_def by (intro keeps_part part_on_access)

lemma part_mail_user: "keeps (mail_part x y n) (mail_user_of me org permitted details w)"
  unfolding mail_user_of_def by (intro keeps_part part_permission)

lemma part_select: "keeps (mail_part x y n) (select_users me org permitted details ws)"
proof (induction ws)
  case Nil
  show ?case unfolding select_users.simps by (rule keeps_ret)
next
  case (Cons w ws)
  show ?case unfolding select_users.simps
    by (intro keeps_part part_mail_user Cons.IH)
qed

lemma part_get_users: "keeps (mail_part x y n) (get_users_to_email me latest org)"
  unfolding get_users_to_email_def by (intro keeps_part part_kessel part_select)

lemma part_prometheus: "keeps (mail_part x y n) (send_to_prometheus me status msg)"
  by (auto simp: send_to_prometheus_def keeps_def mail_part_def)

lemma partD:
  assumes "keeps (mail_part (ms_subs s) (ms_log s) (ms_posts s)) m"
  shows "ms_subs (snd (m s)) = ms_subs s \<and> ms_log (snd (m s)) = ms_log s \<and> ms_posts s \<le> ms_posts (snd (m s))"
  using keepsD [OF assms, of s] by (simp add: mail_part_def)

section \<open>Who is selected\<close>

lemma select_users_from:
  assumes "select_users me org permitted details ws s = (Inr (users, expired), t)" "distinct (map wr_id ws)"
  shows "distinct (map (\<lambda>u. wr_id (mu_sub u)) users) \<and> mu_sub ` set users \<subseteq> set ws \<and>
    set expired \<subseteq> wr_username ` set ws"
  using assms
proof (induction ws arbitrary: users expired s)
  case (Cons w ws)
  from Cons.prems(1) obtain u s1 users' expired' where
    u: "mail_user_of me org permitted details w s = (Inr u, s1)"
    and rest: "select_users me org permitted details ws s1 = (Inr (users', expired'), t)"
    and eq: "(users, expired) = (case u of None \<Rightarrow> (users', wr_username w # expired') | Some x \<Rightarrow> (x # users', expired'))"
    by (auto simp: act_inv)
  have w: "mu_sub x = w" if "u = Some x" for x
    using u that by (auto simp: mail_user_of_def act_inv split: option.splits if_splits)
  from Cons.IH [OF rest] Cons.prems(2) eq w show ?case
    by (cases u) (auto simp: image_iff)
qed simp

lemma mset_insert_subscriber: "mset (insert_subscriber w ws) = add_mset w (mset ws)"
  by (induction ws) auto

lemma mset_by_username: "mset (by_username ws) = mset ws"
  unfolding by_username_def by (induction ws) (simp_all add: mset_insert_subscriber)

lemma by_username_same:
  "set (by_username ws) = set ws" "distinct (map f (by_username ws)) = distinct (map f ws)"
proof -
  show "set (by_username ws) = set ws"
    using mset_by_username [of ws] by (rule mset_eq_setD)
  have "mset (map f (by_username ws)) = mset (map f ws)"
    by (simp add: mset_by_username)
  then show "distinct (map f (by_username ws)) = distinct (map f ws)"
    by (rule mset_eq_imp_distinct_iff)
qed

lemma get_users_from:
  assumes "get_users_to_email me latest org s = (Inr (users, expired), t)" "subs_wf s"
  shows "distinct (map (\<lambda>u. wr_id (mu_sub u)) users)"
    "\<And>u. u \<in> set users \<Longrightarrow> mu_sub u \<in> set (ms_subs s) \<and> due latest (mu_sub u) \<and> wr_org (mu_sub u) = org"
proof -
  let ?subs = "by_username (filter (\<lambda>w. due latest w \<and> wr_org w = org) (ms_subs s))"
  obtain permitted details s1 where "select_users me org permitted details ?subs s1 = (Inr (users, expired), t)"
    using assms(1) by (auto simp: get_users_to_email_def act_inv)
  moreover have "distinct (map wr_id ?subs)"
    using assms(2) by (simp add: subs_wf_def distinct_map_filter by_username_same)
  ultimately have "distinct (map (\<lambda>u. wr_id (mu_sub u)) users) \<and> mu_sub ` set users \<subseteq> set ?subs"
    using select_users_from by blast
  then show "distinct (map (\<lambda>u. wr_id (mu_sub u)) users)"
    "\<And>u. u \<in> set users \<Longrightarrow> mu_sub u \<in> set (ms_subs s) \<and> due latest (mu_sub u) \<and> wr_org (mu_sub u) = org" by (auto simp: by_username_same)
qed

section \<open>What the attempts for one user post\<close>

definition posts_to :: "string \<Rightarrow> (string \<times> bool) list \<Rightarrow> bool list" where
  "posts_to u entries = map snd (filter (\<lambda>p. fst p = u) entries)"

text \<open>At most \<open>k\<close> posts, and none after an accepted one.\<close>

definition stops_when_accepted :: "nat \<Rightarrow> bool list \<Rightarrow> bool" where
  "stops_when_accepted k bs \<longleftrightarrow> length bs \<le> k \<and> True \<notin> set (butlast bs)"

lemma posts_to_append [simp]: "posts_to u (xs @ ys) = posts_to u xs @ posts_to u ys"
  by (simp add: posts_to_def)

lemma posts_to_pairs [simp]: "posts_to u (map (Pair v) bs) = (if u = v then bs else [])"
  by (induction bs) (auto simp: posts_to_def)

lemma posts_to_none: "u \<notin> fst ` set entries \<Longrightarrow> posts_to u entries = []"
  by (auto simp: posts_to_def filter_empty_conv image_iff)

lemma posts_to_Cons: "posts_to u ((v, b) # entries) = (if v = u then [b] else []) @ posts_to u entries"
  by (simp add: posts_to_def)

lemma in_posts_to: "b \<in> set (posts_to u entries) \<longleftrightarrow> (u, b) \<in> set entries"
  by (force simp: posts_to_def)

lemma accepted_once:
  "\<forall>u. stops_when_accepted k (posts_to u entries) \<Longrightarrow> distinct (map fst (filter snd entries))"
proof (induction entries)
  case (Cons p entries)
  obtain v b where p: "p = (v, b)" by (cases p)
  have tail: "stops_when_accepted k (posts_to u entries)" for u
    using Cons.prems [rule_format, of u] by (auto simp: p posts_to_Cons stops_when_accepted_def split: if_splits)
  have "(v, True) \<notin> set entries" if b
    using Cons.prems [rule_format, of v] that in_posts_to [of True v entries]
    by (auto simp: p posts_to_Cons stops_when_accepted_def split: if_splits)
  then show ?case using Cons.IH tail by (auto simp: p)
qed simp

definition posting :: "mail_user \<Rightarrow> mail_state \<Rightarrow> bool list \<Rightarrow> mail_state \<Rightarrow> bool" where
  "posting u s bs t \<longleftrightarrow> ms_subs t = ms_subs s \<and> ms_posts s \<le> ms_posts t \<and>
     ms_log t = ms_log s @ map (Pair (wr_username (mu_sub u))) bs"

lemma send_email_posts:
  assumes "send_email me (wr_username (mu_sub u)) s = (r, t)"
  shows "\<exists>bs. posting u s bs t \<and> length bs \<le> 1 \<and> (True \<in> set bs \<longrightarrow> r = Inr ())"
proof (cases "me_url me = ''''")
  case True
  with assms show ?thesis by (intro exI [of _ "[]"]) (simp add: send_email_def posting_def)
next
  case False
  with assms show ?thesis
    by (intro exI [of _ "[mail_answer me (ms_posts s) = Inr ()]"])
      (auto simp: send_email_def posting_def Let_def)
qed

lemma try_send_posts:
  "try_send me report u k s = (r, t) \<Longrightarrow> \<exists>bs sent. r = Inr sent \<and> posting u s bs t \<and>
     stops_when_accepted k bs \<and> (True \<in> set bs \<longrightarrow> sent)"
proof (induction k arbitrary: s)
  case 0
  then show ?case by (intro exI [of _ "[]"] exI [of _ False]) (simp add: posting_def stops_when_accepted_def)
next
  case (Suc k)
  show ?case
  proof (cases "me_body me report u")
    case (Inl e)
    then have "try_send me report u k s = (r, t)" using Suc.prems by simp
    from Suc.IH [OF this] show ?thesis by (auto simp: stops_when_accepted_def intro: le_SucI)
  next
    case (Inr b)
    obtain r1 s1 where send: "send_email me (wr_username (mu_sub u)) s = (r1, s1)"
      by (cases "send_email me (wr_username (mu_sub u)) s")
    from send_email_posts [OF send] obtain bs where bs: "posting u s bs s1" "length bs \<le> 1"
      "True \<in> set bs \<longrightarrow> r1 = Inr ()" by blast
    show ?thesis
    proof (cases r1)
      case (Inr x)
      then have "r = Inr True" "t = s1" using Suc.prems \<open>me_body me report u = Inr b\<close> send by simp_all
      moreover have "stops_when_accepted (Suc k) bs"
        using bs(2) by (cases bs) (simp_all add: stops_when_accepted_def)
      ultimately show ?thesis using bs(1) by (intro exI [of _ bs] exI [of _ True]) simp
    next
      case (Inl e)
      then have "try_send me report u k s1 = (r, t)" using Suc.prems \<open>me_body me report u = Inr b\<close> send by simp
      from Suc.IH [OF this] obtain bs' sent where rest: "r = Inr sent" "posting u s1 bs' t"
        "stops_when_accepted k bs'" "True \<in> set bs' \<longrightarrow> sent" by blast
      have "True \<notin> set bs" using bs(3) Inl by simp
      then have "stops_when_accepted (Suc k) (bs @ bs')"
        using bs(2) rest(3) by (auto simp: stops_when_accepted_def butlast_append dest: in_set_butlastD)
      moreover have "posting u s (bs @ bs') t" using bs(1) rest(2) by (simp add: posting_def)
      ultimately show ?thesis
        using rest(1,4) \<open>True \<notin> set bs\<close> by (intro exI [of _ "bs @ bs'"] exI [of _ sent]) auto
    qed
  qed
qed

section \<open>What a run has mailed\<close>

text \<open>
  From \<open>s\<close> to \<open>t\<close>: the posts logged, to users whose subscription was due and chosen by \<open>P\<close>; and the
  rows, each as it was, its user not mailed unless saving failed, or marked with a time of the run.
\<close>

definition mailed_since :: "mail_env \<Rightarrow> int \<Rightarrow> (wrs_row \<Rightarrow> bool) \<Rightarrow> bool \<Rightarrow> mail_state \<Rightarrow> mail_state \<Rightarrow> bool" where
  "mailed_since me latest P unsaved s t \<longleftrightarrow> subs_wf t \<and> ms_posts s \<le> ms_posts t \<and>
     (\<exists>new. ms_log t = ms_log s @ new \<and> (\<forall>u. stops_when_accepted (me_attempts me) (posts_to u new)) \<and>
        (\<forall>u \<in> fst ` set new. \<exists>w \<in> set (ms_subs s). wr_username w = u \<and> due latest w \<and> P w) \<and>
        (\<forall>w \<in> set (ms_subs t). (w \<in> set (ms_subs s) \<and> (unsaved \<or> (wr_username w, True) \<notin> set new)) \<or>
           (\<exists>at_time \<ge> me_now me (ms_posts s). wr_last w = Some at_time)))"

lemma since_refl: "subs_wf s \<Longrightarrow> mailed_since me latest P False s s"
  by (simp add: mailed_since_def stops_when_accepted_def posts_to_def)

lemma sinceE:
  assumes "mailed_since me latest P b s t"
  obtains new where "ms_log t = ms_log s @ new" "\<forall>u. stops_when_accepted (me_attempts me) (posts_to u new)"
    "\<forall>u \<in> fst ` set new. \<exists>w \<in> set (ms_subs s). wr_username w = u \<and> due latest w \<and> P w"
    "\<forall>w \<in> set (ms_subs t). (w \<in> set (ms_subs s) \<and> (b \<or> (wr_username w, True) \<notin> set new)) \<or>
       (\<exists>at_time \<ge> me_now me (ms_posts s). wr_last w = Some at_time)"
  using assms unfolding mailed_since_def by blast

lemma since_mono:
  assumes "mailed_since me latest P b s t" "\<And>w. P w \<Longrightarrow> Q w" "b \<Longrightarrow> c"
  shows "mailed_since me latest Q c s t"
proof -
  obtain new where "subs_wf t" "ms_posts s \<le> ms_posts t" "ms_log t = ms_log s @ new"
    "\<forall>u. stops_when_accepted (me_attempts me) (posts_to u new)"
    and due: "\<forall>u \<in> fst ` set new. \<exists>w \<in> set (ms_subs s). wr_username w = u \<and> due latest w \<and> P w"
    and rows: "\<forall>w \<in> set (ms_subs t). (w \<in> set (ms_subs s) \<and> (b \<or> (wr_username w, True) \<notin> set new)) \<or>
           (\<exists>at_time \<ge> me_now me (ms_posts s). wr_last w = Some at_time)"
    using assms(1) unfolding mailed_since_def by blast
  moreover have "\<forall>u \<in> fst ` set new. \<exists>w \<in> set (ms_subs s). wr_username w = u \<and> due latest w \<and> Q w"
    using due assms(2) by blast
  moreover have "\<forall>w \<in> set (ms_subs t). (w \<in> set (ms_subs s) \<and> (c \<or> (wr_username w, True) \<notin> set new)) \<or>
           (\<exists>at_time \<ge> me_now me (ms_posts s). wr_last w = Some at_time)"
    using rows assms(3) by blast
  ultimately show ?thesis unfolding mailed_since_def by blast
qed

lemma since_part:
  "mailed_since me latest P b s t \<Longrightarrow> keeps (mail_part (ms_subs t) (ms_log t) (ms_posts t)) m \<Longrightarrow>
     mailed_since me latest P b s (snd (m t))"
  using partD [of t m] by (auto simp: mailed_since_def subs_wf_def)

lemma since_delete:
  "mailed_since me latest P b s t \<Longrightarrow> mailed_since me latest P b s (snd (delete_expired org expired t))"
  by (auto simp: mailed_since_def subs_wf_def delete_expired_def distinct_map_filter)

definition clock_runs :: "mail_env \<Rightarrow> int \<Rightarrow> mail_state \<Rightarrow> bool" where
  "clock_runs me latest s \<longleftrightarrow> (\<forall>m n. m \<le> n \<longrightarrow> me_now me m \<le> me_now me n) \<and> latest \<le> me_now me (ms_posts s)"

lemma since_row:
  assumes since: "mailed_since me latest P b s t" and clock: "clock_runs me latest s" and wf: "subs_wf s"
    and w: "w \<in> set (ms_subs t)" "due latest w" "\<not> P w"
  shows "w \<in> set (ms_subs s)" "\<And>new. ms_log t = ms_log s @ new \<Longrightarrow> wr_username w \<notin> fst ` set new"
proof -
  obtain new where new: "ms_log t = ms_log s @ new"
    and due: "\<forall>u \<in> fst ` set new. \<exists>w \<in> set (ms_subs s). wr_username w = u \<and> due latest w \<and> P w"
    and rows: "\<forall>w \<in> set (ms_subs t). (w \<in> set (ms_subs s) \<and> (b \<or> (wr_username w, True) \<notin> set new)) \<or>
           (\<exists>at_time \<ge> me_now me (ms_posts s). wr_last w = Some at_time)"
    using since unfolding mailed_since_def by blast
  have "\<not> (\<exists>at_time \<ge> me_now me (ms_posts s). wr_last w = Some at_time)"
    using w(2) clock by (auto simp: due_def clock_runs_def)
  with rows w(1) show here: "w \<in> set (ms_subs s)" by blast
  have "wr_username w \<notin> fst ` set new"
  proof
    assume "wr_username w \<in> fst ` set new"
    then obtain v where v: "v \<in> set (ms_subs s)" "wr_username v = wr_username w" "P v" using due by blast
    have "v = w" using wf v(1,2) here by (auto simp: subs_wf_def distinct_map dest: inj_onD)
    then show False using v(3) w(3) by simp
  qed
  then show "wr_username w \<notin> fst ` set new'" if "ms_log t = ms_log s @ new'" for new'
    using new that by simp
qed

definition sent_row :: "nat \<Rightarrow> int \<Rightarrow> wrs_row \<Rightarrow> wrs_row" where
  "sent_row i now w = (if wr_id w = i then w\<lparr>wr_last := Some now\<rparr> else w)"

lemma sent_row_same [simp]:
  "wr_username (sent_row i now w) = wr_username w" "wr_id (sent_row i now w) = wr_id w"
  by (simp_all add: sent_row_def)

lemma map_sent_row [simp]:
  "map wr_username (map (sent_row i now) ws) = map wr_username ws"
  "map wr_id (map (sent_row i now) ws) = map wr_id ws"
  by simp_all

lemma mark_sent_row:
  "mark_sent me u t =
     (if list_ex (\<lambda>w. wr_id w = wr_id (mu_sub u)) (ms_subs t) \<and> me_saves me (ms_posts t)
      then (Inr (), t\<lparr>ms_subs := map (sent_row (wr_id (mu_sub u)) (me_now me (ms_posts t))) (ms_subs t)\<rparr>)
      else (Inl DbError, t))"
  by (simp add: mark_sent_def sent_row_def [abs_def] Let_def)

definition chosen :: "mail_state \<Rightarrow> int \<Rightarrow> (wrs_row \<Rightarrow> bool) \<Rightarrow> mail_user \<Rightarrow> bool" where
  "chosen t latest P u \<longleftrightarrow> mu_sub u \<in> set (ms_subs t) \<and> due latest (mu_sub u) \<and> \<not> P (mu_sub u)"

text \<open>After the attempts for a chosen user the rows are as before and the user's posts are logged.\<close>

lemma since_tried:
  assumes since: "mailed_since me latest P False s t" and clock: "clock_runs me latest s" and wf: "subs_wf s"
    and u: "chosen t latest P u"
    and tried: "posting u t bs t1" "stops_when_accepted (me_attempts me) bs" "b \<or> True \<notin> set bs"
  shows "mailed_since me latest (\<lambda>w. P w \<or> w = mu_sub u) b s t1"
proof -
  let ?name = "wr_username (mu_sub u)"
  obtain new where new: "ms_log t = ms_log s @ new"
    and stops: "\<forall>v. stops_when_accepted (me_attempts me) (posts_to v new)"
    and due: "\<forall>v \<in> fst ` set new. \<exists>w \<in> set (ms_subs s). wr_username w = v \<and> due latest w \<and> P w"
    and rows: "\<forall>w \<in> set (ms_subs t). (w \<in> set (ms_subs s) \<and> (False \<or> (wr_username w, True) \<notin> set new)) \<or>
           (\<exists>at_time \<ge> me_now me (ms_posts s). wr_last w = Some at_time)"
    and keep: "subs_wf t" "ms_posts s \<le> ms_posts t"
    using since unfolding mailed_since_def by blast
  have from_s: "mu_sub u \<in> set (ms_subs s)" "?name \<notin> fst ` set new"
    using since_row [OF since clock wf] u new unfolding chosen_def by blast+
  let ?new = "new @ map (Pair ?name) bs"
  have "ms_log t1 = ms_log s @ ?new" using new tried(1) by (simp add: posting_def)
  moreover have "stops_when_accepted (me_attempts me) (posts_to v ?new)" for v
    using stops tried(2) posts_to_none [OF from_s(2)] by (cases "v = ?name") simp_all
  moreover have "\<forall>v \<in> fst ` set ?new. \<exists>w \<in> set (ms_subs s). wr_username w = v \<and> due latest w \<and> (P w \<or> w = mu_sub u)"
  proof
    fix v assume "v \<in> fst ` set ?new"
    then have "v \<in> fst ` set new \<or> v = ?name" by auto
    then show "\<exists>w \<in> set (ms_subs s). wr_username w = v \<and> due latest w \<and> (P w \<or> w = mu_sub u)"
      using due from_s(1) u unfolding chosen_def by blast
  qed
  moreover have "\<forall>w \<in> set (ms_subs t1). (w \<in> set (ms_subs s) \<and> (b \<or> (wr_username w, True) \<notin> set ?new)) \<or>
           (\<exists>at_time \<ge> me_now me (ms_posts s). wr_last w = Some at_time)"
  proof
    fix w assume "w \<in> set (ms_subs t1)"
    then have "w \<in> set (ms_subs t)" using tried(1) by (simp add: posting_def)
    moreover have "(wr_username w, True) \<in> set ?new \<Longrightarrow> (wr_username w, True) \<in> set new \<or> True \<in> set bs" by auto
    ultimately show "(w \<in> set (ms_subs s) \<and> (b \<or> (wr_username w, True) \<notin> set ?new)) \<or>
           (\<exists>at_time \<ge> me_now me (ms_posts s). wr_last w = Some at_time)"
      using rows tried(3) by blast
  qed
  moreover have "subs_wf t1" "ms_posts s \<le> ms_posts t1" using keep tried(1) by (simp_all add: posting_def subs_wf_def)
  ultimately show ?thesis unfolding mailed_since_def by blast
qed

text \<open>Marking the row restores that no user of an unmarked row has been mailed.\<close>

lemma since_marked:
  assumes since: "mailed_since me latest P True s t" and clock: "clock_runs me latest s"
    and marked: "mark_sent me u t = (Inr (), t1)"
    and others: "\<And>w. w \<in> set (ms_subs t) \<Longrightarrow> wr_id w \<noteq> wr_id (mu_sub u) \<Longrightarrow>
      (w \<in> set (ms_subs s) \<and> (\<forall>new. ms_log t = ms_log s @ new \<longrightarrow> (wr_username w, True) \<notin> set new)) \<or>
      (\<exists>at_time \<ge> me_now me (ms_posts s). wr_last w = Some at_time)"
  shows "mailed_since me latest P False s t1"
proof -
  let ?i = "wr_id (mu_sub u)" and ?now = "me_now me (ms_posts t)"
  obtain new where new: "ms_log t = ms_log s @ new"
    and stops: "\<forall>v. stops_when_accepted (me_attempts me) (posts_to v new)"
    and due: "\<forall>v \<in> fst ` set new. \<exists>w \<in> set (ms_subs s). wr_username w = v \<and> due latest w \<and> P w"
    and keep: "subs_wf t" "ms_posts s \<le> ms_posts t"
    using since unfolding mailed_since_def by blast
  have t1: "ms_subs t1 = map (sent_row ?i ?now) (ms_subs t)" "ms_posts t1 = ms_posts t" "ms_log t1 = ms_log t"
    using marked by (auto simp: mark_sent_row split: if_splits)
  have now: "?now \<ge> me_now me (ms_posts s)" using clock keep(2) by (simp add: clock_runs_def)
  have "(sent_row ?i ?now w \<in> set (ms_subs s) \<and> (False \<or> (wr_username (sent_row ?i ?now w), True) \<notin> set new)) \<or>
      (\<exists>at_time \<ge> me_now me (ms_posts s). wr_last (sent_row ?i ?now w) = Some at_time)"
    if w: "w \<in> set (ms_subs t)" for w
  proof (cases "wr_id w = ?i")
    case True
    then show ?thesis using now by (simp add: sent_row_def)
  next
    case False
    then have "sent_row ?i ?now w = w" by (simp add: sent_row_def)
    with others [OF w False] new show ?thesis by simp
  qed
  then have "\<forall>w \<in> set (ms_subs t1). (w \<in> set (ms_subs s) \<and> (False \<or> (wr_username w, True) \<notin> set new)) \<or>
      (\<exists>at_time \<ge> me_now me (ms_posts s). wr_last w = Some at_time)"
    unfolding t1(1) by (simp only: set_map ball_simps) blast
  moreover have "subs_wf t1" using keep(1) unfolding subs_wf_def t1(1) by (simp only: map_sent_row)
  ultimately show ?thesis using new stops due keep(2) t1(2,3) unfolding mailed_since_def by auto
qed

lemma mark_sent_others:
  "v \<in> set (ms_subs t) \<Longrightarrow> wr_id v \<noteq> wr_id (mu_sub u) \<Longrightarrow> v \<in> set (ms_subs (snd (mark_sent me u t)))"
  by (force simp: mark_sent_row sent_row_def)

text \<open>How a computation ends: an accepted mail is unmarked only where saving has failed and stopped the run.\<close>

definition ends ::
  "mail_env \<Rightarrow> int \<Rightarrow> (wrs_row \<Rightarrow> bool) \<Rightarrow> mail_state \<Rightarrow> 'a py \<times> mail_state \<Rightarrow> bool" where
  "ends me latest P s p \<longleftrightarrow> mailed_since me latest P (isl (fst p) \<and> (\<exists>n. \<not> me_saves me n)) s (snd p)"

lemma ends_Inr [simp]: "ends me latest P s (Inr x, t) = mailed_since me latest P False s t"
  by (simp add: ends_def)

lemma ends_any: "mailed_since me latest P False s t \<Longrightarrow> ends me latest P s (r, t)"
  unfolding ends_def fst_conv snd_conv by (erule since_mono) simp_all

lemma ends_mono:
  "ends me latest P s (r, t) \<Longrightarrow> (\<And>w. P w \<Longrightarrow> Q w) \<Longrightarrow> ends me latest Q s (r, t)"
  unfolding ends_def fst_conv snd_conv by (rule since_mono) assumption+

lemma ends_bind:
  assumes "ends me latest P s (m t)" "\<And>x t1. m t = (Inr x, t1) \<Longrightarrow> mailed_since me latest P False s t1 \<Longrightarrow>
    ends me latest Q s (f x t1)" "\<And>w. P w \<Longrightarrow> Q w"
  shows "ends me latest Q s (a_bind m f t)"
proof (cases "m t")
  case (Pair r t1)
  show ?thesis
  proof (cases r)
    case (Inl e)
    then have "mailed_since me latest P (\<exists>n. \<not> me_saves me n) s t1" using assms(1) Pair by (simp add: ends_def)
    then have "mailed_since me latest Q (\<exists>n. \<not> me_saves me n) s t1" by (rule since_mono) (rule assms(3))
    then show ?thesis using Pair Inl by (simp add: a_bind_app ends_def)
  next
    case (Inr x)
    then show ?thesis using assms(1,2) Pair by (simp add: a_bind_app)
  qed
qed

lemma ends_part:
  assumes "keeps (mail_part (ms_subs t) (ms_log t) (ms_posts t)) m" "mailed_since me latest P False s t"
  shows "ends me latest P s (m t)"
  using since_part [OF assms(2,1)] ends_any by (cases "m t") auto

lemma since_one:
  assumes since: "mailed_since me latest P False s t" and clock: "clock_runs me latest s" and wf: "subs_wf s"
    and u: "chosen t latest P u"
    and tried: "try_send me report u (me_attempts me) t = (r, t1)"
  obtains sent where "r = Inr sent" "ms_subs t1 = ms_subs t"
    "\<not> sent \<Longrightarrow> mailed_since me latest (\<lambda>w. P w \<or> w = mu_sub u) False s t1"
    "ends me latest (\<lambda>w. P w \<or> w = mu_sub u) s (mark_sent me u t1)"
proof -
  let ?P = "\<lambda>w. P w \<or> w = mu_sub u"
  from try_send_posts [OF tried] obtain bs sent where bs: "r = Inr sent" "posting u t bs t1"
    "stops_when_accepted (me_attempts me) bs" "True \<in> set bs \<longrightarrow> sent" by blast
  note after = since_tried [OF since clock wf u bs(2,3)]
  have subs: "ms_subs t1 = ms_subs t" using bs(2) by (simp add: posting_def)
  have here: "list_ex (\<lambda>w. wr_id w = wr_id (mu_sub u)) (ms_subs t1)"
    using u subs by (auto simp: chosen_def list_ex_iff)
  have "ends me latest ?P s (mark_sent me u t1)"
  proof (cases "me_saves me (ms_posts t1)")
    case False
    then have "\<exists>n. \<not> me_saves me n" by blast
    with False show ?thesis using after [of True] here by (simp add: mark_sent_row ends_def)
  next
    case True
    then obtain t2 where t2: "mark_sent me u t1 = (Inr (), t2)" using here by (simp add: mark_sent_row)
    obtain new where new: "ms_log t = ms_log s @ new" and wf_t: "subs_wf t"
      and rows: "\<forall>w \<in> set (ms_subs t). (w \<in> set (ms_subs s) \<and> (False \<or> (wr_username w, True) \<notin> set new)) \<or>
           (\<exists>at_time \<ge> me_now me (ms_posts s). wr_last w = Some at_time)"
      using since unfolding mailed_since_def by blast
    have "mailed_since me latest ?P False s t2"
    proof (rule since_marked [OF after clock t2])
      fix w assume w: "w \<in> set (ms_subs t1)" "wr_id w \<noteq> wr_id (mu_sub u)"
      then have "wr_username w \<noteq> wr_username (mu_sub u)"
        using u wf_t subs by (auto simp: chosen_def subs_wf_def distinct_map dest: inj_onD)
      then have log: "(wr_username w, True) \<notin> set new'" if "ms_log t1 = ms_log s @ new'" "(wr_username w, True) \<notin> set new"
        for new' using that bs(2) new by (auto simp: posting_def)
      show "(w \<in> set (ms_subs s) \<and> (\<forall>new. ms_log t1 = ms_log s @ new \<longrightarrow> (wr_username w, True) \<notin> set new)) \<or>
          (\<exists>at_time \<ge> me_now me (ms_posts s). wr_last w = Some at_time)"
        using bspec [OF rows, of w] w(1) subs log by auto
    qed simp
    then show ?thesis using t2 by simp
  qed
  moreover have "mailed_since me latest ?P False s t1" if "\<not> sent" using after [of False] bs(4) that by simp
  ultimately show ?thesis using that bs(1) subs by blast
qed

lemma since_send:
  assumes "clock_runs me latest s" "subs_wf s"
  shows "mailed_since me latest P False s t \<Longrightarrow> distinct (map (\<lambda>u. wr_id (mu_sub u)) us) \<Longrightarrow>
    (\<And>u. u \<in> set us \<Longrightarrow> chosen t latest P u) \<Longrightarrow>
    ends me latest (\<lambda>w. P w \<or> w \<in> mu_sub ` set us) s (send_emails me report us t)"
proof (induction us arbitrary: t P)
  case (Cons u us)
  let ?P = "\<lambda>w. P w \<or> w = mu_sub u" and ?Q = "\<lambda>w. P w \<or> w \<in> mu_sub ` set (u # us)"
  obtain r t1 where tried: "try_send me report u (me_attempts me) t = (r, t1)"
    by (cases "try_send me report u (me_attempts me) t")
  have "chosen t latest P u" using Cons.prems(3) by simp
  from since_one [OF Cons.prems(1) assms this tried] obtain sent where one: "r = Inr sent" "ms_subs t1 = ms_subs t"
    "\<not> sent \<Longrightarrow> mailed_since me latest ?P False s t1" "ends me latest ?P s (mark_sent me u t1)" by blast
  have other: "wr_id (mu_sub v) \<noteq> wr_id (mu_sub u)" if "v \<in> set us" for v
    using Cons.prems(2) that by (auto simp: image_iff)
  have rest: "ends me latest ?Q s (a_bind (send_emails me report us) (\<lambda>(ok, failed). a_ret (g ok failed)) t2)"
    if t2: "mailed_since me latest ?P False s t2" and subs: "\<And>v. v \<in> set us \<Longrightarrow> mu_sub v \<in> set (ms_subs t2)"
    for g :: "mail_user list \<Rightarrow> mail_user list \<Rightarrow> mail_user list \<times> mail_user list" and t2
  proof -
    have "chosen t2 latest ?P v" if "v \<in> set us" for v
      using Cons.prems(3) [of v] other [OF that] that subs [OF that] by (auto simp: chosen_def)
    from Cons.IH [OF t2 _ this] Cons.prems(2)
    have "ends me latest (\<lambda>w. ?P w \<or> w \<in> mu_sub ` set us) s (send_emails me report us t2)" by simp
    then show ?thesis by (rule ends_bind) (auto intro: since_mono split: prod.splits)
  qed
  show ?case
  proof (cases sent)
    case False
    have "ends me latest ?Q s (a_bind (send_emails me report us) (\<lambda>(ok, failed). a_ret (ok, u # failed)) t1)"
      by (rule rest [OF one(3) [OF False]]) (use Cons.prems(3) one(2) in \<open>auto simp: chosen_def\<close>)
    then show ?thesis using tried one(1) False by (simp add: a_bind_app)
  next
    case True
    have "ends me latest ?Q s (a_bind (mark_sent me u) (\<lambda>_. a_bind (send_emails me report us) (\<lambda>(ok, failed). a_ret (u # ok, failed))) t1)"
    proof (rule ends_bind [where P = ?P and m = "mark_sent me u" and t = t1])
      show "ends me latest ?P s (mark_sent me u t1)" by (rule one(4))
    next
      fix x t2 assume marked: "mark_sent me u t1 = (Inr x, t2)" and t2: "mailed_since me latest ?P False s t2"
      have "mu_sub v \<in> set (ms_subs t2)" if "v \<in> set us" for v
        using mark_sent_others [OF _ other [OF that], of t1 me] marked one(2) Cons.prems(3) [of v] that
        by (simp add: chosen_def)
      then show "ends me latest ?Q s (a_bind (send_emails me report us) (\<lambda>(ok, failed). a_ret (u # ok, failed)) t2)"
        by (rule rest [OF t2])
    qed auto
    then show ?thesis using tried one(1) True by (simp add: a_then_def a_bind_app)
  qed
qed simp

lemma since_mail_org:
  assumes clock: "clock_runs me latest s" and wf: "subs_wf s" and org: "org \<notin> V"
    and since: "mailed_since me latest (\<lambda>w. wr_org w \<in> V) False s t"
  shows "ends me latest (\<lambda>w. wr_org w \<in> insert org V) s (mail_org me delete latest org t)"
  unfolding mail_org_def
proof (rule ends_bind [where P = "\<lambda>w. wr_org w \<in> V"])
  show "ends me latest (\<lambda>w. wr_org w \<in> V) s (get_users_to_email me latest org t)"
    by (rule ends_part [OF part_get_users since])
next
  let ?Q = "\<lambda>w. wr_org w \<in> insert org V"
  have into: "ends me latest ?Q s (Inr x, t1)" if "mailed_since me latest (\<lambda>w. wr_org w \<in> V) False s t1" for x t1
    using that unfolding ends_Inr by (rule since_mono) simp_all
  fix p t1 assume got: "get_users_to_email me latest org t = (Inr p, t1)"
    and t1: "mailed_since me latest (\<lambda>w. wr_org w \<in> V) False s t1"
  obtain users expired where p: "p = (users, expired)" by (cases p)
  have wf_t: "subs_wf t" using since by (simp add: mailed_since_def)
  note from_t = get_users_from [OF got [unfolded p] wf_t]
  have subs: "ms_subs t1 = ms_subs t" using partD [OF part_get_users] got by (metis snd_conv)
  have sent: "ends me latest ?Q s (send_emails me report users t1)" for report
  proof -
    have "chosen t1 latest (\<lambda>w. wr_org w \<in> V) u" if "u \<in> set users" for u
      using from_t(2) [OF that] subs org by (simp add: chosen_def)
    from since_send [OF clock wf t1 from_t(1) this]
    have "ends me latest (\<lambda>w. wr_org w \<in> V \<or> w \<in> mu_sub ` set users) s (send_emails me report users t1)" .
    then show ?thesis
      by (cases "send_emails me report users t1") (auto elim!: ends_mono dest: from_t(2))
  qed
  have last: "ends me latest ?Q s (a_then (if expired \<noteq> [] \<and> delete then delete_expired org expired else a_ret ())
      (a_ret n) t2)" if "mailed_since me latest ?Q False s t2" for n :: "nat \<times> nat" and t2
    using that since_delete [OF that, of org expired] by (simp add: a_then_app delete_expired_def)
  have mailing: "ends me latest ?Q s (a_bind (send_emails me report users) (\<lambda>(ok, failed).
      a_then (if expired \<noteq> [] \<and> delete then delete_expired org expired else a_ret ())
        (a_ret (length ok, length failed))) t1)" for report
    unfolding prod.case_eq_if by (rule ends_bind [where P = ?Q]) (rule sent, erule last)
  show "ends me latest ?Q s ((case p of (users, expired) \<Rightarrow> if users = [] then a_ret (0, 0)
     else a_bind (a_lift (get_reports me org)) (\<lambda>report.
       if iv_total (wk_systems report) = 0 then a_ret (0, 0)
       else a_bind (send_emails me report users) (\<lambda>(ok, failed).
         a_then (if expired \<noteq> [] \<and> delete then delete_expired org expired else a_ret ())
           (a_ret (length ok, length failed))))) t1)"
  proof (cases "get_reports me org")
    case (Inl e)
    have "mailed_since me latest ?Q False s t1" using t1 by (rule since_mono) simp_all
    with ends_any [OF this, of "Inl e :: (nat \<times> nat) py"] show ?thesis using Inl by (simp add: p del: insert_iff)
  next
    case (Inr report)
    then show ?thesis using into [OF t1] mailing [of report] by (simp add: p)
  qed
qed simp

lemma since_mail_orgs:
  assumes clock: "clock_runs me latest s" and wf: "subs_wf s"
  shows "distinct orgs \<Longrightarrow> set orgs \<inter> V = {} \<Longrightarrow> mailed_since me latest (\<lambda>w. wr_org w \<in> V) False s t \<Longrightarrow>
    ends me latest (\<lambda>w. wr_org w \<in> set orgs \<union> V) s (mail_orgs me delete latest orgs t)"
proof (induction orgs arbitrary: t V)
  case (Cons org orgs)
  let ?Q = "\<lambda>w. wr_org w \<in> set (org # orgs) \<union> V"
  have "org \<notin> V" using Cons.prems(2) by simp
  note first = since_mail_org [OF clock wf this Cons.prems(3), of delete]
  show ?case unfolding mail_orgs.simps
  proof (rule ends_bind [where P = "\<lambda>w. wr_org w \<in> insert org V"])
    show "ends me latest (\<lambda>w. wr_org w \<in> insert org V) s (mail_org me delete latest org t)" by (rule first)
  next
    fix x t1 assume t1: "mailed_since me latest (\<lambda>w. wr_org w \<in> insert org V) False s t1"
    have "set orgs \<inter> insert org V = {}" "distinct orgs" using Cons.prems(1,2) by auto
    note rest = Cons.IH [OF this(2,1) t1]
    have same: "(\<lambda>w. wr_org w \<in> set orgs \<union> insert org V) = ?Q" by auto
    show "ends me latest ?Q s ((case x of (ok, failed) \<Rightarrow>
       a_bind (mail_orgs me delete latest orgs) (\<lambda>(ok', failed'). a_ret (ok + ok', failed + failed'))) t1)"
      unfolding prod.case_eq_if by (rule ends_bind [where P = ?Q]) (use rest [unfolded same] in simp_all)
  qed auto
qed simp

lemma sorted_insert_text:
  "sorted_wrt (\<lambda>x y. \<not> str_less y x) ts \<Longrightarrow> sorted_wrt (\<lambda>x y. \<not> str_less y x) (insert_text x ts) \<and>
     set (insert_text x ts) = insert x (set ts)"
proof (induction ts)
  case (Cons t ts)
  show ?case
  proof (cases "str_less t x")
    case True
    then have "\<not> str_less x t" using str_less_trans [of t x t] by auto
    then show ?thesis using Cons True by auto
  next
    case False
    then have "\<not> str_less y x" if "y \<in> set ts" for y
      using Cons.prems that str_less_trans [of y x t] str_less_total [of x t] by auto
    then show ?thesis using Cons.prems False by auto
  qed
qed simp

lemma sorted_texts: "sorted_wrt (\<lambda>x y. \<not> str_less y x) (foldr insert_text xs [])"
  by (induction xs) (simp_all add: sorted_insert_text)

lemma distinct_sorted_texts: "sorted_wrt (\<lambda>x y. \<not> str_less y x) ts \<Longrightarrow> distinct (remdups_adj ts)"
proof (induction ts rule: remdups_adj.induct)
  case (3 x y xs)
  show ?case
  proof (cases "x = y")
    case True
    then show ?thesis using 3 by simp
  next
    case False
    then have xy: "str_less x y" using "3.prems" str_less_total [of x y] by auto
    have "x \<noteq> z" if "z \<in> set xs" for z
      using "3.prems" that xy by auto
    then show ?thesis using 3 False by auto
  qed
qed simp_all

lemma since_handle:
  assumes "subs_wf s" "clock_runs me latest s"
  shows "ends me latest (\<lambda>w. True) s (handle_emails me mo latest s)"
proof -
  let ?orgs = "get_account_orgs mo latest s"
  have "distinct ?orgs" unfolding get_account_orgs_def by (rule distinct_sorted_texts [OF sorted_texts])
  from since_mail_orgs [OF assms(2,1) this _ since_refl [OF assms(1)], of "{}"]
  have "ends me latest (\<lambda>w. wr_org w \<in> set ?orgs \<union> {}) s (handle_emails me mo latest s)"
    by (simp add: handle_emails_def a_bind_app)
  then show ?thesis by (cases "handle_emails me mo latest s") (auto elim: ends_mono)
qed

lemma since_command:
  assumes "subs_wf s" "\<And>m n. m \<le> n \<Longrightarrow> me_now me m \<le> me_now me n" "0 \<le> me_hours me"
  shows "mailed_since me (latest_email_time me s) (\<lambda>w. True) (\<exists>n. \<not> me_saves me n) s (snd (weekly_command me mo s))"
proof -
  let ?latest = "latest_email_time me s" and ?b = "\<exists>n. \<not> me_saves me n"
  have "clock_runs me ?latest s" using assms(2,3) by (simp add: clock_runs_def latest_email_time_def)
  note ended = since_handle [OF assms(1) this, of mo]
  obtain r t where run: "handle_emails me mo ?latest s = (r, t)" by (cases "handle_emails me mo ?latest s")
  have "mailed_since me ?latest (\<lambda>w. True) ?b s t"
    using ended unfolding run ends_def fst_conv snd_conv by (rule since_mono) simp_all
  then have prom: "mailed_since me ?latest (\<lambda>w. True) ?b s (snd (send_to_prometheus me a m t))" for a m
    by (rule since_part) (rule part_prometheus)
  show ?thesis
  proof (cases r)
    case (Inl e)
    have "mailed_since me ?latest (\<lambda>w. True) ?b s (snd (a_then (send_to_prometheus me 0 (me_text me e)) (a_raise e :: (mail_state, unit) act) t))"
      by (rule then_after) (use prom in \<open>auto, (metis snd_conv)?\<close>)
    then show ?thesis using run Inl by (simp add: weekly_command_def)
  next
    case (Inr counts)
    then show ?thesis using run prom by (auto simp: weekly_command_def split: prod.splits)
  qed
qed


section \<open>Runs of the command\<close>

text \<open>
  C16: nobody is mailed again once a mail to them has been accepted.  In a run, the POSTs to the mail
  service for one user are at most the configured attempts, none follows an accepted one, and all
  are to users whose subscription was due, whatever the mail service, the middleware, the
  permission services and the database answered and however the run ended.  Over a run and a second
  one whose limit, the minimum number of hours before it starts, is not after the start of the
  first, with no subscription added between them: where saving \<open>last_email_at\<close> did not fail in the
  first, at most one POST for a user name is accepted.  A POST whose answer is lost or an error is
  not accepted: it is tried again, although the service may have sent the mail; and where the save
  fails, the run stops and the next one mails the user again.
\<close>

theorem nobody_mailed_twice:
  assumes "subs_wf s" "subs_wf s2" "0 \<le> me_hours me" "0 \<le> me_hours me2"
    "\<And>m n. m \<le> n \<Longrightarrow> me_now me m \<le> me_now me n" "\<And>m n. m \<le> n \<Longrightarrow> me_now me2 m \<le> me_now me2 n"
    "set (ms_subs s2) \<subseteq> set (ms_subs (snd (weekly_command me mo s)))"
    "latest_email_time me2 s2 \<le> me_now me (ms_posts s)"
  shows "\<exists>new1 new2. ms_log (snd (weekly_command me mo s)) = ms_log s @ new1 \<and>
    ms_log (snd (weekly_command me2 mo2 s2)) = ms_log s2 @ new2 \<and>
    (\<forall>u. stops_when_accepted (me_attempts me) (posts_to u new1) \<and>
      stops_when_accepted (me_attempts me2) (posts_to u new2)) \<and>
    (\<forall>u \<in> fst ` set new1. \<exists>w \<in> set (ms_subs s). wr_username w = u \<and> due (latest_email_time me s) w) \<and>
    ((\<forall>n. me_saves me n) \<longrightarrow> distinct (map fst (filter snd (new1 @ new2))))"
proof -
  let ?s1 = "snd (weekly_command me mo s)" and ?s3 = "snd (weekly_command me2 mo2 s2)"
  obtain new1 where new1: "ms_log ?s1 = ms_log s @ new1"
    "\<forall>u. stops_when_accepted (me_attempts me) (posts_to u new1)"
    "\<forall>u \<in> fst ` set new1. \<exists>w \<in> set (ms_subs s). wr_username w = u \<and> due (latest_email_time me s) w \<and> True"
    and rows: "\<forall>w \<in> set (ms_subs ?s1). (w \<in> set (ms_subs s) \<and> ((\<exists>n. \<not> me_saves me n) \<or> (wr_username w, True) \<notin> set new1)) \<or>
      (\<exists>at_time \<ge> me_now me (ms_posts s). wr_last w = Some at_time)"
    using since_command [OF assms(1,5,3), where mo = mo] by (rule sinceE)
  obtain new2 where new2: "ms_log ?s3 = ms_log s2 @ new2"
    "\<forall>u. stops_when_accepted (me_attempts me2) (posts_to u new2)"
    and old: "\<forall>u \<in> fst ` set new2. \<exists>w \<in> set (ms_subs s2). wr_username w = u \<and> due (latest_email_time me2 s2) w \<and> True"
    using since_command [OF assms(2,6,4), where mo = mo2] by (rule sinceE)
  have apart: "(u, True) \<notin> set new1" if saves: "\<forall>n. me_saves me n" and u: "(u, True) \<in> set new2" for u
  proof -
    have "u \<in> fst ` set new2" using u by force
    then obtain w where w: "w \<in> set (ms_subs s2)" "wr_username w = u" "due (latest_email_time me2 s2) w"
      using old by blast
    then have "\<not> (\<exists>at_time \<ge> me_now me (ms_posts s). wr_last w = Some at_time)"
      using assms(8) by (auto simp: due_def)
    then show ?thesis using rows w(1,2) assms(7) saves by blast
  qed
  have "distinct (map fst (filter snd (new1 @ new2)))" if "\<forall>n. me_saves me n"
  proof -
    have "fst ` set (filter snd new1) \<inter> fst ` set (filter snd new2) = {}"
      using apart [OF that] by fastforce
    then show ?thesis
      using accepted_once [OF new1(2)] accepted_once [OF new2(2)] by simp
  qed
  with new1 new2 show ?thesis by (intro exI [of _ new1] exI [of _ new2] conjI allI impI) simp_all
qed

section \<open>Who stays subscribed\<close>

definition subscribers :: "mail_state \<Rightarrow> (string \<times> string) list" where
  "subscribers s = map (\<lambda>w. (wr_username w, wr_org w)) (ms_subs s)"

lemma subscribed_iff: "subscribed u i s \<longleftrightarrow> (u, i) \<in> set (subscribers s)"
  by (force simp: subscribed_def subscribers_def list_ex_iff)

lemma subscribers_part: "keeps (mail_part (ms_subs s) (ms_log s) (ms_posts s)) m \<Longrightarrow> subscribers (snd (m s)) = subscribers s"
  using partD [of s m] by (simp add: subscribers_def)

lemma subscribers_mark: "subscribers (snd (mark_sent me u s)) = subscribers s"
  by (simp add: mark_sent_row subscribers_def sent_row_def comp_def if_distrib cong: if_cong)

lemma keeps_subscribers_part:
  "(\<And>x y n. keeps (mail_part x y n) m) \<Longrightarrow> keeps (\<lambda>s. subscribers s = p) m"
  using subscribers_part by (blast intro: keepsI)

lemma keeps_subscribers_try: "keeps (\<lambda>s. subscribers s = p) (try_send me report u k)"
proof (rule keepsI)
  fix s assume "subscribers s = p"
  moreover obtain r t where t: "try_send me report u k s = (r, t)" by (cases "try_send me report u k s")
  ultimately show "subscribers (snd (try_send me report u k s)) = p"
    using try_send_posts [OF t] by (auto simp: posting_def subscribers_def)
qed

lemma keeps_subscribers_send: "keeps (\<lambda>s. subscribers s = p) (send_emails me report us)"
proof (induction us)
  case Nil
  show ?case unfolding send_emails.simps by (rule keeps_ret)
next
  case (Cons u us)
  have mark: "keeps (\<lambda>s. subscribers s = p) (mark_sent me u)"
    by (simp add: keeps_def subscribers_mark)
  show ?case unfolding send_emails.simps
    by (intro keeps_part mark keeps_subscribers_try Cons.IH)
qed

lemma subscribers_delete:
  "subscribers (snd (delete_expired org expired s)) =
     filter (\<lambda>(u, i). i \<noteq> org \<or> u \<notin> set expired) (subscribers s)"
  by (simp add: delete_expired_def subscribers_def filter_map comp_def)

text \<open>
  Users counted as expired are only deleted in runs that mail their organisation.  The command
  on one organisation with the option to delete expired users leaves exactly the other user names,
  except where no user of the organisation is to be mailed or it has no systems: then nobody is
  deleted, whatever the option says.
\<close>

theorem expired_users_deleted_only_with_mail:
  assumes "get_users_to_email me latest org s = (Inr (users, expired), s')" "get_reports me org = Inr report"
    "mail_org me True latest org s = (Inr counts, t)"
  shows "subscribers t = filter (\<lambda>(u, i). i \<noteq> org \<or> users = [] \<or> iv_total (wk_systems report) = 0 \<or> u \<notin> set expired)
    (subscribers s)"
proof -
  have s': "subscribers s' = subscribers s"
    using subscribers_part [OF part_get_users, of me latest org s] assms(1) by simp
  show ?thesis
  proof (cases "users = [] \<or> iv_total (wk_systems report) = 0")
    case True
    then have "t = s'" using assms by (cases "users = []") (simp_all add: mail_org_def a_bind_app)
    then show ?thesis using True s' by auto
  next
    case False
    obtain r s2 where sent: "send_emails me report users s' = (r, s2)" by (cases "send_emails me report users s'")
    have s2: "subscribers s2 = subscribers s"
      using keepsD [OF keeps_subscribers_send, of s' "subscribers s" me report users] s' sent by simp
    have "t = snd ((if expired \<noteq> [] then delete_expired org expired else a_ret ()) s2)"
      using False assms sent unfolding mail_org_def
      by (cases r) (auto simp: a_bind_app a_then_app delete_expired_def split: if_splits)
    then show ?thesis
      using False subscribers_delete [of org expired s2] s2 by (cases "expired = []") auto
  qed
qed


lemma keeps_subscribers_confirmation: "keeps (\<lambda>s. subscribers s = p) (send_confirmation_email me u)"
proof -
  have "keeps (\<lambda>s. subscribers s = p) (send_email me u)"
    by (auto simp: send_email_def subscribers_def Let_def keeps_def)
  then show ?thesis unfolding send_confirmation_email_def by (intro keeps_part)
qed

lemma confirmation_returns: "\<exists>t. send_confirmation_email me u s = (Inr (), t) \<and> subscribers t = subscribers s"
proof -
  have "fst (send_confirmation_email me u s) = Inr ()"
    by (cases "a_bind (a_lift (me_welcome me)) (\<lambda>_. send_email me u) s")
      (auto simp: send_confirmation_email_def a_catch_def split: sum.splits)
  then show ?thesis
    using keepsD [OF keeps_subscribers_confirmation, of s "subscribers s" me u] by (metis prod.collapse)
qed

lemma insert_subscription_returns:
  assumes "insert_subscription u account i autosub s = (Inr (), t)" "\<not> subscribed u i s"
  shows "subscribers t = subscribers s @ [(u, i)]"
  using assms
  by (auto simp: insert_subscription_def subscribers_def subscribed_def list_ex_iff Let_def split: if_splits)

lemma insert_subscription_taken:
  assumes "(u, j) \<in> set (subscribers s)" "\<not> subscribed u i s" "fits_subscription u account i"
  shows "insert_subscription u account i autosub s = (Inl IntegrityError, s\<lparr>ms_next := ms_next s + 1\<rparr>)"
proof -
  have "list_ex (\<lambda>w. wr_username w = u) (ms_subs s)"
    using assms(1) by (auto simp: subscribers_def list_ex_iff)
  moreover have "\<not> list_ex (\<lambda>w. wr_username w = u \<and> wr_account w = account \<and> wr_org w = i \<and>
      wr_last w = None \<and> wr_autosub w = autosub) (ms_subs s)"
    using assms(2) by (auto simp: subscribed_def list_ex_iff)
  ultimately show ?thesis using assms(3) by (simp add: insert_subscription_def)
qed

lemma unsubscribe_subscribers:
  "subscribers (s\<lparr>ms_subs := filter (\<lambda>w. \<not> (wr_username w = u \<and> wr_org w = i)) (ms_subs s)\<rparr>) =
     filter (\<lambda>p. p \<noteq> (u, i)) (subscribers s)"
  by (simp add: subscribers_def filter_map comp_def)

text \<open>
  C17: a subscription follows its request.  When the request to subscribe or unsubscribe is answered,
  the answer is what was asked for and the caller is subscribed exactly when it was; every other
  user, and the caller in every other organisation, is as before, in the same order.
\<close>

theorem subscription_follows_request:
  assumes "wrs_create me rq given s = (Inr answer, t)"
    "username_of (me_api me) rq = Inr (Some u)" "auth_org (me_api me) rq = Inr (Some i)"
  shows "given = Some answer \<and> subscribed u i t = answer \<and>
    filter (\<lambda>p. p \<noteq> (u, i)) (subscribers t) = filter (\<lambda>p. p \<noteq> (u, i)) (subscribers s)"
proof -
  from assms obtain account where given: "given = Some answer"
    and update: "update_wrs me u account answer i False s = (Inr (), t)"
    by (auto simp: wrs_create_def act_inv or_invalid_def update_wrs_for_def split: option.splits)
  have "subscribed u i t = answer \<and>
    filter (\<lambda>p. p \<noteq> (u, i)) (subscribers t) = filter (\<lambda>p. p \<noteq> (u, i)) (subscribers s)"
  proof (cases "subscribed u i s")
    case True
    show ?thesis
    proof (cases answer)
      case True
      then show ?thesis using update \<open>subscribed u i s\<close> by (simp add: update_wrs_def a_bind_app)
    next
      case False
      then have "subscribers t = filter (\<lambda>p. p \<noteq> (u, i)) (subscribers s)"
        using update True unsubscribe_subscribers [where s = s and u = u and i = i] by (auto simp: update_wrs_def a_bind_app)
      then show ?thesis using False by (simp add: subscribed_iff)
    qed
  next
    case False
    show ?thesis
    proof (cases answer)
      case True
      then obtain s1 where s1: "insert_subscription u account i False s = (Inr (), s1)"
        and t: "send_confirmation_email me u s1 = (Inr (), t)"
        using update False by (auto simp: update_wrs_def a_bind_app act_inv)
      then have "subscribers t = subscribers s @ [(u, i)]"
        using insert_subscription_returns [OF s1 False] confirmation_returns [of me u s1] by auto
      then show ?thesis using True by (simp add: subscribed_iff)
    next
      case False
      then show ?thesis using update \<open>\<not> subscribed u i s\<close> by (simp add: update_wrs_def a_bind_app)
    qed
  qed
  then show ?thesis using given by simp
qed

text \<open>
  A user name can be subscribed in one organisation only.  The model's documentation says that
  user names are not unique over organisations, but the column is: while the same name is subscribed
  in another organisation, a request to subscribe raises \<open>IntegrityError\<close>, subscribes nobody and
  sends no confirmation.
\<close>

theorem second_organisation_cannot_subscribe:
  assumes "username_of (me_api me) rq = Inr (Some u)" "auth_org (me_api me) rq = Inr (Some i)"
    "account_of (me_api me) rq = Inr account" "fits_subscription u account i"
    "(u, j) \<in> set (subscribers s)" "(u, i) \<notin> set (subscribers s)"
  shows "\<exists>t. wrs_create me rq (Some True) s = (Inl IntegrityError, t) \<and> subscribers t = subscribers s \<and>
    ms_posts t = ms_posts s"
proof -
  have "\<not> subscribed u i s" using assms(6) by (simp add: subscribed_iff)
  note insert = insert_subscription_taken [OF assms(5) this assms(4)]
  have "wrs_create me rq (Some True) s = (Inl IntegrityError, s\<lparr>ms_next := ms_next s + 1\<rparr>)"
    using assms(1-3) insert \<open>\<not> subscribed u i s\<close>
    by (simp add: wrs_create_def or_invalid_def update_wrs_for_def update_wrs_def a_bind_app a_then_app)
  then show ?thesis by (simp add: subscribers_def)
qed

section \<open>A failing middleware\<close>

lemma retry_loop_bad:
  assumes "\<And>n. \<exists>r. att n = Answer r \<and> status_code r \<noteq> 200"
  shows "status_code (rr_response q) \<noteq> 200 \<Longrightarrow>
    \<exists>q'. retry_loop att dur sleep rt k q = Inr q' \<and> status_code (rr_response q') \<noteq> 200"
proof (induction k arbitrary: q)
  case (Suc k)
  obtain r where r: "att (rr_tries q + 1) = Answer r" "status_code r \<noteq> 200" using assms by blast
  show ?case using Suc.IH r by (auto simp: Let_def)
qed simp

lemma user_account_details_bad:
  assumes "\<And>n. \<exists>r. me_users me users n = Answer r \<and> status_code r \<noteq> 200"
  shows "account_details me users = Inl ValidationError"
proof -
  obtain q where "retry_request (st_dev (me_settings me)) (me_users me users) (me_duration me) 3 5 True = Inr q"
    "status_code (rr_response q) \<noteq> 200"
    unfolding retry_request_def
    using retry_loop_bad [of "me_users me users", OF assms, of "\<lparr>rr_response = no_connection, rr_tries = 0, rr_elapsed = 0\<rparr>"
        "me_duration me" "backoff (st_dev (me_settings me)) 5" True 3]
    by (auto simp: no_connection_def)
  then show ?thesis by (simp add: account_details_def user_account_details_def)
qed

text \<open>
  A failure of the middleware stops the whole run.  While the middleware answers the request for
  account details with anything but 200, a run that has an organisation to mail raises
  \<open>ValidationError\<close> at the first one (only \<open>Http404\<close> is caught): no subscription changes and
  no mail is sent to any organisation; the error is pushed to Prometheus where that is configured.
\<close>

theorem middleware_failure_stops_run:
  assumes "\<And>users n. \<exists>r. me_users me users n = Answer r \<and> status_code r \<noteq> 200"
    "get_account_orgs mo (latest_email_time me s) s \<noteq> []"
  shows "weekly_command me mo s = (Inl ValidationError,
    if me_prometheus me then s\<lparr>ms_status := ms_status s @ [(0, me_text me ValidationError)]\<rparr> else s)"
proof -
  note bad = user_account_details_bad [OF assms(1)]
  have "mail_org me del latest org s = (Inl ValidationError, s)" for del latest org
    by (simp add: mail_org_def get_users_to_email_def a_bind_app bad)
  then have "handle_emails me mo (latest_email_time me s) s = (Inl ValidationError, s)"
    using assms(2) by (cases "get_account_orgs mo (latest_email_time me s) s")
      (simp_all add: handle_emails_def a_bind_app)
  then show ?thesis
    by (simp add: weekly_command_def a_then_app send_to_prometheus_def)
qed


section \<open>Examples\<close>

text \<open>An organisation with two systems; Ann has an address, Bob is not active; RBAC and Kessel are off.\<close>

definition mx_row :: "nat \<Rightarrow> string \<Rightarrow> string \<Rightarrow> wrs_row" where
  "mx_row i name org = \<lparr>wr_id = i, wr_username = name, wr_account = None, wr_org = org, wr_last = None, wr_autosub = False\<rparr>"

definition mx_state :: "wrs_row list \<Rightarrow> mail_state" where
  "mx_state ws = \<lparr>ms_subs = ws, ms_excluded = [], ms_next = 9, ms_posts = 0, ms_log = [], ms_status = [],
     ms_rbac_cache = None, ms_workspaces = []\<rparr>"

definition mx_identity :: json where
  "mx_identity = JObj [(''identity'', JObj [(''org_id'', JStr ''o''), (''type'', JStr ''User''),
     (''user'', JObj [(''username'', JStr ''ann'')])])]"

definition mx_users :: json where
  "mx_users = JList [JObj [(''username'', JStr ''ann''), (''is_active'', JBool True), (''email'', JStr ''ann@x'')],
     JObj [(''username'', JStr ''bob''), (''is_active'', JBool False), (''email'', JStr ''bob@x'')]]"

text \<open>The first POST is answered with 503, every other one with 200.\<close>

definition mail_example :: "int \<Rightarrow> mail_env" where
  "mail_example status = \<lparr>me_api = api_example,
     me_services = sample_services\<lparr>sv_encode := (\<lambda>_. ''h''), sv_stub := None\<rparr>, me_decode = (\<lambda>_. Some mx_identity),
     me_settings = \<lparr>st_rbac_enabled = False, st_rbac_url = '''', st_kessel_enabled = False, st_kessel_flag = False,
       st_dev = True\<rparr>, me_db = apx_db, me_url = ''http://m'', me_post = (\<lambda>n. Inr (if n = 0 then 503 else 200)), me_saves = (\<lambda>_. True),
     me_users = (\<lambda>_ _. Answer \<lparr>status_code = status, body = Some mx_users\<rparr>), me_duration = (\<lambda>_. 0),
     me_subjects = (\<lambda>_ _. Inr []), me_body = (\<lambda>_ _. Inr ''body''), me_welcome = Inr ''welcome'',
     me_now = (\<lambda>n. 1000000 + int n), me_stale = (\<lambda>_. False), me_attempts = 2, me_hours = 24,
     me_permission = ''advisor:weekly-report:read'', me_autosub = True, me_prometheus = True, me_text = (\<lambda>_. ''error'')\<rparr>"

definition mx_options :: mail_options where
  "mx_options = \<lparr>mo_org_ids = [], mo_from = '''', mo_to = '''', mo_delete = True\<rparr>"

lemma mx_run: "weekly_command (mail_example 200) mx_options (mx_state [mx_row 1 ''ann'' ''o'', mx_row 2 ''bob'' ''o'']) = (Inr (),
  (mx_state [(mx_row 1 ''ann'' ''o'')\<lparr>wr_last := Some 1000002\<rparr>])\<lparr>ms_posts := 2, ms_log := [(''ann'', False), (''ann'', True)],
     ms_status := [(1, ''Emails sent successfully for 1 user(s)'')]\<rparr>)"
  by code_simp


lemma mx_clock: "m \<le> n \<Longrightarrow> me_now (mail_example k) m \<le> me_now (mail_example k) n"
  by (simp add: mail_example_def)

definition mx_before :: mail_state where
  "mx_before = mx_state [mx_row 1 ''ann'' ''o'', mx_row 2 ''bob'' ''o'']"

lemma nobody_mailed_twice_witness:
  "\<exists>s1 new2. s1 = snd (weekly_command (mail_example 200) mx_options mx_before) \<and>
     ms_log s1 = [(''ann'', False), (''ann'', True)] \<and>
     ms_log (snd (weekly_command (mail_example 200) mx_options s1)) = ms_log s1 @ new2 \<and> (''ann'', True) \<notin> set new2"
proof -
  let ?me = "mail_example 200"
  let ?s1 = "snd (weekly_command ?me mx_options mx_before)"
  have s1: "?s1 = (mx_state [(mx_row 1 ''ann'' ''o'')\<lparr>wr_last := Some 1000002\<rparr>])\<lparr>ms_posts := 2,
      ms_log := [(''ann'', False), (''ann'', True)], ms_status := [(1, ''Emails sent successfully for 1 user(s)'')]\<rparr>"
    using mx_run by (simp add: mx_before_def)
  have wf: "subs_wf mx_before" "subs_wf ?s1"
    unfolding s1 by (simp_all add: subs_wf_def mx_before_def mx_state_def mx_row_def)
  have hours: "0 \<le> me_hours ?me" by (simp add: mail_example_def)
  have limit: "latest_email_time ?me ?s1 \<le> me_now ?me (ms_posts mx_before)"
    unfolding s1 by (simp add: latest_email_time_def mail_example_def mx_before_def mx_state_def)
  have saves: "\<forall>n. me_saves ?me n" by (simp add: mail_example_def)
  from nobody_mailed_twice [OF wf hours hours mx_clock mx_clock subset_refl limit] obtain new1 new2
    where new: "ms_log ?s1 = ms_log mx_before @ new1"
      "ms_log (snd (weekly_command ?me mx_options ?s1)) = ms_log ?s1 @ new2"
      "(\<forall>n. me_saves ?me n) \<longrightarrow> distinct (map fst (filter snd (new1 @ new2)))"
    by blast
  have log1: "ms_log ?s1 = [(''ann'', False), (''ann'', True)]" unfolding s1 by simp
  then have "new1 = [(''ann'', False), (''ann'', True)]" using new(1) by (simp add: mx_before_def mx_state_def)
  then have "(''ann'', True) \<notin> set new2" using new(3) saves by (auto simp: image_iff)
  then show ?thesis using new(2) log1 by (intro exI [of _ ?s1] exI [of _ new2] conjI refl)
qed

text \<open>
  Where the save after an accepted mail fails, the run stops and the next one mails the user again.
\<close>

lemma unsaved_mail_is_sent_again:
  "let me = (mail_example 200)\<lparr>me_saves := (\<lambda>_. False)\<rparr>; (r1, s1) = weekly_command me mx_options mx_before in
   r1 = Inl DbError \<and> ms_log s1 = [(''ann'', False), (''ann'', True)] \<and>
   ms_log (snd (weekly_command me mx_options s1)) = ms_log s1 @ [(''ann'', True)]"
  by code_simp

definition mx_users_of :: "mail_user list \<times> string list \<Rightarrow> string list \<times> string list" where
  "mx_users_of p = (map (\<lambda>u. wr_username (mu_sub u)) (fst p), snd p)"

lemma expired_users_deleted_only_with_mail_witness:
  "\<exists>counts t. mail_org (mail_example 200) True 913600 ''o'' mx_before = (Inr counts, t) \<and>
     subscribers t = [(''ann'', ''o'')] \<and> subscribers mx_before = [(''ann'', ''o''), (''bob'', ''o'')]"
proof -
  let ?me = "mail_example 200"
  have "case get_users_to_email ?me 913600 ''o'' mx_before of (Inl e, _) \<Rightarrow> False
      | (Inr p, _) \<Rightarrow> mx_users_of p = ([''ann''], [''bob''])"
    by code_simp
  then obtain users s' where users: "get_users_to_email ?me 913600 ''o'' mx_before = (Inr (users, [''bob'']), s')"
    "users \<noteq> []"
    by (auto simp: mx_users_of_def split: prod.splits sum.splits)
  have "case get_reports ?me ''o'' of Inl _ \<Rightarrow> False | Inr r \<Rightarrow> iv_total (wk_systems r) = 3" by code_simp
  then obtain report where report: "get_reports ?me ''o'' = Inr report" "iv_total (wk_systems report) = 3"
    by (auto split: sum.splits)
  have "case fst (mail_org ?me True 913600 ''o'' mx_before) of Inl _ \<Rightarrow> False | Inr c \<Rightarrow> c = (1, 0)" by code_simp
  then obtain counts t where run: "mail_org ?me True 913600 ''o'' mx_before = (Inr counts, t)"
    by (cases "mail_org ?me True 913600 ''o'' mx_before") (auto split: sum.splits)
  have "subscribers t = filter (\<lambda>(u, i). i \<noteq> ''o'' \<or> users = [] \<or> iv_total (wk_systems report) = 0 \<or> u \<notin> set [''bob''])
      (subscribers mx_before)"
    by (rule expired_users_deleted_only_with_mail [OF users(1) report(1) run])
  then have "subscribers t = [(''ann'', ''o'')] \<and> subscribers mx_before = [(''ann'', ''o''), (''bob'', ''o'')]"
    using users(2) report(2) by (simp add: subscribers_def mx_before_def mx_state_def mx_row_def)
  then show ?thesis using run by blast
qed

lemma subscription_follows_request_witness:
  "\<exists>t. wrs_create (mail_example 200) (apx_request None) (Some True) mx_before = (Inr True, t) \<and>
     subscribed ''user'' ''o'' t \<and> \<not> subscribed ''user'' ''o'' mx_before"
proof -
  have "fst (wrs_create (mail_example 200) (apx_request None) (Some True) mx_before) = Inr True" by code_simp
  then obtain t where t: "wrs_create (mail_example 200) (apx_request None) (Some True) mx_before = (Inr True, t)"
    by (cases "wrs_create (mail_example 200) (apx_request None) (Some True) mx_before") simp
  have "username_of (me_api (mail_example 200)) (apx_request None) = Inr (Some ''user'')"
    "auth_org (me_api (mail_example 200)) (apx_request None) = Inr (Some ''o'')"
    by code_simp+
  from subscription_follows_request [OF t this] t show ?thesis
    by (auto simp: subscribed_def mx_before_def mx_state_def mx_row_def)
qed

lemma second_organisation_cannot_subscribe_witness:
  "\<exists>t. wrs_create (mail_example 200) (apx_request None) (Some True) (mx_state [mx_row 1 ''user'' ''p'']) =
     (Inl IntegrityError, t) \<and> subscribers t = [(''user'', ''p'')]"
proof -
  let ?s = "mx_state [mx_row 1 ''user'' ''p'']"
  have "username_of (me_api (mail_example 200)) (apx_request None) = Inr (Some ''user'')"
    "auth_org (me_api (mail_example 200)) (apx_request None) = Inr (Some ''o'')"
    "account_of (me_api (mail_example 200)) (apx_request None) = Inr (Some ''acct'')"
    "fits_subscription ''user'' (Some ''acct'') ''o''"
    by code_simp+
  moreover have "(''user'', ''p'') \<in> set (subscribers ?s)" "(''user'', ''o'') \<notin> set (subscribers ?s)"
    by (simp_all add: subscribers_def mx_state_def mx_row_def)
  ultimately obtain t where "wrs_create (mail_example 200) (apx_request None) (Some True) ?s = (Inl IntegrityError, t)"
    "subscribers t = subscribers ?s"
    using second_organisation_cannot_subscribe by blast
  then show ?thesis by (simp add: subscribers_def mx_state_def mx_row_def)
qed

lemma middleware_failure_stops_run_witness:
  "weekly_command (mail_example 503) mx_options mx_before =
     (Inl ValidationError, mx_before\<lparr>ms_status := [(0, ''error'')]\<rparr>)"
proof -
  have "\<exists>r. me_users (mail_example 503) users n = Answer r \<and> status_code r \<noteq> 200" for users n
    by (simp add: mail_example_def)
  moreover have "get_account_orgs mx_options (latest_email_time (mail_example 503) mx_before) mx_before \<noteq> []"
    by code_simp
  ultimately have "weekly_command (mail_example 503) mx_options mx_before = (Inl ValidationError,
      if me_prometheus (mail_example 503) then mx_before\<lparr>ms_status := ms_status mx_before @ [(0, me_text (mail_example 503) ValidationError)]\<rparr> else mx_before)"
    by (rule middleware_failure_stops_run)
  then show ?thesis by (simp add: mail_example_def mx_before_def mx_state_def)
qed

end
