(* ===== verification/Sat_Plans.thy ===== *)
theory Sat_Plans
  imports List_Views Http_Retry
begin

text \<open>
  Maintenance plans of the Satellite API (\<open>sat_compat/views/maintenance.py\<close> with its models and
  serializers): a plan holds actions, each a rule to be remedied on a host.  The tables of the
  Satellite API stand beside those of \<open>api_db\<close>; texts are ordered as the database orders them, by
  a rank that is an argument.
\<close>

section \<open>Tables\<close>

record sat_playbook =
  pb_id :: nat
  pb_resolution :: nat
  pb_type :: string

record sat_resolution =
  rs_id :: nat
  rs_rule :: nat
  rs_system_type :: nat
  rs_risk :: nat

record sat_upload =
  ul_host :: string
  ul_current :: bool
  ul_source :: nat
  ul_system_type :: nat

record sat_action =
  sa_id :: nat
  sa_plan :: nat
  sa_rule :: nat
  sa_host :: string
  sa_playbook :: "nat option"
  sa_done :: bool

record sat_plan =
  sp_id :: nat
  sp_account :: string
  sp_org :: string
  sp_branch :: string
  sp_name :: "string option"
  sp_description :: "string option"
  sp_start :: "int option"
  sp_end :: "int option"
  sp_created_by :: "string option"
  sp_silenced :: bool
  sp_hidden :: bool
  sp_allow_reboot :: bool

record sat_db =
  sd_api :: api_db
  sd_plans :: "sat_plan list"
  sd_actions :: "sat_action list"
  sd_playbooks :: "sat_playbook list"
  sd_resolutions :: "sat_resolution list"
  sd_uploads :: "sat_upload list"
  sd_next :: nat

text \<open>What Remediations is asked: per rule its hosts and the type of the first action's playbook.\<close>

record plan_issue =
  iss_rule :: string
  iss_hosts :: "string list"
  iss_resolution :: "string option"

record sat_env =
  se_api :: api_env
  se_rank :: "string \<Rightarrow> int"
  se_now :: int
  se_dev :: bool
  se_remediations :: "string option"                              \<comment> \<open>\<open>REMEDIATIONS_URL\<close>\<close>
  se_answer :: "plan_issue list \<times> bool \<Rightarrow> nat \<Rightarrow> attempt"
  se_content :: "plan_issue list \<times> bool \<Rightarrow> nat \<Rightarrow> string"     \<comment> \<open>the text of the \<open>n\<close>th answer\<close>
  se_duration :: "nat \<Rightarrow> rat"

section \<open>Rows that belong together\<close>

definition does_not_exist :: pyexn where
  "does_not_exist = Exn ''DoesNotExist''"

text \<open>\<open>Host.advisor_inventory\<close>: by inventory id and organisation.\<close>

definition inventory_of :: "api_db \<Rightarrow> api_hostrow \<Rightarrow> api_host option" where
  "inventory_of db r = find (\<lambda>h. ih_id h = hr_id r \<and> ih_org h = hr_org r) (ad_inventory db)"

definition hostrow_of :: "api_db \<Rightarrow> string \<Rightarrow> api_hostrow option" where
  "hostrow_of db i = find (\<lambda>r. hr_id r = i) (ad_hosts db)"

definition host_inventory :: "api_db \<Rightarrow> string \<Rightarrow> api_host option" where
  "host_inventory db i = Option.bind (hostrow_of db i) (inventory_of db)"

definition rule_with_pk :: "api_db \<Rightarrow> nat \<Rightarrow> api_rule option" where
  "rule_with_pk db pk = find (\<lambda>u. ar_pk u = pk) (ad_rules db)"

text \<open>A rank of a text that may be null; null comes last.\<close>

definition null_rank :: "sat_env \<Rightarrow> string option \<Rightarrow> int \<times> int" where
  "null_rank se v = (case v of None \<Rightarrow> (1, 0) | Some s \<Rightarrow> (0, se_rank se s))"

text \<open>\<open>order_by('rule__rule_id', 'host__advisor_inventory__display_name')\<close>\<close>

definition action_key :: "sat_env \<Rightarrow> api_db \<Rightarrow> sat_action \<Rightarrow> (int \<times> int) \<times> (int \<times> int)" where
  "action_key se db a =
     (null_rank se (map_option ar_rule_id (rule_with_pk db (sa_rule a))),
      null_rank se (map_option ih_name (host_inventory db (sa_host a))))"

definition plan_actions :: "sat_db \<Rightarrow> nat \<Rightarrow> sat_action list" where
  "plan_actions db p = filter (\<lambda>a. sa_plan a = p) (sd_actions db)"

definition resolutions_of :: "sat_db \<Rightarrow> nat \<Rightarrow> sat_resolution list" where
  "resolutions_of db rule = filter (\<lambda>s. rs_rule s = rule) (sd_resolutions db)"

definition playbooks_of :: "sat_db \<Rightarrow> nat \<Rightarrow> sat_playbook list" where
  "playbooks_of db rule =
     filter (\<lambda>p. pb_resolution p \<in> set (map rs_id (resolutions_of db rule))) (sd_playbooks db)"

section \<open>The hosts of each rule in a plan\<close>

text \<open>
  The dictionary of \<open>hosts_for_rules_in_plan\<close>: the first action of a rule, and its hosts.  The
  insights id of a host that has left the inventory raises \<open>DoesNotExist\<close>.
\<close>

type_synonym rule_hosts = "(string \<times> (sat_action \<times> string list)) list"

definition host_value :: "api_db \<Rightarrow> bool \<Rightarrow> sat_action \<Rightarrow> string py" where
  "host_value db use_inventory_id a =
     (if use_inventory_id then Inr (sa_host a)
      else case host_inventory db (sa_host a) of None \<Rightarrow> Inl does_not_exist | Some h \<Rightarrow> Inr (ih_insights h))"

fun collect_hosts :: "api_db \<Rightarrow> bool \<Rightarrow> sat_action list \<Rightarrow> rule_hosts \<Rightarrow> rule_hosts py" where
  "collect_hosts db use_inventory_id [] d = Inr d"
| "collect_hosts db use_inventory_id (a # as) d =
     (case rule_with_pk db (sa_rule a) of
        None \<Rightarrow> Inl does_not_exist
      | Some u \<Rightarrow>
          py_bind (host_value db use_inventory_id a) (\<lambda>h.
            case map_of d (ar_rule_id u) of
              None \<Rightarrow> collect_hosts db use_inventory_id as (dict_set (ar_rule_id u) (a, [h]) d)
            | Some (b, hs) \<Rightarrow> collect_hosts db use_inventory_id as (dict_set (ar_rule_id u) (b, hs @ [h]) d)))"

definition hosts_for_rules_in_plan :: "sat_env \<Rightarrow> sat_db \<Rightarrow> bool \<Rightarrow> sat_action list \<Rightarrow> rule_hosts py" where
  "hosts_for_rules_in_plan se db use_inventory_id rows =
     collect_hosts (sd_api db) use_inventory_id (sort_key (action_key se (sd_api db)) rows) []"

section \<open>Adding actions\<close>

record new_action =
  na_rule :: string
  na_system :: "string option"

text \<open>\<open>existing_rule_id_validator\<close> of each action.\<close>

definition rules_exist :: "api_db \<Rightarrow> new_action list \<Rightarrow> bool" where
  "rules_exist db xs \<longleftrightarrow> list_all (\<lambda>x. find_rule (na_rule x) db \<noteq> None) xs"

text \<open>The insights ids of the hosts of this Satellite that the rule impacts.\<close>

definition impacted_insights :: "sat_env \<Rightarrow> api_request \<Rightarrow> api_db \<Rightarrow> sat_plan \<Rightarrow> api_rule \<Rightarrow> string list py" where
  "impacted_insights se ar db plan u =
     py_bind (reports_for_account (se_api se) ar u db) (\<lambda>rs.
       Inr (remdups (concat (map (\<lambda>r. case hostrow_of db (rp_host r) of
           None \<Rightarrow> []
         | Some row \<Rightarrow>
             if hr_branch row = Some (sp_branch plan)
             then (case inventory_of db row of None \<Rightarrow> [] | Some h \<Rightarrow> [ih_insights h]) else []) rs))))"

text \<open>The hosts with one of the insights ids and the account, but not with a known insights id.\<close>

definition hosts_to_add :: "sat_env \<Rightarrow> api_db \<Rightarrow> string list \<Rightarrow> string option \<Rightarrow> string list \<Rightarrow> api_host list" where
  "hosts_to_add se db ids account known =
     sort_key (\<lambda>h. se_rank se (ih_name h))
       (filter (\<lambda>h. ih_insights h \<in> set ids \<and> ih_account h = account \<and> ih_insights h \<notin> set known)
         (concat (map (\<lambda>r. case inventory_of db r of None \<Rightarrow> [] | Some h \<Rightarrow> [h]) (ad_hosts db))))"

fun new_actions ::
  "sat_env \<Rightarrow> api_request \<Rightarrow> api_db \<Rightarrow> sat_plan \<Rightarrow> new_action list \<Rightarrow> (string \<times> string list) list \<Rightarrow>
     (nat \<times> string) list py" where
  "new_actions se ar db plan [] d = Inr []"
| "new_actions se ar db plan (x # xs) d =
     (case find_rule (na_rule x) db of
        None \<Rightarrow> Inl does_not_exist
      | Some u \<Rightarrow>
          if \<not> ar_active u then new_actions se ar db plan xs d
          else
            py_bind (case na_system x of Some i \<Rightarrow> Inr [i] | None \<Rightarrow> impacted_insights se ar db plan u) (\<lambda>ids.
            py_bind (account_of (se_api se) (aq_request ar)) (\<lambda>account.
              let known = (case map_of d (ar_rule_id u) of None \<Rightarrow> [] | Some hs \<Rightarrow> hs);
                  hosts = hosts_to_add se db ids account known in
              py_bind (new_actions se ar db plan xs (dict_set (ar_rule_id u) (known @ map ih_insights hosts) d))
                (\<lambda>rest. Inr (map (\<lambda>h. (ar_pk u, ih_id h)) hosts @ rest)))))"

fun numbered_actions :: "nat \<Rightarrow> nat \<Rightarrow> (nat \<times> string) list \<Rightarrow> sat_action list" where
  "numbered_actions n p [] = []"
| "numbered_actions n p ((rule, host) # xs) =
     \<lparr>sa_id = n, sa_plan = p, sa_rule = rule, sa_host = host, sa_playbook = None, sa_done = False\<rparr>
       # numbered_actions (Suc n) p xs"

definition add_actions :: "sat_env \<Rightarrow> api_request \<Rightarrow> sat_plan \<Rightarrow> new_action list \<Rightarrow> (sat_db, unit) act" where
  "add_actions se ar plan xs =
     a_bind (\<lambda>db. (py_bind (hosts_for_rules_in_plan se db False (plan_actions db (sp_id plan))) (\<lambda>d.
         new_actions se ar (sd_api db) plan xs (map (\<lambda>(rule, _, hs). (rule, hs)) d)), db)) (\<lambda>ps.
       a_upd (\<lambda>db. db\<lparr>sd_actions := sd_actions db @ numbered_actions (sd_next db) (sp_id plan) ps,
                     sd_next := sd_next db + length ps\<rparr>))"


section \<open>Plans of an organisation\<close>

definition required_branch_id_param :: param where
  "required_branch_id_param = branch_id_param\<lparr>pa_required := True\<rparr>"

definition accept_query_param :: param where
  "accept_query_param = (query_param ''accept'' OT_STR)
     \<lparr>pa_enum := [AStr ''json'', AStr ''csv''], pa_default := Some (JStr ''json'')\<rparr>"

definition branch_value :: "query_env \<Rightarrow> param \<Rightarrow> query_params \<Rightarrow> string option py" where
  "branch_value qe p query =
     py_bind (value_of_param qe p query) (\<lambda>v. Inr (case v of POne (AUuid b) \<Rightarrow> Some b | _ \<Rightarrow> None))"

definition plan_in :: "string \<Rightarrow> string option \<Rightarrow> sat_plan \<Rightarrow> bool" where
  "plan_in org branch p \<longleftrightarrow> sp_org p = org \<and> (case branch of None \<Rightarrow> True | Some b \<Rightarrow> sp_branch p = b)"

definition plans_for :: "sat_env \<Rightarrow> api_request \<Rightarrow> sat_db \<Rightarrow> sat_plan list py" where
  "plans_for se ar db =
     py_bind (org_of (se_api se) (aq_request ar)) (\<lambda>org.
     py_bind (branch_value (ae_query_env (se_api se)) branch_id_param (aq_query ar)) (\<lambda>branch.
       Inr (case org of None \<Rightarrow> [] | Some i \<Rightarrow> sort_key sp_id (filter (plan_in i branch) (sd_plans db)))))"

text \<open>The id of a path; one that is not a number raises \<open>ValueError\<close>.\<close>

definition pk_of :: "string \<Rightarrow> int py" where
  "pk_of s = (case py_int s of None \<Rightarrow> Inl ValueError | Some i \<Rightarrow> Inr i)"

definition get_plan :: "sat_env \<Rightarrow> api_request \<Rightarrow> string \<Rightarrow> sat_db \<Rightarrow> sat_plan py" where
  "get_plan se ar pk db =
     py_bind (plans_for se ar db) (\<lambda>ps.
     py_bind (pk_of pk) (\<lambda>i.
       case find (\<lambda>p. int (sp_id p) = i) ps of None \<Rightarrow> Inl Http404 | Some p \<Rightarrow> Inr p))"

section \<open>Showing a plan\<close>

definition severity_names :: "string list" where
  "severity_names = [''NONE'', ''INFO'', ''WARN'', ''ERROR'', ''CRITICAL'']"

definition severity_of :: "api_rule \<Rightarrow> string py" where
  "severity_of u =
     (if ar_total_risk u < length severity_names then Inr (severity_names ! ar_total_risk u) else Inl IndexError)"

text \<open>The system of an action is shown when the host has a current upload.\<close>

record action_view =
  av_id :: nat
  av_host :: "string option"
  av_rule :: string
  av_severity :: string
  av_ansible :: bool
  av_fix :: bool
  av_mitigation :: bool
  av_done :: bool

record plan_view =
  pv_plan :: sat_plan
  pv_overdue :: bool
  pv_actions :: "action_view list"

text \<open>\<open>overdue\<close> of the model.\<close>

definition overdue :: "sat_env \<Rightarrow> sat_plan \<Rightarrow> bool" where
  "overdue se p = (case sp_start p of None \<Rightarrow> False | Some t \<Rightarrow> t > se_now se)"

text \<open>The actions prefetched: on hosts of the organisation's inventory, of active rules not acknowledged.\<close>

definition action_shown :: "api_db \<Rightarrow> string \<Rightarrow> sat_action \<Rightarrow> bool" where
  "action_shown db org a \<longleftrightarrow>
     list_ex (\<lambda>h. ih_org h = org \<and> ih_id h = sa_host a) (ad_inventory db) \<and>
     rule_active db (sa_rule a) \<and> \<not> rule_acked db org (sa_rule a)"

definition shown_actions :: "sat_env \<Rightarrow> sat_db \<Rightarrow> string \<Rightarrow> nat \<Rightarrow> sat_action list" where
  "shown_actions se db org p =
     sort_key (action_key se (sd_api db)) (filter (action_shown (sd_api db) org) (plan_actions db p))"

definition upload_shown :: "sat_db \<Rightarrow> string \<Rightarrow> bool" where
  "upload_shown db host \<longleftrightarrow> list_ex (\<lambda>u. ul_host u = host \<and> ul_current u) (sd_uploads db)"

definition view_action :: "sat_db \<Rightarrow> sat_action \<Rightarrow> action_view py" where
  "view_action db a =
     (case rule_with_pk (sd_api db) (sa_rule a) of
        None \<Rightarrow> Inl does_not_exist
      | Some u \<Rightarrow>
          py_bind (severity_of u) (\<lambda>severity.
            let types = map pb_type (playbooks_of db (ar_pk u)) in
            Inr \<lparr>av_id = sa_id a, av_host = (if upload_shown db (sa_host a) then Some (sa_host a) else None),
                 av_rule = ar_rule_id u, av_severity = severity, av_ansible = (types \<noteq> []),
                 av_fix = (''fix'' \<in> set types),
                 av_mitigation = (''workaround'' \<in> set types \<or> ''mitigate'' \<in> set types),
                 av_done = sa_done a\<rparr>))"

definition view_plan :: "sat_env \<Rightarrow> sat_db \<Rightarrow> sat_plan \<Rightarrow> plan_view py" where
  "view_plan se db p =
     py_bind (py_mapM (view_action db) (shown_actions se db (sp_org p) (sp_id p))) (\<lambda>as.
       Inr \<lparr>pv_plan = p, pv_overdue = overdue se p, pv_actions = as\<rparr>)"

definition plan_list :: "sat_env \<Rightarrow> api_request \<Rightarrow> sat_db \<Rightarrow> plan_view list py" where
  "plan_list se ar db = py_bind (plans_for se ar db) (py_mapM (view_plan se db))"

text \<open>A line of the CSV form: the host's name and insights id, and the rule.  All actions have one.\<close>

record plan_line =
  pl_name :: "string option"
  pl_insights :: "string option"
  pl_rule :: nat
  pl_completed :: bool

definition plan_lines :: "sat_db \<Rightarrow> sat_plan \<Rightarrow> plan_line list" where
  "plan_lines db p =
     map (\<lambda>a. let h = host_inventory (sd_api db) (sa_host a) in
       \<lparr>pl_name = map_option ih_name h, pl_insights = map_option ih_insights h, pl_rule = sa_rule a,
        pl_completed = sa_done a\<rparr>) (plan_actions db (sp_id p))"

definition plan_retrieve :: "sat_env \<Rightarrow> api_request \<Rightarrow> string \<Rightarrow> sat_db \<Rightarrow> (plan_view + plan_line list) py" where
  "plan_retrieve se ar pk db =
     py_bind (get_plan se ar pk db) (\<lambda>p.
     py_bind (value_of_param (ae_query_env (se_api se)) accept_query_param (aq_query ar)) (\<lambda>accept.
       if accept = POne (AStr ''json'') then py_bind (view_plan se db p) (\<lambda>v. Inr (Inl v))
       else Inr (Inr (plan_lines db p))))"

section \<open>Creating, changing and deleting a plan\<close>

text \<open>What the serializer has converted; a field is \<open>None\<close> where it was not given.\<close>

record plan_input =
  pin_name :: string
  pin_description :: "string option"
  pin_start :: "int option"
  pin_end :: "int option"
  pin_hidden :: "bool option"
  pin_add :: "new_action list"

definition fits_plan :: "sat_plan \<Rightarrow> bool" where
  "fits_plan p \<longleftrightarrow>
     length (sp_account p) \<le> 10 \<and> length (sp_org p) \<le> 10 \<and>
     (case sp_name p of None \<Rightarrow> True | Some s \<Rightarrow> length s \<le> 255) \<and>
     (case sp_description p of None \<Rightarrow> True | Some s \<Rightarrow> length s \<le> 255) \<and>
     (case sp_created_by p of None \<Rightarrow> True | Some s \<Rightarrow> length s \<le> 80)"

definition insert_plan :: "sat_plan \<Rightarrow> (sat_db, sat_plan) act" where
  "insert_plan p = (\<lambda>db.
     if fits_plan p
     then (let q = p\<lparr>sp_id := sd_next db\<rparr> in (Inr q, db\<lparr>sd_plans := sd_plans db @ [q], sd_next := sd_next db + 1\<rparr>))
     else (Inl data_error, db))"

text \<open>A new plan; without an account the column keeps its empty text.\<close>

definition plan_create :: "sat_env \<Rightarrow> api_request \<Rightarrow> plan_input option \<Rightarrow> (sat_db, nat) act" where
  "plan_create se ar given =
     (let ae = se_api se; rq = aq_request ar in
      a_bind (a_lift (request_to_org rq)) (\<lambda>org.
      a_bind (a_lift (branch_value (ae_query_env ae) required_branch_id_param (aq_query ar))) (\<lambda>branch.
      a_bind (a_lift (or_invalid given)) (\<lambda>pin.
      a_bind (a_get (\<lambda>db. rules_exist (sd_api db) (pin_add pin))) (\<lambda>ok.
        if \<not> ok then a_raise ValidationError
        else
          a_bind (a_lift (account_of ae rq)) (\<lambda>account.
          a_bind (a_lift (username_of ae rq)) (\<lambda>user.
          a_bind (a_lift (not_null (column_text ae org))) (\<lambda>org.
          a_bind (a_lift (not_null branch)) (\<lambda>branch.
          a_bind (insert_plan \<lparr>sp_id = 0, sp_account = (case account of None \<Rightarrow> [] | Some s \<Rightarrow> s), sp_org = org,
              sp_branch = branch, sp_name = Some (pin_name pin), sp_description = pin_description pin,
              sp_start = pin_start pin, sp_end = pin_end pin, sp_created_by = user, sp_silenced = False,
              sp_hidden = (case pin_hidden pin of None \<Rightarrow> False | Some b \<Rightarrow> b), sp_allow_reboot = False\<rparr>) (\<lambda>p.
          a_then (add_actions se ar p (pin_add pin)) (a_ret (sp_id p))))))))))))"

record plan_edit =
  ped_name :: "string option option"
  ped_description :: "string option option"
  ped_start :: "int option option"
  ped_end :: "int option option"
  ped_silenced :: "bool option"
  ped_hidden :: "bool option"
  ped_delete :: "int list option"
  ped_actions :: "int list option"
  ped_add :: "new_action list option"

definition given_or :: "'a option \<Rightarrow> 'a \<Rightarrow> 'a" where
  "given_or v x = (case v of None \<Rightarrow> x | Some y \<Rightarrow> y)"

definition edit_plan :: "plan_edit \<Rightarrow> sat_plan \<Rightarrow> sat_plan" where
  "edit_plan e p = p\<lparr>sp_name := given_or (ped_name e) (sp_name p),
     sp_description := given_or (ped_description e) (sp_description p),
     sp_start := given_or (ped_start e) (sp_start p), sp_end := given_or (ped_end e) (sp_end p),
     sp_silenced := given_or (ped_silenced e) (sp_silenced p), sp_hidden := given_or (ped_hidden e) (sp_hidden p)\<rparr>"

text \<open>The validators of the form: the actions named, and the rules to add, exist.\<close>

definition edit_valid :: "sat_db \<Rightarrow> plan_edit \<Rightarrow> bool" where
  "edit_valid db e \<longleftrightarrow>
     (let known = (\<lambda>i. list_ex (\<lambda>a. int (sa_id a) = i) (sd_actions db)) in
      (case ped_delete e of None \<Rightarrow> True | Some is \<Rightarrow> list_all known is) \<and>
      (case ped_actions e of None \<Rightarrow> True | Some is \<Rightarrow> list_all known is) \<and>
      (case ped_add e of None \<Rightarrow> True | Some xs \<Rightarrow> rules_exist (sd_api db) xs))"

definition delete_actions :: "nat \<Rightarrow> (int \<Rightarrow> bool) \<Rightarrow> (sat_db, unit) act" where
  "delete_actions p P =
     a_upd (\<lambda>db. db\<lparr>sd_actions := filter (\<lambda>a. \<not> (sa_plan a = p \<and> P (int (sa_id a)))) (sd_actions db)\<rparr>)"

definition save_plan :: "sat_plan \<Rightarrow> (sat_db, unit) act" where
  "save_plan p = (\<lambda>db.
     if fits_plan p
     then (Inr (), db\<lparr>sd_plans := map (\<lambda>q. if sp_id q = sp_id p then p else q) (sd_plans db)\<rparr>)
     else (Inl data_error, db))"

text \<open>The plan is of the caller's organisation, which is not empty, so its \<open>org_id\<close> is never set here.\<close>

definition plan_update :: "sat_env \<Rightarrow> api_request \<Rightarrow> string \<Rightarrow> plan_edit option \<Rightarrow> (sat_db, plan_view) act" where
  "plan_update se ar pk given =
     a_bind (a_lift (request_to_org (aq_request ar))) (\<lambda>_.
     a_bind (a_lift (branch_value (ae_query_env (se_api se)) required_branch_id_param (aq_query ar))) (\<lambda>_.
     a_bind (\<lambda>db. (get_plan se ar pk db, db)) (\<lambda>p.
     a_bind (a_lift (or_invalid given)) (\<lambda>e.
     a_bind (a_get (\<lambda>db. edit_valid db e)) (\<lambda>ok.
       if \<not> ok then a_raise ValidationError
       else
         (let q = edit_plan e p in
          a_then (if q \<noteq> p then save_plan q else a_ret ())
         (a_then (case ped_delete e of None \<Rightarrow> a_ret () | Some is \<Rightarrow> delete_actions (sp_id p) (\<lambda>i. i \<in> set is))
         (a_then (case ped_actions e of None \<Rightarrow> a_ret () | Some is \<Rightarrow> delete_actions (sp_id p) (\<lambda>i. i \<notin> set is))
         (a_then (case ped_add e of None \<Rightarrow> a_ret () | Some xs \<Rightarrow> add_actions se ar q xs)
           (\<lambda>db. (view_plan se db q, db)))))))))))"

definition plan_destroy :: "sat_env \<Rightarrow> api_request \<Rightarrow> string \<Rightarrow> (sat_db, unit) act" where
  "plan_destroy se ar pk =
     a_bind (a_lift (request_to_org (aq_request ar))) (\<lambda>org.
     a_bind (a_lift (pk_of pk)) (\<lambda>i.
     a_bind (a_get (\<lambda>db. list_ex (\<lambda>p. int (sp_id p) = i \<and> Some (sp_org p) = column_text (se_api se) org) (sd_plans db)))
       (\<lambda>found.
         if \<not> found then a_raise Http404
         else a_upd (\<lambda>db. db\<lparr>sd_plans := filter (\<lambda>p. int (sp_id p) \<noteq> i) (sd_plans db),
                           sd_actions := filter (\<lambda>a. int (sa_plan a) \<noteq> i) (sd_actions db)\<rparr>))))"

section \<open>Playbooks\<close>

text \<open>The join with the playbooks of a rule repeats an action once for each.\<close>

definition actions_with_playbook :: "sat_db \<Rightarrow> nat \<Rightarrow> sat_action list" where
  "actions_with_playbook db p =
     concat (map (\<lambda>a. replicate (length (playbooks_of db (sa_rule a))) a)
       (filter (\<lambda>a. rule_active (sd_api db) (sa_rule a)) (plan_actions db p)))"

definition playbook_type :: "sat_db \<Rightarrow> sat_action \<Rightarrow> string option" where
  "playbook_type db a = Option.bind (sa_playbook a) (\<lambda>i. map_option pb_type (find (\<lambda>b. pb_id b = i) (sd_playbooks db)))"

definition plan_issues :: "sat_env \<Rightarrow> sat_db \<Rightarrow> nat \<Rightarrow> plan_issue list py" where
  "plan_issues se db p =
     py_bind (hosts_for_rules_in_plan se db True (actions_with_playbook db p)) (\<lambda>d.
       Inr (map (\<lambda>(rule, a, hs). \<lparr>iss_rule = ''advisor:'' @ rule, iss_hosts = hs, iss_resolution = playbook_type db a\<rparr>) d))"

text \<open>\<open>False\<close> is \<open>None\<close> here.\<close>

definition get_playbook :: "sat_env \<Rightarrow> api_request \<Rightarrow> sat_plan \<Rightarrow> sat_db \<Rightarrow> string option py" where
  "get_playbook se ar p db =
     py_bind (plan_issues se db (sp_id p)) (\<lambda>issues.
       let asked = (issues, sp_allow_reboot p) in
       if se_remediations se = None then Inr None
       else if map_of (rq_meta (aq_request ar)) auth_header_key = None then Inl (KeyError auth_header_key)
       else
         py_bind (retry_request_default (se_dev se) (se_answer se asked) (se_duration se)) (\<lambda>r.
           if status_code (rr_response r) \<noteq> 200 then Inr None
           else Inr (Some (se_content se asked (rr_tries r)))))"

text \<open>The view: the file is named after the plan, which must have a name.\<close>

definition plan_playbook :: "sat_env \<Rightarrow> api_request \<Rightarrow> string \<Rightarrow> sat_db \<Rightarrow> string py" where
  "plan_playbook se ar pk db =
     py_bind (get_plan se ar pk db) (\<lambda>p.
     py_bind (get_playbook se ar p db) (\<lambda>content.
       if content = None \<or> content = Some [] then Inl ValidationError
       else if sp_name p = None then Inl AttributeError
       else Inr (the content)))"

text \<open>The system types of each rule, and the plays: per rule and system type the playbooks.\<close>

definition rule_types :: "sat_env \<Rightarrow> sat_db \<Rightarrow> nat \<Rightarrow> (nat \<times> nat) list" where
  "rule_types se db p =
     remdups (concat (map (\<lambda>a.
         map (\<lambda>u. (sa_rule a, ul_system_type u))
           (filter (\<lambda>u. ul_host u = sa_host a \<and> ul_current u \<and> ul_source u = 1) (sd_uploads db)))
       (sort_key (\<lambda>a. null_rank se (map_option ar_rule_id (rule_with_pk (sd_api db) (sa_rule a)))) (plan_actions db p))))"

record play =
  ply_rule :: string
  ply_type :: nat
  ply_playbooks :: "sat_playbook list"

definition plays_of :: "sat_env \<Rightarrow> sat_db \<Rightarrow> nat \<Rightarrow> play list" where
  "plays_of se db p =
     (let pairs = rule_types se db p; types = set (map snd pairs);
          rules = sort_key (\<lambda>u. se_rank se (ar_rule_id u))
            (filter (\<lambda>u. ar_pk u \<in> set (map fst pairs) \<and>
               list_ex (\<lambda>s. rs_system_type s \<in> types) (resolutions_of db (ar_pk u))) (ad_rules (sd_api db))) in
      concat (map (\<lambda>u. map (\<lambda>(_, t).
          \<lparr>ply_rule = ar_rule_id u, ply_type = t,
           ply_playbooks = sort_key (\<lambda>b. se_rank se (pb_type b)) (filter (\<lambda>b. pb_resolution b \<in>
             set (map rs_id (filter (\<lambda>s. rs_system_type s = t) (resolutions_of db (ar_pk u))))) (sd_playbooks db))\<rparr>)
        (filter (\<lambda>(r, _). r = ar_pk u) pairs)) rules))"

definition plan_plays :: "sat_env \<Rightarrow> api_request \<Rightarrow> string \<Rightarrow> sat_db \<Rightarrow> play list py" where
  "plan_plays se ar pk db = py_bind (get_plan se ar pk db) (\<lambda>p. Inr (plays_of se db (sp_id p)))"

text \<open>The playbook is looked up by the rule and the type alone; none gives an answer with errors.\<close>

definition set_playbook ::
  "sat_env \<Rightarrow> api_request \<Rightarrow> string \<Rightarrow> string \<Rightarrow> string \<Rightarrow> string option \<Rightarrow> (sat_db, string list + nat list) act" where
  "set_playbook se ar pk rule_id system_type_id given =
     a_bind (\<lambda>db. (get_plan se ar pk db, db)) (\<lambda>p.
     a_bind (a_lift (pk_of system_type_id)) (\<lambda>t.
     a_bind (a_get (\<lambda>db. map sa_id (filter (\<lambda>a. list_ex (\<lambda>u. ar_pk u = sa_rule a \<and> ar_rule_id u = rule_id) (ad_rules (sd_api db)) \<and>
         list_ex (\<lambda>s. int (rs_system_type s) = t) (resolutions_of db (sa_rule a))) (plan_actions db (sp_id p))))) (\<lambda>is.
       if is = [] then a_raise Http404
       else
         a_bind (a_lift (or_invalid given)) (\<lambda>type_wanted.
         a_bind (a_get (\<lambda>db. filter (\<lambda>b. pb_type b = type_wanted) (case find_rule rule_id (sd_api db) of
             None \<Rightarrow> [] | Some u \<Rightarrow> playbooks_of db (ar_pk u)))) (\<lambda>bs. case bs of
             [] \<Rightarrow> a_ret (Inl [''Resolution type specified does not exist''])
           | [b] \<Rightarrow>
               a_then (a_upd (\<lambda>db. db\<lparr>sd_actions := map (\<lambda>a. if sa_id a \<in> set is then a\<lparr>sa_playbook := Some (pb_id b)\<rparr> else a)
                   (sd_actions db)\<rparr>)) (a_ret (Inr is))
           | _ \<Rightarrow> a_raise (Exn ''MultipleObjectsReturned''))))))"

end
