(* ===== verification/Sat_Views.thy ===== *)
theory Sat_Views
  imports Sat_Plans
begin

text \<open>
  The Satellite API beside maintenance plans (\<open>sat_compat/views/acks.py\<close>, \<open>systems.py\<close>,
  \<open>rules.py\<close>, \<open>topics.py\<close>, \<open>stats.py\<close>, \<open>reports.py\<close>): other renderings of the
  acknowledgements, systems, rules and reports of \<open>api_db\<close>.  Columns that are only displayed are
  left out; the database's orders and the lookups on columns not in a row are arguments.
\<close>

section \<open>Acknowledgements\<close>

definition include_param :: param where
  "include_param = (query_param ''include'' OT_STR)\<lparr>pa_enum := [AStr ''rule'']\<rparr>"

definition compat_text :: string where
  "compat_text = ''Satellite compatibility''"

definition sat_ack_list :: "api_env \<Rightarrow> api_request \<Rightarrow> api_db \<Rightarrow> (bool \<times> api_ack list) py" where
  "sat_ack_list ae ar db =
     py_bind (queryset_org ae (aq_request ar)) (\<lambda>org.
     py_bind (value_of_param (ae_query_env ae) include_param (aq_query ar)) (\<lambda>include.
       Inr (include = POne (AStr ''rule''),
         sort_key ack_id (filter (\<lambda>a. ack_org a = org \<and> live_rule db (ack_rule a)) (ad_acks db)))))"

definition sat_ack_create :: "api_env \<Rightarrow> api_request \<Rightarrow> string \<Rightarrow> (api_db, api_ack) act" where
  "sat_ack_create ae ar rule_id =
     a_bind (a_lift (if length rule_id \<le> 240 then Inr () else Inl ValidationError)) (\<lambda>_.
     a_bind (a_get (find_rule rule_id)) (\<lambda>rule. case rule of
        None \<Rightarrow> a_raise ValidationError
      | Some u \<Rightarrow>
          a_bind (a_lift (auth_org ae (aq_request ar))) (\<lambda>org.
          a_bind (a_lift (account_of ae (aq_request ar))) (\<lambda>account.
          a_bind (a_lift (not_null org)) (\<lambda>org.
          a_bind (save_ack \<lparr>aw_org = org, aw_account = account, aw_user = compat_text\<rparr> (ar_pk u) compat_text)
            (\<lambda>(a, _). a_ret a))))))"

text \<open>Deletion is by the key and the organisation, for inactive rules too.\<close>

definition sat_ack_destroy :: "api_env \<Rightarrow> api_request \<Rightarrow> string \<Rightarrow> (api_db, unit) act" where
  "sat_ack_destroy ae ar pk =
     a_bind (a_lift (auth_org ae (aq_request ar))) (\<lambda>org.
     a_bind (a_lift (pk_of pk)) (\<lambda>i.
     a_bind (a_get (\<lambda>db. list_ex (\<lambda>a. int (ack_id a) = i \<and> Some (ack_org a) = org) (ad_acks db))) (\<lambda>found.
       if \<not> found then a_raise Http404
       else a_upd (\<lambda>db. db\<lparr>ad_acks := filter (\<lambda>a. int (ack_id a) \<noteq> i) (ad_acks db)\<rparr>))))"

section \<open>Systems\<close>

record sat_system =
  ss_host :: api_host
  ss_type :: nat
  ss_reports :: nat
  ss_checking :: bool

record sat_lists =
  sl_checking :: "api_host \<Rightarrow> bool"        \<comment> \<open>\<open>stale_timestamp\<close> is after now, as text\<close>
  sl_rank_system :: "sat_system ranks"
  sl_rank_rule :: "(api_rule \<times> nat \<times> nat option) ranks"
  sl_rank_report :: "api_report ranks"
  sl_type_rank :: "nat \<Rightarrow> int"               \<comment> \<open>the default order of the resolutions' system types\<close>
  sl_rules :: "api_rule lookups"
  sl_category :: "string \<Rightarrow> nat"              \<comment> \<open>the key of a category\<close>

definition sat_sort_map :: "(string \<times> string) list" where
  "sat_sort_map = [(''toString'', ''display_name''), (''system_id'', ''inventory_id''),
     (''display_name'', ''display_name''), (''hostname'', ''display_name''), (''last_check_in'', ''last_check_in''),
     (''report_count'', ''report_count''), (''created_at'', ''created'')]"

definition sort_by_param :: "(string \<times> string) list \<Rightarrow> string \<Rightarrow> param" where
  "sort_by_param names dflt = (query_param ''sort_by'' OT_STR)
     \<lparr>pa_enum := map (\<lambda>(n, _). AStr n) names, pa_default := Some (JStr dflt)\<rparr>"

definition sort_dir_param :: param where
  "sort_dir_param = (query_param ''sort_dir'' OT_STR)
     \<lparr>pa_enum := [AStr ''ASC'', AStr ''DESC''], pa_default := Some (JStr ''ASC'')\<rparr>"

text \<open>The field and direction of \<open>sort_by\<close> and \<open>sort_dir\<close>.\<close>

definition sat_sort :: "query_env \<Rightarrow> (string \<times> string) list \<Rightarrow> string \<Rightarrow> query_params \<Rightarrow> sort_field py" where
  "sat_sort qe names dflt query =
     py_bind (value_of_param qe (sort_by_param names dflt) query) (\<lambda>v. case v of
        POne (AStr name) \<Rightarrow>
          (case map_of names name of
             None \<Rightarrow> Inl (KeyError name)
           | Some f \<Rightarrow>
               py_bind (value_of_param qe sort_dir_param query) (\<lambda>d.
                 Inr (plain_order (if d = POne (AStr ''DESC'') then CHR ''-'' # f else f))))
      | _ \<Rightarrow> Inl (KeyError ''None''))"

definition name_search_param :: param where
  "name_search_param = query_param ''search_term'' OT_STR"

definition offline_query_param :: param where
  "offline_query_param = query_param ''offline'' OT_BOOL"

definition rule_search_param :: param where
  "rule_search_param = query_param ''rule'' OT_STR"

definition report_count_query_param :: param where
  "report_count_query_param = (query_param ''report_count'' OT_STR)\<lparr>pa_enum := [AStr ''gt0'', AStr ''lt1'']\<rparr>"

definition report_count_filter :: "query_env \<Rightarrow> query_params \<Rightarrow> (nat \<Rightarrow> bool) py" where
  "report_count_filter qe query =
     py_bind (value_of_param qe report_count_query_param query) (\<lambda>v.
       Inr (\<lambda>n. if v = POne (AStr ''gt0'') then n > 0 else if v = POne (AStr ''lt1'') then n = 0 else True))"

definition filter_on_offline :: "query_env \<Rightarrow> query_params \<Rightarrow> (bool \<Rightarrow> bool) py" where
  "filter_on_offline qe query =
     py_bind (value_of_param qe offline_query_param query) (\<lambda>v.
       Inr (\<lambda>checking. case v of POne (ABool offline) \<Rightarrow> checking = (\<not> offline) | _ \<Rightarrow> True))"

text \<open>The hosts with a report of the rule, acknowledged or not, in the organisation.\<close>

definition filter_on_rule_id :: "api_env \<Rightarrow> api_request \<Rightarrow> api_db \<Rightarrow> (string \<Rightarrow> bool) py" where
  "filter_on_rule_id ae ar db =
     py_bind (queryset_org ae (aq_request ar)) (\<lambda>org.
     py_bind (value_of_param (ae_query_env ae) rule_search_param (aq_query ar)) (\<lambda>v.
       Inr (\<lambda>host. case v of
          POne (AStr rule_id) \<Rightarrow>
            rule_id = [] \<or> list_ex (\<lambda>r. rp_host r = host \<and> rp_org r = org \<and>
              of_rule db (\<lambda>u. ar_rule_id u = rule_id) r) (ad_reports db)
        | _ \<Rightarrow> True)))"

text \<open>A system for each current upload of the first source; reports are counted as the views show them.\<close>

definition sat_systems :: "api_env \<Rightarrow> sat_lists \<Rightarrow> api_request \<Rightarrow> sat_db \<Rightarrow> sat_system list py" where
  "sat_systems ae sl ar db =
     py_bind (get_reports_subquery ae ar default_options (\<lambda>_. True) (sd_api db)) (\<lambda>reports.
     py_bind (hosts_for_account ae ar True True True (sd_api db)) (\<lambda>hosts.
       Inr (concat (map (\<lambda>h. map (\<lambda>u.
           \<lparr>ss_host = h, ss_type = ul_system_type u, ss_reports = count_for reports h (\<lambda>_. True),
            ss_checking = sl_checking sl h\<rparr>)
         (filter (\<lambda>u. ul_host u = ih_id h \<and> ul_current u \<and> ul_source u = 1) (sd_uploads db))) hosts))))"

definition sat_system_list :: "api_env \<Rightarrow> sat_lists \<Rightarrow> api_request \<Rightarrow> sat_db \<Rightarrow> sat_system list py" where
  "sat_system_list ae sl ar db =
     (let qe = ae_query_env ae; query = aq_query ar in
      py_bind (sat_sort qe sat_sort_map ''toString'' query) (\<lambda>sort.
      py_bind (sat_systems ae sl ar db) (\<lambda>systems.
      py_bind (filter_on_param qe ''display_name__contains'' name_search_param query []) (\<lambda>names.
      py_bind (filter_on_offline qe query) (\<lambda>offline.
      py_bind (report_count_filter qe query) (\<lambda>count.
      py_bind (filter_on_rule_id ae ar (sd_api db)) (\<lambda>of_rule.
        Inr (order_rows (sl_rank_system sl) [sort, plain_order ''inventory_id'']
          (filter (\<lambda>s. q_holds (ae_host_lookups ae) (ss_host s) names \<and> offline (ss_checking s) \<and>
             count (ss_reports s) \<and> of_rule (ih_id (ss_host s))) systems)))))))))"

text \<open>Several systems may have the insights id; the first is taken.\<close>

definition get_system_or_404 :: "sat_system list \<Rightarrow> string \<Rightarrow> string \<Rightarrow> sat_system py" where
  "get_system_or_404 systems insights_id org =
     (case filter (\<lambda>s. ih_insights (ss_host s) = insights_id \<and> ih_org (ss_host s) = org) systems of
        [] \<Rightarrow> Inl Http404 | s # _ \<Rightarrow> Inr s)"

definition sat_system_of :: "api_env \<Rightarrow> sat_lists \<Rightarrow> api_request \<Rightarrow> string \<Rightarrow> sat_db \<Rightarrow> sat_system py" where
  "sat_system_of ae sl ar uuid db =
     py_bind (queryset_org ae (aq_request ar)) (\<lambda>org.
     py_bind (sat_systems ae sl ar db) (\<lambda>systems. get_system_or_404 systems uuid org))"

definition sat_system_retrieve :: "api_env \<Rightarrow> sat_lists \<Rightarrow> api_request \<Rightarrow> string \<Rightarrow> sat_db \<Rightarrow> sat_system py" where
  "sat_system_retrieve ae sl ar uuid db = sat_system_of ae sl ar uuid db"

text \<open>Advisor's row of a system, in the same organisation.\<close>

definition system_row_in :: "api_db \<Rightarrow> sat_system \<Rightarrow> api_hostrow option" where
  "system_row_in db s = find (\<lambda>r. hr_id r = ih_id (ss_host s) \<and> hr_org r = ih_org (ss_host s)) (ad_hosts db)"

text \<open>
  The reports of a system: each with the risk of a resolution of its rule, which must have one, and
  the maintenance actions, looked up with the insights id for the host.
\<close>

record sat_report =
  sr_id :: nat
  sr_rule :: string
  sr_severity :: string
  sr_risk :: nat
  sr_actions :: "nat list"

definition first_risk :: "sat_lists \<Rightarrow> sat_db \<Rightarrow> nat \<Rightarrow> nat py" where
  "first_risk sl db rule =
     (case sort_key (\<lambda>s. sl_type_rank sl (rs_system_type s)) (resolutions_of db rule) of
        [] \<Rightarrow> Inl (KeyError ''rule_id'') | s # _ \<Rightarrow> Inr (rs_risk s))"

definition sat_report_of :: "sat_lists \<Rightarrow> sat_db \<Rightarrow> string \<Rightarrow> api_report \<Rightarrow> sat_report py" where
  "sat_report_of sl db uuid r =
     (case rule_with_pk (sd_api db) (rp_rule r) of
        None \<Rightarrow> Inl (KeyError ''rule_id'')
      | Some u \<Rightarrow>
          py_bind (first_risk sl db (ar_pk u)) (\<lambda>risk.
          py_bind (severity_of u) (\<lambda>severity.
            Inr \<lparr>sr_id = rp_id r, sr_rule = ar_rule_id u, sr_severity = severity, sr_risk = risk,
                 sr_actions = map sa_id (filter (\<lambda>a. sa_host a = uuid \<and> sa_rule a = ar_pk u) (sd_actions db))\<rparr>)))"

definition sat_system_reports :: "api_env \<Rightarrow> sat_lists \<Rightarrow> api_request \<Rightarrow> string \<Rightarrow> sat_db \<Rightarrow> sat_report list py" where
  "sat_system_reports ae sl ar uuid db =
     py_bind (sat_system_of ae sl ar uuid db) (\<lambda>s.
     case system_row_in (sd_api db) s of
       None \<Rightarrow> Inl Http404
     | Some row \<Rightarrow>
         py_bind (get_reports_subquery ae ar default_options (\<lambda>r. rp_host r = hr_id row) (sd_api db)) (\<lambda>rs.
           py_mapM (sat_report_of sl db uuid) (sort_key rp_rule rs)))"

text \<open>Unregistering deletes the reports and the current uploads.\<close>

definition sat_system_destroy :: "api_env \<Rightarrow> sat_lists \<Rightarrow> api_request \<Rightarrow> string \<Rightarrow> (sat_db, unit) act" where
  "sat_system_destroy ae sl ar uuid =
     a_bind (\<lambda>db. (sat_system_of ae sl ar uuid db, db)) (\<lambda>s.
     a_bind (a_get (\<lambda>db. system_row_in (sd_api db) s)) (\<lambda>row. case row of
        None \<Rightarrow> a_raise Http404
      | Some r \<Rightarrow> a_upd (\<lambda>db. db\<lparr>
          sd_api := (sd_api db)\<lparr>ad_reports := filter (\<lambda>x. rp_host x \<noteq> hr_id r) (ad_reports (sd_api db))\<rparr>,
          sd_uploads := filter (\<lambda>u. \<not> (ul_host u = hr_id r \<and> ul_current u)) (sd_uploads db)\<rparr>)))"


text \<open>The metadata of a system.\<close>

record sat_profile =
  sf_virtual :: bool                   \<comment> \<open>\<open>infrastructure_type\<close> is \<open>virtual\<close>\<close>
  sf_release :: "string option"
  sf_major :: "int option"
  sf_minor :: "int option"
  sf_os :: "string option"

record sat_metadata =
  sm_release :: string
  sm_version :: string
  sm_family :: string
  sm_vm :: "string option"
  sm_type :: string

definition release_names :: "(int \<times> string) list" where
  "release_names = [(6, ''Santiago''), (7, ''Maipo''), (8, ''Ootpa''), (9, ''Plow'')]"

definition sat_metadata_of :: "sat_profile \<Rightarrow> sat_metadata" where
  "sat_metadata_of p =
     (let version = rhel_version (sf_major p) (sf_minor p) (sf_os p);
          family = (case sf_release p of Some r \<Rightarrow> if r \<noteq> [] then r else ''Red Hat Enterprise Linux''
                    | None \<Rightarrow> ''Red Hat Enterprise Linux'');
          suffix = (case sf_major p of None \<Rightarrow> ''''
            | Some m \<Rightarrow> '' release '' @ version @ '' ('' @
                (case map_of release_names m of Some n \<Rightarrow> n | None \<Rightarrow> str_of_int m) @ '')'') in
      \<lparr>sm_release = family @ suffix, sm_version = version, sm_family = family,
       sm_vm = (if sf_virtual p then Some ''1'' else None),
       sm_type = (if sf_virtual p then ''Virtual'' else ''Physical'')\<rparr>)"

definition sat_system_metadata ::
  "api_env \<Rightarrow> sat_lists \<Rightarrow> (api_host \<Rightarrow> sat_profile) \<Rightarrow> api_request \<Rightarrow> string \<Rightarrow> sat_db \<Rightarrow> sat_metadata py" where
  "sat_system_metadata ae sl profile ar uuid db =
     py_bind (sat_system_of ae sl ar uuid db) (\<lambda>s. Inr (sat_metadata_of (profile (ss_host s))))"

text \<open>Groups and links are always empty, for a system there is.\<close>

definition sat_system_groups :: "api_env \<Rightarrow> sat_lists \<Rightarrow> api_request \<Rightarrow> string \<Rightarrow> sat_db \<Rightarrow> string list py" where
  "sat_system_groups ae sl ar uuid db = py_bind (sat_system_of ae sl ar uuid db) (\<lambda>_. Inr [])"

section \<open>Systems as the client sees them\<close>

text \<open>
  \<open>V1SystemViewSet\<close>: stale hosts are left out, Advisor's row is not required.  Changing the name
  answers 200 whatever comes of the call, or 500 without an inventory server; deleting passes on the
  inventory's status.
\<close>

definition v1_system :: "api_env \<Rightarrow> api_request \<Rightarrow> string \<Rightarrow> api_db \<Rightarrow> api_host py" where
  "v1_system ae ar uuid db =
     py_bind (queryset_org ae (aq_request ar)) (\<lambda>org.
     py_bind (hosts_for_account ae ar True False False db) (\<lambda>hosts.
       case filter (\<lambda>h. ih_insights h = uuid \<and> ih_org h = org) hosts of [] \<Rightarrow> Inl Http404 | h # _ \<Rightarrow> Inr h))"

record inventory_server =
  is_url :: string                                  \<comment> \<open>\<open>INVENTORY_SERVER_URL\<close>\<close>
  is_patch :: "string \<Rightarrow> string \<Rightarrow> nat \<Rightarrow> attempt"   \<comment> \<open>the host and its new name\<close>
  is_delete :: "string \<Rightarrow> nat \<Rightarrow> attempt"
  is_duration :: "nat \<Rightarrow> rat"
  is_dev :: bool

definition header_of :: "api_request \<Rightarrow> string py" where
  "header_of ar = (case map_of (rq_meta (aq_request ar)) auth_header_key of
     None \<Rightarrow> Inl (KeyError auth_header_key) | Some v \<Rightarrow> Inr v)"

text \<open>\<open>KeyError\<close> and the rest are ordinary exceptions: everything that fails after the lookup is dropped.\<close>

definition v1_put :: "api_env \<Rightarrow> inventory_server \<Rightarrow> api_request \<Rightarrow> string \<Rightarrow> string option \<Rightarrow> api_db \<Rightarrow> int py" where
  "v1_put ae srv ar uuid given db =
     py_bind (v1_system ae ar uuid db) (\<lambda>h.
       case py_bind (or_invalid given) (\<lambda>name.
          if is_url srv = '''' then Inr (500 :: int)
          else py_bind (header_of ar) (\<lambda>_.
            py_bind (retry_request_default (is_dev srv) (is_patch srv (ih_id h) name) (is_duration srv)) (\<lambda>_. Inr 200)))
       of Inl _ \<Rightarrow> Inr 200 | Inr status \<Rightarrow> Inr status)"

definition v1_delete :: "api_env \<Rightarrow> inventory_server \<Rightarrow> api_request \<Rightarrow> string \<Rightarrow> api_db \<Rightarrow> int py" where
  "v1_delete ae srv ar uuid db =
     py_bind (v1_system ae ar uuid db) (\<lambda>h.
       if is_url srv = '''' then Inr 500
       else py_bind (header_of ar) (\<lambda>_.
         py_bind (retry_request_default (is_dev srv) (is_delete srv (ih_id h)) (is_duration srv)) (\<lambda>r.
           Inr (status_code (rr_response r)))))"

section \<open>Rules\<close>

definition severity_map :: "(string \<times> int) list" where
  "severity_map = [(''INFO'', 1), (''WARN'', 2), (''ERROR'', 3), (''CRITICAL'', 4)]"

definition severity_param :: "string \<Rightarrow> param" where
  "severity_param name = (query_param name OT_STR)\<lparr>pa_enum := map (\<lambda>(n, _). AStr n) severity_map\<rparr>"

definition ansible_query_param :: param where
  "ansible_query_param = query_param ''ansible'' OT_BOOL"

definition sat_category_param :: param where
  "sat_category_param = (query_param ''category'' OT_STR)
     \<lparr>pa_enum := map AStr [''availability'', ''security'', ''stability'', ''performance'']\<rparr>"

definition ignoredrules_query_param :: param where
  "ignoredrules_query_param = (query_param ''ignoredRules'' OT_STR)\<lparr>pa_enum := [AStr ''active'', AStr ''ignored'']\<rparr>"

definition sat_incident_param :: param where
  "sat_incident_param = query_param ''incidents'' OT_BOOL"

definition search_term_query_param :: param where
  "search_term_query_param = query_param ''search_term'' OT_STR"

definition rule_sort_names :: "(string \<times> string) list" where
  "rule_sort_names = [(''rule_id'', ''rule_id''), (''node_id'', ''node_id''), (''severity'', ''total_risk''),
     (''resolution_risk'', ''resolution_risk''), (''impacted_systems'', ''impacted_systems'')]"

text \<open>A rule with its reports, the number of its playbooks (null for none), its highest risk and its acknowledgement.\<close>

record sat_rule =
  su_rule :: api_rule
  su_reports :: nat
  su_incident :: bool
  su_ansible :: "nat option"
  su_risk :: "nat option"
  su_ack :: "nat option"

definition ignored_rules_filter :: "query_env \<Rightarrow> query_params \<Rightarrow> q py" where
  "ignored_rules_filter qe query =
     py_bind (value_of_param qe ignoredrules_query_param query) (\<lambda>v. Inr (case v of
        POne (AStr state) \<Rightarrow> q_is ''acks__isnull'' (ABool (state = ''active''))
      | _ \<Rightarrow> QAll))"

definition search_term_filter :: "query_env \<Rightarrow> query_params \<Rightarrow> q py" where
  "search_term_filter qe query =
     py_bind (value_of_param qe search_term_query_param query) (\<lambda>v. Inr (case v of
        POne (AStr s) \<Rightarrow>
          if s = [] then QAll
          else foldl q_or (q_is ''rule_id__icontains'' (AStr s))
            (map (\<lambda>f. q_is f (AStr s)) [''description__icontains'', ''summary__icontains'', ''generic__icontains'',
               ''reason__icontains'', ''more_info__icontains''] @
             [QResolution ''resolution__icontains'' (QAtom (AStr s))])
      | _ \<Rightarrow> QAll))"

text \<open>
  The lookups on the annotations.  \<open>ansible\<close> is a number: a truth value compared with it is 1 or 0,
  and nothing equals null.
\<close>

definition sat_rule_term :: "api_rule lookups \<Rightarrow> bool \<Rightarrow> string \<Rightarrow> qval \<Rightarrow> sat_rule \<Rightarrow> bool" where
  "sat_rule_term lk neg f v row =
     (if f = ''ansible'' then
        (case (su_ansible row, v) of
           (Some n, QAtom (ABool b)) \<Rightarrow> (n = (if b then 1 else 0)) \<noteq> neg | _ \<Rightarrow> False)
      else if f = ''hasIncidents'' then (v = QAtom (ABool (su_incident row))) \<noteq> neg
      else if f = ''acks__isnull'' then (v = QAtom (ABool (su_ack row = None))) \<noteq> neg
      else lk_term lk neg f v (su_rule row))"

definition sat_rule_lookups :: "api_rule lookups \<Rightarrow> sat_rule lookups" where
  "sat_rule_lookups lk =
     \<lparr>lk_term = sat_rule_term lk,
      lk_tagged = (\<lambda>f ts org r. lk_tagged lk f ts org (su_rule r)),
      lk_disabled = (\<lambda>org r. lk_disabled lk org (su_rule r)),
      lk_resolution = (\<lambda>f v r. lk_resolution lk f v (su_rule r))\<rparr>"

text \<open>The branch of the query is asked twice: by the filters of the reports and here.\<close>

definition sat_rules :: "api_env \<Rightarrow> api_request \<Rightarrow> sat_db \<Rightarrow> sat_rule list py" where
  "sat_rules ae ar db =
     py_bind (queryset_org ae (aq_request ar)) (\<lambda>org.
     py_bind (branch_value (ae_query_env ae) branch_id_param (aq_query ar)) (\<lambda>branch.
     py_bind (get_reports_subquery ae ar default_options (\<lambda>r. branch = None \<or>
         Option.bind (hostrow_of (sd_api db) (rp_host r)) hr_branch = branch) (sd_api db)) (\<lambda>reports.
       Inr (map (\<lambda>u.
         let n = length (playbooks_of db (ar_pk u)); risks = map rs_risk (resolutions_of db (ar_pk u)) in
         \<lparr>su_rule = u, su_reports = length (filter (\<lambda>r. rp_rule r = ar_pk u) reports),
          su_incident = (''incident'' \<in> set (ar_tags u)), su_ansible = (if n = 0 then None else Some n),
          su_risk = (if risks = [] then None else Some (foldr max risks 0)),
          su_ack = map_option ack_id (find (\<lambda>a. ack_org a = org \<and> ack_rule a = ar_pk u) (ad_acks (sd_api db)))\<rparr>)
         (filter ar_active (ad_rules (sd_api db)))))))"

definition sat_rule_filters :: "query_env \<Rightarrow> query_params \<Rightarrow> q py" where
  "sat_rule_filters qe query =
     py_bind (py_mapM (\<lambda>f. f)
       [filter_on_param qe ''ansible'' ansible_query_param query [],
        filter_on_param qe ''category__name__iexact'' sat_category_param query [],
        filter_on_param qe ''hasIncidents'' sat_incident_param query [],
        ignored_rules_filter qe query,
        filter_on_param qe ''impact__impact'' (severity_param ''rec_impact'') query severity_map,
        filter_on_param qe ''likelihood'' (severity_param ''rec_likelihood'') query severity_map,
        filter_on_param qe ''total_risk'' (severity_param ''severity'') query severity_map,
        search_term_filter qe query]) (\<lambda>fs. Inr (conj_q fs))"

definition sat_rule_list :: "api_env \<Rightarrow> sat_lists \<Rightarrow> api_request \<Rightarrow> sat_db \<Rightarrow> sat_rule list py" where
  "sat_rule_list ae sl ar db =
     (let qe = ae_query_env ae; query = aq_query ar in
      py_bind (sat_sort qe rule_sort_names ''rule_id'' query) (\<lambda>sort.
      py_bind (sat_rules ae ar db) (\<lambda>rows.
      py_bind (sat_rule_filters qe query) (\<lambda>f.
      py_bind (report_count_filter qe query) (\<lambda>count.
        Inr (order_rows (\<lambda>r. sl_rank_rule sl (su_rule r, su_reports r, su_risk r)) [sort, plain_order ''rule_id'']
          (filter (\<lambda>r. q_holds (sat_rule_lookups (sl_rules sl)) r f \<and> count (su_reports r)) rows)))))))"

definition sat_rule_retrieve :: "api_env \<Rightarrow> api_request \<Rightarrow> string \<Rightarrow> sat_db \<Rightarrow> sat_rule py" where
  "sat_rule_retrieve ae ar rule_id db =
     py_bind (sat_rules ae ar db) (\<lambda>rows.
       case find (\<lambda>r. ar_rule_id (su_rule r) = rule_id) rows of None \<Rightarrow> Inl Http404 | Some r \<Rightarrow> Inr r)"

definition ansible_resolutions ::
  "api_env \<Rightarrow> api_request \<Rightarrow> string \<Rightarrow> string \<Rightarrow> string \<Rightarrow> sat_db \<Rightarrow> sat_playbook py" where
  "ansible_resolutions ae ar rule_id system_type_id playbook_type_wanted db =
     py_bind (sat_rule_retrieve ae ar rule_id db) (\<lambda>r.
     py_bind (pk_of system_type_id) (\<lambda>t.
       case find (\<lambda>s. int (rs_system_type s) = t) (resolutions_of db (ar_pk (su_rule r))) of
         None \<Rightarrow> Inl Http404
       | Some s \<Rightarrow>
           (case filter (\<lambda>b. pb_resolution b = rs_id s \<and> pb_type b = playbook_type_wanted) (sd_playbooks db) of
              [] \<Rightarrow> Inl Http404 | [b] \<Rightarrow> Inr b | _ \<Rightarrow> Inl (Exn ''MultipleObjectsReturned''))))"


section \<open>Topics\<close>

record sat_topic_rule =
  tr_rule :: api_rule
  tr_hits :: nat
  tr_ansible :: bool
  tr_acked :: bool
  tr_risk :: "nat option"

record sat_topic =
  tp_slug :: string
  tp_hits :: nat
  tp_systems :: nat
  tp_rules :: "sat_topic_rule list"

text \<open>Of the system types 89 and 105 the latter is preferred.\<close>

definition topic_risk :: "sat_db \<Rightarrow> nat \<Rightarrow> nat option" where
  "topic_risk db rule =
     (case find (\<lambda>s. rs_system_type s = 105) (resolutions_of db rule) of
        Some s \<Rightarrow> Some (rs_risk s)
      | None \<Rightarrow> map_option rs_risk (find (\<lambda>s. rs_system_type s = 89) (resolutions_of db rule)))"

text \<open>
  \<open>get_rule_queryset\<close>: the active rules that satisfy the filter and have a report, with the number
  of systems.
\<close>

definition topic_rule_rows ::
  "api_env \<Rightarrow> (string \<Rightarrow> int) \<Rightarrow> api_request \<Rightarrow> (api_rule \<Rightarrow> bool) \<Rightarrow> sat_db \<Rightarrow> sat_topic_rule list py" where
  "topic_rule_rows ae rank ar P db =
     py_bind (queryset_org ae (aq_request ar)) (\<lambda>org.
     py_bind (get_reports_subquery ae ar default_options (of_rule (sd_api db) P) (sd_api db)) (\<lambda>reports.
       Inr (map (\<lambda>u.
           \<lparr>tr_rule = u, tr_hits = length (remdups (map rp_host (filter (\<lambda>r. rp_rule r = ar_pk u) reports))),
            tr_ansible = (playbooks_of db (ar_pk u) \<noteq> []),
            tr_acked = rule_acked (sd_api db) org (ar_pk u), tr_risk = topic_risk db (ar_pk u)\<rparr>)
         (sort_key (\<lambda>u. rank (ar_rule_id u))
           (filter (\<lambda>u. P u \<and> ar_active u \<and> list_ex (\<lambda>r. rp_rule r = ar_pk u) reports) (ad_rules (sd_api db)))))))"

definition has_rule_tag :: "string option \<Rightarrow> api_rule \<Rightarrow> bool" where
  "has_rule_tag tag u = (case tag of None \<Rightarrow> False | Some t \<Rightarrow> t \<in> set (ar_tags u))"

text \<open>The list counts the reports of rules with the topic's tag; the rules are those with the tag.\<close>

definition sat_topic_list :: "api_env \<Rightarrow> (string \<Rightarrow> int) \<Rightarrow> api_request \<Rightarrow> sat_db \<Rightarrow> sat_topic list py" where
  "sat_topic_list ae rank ar db =
     py_bind (get_reports_subquery ae ar default_options (\<lambda>_. True) (sd_api db)) (\<lambda>reports.
     py_bind (topic_rule_rows ae rank ar (\<lambda>_. True) db) (\<lambda>rows.
       Inr (map (\<lambda>t. let mine = filter (of_rule (sd_api db) (has_rule_tag (to_tag t))) reports in
           \<lparr>tp_slug = to_slug t, tp_hits = length (remdups (map rp_id mine)),
            tp_systems = length (remdups (map rp_host mine)),
            tp_rules = filter (\<lambda>x. has_rule_tag (to_tag t) (tr_rule x)) rows\<rparr>)
         (filter to_enabled (ad_topics (sd_api db))))))"

text \<open>The topics that are no rows: their filters.\<close>

definition special_slug_filters :: "(string \<times> (api_rule \<Rightarrow> bool)) list" where
  "special_slug_filters =
     [(''incidents'', \<lambda>u. ''incident'' \<in> set (ar_tags u)),
      (''low-risk'', \<lambda>u. ar_total_risk u = 1), (''medium-risk'', \<lambda>u. ar_total_risk u = 2),
      (''high-risk'', \<lambda>u. ar_total_risk u = 3), (''critical-risk'', \<lambda>u. ar_total_risk u = 4),
      (''availability'', \<lambda>u. ar_category u = ''Availability''), (''security'', \<lambda>u. ar_category u = ''Security''),
      (''stability'', \<lambda>u. ar_category u = ''Stability''), (''performance'', \<lambda>u. ar_category u = ''Performance'')]"

text \<open>The filter of a slug, in lower case, and the slug shown; rows are found without regard to case.\<close>

definition topic_filter :: "(string \<Rightarrow> string) \<Rightarrow> string \<Rightarrow> api_db \<Rightarrow> (string \<times> (api_rule \<Rightarrow> bool)) py" where
  "topic_filter lower slug db =
     (case map_of special_slug_filters (lower slug) of
        Some P \<Rightarrow> Inr (lower slug, P)
      | None \<Rightarrow>
          (case filter (\<lambda>t. lower (to_slug t) = lower slug) (ad_topics db) of
             [] \<Rightarrow> Inl Http404
           | [t] \<Rightarrow> Inr (to_slug t, has_rule_tag (to_tag t))
           | _ \<Rightarrow> Inl (Exn ''MultipleObjectsReturned'')))"

definition sat_topic_retrieve ::
  "api_env \<Rightarrow> (string \<Rightarrow> int) \<Rightarrow> (string \<Rightarrow> string) \<Rightarrow> api_request \<Rightarrow> string \<Rightarrow> sat_db \<Rightarrow> sat_topic py" where
  "sat_topic_retrieve ae rank lower ar slug db =
     py_bind (topic_filter lower slug (sd_api db)) (\<lambda>(shown, P).
     py_bind (topic_rule_rows ae rank ar P db) (\<lambda>rows.
     py_bind (get_reports_subquery ae ar default_options (of_rule (sd_api db) P) (sd_api db)) (\<lambda>reports.
       Inr \<lparr>tp_slug = shown, tp_hits = length (remdups (map rp_id reports)),
            tp_systems = length (remdups (map rp_host reports)), tp_rules = rows\<rparr>)))"

section \<open>Statistics\<close>

definition min_severity_query_param :: param where
  "min_severity_query_param = severity_param ''minSeverity''"

text \<open>
  All systems: the join with the uploads counts a host once for each current one.  \<open>fresh\<close> is the
  comparison of the staleness as text.
\<close>

definition sat_total_systems :: "api_env \<Rightarrow> (api_host \<Rightarrow> bool) \<Rightarrow> api_request \<Rightarrow> sat_db \<Rightarrow> nat py" where
  "sat_total_systems ae fresh ar db =
     py_bind (queryset_org ae (aq_request ar)) (\<lambda>org.
     py_bind (filter_on_branch_id (ae_query_env ae) (aq_query ar) ''host'') (\<lambda>branch.
       Inr (length (concat (map (\<lambda>h. filter (\<lambda>u. ul_host u = ih_id h \<and> ul_current u) (sd_uploads db))
         (filter (\<lambda>h. ih_org h = org \<and> fresh h \<and> q_holds (ae_host_lookups ae) h branch)
           (ad_inventory (sd_api db))))))))"

text \<open>Despite its name the parameter selects rules of exactly this risk.\<close>

definition sat_stats_reports :: "api_env \<Rightarrow> api_request \<Rightarrow> sat_db \<Rightarrow> api_report list py" where
  "sat_stats_reports ae ar db =
     py_bind (get_reports_subquery ae ar default_options (\<lambda>_. True) (sd_api db)) (\<lambda>rs.
     py_bind (filter_on_param (ae_query_env ae) ''rule__total_risk'' min_severity_query_param (aq_query ar) severity_map)
       (\<lambda>f. Inr (filter (\<lambda>r. q_holds (ae_report_lookups ae) r f) rs)))"

record sat_counts =
  ct_total :: nat
  ct_risk :: "nat list"         \<comment> \<open>info, warn, error, critical\<close>
  ct_category :: "nat list"     \<comment> \<open>availability, security, stability, performance\<close>

definition sat_counts_of :: "api_db \<Rightarrow> (string \<Rightarrow> nat) \<Rightarrow> (api_report \<Rightarrow> nat) \<Rightarrow> api_report list \<Rightarrow> sat_counts" where
  "sat_counts_of db category field rs =
     \<lparr>ct_total = length (remdups (map field rs)),
      ct_risk = map (\<lambda>k. count_distinct db field (\<lambda>u. ar_total_risk u = k) rs) [1, 2, 3, 4],
      ct_category = map (\<lambda>k. count_distinct db field (\<lambda>u. category (ar_category u) = k) rs) [1, 2, 3, 4]\<rparr>"

record sat_stats =
  sk_total_systems :: nat
  sk_affected :: nat
  sk_reports :: sat_counts
  sk_rules :: sat_counts

definition sat_stats_list :: "api_env \<Rightarrow> sat_lists \<Rightarrow> (api_host \<Rightarrow> bool) \<Rightarrow> api_request \<Rightarrow> sat_db \<Rightarrow> sat_stats py" where
  "sat_stats_list ae sl fresh ar db =
     py_bind (sat_total_systems ae fresh ar db) (\<lambda>total.
     py_bind (sat_stats_reports ae ar db) (\<lambda>rs.
       Inr \<lparr>sk_total_systems = total, sk_affected = length (remdups (map rp_host rs)),
            sk_reports = sat_counts_of (sd_api db) (sl_category sl) rp_id rs,
            sk_rules = sat_counts_of (sd_api db) (sl_category sl) rp_rule rs\<rparr>))"

definition sat_stats_rules :: "api_env \<Rightarrow> sat_lists \<Rightarrow> (api_host \<Rightarrow> bool) \<Rightarrow> api_request \<Rightarrow> sat_db \<Rightarrow> sat_counts py" where
  "sat_stats_rules ae sl fresh ar db =
     py_bind (sat_total_systems ae fresh ar db) (\<lambda>_.
     py_bind (sat_stats_reports ae ar db) (\<lambda>rs. Inr (sat_counts_of (sd_api db) (sl_category sl) rp_rule rs)))"

definition sat_stats_systems :: "api_env \<Rightarrow> (api_host \<Rightarrow> bool) \<Rightarrow> api_request \<Rightarrow> sat_db \<Rightarrow> (nat \<times> nat) py" where
  "sat_stats_systems ae fresh ar db =
     py_bind (sat_total_systems ae fresh ar db) (\<lambda>total.
     py_bind (sat_stats_reports ae ar db) (\<lambda>rs. Inr (total, length (remdups (map rp_host rs)))))"

section \<open>Reports\<close>

definition rule_query_param :: param where
  "rule_query_param = query_param ''rule'' OT_STR"

definition sat_report_list :: "api_env \<Rightarrow> sat_lists \<Rightarrow> api_request \<Rightarrow> sat_db \<Rightarrow> api_report list py" where
  "sat_report_list ae sl ar db =
     py_bind (get_reports_subquery ae ar default_options (\<lambda>r. rule_active (sd_api db) (rp_rule r)) (sd_api db)) (\<lambda>rs.
     py_bind (filter_on_param (ae_query_env ae) ''rule__rule_id'' rule_query_param (aq_query ar) []) (\<lambda>f.
       Inr (order_rows (sl_rank_report sl) [plain_order ''rule__rule_id'', plain_order ''host__advisor_inventory__display_name'']
         (filter (\<lambda>r. q_holds (ae_report_lookups ae) r f) rs))))"

end
