(* ===== verification/Sat_Safety.thy ===== *)
theory Sat_Safety
  imports Sat_Plans Ack_Safety "HOL-Library.Multiset"
begin

text \<open>
  Maintenance plans: the tables stay well formed, and no plan holds an action twice; what an update
  does to the actions; when a playbook names a host more than once; and how a host of another
  organisation gets into a plan.
\<close>

section \<open>Well-formed tables\<close>

definition rules_wf :: "api_db \<Rightarrow> bool" where
  "rules_wf db \<longleftrightarrow> distinct (map ar_pk (ad_rules db)) \<and> distinct (map ar_rule_id (ad_rules db)) \<and>
     distinct (host_ids db)"

definition sat_wf :: "sat_db \<Rightarrow> bool" where
  "sat_wf db \<longleftrightarrow> rules_wf (sd_api db) \<and>
     distinct (map sp_id (sd_plans db)) \<and> (\<forall>p \<in> set (sd_plans db). sp_id p < sd_next db) \<and>
     distinct (map sa_id (sd_actions db)) \<and>
     (\<forall>a \<in> set (sd_actions db). sa_id a < sd_next db \<and> sa_plan a \<in> sp_id ` set (sd_plans db) \<and>
        sa_rule a \<in> ar_pk ` set (ad_rules (sd_api db)) \<and> sa_host a \<in> set (host_ids (sd_api db))) \<and>
     distinct (map (\<lambda>a. (sa_plan a, sa_rule a, sa_host a)) (sd_actions db))"

definition known_of :: "('k \<times> 'v list) list \<Rightarrow> 'k \<Rightarrow> 'v list" where
  "known_of d k = (case map_of d k of None \<Rightarrow> [] | Some hs \<Rightarrow> hs)"

lemma known_of_set [simp]: "known_of (dict_set k hs d) = (known_of d)(k := hs)"
  by (rule ext) (simp add: known_of_def)

lemma find_eq:
  assumes "distinct (map f xs)" "x \<in> set xs"
  shows "find (\<lambda>y. f y = f x) xs = Some x"
  using assms by (induction xs) (auto simp: image_iff)

lemma rule_with_pk_eq: "rules_wf db \<Longrightarrow> u \<in> set (ad_rules db) \<Longrightarrow> rule_with_pk db (ar_pk u) = Some u"
  unfolding rule_with_pk_def rules_wf_def by (rule find_eq) simp_all

lemma rule_with_pk_in: "rule_with_pk db pk = Some u \<Longrightarrow> u \<in> set (ad_rules db) \<and> ar_pk u = pk"
  by (auto simp: rule_with_pk_def find_Some_iff)

lemma find_rule_in: "find_rule i db = Some u \<Longrightarrow> u \<in> set (ad_rules db) \<and> ar_rule_id u = i"
  by (auto simp: find_rule_def find_Some_iff)

lemma host_inventory_row:
  assumes "rules_wf db" "r \<in> set (ad_hosts db)" "inventory_of db r = Some h"
  shows "host_inventory db (hr_id r) = Some h \<and> ih_id h = hr_id r"
proof -
  have "hostrow_of db (hr_id r) = Some r"
    unfolding hostrow_of_def using assms(1,2) by (intro find_eq) (auto simp: rules_wf_def)
  then show ?thesis using assms(3) by (auto simp: host_inventory_def inventory_of_def find_Some_iff)
qed

section \<open>The hosts collected and the actions added\<close>

definition known_hosts :: "rule_hosts \<Rightarrow> string \<Rightarrow> string list" where
  "known_hosts d = known_of (map (\<lambda>(rule, _, hs). (rule, hs)) d)"

lemma known_hosts_set [simp]: "known_hosts (dict_set k (a, hs) d) = (known_hosts d)(k := hs)"
proof -
  have "map_of (map (\<lambda>(rule, _, hs). (rule, hs)) d) = map_option snd \<circ> map_of d" for d :: rule_hosts
    by (induction d) (auto simp: fun_eq_iff)
  then show ?thesis
    by (auto simp: known_hosts_def known_of_def fun_eq_iff)
qed

lemma known_hosts_map_of: "known_hosts d k = (case map_of d k of None \<Rightarrow> [] | Some (_, hs) \<Rightarrow> hs)"
proof -
  have "map_of (map (\<lambda>(rule, _, hs). (rule, hs)) d) = map_option snd \<circ> map_of d" for d :: rule_hosts
    by (induction d) (auto simp: fun_eq_iff)
  then show ?thesis by (auto simp: known_hosts_def known_of_def split: option.splits)
qed

text \<open>How often a host is collected for a rule.\<close>

lemma collect_hosts_count:
  "collect_hosts db use as d = Inr d' \<Longrightarrow>
     count_list (known_hosts d' k) h = count_list (known_hosts d k) h +
       length (filter (\<lambda>a. map_option ar_rule_id (rule_with_pk db (sa_rule a)) = Some k \<and> host_value db use a = Inr h) as)"
proof (induction as arbitrary: d)
  case (Cons a as)
  from Cons.prems obtain u i where u: "rule_with_pk db (sa_rule a) = Some u" and i: "host_value db use a = Inr i"
    by (auto split: option.splits simp: py_bind_eq_Inr)
  from Cons.prems u i obtain b where
    "collect_hosts db use as (dict_set (ar_rule_id u) (b, known_hosts d (ar_rule_id u) @ [i]) d) = Inr d'"
    by (auto split: option.splits prod.splits simp: known_hosts_map_of)
  from Cons.IH [OF this] u i show ?case by (auto simp: fun_upd_def)
qed simp

lemma collect_hosts_keys:
  "collect_hosts db use as d = Inr d' \<Longrightarrow> dict_has d k \<Longrightarrow> dict_has d' k"
proof (induction as arbitrary: d)
  case (Cons a as)
  from Cons.prems(1) obtain i v where
    "collect_hosts db use as (dict_set i v d) = Inr d'"
    by (auto split: option.splits prod.splits simp: py_bind_eq_Inr)
  then show ?case using Cons.IH Cons.prems(2) by (auto simp: dict_has_set)
qed simp

section \<open>Actions added\<close>

lemma hosts_of_rows:
  assumes "rules_wf db" "set rows \<subseteq> set (ad_hosts db)"
  defines "hs \<equiv> concat (map (\<lambda>r. case inventory_of db r of None \<Rightarrow> [] | Some h \<Rightarrow> [h]) rows)"
  shows "map ih_id hs = map hr_id (filter (\<lambda>r. inventory_of db r \<noteq> None) rows)"
    "h \<in> set hs \<Longrightarrow> host_inventory db (ih_id h) = Some h \<and> ih_id h \<in> set (host_ids db)"
proof -
  show "map ih_id hs = map hr_id (filter (\<lambda>r. inventory_of db r \<noteq> None) rows)"
    using assms(2) host_inventory_row [OF assms(1)] unfolding hs_def
    by (induction rows) (auto split: option.splits)
  show "host_inventory db (ih_id h) = Some h \<and> ih_id h \<in> set (host_ids db)" if "h \<in> set hs"
  proof -
    obtain r where "r \<in> set rows" "inventory_of db r = Some h"
      using \<open>h \<in> set hs\<close> unfolding hs_def by (auto split: option.splits)
    then show ?thesis using host_inventory_row [OF assms(1), of r h] assms(2) by auto
  qed
qed

lemma hosts_to_add:
  assumes "rules_wf db"
  shows "distinct (map ih_id (hosts_to_add se db ids account known))"
    "h \<in> set (hosts_to_add se db ids account known) \<Longrightarrow>
       host_inventory db (ih_id h) = Some h \<and> ih_id h \<in> set (host_ids db) \<and> ih_insights h \<notin> set known \<and>
       ih_account h = account \<and> ih_insights h \<in> set ids"
proof -
  let ?hs = "concat (map (\<lambda>r. case inventory_of db r of None \<Rightarrow> [] | Some h \<Rightarrow> [h]) (ad_hosts db))"
  note rows = hosts_of_rows [OF assms subset_refl]
  have "distinct (map ih_id ?hs)"
    using assms rows(1) by (simp add: rules_wf_def distinct_map_filter)
  then have "distinct (map ih_id (filter (\<lambda>h. ih_insights h \<in> set ids \<and> ih_account h = account \<and> ih_insights h \<notin> set known) ?hs))"
    by (simp add: distinct_map_filter)
  moreover have "mset (map ih_id (hosts_to_add se db ids account known)) =
      mset (map ih_id (filter (\<lambda>h. ih_insights h \<in> set ids \<and> ih_account h = account \<and> ih_insights h \<notin> set known) ?hs))"
    by (simp add: hosts_to_add_def)
  ultimately show "distinct (map ih_id (hosts_to_add se db ids account known))"
    using mset_eq_imp_distinct_iff by blast
  show "host_inventory db (ih_id h) = Some h \<and> ih_id h \<in> set (host_ids db) \<and> ih_insights h \<notin> set known \<and>
       ih_account h = account \<and> ih_insights h \<in> set ids"
    if "h \<in> set (hosts_to_add se db ids account known)"
    using that rows(2) [of h] by (auto simp: hosts_to_add_def)
qed

definition fresh_pair :: "api_db \<Rightarrow> (string \<Rightarrow> string list) \<Rightarrow> nat \<times> string \<Rightarrow> bool" where
  "fresh_pair db known p \<longleftrightarrow>
     (\<exists>u h. rule_with_pk db (fst p) = Some u \<and> ar_active u \<and> host_inventory db (snd p) = Some h \<and>
        snd p \<in> set (host_ids db) \<and> ih_insights h \<notin> set (known (ar_rule_id u)))"

lemma new_actions_new:
  assumes "rules_wf db"
  shows "new_actions se ar db plan xs d = Inr ps \<Longrightarrow> distinct ps \<and> (\<forall>p \<in> set ps. fresh_pair db (known_of d) p)"
proof (induction xs arbitrary: d ps)
  case (Cons x xs)
  from Cons.prems obtain u where u: "find_rule (na_rule x) db = Some u"
    by (auto split: option.splits)
  show ?case
  proof (cases "ar_active u")
    case False
    then show ?thesis using Cons u by simp
  next
    case True
    let ?i = "ar_rule_id u"
    from Cons.prems u True obtain hosts rest where
      hosts: "\<exists>ids account. hosts = hosts_to_add se db ids account (known_of d ?i)"
      and rest: "new_actions se ar db plan xs (dict_set ?i (known_of d ?i @ map ih_insights hosts) d) = Inr rest"
      and ps: "ps = map (\<lambda>h. (ar_pk u, ih_id h)) hosts @ rest"
      by (auto simp: py_bind_eq_Inr Let_def known_of_def)
    note IH = Cons.IH [OF rest]
    have pk: "rule_with_pk db (ar_pk u) = Some u"
      using rule_with_pk_eq [OF assms] find_rule_in [OF u] by blast
    have each: "host_inventory db (ih_id h) = Some h \<and> ih_id h \<in> set (host_ids db) \<and> ih_insights h \<notin> set (known_of d ?i)"
      if "h \<in> set hosts" for h
      using hosts hosts_to_add(2) [OF assms] that by blast
    have "distinct (map ih_id hosts)" using hosts hosts_to_add(1) [OF assms] by blast
    then have "distinct (map (\<lambda>h. (ar_pk u, ih_id h)) hosts)"
      by (auto simp: distinct_map inj_on_def)
    moreover have "(ar_pk u, ih_id h) \<notin> set rest" if h: "h \<in> set hosts" for h
    proof
      assume "(ar_pk u, ih_id h) \<in> set rest"
      then have "fresh_pair db (known_of (dict_set ?i (known_of d ?i @ map ih_insights hosts) d)) (ar_pk u, ih_id h)"
        using IH by blast
      then show False using pk each [OF h] h by (auto simp: fresh_pair_def)
    qed
    ultimately have "distinct ps" using IH unfolding ps by auto
    moreover have "fresh_pair db (known_of d) p" if p: "p \<in> set ps" for p
    proof (cases "p \<in> set rest")
      case True
      then show ?thesis using IH by (auto simp: fresh_pair_def split: if_splits)
    next
      case False
      then show ?thesis using p ps pk each True by (auto simp: fresh_pair_def)
    qed
    ultimately show ?thesis by blast
  qed
qed simp

lemma numbered_actions:
  "map (\<lambda>a. (sa_rule a, sa_host a)) (numbered_actions n p xs) = xs"
  "map sa_id (numbered_actions n p xs) = [n ..< n + length xs]"
  "a \<in> set (numbered_actions n p xs) \<Longrightarrow> sa_plan a = p \<and> sa_playbook a = None \<and> \<not> sa_done a"
  by (induction n p xs rule: numbered_actions.induct) (auto simp: upt_rec)


text \<open>What a successful \<open>add_actions\<close> has done.\<close>

lemma add_actions_result:
  assumes wf: "sat_wf db" and ran: "add_actions se ar p xs db = (Inr (), t)"
  obtains ps where
    "t = db\<lparr>sd_actions := sd_actions db @ numbered_actions (sd_next db) (sp_id p) ps, sd_next := sd_next db + length ps\<rparr>"
    "distinct ps" "\<And>q. q \<in> set ps \<Longrightarrow> fst q \<in> ar_pk ` set (ad_rules (sd_api db)) \<and> snd q \<in> set (host_ids (sd_api db))"
    "\<And>q a. q \<in> set ps \<Longrightarrow> a \<in> set (plan_actions db (sp_id p)) \<Longrightarrow> q \<noteq> (sa_rule a, sa_host a)"
proof -
  from ran obtain d ps where
    d: "hosts_for_rules_in_plan se db False (plan_actions db (sp_id p)) = Inr d"
    and ps: "new_actions se ar (sd_api db) p xs (map (\<lambda>(rule, _, hs). (rule, hs)) d) = Inr ps"
    and t: "t = db\<lparr>sd_actions := sd_actions db @ numbered_actions (sd_next db) (sp_id p) ps, sd_next := sd_next db + length ps\<rparr>"
    by (auto simp: add_actions_def a_bind_app py_bind_eq_Inr split: sum.splits)
  have rules: "rules_wf (sd_api db)" using wf by (simp add: sat_wf_def)
  note new = new_actions_new [OF rules ps]
  have place: "fst q \<in> ar_pk ` set (ad_rules (sd_api db)) \<and> snd q \<in> set (host_ids (sd_api db))" if "q \<in> set ps" for q
  proof -
    have "fresh_pair (sd_api db) (known_of (map (\<lambda>(rule, _, hs). (rule, hs)) d)) q" using new that by blast
    then obtain u where "rule_with_pk (sd_api db) (fst q) = Some u" "snd q \<in> set (host_ids (sd_api db))"
      unfolding fresh_pair_def by blast
    then show ?thesis using rule_with_pk_in [of "sd_api db" "fst q" u] by force
  qed
  have fresh: "q \<noteq> (sa_rule a, sa_host a)" if q: "q \<in> set ps" and a: "a \<in> set (plan_actions db (sp_id p))" for q a
  proof
    assume eq: "q = (sa_rule a, sa_host a)"
    obtain u h where u: "rule_with_pk (sd_api db) (sa_rule a) = Some u" and h: "host_inventory (sd_api db) (sa_host a) = Some h"
      and not: "ih_insights h \<notin> set (known_hosts d (ar_rule_id u))"
      using new q eq by (auto simp: fresh_pair_def known_hosts_def)
    have "host_value (sd_api db) False a = Inr (ih_insights h)" using h by (simp add: host_value_def)
    then have "count_list (known_hosts d (ar_rule_id u)) (ih_insights h) > 0"
      using collect_hosts_count [OF d [unfolded hosts_for_rules_in_plan_def], of "ar_rule_id u" "ih_insights h"] a u
      by (simp add: filter_empty_conv) blast
    then show False using not by (simp add: count_list_0_iff)
  qed
  show ?thesis using that [OF t] new place fresh by blast
qed

definition holds_plan :: "nat \<Rightarrow> sat_db \<Rightarrow> bool" where
  "holds_plan i db \<longleftrightarrow> sat_wf db \<and> i \<in> sp_id ` set (sd_plans db)"

lemma add_actions_wf: "keeps (holds_plan (sp_id p)) (add_actions se ar p xs)"
proof (rule keepsI)
  fix db assume holds: "holds_plan (sp_id p) db"
  then have wf: "sat_wf db" by (simp add: holds_plan_def)
  show "holds_plan (sp_id p) (snd (add_actions se ar p xs db))"
  proof (cases "add_actions se ar p xs db")
    case (Pair r t)
    show ?thesis
    proof (cases r)
      case (Inl e)
      then have "t = db" using Pair by (auto simp: add_actions_def a_bind_app split: sum.splits)
      then show ?thesis using Pair holds by simp
    next
      case (Inr x)
      then have ran: "add_actions se ar p xs db = (Inr (), t)" using Pair by simp
      obtain ps where t: "t = db\<lparr>sd_actions := sd_actions db @ numbered_actions (sd_next db) (sp_id p) ps,
          sd_next := sd_next db + length ps\<rparr>"
        and ps: "distinct ps" "\<And>q. q \<in> set ps \<Longrightarrow> fst q \<in> ar_pk ` set (ad_rules (sd_api db)) \<and> snd q \<in> set (host_ids (sd_api db))"
          "\<And>q a. q \<in> set ps \<Longrightarrow> a \<in> set (plan_actions db (sp_id p)) \<Longrightarrow> q \<noteq> (sa_rule a, sa_host a)"
        using add_actions_result [OF wf ran] by blast
      let ?new = "numbered_actions (sd_next db) (sp_id p) ps"
      have pairs: "(sa_rule a, sa_host a) \<in> set ps" if "a \<in> set ?new" for a
        using that numbered_actions(1) [of "sd_next db" "sp_id p" ps] by (metis (mono_tags) image_eqI list.set_map)
      have ids: "sa_id ` set ?new = {sd_next db ..< sd_next db + length ps}"
        using arg_cong [OF numbered_actions(2) [of "sd_next db" "sp_id p" ps], of set] by simp
      have "distinct (map sa_id ?new)" by (simp add: numbered_actions(2))
      then have "distinct (map sa_id (sd_actions db @ ?new))"
        using wf ids by (fastforce simp: sat_wf_def)
      moreover have "distinct (map (\<lambda>a. (sa_plan a, sa_rule a, sa_host a)) (sd_actions db @ ?new))"
      proof -
        have eq: "map (\<lambda>a. (sa_plan a, sa_rule a, sa_host a)) ?new = map (\<lambda>a. (sp_id p, sa_rule a, sa_host a)) ?new"
          using numbered_actions(3) [of _ "sd_next db" "sp_id p" ps] by simp
        have "map (\<lambda>a. (sa_plan a, sa_rule a, sa_host a)) ?new = map (\<lambda>q. (sp_id p, fst q, snd q)) ps"
          using arg_cong [OF numbered_actions(1) [of "sd_next db" "sp_id p" ps], of "map (\<lambda>q. (sp_id p, fst q, snd q))"]
          unfolding eq by (simp add: comp_def)
        moreover have "distinct (map (\<lambda>q. (sp_id p, fst q, snd q)) ps)"
          using ps(1) by (simp add: distinct_map inj_on_def prod_eq_iff)
        moreover have disj: "(sp_id p, fst q, snd q) \<notin> (\<lambda>a. (sa_plan a, sa_rule a, sa_host a)) ` set (sd_actions db)"
          if q: "q \<in> set ps" for q
        proof
          assume "(sp_id p, fst q, snd q) \<in> (\<lambda>a. (sa_plan a, sa_rule a, sa_host a)) ` set (sd_actions db)"
          then obtain a where "a \<in> set (plan_actions db (sp_id p))" "q = (sa_rule a, sa_host a)"
            by (auto simp: plan_actions_def)
          then show False using ps(3) [OF q] by blast
        qed
        moreover have "(\<lambda>a. (sa_plan a, sa_rule a, sa_host a)) ` set (sd_actions db) \<inter>
             (\<lambda>q. (sp_id p, fst q, snd q)) ` set ps = {}"
        proof (rule equals0I)
          fix x assume x: "x \<in> (\<lambda>a. (sa_plan a, sa_rule a, sa_host a)) ` set (sd_actions db) \<inter>
             (\<lambda>q. (sp_id p, fst q, snd q)) ` set ps"
          then obtain q where q: "q \<in> set ps" and xq: "x = (sp_id p, fst q, snd q)" by blast
          show False using x disj [OF q] unfolding xq by (rule_tac notE) simp_all
        qed
        ultimately have new: "distinct (map (\<lambda>a. (sa_plan a, sa_rule a, sa_host a)) ?new)"
          "(\<lambda>a. (sa_plan a, sa_rule a, sa_host a)) ` set (sd_actions db) \<inter>
             set (map (\<lambda>a. (sa_plan a, sa_rule a, sa_host a)) ?new) = {}"
          by (simp_all only: set_map)
        show ?thesis using wf new by (simp only: map_append distinct_append set_map sat_wf_def simp_thms)
      qed
      moreover have "\<forall>a \<in> set (sd_actions db @ ?new). sa_id a < sd_next db + length ps \<and>
          sa_plan a \<in> sp_id ` set (sd_plans db) \<and> sa_rule a \<in> ar_pk ` set (ad_rules (sd_api db)) \<and>
          sa_host a \<in> set (host_ids (sd_api db))"
        using holds ids pairs ps(2) numbered_actions(3) [of _ "sd_next db" "sp_id p" ps]
        by (fastforce simp: holds_plan_def sat_wf_def)
      ultimately have "holds_plan (sp_id p) t"
        using holds unfolding t by (auto simp: holds_plan_def sat_wf_def)
      then show ?thesis using Pair by simp
    qed
  qed
qed


section \<open>Every operation keeps the tables well formed\<close>

lemma sat_wf_filter:
  assumes "sat_wf db" "\<And>a. a \<in> set (sd_actions db) \<Longrightarrow> Q a \<Longrightarrow> sa_plan a \<in> sp_id ` set (filter R (sd_plans db))"
  shows "sat_wf (db\<lparr>sd_plans := filter R (sd_plans db), sd_actions := filter Q (sd_actions db)\<rparr>)"
  using assms by (auto simp: sat_wf_def distinct_map_filter)

lemma delete_actions_wf: "keeps (holds_plan i) (delete_actions p P)"
proof (unfold delete_actions_def, rule keeps_upd)
  fix db assume "holds_plan i db"
  then show "holds_plan i (db\<lparr>sd_actions := filter (\<lambda>a. \<not> (sa_plan a = p \<and> P (int (sa_id a)))) (sd_actions db)\<rparr>)"
    using sat_wf_filter [of db "\<lambda>a. \<not> (sa_plan a = p \<and> P (int (sa_id a)))" "\<lambda>_. True"]
    by (auto simp: holds_plan_def sat_wf_def)
qed

lemma save_plan_ids: "map sp_id (map (\<lambda>q. if sp_id q = sp_id p then p else q) ps) = map sp_id ps"
  by (induction ps) auto

lemma save_plan_wf: "keeps (holds_plan i) (save_plan p)"
proof (rule keepsI)
  fix db assume holds: "holds_plan i db"
  let ?ps = "map (\<lambda>q. if sp_id q = sp_id p then p else q) (sd_plans db)"
  have ids: "sp_id ` set ?ps = sp_id ` set (sd_plans db)"
    using arg_cong [OF save_plan_ids [of p "sd_plans db"], of set] by (simp only: set_map)
  moreover have "\<forall>q \<in> set ?ps. sp_id q < sd_next db"
  proof -
    have "sp_id ` set ?ps \<subseteq> {..< sd_next db}" using holds ids by (auto simp: holds_plan_def sat_wf_def)
    then show ?thesis by blast
  qed
  ultimately show "holds_plan i (snd (save_plan p db))"
    using holds by (simp add: save_plan_def holds_plan_def sat_wf_def save_plan_ids del: map_map set_map)
qed

lemma insert_plan_wf:
  assumes "sat_wf db"
  shows "sat_wf (snd (insert_plan p db))" "insert_plan p db = (Inr q, t) \<Longrightarrow> holds_plan (sp_id q) t"
proof -
  have wf: "sat_wf (db\<lparr>sd_plans := sd_plans db @ [p\<lparr>sp_id := sd_next db\<rparr>], sd_next := sd_next db + 1\<rparr>)"
    using assms by (fastforce simp: sat_wf_def)
  then show "sat_wf (snd (insert_plan p db))" using assms by (simp add: insert_plan_def Let_def)
  show "holds_plan (sp_id q) t" if "insert_plan p db = (Inr q, t)"
    using that wf by (auto simp: insert_plan_def Let_def holds_plan_def split: if_splits)
qed

lemma keeps_plans: "keeps (holds_plan i) m \<Longrightarrow> holds_plan i db \<Longrightarrow> sat_wf (snd (m db))"
  using keepsD by (fastforce simp: holds_plan_def)


lemma found_in: "find P xs = Some x \<Longrightarrow> x \<in> set xs \<and> P x"
  by (induction xs) (auto split: if_splits)

lemma get_plan_in:
  assumes "get_plan se ar pk db = Inr p"
  shows "p \<in> set (sd_plans db) \<and> org_of (se_api se) (aq_request ar) = Inr (Some (sp_org p))"
proof -
  obtain ps i where ps: "plans_for se ar db = Inr ps" and p: "find (\<lambda>p. int (sp_id p) = i) ps = Some p"
    using assms by (auto simp: get_plan_def py_bind_eq_Inr split: option.splits)
  then show ?thesis using found_in [OF p]
    by (auto simp: plans_for_def py_bind_eq_Inr plan_in_def split: option.splits)
qed

lemmas keeps_steps = keeps_bind keeps_then keeps_if keeps_ret keeps_raise keeps_lift keeps_get keeps_option keeps_sum keeps_prod

lemma plan_create_wf: "keeps sat_wf (plan_create se ar given)"
proof -
  have insert: "keeps sat_wf (a_bind (insert_plan p) (\<lambda>q. a_then (add_actions se ar q xs) (a_ret (sp_id q))))" for p xs
  proof (rule keepsI, rule bind_after)
    fix db assume wf: "sat_wf db"
    then show "sat_wf (snd (insert_plan p db))" by (rule insert_plan_wf)
    fix q t assume "insert_plan p db = (Inr q, t)"
    then have "holds_plan (sp_id q) t" by (rule insert_plan_wf(2) [OF wf])
    then show "sat_wf (snd (a_then (add_actions se ar q xs) (a_ret (sp_id q)) t))"
      by (rule keeps_plans [rotated]) (intro keeps_then add_actions_wf keeps_ret)
  qed
  show ?thesis unfolding plan_create_def Let_def by (intro keeps_steps insert)
qed

lemma plan_update_wf: "keeps sat_wf (plan_update se ar pk given)"
proof -
  have change: "keeps (holds_plan (sp_id p))
     (a_bind (a_lift (or_invalid given)) (\<lambda>e.
     a_bind (a_get (\<lambda>db. edit_valid db e)) (\<lambda>ok.
       if \<not> ok then a_raise ValidationError
       else
         (let q = edit_plan e p in
          a_then (if q \<noteq> p then save_plan q else a_ret ())
         (a_then (case ped_delete e of None \<Rightarrow> a_ret () | Some is \<Rightarrow> delete_actions (sp_id p) (\<lambda>i. i \<in> set is))
         (a_then (case ped_actions e of None \<Rightarrow> a_ret () | Some is \<Rightarrow> delete_actions (sp_id p) (\<lambda>i. i \<notin> set is))
         (a_then (case ped_add e of None \<Rightarrow> a_ret () | Some xs \<Rightarrow> add_actions se ar q xs)
           (\<lambda>db. (view_plan se db q, db)))))))))" for p
  proof -
    have same: "sp_id (edit_plan e p) = sp_id p" for e by (simp add: edit_plan_def)
    have add: "keeps (holds_plan (sp_id p)) (add_actions se ar (edit_plan e p) xs)" for e xs
      using add_actions_wf [of "edit_plan e p"] by (simp add: same)
    have view: "keeps P (\<lambda>db. (f db, db))" for P and f :: "sat_db \<Rightarrow> plan_view py" by (simp add: keeps_def)
    show ?thesis unfolding Let_def by (intro keeps_steps add save_plan_wf delete_actions_wf view)
  qed
  have found: "keeps sat_wf (a_bind (\<lambda>db. (get_plan se ar pk db, db)) f)"
    if "\<And>p. keeps (holds_plan (sp_id p)) (f p)" for f :: "sat_plan \<Rightarrow> (sat_db, plan_view) act"
  proof (rule keepsI)
    fix db assume wf: "sat_wf db"
    show "sat_wf (snd (a_bind (\<lambda>db. (get_plan se ar pk db, db)) f db))"
    proof (cases "get_plan se ar pk db")
      case (Inl e)
      then show ?thesis using wf by (simp add: a_bind_app)
    next
      case (Inr p)
      then have "holds_plan (sp_id p) db" using get_plan_in wf by (auto simp: holds_plan_def)
      then show ?thesis using keeps_plans [OF that] Inr by (simp add: a_bind_app)
    qed
  qed
  show ?thesis unfolding plan_update_def by (intro keeps_steps found change)
qed

lemma plan_destroy_wf: "keeps sat_wf (plan_destroy se ar pk)"
proof -
  have delete: "keeps sat_wf (a_upd (\<lambda>db. db\<lparr>sd_plans := filter (\<lambda>p. int (sp_id p) \<noteq> i) (sd_plans db),
      sd_actions := filter (\<lambda>a. int (sa_plan a) \<noteq> i) (sd_actions db)\<rparr>))" for i
    by (rule keeps_upd, rule sat_wf_filter) (auto simp: sat_wf_def)
  show ?thesis unfolding plan_destroy_def by (intro keeps_steps delete)
qed

lemma set_playbook_wf: "keeps sat_wf (set_playbook se ar pk rule_id types given)"
proof -
  let ?set = "\<lambda>is b a. if sa_id a \<in> set is then a\<lparr>sa_playbook := Some (pb_id b)\<rparr> else a"
  have same: "sa_id (?set is b a) = sa_id a" "sa_plan (?set is b a) = sa_plan a"
    "sa_rule (?set is b a) = sa_rule a" "sa_host (?set is b a) = sa_host a" for "is" b a
    by simp_all
  have change: "keeps sat_wf (a_upd (\<lambda>db. db\<lparr>sd_actions := map (?set is b) (sd_actions db)\<rparr>))" for "is" b
  proof (rule keeps_upd)
    fix db assume "sat_wf db"
    then show "sat_wf (db\<lparr>sd_actions := map (?set is b) (sd_actions db)\<rparr>)"
      by (auto simp: sat_wf_def comp_def same)
  qed
  have plan: "keeps sat_wf (\<lambda>db. (get_plan se ar pk db, db))" by (simp add: keeps_def)
  show ?thesis unfolding set_playbook_def
    by (intro keeps_steps plan) (auto split: list.splits intro!: keeps_steps change)
qed


section \<open>Properties\<close>

text \<open>
  C13: maintenance plans stay well formed, and no plan holds an action twice.  Creating, updating and
  deleting a plan and choosing a playbook, whether they return or raise, keep the ids of plans and
  actions unique, every action in an existing plan on an existing rule and host, and at most one
  action of each plan for each rule and host, although adding actions compares insights ids and not
  hosts.
\<close>

theorem plan_tables_stay_well_formed:
  assumes "sat_wf db"
  shows "sat_wf (snd (plan_create se ar given db)) \<and> sat_wf (snd (plan_update se ar pk edit db)) \<and>
    sat_wf (snd (plan_destroy se ar pk db)) \<and> sat_wf (snd (set_playbook se ar pk rule_id types wanted db))"
  using keepsD [OF plan_create_wf assms] keepsD [OF plan_update_wf assms] keepsD [OF plan_destroy_wf assms]
    keepsD [OF set_playbook_wf assms] by blast

definition active_rule_of :: "api_db \<Rightarrow> new_action list \<Rightarrow> nat \<Rightarrow> bool" where
  "active_rule_of db xs pk \<longleftrightarrow>
     (\<exists>x \<in> set xs. \<exists>u. find_rule (na_rule x) db = Some u \<and> ar_active u \<and> ar_pk u = pk)"

lemma new_actions_rules:
  "new_actions se ar db plan xs d = Inr ps \<Longrightarrow> q \<in> set ps \<Longrightarrow> active_rule_of db xs (fst q)"
proof (induction xs arbitrary: d ps)
  case (Cons x xs)
  from Cons.prems(1) obtain u where u: "find_rule (na_rule x) db = Some u"
    by (auto split: option.splits)
  have later: "active_rule_of db (x # xs) r" if "active_rule_of db xs r" for r
    using that by (auto simp: active_rule_of_def)
  show ?case
  proof (cases "ar_active u")
    case False
    then show ?thesis using Cons.IH Cons.prems u later by simp
  next
    case True
    then have "active_rule_of db (x # xs) (ar_pk u)" using u by (auto simp: active_rule_of_def)
    then show ?thesis using Cons.IH Cons.prems u True later by (auto simp: py_bind_eq_Inr Let_def)
  qed
qed simp

definition kept_by :: "plan_edit \<Rightarrow> sat_action \<Rightarrow> bool" where
  "kept_by e a \<longleftrightarrow>
     (case ped_delete e of None \<Rightarrow> True | Some is \<Rightarrow> int (sa_id a) \<notin> set is) \<and>
     (case ped_actions e of None \<Rightarrow> True | Some is \<Rightarrow> int (sa_id a) \<in> set is)"

text \<open>The plans after an edit, which is written only where it changes something.\<close>

definition edited_plans :: "plan_edit \<Rightarrow> sat_plan \<Rightarrow> sat_plan list \<Rightarrow> sat_plan list" where
  "edited_plans e p ps =
     (if edit_plan e p = p then ps else map (\<lambda>q. if sp_id q = sp_id p then edit_plan e p else q) ps)"

lemma update_steps:
  assumes "plan_update se ar pk (Some e) db = (Inr v, t)" "get_plan se ar pk db = Inr p"
  obtains s where
    "sd_actions s = filter (\<lambda>a. sa_plan a = sp_id p \<longrightarrow> kept_by e a) (sd_actions db)" "sd_api s = sd_api db"
    "sd_plans s = edited_plans e p (sd_plans db)"
    "(case ped_add e of None \<Rightarrow> a_ret () | Some xs \<Rightarrow> add_actions se ar (edit_plan e p) xs) s = (Inr (), t)"
    "view_plan se t (edit_plan e p) = Inr v"
proof -
  let ?q = "edit_plan e p"
  from assms obtain s0 s1 s2 where
    s0: "(if ?q \<noteq> p then save_plan ?q else a_ret ()) db = (Inr (), s0)"
    and s1: "(case ped_delete e of None \<Rightarrow> a_ret () | Some is \<Rightarrow> delete_actions (sp_id p) (\<lambda>i. i \<in> set is)) s0 = (Inr (), s1)"
    and s2: "(case ped_actions e of None \<Rightarrow> a_ret () | Some is \<Rightarrow> delete_actions (sp_id p) (\<lambda>i. i \<notin> set is)) s1 = (Inr (), s2)"
    and s3: "(case ped_add e of None \<Rightarrow> a_ret () | Some xs \<Rightarrow> add_actions se ar ?q xs) s2 = (Inr (), t)"
    and v: "view_plan se t ?q = Inr v"
    by (auto simp: plan_update_def act_inv or_invalid_def Let_def split: if_splits)
  have id: "sp_id ?q = sp_id p" by (simp add: edit_plan_def)
  have same: "sd_actions s0 = sd_actions db \<and> sd_api s0 = sd_api db \<and> sd_plans s0 = edited_plans e p (sd_plans db)"
    using s0 by (auto simp: save_plan_def edited_plans_def id split: if_splits)
  have "sd_actions s2 = filter (\<lambda>a. sa_plan a = sp_id p \<longrightarrow> kept_by e a) (sd_actions db) \<and> sd_api s2 = sd_api db \<and>
      sd_plans s2 = edited_plans e p (sd_plans db)"
    using s1 s2 same by (cases "ped_delete e"; cases "ped_actions e")
      (auto simp: delete_actions_def kept_by_def intro!: filter_cong)
  then show ?thesis using that s3 v by blast
qed


lemma add_actions_appends:
  assumes "add_actions se ar p xs s = (Inr (), t)"
  shows "sd_plans t = sd_plans s \<and> (\<exists>new. sd_actions t = sd_actions s @ new \<and>
    (\<forall>a \<in> set new. sa_plan a = sp_id p \<and> active_rule_of (sd_api s) xs (sa_rule a)))"
proof -
  from assms obtain d ps where ps: "new_actions se ar (sd_api s) p xs d = Inr ps"
    and t: "t = s\<lparr>sd_actions := sd_actions s @ numbered_actions (sd_next s) (sp_id p) ps, sd_next := sd_next s + length ps\<rparr>"
    by (auto simp: add_actions_def a_bind_app py_bind_eq_Inr split: sum.splits)
  have "sa_plan a = sp_id p \<and> active_rule_of (sd_api s) xs (sa_rule a)"
    if a: "a \<in> set (numbered_actions (sd_next s) (sp_id p) ps)" for a
  proof -
    have "(sa_rule a, sa_host a) \<in> set ps"
      using a numbered_actions(1) [of "sd_next s" "sp_id p" ps] by (metis (mono_tags) image_eqI list.set_map)
    then show ?thesis using new_actions_rules [OF ps] numbered_actions(3) [OF a] by fastforce
  qed
  then show ?thesis using t by auto
qed

text \<open>
  C14: an update of a plan does what it names.  When it returns, the plan shows the fields that were
  given, of its actions those are left that are not to be deleted and, where the ones to keep are
  named, are among them, in their order; added are only actions of this plan for rules that were
  named and are active, and none when nothing is to be added; the actions of other plans stay, and
  of the rows of plans only that of the plan changes.
\<close>

theorem update_changes_named_actions:
  assumes "plan_update se ar pk (Some e) db = (Inr v, t)"
  shows "\<exists>p new. get_plan se ar pk db = Inr p \<and> pv_plan v = edit_plan e p \<and>
    sd_plans t = edited_plans e p (sd_plans db) \<and>
    sd_actions t = filter (\<lambda>a. sa_plan a = sp_id p \<longrightarrow> kept_by e a) (sd_actions db) @ new \<and>
    (\<forall>a \<in> set new. sa_plan a = sp_id p \<and> active_rule_of (sd_api db) (given_or (ped_add e) []) (sa_rule a))"
proof -
  obtain p where p: "get_plan se ar pk db = Inr p"
    using assms by (auto simp: plan_update_def act_inv)
  obtain s where s: "sd_actions s = filter (\<lambda>a. sa_plan a = sp_id p \<longrightarrow> kept_by e a) (sd_actions db)" "sd_api s = sd_api db"
    "sd_plans s = edited_plans e p (sd_plans db)"
    and add: "(case ped_add e of None \<Rightarrow> a_ret () | Some xs \<Rightarrow> add_actions se ar (edit_plan e p) xs) s = (Inr (), t)"
    and v: "view_plan se t (edit_plan e p) = Inr v"
    using update_steps [OF assms p] by blast
  have "pv_plan v = edit_plan e p" using v by (auto simp: view_plan_def py_bind_eq_Inr)
  moreover have "sd_plans t = sd_plans s \<and> (\<exists>new. sd_actions t = sd_actions s @ new \<and>
    (\<forall>a \<in> set new. sa_plan a = sp_id p \<and> active_rule_of (sd_api s) (given_or (ped_add e) []) (sa_rule a)))"
  proof (cases "ped_add e")
    case None
    then show ?thesis using add by simp
  next
    case (Some xs)
    then have "add_actions se ar (edit_plan e p) xs s = (Inr (), t)" using add by simp
    from add_actions_appends [OF this] Some show ?thesis by (simp add: given_or_def edit_plan_def)
  qed
  ultimately show ?thesis using p s by auto
qed

lemma filter_only: "distinct xs \<Longrightarrow> a \<in> set xs \<Longrightarrow> filter (\<lambda>b. b = a) xs = [a]"
  by (induction xs) (auto simp: filter_empty_conv)

lemma filter_repeated:
  "length (filter (\<lambda>b. b = a) (concat (map (\<lambda>b. replicate (n b) b) ys))) = n a * length (filter (\<lambda>b. b = a) ys)"
  by (induction ys) (auto simp: filter_replicate)

text \<open>
  The playbook of a plan names a host once for every playbook of the rule.  The join with the
  playbooks repeats the actions, so Remediations is asked for an issue in which the host of an action
  on an active rule with \<open>n\<close> playbooks stands \<open>n\<close> times.
\<close>

theorem playbook_repeats_hosts:
  assumes "sat_wf db" "plan_issues se db p = Inr issues" "a \<in> set (plan_actions db p)"
    "rule_with_pk (sd_api db) (sa_rule a) = Some u" "ar_active u" "playbooks_of db (ar_pk u) \<noteq> []"
  shows "\<exists>i \<in> set issues. iss_rule i = ''advisor:'' @ ar_rule_id u \<and>
    count_list (iss_hosts i) (sa_host a) = length (playbooks_of db (ar_pk u))"
proof -
  let ?db = "sd_api db" and ?rows = "actions_with_playbook db p"
  have pk: "ar_pk u = sa_rule a" using rule_with_pk_in [OF assms(4)] by simp
  obtain d where d: "collect_hosts ?db True (sort_key (action_key se ?db) ?rows) [] = Inr d"
    and issues: "issues = map (\<lambda>(rule, a, hs). \<lparr>iss_rule = ''advisor:'' @ rule, iss_hosts = hs, iss_resolution = playbook_type db a\<rparr>) d"
    using assms(2) by (auto simp: plan_issues_def hosts_for_rules_in_plan_def py_bind_eq_Inr)
  let ?same = "\<lambda>b. map_option ar_rule_id (rule_with_pk ?db (sa_rule b)) = Some (ar_rule_id u) \<and> host_value ?db True b = Inr (sa_host a)"
  have same: "?same b \<longleftrightarrow> b = a" if b: "b \<in> set (plan_actions db p)" for b
  proof
    assume both: "?same b"
    then obtain w where w: "rule_with_pk ?db (sa_rule b) = Some w" "ar_rule_id w = ar_rule_id u" by auto
    have "w = u"
      using w(2) rule_with_pk_in [OF w(1)] rule_with_pk_in [OF assms(4)] assms(1)
      by (auto simp: sat_wf_def rules_wf_def distinct_map dest: inj_onD)
    then have "sa_rule b = sa_rule a" using rule_with_pk_in [OF w(1)] pk by simp
    moreover have "sa_host b = sa_host a" using both by (simp add: host_value_def)
    ultimately show "b = a"
      using assms(1,3) b by (auto simp: sat_wf_def plan_actions_def distinct_map dest: inj_onD)
  qed (use assms(4) in \<open>simp add: host_value_def\<close>)
  have active: "rule_active ?db (sa_rule a)"
    using assms(5) rule_with_pk_in [OF assms(4)] by (auto simp: rule_active_def list_ex_iff)
  have once: "filter (\<lambda>b. b = a) (plan_actions db p) = [a]"
  proof -
    have "distinct (plan_actions db p)"
      using assms(1) by (auto simp: sat_wf_def plan_actions_def distinct_map intro: distinct_filter)
    from filter_only [OF this assms(3)] show ?thesis .
  qed
  have "length (filter ?same (sort_key (action_key se ?db) ?rows)) = length (filter ?same ?rows)"
    by (simp only: filter_sort length_sort)
  also have "\<dots> = length (filter (\<lambda>b. b = a) ?rows)"
    using same by (intro arg_cong [where f = length] filter_cong) (auto simp: actions_with_playbook_def)
  also have "\<dots> = length (playbooks_of db (ar_pk u)) *
      length (filter (\<lambda>b. b = a) (filter (\<lambda>b. rule_active ?db (sa_rule b)) (plan_actions db p)))"
    unfolding actions_with_playbook_def filter_repeated by (simp add: pk)
  also have "filter (\<lambda>b. b = a) (filter (\<lambda>b. rule_active ?db (sa_rule b)) (plan_actions db p)) = [a]"
  proof -
    have "filter (\<lambda>b. b = a) (filter (\<lambda>b. rule_active ?db (sa_rule b)) (plan_actions db p)) =
        filter (\<lambda>b. b = a) (plan_actions db p)"
      unfolding filter_filter by (rule filter_cong) (use active in auto)
    then show ?thesis using once by simp
  qed
  finally have count: "count_list (known_hosts d (ar_rule_id u)) (sa_host a) = length (playbooks_of db (ar_pk u))"
    using collect_hosts_count [OF d, of "ar_rule_id u" "sa_host a"] by (simp add: known_hosts_def known_of_def)
  then have "known_hosts d (ar_rule_id u) \<noteq> []" using assms(6) by auto
  then obtain b hs where hs: "map_of d (ar_rule_id u) = Some (b, hs)" "known_hosts d (ar_rule_id u) = hs"
    by (auto simp: known_hosts_map_of split: option.splits)
  then show ?thesis using count map_of_SomeD [OF hs(1)] unfolding issues by force
qed


text \<open>
  Hosts of other organisations get into plans.  Adding an action compares the account of the
  host with the caller's and not the organisation.  A caller without an account who creates a plan
  with the insights id of a host of another organisation that has no account either finds the
  name and insights id of that host in the CSV form of the plan, although the JSON form, which
  filters on the organisation, shows no action on it.
\<close>

theorem foreign_host_in_plan:
  assumes "sat_wf db" "request_to_org (aq_request ar) = Inr (JStr org)" "account_of (se_api se) (aq_request ar) = Inr None"
    "host_inventory (sd_api db) g = Some h" "ih_account h = None"
    "\<And>k. k \<in> set (ad_inventory (sd_api db)) \<Longrightarrow> ih_id k = g \<Longrightarrow> ih_org k \<noteq> org"
    "plan_create se ar (Some pin) db = (Inr i, t)"
    "pin_add pin = [\<lparr>na_rule = ar_rule_id u, na_system = Some (ih_insights h)\<rparr>]"
    "find_rule (ar_rule_id u) (sd_api db) = Some u" "ar_active u"
    "pk_of pk = Inr (int i)" "plan_retrieve se ar2 pk t = Inr (Inr lines)"
  shows "(\<exists>l \<in> set lines. pl_name l = Some (ih_name h) \<and> pl_insights l = Some (ih_insights h)) \<and>
    (\<exists>p \<in> set (sd_plans t). sp_id p = i \<and> sp_org p = org) \<and> (\<forall>a. sa_host a = g \<longrightarrow> \<not> action_shown (sd_api t) org a)"
proof -
  obtain p0 p t1 where p: "insert_plan p0 db = (Inr p, t1)" and ran: "add_actions se ar p (pin_add pin) t1 = (Inr (), t)"
    and i: "sp_id p = i" and org: "sp_org p0 = org"
    using assms(2,7) by (auto simp: plan_create_def act_inv Let_def or_invalid_def not_null_def column_text_def
        split: if_splits option.splits)
  have t1: "sd_api t1 = sd_api db" "sd_actions t1 = sd_actions db" "sp_id p = sd_next db" "p \<in> set (sd_plans t1)"
    "sp_org p = org"
    using p org by (auto simp: insert_plan_def Let_def split: if_splits)
  have none: "plan_actions t1 (sp_id p) = []"
    using assms(1) t1 by (fastforce simp: plan_actions_def sat_wf_def filter_empty_conv)
  have rules: "rules_wf (sd_api db)" using assms(1) by (simp add: sat_wf_def)
  obtain r where r: "r \<in> set (ad_hosts (sd_api db))" "hr_id r = g" "inventory_of (sd_api db) r = Some h"
    using assms(4) by (auto simp: host_inventory_def hostrow_of_def bind_eq_Some_conv dest: found_in)
  then have g: "ih_id h = g" using host_inventory_row [OF rules r(1,3)] by simp
  have "h \<in> set (hosts_to_add se (sd_api db) [ih_insights h] None [])"
    using r assms(5) by (force simp: hosts_to_add_def)
  moreover have "new_actions se ar (sd_api db) p (pin_add pin) [] =
      Inr (map (\<lambda>h. (ar_pk u, ih_id h)) (hosts_to_add se (sd_api db) [ih_insights h] None []))"
    using assms(3,8,9,10) by (simp add: Let_def)
  ultimately obtain ps where ps: "new_actions se ar (sd_api db) p (pin_add pin) [] = Inr ps" "(ar_pk u, g) \<in> set ps"
    using g by force
  have t: "t = t1\<lparr>sd_actions := sd_actions t1 @ numbered_actions (sd_next t1) (sp_id p) ps, sd_next := sd_next t1 + length ps\<rparr>"
    using ran ps(1) none t1(1) by (simp add: add_actions_def a_bind_app hosts_for_rules_in_plan_def)
  obtain a where a: "a \<in> set (numbered_actions (sd_next t1) (sp_id p) ps)" "sa_host a = g"
    using ps(2) numbered_actions(1) [of "sd_next t1" "sp_id p" ps] by (metis (mono_tags, lifting) imageE list.set_map prod.inject)
  have shown: "a \<in> set (plan_actions t i)"
    using a numbered_actions(3) [OF a(1)] t i by (simp add: plan_actions_def)
  obtain q where q: "get_plan se ar2 pk t = Inr q" "lines = plan_lines t q"
    using assms(12) by (auto simp: plan_retrieve_def py_bind_eq_Inr split: if_splits)
  have "int (sp_id q) = int i"
    using q(1) assms(11) by (auto simp: get_plan_def py_bind_eq_Inr split: option.splits dest: found_in)
  then have "sp_id q = i" by simp
  moreover have "host_inventory (sd_api t) g = Some h" using t t1(1) assms(4) by simp
  ultimately have "\<exists>l \<in> set lines. pl_name l = Some (ih_name h) \<and> pl_insights l = Some (ih_insights h)"
    using shown a(2) q(2) by (force simp: plan_lines_def Let_def)
  moreover have "\<exists>p \<in> set (sd_plans t). sp_id p = i \<and> sp_org p = org" using t t1(4,5) i by auto
  moreover have "\<forall>a. sa_host a = g \<longrightarrow> \<not> action_shown (sd_api t) org a"
    using t t1(1) assms(6) by (auto simp: action_shown_def list_ex_iff)
  ultimately show ?thesis by blast
qed


section \<open>Examples\<close>

definition sx_env :: sat_env where
  "sx_env = \<lparr>se_api = api_example, se_rank = (\<lambda>s. int (length s)), se_now = 10, se_dev = True,
     se_remediations = Some ''http://r'', se_answer = (\<lambda>_ _. Answer \<lparr>status_code = 200, body = None\<rparr>),
     se_content = (\<lambda>_ _. ''---''), se_duration = (\<lambda>_. 0)\<rparr>"

text \<open>A host of the organisation \<open>p\<close> that has no account.\<close>

definition sx_api :: api_db where
  "sx_api = apx_db\<lparr>ad_hosts := ad_hosts apx_db @ [\<lparr>hr_id = ''g'', hr_org = ''p'', hr_branch = None\<rparr>],
     ad_inventory := ad_inventory apx_db @ [\<lparr>ih_id = ''g'', ih_org = ''p'', ih_stale = Some 20, ih_account = None,
       ih_insights = ''i9'', ih_name = ''secret''\<rparr>]\<rparr>"

definition sx_action :: "nat \<Rightarrow> nat \<Rightarrow> string \<Rightarrow> sat_action" where
  "sx_action i rule host = \<lparr>sa_id = i, sa_plan = 1, sa_rule = rule, sa_host = host, sa_playbook = None, sa_done = False\<rparr>"

definition sx_plan :: sat_plan where
  "sx_plan = \<lparr>sp_id = 1, sp_account = ''acct'', sp_org = ''o'', sp_branch = ''b'', sp_name = Some ''plan'',
     sp_description = None, sp_start = None, sp_end = None, sp_created_by = None, sp_silenced = False, sp_hidden = False,
     sp_allow_reboot = False\<rparr>"

definition sx_db :: sat_db where
  "sx_db = \<lparr>sd_api = sx_api, sd_plans = [sx_plan], sd_actions = [sx_action 2 1 ''h1'', sx_action 3 1 ''h2''],
     sd_playbooks = [\<lparr>pb_id = 1, pb_resolution = 1, pb_type = ''fix''\<rparr>, \<lparr>pb_id = 2, pb_resolution = 1, pb_type = ''workaround''\<rparr>],
     sd_resolutions = [\<lparr>rs_id = 1, rs_rule = 1, rs_system_type = 105, rs_risk = 1\<rparr>],
     sd_uploads = [\<lparr>ul_host = ''h1'', ul_current = True, ul_source = 1, ul_system_type = 105\<rparr>], sd_next = 4\<rparr>"

lemma sx_db_wf: "sat_wf sx_db"
  by (simp add: sat_wf_def rules_wf_def sx_db_def sx_api_def apx_db_def apx_rule_def apx_hostrow_def sx_plan_def sx_action_def)

definition sx_caller :: "json \<Rightarrow> query_params \<Rightarrow> api_request" where
  "sx_caller account query = (apx_caller None query)\<lparr>aq_request := (apx_request None)\<lparr>rq_account := Some account\<rparr>\<rparr>"

definition sx_input :: "string \<Rightarrow> plan_input" where
  "sx_input i = \<lparr>pin_name = ''new'', pin_description = None, pin_start = None, pin_end = None, pin_hidden = None,
     pin_add = [\<lparr>na_rule = ''r1'', na_system = Some i\<rparr>]\<rparr>"

definition sx_edit :: plan_edit where
  "sx_edit = \<lparr>ped_name = None, ped_description = None, ped_start = None, ped_end = None, ped_silenced = Some True,
     ped_hidden = None, ped_delete = Some [2], ped_actions = None,
     ped_add = Some [\<lparr>na_rule = ''r2'', na_system = Some ''h1''\<rparr>]\<rparr>"

lemma plan_tables_stay_well_formed_witness:
  "sat_wf (snd (plan_create sx_env (sx_caller (JStr ''acct'') [(''branch_id'', [''b''])]) (Some (sx_input ''h3'')) sx_db))"
  using plan_tables_stay_well_formed [OF sx_db_wf] by blast

lemma sx_update: "case plan_update sx_env (sx_caller (JStr ''acct'') [(''branch_id'', [''b''])]) ''1'' (Some sx_edit) sx_db of
   (Inl _, _) \<Rightarrow> False | (Inr _, t) \<Rightarrow> map (\<lambda>a. (sa_rule a, sa_host a)) (sd_actions t) = [(1, ''h2''), (2, ''h1'')]"
  by code_simp

lemma sx_foreign: "case plan_create sx_env (sx_caller JNull [(''branch_id'', [''b''])]) (Some (sx_input ''i9'')) sx_db of
   (Inl _, _) \<Rightarrow> False | (Inr i, t) \<Rightarrow> i = 4 \<and> (case plan_retrieve sx_env (sx_caller JNull [(''accept'', [''csv''])]) ''4'' t of
     Inr (Inr ls) \<Rightarrow> map pl_name ls = [Some ''secret''] | _ \<Rightarrow> False)"
  by code_simp

lemma sx_issues: "case plan_issues sx_env sx_db 1 of Inl _ \<Rightarrow> False | Inr is \<Rightarrow> map iss_hosts is = [[''h1'', ''h1'', ''h2'', ''h2'']]"
  by code_simp

lemma update_changes_named_actions_witness:
  "\<exists>v t. plan_update sx_env (sx_caller (JStr ''acct'') [(''branch_id'', [''b''])]) ''1'' (Some sx_edit) sx_db = (Inr v, t) \<and>
     sp_silenced (pv_plan v) \<and>
     (\<exists>new. sd_actions t = sx_action 3 1 ''h2'' # new \<and> length new = 1 \<and> filter (\<lambda>a. sa_rule a \<noteq> 2) new = [])"
proof -
  let ?ar = "sx_caller (JStr ''acct'') [(''branch_id'', [''b''])]"
  obtain v t where run: "plan_update sx_env ?ar ''1'' (Some sx_edit) sx_db = (Inr v, t)"
    and two: "map (\<lambda>a. (sa_rule a, sa_host a)) (sd_actions t) = [(1, ''h2''), (2, ''h1'')]"
    using sx_update by (auto split: prod.splits sum.splits)
  obtain p new where p: "get_plan sx_env ?ar ''1'' sx_db = Inr p" and v: "pv_plan v = edit_plan sx_edit p"
    and new: "sd_actions t = filter (\<lambda>a. sa_plan a = sp_id p \<longrightarrow> kept_by sx_edit a) (sd_actions sx_db) @ new"
    using update_changes_named_actions [OF run] by blast
  have "get_plan sx_env ?ar ''1'' sx_db = Inr sx_plan" by code_simp
  then have "p = sx_plan" using p by simp
  then have "sd_actions t = sx_action 3 1 ''h2'' # new"
    using new by (simp add: sx_db_def sx_plan_def sx_edit_def sx_action_def kept_by_def)
  moreover have "length new = 1 \<and> filter (\<lambda>a. sa_rule a \<noteq> 2) new = []"
    using two calculation by (auto simp: sx_action_def)
  ultimately show ?thesis using run v by (auto simp: edit_plan_def sx_edit_def given_or_def)
qed

lemma playbook_repeats_hosts_witness:
  "\<exists>issues i. plan_issues sx_env sx_db 1 = Inr issues \<and> i \<in> set issues \<and> iss_rule i = ''advisor:r1'' \<and>
     count_list (iss_hosts i) ''h1'' = 2"
proof -
  obtain issues where issues: "plan_issues sx_env sx_db 1 = Inr issues"
    using sx_issues by (auto split: sum.splits)
  have a: "sx_action 2 1 ''h1'' \<in> set (plan_actions sx_db 1)"
    by (simp add: plan_actions_def sx_db_def sx_action_def)
  have u: "rule_with_pk (sd_api sx_db) (sa_rule (sx_action 2 1 ''h1'')) = Some (apx_rule 1 ''r1'')"
    by (simp add: rule_with_pk_def sx_db_def sx_api_def apx_db_def apx_rule_def sx_action_def)
  have two: "length (playbooks_of sx_db (ar_pk (apx_rule 1 ''r1''))) = 2"
    by (simp add: playbooks_of_def resolutions_of_def sx_db_def apx_rule_def)
  then have some: "playbooks_of sx_db (ar_pk (apx_rule 1 ''r1'')) \<noteq> []" by auto
  have active: "ar_active (apx_rule 1 ''r1'')" by (simp add: apx_rule_def)
  from playbook_repeats_hosts [OF sx_db_wf issues a u active some] obtain i where "i \<in> set issues"
    "iss_rule i = ''advisor:'' @ ar_rule_id (apx_rule 1 ''r1'')" "count_list (iss_hosts i) (sa_host (sx_action 2 1 ''h1'')) = 2"
    using two by auto
  then show ?thesis using issues by (auto simp: apx_rule_def sx_action_def)
qed

lemma foreign_host_in_plan_witness:
  "\<exists>t lines l. plan_create sx_env (sx_caller JNull [(''branch_id'', [''b''])]) (Some (sx_input ''i9'')) sx_db = (Inr 4, t) \<and>
     plan_retrieve sx_env (sx_caller JNull [(''accept'', [''csv''])]) ''4'' t = Inr (Inr lines) \<and>
     l \<in> set lines \<and> pl_name l = Some ''secret''"
proof -
  let ?ar = "sx_caller JNull [(''branch_id'', [''b''])]" and ?ar2 = "sx_caller JNull [(''accept'', [''csv''])]"
  let ?h = "\<lparr>ih_id = ''g'', ih_org = ''p'', ih_stale = Some 20, ih_account = None, ih_insights = ''i9'', ih_name = ''secret''\<rparr>"
  obtain t lines where run: "plan_create sx_env ?ar (Some (sx_input ''i9'')) sx_db = (Inr 4, t)"
    and lines: "plan_retrieve sx_env ?ar2 ''4'' t = Inr (Inr lines)"
    using sx_foreign by (auto split: prod.splits sum.splits)
  have org: "request_to_org (aq_request ?ar) = Inr (JStr ''o'')" "account_of (se_api sx_env) (aq_request ?ar) = Inr None"
    by code_simp+
  have h: "host_inventory (sd_api sx_db) ''g'' = Some ?h"
    by (simp add: host_inventory_def hostrow_of_def inventory_of_def sx_db_def sx_api_def apx_db_def apx_hostrow_def apx_host_def)
  have other: "ih_org k \<noteq> ''o''" if "k \<in> set (ad_inventory (sd_api sx_db))" "ih_id k = ''g''" for k
    using that by (auto simp: sx_db_def sx_api_def apx_db_def apx_host_def)
  have u: "find_rule (ar_rule_id (apx_rule 1 ''r1'')) (sd_api sx_db) = Some (apx_rule 1 ''r1'')"
    by (simp add: find_rule_def sx_db_def sx_api_def apx_db_def apx_rule_def)
  have pin: "pin_add (sx_input ''i9'') = [\<lparr>na_rule = ar_rule_id (apx_rule 1 ''r1''), na_system = Some (ih_insights ?h)\<rparr>]"
    by (simp add: sx_input_def apx_rule_def)
  have active: "ar_active (apx_rule 1 ''r1'')" by (simp add: apx_rule_def)
  have pk: "pk_of ''4'' = Inr (int 4)" by code_simp
  have none: "ih_account ?h = None" by simp
  from foreign_host_in_plan [OF sx_db_wf org h none other run pin u active pk lines] obtain l
    where "l \<in> set lines" "pl_name l = Some (ih_name ?h)"
    by blast
  then show ?thesis using run lines by (intro exI [of _ t] exI [of _ lines] exI [of _ l]) simp
qed

end
