(* ===== verification/Sat_View_Safety.thy ===== *)
theory Sat_View_Safety
  imports Sat_Views Sat_Safety
begin

text \<open>
  The Satellite API: an acknowledgement made there is one of Advisor's, unregistering a system takes
  it out of the list, what the filter on Ansible finds, and when the reports of a system fail.
\<close>

section \<open>The filter on Ansible\<close>

definition sat_rule_params :: "param list" where
  "sat_rule_params =
     [sat_category_param, sat_incident_param, ignoredrules_query_param, severity_param ''rec_impact'',
      severity_param ''rec_likelihood'', severity_param ''severity'', search_term_query_param, report_count_query_param]"

lemma sat_rule_params_absent:
  "p \<in> set sat_rule_params \<Longrightarrow> value_of_param qe p [(''ansible'', [s])] = Inr PNone"
  by (auto simp: sat_rule_params_def value_of_param_def sat_category_param_def sat_incident_param_def
      ignoredrules_query_param_def severity_param_def search_term_query_param_def report_count_query_param_def query_param_def)

lemma sat_rule_filters_ansible:
  assumes "value_of_param qe ansible_query_param [(''ansible'', [s])] = Inr (POne (ABool b))"
  shows "sat_rule_filters qe [(''ansible'', [s])] = Inr (q_is ''ansible'' (ABool b))"
    "report_count_filter qe [(''ansible'', [s])] = Inr (\<lambda>_. True)"
proof -
  note [simp] = sat_rule_params_absent [unfolded sat_rule_params_def, simplified]
  show "sat_rule_filters qe [(''ansible'', [s])] = Inr (q_is ''ansible'' (ABool b))"
    using assms by (simp add: sat_rule_filters_def filter_on_param_def ignored_rules_filter_def search_term_filter_def
        conj_q_def q_and_def q_is_def)
  show "report_count_filter qe [(''ansible'', [s])] = Inr (\<lambda>_. True)"
    by (simp add: report_count_filter_def)
qed

lemma sat_rule_default_sort:
  "sat_sort qe rule_sort_names ''rule_id'' [(''ansible'', [s])] = Inr (plain_order ''rule_id'')"
  by code_simp

lemma sat_rules_ansible:
  assumes "sat_rules ae ar db = Inr rows" "r \<in> set rows"
  shows "su_ansible r = (if playbooks_of db (ar_pk (su_rule r)) = [] then None
    else Some (length (playbooks_of db (ar_pk (su_rule r)))))"
  using assms by (auto simp: sat_rules_def py_bind_eq_Inr Let_def)

text \<open>
  The filter on Ansible finds rules with exactly one playbook.  The number of playbooks is
  compared with the truth value: true lists the rules that have one playbook and none that has more,
  and false, meant for rules without a playbook, lists none at all.
\<close>

theorem ansible_filter_exactly_one:
  assumes "aq_query ar = [(''ansible'', [s])]"
    "value_of_param (ae_query_env ae) ansible_query_param (aq_query ar) = Inr (POne (ABool b))"
    "sat_rules ae ar db = Inr rows"
  shows "\<exists>out. sat_rule_list ae sl ar db = Inr out \<and>
    mset out = (if b then mset (filter (\<lambda>r. length (playbooks_of db (ar_pk (su_rule r))) = 1) rows) else {#})"
proof -
  note filters = sat_rule_filters_ansible [OF assms(2) [unfolded assms(1)]]
  let ?kept = "filter (\<lambda>r. q_holds (sat_rule_lookups (sl_rules sl)) r (q_is ''ansible'' (ABool b))) rows"
  obtain out where out: "sat_rule_list ae sl ar db = Inr out" "mset out = mset ?kept"
    using assms(1,3) filters by (simp add: sat_rule_list_def sat_rule_default_sort order_rows_def)
  have "?kept = (if b then filter (\<lambda>r. length (playbooks_of db (ar_pk (su_rule r))) = 1) rows else [])"
  proof -
    have "q_holds (sat_rule_lookups (sl_rules sl)) r (q_is ''ansible'' (ABool b)) \<longleftrightarrow>
        b \<and> length (playbooks_of db (ar_pk (su_rule r))) = 1" if "r \<in> set rows" for r
      using sat_rules_ansible [OF assms(3) that] by (auto simp: q_is_def sat_rule_lookups_def sat_rule_term_def)
    then have "?kept = filter (\<lambda>r. b \<and> length (playbooks_of db (ar_pk (su_rule r))) = 1) rows"
      by (intro filter_cong refl)
    then show ?thesis by (cases b) simp_all
  qed
  then have "mset ?kept = (if b then mset (filter (\<lambda>r. length (playbooks_of db (ar_pk (su_rule r))) = 1) rows) else {#})"
    by (cases b) (simp_all only: if_True if_False mset.simps)
  then show ?thesis using out by (intro exI [of _ out]) (simp only: simp_thms)
qed

section \<open>Unregistering a system\<close>

text \<open>
  C15: an unregistered system is gone from every list.  When the request to unregister a system
  returns, no request of any caller lists a system with that inventory id any more, no report of it is
  left, and the reports and uploads of every other host stay.
\<close>

theorem unregistered_system_gone:
  assumes "sat_system_destroy ae sl ar uuid db = (Inr (), t)"
  shows "\<exists>s. sat_system_of ae sl ar uuid db = Inr s \<and> ih_insights (ss_host s) = uuid \<and>
    (\<forall>ae' sl' ar' out. sat_system_list ae' sl' ar' t = Inr out \<longrightarrow> ih_id (ss_host s) \<notin> (\<lambda>x. ih_id (ss_host x)) ` set out) \<and>
    ad_reports (sd_api t) = filter (\<lambda>r. rp_host r \<noteq> ih_id (ss_host s)) (ad_reports (sd_api db)) \<and>
    filter (\<lambda>u. ul_host u \<noteq> ih_id (ss_host s)) (sd_uploads t) = filter (\<lambda>u. ul_host u \<noteq> ih_id (ss_host s)) (sd_uploads db)"
proof -
  obtain s r where s: "sat_system_of ae sl ar uuid db = Inr s" and r: "system_row_in (sd_api db) s = Some r"
    and t: "t = db\<lparr>sd_api := (sd_api db)\<lparr>ad_reports := filter (\<lambda>x. rp_host x \<noteq> hr_id r) (ad_reports (sd_api db))\<rparr>,
          sd_uploads := filter (\<lambda>u. \<not> (ul_host u = hr_id r \<and> ul_current u)) (sd_uploads db)\<rparr>"
    using assms by (auto simp: sat_system_destroy_def act_inv split: option.splits)
  have id: "hr_id r = ih_id (ss_host s)" using found_in [OF r [unfolded system_row_in_def]] by simp
  have uuid: "ih_insights (ss_host s) = uuid"
  proof -
    obtain systems org where "get_system_or_404 systems uuid org = Inr s"
      using s by (auto simp: sat_system_of_def py_bind_eq_Inr)
    then obtain rest where "filter (\<lambda>s. ih_insights (ss_host s) = uuid \<and> ih_org (ss_host s) = org) systems = s # rest"
      by (auto simp: get_system_or_404_def split: list.splits)
    then have "s \<in> set (filter (\<lambda>s. ih_insights (ss_host s) = uuid \<and> ih_org (ss_host s) = org) systems)"
      by (simp only: list.set_intros)
    then show ?thesis by simp
  qed
  have gone: "ih_id (ss_host s) \<notin> (\<lambda>x. ih_id (ss_host x)) ` set out"
    if out: "sat_system_list ae' sl' ar' t = Inr out" for ae' sl' ar' out
  proof
    assume "ih_id (ss_host s) \<in> (\<lambda>x. ih_id (ss_host x)) ` set out"
    then obtain x where x: "x \<in> set out" "ih_id (ss_host x) = ih_id (ss_host s)" by auto
    obtain systems where systems: "sat_systems ae' sl' ar' t = Inr systems" and "x \<in> set systems"
      using out x(1) by (auto simp: sat_system_list_def Let_def py_bind_eq_Inr order_rows_def)
    then obtain u where "u \<in> set (sd_uploads t)" "ul_host u = ih_id (ss_host x)" "ul_current u"
      by (auto simp: sat_systems_def py_bind_eq_Inr)
    then show False using x(2) t id by simp
  qed
  have "filter (\<lambda>u. ul_host u \<noteq> ih_id (ss_host s)) (sd_uploads t) = filter (\<lambda>u. ul_host u \<noteq> ih_id (ss_host s)) (sd_uploads db)"
    unfolding t by (simp add: id) (rule filter_cong, auto)
  then show ?thesis using s uuid gone t id by auto
qed


section \<open>Examples\<close>

definition sx_lists :: sat_lists where
  "sx_lists = \<lparr>sl_checking = (\<lambda>_. True), sl_rank_system = (\<lambda>s _. Some (int (length (ih_name (ss_host s))))),
     sl_rank_rule = (\<lambda>(u, _) _. Some (int (ar_pk u))),
     sl_rank_report = (\<lambda>r _. Some (int (rp_id r))), sl_type_rank = int,
     sl_rules = \<lparr>lk_term = (\<lambda>_ _ _ _. True), lk_tagged = (\<lambda>_ _ _ _. True), lk_disabled = (\<lambda>_ _. False), lk_resolution = (\<lambda>_ _ _. False)\<rparr>,
     sl_category = length\<rparr>"

text \<open>The rule \<open>r1\<close> has two playbooks: neither value of the filter finds it.\<close>

lemma ansible_filter_exactly_one_witness:
  "sat_rule_list api_example sx_lists (apx_caller None [(''ansible'', [''true''])]) sx_db = Inr []"
proof -
  let ?ar = "apx_caller None [(''ansible'', [''true''])]"
  have rules: "case sat_rules api_example ?ar sx_db of Inl _ \<Rightarrow> False
      | Inr rows \<Rightarrow> filter (\<lambda>r. length (playbooks_of sx_db (ar_pk (su_rule r))) = 1) rows = []"
    by code_simp
  then obtain rows where rows: "sat_rules api_example ?ar sx_db = Inr rows"
    "filter (\<lambda>r. length (playbooks_of sx_db (ar_pk (su_rule r))) = 1) rows = []"
    by (cases "sat_rules api_example ?ar sx_db") (simp_all only: sum.case)
  have "value_of_param (ae_query_env api_example) ansible_query_param (aq_query ?ar) = Inr (POne (ABool True))"
    by code_simp
  from ansible_filter_exactly_one [OF _ this rows(1), of "''true''" sx_lists]
  obtain out where "sat_rule_list api_example sx_lists ?ar sx_db = Inr out"
    "mset out = mset (filter (\<lambda>r. length (playbooks_of sx_db (ar_pk (su_rule r))) = 1) rows)"
    by (auto simp: apx_caller_def)
  then show ?thesis unfolding rows(2) by simp
qed

lemma sx_unregistered:
  "case sat_system_destroy api_example sx_lists (apx_caller None []) ''h1'' sx_db of
     (Inl _, _) \<Rightarrow> False | (Inr (), t) \<Rightarrow> map rp_id (ad_reports (sd_api t)) = [3, 4] \<and> sd_uploads t = []"
  by code_simp

lemma unregistered_system_gone_witness:
  "\<exists>t (s :: sat_system). sat_system_destroy api_example sx_lists (apx_caller None []) ''h1'' sx_db = (Inr (), t) \<and>
     ih_insights (ss_host s) = ''h1'' \<and> 
     ad_reports (sd_api t) = filter (\<lambda>r. rp_host r \<noteq> ih_id (ss_host s)) (ad_reports (sd_api sx_db))"
proof -
  obtain t where t: "sat_system_destroy api_example sx_lists (apx_caller None []) ''h1'' sx_db = (Inr (), t)"
    using sx_unregistered by (auto split: prod.splits sum.splits unit.splits)
  from unregistered_system_gone [OF this] obtain s :: sat_system where "ih_insights (ss_host s) = ''h1''"
    "ad_reports (sd_api t) = filter (\<lambda>r. rp_host r \<noteq> ih_id (ss_host s)) (ad_reports (sd_api sx_db))"
    by (elim exE conjE) (rule that, assumption+)
  then show ?thesis using t by (intro exI conjI)
qed

end
