(* ===== verification/Paging.thy ===== *)
theory Paging
  imports Query_Params
begin

text \<open>
  Pages of a list (\<open>api/utils.py\<close>, \<open>sat_compat/utils.py\<close>): the links to the first, next, previous
  and last page, which are rewritten to the path the caller used, and the pages of the Satellite
  API, which count from zero.  What the pagination classes of the REST framework do is an argument
  (\<open>drf\<close>, and the pages a paginator cuts); what is documented of it is \<open>drf_documented\<close>.
\<close>

section \<open>Rewriting a link\<close>

text \<open>\<open>str.index\<close>; \<open>None\<close> where it raises \<open>ValueError\<close>.\<close>

fun text_index :: "string \<Rightarrow> string \<Rightarrow> nat option" where
  "text_index v [] = (if v = [] then Some 0 else None)"
| "text_index v (c # s) = (if prefix v (c # s) then Some 0 else map_option Suc (text_index v s))"

record view_request =
  vr_url :: string                  \<comment> \<open>\<open>build_absolute_uri()\<close>\<close>
  vr_path :: "string option"        \<comment> \<open>\<open>PATH_INFO\<close>\<close>
  vr_version :: string              \<comment> \<open>\<open>settings.API_VERSION\<close>\<close>

definition version_text :: "view_request \<Rightarrow> string" where
  "version_text vr = ''v'' @ vr_version vr @ ''/''"

definition link_rewrite :: "view_request \<Rightarrow> string \<Rightarrow> string" where
  "link_rewrite vr link =
     (case vr_path vr of
        None \<Rightarrow> link
      | Some path \<Rightarrow>
          (case (text_index (version_text vr) link, text_index (version_text vr) path) of
             (Some local_api_index, Some path_api_index) \<Rightarrow> take path_api_index path @ drop local_api_index link
           | _ \<Rightarrow> link))"

section \<open>Pages by limit and offset\<close>

text \<open>
  The base class: the limit and offset it reads from the query of a URL, the page it cuts, and its
  own links to the next and previous page; and the replacement of a parameter in a URL.
\<close>

record 'row drf =
  dr_asks :: "string \<Rightarrow> nat \<times> nat"
  dr_paginate :: "string \<Rightarrow> 'row list \<Rightarrow> 'row list option"
  dr_next :: "string \<Rightarrow> nat \<Rightarrow> string option"             \<comment> \<open>of a URL and the number of rows\<close>
  dr_previous :: "string \<Rightarrow> nat \<Rightarrow> string option"
  dr_replace :: "string \<Rightarrow> string \<Rightarrow> nat \<Rightarrow> string"

definition get_first_link :: "'row drf \<Rightarrow> view_request \<Rightarrow> string" where
  "get_first_link d vr =
     link_rewrite vr (dr_replace d (dr_replace d (vr_url vr) ''offset'' 0) ''limit'' (fst (dr_asks d (vr_url vr))))"

definition get_last_link :: "'row drf \<Rightarrow> view_request \<Rightarrow> nat \<Rightarrow> string" where
  "get_last_link d vr count =
     (let limit = fst (dr_asks d (vr_url vr)); offset = (if count \<ge> limit then count - limit else 0) in
      link_rewrite vr (dr_replace d (dr_replace d (vr_url vr) ''offset'' offset) ''limit'' limit))"

definition get_next_link :: "'row drf \<Rightarrow> view_request \<Rightarrow> nat \<Rightarrow> string" where
  "get_next_link d vr count =
     (case dr_next d (vr_url vr) count of
        None \<Rightarrow> get_last_link d vr count
      | Some link \<Rightarrow> link_rewrite vr link)"

definition get_previous_link :: "'row drf \<Rightarrow> view_request \<Rightarrow> nat \<Rightarrow> string" where
  "get_previous_link d vr count =
     (case dr_previous d (vr_url vr) count of
        None \<Rightarrow> get_first_link d vr
      | Some link \<Rightarrow> link_rewrite vr link)"

record 'v page_response =
  pr_count :: nat
  pr_first :: string
  pr_next :: string
  pr_prev :: string
  pr_last :: string
  pr_data :: "'v list"

definition get_paginated_response :: "'row drf \<Rightarrow> view_request \<Rightarrow> nat \<Rightarrow> 'v list \<Rightarrow> 'v page_response" where
  "get_paginated_response d vr count shown =
     \<lparr>pr_count = count, pr_first = get_first_link d vr, pr_next = get_next_link d vr count,
      pr_prev = get_previous_link d vr count, pr_last = get_last_link d vr count, pr_data = shown\<rparr>"

text \<open>
  \<open>_paginated_response\<close>: the page or, where pagination is not configured, all rows; an annotator
  changes the rows of a page, and needs the request.
\<close>

definition paginated_response ::
  "'row drf \<Rightarrow> view_request \<Rightarrow> bool \<Rightarrow> ('row list \<Rightarrow> 'row list py) option \<Rightarrow> ('row \<Rightarrow> 'v) \<Rightarrow> 'row list \<Rightarrow>
     ('v page_response + 'v list) py" where
  "paginated_response d vr has_request annotate serialize rows =
     (let page = dr_paginate d (vr_url vr) rows in
      if annotate \<noteq> None \<and> \<not> has_request then Inl AssertionError
      else case page of
        None \<Rightarrow> Inr (Inr (map serialize rows))
      | Some rs \<Rightarrow>
          py_bind (case annotate of None \<Rightarrow> Inr rs | Some f \<Rightarrow> f rs) (\<lambda>rs.
            Inr (Inl (get_paginated_response d vr (length rows) (map serialize rs)))))"

section \<open>Pages of the Satellite API\<close>

text \<open>
  \<open>ClassicPageNumberPagination\<close>: the page size the base class reads, and the pages the paginator
  cuts.  Pages count from zero; \<open>last\<close> is the number of pages, to which one is then added.
\<close>

definition classic_page ::
  "(nat \<Rightarrow> 'row list \<Rightarrow> 'row list list) \<Rightarrow> nat option \<Rightarrow> string option \<Rightarrow> 'row list \<Rightarrow> 'row list option py" where
  "classic_page pages page_size page rows =
     (case page_size of
        None \<Rightarrow> Inr None
      | Some k \<Rightarrow>
          if k = 0 then Inr None
          else
            (let ps = pages k rows in
             py_bind (case page of
                None \<Rightarrow> Inr 0
              | Some s \<Rightarrow>
                  if s = ''last'' then Inr (int (length ps))
                  else case py_int s of None \<Rightarrow> Inl ValueError | Some i \<Rightarrow> Inr i) (\<lambda>i.
               let page_number = i + 1 in
               if 1 \<le> page_number \<and> page_number \<le> int (length ps) then Inr (Some (ps ! nat (page_number - 1)))
               else Inl Http404)))"

text \<open>The total is that of all rows; without pages the rows are the answer.\<close>

definition classic_response ::
  "(nat \<Rightarrow> 'row list \<Rightarrow> 'row list list) \<Rightarrow> nat option \<Rightarrow> string option \<Rightarrow> 'row list \<Rightarrow> (nat \<times> 'row list + 'row list) py" where
  "classic_response pages page_size page rows =
     py_bind (classic_page pages page_size page rows) (\<lambda>p. case p of
        None \<Rightarrow> Inr (Inr rows)
      | Some rs \<Rightarrow> Inr (Inl (length rows, rs)))"

definition fake_response :: "'row list \<Rightarrow> nat \<times> 'row list" where
  "fake_response rows = (length rows, rows)"

end
