(* ===== verification/Paging_Safety.thy ===== *)
theory Paging_Safety
  imports Paging
begin

text \<open>
  Walking the pages of a list: rewriting a link keeps what it asks for and is done once only, the
  links to the next page lead through the whole list and then stay on its last rows, and the pages of
  the Satellite API are those of the paginator, counted from zero, of which \<open>last\<close> is none.
\<close>

section \<open>Finding a text\<close>

lemma text_index_Some:
  "text_index v s = Some i \<Longrightarrow> i \<le> length s \<and> prefix v (drop i s)"
proof (induction s arbitrary: i)
  case Nil
  then show ?case by (auto split: if_splits)
next
  case (Cons c s)
  show ?case
  proof (cases "prefix v (c # s)")
    case True
    then show ?thesis using Cons.prems by auto
  next
    case False
    then obtain j where "text_index v s = Some j" "i = Suc j" using Cons.prems by auto
    then show ?thesis using Cons.IH by simp
  qed
qed

lemma text_index_least: "text_index v s = Some i \<Longrightarrow> j < i \<Longrightarrow> \<not> prefix v (drop j s)"
proof (induction s arbitrary: i j)
  case (Cons c s)
  then show ?case by (cases j) (auto split: if_splits)
qed (auto split: if_splits)

lemma text_index_eq:
  assumes "i \<le> length s" "prefix v (drop i s)" "\<And>j. j < i \<Longrightarrow> \<not> prefix v (drop j s)"
  shows "text_index v s = Some i"
  using assms
proof (induction s arbitrary: i)
  case (Cons c s)
  show ?case
  proof (cases i)
    case 0
    then show ?thesis using Cons.prems by simp
  next
    case (Suc k)
    have "text_index v s = Some k"
      using Cons.prems(1,2) Suc by (intro Cons.IH) (use Cons.prems(3) [of "Suc _"] Suc in auto)
    moreover have "\<not> prefix v (c # s)" using Cons.prems(3) [of 0] Suc by simp
    ultimately show ?thesis using Suc by simp
  qed
qed simp

lemma prefix_take: "prefix v s \<Longrightarrow> length v \<le> n \<Longrightarrow> prefix v (take n s)"
  by (auto simp: prefix_def)

text \<open>What stands before the place and the text itself decide where it is found.\<close>

lemma text_index_take:
  assumes "text_index v s = Some i" "prefix v r"
  shows "text_index v (take i s @ r) = Some i"
proof (rule text_index_eq)
  note found = text_index_Some [OF assms(1)]
  show "i \<le> length (take i s @ r)" "prefix v (drop i (take i s @ r))"
    using found assms(2) by simp_all
  fix j assume j: "j < i"
  obtain r' where r: "r = v @ r'" using assms(2) by (auto simp: prefix_def)
  obtain s' where s: "drop i s = v @ s'" using found by (auto simp: prefix_def)
  show "\<not> prefix v (drop j (take i s @ r))"
  proof
    assume "prefix v (drop j (take i s @ r))"
    then have "prefix v (take (length v) (drop j (take i s @ r)))" by (rule prefix_take) simp
    moreover have "take (length v) (drop j (take i s @ r)) = take (length v) (drop j s)"
    proof -
      have "drop j s = drop j (take i s) @ v @ s'"
        using j found s by (metis append_take_drop_id drop_append diff_is_0_eq' drop0 length_take less_imp_le min.absorb2)
      then show ?thesis using j found by (simp add: r)
    qed
    ultimately have "prefix v (drop j s)"
      by (metis prefix_order.trans take_is_prefix)
    then show False using text_index_least [OF assms(1) j] by simp
  qed
qed

section \<open>Rewriting\<close>

text \<open>Rewriting a link a second time changes nothing.\<close>

theorem link_rewrite_once: "link_rewrite vr (link_rewrite vr link) = link_rewrite vr link"
proof (cases "vr_path vr")
  case (Some path)
  show ?thesis
  proof (cases "text_index (version_text vr) link")
    case None
    then show ?thesis using Some by (simp add: link_rewrite_def)
  next
    case l: (Some i)
    show ?thesis
    proof (cases "text_index (version_text vr) path")
      case None
      then show ?thesis using Some l by (simp add: link_rewrite_def)
    next
      case p: (Some j)
      have "text_index (version_text vr) (take j path @ drop i link) = Some j"
        using text_index_take [OF p] text_index_Some [OF l] by simp
      then show ?thesis using Some l p text_index_Some [OF p] by (simp add: link_rewrite_def)
    qed
  qed
qed (simp add: link_rewrite_def)

text \<open>What a URL asks for stands after its question mark.\<close>

definition query_text :: "string \<Rightarrow> string" where
  "query_text url = dropWhile (\<lambda>c. c \<noteq> CHR ''?'') url"

definition base_text :: "string \<Rightarrow> string" where
  "base_text url = takeWhile (\<lambda>c. c \<noteq> CHR ''?'') url"

lemma base_query: "base_text url @ query_text url = url"
  by (simp add: base_text_def query_text_def)

lemma query_text_append: "CHR ''?'' \<notin> set a \<Longrightarrow> query_text (a @ b) = query_text b"
  unfolding query_text_def by (rule dropWhile_append2) auto

lemma text_index_append: "text_index v a = Some i \<Longrightarrow> text_index v (a @ b) = Some i"
proof (rule text_index_eq)
  assume i: "text_index v a = Some i"
  note found = text_index_Some [OF i]
  then show "i \<le> length (a @ b)" "prefix v (drop i (a @ b))" by (auto simp: prefix_def)
  fix j assume j: "j < i"
  have "length v \<le> length (drop j a)"
    using found j prefix_length_le [of v "drop i a"] by simp
  moreover have "drop j (a @ b) = drop j a @ b" using j found by simp
  ultimately have "prefix v (drop j (a @ b)) \<Longrightarrow> prefix v (drop j a)"
    by (auto simp: prefix_append dest: prefix_length_le)
  then show "\<not> prefix v (drop j (a @ b))" using text_index_least [OF i j] by blast
qed

lemma query_text_idem [simp]: "query_text (query_text u) = query_text u"
  unfolding query_text_def by (induction u) auto

lemma base_text_no_mark: "CHR ''?'' \<notin> set (base_text u)"
  unfolding base_text_def by (auto dest: set_takeWhileD)

text \<open>A request whose path and URL have the version before any question mark.\<close>

definition versioned :: "view_request \<Rightarrow> string \<Rightarrow> bool" where
  "versioned vr base \<longleftrightarrow> text_index (version_text vr) base \<noteq> None \<and>
     (case vr_path vr of None \<Rightarrow> True | Some path \<Rightarrow> CHR ''?'' \<notin> set path)"

lemma rewrite_keeps_query:
  assumes "versioned vr (base_text link)"
  shows "query_text (link_rewrite vr link) = query_text link"
proof -
  obtain i where i: "text_index (version_text vr) (base_text link) = Some i"
    using assms by (auto simp: versioned_def)
  then have l: "text_index (version_text vr) link = Some i"
    using text_index_append [OF i, of "query_text link"] by (simp only: base_query)
  have "i \<le> length (base_text link)" using text_index_Some [OF i] by simp
  then have "drop i link = drop i (base_text link) @ query_text link"
    by (metis base_query drop_append diff_is_0_eq' drop0)
  moreover have "CHR ''?'' \<notin> set (drop i (base_text link))"
    using base_text_no_mark in_set_dropD by fast
  ultimately have "query_text (take j path @ drop i link) = query_text link"
    if "CHR ''?'' \<notin> set path" for j path
    using that by (metis in_set_takeD query_text_append query_text_idem)
  then show ?thesis using assms l by (auto simp: link_rewrite_def versioned_def split: option.splits)
qed


section \<open>Walking through the pages\<close>

text \<open>
  What is documented of \<open>LimitOffsetPagination\<close>: a limit between 1 and \<open>max_limit\<close>, the slice it
  cuts, the next link as long as there are rows after the page; and of replacing a parameter, that
  it changes nothing but what the URL asks for.
\<close>

definition drf_documented :: "'row drf \<Rightarrow> bool" where
  "drf_documented d \<longleftrightarrow>
     (\<forall>url. 0 < fst (dr_asks d url) \<and> fst (dr_asks d url) \<le> 1000) \<and>
     (\<forall>url url'. query_text url = query_text url' \<longrightarrow> dr_asks d url = dr_asks d url') \<and>
     (\<forall>url k n. base_text (dr_replace d url k n) = base_text url) \<and>
     (\<forall>url l n. 0 < l \<and> l \<le> 1000 \<longrightarrow>
        dr_asks d (dr_replace d (dr_replace d url ''offset'' n) ''limit'' l) = (l, n) \<and>
        dr_asks d (dr_replace d (dr_replace d url ''limit'' l) ''offset'' n) = (l, n)) \<and>
     (\<forall>url rows. dr_paginate d url rows =
        (let (l, n) = dr_asks d url in Some (take l (drop n rows)))) \<and>
     (\<forall>url count. dr_next d url count =
        (let (l, n) = dr_asks d url in
         if n + l \<ge> count then None
         else Some (dr_replace d (dr_replace d url ''limit'' l) ''offset'' (n + l))))"

lemma drf_documentedD:
  assumes "drf_documented d"
  shows "0 < fst (dr_asks d url)" "fst (dr_asks d url) \<le> 1000"
    "query_text u = query_text u' \<Longrightarrow> dr_asks d u = dr_asks d u'"
    "base_text (dr_replace d u k n) = base_text u"
    "dr_asks d u = (l, m) \<Longrightarrow> dr_asks d (dr_replace d (dr_replace d v ''offset'' n) ''limit'' l) = (l, n)"
    "dr_asks d u = (l, m) \<Longrightarrow> dr_asks d (dr_replace d (dr_replace d v ''limit'' l) ''offset'' n) = (l, n)"
    "dr_asks d u = (l, n) \<Longrightarrow> dr_paginate d u rows = Some (take l (drop n rows))"
    "dr_asks d u = (l, n) \<Longrightarrow> dr_next d u count = (if n + l \<ge> count then None
         else Some (dr_replace d (dr_replace d u ''limit'' l) ''offset'' (n + l)))"
proof -
  have size: "\<forall>url. 0 < fst (dr_asks d url) \<and> fst (dr_asks d url) \<le> 1000"
    and query: "\<forall>url url'. query_text url = query_text url' \<longrightarrow> dr_asks d url = dr_asks d url'"
    and base: "\<forall>url k n. base_text (dr_replace d url k n) = base_text url"
    and set: "\<forall>url l n. 0 < l \<and> l \<le> 1000 \<longrightarrow>
        dr_asks d (dr_replace d (dr_replace d url ''offset'' n) ''limit'' l) = (l, n) \<and>
        dr_asks d (dr_replace d (dr_replace d url ''limit'' l) ''offset'' n) = (l, n)"
    and page: "\<forall>url rows. dr_paginate d url rows =
        (let (l, n) = dr_asks d url in Some (take l (drop n rows)))"
    and later: "\<forall>url count. dr_next d url count =
        (let (l, n) = dr_asks d url in
         if n + l \<ge> count then None
         else Some (dr_replace d (dr_replace d url ''limit'' l) ''offset'' (n + l)))"
    using assms unfolding drf_documented_def by - ((elim conjE, assumption)+)
  have limit: "0 < l \<and> l \<le> 1000" if "dr_asks d u = (l, m)"
    using spec [OF size, of u] that by simp
  show "0 < fst (dr_asks d url)" "fst (dr_asks d url) \<le> 1000" using size by simp_all
  show "query_text u = query_text u' \<Longrightarrow> dr_asks d u = dr_asks d u'" using query by blast
  show "base_text (dr_replace d u k n) = base_text u" using base by simp
  show "dr_asks d (dr_replace d (dr_replace d v ''offset'' n) ''limit'' l) = (l, n)"
    "dr_asks d (dr_replace d (dr_replace d v ''limit'' l) ''offset'' n) = (l, n)" if "dr_asks d u = (l, m)"
    using mp [OF spec [OF spec [OF spec [OF set, of v], of l], of n] limit [OF that]] by - ((elim conjE, assumption)+)
  show "dr_asks d u = (l, n) \<Longrightarrow> dr_paginate d u rows = Some (take l (drop n rows))"
    using spec [OF spec [OF page, of u], of rows] by simp
  show "dr_asks d u = (l, n) \<Longrightarrow> dr_next d u count = (if n + l \<ge> count then None
         else Some (dr_replace d (dr_replace d u ''limit'' l) ''offset'' (n + l)))"
    using spec [OF spec [OF later, of u], of count] by simp
qed

text \<open>What the next link asks for.\<close>

definition next_offset :: "nat \<Rightarrow> nat \<Rightarrow> nat \<Rightarrow> nat" where
  "next_offset count l n = (if n + l < count then n + l else count - l)"

lemma next_link_asks:
  assumes "drf_documented d" "versioned vr (base_text (vr_url vr))" "dr_asks d (vr_url vr) = (l, n)"
  shows "dr_asks d (get_next_link d vr count) = (l, next_offset count l n)"
proof -
  note doc = drf_documentedD [OF assms(1)]
  have kept: "dr_asks d (link_rewrite vr (dr_replace d (dr_replace d (vr_url vr) j i) k m)) =
      dr_asks d (dr_replace d (dr_replace d (vr_url vr) j i) k m)" for j i k m
    using assms(2) by (intro doc(3) rewrite_keeps_query) (simp add: doc(4))
  show ?thesis
    using doc(5,6) [OF assms(3)] kept
    by (simp add: get_next_link_def get_last_link_def doc(8) [OF assms(3)] assms(3) next_offset_def Let_def)
qed

text \<open>The offset after \<open>n\<close> links.\<close>

definition walk_offset :: "nat \<Rightarrow> nat \<Rightarrow> nat \<Rightarrow> nat" where
  "walk_offset count l n = (if n * l < count then n * l else count - l)"

lemma walk_offset_0 [simp]: "walk_offset count l 0 = 0"
  by (simp add: walk_offset_def)

lemma walk_offset_Suc: "next_offset count l (walk_offset count l n) = walk_offset count l (Suc n)"
proof -
  have "n * l \<le> Suc n * l" by simp
  then show ?thesis by (auto simp: next_offset_def walk_offset_def)
qed

text \<open>Cutting a list into pages.\<close>

lemma pages_concat:
  "concat (map (\<lambda>i. take l (drop (i * l) xs)) [0..<n]) = take (n * l) xs"
proof (induction n)
  case (Suc n)
  then show ?case using take_add [of "n * l" l xs] by (simp add: add.commute)
qed simp

text \<open>A client that follows the next links: each request asks what the link of the one before asks.\<close>

definition walks :: "'row drf \<Rightarrow> (nat \<Rightarrow> view_request) \<Rightarrow> nat \<Rightarrow> bool" where
  "walks d req count \<longleftrightarrow>
     (\<forall>n. versioned (req n) (base_text (vr_url (req n))) \<and>
        query_text (vr_url (req (Suc n))) = query_text (get_next_link d (req n) count))"

lemma walk_asks:
  assumes "drf_documented d" "walks d req count" "dr_asks d (vr_url (req 0)) = (l, 0)"
  shows "dr_asks d (vr_url (req n)) = (l, walk_offset count l n)"
proof (induction n)
  case (Suc n)
  have "dr_asks d (get_next_link d (req n) count) = (l, walk_offset count l (Suc n))"
    using next_link_asks [OF assms(1) _ Suc] assms(2) by (simp add: walks_def walk_offset_Suc)
  then show ?case
    using drf_documentedD(3) [OF assms(1), of "vr_url (req (Suc n))" "get_next_link d (req n) count"] assms(2)
    by (simp add: walks_def)
qed (use assms(3) in simp)

text \<open>
  C12: following the next links reads the whole list and never ends.  A client that starts at the
  first page and follows each next link gets, in the first \<open>\<lceil>count / limit\<rceil>\<close> pages, every row once
  and in order; the link of the last page leads to the last \<open>limit\<close> rows, and every later link to
  the same rows again: the next link is never null.
\<close>

theorem next_links_read_list:
  assumes "drf_documented d" "walks d req (length rows)" "dr_asks d (vr_url (req 0)) = (l, 0)"
  shows "(\<exists>page. (\<forall>n. \<exists>p. paginated_response d (req n) has None f rows = Inr (Inl p) \<and> pr_data p = page n) \<and>
    concat (map page [0..<(length rows + l - 1) div l]) = map f rows \<and>
    (\<forall>n \<ge> (length rows + l - 1) div l. page n = map f (drop (length rows - l) rows)))"
proof -
  let ?count = "length rows" and ?page = "\<lambda>n. map f (take l (drop (walk_offset (length rows) l n) rows))"
  let ?pages = "(?count + l - 1) div l"
  have l: "0 < l" using drf_documentedD(1) [OF assms(1), of "vr_url (req 0)"] assms(3) by simp
  have each: "\<exists>p. paginated_response d (req n) has None f rows = Inr (Inl p) \<and> pr_data p = ?page n" for n
    using drf_documentedD(7) [OF assms(1) walk_asks [OF assms]]
    by (simp add: paginated_response_def get_paginated_response_def)
  have before: "n * l < ?count \<longleftrightarrow> n < ?pages" for n
  proof -
    have "n < ?pages \<longleftrightarrow> Suc n * l \<le> ?count + l - 1"
      using l by (simp only: Suc_le_eq [symmetric] less_eq_div_iff_mult_less_eq)
    then show ?thesis using l by (auto simp: algebra_simps)
  qed
  have "map ?page [0..<?pages] = map (map f \<circ> (\<lambda>i. take l (drop (i * l) rows))) [0..<?pages]"
    using before by (intro map_cong) (auto simp: walk_offset_def)
  then have "concat (map ?page [0..<?pages]) = map f (concat (map (\<lambda>i. take l (drop (i * l) rows)) [0..<?pages]))"
    by (simp only: map_concat map_map)
  also have "\<dots> = map f (take (?pages * l) rows)" by (simp only: pages_concat)
  also have "take (?pages * l) rows = rows"
    using before [of ?pages] by (intro take_all) (simp add: not_less)
  finally have whole: "concat (map ?page [0..<?pages]) = map f rows" .
  have after: "?page n = map f (drop (?count - l) rows)" if "n \<ge> ?pages" for n
    using before [of n] that by (simp add: walk_offset_def)
  show ?thesis using each whole after by (intro exI [of _ ?page]) blast
qed


section \<open>Pages of the Satellite API\<close>

lemma classic_page_at:
  assumes "0 < k" "s \<noteq> ''last''" "py_int s = Some i"
  shows "classic_response pages (Some k) (Some s) rows =
    (if 0 \<le> i \<and> i < int (length (pages k rows)) then Inr (Inl (length rows, pages k rows ! nat i)) else Inl Http404)"
  using assms by (simp add: classic_response_def classic_page_def Let_def)

lemma classic_page_no_number:
  "0 < k \<Longrightarrow> s \<noteq> ''last'' \<Longrightarrow> py_int s = None \<Longrightarrow> classic_response pages (Some k) (Some s) rows = Inl ValueError"
  by (simp add: classic_response_def classic_page_def Let_def)

text \<open>
  The page named \<open>last\<close> is never found: the number of pages counts from one, and one is added to it.
\<close>

lemma classic_last_page_missing:
  assumes "0 < k"
  shows "classic_response pages (Some k) (Some ''last'') rows = Inl Http404"
  using assms by (simp add: classic_response_def classic_page_def Let_def)

section \<open>Examples\<close>

text \<open>A query that holds the limit and the offset in unary.\<close>

definition px_query :: "string \<Rightarrow> nat \<times> nat" where
  "px_query url = (count_list (query_text url) (CHR ''l''), count_list (query_text url) (CHR ''o''))"

definition px_asks :: "string \<Rightarrow> nat \<times> nat" where
  "px_asks url = (let l = fst (px_query url) in (if 0 < l \<and> l \<le> 1000 then l else 10, snd (px_query url)))"

definition px_replace :: "string \<Rightarrow> string \<Rightarrow> nat \<Rightarrow> string" where
  "px_replace url k n =
     base_text url @ CHR ''?'' #
       (if k = ''limit'' then replicate n (CHR ''l'') @ replicate (snd (px_query url)) (CHR ''o'')
        else replicate (fst (px_query url)) (CHR ''l'') @ replicate n (CHR ''o''))"

definition px_drf :: "'row drf" where
  "px_drf = \<lparr>dr_asks = px_asks,
     dr_paginate = (\<lambda>url rows. let (l, n) = px_asks url in Some (take l (drop n rows))),
     dr_next = (\<lambda>url count. let (l, n) = px_asks url in
        if n + l \<ge> count then None else Some (px_replace (px_replace url ''limit'' l) ''offset'' (n + l))),
     dr_previous = (\<lambda>_ _. None), dr_replace = px_replace\<rparr>"

lemma count_replicate: "count_list (replicate n x) y = (if x = y then n else 0)"
  by (induction n) auto

lemma px_replace_query: "query_text (px_replace url k n) =
    CHR ''?'' # (if k = ''limit'' then replicate n (CHR ''l'') @ replicate (snd (px_query url)) (CHR ''o'')
      else replicate (fst (px_query url)) (CHR ''l'') @ replicate n (CHR ''o''))"
  unfolding px_replace_def using query_text_append [OF base_text_no_mark] by (simp add: query_text_def)

lemma px_replaced: "px_query (px_replace url k n) =
    (if k = ''limit'' then (n, snd (px_query url)) else (fst (px_query url), n))"
  by (simp add: px_query_def [of "px_replace url k n"] px_replace_query count_replicate)

lemma px_asks_cong: "query_text u = query_text u' \<Longrightarrow> px_asks u = px_asks u'"
  by (simp add: px_asks_def px_query_def)

lemma px_replace_base: "base_text (px_replace url k n) = base_text url"
  using base_text_no_mark [of url] unfolding px_replace_def base_text_def
  by (subst takeWhile_append2) auto

lemma px_documented: "drf_documented px_drf"
  unfolding drf_documented_def px_drf_def drf.simps
  by (intro conjI allI impI refl; (erule px_asks_cong | simp add: px_asks_def px_replaced px_replace_base Let_def))

definition px_base :: string where
  "px_base = ''h/v1/r''"

definition px_request :: "nat \<Rightarrow> view_request" where
  "px_request n = \<lparr>vr_url = px_base @ CHR ''?'' # replicate 2 (CHR ''l'') @ replicate (walk_offset 5 2 n) (CHR ''o''),
     vr_path = Some ''/v1/r'', vr_version = ''1''\<rparr>"

lemma px_request_parts:
  "base_text (vr_url (px_request n)) = px_base"
  "query_text (vr_url (px_request n)) = CHR ''?'' # replicate 2 (CHR ''l'') @ replicate (walk_offset 5 2 n) (CHR ''o'')"
  by (simp_all add: px_request_def px_base_def base_text_def query_text_def)

lemma px_versioned: "versioned (px_request n) px_base"
  by (simp add: versioned_def px_request_def version_text_def px_base_def)

lemma px_walks: "walks px_drf px_request 5"
  unfolding walks_def
proof (intro allI conjI)
  fix n
  show "versioned (px_request n) (base_text (vr_url (px_request n)))"
    by (simp only: px_request_parts px_versioned)
  have asks: "px_query (vr_url (px_request n)) = (2, walk_offset 5 2 n)"
    by (simp add: px_query_def px_request_parts count_replicate)
  have kept: "query_text (link_rewrite (px_request n) (px_replace (px_replace (vr_url (px_request n)) j i) k m)) =
      query_text (px_replace (px_replace (vr_url (px_request n)) j i) k m)" for j i k m
    using drf_documentedD(4) [OF px_documented] px_versioned [of n]
    by (intro rewrite_keeps_query) (simp add: px_drf_def px_request_parts)
  show "query_text (vr_url (px_request (Suc n))) = query_text (get_next_link px_drf (px_request n) 5)"
    using kept by (simp add: get_next_link_def get_last_link_def px_drf_def px_asks_def asks px_replaced px_replace_query
        px_request_parts Let_def walk_offset_Suc [symmetric] next_offset_def)
qed

lemma next_links_read_list_witness:
  "\<exists>page. (\<forall>n. \<exists>p. paginated_response px_drf (px_request n) True None id [1, 2, 3, 4, 5 :: nat] = Inr (Inl p) \<and> pr_data p = page n) \<and>
     concat (map page [0, 1, 2]) = [1, 2, 3, 4, 5] \<and> page 3 = [4, 5] \<and> page 9 = [4, 5]"
proof -
  have "dr_asks px_drf (vr_url (px_request 0)) = (2, 0)"
    by (simp add: px_drf_def px_asks_def px_query_def px_request_parts count_replicate)
  moreover have "length [1, 2, 3, 4, 5 :: nat] = 5" by simp
  then have "walks px_drf px_request (length [1, 2, 3, 4, 5 :: nat])" using px_walks by (simp only:)
  ultimately obtain page where page:
    "\<forall>n. \<exists>p. paginated_response px_drf (px_request n) True None id [1, 2, 3, 4, 5 :: nat] = Inr (Inl p) \<and> pr_data p = page n"
    "concat (map page [0..<(length [1, 2, 3, 4, 5 :: nat] + 2 - 1) div 2]) = map id [1, 2, 3, 4, 5]"
    "\<forall>n \<ge> (length [1, 2, 3, 4, 5 :: nat] + 2 - 1) div 2. page n = map id (drop (length [1, 2, 3, 4, 5 :: nat] - 2) [1, 2, 3, 4, 5])"
    using next_links_read_list [OF px_documented] by blast
  have three: "(length [1, 2, 3, 4, 5 :: nat] + 2 - 1) div 2 = 3" by simp
  have upto: "[0..<3] = [0, 1, 2 :: nat]" by code_simp
  have "concat (map page [0, 1, 2]) = [1, 2, 3, 4, 5]"
    using page(2) unfolding three upto list.map_id .
  moreover have "page n = [4, 5]" if "n \<ge> 3" for n
    using page(3) that unfolding three by simp
  ultimately show ?thesis using page(1) by (intro exI [of _ page]) simp
qed

end
