(* ===== verification/Export_Views.thy ===== *)
theory Export_Views
  imports List_Views
begin

text \<open>
  The export views (\<open>api/views/export.py\<close>): the reports, rules and systems of an account as
  downloads.  Rows are turned into text while the answer is being sent, so that an exception cuts
  the answer off; a stream is the pieces sent and the exception that ended it, if one did.  Columns
  that are not in the tables of \<open>api_db\<close>, the CSV renderer and \<open>json.dumps\<close> are arguments.
\<close>

section \<open>Columns\<close>

text \<open>Times are in the form \<open>isoformat\<close> gives; \<open>None\<close> is null.\<close>

record host_columns =
  hc_name :: "string option"
  hc_major :: "int option"
  hc_minor :: "int option"
  hc_os :: "string option"
  hc_stale :: "string option"

record rule_columns =
  rc_description :: string
  rc_node :: string
  rc_likelihood :: nat
  rc_published :: "string option"
  rc_playbooks :: nat

record export_env =
  xe_list :: list_env
  xe_host :: "api_report \<Rightarrow> host_columns"          \<comment> \<open>of the inventory host of the report\<close>
  xe_rule :: "nat \<Rightarrow> rule_columns"
  xe_last_upload :: "string \<Rightarrow> string option"     \<comment> \<open>\<open>checked_on\<close> of the current upload of the host\<close>
  xe_checked :: "api_report \<Rightarrow> string"
  xe_impacted :: "api_report \<Rightarrow> string option"
  xe_details :: "api_report \<Rightarrow> json"
  xe_today :: string

section \<open>Filters\<close>

text \<open>Filters written for this view, on reports; a report's rule is in the tables.\<close>

definition export_incident :: "query_env \<Rightarrow> query_params \<Rightarrow> api_db \<Rightarrow> (api_report \<Rightarrow> bool) py" where
  "export_incident qe query db =
     py_bind (value_of_param qe incident_query_param query) (\<lambda>v.
       let tagged = of_rule db (\<lambda>u. ''incident'' \<in> set (ar_tags u)) in
       Inr (if v = PNone then (\<lambda>_. True)
            else if v = POne (ABool True) then tagged else (\<lambda>r. \<not> tagged r)))"

definition export_reboot_required :: "query_env \<Rightarrow> query_params \<Rightarrow> api_db \<Rightarrow> (api_report \<Rightarrow> bool) py" where
  "export_reboot_required qe query db =
     py_bind (value_of_param qe reboot_required_query_param query) (\<lambda>v.
       Inr (case v of POne a \<Rightarrow> of_rule db (\<lambda>u. a = ABool (ar_reboot u)) | _ \<Rightarrow> (\<lambda>_. True)))"

definition export_has_playbook :: "export_env \<Rightarrow> query_env \<Rightarrow> query_params \<Rightarrow> (api_report \<Rightarrow> bool) py" where
  "export_has_playbook xe qe query =
     py_bind (value_of_param qe has_playbook_query_param query) (\<lambda>v.
       let has = (\<lambda>r. rc_playbooks (xe_rule xe (rp_rule r)) > 0) in
       Inr (if v = PNone then (\<lambda>_. True) else if v = POne (ABool True) then has else (\<lambda>r. \<not> has r)))"

definition export_resolution_risk :: "export_env \<Rightarrow> query_env \<Rightarrow> query_params \<Rightarrow> (api_report \<Rightarrow> bool) py" where
  "export_resolution_risk xe qe query =
     py_bind (value_of_param qe res_risk_query_param query) (\<lambda>v.
       let risks = the_atoms v in
       Inr (if risks = [] then (\<lambda>_. True)
            else (\<lambda>r. list_ex (\<lambda>i. AInt i \<in> set risks) (le_resolutions (xe_list xe) (rp_rule r)))))"

definition export_text :: "query_env \<Rightarrow> query_params \<Rightarrow> q py" where
  "export_text qe query =
     on_text qe query (\<lambda>a. foldl q_or QAll
       (map (\<lambda>f. q_is f a) [''rule__rule_id__icontains'', ''rule__description__icontains'',
          ''rule__summary__icontains'', ''rule__generic__icontains'', ''rule__reason__icontains'',
          ''rule__more_info__icontains''] @
        [QResolution ''resolution__icontains'' (QAtom a)]))"

section \<open>Streams\<close>

type_synonym stream = "string list \<times> pyexn option"

text \<open>A row that raises ends the stream before its comma is sent.\<close>

fun stream_rows :: "('v \<Rightarrow> string) \<Rightarrow> bool \<Rightarrow> 'v py list \<Rightarrow> stream" where
  "stream_rows dumps first [] = (['']''], None)"
| "stream_rows dumps first (Inl e # rs) = ([], Some e)"
| "stream_rows dumps first (Inr x # rs) =
     (case stream_rows dumps False rs of
        (pieces, e) \<Rightarrow> (if first then dumps x # pieces else '','' # dumps x # pieces, e))"

definition stream_json_reports :: "('v \<Rightarrow> string) \<Rightarrow> 'v py list \<Rightarrow> stream" where
  "stream_json_reports dumps rs = (case stream_rows dumps True rs of (pieces, e) \<Rightarrow> (''['' # pieces, e))"

text \<open>What the request says of the form of the answer, and the two renderers.\<close>

record 'v rendering =
  ou_format :: "string option"
  ou_suffix :: string
  ou_dumps :: "'v \<Rightarrow> string"
  ou_csv :: "'v py list \<Rightarrow> stream"

record export_response =
  er_media :: string
  er_filename :: "string option"
  er_stream :: stream

definition wants_csv :: "'v rendering \<Rightarrow> api_request \<Rightarrow> bool" where
  "wants_csv ou ar \<longleftrightarrow>
     ou_format ou = Some ''csv'' \<or> Sublist.suffix ''CSV'' (ou_suffix ou) \<or>
     (case map_of (rq_meta (aq_request ar)) ''HTTP_ACCEPT'' of None \<Rightarrow> False | Some a \<Rightarrow> prefix ''text/csv'' a)"

definition file_name :: "export_env \<Rightarrow> string \<Rightarrow> string option \<Rightarrow> string option" where
  "file_name xe name format = map_option (\<lambda>f. name @ ''-'' @ xe_today xe @ ''.'' @ f) format"

definition stream_response :: "export_env \<Rightarrow> 'v rendering \<Rightarrow> api_request \<Rightarrow> string \<Rightarrow> 'v py list \<Rightarrow> export_response" where
  "stream_response xe ou ar name rs =
     \<lparr>er_media = (if wants_csv ou ar then ''text/csv'' else ''application/json''),
      er_filename = file_name xe name (ou_format ou),
      er_stream = (if wants_csv ou ar then ou_csv ou rs else stream_json_reports (ou_dumps ou) rs)\<rparr>"

section \<open>Hits\<close>

record hit_row =
  hx_hostname :: "string option"
  hx_rhel :: string
  hx_uuid :: string
  hx_last_seen :: string
  hx_title :: string
  hx_solution :: string
  hx_risk :: nat
  hx_likelihood :: nat
  hx_published :: string
  hx_stale :: "string option"
  hx_results :: string

text \<open>\<open>None.isoformat()\<close>\<close>

definition isoformat :: "string option \<Rightarrow> string py" where
  "isoformat t = (case t of None \<Rightarrow> Inl AttributeError | Some s \<Rightarrow> Inr s)"

definition results_url :: "string \<Rightarrow> string \<Rightarrow> string" where
  "results_url rule_id host =
     ''https://console.redhat.com/insights/advisor/recommendations/'' @
     concat (map (\<lambda>c. if c = CHR ''|'' then ''%7C'' else [c]) rule_id) @ ''/'' @ host @ ''/''"

definition transform_hits :: "export_env \<Rightarrow> api_db \<Rightarrow> api_report \<Rightarrow> hit_row py" where
  "transform_hits xe db r =
     (case rule_of db r of
        None \<Rightarrow> Inl DoesNotExist
      | Some u \<Rightarrow>
          (let h = xe_host xe r; c = xe_rule xe (ar_pk u) in
           py_bind (isoformat (xe_last_upload xe (rp_host r))) (\<lambda>seen.
           py_bind (isoformat (rc_published c)) (\<lambda>published.
             Inr \<lparr>hx_hostname = hc_name h, hx_rhel = rhel_version (hc_major h) (hc_minor h) (hc_os h),
                  hx_uuid = rp_host r, hx_last_seen = seen, hx_title = rc_description c,
                  hx_solution = (if rc_node c = [] then '''' else ''https://access.redhat.com/node/'' @ rc_node c),
                  hx_risk = ar_total_risk u, hx_likelihood = rc_likelihood c, hx_published = published,
                  hx_stale = hc_stale h, hx_results = results_url (ar_rule_id u) (rp_host r)\<rparr>))))"

definition hits_sorts :: "sort_field list" where
  "hits_sorts = [plain_order ''host'', plain_order ''rule__rule_id'']"

definition hits_filter :: "export_env \<Rightarrow> api_env \<Rightarrow> query_params \<Rightarrow> api_db \<Rightarrow> (api_report \<Rightarrow> bool) py" where
  "hits_filter xe ae query db =
     (let qe = ae_query_env ae in
      if query = [] then Inr (\<lambda>_. True)
      else
        py_bind (py_mapM (\<lambda>f. f)
          [filter_on_param qe ''rule__category_id'' category_query_param query [],
           filter_on_param qe ''rule__impact__impact'' impact_query_param query [],
           filter_on_param qe ''rule__likelihood'' likelihood_query_param query []]) (\<lambda>fs.
        py_bind (export_resolution_risk xe qe query) (\<lambda>risk.
        py_bind (export_text qe query) (\<lambda>txt.
        py_bind (filter_on_param qe ''rule__total_risk'' total_risk_query_param query []) (\<lambda>total.
        py_bind (export_incident qe query db) (\<lambda>incident.
        py_bind (export_reboot_required qe query db) (\<lambda>reboot.
        py_bind (export_has_playbook xe qe query) (\<lambda>playbook.
        py_bind (py_mapM (\<lambda>f. f)
          [filter_on_display_name qe query ''advisor_inventory'', filter_on_host_id qe query [],
           filter_on_topic qe query ''rule'']) (\<lambda>gs.
          Inr (\<lambda>r. q_holds (ae_report_lookups ae) r (conj_q (fs @ [txt, total] @ gs)) \<and>
            risk r \<and> incident r \<and> reboot r \<and> playbook r))))))))))"

definition export_hits ::
  "export_env \<Rightarrow> api_env \<Rightarrow> hit_row rendering \<Rightarrow> api_request \<Rightarrow> api_db \<Rightarrow> export_response py" where
  "export_hits xe ae ou ar db =
     py_bind (get_reports_subquery ae ar (default_options\<lparr>ro_joins := True\<rparr>) (\<lambda>_. True) db) (\<lambda>reports.
     py_bind (hits_filter xe ae (aq_query ar) db) (\<lambda>f.
       Inr (stream_response xe ou ar ''hits''
         (map (transform_hits xe db) (order_rows (le_rank_report (xe_list xe)) hits_sorts (filter f reports))))))"

section \<open>Reports\<close>

record report_export_row =
  rx_host :: string
  rx_rule :: string
  rx_url :: string
  rx_time :: string
  rx_details :: json
  rx_impacted :: string

definition transform_reports :: "export_env \<Rightarrow> api_db \<Rightarrow> api_report \<Rightarrow> report_export_row py" where
  "transform_reports xe db r =
     (case rule_of db r of
        None \<Rightarrow> Inl DoesNotExist
      | Some u \<Rightarrow>
          py_bind (isoformat (xe_impacted xe r)) (\<lambda>impacted.
            Inr \<lparr>rx_host = rp_host r, rx_rule = ar_rule_id u, rx_url = results_url (ar_rule_id u) (rp_host r),
                 rx_time = xe_checked xe r, rx_details = xe_details xe r, rx_impacted = impacted\<rparr>))"

definition export_reports ::
  "export_env \<Rightarrow> api_env \<Rightarrow> report_export_row rendering \<Rightarrow> api_request \<Rightarrow> api_db \<Rightarrow> export_response py" where
  "export_reports xe ae ou ar db =
     py_bind (get_reports_subquery ae ar (default_options\<lparr>ro_joins := True\<rparr>) (\<lambda>_. True) db) (\<lambda>reports.
     py_bind (filter_on_topic (ae_query_env ae) (aq_query ar) ''rule'') (\<lambda>f.
       Inr (stream_response xe ou ar ''reports''
         (map (transform_reports xe db)
           (order_rows (le_rank_report (xe_list xe)) [plain_order ''host_id'', plain_order ''rule__rule_id'']
             (filter (\<lambda>r. q_holds (ae_report_lookups ae) r f) reports))))))"

section \<open>Rules\<close>

text \<open>Not streamed; of the declared filters only the topic is applied.\<close>

definition export_rules ::
  "export_env \<Rightarrow> api_env \<Rightarrow> string option \<Rightarrow> api_request \<Rightarrow> api_db \<Rightarrow> ((rule_row \<times> nat) list \<times> string option) py" where
  "export_rules xe ae format ar db =
     py_bind (rules_for_account ae (le_hostacks (xe_list xe)) ar db) (\<lambda>rows.
     py_bind (filter_on_topic (ae_query_env ae) (aq_query ar) []) (\<lambda>f.
       Inr (map (\<lambda>r. (r, rc_playbooks (xe_rule xe (ar_pk (rv_rule r)))))
           (map fst (filter (\<lambda>r. q_holds (rule_lookups db (le_rules (xe_list xe))) r f) (join_tags f rows))),
         file_name xe ''rules'' format)))"

section \<open>Systems\<close>

definition export_rule_id_param :: param where
  "export_rule_id_param = query_param ''rule_id'' OT_STR"

text \<open>
  The sort parameter is used as it stands: what the database can order by are columns and
  annotations, of which \<open>rhel_version\<close> and \<open>group_name\<close> are none.
\<close>

definition orderable_system_fields :: "string list" where
  "orderable_system_fields =
     [''hits'', ''last_seen'', ''display_name'', ''critical_hits'', ''important_hits'', ''moderate_hits'', ''low_hits'']"

definition system_order :: "pvalue \<Rightarrow> sort_field list py" where
  "system_order v =
     py_mapM (\<lambda>s. let f = plain_order s in
         if so_field f \<in> set orderable_system_fields then Inr f else Inl (Exn ''FieldError''))
       (sort_values v)"

definition given_text :: "pvalue \<Rightarrow> string option" where
  "given_text v = (case v of POne (AStr s) \<Rightarrow> if s = [] then None else Some s | _ \<Rightarrow> None)"

definition export_systems ::
  "export_env \<Rightarrow> api_env \<Rightarrow> system_row rendering \<Rightarrow> api_request \<Rightarrow> api_db \<Rightarrow> export_response py" where
  "export_systems xe ae ou ar db =
     (let qe = ae_query_env ae; query = aq_query ar in
      py_bind (value_of_param qe system_sort_param query) (\<lambda>sort.
      py_bind (value_of_param qe export_rule_id_param query) (\<lambda>rule_id.
      py_bind (value_of_param qe display_name_query_param query) (\<lambda>display_name.
      py_bind (get_reports_subquery ae ar (default_options\<lparr>ro_hosts := False\<rparr>)
        (of_rule db (\<lambda>u. Some (ar_rule_id u) = given_text rule_id)) db) (\<lambda>reports.
      py_bind (filter_on_topic qe query ''rule'') (\<lambda>topic.
      py_bind (get_systems_queryset ae ar db) (\<lambda>systems.
      py_bind (system_order sort) (\<lambda>sorts.
        Inr (stream_response xe ou ar ''systems''
          (map Inr (order_rows (le_rank_system (xe_list xe)) (sorts @ [plain_order ''inventory_id''])
            (filter (\<lambda>s.
               (case given_text display_name of None \<Rightarrow> True
                | Some n \<Rightarrow> q_holds (ae_host_lookups ae) (sy_host s) (q_is ''display_name__icontains'' (AStr n))) \<and>
               (given_text rule_id = None \<or>
                list_ex (\<lambda>r. rp_host r = ih_id (sy_host s) \<and> q_holds (ae_report_lookups ae) r topic) reports))
              systems))))))))))))"

end
