(* ===== verification/Export_Safety.thy ===== *)
theory Export_Safety
  imports Export_Views List_Safety
begin

text \<open>
  What an export sends: the text of exactly the reports that are shown and kept by the filters, in
  order, or that of the ones before the first row that raises, without the end of the list; and
  which orders of systems can be listed but not exported.
\<close>

section \<open>Streams\<close>

definition json_list :: "('v \<Rightarrow> string) \<Rightarrow> 'v list \<Rightarrow> string" where
  "json_list dumps xs = ''['' @ join_on '','' (map dumps xs) @ '']''"

text \<open>What stands before the rows that are still to come.\<close>

definition separator :: "bool \<Rightarrow> 'v list \<Rightarrow> string" where
  "separator first xs = (if first \<or> xs = [] then [] else '','')"

lemma join_on_Cons: "join_on '','' (x # xs) = x @ separator False xs @ join_on '','' xs"
  by (cases xs) (simp_all add: separator_def)

lemma separator_map [simp]: "separator first (map f xs) = separator first xs"
  by (simp add: separator_def)

lemma stream_rows_sent:
  assumes "stream_rows dumps first (map f rows) = (pieces, e)"
  shows "case py_mapM f rows of
      Inr xs \<Rightarrow> e = None \<and> concat pieces = separator first xs @ join_on '','' (map dumps xs) @ '']''
    | Inl x \<Rightarrow> e = Some x \<and> (\<exists>k xs. k < length rows \<and> py_mapM f (take k rows) = Inr xs \<and> f (rows ! k) = Inl x \<and>
        concat pieces = separator first xs @ join_on '','' (map dumps xs))"
  using assms
proof (induction rows arbitrary: first pieces e)
  case Nil
  then show ?case by (auto simp: separator_def)
next
  case (Cons r rows)
  show ?case
  proof (cases "f r")
    case (Inl x)
    then show ?thesis using Cons.prems by (auto simp: separator_def intro!: exI [of _ 0])
  next
    case r: (Inr y)
    obtain ps e' where rest: "stream_rows dumps False (map f rows) = (ps, e')" by fastforce
    have here: "e = e'" "concat pieces = separator first [y] @ dumps y @ concat ps"
      using Cons.prems r rest by (auto simp: separator_def)
    show ?thesis
    proof (cases "py_mapM f rows")
      case (Inr xs)
      then show ?thesis using Cons.IH [OF rest] here r by (simp add: join_on_Cons separator_def)
    next
      case (Inl x)
      then obtain k xs where "k < length rows" "py_mapM f (take k rows) = Inr xs" "f (rows ! k) = Inl x"
        "concat ps = separator False xs @ join_on '','' (map dumps xs)" "e' = Some x"
        using Cons.IH [OF rest] by auto
      then show ?thesis using here r Inl
        by simp (rule exI [of _ "Suc k"], simp add: join_on_Cons separator_def)
    qed
  qed
qed


text \<open>
  What reaches the client: the whole list, or the rows before the first that raises, after which the
  list is not closed.
\<close>

definition sends :: "('v \<Rightarrow> string) \<Rightarrow> ('r \<Rightarrow> 'v py) \<Rightarrow> 'r list \<Rightarrow> stream \<Rightarrow> bool" where
  "sends dumps f rows s \<longleftrightarrow>
     (case py_mapM f rows of
        Inr xs \<Rightarrow> concat (fst s) = json_list dumps xs \<and> snd s = None
      | Inl e \<Rightarrow> snd s = Some e \<and> (\<exists>k xs. k < length rows \<and> py_mapM f (take k rows) = Inr xs \<and> f (rows ! k) = Inl e \<and>
          concat (fst s) = ''['' @ join_on '','' (map dumps xs)))"

lemma stream_json_sends: "sends dumps f rows (stream_json_reports dumps (map f rows))"
proof -
  obtain pieces e where s: "stream_rows dumps True (map f rows) = (pieces, e)" by fastforce
  from stream_rows_sent [OF this] s show ?thesis
    by (auto simp: sends_def stream_json_reports_def json_list_def separator_def split: sum.splits)
qed

section \<open>The export of hits\<close>

lemma joins_same:
  assumes "rules_ok db"
  shows "get_reports_subquery ae ar (default_options\<lparr>ro_joins := True\<rparr>) extra db = get_reports_subquery ae ar default_options extra db"
proof -
  have "filter (\<lambda>r. extra r \<and> report_shown ae db (default_options\<lparr>ro_joins := True\<rparr>) org f r) (ad_reports db) =
      filter (\<lambda>r. extra r \<and> report_shown ae db default_options org f r) (ad_reports db)" for org f
    using report_shown_joins [OF assms, of _ ae default_options org f]
    by (intro filter_cong refl) (simp add: default_options_def)
  then show ?thesis
    by (simp add: get_reports_subquery_def default_options_def cong: option.case_cong)
qed

text \<open>
  C11: the export of hits as JSON.  When the view answers, the reports exported are exactly those the
  views of the account show and the filters of the request keep, each once, ordered by host and rule;
  what is sent is the JSON list of their rows, or, when a row raises (a rule without a publication
  date, a host without a current upload), the list of the rows before it, never closed, after the
  answer has begun.
\<close>

theorem hits_export_sends_reports:
  assumes "export_hits xe ae ou ar db = Inr resp" "\<not> wants_csv ou ar" "rules_ok db"
  shows "\<exists>reports keep out. get_reports_subquery ae ar default_options (\<lambda>_. True) db = Inr reports \<and>
    hits_filter xe ae (aq_query ar) db = Inr keep \<and> mset out = mset (filter keep reports) \<and>
    sorted (map (order_key (le_rank_report (xe_list xe)) hits_sorts) out) \<and>
    sends (ou_dumps ou) (transform_hits xe db) out (er_stream resp)"
proof -
  obtain reports keep where r: "get_reports_subquery ae ar default_options (\<lambda>_. True) db = Inr reports"
    and keep: "hits_filter xe ae (aq_query ar) db = Inr keep"
    and resp: "resp = stream_response xe ou ar ''hits''
       (map (transform_hits xe db) (order_rows (le_rank_report (xe_list xe)) hits_sorts (filter keep reports)))"
    using assms(1) by (auto simp: export_hits_def py_bind_eq_Inr joins_same [OF assms(3)])
  have "er_stream resp = stream_json_reports (ou_dumps ou)
      (map (transform_hits xe db) (order_rows (le_rank_report (xe_list xe)) hits_sorts (filter keep reports)))"
    using assms(2) by (simp add: resp stream_response_def)
  then have "sends (ou_dumps ou) (transform_hits xe db)
      (order_rows (le_rank_report (xe_list xe)) hits_sorts (filter keep reports)) (er_stream resp)"
    by (simp only: stream_json_sends)
  then show ?thesis
    using r keep order_rows_sorted by (intro exI [of _ reports] exI [of _ keep] exI) (intro conjI, simp_all)
qed

text \<open>A rule that is shown and has no publication date cuts the answer off.\<close>

lemma undated_rule_cuts_export:
  assumes "rule_of db r = Some u" "rc_published (xe_rule xe (ar_pk u)) = None"
  shows "transform_hits xe db r = Inl AttributeError"
  using assms by (cases "xe_last_upload xe (rp_host r)") (simp_all add: transform_hits_def Let_def isoformat_def)

section \<open>The export of systems\<close>

text \<open>
  The list of systems takes the orders \<open>rhel_version\<close> and \<open>group_name\<close>; the export, declared with
  the same parameter, raises \<open>FieldError\<close> for them.
\<close>

lemma export_order_unmapped:
  "list_all (\<lambda>order. system_order (POne (AStr order)) = Inl (Exn ''FieldError'') \<and>
      (case sort_params_to_fields [order] system_sort_map False of Inl _ \<Rightarrow> False | Inr _ \<Rightarrow> True))
    [''rhel_version'', ''-rhel_version'', ''group_name'', ''-group_name'']"
  by code_simp

section \<open>Examples\<close>

text \<open>The rule \<open>r2\<close> has no publication date.\<close>

definition export_example :: export_env where
  "export_example = \<lparr>xe_list = list_example,
     xe_host = (\<lambda>_. \<lparr>hc_name = Some ''n'', hc_major = Some 9, hc_minor = Some 2, hc_os = None, hc_stale = None\<rparr>),
     xe_rule = (\<lambda>i. \<lparr>rc_description = ''d'', rc_node = [], rc_likelihood = 1,
        rc_published = (if i = 1 then Some ''p'' else None), rc_playbooks = 0\<rparr>),
     xe_last_upload = (\<lambda>_. Some ''u''), xe_checked = (\<lambda>_. ''c''), xe_impacted = (\<lambda>_. None),
     xe_details = (\<lambda>_. JNull), xe_today = ''2024-01-01''\<rparr>"

definition render_example :: "hit_row rendering" where
  "render_example = \<lparr>ou_format = Some ''json'', ou_suffix = ''List'', ou_dumps = hx_uuid, ou_csv = (\<lambda>_. ([], None))\<rparr>"

text \<open>The second row raises: what is sent is the first and no end of the list.\<close>

lemma hits_export_sends_reports_witness:
  "\<exists>resp out. export_hits export_example api_example render_example (apx_caller None []) apx_db = Inr resp \<and>
     sends hx_uuid (transform_hits export_example apx_db) out (er_stream resp) \<and>
     concat (fst (er_stream resp)) = ''[h1'' \<and> snd (er_stream resp) = Some AttributeError"
proof -
  have run: "case export_hits export_example api_example render_example (apx_caller None []) apx_db of
      Inl _ \<Rightarrow> False | Inr resp \<Rightarrow> er_stream resp = ([''['', ''h1''], Some AttributeError)"
    by code_simp
  then obtain resp where resp: "export_hits export_example api_example render_example (apx_caller None []) apx_db = Inr resp"
    and s: "er_stream resp = ([''['', ''h1''], Some AttributeError)"
    by (auto split: sum.splits)
  have "\<not> wants_csv render_example (apx_caller None [])" by code_simp
  from hits_export_sends_reports [OF resp this apx_db_ok] obtain out where
    "sends (ou_dumps render_example) (transform_hits export_example apx_db) out (er_stream resp)" by blast
  then have "sends hx_uuid (transform_hits export_example apx_db) out (er_stream resp)" by (simp add: render_example_def)
  then show ?thesis using resp s by (intro exI [of _ resp] exI [of _ out]) simp
qed

end
