(* ===== verification/Tasks_Lists.thy ===== *)
theory Tasks_Lists
  imports Tasks_Views List_Views Paging
begin

text \<open>
  The Tasks API as it lists things: the filters on operating systems (\<open>tasks/utils.py\<close>), the
  systems (\<open>tasks/views/system.py\<close>), the tasks and the systems of a task
  (\<open>tasks/views/task.py\<close>), the jobs (\<open>tasks/views/job.py\<close>) and the executed tasks
  (\<open>tasks/views/executed_task.py\<close>), with what the serializers compute.  A job is joined with the
  hosts of its inventory ID, of whatever organisation, as the relation of the models is.
\<close>

section \<open>The caller and the database\<close>

record tasks_call =
  tc_who :: task_request
  tc_request :: request
  tc_query :: query_params

type_synonym job_joined = "job_row \<times> task_host option"

text \<open>
  What the views ask of the database beyond the rows: whether a host's Puptoo data is fresh, lookups
  on the other columns of a host, the hosts with some tags, the order of columns, and when the
  log line with a number was written.
\<close>

record tasks_lists =
  tl_query :: query_env
  tl_fresh :: "task_host \<Rightarrow> bool"
  tl_term :: "bool \<Rightarrow> string \<Rightarrow> qval \<Rightarrow> task_host \<Rightarrow> bool"
  tl_tagged :: "qval list \<Rightarrow> json \<Rightarrow> string \<Rightarrow> bool"
  tl_rank_host :: "task_host ranks"
  tl_rank_job :: "job_joined ranks"
  tl_rank_extask :: "extask ranks"
  tl_log_time :: "nat \<Rightarrow> int"

section \<open>Filters on the operating system\<close>

definition os_version_query_param :: param where
  "os_version_query_param = rhel_version_query_param\<lparr>pa_name := ''os_version''\<rparr>"

definition os_name_query_param :: param where
  "os_name_query_param = many_param ''os_name'' OT_STR"

definition os_query_param :: param where
  "os_query_param = many_param ''operating_system'' OT_STR"

text \<open>\<open>choices_obj_value_map\<close>\<close>

definition job_status_map :: "(string \<times> int) list" where
  "job_status_map = map (\<lambda>st. (job_label st, job_code st)) [JRunning, JSuccess, JFailure, JTimeout, JCancelled]"

fun task_code :: "task_status \<Rightarrow> int" where
  "task_code TRunning = 1"
| "task_code TCompleted = 2"
| "task_code TErrors = 3"
| "task_code TFailure = 4"
| "task_code TCancelled = 5"

definition task_status_map :: "(string \<times> int) list" where
  "task_status_map = map (\<lambda>st. (task_label st, task_code st)) [TRunning, TCompleted, TErrors, TFailure, TCancelled]"

definition filter_on_os_version :: "query_env \<Rightarrow> query_params \<Rightarrow> string \<Rightarrow> q py" where
  "filter_on_os_version qe query relation =
     py_bind (value_of_param qe os_version_query_param query) (\<lambda>v.
     py_bind (py_mapM (version_term relation) (the_atoms v)) (\<lambda>ts. Inr (foldl q_or QAll ts)))"

definition filter_on_os_name :: "query_env \<Rightarrow> query_params \<Rightarrow> string \<Rightarrow> q py" where
  "filter_on_os_name qe query relation =
     py_bind (value_of_param qe os_name_query_param query) (\<lambda>v.
       Inr (foldl q_or QAll (map (q_is (with_relation relation ''os_name__iexact'')) (the_atoms v))))"

text \<open>
  Each value of \<open>operating_system\<close> is written into the query as \<open>os_name\<close> and \<open>os_version\<close>, which
  the two other filters then read.
\<close>

definition set_os :: "string \<Rightarrow> string \<Rightarrow> query_params \<Rightarrow> query_params" where
  "set_os name version query = dict_set ''os_version'' [version] (dict_set ''os_name'' [name] query)"

fun os_loop :: "query_env \<Rightarrow> string \<Rightarrow> atom list \<Rightarrow> q \<Rightarrow> query_params \<Rightarrow> (q \<times> query_params) py" where
  "os_loop qe relation [] acc query = Inr (acc, query)"
| "os_loop qe relation (AStr os # vs) acc query =
     (case split_on (CHR ''|'') os of
        [name, version] \<Rightarrow>
          py_bind (filter_on_os_name qe (set_os name version query) relation) (\<lambda>n.
          py_bind (filter_on_os_version qe (set_os name version query) relation) (\<lambda>v.
            os_loop qe relation vs (q_or acc (q_and n v)) (set_os name version query)))
      | _ \<Rightarrow> Inl ValidationError)"
| "os_loop qe relation (_ # vs) acc query = Inl AttributeError"

definition filter_on_os :: "query_env \<Rightarrow> query_params \<Rightarrow> string \<Rightarrow> q py" where
  "filter_on_os qe query relation =
     py_bind (value_of_param qe os_query_param query) (\<lambda>v.
     py_bind (os_loop qe relation (the_atoms v) QAll query) (\<lambda>(t, _). Inr t))"

section \<open>What a filter means on a host\<close>

text \<open>A comparison with null is unknown, and so is its negation.\<close>

definition on_column :: "'a option \<Rightarrow> bool \<Rightarrow> ('a \<Rightarrow> bool) \<Rightarrow> bool" where
  "on_column c neg P = (case c of None \<Rightarrow> False | Some x \<Rightarrow> P x \<noteq> neg)"

definition icontains :: "string \<Rightarrow> string \<Rightarrow> bool" where
  "icontains part s = sublist (str_lower part) (str_lower s)"

definition on_text :: "qval \<Rightarrow> (string \<Rightarrow> bool) \<Rightarrow> bool" where
  "on_text v P = (case v of QAtom (AStr s) \<Rightarrow> P s | _ \<Rightarrow> False)"

definition host_term :: "tasks_lists \<Rightarrow> bool \<Rightarrow> string \<Rightarrow> qval \<Rightarrow> task_host \<Rightarrow> bool" where
  "host_term te neg f v h =
     (if f = ''os_major'' then on_column (th_os_major h) neg (\<lambda>m. v = QAtom (AInt m))
      else if f = ''os_minor'' then on_column (th_os_minor h) neg (\<lambda>m. v = QAtom (AInt m))
      else if f = ''os_name__iexact'' then on_column (th_os_name h) neg (\<lambda>n. on_text v (\<lambda>s. str_lower s = str_lower n))
      else if f = ''display_name__icontains'' then on_text v (\<lambda>s. icontains s (th_name h)) \<noteq> neg
      else if f = ''workspace_id'' then on_column (th_workspace h) neg (\<lambda>w. v = QAtom (AStr w))
      else if f = ''workspace_id__isnull'' then (v = QAtom (ABool (th_workspace h = None))) \<noteq> neg
      else if f = ''workspace_name'' then on_column (th_workspace_name h) neg (\<lambda>w. v = QAtom (AStr w))
      else if f = ''workspace_ungrouped'' then on_column (th_ungrouped h) neg (\<lambda>b. v = QAtom (ABool b))
      else tl_term te neg f v h)"

definition task_host_lookups :: "tasks_lists \<Rightarrow> task_host lookups" where
  "task_host_lookups te =
     \<lparr>lk_term = host_term te, lk_tagged = (\<lambda>_ ts org h. tl_tagged te ts org (th_id h)),
      lk_disabled = (\<lambda>_ _. False), lk_resolution = (\<lambda>_ _ _. False)\<rparr>"

section \<open>What is shown of a host\<close>

text \<open>\<open>Host.os_version\<close>; an empty name counts as none.\<close>

definition os_version_text :: "task_host \<Rightarrow> string" where
  "os_version_text h =
     (case th_os_name h of
        Some (c # name) \<Rightarrow>
          (case (th_os_major h, th_os_minor h) of
             (Some major, Some minor) \<Rightarrow> (c # name) @ '' '' @ str_of_int major @ ''.'' @ str_of_int minor
           | (Some major, None) \<Rightarrow> (c # name) @ '' '' @ str_of_int major
           | (None, _) \<Rightarrow> ''Unknown '' @ (c # name) @ '' version'')
      | _ \<Rightarrow> ''Unknown operating system'')"

definition json_text :: "string option \<Rightarrow> json" where
  "json_text s = (case s of None \<Rightarrow> JNull | Some t \<Rightarrow> JStr t)"

definition get_groups :: "task_host \<Rightarrow> json" where
  "get_groups h =
     JList (case th_workspace h of
        None \<Rightarrow> []
      | Some w \<Rightarrow> [JObj [(''id'', JStr w), (''name'', json_text (th_workspace_name h))]])"

text \<open>The entries of a dictionary whose value is not \<open>None\<close>.\<close>

definition present :: "(string \<times> json option) list \<Rightarrow> json" where
  "present kvs = JObj (List.map_filter (\<lambda>(k, v). map_option (Pair k) v) kvs)"

definition non_empty :: "string option \<Rightarrow> bool" where
  "non_empty s = (case s of None \<Rightarrow> False | Some t \<Rightarrow> t \<noteq> [])"

definition get_system_profile :: "task_host \<Rightarrow> json" where
  "get_system_profile h = present
     [(''operating_system'',
         if th_os_name h \<noteq> None \<or> th_os_major h \<noteq> None
         then Some (present [(''name'', map_option JStr (th_os_name h)), (''major'', map_option JInt (th_os_major h)),
                             (''minor'', map_option JInt (th_os_minor h))])
         else None),
      (''rhc_client_id'', map_option JStr (th_rhc h)),
      (''bootc_status'',
         if non_empty (th_bootc_image h) \<or> non_empty (th_bootc_digest h)
         then Some (JObj [(''booted'', present [(''image'', map_option JStr (th_bootc_image h)),
                                                (''image_digest'', map_option JStr (th_bootc_digest h))])])
         else None),
      (''host_type'', if non_empty (th_host_type h) then map_option JStr (th_host_type h) else None)]"

text \<open>The annotation of the querysets over hosts.\<close>

definition connection_type :: "tasks_env \<Rightarrow> tasks_db \<Rightarrow> task_host \<Rightarrow> string" where
  "connection_type tv db h =
     (if direct_connect h then ''direct'' else if satellite_rhc tv db h then ''satellite'' else ''none'')"

record system_seen =
  ho_host :: task_host
  ho_connection :: string
  ho_requirements :: "string list"
  ho_connected :: bool

record host_shown =
  hw_id :: string
  hw_name :: string
  hw_groups :: json
  hw_os_version :: string
  hw_connection :: string
  hw_requirements :: "string list"
  hw_connected :: bool
  hw_profile :: json

definition show_host :: "system_seen \<Rightarrow> host_shown" where
  "show_host r =
     (let h = ho_host r in
      \<lparr>hw_id = th_id h, hw_name = th_name h, hw_groups = get_groups h, hw_os_version = os_version_text h,
       hw_connection = ho_connection r, hw_requirements = ho_requirements r, hw_connected = ho_connected r,
       hw_profile = get_system_profile h\<rparr>)"

section \<open>Systems\<close>

definition all_systems_query_param :: param where
  "all_systems_query_param = (query_param ''all_systems'' OT_BOOL)\<lparr>pa_default := Some (JBool False)\<rparr>"

definition all_systems :: "query_env \<Rightarrow> query_params \<Rightarrow> bool py" where
  "all_systems qe query =
     py_bind (value_of_param qe all_systems_query_param query) (\<lambda>v. Inr (v = POne (ABool True)))"

definition tasks_sort :: "query_env \<Rightarrow> param \<Rightarrow> (string \<times> string list) list \<Rightarrow> bool \<Rightarrow> query_params \<Rightarrow> sort_field list py" where
  "tasks_sort qe p field_map reverse_nulls query =
     py_bind (value_of_param qe p query) (\<lambda>v. sort_params_to_fields (sort_values v) field_map reverse_nulls)"

definition tasks_system_sort_param :: param where
  "tasks_system_sort_param = (query_param ''sort'' OT_STR)
     \<lparr>pa_enum := map AStr (sort_param_enum
        [''display_name'', ''os'', ''os_version'', ''os_name'', ''last_seen'', ''group_name'', ''last_check_in'']),
      pa_default := Some (JStr ''display_name'')\<rparr>"

definition system_sort_field_map :: "(string \<times> string list) list" where
  "system_sort_field_map =
     [(''os_version'', [''os_major'', ''os_minor'']), (''os_name'', [''os_name'']),
      (''os'', [''os_name'', ''os_major'', ''os_minor'']), (''last_seen'', [''updated'']),
      (''group_name'', [''workspace_name''])]"

definition tasks_systems :: "tasks_lists \<Rightarrow> tasks_env \<Rightarrow> tasks_call \<Rightarrow> tasks_db \<Rightarrow> task_host list py" where
  "tasks_systems te tv tc db =
     (let qe = tl_query te; query = tc_query tc; rq = tc_request tc in
      py_bind (all_systems qe query) (\<lambda>every.
      py_bind (filter_on_host_tags qe rq query ''inventory_id'') (\<lambda>tags.
      py_bind (system_profile_filter query []) (\<lambda>profile.
      py_bind (get_host_group_filter qe rq query []) (\<lambda>groups.
        Inr (filter (\<lambda>h. th_org h = tr_org (tc_who tc) \<and>
               (every \<or> direct_connect h \<or> satellite_rhc tv db h) \<and>
               q_holds (task_host_lookups te) h (conj_q [tags, profile, groups]) \<and> tl_fresh te h)
             (td_hosts db)))))))"

definition os_filters :: "query_env \<Rightarrow> query_params \<Rightarrow> string \<Rightarrow> q py" where
  "os_filters qe query relation =
     py_bind (filter_on_display_name qe query relation) (\<lambda>name.
     py_bind (filter_on_os_version qe query relation) (\<lambda>version.
     py_bind (filter_on_os_name qe query relation) (\<lambda>os_name.
     py_bind (filter_on_os qe query relation) (\<lambda>os. Inr (conj_q [name, version, os_name, os])))))"

definition host_row_of :: "tasks_env \<Rightarrow> tasks_db \<Rightarrow> (task_host \<Rightarrow> string list) \<Rightarrow> task_host \<Rightarrow> system_seen" where
  "host_row_of tv db reasons h =
     \<lparr>ho_host = h, ho_connection = connection_type tv db h, ho_requirements = reasons h, ho_connected = False\<rparr>"

definition by_inventory_id :: "sort_field list \<Rightarrow> sort_field list" where
  "by_inventory_id sorts = sorts @ [plain_order ''inventory_id'']"

definition tasks_system_list :: "tasks_lists \<Rightarrow> tasks_env \<Rightarrow> tasks_call \<Rightarrow> tasks_db \<Rightarrow> system_seen list py" where
  "tasks_system_list te tv tc db =
     (let qe = tl_query te; query = tc_query tc in
      py_bind (tasks_sort qe tasks_system_sort_param system_sort_field_map True query) (\<lambda>sorts.
      py_bind (tasks_systems te tv tc db) (\<lambda>hosts.
      py_bind (filter_on_host_tags qe (tc_request tc) query ''inventory_id'') (\<lambda>tags.
      py_bind (os_filters qe query []) (\<lambda>os.
        Inr (map (host_row_of tv db (\<lambda>_. []))
          (order_rows (tl_rank_host te) (by_inventory_id sorts)
            (filter (\<lambda>h. q_holds (task_host_lookups te) h (conj_q [tags, os])) hosts))))))))"

text \<open>The page, on which the connection state is asked of the Playbook Dispatcher.\<close>

definition annotate_rows :: "tasks_env \<Rightarrow> tasks_call \<Rightarrow> system_seen list \<Rightarrow> system_seen list py" where
  "annotate_rows tv tc rows =
     py_bind (annotate_rhc_status tv (tc_who tc) (map ho_host rows)) (\<lambda>hs.
       Inr (map2 (\<lambda>r (h, c). r\<lparr>ho_connected := c\<rparr>) rows hs))"

definition systems_page ::
  "system_seen drf \<Rightarrow> view_request \<Rightarrow> tasks_env \<Rightarrow> tasks_call \<Rightarrow> system_seen list py \<Rightarrow> (host_shown page_response + host_shown list) py" where
  "systems_page d vr tv tc rows =
     py_bind rows (\<lambda>rows. paginated_response d vr True (Some (annotate_rows tv tc)) show_host rows)"

definition tasks_system_retrieve :: "tasks_lists \<Rightarrow> tasks_env \<Rightarrow> tasks_call \<Rightarrow> string \<Rightarrow> tasks_db \<Rightarrow> host_shown py" where
  "tasks_system_retrieve te tv tc i db =
     py_bind (tasks_systems te tv tc db) (\<lambda>hosts.
       case find (\<lambda>h. th_id h = i) hosts of
         None \<Rightarrow> Inl Http404
       | Some h \<Rightarrow> py_bind (retrieve_pd_connected_systems tv (tc_who tc) [th_id h]) (\<lambda>connected.
           Inr (show_host ((host_row_of tv db (\<lambda>_. []) h)\<lparr>ho_connected := JStr (th_id h) \<in> set connected\<rparr>))))"


section \<open>Tasks and their systems\<close>

definition tasks_listed :: "tasks_db \<Rightarrow> task_row list" where
  "tasks_listed db = sort_key tt_publish (filter tt_active (td_tasks db))"

definition active_task :: "string \<Rightarrow> tasks_db \<Rightarrow> task_row py" where
  "active_task slug db =
     (case find (\<lambda>t. tt_active t \<and> tt_slug t = slug) (td_tasks db) of None \<Rightarrow> Inl Http404 | Some t \<Rightarrow> Inr t)"

text \<open>
  The requirements are filters unless all systems are asked for, and are shown as reasons then;
  \<open>listed_for\<close> joins both with the filter on connected systems.
\<close>

definition task_systems :: "tasks_lists \<Rightarrow> tasks_env \<Rightarrow> tasks_call \<Rightarrow> string \<Rightarrow> tasks_db \<Rightarrow> system_seen list py" where
  "task_systems te tv tc slug db =
     (let qe = tl_query te; query = tc_query tc; rq = tc_request tc in
      py_bind (active_task slug db) (\<lambda>t.
      py_bind (tasks_sort qe tasks_system_sort_param system_sort_field_map True query) (\<lambda>sorts.
      py_bind (all_systems qe query) (\<lambda>every.
      py_bind (filter_on_host_tags qe rq query ''inventory_id'') (\<lambda>tags.
      py_bind (system_profile_filter query []) (\<lambda>profile.
      py_bind (get_host_group_filter qe rq query []) (\<lambda>groups.
      py_bind (os_filters qe query []) (\<lambda>os.
        Inr (map (host_row_of tv db (unmet tv db t))
          (order_rows (tl_rank_host te) (by_inventory_id sorts)
            (filter (\<lambda>h. th_org h = tr_org (tc_who tc) \<and> listed_for tv db every t h \<and>
               q_holds (task_host_lookups te) h (conj_q [tags, profile, groups, os]) \<and> tl_fresh te h)
             (td_hosts db))))))))))))"

section \<open>Jobs\<close>

text \<open>\<open>JobManager\<close>: every job, with the hosts of its inventory ID.\<close>

definition hosts_of_job :: "tasks_db \<Rightarrow> job_row \<Rightarrow> task_host list" where
  "hosts_of_job db j = filter (\<lambda>h. th_id h = jb_system j) (td_hosts db)"

definition join_hosts :: "tasks_db \<Rightarrow> job_row \<Rightarrow> job_joined list" where
  "join_hosts db j = (case hosts_of_job db j of [] \<Rightarrow> [(j, None)] | hs \<Rightarrow> map (\<lambda>h. (j, Some h)) hs)"

definition job_rows :: "tasks_db \<Rightarrow> job_row list \<Rightarrow> job_joined list" where
  "job_rows db js = concat (map (join_hosts db) js)"

definition has_stdout :: "job_row \<Rightarrow> bool" where
  "has_stdout j \<longleftrightarrow> jb_stdout j \<noteq> []"

definition job_connection :: "task_host option \<Rightarrow> string" where
  "job_connection h =
     (case h of None \<Rightarrow> ''none'' | Some x \<Rightarrow> if th_rhc x \<noteq> None then ''direct'' else ''satellite'')"

record job_shown =
  jw_id :: nat
  jw_extask :: nat
  jw_system :: string
  jw_name :: "string option"
  jw_connection :: string
  jw_status :: string
  jw_run :: string
  jw_has_stdout :: bool
  jw_results :: json
  jw_updated :: int
  jw_rhc :: "string option"

definition show_job :: "job_joined \<Rightarrow> job_shown" where
  "show_job = (\<lambda>(j, h).
     \<lparr>jw_id = jb_id j, jw_extask = jb_extask j, jw_system = jb_system j, jw_name = map_option th_name h,
      jw_connection = job_connection h, jw_status = job_label (jb_status j), jw_run = jb_run j,
      jw_has_stdout = has_stdout j, jw_results = jb_results j, jw_updated = jb_updated j, jw_rhc = jb_rhc j\<rparr>)"

text \<open>Of a job whose host is gone, only \<open>isnull\<close> holds.\<close>

definition job_term :: "tasks_lists \<Rightarrow> bool \<Rightarrow> string \<Rightarrow> qval \<Rightarrow> job_joined \<Rightarrow> bool" where
  "job_term te neg f v = (\<lambda>(j, h).
     if f = ''executed_task_id'' then (v = QAtom (AInt (int (jb_extask j)))) \<noteq> neg
     else if f = ''status'' then (v = QAtom (AInt (job_code (jb_status j)))) \<noteq> neg
     else if f = ''has_stdout'' then (v = QAtom (ABool (has_stdout j))) \<noteq> neg
     else if prefix ''system__'' f then
       (case h of
          Some x \<Rightarrow> host_term te neg (drop 8 f) v x
        | None \<Rightarrow> Sublist.suffix ''__isnull'' f \<and> (v = QAtom (ABool True)) \<noteq> neg)
     else False)"

definition job_lookups :: "tasks_lists \<Rightarrow> job_joined lookups" where
  "job_lookups te =
     \<lparr>lk_term = job_term te, lk_tagged = (\<lambda>_ ts org (j, h). tl_tagged te ts org (jb_system j)),
      lk_disabled = (\<lambda>_ _. False), lk_resolution = (\<lambda>_ _ _. False)\<rparr>"

definition rank_job :: "tasks_lists \<Rightarrow> job_joined ranks" where
  "rank_job te = (\<lambda>(j, h) f.
     if f = ''id'' then Some (int (jb_id j))
     else if f = ''status'' then Some (job_code (jb_status j))
     else if f = ''updated_on'' then Some (jb_updated j)
     else if f = ''executed_task'' then Some (int (jb_extask j))
     else tl_rank_job te (j, h) f)"

definition executed_task_param :: param where
  "executed_task_param = query_param ''executed_task'' OT_INT"

definition job_sort_param :: param where
  "job_sort_param = (query_param ''sort'' OT_STR)
     \<lparr>pa_enum := map AStr (sort_param_enum [''executed_task'', ''system'', ''status'', ''updated_on'', ''display_name'']),
      pa_default := Some (JStr ''-updated_on'')\<rparr>"

definition job_sort_field_map :: "(string \<times> string list) list" where
  "job_sort_field_map = [(''system'', [''system_id'']), (''display_name'', [''system__display_name''])]"

definition job_status_param :: param where
  "job_status_param = (many_param ''status'' OT_STR)\<lparr>pa_enum := map (AStr \<circ> fst) job_status_map\<rparr>"

definition has_stdout_param :: param where
  "has_stdout_param = query_param ''has_stdout'' OT_BOOL"

definition jobs_in_org :: "tasks_call \<Rightarrow> tasks_db \<Rightarrow> job_row list" where
  "jobs_in_org tc db =
     filter (\<lambda>j. list_ex (\<lambda>x. xt_id x = jb_extask j \<and> xt_org x = tr_org (tc_who tc)) (td_extasks db)) (td_jobs db)"

definition job_list :: "tasks_lists \<Rightarrow> tasks_call \<Rightarrow> tasks_db \<Rightarrow> job_shown list py" where
  "job_list te tc db =
     (let qe = tl_query te; query = tc_query tc in
      py_bind (tasks_sort qe job_sort_param job_sort_field_map True query) (\<lambda>sorts.
      py_bind (filter_on_param qe ''executed_task_id'' executed_task_param query []) (\<lambda>extask.
      py_bind (filter_on_param qe ''status'' job_status_param query job_status_map) (\<lambda>status.
      py_bind (filter_on_param qe ''has_stdout'' has_stdout_param query []) (\<lambda>stdout.
      py_bind (filter_on_display_name qe query ''system'') (\<lambda>name.
        Inr (map show_job (order_rows (rank_job te) (sorts @ [plain_order ''id''])
          (filter (\<lambda>r. q_holds (job_lookups te) r (conj_q [extask, status, stdout, name]))
            (job_rows db (jobs_in_org tc db)))))))))))"

text \<open>\<open>get_object\<close>: a job that is joined with two hosts is found twice.\<close>

definition job_object :: "tasks_call \<Rightarrow> nat \<Rightarrow> tasks_db \<Rightarrow> job_joined py" where
  "job_object tc i db =
     (case job_rows db (filter (\<lambda>j. jb_id j = i) (jobs_in_org tc db)) of
        [] \<Rightarrow> Inl Http404
      | [r] \<Rightarrow> Inr r
      | _ \<Rightarrow> Inl (Exn ''MultipleObjectsReturned''))"

text \<open>The table of log lines is in the order of their numbers, which decides between equal times.\<close>

definition logs_by_time :: "tasks_lists \<Rightarrow> (job_log \<Rightarrow> bool) \<Rightarrow> tasks_db \<Rightarrow> job_log list" where
  "logs_by_time te P db =
     map snd (sort_key (\<lambda>(i, l). tl_log_time te i) (filter (\<lambda>(i, l). P l) (enumerate 0 (td_logs db))))"

definition job_log_view :: "tasks_lists \<Rightarrow> tasks_call \<Rightarrow> nat \<Rightarrow> tasks_db \<Rightarrow> job_log list py" where
  "job_log_view te tc i db =
     py_bind (job_object tc i db) (\<lambda>(j, _). Inr (logs_by_time te (\<lambda>l. jl_job l = jb_id j) db))"

definition job_stdout :: "tasks_env \<Rightarrow> tasks_call \<Rightarrow> nat \<Rightarrow> (tasks_state, json) act" where
  "job_stdout tv tc i =
     a_bind (get_db (job_object tc i)) (\<lambda>r. a_bind (a_lift r) (\<lambda>(j, _).
       if jb_status j \<noteq> JRunning then a_ret (JStr (jb_stdout j))
       else
         a_bind (get_db (find_extask (jb_extask j))) (\<lambda>x. a_bind (or_missing x) (\<lambda>x. a_bind (task_of x) (\<lambda>t.
           case tt_type t of
             SCRIPT \<Rightarrow> a_ret (JStr (jb_stdout j))
           | ANSIBLE \<Rightarrow> a_bind (fetch_playbook_dispatcher_stdout tv j) (\<lambda>out.
               a_ret (if out = JNull then JStr [] else out)))))))"


section \<open>Executed tasks\<close>

record extask_row =
  es_extask :: extask
  es_task :: "task_row option"
  es_systems :: nat
  es_running :: nat
  es_completed :: nat
  es_failure :: nat
  es_timeout :: nat

definition count_jobs :: "tasks_db \<Rightarrow> extask \<Rightarrow> job_status \<Rightarrow> nat" where
  "count_jobs db x st = length (filter (\<lambda>j. jb_status j = st) (jobs_of x db))"

definition extask_row_of :: "tasks_db \<Rightarrow> extask \<Rightarrow> extask_row" where
  "extask_row_of db x =
     \<lparr>es_extask = x, es_task = find_task (xt_task x) db, es_systems = length (jobs_of x db),
      es_running = count_jobs db x JRunning, es_completed = count_jobs db x JSuccess,
      es_failure = count_jobs db x JFailure, es_timeout = count_jobs db x JTimeout\<rparr>"

definition extask_text_query_param :: param where
  "extask_text_query_param = query_param ''text'' OT_STR"

definition extask_status_query_param :: param where
  "extask_status_query_param = (many_param ''status'' OT_STR)\<lparr>pa_enum := map (AStr \<circ> fst) task_status_map\<rparr>"

definition extask_sort_query_param :: param where
  "extask_sort_query_param = (query_param ''sort'' OT_STR)
     \<lparr>pa_enum := map AStr (sort_param_enum [''name'', ''title'', ''status'', ''start_time'', ''end_time'', ''systems_count'']),
      pa_default := Some (JStr ''start_time'')\<rparr>"

definition extask_sort_field_map :: "(string \<times> string list) list" where
  "extask_sort_field_map = [(''title'', [''task__title''])]"

definition extask_text_filter :: "query_env \<Rightarrow> query_params \<Rightarrow> q py" where
  "extask_text_filter qe query =
     py_bind (value_of_param qe extask_text_query_param query) (\<lambda>v. case v of
        POne a \<Rightarrow> Inr (foldl q_or QAll (map (\<lambda>f. q_is f a)
          [''name__icontains'', ''task__slug__icontains'', ''task__title__icontains'', ''task__description__icontains'']))
      | _ \<Rightarrow> Inr QAll)"

definition extask_term :: "bool \<Rightarrow> string \<Rightarrow> qval \<Rightarrow> extask_row \<Rightarrow> bool" where
  "extask_term neg f v r =
     (let on_task = (\<lambda>part. on_column (es_task r) neg (\<lambda>t. on_text v (\<lambda>s. icontains s (part t)))) in
      if f = ''name__icontains'' then on_text v (\<lambda>s. icontains s (xt_name (es_extask r))) \<noteq> neg
      else if f = ''task__slug__icontains'' then on_task tt_slug
      else if f = ''task__title__icontains'' then on_task tt_title
      else if f = ''task__description__icontains'' then on_task tt_description
      else if f = ''status'' then (v = QAtom (AInt (task_code (xt_status (es_extask r))))) \<noteq> neg
      else False)"

definition extask_lookups :: "extask_row lookups" where
  "extask_lookups =
     \<lparr>lk_term = extask_term, lk_tagged = (\<lambda>_ _ _ _. False), lk_disabled = (\<lambda>_ _. False),
      lk_resolution = (\<lambda>_ _ _. False)\<rparr>"

definition rank_extask :: "tasks_lists \<Rightarrow> extask_row ranks" where
  "rank_extask te r f =
     (if f = ''status'' then Some (task_code (xt_status (es_extask r)))
      else if f = ''start_time'' then Some (xt_start (es_extask r))
      else if f = ''end_time'' then xt_end (es_extask r)
      else if f = ''systems_count'' then Some (int (es_systems r))
      else tl_rank_extask te (es_extask r) f)"

definition extask_list :: "tasks_lists \<Rightarrow> tasks_call \<Rightarrow> tasks_db \<Rightarrow> extask_row list py" where
  "extask_list te tc db =
     (let qe = tl_query te; query = tc_query tc in
      py_bind (value_of_param qe extask_sort_query_param query) (\<lambda>sort.
      py_bind (extask_text_filter qe query) (\<lambda>text.
      py_bind (filter_on_param qe ''status'' extask_status_query_param query task_status_map) (\<lambda>status.
      py_bind (sort_params_to_fields (sort_values sort) extask_sort_field_map False) (\<lambda>sorts.
        Inr (order_rows (rank_extask te) sorts
          (filter (\<lambda>r. q_holds extask_lookups r (conj_q [text, status]))
            (map (extask_row_of db) (filter (\<lambda>x. xt_org x = tr_org (tc_who tc)) (td_extasks db))))))))))"

definition extask_object :: "tasks_call \<Rightarrow> nat \<Rightarrow> tasks_db \<Rightarrow> extask py" where
  "extask_object tc i db =
     (case find (\<lambda>x. xt_id x = i \<and> xt_org x = tr_org (tc_who tc)) (td_extasks db) of
        None \<Rightarrow> Inl Http404 | Some x \<Rightarrow> Inr x)"

definition jobs_sort_query_param :: param where
  "jobs_sort_query_param = (query_param ''sort'' OT_STR)
     \<lparr>pa_enum := map AStr (sort_param_enum [''display_name'', ''os_version'', ''last_seen'', ''status'']),
      pa_default := Some (JStr ''display_name'')\<rparr>"

definition jobs_sort_field_map :: "(string \<times> string list) list" where
  "jobs_sort_field_map =
     [(''os_version'', [''system__os_major'', ''system__os_minor'']), (''last_seen'', [''system__updated'']),
      (''status'', [''status'', ''system__display_name''])]"

text \<open>The parameters an executed task was started with, in the order of their index.\<close>

definition extask_params :: "tasks_db \<Rightarrow> extask \<Rightarrow> (task_param \<times> string) list" where
  "extask_params db x =
     sort_key (tp_index \<circ> fst) (List.map_filter
       (\<lambda>e. if ep_extask e = xt_id x
            then map_option (\<lambda>p. (p, ep_value e)) (find (\<lambda>p. tp_id p = ep_param e) (concat (map tt_params (td_tasks db))))
            else None) (td_params db))"

record extask_shown =
  ew_row :: extask_row
  ew_jobs :: "job_shown list"
  ew_params :: "(string \<times> string) list"

definition extask_retrieve :: "tasks_lists \<Rightarrow> tasks_call \<Rightarrow> nat \<Rightarrow> tasks_db \<Rightarrow> extask_shown py" where
  "extask_retrieve te tc i db =
     py_bind (extask_object tc i db) (\<lambda>x.
     py_bind (tasks_sort (tl_query te) jobs_sort_query_param jobs_sort_field_map False (tc_query tc)) (\<lambda>sorts.
       Inr \<lparr>ew_row = extask_row_of db x,
            ew_jobs = map show_job (order_rows (rank_job te) (sorts @ [plain_order ''id'']) (job_rows db (jobs_of x db))),
            ew_params = map (\<lambda>(p, v). (tp_key p, v)) (extask_params db x)\<rparr>))"

definition status_filter_query_param :: param where
  "status_filter_query_param = (many_param ''status'' OT_STR)\<lparr>pa_enum := map (AStr \<circ> fst) job_status_map\<rparr>"

definition extask_jobs :: "tasks_lists \<Rightarrow> tasks_call \<Rightarrow> nat \<Rightarrow> tasks_db \<Rightarrow> job_shown list py" where
  "extask_jobs te tc i db =
     (let qe = tl_query te; query = tc_query tc; rq = tc_request tc in
      py_bind (extask_object tc i db) (\<lambda>x.
      py_bind (tasks_sort qe jobs_sort_query_param jobs_sort_field_map False query) (\<lambda>sorts.
      py_bind (filter_on_host_tags qe rq query ''system_id'') (\<lambda>tags.
      py_bind (get_host_group_filter qe rq query ''system'') (\<lambda>groups.
      py_bind (filter_on_display_name qe query ''system'') (\<lambda>name.
      py_bind (filter_on_os_version qe query ''system'') (\<lambda>version.
      py_bind (filter_on_param qe ''status'' status_filter_query_param query job_status_map) (\<lambda>status.
        Inr (map show_job (order_rows (rank_job te) (sorts @ [plain_order ''id''])
          (filter (\<lambda>r. q_holds (job_lookups te) r (conj_q [tags, groups, name, version, status]))
            (job_rows db (jobs_of x db)))))))))))))"

record log_shown =
  lw_log :: job_log
  lw_system :: string
  lw_name :: "string option"
  lw_run :: string

text \<open>\<open>job_logs\<close> sorts by time only; lines of one time keep the order of the table here.\<close>

definition show_log :: "tasks_db \<Rightarrow> job_log \<Rightarrow> log_shown list" where
  "show_log db l =
     map (\<lambda>(j, h). \<lparr>lw_log = l, lw_system = jb_system j, lw_name = map_option th_name h, lw_run = jb_run j\<rparr>)
       (job_rows db (filter (\<lambda>j. jb_id j = jl_job l) (td_jobs db)))"

definition extask_job_logs :: "tasks_lists \<Rightarrow> tasks_call \<Rightarrow> nat \<Rightarrow> tasks_db \<Rightarrow> log_shown list py" where
  "extask_job_logs te tc i db =
     py_bind (extask_object tc i db) (\<lambda>x.
       Inr (concat (map (show_log db)
         (logs_by_time te (\<lambda>l. list_ex (\<lambda>j. jb_id j = jl_job l) (jobs_of x db)) db))))"

end
