(* ===== verification/Tasks_Content.thy ===== *)
theory Tasks_Content
  imports Tasks_Lists
begin

text \<open>
  The content of tasks: the playbook a system fetches (\<open>playbook\<close> of \<open>tasks/views/task.py\<close>), the
  views for those who write tasks (\<open>InternalTaskViewSet\<close> with \<open>TaskContentSerializer\<close> of
  \<open>tasks/serializers.py\<close>), and the command that compares the playbook files with the fixture
  (\<open>tasks_sync_playbook_content.py\<close>).  No view runs in a transaction: what is written before an
  exception stays.
\<close>

section \<open>The playbook of a task\<close>

text \<open>\<open>yaml.safe_load\<close>, \<open>yaml.dump\<close> with its options, and the address of the inventory.\<close>

record playbook_env =
  pb_load :: "string \<Rightarrow> json py"
  pb_dump :: "json \<Rightarrow> string"
  pb_inventory :: string

text \<open>\<open>query_params.get\<close>: the last value; an empty one is false.\<close>

definition query_get :: "query_params \<Rightarrow> string \<Rightarrow> string option" where
  "query_get query k =
     (case map_of query k of
        None \<Rightarrow> None
      | Some vs \<Rightarrow> if vs = [] \<or> last vs = [] then None else Some (last vs))"

definition task_by_slug :: "string \<Rightarrow> (tasks_state, task_row) act" where
  "task_by_slug slug =
     a_bind (get_db (find_slug slug)) (\<lambda>t. case t of None \<Rightarrow> a_raise Http404 | Some t \<Rightarrow> a_ret t)"

definition to_uuid :: "tasks_env \<Rightarrow> string \<Rightarrow> (tasks_state, string) act" where
  "to_uuid tv s = (case tv_uuid tv (JStr s) of None \<Rightarrow> a_raise ValidationError | Some u \<Rightarrow> a_ret u)"

definition host_name_in :: "json \<Rightarrow> json py" where
  "host_name_in v =
     py_bind (py_item v ''results'') (\<lambda>results. py_bind (py_first results) (\<lambda>host.
     py_bind (py_item host ''ansible_host'') (\<lambda>name.
       if truthy name then Inr name else py_item host ''fqdn'')))"

text \<open>
  The name the inventory knows the host by.  Where the answer is not 200 the view returns \<open>None\<close>,
  for which the REST framework raises \<open>AssertionError\<close>.
\<close>

definition playbook_host :: "playbook_env \<Rightarrow> tasks_env \<Rightarrow> string \<Rightarrow> json py" where
  "playbook_host pb tv inventory_id =
     py_bind (retry_request (tv_dev tv) (tv_attempt tv (pb_inventory pb @ ''/hosts/'' @ inventory_id)) (\<lambda>_. 0) 1 5 False) (\<lambda>rr.
       if status_code (rr_response rr) \<noteq> 200 then Inl AssertionError
       else case body (rr_response rr) of None \<Rightarrow> Inl ValueError | Some v \<Rightarrow> host_name_in v)"

definition running_on :: "task_row \<Rightarrow> string \<Rightarrow> tasks_db \<Rightarrow> job_row list" where
  "running_on t system db =
     filter (\<lambda>j. jb_status j = JRunning \<and> jb_system j = system \<and>
         list_ex (\<lambda>x. xt_id x = jb_extask j \<and> xt_task x = tt_id t) (td_extasks db))
       (td_jobs db)"

definition log_request :: "task_row \<Rightarrow> tasks_env \<Rightarrow> string \<Rightarrow> (tasks_state, unit) act" where
  "log_request t tv inventory_id =
     a_bind (to_uuid tv inventory_id) (\<lambda>u. a_bind (get_db (running_on t u)) (\<lambda>js. case js of
       [j] \<Rightarrow> new_log j True (''Playbook requested (identified by inventory ID '' @ inventory_id @ '')'')
     | _ \<Rightarrow> a_ret ()))"

text \<open>A playbook with the mark that it was changed.\<close>

type_synonym edited = "json \<times> bool"

definition for_host ::
  "playbook_env \<Rightarrow> tasks_env \<Rightarrow> task_row \<Rightarrow> string option \<Rightarrow> string option \<Rightarrow> edited \<Rightarrow> (tasks_state, edited) act" where
  "for_host pb tv t inventory_id run_id = (\<lambda>(playbook, changed).
     case inventory_id of
       None \<Rightarrow> a_ret (playbook, changed)
     | Some i \<Rightarrow>
         a_bind (a_lift (playbook_host pb tv i)) (\<lambda>name.
         a_bind (a_lift (py_put playbook ''hosts'' (JList [name]))) (\<lambda>playbook'.
         a_then (if run_id = None then log_request t tv i else a_ret ())
           (a_ret (playbook', True)))))"

definition put_content_var :: "json \<Rightarrow> string \<Rightarrow> string \<Rightarrow> json py" where
  "put_content_var playbook k v =
     py_bind (py_item playbook ''vars'') (\<lambda>vars. py_bind (py_item vars ''content_vars'') (\<lambda>content.
     py_bind (py_put content k (JStr v)) (\<lambda>content'. py_bind (py_put vars ''content_vars'' content') (\<lambda>vars'.
       py_put playbook ''vars'' vars'))))"

fun put_content_vars :: "(string \<times> string) list \<Rightarrow> edited \<Rightarrow> edited py" where
  "put_content_vars [] e = Inr e"
| "put_content_vars ((k, v) # kvs) (playbook, _) =
     py_bind (put_content_var playbook k v) (\<lambda>p. put_content_vars kvs (p, True))"

definition with_content_vars :: "edited \<Rightarrow> edited py" where
  "with_content_vars = (\<lambda>(playbook, changed).
     py_bind (py_item playbook ''vars'') (\<lambda>vars. py_bind (py_in ''content_vars'' vars) (\<lambda>there.
       if there then Inr (playbook, changed)
       else py_bind (py_put vars ''content_vars'' (JObj [])) (\<lambda>vars'.
         py_bind (py_put playbook ''vars'' vars') (\<lambda>p. Inr (p, True))))))"

definition for_token :: "tasks_env \<Rightarrow> task_row \<Rightarrow> string option \<Rightarrow> edited \<Rightarrow> (tasks_state, edited) act" where
  "for_token tv t token e =
     (case token of
        None \<Rightarrow> a_ret e
      | Some s \<Rightarrow>
          a_bind (to_uuid tv s) (\<lambda>u.
          a_bind (get_db (\<lambda>db. find (\<lambda>x. xt_task x = tt_id t \<and> xt_token x = u) (td_extasks db))) (\<lambda>x.
            case x of
              None \<Rightarrow> a_ret e
            | Some x \<Rightarrow>
                a_bind (a_lift (with_content_vars e)) (\<lambda>e'.
                a_bind (get_db (\<lambda>db. map (\<lambda>(p, v). (tp_key p, v)) (extask_params db x))) (\<lambda>kvs.
                  a_lift (put_content_vars kvs e'))))))"

definition log_run :: "tasks_env \<Rightarrow> string option \<Rightarrow> (tasks_state, unit) act" where
  "log_run tv run_id =
     (case run_id of
        None \<Rightarrow> a_ret ()
      | Some s \<Rightarrow>
          a_bind (to_uuid tv s) (\<lambda>u.
          a_bind (get_db (\<lambda>db. job_rows db (filter (\<lambda>j. jb_run j = u) (td_jobs db)))) (\<lambda>rows. case rows of
            [] \<Rightarrow> a_ret ()
          | [(j, _)] \<Rightarrow> new_log j True (''Playbook requested (run ID '' @ s @ '')'')
          | _ \<Rightarrow> a_raise (Exn ''MultipleObjectsReturned''))))"

definition playbook_view :: "playbook_env \<Rightarrow> tasks_env \<Rightarrow> query_params \<Rightarrow> string \<Rightarrow> (tasks_state, string) act" where
  "playbook_view pb tv query slug =
     (let inventory_id = query_get query ''inventory_id''; run_id = query_get query ''run_id'' in
      a_bind (task_by_slug slug) (\<lambda>t.
      a_bind (a_lift (py_bind (pb_load pb (tt_playbook t)) py_first)) (\<lambda>playbook.
      a_bind (for_host pb tv t inventory_id run_id (playbook, False)) (\<lambda>e.
      a_bind (for_token tv t (query_get query ''token'') e) (\<lambda>(playbook', changed).
      a_then (log_run tv run_id)
        (a_ret (if changed then ''---'' @ [newline] @ pb_dump pb (JList [playbook']) else tt_playbook t)))))))"

section \<open>Writing tasks\<close>

text \<open>What the serializers accept, a field that is not given being \<open>None\<close>.\<close>

record param_data =
  da_key :: "string option"
  da_ptitle :: "string option"
  da_pdescription :: "string option"
  da_values :: "string list option"
  da_default :: "string option"
  da_required :: "bool option"
  da_multi :: "bool option"
  da_index :: "int option"

record task_data =
  da_slug :: "string option"
  da_title :: "string option"
  da_type :: "task_type option"
  da_description :: "string option"
  da_publish :: "int option"
  da_active :: "bool option"
  da_playbook :: "string option"
  da_message :: "string option option"
  da_filters :: "string list option"
  da_params :: "param_data list option"

text \<open>\<open>validate_parameters\<close>: a missing index is one value like any other.\<close>

fun validate_parameters :: "int option list \<Rightarrow> param_data list \<Rightarrow> unit py" where
  "validate_parameters seen [] = Inr ()"
| "validate_parameters seen (p # ps) =
     (if da_index p \<in> set seen then Inl ValidationError else validate_parameters (da_index p # seen) ps)"

definition param_complete :: "param_data \<Rightarrow> bool" where
  "param_complete p \<longleftrightarrow> da_key p \<noteq> None \<and> da_ptitle p \<noteq> None \<and> da_pdescription p \<noteq> None \<and> da_values p \<noteq> None"

definition task_complete :: "task_data \<Rightarrow> bool" where
  "task_complete d \<longleftrightarrow>
     da_slug d \<noteq> None \<and> da_title d \<noteq> None \<and> da_description d \<noteq> None \<and> da_publish d \<noteq> None \<and> da_playbook d \<noteq> None \<and>
     (case da_params d of None \<Rightarrow> True | Some ps \<Rightarrow> list_all param_complete ps)"

text \<open>
  The checks before a task is written: required fields unless the request is partial, the choices
  of the filters, the slug of no other task, and the indexes of the parameters.
\<close>

definition validate_task :: "bool \<Rightarrow> nat option \<Rightarrow> task_data \<Rightarrow> tasks_db \<Rightarrow> unit py" where
  "validate_task partly known d db =
     (if \<not> partly \<and> \<not> task_complete d then Inl ValidationError
      else if (case da_filters d of None \<Rightarrow> False | Some fs \<Rightarrow> \<not> list_all (\<lambda>f. f \<in> set requirement_names) fs)
      then Inl ValidationError
      else if (case da_slug d of None \<Rightarrow> False
               | Some s \<Rightarrow> list_ex (\<lambda>t. tt_slug t = s \<and> Some (tt_id t) \<noteq> known) (td_tasks db))
      then Inl ValidationError
      else case da_params d of None \<Rightarrow> Inr () | Some ps \<Rightarrow> validate_parameters [] ps)"

definition or_else :: "'a option \<Rightarrow> 'a \<Rightarrow> 'a" where
  "or_else x y = (case x of None \<Rightarrow> y | Some z \<Rightarrow> z)"

definition new_param :: "nat \<Rightarrow> param_data \<Rightarrow> task_param" where
  "new_param i p =
     \<lparr>tp_id = i, tp_key = or_else (da_key p) [], tp_required = or_else (da_required p) False, tp_default = da_default p,
      tp_values = or_else (da_values p) [], tp_multi = or_else (da_multi p) False, tp_title = or_else (da_ptitle p) [],
      tp_description = or_else (da_pdescription p) [], tp_index = or_else (da_index p) 1\<rparr>"

definition next_param_id :: "tasks_db \<Rightarrow> nat" where
  "next_param_id db = Suc (fold max (map tp_id (concat (map tt_params (td_tasks db)))) 0)"

definition save_task :: "task_row \<Rightarrow> (tasks_state, unit) act" where
  "save_task t = upd_db (\<lambda>db. db\<lparr>td_tasks := map (\<lambda>x. if tt_id x = tt_id t then t else x) (td_tasks db)\<rparr>)"

text \<open>
  \<open>bulk_create\<close> of the parameters of a task that has none: no two of an index, and the values must
  be given.
\<close>

definition create_params :: "task_row \<Rightarrow> param_data list \<Rightarrow> (tasks_state, unit) act" where
  "create_params t ps =
     a_bind (get_db next_param_id) (\<lambda>i.
       let rows = map (\<lambda>(k, p). new_param k p) (zip [i..<i + length ps] ps) in
       if \<not> distinct (map tp_index rows) \<or> \<not> list_all (\<lambda>p. da_values p \<noteq> None) ps then a_raise IntegrityError
       else save_task (t\<lparr>tt_params := rows\<rparr>))"

definition new_task :: "nat \<Rightarrow> task_data \<Rightarrow> task_row" where
  "new_task i d =
     \<lparr>tt_id = i, tt_slug = or_else (da_slug d) [], tt_title = or_else (da_title d) [], tt_type = or_else (da_type d) ANSIBLE,
      tt_timeout = 3600, tt_active = or_else (da_active d) False, tt_params = [], tt_filters = or_else (da_filters d) [],
      tt_description = or_else (da_description d) [], tt_publish = or_else (da_publish d) 0,
      tt_playbook = or_else (da_playbook d) [], tt_message = or_else (da_message d) None\<rparr>"

definition next_task_id :: "tasks_db \<Rightarrow> nat" where
  "next_task_id db = Suc (fold max (map tt_id (td_tasks db)) 0)"

definition task_create :: "task_data \<Rightarrow> (tasks_state, nat) act" where
  "task_create d =
     a_bind (get_db (validate_task False None d)) (\<lambda>v. a_then (a_lift v)
      (a_bind (get_db next_task_id) (\<lambda>i.
         let t = new_task i d; ps = or_else (da_params d) [] in
         a_then (upd_db (\<lambda>db. db\<lparr>td_tasks := td_tasks db @ [t]\<rparr>))
        (a_then (if ps = [] then a_ret () else create_params t ps)
          (a_ret i)))))"

definition edit_task :: "task_data \<Rightarrow> task_row \<Rightarrow> task_row" where
  "edit_task d t = t
     \<lparr>tt_slug := or_else (da_slug d) (tt_slug t), tt_title := or_else (da_title d) (tt_title t),
      tt_type := or_else (da_type d) (tt_type t), tt_active := or_else (da_active d) (tt_active t),
      tt_filters := or_else (da_filters d) (tt_filters t), tt_description := or_else (da_description d) (tt_description t),
      tt_publish := or_else (da_publish d) (tt_publish t), tt_playbook := or_else (da_playbook d) (tt_playbook t),
      tt_message := or_else (da_message d) (tt_message t)\<rparr>"

text \<open>Deleting parameters deletes the values that executed tasks were started with.\<close>

definition drop_params :: "task_row \<Rightarrow> tasks_db \<Rightarrow> tasks_db" where
  "drop_params t db =
     db\<lparr>td_tasks := map (\<lambda>x. if tt_id x = tt_id t then x\<lparr>tt_params := []\<rparr> else x) (td_tasks db),
        td_params := filter (\<lambda>e. ep_param e \<notin> tp_id ` set (tt_params t)) (td_params db)\<rparr>"

definition task_update :: "bool \<Rightarrow> string \<Rightarrow> task_data \<Rightarrow> (tasks_state, unit) act" where
  "task_update partly slug d =
     a_bind (task_by_slug slug) (\<lambda>t.
     a_bind (get_db (validate_task partly (Some (tt_id t)) d)) (\<lambda>v. a_then (a_lift v)
      (a_then (save_task (edit_task d t))
        (let ps = or_else (da_params d) [] in
         if ps = [] then a_ret ()
         else a_then (upd_db (drop_params t)) (create_params (edit_task d t) ps)))))"

definition task_destroy :: "string \<Rightarrow> (tasks_state, unit) act" where
  "task_destroy slug =
     a_bind (task_by_slug slug) (\<lambda>t.
       upd_db (\<lambda>db.
         let db' = fold delete_extask (filter (\<lambda>x. xt_task x = tt_id t) (td_extasks db)) (drop_params t db) in
         db'\<lparr>td_tasks := filter (\<lambda>x. tt_id x \<noteq> tt_id t) (td_tasks db')\<rparr>))"

definition internal_tasks :: "tasks_db \<Rightarrow> task_row list" where
  "internal_tasks db = sort_key tt_id (td_tasks db)"

section \<open>Playbook files and the fixture\<close>

record fixture_row =
  fx_model :: string
  fx_slug :: string
  fx_playbook :: string

record sync_state =
  sy_fixture :: "fixture_row list"
  sy_files :: "(string \<times> string) list"

text \<open>
  \<open>fixture_for_task\<close>: for each slug, in the order of their first rows, the place of the last row of
  a task with it, whose fields are those of the fixture.
\<close>

definition fixture_for_task :: "fixture_row list \<Rightarrow> (string \<times> nat) list" where
  "fixture_for_task rows =
     fold (\<lambda>(i, r) d. if fx_model r = ''tasks.Task'' then dict_set (fx_slug r) i d else d) (enumerate 0 rows) []"

definition sync_one :: "(string \<Rightarrow> string) \<Rightarrow> string \<times> nat \<Rightarrow> sync_state \<times> bool \<Rightarrow> sync_state \<times> bool" where
  "sync_one playbook_path = (\<lambda>(slug, i) (s, changed).
     let r = sy_fixture s ! i; path = playbook_path slug in
     case map_of (sy_files s) path of
       None \<Rightarrow> (s\<lparr>sy_files := dict_set path (fx_playbook r) (sy_files s)\<rparr>, changed)
     | Some content \<Rightarrow>
         if fx_playbook r = content then (s, changed)
         else (s\<lparr>sy_fixture := (sy_fixture s)[i := r\<lparr>fx_playbook := content\<rparr>]\<rparr>, True))"

text \<open>The fixture file is written when a row of it has changed.\<close>

definition sync_playbooks :: "(string \<Rightarrow> string) \<Rightarrow> sync_state \<Rightarrow> sync_state" where
  "sync_playbooks playbook_path s =
     (case fold (sync_one playbook_path) (fixture_for_task (sy_fixture s)) (s, False) of
        (t, changed) \<Rightarrow> if changed then t else t\<lparr>sy_fixture := sy_fixture s\<rparr>)"

end
