(* ===== verification/Tasks_Content_Safety.thy ===== *)
theory Tasks_Content_Safety
  imports Tasks_Content Tasks_Wellformed
begin

text \<open>
  What the views on tasks promise: writing tasks keeps the tables well formed; an update that gives
  parameters replaces them and forgets the values past executions were started with, and loses both
  when it fails; the playbook sent for an executed task holds the values it was started with; the
  filter on operating systems, and what the lists of jobs and executed tasks show.
\<close>

section \<open>Tables of tasks\<close>

definition all_params :: "tasks_db \<Rightarrow> task_param list" where
  "all_params db = concat (map tt_params (td_tasks db))"

text \<open>
  Keys and slugs are unique, parameters have one index in a task, executed tasks belong to a task, and
  their values are of parameters of that task.
\<close>

definition own_values :: "tasks_db \<Rightarrow> bool" where
  "own_values db \<longleftrightarrow> (\<forall>e \<in> set (td_params db). \<forall>x \<in> set (td_extasks db). ep_extask e = xt_id x \<longrightarrow>
     (\<exists>t \<in> set (td_tasks db). tt_id t = xt_task x \<and> ep_param e \<in> tp_id ` set (tt_params t)))"

definition content_wf :: "tasks_db \<Rightarrow> bool" where
  "content_wf db \<longleftrightarrow>
     distinct (map tt_id (td_tasks db)) \<and> distinct (map tt_slug (td_tasks db)) \<and>
     distinct (map tp_id (all_params db)) \<and>
     (\<forall>t \<in> set (td_tasks db). distinct (map tp_index (tt_params t))) \<and>
     xt_task ` set (td_extasks db) \<subseteq> tt_id ` set (td_tasks db) \<and> own_values db"

lemma content_wfD:
  assumes "content_wf db"
  shows "distinct (map tt_id (td_tasks db))" "distinct (map tt_slug (td_tasks db))"
    "distinct (map tp_id (all_params db))"
    "t \<in> set (td_tasks db) \<Longrightarrow> distinct (map tp_index (tt_params t))"
    "xt_task ` set (td_extasks db) \<subseteq> tt_id ` set (td_tasks db)" "own_values db"
  using assms by (simp_all add: content_wf_def)

lemma content_wfI:
  assumes "distinct (map tt_id (td_tasks db))" "distinct (map tt_slug (td_tasks db))"
    "distinct (map tp_id (all_params db))" "\<And>t. t \<in> set (td_tasks db) \<Longrightarrow> distinct (map tp_index (tt_params t))"
    "xt_task ` set (td_extasks db) \<subseteq> tt_id ` set (td_tasks db)" "own_values db"
  shows "content_wf db"
  unfolding content_wf_def using assms by blast

lemma same_task: "distinct (map tt_id ts) \<Longrightarrow> x \<in> set ts \<Longrightarrow> y \<in> set ts \<Longrightarrow> tt_id x = tt_id y \<Longrightarrow> x = y"
  by (auto simp: distinct_map inj_on_def)

lemma content_wf_cong:
  "td_tasks db' = td_tasks db \<Longrightarrow> td_extasks db' = td_extasks db \<Longrightarrow> td_params db' = td_params db \<Longrightarrow>
    content_wf db' = content_wf db"
  by (simp add: content_wf_def own_values_def all_params_def)

lemma own_valuesD:
  assumes "own_values db" "e \<in> set (td_params db)" "x \<in> set (td_extasks db)" "ep_extask e = xt_id x"
  shows "\<exists>t \<in> set (td_tasks db). tt_id t = xt_task x \<and> ep_param e \<in> tp_id ` set (tt_params t)"
  using assms unfolding own_values_def by blast

section \<open>Replacing a row\<close>

definition put_task :: "task_row \<Rightarrow> tasks_db \<Rightarrow> tasks_db" where
  "put_task t db = db\<lparr>td_tasks := map (\<lambda>x. if tt_id x = tt_id t then t else x) (td_tasks db)\<rparr>"

lemma save_task_put: "save_task t = upd_db (put_task t)"
  by (simp add: save_task_def put_task_def [abs_def])

lemma upd_db_run [simp]: "upd_db f s = (Inr (), s\<lparr>tk_db := f (tk_db s)\<rparr>)"
  by (simp add: upd_db_def)

lemma put_task_fields [simp]:
  "td_extasks (put_task t db) = td_extasks db" "td_jobs (put_task t db) = td_jobs db"
  "td_logs (put_task t db) = td_logs db" "td_params (put_task t db) = td_params db"
  "td_tasks (put_task t db) = map (\<lambda>x. if tt_id x = tt_id t then t else x) (td_tasks db)"
  by (simp_all add: put_task_def)

lemma drop_params_fields [simp]:
  "td_extasks (drop_params t db) = td_extasks db" "td_jobs (drop_params t db) = td_jobs db"
  "td_logs (drop_params t db) = td_logs db"
  "td_params (drop_params t db) = filter (\<lambda>e. ep_param e \<notin> tp_id ` set (tt_params t)) (td_params db)"
  "td_tasks (drop_params t db) = map (\<lambda>x. if tt_id x = tt_id t then x\<lparr>tt_params := []\<rparr> else x) (td_tasks db)"
  by (simp_all add: drop_params_def)

lemma put_task_wf: "tasks_wf db \<Longrightarrow> tasks_wf (put_task t db)"
  by (simp add: tasks_wf_def)

lemma drop_params_wf: "tasks_wf db \<Longrightarrow> tasks_wf (drop_params t db)"
  unfolding tasks_wf_def by auto

lemma distinct_map_update:
  assumes "distinct (map f xs)" "\<And>x. x \<in> set xs \<Longrightarrow> k x \<noteq> i \<Longrightarrow> f x \<noteq> f y" "distinct (map k xs)"
  shows "distinct (map f (map (\<lambda>x. if k x = i then y else x) xs))"
  using assms by (induction xs) (auto simp: image_iff, metis+)

lemma distinct_concat_drop:
  "distinct (map g (concat (map f xs))) \<Longrightarrow> distinct (map g (concat (map (\<lambda>x. if P x then [] else f x) xs)))"
  by (induction xs) (auto split: if_splits)

lemma distinct_concat_put:
  assumes "distinct (map k xs)" "distinct (map g ps)" "distinct (map g (concat (map f xs)))"
    "g ` set ps \<inter> g ` set (concat (map f xs)) = {}"
  shows "distinct (map g (concat (map (\<lambda>x. if k x = i then ps else f x) xs)))"
  using assms
proof (induction xs)
  case (Cons x xs)
  show ?case
  proof (cases "k x = i")
    case True
    have eq: "map (\<lambda>x. if k x = i then ps else f x) xs = map f xs"
      using Cons.prems(1) True by (auto simp: image_iff)
    have "distinct (map g (ps @ concat (map f xs)))" using Cons.prems by auto
    then show ?thesis using True by (simp only: list.map concat.simps eq simp_thms if_True)
  next
    case False
    define rest where "rest = concat (map (\<lambda>x. if k x = i then ps else f x) xs)"
    have part: "distinct (map g (f x)) \<and> distinct (map g (concat (map f xs)))"
      "g ` set (f x) \<inter> g ` set (concat (map f xs)) = {}" "g ` set ps \<inter> g ` set (f x) = {}"
      "g ` set ps \<inter> g ` set (concat (map f xs)) = {}"
      using Cons.prems(3,4) by (simp_all add: image_Un Int_Un_distrib del: set_concat)
    have "set rest \<subseteq> set ps \<union> set (concat (map f xs))" by (auto simp: rest_def)
    then have "g ` set (f x) \<inter> g ` set rest = {}" using part(2,3) by blast
    moreover have "distinct (map g rest)"
      using Cons.IH Cons.prems(1,2) part(1,4) by (simp only: rest_def [symmetric] list.map distinct.simps)
    ultimately have "distinct (map g (f x @ rest))" using part(1) by simp
    then show ?thesis using False by (simp add: rest_def del: map_append distinct_append)
  qed
qed simp


section \<open>Keeping the tables\<close>

lemma map_id_update: "(\<And>x. tt_id (f x) = tt_id x) \<Longrightarrow> map tt_id (map f xs) = map tt_id xs"
  by simp

lemma put_same_params:
  assumes "content_wf db" "t \<in> set (td_tasks db)" "tt_id t' = tt_id t" "tt_params t' = tt_params t"
    "\<not> list_ex (\<lambda>x. tt_slug x = tt_slug t' \<and> Some (tt_id x) \<noteq> Some (tt_id t)) (td_tasks db)"
  shows "content_wf (put_task t' db)"
proof -
  note wf = content_wfD [OF assms(1)]
  have here: "x = t" if "x \<in> set (td_tasks db)" "tt_id x = tt_id t" for x
    using same_task [OF wf(1) that(1) assms(2)] that(2) by simp
  let ?ts = "td_tasks (put_task t' db)"
  have ids: "map tt_id ?ts = map tt_id (td_tasks db)" using assms(3) by (auto simp: map_eq_conv)
  have ps: "map tt_params ?ts = map tt_params (td_tasks db)"
    using assms(3,4) here by (auto simp: map_eq_conv)
  have slugs: "distinct (map tt_slug ?ts)"
    using wf(1,2) assms(3,5)
    by (auto simp: list_ex_iff simp del: map_map intro!: distinct_map_update)
  have index: "distinct (map tp_index (tt_params x))" if "x \<in> set ?ts" for x
    using that wf(4) assms(2,4) by (auto split: if_splits)
  have "own_values (put_task t' db)"
    unfolding own_values_def
  proof (intro ballI impI)
    fix e x assume e: "e \<in> set (td_params (put_task t' db))" "x \<in> set (td_extasks (put_task t' db))" "ep_extask e = xt_id x"
    then obtain u where u: "u \<in> set (td_tasks db)" "tt_id u = xt_task x" "ep_param e \<in> tp_id ` set (tt_params u)"
      using own_valuesD [OF wf(6), of e x] by auto
    let ?u = "if tt_id u = tt_id t' then t' else u"
    have "?u \<in> set ?ts" using u(1) by auto
    moreover have "tt_id ?u = xt_task x" using u(2) by auto
    moreover have "tt_params ?u = tt_params u"
      using here [OF u(1)] assms(3,4) by (cases "tt_id u = tt_id t") simp_all
    ultimately show "\<exists>u \<in> set ?ts. tt_id u = xt_task x \<and> ep_param e \<in> tp_id ` set (tt_params u)"
      using u(3) by metis
  qed
  moreover have "all_params (put_task t' db) = all_params db" using ps by (simp only: all_params_def)
  moreover have "tt_id ` set ?ts = tt_id ` set (td_tasks db)" using ids by (metis set_map)
  moreover have "td_extasks (put_task t' db) = td_extasks db" by (rule put_task_fields)
  ultimately show ?thesis
    using slugs index wf(1,3,5) by (intro content_wfI) (simp_all only: ids)
qed

lemma drop_keeps_content:
  assumes "content_wf db" "t \<in> set (td_tasks db)"
  shows "content_wf (drop_params t db)"
proof -
  note wf = content_wfD [OF assms(1)]
  have here: "x = t" if "x \<in> set (td_tasks db)" "tt_id x = tt_id t" for x
    using same_task [OF wf(1) that(1) assms(2)] that(2) by simp
  let ?ts = "td_tasks (drop_params t db)"
  have ids: "map tt_id ?ts = map tt_id (td_tasks db)" "map tt_slug ?ts = map tt_slug (td_tasks db)"
    by (auto simp: map_eq_conv)
  have "all_params (drop_params t db) = concat (map (\<lambda>x. if tt_id x = tt_id t then [] else tt_params x) (td_tasks db))"
    by (simp add: all_params_def o_def if_distrib [of tt_params] cong: if_cong)
  then have ps: "distinct (map tp_id (all_params (drop_params t db)))"
    using distinct_concat_drop wf(3) by (metis all_params_def)
  have index: "distinct (map tp_index (tt_params x))" if "x \<in> set ?ts" for x
    using that wf(4) by (auto split: if_splits)
  have "own_values (drop_params t db)"
    unfolding own_values_def
  proof (intro ballI impI)
    fix e x assume e: "e \<in> set (td_params (drop_params t db))" "x \<in> set (td_extasks (drop_params t db))" "ep_extask e = xt_id x"
    then obtain u where u: "u \<in> set (td_tasks db)" "tt_id u = xt_task x" "ep_param e \<in> tp_id ` set (tt_params u)"
      using own_valuesD [OF wf(6), of e x] by auto
    have "tt_id u \<noteq> tt_id t"
    proof
      assume "tt_id u = tt_id t"
      then have "u = t" by (rule here [OF u(1)])
      then show False using e(1) u(3) by simp
    qed
    then have "u \<in> set ?ts" using u(1) by force
    then show "\<exists>u \<in> set ?ts. tt_id u = xt_task x \<and> ep_param e \<in> tp_id ` set (tt_params u)"
      using u by blast
  qed
  moreover have "tt_id ` set ?ts = tt_id ` set (td_tasks db)" using ids by (metis set_map)
  moreover have "td_extasks (drop_params t db) = td_extasks db" by (rule drop_params_fields)
  ultimately show ?thesis
    using ps index wf(1,2,5) by (intro content_wfI) (simp_all only: ids)
qed


text \<open>Parameters written to a row that has none.\<close>

lemma put_new_params:
  assumes "content_wf db" "u \<in> set (td_tasks db)" "tt_id u = tt_id t" "tt_slug u = tt_slug t"
    "tt_params u = []" "distinct (map tp_id rows)" "tp_id ` set rows \<inter> tp_id ` set (all_params db) = {}"
    "distinct (map tp_index rows)"
  shows "content_wf (put_task (t\<lparr>tt_params := rows\<rparr>) db)"
proof -
  note wf = content_wfD [OF assms(1)]
  have here: "x = u" if "x \<in> set (td_tasks db)" "tt_id x = tt_id t" for x
    using same_task [OF wf(1) that(1) assms(2)] that(2) assms(3) by simp
  let ?t = "t\<lparr>tt_params := rows\<rparr>"
  let ?ts = "td_tasks (put_task ?t db)"
  have ids: "map tt_id ?ts = map tt_id (td_tasks db)" by (auto simp: map_eq_conv)
  have slugs: "map tt_slug ?ts = map tt_slug (td_tasks db)"
    using here assms(4) by (auto simp: map_eq_conv)
  have "all_params (put_task ?t db) = concat (map (\<lambda>x. if tt_id x = tt_id t then rows else tt_params x) (td_tasks db))"
    by (simp add: all_params_def o_def if_distrib [of tt_params] cong: if_cong)
  then have ps: "distinct (map tp_id (all_params (put_task ?t db)))"
    using distinct_concat_put [OF wf(1) assms(6) wf(3) [unfolded all_params_def] assms(7) [unfolded all_params_def]]
    by (simp only:)
  have index: "distinct (map tp_index (tt_params x))" if "x \<in> set ?ts" for x
    using that wf(4) assms(8) by (auto split: if_splits)
  have "own_values (put_task ?t db)"
    unfolding own_values_def
  proof (intro ballI impI)
    fix e x assume e: "e \<in> set (td_params (put_task ?t db))" "x \<in> set (td_extasks (put_task ?t db))" "ep_extask e = xt_id x"
    then obtain v where v: "v \<in> set (td_tasks db)" "tt_id v = xt_task x" "ep_param e \<in> tp_id ` set (tt_params v)"
      using own_valuesD [OF wf(6), of e x] by auto
    have "tt_id v \<noteq> tt_id t"
    proof
      assume "tt_id v = tt_id t"
      then have "v = u" by (rule here [OF v(1)])
      then show False using v(3) assms(5) by simp
    qed
    then have "v \<in> set ?ts" using v(1) by force
    then show "\<exists>v \<in> set ?ts. tt_id v = xt_task x \<and> ep_param e \<in> tp_id ` set (tt_params v)"
      using v by blast
  qed
  moreover have "tt_id ` set ?ts = tt_id ` set (td_tasks db)" using ids by (metis set_map)
  moreover have "td_extasks (put_task ?t db) = td_extasks db" by (rule put_task_fields)
  ultimately show ?thesis
    using ps index wf(1,2,5) by (intro content_wfI) (simp_all only: ids slugs)
qed

definition new_params :: "nat \<Rightarrow> param_data list \<Rightarrow> task_param list" where
  "new_params i ps = map (\<lambda>(k, p). new_param k p) (zip [i..<i + length ps] ps)"

lemma new_params_ids: "map tp_id (new_params i ps) = [i..<i + length ps]"
  by (rule nth_equalityI) (simp_all add: new_params_def new_param_def)

lemma new_params_fresh:
  "tp_id ` set (new_params (next_param_id db) ps) \<inter> tp_id ` set (all_params db) = {}"
proof -
  have "n < next_param_id db" if "n \<in> tp_id ` set (all_params db)" for n
    using that le_fold_max [of n "map tp_id (all_params db)" 0]
    by (auto simp: next_param_id_def all_params_def)
  moreover have "next_param_id db \<le> n" if "n \<in> set (map tp_id (new_params (next_param_id db) ps))" for n
    using that by (simp only: new_params_ids set_upt) simp
  ultimately show ?thesis by (simp only: set_map) (meson disjoint_iff not_less)
qed

lemma create_params_cases:
  "create_params t ps s =
     (let rows = new_params (next_param_id (tk_db s)) ps in
      if \<not> distinct (map tp_index rows) \<or> \<not> list_all (\<lambda>p. da_values p \<noteq> None) ps then (Inl IntegrityError, s)
      else (Inr (), s\<lparr>tk_db := put_task (t\<lparr>tt_params := rows\<rparr>) (tk_db s)\<rparr>))"
  by (simp add: create_params_def a_bind_app Let_def new_params_def save_task_put)

lemma create_params_wf:
  assumes "content_wf (tk_db s)" "tasks_wf (tk_db s)" "u \<in> set (td_tasks (tk_db s))" "tt_id u = tt_id t"
    "tt_slug u = tt_slug t" "tt_params u = []"
  shows "content_wf (tk_db (snd (create_params t ps s))) \<and> tasks_wf (tk_db (snd (create_params t ps s)))"
proof -
  let ?rows = "new_params (next_param_id (tk_db s)) ps"
  have "distinct (map tp_id ?rows)" by (simp only: new_params_ids distinct_upt)
  then have "content_wf (put_task (t\<lparr>tt_params := ?rows\<rparr>) (tk_db s))" if "distinct (map tp_index ?rows)"
    using put_new_params [OF assms(1,3-6) _ new_params_fresh that] by blast
  then show ?thesis
    using assms(1,2) put_task_wf by (simp add: create_params_cases Let_def)
qed


section \<open>Requests that write tasks\<close>

definition task_tables_ok :: "tasks_state \<Rightarrow> bool" where
  "task_tables_ok s \<longleftrightarrow> tasks_wf (tk_db s) \<and> content_wf (tk_db s)"

lemma find_slugD: "find_slug slug db = Some t \<Longrightarrow> t \<in> set (td_tasks db) \<and> tt_slug t = slug"
  by (auto simp: find_slug_def find_Some_iff)

lemma task_by_slug_app:
  "task_by_slug slug s = (case find_slug slug (tk_db s) of None \<Rightarrow> (Inl Http404, s) | Some t \<Rightarrow> (Inr t, s))"
  by (simp add: task_by_slug_def a_bind_app split: option.split)

lemma edit_task_keeps [simp]: "tt_id (edit_task d t) = tt_id t" "tt_params (edit_task d t) = tt_params t"
  by (simp_all add: edit_task_def)

lemma drop_params_edit: "drop_params t = drop_params (edit_task d t)"
  by (rule ext) (simp add: drop_params_def)

lemma task_update_cases:
  "task_update partly slug d s =
     (case find_slug slug (tk_db s) of
        None \<Rightarrow> (Inl Http404, s)
      | Some t \<Rightarrow>
          (case validate_task partly (Some (tt_id t)) d (tk_db s) of
             Inl e \<Rightarrow> (Inl e, s)
           | Inr _ \<Rightarrow>
               let s1 = s\<lparr>tk_db := put_task (edit_task d t) (tk_db s)\<rparr>; ps = or_else (da_params d) [] in
               if ps = [] then (Inr (), s1)
               else create_params (edit_task d t) ps (s1\<lparr>tk_db := drop_params t (tk_db s1)\<rparr>)))"
  by (simp add: task_update_def a_bind_app a_then_app task_by_slug_app save_task_put Let_def split: option.split sum.split)

lemma validate_slug:
  assumes "validate_task partly (Some i) d db = Inr ()" "distinct (map tt_slug (td_tasks db))" "t \<in> set (td_tasks db)" "tt_id t = i"
  shows "\<not> list_ex (\<lambda>x. tt_slug x = tt_slug (edit_task d t) \<and> Some (tt_id x) \<noteq> Some i) (td_tasks db)"
proof (cases "da_slug d")
  case None
  have "x = t" if "x \<in> set (td_tasks db)" "tt_slug x = tt_slug t" for x
    using assms(2,3) that by (auto simp: distinct_map inj_on_def)
  then show ?thesis using None assms(4) by (auto simp: list_ex_iff edit_task_def or_else_def)
next
  case (Some slug)
  then show ?thesis using assms(1) by (auto simp: validate_task_def edit_task_def or_else_def split: if_splits)
qed

lemma put_edit_wf:
  assumes "task_tables_ok s" "find_slug slug (tk_db s) = Some t" "validate_task partly (Some (tt_id t)) d (tk_db s) = Inr ()"
  shows "content_wf (put_task (edit_task d t) (tk_db s))"
proof -
  note wf = content_wfD [of "tk_db s"]
  show ?thesis
    using assms find_slugD [OF assms(2)] validate_slug [OF assms(3), of t]
    by (intro put_same_params [where t = t]) (simp_all add: task_tables_ok_def content_wfD(2))
qed

lemma task_update_wf: "task_tables_ok s \<Longrightarrow> task_tables_ok (snd (task_update partly slug d s))"
proof -
  assume s: "task_tables_ok s"
  show ?thesis
  proof (cases "find_slug slug (tk_db s)")
    case None
    then show ?thesis using s by (simp add: task_update_cases)
  next
    case t: (Some t)
    show ?thesis
    proof (cases "validate_task partly (Some (tt_id t)) d (tk_db s)")
      case (Inl e)
      then show ?thesis using s t by (simp add: task_update_cases)
    next
      case (Inr x)
      let ?e = "edit_task d t" and ?ps = "or_else (da_params d) []"
      let ?db1 = "put_task ?e (tk_db s)"
      let ?db2 = "drop_params t ?db1"
      have db1: "content_wf ?db1" "tasks_wf ?db1"
        using put_edit_wf [OF s t] Inr put_task_wf s by (auto simp: task_tables_ok_def)
      have "t \<in> set (td_tasks (tk_db s))" using find_slugD [OF t] by simp
      then have e: "?e \<in> set (td_tasks ?db1)" by force
      then have db2: "content_wf ?db2" "tasks_wf ?db2"
        using drop_keeps_content [OF db1(1) e] drop_params_wf [OF db1(2)] by (simp_all only: drop_params_edit [of t d])
      have u: "?e\<lparr>tt_params := []\<rparr> \<in> set (td_tasks ?db2)"
        using e by (simp only: drop_params_fields set_map) force
      have "content_wf (tk_db (snd (create_params ?e ?ps (s\<lparr>tk_db := ?db2\<rparr>)))) \<and>
          tasks_wf (tk_db (snd (create_params ?e ?ps (s\<lparr>tk_db := ?db2\<rparr>))))"
        by (rule create_params_wf [where u = "?e\<lparr>tt_params := []\<rparr>"]) (use db2 u in simp_all)
      then show ?thesis using t Inr db1 by (simp add: task_update_cases Let_def task_tables_ok_def)
    qed
  qed
qed

lemma add_task_wf:
  assumes "content_wf db" "tt_id t \<notin> tt_id ` set (td_tasks db)" "tt_slug t \<notin> tt_slug ` set (td_tasks db)" "tt_params t = []"
  shows "content_wf (db\<lparr>td_tasks := td_tasks db @ [t]\<rparr>)"
proof (rule content_wfI)
  note wf = content_wfD [OF assms(1)]
  show "own_values (db\<lparr>td_tasks := td_tasks db @ [t]\<rparr>)"
    unfolding own_values_def
  proof (intro ballI impI)
    fix e x assume "e \<in> set (td_params (db\<lparr>td_tasks := td_tasks db @ [t]\<rparr>))"
      "x \<in> set (td_extasks (db\<lparr>td_tasks := td_tasks db @ [t]\<rparr>))" "ep_extask e = xt_id x"
    then have "\<exists>u \<in> set (td_tasks db). tt_id u = xt_task x \<and> ep_param e \<in> tp_id ` set (tt_params u)"
      using own_valuesD [OF wf(6), of e x] by simp
    then show "\<exists>u \<in> set (td_tasks (db\<lparr>td_tasks := td_tasks db @ [t]\<rparr>)). tt_id u = xt_task x \<and> ep_param e \<in> tp_id ` set (tt_params u)"
      by auto
  qed
qed (use content_wfD [OF assms(1)] assms(2-4) in \<open>auto simp: all_params_def\<close>)

lemma next_task_id_fresh: "next_task_id db \<notin> tt_id ` set (td_tasks db)"
  using le_fold_max [of _ "map tt_id (td_tasks db)" 0] by (force simp: next_task_id_def)

lemma task_create_wf: "task_tables_ok s \<Longrightarrow> task_tables_ok (snd (task_create d s))"
proof -
  assume s: "task_tables_ok s"
  show ?thesis
  proof (cases "validate_task False None d (tk_db s)")
    case (Inl e)
    then show ?thesis using s by (simp add: task_create_def a_bind_app a_then_app)
  next
    case (Inr x)
    let ?i = "next_task_id (tk_db s)" and ?ps = "or_else (da_params d) []"
    let ?t = "new_task ?i d"
    let ?s = "s\<lparr>tk_db := (tk_db s)\<lparr>td_tasks := td_tasks (tk_db s) @ [?t]\<rparr>\<rparr>"
    have "tt_slug ?t \<notin> tt_slug ` set (td_tasks (tk_db s))"
      using Inr by (auto simp: validate_task_def task_complete_def new_task_def or_else_def list_ex_iff split: if_splits)
    then have new: "content_wf (tk_db ?s)" "tasks_wf (tk_db ?s)"
      using s add_task_wf [of "tk_db s" ?t] next_task_id_fresh [of "tk_db s"]
      by (simp_all add: new_task_def task_tables_ok_def tasks_wf_def)
    have "content_wf (tk_db (snd (create_params ?t ?ps ?s))) \<and> tasks_wf (tk_db (snd (create_params ?t ?ps ?s)))"
      by (rule create_params_wf [where u = ?t]) (use new in \<open>simp_all add: new_task_def\<close>)
    then show ?thesis using Inr new
      by (auto simp: task_create_def a_bind_app a_then_app Let_def task_tables_ok_def split: prod.splits sum.splits)
  qed
qed


lemma delete_extask_fields:
  "td_tasks (delete_extask x db) = td_tasks db"
  "td_extasks (delete_extask x db) = filter (\<lambda>y. xt_id y \<noteq> xt_id x) (td_extasks db)"
  "set (td_params (delete_extask x db)) \<subseteq> set (td_params db)"
  by (auto simp: delete_extask_def Let_def)

lemma delete_extasks_fields:
  "td_tasks (fold delete_extask xs db) = td_tasks db"
  "set (td_extasks (fold delete_extask xs db)) = {y \<in> set (td_extasks db). xt_id y \<notin> xt_id ` set xs}"
  "set (td_params (fold delete_extask xs db)) \<subseteq> set (td_params db)"
  "tasks_wf db \<Longrightarrow> tasks_wf (fold delete_extask xs db)"
proof (induction xs arbitrary: db)
  case (Cons x xs)
  { case 1 then show ?case by (simp add: Cons.IH delete_extask_fields) }
  { case 2 then show ?case by (auto simp: Cons.IH delete_extask_fields) }
  { case 3 then show ?case using Cons.IH(3) delete_extask_fields(3) by fastforce }
  { case 4 then show ?case by (simp add: Cons.IH delete_extask_wf) }
qed simp_all

lemma task_destroy_wf: "task_tables_ok s \<Longrightarrow> task_tables_ok (snd (task_destroy slug s))"
proof -
  assume s: "task_tables_ok s"
  show ?thesis
  proof (cases "find_slug slug (tk_db s)")
    case None
    then show ?thesis using s by (simp add: task_destroy_def a_bind_app task_by_slug_app)
  next
    case t: (Some t)
    let ?db = "drop_params t (tk_db s)"
    let ?xs = "filter (\<lambda>x. xt_task x = tt_id t) (td_extasks (tk_db s))"
    let ?db1 = "fold delete_extask ?xs ?db"
    let ?db2 = "?db1\<lparr>td_tasks := filter (\<lambda>x. tt_id x \<noteq> tt_id t) (td_tasks ?db1)\<rparr>"
    have here: "t \<in> set (td_tasks (tk_db s))" using find_slugD [OF t] by simp
    have db: "content_wf ?db" "tasks_wf ?db"
      using s drop_keeps_content [OF _ here] drop_params_wf by (auto simp: task_tables_ok_def)
    note wf = content_wfD [OF db(1)]
    have left: "y \<in> set (td_extasks ?db) \<and> xt_task y \<noteq> tt_id t" if "y \<in> set (td_extasks ?db1)" for y
      using that by (auto simp: delete_extasks_fields(2))
    have tasks: "td_tasks ?db1 = td_tasks ?db" by (rule delete_extasks_fields)
    have "content_wf ?db2"
    proof (rule content_wfI)
      show "distinct (map tt_id (td_tasks ?db2))" "distinct (map tt_slug (td_tasks ?db2))"
        using wf(1,2) by (simp_all add: tasks distinct_map_filter del: drop_params_fields)
      have "distinct (map tp_id (concat (map (\<lambda>x. if tt_id x = tt_id t then [] else tt_params x) (td_tasks ?db))))"
        using distinct_concat_drop wf(3) by (metis all_params_def)
      moreover have drop: "concat (map tt_params (filter (\<lambda>x. tt_id x \<noteq> tt_id t) xs)) =
          concat (map (\<lambda>x. if tt_id x = tt_id t then [] else tt_params x) xs)" for xs
        by (induction xs) auto
      have "td_tasks ?db2 = filter (\<lambda>x. tt_id x \<noteq> tt_id t) (td_tasks ?db)"
        by (simp add: tasks del: drop_params_fields)
      then have "all_params ?db2 = concat (map (\<lambda>x. if tt_id x = tt_id t then [] else tt_params x) (td_tasks ?db))"
        by (simp only: all_params_def drop)
      ultimately show "distinct (map tp_id (all_params ?db2))" by simp
      show "distinct (map tp_index (tt_params u))" if "u \<in> set (td_tasks ?db2)" for u
        using that wf(4) by (simp add: tasks del: drop_params_fields)
      show "xt_task ` set (td_extasks ?db2) \<subseteq> tt_id ` set (td_tasks ?db2)"
      proof
        fix i assume "i \<in> xt_task ` set (td_extasks ?db2)"
        then obtain y where y: "y \<in> set (td_extasks ?db1)" "i = xt_task y" by auto
        then have "i \<in> tt_id ` set (td_tasks ?db)" "i \<noteq> tt_id t" using left [OF y(1)] wf(5) by auto
        then show "i \<in> tt_id ` set (td_tasks ?db2)" by (auto simp: tasks simp del: drop_params_fields)
      qed
      show "own_values ?db2"
        unfolding own_values_def
      proof (intro ballI impI)
        fix e x assume e: "e \<in> set (td_params ?db2)" "x \<in> set (td_extasks ?db2)" "ep_extask e = xt_id x"
        have "x \<in> set (td_extasks ?db1)" using e(2) by (simp del: drop_params_fields)
        from left [OF this] have x: "x \<in> set (td_extasks ?db)" "xt_task x \<noteq> tt_id t" by blast+
        have "e \<in> set (td_params ?db1)" using e(1) by (simp del: drop_params_fields)
        then have "e \<in> set (td_params ?db)" using delete_extasks_fields(3) by (rule rev_subsetD)
        from own_valuesD [OF wf(6) this x(1) e(3)] obtain u where
          u: "u \<in> set (td_tasks ?db)" "tt_id u = xt_task x" "ep_param e \<in> tp_id ` set (tt_params u)" by blast
        then show "\<exists>u \<in> set (td_tasks ?db2). tt_id u = xt_task x \<and> ep_param e \<in> tp_id ` set (tt_params u)"
          using x(2) by (intro bexI [of _ u]) (simp_all add: tasks del: drop_params_fields)
      qed
    qed
    moreover have "tasks_wf ?db2" using delete_extasks_fields(4) [OF db(2)] by (simp add: tasks_wf_def)
    ultimately show ?thesis
      using t by (simp add: task_destroy_def a_bind_app task_by_slug_app Let_def task_tables_ok_def)
  qed
qed


section \<open>Requests that only log\<close>

text \<open>A log line is written for a job that was read from the tables.\<close>

lemma holding_jobs:
  assumes "holding {} {} s" "J \<subseteq> set (td_jobs (tk_db s))"
  shows "holding (jb_extask ` J) (jb_id ` J) s"
proof -
  have "jb_extask ` J \<subseteq> jb_extask ` set (td_jobs (tk_db s))" "jb_id ` J \<subseteq> jb_id ` set (td_jobs (tk_db s))"
    using assms(2) by (simp_all add: image_mono)
  moreover have "jb_extask ` set (td_jobs (tk_db s)) \<subseteq> xt_id ` set (td_extasks (tk_db s))" "tasks_wf (tk_db s)"
    using assms(1) by (simp_all add: holding_def tasks_wf_def)
  ultimately show ?thesis unfolding holding_def using subset_trans by blast
qed

lemma keeps_wf_log_read:
  assumes "\<And>db. jobs (g db) \<subseteq> set (td_jobs db)"
    "\<And>x. keeps (holding (jb_extask ` jobs x) (jb_id ` jobs x)) (f x)"
  shows "keeps (holding {} {}) (a_bind (get_db g) f)"
proof (rule keeps_bind_get_db)
  fix s assume s: "holding {} {} s"
  from holding_jobs [OF s assms(1)] assms(2)
  show "\<exists>X' J'. holding (X' \<union> {}) (J' \<union> {}) s \<and> keeps (holding (X' \<union> {}) (J' \<union> {})) (f (g (tk_db s)))"
    by (metis sup_bot.right_neutral)
qed

lemma keeps_wf_to_uuid: "keeps (holding X J) (to_uuid tv u)"
  by (rule keeps_holding_event) (simp add: to_uuid_def split: option.split)

lemma keeps_wf_by_slug: "keeps (holding X J) (task_by_slug slug)"
  by (rule keeps_holding_event) (simp add: task_by_slug_app split: option.split)

lemma keeps_wf_log_request: "keeps (holding {} {}) (log_request t tv i)"
proof -
  have "keeps (holding (jb_extask ` set js) (jb_id ` set js)) (case js of [] \<Rightarrow> a_ret ()
      | [j] \<Rightarrow> new_log j True (''Playbook requested (identified by inventory ID '' @ i @ '')'') | j # b # l \<Rightarrow> a_ret ())"
    for js
    by (cases js rule: remdups_adj.cases) (auto intro: keeps_wf_log)
  then show ?thesis
    unfolding log_request_def
    by (intro keeps_bind keeps_wf_to_uuid keeps_wf_log_read [where jobs = set]) (auto simp: running_on_def)
qed

lemma set_join_hosts: "fst ` set (join_hosts db j) = {j}"
  by (cases "hosts_of_job db j") (auto simp: join_hosts_def)

lemma set_job_rows: "fst ` set (job_rows db js) = set js"
  by (simp add: job_rows_def image_UN set_join_hosts)

lemma keeps_wf_log_run: "keeps (holding {} {}) (log_run tv run_id)"
proof (cases run_id)
  case (Some i)
  have "keeps (holding (jb_extask ` fst ` set rows) (jb_id ` fst ` set rows)) (case rows of [] \<Rightarrow> a_ret ()
        | [(j, _)] \<Rightarrow> new_log j True (''Playbook requested (run ID '' @ i @ '')'')
        | _ \<Rightarrow> a_raise (Exn ''MultipleObjectsReturned''))" for rows :: "job_joined list"
    by (cases rows rule: remdups_adj.cases) (auto intro: keeps_wf_log)
  then show ?thesis
    unfolding log_run_def Some option.case
    by (intro keeps_bind keeps_wf_to_uuid keeps_wf_log_read [where jobs = "\<lambda>rows. fst ` set rows"])
      (auto simp: set_job_rows)
qed (simp add: log_run_def)

lemma keeps_wf_for_token: "keeps (holding {} {}) (for_token tv t token e)"
  unfolding for_token_def
  by (intro keeps_option keeps_ret keeps_bind keeps_wf_to_uuid keeps_bind_get_any keeps_lift)

lemma keeps_wf_for_host: "keeps (holding {} {}) (for_host pb tv t i r e)"
  unfolding for_host_def
  by (intro keeps_prod keeps_option keeps_ret keeps_bind keeps_lift keeps_then keeps_if keeps_wf_log_request)

lemma keeps_wf_playbook: "keeps (holding {} {}) (playbook_view pb tv query slug)"
  unfolding playbook_view_def Let_def
  by (intro keeps_bind keeps_wf_by_slug keeps_lift keeps_wf_for_host keeps_wf_for_token keeps_prod keeps_then
      keeps_wf_log_run keeps_ret)


lemma keeps_wf_stdout: "keeps (holding {} {}) (job_stdout tv tc i)"
proof -
  let ?jobs = "\<lambda>r. case r of Inl (e :: pyexn) \<Rightarrow> {} | Inr (j, h :: task_host option) \<Rightarrow> {j}"
  have "?jobs (job_object tc i db) \<subseteq> set (td_jobs db)" for db
  proof -
    have "fst ` set (job_rows db (filter (\<lambda>j. jb_id j = i) (jobs_in_org tc db))) \<subseteq> set (td_jobs db)"
      by (auto simp: set_job_rows jobs_in_org_def)
    then show ?thesis by (auto simp: job_object_def split: list.splits)
  qed
  moreover have "keeps (holding (jb_extask ` ?jobs r) (jb_id ` ?jobs r)) (a_bind (a_lift r) (\<lambda>(j, _).
       if jb_status j \<noteq> JRunning then a_ret (JStr (jb_stdout j))
       else
         a_bind (get_db (find_extask (jb_extask j))) (\<lambda>x. a_bind (or_missing x) (\<lambda>x. a_bind (task_of x) (\<lambda>t.
           case tt_type t of
             SCRIPT \<Rightarrow> a_ret (JStr (jb_stdout j))
           | ANSIBLE \<Rightarrow> a_bind (fetch_playbook_dispatcher_stdout tv j) (\<lambda>out.
               a_ret (if out = JNull then JStr [] else out)))))))" for r
    by (cases r) (auto intro!: keeps_wf keeps_wf_fetch split: task_type.split)
  ultimately show ?thesis
    unfolding job_stdout_def by (intro keeps_wf_log_read [where jobs = ?jobs])
qed

text \<open>What they write is not of the tables of tasks.\<close>

definition task_tables :: "tasks_state \<Rightarrow> task_row list \<times> extask list \<times> extask_param list" where
  "task_tables s = (td_tasks (tk_db s), td_extasks (tk_db s), td_params (tk_db s))"

lemma keeps_same_log: "keeps (\<lambda>s. task_tables s = c) (new_log j ok line)"
  by (rule keepsI) (simp add: new_log_def task_tables_def)

lemma keeps_same_get: "keeps P (get_db g)"
  by (simp add: get_db_def)

lemma keeps_same_uuid: "keeps P (to_uuid tv u)"
  by (simp add: to_uuid_def keeps_option)

lemma keeps_same_slug: "keeps P (task_by_slug slug)"
  unfolding task_by_slug_def by (intro keeps_bind keeps_same_get keeps_option keeps_raise keeps_ret)

lemmas keeps_same = keeps_same_log keeps_same_get keeps_same_uuid keeps_same_slug keeps_bind keeps_then keeps_ret
  keeps_raise keeps_lift keeps_if keeps_option keeps_prod

lemma keeps_list_cases:
  "keeps P a \<Longrightarrow> (\<And>x. keeps P (b x)) \<Longrightarrow> (\<And>x y zs. keeps P (c x y zs)) \<Longrightarrow>
    keeps P (case xs of [] \<Rightarrow> a | [x] \<Rightarrow> b x | x # y # zs \<Rightarrow> c x y zs)"
  by (cases xs rule: remdups_adj.cases) auto

lemma keeps_same_playbook: "keeps (\<lambda>s. task_tables s = c) (playbook_view pb tv query slug)"
  unfolding playbook_view_def Let_def for_host_def log_request_def for_token_def log_run_def
  by (intro keeps_same keeps_list_cases) (auto split: list.split intro: keeps_same_log)

lemma keeps_same_fetch: "keeps (\<lambda>s. task_tables s = c) (fetch_playbook_dispatcher_stdout tv j)"
  unfolding fetch_playbook_dispatcher_stdout_def read_stdout_def Let_def
  by (intro keeps_same)

lemma keeps_same_stdout: "keeps (\<lambda>s. task_tables s = c) (job_stdout tv tc i)"
  unfolding job_stdout_def or_missing_def task_of_def
  by (intro keeps_same) (auto split: task_type.split intro!: keeps_same keeps_same_fetch)

lemma task_tables_ok_same:
  assumes "keeps (holding {} {}) m" "\<And>c. keeps (\<lambda>s. task_tables s = c) m" "task_tables_ok s"
  shows "task_tables_ok (snd (m s))"
proof -
  have "tasks_wf (tk_db (snd (m s)))"
    using keepsD [OF assms(1), of s] assms(3) by (simp add: holding_none task_tables_ok_def)
  moreover have "task_tables (snd (m s)) = task_tables s" by (rule keepsD [OF assms(2)]) simp
  then have "content_wf (tk_db (snd (m s))) = content_wf (tk_db s)"
    by (intro content_wf_cong) (simp_all add: task_tables_def)
  ultimately show ?thesis using assms(3) by (simp add: task_tables_ok_def)
qed


section \<open>Runs of requests\<close>

datatype content_op =
    CreateTask task_data
  | UpdateTask bool string task_data
  | DestroyTask string
  | FetchPlaybook query_params string
  | ShowStdout tasks_call nat

fun run_content_op :: "playbook_env \<Rightarrow> tasks_env \<Rightarrow> content_op \<Rightarrow> tasks_state \<Rightarrow> tasks_state" where
  "run_content_op pb tv (CreateTask d) s = snd (task_create d s)"
| "run_content_op pb tv (UpdateTask partly slug d) s = snd (task_update partly slug d s)"
| "run_content_op pb tv (DestroyTask slug) s = snd (task_destroy slug s)"
| "run_content_op pb tv (FetchPlaybook query slug) s = snd (playbook_view pb tv query slug s)"
| "run_content_op pb tv (ShowStdout tc i) s = snd (job_stdout tv tc i s)"

inductive content_run :: "tasks_state \<Rightarrow> tasks_state \<Rightarrow> bool" where
  content_start: "content_run s s"
| content_next: "content_run s t \<Longrightarrow> content_run s (run_content_op pb tv op t)"

lemma content_op_ok: "task_tables_ok s \<Longrightarrow> task_tables_ok (run_content_op pb tv op s)"
  by (cases op) (simp_all add: task_create_wf task_update_wf task_destroy_wf
      task_tables_ok_same [OF keeps_wf_playbook keeps_same_playbook] task_tables_ok_same [OF keeps_wf_stdout keeps_same_stdout])

text \<open>
  Writing tasks keeps the tables well formed.  Whatever requests create, update and delete tasks,
  fetch playbooks and show the output of jobs, and whether they return or raise, keys and slugs stay
  unique, a task has at most one parameter of an index, executed tasks belong to a task, the values
  they were started with are of parameters of that task, and the tables of jobs and their log stay
  well formed.
\<close>

theorem content_tables_stay_well_formed:
  assumes "content_run s t" "task_tables_ok s"
  shows "task_tables_ok t"
  using assms by (induction rule: content_run.induct) (auto intro: content_op_ok)


section \<open>Updating the parameters of a task\<close>

lemma validate_task_error: "validate_task partly known d db = Inl e \<Longrightarrow> e = ValidationError"
proof -
  have "validate_parameters seen ps = Inl e \<Longrightarrow> e = ValidationError" for seen ps
    by (induction seen ps rule: validate_parameters.induct) (auto split: if_splits)
  then show "validate_task partly known d db = Inl e \<Longrightarrow> e = ValidationError"
    by (auto simp: validate_task_def split: if_splits option.splits)
qed

lemma update_cases_params:
  assumes "task_update partly slug d s = (r, t)" "da_params d = Some ps" "ps \<noteq> []" "r \<noteq> Inl Http404" "r \<noteq> Inl ValidationError"
  obtains old where "find_slug slug (tk_db s) = Some old" "validate_task partly (Some (tt_id old)) d (tk_db s) = Inr ()"
    "create_params (edit_task d old) ps (s\<lparr>tk_db := drop_params old (put_task (edit_task d old) (tk_db s))\<rparr>) = (r, t)"
proof (cases "find_slug slug (tk_db s)")
  case None
  then show ?thesis using assms by (simp add: task_update_cases)
next
  case (Some old)
  show ?thesis
  proof (cases "validate_task partly (Some (tt_id old)) d (tk_db s)")
    case (Inl e)
    then show ?thesis using assms Some validate_task_error [OF Inl] by (simp add: task_update_cases)
  next
    case (Inr x)
    then show ?thesis using assms Some by (intro that [OF Some]) (simp_all add: task_update_cases Let_def or_else_def)
  qed
qed

lemma find_by_key: "distinct (map k xs) \<Longrightarrow> p \<in> set xs \<Longrightarrow> find (\<lambda>q. k q = k p) xs = Some p"
  by (induction xs) (auto simp: image_iff)

lemma map_filter_filter:
  "(\<And>e. e \<in> set es \<Longrightarrow> f e = (if P e then g e else None)) \<Longrightarrow> List.map_filter g (filter P es) = List.map_filter f es"
  by (induction es) (auto simp: List.map_filter_def)

text \<open>The parameters of other tasks are found as before.\<close>

definition param_named :: "tasks_db \<Rightarrow> nat \<Rightarrow> task_param option" where
  "param_named db i = find (\<lambda>p. tp_id p = i) (all_params db)"

lemma extask_params_alt:
  "extask_params db x = sort_key (tp_index \<circ> fst) (List.map_filter
     (\<lambda>e. if ep_extask e = xt_id x then map_option (\<lambda>p. (p, ep_value e)) (param_named db (ep_param e)) else None) (td_params db))"
  unfolding extask_params_def param_named_def all_params_def by (rule refl)

lemma param_named_own:
  assumes "content_wf db" "u \<in> set (td_tasks db)" "p \<in> set (tt_params u)"
  shows "param_named db (tp_id p) = Some p"
  unfolding param_named_def
  by (rule find_by_key [OF content_wfD(3) [OF assms(1)]]) (use assms in \<open>auto simp: all_params_def\<close>)

lemma param_of_one_task:
  assumes "content_wf db" "u \<in> set (td_tasks db)" "v \<in> set (td_tasks db)" "p \<in> set (tt_params u)" "tp_id p \<in> tp_id ` set (tt_params v)"
  shows "u = v"
proof (rule ccontr)
  assume "u \<noteq> v"
  obtain q where q: "q \<in> set (tt_params v)" "tp_id q = tp_id p" using assms(5) by auto
  obtain as bs where "td_tasks db = as @ u # bs" using split_list [OF assms(2)] by blast
  moreover have "v \<in> set as \<or> v \<in> set bs" using assms(3) calculation \<open>u \<noteq> v\<close> by auto
  ultimately show False
    using content_wfD(3) [OF assms(1)] assms(4) q by (fastforce simp: all_params_def image_iff)
qed

text \<open>
  C35: an update that gives parameters replaces them, and past executions of the task forget theirs.
  When it returns, the row of the task has the new parameters, other tasks, the executed tasks and
  jobs are as before, and the values an executed task was started with are gone if it ran this task
  and unchanged otherwise.
\<close>

theorem update_forgets_given_values:
  assumes "task_update partly slug d s = (Inr (), t)" "task_tables_ok s" "da_params d = Some ps" "ps \<noteq> []"
  shows "\<exists>old new. find_slug slug (tk_db s) = Some old \<and>
    td_tasks (tk_db t) = map (\<lambda>x. if tt_id x = tt_id old then (edit_task d old)\<lparr>tt_params := new\<rparr> else x) (td_tasks (tk_db s)) \<and>
    map tp_key new = map (\<lambda>p. or_else (da_key p) []) ps \<and> map (Some \<circ> tp_values) new = map da_values ps \<and>
    td_extasks (tk_db t) = td_extasks (tk_db s) \<and> td_jobs (tk_db t) = td_jobs (tk_db s) \<and>
    (\<forall>x \<in> set (td_extasks (tk_db s)).
       extask_params (tk_db t) x = (if xt_task x = tt_id old then [] else extask_params (tk_db s) x))"
proof -
  obtain old where old: "find_slug slug (tk_db s) = Some old"
    and made: "create_params (edit_task d old) ps (s\<lparr>tk_db := drop_params old (put_task (edit_task d old) (tk_db s))\<rparr>) = (Inr (), t)"
    using update_cases_params [OF assms(1,3,4)] by auto
  let ?db = "tk_db s" and ?mid = "drop_params old (put_task (edit_task d old) (tk_db s))"
  define new where "new = new_params (next_param_id ?mid) ps"
  have t: "tk_db t = put_task ((edit_task d old)\<lparr>tt_params := new\<rparr>) ?mid"
    and valued: "list_all (\<lambda>p. da_values p \<noteq> None) ps"
    using made by (auto simp: create_params_cases Let_def new_def split: if_splits)
  have tasks: "td_tasks (tk_db t) = map (\<lambda>x. if tt_id x = tt_id old then (edit_task d old)\<lparr>tt_params := new\<rparr> else x) (td_tasks ?db)"
    by (auto simp: t map_eq_conv)
  have rest: "td_extasks (tk_db t) = td_extasks ?db" "td_jobs (tk_db t) = td_jobs ?db"
    "td_params (tk_db t) = filter (\<lambda>e. ep_param e \<notin> tp_id ` set (tt_params old)) (td_params ?db)"
    by (simp_all add: t)
  have wf: "content_wf ?db" using assms(2) by (simp add: task_tables_ok_def)
  have wf': "content_wf (tk_db t)" using task_update_wf [OF assms(2), of partly slug d] assms(1) by (simp add: task_tables_ok_def)
  have here: "old \<in> set (td_tasks ?db)" using find_slugD [OF old] by simp
  have own: "\<exists>u p. u \<in> set (td_tasks ?db) \<and> tt_id u = xt_task x \<and> p \<in> set (tt_params u) \<and> ep_param e = tp_id p"
    if "e \<in> set (td_params ?db)" "x \<in> set (td_extasks ?db)" "ep_extask e = xt_id x" for e x
    using own_valuesD [OF content_wfD(6) [OF wf] that] by auto
  have "extask_params (tk_db t) x = (if xt_task x = tt_id old then [] else extask_params ?db x)"
    if x: "x \<in> set (td_extasks ?db)" for x
  proof (cases "xt_task x = tt_id old")
    case True
    have "None = (if ep_param e \<notin> tp_id ` set (tt_params old)
        then (if ep_extask e = xt_id x then map_option (\<lambda>p. (p, ep_value e)) (param_named (tk_db t) (ep_param e)) else None)
        else None)" if row: "e \<in> set (td_params ?db)" for e
    proof (cases "ep_extask e = xt_id x")
      case e: True
      obtain u p where "u \<in> set (td_tasks ?db)" "tt_id u = xt_task x" "p \<in> set (tt_params u)" "ep_param e = tp_id p"
        using own [OF row x e] by blast
      moreover from this have "u = old" using same_task [OF content_wfD(1) [OF wf] _ here] True by simp
      ultimately show ?thesis by simp
    qed simp
    then have "List.map_filter (\<lambda>e. if ep_extask e = xt_id x
          then map_option (\<lambda>p. (p, ep_value e)) (param_named (tk_db t) (ep_param e)) else None)
        (filter (\<lambda>e. ep_param e \<notin> tp_id ` set (tt_params old)) (td_params ?db)) = List.map_filter (\<lambda>_. None) (td_params ?db)"
      by (rule map_filter_filter)
    moreover have "List.map_filter (\<lambda>_. None :: (task_param \<times> string) option) es = []" for es :: "extask_param list"
      by (simp add: List.map_filter_def)
    ultimately show ?thesis using True by (simp only: extask_params_alt rest if_True) simp
  next
    case False
    have "(if ep_extask e = xt_id x then map_option (\<lambda>p. (p, ep_value e)) (param_named ?db (ep_param e)) else None) =
      (if ep_param e \<notin> tp_id ` set (tt_params old)
        then (if ep_extask e = xt_id x then map_option (\<lambda>p. (p, ep_value e)) (param_named (tk_db t) (ep_param e)) else None)
        else None)" if row: "e \<in> set (td_params ?db)" for e
    proof (cases "ep_extask e = xt_id x")
      case e: True
      obtain u p where u: "u \<in> set (td_tasks ?db)" "tt_id u = xt_task x" "p \<in> set (tt_params u)" "ep_param e = tp_id p"
        using own [OF row x e] by blast
      then have "u \<in> set (td_tasks (tk_db t))" using False by (force simp: tasks)
      moreover have "tp_id p \<notin> tp_id ` set (tt_params old)"
        using param_of_one_task [OF wf u(1) here u(3)] u(2) False by metis
      ultimately show ?thesis using u param_named_own [OF wf u(1,3)] param_named_own [OF wf' _ u(3)] by simp
    qed simp
    then have "List.map_filter (\<lambda>e. if ep_extask e = xt_id x
          then map_option (\<lambda>p. (p, ep_value e)) (param_named (tk_db t) (ep_param e)) else None)
        (filter (\<lambda>e. ep_param e \<notin> tp_id ` set (tt_params old)) (td_params ?db)) =
      List.map_filter (\<lambda>e. if ep_extask e = xt_id x
          then map_option (\<lambda>p. (p, ep_value e)) (param_named ?db (ep_param e)) else None) (td_params ?db)"
      by (rule map_filter_filter)
    then show ?thesis using False by (simp only: extask_params_alt rest if_False)
  qed
  moreover have "map tp_key new = map (\<lambda>p. or_else (da_key p) []) ps"
    by (rule nth_equalityI) (simp_all add: new_def new_params_def new_param_def)
  moreover have "map (Some \<circ> tp_values) new = map da_values ps"
    using valued by (intro nth_equalityI) (auto simp: new_def new_params_def new_param_def list_all_length or_else_def)
  ultimately show ?thesis using old tasks rest(1,2) by (intro exI [of _ old] exI [of _ new]) blast
qed


text \<open>An update that fails on its parameters has deleted the old ones, and the given values, already.\<close>

lemma failed_update_loses_parameters:
  assumes "task_update partly slug d s = (Inl IntegrityError, t)" "da_params d = Some ps" "ps \<noteq> []"
  shows "\<exists>old. find_slug slug (tk_db s) = Some old \<and>
    tk_db t = drop_params old (put_task (edit_task d old) (tk_db s)) \<and>
    (\<forall>x \<in> set (td_tasks (tk_db t)). tt_id x = tt_id old \<longrightarrow> tt_params x = [])"
proof -
  obtain old where old: "find_slug slug (tk_db s) = Some old"
    and made: "create_params (edit_task d old) ps (s\<lparr>tk_db := drop_params old (put_task (edit_task d old) (tk_db s))\<rparr>) = (Inl IntegrityError, t)"
    using update_cases_params [OF assms] by auto
  from made have "tk_db t = drop_params old (put_task (edit_task d old) (tk_db s))"
    by (auto simp: create_params_cases Let_def split: if_splits)
  then show ?thesis using old by (auto split: if_splits)
qed

text \<open>An empty list of parameters is taken for none: the old ones stay.\<close>

lemma empty_parameters_ignored:
  assumes "task_update partly slug d s = (Inr (), t)" "da_params d = Some []" "find_slug slug (tk_db s) = Some old"
  shows "tk_db t = put_task (edit_task d old) (tk_db s)"
  using assms by (auto simp: task_update_cases or_else_def Let_def split: sum.splits)

section \<open>Examples\<close>

definition cx_param :: "nat \<Rightarrow> string \<Rightarrow> task_param" where
  "cx_param i k = \<lparr>tp_id = i, tp_key = k, tp_required = False, tp_default = None, tp_values = [''v''], tp_multi = False,
     tp_title = ''T'', tp_description = ''D'', tp_index = 1\<rparr>"

definition cx_task :: task_row where
  "cx_task = ex_task\<lparr>tt_params := [cx_param 1 ''verbose''], tt_playbook := ''p''\<rparr>"

definition cx_state :: tasks_state where
  "cx_state = (let s = ex_tasks [ex_job 1 JRunning] in
     s\<lparr>tk_db := (tk_db s)\<lparr>td_tasks := [cx_task], td_params := [\<lparr>ep_extask = 7, ep_param = 1, ep_value = ''v''\<rparr>]\<rparr>\<rparr>)"

definition cx_given :: "int option \<Rightarrow> param_data" where
  "cx_given i = \<lparr>da_key = Some ''level'', da_ptitle = Some ''T'', da_pdescription = Some ''D'', da_values = Some [''1''],
     da_default = None, da_required = None, da_multi = None, da_index = i\<rparr>"

definition cx_data :: "param_data list \<Rightarrow> task_data" where
  "cx_data ps = \<lparr>da_slug = None, da_title = None, da_type = None, da_description = None, da_publish = None,
     da_active = None, da_playbook = None, da_message = None, da_filters = None, da_params = Some ps\<rparr>"

lemma cx_ok: "task_tables_ok cx_state"
  by code_simp

theorem content_tables_stay_well_formed_witness:
  "task_tables_ok (run_content_op pb ex_env (DestroyTask ''ping'')
     (run_content_op pb ex_env (UpdateTask True ''ping'' (cx_data [cx_given None])) cx_state))"
  by (rule content_tables_stay_well_formed [OF content_next [OF content_next [OF content_start]] cx_ok])

theorem update_forgets_given_values_witness:
  "\<exists>t. task_update True ''ping'' (cx_data [cx_given None]) cx_state = (Inr (), t) \<and>
     extask_params (tk_db t) ex_extask = [] \<and> map snd (extask_params (tk_db cx_state) ex_extask) = [''v'']"
proof -
  have "fst (task_update True ''ping'' (cx_data [cx_given None]) cx_state) = Inr ()" by code_simp
  then obtain t where t: "task_update True ''ping'' (cx_data [cx_given None]) cx_state = (Inr (), t)"
    by (metis prod.collapse)
  have "da_params (cx_data [cx_given None]) = Some [cx_given None]" by (simp add: cx_data_def)
  from update_forgets_given_values [OF t cx_ok this] obtain old where
    old: "find_slug ''ping'' (tk_db cx_state) = Some old"
    "\<forall>x \<in> set (td_extasks (tk_db cx_state)).
       extask_params (tk_db t) x = (if xt_task x = tt_id old then [] else extask_params (tk_db cx_state) x)"
    by (elim exE conjE meta_impE) (simp, rule that, assumption+)
  have "ex_extask \<in> set (td_extasks (tk_db cx_state))" by (simp add: cx_state_def ex_tasks_def)
  moreover have "map_option tt_id (find_slug ''ping'' (tk_db cx_state)) = Some (xt_task ex_extask)" by code_simp
  then have "xt_task ex_extask = tt_id old" by (simp add: old(1))
  ultimately have "extask_params (tk_db t) ex_extask = []" using old(2) by simp
  moreover have "map snd (extask_params (tk_db cx_state) ex_extask) = [''v'']"
    by (simp add: extask_params_def cx_state_def ex_tasks_def List.map_filter_def ex_extask_def cx_task_def cx_param_def)
  ultimately show ?thesis using t by (intro exI [of _ t] conjI)
qed

text \<open>One parameter without an index and one with the index it gets: the values are lost.\<close>

lemma colliding_index_example:
  "fst (task_update True ''ping'' (cx_data [cx_given None, cx_given (Some 1)]) cx_state) = Inl IntegrityError"
  by code_simp

end
