(* ===== verification/Tasks_List_Safety.thy ===== *)
theory Tasks_List_Safety
  imports Tasks_Content_Safety Query_Safety Ack_Safety
begin

text \<open>
  What systems and users see of tasks: the playbook fetched for an executed task holds the values it
  was started with; the filter on operating systems finds the systems of the given names and
  versions; the counts of an executed task are those of its jobs; and what the list of jobs does with
  hosts that are gone, are not connected, or are in two organisations.
\<close>

section \<open>The variables of a playbook\<close>

definition content_var :: "(string \<times> json) list \<Rightarrow> string \<Rightarrow> json option" where
  "content_var d k =
     (case map_of d ''vars'' of
        Some (JObj vars) \<Rightarrow>
          (case map_of vars ''content_vars'' of Some (JObj content) \<Rightarrow> map_of content k | _ \<Rightarrow> None)
      | _ \<Rightarrow> None)"

text \<open>
  What an edit of the variables leaves: the variables that are no content variables, in their order,
  the other keys, and the order of all keys.
\<close>

definition other_vars :: "(string \<times> json) list \<Rightarrow> (string \<times> json) list" where
  "other_vars d =
     (case map_of d ''vars'' of Some (JObj vars) \<Rightarrow> filter (\<lambda>(k, _). k \<noteq> ''content_vars'') vars | _ \<Rightarrow> [])"

lemma filter_dict_set: "filter (\<lambda>(j, _). j \<noteq> k) (dict_set k v d) = filter (\<lambda>(j, _). j \<noteq> k) d"
  by (induction d) auto

definition same_otherwise :: "(string \<times> json) list \<Rightarrow> (string \<times> json) list \<Rightarrow> bool" where
  "same_otherwise d d' \<longleftrightarrow> (\<forall>k. k \<noteq> ''vars'' \<longrightarrow> map_of d' k = map_of d k) \<and> map fst d' = map fst d \<and>
     other_vars d' = other_vars d"

lemma same_otherwise_refl [simp]: "same_otherwise d d"
  by (simp add: same_otherwise_def)

lemma same_otherwise_trans: "same_otherwise a b \<Longrightarrow> same_otherwise b c \<Longrightarrow> same_otherwise a c"
  by (simp add: same_otherwise_def)

lemma py_item_Inr: "py_item v k = Inr x \<Longrightarrow> \<exists>d. v = JObj d \<and> map_of d k = Some x"
  by (cases v) (auto split: option.splits)

lemma py_put_Inr: "py_put v k x = Inr w \<Longrightarrow> \<exists>d. v = JObj d \<and> w = JObj (dict_set k x d)"
  by (cases v) auto

lemma keys_dict_set_there: "map_of d k = Some x \<Longrightarrow> map fst (dict_set k v d) = map fst d"
  by (force simp: keys_dict_set dest: map_of_SomeD)

lemma put_content_var_effect:
  assumes "put_content_var (JObj d) k v = Inr q"
  shows "\<exists>d'. q = JObj d' \<and> same_otherwise d d' \<and>
    (\<forall>j. content_var d' j = (if j = k then Some (JStr v) else content_var d j))"
proof -
  obtain vars content where vars: "map_of d ''vars'' = Some (JObj vars)" "map_of vars ''content_vars'' = Some (JObj content)"
    and q: "q = JObj (dict_set ''vars'' (JObj (dict_set ''content_vars'' (JObj (dict_set k (JStr v) content)) vars)) d)"
    using assms by (auto simp: put_content_var_def py_bind_eq_Inr dest!: py_item_Inr py_put_Inr split: option.splits)
  then show ?thesis
    by (auto simp: same_otherwise_def content_var_def other_vars_def filter_dict_set keys_dict_set_there)
qed

lemma put_content_vars_effect:
  assumes "put_content_vars kvs (JObj d, b) = Inr e"
  shows "\<exists>d'. fst e = JObj d' \<and> same_otherwise d d' \<and> snd e = (b \<or> kvs \<noteq> []) \<and>
    (\<forall>j. content_var d' j = (case map_of (rev kvs) j of Some v \<Rightarrow> Some (JStr v) | None \<Rightarrow> content_var d j))"
  using assms
proof (induction kvs arbitrary: d b)
  case (Cons kv kvs)
  obtain k v where kv: "kv = (k, v)" by fastforce
  obtain d1 where d1: "put_content_var (JObj d) k v = Inr (JObj d1)" "same_otherwise d d1"
      "\<forall>j. content_var d1 j = (if j = k then Some (JStr v) else content_var d j)"
    and rest: "put_content_vars kvs (JObj d1, True) = Inr e"
    using Cons.prems by (auto simp: kv py_bind_eq_Inr dest: put_content_var_effect)
  from Cons.IH [OF rest] obtain d2 where "fst e = JObj d2" "same_otherwise d1 d2" "snd e"
    "\<forall>j. content_var d2 j = (case map_of (rev kvs) j of Some v \<Rightarrow> Some (JStr v) | None \<Rightarrow> content_var d1 j)" by auto
  then show ?case using d1 same_otherwise_trans
    by (auto simp: kv map_add_def split: option.splits)
qed auto

lemma with_content_vars_effect:
  assumes "with_content_vars (JObj d, b) = Inr e"
  shows "\<exists>d'. fst e = JObj d' \<and> same_otherwise d d' \<and> (\<forall>j. content_var d' j = content_var d j)"
proof -
  obtain vars where vars: "map_of d ''vars'' = Some vars"
    using assms by (auto simp: with_content_vars_def py_bind_eq_Inr split: option.splits)
  show ?thesis
  proof (cases "py_in ''content_vars'' vars = Inr True")
    case True
    then show ?thesis using assms vars by (auto simp: with_content_vars_def)
  next
    case False
    then obtain content where content: "vars = JObj content" "map_of content ''content_vars'' = None"
      and e: "fst e = JObj (dict_set ''vars'' (JObj (dict_set ''content_vars'' (JObj []) content)) d)"
      using assms vars
      by (auto simp: with_content_vars_def py_bind_eq_Inr dict_has_def dest!: py_put_Inr split: if_splits)
    then show ?thesis using vars
      by (auto simp: same_otherwise_def content_var_def other_vars_def filter_dict_set keys_dict_set_there)
  qed
qed

lemma for_host_edit:
  assumes "for_host pb tv tk i r (JObj d, False) s = (Inr e, t)"
  shows "\<exists>d1. fst e = JObj d1 \<and> (\<forall>k. k \<noteq> ''hosts'' \<longrightarrow> map_of d1 k = map_of d k) \<and> (i = None \<longrightarrow> d1 = d)"
  using assms by (cases i) (auto simp: for_host_def a_bind_Inr a_then_Inr)

lemma keeps_same_host: "keeps (\<lambda>s. task_tables s = c) (for_host pb tv tk i r e)"
  unfolding for_host_def log_request_def by (intro keeps_same keeps_list_cases)



section \<open>Filters on the operating system\<close>

text \<open>A value \<open>name|major.minor\<close> of the parameter, and the hosts it stands for.\<close>

definition os_pair :: "string \<Rightarrow> (string \<times> int \<times> int) option" where
  "os_pair v =
     (case split_on (CHR ''|'') v of
        [name, version] \<Rightarrow>
          (case split_on (CHR ''.'') version of
             [a, b] \<Rightarrow> (case (py_int a, py_int b) of (Some major, Some minor) \<Rightarrow> Some (name, major, minor) | _ \<Rightarrow> None)
           | _ \<Rightarrow> None)
      | _ \<Rightarrow> None)"

definition has_os :: "task_host \<Rightarrow> string \<times> int \<times> int \<Rightarrow> bool" where
  "has_os h = (\<lambda>(name, major, minor).
     (case th_os_name h of None \<Rightarrow> False | Some n \<Rightarrow> str_lower name = str_lower n) \<and>
     th_os_major h = Some major \<and> th_os_minor h = Some minor)"

text \<open>Each value of a parameter with several values is a text without a comma.\<close>

lemma split_texts:
  assumes "validate_many qe (many_param n OT_STR) (JStr w) = Inr vs" "a \<in> set vs"
  shows "\<exists>s. a = AStr s \<and> CHR '','' \<notin> set s"
proof -
  have "py_mapM (validate_single qe (basic_param (many_param n OT_STR))) (map JStr ss) = Inr (map AStr ss)" for ss
    by (induction ss)
      (simp_all add: validate_single_def basic_param_def many_param_def query_param_def convert_def)
  then have "vs = map AStr (split_on (CHR '','') w)"
    using assms(1) by (simp add: validate_many_def many_param_def query_param_def splitter_for_def)
  then show ?thesis using assms(2) by (auto dest: split_on_no_sep)
qed

lemma os_values_texts:
  assumes "value_of_param qe os_query_param query = Inr v" "a \<in> set (the_atoms v)"
  shows "\<exists>s. a = AStr s \<and> CHR '','' \<notin> set s"
proof (cases "map_of query ''operating_system''")
  case None
  then show ?thesis using assms by (auto simp: value_of_param_def os_query_param_def many_param_def query_param_def)
next
  case (Some ws)
  then obtain ls where ls: "py_mapM (\<lambda>w. validate_many qe os_query_param (JStr w)) ws = Inr ls" "v = PMany (concat ls)"
    using assms(1) by (auto simp: value_of_param_def os_query_param_def many_param_def query_param_def py_bind_eq_Inr)
  have "py_mapM (\<lambda>w. validate_many qe os_query_param (JStr w)) ws = Inr ls \<Longrightarrow> l \<in> set ls \<Longrightarrow>
      \<exists>w. validate_many qe os_query_param (JStr w) = Inr l" for l
    by (induction ws arbitrary: ls) (auto simp: py_bind_eq_Inr)
  then show ?thesis using assms(2) ls split_texts by (fastforce simp: os_query_param_def)
qed

text \<open>The two filters that read what was written into the query.\<close>

lemma name_filter_set:
  assumes "CHR '','' \<notin> set name"
  shows "filter_on_os_name qe (set_os name version query) [] = Inr (q_is ''os_name__iexact'' (AStr name))"
  using assms by (simp add: filter_on_os_name_def value_of_param_def os_name_query_param_def many_param_def
      query_param_def set_os_def validate_many_def splitter_for_def split_on_id validate_single_def basic_param_def
      convert_def with_relation_def q_or_def)

lemma version_filter_set:
  assumes "filter_on_os_version qe (set_os name version query) [] = Inr t" "CHR '','' \<notin> set version"
  shows "\<exists>a b major minor. split_on (CHR ''.'') version = [a, b] \<and> py_int a = Some major \<and> py_int b = Some minor \<and>
    t = QAnd (q_is ''os_major'' (AInt major)) (q_is ''os_minor'' (AInt minor))"
proof -
  have "py_bind (if version_pattern version then Inr (AStr version) else Inl ValidationError)
      (\<lambda>x. py_bind (version_term [] x) (\<lambda>t. Inr (q_or QAll t))) = Inr t"
    using assms by (auto simp: filter_on_os_version_def value_of_param_def os_version_query_param_def
      rhel_version_query_param_def many_param_def query_param_def set_os_def validate_many_def splitter_for_def
      split_on_id validate_single_def basic_param_def convert_def py_bind_eq_Inr split: if_splits)
  then show ?thesis
    by (auto simp: py_bind_eq_Inr with_relation_def q_or_def split: if_splits list.splits option.splits)
qed


lemma os_term_means:
  "q_holds (task_host_lookups te) h (q_and (q_is ''os_name__iexact'' (AStr name))
      (QAnd (q_is ''os_major'' (AInt major)) (q_is ''os_minor'' (AInt minor)))) \<longleftrightarrow> has_os h (name, major, minor)"
  by (auto simp: q_and_def q_is_def task_host_lookups_def host_term_def on_column_def on_text_def has_os_def
      split: option.splits)

definition names_os :: "task_host \<Rightarrow> atom \<Rightarrow> bool" where
  "names_os h a \<longleftrightarrow> (\<exists>s p. a = AStr s \<and> os_pair s = Some p \<and> has_os h p)"

lemma os_loop_means:
  assumes "os_loop qe [] vs acc query = Inr (t, query')" "\<forall>a \<in> set vs. \<exists>s. a = AStr s \<and> CHR '','' \<notin> set s"
  shows "q_holds (task_host_lookups te) h t \<longleftrightarrow>
    (if vs = [] then q_holds (task_host_lookups te) h acc
     else acc \<noteq> QAll \<and> q_holds (task_host_lookups te) h acc \<or> (\<exists>a \<in> set vs. names_os h a))"
  using assms
proof (induction vs arbitrary: acc query)
  case (Cons a vs)
  obtain s where s: "a = AStr s" "CHR '','' \<notin> set s" using Cons.prems(2) by auto
  obtain name version n v where parts: "split_on (CHR ''|'') s = [name, version]"
    and n: "filter_on_os_name qe (set_os name version query) [] = Inr n"
    and v: "filter_on_os_version qe (set_os name version query) [] = Inr v"
    and rest: "os_loop qe [] vs (q_or acc (q_and n v)) (set_os name version query) = Inr (t, query')"
    using Cons.prems(1) by (auto simp: s py_bind_eq_Inr split: list.splits)
  have "join_on [CHR ''|''] [name, version] = s" using join_split_on [of "CHR ''|''" s] by (simp only: parts)
  then have comma: "CHR '','' \<notin> set name" "CHR '','' \<notin> set version" using s(2) by auto
  have name: "n = q_is ''os_name__iexact'' (AStr name)" using name_filter_set [OF comma(1)] n by simp
  obtain x y major minor where version: "split_on (CHR ''.'') version = [x, y]" "py_int x = Some major" "py_int y = Some minor"
      "v = QAnd (q_is ''os_major'' (AInt major)) (q_is ''os_minor'' (AInt minor))"
    using version_filter_set [OF v comma(2)] by blast
  have here: "names_os h a \<longleftrightarrow> q_holds (task_host_lookups te) h (q_and n v)"
    by (simp only: name version(4) os_term_means) (simp add: names_os_def s os_pair_def parts version)
  have "q_and n v \<noteq> QAll" by (simp add: q_and_def name version(4) q_is_def)
  then have acc: "q_or acc (q_and n v) \<noteq> QAll"
    "q_holds (task_host_lookups te) h (q_or acc (q_and n v)) \<longleftrightarrow>
      acc \<noteq> QAll \<and> q_holds (task_host_lookups te) h acc \<or> names_os h a"
    by (auto simp: q_or_def here)
  show ?case
    using Cons.IH [OF rest] Cons.prems(2) acc by (cases vs) auto
qed simp

text \<open>
  The filter on operating systems finds the hosts of the given names and versions.  When the
  parameter is read, each value \<open>name|major.minor\<close> stands for the hosts whose name of the operating
  system is equal but for case and whose version is the given one, and a host passes when there is no
  value or it is one of these; that the code writes each value into the query of the request does
  not change this.
\<close>

theorem os_filter_finds_pairs:
  assumes "filter_on_os qe query [] = Inr t" "value_of_param qe os_query_param query = Inr v"
  shows "q_holds (task_host_lookups te) h t \<longleftrightarrow> the_atoms v = [] \<or> (\<exists>a \<in> set (the_atoms v). names_os h a)"
proof -
  obtain query' where loop: "os_loop qe [] (the_atoms v) QAll query = Inr (t, query')"
    using assms by (auto simp: filter_on_os_def py_bind_eq_Inr)
  have "\<forall>a \<in> set (the_atoms v). \<exists>s. a = AStr s \<and> CHR '','' \<notin> set s"
    using os_values_texts [OF assms(2)] by blast
  from os_loop_means [OF loop this] show ?thesis by auto
qed

section \<open>Counts and jobs\<close>

text \<open>The counts of an executed task: every job is counted once, cancelled ones in the total only.\<close>

lemma counts_add_up:
  "es_systems (extask_row_of db x) =
     es_running (extask_row_of db x) + es_completed (extask_row_of db x) + es_failure (extask_row_of db x) +
     es_timeout (extask_row_of db x) + count_jobs db x JCancelled"
proof -
  have "length js = length (filter (\<lambda>j. jb_status j = JRunning) js) + length (filter (\<lambda>j. jb_status j = JSuccess) js) +
      length (filter (\<lambda>j. jb_status j = JFailure) js) + length (filter (\<lambda>j. jb_status j = JTimeout) js) +
      length (filter (\<lambda>j. jb_status j = JCancelled) js)" for js
  proof (induction js)
    case (Cons j js)
    then show ?case by (cases "jb_status j") simp_all
  qed simp
  then show ?thesis by (simp add: extask_row_of_def count_jobs_def)
qed

text \<open>
  A job of a host that is connected in no way is shown as connected by Satellite, where the lists of
  systems show \<open>none\<close>; a job of a host that is gone is shown as \<open>none\<close>.
\<close>

lemma unconnected_job_shown_as_satellite:
  assumes "hosts_of_job db j = [h]" "th_rhc h = None" "\<not> satellite_rhc tv db h"
  shows "map (jw_connection \<circ> show_job) (join_hosts db j) = [''satellite'']" "connection_type tv db h = ''none''"
  using assms by (simp_all add: join_hosts_def show_job_def job_connection_def connection_type_def direct_connect_def)

lemma job_of_deleted_host_listed:
  "hosts_of_job db j = [] \<Longrightarrow> map (jw_connection \<circ> show_job) (join_hosts db j) = [''none'']"
  by (simp add: join_hosts_def show_job_def job_connection_def)

text \<open>A job whose inventory ID two organisations have is listed twice, and cannot be retrieved.\<close>

lemma job_joined_twice:
  assumes "hosts_of_job db j = [h, h']" "filter (\<lambda>k. jb_id k = jb_id j) (jobs_in_org tc db) = [j]"
  shows "map (jw_name \<circ> show_job) (join_hosts db j) = [Some (th_name h), Some (th_name h')]"
    "job_object tc (jb_id j) db = Inl (Exn ''MultipleObjectsReturned'')"
  using assms by (simp_all add: join_hosts_def show_job_def job_object_def job_rows_def)


section \<open>Examples\<close>

definition pbx_playbook :: "(string \<times> json) list" where
  "pbx_playbook = [(''hosts'', JStr ''localhost''), (''vars'', JObj [(''insights_signature'', JStr ''sig'')]), (''tasks'', JList [])]"

definition pbx_env :: playbook_env where
  "pbx_env = \<lparr>pb_load = (\<lambda>_. Inr (JList [JObj pbx_playbook])), pb_dump = (\<lambda>_. ''playbook''), pb_inventory = ''''\<rparr>"


definition osx_host :: "int \<Rightarrow> task_host" where
  "osx_host minor = (ex_host 1)\<lparr>th_os_name := Some ''RHEL'', th_os_major := Some 9, th_os_minor := Some minor\<rparr>"

theorem os_filter_finds_pairs_witness:
  "\<exists>t. filter_on_os text_env [(''operating_system'', [''rhel|9.2,CentOS|7.9''])] [] = Inr t \<and>
     q_holds (task_host_lookups te) (osx_host 2) t \<and> \<not> q_holds (task_host_lookups te) (osx_host 4) t"
proof -
  let ?q = "[(''operating_system'', [''rhel|9.2,CentOS|7.9''])]"
  have v: "value_of_param text_env os_query_param ?q = Inr (PMany [AStr ''rhel|9.2'', AStr ''CentOS|7.9''])"
    by code_simp
  have "case filter_on_os text_env ?q [] of Inl _ \<Rightarrow> False | Inr _ \<Rightarrow> True" by code_simp
  then obtain t where t: "filter_on_os text_env ?q [] = Inr t" by (auto split: sum.splits)
  have pairs: "os_pair ''rhel|9.2'' = Some (''rhel'', 9, 2)" "os_pair ''CentOS|7.9'' = Some (''CentOS'', 7, 9)"
    by code_simp+
  have "has_os (osx_host 2) (''rhel'', 9, 2)" "\<not> has_os (osx_host 4) (''rhel'', 9, 2)"
    "\<not> has_os (osx_host 4) (''CentOS'', 7, 9)"
    by code_simp+
  then have "names_os (osx_host 2) (AStr ''rhel|9.2'')" "\<not> names_os (osx_host 4) (AStr ''rhel|9.2'')"
    "\<not> names_os (osx_host 4) (AStr ''CentOS|7.9'')"
    by (simp_all add: names_os_def pairs)
  then show ?thesis
    using t os_filter_finds_pairs [OF t v, of te "osx_host 2"] os_filter_finds_pairs [OF t v, of te "osx_host 4"]
    by (intro exI [of _ t]) simp
qed

end
