(* ===== verification/Content_Compile.thy ===== *)
theory Content_Compile
  imports Content_Rules
begin

text \<open>
  The compilation of the content repository (\<open>api/scripts/compile_advisor_content.py\<close>): the walk
  over the directories that gathers the data of each rule from those of its plugin, the walk that
  gathers the playbooks with the hash of their last change, and the files written.  Its output is
  what the import reads, in the same types.
\<close>

section \<open>The repository\<close>

text \<open>
  The files: \<open>os.walk\<close> (each directory with its files), whether a path exists, the text of a file
  (\<open>None\<close> where \<open>open\<close> raises), \<open>yaml.safe_load\<close>, the lines \<open>git log\<close> prints, the top level
  \<open>git rev-parse\<close> prints, and \<open>path.relpath\<close>.
\<close>

record repo_env =
  re_walk :: "string \<Rightarrow> (string \<times> string list) list"
  re_exists :: "string \<Rightarrow> bool"
  re_read :: "string \<Rightarrow> string option"
  re_yaml :: "string \<Rightarrow> json py"
  re_git_log :: "string \<Rightarrow> string list"
  re_git_root :: "string \<Rightarrow> string"
  re_relpath :: "string \<Rightarrow> string \<Rightarrow> string"

definition read_file :: "repo_env \<Rightarrow> string \<Rightarrow> string py" where
  "read_file re p = (case re_read re p of None \<Rightarrow> Inl (Exn ''FileNotFoundError'') | Some t \<Rightarrow> Inr t)"

definition basename :: "string \<Rightarrow> string" where
  "basename p = rev (takeWhile (\<lambda>c. c \<noteq> CHR ''/'') (rev p))"

definition dirname :: "string \<Rightarrow> string" where
  "dirname p =
     (let top = rev (dropWhile (\<lambda>c. c \<noteq> CHR ''/'') (rev p)) in
      if list_all (\<lambda>c. c = CHR ''/'') top then top else rev (dropWhile (\<lambda>c. c = CHR ''/'') (rev top)))"

section \<open>The data of a rule\<close>

definition content_fields :: "string list" where
  "content_fields = [''generic'', ''more_info'', ''reason'', ''resolution'', ''summary'']"

definition get_field_content :: "repo_env \<Rightarrow> string \<Rightarrow> string \<Rightarrow> string option py" where
  "get_field_content re plugin_path field =
     (let f = path_join plugin_path (field @ ''.md'') in
      if \<not> re_exists re f then Inr None else py_bind (read_file re f) (\<lambda>t. Inr (Some t)))"

text \<open>The set of fields is gone through in some order; the order only shows in that of new keys.\<close>

fun add_fields :: "repo_env \<Rightarrow> string \<Rightarrow> string list \<Rightarrow> json \<Rightarrow> json py" where
  "add_fields re base [] v = Inr v"
| "add_fields re base (f # fs) v =
     py_bind (get_field_content re base f) (\<lambda>c. case c of
       None \<Rightarrow> add_fields re base fs v
     | Some t \<Rightarrow> py_bind (py_put v f (JStr t)) (add_fields re base fs))"

definition add_markdown_fields :: "repo_env \<Rightarrow> string \<Rightarrow> json \<Rightarrow> json py" where
  "add_markdown_fields re base v = add_fields re base content_fields v"

definition read_plugin_content :: "repo_env \<Rightarrow> string \<Rightarrow> json py" where
  "read_plugin_content re plugin_path =
     py_bind (read_file re (path_join plugin_path ''plugin.yaml'')) (\<lambda>t.
     py_bind (re_yaml re t) (add_markdown_fields re plugin_path))"

text \<open>
  \<open>dict(v)\<close> and \<open>d.update(v)\<close>: a dictionary, or pairs (a text of two characters and a dictionary
  of two keys are pairs too); keys that are no texts are refused.
\<close>

fun pair_of :: "json \<Rightarrow> (string \<times> json) py" where
  "pair_of (JList [JStr k, v]) = Inr (k, v)"
| "pair_of (JList [_, _]) = Inl TypeError"
| "pair_of (JList _) = Inl ValueError"
| "pair_of (JStr [a, b]) = Inr ([a], JStr [b])"
| "pair_of (JStr _) = Inl ValueError"
| "pair_of (JObj [(a, _), (b, _)]) = Inr (a, JStr b)"
| "pair_of (JObj _) = Inl ValueError"
| "pair_of _ = Inl TypeError"

fun pairs_of :: "json \<Rightarrow> (string \<times> json) list py" where
  "pairs_of (JObj d) = Inr d"
| "pairs_of (JList vs) = py_mapM pair_of vs"
| "pairs_of (JStr s) = (if s = [] then Inr [] else Inl ValueError)"
| "pairs_of _ = Inl TypeError"

definition dict_update :: "(string \<times> json) list \<Rightarrow> json \<Rightarrow> (string \<times> json) list py" where
  "dict_update d v = py_bind (pairs_of v) (\<lambda>kvs. Inr (fold (\<lambda>(k, x) d. dict_set k x d) kvs d))"

definition read_rule_content :: "repo_env \<Rightarrow> json \<Rightarrow> string \<Rightarrow> json py" where
  "read_rule_content re plugin_data rule_path =
     py_bind (dict_update [] plugin_data) (\<lambda>base.
     py_bind (read_file re (path_join rule_path ''metadata.yaml'')) (\<lambda>t.
     py_bind (re_yaml re t) (\<lambda>metadata.
       if \<not> truthy metadata then Inl AssertionError
       else py_bind (dict_update base metadata) (\<lambda>d. add_markdown_fields re rule_path (JObj d)))))"

definition rule_path_to_id :: "string \<Rightarrow> string" where
  "rule_path_to_id rule_path = basename (dirname rule_path) @ ''|'' @ basename rule_path"

text \<open>The walk: the last plugin directory and its data, which stay until the next one.\<close>

fun walk_rules :: "repo_env \<Rightarrow> string \<Rightarrow> json \<Rightarrow> (string \<times> string list) list \<Rightarrow> content_row list py" where
  "walk_rules re plugin_dir plugin_data [] = Inr []"
| "walk_rules re plugin_dir plugin_data ((this_path, files) # ws) =
     (if ''plugin.yaml'' \<in> set files then
        py_bind (read_plugin_content re this_path) (\<lambda>p. walk_rules re this_path p ws)
      else if ''metadata.yaml'' \<in> set files then
        (if \<not> prefix plugin_dir this_path then Inl AssertionError
         else
           py_bind (read_rule_content re plugin_data this_path) (\<lambda>c.
           py_bind (py_put c ''rule_id'' (JStr (rule_path_to_id this_path))) (\<lambda>c.
           py_bind (pairs_of c) (\<lambda>row.
           py_bind (walk_rules re plugin_dir plugin_data ws) (\<lambda>rows. Inr (row # rows))))))
      else walk_rules re plugin_dir plugin_data ws)"

definition generate_rule_content :: "repo_env \<Rightarrow> string \<Rightarrow> content_row list py" where
  "generate_rule_content re content_dir = walk_rules re ''no directory'' (JObj []) (re_walk re content_dir)"

section \<open>Playbooks\<close>

definition get_playbook_name :: "json \<Rightarrow> json py" where
  "get_playbook_name playbook_data =
     py_bind (py_first playbook_data) (\<lambda>play. case play of
        JObj d \<Rightarrow>
          (case map_of d ''name'' of
             Some name \<Rightarrow> Inr name
           | None \<Rightarrow>
               (case map_of d ''tasks'' of
                  Some (JList (t # ts)) \<Rightarrow>
                    py_bind (py_in ''name'' t) (\<lambda>named.
                      if named then py_item t ''name'' else Inr (JStr ''Unknown playbook''))
                | _ \<Rightarrow> Inr (JStr ''Unknown playbook'')))
      | _ \<Rightarrow> Inr (JStr ''Unknown playbook''))"

definition read_playbook :: "repo_env \<Rightarrow> string \<Rightarrow> string \<Rightarrow> (string \<times> json) py" where
  "read_playbook re this_path file =
     py_bind (read_file re (path_join this_path file)) (\<lambda>text.
     py_bind (re_yaml re text) (\<lambda>data.
     py_bind (py_len data) (\<lambda>n.
       if n = 0 then Inl AssertionError
       else py_bind (py_first data) (\<lambda>play.
         if \<not> is_dict play then Inl AssertionError
         else py_bind (get_playbook_name data) (\<lambda>name. Inr (text, name))))))"

text \<open>The first hash printed before a file is that of its last change.\<close>

fun git_hashes :: "json \<Rightarrow> string list \<Rightarrow> (string \<times> json) list \<Rightarrow> (string \<times> json) list" where
  "git_hashes last_hash [] acc = acc"
| "git_hashes last_hash (line # ls) acc =
     (if line = [] then git_hashes last_hash ls acc
      else if prefix ''hash:'' line then git_hashes (JStr (drop 5 line)) ls acc
      else if \<not> suffix ''fixit.yml'' line then git_hashes last_hash ls acc
      else git_hashes last_hash ls (if dict_has acc line then acc else dict_set line last_hash acc))"

definition find_git_hashes :: "repo_env \<Rightarrow> string \<Rightarrow> (string \<times> json) list" where
  "find_git_hashes re playbook_dir = git_hashes JNull (re_git_log re playbook_dir) []"

definition fix_type :: "string \<Rightarrow> string" where
  "fix_type file = (if suffix ''_fixit.yml'' file then take (length file - 10) file else ''fix'')"

definition playbook_entry :: "repo_env \<Rightarrow> (string \<Rightarrow> json) \<Rightarrow> string \<Rightarrow> string \<Rightarrow> (string \<times> playbook_row) py" where
  "playbook_entry re version_of this_path file =
     (let rule_id = rule_path_to_id (dirname this_path); p = path_join this_path file in
      py_bind (read_playbook re this_path file) (\<lambda>(text, name).
        Inr (rule_id @ fix_type file,
             \<lparr>pb_rule = rule_id, pb_type = fix_type file, pb_play = text, pb_description = name, pb_path = p,
              pb_version = version_of p\<rparr>)))"

fun walk_playbooks ::
  "repo_env \<Rightarrow> (string \<Rightarrow> json) \<Rightarrow> (string \<times> string list) list \<Rightarrow> (string \<times> playbook_row) list \<Rightarrow> (string \<times> playbook_row) list py" where
  "walk_playbooks re version_of [] acc = Inr acc"
| "walk_playbooks re version_of ((this_path, files) # ws) acc =
     (if \<not> suffix ''rhel_host'' this_path then walk_playbooks re version_of ws acc
      else py_bind (py_mapM (playbook_entry re version_of this_path) (filter (suffix ''fixit.yml'') files)) (\<lambda>es.
        walk_playbooks re version_of ws (fold (\<lambda>(k, p) d. dict_set k p d) es acc)))"

text \<open>\<open>None\<close> where the repository has no playbooks.\<close>

definition generate_playbook_content :: "repo_env \<Rightarrow> string \<Rightarrow> (string \<times> playbook_row) list option py" where
  "generate_playbook_content re playbook_dir =
     (let top = path_join playbook_dir ''playbooks'' in
      if \<not> re_exists re top then Inr None
      else
        let hashes = find_git_hashes re playbook_dir; root = re_git_root re playbook_dir;
            version_of = (\<lambda>p. case map_of hashes (re_relpath re p root) of None \<Rightarrow> JNull | Some h \<Rightarrow> h) in
        py_bind (walk_playbooks re version_of (re_walk re top) []) (\<lambda>ps. Inr (Some ps)))"

section \<open>The command\<close>

record compiled =
  cd_rules :: "string \<times> content_row list"
  cd_playbooks :: "string \<times> (string \<times> playbook_row) list"

text \<open>A path that does not exist is only logged; \<open>len(None)\<close> raises.\<close>

definition compile_content :: "repo_env \<Rightarrow> string \<Rightarrow> string option \<Rightarrow> bool \<Rightarrow> compiled py" where
  "compile_content re content_repo playbook_repo compress =
     (let playbook_dir = (case playbook_repo of None \<Rightarrow> content_repo | Some p \<Rightarrow> if p = [] then content_repo else p);
          ext = (if compress then ''.gz'' else '''') in
      py_bind (generate_rule_content re content_repo) (\<lambda>content.
      py_bind (generate_playbook_content re playbook_dir) (\<lambda>playbooks.
        case playbooks of
          None \<Rightarrow> Inl TypeError
        | Some ps \<Rightarrow> Inr \<lparr>cd_rules = (''rule_content.yaml'' @ ext, content),
                           cd_playbooks = (''playbook_content.yaml'' @ ext, ps)\<rparr>)))"

end
