(* ===== verification/Content_Compile_Safety.thy ===== *)
theory Content_Compile_Safety
  imports Content_Compile
begin

text \<open>
  What the compilation of the content repository gathers: one row for each rule directory, in the
  order of the walk, in which what the rule states itself comes before what its plugin states; and
  how a directory without a plugin file gets the data of another plugin.
\<close>

section \<open>Dictionaries\<close>

lemma map_of_fold_dict_set:
  "map_of (fold (\<lambda>(k, x) d. dict_set k x d) kvs d) = map_of d ++ map_of (rev kvs)"
proof (induction kvs arbitrary: d)
  case (Cons kv kvs)
  then show ?case by (cases kv) (simp add: map_add_def fun_eq_iff split: option.split)
qed simp

lemma map_of_rev_distinct: "distinct (map fst kvs) \<Longrightarrow> map_of (rev kvs) = map_of kvs"
  by (rule map_of_inject_set [THEN iffD2]) (simp_all add: rev_map [symmetric])

lemma dict_update_dict:
  "distinct (map fst m) \<Longrightarrow> dict_update d (JObj m) = Inr d' \<Longrightarrow> map_of d' = map_of d ++ map_of m"
  by (auto simp: dict_update_def map_of_fold_dict_set map_of_rev_distinct)

section \<open>The fields in files\<close>

text \<open>The text of the Markdown file of a field in a directory, if it has one.\<close>

definition field_in :: "repo_env \<Rightarrow> string \<Rightarrow> string \<Rightarrow> string option" where
  "field_in re base f =
     (if f \<in> set content_fields \<and> re_exists re (path_join base (f @ ''.md'')) then re_read re (path_join base (f @ ''.md''))
      else None)"

lemma add_fields_lookup:
  assumes "add_fields re base fs (JObj d) = Inr v" "distinct fs" "set fs \<subseteq> set content_fields"
  shows "\<exists>d'. v = JObj d' \<and> (\<forall>k. map_of d' k =
    (if k \<in> set fs then (case field_in re base k of Some t \<Rightarrow> Some (JStr t) | None \<Rightarrow> map_of d k) else map_of d k))"
  using assms
proof (induction fs arbitrary: d)
  case Nil
  then show ?case by auto
next
  case (Cons f fs)
  have f: "f \<in> set content_fields" using Cons.prems(3) by simp
  have parts: "distinct fs" "set fs \<subseteq> set content_fields" "f \<notin> set fs" using Cons.prems(2,3) by simp_all
  show ?case
  proof (cases "re_exists re (path_join base (f @ ''.md''))")
    case False
    then have "add_fields re base fs (JObj d) = Inr v" using Cons.prems(1) by (simp add: get_field_content_def)
    moreover have "field_in re base f = None" using False by (simp add: field_in_def)
    ultimately show ?thesis using Cons.IH parts by fastforce
  next
    case True
    then obtain t where t: "re_read re (path_join base (f @ ''.md'')) = Some t"
      and rest: "add_fields re base fs (JObj (dict_set f (JStr t) d)) = Inr v"
      using Cons.prems(1) by (auto simp: get_field_content_def read_file_def py_bind_eq_Inr split: option.splits)
    have here: "field_in re base f = Some t" using True t f by (simp add: field_in_def)
    from Cons.IH [OF rest parts(1,2)] obtain d' where d': "v = JObj d'"
      "\<forall>k. map_of d' k = (if k \<in> set fs then (case field_in re base k of Some t \<Rightarrow> Some (JStr t)
         | None \<Rightarrow> map_of (dict_set f (JStr t) d) k) else map_of (dict_set f (JStr t) d) k)" by blast
    have "map_of d' k = (if k \<in> set (f # fs) then (case field_in re base k of Some t \<Rightarrow> Some (JStr t) | None \<Rightarrow> map_of d k)
        else map_of d k)" for k
      using spec [OF d'(2), of k] here parts(3) by (cases "k = f") (simp_all cong: option.case_cong)
    then show ?thesis using d'(1) by blast
  qed
qed

definition over :: "string option \<Rightarrow> json option \<Rightarrow> json option" where
  "over t v = (case t of Some s \<Rightarrow> Some (JStr s) | None \<Rightarrow> v)"

lemma add_markdown_lookup:
  assumes "add_markdown_fields re base (JObj d) = Inr v"
  shows "\<exists>d'. v = JObj d' \<and> (\<forall>k. map_of d' k = over (field_in re base k) (map_of d k))"
proof -
  have "distinct content_fields" by (simp add: content_fields_def)
  from add_fields_lookup [OF assms [unfolded add_markdown_fields_def] this subset_refl] show ?thesis
    by (auto simp: over_def field_in_def split: if_splits)
qed

lemma add_fields_dict: "add_fields re base fs (JObj d) = Inr v \<Longrightarrow> is_dict v"
  by (induction fs arbitrary: d) (auto simp: py_bind_eq_Inr split: option.splits)

section \<open>The rows\<close>

text \<open>A file that holds a dictionary.\<close>

definition yaml_dict :: "repo_env \<Rightarrow> string \<Rightarrow> (string \<times> json) list \<Rightarrow> bool" where
  "yaml_dict re p d \<longleftrightarrow> distinct (map fst d) \<and> (\<exists>t. re_read re p = Some t \<and> re_yaml re t = Inr (JObj d))"

definition is_plugin :: "string \<times> string list \<Rightarrow> bool" where
  "is_plugin w \<longleftrightarrow> ''plugin.yaml'' \<in> set (snd w)"

definition is_rule :: "string \<times> string list \<Rightarrow> bool" where
  "is_rule w \<longleftrightarrow> \<not> is_plugin w \<and> ''metadata.yaml'' \<in> set (snd w)"

lemma walk_append:
  "walk_rules re dir v (a @ b) = Inr rows \<Longrightarrow>
     \<exists>dir' v' r1 r2. rows = r1 @ r2 \<and> walk_rules re dir' v' b = Inr r2 \<and> (\<not> list_ex is_plugin a \<longrightarrow> dir' = dir \<and> v' = v)"
proof (induction a arbitrary: dir v rows)
  case Nil
  then show ?case by (intro exI [of _ dir] exI [of _ v] exI [of _ "[]"] exI [of _ rows]) simp
next
  case (Cons w a)
  obtain d fs where w: "w = (d, fs)" by fastforce
  consider "''plugin.yaml'' \<in> set fs" | "''plugin.yaml'' \<notin> set fs" "''metadata.yaml'' \<in> set fs"
    | "''plugin.yaml'' \<notin> set fs" "''metadata.yaml'' \<notin> set fs" by blast
  then show ?case
  proof cases
    case 1
    then obtain p where "walk_rules re d p (a @ b) = Inr rows" using Cons.prems by (auto simp: w py_bind_eq_Inr)
    from Cons.IH [OF this] show ?thesis using 1 by (fastforce simp: w is_plugin_def)
  next
    case 2
    then obtain row rest where rows: "rows = row # rest" "walk_rules re dir v (a @ b) = Inr rest"
      using Cons.prems by (auto simp: w py_bind_eq_Inr split: if_splits)
    from Cons.IH [OF rows(2)] obtain dir' v' r1 r2 where "rest = r1 @ r2" "walk_rules re dir' v' b = Inr r2"
      "\<not> list_ex is_plugin a \<longrightarrow> dir' = dir \<and> v' = v" by blast
    moreover have "\<not> is_plugin w" using 2 by (simp add: w is_plugin_def)
    ultimately show ?thesis unfolding rows(1)
      by (intro exI [of _ dir'] exI [of _ v'] exI [of _ "row # r1"] exI [of _ r2]) simp
  next
    case 3
    then have "walk_rules re dir v (a @ b) = Inr rows" using Cons.prems by (simp add: w)
    from Cons.IH [OF this] show ?thesis using 3 by (simp add: w is_plugin_def)
  qed
qed

text \<open>What a rule says of a key: its own file, its metadata, the file of the plugin, the plugin.\<close>

definition rule_says ::
  "repo_env \<Rightarrow> string \<Rightarrow> (string \<times> json) list \<Rightarrow> string \<Rightarrow> (string \<times> json) list \<Rightarrow> string \<Rightarrow> json option" where
  "rule_says re plugin_dir plugin rule_dir metadata k =
     over (field_in re rule_dir k)
       (case map_of metadata k of Some v \<Rightarrow> Some v | None \<Rightarrow> over (field_in re plugin_dir k) (map_of plugin k))"

lemma read_plugin_lookup:
  assumes "read_plugin_content re dir = Inr v" "yaml_dict re (path_join dir ''plugin.yaml'') p"
  shows "\<exists>d. v = JObj d \<and> (\<forall>k. map_of d k = over (field_in re dir k) (map_of p k))"
  using assms add_markdown_lookup [of re dir p v]
  by (auto simp: read_plugin_content_def read_file_def yaml_dict_def)

lemma add_fields_distinct:
  "add_fields re base fs (JObj d) = Inr (JObj d') \<Longrightarrow> distinct (map fst d) \<Longrightarrow> distinct (map fst d')"
  by (induction fs arbitrary: d) (auto simp: py_bind_eq_Inr distinct_dict_set split: option.splits)

lemma read_plugin_distinct:
  "read_plugin_content re dir = Inr (JObj d) \<Longrightarrow> yaml_dict re (path_join dir ''plugin.yaml'') p \<Longrightarrow> distinct (map fst d)"
  by (auto simp: read_plugin_content_def read_file_def yaml_dict_def add_markdown_fields_def dest: add_fields_distinct)

lemma read_rule_lookup:
  assumes "read_rule_content re (JObj d) dir = Inr v" "yaml_dict re (path_join dir ''metadata.yaml'') m"
    "distinct (map fst d)"
  shows "\<exists>r. v = JObj r \<and> (\<forall>k. map_of r k = over (field_in re dir k)
    (case map_of m k of Some x \<Rightarrow> Some x | None \<Rightarrow> map_of d k))"
proof -
  obtain t where t: "re_read re (path_join dir ''metadata.yaml'') = Some t" "re_yaml re t = Inr (JObj m)"
    and m: "distinct (map fst m)" using assms(2) by (auto simp: yaml_dict_def)
  obtain b c where b: "dict_update [] (JObj d) = Inr b" and c: "dict_update b (JObj m) = Inr c"
    and v: "add_markdown_fields re dir (JObj c) = Inr v"
    using assms(1) t by (auto simp: read_rule_content_def read_file_def py_bind_eq_Inr split: if_splits)
  have "map_of c = map_of d ++ map_of m"
    using dict_update_dict [OF assms(3) b] dict_update_dict [OF m c] by simp
  with add_markdown_lookup [OF v] show ?thesis by (simp add: map_add_def)
qed

lemma walk_inside_plugin:
  "walk_rules re dir v (mid @ post) = Inr rows \<Longrightarrow> \<not> list_ex is_plugin mid \<Longrightarrow>
     \<exists>r1 r2. rows = r1 @ r2 \<and> walk_rules re dir v post = Inr r2"
  using walk_append by blast

text \<open>
  C40: The row of a rule: its own Markdown files and metadata come before those of its plugin, whatever
  other plugins the repository has, and the id is that of its path even where a file states another.
\<close>

lemma rule_row_combines:
  assumes "generate_rule_content re dir = Inr rows"
    "re_walk re dir = pre @ (pdir, pfiles) # mid @ (rdir, rfiles) # post"
    "is_plugin (pdir, pfiles)" "\<not> list_ex is_plugin mid" "is_rule (rdir, rfiles)"
    "yaml_dict re (path_join pdir ''plugin.yaml'') p" "yaml_dict re (path_join rdir ''metadata.yaml'') m"
  shows "\<exists>row\<in>set rows. \<forall>k. map_of row k =
    (if k = ''rule_id'' then Some (JStr (rule_path_to_id rdir)) else rule_says re pdir p rdir m k)"
proof -
  obtain dir' v' r1 r2 where rows: "rows = r1 @ r2"
    and r2: "walk_rules re dir' v' ((pdir, pfiles) # mid @ (rdir, rfiles) # post) = Inr r2"
    using walk_append [OF assms(1) [unfolded generate_rule_content_def assms(2)]] by blast
  obtain pv where pv: "read_plugin_content re pdir = Inr pv"
    and mid: "walk_rules re pdir pv (mid @ (rdir, rfiles) # post) = Inr r2"
    using r2 assms(3) by (auto simp: is_plugin_def py_bind_eq_Inr)
  obtain d where d: "pv = JObj d" "\<And>k. map_of d k = over (field_in re pdir k) (map_of p k)"
    using read_plugin_lookup [OF pv assms(6)] by blast
  have dist: "distinct (map fst d)" using read_plugin_distinct pv assms(6) unfolding d(1) by blast
  obtain r3 r4 where r34: "r2 = r3 @ r4" and r4: "walk_rules re pdir pv ((rdir, rfiles) # post) = Inr r4"
    using walk_inside_plugin [OF mid assms(4)] by blast
  obtain c row rest where c: "read_rule_content re (JObj d) rdir = Inr c"
    and row: "py_bind (py_put c ''rule_id'' (JStr (rule_path_to_id rdir))) pairs_of = Inr row" and r4': "r4 = row # rest"
    using r4 assms(5) unfolding d(1) by (auto simp: is_rule_def is_plugin_def py_bind_eq_Inr split: if_splits)
  obtain r where r: "c = JObj r" "\<And>k. map_of r k = over (field_in re rdir k)
      (case map_of m k of Some x \<Rightarrow> Some x | None \<Rightarrow> map_of d k)"
    using read_rule_lookup [OF c assms(7) dist] by blast
  have "map_of row k = (if k = ''rule_id'' then Some (JStr (rule_path_to_id rdir)) else rule_says re pdir p rdir m k)" for k
    using row r(2) [of k] d(2) [of k] unfolding r(1) by (auto simp: rule_says_def cong: option.case_cong)
  moreover have "row \<in> set rows" using rows r34 r4' by simp
  ultimately show ?thesis by blast
qed

text \<open>There is one row for each rule directory.\<close>

lemma one_row_per_rule:
  "walk_rules re dir v ws = Inr rows \<Longrightarrow> length rows = length (filter is_rule ws)"
proof (induction ws arbitrary: dir v rows)
  case (Cons w ws)
  obtain d fs where w: "w = (d, fs)" by fastforce
  show ?case using Cons.prems
    by (auto simp: w is_rule_def is_plugin_def py_bind_eq_Inr split: if_splits dest!: Cons.IH)
qed simp

section \<open>Examples\<close>

text \<open>
  A plugin whose directory is a prefix of the name of another one.  The second has no plugin file,
  and the rule below it gets the data of the first.
\<close>

definition repo_example :: repo_env where
  "repo_example =
     \<lparr>re_walk = (\<lambda>_. [(''c'', [''config.yaml'']), (''c/test'', [''plugin.yaml'']), (''c/test/K'', [''metadata.yaml'']),
        (''c/test2/L'', [''metadata.yaml''])]),
      re_exists = (\<lambda>p. p = ''c/test/K/summary.md'' \<or> p = ''c/test/reason.md''),
      re_read = (\<lambda>p. Some p),
      re_yaml = (\<lambda>t. Inr (JObj (if t = ''c/test/plugin.yaml'' then [(''name'', JStr ''p''), (''reason'', JStr ''none'')]
        else [(''name'', JStr t), (''rule_id'', JStr ''x'')]))),
      re_git_log = (\<lambda>_. []), re_git_root = (\<lambda>_. []), re_relpath = (\<lambda>p _. p)\<rparr>"

lemma rule_row_combines_witness:
  "\<exists>rows. generate_rule_content repo_example ''c'' = Inr rows \<and> (\<exists>row\<in>set rows.
     map_of row ''rule_id'' = Some (JStr ''test|K'') \<and> map_of row ''name'' = Some (JStr ''c/test/K/metadata.yaml'') \<and>
     map_of row ''reason'' = Some (JStr ''c/test/reason.md'') \<and> map_of row ''summary'' = Some (JStr ''c/test/K/summary.md''))"
proof -
  have "case generate_rule_content repo_example ''c'' of Inl _ \<Rightarrow> False | Inr _ \<Rightarrow> True" by code_simp
  then obtain rows where rows: "generate_rule_content repo_example ''c'' = Inr rows" by (auto split: sum.splits)
  have walk: "re_walk repo_example ''c'' = [(''c'', [''config.yaml''])] @ (''c/test'', [''plugin.yaml'']) # [] @
      (''c/test/K'', [''metadata.yaml'']) # [(''c/test2/L'', [''metadata.yaml''])]" by (simp add: repo_example_def)
  have "yaml_dict repo_example (path_join ''c/test'' ''plugin.yaml'') [(''name'', JStr ''p''), (''reason'', JStr ''none'')]"
    "yaml_dict repo_example (path_join ''c/test/K'' ''metadata.yaml'')
       [(''name'', JStr ''c/test/K/metadata.yaml''), (''rule_id'', JStr ''x'')]"
    by (simp_all add: yaml_dict_def repo_example_def path_join_def)
  from rule_row_combines [OF rows walk _ _ _ this] obtain row where row: "row \<in> set rows"
    "\<And>k. map_of row k = (if k = ''rule_id'' then Some (JStr (rule_path_to_id ''c/test/K'')) else
       rule_says repo_example ''c/test'' [(''name'', JStr ''p''), (''reason'', JStr ''none'')] ''c/test/K''
         [(''name'', JStr ''c/test/K/metadata.yaml''), (''rule_id'', JStr ''x'')] k)"
    by (auto simp: is_plugin_def is_rule_def)
  moreover have "rule_path_to_id ''c/test/K'' = ''test|K''" by code_simp
  ultimately show ?thesis using rows
    by (intro exI [of _ rows] conjI bexI [of _ row])
      (simp_all add: rule_says_def over_def field_in_def content_fields_def repo_example_def path_join_def)
qed

lemma rule_gets_other_plugin:
  "case generate_rule_content repo_example ''c'' of
     Inl _ \<Rightarrow> False
   | Inr rows \<Rightarrow> map (\<lambda>row. map_of row ''rule_id'') rows = [Some (JStr ''test|K''), Some (JStr ''test2|L'')] \<and>
       map_of (rows ! 1) ''reason'' = Some (JStr ''c/test/reason.md'')"
  by code_simp

text \<open>A repository without playbooks ends the command with an error, and nothing is written.\<close>

lemma no_playbooks_no_files:
  "\<not> re_exists re (path_join dir ''playbooks'') \<Longrightarrow> generate_rule_content re dir = Inr rows \<Longrightarrow>
     compile_content re dir None compress = Inl TypeError"
  by (simp add: compile_content_def generate_playbook_content_def Let_def)

end
