(* ===== verification/Host_Cleanup.thy ===== *)
theory Host_Cleanup
  imports Inventory_Safety
begin

text \<open>
  The two commands that clean up hosts (\<open>delete_stale_api_hosts\<close> and
  \<open>purge_nil_insights_id_hosts\<close> under \<open>api/management/commands/\<close>), over the tables of the
  inventory consumer: hosts that left the inventory, and hosts with a nil insights id, deleted in
  batches with all that refers to them; with what a run leaves, and which hosts it takes by mistake.
\<close>

section \<open>Hosts that left the inventory\<close>

text \<open>Times are microseconds since the start of the year 1, the range of \<open>datetime\<close>.\<close>

definition day_us :: int where
  "day_us = 86400 * 1000000"

definition cull_date :: "int \<Rightarrow> int \<Rightarrow> int py" where
  "cull_date now_us days =
     (if \<bar>days\<bar> > 999999999 then Inl (Exn ''OverflowError'')
      else let t = now_us - days * day_us in
        if t < 0 \<or> 3652059 * day_us \<le> t then Inl (Exn ''OverflowError'') else Inr t)"

text \<open>The time \<open>updated_at\<close> of a host is a column only this command reads: an argument.\<close>

definition is_orphan :: "(string \<Rightarrow> int) \<Rightarrow> int \<Rightarrow> inv_db \<Rightarrow> host_row \<Rightarrow> bool" where
  "is_orphan updated_at date db h \<longleftrightarrow>
     updated_at (hr_id h) < date \<and> (hr_org h, hr_id h) \<notin> set (map row_key (advisor_hosts db))"

definition orphan_hosts :: "(string \<Rightarrow> int) \<Rightarrow> int \<Rightarrow> inv_db \<Rightarrow> string list" where
  "orphan_hosts updated_at date db = map hr_id (filter (is_orphan updated_at date db) (hosts db))"

definition delete_stale_hosts ::
  "inv_services \<Rightarrow> (string \<Rightarrow> int) \<Rightarrow> int \<Rightarrow> int \<Rightarrow> int \<Rightarrow> (inv_state, unit) act" where
  "delete_stale_hosts sv updated_at now_us days batch =
     a_bind (a_lift (cull_date now_us days)) (\<lambda>date.
     a_bind (a_get (\<lambda>s. orphan_hosts updated_at date (iv_db s))) (\<lambda>ids.
       if batch < 1 then a_raise ValueError
       else a_for (\<lambda>b. statement sv ''delete host'' (delete_hosts b)) (batched (nat batch) ids)))"

section \<open>Hosts with a nil insights id\<close>

definition nil_row :: "inv_services \<Rightarrow> inv_row \<Rightarrow> bool" where
  "nil_row sv r \<longleftrightarrow> is_uuid sv (ph_insights_id (ir_host r)) = Some nil_uuid"

definition drop_nil_rows :: "inv_services \<Rightarrow> string list \<Rightarrow> inv_db \<Rightarrow> inv_db" where
  "drop_nil_rows sv ids db =
     db\<lparr>advisor_hosts := filter (\<lambda>r. \<not> (ir_id r \<in> set ids \<and> nil_row sv r)) (advisor_hosts db)\<rparr>"

text \<open>The number \<open>delete()\<close> gives counts every row the cascade takes.\<close>

definition rows_of_hosts :: "inv_db \<Rightarrow> nat" where
  "rows_of_hosts db =
     length (hosts db) + length (uploads db) + length (current_reports db) + length (host_acks db) + length (sat_actions db)"

definition purge_batch :: "inv_services \<Rightarrow> string list \<Rightarrow> (inv_state, nat \<times> nat) act" where
  "purge_batch sv ids =
     atomic
       (a_bind (a_get (\<lambda>s. rows_of_hosts (iv_db s) - rows_of_hosts (delete_hosts ids (iv_db s)))) (\<lambda>host_deleted.
        a_then (statement sv ''delete host'' (delete_hosts ids))
       (a_bind (a_get (\<lambda>s. length (advisor_hosts (iv_db s)) - length (advisor_hosts (drop_nil_rows sv ids (iv_db s))))) (\<lambda>advisor_deleted.
        a_then (statement sv ''delete advisor_inventory_host'' (drop_nil_rows sv ids))
          (a_ret (advisor_deleted, host_deleted))))))"

fun purge_batches :: "inv_services \<Rightarrow> string list list \<Rightarrow> nat \<times> nat \<Rightarrow> (inv_state, nat \<times> nat) act" where
  "purge_batches sv [] n = a_ret n"
| "purge_batches sv (b # bs) n =
     a_bind (purge_batch sv b) (\<lambda>k. purge_batches sv bs (fst n + fst k, snd n + snd k))"

datatype purge_result = Nothing_to_purge | Would_purge nat | Purged nat nat

definition purge_nil_hosts :: "inv_services \<Rightarrow> int \<Rightarrow> bool \<Rightarrow> (inv_state, purge_result) act" where
  "purge_nil_hosts sv batch_size dry_run =
     a_bind (a_get (\<lambda>s. map ir_id (filter (nil_row sv) (advisor_hosts (iv_db s))))) (\<lambda>ids.
       if ids = [] then a_ret Nothing_to_purge
       else if dry_run then a_ret (Would_purge (length ids))
       else if batch_size < 1 then a_raise ValueError
       else a_bind (purge_batches sv (batched (nat batch_size) ids) (0, 0)) (\<lambda>n. a_ret (Purged (fst n) (snd n))))"

section \<open>Batches\<close>

lemma delete_hosts_append: "delete_hosts b (delete_hosts a db) = delete_hosts (a @ b) db"
proof -
  have "{x \<in> set (uploads db). up_host x \<in> set a \<or> up_host x \<in> set b} =
    {x \<in> set (uploads db). up_host x \<in> set a} \<union> {x \<in> set (uploads db). up_host x \<notin> set a \<and> up_host x \<in> set b}" by auto
  then show ?thesis
    by (simp add: delete_hosts_def delete_host_acks_def delete_reports_def delete_uploads_def Let_def
        case_prod_unfold image_Un conj_commute conj_left_commute)
qed

lemma delete_hosts_Nil: "delete_hosts [] db = db"
  by (simp add: delete_hosts_def delete_host_acks_def delete_reports_def delete_uploads_def Let_def)

lemma delete_hosts_advisor [simp]: "advisor_hosts (delete_hosts ids db) = advisor_hosts db"
  by (simp add: delete_hosts_def delete_host_acks_def delete_reports_def delete_uploads_def Let_def)

lemma delete_hosts_hosts: "hosts (delete_hosts ids db) = filter (\<lambda>h. hr_id h \<notin> set ids) (hosts db)"
  by (simp add: delete_hosts_def delete_host_acks_def delete_reports_def delete_uploads_def Let_def)

lemma delete_in_batches:
  "a_for (\<lambda>b. statement sv n (delete_hosts b)) bs s = (Inr x, t) \<Longrightarrow>
     t = s\<lparr>iv_db := delete_hosts (concat bs) (iv_db s)\<rparr>"
proof (induction bs arbitrary: s)
  case Nil
  then show ?case by (simp add: act_defs delete_hosts_Nil)
next
  case (Cons b bs)
  then have "a_for (\<lambda>b. statement sv n (delete_hosts b)) bs (s\<lparr>iv_db := delete_hosts b (iv_db s)\<rparr>) = (Inr x, t)"
    by (auto simp: act_defs statement_def split: if_splits)
  from Cons.IH [OF this] show ?case by (simp add: delete_hosts_append)
qed

text \<open>
  A run that ends has deleted the orphans it found at its start, whatever the size of the batches,
  and no other host.
\<close>

lemma stale_run_deletes_orphans:
  assumes "delete_stale_hosts sv updated_at now_us days batch s = (Inr x, t)"
  shows "\<exists>date. cull_date now_us days = Inr date \<and>
    t = s\<lparr>iv_db := delete_hosts (orphan_hosts updated_at date (iv_db s)) (iv_db s)\<rparr>"
proof -
  from assms obtain date where "cull_date now_us days = Inr date" "\<not> batch < 1"
    and run: "a_for (\<lambda>b. statement sv ''delete host'' (delete_hosts b))
      (batched (nat batch) (orphan_hosts updated_at date (iv_db s))) s = (Inr x, t)"
    by (auto simp: delete_stale_hosts_def act_defs split: sum.splits if_splits)
  with delete_in_batches [OF run] show ?thesis by simp
qed

lemma stale_run_keeps_the_rest:
  assumes "delete_stale_hosts sv updated_at now_us days batch s = (Inr x, t)" "keys_unique (iv_db s)"
  shows "\<exists>date. hosts (iv_db t) = filter (\<lambda>h. \<not> is_orphan updated_at date (iv_db s) h) (hosts (iv_db s))"
proof -
  obtain date where t: "t = s\<lparr>iv_db := delete_hosts (orphan_hosts updated_at date (iv_db s)) (iv_db s)\<rparr>"
    using stale_run_deletes_orphans [OF assms(1)] by blast
  have "hr_id h \<in> set (orphan_hosts updated_at date (iv_db s)) \<longleftrightarrow> is_orphan updated_at date (iv_db s) h"
    if h: "h \<in> set (hosts (iv_db s))" for h
    using assms(2) h by (auto simp: orphan_hosts_def keys_unique_def dest: inj_onD [OF distinct_map [THEN iffD1, THEN conjunct2]])
  then show ?thesis unfolding t by (intro exI [of _ date]) (simp add: delete_hosts_hosts cong: filter_cong)
qed

lemma purge_batch_Inr:
  "purge_batch sv ids s = (Inr n, t) \<Longrightarrow> t = s\<lparr>iv_db := drop_nil_rows sv ids (delete_hosts ids (iv_db s))\<rparr>"
  by (auto simp: purge_batch_def atomic_def act_defs statement_def split: if_splits sum.splits prod.splits)

lemma drop_nil_after: "drop_nil_rows sv b (delete_hosts b (drop_nil_rows sv a (delete_hosts a db))) =
  drop_nil_rows sv (a @ b) (delete_hosts (a @ b) db)"
proof -
  have "delete_hosts b (drop_nil_rows sv a d) = drop_nil_rows sv a (delete_hosts b d)" for d
    by (simp add: drop_nil_rows_def delete_hosts_def delete_host_acks_def delete_reports_def delete_uploads_def Let_def)
  moreover have "drop_nil_rows sv b (drop_nil_rows sv a d) = drop_nil_rows sv (a @ b) d" for d
    by (simp add: drop_nil_rows_def) (rule arg_cong2 [where f = "\<lambda>rs d. d\<lparr>advisor_hosts := rs\<rparr>"], auto intro!: filter_cong)
  ultimately show ?thesis by (simp add: delete_hosts_append)
qed

lemma purge_batches_Inr:
  "purge_batches sv bs n s = (Inr m, t) \<Longrightarrow>
     t = s\<lparr>iv_db := drop_nil_rows sv (concat bs) (delete_hosts (concat bs) (iv_db s))\<rparr>"
proof (induction bs arbitrary: n s)
  case Nil
  then show ?case by (simp add: act_defs delete_hosts_Nil drop_nil_rows_def)
next
  case (Cons b bs)
  then obtain k u where "purge_batch sv b s = (Inr k, u)"
    and rest: "purge_batches sv bs (fst n + fst k, snd n + snd k) u = (Inr m, t)"
    by (auto simp: a_bind_def split: prod.splits sum.splits)
  then have u: "u = s\<lparr>iv_db := drop_nil_rows sv b (delete_hosts b (iv_db s))\<rparr>" by (cases k) (simp add: purge_batch_Inr)
  show ?case using Cons.IH [OF rest] unfolding u by (simp add: drop_nil_after)
qed

text \<open>After a run no row of the inventory has a nil insights id, and the other rows are as they were.\<close>

lemma purge_leaves_no_nil_row:
  assumes "purge_nil_hosts sv batch_size False s = (Inr r, t)"
  shows "advisor_hosts (iv_db t) = filter (\<lambda>x. \<not> nil_row sv x) (advisor_hosts (iv_db s))"
proof -
  define ids where "ids = map ir_id (filter (nil_row sv) (advisor_hosts (iv_db s)))"
  show ?thesis
  proof (cases "ids = []")
    case True
    then have "t = s" "filter (nil_row sv) (advisor_hosts (iv_db s)) = []"
      using assms by (auto simp: purge_nil_hosts_def ids_def act_defs)
    then show ?thesis by (simp add: filter_empty_conv)
  next
    case False
    then have "ids = [] \<longleftrightarrow> filter (nil_row sv) (advisor_hosts (iv_db s)) = []" by (simp add: ids_def)
    with False obtain n where "0 < nat batch_size" and run: "purge_batches sv (batched (nat batch_size) ids) (0, 0) s = (Inr n, t)"
      using assms by (auto simp: purge_nil_hosts_def ids_def [symmetric] act_defs split: if_splits prod.splits sum.splits)
    then have "t = s\<lparr>iv_db := drop_nil_rows sv ids (delete_hosts ids (iv_db s))\<rparr>"
      using purge_batches_Inr [OF run] by simp
    then show ?thesis by (auto simp: drop_nil_rows_def ids_def intro!: filter_cong)
  qed
qed

section \<open>Example\<close>

text \<open>
  A row with a nil insights id in one organisation, and the host of that id in another: the purge
  deletes the host of the other organisation with its upload, report and acknowledgement, and
  states that four hosts were deleted.
\<close>

definition nil_state :: inv_state where
  "nil_state = sample_inv_state
     \<lparr>iv_db := (iv_db sample_inv_state)
        \<lparr>advisor_hosts := [\<lparr>ir_org = ''o'', ir_id = ''h'', ir_updated = 1, ir_last_check_in = 1, ir_stale_timestamp = 2,
            ir_host = (sample_parsed ''t1'')\<lparr>ph_insights_id := JStr nil_uuid\<rparr>\<rparr>],
         hosts := [\<lparr>hr_id = ''h'', hr_org = ''other'', hr_account = JNull, hr_satellite_id = JNull, hr_branch_id = None\<rparr>]\<rparr>\<rparr>"

lemma purge_takes_other_host:
  "case purge_nil_hosts sample_inv_services 1000 False nil_state of (r, t) \<Rightarrow>
     r = Inr (Purged 1 4) \<and> hosts (iv_db t) = [] \<and> advisor_hosts (iv_db t) = [] \<and> host_acks (iv_db t) = [(2, ''k'')]"
  by code_simp

lemma stale_example:
  "case delete_stale_hosts sample_inv_services (\<lambda>_. 5) (20 * day_us) 14 1000 nil_state of (r, t) \<Rightarrow>
     r = Inr () \<and> hosts (iv_db t) = []"
  by code_simp

end
