(* ===== verification/Flags_Middleware.thy ===== *)
theory Flags_Middleware
  imports Identity_Auth
begin

text \<open>
  The feature flags (\<open>feature_flags.py\<close>): where the value of a flag comes from, the flags tests set
  for a while, and the middleware that tells the Unleash client the organisation of a request
  (\<open>middleware/feature_flags_context.py\<close>); the headers of the deprecated API
  (\<open>middleware/sat_compat_deprecated_headers.py\<close>) and the database router
  (\<open>project_settings/db_routing.py\<close>).
\<close>

section \<open>Flags set by tests\<close>

type_synonym test_flags = "(string \<times> bool) list"

record set_unleash_flag =
  uf_feature :: string
  uf_setting :: bool
  uf_prev_value :: "bool option"

definition new_flag :: "string \<Rightarrow> bool \<Rightarrow> test_flags \<Rightarrow> set_unleash_flag" where
  "new_flag feature v flags = \<lparr>uf_feature = feature, uf_setting = v, uf_prev_value = map_of flags feature\<rparr>"

definition flag_enter :: "set_unleash_flag \<Rightarrow> test_flags \<Rightarrow> test_flags" where
  "flag_enter u flags = dict_set (uf_feature u) (uf_setting u) flags"

definition flag_exit :: "set_unleash_flag \<Rightarrow> (test_flags, unit) act" where
  "flag_exit u = (\<lambda>flags. case uf_prev_value u of
     None \<Rightarrow> if dict_has flags (uf_feature u) then (Inr (), dict_del (uf_feature u) flags) else (Inl (KeyError (uf_feature u)), flags)
   | Some v \<Rightarrow> (Inr (), dict_set (uf_feature u) v flags))"

text \<open>\<open>__call__\<close>: what the function raises goes on, what it returns is lost; an error on leaving replaces it.\<close>

definition flag_call :: "set_unleash_flag \<Rightarrow> (test_flags, 'a) act \<Rightarrow> (test_flags, unit) act" where
  "flag_call u fn = (\<lambda>flags. case fn (flag_enter u flags) of (r, flags1) \<Rightarrow>
     (case flag_exit u flags1 of
        (Inl e, flags2) \<Rightarrow> (Inl e, flags2)
      | (Inr _, flags2) \<Rightarrow> (case r of Inl e \<Rightarrow> (Inl e, flags2) | Inr _ \<Rightarrow> (Inr (), flags2))))"

section \<open>The value of a flag\<close>

text \<open>The settings of Django by name, and \<open>is_enabled\<close> of the Unleash client.\<close>

record flag_env =
  fe_settings :: "string \<Rightarrow> json option"
  fe_is_enabled :: "string \<Rightarrow> json \<Rightarrow> (string \<Rightarrow> json \<Rightarrow> json) \<Rightarrow> json"
  fe_upper :: "string \<Rightarrow> string"

definition flag_setting :: "flag_env \<Rightarrow> string \<Rightarrow> json \<Rightarrow> json" where
  "flag_setting fe name v = (case fe_settings fe name of None \<Rightarrow> v | Some x \<Rightarrow> x)"

definition custom_fallback :: "flag_env \<Rightarrow> string \<Rightarrow> json \<Rightarrow> json" where
  "custom_fallback fe feature_name ctx = flag_setting fe (fe_upper fe (drop (length ''advisor.'') feature_name)) (JBool False)"

definition feature_flag_is_enabled :: "flag_env \<Rightarrow> string \<Rightarrow> json \<Rightarrow> (test_flags, json) act" where
  "feature_flag_is_enabled fe feature ctx = (\<lambda>flags.
     case (if flag_setting fe ''ENVIRONMENT'' (JStr ''prod'') = JStr ''dev'' then map_of flags feature else None) of
       Some v \<Rightarrow> (Inr (JBool v), flags)
     | None \<Rightarrow> (Inr (fe_is_enabled fe feature ctx (custom_fallback fe)), flags))"

lemma enabled_from_tests:
  "flag_setting fe ''ENVIRONMENT'' (JStr ''prod'') \<noteq> JStr ''dev'' \<Longrightarrow>
     fst (feature_flag_is_enabled fe feature ctx flags) = fst (feature_flag_is_enabled fe feature ctx [])"
  by (simp add: feature_flag_is_enabled_def)

section \<open>What a test leaves\<close>

text \<open>
  A flag set around a function that leaves the flags as it finds them leaves them as they were, when
  it is made where it is used; so does one inside another.
\<close>

definition leaves_flags :: "(test_flags, 'a) act \<Rightarrow> bool" where
  "leaves_flags fn \<longleftrightarrow> (\<forall>flags. map_of (snd (fn flags)) = map_of flags)"

lemma leaves_flags_read: "leaves_flags (feature_flag_is_enabled fe feature ctx)"
  by (simp add: leaves_flags_def feature_flag_is_enabled_def split: option.split)

lemma flag_restored: "leaves_flags fn \<Longrightarrow> leaves_flags (\<lambda>flags. flag_call (new_flag f v flags) fn flags)"
  by (auto simp: leaves_flags_def flag_call_def new_flag_def flag_enter_def flag_exit_def dict_has_def fun_eq_iff
      split: prod.split option.split sum.split)
     (metis snd_conv fun_upd_apply map_of_dict_set)+

lemma flag_seen_inside:
  assumes "flag_setting fe ''ENVIRONMENT'' (JStr ''prod'') = JStr ''dev''"
  shows "feature_flag_is_enabled fe f ctx (flag_enter (new_flag f v flags) flags) =
    (Inr (JBool v), flag_enter (new_flag f v flags) flags)"
  using assms by (simp add: feature_flag_is_enabled_def flag_enter_def new_flag_def)

text \<open>As decorators both are made before either is used: the inner one deletes the flag, the outer fails.\<close>

lemma decorators_do_not_nest:
  "flag_call (new_flag f v []) (flag_call (new_flag f w []) (a_ret ())) [] = (Inl (KeyError f), [])"
  by (simp add: flag_call_def new_flag_def flag_enter_def flag_exit_def a_ret_def dict_del_def)

text \<open>The dots of a name stay: no attribute of the settings has them.\<close>

lemma fallback_keeps_dots:
  "fe_upper fe ''a.b'' = ''A.B'' \<Longrightarrow> fe_settings fe ''A.B'' = None \<Longrightarrow>
     custom_fallback fe ''advisor.a.b'' ctx = JBool False"
  by (simp add: custom_fallback_def flag_setting_def)

section \<open>The organisation of a request\<close>

definition get_user_org_id :: "(string \<Rightarrow> json option) \<Rightarrow> (string \<times> string) list \<Rightarrow> json" where
  "get_user_org_id decode meta =
     (let header = (\<lambda>k. case map_of meta k of None \<Rightarrow> [] | Some v \<Rightarrow> v);
          identity_b64 = (if header ''HTTP_X_RH_IDENTITY'' \<noteq> [] then header ''HTTP_X_RH_IDENTITY'' else header ''X-RH-IDENTITY'')
      in if identity_b64 = [] then JNull
         else case decode identity_b64 of
           None \<Rightarrow> JNull
         | Some v \<Rightarrow>
             (case py_bind (py_get_default v ''identity'' (JObj [])) (\<lambda>i. py_get i ''org_id'') of
                Inl _ \<Rightarrow> JNull
              | Inr org \<Rightarrow> org))"

text \<open>The state is the static context of the client, which all requests share.\<close>

definition feature_flags_context ::
  "(string \<Rightarrow> json option) \<Rightarrow> ((string \<times> string) list \<Rightarrow> ((string \<times> json) list, 'r) act) \<Rightarrow>
   (string \<times> string) list \<Rightarrow> ((string \<times> json) list, 'r) act" where
  "feature_flags_context decode get_response meta =
     a_then (a_upd (dict_set ''orgId'' (get_user_org_id decode meta))) (get_response meta)"

text \<open>A request without an identity clears the organisation of the one before.\<close>

lemma context_follows_request:
  "feature_flags_context decode (\<lambda>_. a_get (\<lambda>c. map_of c ''orgId'')) meta ctx =
     (Inr (Some (get_user_org_id decode meta)), dict_set ''orgId'' (get_user_org_id decode meta) ctx)"
  by (simp add: feature_flags_context_def act_defs)

lemma no_identity_no_org: "get_user_org_id decode [] = JNull"
  by (simp add: get_user_org_id_def)

section \<open>Deprecated paths and databases\<close>

definition deprecated_headers :: "string \<Rightarrow> string \<Rightarrow> string \<Rightarrow> (string \<times> string) list \<Rightarrow> (string \<times> string) list" where
  "deprecated_headers sat_base api_prefix path headers =
     (if prefix (''/'' @ sat_base) path then
        dict_set ''X-Deprecated-Sunset-Date'' ''2021-12-31T23:59:59Z''
          (dict_set ''X-Deprecated-Successor-Path'' (''/'' @ api_prefix)
            (dict_set ''X-Deprecated-Message'' ''This API is deprecated.'' headers))
      else headers)"

definition db_for_read :: "string option \<Rightarrow> string" where
  "db_for_read readonly_host =
     (case readonly_host of None \<Rightarrow> ''default'' | Some h \<Rightarrow> if h = [] then ''default'' else ''readonly'')"

definition db_for_write :: string where
  "db_for_write = ''default''"

definition allow_relation :: "string option \<Rightarrow> string option \<Rightarrow> bool option" where
  "allow_relation db1 db2 =
     (let dbs = {Some ''default'', Some ''readonly''} in if db1 \<in> dbs \<and> db2 \<in> dbs then Some True else None)"

text \<open>Objects read and written through the router can be related.\<close>

lemma routed_relation: "allow_relation (Some (db_for_read h)) (Some db_for_write) = Some True"
  by (simp add: allow_relation_def db_for_read_def db_for_write_def Let_def split: option.split)

end
