(* ===== verification/Spec2Isabelle.thy ===== *)
theory Spec2Isabelle
  imports Permission_Classes Kessel Identity_Auth Http_Retry Kafka_Delivery Inventory_Safety
    Engine_Events_Safety Worker_Pool Tasks_Wellformed Content_Safety Hostack_Safety Pathway_Safety
    List_Safety Weekly_Safety Sat_View_Safety Paging_Safety Export_Safety Tasks_List_Safety
    Content_Compile_Safety Host_Cleanup Flags_Middleware
begin

text \<open>
  A verification library of the Red Hat Insights Advisor backend (the directories \<open>api/\<close> and
  \<open>service/\<close> of the repository; paths below are under \<open>src/api/advisor/\<close> unless they begin
  with \<open>service/\<close>).

  \<^bold>\<open>The program.\<close>  Hosts upload archives; a rules engine outside the repository evaluates
  them and puts its results on Kafka.  The engine-results service (\<open>service/\<close>) reads them and
  writes uploads and reports.  A second consumer keeps a copy of the host inventory
  (\<open>advisor_inventory_service.py\<close>).  The Django API serves what is stored to callers whose
  identity header is authenticated and whose access RBAC or Kessel decide.  The Tasks application
  runs playbooks on hosts through the Playbook Dispatcher, follows the runs by Kafka messages and
  times jobs out.  A command imports the rule content that all of this refers to.

  \<^bold>\<open>The theories and what they model.\<close>

  \<^item> \<open>Adv_Prelude\<close> and \<open>Py_Values\<close>: what all theories share.  An exception of Python is a
    value of \<open>exn\<close>; a call that may raise returns a sum (\<open>py\<close>); a method with side effects is a
    function from a state to a result and the state after it (\<open>act\<close>, with \<open>a_bind\<close>, \<open>a_raise\<close>,
    \<open>a_try\<close>).  A value that comes from JSON is a \<open>json\<close>; \<open>py_item\<close>, \<open>py_get\<close>,
    \<open>py_in\<close> and the rest raise what Python raises on a value of the wrong type.

  \<^item> \<open>Rbac_Permissions\<close>, \<open>Kessel\<close>, \<open>Http_Retry\<close>, \<open>Identity_Auth\<close>, \<open>Access_Control\<close>,
    \<open>Permission_Classes\<close> (\<open>api/permissions.py\<close>, \<open>api/kessel.py\<close> and \<open>retry_request\<close> of
    \<open>api/utils.py\<close>): the identity header is decoded and checked (\<open>rh_authenticate\<close>,
    \<open>turnpike_authenticate\<close>, \<open>psk_authenticate\<close>); \<open>insights_has_permission\<close> asks RBAC
    (\<open>has_rbac_permission\<close>, through \<open>retry_request\<close>) or Kessel (\<open>has_kessel_permission\<close>,
    through the paging loop \<open>get_resources\<close>) and leaves the host groups on the request
    (\<open>find_host_groups\<close>).  \<open>Access_Safety\<close> shows when a view is granted, that writing includes
    reading, and which host groups restrict the request.  The locale \<open>grant_order\<close> (a relation of
    permissions that is a partial order) is interpreted on \<open>perm_contains\<close>, \<open>paged_listing\<close> on
    the two listings of \<open>TestClient\<close>, \<open>view_restricted\<close> on the two permission classes with
    \<open>allowed_views\<close>.

  \<^item> \<open>Kafka_Dispatch\<close> (\<open>kafka_utils.py\<close>): the dispatcher with both receive loops, the dummy
    consumer and producer.  \<open>Kafka_Delivery\<close> states what a consumer promises as the locale
    \<open>queue_consumer\<close>, proves delivery in order and at least once inside it, and interprets it on
    the dummy consumer.  \<open>until_quit\<close>, the loop \<open>while not self.quit\<close>, is a partial function: a
    loop that never ends has no value.

  \<^item> \<open>Inventory_Consumer\<close> and \<open>Inventory_Safety\<close> (\<open>advisor_inventory_service.py\<close>): parsing
    (\<open>parse_batch\<close>), deletion with everything that refers to a host (\<open>bulk_delete_hosts\<close>), the
    filter of stale events and the upsert of the rest.  That no newer row is overwritten is shown for
    ids in the database's own spelling; an example shows what an id in upper case does.

  \<^item> \<open>Engine_Reports\<close> and \<open>Engine_Safety\<close> (\<open>create_db_reports\<close> of \<open>service/service.py\<close> with
    \<open>service/reports.py\<close>, \<open>payload_tracker.py\<close>, \<open>inventory_view.py\<close>, \<open>thread_storage.py\<close>),
    \<open>Engine_Events\<close> and \<open>Engine_Events_Safety\<close> (the handlers and the poll loop),
    \<open>Worker_Pool\<close> (\<open>service/bounded_executor.py\<close> as a step relation; the queue and the threads
    are those of the standard library's \<open>ThreadPoolExecutor\<close>, so \<open>worker_step\<close> maps to the done
    callback only).  The store is refined to an abstract map from hosts to the rules that impact
    them; the database raises where its unique keys would be violated, and that each report stays at
    an upload of its own host and organisation, which no statement checks, is proved of every
    sequence of jobs.

  \<^item> \<open>Tasks_Service\<close> and \<open>Tasks_Views\<close> (\<open>tasks/\<close>): the rows, the three Kafka handlers, the two
    commands, and the requests that execute, cancel and delete a task.  \<open>Tasks_Safety\<close> and
    \<open>Tasks_Timeouts\<close> show that the state of an executed task follows its jobs and what becomes of
    stale jobs; \<open>Tasks_Wellformed\<close> that every operation keeps the tables well formed, by rules of
    the form \<open>keeps inv act\<close> for each operation.  \<open>Tasks_Lists\<close> holds the lists of tasks, systems,
    jobs, executed tasks and log lines, \<open>Tasks_Content\<close> the playbook sent to systems and the views
    that write tasks; \<open>Tasks_Content_Safety\<close> shows that these keep the tables of tasks well formed
    and what an update of parameters does to past executions, \<open>Tasks_List_Safety\<close> what a playbook
    holds, what the filter on operating systems finds, and which jobs are listed twice.

  \<^item> \<open>Content_Import\<close> and \<open>Content_Rules\<close> (\<open>api/management/commands/import_content.py\<close>): the
    insert-or-update of a table from a configuration, the loaders and the command.
    \<open>Content_Sync\<close> holds the locale \<open>synced_model\<close> (a model whose key and transformer fit
    together) with the specification \<open>after_update\<close> of an update; \<open>Content_Safety\<close> interprets it
    on the models of the import.  \<open>Content_Compile\<close> (\<open>api/scripts/compile_advisor_content.py\<close>)
    makes the files the import reads from a content repository, a \<open>repo_env\<close>;
    \<open>Content_Compile_Safety\<close> shows what the row of a rule holds.

  \<^item> \<open>Host_Cleanup\<close> (\<open>api/management/commands/\<close>): the commands that delete hosts which left the
    inventory or have a nil insights id, over the tables of \<open>Inventory_Consumer\<close>, and what a run
    leaves.  \<open>Flags_Middleware\<close> (\<open>feature_flags.py\<close>, \<open>middleware/\<close>,
    \<open>project_settings/db_routing.py\<close>): feature flags and the context they are asked in, headers of
    the deprecated API, and the database router.

  \<^item> \<open>Query_Params\<close> and \<open>Query_Filters\<close> (\<open>api/filters.py\<close>, the filters of
    \<open>api/views/rules.py\<close>, the host groups and certificates of \<open>api/models.py\<close>): a declared
    parameter is a \<open>param\<close>, its value in a query is \<open>value_of_param\<close>, and every
    \<open>filter_on_...\<close> gives a term of type \<open>q\<close> for Django's \<open>Q\<close>, with \<open>q_holds\<close> for what it
    means on a row; \<open>filter_multi_param\<close> reads structured filters.  \<open>Query_Safety\<close> shows what
    values a parameter can have, what comparisons do, and that tags are read as they are written.

  \<^item> \<open>Report_Query\<close> and \<open>Account_Views\<close> (\<open>api/models.py\<close>): the tables \<open>api_db\<close> the API reads,
    the query over reports (\<open>get_reports_subquery\<close>), and the hosts, systems, rules and pathways of
    an account.  \<open>Ack_Views\<close> (\<open>api/views/acks.py\<close>, \<open>hostacks.py\<close>, \<open>disabled_rules.py\<close>,
    \<open>rule_ratings.py\<close>, and \<open>ack_hosts\<close> and \<open>unack_hosts\<close> of \<open>rules.py\<close>): the requests that
    write acknowledgements and ratings.  \<open>Ack_Safety\<close> shows what a caller can see, by the options of
    the query (a view may turn the exclusion of ineligible hosts or rules off), that both
    forms of the query agree, and that an acknowledgement hides a rule and its deletion restores it;
    \<open>Hostack_Safety\<close> that the tables stay well formed, and when \<open>ack_hosts\<close> stops half way;
    \<open>Pathway_Safety\<close> that the figures of pathways are those of the reports, and when they are not.

  \<^item> \<open>List_Views\<close> (\<open>api/views/rules.py\<close>, \<open>systems.py\<close>, \<open>pathways.py\<close>, \<open>rule_topics.py\<close>,
    \<open>rule_categories.py\<close>, \<open>stats.py\<close>): the lists with their filters, orders and joins, and the
    statistics.  \<open>List_Safety\<close> shows what the list of systems holds and in which order, that
    statistics add up, and which lists repeat or lose rows.

  \<^item> \<open>Weekly_Reports\<close> (\<open>api/wrs_utils.py\<close>, the views of subscriptions, preferences and excluded
    accounts, \<open>api/management/commands/weekly_report_emails.py\<close>): subscribing, and the command
    that mails the reports.  Each POST to the mail service is logged (\<open>ms_log\<close>) as \<open>send_email\<close>
    makes it.  \<open>Weekly_Safety\<close> shows that no POST follows an accepted one within the minimum number
    of hours while times are saved, whom the command deletes, and what stops it.

  \<^item> \<open>Sat_Plans\<close> (\<open>sat_compat/views/maintenance.py\<close> with its models and forms): maintenance plans
    and their actions, and what Remediations is asked for a playbook.  \<open>Sat_Safety\<close> shows that the
    tables stay well formed, what an update changes, and how a host of another organisation gets
    into a plan.  \<open>Sat_Views\<close> (the other views of \<open>sat_compat/views/\<close>): the Satellite renderings of
    acknowledgements, systems, rules, topics, statistics and reports, over the tables of the Advisor
    API.  \<open>Sat_View_Safety\<close> shows what the filter on Ansible finds and that an unregistered system
    is gone.

  \<^item> \<open>Paging\<close> (pagination in \<open>api/utils.py\<close> and \<open>sat_compat/utils.py\<close>) and
    \<open>Paging_Safety\<close>: the links of a page, rewritten to the path of the caller, lead through a list
    and then stay on its last rows.  \<open>Export_Views\<close> (\<open>api/views/export.py\<close>) and
    \<open>Export_Safety\<close>: which reports an export sends, and what is sent when a row raises after the
    answer has begun.

  \<^bold>\<open>How the model relates to the code.\<close>  Tables are lists of rows in the order of their keys; a
  transaction that raises restores the tables it had.  Services outside the repository (RBAC,
  Kessel, the Playbook Dispatcher, Sources, Kafka, the file system) and conversions of the
  libraries (\<open>json.loads\<close>, dates, UUIDs) are arguments of the definitions, gathered in records
  such as \<open>services\<close>, \<open>eng_services\<close>, \<open>inv_services\<close>, \<open>tasks_env\<close>, \<open>import_env\<close>,
  \<open>query_env\<close>, \<open>api_env\<close>, \<open>list_env\<close>, \<open>mail_env\<close>, \<open>sat_env\<close>, \<open>sat_lists\<close>, \<open>drf\<close>,
  \<open>export_env\<close>, \<open>rendering\<close>, \<open>tasks_lists\<close>, \<open>playbook_env\<close> and \<open>repo_env\<close>; a
  database statement that may fail is asked of such a record, by name and attempt, and nothing is
  assumed of when it fails.  What a property needs of a parameter is a premise of it, and its
  witness gives a concrete function.  Python's integers are unbounded, and so are they here; no
  operation of the modelled code is on machine words.

  \<^bold>\<open>Bounds and loops.\<close>  No definition needs fuel.  Loops over lists are structural; the retry loops
  count the attempts left (\<open>max_retries\<close>, \<open>DB_RETRY_CONSTANT\<close>); \<open>get_resources\<close> and
  \<open>until_quit\<close> may run for ever and are partial functions, and that they return, or never do, is
  proved (\<open>Kessel.get_resources_lists_chain\<close>, \<open>get_resources_no_progress\<close>, the receive
  theorems of \<open>Kafka_Delivery\<close>).  The thread pool is a relation; that a waiting submission is
  released is proved by a measure on the jobs left (\<open>Worker_Pool.pool_drains\<close>).

  \<^bold>\<open>Not modelled.\<close>  Log lines, metrics and times kept for metrics.  Settings, logging configuration,
  URL tables, WSGI, migrations and fixtures, which hold no logic of their own.  How the REST
  framework renders what a view returns and cuts a page, and its parsing of request bodies
  (\<open>api/serializers.py\<close> but for the checks it states itself).  What a lookup means on a column that
  is only displayed: it is an argument (\<open>lookups\<close>).  Those views of the Satellite API
  that give fixed answers.  Shell and manual-test scripts, the mock of
  RBAC and the benchmark, which are tools for developers.  The rewriting of links in the HTML pages
  of the Tasks API, which is a list of regular expressions.  The older script
  \<open>api/scripts/import_content.py\<close>, which the command of \<open>Content_Import\<close> replaces.
\<close>

end
